(* ===== verification/Prelude.thy ===== *)
theory Prelude
  imports Main
begin

text \<open>
  Shared vocabulary of the development: the result type of fallible operations with its
  sequencing combinator, the two statement forms of the durable store (an update of the rows
  that match a predicate, with the number of rows it changed, and a select of the first match),
  decimal printing of integers, and the generic list lemmas the component theories use.

  A string is the list of the bytes of its UTF-8 encoding. All characters the code tests for
  are ASCII, whose bytes never occur inside the encoding of another character, so a test or a
  replacement per character is the same test or replacement per byte.
\<close>

named_theorems result_simps "elimination of the sequencing of fallible steps"
named_theorems table_simps "reading a table after a row update"

section \<open>Results\<close>

text \<open>The \<open>?\<close> operator: continue with the value, or return the error.\<close>

definition rbind :: "'e + 'a \<Rightarrow> ('a \<Rightarrow> 'e + 'b) \<Rightarrow> 'e + 'b" where
  "rbind m f = (case m of Inl e \<Rightarrow> Inl e | Inr x \<Rightarrow> f x)"

lemma rbind_Inl [simp]: "rbind (Inl e) f = Inl e"
  and rbind_Inr [simp]: "rbind (Inr x) f = f x"
  by (simp_all add: rbind_def)

lemma rbind_eq_Inr [result_simps]: "rbind m f = Inr y \<longleftrightarrow> (\<exists>x. m = Inr x \<and> f x = Inr y)"
  by (cases m) simp_all

lemma rbind_eq_Inl [result_simps]:
  "rbind m f = Inl e \<longleftrightarrow> m = Inl e \<or> (\<exists>x. m = Inr x \<and> f x = Inl e)"
  by (cases m) simp_all

definition ok_or :: "'e \<Rightarrow> 'a option \<Rightarrow> 'e + 'a" where
  "ok_or e v = (case v of None \<Rightarrow> Inl e | Some x \<Rightarrow> Inr x)"

lemma ok_or_simps [simp]: "ok_or e None = Inl e" "ok_or e (Some x) = Inr x"
  by (simp_all add: ok_or_def)

lemma ok_or_eq_Inr [result_simps]: "ok_or e v = Inr x \<longleftrightarrow> v = Some x"
  by (cases v) simp_all

lemma ok_or_eq_Inl [result_simps]: "ok_or e v = Inl e' \<longleftrightarrow> v = None \<and> e' = e"
  by (cases v) auto

definition ensure :: "bool \<Rightarrow> 'e \<Rightarrow> 'e + unit" where
  "ensure c e = (if c then Inr () else Inl e)"

lemma ensure_simps [simp]: "ensure True e = Inr ()" "ensure False e = Inl e"
  by (simp_all add: ensure_def)

lemma ensure_eq_Inr [result_simps]: "ensure c e = Inr x \<longleftrightarrow> c"
  by (cases c) simp_all

lemma ensure_eq_Inl [result_simps]: "ensure c e = Inl e' \<longleftrightarrow> \<not> c \<and> e' = e"
  by (cases c) auto

text \<open>Collecting the results of a row reader over the selected rows: the first failure wins.\<close>

fun rmap :: "('a \<Rightarrow> 'e + 'b) \<Rightarrow> 'a list \<Rightarrow> 'e + 'b list" where
  "rmap f [] = Inr []"
| "rmap f (x # xs) = rbind (f x) (\<lambda>y. rbind (rmap f xs) (\<lambda>ys. Inr (y # ys)))"

lemma rmap_eq_Inr [result_simps]: "rmap f xs = Inr ys \<longleftrightarrow> list_all2 (\<lambda>x y. f x = Inr y) xs ys"
  by (induction xs arbitrary: ys) (auto simp: rbind_eq_Inr list_all2_Cons1)

lemma rmap_total: "(\<And>x. x \<in> set xs \<Longrightarrow> f x = Inr (g x)) \<Longrightarrow> rmap f xs = Inr (map g xs)"
  by (induction xs) simp_all

section \<open>Tables\<close>

text \<open>
  A table is the list of its rows in insertion order. \<open>update_rows\<close> is
  \<open>UPDATE t SET f WHERE p\<close>; \<open>count_rows\<close> is the number of rows that statement reports
  (and \<open>SELECT COUNT\<close>); \<open>exists_row\<close> is \<open>SELECT EXISTS\<close>.
\<close>

definition update_rows :: "('r \<Rightarrow> bool) \<Rightarrow> ('r \<Rightarrow> 'r) \<Rightarrow> 'r list \<Rightarrow> 'r list" where
  "update_rows p f rs = map (\<lambda>r. if p r then f r else r) rs"

definition count_rows :: "('r \<Rightarrow> bool) \<Rightarrow> 'r list \<Rightarrow> nat" where
  "count_rows p rs = length (filter p rs)"

definition exists_row :: "('r \<Rightarrow> bool) \<Rightarrow> 'r list \<Rightarrow> bool" where
  "exists_row p rs = list_ex p rs"

definition find_row :: "('r \<Rightarrow> bool) \<Rightarrow> 'r list \<Rightarrow> 'r option" where
  "find_row p rs = List.find p rs"

lemma exists_row_iff [table_simps]: "exists_row p rs \<longleftrightarrow> (\<exists>r \<in> set rs. p r)"
  by (simp add: exists_row_def list_ex_iff)

lemma exists_row_append [simp]: "exists_row p (rs @ ss) \<longleftrightarrow> exists_row p rs \<or> exists_row p ss"
  by (simp add: exists_row_def)

lemma set_update_rows [table_simps]:
  "set (update_rows p f rs) = (\<lambda>r. if p r then f r else r) ` set rs"
  by (simp add: update_rows_def)

lemma length_update_rows [simp]: "length (update_rows p f rs) = length rs"
  by (simp add: update_rows_def)

lemma update_rows_Nil [simp]: "update_rows p f [] = []"
  by (simp add: update_rows_def)

lemma update_rows_append [simp]:
  "update_rows p f (rs @ ss) = update_rows p f rs @ update_rows p f ss"
  by (simp add: update_rows_def)

lemma update_rows_none: "(\<And>r. r \<in> set rs \<Longrightarrow> \<not> p r) \<Longrightarrow> update_rows p f rs = rs"
  by (simp add: update_rows_def map_idI)

lemma map_update_rows_key:
  "(\<And>r. p r \<Longrightarrow> k (f r) = k r) \<Longrightarrow> map k (update_rows p f rs) = map k rs"
  by (simp add: update_rows_def)

lemma count_rows_pos: "0 < count_rows p rs \<longleftrightarrow> (\<exists>r \<in> set rs. p r)"
  by (auto simp: count_rows_def length_greater_0_conv filter_empty_conv)

lemma count_rows_zero: "count_rows p rs = 0 \<longleftrightarrow> (\<forall>r \<in> set rs. \<not> p r)"
  by (simp add: count_rows_def filter_empty_conv)

lemma count_rows_one_ex: "count_rows p rs = Suc 0 \<Longrightarrow> \<exists>r \<in> set rs. p r"
  using count_rows_pos [of p rs] by simp

lemma find_row_Some: "find_row p rs = Some r \<Longrightarrow> r \<in> set rs \<and> p r"
  by (auto simp: find_row_def find_Some_iff)

lemma find_row_None [table_simps]: "find_row p rs = None \<longleftrightarrow> (\<forall>r \<in> set rs. \<not> p r)"
  by (auto simp: find_row_def find_None_iff)

lemma find_row_append:
  "find_row p (rs @ ss) = (case find_row p rs of None \<Rightarrow> find_row p ss | Some r \<Rightarrow> Some r)"
  by (induction rs) (auto simp: find_row_def)

lemma find_row_Cons [simp]:
  "find_row p [] = None" "find_row p (r # rs) = (if p r then Some r else find_row p rs)"
  by (simp_all add: find_row_def)

text \<open>An update that keeps which rows are wanted changes the found row in place.\<close>

lemma find_row_update:
  "(\<And>r. p (if q r then f r else r) = p r)
   \<Longrightarrow> find_row p (update_rows q f rs) = map_option (\<lambda>r. if q r then f r else r) (find_row p rs)"
proof (induction rs)
  case (Cons r rs)
  then show ?case using Cons.prems [of r] by (simp add: update_rows_def)
qed simp

text \<open>A key that is unique in a table determines its row.\<close>

lemma distinct_key_eq:
  "distinct (map k rs) \<Longrightarrow> r \<in> set rs \<Longrightarrow> s \<in> set rs \<Longrightarrow> k r = k s \<Longrightarrow> r = s"
  by (induction rs) (auto simp: image_iff)

lemma find_row_unique:
  assumes "distinct (map k rs)" and "r \<in> set rs" and "p r"
    and "\<And>s. s \<in> set rs \<Longrightarrow> p s \<Longrightarrow> k s = k r"
  shows "find_row p rs = Some r"
proof (cases "find_row p rs")
  case None
  with assms(2,3) show ?thesis by (simp add: find_row_None)
next
  case (Some s)
  then have "s \<in> set rs" "p s" by (auto dest: find_row_Some)
  with assms have "s = r" by (metis distinct_key_eq)
  with Some show ?thesis by simp
qed

section \<open>Machine integers\<close>

text \<open>The range of \<open>i64\<close>, in which the store keeps every clock value and interval.\<close>

definition i64_min :: int where "i64_min = - (2 ^ 63)"
definition i64_max :: int where "i64_max = 2 ^ 63 - 1"

definition checked_add_i64 :: "int \<Rightarrow> int \<Rightarrow> int option" where
  "checked_add_i64 a b = (if i64_min \<le> a + b \<and> a + b \<le> i64_max then Some (a + b) else None)"

definition saturate_i64 :: "int \<Rightarrow> int" where
  "saturate_i64 v = max i64_min (min i64_max v)"

definition saturating_add_i64 :: "int \<Rightarrow> int \<Rightarrow> int" where
  "saturating_add_i64 a b = saturate_i64 (a + b)"

definition saturating_sub_i64 :: "int \<Rightarrow> int \<Rightarrow> int" where
  "saturating_sub_i64 a b = saturate_i64 (a - b)"

lemma saturate_i64_range: "i64_min \<le> saturate_i64 v \<and> saturate_i64 v \<le> i64_max"
  by (simp add: saturate_i64_def i64_min_def i64_max_def)

lemma checked_add_i64_Some: "checked_add_i64 a b = Some c \<Longrightarrow> c = a + b"
  by (auto simp: checked_add_i64_def split: if_splits)

section \<open>Decimal text\<close>

definition byte_of :: "char \<Rightarrow> nat" where
  "byte_of c = of_char c"

definition digit_char :: "nat \<Rightarrow> char" where
  "digit_char d = char_of (48 + d)"

definition is_ascii_digit :: "char \<Rightarrow> bool" where
  "is_ascii_digit c \<longleftrightarrow> 48 \<le> byte_of c \<and> byte_of c \<le> 57"

definition digit_value :: "char \<Rightarrow> nat" where
  "digit_value c = byte_of c - 48"

fun show_nat :: "nat \<Rightarrow> string" where
  "show_nat n = (if n < 10 then [digit_char n] else show_nat (n div 10) @ [digit_char (n mod 10)])"

declare show_nat.simps [simp del]

definition show_int :: "int \<Rightarrow> string" where
  "show_int i = (if i < 0 then ''-'' @ show_nat (nat (- i)) else show_nat (nat i))"

definition decimal_value :: "string \<Rightarrow> nat" where
  "decimal_value s = foldl (\<lambda>a c. a * 10 + digit_value c) 0 s"

lemma byte_of_digit_char [simp]: "d < 10 \<Longrightarrow> byte_of (digit_char d) = 48 + d"
  by (simp add: byte_of_def digit_char_def)

lemma byte_of_inject: "byte_of c = byte_of d \<longleftrightarrow> c = d"
  by (simp add: byte_of_def)

lemma is_ascii_digit_digit_char [simp]: "d < 10 \<Longrightarrow> is_ascii_digit (digit_char d)"
  by (simp add: is_ascii_digit_def)

lemma digit_value_digit_char [simp]: "d < 10 \<Longrightarrow> digit_value (digit_char d) = d"
  by (simp add: digit_value_def)

lemma digit_char_digit_value: "is_ascii_digit c \<Longrightarrow> digit_char (digit_value c) = c"
  by (auto simp: is_ascii_digit_def digit_value_def digit_char_def byte_of_def)

lemma digit_value_less: "is_ascii_digit c \<Longrightarrow> digit_value c < 10"
  by (auto simp: is_ascii_digit_def digit_value_def)

lemma decimal_value_snoc: "decimal_value (s @ [c]) = decimal_value s * 10 + digit_value c"
  by (simp add: decimal_value_def)

lemma show_nat_nonempty [simp]: "show_nat n \<noteq> []"
  by (subst show_nat.simps) simp

lemma show_nat_digits: "\<forall>c \<in> set (show_nat n). is_ascii_digit c"
proof (induction n rule: show_nat.induct)
  case (1 n)
  then show ?case by (cases "n < 10") (auto simp: show_nat.simps [of n])
qed

lemma decimal_value_show_nat [simp]: "decimal_value (show_nat n) = n"
proof (induction n rule: show_nat.induct)
  case (1 n)
  show ?case
  proof (cases "n < 10")
    case True
    then show ?thesis by (simp add: show_nat.simps [of n] decimal_value_def)
  next
    case False
    with 1 show ?thesis by (simp add: show_nat.simps [of n] decimal_value_snoc)
  qed
qed

lemma show_nat_inject [simp]: "show_nat m = show_nat n \<longleftrightarrow> m = n"
  by (metis decimal_value_show_nat)

lemma hd_show_nat: "0 < n \<Longrightarrow> hd (show_nat n) \<noteq> CHR ''0''"
proof (induction n rule: show_nat.induct)
  case (1 n)
  show ?case
  proof (cases "n < 10")
    case True
    have "byte_of (CHR ''0'') = 48" by (simp add: byte_of_def)
    with True 1 have "byte_of (digit_char n) \<noteq> byte_of (CHR ''0'')" by simp
    then show ?thesis using True by (metis list.sel(1) show_nat.simps)
  next
    case False
    with 1 have "hd (show_nat (n div 10)) \<noteq> CHR ''0''" by simp
    with False show ?thesis by (simp add: show_nat.simps [of n] hd_append)
  qed
qed

text \<open>A digit string without a superfluous leading zero is the printing of its value.\<close>

lemma decimal_value_pos:
  "s \<noteq> [] \<Longrightarrow> \<forall>c \<in> set s. is_ascii_digit c \<Longrightarrow> hd s \<noteq> CHR ''0'' \<Longrightarrow> 0 < decimal_value s"
proof (induction s rule: rev_induct)
  case Nil
  then show ?case by simp
next
  case (snoc c s)
  show ?case
  proof (cases "s = []")
    case True
    from snoc.prems True have "c \<noteq> CHR ''0''" "is_ascii_digit c" by simp_all
    moreover have "byte_of (CHR ''0'') = 48" by (simp add: byte_of_def)
    ultimately have "0 < digit_value c"
      unfolding is_ascii_digit_def digit_value_def
      by (metis byte_of_inject le_neq_implies_less zero_less_diff)
    with True show ?thesis by (simp add: decimal_value_def)
  next
    case False
    with snoc have "0 < decimal_value s" by (simp add: hd_append)
    then show ?thesis by (simp add: decimal_value_snoc)
  qed
qed

lemma show_nat_decimal_value:
  "s \<noteq> [] \<Longrightarrow> \<forall>c \<in> set s. is_ascii_digit c \<Longrightarrow> \<not> (1 < length s \<and> hd s = CHR ''0'')
   \<Longrightarrow> show_nat (decimal_value s) = s"
proof (induction s rule: rev_induct)
  case Nil
  then show ?case by simp
next
  case (snoc c s)
  then have c: "is_ascii_digit c" "digit_value c < 10"
    by (auto intro: digit_value_less)
  show ?case
  proof (cases "s = []")
    case True
    with c show ?thesis
      by (simp add: decimal_value_def show_nat.simps [of "digit_value c"] digit_char_digit_value)
  next
    case False
    with snoc.prems have hd: "hd s \<noteq> CHR ''0''" by (auto simp: hd_append Suc_lessI)
    from False snoc.prems hd have "0 < decimal_value s" by (intro decimal_value_pos) auto
    moreover from False snoc hd have "show_nat (decimal_value s) = s" by auto
    ultimately show ?thesis using c
      by (simp add: decimal_value_snoc show_nat.simps [of "decimal_value s * 10 + digit_value c"]
          digit_char_digit_value)
  qed
qed

section \<open>White space\<close>

text \<open>
  \<open>str::trim\<close>: the Unicode white space characters, recognised in their UTF-8 encodings of one,
  two and three bytes, are removed from the front and then from the back.
\<close>

definition space1 :: "char \<Rightarrow> bool" where
  "space1 a \<longleftrightarrow> 9 \<le> byte_of a \<and> byte_of a \<le> 13 \<or> byte_of a = 32"

definition space2 :: "char \<Rightarrow> char \<Rightarrow> bool" where
  "space2 a b \<longleftrightarrow> byte_of a = 0xC2 \<and> (byte_of b = 0x85 \<or> byte_of b = 0xA0)"

definition space3 :: "char \<Rightarrow> char \<Rightarrow> char \<Rightarrow> bool" where
  "space3 x y z \<longleftrightarrow> (let a = byte_of x; b = byte_of y; c = byte_of z in
     a = 0xE1 \<and> b = 0x9A \<and> c = 0x80
     \<or> a = 0xE2 \<and> b = 0x80 \<and> (0x80 \<le> c \<and> c \<le> 0x8A \<or> c = 0xA8 \<or> c = 0xA9 \<or> c = 0xAF)
     \<or> a = 0xE2 \<and> b = 0x81 \<and> c = 0x9F
     \<or> a = 0xE3 \<and> b = 0x80 \<and> c = 0x80)"

fun trim_front :: "string \<Rightarrow> string" where
  "trim_front [] = []"
| "trim_front [a] = (if space1 a then [] else [a])"
| "trim_front [a, b] = (if space1 a then trim_front [b] else if space2 a b then [] else [a, b])"
| "trim_front (a # b # c # s) =
     (if space1 a then trim_front (b # c # s) else if space2 a b then trim_front (c # s)
      else if space3 a b c then trim_front s else a # b # c # s)"

text \<open>The same on the reversed text, where the bytes of a character come last to first.\<close>

fun trim_back :: "string \<Rightarrow> string" where
  "trim_back [] = []"
| "trim_back [a] = (if space1 a then [] else [a])"
| "trim_back [a, b] = (if space1 a then trim_back [b] else if space2 b a then [] else [a, b])"
| "trim_back (a # b # c # s) =
     (if space1 a then trim_back (b # c # s) else if space2 b a then trim_back (c # s)
      else if space3 c b a then trim_back s else a # b # c # s)"

definition trim :: "string \<Rightarrow> string" where
  "trim s = rev (trim_back (rev (trim_front s)))"

definition blank :: "string \<Rightarrow> bool" where
  "blank s \<longleftrightarrow> trim s = []"

end
