(* ===== verification/Domain.thy ===== *)
theory Domain
  imports Prelude
begin

text \<open>
  The strong domain types of \<open>src/src/domain.rs\<close>: durable ids with their two parsers,
  the enums of every durable state, the intents stored with an operation, and the shared
  duration printer. Also the requested-attribution record of \<open>src/src/attribution.rs\<close>.

  The seven id types that the macro \<open>id_type\<close> generates share one implementation over
  \<open>NonZeroU64\<close>; they are synonyms of \<open>nat\<close> here, and \<open>valid_id\<close> is the range of the type.
\<close>

section \<open>Durable ids\<close>

type_synonym durable_id = nat
type_synonym logical_agent_id = durable_id
type_synonym incarnation_id = durable_id
type_synonym operation_id = durable_id
type_synonym message_id = durable_id
type_synonym operator_notice_id = durable_id
type_synonym renew_id = durable_id
type_synonym schedule_id = durable_id

definition u64_max :: nat where "u64_max = 2 ^ 64 - 1"

definition valid_id :: "durable_id \<Rightarrow> bool" where
  "valid_id n \<longleftrightarrow> 0 < n \<and> n \<le> u64_max"

text \<open>\<open>NonZeroU64::new\<close>, then the newtype.\<close>

definition nonzero :: "nat \<Rightarrow> durable_id option" where
  "nonzero n = (if n = 0 then None else Some n)"

text \<open>\<open>from_rowid\<close> takes an \<open>i64\<close>: \<open>u64::try_from\<close> fails on a negative one.\<close>

definition id_from_rowid :: "int \<Rightarrow> durable_id option" where
  "id_from_rowid rowid = (if rowid < 0 then None else nonzero (nat rowid))"

definition parse_u64 :: "string \<Rightarrow> nat option" where
  "parse_u64 s = (if s \<noteq> [] \<and> list_all is_ascii_digit s \<and> decimal_value s \<le> u64_max
     then Some (decimal_value s) else None)"

definition id_parse :: "string \<Rightarrow> durable_id option" where
  "id_parse value =
     (if value = [] \<or> (1 < length value \<and> hd value = CHR ''0'')
         \<or> \<not> list_all is_ascii_digit value
      then None
      else Option.bind (parse_u64 value) nonzero)"

definition id_try_from :: "nat \<Rightarrow> string + durable_id" where
  "id_try_from value = ok_or ''durable ids must be positive integers'' (nonzero value)"

definition id_display :: "durable_id \<Rightarrow> string" where
  "id_display n = show_nat n"

definition operation_id_reserved :: operation_id where
  "operation_id_reserved = u64_max"

section \<open>Enums of durable state\<close>

datatype schedule_firing_outcome = Materialized | FiringTargetUnavailable | FiringSkipped

datatype parent = Parentless | ParentAgent logical_agent_id

datatype incarnation_state =
  IDeclared | IStarting | IReady | IFailed | IUnknown | IRetiring | IRetired | ILost | ISuperseded

datatype operation_outcome =
  OpPending | OpAccepted | OpSucceeded | OpFailed | OpSuperseded | OpUnknown

datatype message_kind = Tell | Ask | Reply | Cancellation

datatype initial_message_kind = InitialTell | InitialAsk

datatype reply_delivery = Inject | Pull

definition reply_delivery_as_str :: "reply_delivery \<Rightarrow> string" where
  "reply_delivery_as_str v = (case v of Inject \<Rightarrow> ''inject'' | Pull \<Rightarrow> ''pull'')"

definition is_inject_reply_delivery :: "reply_delivery \<Rightarrow> bool" where
  "is_inject_reply_delivery v \<longleftrightarrow> v = Inject"

record initial_message_intent =
  im_sender :: "logical_agent_id option"
  im_kind :: initial_message_kind
  im_body :: string
  im_reply_delivery :: reply_delivery

datatype reply_disposition = Progress | Final

datatype obligation_state = ObOpen | ObInProgress | ObResolved | ObCancelled | ObOrphaned

datatype delivery_transport = HerdrPrompt | SocketInbox | AskPull

definition delivery_transport_as_str :: "delivery_transport \<Rightarrow> string" where
  "delivery_transport_as_str v = (case v of
     HerdrPrompt \<Rightarrow> ''herdr_prompt'' | SocketInbox \<Rightarrow> ''socket_inbox'' | AskPull \<Rightarrow> ''ask_pull'')"

datatype delivery_outcome =
  DPending | DSubmitted | DAccepted | DQueued | DUnknown | DRejected | DTargetUnavailable
| DSuperseded

datatype renew_phase =
  RScheduled | RPreparing | RReady | RClearing | RInjected | RDone | RTimedOut | RAborted
| RTerminated

datatype renew_timeout = TimeoutAbort | TimeoutProceed

datatype renew_step = StepClear | StepInject

section \<open>Intents\<close>

record renew_intent =
  ri_logical_agent_id :: logical_agent_id
  ri_incarnation_id :: incarnation_id
  ri_requester_agent_id :: logical_agent_id
  ri_prepare_prompt :: string
  ri_resume_prompt :: string
  ri_on_timeout :: renew_timeout
  ri_prepare_timeout_ms :: int
  ri_every_ms :: "int option"
  ri_scheduled_at_ms :: int

record start_intent =
  si_public_name :: string
  si_logical_agent_id :: "logical_agent_id option"
  si_parent :: parent
  si_herdr_session :: string
  si_pane_id :: string
  si_expected_terminal_id :: string
  si_backend_kind :: string
  si_backend_args :: "string list"
  si_initial_message :: initial_message_intent
  si_working_directory :: string
  si_idempotency_key :: string
  si_readiness_timeout_ms :: nat
  si_keep_open :: bool
  si_requested_model :: "string option"
  si_requested_provider :: "string option"
  si_requested_effort :: "string option"
  si_reply_delivery :: reply_delivery
  si_supersedes :: "incarnation_id option"

record adopt_intent =
  ai_pane_id :: string
  ai_expected_terminal_id :: string
  ai_public_name :: "string option"
  ai_logical_agent_id :: "logical_agent_id option"
  ai_parent :: parent
  ai_herdr_session :: string
  ai_backend_kind :: "string option"
  ai_backend_args :: "string list"
  ai_requested_model :: "string option"
  ai_requested_provider :: "string option"
  ai_requested_effort :: "string option"
  ai_idempotency_key :: string

record requested_attribution =
  rq_model :: "string option"
  rq_provider :: "string option"
  rq_effort :: "string option"

section \<open>Durations\<close>

definition format_duration_ms :: "int \<Rightarrow> string" where
  "format_duration_ms ms =
     (if ms < 0 then ''0s''
      else let seconds = ms div 1000; minutes = ms div 60000;
               hours = ms div 3600000; days = ms div 86400000
           in if days > 0 then show_int days @ ''d'' @ show_int (hours mod 24) @ ''h''
              else if hours > 0 then show_int hours @ ''h'' @ show_int (minutes mod 60) @ ''m''
              else if minutes > 0 then show_int minutes @ ''m'' @ show_int (seconds mod 60) @ ''s''
              else show_int seconds @ ''s'')"

section \<open>Properties\<close>

lemma id_parse_Some:
  assumes "id_parse s = Some n"
  shows "s = show_nat n" and "valid_id n"
proof -
  from assms have s: "s \<noteq> []" "\<not> (1 < length s \<and> hd s = CHR ''0'')"
      "\<forall>c \<in> set s. is_ascii_digit c"
    and n: "n = decimal_value s" "decimal_value s \<le> u64_max" "n \<noteq> 0"
    by (auto simp: id_parse_def parse_u64_def nonzero_def list_all_iff bind_eq_Some_conv
        split: if_splits)
  show "s = show_nat n" unfolding n(1) by (rule show_nat_decimal_value [OF s(1,3,2), symmetric])
  show "valid_id n" using n by (simp add: valid_id_def)
qed

lemma show_nat_no_leading_zero: "\<not> (1 < length (show_nat n) \<and> hd (show_nat n) = CHR ''0'')"
proof (cases "n = 0")
  case True
  then show ?thesis by (simp add: show_nat.simps [of 0])
qed (use hd_show_nat [of n] in auto)

text \<open>
  C30: the id parser accepts exactly the canonical decimal text of the positive 64-bit
  integers: it inverts the display of every valid id, and whatever it accepts is the display of
  the valid id it returns, so zero, signs, prefixes, leading zeros and overflow are refused.
\<close>

theorem id_parse_display_iff: "id_parse s = Some n \<longleftrightarrow> valid_id n \<and> s = id_display n"
proof
  assume "id_parse s = Some n"
  then show "valid_id n \<and> s = id_display n"
    by (auto dest: id_parse_Some simp: id_display_def)
next
  assume a: "valid_id n \<and> s = id_display n"
  have "list_all is_ascii_digit (show_nat n)"
    using show_nat_digits by (simp add: list_all_iff)
  with a show_nat_no_leading_zero [of n] show "id_parse s = Some n"
    by (auto simp: id_parse_def parse_u64_def id_display_def nonzero_def valid_id_def)
qed

lemma id_from_rowid_Some: "id_from_rowid r = Some n \<longleftrightarrow> 0 < r \<and> n = nat r"
  by (auto simp: id_from_rowid_def nonzero_def)

lemma reply_delivery_as_str_inject:
  "reply_delivery_as_str a = reply_delivery_as_str b \<longleftrightarrow> a = b"
  by (cases a; cases b) (simp_all add: reply_delivery_as_str_def)

lemma delivery_transport_as_str_inject:
  "delivery_transport_as_str a = delivery_transport_as_str b \<longleftrightarrow> a = b"
  by (cases a; cases b) (simp_all add: delivery_transport_as_str_def)

end
