(* ===== verification/Paths.thy ===== *)
theory Paths
  imports Prelude
begin

text \<open>
  The conventional per-user paths of \<open>src/src/paths.rs\<close>. The process environment is the
  function \<open>get\<close> the code passes in; \<open>env::temp_dir\<close> is a parameter. \<open>PathBuf::join\<close>
  replaces the path when the joined one is absolute; every joined text here is relative.
\<close>

datatype path_error = MissingHome string

definition nonempty :: "string option \<Rightarrow> string option" where
  "nonempty value = (case value of None \<Rightarrow> None | Some v \<Rightarrow> if v = [] then None else Some v)"

definition path_join :: "string \<Rightarrow> string \<Rightarrow> string" where
  "path_join p q =
     (if q \<noteq> [] \<and> hd q = CHR ''/'' then q
      else if p = [] \<or> last p = CHR ''/'' then p @ q else p @ ''/'' @ q)"

definition runtime_root_with :: "string \<Rightarrow> (string \<Rightarrow> string option) \<Rightarrow> string" where
  "runtime_root_with temp_dir get =
     (case nonempty (get ''XDG_RUNTIME_DIR'') of
        None \<Rightarrow> path_join temp_dir ''kelpie-client/kelpie''
      | Some root \<Rightarrow> path_join root ''kelpie'')"

definition kelpie_socket_path_with :: "string \<Rightarrow> (string \<Rightarrow> string option) \<Rightarrow> string" where
  "kelpie_socket_path_with temp_dir get =
     (case nonempty (get ''KELPIE_SOCKET'') of
        Some path \<Rightarrow> path
      | None \<Rightarrow> path_join (runtime_root_with temp_dir get) ''kelpie.sock'')"

definition database_path_with :: "(string \<Rightarrow> string option) \<Rightarrow> path_error + string" where
  "database_path_with get =
     rbind (case nonempty (get ''XDG_STATE_HOME'') of
              Some root \<Rightarrow> Inr root
            | None \<Rightarrow> rbind (ok_or (MissingHome ''XDG_STATE_HOME'') (nonempty (get ''HOME'')))
                        (\<lambda>home. Inr (path_join home ''.local/state'')))
       (\<lambda>root. Inr (path_join root ''kelpie/kelpie.sqlite3''))"

definition herdr_socket_path_with :: "(string \<Rightarrow> string option) \<Rightarrow> path_error + string" where
  "herdr_socket_path_with get =
     (case nonempty (get ''HERDR_SOCKET_PATH'') of
        Some path \<Rightarrow> Inr path
      | None \<Rightarrow>
          rbind (case nonempty (get ''XDG_CONFIG_HOME'') of
                   Some root \<Rightarrow> Inr root
                 | None \<Rightarrow> rbind (ok_or (MissingHome ''XDG_CONFIG_HOME'') (nonempty (get ''HOME'')))
                             (\<lambda>home. Inr (path_join home ''.config'')))
            (\<lambda>root. Inr (path_join root ''herdr/herdr.sock'')))"

text \<open>The database path fails exactly when neither variable is set to a non-empty value.\<close>

lemma database_path_error_iff:
  "(\<exists>e. database_path_with get = Inl e) \<longleftrightarrow>
     nonempty (get ''XDG_STATE_HOME'') = None \<and> nonempty (get ''HOME'') = None"
  by (cases "nonempty (get ''XDG_STATE_HOME'')"; cases "nonempty (get ''HOME'')")
     (simp_all add: database_path_with_def)

lemma herdr_socket_path_error_iff:
  "(\<exists>e. herdr_socket_path_with get = Inl e) \<longleftrightarrow>
     nonempty (get ''HERDR_SOCKET_PATH'') = None \<and> nonempty (get ''XDG_CONFIG_HOME'') = None
     \<and> nonempty (get ''HOME'') = None"
  by (cases "nonempty (get ''HERDR_SOCKET_PATH'')"; cases "nonempty (get ''XDG_CONFIG_HOME'')";
      cases "nonempty (get ''HOME'')") (simp_all add: herdr_socket_path_with_def)

text \<open>
  An explicit override wins over every other variable, and an empty override counts as unset:
  the same socket is found with the empty override removed.
\<close>

lemma kelpie_socket_override:
  "p \<noteq> [] \<Longrightarrow> get ''KELPIE_SOCKET'' = Some p \<Longrightarrow> kelpie_socket_path_with t get = p"
  by (simp add: kelpie_socket_path_with_def nonempty_def)

lemma kelpie_socket_empty_override:
  "get ''KELPIE_SOCKET'' = Some [] \<Longrightarrow>
     kelpie_socket_path_with t get = kelpie_socket_path_with t (get(''KELPIE_SOCKET'' := None))"
  by (simp add: kelpie_socket_path_with_def runtime_root_with_def nonempty_def)

end
