(* ===== verification/Envelope.thy ===== *)
theory Envelope
  imports Domain
begin

text \<open>
  The receiver envelopes of \<open>src/src/envelope.rs\<close>: the escaping of untrusted bodies, the
  check of unquoted attribute values, and one renderer per envelope form. The fixed text of the
  longer forms is named, so that a proof never looks inside it.
\<close>

datatype envelope_error = EmptyAttribute | UnsafeAttribute string

fun escape_body :: "string \<Rightarrow> string" where
  "escape_body [] = []"
| "escape_body (ch # body) =
     (if ch = CHR ''&'' then ''&amp;'' @ escape_body body
      else if ch = CHR ''<'' then ''&lt;'' @ escape_body body
      else if ch = CHR ''>'' then ''&gt;'' @ escape_body body
      else ch # escape_body body)"

definition is_ascii_alphanumeric :: "char \<Rightarrow> bool" where
  "is_ascii_alphanumeric c \<longleftrightarrow>
     is_ascii_digit c \<or> 65 \<le> byte_of c \<and> byte_of c \<le> 90 \<or> 97 \<le> byte_of c \<and> byte_of c \<le> 122"

definition safe_attr_char :: "char \<Rightarrow> bool" where
  "safe_attr_char ch \<longleftrightarrow>
     is_ascii_alphanumeric ch \<or> ch \<in> {CHR ''-'', CHR ''_'', CHR ''.'', CHR '':'', CHR ''/''}"

definition validated_attr :: "string \<Rightarrow> string \<Rightarrow> envelope_error + string" where
  "validated_attr name value =
     (if value = [] then Inl EmptyAttribute
      else if \<not> list_all safe_attr_char value then Inl (UnsafeAttribute (name @ ''='' @ value))
      else Inr value)"

definition nl :: string where "nl = [CHR 0x0A]"

definition render_tell :: "string \<Rightarrow> string \<Rightarrow> string \<Rightarrow> envelope_error + string" where
  "render_tell frm message_id body =
     rbind (validated_attr ''from'' frm) (\<lambda>frm.
     rbind (validated_attr ''msg'' message_id) (\<lambda>message_id.
       Inr (''<kelpie from='' @ frm @ '' msg='' @ message_id @ ''>'' @ nl
            @ escape_body body @ nl @ ''</kelpie>'')))"

definition render_ask :: "string \<Rightarrow> string \<Rightarrow> string \<Rightarrow> envelope_error + string" where
  "render_ask frm reply_to body =
     rbind (validated_attr ''from'' frm) (\<lambda>frm.
     rbind (validated_attr ''reply-to'' reply_to) (\<lambda>reply_to.
       Inr (''<kelpie from='' @ frm @ '' msg='' @ reply_to @ '' reply-to='' @ reply_to @ ''>'' @ nl
            @ escape_body body @ nl @ ''</kelpie>'')))"

definition render_progress :: "string \<Rightarrow> string \<Rightarrow> string \<Rightarrow> string \<Rightarrow> envelope_error + string" where
  "render_progress frm re message_id body =
     rbind (validated_attr ''from'' frm) (\<lambda>frm.
     rbind (validated_attr ''re'' re) (\<lambda>re.
     rbind (validated_attr ''msg'' message_id) (\<lambda>message_id.
       Inr (''<kelpie from='' @ frm @ '' msg='' @ message_id @ '' re='' @ re @ '' progress>'' @ nl
            @ escape_body body @ nl @ ''</kelpie>''))))"

definition render_final :: "string \<Rightarrow> string \<Rightarrow> string \<Rightarrow> string \<Rightarrow> envelope_error + string" where
  "render_final frm re message_id body =
     rbind (validated_attr ''from'' frm) (\<lambda>frm.
     rbind (validated_attr ''re'' re) (\<lambda>re.
     rbind (validated_attr ''msg'' message_id) (\<lambda>message_id.
       Inr (''<kelpie from='' @ frm @ '' msg='' @ message_id @ '' re='' @ re @ '' final>'' @ nl
            @ escape_body body @ nl @ ''</kelpie>''))))"

definition render_reminder :: "string \<Rightarrow> string \<Rightarrow> envelope_error + string" where
  "render_reminder waiting reply_to =
     rbind (validated_attr ''waiting'' waiting) (\<lambda>waiting.
     rbind (validated_attr ''reply-to'' reply_to) (\<lambda>reply_to.
       Inr (''<kelpie-reminder waiting='' @ waiting @ '' reply-to='' @ reply_to @ ''>'' @ nl
          @ ''You still owe '' @ waiting @ '' a final on this ask.'' @ nl @ nl
          @ ''If the question is gone from context:'' @ nl
          @ ''  kelpie ask-info '' @ reply_to @ nl @ nl
          @ ''Still working:'' @ nl
          @ ''  kelpie reminder-snooze '' @ reply_to @ '' --for 2h'' @ nl @ nl
          @ ''Ready to answer:'' @ nl
          @ ''  kelpie reply '' @ reply_to @ '' --final --file PATH'' @ nl @ nl
          @ ''Drop the obligation:'' @ nl
          @ ''  kelpie cancel '' @ reply_to @ '' --reason TEXT'' @ nl
          @ ''</kelpie-reminder>'')))"

definition render_cancellation :: "string \<Rightarrow> string \<Rightarrow> string \<Rightarrow> envelope_error + string" where
  "render_cancellation waiting cancelled_ask reason =
     rbind (validated_attr ''waiting'' waiting) (\<lambda>waiting.
     rbind (validated_attr ''cancelled-ask'' cancelled_ask) (\<lambda>cancelled_ask.
       Inr (''<kelpie-system cancellation waiting='' @ waiting @ '' cancelled-ask='' @ cancelled_ask
            @ ''>'' @ nl @ escape_body reason @ nl @ ''</kelpie-system>'')))"

definition render_owing_cancellation :: "string \<Rightarrow> string \<Rightarrow> string \<Rightarrow> envelope_error + string" where
  "render_owing_cancellation owing cancelled_ask reason =
     rbind (validated_attr ''owing'' owing) (\<lambda>owing.
     rbind (validated_attr ''cancelled-ask'' cancelled_ask) (\<lambda>cancelled_ask.
       Inr (''<kelpie-system cancellation owing='' @ owing @ '' cancelled-ask='' @ cancelled_ask
            @ ''>'' @ nl @ ''Stop working on this ask. It was cancelled. Reason: ''
            @ escape_body reason @ nl @ ''No reply is owed.'' @ nl @ ''</kelpie-system>'')))"

definition renew_prepare_intro :: string where
  "renew_prepare_intro =
     ''Your context is being renewed so it stays a fixed size. This is routine, not a failure.'' @ nl
     @ ''You will be cleared and immediately resumed.'' @ nl @ nl
     @ ''Survives: files on disk, your working directory, your Kelpie identity, and every'' @ nl
     @ ''obligation you owe.'' @ nl
     @ ''Does not survive: this conversation, your in-context reasoning, and anything you have'' @ nl
     @ ''decided but not written down.'' @ nl @ nl
     @ ''Prepare now:'' @ nl"

definition renew_prepare_quote :: string where
  "renew_prepare_quote =
     nl @ nl
     @ ''After the clear your only input will be the text below, quoted here for reference.'' @ nl
     @ ''Do not act on it now. Prepare so that it will be enough on its own.'' @ nl
     @ ''&lt;resume&gt;'' @ nl"

definition renew_prepare_outro :: "string \<Rightarrow> string" where
  "renew_prepare_outro reply_to =
     nl @ ''&lt;/resume&gt;'' @ nl @ nl
     @ ''Reply when your checkpoint is complete: kelpie reply '' @ reply_to @ '' --final'' @ nl
     @ ''Reply --defer if now is a bad time, or say so if some state could not be written down.'' @ nl"

definition render_renew_prepare ::
  "string \<Rightarrow> string \<Rightarrow> int \<Rightarrow> int \<Rightarrow> string \<Rightarrow> string \<Rightarrow> envelope_error + string" where
  "render_renew_prepare frm reply_to cycle deadline_ms prepare_prompt resume_prompt =
     rbind (validated_attr ''from'' frm) (\<lambda>frm.
     rbind (validated_attr ''reply-to'' reply_to) (\<lambda>reply_to.
       Inr (''<kelpie-renew from='' @ frm @ '' reply-to='' @ reply_to @ '' prepare cycle=''
            @ show_int cycle @ '' deadline-ms='' @ show_int deadline_ms @ ''>'' @ nl
            @ renew_prepare_intro @ escape_body prepare_prompt
            @ renew_prepare_quote @ escape_body resume_prompt
            @ renew_prepare_outro reply_to @ ''</kelpie-renew>'')))"

definition renew_resume_intro :: string where
  "renew_resume_intro =
     ''You are a continuation. Your context was cleared after a prior instance of you confirmed'' @ nl
     @ ''its checkpoint. Work from what it wrote rather than starting over, and do not assume any'' @ nl
     @ ''conversation happened before this message.'' @ nl @ nl
     @ ''Obligations you owed are still owed; run `kelpie pending` to see them.'' @ nl @ nl"

definition render_renew_resume :: "string \<Rightarrow> int \<Rightarrow> int \<Rightarrow> string \<Rightarrow> envelope_error + string" where
  "render_renew_resume frm cycle checkpointed_at_ms resume_prompt =
     rbind (validated_attr ''from'' frm) (\<lambda>frm.
       Inr (''<kelpie-renew from='' @ frm @ '' resumed cycle='' @ show_int cycle
            @ '' checkpointed-at-ms='' @ show_int checkpointed_at_ms @ ''>'' @ nl
            @ renew_resume_intro @ escape_body resume_prompt @ nl @ ''</kelpie-renew>''))"

section \<open>A receiver's reading of an envelope\<close>

text \<open>
  The specification side: what a reader of the tagged text recovers. \<open>unescape_body\<close> undoes
  the three entities; \<open>read_until c s\<close> splits at the first occurrence of \<open>c\<close>; an envelope
  is read as its opening tag up to the first \<open>>\<close>, and its body up to the next \<open><\<close>.
\<close>

fun unescape_body :: "string \<Rightarrow> string" where
  "unescape_body [] = []"
| "unescape_body (c # cs) =
     (if take 5 (c # cs) = ''&amp;'' then CHR ''&'' # unescape_body (drop 4 cs)
      else if take 4 (c # cs) = ''&lt;'' then CHR ''<'' # unescape_body (drop 3 cs)
      else if take 4 (c # cs) = ''&gt;'' then CHR ''>'' # unescape_body (drop 3 cs)
      else c # unescape_body cs)"

definition read_until :: "char \<Rightarrow> string \<Rightarrow> string \<times> string" where
  "read_until c s = (takeWhile (\<lambda>x. x \<noteq> c) s, dropWhile (\<lambda>x. x \<noteq> c) s)"

definition read_envelope :: "string \<Rightarrow> (string \<times> string \<times> string) option" where
  "read_envelope s =
     (case read_until (CHR ''>'') s of (tag, rest) \<Rightarrow>
        case rest of [] \<Rightarrow> None | _ # inner \<Rightarrow>
          (case read_until (CHR ''<'') inner of (text, closing) \<Rightarrow>
             Some (tag, unescape_body (butlast (drop 1 text)), closing)))"

definition markup_free :: "string \<Rightarrow> bool" where
  "markup_free s \<longleftrightarrow> CHR ''<'' \<notin> set s \<and> CHR ''>'' \<notin> set s"

named_theorems envelope_simps "markup-freeness of the parts of an envelope"

lemma markup_free_Nil [envelope_simps]: "markup_free []"
  by (simp add: markup_free_def)

lemma markup_free_append [envelope_simps]: "markup_free (s @ t) \<longleftrightarrow> markup_free s \<and> markup_free t"
  by (auto simp: markup_free_def)

lemma markup_free_Cons:
  "markup_free (c # t) \<longleftrightarrow> c \<noteq> CHR ''<'' \<and> c \<noteq> CHR ''>'' \<and> markup_free t"
  by (auto simp: markup_free_def)

lemma markup_free_nl [envelope_simps]: "markup_free nl"
  by (simp add: nl_def markup_free_def)

lemma markup_free_escape_body [envelope_simps]: "markup_free (escape_body body)"
  by (induction body) (auto simp: markup_free_def)

lemma markup_free_digits: "\<forall>c \<in> set s. is_ascii_digit c \<Longrightarrow> markup_free s"
  by (auto simp: markup_free_def is_ascii_digit_def byte_of_def)

lemma markup_free_show_nat [envelope_simps]: "markup_free (show_nat n)"
  by (rule markup_free_digits) (rule show_nat_digits)

lemma markup_free_show_int [envelope_simps]: "markup_free (show_int i)"
  by (simp add: show_int_def envelope_simps markup_free_Cons)

lemma markup_free_renew_prepare_intro [envelope_simps]: "markup_free renew_prepare_intro"
  unfolding renew_prepare_intro_def by (simp add: markup_free_def nl_def)

lemma markup_free_renew_prepare_quote [envelope_simps]: "markup_free renew_prepare_quote"
  unfolding renew_prepare_quote_def by (simp add: markup_free_def nl_def)

lemma markup_free_renew_resume_intro [envelope_simps]: "markup_free renew_resume_intro"
  unfolding renew_resume_intro_def by (simp add: markup_free_def nl_def)

lemma safe_attr_char_not_markup: "safe_attr_char c \<Longrightarrow> c \<noteq> CHR ''<'' \<and> c \<noteq> CHR ''>''"
  by (auto simp: safe_attr_char_def is_ascii_alphanumeric_def is_ascii_digit_def byte_of_def)

lemma safe_attr_markup_free: "list_all safe_attr_char s \<Longrightarrow> markup_free s"
  using safe_attr_char_not_markup by (auto simp: markup_free_def list_all_iff)

lemma markup_free_renew_prepare_outro:
  "markup_free r \<Longrightarrow> markup_free (renew_prepare_outro r)"
  unfolding renew_prepare_outro_def by (simp add: markup_free_def nl_def)

lemma validated_attr_Inr:
  "validated_attr n v = Inr w \<longleftrightarrow> w = v \<and> v \<noteq> [] \<and> list_all safe_attr_char v"
  by (auto simp: validated_attr_def)

text \<open>The escaping is injective: a receiver recovers the exact body.\<close>

lemma unescape_escape: "unescape_body (escape_body body) = body"
proof (induction body)
  case Nil
  then show ?case by simp
next
  case (Cons c body)
  have amp: "c \<noteq> CHR ''&'' \<Longrightarrow> unescape_body (c # t) = c # unescape_body t" for t by simp
  show ?case
  proof (cases "c = CHR ''&'' \<or> c = CHR ''<'' \<or> c = CHR ''>''")
    case True
    with Cons show ?thesis by (elim disjE) simp_all
  next
    case False
    then have "escape_body (c # body) = c # escape_body body" by simp
    with False amp Cons show ?thesis by simp
  qed
qed


text \<open>The markup of a text: its angle brackets, in order.\<close>

definition markup :: "string \<Rightarrow> string" where
  "markup s = filter (\<lambda>c. c = CHR ''<'' \<or> c = CHR ''>'') s"

lemma markup_append [simp]: "markup (s @ t) = markup s @ markup t"
  by (simp add: markup_def)

lemma markup_Cons [simp]:
  "markup (c # t) = (if c = CHR ''<'' \<or> c = CHR ''>'' then c # markup t else markup t)"
  by (simp add: markup_def)

lemma markup_Nil [simp]: "markup [] = []"
  by (simp add: markup_def)

lemma markup_of_markup_free: "markup_free s \<Longrightarrow> markup s = []"
  by (auto simp: markup_def markup_free_def filter_empty_conv)

lemmas markup_parts =
  markup_of_markup_free [OF markup_free_escape_body] markup_of_markup_free [OF markup_free_show_int]
  markup_of_markup_free [OF markup_free_renew_prepare_intro]
  markup_of_markup_free [OF markup_free_renew_prepare_quote]
  markup_of_markup_free [OF markup_free_renew_resume_intro]
  markup_of_markup_free [OF markup_free_nl]
  markup_of_markup_free [OF safe_attr_markup_free]
  markup_of_markup_free [OF markup_free_renew_prepare_outro [OF safe_attr_markup_free]]

text \<open>
  The common shape of an envelope: a tag, a text between two line feeds, a closing tag. Read
  back, it gives its opening tag, the text and the closing tag.
\<close>

lemma read_envelope_shape:
  assumes "markup_free tag" and "markup_free text"
  shows "read_envelope (''<'' @ tag @ ''>'' @ nl @ text @ nl @ ''<'' @ closing) =
           Some (''<'' @ tag, unescape_body text, ''<'' @ closing)"
proof -
  have tw: "takeWhile (\<lambda>x. x \<noteq> CHR ''>'') (''<'' @ tag @ ''>'' @ u) = ''<'' @ tag"
    and dw: "dropWhile (\<lambda>x. x \<noteq> CHR ''>'') (''<'' @ tag @ ''>'' @ u) = ''>'' @ u" for u
    using assms(1) by (auto simp: markup_free_def takeWhile_append dropWhile_append)
  have tw2: "takeWhile (\<lambda>x. x \<noteq> CHR ''<'') (nl @ text @ nl @ ''<'' @ u) = nl @ text @ nl"
    and dw2: "dropWhile (\<lambda>x. x \<noteq> CHR ''<'') (nl @ text @ nl @ ''<'' @ u) = ''<'' @ u" for u
    using assms(2) by (auto simp: markup_free_def nl_def takeWhile_append dropWhile_append)
  show ?thesis
    unfolding read_envelope_def read_until_def
    using tw dw tw2 dw2 by (simp add: nl_def)
qed

definition safe_attr :: "string \<Rightarrow> bool" where
  "safe_attr v \<longleftrightarrow> v \<noteq> [] \<and> list_all safe_attr_char v"

lemma validated_attr_safe: "safe_attr v \<Longrightarrow> validated_attr n v = Inr v"
  by (simp add: safe_attr_def validated_attr_def)

lemma validated_attr_unsafe: "\<not> safe_attr v \<Longrightarrow> \<exists>e. validated_attr n v = Inl e"
  by (auto simp: safe_attr_def validated_attr_def)

lemma safe_attr_markup_freeI [envelope_simps]: "safe_attr v \<Longrightarrow> markup_free v"
  by (simp add: safe_attr_def safe_attr_markup_free)

definition read_rendered :: "envelope_error + string \<Rightarrow> (string \<times> string \<times> string) option" where
  "read_rendered r = (case r of Inl e \<Rightarrow> None | Inr s \<Rightarrow> read_envelope s)"

lemmas read_peer = read_envelope_shape [OF _ markup_free_escape_body, unfolded unescape_escape]

lemma read_peer_at:
  "markup_free tag \<Longrightarrow> s = ''<'' @ tag @ ''>'' @ nl @ escape_body body @ nl @ ''<'' @ closing \<Longrightarrow>
     read_rendered (Inr s) = Some (''<'' @ tag, body, ''<'' @ closing)"
  using read_peer [of tag body closing] by (simp add: read_rendered_def)

text \<open>
  C17: a peer message is read back exactly. With legal attributes and whatever body, the receiver
  of a rendered tell, ask, progress or final finds the sender and the ids in the opening tag, the
  body the sender wrote, and one closing tag after it.
\<close>

theorem peer_envelope_roundtrip:
  assumes "safe_attr frm" and "safe_attr re" and "safe_attr msg"
  shows "read_rendered (render_tell frm msg body) =
           Some (''<kelpie from='' @ frm @ '' msg='' @ msg, body, ''</kelpie>'')
    \<and> read_rendered (render_ask frm msg body) =
           Some (''<kelpie from='' @ frm @ '' msg='' @ msg @ '' reply-to='' @ msg, body, ''</kelpie>'')
    \<and> read_rendered (render_progress frm re msg body) =
           Some (''<kelpie from='' @ frm @ '' msg='' @ msg @ '' re='' @ re @ '' progress'', body, ''</kelpie>'')
    \<and> read_rendered (render_final frm re msg body) =
           Some (''<kelpie from='' @ frm @ '' msg='' @ msg @ '' re='' @ re @ '' final'', body, ''</kelpie>'')"
proof (intro conjI)
  note v = assms [THEN validated_attr_safe] and m = assms [THEN safe_attr_markup_freeI]
  show "read_rendered (render_tell frm msg body) =
      Some (''<kelpie from='' @ frm @ '' msg='' @ msg, body, ''</kelpie>'')"
    using read_peer_at [of "''kelpie from='' @ frm @ '' msg='' @ msg" _ body "''/kelpie>''"]
    by (simp add: render_tell_def v m envelope_simps markup_free_Cons)
  show "read_rendered (render_ask frm msg body) =
      Some (''<kelpie from='' @ frm @ '' msg='' @ msg @ '' reply-to='' @ msg, body, ''</kelpie>'')"
    using read_peer_at [of "''kelpie from='' @ frm @ '' msg='' @ msg @ '' reply-to='' @ msg" _ body "''/kelpie>''"]
    by (simp add: render_ask_def v m envelope_simps markup_free_Cons)
  show "read_rendered (render_progress frm re msg body) =
      Some (''<kelpie from='' @ frm @ '' msg='' @ msg @ '' re='' @ re @ '' progress'', body, ''</kelpie>'')"
    using read_peer_at [of "''kelpie from='' @ frm @ '' msg='' @ msg @ '' re='' @ re @ '' progress''" _ body "''/kelpie>''"]
    by (simp add: render_progress_def v m envelope_simps markup_free_Cons)
  show "read_rendered (render_final frm re msg body) =
      Some (''<kelpie from='' @ frm @ '' msg='' @ msg @ '' re='' @ re @ '' final'', body, ''</kelpie>'')"
    using read_peer_at [of "''kelpie from='' @ frm @ '' msg='' @ msg @ '' re='' @ re @ '' final''" _ body "''/kelpie>''"]
    by (simp add: render_final_def v m envelope_simps markup_free_Cons)
qed

theorem peer_envelope_roundtrip_witness:
  "read_rendered (render_tell ''bob'' ''7'' ''</kelpie>'') =
     Some (''<kelpie from=bob msg=7'', ''</kelpie>'', ''</kelpie>'')"
proof -
  have a: "safe_attr ''bob''" "safe_attr ''1''" "safe_attr ''7''"
    by (simp_all add: safe_attr_def safe_attr_char_def is_ascii_alphanumeric_def is_ascii_digit_def byte_of_def)
  show ?thesis using peer_envelope_roundtrip [OF a, of "''</kelpie>''"] by simp
qed

text \<open>
  C18: a Kelpie-authored envelope cannot be forged or closed early by the texts it quotes. Every
  rendered reminder, cancellation, stop notice, renew prepare and renew resume holds exactly one
  opening and one closing tag, whatever the reason, the prompts and the numbers are.
\<close>

theorem system_envelope_one_tag_pair:
  "\<forall>r \<in> {render_reminder waiting ask, render_cancellation waiting ask reason,
          render_owing_cancellation waiting ask reason,
          render_renew_prepare waiting ask cycle deadline prepare resume,
          render_renew_resume waiting cycle checkpointed resume}.
     \<forall>s. r = Inr s \<longrightarrow> markup s = ''<><>''"
  by (auto simp: render_reminder_def render_cancellation_def render_owing_cancellation_def
      render_renew_prepare_def render_renew_resume_def result_simps validated_attr_Inr markup_parts)

theorem system_envelope_one_tag_pair_witness:
  "\<exists>s. render_renew_resume ''coordinator'' 7 9 ''</kelpie-renew>'' = Inr s \<and> markup s = ''<><>''"
proof -
  have "validated_attr ''from'' ''coordinator'' = Inr ''coordinator''"
    by (simp add: validated_attr_def safe_attr_char_def is_ascii_alphanumeric_def is_ascii_digit_def byte_of_def)
  then obtain s where "render_renew_resume ''coordinator'' 7 9 ''</kelpie-renew>'' = Inr s"
    by (simp add: render_renew_resume_def)
  with system_envelope_one_tag_pair
    [of "''coordinator''" "''1''" "[]" 7 0 "[]" "''</kelpie-renew>''" 9] show ?thesis by auto
qed

end
