(* ===== verification/Tables.thy ===== *)
theory Tables
  imports Domain
begin

text \<open>
  The durable state: one record per table of the schema (\<open>src/migrations/030_integer_ids.sql\<close>
  with the columns added by the migrations 031, 032 and 033), the database as a record of tables
  with one allocation sequence per \<open>AUTOINCREMENT\<close> table, the failures of
  \<open>src/src/store.rs\<close> as values, and the row insertions with the foreign-key, uniqueness and
  check constraints the schema enforces.

  Every store operation runs in one SQLite transaction and either commits all its statements
  or none. Here it is a function from the database to a failure or the new database; a failure
  carries no database, so the caller keeps the one it had. Intent JSON is the datatype
  \<open>operation_intent\<close>. The clock that \<open>now_millis\<close> reads is the parameter \<open>now\<close>.
\<close>

section \<open>Failures\<close>

datatype sql_error = ForeignKey | UniqueViolation | CheckViolation | NoRows | NullColumn

text \<open>
  One constructor per message text of a \<open>StoreError::Conflict\<close>, with its formatted values,
  grouped by the component that raises it.
\<close>

datatype operation_conflict =
  OperationNotPendingOwner        \<comment> \<open>operation no longer belongs to the exact pending incarnation\<close>
| BindingNotIntended              \<comment> \<open>Herdr result does not name the exact intended incarnation binding\<close>
| StaleStartAcceptance
| NotExactReady                   \<comment> \<open>observation does not prove the intended incarnation is ready\<close>
| StaleReadiness
| HandoffPredecessorNotReady
| NotAClear                       \<comment> \<open>clear unknown result does not name a clear operation\<close>
| UnknownNotOwner
| RetryableNotOwner
| RetryableNoAttempt
| RejectionNotOwner
| AttemptNotPrepared              \<comment> \<open>attempt is not the exact prepared request\<close>
| QueuedNotDue                    \<comment> \<open>queued delivery is no longer due or was cancelled\<close>
| ReplacementRuntime              \<comment> \<open>delivery response belongs to a replacement runtime\<close>
| DeliveryNotPending
| IncarnationAbsent
| FinalCannotResolve              \<comment> \<open>final acceptance cannot resolve a terminal or absent obligation\<close>

datatype waiter_conflict =
  WaiterKeyEnded | WaiterKeyOther
| ParentAbsent
| AliasBound string incarnation_id
| AliasPendingRename string incarnation_id
| NameHeldByWaiter logical_agent_id string
| NotActiveWaiter logical_agent_id
| WaiterAbsent logical_agent_id
| WaitingAgentAbsent logical_agent_id
| AgentAbsent
| RetirementRaced                 \<comment> \<open>obligation changed before waiter retirement committed\<close>
| MessageAbsent
| InboxDeliveryIs message_id logical_agent_id delivery_outcome
| NoInboxDelivery message_id logical_agent_id

datatype pull_conflict =
  ObligationAbsent
| NotAPullSink
| NotPullWaiter                   \<comment> \<open>only the waiting agent can poll or ack this pull sink\<close>
| LeaseStale | LeaseAbsent
| PullDeliveryIs message_id message_id delivery_outcome
| NoPullDelivery message_id message_id

datatype replay_conflict =
  IdempotencyKeyExists
| KeyBelongsToOperation operation_id operation_outcome
| KeyNotMatchingPrompt operation_id message_kind
| KeyDifferentSender operation_id
| KeyBelongsToInboxMessage message_id
| KeyOtherReplyDelivery reply_delivery

datatype message_conflict =
  ReminderIntervalNotPositive
| RecipientIncarnationMismatch
| RecipientNotReady
| SenderAbsent
| OperatorNotWaiter               \<comment> \<open>operator attribution does not make operator the waiter\<close>
| WaiterNotTarget logical_agent_id \<comment> \<open>socket waiter is no longer a delivery target\<close>
| WaiterRefusesPull
| OperatorInitialAsk | PullOnlyOnAsk | InitialRecipientNotReady | InitialSenderAbsent

datatype reply_conflict =
  ReplyToNoObligation | ObligationTerminal | RequesterNotOwner
| ReplyToNotOpen | OnlyOwingReplies logical_agent_id
| NoReadyIncarnation logical_agent_id
| AmbiguousReady logical_agent_id
| AmbiguousReadyWaiting | AmbiguousReadyOwing

datatype cancel_conflict =
  EmptyReason                     \<comment> \<open>cancellation reason must not be empty\<close>
| ObligationSettled message_id obligation_state
| PrepareAskOfRenew message_id renew_id
| ObligationRaced                 \<comment> \<open>obligation changed before cancellation committed\<close>
| NotTellOwner                    \<comment> \<open>requester does not own the scheduled tell\<close>
| AlreadySubmitted
| QueuedRaced | QueuedOperationRaced | ScheduledObligationRaced
| OrphanRaced

datatype schedule_conflict =
  KeyDifferentSchedule | KeyOtherScheduleIntent | ScheduleSenderAbsent | ScheduleRecipientAbsent
| FiringNotDue
| ScheduleNotCancellable          \<comment> \<open>absent, ended, or requester is not its owner or target\<close>

datatype reminder_conflict =
  NotObservable | ReminderNotDue | AttemptNotPreparedReminder | AttemptNotSubmittedReminder
| NotBusyDeferrable | SnoozeNotFuture | ReminderNotOwned | IntervalDecreased

datatype renew_conflict =
  RenewTargetNotReady | ActiveRenew | ActiveClear
| NotScheduledInterval | RenewNotScheduled | NotAwaitingPrepare | RenewNotReady
| RenewNotClearing | RenewNotInjected | RenewNotPreparing
| RenewPastClear                  \<comment> \<open>absent, terminal, or already past its clear\<close>
| RenewTerminal
| RenewAbsent renew_id
| RenewNotPermitted renew_id logical_agent_id logical_agent_id
| RenewClearing renew_id
| RenewEnded renew_id renew_phase
| RenewAttemptNotPrepared | RenewAttemptNotSubmitted

datatype binding_conflict =
  ContinueAbsent                  \<comment> \<open>logical agent to continue does not exist\<close>
| BindsSocketWaiter logical_agent_id
| AdoptNoName | AdoptOtherSeat | AdoptLaunchPending
| AdoptOtherName string string
| AdoptOtherBackend | AdoptNoEvidence
| BindingAdopted incarnation_id   \<comment> \<open>exact live binding is already adopted\<close>
| ReadyAliasBound string incarnation_id
| NameOwed string                 \<comment> \<open>create-new under the name would strand unresolved obligations\<close>
| AdoptNotProven | StaleAdopt
| RetireNotReady | RenameNotReady | RenameNotPending
| NoReadyBinding | NoRetirableBinding

datatype alias_conflict =
  AliasAmbiguous string | AliasUnready string | AliasAddressableAmbiguous string
| AliasManyWaiters string nat
| NoOpenRetirement incarnation_id
| ManyContinuable string string "logical_agent_id list"
| NotContinuable string string logical_agent_id

datatype clear_conflict =
  ClearNotReady | ClearActiveRenew | ClearActiveClear | ClearNotOwner | ClearReplacement
| ClearUnavailable

datatype conflict =
  OnBinding binding_conflict | OnAlias alias_conflict | OnClear clear_conflict | OnCancel cancel_conflict | OnSchedule schedule_conflict | OnReminder reminder_conflict
| OnRenew renew_conflict | OnOperation operation_conflict | OnWaiter waiter_conflict | OnPull pull_conflict
| OnReplay replay_conflict | OnMessage message_conflict | OnReply reply_conflict
| ConflictText string             \<comment> \<open>a conflict given by its message text\<close>

datatype invalid_record =
  IllegalName string
| NegativeDue                     \<comment> \<open>due_at_ms must not be negative\<close>
| NegativeCursor
| TransportAskPull logical_agent_id \<comment> \<open>logical agent cannot have delivery_transport ask_pull\<close>
| InvalidIncarnationId
| ReplayNoKind operation_id | ReplayNoMessage operation_id | ReplayNoDisposition message_id
| InvalidLeaseId
| UnknownText string string       \<comment> \<open>unknown value of a named column\<close>
| InvalidMessageId message_id
| BadSchedule | EmptyScheduleReason
| BadReminderOutcome | BadInterval
| BadRenewOutcome
| AddressableNotReady logical_agent_id
| RenewNoSchedule renew_id | RenewScheduleAbsent renew_id schedule_id
| RenewScheduleDisagrees renew_id schedule_id
| RecordText string               \<comment> \<open>an invalid record given by its message text\<close>

text \<open>\<open>Panic\<close> is the unwinding of a failed \<open>expect\<close>, which commits nothing either.\<close>

datatype store_error = Sql sql_error | InvalidRecord invalid_record | Conflict conflict | Panic

section \<open>Rows\<close>

record agent_row =
  la_id :: logical_agent_id
  la_public_name :: string
  la_parent :: "logical_agent_id option"
  la_parentless :: bool
  la_created_at_ms :: int
  la_transport :: delivery_transport
  la_ended_at_ms :: "int option"           \<comment> \<open>targeting_ended_at_ms\<close>
  la_seen_at_ms :: "int option"            \<comment> \<open>waiter_last_seen_at_ms\<close>
  la_archived_at_ms :: "int option"

record incarnation_row =
  in_id :: incarnation_id
  in_agent :: logical_agent_id
  in_herdr_session :: string
  in_intended_pane :: string
  in_expected_terminal :: string
  in_observed_pane :: "string option"
  in_observed_terminal :: "string option"
  in_backend_kind :: string
  in_working_directory :: string
  in_created_at_ms :: int
  in_terminal_at_ms :: "int option"
  in_terminal_reason :: "string option"
  in_state :: incarnation_state
  in_native_session :: "string option"
  in_requested :: requested_attribution
  in_pending_rename :: "string option"
  in_backend_args :: "string list"
  in_rotated_at_ms :: "int option"         \<comment> \<open>native_session_rotated_at_ms\<close>

datatype operation_kind = KStart | KPrompt | KResume | KRetire | KNotification | KAdopt | KClear

datatype cancellation_audience = Waiting | Owing

text \<open>The typed intents that \<open>intent_json\<close> stores, per operation kind.\<close>

datatype operation_intent =
  IntentStart start_intent
| IntentAdopt adopt_intent string
    \<comment> \<open>the intent and the public name of the evidence stored beside it\<close>
| IntentMessage message_id "incarnation_id option" "int option"
    \<comment> \<open>message_id, recipient_incarnation_id, due_at_ms\<close>
| IntentReply message_id message_id reply_disposition incarnation_id
| IntentCancellation message_id message_id string cancellation_audience incarnation_id
| IntentScheduled message_id schedule_id nat
| IntentClear logical_agent_id incarnation_id int
| IntentRetire incarnation_id

record operation_row =
  op_id :: operation_id
  op_key :: string
  op_kind :: operation_kind
  op_target :: incarnation_id
  op_intent :: operation_intent
  op_created_at_ms :: int
  op_resolved_at_ms :: "int option"
  op_outcome :: operation_outcome

datatype attempt_phase =
  APrepared | ASubmitted | AAccepted | AResponseCommitted | ARejected | AUnknown

datatype evidence = Detail string | RetryableDetail string | Submission string

record attempt_row =
  at_operation :: operation_id
  at_number :: nat
  at_request :: string
  at_started_at_ms :: int
  at_resolved_at_ms :: "int option"
  at_phase :: attempt_phase
  at_evidence :: "evidence option"

record notice_row =
  nt_id :: operator_notice_id
  nt_body :: string
  nt_created_at_ms :: int
  nt_acknowledged_at_ms :: "int option"

record message_row =
  ms_id :: message_id
  ms_sender :: "logical_agent_id option"
  ms_recipient :: logical_agent_id
  ms_kind :: message_kind
  ms_body :: string
  ms_created_at_ms :: int
  ms_reply_to :: "message_id option"
  ms_disposition :: "reply_disposition option"
  ms_creates_obligation :: bool

record obligation_row =
  ob_ask :: message_id
  ob_owing :: logical_agent_id
  ob_waiting :: logical_agent_id
  ob_sequence :: nat
  ob_created_at_ms :: int
  ob_last_activity_ms :: int
  ob_state :: obligation_state
  ob_resolving :: "message_id option"
  ob_cancel_requester :: "logical_agent_id option"
  ob_cancel_reason :: "string option"
  ob_cancel_response :: "message_id option"
  ob_cancel_owing :: "message_id option"
  ob_reply_delivery :: reply_delivery
  ob_unavailable_since_ms :: "int option"

record delivery_row =
  dl_message :: message_id
  dl_transport :: delivery_transport
  dl_incarnation :: "incarnation_id option"
  dl_agent :: "logical_agent_id option"
  dl_attempt :: nat
  dl_scheduled_at_ms :: int
  dl_attempted_at_ms :: "int option"
  dl_resolved_at_ms :: "int option"
  dl_request :: "string option"
  dl_outcome :: delivery_outcome
  dl_operation :: "operation_id option"
  dl_cancel_requester :: "logical_agent_id option"
  dl_cancel_reason :: "string option"
  dl_cancelled_at_ms :: "int option"

record reminder_row =
  rm_ask :: message_id
  rm_interval_ms :: int
  rm_next_due_at_ms :: "int option"
  rm_snoozed_until_ms :: "int option"
  rm_disabled_at_ms :: "int option"
  rm_suspended_at_ms :: "int option"
  rm_last_accepted_at_ms :: "int option"
  rm_boundary_check_at_ms :: "int option"
  rm_saw_working_at_ms :: "int option"

record reminder_attempt_row =
  ra_id :: nat
  ra_ask :: message_id
  ra_incarnation :: incarnation_id
  ra_request :: string
  ra_started_at_ms :: int
  ra_resolved_at_ms :: "int option"
  ra_phase :: attempt_phase
  ra_evidence :: "evidence option"

datatype schedule_kind = SchedTell | SchedRenew
datatype schedule_clock = WallClock | ActiveClock
datatype schedule_state = SchedActive | SchedCancelled | SchedTerminated

record schedule_row =
  sc_id :: schedule_id
  sc_kind :: schedule_kind
  sc_agent :: logical_agent_id
  sc_incarnation :: "incarnation_id option"
  sc_requester :: logical_agent_id
  sc_body :: "string option"
  sc_interval_ms :: int
  sc_clock :: schedule_clock
  sc_next_fire_at_ms :: int
  sc_active_remaining_ms :: "int option"
  sc_sampled_at_ms :: "int option"
  sc_cycle :: nat
  sc_state :: schedule_state
  sc_key :: "string option"
  sc_created_at_ms :: int
  sc_resolved_at_ms :: "int option"
  sc_reason :: "string option"

record firing_row =
  fi_schedule :: schedule_id
  fi_cycle :: nat
  fi_due_at_ms :: int
  fi_fired_at_ms :: int
  fi_outcome :: schedule_firing_outcome
  fi_message :: "message_id option"
  fi_renew :: "renew_id option"
  fi_detail :: "string option"

record renew_row =
  rn_id :: renew_id
  rn_agent :: logical_agent_id
  rn_incarnation :: incarnation_id
  rn_requester :: logical_agent_id
  rn_prepare_prompt :: string
  rn_resume_prompt :: string
  rn_on_timeout :: renew_timeout
  rn_prepare_timeout_ms :: int
  rn_every_ms :: "int option"
  rn_cycle :: nat
  rn_scheduled_at_ms :: int
  rn_phase :: renew_phase
  rn_prepare_ask :: "message_id option"    \<comment> \<open>ask_message_id\<close>
  rn_prepare_deadline_ms :: "int option"
  rn_pre_clear_session :: "string option"
  rn_created_at_ms :: int
  rn_resolved_at_ms :: "int option"
  rn_reason :: "string option"
  rn_clear_deadline_ms :: "int option"
  rn_stall_notified_at_ms :: "int option"
  rn_inject_not_before_ms :: "int option"
  rn_active_remaining_ms :: "int option"
  rn_sampled_at_ms :: "int option"
  rn_schedule :: "schedule_id option"

record renew_attempt_row =
  rt_id :: nat
  rt_renew :: renew_id
  rt_incarnation :: incarnation_id
  rt_step :: renew_step
  rt_request :: string
  rt_started_at_ms :: int
  rt_resolved_at_ms :: "int option"
  rt_phase :: attempt_phase
  rt_evidence :: "evidence option"

record lease_row =
  ls_id :: nat
  ls_ask :: message_id
  ls_waiting :: logical_agent_id
  ls_claimed_at_ms :: int

record db =
  agents :: "agent_row list"
  incarnations :: "incarnation_row list"
  operations :: "operation_row list"
  attempts :: "attempt_row list"
  notices :: "notice_row list"
  messages :: "message_row list"
  obligations :: "obligation_row list"
  deliveries :: "delivery_row list"
  reminders :: "reminder_row list"
  reminder_attempts :: "reminder_attempt_row list"
  schedules :: "schedule_row list"
  firings :: "firing_row list"
  renews :: "renew_row list"
  renew_attempts :: "renew_attempt_row list"
  leases :: "lease_row list"
  waiter_keys :: "(string \<times> logical_agent_id) list"
  inbox_keys :: "(string \<times> message_id) list"
  pull_keys :: "(string \<times> message_id) list"
  seq_agents :: nat
  seq_incarnations :: nat
  seq_operations :: nat
  seq_notices :: nat
  seq_messages :: nat
  seq_leases :: nat
  seq_reminder_attempts :: nat
  seq_schedules :: nat
  seq_renews :: nat
  seq_renew_attempts :: nat

definition empty_db :: db where
  "empty_db = \<lparr>agents = [], incarnations = [], operations = [], attempts = [], notices = [],
     messages = [], obligations = [], deliveries = [], reminders = [], reminder_attempts = [],
     schedules = [], firings = [], renews = [], renew_attempts = [], leases = [],
     waiter_keys = [], inbox_keys = [], pull_keys = [], seq_agents = 0, seq_incarnations = 0,
     seq_operations = 0, seq_notices = 0, seq_messages = 0, seq_leases = 0, seq_reminder_attempts = 0,
     seq_schedules = 0, seq_renews = 0, seq_renew_attempts = 0\<rparr>"

section \<open>Row insertion\<close>

text \<open>
  \<open>PRAGMA foreign_keys=ON\<close>: a statement that would leave a reference dangling fails. Ids come
  from the table's sequence, which starts at 1, so \<open>last_insert_rowid\<close> is a valid id.
  SQLite tests checks and uniqueness before foreign keys.
\<close>

definition agent_exists :: "db \<Rightarrow> logical_agent_id \<Rightarrow> bool" where
  "agent_exists d a \<longleftrightarrow> exists_row (\<lambda>r. la_id r = a) (agents d)"

definition incarnation_exists :: "db \<Rightarrow> incarnation_id \<Rightarrow> bool" where
  "incarnation_exists d i \<longleftrightarrow> exists_row (\<lambda>r. in_id r = i) (incarnations d)"

definition operation_exists :: "db \<Rightarrow> operation_id \<Rightarrow> bool" where
  "operation_exists d i \<longleftrightarrow> exists_row (\<lambda>r. op_id r = i) (operations d)"

definition message_exists :: "db \<Rightarrow> message_id \<Rightarrow> bool" where
  "message_exists d i \<longleftrightarrow> exists_row (\<lambda>r. ms_id r = i) (messages d)"

definition references_opt :: "('a \<Rightarrow> bool) \<Rightarrow> 'a option \<Rightarrow> bool" where
  "references_opt p v = (case v of None \<Rightarrow> True | Some x \<Rightarrow> p x)"

definition insert_logical_agent ::
  "string \<Rightarrow> parent \<Rightarrow> delivery_transport \<Rightarrow> int \<Rightarrow> db \<Rightarrow> store_error + (logical_agent_id \<times> db)" where
  "insert_logical_agent name par transport now d =
     (let parent_id = (case par of Parentless \<Rightarrow> None | ParentAgent a \<Rightarrow> Some a);
          i = Suc (seq_agents d);
          row = \<lparr>la_id = i, la_public_name = name, la_parent = parent_id,
                 la_parentless = (par = Parentless), la_created_at_ms = now, la_transport = transport,
                 la_ended_at_ms = None, la_seen_at_ms = None, la_archived_at_ms = None\<rparr>
      in rbind (ensure (transport \<noteq> AskPull) (Sql CheckViolation)) (\<lambda>_.
         rbind (ensure (references_opt (agent_exists d) parent_id) (Sql ForeignKey)) (\<lambda>_.
           Inr (i, d\<lparr>agents := agents d @ [row], seq_agents := i\<rparr>))))"

definition insert_message ::
  "logical_agent_id option \<Rightarrow> logical_agent_id \<Rightarrow> message_kind \<Rightarrow> string \<Rightarrow> int \<Rightarrow> message_id option
   \<Rightarrow> reply_disposition option \<Rightarrow> bool \<Rightarrow> db \<Rightarrow> store_error + (message_id \<times> db)" where
  "insert_message sender recipient kind body now reply_to disposition creates d =
     (let i = Suc (seq_messages d);
          row = \<lparr>ms_id = i, ms_sender = sender, ms_recipient = recipient, ms_kind = kind,
                 ms_body = body, ms_created_at_ms = now, ms_reply_to = reply_to,
                 ms_disposition = disposition, ms_creates_obligation = creates\<rparr>
      in rbind (ensure ((kind = Reply) = (reply_to \<noteq> None) \<and> (kind = Reply) = (disposition \<noteq> None))
                  (Sql CheckViolation)) (\<lambda>_.
         rbind (ensure (references_opt (agent_exists d) sender \<and> agent_exists d recipient
                  \<and> references_opt (message_exists d) reply_to) (Sql ForeignKey)) (\<lambda>_.
           Inr (i, d\<lparr>messages := messages d @ [row], seq_messages := i\<rparr>))))"

text \<open>The live idempotency keys: a failed prompt releases its key.\<close>

definition live_key :: "operation_row \<Rightarrow> bool" where
  "live_key r \<longleftrightarrow> op_kind r \<noteq> KPrompt \<or> op_outcome r \<noteq> OpFailed"

text \<open>Inserted with outcome \<open>pending\<close>; \<open>map_constraint\<close> names the uniqueness failure.\<close>

definition insert_operation ::
  "string \<Rightarrow> operation_kind \<Rightarrow> incarnation_id \<Rightarrow> operation_intent \<Rightarrow> int \<Rightarrow> db
   \<Rightarrow> store_error + (operation_id \<times> db)" where
  "insert_operation key kind target intent now d =
     (let i = Suc (seq_operations d);
          row = \<lparr>op_id = i, op_key = key, op_kind = kind, op_target = target, op_intent = intent,
                 op_created_at_ms = now, op_resolved_at_ms = None, op_outcome = OpPending\<rparr>
      in rbind (ensure (\<not> exists_row (\<lambda>r. op_key r = key \<and> live_key r) (operations d))
                  (Conflict (OnReplay IdempotencyKeyExists))) (\<lambda>_.
         rbind (ensure (incarnation_exists d target) (Sql ForeignKey)) (\<lambda>_.
           Inr (i, d\<lparr>operations := operations d @ [row], seq_operations := i\<rparr>))))"

definition delivery_check :: "delivery_row \<Rightarrow> bool" where
  "delivery_check r \<longleftrightarrow> (case dl_transport r of
     HerdrPrompt \<Rightarrow> dl_incarnation r \<noteq> None \<and> dl_operation r \<noteq> None
   | SocketInbox \<Rightarrow> dl_agent r \<noteq> None \<and> dl_incarnation r = None \<and> dl_request r = None
   | AskPull \<Rightarrow> dl_agent r \<noteq> None \<and> dl_incarnation r = None \<and> dl_operation r = None
                \<and> dl_request r = None)"

text \<open>The two unique indexes of the table, on the columns that are not null.\<close>

definition same_attempt :: "delivery_row \<Rightarrow> delivery_row \<Rightarrow> bool" where
  "same_attempt r s \<longleftrightarrow> dl_message r = dl_message s \<and> dl_attempt r = dl_attempt s
     \<and> (dl_incarnation r \<noteq> None \<and> dl_incarnation r = dl_incarnation s
        \<or> dl_agent r \<noteq> None \<and> dl_agent r = dl_agent s)"

definition insert_delivery :: "delivery_row \<Rightarrow> db \<Rightarrow> store_error + db" where
  "insert_delivery row d =
     rbind (ensure (delivery_check row) (Sql CheckViolation)) (\<lambda>_.
     rbind (ensure (\<not> exists_row (same_attempt row) (deliveries d)) (Sql UniqueViolation)) (\<lambda>_.
     rbind (ensure (message_exists d (dl_message row)
              \<and> references_opt (incarnation_exists d) (dl_incarnation row)
              \<and> references_opt (agent_exists d) (dl_agent row)
              \<and> references_opt (operation_exists d) (dl_operation row)) (Sql ForeignKey)) (\<lambda>_.
       Inr (d\<lparr>deliveries := deliveries d @ [row]\<rparr>))))"

definition herdr_delivery ::
  "message_id \<Rightarrow> incarnation_id \<Rightarrow> int \<Rightarrow> delivery_outcome \<Rightarrow> operation_id \<Rightarrow> delivery_row" where
  "herdr_delivery m i scheduled out oid =
     \<lparr>dl_message = m, dl_transport = HerdrPrompt, dl_incarnation = Some i, dl_agent = None,
      dl_attempt = 1, dl_scheduled_at_ms = scheduled, dl_attempted_at_ms = None,
      dl_resolved_at_ms = None, dl_request = None, dl_outcome = out, dl_operation = Some oid,
      dl_cancel_requester = None, dl_cancel_reason = None, dl_cancelled_at_ms = None\<rparr>"

definition agent_delivery ::
  "delivery_transport \<Rightarrow> message_id \<Rightarrow> logical_agent_id \<Rightarrow> int \<Rightarrow> delivery_outcome \<Rightarrow> delivery_row" where
  "agent_delivery t m a scheduled out =
     \<lparr>dl_message = m, dl_transport = t, dl_incarnation = None, dl_agent = Some a,
      dl_attempt = 1, dl_scheduled_at_ms = scheduled, dl_attempted_at_ms = None,
      dl_resolved_at_ms = None, dl_request = None, dl_outcome = out, dl_operation = None,
      dl_cancel_requester = None, dl_cancel_reason = None, dl_cancelled_at_ms = None\<rparr>"

definition next_obligation_sequence :: "db \<Rightarrow> nat" where
  "next_obligation_sequence d = Suc (fold max (map ob_sequence (obligations d)) 0)"

definition insert_obligation ::
  "message_id \<Rightarrow> logical_agent_id \<Rightarrow> logical_agent_id \<Rightarrow> int \<Rightarrow> reply_delivery \<Rightarrow> db \<Rightarrow> store_error + db" where
  "insert_obligation ask owing waiting now rd d =
     (let row = \<lparr>ob_ask = ask, ob_owing = owing, ob_waiting = waiting,
                 ob_sequence = next_obligation_sequence d, ob_created_at_ms = now,
                 ob_last_activity_ms = now, ob_state = ObOpen, ob_resolving = None,
                 ob_cancel_requester = None, ob_cancel_reason = None, ob_cancel_response = None,
                 ob_cancel_owing = None, ob_reply_delivery = rd, ob_unavailable_since_ms = None\<rparr>
      in rbind (ensure (\<not> exists_row (\<lambda>o'. ob_ask o' = ask) (obligations d)) (Sql UniqueViolation)) (\<lambda>_.
         rbind (ensure (message_exists d ask \<and> agent_exists d owing \<and> agent_exists d waiting)
                  (Sql ForeignKey)) (\<lambda>_.
           Inr (d\<lparr>obligations := obligations d @ [row]\<rparr>))))"

definition insert_reminder :: "message_id \<Rightarrow> int \<Rightarrow> db \<Rightarrow> store_error + db" where
  "insert_reminder ask interval d =
     (let row = \<lparr>rm_ask = ask, rm_interval_ms = interval, rm_next_due_at_ms = None,
                 rm_snoozed_until_ms = None, rm_disabled_at_ms = None, rm_suspended_at_ms = None,
                 rm_last_accepted_at_ms = None, rm_boundary_check_at_ms = None,
                 rm_saw_working_at_ms = None\<rparr>
      in rbind (ensure (0 < interval) (Sql CheckViolation)) (\<lambda>_.
         rbind (ensure (\<not> exists_row (\<lambda>r. rm_ask r = ask) (reminders d)) (Sql UniqueViolation)) (\<lambda>_.
         rbind (ensure (exists_row (\<lambda>o'. ob_ask o' = ask) (obligations d)) (Sql ForeignKey)) (\<lambda>_.
           Inr (d\<lparr>reminders := reminders d @ [row]\<rparr>)))))"

definition insert_notice :: "string \<Rightarrow> int \<Rightarrow> db \<Rightarrow> operator_notice_id \<times> db" where
  "insert_notice body now d =
     (let i = Suc (seq_notices d) in
      (i, d\<lparr>notices := notices d @ [\<lparr>nt_id = i, nt_body = body, nt_created_at_ms = now,
             nt_acknowledged_at_ms = None\<rparr>], seq_notices := i\<rparr>))"

text \<open>
  A primary-key table of idempotency keys. The code of a primary-key violation is not the one
  \<open>map_constraint\<close> renames, so it stays an SQL failure.
\<close>

definition insert_key ::
  "string \<Rightarrow> durable_id \<Rightarrow> (string \<times> durable_id) list \<Rightarrow> store_error + (string \<times> durable_id) list" where
  "insert_key key v tab =
     rbind (ensure (map_of tab key = None) (Sql UniqueViolation)) (\<lambda>_. Inr (tab @ [(key, v)]))"

text \<open>A new incarnation numbers itself and, by the trigger, brings its agent back from the archive.\<close>

definition insert_incarnation :: "incarnation_row \<Rightarrow> db \<Rightarrow> store_error + (incarnation_id \<times> db)" where
  "insert_incarnation row d =
     (let i = Suc (seq_incarnations d) in
      rbind (ensure (agent_exists d (in_agent row)) (Sql ForeignKey)) (\<lambda>_.
        Inr (i, d\<lparr>incarnations := incarnations d @ [row\<lparr>in_id := i\<rparr>], seq_incarnations := i,
                 agents := update_rows (\<lambda>r. la_id r = in_agent row \<and> la_archived_at_ms r \<noteq> None)
                             (\<lambda>r. r\<lparr>la_archived_at_ms := None\<rparr>) (agents d)\<rparr>)))"

section \<open>Shared selections\<close>

definition find_agent :: "db \<Rightarrow> logical_agent_id \<Rightarrow> agent_row option" where
  "find_agent d a = find_row (\<lambda>r. la_id r = a) (agents d)"

definition find_message :: "db \<Rightarrow> message_id \<Rightarrow> message_row option" where
  "find_message d m = find_row (\<lambda>r. ms_id r = m) (messages d)"

definition find_obligation :: "db \<Rightarrow> message_id \<Rightarrow> obligation_row option" where
  "find_obligation d ask = find_row (\<lambda>r. ob_ask r = ask) (obligations d)"

definition find_operation :: "db \<Rightarrow> operation_id \<Rightarrow> operation_row option" where
  "find_operation d i = find_row (\<lambda>r. op_id r = i) (operations d)"

definition ob_unsettled :: "obligation_state \<Rightarrow> bool" where
  "ob_unsettled s \<longleftrightarrow> s = ObOpen \<or> s = ObInProgress"

section \<open>Update statements\<close>

text \<open>
  \<open>UPDATE t SET f WHERE p\<close> on each table the operations update, with the reading of every
  table and sequence after it.
\<close>

definition upd_agents :: "(agent_row \<Rightarrow> bool) \<Rightarrow> (agent_row \<Rightarrow> agent_row) \<Rightarrow> db \<Rightarrow> db" where
  "upd_agents p f d = d\<lparr>agents := update_rows p f (agents d)\<rparr>"

lemma upd_agents_frame [simp]:
  "agents (upd_agents p f d) = update_rows p f (agents d)"
  "incarnations (upd_agents p f d) = incarnations d"
  "operations (upd_agents p f d) = operations d"
  "attempts (upd_agents p f d) = attempts d"
  "notices (upd_agents p f d) = notices d"
  "messages (upd_agents p f d) = messages d"
  "obligations (upd_agents p f d) = obligations d"
  "deliveries (upd_agents p f d) = deliveries d"
  "reminders (upd_agents p f d) = reminders d"
  "reminder_attempts (upd_agents p f d) = reminder_attempts d"
  "schedules (upd_agents p f d) = schedules d"
  "firings (upd_agents p f d) = firings d"
  "renews (upd_agents p f d) = renews d"
  "renew_attempts (upd_agents p f d) = renew_attempts d"
  "leases (upd_agents p f d) = leases d"
  "waiter_keys (upd_agents p f d) = waiter_keys d"
  "inbox_keys (upd_agents p f d) = inbox_keys d"
  "pull_keys (upd_agents p f d) = pull_keys d"
  "seq_agents (upd_agents p f d) = seq_agents d"
  "seq_incarnations (upd_agents p f d) = seq_incarnations d"
  "seq_operations (upd_agents p f d) = seq_operations d"
  "seq_notices (upd_agents p f d) = seq_notices d"
  "seq_messages (upd_agents p f d) = seq_messages d"
  "seq_leases (upd_agents p f d) = seq_leases d"
  "seq_reminder_attempts (upd_agents p f d) = seq_reminder_attempts d"
  "seq_schedules (upd_agents p f d) = seq_schedules d"
  "seq_renews (upd_agents p f d) = seq_renews d"
  "seq_renew_attempts (upd_agents p f d) = seq_renew_attempts d"
  by (simp_all add: upd_agents_def)

definition upd_incarnations :: "(incarnation_row \<Rightarrow> bool) \<Rightarrow> (incarnation_row \<Rightarrow> incarnation_row) \<Rightarrow> db \<Rightarrow> db" where
  "upd_incarnations p f d = d\<lparr>incarnations := update_rows p f (incarnations d)\<rparr>"

lemma upd_incarnations_frame [simp]:
  "incarnations (upd_incarnations p f d) = update_rows p f (incarnations d)"
  "agents (upd_incarnations p f d) = agents d"
  "operations (upd_incarnations p f d) = operations d"
  "attempts (upd_incarnations p f d) = attempts d"
  "notices (upd_incarnations p f d) = notices d"
  "messages (upd_incarnations p f d) = messages d"
  "obligations (upd_incarnations p f d) = obligations d"
  "deliveries (upd_incarnations p f d) = deliveries d"
  "reminders (upd_incarnations p f d) = reminders d"
  "reminder_attempts (upd_incarnations p f d) = reminder_attempts d"
  "schedules (upd_incarnations p f d) = schedules d"
  "firings (upd_incarnations p f d) = firings d"
  "renews (upd_incarnations p f d) = renews d"
  "renew_attempts (upd_incarnations p f d) = renew_attempts d"
  "leases (upd_incarnations p f d) = leases d"
  "waiter_keys (upd_incarnations p f d) = waiter_keys d"
  "inbox_keys (upd_incarnations p f d) = inbox_keys d"
  "pull_keys (upd_incarnations p f d) = pull_keys d"
  "seq_agents (upd_incarnations p f d) = seq_agents d"
  "seq_incarnations (upd_incarnations p f d) = seq_incarnations d"
  "seq_operations (upd_incarnations p f d) = seq_operations d"
  "seq_notices (upd_incarnations p f d) = seq_notices d"
  "seq_messages (upd_incarnations p f d) = seq_messages d"
  "seq_leases (upd_incarnations p f d) = seq_leases d"
  "seq_reminder_attempts (upd_incarnations p f d) = seq_reminder_attempts d"
  "seq_schedules (upd_incarnations p f d) = seq_schedules d"
  "seq_renews (upd_incarnations p f d) = seq_renews d"
  "seq_renew_attempts (upd_incarnations p f d) = seq_renew_attempts d"
  by (simp_all add: upd_incarnations_def)

definition upd_operations :: "(operation_row \<Rightarrow> bool) \<Rightarrow> (operation_row \<Rightarrow> operation_row) \<Rightarrow> db \<Rightarrow> db" where
  "upd_operations p f d = d\<lparr>operations := update_rows p f (operations d)\<rparr>"

lemma upd_operations_frame [simp]:
  "operations (upd_operations p f d) = update_rows p f (operations d)"
  "agents (upd_operations p f d) = agents d"
  "incarnations (upd_operations p f d) = incarnations d"
  "attempts (upd_operations p f d) = attempts d"
  "notices (upd_operations p f d) = notices d"
  "messages (upd_operations p f d) = messages d"
  "obligations (upd_operations p f d) = obligations d"
  "deliveries (upd_operations p f d) = deliveries d"
  "reminders (upd_operations p f d) = reminders d"
  "reminder_attempts (upd_operations p f d) = reminder_attempts d"
  "schedules (upd_operations p f d) = schedules d"
  "firings (upd_operations p f d) = firings d"
  "renews (upd_operations p f d) = renews d"
  "renew_attempts (upd_operations p f d) = renew_attempts d"
  "leases (upd_operations p f d) = leases d"
  "waiter_keys (upd_operations p f d) = waiter_keys d"
  "inbox_keys (upd_operations p f d) = inbox_keys d"
  "pull_keys (upd_operations p f d) = pull_keys d"
  "seq_agents (upd_operations p f d) = seq_agents d"
  "seq_incarnations (upd_operations p f d) = seq_incarnations d"
  "seq_operations (upd_operations p f d) = seq_operations d"
  "seq_notices (upd_operations p f d) = seq_notices d"
  "seq_messages (upd_operations p f d) = seq_messages d"
  "seq_leases (upd_operations p f d) = seq_leases d"
  "seq_reminder_attempts (upd_operations p f d) = seq_reminder_attempts d"
  "seq_schedules (upd_operations p f d) = seq_schedules d"
  "seq_renews (upd_operations p f d) = seq_renews d"
  "seq_renew_attempts (upd_operations p f d) = seq_renew_attempts d"
  by (simp_all add: upd_operations_def)

definition upd_attempts :: "(attempt_row \<Rightarrow> bool) \<Rightarrow> (attempt_row \<Rightarrow> attempt_row) \<Rightarrow> db \<Rightarrow> db" where
  "upd_attempts p f d = d\<lparr>attempts := update_rows p f (attempts d)\<rparr>"

lemma upd_attempts_frame [simp]:
  "attempts (upd_attempts p f d) = update_rows p f (attempts d)"
  "agents (upd_attempts p f d) = agents d"
  "incarnations (upd_attempts p f d) = incarnations d"
  "operations (upd_attempts p f d) = operations d"
  "notices (upd_attempts p f d) = notices d"
  "messages (upd_attempts p f d) = messages d"
  "obligations (upd_attempts p f d) = obligations d"
  "deliveries (upd_attempts p f d) = deliveries d"
  "reminders (upd_attempts p f d) = reminders d"
  "reminder_attempts (upd_attempts p f d) = reminder_attempts d"
  "schedules (upd_attempts p f d) = schedules d"
  "firings (upd_attempts p f d) = firings d"
  "renews (upd_attempts p f d) = renews d"
  "renew_attempts (upd_attempts p f d) = renew_attempts d"
  "leases (upd_attempts p f d) = leases d"
  "waiter_keys (upd_attempts p f d) = waiter_keys d"
  "inbox_keys (upd_attempts p f d) = inbox_keys d"
  "pull_keys (upd_attempts p f d) = pull_keys d"
  "seq_agents (upd_attempts p f d) = seq_agents d"
  "seq_incarnations (upd_attempts p f d) = seq_incarnations d"
  "seq_operations (upd_attempts p f d) = seq_operations d"
  "seq_notices (upd_attempts p f d) = seq_notices d"
  "seq_messages (upd_attempts p f d) = seq_messages d"
  "seq_leases (upd_attempts p f d) = seq_leases d"
  "seq_reminder_attempts (upd_attempts p f d) = seq_reminder_attempts d"
  "seq_schedules (upd_attempts p f d) = seq_schedules d"
  "seq_renews (upd_attempts p f d) = seq_renews d"
  "seq_renew_attempts (upd_attempts p f d) = seq_renew_attempts d"
  by (simp_all add: upd_attempts_def)

definition upd_obligations :: "(obligation_row \<Rightarrow> bool) \<Rightarrow> (obligation_row \<Rightarrow> obligation_row) \<Rightarrow> db \<Rightarrow> db" where
  "upd_obligations p f d = d\<lparr>obligations := update_rows p f (obligations d)\<rparr>"

lemma upd_obligations_frame [simp]:
  "obligations (upd_obligations p f d) = update_rows p f (obligations d)"
  "agents (upd_obligations p f d) = agents d"
  "incarnations (upd_obligations p f d) = incarnations d"
  "operations (upd_obligations p f d) = operations d"
  "attempts (upd_obligations p f d) = attempts d"
  "notices (upd_obligations p f d) = notices d"
  "messages (upd_obligations p f d) = messages d"
  "deliveries (upd_obligations p f d) = deliveries d"
  "reminders (upd_obligations p f d) = reminders d"
  "reminder_attempts (upd_obligations p f d) = reminder_attempts d"
  "schedules (upd_obligations p f d) = schedules d"
  "firings (upd_obligations p f d) = firings d"
  "renews (upd_obligations p f d) = renews d"
  "renew_attempts (upd_obligations p f d) = renew_attempts d"
  "leases (upd_obligations p f d) = leases d"
  "waiter_keys (upd_obligations p f d) = waiter_keys d"
  "inbox_keys (upd_obligations p f d) = inbox_keys d"
  "pull_keys (upd_obligations p f d) = pull_keys d"
  "seq_agents (upd_obligations p f d) = seq_agents d"
  "seq_incarnations (upd_obligations p f d) = seq_incarnations d"
  "seq_operations (upd_obligations p f d) = seq_operations d"
  "seq_notices (upd_obligations p f d) = seq_notices d"
  "seq_messages (upd_obligations p f d) = seq_messages d"
  "seq_leases (upd_obligations p f d) = seq_leases d"
  "seq_reminder_attempts (upd_obligations p f d) = seq_reminder_attempts d"
  "seq_schedules (upd_obligations p f d) = seq_schedules d"
  "seq_renews (upd_obligations p f d) = seq_renews d"
  "seq_renew_attempts (upd_obligations p f d) = seq_renew_attempts d"
  by (simp_all add: upd_obligations_def)

definition upd_deliveries :: "(delivery_row \<Rightarrow> bool) \<Rightarrow> (delivery_row \<Rightarrow> delivery_row) \<Rightarrow> db \<Rightarrow> db" where
  "upd_deliveries p f d = d\<lparr>deliveries := update_rows p f (deliveries d)\<rparr>"

lemma upd_deliveries_frame [simp]:
  "deliveries (upd_deliveries p f d) = update_rows p f (deliveries d)"
  "agents (upd_deliveries p f d) = agents d"
  "incarnations (upd_deliveries p f d) = incarnations d"
  "operations (upd_deliveries p f d) = operations d"
  "attempts (upd_deliveries p f d) = attempts d"
  "notices (upd_deliveries p f d) = notices d"
  "messages (upd_deliveries p f d) = messages d"
  "obligations (upd_deliveries p f d) = obligations d"
  "reminders (upd_deliveries p f d) = reminders d"
  "reminder_attempts (upd_deliveries p f d) = reminder_attempts d"
  "schedules (upd_deliveries p f d) = schedules d"
  "firings (upd_deliveries p f d) = firings d"
  "renews (upd_deliveries p f d) = renews d"
  "renew_attempts (upd_deliveries p f d) = renew_attempts d"
  "leases (upd_deliveries p f d) = leases d"
  "waiter_keys (upd_deliveries p f d) = waiter_keys d"
  "inbox_keys (upd_deliveries p f d) = inbox_keys d"
  "pull_keys (upd_deliveries p f d) = pull_keys d"
  "seq_agents (upd_deliveries p f d) = seq_agents d"
  "seq_incarnations (upd_deliveries p f d) = seq_incarnations d"
  "seq_operations (upd_deliveries p f d) = seq_operations d"
  "seq_notices (upd_deliveries p f d) = seq_notices d"
  "seq_messages (upd_deliveries p f d) = seq_messages d"
  "seq_leases (upd_deliveries p f d) = seq_leases d"
  "seq_reminder_attempts (upd_deliveries p f d) = seq_reminder_attempts d"
  "seq_schedules (upd_deliveries p f d) = seq_schedules d"
  "seq_renews (upd_deliveries p f d) = seq_renews d"
  "seq_renew_attempts (upd_deliveries p f d) = seq_renew_attempts d"
  by (simp_all add: upd_deliveries_def)

definition upd_reminders :: "(reminder_row \<Rightarrow> bool) \<Rightarrow> (reminder_row \<Rightarrow> reminder_row) \<Rightarrow> db \<Rightarrow> db" where
  "upd_reminders p f d = d\<lparr>reminders := update_rows p f (reminders d)\<rparr>"

lemma upd_reminders_frame [simp]:
  "reminders (upd_reminders p f d) = update_rows p f (reminders d)"
  "agents (upd_reminders p f d) = agents d"
  "incarnations (upd_reminders p f d) = incarnations d"
  "operations (upd_reminders p f d) = operations d"
  "attempts (upd_reminders p f d) = attempts d"
  "notices (upd_reminders p f d) = notices d"
  "messages (upd_reminders p f d) = messages d"
  "obligations (upd_reminders p f d) = obligations d"
  "deliveries (upd_reminders p f d) = deliveries d"
  "reminder_attempts (upd_reminders p f d) = reminder_attempts d"
  "schedules (upd_reminders p f d) = schedules d"
  "firings (upd_reminders p f d) = firings d"
  "renews (upd_reminders p f d) = renews d"
  "renew_attempts (upd_reminders p f d) = renew_attempts d"
  "leases (upd_reminders p f d) = leases d"
  "waiter_keys (upd_reminders p f d) = waiter_keys d"
  "inbox_keys (upd_reminders p f d) = inbox_keys d"
  "pull_keys (upd_reminders p f d) = pull_keys d"
  "seq_agents (upd_reminders p f d) = seq_agents d"
  "seq_incarnations (upd_reminders p f d) = seq_incarnations d"
  "seq_operations (upd_reminders p f d) = seq_operations d"
  "seq_notices (upd_reminders p f d) = seq_notices d"
  "seq_messages (upd_reminders p f d) = seq_messages d"
  "seq_leases (upd_reminders p f d) = seq_leases d"
  "seq_reminder_attempts (upd_reminders p f d) = seq_reminder_attempts d"
  "seq_schedules (upd_reminders p f d) = seq_schedules d"
  "seq_renews (upd_reminders p f d) = seq_renews d"
  "seq_renew_attempts (upd_reminders p f d) = seq_renew_attempts d"
  by (simp_all add: upd_reminders_def)

definition upd_reminder_attempts :: "(reminder_attempt_row \<Rightarrow> bool) \<Rightarrow> (reminder_attempt_row \<Rightarrow> reminder_attempt_row) \<Rightarrow> db \<Rightarrow> db" where
  "upd_reminder_attempts p f d = d\<lparr>reminder_attempts := update_rows p f (reminder_attempts d)\<rparr>"

lemma upd_reminder_attempts_frame [simp]:
  "reminder_attempts (upd_reminder_attempts p f d) = update_rows p f (reminder_attempts d)"
  "agents (upd_reminder_attempts p f d) = agents d"
  "incarnations (upd_reminder_attempts p f d) = incarnations d"
  "operations (upd_reminder_attempts p f d) = operations d"
  "attempts (upd_reminder_attempts p f d) = attempts d"
  "notices (upd_reminder_attempts p f d) = notices d"
  "messages (upd_reminder_attempts p f d) = messages d"
  "obligations (upd_reminder_attempts p f d) = obligations d"
  "deliveries (upd_reminder_attempts p f d) = deliveries d"
  "reminders (upd_reminder_attempts p f d) = reminders d"
  "schedules (upd_reminder_attempts p f d) = schedules d"
  "firings (upd_reminder_attempts p f d) = firings d"
  "renews (upd_reminder_attempts p f d) = renews d"
  "renew_attempts (upd_reminder_attempts p f d) = renew_attempts d"
  "leases (upd_reminder_attempts p f d) = leases d"
  "waiter_keys (upd_reminder_attempts p f d) = waiter_keys d"
  "inbox_keys (upd_reminder_attempts p f d) = inbox_keys d"
  "pull_keys (upd_reminder_attempts p f d) = pull_keys d"
  "seq_agents (upd_reminder_attempts p f d) = seq_agents d"
  "seq_incarnations (upd_reminder_attempts p f d) = seq_incarnations d"
  "seq_operations (upd_reminder_attempts p f d) = seq_operations d"
  "seq_notices (upd_reminder_attempts p f d) = seq_notices d"
  "seq_messages (upd_reminder_attempts p f d) = seq_messages d"
  "seq_leases (upd_reminder_attempts p f d) = seq_leases d"
  "seq_reminder_attempts (upd_reminder_attempts p f d) = seq_reminder_attempts d"
  "seq_schedules (upd_reminder_attempts p f d) = seq_schedules d"
  "seq_renews (upd_reminder_attempts p f d) = seq_renews d"
  "seq_renew_attempts (upd_reminder_attempts p f d) = seq_renew_attempts d"
  by (simp_all add: upd_reminder_attempts_def)

definition upd_schedules :: "(schedule_row \<Rightarrow> bool) \<Rightarrow> (schedule_row \<Rightarrow> schedule_row) \<Rightarrow> db \<Rightarrow> db" where
  "upd_schedules p f d = d\<lparr>schedules := update_rows p f (schedules d)\<rparr>"

lemma upd_schedules_frame [simp]:
  "schedules (upd_schedules p f d) = update_rows p f (schedules d)"
  "agents (upd_schedules p f d) = agents d"
  "incarnations (upd_schedules p f d) = incarnations d"
  "operations (upd_schedules p f d) = operations d"
  "attempts (upd_schedules p f d) = attempts d"
  "notices (upd_schedules p f d) = notices d"
  "messages (upd_schedules p f d) = messages d"
  "obligations (upd_schedules p f d) = obligations d"
  "deliveries (upd_schedules p f d) = deliveries d"
  "reminders (upd_schedules p f d) = reminders d"
  "reminder_attempts (upd_schedules p f d) = reminder_attempts d"
  "firings (upd_schedules p f d) = firings d"
  "renews (upd_schedules p f d) = renews d"
  "renew_attempts (upd_schedules p f d) = renew_attempts d"
  "leases (upd_schedules p f d) = leases d"
  "waiter_keys (upd_schedules p f d) = waiter_keys d"
  "inbox_keys (upd_schedules p f d) = inbox_keys d"
  "pull_keys (upd_schedules p f d) = pull_keys d"
  "seq_agents (upd_schedules p f d) = seq_agents d"
  "seq_incarnations (upd_schedules p f d) = seq_incarnations d"
  "seq_operations (upd_schedules p f d) = seq_operations d"
  "seq_notices (upd_schedules p f d) = seq_notices d"
  "seq_messages (upd_schedules p f d) = seq_messages d"
  "seq_leases (upd_schedules p f d) = seq_leases d"
  "seq_reminder_attempts (upd_schedules p f d) = seq_reminder_attempts d"
  "seq_schedules (upd_schedules p f d) = seq_schedules d"
  "seq_renews (upd_schedules p f d) = seq_renews d"
  "seq_renew_attempts (upd_schedules p f d) = seq_renew_attempts d"
  by (simp_all add: upd_schedules_def)

definition upd_renews :: "(renew_row \<Rightarrow> bool) \<Rightarrow> (renew_row \<Rightarrow> renew_row) \<Rightarrow> db \<Rightarrow> db" where
  "upd_renews p f d = d\<lparr>renews := update_rows p f (renews d)\<rparr>"

lemma upd_renews_frame [simp]:
  "renews (upd_renews p f d) = update_rows p f (renews d)"
  "agents (upd_renews p f d) = agents d"
  "incarnations (upd_renews p f d) = incarnations d"
  "operations (upd_renews p f d) = operations d"
  "attempts (upd_renews p f d) = attempts d"
  "notices (upd_renews p f d) = notices d"
  "messages (upd_renews p f d) = messages d"
  "obligations (upd_renews p f d) = obligations d"
  "deliveries (upd_renews p f d) = deliveries d"
  "reminders (upd_renews p f d) = reminders d"
  "reminder_attempts (upd_renews p f d) = reminder_attempts d"
  "schedules (upd_renews p f d) = schedules d"
  "firings (upd_renews p f d) = firings d"
  "renew_attempts (upd_renews p f d) = renew_attempts d"
  "leases (upd_renews p f d) = leases d"
  "waiter_keys (upd_renews p f d) = waiter_keys d"
  "inbox_keys (upd_renews p f d) = inbox_keys d"
  "pull_keys (upd_renews p f d) = pull_keys d"
  "seq_agents (upd_renews p f d) = seq_agents d"
  "seq_incarnations (upd_renews p f d) = seq_incarnations d"
  "seq_operations (upd_renews p f d) = seq_operations d"
  "seq_notices (upd_renews p f d) = seq_notices d"
  "seq_messages (upd_renews p f d) = seq_messages d"
  "seq_leases (upd_renews p f d) = seq_leases d"
  "seq_reminder_attempts (upd_renews p f d) = seq_reminder_attempts d"
  "seq_schedules (upd_renews p f d) = seq_schedules d"
  "seq_renews (upd_renews p f d) = seq_renews d"
  "seq_renew_attempts (upd_renews p f d) = seq_renew_attempts d"
  by (simp_all add: upd_renews_def)

definition upd_renew_attempts :: "(renew_attempt_row \<Rightarrow> bool) \<Rightarrow> (renew_attempt_row \<Rightarrow> renew_attempt_row) \<Rightarrow> db \<Rightarrow> db" where
  "upd_renew_attempts p f d = d\<lparr>renew_attempts := update_rows p f (renew_attempts d)\<rparr>"

lemma upd_renew_attempts_frame [simp]:
  "renew_attempts (upd_renew_attempts p f d) = update_rows p f (renew_attempts d)"
  "agents (upd_renew_attempts p f d) = agents d"
  "incarnations (upd_renew_attempts p f d) = incarnations d"
  "operations (upd_renew_attempts p f d) = operations d"
  "attempts (upd_renew_attempts p f d) = attempts d"
  "notices (upd_renew_attempts p f d) = notices d"
  "messages (upd_renew_attempts p f d) = messages d"
  "obligations (upd_renew_attempts p f d) = obligations d"
  "deliveries (upd_renew_attempts p f d) = deliveries d"
  "reminders (upd_renew_attempts p f d) = reminders d"
  "reminder_attempts (upd_renew_attempts p f d) = reminder_attempts d"
  "schedules (upd_renew_attempts p f d) = schedules d"
  "firings (upd_renew_attempts p f d) = firings d"
  "renews (upd_renew_attempts p f d) = renews d"
  "leases (upd_renew_attempts p f d) = leases d"
  "waiter_keys (upd_renew_attempts p f d) = waiter_keys d"
  "inbox_keys (upd_renew_attempts p f d) = inbox_keys d"
  "pull_keys (upd_renew_attempts p f d) = pull_keys d"
  "seq_agents (upd_renew_attempts p f d) = seq_agents d"
  "seq_incarnations (upd_renew_attempts p f d) = seq_incarnations d"
  "seq_operations (upd_renew_attempts p f d) = seq_operations d"
  "seq_notices (upd_renew_attempts p f d) = seq_notices d"
  "seq_messages (upd_renew_attempts p f d) = seq_messages d"
  "seq_leases (upd_renew_attempts p f d) = seq_leases d"
  "seq_reminder_attempts (upd_renew_attempts p f d) = seq_reminder_attempts d"
  "seq_schedules (upd_renew_attempts p f d) = seq_schedules d"
  "seq_renews (upd_renew_attempts p f d) = seq_renews d"
  "seq_renew_attempts (upd_renew_attempts p f d) = seq_renew_attempts d"
  by (simp_all add: upd_renew_attempts_def)

end
