(* ===== verification/Names.thy ===== *)
theory Names
  imports Prelude
begin

text \<open>
  Public names: \<open>src/src/name.rs\<close>. The grammar check, the sanitizer, and the derivation
  of a free name for an unnamed occupant from its working directory and pane.
\<close>

definition HERDR_NAME_MAX :: nat where "HERDR_NAME_MAX = 32"

datatype name_error =
  CannotDeriveName          \<comment> \<open>cannot derive a Herdr-legal public name\<close>
| CannotDeriveSuffix        \<comment> \<open>cannot derive a stable pane suffix for a colliding name\<close>
| SuffixDoesNotFit          \<comment> \<open>colliding name cannot fit a pane suffix within 32 characters\<close>
| DerivedNameTaken string   \<comment> \<open>derived name {candidate} is already used\<close>
| NoCwdAlias                \<comment> \<open>cannot derive a Herdr-legal name from the working directory\<close>

definition is_ascii_lowercase :: "char \<Rightarrow> bool" where
  "is_ascii_lowercase c \<longleftrightarrow> 97 \<le> byte_of c \<and> byte_of c \<le> 122"

definition is_ascii_uppercase :: "char \<Rightarrow> bool" where
  "is_ascii_uppercase c \<longleftrightarrow> 65 \<le> byte_of c \<and> byte_of c \<le> 90"

definition to_ascii_lowercase :: "char \<Rightarrow> char" where
  "to_ascii_lowercase c = (if is_ascii_uppercase c then char_of (byte_of c + 32) else c)"

text \<open>\<open>is_ascii_whitespace\<close>: space, tab, line feed, form feed, carriage return.\<close>

definition is_ascii_whitespace :: "char \<Rightarrow> bool" where
  "is_ascii_whitespace c \<longleftrightarrow> byte_of c \<in> {32, 9, 10, 12, 13}"

definition name_char :: "char \<Rightarrow> bool" where
  "name_char c \<longleftrightarrow> is_ascii_lowercase c \<or> is_ascii_digit c \<or> c = CHR ''-'' \<or> c = CHR ''_''"

definition valid_herdr_name :: "string \<Rightarrow> bool" where
  "valid_herdr_name name \<longleftrightarrow>
     (case name of [] \<Rightarrow> False | c # cs \<Rightarrow>
        is_ascii_lowercase c \<and> length name \<le> HERDR_NAME_MAX \<and> list_all name_char cs)"

text \<open>One character of the sanitizer's loop, and the loop with its output \<open>out\<close>.\<close>

definition sanitize_char :: "char \<Rightarrow> char option" where
  "sanitize_char ch =
     (if is_ascii_uppercase ch then Some (to_ascii_lowercase ch)
      else if name_char ch then Some ch
      else if is_ascii_whitespace ch \<or> ch = CHR ''.'' \<or> ch = CHR '':'' \<or> ch = CHR ''/''
      then Some (CHR ''-'')
      else None)"

definition ends_with_dash :: "string \<Rightarrow> bool" where
  "ends_with_dash out \<longleftrightarrow> out \<noteq> [] \<and> last out = CHR ''-''"

fun sanitize_loop :: "string \<Rightarrow> string \<Rightarrow> string" where
  "sanitize_loop out [] = out"
| "sanitize_loop out (ch # rest) =
     (case sanitize_char ch of
        None \<Rightarrow> sanitize_loop out rest
      | Some c \<Rightarrow>
          if c = CHR ''-'' \<and> ends_with_dash out then sanitize_loop out rest
          else sanitize_loop (out @ [c]) rest)"

text \<open>The two trimming loops: leading characters up to a letter, trailing dashes and underscores.\<close>

definition strip_leading :: "string \<Rightarrow> string" where
  "strip_leading out = dropWhile (\<lambda>c. \<not> is_ascii_lowercase c) out"

definition strip_trailing :: "string \<Rightarrow> string" where
  "strip_trailing out = rev (dropWhile (\<lambda>c. c = CHR ''-'' \<or> c = CHR ''_'') (rev out))"

definition sanitize_herdr_name :: "string \<Rightarrow> string option" where
  "sanitize_herdr_name raw =
     (let out = strip_trailing (strip_leading (sanitize_loop [] raw)) in
      if out = [] then None
      else let out = take HERDR_NAME_MAX out in
           if valid_herdr_name out then Some out else None)"

text \<open>
  \<open>Path::file_name\<close> on a Unix path: empty components and non-leading \<open>.\<close>
  components are normalised away, and a path whose last component is the root, \<open>.\<close> or
  \<open>..\<close> has no file name.
\<close>

fun split_slash :: "string \<Rightarrow> string \<Rightarrow> string list" where
  "split_slash acc [] = [acc]"
| "split_slash acc (c # cs) =
     (if c = CHR ''/'' then acc # split_slash [] cs else split_slash (acc @ [c]) cs)"

definition file_name :: "string \<Rightarrow> string option" where
  "file_name path =
     (case rev (filter (\<lambda>c. c \<noteq> [] \<and> c \<noteq> ''.'') (split_slash [] path)) of
        [] \<Rightarrow> None | c # _ \<Rightarrow> if c = ''..'' then None else Some c)"

definition basename_candidate :: "string \<Rightarrow> string option" where
  "basename_candidate working_directory =
     Option.bind (file_name working_directory) sanitize_herdr_name"

definition fit_suffixed_name :: "string \<Rightarrow> string \<Rightarrow> string option" where
  "fit_suffixed_name base suffix =
     (let needed = length suffix + 1 in
      if needed \<ge> HERDR_NAME_MAX then sanitize_herdr_name suffix
      else let keep = HERDR_NAME_MAX - needed in
        if keep = 0 then None
        else let stem = strip_trailing (take keep base) in
          if stem = [] then None
          else let name = stem @ ''-'' @ suffix in
               if valid_herdr_name name then Some name else None)"

text \<open>\<open>pane_id.replace(':', "")\<close>\<close>

definition pane_text :: "string \<Rightarrow> string" where
  "pane_text pane_id = filter (\<lambda>c. c \<noteq> CHR '':'') pane_id"

definition aligned_live_name :: "string \<Rightarrow> string \<Rightarrow> string list \<Rightarrow> name_error + string" where
  "aligned_live_name working_directory pane_id taken =
     rbind (ok_or CannotDeriveName
              (case basename_candidate working_directory of
                 Some b \<Rightarrow> Some b | None \<Rightarrow> sanitize_herdr_name (pane_text pane_id)))
       (\<lambda>base.
          if base \<notin> set taken then Inr base
          else rbind (ok_or CannotDeriveSuffix (sanitize_herdr_name (pane_text pane_id)))
            (\<lambda>suffix. rbind (ok_or SuffixDoesNotFit (fit_suffixed_name base suffix))
              (\<lambda>candidate. if candidate \<in> set taken then Inl (DerivedNameTaken candidate)
                           else Inr candidate)))"

definition canonical_cwd_alias :: "string \<Rightarrow> name_error + string" where
  "canonical_cwd_alias working_directory =
     ok_or NoCwdAlias (basename_candidate working_directory)"

section \<open>Properties\<close>

lemma byte_of_dash [simp]: "byte_of (CHR ''-'') = 45" "byte_of (CHR ''_'') = 95"
  by (simp_all add: byte_of_def)

lemma lowercase_not_dash: "is_ascii_lowercase c \<Longrightarrow> c \<noteq> CHR ''-'' \<and> c \<noteq> CHR ''_''"
  by (auto simp: is_ascii_lowercase_def)

lemma lowercase_not_uppercase: "is_ascii_lowercase c \<Longrightarrow> \<not> is_ascii_uppercase c"
  by (simp add: is_ascii_lowercase_def is_ascii_uppercase_def)

lemma name_char_not_uppercase: "name_char c \<Longrightarrow> \<not> is_ascii_uppercase c"
  by (auto simp: name_char_def is_ascii_lowercase_def is_ascii_uppercase_def is_ascii_digit_def)

lemma to_ascii_lowercase_lower: "is_ascii_uppercase c \<Longrightarrow> is_ascii_lowercase (to_ascii_lowercase c)"
  by (simp add: is_ascii_uppercase_def to_ascii_lowercase_def is_ascii_lowercase_def byte_of_def)

lemma sanitize_char_name_char: "sanitize_char ch = Some c \<Longrightarrow> name_char c"
  by (auto simp: sanitize_char_def name_char_def split: if_splits dest: to_ascii_lowercase_lower)

lemma sanitize_char_id: "name_char c \<Longrightarrow> sanitize_char c = Some c"
  by (simp add: sanitize_char_def name_char_not_uppercase)

lemma sanitize_loop_name_chars:
  "list_all name_char out \<Longrightarrow> list_all name_char (sanitize_loop out raw)"
  by (induction out raw rule: sanitize_loop.induct)
     (auto split: option.splits dest: sanitize_char_name_char)

lemma list_all_dropWhile: "list_all P xs \<Longrightarrow> list_all P (dropWhile Q xs)"
  by (induction xs) auto

lemma list_all_take: "list_all P xs \<Longrightarrow> list_all P (take n xs)"
  by (auto simp: list_all_iff dest: in_set_takeD)

lemma list_all_strip_leading: "list_all P xs \<Longrightarrow> list_all P (strip_leading xs)"
  by (simp add: strip_leading_def list_all_dropWhile)

lemma list_all_strip_trailing: "list_all P xs \<Longrightarrow> list_all P (strip_trailing xs)"
  using list_all_dropWhile [of P "rev xs"] by (simp add: strip_trailing_def)

lemma dropWhile_last: "xs \<noteq> [] \<Longrightarrow> \<not> p (last xs) \<Longrightarrow> dropWhile p xs \<noteq> [] \<and> last (dropWhile p xs) = last xs"
  by (induction xs) (auto simp: dropWhile_eq_Nil_conv)

lemma hd_strip_trailing:
  assumes "xs \<noteq> []" and "is_ascii_lowercase (hd xs)"
  shows "strip_trailing xs \<noteq> [] \<and> hd (strip_trailing xs) = hd xs"
proof -
  let ?p = "\<lambda>c. c = CHR ''-'' \<or> c = CHR ''_''"
  have "rev xs \<noteq> []" "\<not> ?p (last (rev xs))"
    using assms lowercase_not_dash by (auto simp: last_rev)
  from dropWhile_last [of "rev xs" ?p, OF this] assms(1) show ?thesis
    by (simp add: strip_trailing_def hd_rev last_rev)
qed

lemma strip_leading_hd: "strip_leading xs \<noteq> [] \<Longrightarrow> is_ascii_lowercase (hd (strip_leading xs))"
  using hd_dropWhile [of "\<lambda>c. \<not> is_ascii_lowercase c" xs] by (simp add: strip_leading_def)

lemma strip_leading_lower: "xs \<noteq> [] \<Longrightarrow> is_ascii_lowercase (hd xs) \<Longrightarrow> strip_leading xs = xs"
  by (cases xs) (simp_all add: strip_leading_def)

lemma valid_herdr_nameD:
  assumes "valid_herdr_name s"
  shows "s \<noteq> []" "is_ascii_lowercase (hd s)" "length s \<le> HERDR_NAME_MAX" "list_all name_char s"
  using assms by (auto simp: valid_herdr_name_def name_char_def split: list.splits)

lemma valid_herdr_nameI:
  "s \<noteq> [] \<Longrightarrow> is_ascii_lowercase (hd s) \<Longrightarrow> length s \<le> HERDR_NAME_MAX \<Longrightarrow> list_all name_char s
   \<Longrightarrow> valid_herdr_name s"
  by (cases s) (simp_all add: valid_herdr_name_def)

lemma sanitize_herdr_name_valid: "sanitize_herdr_name raw = Some n \<Longrightarrow> valid_herdr_name n"
  by (auto simp: sanitize_herdr_name_def Let_def split: if_splits)

text \<open>The final grammar check of the sanitizer never refuses: only an empty rest does.\<close>

lemma sanitize_herdr_name_None_iff:
  "sanitize_herdr_name raw = None \<longleftrightarrow>
     (\<forall>c \<in> set (sanitize_loop [] raw). \<not> is_ascii_lowercase c)"
proof -
  let ?l = "strip_leading (sanitize_loop [] raw)" and ?t = "strip_trailing (strip_leading (sanitize_loop [] raw))"
  have chars: "list_all name_char ?t"
    by (simp add: list_all_strip_leading list_all_strip_trailing sanitize_loop_name_chars)
  have hd: "?l \<noteq> [] \<Longrightarrow> ?t \<noteq> [] \<and> is_ascii_lowercase (hd ?t)"
    using hd_strip_trailing strip_leading_hd by metis
  have empty: "?t = [] \<longleftrightarrow> ?l = []" using hd by (auto simp: strip_trailing_def)
  have "?t \<noteq> [] \<Longrightarrow> valid_herdr_name (take HERDR_NAME_MAX ?t)"
    using chars hd empty
    by (intro valid_herdr_nameI) (auto simp: list_all_take HERDR_NAME_MAX_def)
  then have "sanitize_herdr_name raw = None \<longleftrightarrow> ?l = []"
    by (auto simp: sanitize_herdr_name_def Let_def empty)
  then show ?thesis by (auto simp: strip_leading_def dropWhile_eq_Nil_conv)
qed

lemma fit_suffixed_name_valid: "fit_suffixed_name base suffix = Some n \<Longrightarrow> valid_herdr_name n"
  by (auto simp: fit_suffixed_name_def Let_def split: if_splits dest: sanitize_herdr_name_valid)

lemma basename_candidate_valid: "basename_candidate wd = Some n \<Longrightarrow> valid_herdr_name n"
  by (auto simp: basename_candidate_def bind_eq_Some_conv dest: sanitize_herdr_name_valid)

text \<open>A legal suffix always fits: the derivation fails on a collision only when the candidate is taken.\<close>

lemma fit_suffixed_name_total:
  assumes b: "valid_herdr_name base" and s: "valid_herdr_name suffix"
  shows "\<exists>n. fit_suffixed_name base suffix = Some n"
proof (cases "length suffix + 1 \<ge> HERDR_NAME_MAX")
  case True
  from s have "list_all name_char suffix" "suffix \<noteq> []" "is_ascii_lowercase (hd suffix)"
    by (auto dest: valid_herdr_nameD)
  have loop: "list_all name_char xs \<Longrightarrow> c \<in> set out \<union> set xs \<Longrightarrow> is_ascii_lowercase c \<Longrightarrow>
      c \<in> set (sanitize_loop out xs)" for xs out c
    by (induction out xs rule: sanitize_loop.induct)
       (auto simp: sanitize_char_id dest: lowercase_not_dash)
  have "hd suffix \<in> set (sanitize_loop [] suffix)"
    using loop [of suffix "hd suffix" "[]"] valid_herdr_nameD [OF s] by simp
  with s have "sanitize_herdr_name suffix \<noteq> None"
    by (auto simp: sanitize_herdr_name_None_iff dest: valid_herdr_nameD)
  with True show ?thesis by (simp add: fit_suffixed_name_def)
next
  case False
  let ?keep = "HERDR_NAME_MAX - (length suffix + 1)"
  let ?stem = "strip_trailing (take ?keep base)"
  from False have keep: "0 < ?keep" by simp
  with b have "take ?keep base \<noteq> []" "is_ascii_lowercase (hd (take ?keep base))"
    by (auto dest: valid_herdr_nameD)
  then have stem: "?stem \<noteq> []" "is_ascii_lowercase (hd ?stem)"
    using hd_strip_trailing by metis+
  have "length ?stem \<le> ?keep"
    using length_dropWhile_le [of _ "rev (take ?keep base)"]
    by (simp add: strip_trailing_def min_def split: if_splits)
       (metis le_trans length_dropWhile_le length_rev length_take min.cobounded2 min.commute)
  then have len: "length (?stem @ ''-'' @ suffix) \<le> HERDR_NAME_MAX" using False by simp
  have chars: "list_all name_char (?stem @ ''-'' @ suffix)"
    using b s by (auto simp: list_all_strip_trailing list_all_take name_char_def [of "CHR ''-''"]
        dest: valid_herdr_nameD)
  have "valid_herdr_name (?stem @ ''-'' @ suffix)"
    using stem len chars by (intro valid_herdr_nameI) auto
  with False keep stem(1) show ?thesis by (simp add: fit_suffixed_name_def Let_def)
qed

corollary fit_suffixed_name_not_None:
  "valid_herdr_name b \<Longrightarrow> valid_herdr_name s \<Longrightarrow> fit_suffixed_name b s \<noteq> None"
  using fit_suffixed_name_total [of b s] by auto


end
