(* ===== verification/Identity.thy ===== *)
theory Identity
  imports Tables Names
begin

text \<open>
  The name and identity checks every store operation shares (the free functions at the end of
  \<open>src/src/store.rs\<close>): whether a logical agent is an active socket waiter, who holds a public
  name, which incarnation of an agent is Ready, and whether a party is present.
\<close>

definition active_waiter_row :: "agent_row \<Rightarrow> bool" where
  "active_waiter_row r \<longleftrightarrow> la_transport r = SocketInbox \<and> la_ended_at_ms r = None"

definition require_active_socket_waiter :: "logical_agent_id \<Rightarrow> db \<Rightarrow> store_error + unit" where
  "require_active_socket_waiter a d =
     (case find_agent d a of
        Some r \<Rightarrow> if active_waiter_row r then Inr () else Inl (Conflict (OnWaiter (NotActiveWaiter a)))
      | None \<Rightarrow> Inl (Conflict (OnWaiter (WaiterAbsent a))))"

definition refuse_name_held_by_socket_waiter :: "string \<Rightarrow> db \<Rightarrow> store_error + unit" where
  "refuse_name_held_by_socket_waiter name d =
     (case find_row (\<lambda>r. la_public_name r = name \<and> active_waiter_row r) (agents d) of
        Some r \<Rightarrow> Inl (Conflict (OnWaiter (NameHeldByWaiter (la_id r) name)))
      | None \<Rightarrow> Inr ())"

definition refuse_live_or_pending_alias :: "string \<Rightarrow> db \<Rightarrow> store_error + unit" where
  "refuse_live_or_pending_alias name d =
     (case find_row (\<lambda>i. in_state i \<in> {IStarting, IReady} \<and>
               exists_row (\<lambda>l. la_id l = in_agent i \<and> la_public_name l = name) (agents d))
             (incarnations d) of
        Some i \<Rightarrow> Inl (Conflict (OnWaiter (AliasBound name (in_id i))))
      | None \<Rightarrow>
          (case find_row (\<lambda>i. in_pending_rename i = Some name \<and> in_state i = IReady) (incarnations d) of
             Some i \<Rightarrow> Inl (Conflict (OnWaiter (AliasPendingRename name (in_id i))))
           | None \<Rightarrow> Inr ()))"

record waiter_identity_info =
  wi_transport :: delivery_transport
  wi_ended :: bool

definition waiter_identity :: "logical_agent_id \<Rightarrow> db \<Rightarrow> store_error + waiter_identity_info" where
  "waiter_identity a d =
     (case find_agent d a of
        None \<Rightarrow> Inl (Conflict (OnWaiter (WaitingAgentAbsent a)))
      | Some r \<Rightarrow> Inr \<lparr>wi_transport = la_transport r,
                       wi_ended = (la_transport r = SocketInbox \<and> la_ended_at_ms r \<noteq> None)\<rparr>)"

definition ready_incarnations :: "db \<Rightarrow> logical_agent_id \<Rightarrow> incarnation_id list" where
  "ready_incarnations d a =
     map in_id (filter (\<lambda>i. in_agent i = a \<and> in_state i = IReady) (incarnations d))"

definition optional_ready_incarnation ::
  "logical_agent_id \<Rightarrow> conflict \<Rightarrow> db \<Rightarrow> store_error + incarnation_id option" where
  "optional_ready_incarnation a ambiguous d =
     (case ready_incarnations d a of
        [] \<Rightarrow> Inr None | [i] \<Rightarrow> Inr (Some i) | _ \<Rightarrow> Inl (Conflict ambiguous))"

definition ready_incarnation_for_agent :: "logical_agent_id \<Rightarrow> db \<Rightarrow> store_error + incarnation_id" where
  "ready_incarnation_for_agent a d =
     (case ready_incarnations d a of
        [i] \<Rightarrow> Inr i
      | [] \<Rightarrow> Inl (Conflict (OnReply (NoReadyIncarnation a)))
      | _ \<Rightarrow> Inl (Conflict (OnReply (AmbiguousReady a))))"

definition agent_is_addressable :: "logical_agent_id \<Rightarrow> db \<Rightarrow> store_error + bool" where
  "agent_is_addressable a d =
     (case find_agent d a of
        None \<Rightarrow> Inl (Sql NoRows)
      | Some r \<Rightarrow> Inr (if la_transport r = SocketInbox then la_ended_at_ms r = None
                       else ready_incarnations d a \<noteq> []))"

definition delivery_transport_of :: "logical_agent_id \<Rightarrow> db \<Rightarrow> store_error + delivery_transport" where
  "delivery_transport_of a d = map_sum id la_transport (ok_or (Sql NoRows) (find_agent d a))"

lemma find_row_SomeD:
  "find_row p rs = Some r \<Longrightarrow> r \<in> set rs" "find_row p rs = Some r \<Longrightarrow> p r"
  by (auto dest: find_row_Some)

lemma require_active_socket_waiter_Inr:
  "require_active_socket_waiter a d = Inr u \<longleftrightarrow> (\<exists>r. find_agent d a = Some r \<and> active_waiter_row r)"
  by (auto simp: require_active_socket_waiter_def split: option.splits)

lemma require_active_socket_waiterD:
  "require_active_socket_waiter a d = Inr u \<Longrightarrow>
     \<exists>r \<in> set (agents d). la_id r = a \<and> active_waiter_row r"
  by (auto simp: require_active_socket_waiter_Inr find_agent_def dest: find_row_SomeD)

lemma refuse_name_held_by_socket_waiter_Inr:
  "refuse_name_held_by_socket_waiter name d = Inr u \<longleftrightarrow>
     (\<forall>r \<in> set (agents d). \<not> (la_public_name r = name \<and> active_waiter_row r))"
  by (auto simp: refuse_name_held_by_socket_waiter_def find_row_None split: option.splits
      dest: find_row_SomeD)

lemma ready_incarnation_for_agent_Inr:
  "ready_incarnation_for_agent a d = Inr i \<longleftrightarrow> ready_incarnations d a = [i]"
  by (auto simp: ready_incarnation_for_agent_def split: list.splits)

lemma optional_ready_incarnation_Inr:
  "optional_ready_incarnation a c d = Inr v \<longleftrightarrow>
     ready_incarnations d a = [] \<and> v = None \<or> (\<exists>i. ready_incarnations d a = [i] \<and> v = Some i)"
  by (auto simp: optional_ready_incarnation_def split: list.splits)

end
