(* ===== verification/Operations.thy ===== *)
theory Operations
  imports Identity
begin

text \<open>
  External operations and their attempts: the journal of \<open>src/src/store.rs\<close> around every
  Herdr request. An attempt is prepared, marked submitted immediately before the write, and then
  accepted, rejected or unknown; the deliveries of the operation follow it, and an accepted
  final reply resolves its obligation in the same transaction.
\<close>

record agent_observation =
  ao_terminal_id :: string
  ao_pane_id :: string
  ao_name :: "string option"
  ao_agent :: "string option"
  ao_interactive_ready :: bool
  ao_launch_pending :: bool
  ao_agent_session :: "string option"

definition max_attempt :: "db \<Rightarrow> operation_id \<Rightarrow> nat" where
  "max_attempt d oid =
     fold max (map at_number (filter (\<lambda>a. at_operation a = oid) (attempts d))) 0"

definition latest_attempt :: "db \<Rightarrow> operation_id \<Rightarrow> attempt_row \<Rightarrow> bool" where
  "latest_attempt d oid a \<longleftrightarrow> at_operation a = oid \<and> at_number a = max_attempt d oid"

definition begin_attempt ::
  "int \<Rightarrow> operation_id \<Rightarrow> incarnation_id \<Rightarrow> string \<Rightarrow> db \<Rightarrow> store_error + (nat \<times> db)" where
  "begin_attempt now oid inc request d =
     (let owner = map_option op_target
                    (find_row (\<lambda>r. op_id r = oid \<and> op_outcome r = OpPending) (operations d)) in
      rbind (ensure (owner = Some inc) (Conflict (OnOperation OperationNotPendingOwner))) (\<lambda>_.
        let n = Suc (max_attempt d oid);
            row = \<lparr>at_operation = oid, at_number = n, at_request = request, at_started_at_ms = now,
                   at_resolved_at_ms = None, at_phase = APrepared, at_evidence = None\<rparr>;
            d = d\<lparr>attempts := attempts d @ [row]\<rparr>
        in Inr (n, upd_incarnations (\<lambda>i. in_id i = inc \<and> in_state i = IDeclared)
                     (\<lambda>i. i\<lparr>in_state := IStarting\<rparr>) d)))"

definition accept_start_submission ::
  "operation_id \<Rightarrow> incarnation_id \<Rightarrow> string \<Rightarrow> string \<Rightarrow> db \<Rightarrow> store_error + db" where
  "accept_start_submission oid inc pane terminal d =
     (let expected = map_option (\<lambda>i. (in_intended_pane i, in_expected_terminal i))
            (find_row (\<lambda>i. in_id i = inc \<and> in_state i = IStarting) (incarnations d));
          owns = (\<lambda>r. op_id r = oid \<and> op_target r = inc \<and> op_outcome r = OpPending)
      in rbind (ensure (expected = Some (pane, terminal)) (Conflict (OnOperation BindingNotIntended))) (\<lambda>_.
         rbind (ensure (count_rows owns (operations d) = 1)
                  (Conflict (OnOperation StaleStartAcceptance))) (\<lambda>_.
           Inr (upd_attempts (latest_attempt d oid) (\<lambda>a. a\<lparr>at_phase := AAccepted\<rparr>)
               (upd_incarnations (\<lambda>i. in_id i = inc)
                  (\<lambda>i. i\<lparr>in_observed_pane := Some pane, in_observed_terminal := Some terminal\<rparr>)
               (upd_operations owns (\<lambda>r. r\<lparr>op_outcome := OpAccepted\<rparr>) d))))))"

text \<open>The observation that proves the intended incarnation Ready; the name is the logical agent's.\<close>

definition exact_ready :: "incarnation_row \<Rightarrow> agent_row \<Rightarrow> agent_observation \<Rightarrow> bool" where
  "exact_ready i l agent \<longleftrightarrow>
     ao_pane_id agent = in_intended_pane i \<and> ao_terminal_id agent = in_expected_terminal i
     \<and> ao_name agent = Some (la_public_name l) \<and> ao_agent agent = Some (in_backend_kind i)
     \<and> ao_interactive_ready agent \<and> \<not> ao_launch_pending agent"

definition demote_predecessor ::
  "int \<Rightarrow> incarnation_id option \<Rightarrow> incarnation_id \<Rightarrow> db \<Rightarrow> store_error + db" where
  "demote_predecessor now supersedes inc d =
     (case supersedes of None \<Rightarrow> Inr d
      | Some predecessor \<Rightarrow>
          let owner = map_option in_agent (find_row (\<lambda>i. in_id i = inc) (incarnations d));
              p = (\<lambda>i. in_id i = predecessor \<and> in_state i = IReady \<and> Some (in_agent i) = owner)
          in rbind (ensure (count_rows p (incarnations d) = 1)
                      (Conflict (OnOperation HandoffPredecessorNotReady))) (\<lambda>_.
               Inr (upd_incarnations p (\<lambda>i. i\<lparr>in_state := ISuperseded, in_terminal_at_ms := Some now,
                  in_terminal_reason := Some ''superseded by a handoff to a new incarnation''\<rparr>) d)))"

definition accept_start_ready ::
  "int \<Rightarrow> operation_id \<Rightarrow> incarnation_id \<Rightarrow> agent_observation \<Rightarrow> incarnation_id option \<Rightarrow> db
   \<Rightarrow> store_error + db" where
  "accept_start_ready now oid inc agent supersedes d =
     (let owns = (\<lambda>r. op_id r = oid \<and> op_target r = inc \<and> op_outcome r \<in> {OpPending, OpAccepted}) in
      rbind (ok_or (Conflict (OnOperation NotExactReady))
               (find_row (\<lambda>i. in_id i = inc \<and> in_state i = IStarting) (incarnations d))) (\<lambda>i.
      rbind (ok_or (Conflict (OnOperation NotExactReady)) (find_agent d (in_agent i))) (\<lambda>l.
      rbind (ensure (exact_ready i l agent) (Conflict (OnOperation NotExactReady))) (\<lambda>_.
      rbind (refuse_name_held_by_socket_waiter (la_public_name l) d) (\<lambda>_.
      rbind (ensure (count_rows owns (operations d) = 1) (Conflict (OnOperation StaleReadiness))) (\<lambda>_.
        demote_predecessor now supersedes inc
          (upd_attempts (latest_attempt d oid)
             (\<lambda>a. a\<lparr>at_phase := AResponseCommitted, at_resolved_at_ms := Some now\<rparr>)
          (upd_incarnations (\<lambda>i. in_id i = inc)
             (\<lambda>i. i\<lparr>in_state := IReady, in_observed_pane := Some (ao_pane_id agent),
                    in_observed_terminal := Some (ao_terminal_id agent),
                    in_native_session := ao_agent_session agent\<rparr>)
          (upd_operations owns (\<lambda>r. r\<lparr>op_outcome := OpSucceeded, op_resolved_at_ms := Some now\<rparr>) d)))))))))"

text \<open>The instant before which a cleared incarnation's queued prompts stay queued.\<close>

definition clear_settle_at :: "db \<Rightarrow> operation_id \<Rightarrow> int \<Rightarrow> int option" where
  "clear_settle_at d oid delay =
     (case map at_started_at_ms
             (filter (\<lambda>a. at_operation a = oid \<and> at_phase a \<noteq> APrepared) (attempts d)) of
        [] \<Rightarrow> None | t # ts \<Rightarrow> Some (fold max ts t + delay))"

definition postpone :: "int option \<Rightarrow> delivery_row \<Rightarrow> delivery_row" where
  "postpone settle r = (case settle of None \<Rightarrow> r
     | Some t \<Rightarrow> r\<lparr>dl_scheduled_at_ms := max (dl_scheduled_at_ms r) t\<rparr>)"

definition mark_unknown_with_clear_spacing ::
  "int \<Rightarrow> operation_id \<Rightarrow> incarnation_id \<Rightarrow> string \<Rightarrow> int option \<Rightarrow> db \<Rightarrow> store_error + db" where
  "mark_unknown_with_clear_spacing now oid inc ev delay d =
     (let owns = (\<lambda>r. op_id r = oid \<and> op_target r = inc \<and> op_outcome r \<in> {OpPending, OpAccepted}) in
      rbind (ensure (count_rows owns (operations d) = 1) (Conflict (OnOperation UnknownNotOwner))) (\<lambda>_.
        let d = upd_deliveries (\<lambda>r. dl_operation r = Some oid
                    \<and> dl_outcome r \<in> {DPending, DSubmitted, DAccepted, DQueued})
                  (\<lambda>r. r\<lparr>dl_outcome := DUnknown, dl_resolved_at_ms := Some now\<rparr>)
               (upd_incarnations (\<lambda>i. in_id i = inc \<and> in_state i = IStarting)
                  (\<lambda>i. i\<lparr>in_state := IUnknown\<rparr>)
               (upd_attempts (latest_attempt d oid)
                  (\<lambda>a. a\<lparr>at_phase := AUnknown, at_evidence := Some (Detail ev),
                         at_resolved_at_ms := Some now\<rparr>)
               (upd_operations owns (\<lambda>r. r\<lparr>op_outcome := OpUnknown, op_resolved_at_ms := Some now\<rparr>) d)))
        in Inr (case delay of None \<Rightarrow> d
                | Some ms \<Rightarrow> upd_deliveries
                    (\<lambda>r. dl_incarnation r = Some inc \<and> dl_outcome r = DQueued)
                    (postpone (clear_settle_at d oid ms)) d)))"

definition mark_unknown ::
  "int \<Rightarrow> operation_id \<Rightarrow> incarnation_id \<Rightarrow> string \<Rightarrow> db \<Rightarrow> store_error + db" where
  "mark_unknown now oid inc ev d = mark_unknown_with_clear_spacing now oid inc ev None d"

definition mark_clear_unknown ::
  "int \<Rightarrow> operation_id \<Rightarrow> incarnation_id \<Rightarrow> string \<Rightarrow> int \<Rightarrow> db \<Rightarrow> store_error + db" where
  "mark_clear_unknown now oid inc ev delay d =
     rbind (ensure (exists_row (\<lambda>r. op_id r = oid \<and> op_kind r = KClear) (operations d))
              (Conflict (OnOperation NotAClear))) (\<lambda>_.
       mark_unknown_with_clear_spacing now oid inc ev (Some delay) d)"

definition reject_attempt ::
  "int \<Rightarrow> operation_id \<Rightarrow> incarnation_id \<Rightarrow> string \<Rightarrow> db \<Rightarrow> store_error + db" where
  "reject_attempt now oid inc ev d =
     (let owner = map_option op_target
                    (find_row (\<lambda>r. op_id r = oid \<and> op_outcome r = OpPending) (operations d)) in
      rbind (ensure (owner = Some inc) (Conflict (OnOperation RetryableNotOwner))) (\<lambda>_.
      rbind (ensure (count_rows (latest_attempt d oid) (attempts d) = 1)
               (Conflict (OnOperation RetryableNoAttempt))) (\<lambda>_.
        Inr (upd_attempts (latest_attempt d oid)
          (\<lambda>a. a\<lparr>at_phase := ARejected, at_evidence := Some (RetryableDetail ev),
                 at_resolved_at_ms := Some now\<rparr>) d))))"

definition mark_rejected ::
  "int \<Rightarrow> operation_id \<Rightarrow> incarnation_id \<Rightarrow> string \<Rightarrow> delivery_outcome \<Rightarrow> db \<Rightarrow> store_error + db" where
  "mark_rejected now oid inc ev outc d =
     (let owns = (\<lambda>r. op_id r = oid \<and> op_target r = inc \<and> op_outcome r \<in> {OpPending, OpAccepted}) in
      rbind (ensure (count_rows owns (operations d) = 1) (Conflict (OnOperation RejectionNotOwner))) (\<lambda>_.
        Inr (upd_deliveries (\<lambda>r. dl_operation r = Some oid \<and> dl_outcome r \<in> {DPending, DSubmitted, DQueued})
               (\<lambda>r. r\<lparr>dl_outcome := outc, dl_resolved_at_ms := Some now\<rparr>)
            (upd_incarnations (\<lambda>i. in_id i = inc \<and> in_state i = IStarting) (\<lambda>i. i\<lparr>in_state := IFailed\<rparr>)
            (upd_attempts (latest_attempt d oid)
               (\<lambda>a. a\<lparr>at_phase := ARejected, at_evidence := Some (Detail ev),
                      at_resolved_at_ms := Some now\<rparr>)
            (upd_operations owns (\<lambda>r. r\<lparr>op_outcome := OpFailed, op_resolved_at_ms := Some now\<rparr>) d))))))"

definition prepared_attempt :: "operation_id \<Rightarrow> nat \<Rightarrow> string \<Rightarrow> attempt_row \<Rightarrow> bool" where
  "prepared_attempt oid n request a \<longleftrightarrow>
     at_operation a = oid \<and> at_number a = n \<and> at_request a = request \<and> at_phase a = APrepared"

definition mark_submitted :: "int \<Rightarrow> operation_id \<Rightarrow> nat \<Rightarrow> string \<Rightarrow> db \<Rightarrow> store_error + db" where
  "mark_submitted now oid n request d =
     rbind (ensure (count_rows (prepared_attempt oid n request) (attempts d) = 1)
              (Conflict (OnOperation AttemptNotPrepared))) (\<lambda>_.
       Inr (upd_deliveries (\<lambda>r. dl_operation r = Some oid \<and> dl_outcome r = DPending)
              (\<lambda>r. r\<lparr>dl_outcome := DSubmitted, dl_attempted_at_ms := Some now, dl_request := Some request\<rparr>)
           (upd_attempts (prepared_attempt oid n request) (\<lambda>a. a\<lparr>at_phase := ASubmitted\<rparr>) d)))"

definition submit_queued_delivery ::
  "operation_id \<Rightarrow> nat \<Rightarrow> string \<Rightarrow> int \<Rightarrow> db \<Rightarrow> store_error + db" where
  "submit_queued_delivery oid n request now_ms d =
     (let due = (\<lambda>r. dl_operation r = Some oid \<and> dl_outcome r = DQueued \<and> dl_scheduled_at_ms r \<le> now_ms) in
      rbind (ensure (count_rows (prepared_attempt oid n request) (attempts d) = 1)
               (Conflict (OnOperation AttemptNotPrepared))) (\<lambda>_.
      rbind (ensure (count_rows due (deliveries d) = 1) (Conflict (OnOperation QueuedNotDue))) (\<lambda>_.
        Inr (upd_deliveries due
               (\<lambda>r. r\<lparr>dl_outcome := DSubmitted, dl_attempted_at_ms := Some now_ms, dl_request := Some request\<rparr>)
            (upd_attempts (prepared_attempt oid n request) (\<lambda>a. a\<lparr>at_phase := ASubmitted\<rparr>) d)))))"

text \<open>The message an operation delivers, when it satisfies \<open>p\<close>: the join of the two tables.\<close>

definition operation_message :: "db \<Rightarrow> operation_id \<Rightarrow> (message_row \<Rightarrow> bool) \<Rightarrow> message_row option" where
  "operation_message d oid p =
     find_row (\<lambda>m. p m \<and> exists_row (\<lambda>r. dl_operation r = Some oid \<and> dl_message r = ms_id m) (deliveries d))
       (messages d)"

definition is_final_reply :: "message_row \<Rightarrow> bool" where
  "is_final_reply m \<longleftrightarrow> ms_kind m = Reply \<and> ms_disposition m = Some Final"

text \<open>The resolution statement the three acknowledgement paths share.\<close>

definition resolvable :: "message_id option \<Rightarrow> obligation_row \<Rightarrow> bool" where
  "resolvable ask o' \<longleftrightarrow> Some (ob_ask o') = ask \<and> ob_unsettled (ob_state o')"

definition resolve_obligation :: "int \<Rightarrow> message_row \<Rightarrow> db \<Rightarrow> db" where
  "resolve_obligation now m d =
     upd_obligations (resolvable (ms_reply_to m))
       (\<lambda>o'. o'\<lparr>ob_state := ObResolved, ob_last_activity_ms := now, ob_resolving := Some (ms_id m)\<rparr>) d"

definition accept_delivery_with_submission ::
  "int \<Rightarrow> operation_id \<Rightarrow> incarnation_id \<Rightarrow> string \<Rightarrow> string \<Rightarrow> string option \<Rightarrow> db
   \<Rightarrow> store_error + db" where
  "accept_delivery_with_submission now oid inc pane terminal submission d =
     (let owns = (\<lambda>r. op_id r = oid \<and> op_target r = inc \<and> op_outcome r = OpPending) in
      rbind (ok_or (Conflict (OnOperation ReplacementRuntime))
               (find_row (\<lambda>i. in_id i = inc \<and> in_state i = IReady) (incarnations d))) (\<lambda>i.
      rbind (ok_or (Sql NullColumn) (in_observed_pane i)) (\<lambda>op_pane.
      rbind (ok_or (Sql NullColumn) (in_observed_terminal i)) (\<lambda>op_terminal.
      rbind (ensure (op_pane = pane \<and> op_terminal = terminal)
               (Conflict (OnOperation ReplacementRuntime))) (\<lambda>_.
      rbind (ensure (count_rows owns (operations d) = 1)
               (Conflict (OnOperation DeliveryNotPending))) (\<lambda>_.
        let asked = operation_message d oid (\<lambda>m. ms_kind m = Ask);
            d' = upd_reminders (\<lambda>r. Some (rm_ask r) = map_option ms_id asked
                     \<and> rm_disabled_at_ms r = None \<and> rm_suspended_at_ms r = None)
                   (\<lambda>r. r\<lparr>rm_next_due_at_ms := Some (now + rm_interval_ms r),
                          rm_boundary_check_at_ms := Some now\<rparr>)
                (upd_attempts (latest_attempt d oid)
                   (\<lambda>a. a\<lparr>at_phase := AResponseCommitted, at_resolved_at_ms := Some now,
                          at_evidence := (case submission of None \<Rightarrow> at_evidence a
                                          | Some s \<Rightarrow> Some (Submission s))\<rparr>)
                (upd_deliveries (\<lambda>r. dl_operation r = Some oid \<and> dl_incarnation r = Some inc
                     \<and> dl_outcome r = DSubmitted)
                   (\<lambda>r. r\<lparr>dl_outcome := DAccepted, dl_resolved_at_ms := Some now\<rparr>)
                (upd_operations owns
                   (\<lambda>r. r\<lparr>op_outcome := OpSucceeded, op_resolved_at_ms := Some now\<rparr>) d)))
        in case operation_message d oid is_final_reply of
             None \<Rightarrow> Inr d'
           | Some m \<Rightarrow>
               rbind (ensure (count_rows (resolvable (ms_reply_to m)) (obligations d') = 1)
                        (Conflict (OnOperation FinalCannotResolve))) (\<lambda>_.
                 Inr (resolve_obligation now m d'))))))))"

definition accept_delivery ::
  "int \<Rightarrow> operation_id \<Rightarrow> incarnation_id \<Rightarrow> string \<Rightarrow> string \<Rightarrow> db \<Rightarrow> store_error + db" where
  "accept_delivery now oid inc pane terminal d =
     accept_delivery_with_submission now oid inc pane terminal None d"

end
