(* ===== verification/AskPull.thy ===== *)
theory AskPull
  imports Operations
begin

text \<open>
  The ask-scoped pull sink of \<open>src/src/store.rs\<close>: the waiting agent claims a lease, polls the
  replies and the cancellation queued for its ask, and acknowledges each under the live lease.
  A final reply resolves the obligation only there.
\<close>

definition obligation_reply_delivery :: "message_id \<Rightarrow> db \<Rightarrow> store_error + reply_delivery" where
  "obligation_reply_delivery ask d =
     map_sum id ob_reply_delivery (ok_or (Conflict (OnPull ObligationAbsent)) (find_obligation d ask))"

definition require_pull_waiter :: "message_id \<Rightarrow> logical_agent_id \<Rightarrow> db \<Rightarrow> store_error + unit" where
  "require_pull_waiter ask requester d =
     rbind (ok_or (Conflict (OnPull ObligationAbsent)) (find_obligation d ask)) (\<lambda>o'.
     rbind (ensure (ob_reply_delivery o' = Pull) (Conflict (OnPull NotAPullSink))) (\<lambda>_.
       ensure (ob_waiting o' = requester) (Conflict (OnPull NotPullWaiter))))"

definition require_live_ask_pull_lease ::
  "message_id \<Rightarrow> logical_agent_id \<Rightarrow> nat \<Rightarrow> db \<Rightarrow> store_error + unit" where
  "require_live_ask_pull_lease ask requester lease d =
     (case find_row (\<lambda>l. ls_ask l = ask \<and> ls_waiting l = requester) (leases d) of
        Some current \<Rightarrow> ensure (ls_id current = lease) (Conflict (OnPull LeaseStale))
      | None \<Rightarrow> Inl (Conflict (OnPull LeaseAbsent)))"

definition queue_ask_pull_delivery ::
  "message_id \<Rightarrow> logical_agent_id \<Rightarrow> int \<Rightarrow> db \<Rightarrow> store_error + db" where
  "queue_ask_pull_delivery m a now d = insert_delivery (agent_delivery AskPull m a now DQueued) d"

definition claim_ask_pull_lease ::
  "int \<Rightarrow> message_id \<Rightarrow> logical_agent_id \<Rightarrow> db \<Rightarrow> store_error + (nat \<times> db)" where
  "claim_ask_pull_lease now ask requester d =
     rbind (require_pull_waiter ask requester d) (\<lambda>_.
       let i = Suc (seq_leases d);
           row = \<lparr>ls_id = i, ls_ask = ask, ls_waiting = requester, ls_claimed_at_ms = now\<rparr>
       in Inr (i, d\<lparr>leases := filter (\<lambda>l. ls_ask l \<noteq> ask) (leases d) @ [row], seq_leases := i\<rparr>))"

text \<open>A message belongs to the sink of an ask: a reply to it, or its cancellation response.\<close>

definition in_pull_sink :: "db \<Rightarrow> message_id \<Rightarrow> message_row \<Rightarrow> bool" where
  "in_pull_sink d ask m \<longleftrightarrow> ms_reply_to m = Some ask
     \<or> Option.bind (find_obligation d ask) ob_cancel_response = Some (ms_id m)"

definition pull_delivery_row :: "db \<Rightarrow> message_id \<Rightarrow> logical_agent_id \<Rightarrow> delivery_row \<Rightarrow> bool" where
  "pull_delivery_row d ask requester r \<longleftrightarrow>
     dl_transport r = AskPull \<and> dl_agent r = Some requester
     \<and> exists_row (\<lambda>m. ms_id m = dl_message r \<and> in_pull_sink d ask m) (messages d)"

record ask_pull_event =
  ev_message_id :: message_id
  ev_kind :: message_kind
  ev_body :: string
  ev_reply_to :: "message_id option"
  ev_disposition :: "reply_disposition option"
  ev_sender :: "logical_agent_id option"
  ev_sender_name :: "string option"

definition pull_event :: "db \<Rightarrow> message_row \<Rightarrow> ask_pull_event" where
  "pull_event d m = \<lparr>ev_message_id = ms_id m, ev_kind = ms_kind m, ev_body = ms_body m,
     ev_reply_to = ms_reply_to m, ev_disposition = ms_disposition m, ev_sender = ms_sender m,
     ev_sender_name = map_option la_public_name (Option.bind (ms_sender m) (find_agent d))\<rparr>"

definition message_id_as_i64 :: "message_id \<Rightarrow> store_error + int" where
  "message_id_as_i64 m = (if int m \<le> i64_max then Inr (int m) else Inl (InvalidRecord (InvalidMessageId m)))"

definition poll_ask_pull ::
  "message_id \<Rightarrow> logical_agent_id \<Rightarrow> int \<Rightarrow> nat option \<Rightarrow> db
   \<Rightarrow> store_error + (string \<times> int \<times> ask_pull_event list)" where
  "poll_ask_pull ask requester after lease d =
     rbind (ensure (0 \<le> after) (InvalidRecord NegativeCursor)) (\<lambda>_.
     rbind (require_pull_waiter ask requester d) (\<lambda>_.
     rbind (case lease of None \<Rightarrow> Inr () | Some l \<Rightarrow> require_live_ask_pull_lease ask requester l d) (\<lambda>_.
       let ms = sort_key ms_id (filter (\<lambda>m. after < int (ms_id m) \<and> in_pull_sink d ask m
                  \<and> exists_row (\<lambda>r. dl_transport r = AskPull \<and> dl_agent r = Some requester
                                   \<and> dl_message r = ms_id m) (deliveries d)) (messages d));
           events = map (pull_event d) ms
       in if events = [] then Inr (''pending'', after, events)
          else rbind (message_id_as_i64 (ev_message_id (last events))) (\<lambda>cursor.
                 Inr (''ok'', cursor, events)))))"

definition resolve_ask_pull_final_reply :: "int \<Rightarrow> message_id \<Rightarrow> message_id \<Rightarrow> db \<Rightarrow> db" where
  "resolve_ask_pull_final_reply now ask m d =
     (case find_row (\<lambda>r. ms_id r = m \<and> is_final_reply r \<and> ms_reply_to r = Some ask) (messages d) of
        None \<Rightarrow> d | Some r \<Rightarrow> resolve_obligation now r d)"

definition ack_ask_pull_delivery ::
  "int \<Rightarrow> message_id \<Rightarrow> logical_agent_id \<Rightarrow> message_id \<Rightarrow> nat \<Rightarrow> db
   \<Rightarrow> store_error + (delivery_outcome \<times> db)" where
  "ack_ask_pull_delivery now ask requester m lease d =
     rbind (require_pull_waiter ask requester d) (\<lambda>_.
     rbind (require_live_ask_pull_lease ask requester lease d) (\<lambda>_.
       case map_option dl_outcome
              (find_row (\<lambda>r. dl_message r = m \<and> pull_delivery_row d ask requester r) (deliveries d)) of
         None \<Rightarrow> Inl (Conflict (OnPull (NoPullDelivery m ask)))
       | Some outc \<Rightarrow>
           if outc = DAccepted then Inr (DAccepted, resolve_ask_pull_final_reply now ask m d)
           else if outc = DQueued then
             Inr (DAccepted, resolve_ask_pull_final_reply now ask m
                (upd_deliveries (\<lambda>r. dl_message r = m \<and> dl_agent r = Some requester
                     \<and> dl_transport r = AskPull \<and> dl_outcome r = DQueued)
                   (\<lambda>r. r\<lparr>dl_outcome := DAccepted, dl_resolved_at_ms := Some now\<rparr>) d))
           else Inl (Conflict (OnPull (PullDeliveryIs m ask outc)))))"

end
