(* ===== verification/CancelRecords.thy ===== *)
theory CancelRecords
  imports AskPull
begin

text \<open>
  Kelpie-authored cancellation notices (the helpers of \<open>src/src/store.rs\<close>): one message per
  side of a cancelled ask, routed by the side's transport, and the settlement of an ask whose own
  delivery never crossed the write boundary.
\<close>

definition queue_socket_inbox_delivery_at ::
  "message_id \<Rightarrow> logical_agent_id \<Rightarrow> int \<Rightarrow> db \<Rightarrow> store_error + db" where
  "queue_socket_inbox_delivery_at m a scheduled d =
     insert_delivery (agent_delivery SocketInbox m a scheduled DQueued) d"

definition queue_socket_inbox_delivery ::
  "message_id \<Rightarrow> logical_agent_id \<Rightarrow> int \<Rightarrow> db \<Rightarrow> store_error + db" where
  "queue_socket_inbox_delivery m a now d = queue_socket_inbox_delivery_at m a now d"

definition cancellation_key :: "cancellation_audience \<Rightarrow> message_id \<Rightarrow> string" where
  "cancellation_key audience ask = (case audience of
     Waiting \<Rightarrow> ''kelpie:cancellation:'' @ show_nat ask
   | Owing \<Rightarrow> ''kelpie:owing-cancellation:'' @ show_nat ask)"

definition insert_cancellation_prompt ::
  "message_id \<Rightarrow> message_id \<Rightarrow> string \<Rightarrow> incarnation_id \<Rightarrow> cancellation_audience \<Rightarrow> int option \<Rightarrow> int
   \<Rightarrow> db \<Rightarrow> store_error + (operation_id \<times> db)" where
  "insert_cancellation_prompt m ask reason inc audience due now d =
     rbind (insert_operation (cancellation_key audience ask) KPrompt inc
              (IntentCancellation m ask reason audience inc) now d) (\<lambda>(oid, d).
     rbind (insert_delivery (herdr_delivery m inc (case due of None \<Rightarrow> now | Some t \<Rightarrow> t)
              (case due of None \<Rightarrow> DPending | Some _ \<Rightarrow> DQueued) oid) d) (\<lambda>d.
       Inr (oid, d)))"

definition cancel_row ::
  "int \<Rightarrow> logical_agent_id \<Rightarrow> string \<Rightarrow> obligation_row \<Rightarrow> obligation_row" where
  "cancel_row now requester reason o' =
     o'\<lparr>ob_state := ObCancelled, ob_last_activity_ms := now,
        ob_cancel_requester := Some requester, ob_cancel_reason := Some reason\<rparr>"

definition waiting_unsettled :: "message_id \<Rightarrow> logical_agent_id \<Rightarrow> obligation_row \<Rightarrow> bool" where
  "waiting_unsettled ask waiter o' \<longleftrightarrow>
     ob_ask o' = ask \<and> ob_waiting o' = waiter \<and> ob_unsettled (ob_state o')"

definition supersede_unsubmitted_ask_delivery ::
  "message_id \<Rightarrow> logical_agent_id \<Rightarrow> string \<Rightarrow> int \<Rightarrow> db \<Rightarrow> bool \<times> db" where
  "supersede_unsubmitted_ask_delivery ask waiter reason now d =
     (case find_row (\<lambda>r. dl_message r = ask \<and> dl_transport r = HerdrPrompt) (deliveries d) of
        None \<Rightarrow> (False, d)
      | Some row \<Rightarrow>
          (case dl_operation row of
             None \<Rightarrow> (False, d)
           | Some oid \<Rightarrow>
               if dl_outcome row \<noteq> DQueued then (False, d)
               else if 0 < count_rows (\<lambda>a. at_operation a = oid \<and> at_phase a \<noteq> APrepared) (attempts d)
               then (False, d)
               else
                 let settled = count_rows (waiting_unsettled ask waiter) (obligations d);
                     d' = upd_obligations (waiting_unsettled ask waiter) (cancel_row now waiter reason)
                         (upd_operations (\<lambda>r. op_id r = oid \<and> op_outcome r = OpPending)
                            (\<lambda>r. r\<lparr>op_outcome := OpSuperseded, op_resolved_at_ms := Some now\<rparr>)
                         (upd_deliveries (\<lambda>r. dl_operation r = Some oid \<and> dl_outcome r = DQueued)
                            (\<lambda>r. r\<lparr>dl_outcome := DSuperseded, dl_resolved_at_ms := Some now,
                                   dl_cancelled_at_ms := Some now, dl_cancel_requester := Some waiter,
                                   dl_cancel_reason := Some reason\<rparr>) d))
                 in (settled = 1, d')))"

definition record_cancellation_side ::
  "logical_agent_id \<Rightarrow> message_id \<Rightarrow> string \<Rightarrow> string \<Rightarrow> cancellation_audience \<Rightarrow> int option \<Rightarrow> int
   \<Rightarrow> conflict \<Rightarrow> db \<Rightarrow> store_error + (message_id \<times> (operation_id \<times> incarnation_id) option \<times> db)" where
  "record_cancellation_side recipient ask reason body audience due now ambiguous d =
     rbind (insert_message None recipient Cancellation body now None None False d) (\<lambda>(m, d).
     rbind (waiter_identity recipient d) (\<lambda>identity.
     rbind (case audience of Owing \<Rightarrow> Inr False
            | Waiting \<Rightarrow> map_sum id (\<lambda>rd. rd = Pull) (obligation_reply_delivery ask d)) (\<lambda>pull_waiting.
       if pull_waiting then
         rbind (queue_ask_pull_delivery m recipient now d) (\<lambda>d. Inr (m, None, d))
       else (case wi_transport identity of
           SocketInbox \<Rightarrow>
             if wi_ended identity then Inr (m, None, d)
             else rbind (queue_socket_inbox_delivery m recipient now d) (\<lambda>d. Inr (m, None, d))
         | HerdrPrompt \<Rightarrow>
             rbind (optional_ready_incarnation recipient ambiguous d) (\<lambda>ready.
               case ready of
                 None \<Rightarrow> Inr (m, None, d)
               | Some inc \<Rightarrow>
                   rbind (insert_cancellation_prompt m ask reason inc audience due now d) (\<lambda>(oid, d).
                     Inr (m, Some (oid, inc), d)))
         | AskPull \<Rightarrow> Inl (InvalidRecord (TransportAskPull recipient))))))"

end
