(* ===== verification/Inbox.thy ===== *)
theory Inbox
  imports CancelRecords
begin

text \<open>
  Socket waiters (\<open>src/src/store.rs\<close>): registration of a pane-less logical agent under a
  name no live agent holds, its durable inbox with acknowledgement, and its end, which cancels the
  asks it waits on and releases its queued deliveries in the same transaction.
\<close>

definition parent_matches :: "parent \<Rightarrow> agent_row \<Rightarrow> bool" where
  "parent_matches par r = (case par of
     Parentless \<Rightarrow> la_parentless r \<and> la_parent r = None
   | ParentAgent a \<Rightarrow> la_parent r = Some a)"

definition register_socket_waiter ::
  "int \<Rightarrow> string \<Rightarrow> parent \<Rightarrow> string \<Rightarrow> db \<Rightarrow> store_error + (logical_agent_id \<times> db)" where
  "register_socket_waiter now name par key d =
     rbind (ensure (valid_herdr_name name) (InvalidRecord (IllegalName name))) (\<lambda>_.
       case map_of (waiter_keys d) key of
         Some existing \<Rightarrow>
           rbind (ok_or (Sql NoRows) (find_agent d existing)) (\<lambda>r.
           rbind (ensure (la_ended_at_ms r = None) (Conflict (OnWaiter WaiterKeyEnded))) (\<lambda>_.
           rbind (ensure (la_public_name r = name \<and> parent_matches par r)
                    (Conflict (OnWaiter WaiterKeyOther))) (\<lambda>_.
             Inr (existing, d))))
       | None \<Rightarrow>
           rbind (refuse_name_held_by_socket_waiter name d) (\<lambda>_.
           rbind (refuse_live_or_pending_alias name d) (\<lambda>_.
           rbind (case par of Parentless \<Rightarrow> Inr ()
                  | ParentAgent p \<Rightarrow> ensure (agent_exists d p) (Conflict (OnWaiter ParentAbsent))) (\<lambda>_.
           rbind (insert_logical_agent name par SocketInbox now d) (\<lambda>(a, d).
           rbind (insert_key key a (waiter_keys d)) (\<lambda>ks.
             Inr (a, d\<lparr>waiter_keys := ks\<rparr>)))))))"

definition unresolved_asks_of :: "db \<Rightarrow> logical_agent_id \<Rightarrow> obligation_row list" where
  "unresolved_asks_of d a =
     sort_key ob_sequence (filter (\<lambda>o'. ob_waiting o' = a \<and> ob_unsettled (ob_state o')) (obligations d))"

definition unresolved_asks_waiting_on ::
  "logical_agent_id \<Rightarrow> db \<Rightarrow> store_error + message_id list" where
  "unresolved_asks_waiting_on a d =
     rbind (ensure (agent_exists d a) (Conflict (OnWaiter AgentAbsent))) (\<lambda>_.
       Inr (map ob_ask (unresolved_asks_of d a)))"

definition retire_waiting_body :: "message_id \<Rightarrow> string \<Rightarrow> string \<Rightarrow> string" where
  "retire_waiting_body ask name reason =
     ''Your ask '' @ show_nat ask @ '' was cancelled by '' @ name @ ''. Reason: '' @ reason
     @ ''. No reply is owed. Re-ask the current holder of the name if the question still matters.''"

definition retire_owing_body :: "message_id \<Rightarrow> string \<Rightarrow> string \<Rightarrow> string" where
  "retire_owing_body ask name reason =
     ''Stop working on ask '' @ show_nat ask @ ''. It was cancelled by '' @ name @ ''. Reason: ''
     @ reason @ ''. No reply is owed.''"

record owing_retire_notice =
  on_ask :: message_id
  on_message :: message_id
  on_delivery :: "(operation_id \<times> incarnation_id) option"

text \<open>One turn of the retirement loop, then the loop over the asks in creation order.\<close>

definition retire_ask ::
  "int \<Rightarrow> logical_agent_id \<Rightarrow> string \<Rightarrow> (message_id \<Rightarrow> int option) \<Rightarrow> string \<Rightarrow> obligation_row \<Rightarrow> db
   \<Rightarrow> store_error + (owing_retire_notice option \<times> db)" where
  "retire_ask now a name due reason o' d =
     (case supersede_unsubmitted_ask_delivery (ob_ask o') a reason now d of
        (True, d) \<Rightarrow> Inr (None, d)
      | (False, d) \<Rightarrow>
          rbind (record_cancellation_side a (ob_ask o') reason (retire_waiting_body (ob_ask o') name reason)
                   Waiting None now (OnReply AmbiguousReadyWaiting) d) (\<lambda>(wm, _, d).
          rbind (record_cancellation_side (ob_owing o') (ob_ask o') reason
                   (retire_owing_body (ob_ask o') name reason)
                   Owing (due (ob_ask o')) now (OnReply AmbiguousReadyOwing) d) (\<lambda>(om, delivery, d).
            let d = upd_obligations (\<lambda>x. ob_ask x = ob_ask o')
                      (\<lambda>x. x\<lparr>ob_cancel_response := Some wm, ob_cancel_owing := Some om\<rparr>) d
            in rbind (ensure (count_rows (waiting_unsettled (ob_ask o') a) (obligations d) = 1)
                        (Conflict (OnWaiter RetirementRaced))) (\<lambda>_.
                 Inr (Some \<lparr>on_ask = ob_ask o', on_message = om, on_delivery = delivery\<rparr>,
                      upd_obligations (waiting_unsettled (ob_ask o') a) (cancel_row now a reason) d)))))"

fun retire_asks ::
  "int \<Rightarrow> logical_agent_id \<Rightarrow> string \<Rightarrow> (message_id \<Rightarrow> int option) \<Rightarrow> string \<Rightarrow> obligation_row list \<Rightarrow> db
   \<Rightarrow> store_error + (message_id list \<times> owing_retire_notice list \<times> db)" where
  "retire_asks now a name due reason [] d = Inr ([], [], d)"
| "retire_asks now a name due reason (o' # os) d =
     rbind (retire_ask now a name due reason o' d) (\<lambda>(notice, d).
     rbind (retire_asks now a name due reason os d) (\<lambda>(cancelled, ns, d).
       Inr (ob_ask o' # cancelled, (case notice of None \<Rightarrow> ns | Some n \<Rightarrow> n # ns), d)))"

definition end_waiter_row :: "logical_agent_id \<Rightarrow> agent_row \<Rightarrow> bool" where
  "end_waiter_row a r \<longleftrightarrow> la_id r = a \<and> active_waiter_row r"

definition end_socket_waiter_with_owing_due ::
  "int \<Rightarrow> logical_agent_id \<Rightarrow> (message_id \<Rightarrow> int option) \<Rightarrow> string \<Rightarrow> db
   \<Rightarrow> store_error + (message_id list \<times> owing_retire_notice list \<times> db)" where
  "end_socket_waiter_with_owing_due now a due reason d =
     rbind (require_active_socket_waiter a d) (\<lambda>_.
     rbind (map_sum id la_public_name (ok_or (Sql NoRows) (find_agent d a))) (\<lambda>name.
     rbind (ensure (count_rows (end_waiter_row a) (agents d) = 1)
              (Conflict (OnWaiter (NotActiveWaiter a)))) (\<lambda>_.
       let d = upd_agents (end_waiter_row a) (\<lambda>r. r\<lparr>la_ended_at_ms := Some now\<rparr>) d in
       rbind (retire_asks now a name due reason (unresolved_asks_of d a) d) (\<lambda>(cancelled, ns, d).
         Inr (cancelled, ns,
              upd_deliveries (\<lambda>r. dl_agent r = Some a \<and> dl_transport r = SocketInbox \<and> dl_outcome r = DQueued)
                (\<lambda>r. r\<lparr>dl_outcome := DTargetUnavailable, dl_resolved_at_ms := Some now\<rparr>) d)))))"

definition end_socket_waiter ::
  "int \<Rightarrow> logical_agent_id \<Rightarrow> db \<Rightarrow> store_error + (message_id list \<times> owing_retire_notice list \<times> db)" where
  "end_socket_waiter now a d = end_socket_waiter_with_owing_due now a (\<lambda>_. None) ''waiter retired'' d"

definition record_socket_inbox_delivery ::
  "int \<Rightarrow> message_id \<Rightarrow> logical_agent_id \<Rightarrow> delivery_outcome \<Rightarrow> db \<Rightarrow> store_error + db" where
  "record_socket_inbox_delivery now m a outc d =
     rbind (require_active_socket_waiter a d) (\<lambda>_.
     rbind (ensure (message_exists d m) (Conflict (OnWaiter MessageAbsent))) (\<lambda>_.
       insert_delivery (agent_delivery SocketInbox m a now outc) d))"

definition claim_socket_waiter :: "logical_agent_id \<Rightarrow> db \<Rightarrow> store_error + unit" where
  "claim_socket_waiter a d = require_active_socket_waiter a d"

record socket_inbox_delivery =
  sd_message_id :: message_id
  sd_kind :: message_kind
  sd_body :: string
  sd_reply_to :: "message_id option"
  sd_disposition :: "reply_disposition option"
  sd_attempt_number :: nat
  sd_sender :: "logical_agent_id option"
  sd_sender_name :: "string option"
  sd_scheduled_at_ms :: int
  sd_created_at_ms :: int

definition inbox_delivery_view :: "db \<Rightarrow> delivery_row \<Rightarrow> socket_inbox_delivery list" where
  "inbox_delivery_view d r = (case find_message d (dl_message r) of None \<Rightarrow> []
     | Some m \<Rightarrow> [\<lparr>sd_message_id = ms_id m, sd_kind = ms_kind m, sd_body = ms_body m,
         sd_reply_to = ms_reply_to m, sd_disposition = ms_disposition m,
         sd_attempt_number = dl_attempt r, sd_sender = ms_sender m,
         sd_sender_name = map_option la_public_name (Option.bind (ms_sender m) (find_agent d)),
         sd_scheduled_at_ms = dl_scheduled_at_ms r, sd_created_at_ms = ms_created_at_ms m\<rparr>])"

text \<open>The stable sort by creation, then by schedule, is the order by both.\<close>

definition queued_socket_inbox_deliveries ::
  "int \<Rightarrow> logical_agent_id \<Rightarrow> db \<Rightarrow> store_error + socket_inbox_delivery list" where
  "queued_socket_inbox_deliveries now a d =
     rbind (require_active_socket_waiter a d) (\<lambda>_.
       Inr (sort_key sd_scheduled_at_ms (sort_key sd_created_at_ms
         (concat (map (inbox_delivery_view d)
           (filter (\<lambda>r. dl_agent r = Some a \<and> dl_transport r = SocketInbox \<and> dl_outcome r = DQueued
                      \<and> dl_scheduled_at_ms r \<le> now) (deliveries d)))))))"

definition resolve_socket_inbox_final_reply :: "int \<Rightarrow> message_id \<Rightarrow> db \<Rightarrow> db" where
  "resolve_socket_inbox_final_reply now m d =
     (case find_row (\<lambda>r. ms_id r = m \<and> is_final_reply r) (messages d) of
        None \<Rightarrow> d | Some r \<Rightarrow> resolve_obligation now r d)"

definition ack_socket_inbox_delivery ::
  "int \<Rightarrow> logical_agent_id \<Rightarrow> message_id \<Rightarrow> db \<Rightarrow> store_error + (delivery_outcome \<times> db)" where
  "ack_socket_inbox_delivery now a m d =
     rbind (require_active_socket_waiter a d) (\<lambda>_.
       case map_option dl_outcome (find_row (\<lambda>r. dl_message r = m \<and> dl_agent r = Some a
              \<and> dl_transport r = SocketInbox) (deliveries d)) of
         None \<Rightarrow> Inl (Conflict (OnWaiter (NoInboxDelivery m a)))
       | Some outc \<Rightarrow>
           if outc = DAccepted then Inr (DAccepted, d)
           else if outc = DQueued then
             Inr (DAccepted, resolve_socket_inbox_final_reply now m
                (upd_deliveries (\<lambda>r. dl_message r = m \<and> dl_agent r = Some a
                     \<and> dl_transport r = SocketInbox \<and> dl_outcome r = DQueued)
                   (\<lambda>r. r\<lparr>dl_outcome := DAccepted, dl_resolved_at_ms := Some now\<rparr>) d))
           else Inl (Conflict (OnWaiter (InboxDeliveryIs m a outc))))"

end
