(* ===== verification/Messaging.thy ===== *)
theory Messaging
  imports Inbox
begin

text \<open>
  The message verbs of \<open>src/src/store.rs\<close>: replay by idempotency key, the initial message
  of a launch, ask, tell to a pane or to a socket waiter, and reply. Each records the message, its
  delivery on the transport of the receiver, the obligation or its activity, and the key, in one
  transaction. Also the text codecs of the message and delivery columns.
\<close>

section \<open>Schedules of a delivery\<close>

definition delivery_schedule :: "int \<Rightarrow> int option \<Rightarrow> store_error + (int \<times> delivery_outcome)" where
  "delivery_schedule now_ms due = (case due of
     None \<Rightarrow> Inr (now_ms, DPending)
   | Some t \<Rightarrow> if t < 0 then Inl (InvalidRecord NegativeDue) else Inr (t, DQueued))"

section \<open>Replay by idempotency key\<close>

record prompt_replay =
  rp_operation :: operation_id
  rp_message :: message_id
  rp_kind :: message_kind
  rp_recipient :: logical_agent_id
  rp_incarnation :: incarnation_id
  rp_delivery_outcome :: delivery_outcome
  rp_waiting :: "logical_agent_id option"
  rp_reply_to :: "message_id option"
  rp_disposition :: "reply_disposition option"
  rp_obligation_state :: "obligation_state option"
  rp_remind_after_ms :: "int option"
  rp_reply_delivery :: "reply_delivery option"
  rp_intent :: operation_intent

text \<open>\<open>ORDER BY (outcome != 'failed') DESC, created_at_ms DESC, id DESC LIMIT 1\<close>.\<close>

definition replays_before :: "operation_row \<Rightarrow> operation_row \<Rightarrow> bool" where
  "replays_before r s \<longleftrightarrow>
     (if (op_outcome r = OpFailed) \<noteq> (op_outcome s = OpFailed) then op_outcome s = OpFailed
      else if op_created_at_ms r \<noteq> op_created_at_ms s then op_created_at_ms s < op_created_at_ms r
      else op_id s < op_id r)"

definition keyed_operation :: "db \<Rightarrow> string \<Rightarrow> operation_row option" where
  "keyed_operation d key =
     (case filter (\<lambda>r. op_key r = key) (operations d) of [] \<Rightarrow> None
      | r # rs \<Rightarrow> Some (fold (\<lambda>x best. if replays_before x best then x else best) rs r))"

definition replay_obligation :: "db \<Rightarrow> message_row \<Rightarrow> obligation_row option" where
  "replay_obligation d m =
     (if ms_kind m = Reply then Option.bind (ms_reply_to m) (find_obligation d)
      else find_obligation d (ms_id m))"

definition replay_sender :: "db \<Rightarrow> message_row \<Rightarrow> logical_agent_id option" where
  "replay_sender d m =
     (if ms_kind m = Ask then
        (case ms_sender m of Some s \<Rightarrow> Some s | None \<Rightarrow> map_option ob_waiting (replay_obligation d m))
      else ms_sender m)"

definition replay_prompt_by_idempotency_key ::
  "string \<Rightarrow> message_kind \<Rightarrow> logical_agent_id \<Rightarrow> message_id option \<Rightarrow> db
   \<Rightarrow> store_error + prompt_replay option" where
  "replay_prompt_by_idempotency_key key kind sender reply_to d =
     (case keyed_operation d key of None \<Rightarrow> Inr None
      | Some r \<Rightarrow>
          if op_kind r \<noteq> KPrompt then Inl (Conflict (OnReplay (KeyBelongsToOperation (op_id r) (op_outcome r))))
          else if op_outcome r = OpFailed then Inr None
          else if op_outcome r \<noteq> OpSucceeded
          then Inl (Conflict (OnReplay (KeyBelongsToOperation (op_id r) (op_outcome r))))
          else
            rbind (ok_or (InvalidRecord (ReplayNoKind (op_id r)))
                     (find_row (\<lambda>x. dl_operation x = Some (op_id r)) (deliveries d))) (\<lambda>x.
            rbind (ok_or (InvalidRecord (ReplayNoKind (op_id r))) (find_message d (dl_message x))) (\<lambda>m.
            rbind (ensure (ms_kind m = kind) (Conflict (OnReplay (KeyNotMatchingPrompt (op_id r) kind)))) (\<lambda>_.
            rbind (ensure (replay_sender d m = Some sender \<and> ms_reply_to m = reply_to)
                     (Conflict (OnReplay (KeyDifferentSender (op_id r))))) (\<lambda>_.
            rbind (if ms_kind m = Ask then map_sum id Some (obligation_reply_delivery (ms_id m) d)
                   else Inr None) (\<lambda>rd.
              Inr (Some \<lparr>rp_operation = op_id r, rp_message = ms_id m, rp_kind = ms_kind m,
                rp_recipient = ms_recipient m, rp_incarnation = op_target r,
                rp_delivery_outcome = dl_outcome x,
                rp_waiting = map_option ob_waiting (replay_obligation d m),
                rp_reply_to = ms_reply_to m, rp_disposition = ms_disposition m,
                rp_obligation_state = map_option ob_state (replay_obligation d m),
                rp_remind_after_ms = map_option rm_interval_ms
                  (find_row (\<lambda>y. rm_ask y = ms_id m) (reminders d)),
                rp_reply_delivery = rd, rp_intent = op_intent r\<rparr>)))))))"

section \<open>The initial message of a launch\<close>

definition DEFAULT_REMINDER_INTERVAL_MS :: int where "DEFAULT_REMINDER_INTERVAL_MS = 2700000"

definition incarnation_owner :: "db \<Rightarrow> incarnation_id \<Rightarrow> (incarnation_row \<Rightarrow> bool) \<Rightarrow> logical_agent_id option" where
  "incarnation_owner d inc p =
     map_option in_agent (find_row (\<lambda>i. in_id i = inc \<and> p i) (incarnations d))"

definition is_ready :: "incarnation_row \<Rightarrow> bool" where
  "is_ready i \<longleftrightarrow> in_state i = IReady"

definition initial_sender_check :: "initial_message_intent \<Rightarrow> db \<Rightarrow> store_error + unit" where
  "initial_sender_check intent d = (case im_sender intent of None \<Rightarrow> Inr ()
     | Some s \<Rightarrow>
         rbind (ensure (agent_exists d s) (Conflict (OnMessage InitialSenderAbsent))) (\<lambda>_.
         if im_kind intent = InitialAsk \<and> im_reply_delivery intent = Pull then
           rbind (waiter_identity s d) (\<lambda>w.
             ensure (wi_transport w \<noteq> SocketInbox) (Conflict (OnMessage WaiterRefusesPull)))
         else Inr ()))"

definition create_initial_message ::
  "int \<Rightarrow> logical_agent_id \<Rightarrow> incarnation_id \<Rightarrow> initial_message_intent \<Rightarrow> string \<Rightarrow> db
   \<Rightarrow> store_error + (message_id \<times> operation_id \<times> db)" where
  "create_initial_message now recipient inc intent key d =
     rbind (ensure (\<not> (im_kind intent = InitialAsk \<and> im_sender intent = None))
              (Conflict (OnMessage OperatorInitialAsk))) (\<lambda>_.
     rbind (ensure (\<not> (im_kind intent \<noteq> InitialAsk \<and> im_reply_delivery intent = Pull))
              (Conflict (OnMessage PullOnlyOnAsk))) (\<lambda>_.
     rbind (ensure (incarnation_owner d inc is_ready = Some recipient)
              (Conflict (OnMessage InitialRecipientNotReady))) (\<lambda>_.
     rbind (initial_sender_check intent d) (\<lambda>_.
     rbind (insert_message (im_sender intent) recipient
              (case im_kind intent of InitialTell \<Rightarrow> Tell | InitialAsk \<Rightarrow> Ask) (im_body intent) now
              None None (im_kind intent = InitialAsk) d) (\<lambda>(m, d).
     rbind (case (im_kind intent, im_sender intent) of
              (InitialAsk, Some s) \<Rightarrow>
                rbind (insert_obligation m recipient s now (im_reply_delivery intent) d)
                  (insert_reminder m DEFAULT_REMINDER_INTERVAL_MS)
            | _ \<Rightarrow> Inr d) (\<lambda>d.
     rbind (insert_operation key KPrompt inc (IntentMessage m None None) now d) (\<lambda>(oid, d).
     rbind (insert_delivery (herdr_delivery m inc now DPending oid) d) (\<lambda>d.
       Inr (m, oid, d)))))))))"

section \<open>Ask\<close>

definition create_ask_with_reply_delivery ::
  "int \<Rightarrow> logical_agent_id \<Rightarrow> logical_agent_id \<Rightarrow> incarnation_id \<Rightarrow> string \<Rightarrow> string \<Rightarrow> int option
   \<Rightarrow> int option \<Rightarrow> bool \<Rightarrow> reply_delivery \<Rightarrow> db \<Rightarrow> store_error + (message_id \<times> operation_id \<times> db)" where
  "create_ask_with_reply_delivery now sender recipient inc body key due remind operator rd d =
     rbind (ensure (case remind of None \<Rightarrow> True | Some v \<Rightarrow> 0 < v)
              (Conflict (OnMessage ReminderIntervalNotPositive))) (\<lambda>_.
     rbind (replay_prompt_by_idempotency_key key Ask sender None d) (\<lambda>replay.
       case replay of
         Some r \<Rightarrow>
           let stored = (case rp_reply_delivery r of None \<Rightarrow> Inject | Some s \<Rightarrow> s) in
           rbind (ensure (stored = rd) (Conflict (OnReplay (KeyOtherReplyDelivery stored)))) (\<lambda>_.
             Inr (rp_message r, rp_operation r, d))
       | None \<Rightarrow>
           rbind (delivery_schedule now due) (\<lambda>(scheduled, outc).
           rbind (ensure (incarnation_owner d inc (\<lambda>_. True) = Some recipient)
                    (Conflict (OnMessage RecipientIncarnationMismatch))) (\<lambda>_.
           rbind (waiter_identity sender d) (\<lambda>waiting.
           rbind (ensure (operator \<longrightarrow> wi_transport waiting = SocketInbox)
                    (Conflict (OnMessage OperatorNotWaiter))) (\<lambda>_.
           rbind (ensure (\<not> wi_ended waiting) (Conflict (OnMessage (WaiterNotTarget sender)))) (\<lambda>_.
           rbind (ensure (\<not> (rd = Pull \<and> wi_transport waiting = SocketInbox))
                    (Conflict (OnMessage WaiterRefusesPull))) (\<lambda>_.
           rbind (insert_message (if operator then None else Some sender) recipient Ask body now
                    None None True d) (\<lambda>(m, d).
           rbind (insert_obligation m recipient sender now rd d) (\<lambda>d.
           rbind (case remind of None \<Rightarrow> Inr d | Some v \<Rightarrow> insert_reminder m v d) (\<lambda>d.
           rbind (insert_operation key KPrompt inc (IntentMessage m (Some inc) due) now d) (\<lambda>(oid, d).
           rbind (insert_delivery (herdr_delivery m inc scheduled outc oid) d) (\<lambda>d.
             Inr (m, oid, d))))))))))))))"

definition create_ask_with_schedule ::
  "int \<Rightarrow> logical_agent_id \<Rightarrow> logical_agent_id \<Rightarrow> incarnation_id \<Rightarrow> string \<Rightarrow> string \<Rightarrow> int option
   \<Rightarrow> int option \<Rightarrow> bool \<Rightarrow> db \<Rightarrow> store_error + (message_id \<times> operation_id \<times> db)" where
  "create_ask_with_schedule now sender recipient inc body key due remind operator d =
     create_ask_with_reply_delivery now sender recipient inc body key due remind operator Inject d"

definition create_ask_with_due ::
  "int \<Rightarrow> logical_agent_id \<Rightarrow> logical_agent_id \<Rightarrow> incarnation_id \<Rightarrow> string \<Rightarrow> string \<Rightarrow> int option
   \<Rightarrow> db \<Rightarrow> store_error + (message_id \<times> operation_id \<times> db)" where
  "create_ask_with_due now sender recipient inc body key due d =
     create_ask_with_schedule now sender recipient inc body key due None False d"

definition create_ask ::
  "int \<Rightarrow> logical_agent_id \<Rightarrow> logical_agent_id \<Rightarrow> incarnation_id \<Rightarrow> string \<Rightarrow> string
   \<Rightarrow> db \<Rightarrow> store_error + (message_id \<times> operation_id \<times> db)" where
  "create_ask now sender recipient inc body key d =
     create_ask_with_due now sender recipient inc body key None d"

section \<open>Tell\<close>

definition create_tell_with_due ::
  "int \<Rightarrow> logical_agent_id \<Rightarrow> logical_agent_id \<Rightarrow> incarnation_id \<Rightarrow> string \<Rightarrow> string \<Rightarrow> int option
   \<Rightarrow> db \<Rightarrow> store_error + (message_id \<times> operation_id \<times> db)" where
  "create_tell_with_due now sender recipient inc body key due d =
     rbind (replay_prompt_by_idempotency_key key Tell sender None d) (\<lambda>replay.
       case replay of
         Some r \<Rightarrow> Inr (rp_message r, rp_operation r, d)
       | None \<Rightarrow>
           rbind (delivery_schedule now due) (\<lambda>(scheduled, outc).
           rbind (ensure (incarnation_owner d inc is_ready = Some recipient)
                    (Conflict (OnMessage RecipientNotReady))) (\<lambda>_.
           rbind (ensure (agent_exists d sender) (Conflict (OnMessage SenderAbsent))) (\<lambda>_.
           rbind (insert_message (Some sender) recipient Tell body now None None False d) (\<lambda>(m, d).
           rbind (insert_operation key KPrompt inc (IntentMessage m None due) now d) (\<lambda>(oid, d).
           rbind (insert_delivery (herdr_delivery m inc scheduled outc oid) d) (\<lambda>d.
             Inr (m, oid, d))))))))"

definition create_tell ::
  "int \<Rightarrow> logical_agent_id \<Rightarrow> logical_agent_id \<Rightarrow> incarnation_id \<Rightarrow> string \<Rightarrow> string
   \<Rightarrow> db \<Rightarrow> store_error + (message_id \<times> operation_id \<times> db)" where
  "create_tell now sender recipient inc body key d =
     create_tell_with_due now sender recipient inc body key None d"

text \<open>The stored message of a socket-inbox key; its sender column is read as not null.\<close>

definition socket_inbox_key_message :: "string \<Rightarrow> db \<Rightarrow> store_error + message_row option" where
  "socket_inbox_key_message key d =
     (case Option.bind (map_of (inbox_keys d) key) (find_message d) of None \<Rightarrow> Inr None
      | Some m \<Rightarrow> if ms_sender m = None then Inl (Sql NullColumn) else Inr (Some m))"

definition replay_socket_inbox_tell ::
  "string \<Rightarrow> logical_agent_id \<Rightarrow> db \<Rightarrow> store_error + message_id option" where
  "replay_socket_inbox_tell key sender d =
     rbind (socket_inbox_key_message key d) (\<lambda>stored.
       case stored of None \<Rightarrow> Inr None
       | Some m \<Rightarrow>
           rbind (ensure (ms_kind m = Tell \<and> ms_sender m = Some sender)
                    (Conflict (OnReplay (KeyBelongsToInboxMessage (ms_id m))))) (\<lambda>_.
             Inr (Some (ms_id m))))"

definition create_socket_tell ::
  "int \<Rightarrow> logical_agent_id \<Rightarrow> logical_agent_id \<Rightarrow> string \<Rightarrow> string \<Rightarrow> int option \<Rightarrow> db
   \<Rightarrow> store_error + (message_id \<times> db)" where
  "create_socket_tell now sender recipient body key due d =
     rbind (replay_socket_inbox_tell key sender d) (\<lambda>replay.
       case replay of Some m \<Rightarrow> Inr (m, d)
       | None \<Rightarrow>
           rbind (delivery_schedule now due) (\<lambda>(scheduled, _).
           rbind (require_active_socket_waiter recipient d) (\<lambda>_.
           rbind (ensure (agent_exists d sender) (Conflict (OnMessage SenderAbsent))) (\<lambda>_.
           rbind (insert_message (Some sender) recipient Tell body now None None False d) (\<lambda>(m, d).
           rbind (queue_socket_inbox_delivery_at m recipient scheduled d) (\<lambda>d.
           rbind (insert_key key m (inbox_keys d)) (\<lambda>ks.
             Inr (m, d\<lparr>inbox_keys := ks\<rparr>))))))))"

section \<open>Reply\<close>

record created_reply =
  cr_message :: message_id
  cr_operation :: "operation_id option"
  cr_incarnation :: "incarnation_id option"
  cr_disposition :: reply_disposition

definition replay_ask_pull_reply ::
  "string \<Rightarrow> logical_agent_id \<Rightarrow> message_id \<Rightarrow> db \<Rightarrow> store_error + created_reply option" where
  "replay_ask_pull_reply key requester reply_to d =
     (case Option.bind (map_of (pull_keys d) key) (find_message d) of None \<Rightarrow> Inr None
      | Some m \<Rightarrow>
          rbind (ok_or (Sql NullColumn) (ms_disposition m)) (\<lambda>disposition.
          rbind (ok_or (Sql NullColumn) (ms_sender m)) (\<lambda>sender.
          rbind (ensure (sender = requester) (Conflict (OnReplay IdempotencyKeyExists))) (\<lambda>_.
          rbind (ensure (ms_reply_to m = Some reply_to) (Conflict (OnReplay IdempotencyKeyExists))) (\<lambda>_.
            Inr (Some \<lparr>cr_message = ms_id m, cr_operation = None, cr_incarnation = None,
                       cr_disposition = disposition\<rparr>))))))"

definition replay_socket_inbox_reply ::
  "string \<Rightarrow> logical_agent_id \<Rightarrow> message_id \<Rightarrow> db \<Rightarrow> store_error + created_reply option" where
  "replay_socket_inbox_reply key requester reply_to d =
     rbind (socket_inbox_key_message key d) (\<lambda>stored.
       case stored of None \<Rightarrow> Inr None
       | Some m \<Rightarrow>
           rbind (ensure (ms_kind m = Reply \<and> ms_sender m = Some requester \<and> ms_reply_to m = Some reply_to)
                    (Conflict (OnReplay (KeyBelongsToInboxMessage (ms_id m))))) (\<lambda>_.
           rbind (ok_or (InvalidRecord (ReplayNoDisposition (ms_id m))) (ms_disposition m)) (\<lambda>disposition.
             Inr (Some \<lparr>cr_message = ms_id m, cr_operation = None, cr_incarnation = None,
                        cr_disposition = disposition\<rparr>))))"

definition refresh_reminder_activity :: "message_id \<Rightarrow> int \<Rightarrow> db \<Rightarrow> db" where
  "refresh_reminder_activity ask now_ms d =
     upd_reminders (\<lambda>r. rm_ask r = ask \<and> rm_disabled_at_ms r = None \<and> rm_suspended_at_ms r = None)
       (\<lambda>r. r\<lparr>rm_next_due_at_ms :=
          Some (max (case rm_next_due_at_ms r of None \<Rightarrow> 0 | Some t \<Rightarrow> t) (now_ms + rm_interval_ms r))\<rparr>) d"

definition apply_reply_obligation_activity ::
  "message_id \<Rightarrow> reply_disposition \<Rightarrow> int \<Rightarrow> db \<Rightarrow> db" where
  "apply_reply_obligation_activity reply_to disposition now d =
     refresh_reminder_activity reply_to now
       (case disposition of
          Progress \<Rightarrow> upd_obligations (\<lambda>x. ob_ask x = reply_to)
            (\<lambda>x. x\<lparr>ob_state := ObInProgress, ob_last_activity_ms := now\<rparr>) d
        | Final \<Rightarrow> upd_obligations (\<lambda>x. ob_ask x = reply_to \<and> ob_unsettled (ob_state x))
            (\<lambda>x. x\<lparr>ob_last_activity_ms := now\<rparr>) d)"

definition reply_replay ::
  "message_id \<Rightarrow> logical_agent_id \<Rightarrow> string \<Rightarrow> db \<Rightarrow> store_error + created_reply option" where
  "reply_replay reply_to requester key d =
     rbind (replay_prompt_by_idempotency_key key Reply requester (Some reply_to) d) (\<lambda>replay.
       case replay of
         Some r \<Rightarrow>
           rbind (ok_or (InvalidRecord (ReplayNoDisposition (rp_message r))) (rp_disposition r)) (\<lambda>disposition.
             Inr (Some \<lparr>cr_message = rp_message r, cr_operation = Some (rp_operation r),
                        cr_incarnation = Some (rp_incarnation r), cr_disposition = disposition\<rparr>))
       | None \<Rightarrow>
           rbind (replay_ask_pull_reply key requester reply_to d) (\<lambda>replay.
             case replay of Some r \<Rightarrow> Inr (Some r)
             | None \<Rightarrow> replay_socket_inbox_reply key requester reply_to d))"

text \<open>The three routes of a recorded reply: the pull sink, the socket inbox, the Herdr prompt.\<close>

definition route_pull_reply ::
  "int \<Rightarrow> message_id \<Rightarrow> message_id \<Rightarrow> logical_agent_id \<Rightarrow> reply_disposition \<Rightarrow> string \<Rightarrow> db
   \<Rightarrow> store_error + (created_reply \<times> db)" where
  "route_pull_reply now m reply_to waiting disposition key d =
     rbind (queue_ask_pull_delivery m waiting now d) (\<lambda>d.
     rbind (insert_key key m (pull_keys d)) (\<lambda>ks.
       Inr (\<lparr>cr_message = m, cr_operation = None, cr_incarnation = None, cr_disposition = disposition\<rparr>,
            apply_reply_obligation_activity reply_to disposition now (d\<lparr>pull_keys := ks\<rparr>))))"

definition route_inbox_reply ::
  "int \<Rightarrow> message_id \<Rightarrow> message_id \<Rightarrow> logical_agent_id \<Rightarrow> reply_disposition \<Rightarrow> string \<Rightarrow> db
   \<Rightarrow> store_error + (created_reply \<times> db)" where
  "route_inbox_reply now m reply_to waiting disposition key d =
     rbind (queue_socket_inbox_delivery m waiting now d) (\<lambda>d.
     rbind (insert_key key m (inbox_keys d)) (\<lambda>ks.
       Inr (\<lparr>cr_message = m, cr_operation = None, cr_incarnation = None, cr_disposition = disposition\<rparr>,
            apply_reply_obligation_activity reply_to disposition now (d\<lparr>inbox_keys := ks\<rparr>))))"

definition route_prompt_reply ::
  "int \<Rightarrow> message_id \<Rightarrow> message_id \<Rightarrow> logical_agent_id \<Rightarrow> reply_disposition \<Rightarrow> string \<Rightarrow> int option \<Rightarrow> db
   \<Rightarrow> store_error + (created_reply \<times> db)" where
  "route_prompt_reply now m reply_to waiting disposition key due d =
     rbind (ready_incarnation_for_agent waiting d) (\<lambda>inc.
     rbind (insert_operation key KPrompt inc (IntentReply m reply_to disposition inc) now d) (\<lambda>(oid, d).
     rbind (insert_delivery (herdr_delivery m inc (case due of None \<Rightarrow> now | Some t \<Rightarrow> t)
              (case due of None \<Rightarrow> DPending | Some _ \<Rightarrow> DQueued) oid) d) (\<lambda>d.
       Inr (\<lparr>cr_message = m, cr_operation = Some oid, cr_incarnation = Some inc, cr_disposition = disposition\<rparr>,
            apply_reply_obligation_activity reply_to disposition now d))))"

definition route_reply ::
  "int \<Rightarrow> message_id \<Rightarrow> message_id \<Rightarrow> obligation_row \<Rightarrow> delivery_transport \<Rightarrow> reply_disposition \<Rightarrow> string
   \<Rightarrow> int option \<Rightarrow> db \<Rightarrow> store_error + (created_reply \<times> db)" where
  "route_reply now m reply_to x transport disposition key due d =
     (if ob_reply_delivery x = Pull then route_pull_reply now m reply_to (ob_waiting x) disposition key d
      else (case transport of
          SocketInbox \<Rightarrow> route_inbox_reply now m reply_to (ob_waiting x) disposition key d
        | HerdrPrompt \<Rightarrow> route_prompt_reply now m reply_to (ob_waiting x) disposition key due d
        | AskPull \<Rightarrow> Inl (InvalidRecord (TransportAskPull (ob_waiting x)))))"

definition create_reply_with_due ::
  "int \<Rightarrow> message_id \<Rightarrow> logical_agent_id \<Rightarrow> string \<Rightarrow> reply_disposition \<Rightarrow> string \<Rightarrow> int option \<Rightarrow> db
   \<Rightarrow> store_error + (created_reply \<times> db)" where
  "create_reply_with_due now reply_to requester body disposition key due d =
     rbind (reply_replay reply_to requester key d) (\<lambda>replay.
       case replay of Some r \<Rightarrow> Inr (r, d)
       | None \<Rightarrow>
           rbind (ok_or (Conflict (OnReply ReplyToNoObligation)) (find_obligation d reply_to)) (\<lambda>x.
           rbind (ensure (ob_unsettled (ob_state x)) (Conflict (OnReply ObligationTerminal))) (\<lambda>_.
           rbind (ensure (requester = ob_owing x) (Conflict (OnReply RequesterNotOwner))) (\<lambda>_.
           rbind (waiter_identity (ob_waiting x) d) (\<lambda>w.
           rbind (ensure (\<not> wi_ended w) (Conflict (OnMessage (WaiterNotTarget (ob_waiting x))))) (\<lambda>_.
           rbind (insert_message (Some (ob_owing x)) (ob_waiting x) Reply body now
                    (Some reply_to) (Some disposition) False d) (\<lambda>(m, d).
             route_reply now m reply_to x (wi_transport w) disposition key due d)))))))"

definition create_reply ::
  "int \<Rightarrow> message_id \<Rightarrow> logical_agent_id \<Rightarrow> string \<Rightarrow> reply_disposition \<Rightarrow> string \<Rightarrow> db
   \<Rightarrow> store_error + (created_reply \<times> db)" where
  "create_reply now reply_to requester body disposition key d =
     create_reply_with_due now reply_to requester body disposition key None d"

datatype reply_receive_path = PathHerdrPrompt incarnation_id | PathSocketInbox | PathAskPull

definition reply_receive_path_of ::
  "message_id \<Rightarrow> logical_agent_id \<Rightarrow> db \<Rightarrow> store_error + reply_receive_path" where
  "reply_receive_path_of reply_to requester d =
     rbind (ok_or (Conflict (OnReply ReplyToNotOpen))
              (find_row (\<lambda>x. ob_ask x = reply_to \<and> ob_unsettled (ob_state x)) (obligations d))) (\<lambda>x.
     rbind (ensure (requester = ob_owing x) (Conflict (OnReply (OnlyOwingReplies (ob_owing x))))) (\<lambda>_.
       if ob_reply_delivery x = Pull then Inr PathAskPull
       else rbind (waiter_identity (ob_waiting x) d) (\<lambda>w.
            rbind (ensure (\<not> wi_ended w) (Conflict (OnMessage (WaiterNotTarget (ob_waiting x))))) (\<lambda>_.
              case wi_transport w of
                SocketInbox \<Rightarrow> Inr PathSocketInbox
              | HerdrPrompt \<Rightarrow> map_sum id PathHerdrPrompt (ready_incarnation_for_agent (ob_waiting x) d)
              | AskPull \<Rightarrow> Inl (InvalidRecord (TransportAskPull (ob_waiting x)))))))"

end
