(* ===== verification/Cancels.thy ===== *)
theory Cancels
  imports Messaging
begin

text \<open>
  Settling asks without a reply (\<open>src/src/store.rs\<close>): cancellation with and without notices,
  withdrawal of a delivery still queued, the sweep that retires queued asks already settled, the
  due deliveries, the liveness clock of socket waiters, and the orphaning of asks whose party
  stopped running.
\<close>

section \<open>What an agent owes\<close>

record pending_obligation =
  po_ask :: message_id
  po_waiting :: logical_agent_id
  po_state :: obligation_state

definition pending_obligations :: "logical_agent_id \<Rightarrow> db \<Rightarrow> store_error + pending_obligation list" where
  "pending_obligations owing d =
     rbind (ensure (agent_exists d owing) (Conflict (OnWaiter AgentAbsent))) (\<lambda>_.
       Inr (map (\<lambda>x. \<lparr>po_ask = ob_ask x, po_waiting = ob_waiting x, po_state = ob_state x\<rparr>)
              (sort_key ob_sequence
                (filter (\<lambda>x. ob_owing x = owing \<and> ob_unsettled (ob_state x)) (obligations d)))))"

section \<open>Cancellation\<close>

definition renew_ended :: "renew_phase \<Rightarrow> bool" where
  "renew_ended p \<longleftrightarrow> p \<in> {RDone, RAborted, RTerminated}"

definition refuse_renew_prepare_ask_cancel :: "message_id \<Rightarrow> db \<Rightarrow> store_error + unit" where
  "refuse_renew_prepare_ask_cancel ask d =
     (case find_row (\<lambda>r. rn_prepare_ask r = Some ask \<and> \<not> renew_ended (rn_phase r)) (renews d) of
        None \<Rightarrow> Inr ()
      | Some r \<Rightarrow> Inl (Conflict (OnCancel (PrepareAskOfRenew ask (rn_id r)))))"

definition unsettled_ask :: "message_id \<Rightarrow> obligation_row \<Rightarrow> bool" where
  "unsettled_ask ask x \<longleftrightarrow> ob_ask x = ask \<and> ob_unsettled (ob_state x)"

definition cancel_obligation ::
  "int \<Rightarrow> logical_agent_id \<Rightarrow> message_id \<Rightarrow> string \<Rightarrow> db \<Rightarrow> store_error + db" where
  "cancel_obligation now requester ask reason d =
     rbind (ensure (\<not> blank reason) (Conflict (OnCancel EmptyReason))) (\<lambda>_.
     rbind (ok_or (Conflict (OnPull ObligationAbsent)) (find_obligation d ask)) (\<lambda>x.
     rbind (ensure (ob_unsettled (ob_state x)) (Conflict (OnCancel (ObligationSettled ask (ob_state x))))) (\<lambda>_.
     rbind (refuse_renew_prepare_ask_cancel ask d) (\<lambda>_.
     rbind (ensure (agent_exists d requester) (Sql ForeignKey)) (\<lambda>_.
     rbind (ensure (count_rows (unsettled_ask ask) (obligations d) = 1)
              (Conflict (OnCancel ObligationRaced))) (\<lambda>_.
       Inr (upd_obligations (unsettled_ask ask) (cancel_row now requester reason) d)))))))"

definition ask_waiting_agent :: "message_id \<Rightarrow> db \<Rightarrow> store_error + logical_agent_id" where
  "ask_waiting_agent ask d =
     map_sum id ob_waiting (ok_or (Conflict (OnPull ObligationAbsent)) (find_obligation d ask))"

definition cancel_recipient_incarnation :: "message_id \<Rightarrow> db \<Rightarrow> store_error + incarnation_id option" where
  "cancel_recipient_incarnation ask d =
     rbind (ask_waiting_agent ask d) (\<lambda>waiting.
       optional_ready_incarnation waiting (OnReply AmbiguousReadyWaiting) d)"

definition cancel_owing_incarnation :: "message_id \<Rightarrow> db \<Rightarrow> store_error + incarnation_id option" where
  "cancel_owing_incarnation ask d =
     rbind (ok_or (Conflict (OnPull ObligationAbsent)) (find_obligation d ask)) (\<lambda>x.
       optional_ready_incarnation (ob_owing x) (OnReply AmbiguousReadyOwing) d)"

record created_cancellation =
  cc_message :: message_id
  cc_delivery :: "(operation_id \<times> incarnation_id) option"
  cc_owing_message :: message_id
  cc_owing_delivery :: "(operation_id \<times> incarnation_id) option"

text \<open>The two notices of a settled ask and the link from its obligation row to both.\<close>

definition record_both_sides ::
  "int \<Rightarrow> obligation_row \<Rightarrow> string \<Rightarrow> string \<Rightarrow> string \<Rightarrow> int option \<Rightarrow> int option \<Rightarrow> db
   \<Rightarrow> store_error + (created_cancellation \<times> db)" where
  "record_both_sides now x reason body owing_body due owing_due d =
     rbind (record_cancellation_side (ob_waiting x) (ob_ask x) reason body Waiting due now
              (OnReply AmbiguousReadyWaiting) d) (\<lambda>(m, delivery, d).
     rbind (record_cancellation_side (ob_owing x) (ob_ask x) reason owing_body Owing owing_due now
              (OnReply AmbiguousReadyOwing) d) (\<lambda>(om, owing_delivery, d).
       Inr (\<lparr>cc_message = m, cc_delivery = delivery, cc_owing_message = om,
             cc_owing_delivery = owing_delivery\<rparr>,
            upd_obligations (\<lambda>y. ob_ask y = ob_ask x)
              (\<lambda>y. y\<lparr>ob_cancel_response := Some m, ob_cancel_owing := Some om\<rparr>) d)))"

definition cancel_with_response ::
  "int \<Rightarrow> logical_agent_id \<Rightarrow> message_id \<Rightarrow> string \<Rightarrow> string \<Rightarrow> string \<Rightarrow> int option \<Rightarrow> int option \<Rightarrow> db
   \<Rightarrow> store_error + (created_cancellation \<times> db)" where
  "cancel_with_response now requester ask reason body owing_body due owing_due d =
     rbind (ensure (\<not> blank reason) (Conflict (OnCancel EmptyReason))) (\<lambda>_.
     rbind (ok_or (Conflict (OnPull ObligationAbsent)) (find_obligation d ask)) (\<lambda>x.
     rbind (ensure (ob_unsettled (ob_state x)) (Conflict (OnCancel (ObligationSettled ask (ob_state x))))) (\<lambda>_.
     rbind (refuse_renew_prepare_ask_cancel ask d) (\<lambda>_.
     rbind (record_both_sides now x reason body owing_body due owing_due d) (\<lambda>(created, d).
     rbind (ensure (agent_exists d requester) (Sql ForeignKey)) (\<lambda>_.
     rbind (ensure (count_rows (unsettled_ask ask) (obligations d) = 1)
              (Conflict (OnCancel ObligationRaced))) (\<lambda>_.
       Inr (created, upd_obligations (unsettled_ask ask) (cancel_row now requester reason) d))))))))"

text \<open>
  The first delivery of the message is read whatever its transport, and its operation as not
  null: an inbox or a pull delivery, which has none, is a read error.
\<close>

definition cancel_queued_delivery ::
  "int \<Rightarrow> logical_agent_id \<Rightarrow> message_id \<Rightarrow> string \<Rightarrow> db \<Rightarrow> store_error + (bool \<times> db)" where
  "cancel_queued_delivery now requester m reason d =
     rbind (ensure (\<not> blank reason) (Conflict (OnCancel EmptyReason))) (\<lambda>_.
     case (find_message d m, find_row (\<lambda>r. dl_message r = m) (deliveries d)) of
       (Some msg, Some r) \<Rightarrow>
         (case dl_operation r of None \<Rightarrow> Inl (Sql NullColumn)
          | Some oid \<Rightarrow>
              if dl_outcome r \<noteq> DQueued then Inr (False, d)
              else
                let due = (\<lambda>r. dl_operation r = Some oid \<and> dl_outcome r = DQueued);
                    pending = (\<lambda>r. op_id r = oid \<and> op_outcome r = OpPending);
                    ask = (ms_kind msg = Ask) in
                rbind (ensure (\<not> (ms_kind msg = Tell \<and> ms_sender msg \<noteq> Some requester))
                         (Conflict (OnCancel NotTellOwner))) (\<lambda>_.
                rbind (if ask then
                         rbind (ensure (find_obligation d m \<noteq> None) (Conflict (OnPull ObligationAbsent)))
                           (\<lambda>_. refuse_renew_prepare_ask_cancel m d)
                       else Inr ()) (\<lambda>_.
                rbind (ensure (count_rows (\<lambda>a. at_operation a = oid \<and> at_phase a \<noteq> APrepared) (attempts d) = 0)
                         (Conflict (OnCancel AlreadySubmitted))) (\<lambda>_.
                rbind (ensure (agent_exists d requester) (Sql ForeignKey)) (\<lambda>_.
                rbind (ensure (count_rows due (deliveries d) = 1) (Conflict (OnCancel QueuedRaced))) (\<lambda>_.
                rbind (ensure (count_rows pending (operations d) = 1)
                         (Conflict (OnCancel QueuedOperationRaced))) (\<lambda>_.
                rbind (ensure (ask \<longrightarrow> count_rows (unsettled_ask m) (obligations d) = 1)
                         (Conflict (OnCancel ScheduledObligationRaced))) (\<lambda>_.
                  let d' = upd_operations pending
                             (\<lambda>r. r\<lparr>op_outcome := OpSuperseded, op_resolved_at_ms := Some now\<rparr>)
                          (upd_deliveries due
                             (\<lambda>r. r\<lparr>dl_outcome := DSuperseded, dl_resolved_at_ms := Some now,
                                    dl_cancelled_at_ms := Some now, dl_cancel_requester := Some requester,
                                    dl_cancel_reason := Some reason\<rparr>) d)
                  in Inr (True, if ask then upd_obligations (unsettled_ask m)
                                  (cancel_row now requester reason) d' else d')))))))))
     | _ \<Rightarrow> Inr (False, d))"

definition settled_queued_ask :: "db \<Rightarrow> delivery_row \<Rightarrow> bool" where
  "settled_queued_ask d r \<longleftrightarrow> dl_outcome r = DQueued
     \<and> exists_row (\<lambda>x. ob_ask x = dl_message r \<and> \<not> ob_unsettled (ob_state x)) (obligations d)"

definition supersede_settled_queued_asks :: "int \<Rightarrow> db \<Rightarrow> nat \<times> db" where
  "supersede_settled_queued_asks now_ms d =
     (count_rows (settled_queued_ask d) (deliveries d),
      upd_deliveries (settled_queued_ask d)
        (\<lambda>r. r\<lparr>dl_outcome := DSuperseded, dl_resolved_at_ms := Some now_ms, dl_cancelled_at_ms := Some now_ms,
               dl_cancel_reason := Some ''obligation settled before the scheduled delivery fired''\<rparr>) d)"

section \<open>Due deliveries\<close>

record due_delivery =
  dd_operation :: operation_id
  dd_message :: message_id
  dd_kind :: message_kind
  dd_sender :: "logical_agent_id option"
  dd_recipient :: logical_agent_id
  dd_incarnation :: incarnation_id
  dd_body :: string
  dd_scheduled_at_ms :: int

text \<open>A clear of the incarnation still in flight, which holds prompts and reminders back.\<close>

definition clear_in_flight :: "db \<Rightarrow> incarnation_id \<Rightarrow> bool" where
  "clear_in_flight d inc \<longleftrightarrow> exists_row (\<lambda>r. op_kind r = KClear \<and> op_target r = inc
     \<and> op_outcome r \<in> {OpPending, OpAccepted}) (operations d)"

definition delivery_is_due :: "db \<Rightarrow> int \<Rightarrow> delivery_row \<Rightarrow> bool" where
  "delivery_is_due d now_ms r \<longleftrightarrow>
     dl_outcome r = DQueued \<and> dl_scheduled_at_ms r \<le> now_ms \<and> dl_transport r = HerdrPrompt
     \<and> \<not> exists_row (\<lambda>n. dl_incarnation r = Some (rn_incarnation n)
              \<and> rn_phase n \<in> {RReady, RClearing}) (renews d)
     \<and> \<not> (\<exists>i \<in> set_option (dl_incarnation r). clear_in_flight d i)"

definition due_view :: "db \<Rightarrow> delivery_row \<Rightarrow> (int \<times> due_delivery) list" where
  "due_view d r = (case (find_message d (dl_message r), dl_operation r, dl_incarnation r) of
     (Some m, Some oid, Some inc) \<Rightarrow>
       [(ms_created_at_ms m,
         \<lparr>dd_operation = oid, dd_message = ms_id m, dd_kind = ms_kind m,
          dd_sender = (if ms_kind m = Ask
                       then (case ms_sender m of Some s \<Rightarrow> Some s
                             | None \<Rightarrow> map_option ob_waiting (find_obligation d (ms_id m)))
                       else ms_sender m),
          dd_recipient = ms_recipient m, dd_incarnation = inc, dd_body = ms_body m,
          dd_scheduled_at_ms = dl_scheduled_at_ms r\<rparr>)]
   | _ \<Rightarrow> [])"

definition due_deliveries :: "int \<Rightarrow> db \<Rightarrow> due_delivery list" where
  "due_deliveries now_ms d =
     map snd (sort_key (dd_scheduled_at_ms \<circ> snd) (sort_key fst
       (concat (map (due_view d) (filter (delivery_is_due d now_ms) (deliveries d))))))"

section \<open>Absence of a socket waiter\<close>

definition touch_waiter_seen :: "logical_agent_id \<Rightarrow> int \<Rightarrow> db \<Rightarrow> bool \<times> db" where
  "touch_waiter_seen a now_ms d =
     (count_rows (\<lambda>r. la_id r = a \<and> active_waiter_row r) (agents d) = 1,
      upd_agents (\<lambda>r. la_id r = a \<and> active_waiter_row r) (\<lambda>r. r\<lparr>la_seen_at_ms := Some now_ms\<rparr>) d)"

definition claimed_waiter :: "agent_row \<Rightarrow> bool" where
  "claimed_waiter r \<longleftrightarrow> active_waiter_row r \<and> la_seen_at_ms r \<noteq> None"

definition boot_reset_waiter_seen :: "int \<Rightarrow> db \<Rightarrow> nat \<times> db" where
  "boot_reset_waiter_seen now_ms d =
     (count_rows claimed_waiter (agents d),
      upd_agents claimed_waiter (\<lambda>r. r\<lparr>la_seen_at_ms := Some now_ms\<rparr>) d)"

definition has_open_obligations :: "db \<Rightarrow> bool" where
  "has_open_obligations d \<longleftrightarrow> exists_row (\<lambda>x. ob_unsettled (ob_state x)) (obligations d)"

definition has_claimed_waiters :: "db \<Rightarrow> bool" where
  "has_claimed_waiters d \<longleftrightarrow> exists_row claimed_waiter (agents d)"

record expired_waiter =
  ew_agent :: logical_agent_id
  ew_last_seen_at_ms :: int

definition expired_waiter_row :: "int \<Rightarrow> int \<Rightarrow> agent_row \<Rightarrow> bool" where
  "expired_waiter_row now_ms grace r \<longleftrightarrow> active_waiter_row r
     \<and> (case la_seen_at_ms r of None \<Rightarrow> False | Some t \<Rightarrow> grace \<le> now_ms - t)"

definition expired_waiters :: "int \<Rightarrow> int \<Rightarrow> db \<Rightarrow> expired_waiter list" where
  "expired_waiters now_ms grace d =
     map (\<lambda>r. \<lparr>ew_agent = la_id r, ew_last_seen_at_ms = the (la_seen_at_ms r)\<rparr>)
       (sort_key la_created_at_ms (sort_key la_id
         (filter (expired_waiter_row now_ms grace) (agents d))))"

section \<open>Orphaned asks\<close>

definition agent_incarnation :: "db \<Rightarrow> logical_agent_id \<Rightarrow> (incarnation_row \<Rightarrow> bool) \<Rightarrow> bool" where
  "agent_incarnation d a p \<longleftrightarrow> exists_row (\<lambda>i. in_agent i = a \<and> p i) (incarnations d)"

definition party_present :: "db \<Rightarrow> logical_agent_id \<Rightarrow> bool" where
  "party_present d a \<longleftrightarrow>
     exists_row (\<lambda>l. la_id l = a \<and> active_waiter_row l) (agents d)
     \<or> agent_incarnation d a (\<lambda>i. in_state i \<in> {IReady, IStarting})
     \<or> exists_row (\<lambda>r. op_kind r \<in> {KStart, KAdopt, KClear, KRetire}
            \<and> op_outcome r \<in> {OpPending, OpAccepted}
            \<and> agent_incarnation d a (\<lambda>i. in_id i = op_target r)) (operations d)
     \<or> exists_row (\<lambda>r. rn_agent r = a \<and> \<not> renew_ended (rn_phase r)) (renews d)"

definition availability_update :: "db \<Rightarrow> int \<Rightarrow> obligation_row \<Rightarrow> (message_id \<times> int option) list" where
  "availability_update d now_ms x =
     (if \<not> ob_unsettled (ob_state x) then []
      else case (party_present d (ob_waiting x) \<and> party_present d (ob_owing x), ob_unavailable_since_ms x) of
        (True, Some _) \<Rightarrow> [(ob_ask x, None)]
      | (False, None) \<Rightarrow> [(ob_ask x, Some now_ms)]
      | _ \<Rightarrow> [])"

fun write_availability :: "(message_id \<times> int option) list \<Rightarrow> db \<Rightarrow> nat \<times> db" where
  "write_availability [] d = (0, d)"
| "write_availability ((ask, v) # us) d =
     (let n = count_rows (\<lambda>x. ob_ask x = ask) (obligations d);
          (k, d') = write_availability us
            (upd_obligations (\<lambda>x. ob_ask x = ask) (\<lambda>x. x\<lparr>ob_unavailable_since_ms := v\<rparr>) d)
      in (n + k, d'))"

definition observe_ask_availability :: "int \<Rightarrow> db \<Rightarrow> nat \<times> db" where
  "observe_ask_availability now_ms d =
     write_availability (concat (map (availability_update d now_ms) (obligations d))) d"

definition delivery_in_flight :: "delivery_outcome \<Rightarrow> bool" where
  "delivery_in_flight out \<longleftrightarrow> out \<in> {DQueued, DSubmitted, DAccepted, DUnknown}"

definition in_flight_final :: "db \<Rightarrow> message_id \<Rightarrow> bool" where
  "in_flight_final d ask \<longleftrightarrow>
     exists_row (\<lambda>m. is_final_reply m \<and> ms_reply_to m = Some ask
       \<and> exists_row (\<lambda>r. dl_message r = ms_id m \<and> delivery_in_flight (dl_outcome r)) (deliveries d))
       (messages d)"

record stranded_ask =
  sa_ask :: message_id
  sa_waiting :: logical_agent_id
  sa_owing :: logical_agent_id

definition ask_is_stranded :: "db \<Rightarrow> int \<Rightarrow> int \<Rightarrow> obligation_row \<Rightarrow> bool" where
  "ask_is_stranded d now_ms grace x \<longleftrightarrow> ob_unsettled (ob_state x)
     \<and> (case ob_unavailable_since_ms x of None \<Rightarrow> False | Some t \<Rightarrow> grace \<le> now_ms - t)
     \<and> \<not> exists_row (\<lambda>r. rn_prepare_ask r = Some (ob_ask x) \<and> \<not> renew_ended (rn_phase r)) (renews d)
     \<and> \<not> in_flight_final d (ob_ask x)"

definition stranded_asks :: "int \<Rightarrow> int \<Rightarrow> db \<Rightarrow> stranded_ask list" where
  "stranded_asks now_ms grace d =
     map (\<lambda>x. \<lparr>sa_ask = ob_ask x, sa_waiting = ob_waiting x, sa_owing = ob_owing x\<rparr>)
       (sort_key ob_sequence (filter (ask_is_stranded d now_ms grace) (obligations d)))"

definition missing_party :: "bool \<Rightarrow> bool \<Rightarrow> string" where
  "missing_party waiting_present owing_present =
     (if waiting_present then ''the responder''
      else if owing_present then ''the asker'' else ''both parties'')"

definition orphan_waiting_body :: "message_id \<Rightarrow> string \<Rightarrow> string" where
  "orphan_waiting_body ask missing =
     ''Your ask '' @ show_nat ask @ '' was closed by Kelpie because '' @ missing
     @ '' is no longer running. No reply is owed. Re-ask if it still matters.''"

definition orphan_owing_body :: "message_id \<Rightarrow> string \<Rightarrow> string" where
  "orphan_owing_body ask missing =
     ''Stop working on ask '' @ show_nat ask @ ''. It was closed by Kelpie because '' @ missing
     @ '' is no longer running. No reply is owed.''"

definition orphan_row :: "int \<Rightarrow> string \<Rightarrow> obligation_row \<Rightarrow> obligation_row" where
  "orphan_row now reason x =
     x\<lparr>ob_state := ObOrphaned, ob_last_activity_ms := now, ob_cancel_requester := None,
       ob_cancel_reason := Some reason\<rparr>"

definition orphan_ask :: "int \<Rightarrow> message_id \<Rightarrow> db \<Rightarrow> store_error + (created_cancellation option \<times> db)" where
  "orphan_ask now ask d =
     (case find_obligation d ask of None \<Rightarrow> Inr (None, d)
      | Some x \<Rightarrow>
          if \<not> ob_unsettled (ob_state x) then Inr (None, d)
          else rbind (refuse_renew_prepare_ask_cancel ask d) (\<lambda>_.
            if in_flight_final d ask then Inr (None, d)
            else
              let wp = party_present d (ob_waiting x); op = party_present d (ob_owing x) in
              if wp \<and> op then Inr (None, d)
              else
                let missing = missing_party wp op; reason = missing @ '' is no longer running'' in
                rbind (record_both_sides now x reason (orphan_waiting_body ask missing)
                         (orphan_owing_body ask missing) None None d) (\<lambda>(created, d).
                rbind (ensure (count_rows (unsettled_ask ask) (obligations d) = 1)
                         (Conflict (OnCancel OrphanRaced))) (\<lambda>_.
                  Inr (Some created, upd_obligations (unsettled_ask ask) (orphan_row now reason) d)))))"

end
