(* ===== verification/Schedules.thy ===== *)
theory Schedules
  imports Cancels
begin

text \<open>
  Repeating tells (\<open>src/src/store.rs\<close>): a wall-clock schedule is created once per
  idempotency key, fires when due, skips a cycle whose predecessor is still undelivered, and
  reports an unavailable target once per outage.
\<close>

record created_schedule =
  cs_schedule :: schedule_id
  cs_recipient :: logical_agent_id
  cs_interval_ms :: int
  cs_next_fire_at_ms :: int
  cs_state :: schedule_state

definition created_view :: "schedule_row \<Rightarrow> created_schedule" where
  "created_view r = \<lparr>cs_schedule = sc_id r, cs_recipient = sc_agent r, cs_interval_ms = sc_interval_ms r,
     cs_next_fire_at_ms = sc_next_fire_at_ms r, cs_state = sc_state r\<rparr>"

definition keyed_tell_schedule :: "string \<Rightarrow> db \<Rightarrow> schedule_row option" where
  "keyed_tell_schedule key d = find_row (\<lambda>r. sc_key r = Some key \<and> sc_kind r = SchedTell) (schedules d)"

definition create_tell_schedule ::
  "int \<Rightarrow> logical_agent_id \<Rightarrow> logical_agent_id \<Rightarrow> string \<Rightarrow> int \<Rightarrow> int \<Rightarrow> string \<Rightarrow> db
   \<Rightarrow> store_error + (created_schedule \<times> db)" where
  "create_tell_schedule now sender recipient body interval first key d =
     rbind (ensure (0 < interval \<and> 0 \<le> first) (InvalidRecord BadSchedule)) (\<lambda>_.
     case keyed_tell_schedule key d of
       Some r \<Rightarrow>
         rbind (ok_or (Sql NullColumn) (sc_body r)) (\<lambda>stored.
         rbind (ensure (sc_agent r = recipient \<and> sc_interval_ms r = interval
                  \<and> sc_requester r = sender \<and> stored = body)
                  (Conflict (OnSchedule KeyDifferentSchedule))) (\<lambda>_.
           Inr (created_view r, d)))
     | None \<Rightarrow>
         rbind (ensure (agent_exists d sender) (Conflict (OnSchedule ScheduleSenderAbsent))) (\<lambda>_.
         rbind (ensure (agent_exists d recipient) (Conflict (OnSchedule ScheduleRecipientAbsent))) (\<lambda>_.
         rbind (ensure (\<not> exists_row (\<lambda>r. sc_key r = Some key) (schedules d))
                  (Conflict (OnReplay IdempotencyKeyExists))) (\<lambda>_.
           let i = Suc (seq_schedules d);
               row = \<lparr>sc_id = i, sc_kind = SchedTell, sc_agent = recipient, sc_incarnation = None,
                      sc_requester = sender, sc_body = Some body, sc_interval_ms = interval,
                      sc_clock = WallClock, sc_next_fire_at_ms = first, sc_active_remaining_ms = None,
                      sc_sampled_at_ms = None, sc_cycle = 1, sc_state = SchedActive, sc_key = Some key,
                      sc_created_at_ms = now, sc_resolved_at_ms = None, sc_reason = None\<rparr>
           in Inr (created_view row, d\<lparr>schedules := schedules d @ [row], seq_schedules := i\<rparr>)))))"

definition tell_schedule_by_idempotency_key ::
  "string \<Rightarrow> logical_agent_id \<Rightarrow> int \<Rightarrow> string \<Rightarrow> db \<Rightarrow> store_error + created_schedule option" where
  "tell_schedule_by_idempotency_key key sender interval body d =
     (case keyed_tell_schedule key d of None \<Rightarrow> Inr None
      | Some r \<Rightarrow>
          rbind (ok_or (Sql NullColumn) (sc_body r)) (\<lambda>stored.
          rbind (ensure (sc_requester r = sender \<and> sc_interval_ms r = interval \<and> stored = body)
                   (Conflict (OnSchedule KeyOtherScheduleIntent))) (\<lambda>_.
            Inr (Some (created_view r)))))"

record due_tell_schedule =
  ds_schedule :: schedule_id
  ds_sender :: logical_agent_id
  ds_recipient :: logical_agent_id
  ds_body :: string
  ds_interval_ms :: int
  ds_cycle :: nat
  ds_due_at_ms :: int

definition active_tell_schedule :: "schedule_row \<Rightarrow> bool" where
  "active_tell_schedule r \<longleftrightarrow> sc_kind r = SchedTell \<and> sc_state r = SchedActive"

definition due_tell_view :: "schedule_row \<Rightarrow> store_error + due_tell_schedule" where
  "due_tell_view r =
     rbind (ok_or (Sql NullColumn) (sc_body r)) (\<lambda>body.
       Inr \<lparr>ds_schedule = sc_id r, ds_sender = sc_requester r, ds_recipient = sc_agent r, ds_body = body,
            ds_interval_ms = sc_interval_ms r, ds_cycle = sc_cycle r, ds_due_at_ms = sc_next_fire_at_ms r\<rparr>)"

definition due_tell_schedules :: "int \<Rightarrow> db \<Rightarrow> store_error + due_tell_schedule list" where
  "due_tell_schedules now_ms d =
     rmap due_tell_view (sort_key sc_next_fire_at_ms (sort_key sc_created_at_ms
       (filter (\<lambda>r. active_tell_schedule r \<and> sc_next_fire_at_ms r \<le> now_ms) (schedules d))))"

section \<open>Firing\<close>

record schedule_firing =
  sf_schedule :: schedule_id
  sf_cycle :: nat
  sf_outcome :: schedule_firing_outcome
  sf_message :: "message_id option"

definition insert_firing :: "firing_row \<Rightarrow> db \<Rightarrow> store_error + db" where
  "insert_firing row d =
     rbind (ensure (1 \<le> fi_cycle row \<and> (fi_message row = None \<or> fi_renew row = None))
              (Sql CheckViolation)) (\<lambda>_.
     rbind (ensure (\<not> exists_row (\<lambda>f. fi_schedule f = fi_schedule row \<and> fi_cycle f = fi_cycle row)
              (firings d)) (Sql UniqueViolation)) (\<lambda>_.
     rbind (ensure (exists_row (\<lambda>s. sc_id s = fi_schedule row) (schedules d)
              \<and> references_opt (message_exists d) (fi_message row)
              \<and> references_opt (\<lambda>r. exists_row (\<lambda>n. rn_id n = r) (renews d)) (fi_renew row))
              (Sql ForeignKey)) (\<lambda>_.
       Inr (d\<lparr>firings := firings d @ [row]\<rparr>))))"

definition tell_firing ::
  "due_tell_schedule \<Rightarrow> int \<Rightarrow> schedule_firing_outcome \<Rightarrow> message_id option \<Rightarrow> string option \<Rightarrow> firing_row" where
  "tell_firing item now_ms out m detail =
     \<lparr>fi_schedule = ds_schedule item, fi_cycle = ds_cycle item, fi_due_at_ms = ds_due_at_ms item,
      fi_fired_at_ms = now_ms, fi_outcome = out, fi_message = m, fi_renew = None, fi_detail = detail\<rparr>"

definition firing_result ::
  "due_tell_schedule \<Rightarrow> schedule_firing_outcome \<Rightarrow> message_id option \<Rightarrow> schedule_firing" where
  "firing_result item out m =
     \<lparr>sf_schedule = ds_schedule item, sf_cycle = ds_cycle item, sf_outcome = out, sf_message = m\<rparr>"

definition latest_firing :: "db \<Rightarrow> schedule_id \<Rightarrow> firing_row option" where
  "latest_firing d s =
     (case filter (\<lambda>f. fi_schedule f = s) (firings d) of [] \<Rightarrow> None
      | f # fs \<Rightarrow> Some (fold (\<lambda>x best. if fi_cycle best < fi_cycle x then x else best) fs f))"

text \<open>A message of an earlier cycle still on its way.\<close>

definition unresolved_firing :: "db \<Rightarrow> schedule_id \<Rightarrow> bool" where
  "unresolved_firing d s \<longleftrightarrow>
     exists_row (\<lambda>f. fi_schedule f = s
       \<and> exists_row (\<lambda>r. fi_message f = Some (dl_message r)
            \<and> dl_outcome r \<in> {DPending, DQueued, DSubmitted}) (deliveries d)) (firings d)"

definition schedule_key :: "schedule_id \<Rightarrow> nat \<Rightarrow> string" where
  "schedule_key s cycle = ''kelpie:schedule:'' @ show_nat s @ '':'' @ show_nat cycle"

definition unavailable_notice :: "due_tell_schedule \<Rightarrow> string" where
  "unavailable_notice item =
     ''schedule '' @ show_nat (ds_schedule item) @ '' cycle '' @ show_nat (ds_cycle item) @ '' target ''
     @ show_nat (ds_recipient item) @ '' unavailable; no message delivered''"

text \<open>The uniqueness failure of an insertion whose error is not renamed.\<close>

definition unnamed_constraint :: "store_error + 'a \<Rightarrow> store_error + 'a" where
  "unnamed_constraint r =
     (if r = Inl (Conflict (OnReplay IdempotencyKeyExists)) then Inl (Sql UniqueViolation) else r)"

text \<open>The receive path of the target: the inbox, a unique Ready incarnation, or none.\<close>

datatype tell_target = TargetSocket | TargetHerdr incarnation_id | TargetNone

definition tell_target_of :: "db \<Rightarrow> logical_agent_id \<Rightarrow> tell_target" where
  "tell_target_of d a = (case find_agent d a of None \<Rightarrow> TargetNone
     | Some r \<Rightarrow>
         if la_ended_at_ms r \<noteq> None then TargetNone
         else (case la_transport r of
             SocketInbox \<Rightarrow> TargetSocket
           | HerdrPrompt \<Rightarrow> (case ready_incarnation_for_agent a d of Inr i \<Rightarrow> TargetHerdr i | Inl _ \<Rightarrow> TargetNone)
           | AskPull \<Rightarrow> TargetNone))"

definition queue_tell_firing ::
  "due_tell_schedule \<Rightarrow> int \<Rightarrow> tell_target \<Rightarrow> message_id \<Rightarrow> db \<Rightarrow> store_error + db" where
  "queue_tell_firing item now_ms target m d = (case target of
     TargetSocket \<Rightarrow> queue_socket_inbox_delivery_at m (ds_recipient item) now_ms d
   | TargetHerdr inc \<Rightarrow>
       rbind (unnamed_constraint (insert_operation (schedule_key (ds_schedule item) (ds_cycle item)) KPrompt inc
                (IntentScheduled m (ds_schedule item) (ds_cycle item)) now_ms d)) (\<lambda>(oid, d).
         insert_delivery (herdr_delivery m inc now_ms DQueued oid) d)
   | TargetNone \<Rightarrow> Inr d)"

definition fire_tell_schedule ::
  "due_tell_schedule \<Rightarrow> int \<Rightarrow> db \<Rightarrow> store_error + (schedule_firing \<times> db)" where
  "fire_tell_schedule item now_ms d =
     (let s = ds_schedule item; n = ds_cycle item; target = tell_target_of d (ds_recipient item) in
      rbind (ensure (exists_row (\<lambda>r. sc_id r = s \<and> sc_state r = SchedActive \<and> sc_cycle r = n
                \<and> sc_next_fire_at_ms r \<le> now_ms) (schedules d)) (Conflict (OnSchedule FiringNotDue))) (\<lambda>_.
        let d = upd_schedules (\<lambda>r. sc_id r = s \<and> sc_cycle r = n \<and> sc_state r = SchedActive)
                  (\<lambda>r. r\<lparr>sc_cycle := Suc (sc_cycle r),
                         sc_next_fire_at_ms := saturating_add_i64 now_ms (ds_interval_ms item)\<rparr>) d
        in if unresolved_firing d s then
             rbind (insert_firing (tell_firing item now_ms FiringSkipped None
                      (Some ''prior schedule delivery is unresolved'')) d) (\<lambda>d.
               Inr (firing_result item FiringSkipped None, d))
           else if target = TargetNone then
             rbind (insert_firing (tell_firing item now_ms FiringTargetUnavailable None
                      (Some ''target has no unique addressable receive path'')) d) (\<lambda>d'.
               Inr (firing_result item FiringTargetUnavailable None,
                    if map_option fi_outcome (latest_firing d s) = Some FiringTargetUnavailable then d'
                    else snd (insert_notice (unavailable_notice item) now_ms d')))
           else
             rbind (insert_message (Some (ds_sender item)) (ds_recipient item) Tell (ds_body item) now_ms
                      None None False d) (\<lambda>(m, d).
             rbind (queue_tell_firing item now_ms target m d) (\<lambda>d.
             rbind (insert_firing (tell_firing item now_ms Materialized (Some m) None) d) (\<lambda>d.
               Inr (firing_result item Materialized (Some m), d))))))"

section \<open>Cancellation and listing\<close>

definition cancellable_schedule :: "schedule_id \<Rightarrow> logical_agent_id \<Rightarrow> schedule_row \<Rightarrow> bool" where
  "cancellable_schedule s requester r \<longleftrightarrow> sc_id r = s \<and> active_tell_schedule r
     \<and> (sc_requester r = requester \<or> sc_agent r = requester)"

definition cancel_schedule ::
  "int \<Rightarrow> schedule_id \<Rightarrow> logical_agent_id \<Rightarrow> string \<Rightarrow> db \<Rightarrow> store_error + db" where
  "cancel_schedule now s requester reason d =
     rbind (ensure (\<not> blank reason) (InvalidRecord EmptyScheduleReason)) (\<lambda>_.
     rbind (ensure (count_rows (cancellable_schedule s requester) (schedules d) = 1)
              (Conflict (OnSchedule ScheduleNotCancellable))) (\<lambda>_.
       Inr (upd_schedules (cancellable_schedule s requester)
              (\<lambda>r. r\<lparr>sc_state := SchedCancelled, sc_resolved_at_ms := Some now, sc_reason := Some reason\<rparr>) d)))"

definition min_option :: "int list \<Rightarrow> int option" where
  "min_option ts = (case ts of [] \<Rightarrow> None | t # ts \<Rightarrow> Some (fold min ts t))"

definition next_schedule_due_at_ms :: "db \<Rightarrow> int option" where
  "next_schedule_due_at_ms d =
     min_option (map sc_next_fire_at_ms (filter active_tell_schedule (schedules d)))"

record schedule_info =
  sci_id :: schedule_id
  sci_kind :: schedule_kind
  sci_agent :: logical_agent_id
  sci_incarnation :: "incarnation_id option"
  sci_interval_ms :: int
  sci_clock :: schedule_clock
  sci_next_fire_at_ms :: int
  sci_cycle :: nat
  sci_state :: schedule_state
  sci_last_outcome :: "schedule_firing_outcome option"
  sci_last_message :: "message_id option"
  sci_requester :: logical_agent_id
  sci_body :: "string option"
  sci_key :: "string option"

definition schedules_for_agent :: "logical_agent_id \<Rightarrow> db \<Rightarrow> schedule_info list" where
  "schedules_for_agent a d =
     map (\<lambda>s. \<lparr>sci_id = sc_id s, sci_kind = sc_kind s, sci_agent = sc_agent s,
               sci_incarnation = sc_incarnation s, sci_interval_ms = sc_interval_ms s, sci_clock = sc_clock s,
               sci_next_fire_at_ms = sc_next_fire_at_ms s, sci_cycle = sc_cycle s, sci_state = sc_state s,
               sci_last_outcome = map_option fi_outcome (latest_firing d (sc_id s)),
               sci_last_message = Option.bind (latest_firing d (sc_id s)) fi_message,
               sci_requester = sc_requester s, sci_body = sc_body s, sci_key = sc_key s\<rparr>)
       (sort_key sc_created_at_ms (sort_key sc_id
         (filter (\<lambda>s. sc_requester s = a \<or> sc_agent s = a) (schedules d))))"

end
