(* ===== verification/Reminders.thy ===== *)
theory Reminders
  imports Schedules
begin

text \<open>
  Reminders of an owed reply (\<open>src/src/store.rs\<close>): which policies are due at the one Ready
  incarnation of the owing agent, the journal of an attempt around its write boundary, the
  cooldown and suspension after it, and the owner's snooze, slow-down and disable.
\<close>

record due_reminder =
  dr_ask :: message_id
  dr_owing :: logical_agent_id
  dr_waiting :: logical_agent_id
  dr_incarnation :: incarnation_id
  dr_pane :: string
  dr_terminal :: string
  dr_interval_ms :: int

definition enabled_reminder :: "reminder_row \<Rightarrow> bool" where
  "enabled_reminder r \<longleftrightarrow> rm_disabled_at_ms r = None \<and> rm_suspended_at_ms r = None"

definition coalesce0 :: "int option \<Rightarrow> int" where
  "coalesce0 v = (case v of None \<Rightarrow> 0 | Some t \<Rightarrow> t)"

text \<open>\<open>MAX(next_due_at_ms, COALESCE(snoozed_until_ms, 0)) <= now\<close>, false on a null deadline.\<close>

definition reminder_due_at :: "int \<Rightarrow> reminder_row \<Rightarrow> bool" where
  "reminder_due_at now_ms r \<longleftrightarrow> (case rm_next_due_at_ms r of None \<Rightarrow> False
     | Some t \<Rightarrow> max t (coalesce0 (rm_snoozed_until_ms r)) \<le> now_ms)"

definition sole_ready :: "db \<Rightarrow> incarnation_row \<Rightarrow> bool" where
  "sole_ready d i \<longleftrightarrow> in_state i = IReady \<and> \<not> clear_in_flight d (in_id i)
     \<and> count_rows (\<lambda>c. in_agent c = in_agent i \<and> in_state c = IReady) (incarnations d) = 1"

definition reminder_view ::
  "reminder_row \<times> obligation_row \<times> incarnation_row \<Rightarrow> store_error + due_reminder" where
  "reminder_view t = (case t of (r, x, i) \<Rightarrow>
     rbind (ok_or (Sql NullColumn) (in_observed_pane i)) (\<lambda>pane.
     rbind (ok_or (Sql NullColumn) (in_observed_terminal i)) (\<lambda>terminal.
       Inr \<lparr>dr_ask = rm_ask r, dr_owing = ob_owing x, dr_waiting = ob_waiting x, dr_incarnation = in_id i,
            dr_pane = pane, dr_terminal = terminal, dr_interval_ms = rm_interval_ms r\<rparr>)))"

text \<open>Policy, obligation and incarnation of the owing agent: the join both scans select from.\<close>

definition reminder_join :: "db \<Rightarrow> (reminder_row \<times> obligation_row \<times> incarnation_row) list" where
  "reminder_join d =
     concat (map (\<lambda>r. concat (map (\<lambda>x. map (\<lambda>i. (r, x, i))
         (filter (\<lambda>i. in_agent i = ob_owing x) (incarnations d)))
       (filter (\<lambda>x. ob_ask x = rm_ask r) (obligations d)))) (reminders d))"

definition due_reminder_row ::
  "db \<Rightarrow> int \<Rightarrow> reminder_row \<times> obligation_row \<times> incarnation_row \<Rightarrow> bool" where
  "due_reminder_row d now_ms t = (case t of (r, x, i) \<Rightarrow>
     ob_unsettled (ob_state x) \<and> enabled_reminder r \<and> reminder_due_at now_ms r
     \<and> sole_ready d i \<and> \<not> in_flight_final d (rm_ask r))"

definition due_reminders :: "int \<Rightarrow> db \<Rightarrow> store_error + due_reminder list" where
  "due_reminders now_ms d =
     rmap reminder_view
       (sort_key (\<lambda>(r, x, i). coalesce0 (rm_next_due_at_ms r)) (sort_key (\<lambda>(r, x, i). ob_sequence x)
         (filter (due_reminder_row d now_ms) (reminder_join d))))"

record boundary_reminder =
  br_reminder :: due_reminder
  br_saw_working :: bool

definition reached :: "int \<Rightarrow> int option \<Rightarrow> bool" where
  "reached now_ms v \<longleftrightarrow> (case v of None \<Rightarrow> False | Some t \<Rightarrow> t \<le> now_ms)"

definition boundary_reminder_row ::
  "db \<Rightarrow> int \<Rightarrow> reminder_row \<times> obligation_row \<times> incarnation_row \<Rightarrow> bool" where
  "boundary_reminder_row d now_ms t = (case t of (r, x, i) \<Rightarrow>
     ob_state x = ObOpen \<and> enabled_reminder r \<and> rm_last_accepted_at_ms r = None
     \<and> reached now_ms (rm_boundary_check_at_ms r) \<and> reached now_ms (rm_next_due_at_ms r)
     \<and> coalesce0 (rm_snoozed_until_ms r) \<le> now_ms
     \<and> sole_ready d i \<and> \<not> in_flight_final d (rm_ask r))"

definition boundary_reminders :: "int \<Rightarrow> db \<Rightarrow> store_error + boundary_reminder list" where
  "boundary_reminders now_ms d =
     rmap (\<lambda>t. rbind (reminder_view t) (\<lambda>v.
             Inr \<lparr>br_reminder = v, br_saw_working = (rm_saw_working_at_ms (fst t) \<noteq> None)\<rparr>))
       (sort_key (\<lambda>(r, x, i). coalesce0 (rm_boundary_check_at_ms r)) (sort_key (\<lambda>(r, x, i). ob_sequence x)
         (filter (boundary_reminder_row d now_ms) (reminder_join d))))"

text \<open>The policy of an ask whose obligation satisfies \<open>p\<close>.\<close>

definition policy_with :: "db \<Rightarrow> message_id \<Rightarrow> (obligation_row \<Rightarrow> bool) \<Rightarrow> bool" where
  "policy_with d ask p \<longleftrightarrow> exists_row (\<lambda>x. ob_ask x = ask \<and> p x) (obligations d)"

definition lifecycle_observable :: "db \<Rightarrow> message_id \<Rightarrow> reminder_row \<Rightarrow> bool" where
  "lifecycle_observable d ask r \<longleftrightarrow> rm_ask r = ask \<and> enabled_reminder r
     \<and> rm_last_accepted_at_ms r = None \<and> policy_with d ask (\<lambda>x. ob_state x = ObOpen)"

definition observe_reminder_lifecycle ::
  "message_id \<Rightarrow> bool \<Rightarrow> int \<Rightarrow> db \<Rightarrow> store_error + db" where
  "observe_reminder_lifecycle ask saw_working next_check d =
     rbind (ensure (count_rows (lifecycle_observable d ask) (reminders d) = 1)
              (Conflict (OnReminder NotObservable))) (\<lambda>_.
       Inr (upd_reminders (lifecycle_observable d ask)
         (\<lambda>r. r\<lparr>rm_boundary_check_at_ms := Some next_check,
                rm_saw_working_at_ms := (if saw_working \<and> rm_saw_working_at_ms r = None
                  then Some next_check else rm_saw_working_at_ms r)\<rparr>) d))"

section \<open>Attempts\<close>

definition insert_reminder_attempt ::
  "message_id \<Rightarrow> incarnation_id \<Rightarrow> string \<Rightarrow> int \<Rightarrow> db \<Rightarrow> store_error + db" where
  "insert_reminder_attempt ask inc request now_ms d =
     (let i = Suc (seq_reminder_attempts d);
          row = \<lparr>ra_id = i, ra_ask = ask, ra_incarnation = inc, ra_request = request,
                 ra_started_at_ms = now_ms, ra_resolved_at_ms = None, ra_phase = APrepared,
                 ra_evidence = None\<rparr>
      in rbind (ensure (\<not> exists_row (\<lambda>r. ra_request r = request) (reminder_attempts d))
                  (Sql UniqueViolation)) (\<lambda>_.
         rbind (ensure (exists_row (\<lambda>r. rm_ask r = ask) (reminders d) \<and> incarnation_exists d inc)
                  (Sql ForeignKey)) (\<lambda>_.
           Inr (d\<lparr>reminder_attempts := reminder_attempts d @ [row], seq_reminder_attempts := i\<rparr>))))"

definition attempt_eligible ::
  "db \<Rightarrow> due_reminder \<Rightarrow> int \<Rightarrow> reminder_row \<times> obligation_row \<times> incarnation_row \<Rightarrow> bool" where
  "attempt_eligible d item now_ms t = (case t of (r, x, i) \<Rightarrow>
     rm_ask r = dr_ask item \<and> ob_unsettled (ob_state x) \<and> enabled_reminder r \<and> reminder_due_at now_ms r
     \<and> in_id i = dr_incarnation item \<and> in_state i = IReady \<and> \<not> in_flight_final d (rm_ask r))"

definition prepare_reminder_attempt ::
  "due_reminder \<Rightarrow> string \<Rightarrow> int \<Rightarrow> db \<Rightarrow> store_error + db" where
  "prepare_reminder_attempt item request now_ms d =
     rbind (ensure (exists_row (attempt_eligible d item now_ms) (reminder_join d))
              (Conflict (OnReminder ReminderNotDue))) (\<lambda>_.
       insert_reminder_attempt (dr_ask item) (dr_incarnation item) request now_ms d)"

definition reminder_attempt_in :: "string \<Rightarrow> attempt_phase \<Rightarrow> reminder_attempt_row \<Rightarrow> bool" where
  "reminder_attempt_in request ph r \<longleftrightarrow> ra_request r = request \<and> ra_phase r = ph"

definition submit_reminder_attempt :: "string \<Rightarrow> db \<Rightarrow> store_error + db" where
  "submit_reminder_attempt request d =
     rbind (ensure (count_rows (reminder_attempt_in request APrepared) (reminder_attempts d) = 1)
              (Conflict (OnReminder AttemptNotPreparedReminder))) (\<lambda>_.
       Inr (upd_reminder_attempts (reminder_attempt_in request APrepared)
              (\<lambda>r. r\<lparr>ra_phase := ASubmitted\<rparr>) d))"

text \<open>The outcome texts an attempt resolves with; every other text is an invalid record.\<close>

definition parse_attempt_outcome :: "string \<Rightarrow> attempt_phase option" where
  "parse_attempt_outcome s =
     (if s = ''accepted'' then Some AAccepted else if s = ''rejected'' then Some ARejected
      else if s = ''unknown'' then Some AUnknown else None)"

definition resolve_reminder_attempt ::
  "string \<Rightarrow> string \<Rightarrow> string option \<Rightarrow> int \<Rightarrow> db \<Rightarrow> store_error + db" where
  "resolve_reminder_attempt request outcome ev now_ms d =
     rbind (ok_or (InvalidRecord BadReminderOutcome) (parse_attempt_outcome outcome)) (\<lambda>ph.
     rbind (ok_or (Conflict (OnReminder AttemptNotSubmittedReminder))
              (find_row (reminder_attempt_in request ASubmitted) (reminder_attempts d))) (\<lambda>a.
       Inr (upd_reminders (\<lambda>r. rm_ask r = ra_ask a)
         (if ph = AUnknown then (\<lambda>r. r\<lparr>rm_suspended_at_ms := Some now_ms\<rparr>)
          else (\<lambda>r. r\<lparr>rm_next_due_at_ms :=
                        Some (max (coalesce0 (rm_next_due_at_ms r)) (now_ms + rm_interval_ms r)),
                      rm_last_accepted_at_ms :=
                        (if ph = AAccepted then Some now_ms else rm_last_accepted_at_ms r),
                      rm_boundary_check_at_ms := None\<rparr>))
         (upd_reminder_attempts (reminder_attempt_in request ASubmitted)
           (\<lambda>r. r\<lparr>ra_phase := ph, ra_resolved_at_ms := Some now_ms,
                  ra_evidence := map_option Detail ev\<rparr>) d))))"

definition active_policy :: "db \<Rightarrow> message_id \<Rightarrow> reminder_row \<Rightarrow> bool" where
  "active_policy d ask r \<longleftrightarrow> rm_ask r = ask \<and> enabled_reminder r
     \<and> policy_with d ask (\<lambda>x. ob_unsettled (ob_state x))"

definition defer_busy_reminder :: "message_id \<Rightarrow> int \<Rightarrow> int \<Rightarrow> db \<Rightarrow> store_error + db" where
  "defer_busy_reminder ask now_ms recheck_ms d =
     rbind (ensure (count_rows (active_policy d ask) (reminders d) = 1)
              (Conflict (OnReminder NotBusyDeferrable))) (\<lambda>_.
       Inr (upd_reminders (active_policy d ask)
         (\<lambda>r. r\<lparr>rm_next_due_at_ms := map_option (\<lambda>t. max t (now_ms + recheck_ms)) (rm_next_due_at_ms r)\<rparr>) d))"

text \<open>
  After a restart: a prepared attempt never crossed the write boundary and is deleted; a submitted
  one becomes unknown and suspends its policy. \<open>live\<close> tells whether the daemon still drives
  its own attempts (\<open>live_operation_floor\<close> is set), when nothing is reconciled.
\<close>

definition reconcile_reminder_attempts :: "bool \<Rightarrow> int \<Rightarrow> db \<Rightarrow> nat \<times> db" where
  "reconcile_reminder_attempts live now d =
     (if live then (0, d)
      else
        let asks = map ra_ask (filter (\<lambda>r. ra_phase r = ASubmitted) (reminder_attempts d))
        in (count_rows (\<lambda>r. ra_phase r = ASubmitted) (reminder_attempts d),
            upd_reminders (\<lambda>r. rm_ask r \<in> set asks) (\<lambda>r. r\<lparr>rm_suspended_at_ms := Some now\<rparr>)
              (upd_reminder_attempts (\<lambda>r. ra_phase r = ASubmitted)
                 (\<lambda>r. r\<lparr>ra_phase := AUnknown, ra_resolved_at_ms := Some now,
                        ra_evidence := Some (Detail ''kelpied restarted after reminder submission'')\<rparr>)
              (d\<lparr>reminder_attempts := filter (\<lambda>r. ra_phase r \<noteq> APrepared) (reminder_attempts d)\<rparr>))))"

section \<open>The owner's controls\<close>

definition owned_policy :: "db \<Rightarrow> message_id \<Rightarrow> logical_agent_id \<Rightarrow> reminder_row \<Rightarrow> bool" where
  "owned_policy d ask requester r \<longleftrightarrow> rm_ask r = ask \<and> rm_disabled_at_ms r = None
     \<and> policy_with d ask (\<lambda>x. ob_owing x = requester \<and> ob_unsettled (ob_state x))"

definition snooze_reminder ::
  "int \<Rightarrow> logical_agent_id \<Rightarrow> message_id \<Rightarrow> int \<Rightarrow> db \<Rightarrow> store_error + db" where
  "snooze_reminder now requester ask until d =
     rbind (ensure (now < until) (Conflict (OnReminder SnoozeNotFuture))) (\<lambda>_.
     rbind (ensure (count_rows (owned_policy d ask requester) (reminders d) = 1)
              (Conflict (OnReminder ReminderNotOwned))) (\<lambda>_.
       Inr (upd_reminders (owned_policy d ask requester) (\<lambda>r. r\<lparr>rm_snoozed_until_ms := Some until\<rparr>) d)))"

definition slower_policy :: "db \<Rightarrow> message_id \<Rightarrow> logical_agent_id \<Rightarrow> int \<Rightarrow> reminder_row \<Rightarrow> bool" where
  "slower_policy d ask requester every r \<longleftrightarrow> owned_policy d ask requester r \<and> rm_interval_ms r \<le> every"

definition increase_reminder_interval ::
  "int \<Rightarrow> logical_agent_id \<Rightarrow> message_id \<Rightarrow> int \<Rightarrow> db \<Rightarrow> store_error + db" where
  "increase_reminder_interval now requester ask every d =
     rbind (ok_or (InvalidRecord BadInterval)
              (Option.bind (checked_add_i64 now every) (\<lambda>v. if 0 < every then Some v else None))) (\<lambda>due.
     rbind (ensure (count_rows (slower_policy d ask requester every) (reminders d) = 1)
              (Conflict (OnReminder IntervalDecreased))) (\<lambda>_.
       Inr (upd_reminders (slower_policy d ask requester every)
         (\<lambda>r. r\<lparr>rm_next_due_at_ms := map_option (\<lambda>t. if rm_interval_ms r < every
                     then max (max t (coalesce0 (rm_snoozed_until_ms r))) due else t) (rm_next_due_at_ms r),
                rm_interval_ms := every\<rparr>) d)))"

definition disable_reminder :: "int \<Rightarrow> logical_agent_id \<Rightarrow> message_id \<Rightarrow> db \<Rightarrow> store_error + db" where
  "disable_reminder now requester ask d =
     rbind (ensure (count_rows (owned_policy d ask requester) (reminders d) = 1)
              (Conflict (OnReminder ReminderNotOwned))) (\<lambda>_.
       Inr (upd_reminders (owned_policy d ask requester) (\<lambda>r. r\<lparr>rm_disabled_at_ms := Some now\<rparr>) d))"

end
