(* ===== verification/Renews.thy ===== *)
theory Renews
  imports Reminders
begin

text \<open>
  The renew policy (\<open>src/src/store.rs\<close>): a cycle asks the agent for a checkpoint, clears its
  context, injects the resume prompt and, for a recurring policy, arms its successor. The phases,
  the occupancy clock that counts working time only, the settlement of the prepare ask, and the
  journal of the two external effects.
\<close>

definition RENEW_OCCUPANCY_SAMPLE_MS :: int where "RENEW_OCCUPANCY_SAMPLE_MS = 1000"

definition RENEW_OCCUPANCY_MAX_CREDIT_MS :: int where
  "RENEW_OCCUPANCY_MAX_CREDIT_MS = RENEW_OCCUPANCY_SAMPLE_MS * 2"

section \<open>The table\<close>

definition opt_all :: "('a \<Rightarrow> bool) \<Rightarrow> 'a option \<Rightarrow> bool" where
  "opt_all p v = (case v of None \<Rightarrow> True | Some x \<Rightarrow> p x)"

text \<open>The \<open>CHECK\<close> clauses of the table, enforced on insertion and on update.\<close>

definition renew_check :: "renew_row \<Rightarrow> bool" where
  "renew_check r \<longleftrightarrow> 0 < rn_prepare_timeout_ms r \<and> opt_all (\<lambda>v. 0 < v) (rn_every_ms r) \<and> 1 \<le> rn_cycle r
     \<and> opt_all (\<lambda>v. 0 \<le> v) (rn_active_remaining_ms r)
     \<and> (rn_phase r \<in> {RClearing, RInjected, RDone} \<longrightarrow> rn_pre_clear_session r \<noteq> None)
     \<and> (rn_phase r \<in> {RScheduled, RTerminated} \<or> rn_prepare_ask r \<noteq> None)"

definition active_renew_of :: "incarnation_id \<Rightarrow> renew_row \<Rightarrow> bool" where
  "active_renew_of inc r \<longleftrightarrow> rn_incarnation r = inc \<and> \<not> renew_ended (rn_phase r)"

definition schedule_exists :: "db \<Rightarrow> schedule_id \<Rightarrow> bool" where
  "schedule_exists d s \<longleftrightarrow> exists_row (\<lambda>r. sc_id r = s) (schedules d)"

text \<open>The row is numbered by the sequence; its phase is active.\<close>

definition insert_renew :: "renew_row \<Rightarrow> db \<Rightarrow> store_error + (renew_id \<times> db)" where
  "insert_renew row d =
     (let i = Suc (seq_renews d); row = row\<lparr>rn_id := i\<rparr> in
      rbind (ensure (renew_check row) (Sql CheckViolation)) (\<lambda>_.
      rbind (ensure (renew_ended (rn_phase row) \<or> \<not> exists_row (active_renew_of (rn_incarnation row)) (renews d))
               (Sql UniqueViolation)) (\<lambda>_.
      rbind (ensure (agent_exists d (rn_agent row) \<and> incarnation_exists d (rn_incarnation row)
               \<and> agent_exists d (rn_requester row) \<and> references_opt (message_exists d) (rn_prepare_ask row)
               \<and> references_opt (schedule_exists d) (rn_schedule row)) (Sql ForeignKey)) (\<lambda>_.
        Inr (i, d\<lparr>renews := renews d @ [row], seq_renews := i\<rparr>)))))"

text \<open>
  An update that must change exactly one row: the checks of the rewritten rows come first, then
  the row count, with the conflict it raises.
\<close>

definition change_renew ::
  "(renew_row \<Rightarrow> bool) \<Rightarrow> (renew_row \<Rightarrow> renew_row) \<Rightarrow> store_error \<Rightarrow> db \<Rightarrow> store_error + db" where
  "change_renew p f e d =
     rbind (ensure (\<not> exists_row (\<lambda>r. p r \<and> \<not> renew_check (f r)) (renews d)) (Sql CheckViolation)) (\<lambda>_.
     rbind (ensure (count_rows p (renews d) = 1) e) (\<lambda>_.
       Inr (upd_renews p f d)))"

definition renew_in :: "renew_id \<Rightarrow> (renew_phase \<Rightarrow> bool) \<Rightarrow> renew_row \<Rightarrow> bool" where
  "renew_in i ph r \<longleftrightarrow> rn_id r = i \<and> ph (rn_phase r)"

definition find_renew :: "db \<Rightarrow> renew_id \<Rightarrow> renew_row option" where
  "find_renew d i = find_row (\<lambda>r. rn_id r = i) (renews d)"

section \<open>Creation\<close>

definition renew_schedule_row :: "renew_intent \<Rightarrow> int \<Rightarrow> int \<Rightarrow> int \<Rightarrow> schedule_id \<Rightarrow> schedule_row" where
  "renew_schedule_row n every remaining now i =
     \<lparr>sc_id = i, sc_kind = SchedRenew, sc_agent = ri_logical_agent_id n,
      sc_incarnation = Some (ri_incarnation_id n), sc_requester = ri_requester_agent_id n, sc_body = None,
      sc_interval_ms = every, sc_clock = ActiveClock, sc_next_fire_at_ms = ri_scheduled_at_ms n,
      sc_active_remaining_ms = Some remaining, sc_sampled_at_ms = Some now, sc_cycle = 1,
      sc_state = SchedActive, sc_key = None, sc_created_at_ms = now, sc_resolved_at_ms = None,
      sc_reason = None\<rparr>"

definition insert_renew_schedule ::
  "renew_intent \<Rightarrow> int \<Rightarrow> int \<Rightarrow> int \<Rightarrow> db \<Rightarrow> store_error + (schedule_id \<times> db)" where
  "insert_renew_schedule n every remaining now d =
     (let i = Suc (seq_schedules d) in
      rbind (ensure (0 < every) (Sql CheckViolation)) (\<lambda>_.
      rbind (ensure (agent_exists d (ri_logical_agent_id n) \<and> incarnation_exists d (ri_incarnation_id n)
               \<and> agent_exists d (ri_requester_agent_id n)) (Sql ForeignKey)) (\<lambda>_.
        Inr (i, d\<lparr>schedules := schedules d @ [renew_schedule_row n every remaining now i],
                 seq_schedules := i\<rparr>))))"

definition renew_row_of :: "renew_intent \<Rightarrow> int \<Rightarrow> int option \<Rightarrow> schedule_id option \<Rightarrow> renew_row" where
  "renew_row_of n now remaining sched =
     \<lparr>rn_id = 0, rn_agent = ri_logical_agent_id n, rn_incarnation = ri_incarnation_id n,
      rn_requester = ri_requester_agent_id n, rn_prepare_prompt = ri_prepare_prompt n,
      rn_resume_prompt = ri_resume_prompt n, rn_on_timeout = ri_on_timeout n,
      rn_prepare_timeout_ms = ri_prepare_timeout_ms n, rn_every_ms = ri_every_ms n, rn_cycle = 1,
      rn_scheduled_at_ms = ri_scheduled_at_ms n, rn_phase = RScheduled, rn_prepare_ask = None,
      rn_prepare_deadline_ms = None, rn_pre_clear_session = None, rn_created_at_ms = now,
      rn_resolved_at_ms = None, rn_reason = None, rn_clear_deadline_ms = None,
      rn_stall_notified_at_ms = None, rn_inject_not_before_ms = None, rn_active_remaining_ms = remaining,
      rn_sampled_at_ms = map_option (\<lambda>_. now) remaining, rn_schedule = sched\<rparr>"

definition create_renew :: "int \<Rightarrow> renew_intent \<Rightarrow> db \<Rightarrow> store_error + (renew_id \<times> db)" where
  "create_renew now n d =
     rbind (ensure (exists_row (\<lambda>i. in_id i = ri_incarnation_id n \<and> in_agent i = ri_logical_agent_id n
              \<and> in_state i = IReady) (incarnations d)) (Conflict (OnRenew RenewTargetNotReady))) (\<lambda>_.
     rbind (ensure (\<not> exists_row (active_renew_of (ri_incarnation_id n)) (renews d))
              (Conflict (OnRenew ActiveRenew))) (\<lambda>_.
     rbind (ensure (\<not> clear_in_flight d (ri_incarnation_id n)) (Conflict (OnRenew ActiveClear))) (\<lambda>_.
       case ri_every_ms n of
         None \<Rightarrow> insert_renew (renew_row_of n now None None) d
       | Some every \<Rightarrow>
           let remaining = max 0 (saturating_sub_i64 (ri_scheduled_at_ms n) now) in
           rbind (insert_renew_schedule n every remaining now d) (\<lambda>(s, d).
             insert_renew (renew_row_of n now (Some remaining) (Some s)) d))))"

section \<open>Scans\<close>

definition find_schedule :: "db \<Rightarrow> schedule_id \<Rightarrow> schedule_row option" where
  "find_schedule d s = find_row (\<lambda>r. sc_id r = s) (schedules d)"

record due_renew =
  dn_row :: renew_row
  dn_pane :: string
  dn_terminal :: string
  dn_active_remaining_ms :: "int option"
  dn_obligation_state :: "obligation_state option"
  dn_settled_at_ms :: "int option"

definition actionable_row :: "db \<Rightarrow> int \<Rightarrow> renew_row \<Rightarrow> bool" where
  "actionable_row d now_ms r \<longleftrightarrow> \<not> clear_in_flight d (rn_incarnation r)
     \<and> (rn_phase r = RScheduled
          \<and> (rn_every_ms r = None \<and> rn_scheduled_at_ms r \<le> now_ms
             \<or> rn_every_ms r \<noteq> None
               \<and> (case Option.bind (rn_schedule r) (find_schedule d) of None \<Rightarrow> False
                  | Some s \<Rightarrow> sc_state s = SchedActive \<and> coalesce0 (sc_active_remaining_ms s) \<le> 0))
        \<or> rn_phase r \<in> {RPreparing, RReady, RClearing, RInjected, RTimedOut})"

definition renew_incarnation :: "db \<Rightarrow> renew_row \<Rightarrow> incarnation_row option" where
  "renew_incarnation d r =
     find_row (\<lambda>i. in_id i = rn_incarnation r \<and> in_state i = IReady) (incarnations d)"

definition due_renew_view :: "db \<Rightarrow> renew_row \<Rightarrow> store_error + due_renew" where
  "due_renew_view d r =
     (let ask = Option.bind (rn_prepare_ask r) (find_obligation d) in
      rbind (ok_or (Sql NullColumn) (Option.bind (renew_incarnation d r) in_observed_pane)) (\<lambda>pane.
      rbind (ok_or (Sql NullColumn) (Option.bind (renew_incarnation d r) in_observed_terminal)) (\<lambda>terminal.
        Inr \<lparr>dn_row = r, dn_pane = pane, dn_terminal = terminal,
             dn_active_remaining_ms =
               (case Option.bind (Option.bind (rn_schedule r) (find_schedule d)) sc_active_remaining_ms of
                  Some v \<Rightarrow> Some v | None \<Rightarrow> rn_active_remaining_ms r),
             dn_obligation_state = map_option ob_state ask,
             dn_settled_at_ms = Option.bind ask (\<lambda>x.
               if ob_state x = ObResolved then Some (ob_last_activity_ms x) else None)\<rparr>)))"

definition actionable_renews :: "int \<Rightarrow> db \<Rightarrow> store_error + due_renew list" where
  "actionable_renews now_ms d =
     rmap (due_renew_view d) (sort_key rn_created_at_ms
       (filter (\<lambda>r. renew_incarnation d r \<noteq> None \<and> actionable_row d now_ms r) (renews d)))"

record interval_renew_clock =
  ic_renew :: renew_id
  ic_pane :: string
  ic_terminal :: string
  ic_active_remaining_ms :: int
  ic_sampled_at_ms :: "int option"

definition interval_clock_view :: "db \<Rightarrow> renew_row \<times> schedule_row \<Rightarrow> store_error + interval_renew_clock" where
  "interval_clock_view d t = (case t of (r, s) \<Rightarrow>
     rbind (ok_or (Sql NullColumn) (Option.bind (renew_incarnation d r) in_observed_pane)) (\<lambda>pane.
     rbind (ok_or (Sql NullColumn) (Option.bind (renew_incarnation d r) in_observed_terminal)) (\<lambda>terminal.
     rbind (ok_or (Sql NullColumn) (sc_active_remaining_ms s)) (\<lambda>remaining.
       Inr \<lparr>ic_renew = rn_id r, ic_pane = pane, ic_terminal = terminal, ic_active_remaining_ms = remaining,
            ic_sampled_at_ms = sc_sampled_at_ms s\<rparr>))))"

definition interval_rows :: "db \<Rightarrow> renew_row \<Rightarrow> (renew_row \<times> schedule_row) list" where
  "interval_rows d r =
     (case Option.bind (rn_schedule r) (find_schedule d) of None \<Rightarrow> []
      | Some s \<Rightarrow>
          if renew_incarnation d r \<noteq> None \<and> rn_phase r = RScheduled \<and> rn_every_ms r \<noteq> None
             \<and> sc_state s = SchedActive \<and> 0 < coalesce0 (sc_active_remaining_ms s)
          then [(r, s)] else [])"

definition scheduled_interval_renews :: "db \<Rightarrow> store_error + interval_renew_clock list" where
  "scheduled_interval_renews d =
     rmap (interval_clock_view d) (concat (map (interval_rows d) (sort_key rn_created_at_ms (renews d))))"

definition terminable_renews :: "db \<Rightarrow> renew_id list" where
  "terminable_renews d =
     map rn_id (sort_key rn_created_at_ms
       (filter (\<lambda>r. \<not> renew_ended (rn_phase r) \<and> renew_incarnation d r = None) (renews d)))"

record renew_identity_info =
  ry_agent :: logical_agent_id
  ry_incarnation :: incarnation_id
  ry_cycle :: nat
  ry_every_ms :: "int option"

definition renew_identity :: "renew_id \<Rightarrow> db \<Rightarrow> renew_identity_info option" where
  "renew_identity i d = map_option (\<lambda>r. \<lparr>ry_agent = rn_agent r, ry_incarnation = rn_incarnation r,
     ry_cycle = rn_cycle r, ry_every_ms = rn_every_ms r\<rparr>) (find_renew d i)"

definition next_renew_due_at_ms :: "db \<Rightarrow> int option" where
  "next_renew_due_at_ms d = min_option
     (map rn_scheduled_at_ms (filter (\<lambda>r. rn_phase r = RScheduled \<and> rn_every_ms r = None) (renews d))
      @ map sc_next_fire_at_ms (filter (\<lambda>s. sc_kind s = SchedRenew \<and> sc_state s = SchedActive
          \<and> exists_row (\<lambda>r. rn_schedule r = Some (sc_id s) \<and> rn_cycle r = sc_cycle s
                             \<and> rn_phase r = RScheduled) (renews d)) (schedules d)))"

section \<open>Occupancy\<close>

text \<open>What one sample credits: the gap since the last sample while working, clamped.\<close>

definition occupancy_credit :: "bool \<Rightarrow> int \<Rightarrow> int option \<Rightarrow> int" where
  "occupancy_credit accumulating now_ms sampled = (case sampled of None \<Rightarrow> 0
     | Some t \<Rightarrow> if accumulating then min (max 0 (now_ms - t)) RENEW_OCCUPANCY_MAX_CREDIT_MS else 0)"

definition accrue_row :: "bool \<Rightarrow> int \<Rightarrow> schedule_row \<Rightarrow> schedule_row" where
  "accrue_row accumulating now_ms s = (case sc_active_remaining_ms s of None \<Rightarrow> s
     | Some v \<Rightarrow>
         let left = max 0 (v - occupancy_credit accumulating now_ms (sc_sampled_at_ms s)) in
         s\<lparr>sc_active_remaining_ms := Some left, sc_sampled_at_ms := Some now_ms,
           sc_next_fire_at_ms := now_ms + left\<rparr>)"

definition accrue_renew_occupancy :: "renew_id \<Rightarrow> bool \<Rightarrow> int \<Rightarrow> db \<Rightarrow> store_error + db" where
  "accrue_renew_occupancy i accumulating now_ms d =
     (let owner = Option.bind (find_row (renew_in i (\<lambda>p. p = RScheduled)) (renews d)) rn_schedule;
          p = (\<lambda>s. Some (sc_id s) = owner \<and> sc_kind s = SchedRenew \<and> sc_state s = SchedActive
                   \<and> sc_active_remaining_ms s \<noteq> None)
      in rbind (ensure (count_rows p (schedules d) = 1) (Conflict (OnRenew NotScheduledInterval))) (\<lambda>_.
           let d = upd_schedules p (accrue_row accumulating now_ms) d in
           rbind (ok_or (Sql NullColumn) (Option.bind owner (find_schedule d))) (\<lambda>s.
             Inr (upd_renews (\<lambda>r. renew_in i (\<lambda>p. p = RScheduled) r \<and> rn_every_ms r \<noteq> None)
               (\<lambda>r. r\<lparr>rn_active_remaining_ms := sc_active_remaining_ms s, rn_sampled_at_ms := Some now_ms,
                      rn_scheduled_at_ms := sc_next_fire_at_ms s\<rparr>) d))))"

section \<open>Phases\<close>

definition cancel_unanswered_prepare :: "int \<Rightarrow> renew_id \<Rightarrow> string \<Rightarrow> db \<Rightarrow> db" where
  "cancel_unanswered_prepare now i reason d =
     (case find_renew d i of None \<Rightarrow> d
      | Some r \<Rightarrow>
          (case rn_prepare_ask r of None \<Rightarrow> d
           | Some ask \<Rightarrow> upd_obligations (unsettled_ask ask) (cancel_row now (rn_requester r) reason) d))"

definition successor_row :: "int \<Rightarrow> int \<Rightarrow> int \<Rightarrow> renew_row \<Rightarrow> renew_row" where
  "successor_row now every interval r =
     r\<lparr>rn_cycle := Suc (rn_cycle r), rn_scheduled_at_ms := saturating_add_i64 now every,
       rn_phase := RScheduled, rn_prepare_ask := None, rn_prepare_deadline_ms := None,
       rn_pre_clear_session := None, rn_created_at_ms := now, rn_resolved_at_ms := None, rn_reason := None,
       rn_clear_deadline_ms := None, rn_stall_notified_at_ms := None, rn_inject_not_before_ms := None,
       rn_active_remaining_ms := Some interval, rn_sampled_at_ms := Some now\<rparr>"

text \<open>\<open>INSERT OR IGNORE\<close>: the firing of a cycle already recorded stays as it is.\<close>

definition record_renew_firing ::
  "schedule_row \<Rightarrow> nat \<Rightarrow> int \<Rightarrow> schedule_firing_outcome \<Rightarrow> renew_id \<Rightarrow> db \<Rightarrow> db" where
  "record_renew_firing s cycle now out i d =
     (if exists_row (\<lambda>f. fi_schedule f = sc_id s \<and> fi_cycle f = cycle) (firings d) then d
      else d\<lparr>firings := firings d @ [\<lparr>fi_schedule = sc_id s, fi_cycle = cycle,
             fi_due_at_ms = sc_next_fire_at_ms s, fi_fired_at_ms = now, fi_outcome = out,
             fi_message = None, fi_renew = Some i, fi_detail = None\<rparr>]\<rparr>)"

definition arm_next_renew_cycle ::
  "renew_id \<Rightarrow> int \<Rightarrow> schedule_firing_outcome \<Rightarrow> db \<Rightarrow> store_error + (renew_id option \<times> db)" where
  "arm_next_renew_cycle i now out d =
     (case find_renew d i of None \<Rightarrow> Inr (None, d)
      | Some r \<Rightarrow>
          (case rn_every_ms r of None \<Rightarrow> Inr (None, d)
           | Some every \<Rightarrow>
               rbind (ok_or (InvalidRecord (RenewNoSchedule i)) (rn_schedule r)) (\<lambda>sid.
               rbind (ok_or (InvalidRecord (RenewScheduleAbsent i sid))
                        (find_row (\<lambda>s. sc_id s = sid \<and> sc_kind s = SchedRenew) (schedules d))) (\<lambda>s.
               rbind (ensure (sc_state s = SchedActive \<and> sc_interval_ms s = every \<and> sc_cycle s = rn_cycle r)
                        (InvalidRecord (RenewScheduleDisagrees i sid))) (\<lambda>_.
                 let interval = sc_interval_ms s;
                     d = upd_schedules (\<lambda>x. sc_id x = sid \<and> sc_state x = SchedActive)
                           (\<lambda>x. x\<lparr>sc_cycle := Suc (rn_cycle r),
                                  sc_next_fire_at_ms := saturating_add_i64 now interval,
                                  sc_active_remaining_ms := Some interval, sc_sampled_at_ms := Some now\<rparr>)
                           (record_renew_firing s (rn_cycle r) now out i d)
                 in rbind (insert_renew (successor_row now every interval r) d) (\<lambda>(j, d).
                      Inr (Some j, d)))))))"

definition mark_renew_preparing :: "renew_id \<Rightarrow> message_id \<Rightarrow> int \<Rightarrow> db \<Rightarrow> store_error + db" where
  "mark_renew_preparing i ask deadline d =
     rbind (ensure (message_exists d ask \<or> \<not> exists_row (renew_in i (\<lambda>p. p = RScheduled)) (renews d))
              (Sql ForeignKey)) (\<lambda>_.
       change_renew (renew_in i (\<lambda>p. p = RScheduled))
         (\<lambda>r. r\<lparr>rn_phase := RPreparing, rn_prepare_ask := Some ask, rn_prepare_deadline_ms := Some deadline\<rparr>)
         (Conflict (OnRenew RenewNotScheduled)) d)"

definition mark_renew_ready :: "int \<Rightarrow> renew_id \<Rightarrow> db \<Rightarrow> store_error + db" where
  "mark_renew_ready now i d =
     rbind (change_renew (renew_in i (\<lambda>p. p \<in> {RPreparing, RTimedOut})) (\<lambda>r. r\<lparr>rn_phase := RReady\<rparr>)
              (Conflict (OnRenew NotAwaitingPrepare)) d) (\<lambda>d.
       Inr (cancel_unanswered_prepare now i ''renew proceeded without the prepare reply it asked for'' d))"

definition mark_renew_clearing ::
  "renew_id \<Rightarrow> string \<Rightarrow> int \<Rightarrow> int option \<Rightarrow> db \<Rightarrow> store_error + db" where
  "mark_renew_clearing i session deadline not_before d =
     change_renew (renew_in i (\<lambda>p. p = RReady))
       (\<lambda>r. r\<lparr>rn_phase := RClearing, rn_pre_clear_session := Some session,
              rn_clear_deadline_ms := Some deadline, rn_inject_not_before_ms := not_before\<rparr>)
       (Conflict (OnRenew RenewNotReady)) d"

definition stall_claimable :: "renew_id \<Rightarrow> renew_row \<Rightarrow> bool" where
  "stall_claimable i r \<longleftrightarrow> renew_in i (\<lambda>p. p \<in> {RClearing, RInjected}) r \<and> rn_stall_notified_at_ms r = None"

definition claim_renew_clear_stall_notice :: "renew_id \<Rightarrow> int \<Rightarrow> db \<Rightarrow> bool \<times> db" where
  "claim_renew_clear_stall_notice i now_ms d =
     (count_rows (stall_claimable i) (renews d) = 1,
      upd_renews (stall_claimable i) (\<lambda>r. r\<lparr>rn_stall_notified_at_ms := Some now_ms\<rparr>) d)"

definition mark_renew_injected :: "renew_id \<Rightarrow> db \<Rightarrow> store_error + db" where
  "mark_renew_injected i d =
     change_renew (renew_in i (\<lambda>p. p = RClearing)) (\<lambda>r. r\<lparr>rn_phase := RInjected\<rparr>)
       (Conflict (OnRenew RenewNotClearing)) d"

definition complete_renew :: "int \<Rightarrow> renew_id \<Rightarrow> db \<Rightarrow> store_error + (renew_id option \<times> db)" where
  "complete_renew now i d =
     rbind (change_renew (renew_in i (\<lambda>p. p = RInjected))
              (\<lambda>r. r\<lparr>rn_phase := RDone, rn_resolved_at_ms := Some now\<rparr>)
              (Conflict (OnRenew RenewNotInjected)) d)
       (arm_next_renew_cycle i now Materialized)"

definition mark_renew_timed_out :: "renew_id \<Rightarrow> db \<Rightarrow> store_error + db" where
  "mark_renew_timed_out i d =
     change_renew (renew_in i (\<lambda>p. p = RPreparing)) (\<lambda>r. r\<lparr>rn_phase := RTimedOut\<rparr>)
       (Conflict (OnRenew RenewNotPreparing)) d"

definition end_renew_row :: "renew_phase \<Rightarrow> int \<Rightarrow> string \<Rightarrow> renew_row \<Rightarrow> renew_row" where
  "end_renew_row ph now reason r =
     r\<lparr>rn_phase := ph, rn_resolved_at_ms := Some now, rn_reason := Some reason\<rparr>"

definition abort_renew :: "int \<Rightarrow> renew_id \<Rightarrow> string \<Rightarrow> db \<Rightarrow> store_error + (renew_id option \<times> db)" where
  "abort_renew now i reason d =
     rbind (change_renew (renew_in i (\<lambda>p. p \<in> {RScheduled, RPreparing, RTimedOut, RReady}))
              (end_renew_row RAborted now reason) (Conflict (OnRenew RenewPastClear)) d) (\<lambda>d.
       arm_next_renew_cycle i now FiringSkipped (cancel_unanswered_prepare now i reason d))"

definition abandon_renew_proof ::
  "int \<Rightarrow> renew_id \<Rightarrow> string \<Rightarrow> db \<Rightarrow> store_error + (renew_id option \<times> db)" where
  "abandon_renew_proof now i reason d =
     rbind (change_renew (renew_in i (\<lambda>p. p = RInjected)) (end_renew_row RTerminated now reason)
              (Conflict (OnRenew RenewNotInjected)) d)
       (arm_next_renew_cycle i now Materialized)"

definition end_renew_schedule :: "schedule_state \<Rightarrow> int \<Rightarrow> renew_id \<Rightarrow> string \<Rightarrow> db \<Rightarrow> db" where
  "end_renew_schedule st now i reason d =
     upd_schedules (\<lambda>s. Some (sc_id s) = Option.bind (find_renew d i) rn_schedule \<and> sc_state s = SchedActive)
       (\<lambda>s. s\<lparr>sc_state := st, sc_resolved_at_ms := Some now, sc_reason := Some reason\<rparr>) d"

definition terminate_renew :: "int \<Rightarrow> renew_id \<Rightarrow> string \<Rightarrow> db \<Rightarrow> store_error + db" where
  "terminate_renew now i reason d =
     rbind (change_renew (renew_in i (\<lambda>p. \<not> renew_ended p)) (end_renew_row RTerminated now reason)
              (Conflict (OnRenew RenewTerminal)) d) (\<lambda>d.
       Inr (end_renew_schedule SchedTerminated now i reason (cancel_unanswered_prepare now i reason d)))"

definition terminate_renew_announced ::
  "int \<Rightarrow> renew_id \<Rightarrow> string \<Rightarrow> string \<Rightarrow> db \<Rightarrow> store_error + (operator_notice_id \<times> db)" where
  "terminate_renew_announced now i reason notice d =
     rbind (change_renew (renew_in i (\<lambda>p. \<not> renew_ended p)) (end_renew_row RTerminated now reason)
              (Conflict (OnRenew RenewTerminal)) d) (\<lambda>d.
       Inr (insert_notice notice now
         (end_renew_schedule SchedTerminated now i reason (cancel_unanswered_prepare now i reason d))))"

definition cancel_renew_refusal :: "renew_id \<Rightarrow> logical_agent_id \<Rightarrow> db \<Rightarrow> renew_conflict" where
  "cancel_renew_refusal i requester d =
     (case find_renew d i of None \<Rightarrow> RenewAbsent i
      | Some r \<Rightarrow>
          if requester \<noteq> rn_requester r \<and> requester \<noteq> rn_agent r
          then RenewNotPermitted i (rn_requester r) (rn_agent r)
          else if rn_phase r = RClearing then RenewClearing i
          else RenewEnded i (rn_phase r))"

definition renew_cancellable :: "renew_id \<Rightarrow> logical_agent_id \<Rightarrow> renew_row \<Rightarrow> bool" where
  "renew_cancellable i requester r \<longleftrightarrow> renew_in i (\<lambda>p. \<not> renew_ended p \<and> p \<noteq> RClearing) r
     \<and> (rn_requester r = requester \<or> rn_agent r = requester)"

definition cancel_renew ::
  "int \<Rightarrow> renew_id \<Rightarrow> logical_agent_id \<Rightarrow> string \<Rightarrow> string \<Rightarrow> db
   \<Rightarrow> store_error + (operator_notice_id \<times> db)" where
  "cancel_renew now i requester reason notice d =
     rbind (change_renew (renew_cancellable i requester) (end_renew_row RTerminated now reason)
              (Conflict (OnRenew (cancel_renew_refusal i requester d))) d) (\<lambda>d.
       Inr (insert_notice notice now
         (end_renew_schedule SchedCancelled now i reason (cancel_unanswered_prepare now i reason d))))"

section \<open>The two external effects\<close>

definition prepare_renew_attempt ::
  "renew_id \<Rightarrow> incarnation_id \<Rightarrow> renew_step \<Rightarrow> string \<Rightarrow> int \<Rightarrow> db \<Rightarrow> store_error + db" where
  "prepare_renew_attempt i inc step request now_ms d =
     (let n = Suc (seq_renew_attempts d);
          row = \<lparr>rt_id = n, rt_renew = i, rt_incarnation = inc, rt_step = step, rt_request = request,
                 rt_started_at_ms = now_ms, rt_resolved_at_ms = None, rt_phase = APrepared,
                 rt_evidence = None\<rparr>
      in rbind (ensure (\<not> exists_row (\<lambda>r. rt_request r = request) (renew_attempts d))
                  (Sql UniqueViolation)) (\<lambda>_.
         rbind (ensure (exists_row (\<lambda>r. rn_id r = i) (renews d) \<and> incarnation_exists d inc)
                  (Sql ForeignKey)) (\<lambda>_.
           Inr (d\<lparr>renew_attempts := renew_attempts d @ [row], seq_renew_attempts := n\<rparr>))))"

definition renew_attempt_in :: "string \<Rightarrow> attempt_phase \<Rightarrow> renew_attempt_row \<Rightarrow> bool" where
  "renew_attempt_in request ph r \<longleftrightarrow> rt_request r = request \<and> rt_phase r = ph"

definition submit_renew_attempt :: "string \<Rightarrow> db \<Rightarrow> store_error + db" where
  "submit_renew_attempt request d =
     rbind (ensure (count_rows (renew_attempt_in request APrepared) (renew_attempts d) = 1)
              (Conflict (OnRenew RenewAttemptNotPrepared))) (\<lambda>_.
       Inr (upd_renew_attempts (renew_attempt_in request APrepared) (\<lambda>r. r\<lparr>rt_phase := ASubmitted\<rparr>) d))"

definition resolve_renew_attempt ::
  "string \<Rightarrow> string \<Rightarrow> string option \<Rightarrow> int \<Rightarrow> db \<Rightarrow> store_error + db" where
  "resolve_renew_attempt request outcome ev now_ms d =
     rbind (ok_or (InvalidRecord BadRenewOutcome) (parse_attempt_outcome outcome)) (\<lambda>ph.
     rbind (ensure (count_rows (renew_attempt_in request ASubmitted) (renew_attempts d) = 1)
              (Conflict (OnRenew RenewAttemptNotSubmitted))) (\<lambda>_.
       Inr (upd_renew_attempts (renew_attempt_in request ASubmitted)
         (\<lambda>r. r\<lparr>rt_phase := ph, rt_resolved_at_ms := Some now_ms, rt_evidence := map_option Detail ev\<rparr>) d)))"

definition renew_step_submitted :: "renew_id \<Rightarrow> renew_step \<Rightarrow> db \<Rightarrow> bool" where
  "renew_step_submitted i step d \<longleftrightarrow>
     exists_row (\<lambda>r. rt_renew r = i \<and> rt_step r = step \<and> rt_phase r \<noteq> APrepared) (renew_attempts d)"

definition replace_observed_native_session ::
  "incarnation_id \<Rightarrow> string \<Rightarrow> db \<Rightarrow> store_error + db" where
  "replace_observed_native_session inc session d =
     rbind (ensure (count_rows (\<lambda>i. in_id i = inc) (incarnations d) = 1)
              (Conflict (OnOperation IncarnationAbsent))) (\<lambda>_.
       Inr (upd_incarnations (\<lambda>i. in_id i = inc) (\<lambda>i. i\<lparr>in_native_session := Some session\<rparr>) d))"

definition incarnation_backend_kind :: "incarnation_id \<Rightarrow> db \<Rightarrow> store_error + string" where
  "incarnation_backend_kind inc d =
     map_sum id in_backend_kind (ok_or (Conflict (OnOperation IncarnationAbsent))
       (find_row (\<lambda>i. in_id i = inc) (incarnations d)))"

end
