(* ===== verification/Aliases.thy ===== *)
theory Aliases
  imports Renews
begin

text \<open>
  Who a public name or a seat means (\<open>src/src/store.rs\<close>): the claimants of a name with what
  they owe and are owed, the agent a name continues, the Ready binding behind an alias or a pane, and the
  refusal to re-use an idempotency key. The wording of the refusals is not modelled, only which
  refusal it is and its values.
\<close>

section \<open>Claimants of a name\<close>

record name_claimant =
  nc_agent :: logical_agent_id
  nc_created_at_ms :: int
  nc_transport :: delivery_transport
  nc_ready :: bool
  nc_addressable :: bool
  nc_unresolved :: nat
  nc_archived :: bool

record name_obligation =
  no_ask :: message_id
  no_state :: obligation_state
  no_created_at_ms :: int
  no_last_activity_ms :: int
  no_asker :: logical_agent_id
  no_asker_name :: string
  no_asker_live :: bool
  no_responder :: logical_agent_id
  no_responder_name :: string
  no_responder_live :: bool

record name_info_data =
  ni_name :: string
  ni_claimants :: "name_claimant list"
  ni_unresolved :: "name_obligation list"

definition has_ready :: "db \<Rightarrow> logical_agent_id \<Rightarrow> bool" where
  "has_ready d a \<longleftrightarrow> agent_incarnation d a (\<lambda>i. in_state i = IReady)"

definition claimant_of :: "db \<Rightarrow> agent_row \<Rightarrow> name_claimant" where
  "claimant_of d l = \<lparr>nc_agent = la_id l, nc_created_at_ms = la_created_at_ms l,
     nc_transport = la_transport l, nc_ready = has_ready d (la_id l),
     nc_addressable = (has_ready d (la_id l) \<or> active_waiter_row l),
     nc_unresolved = count_rows (\<lambda>x. ob_unsettled (ob_state x)
        \<and> (ob_owing x = la_id l \<or> ob_waiting x = la_id l)) (obligations d),
     nc_archived = (la_archived_at_ms l \<noteq> None)\<rparr>"

definition named :: "db \<Rightarrow> string \<Rightarrow> logical_agent_id \<Rightarrow> bool" where
  "named d name a \<longleftrightarrow> exists_row (\<lambda>l. la_id l = a \<and> la_public_name l = name) (agents d)"

definition name_obligation_of :: "db \<Rightarrow> obligation_row \<Rightarrow> name_obligation list" where
  "name_obligation_of d x = (case (find_agent d (ob_waiting x), find_agent d (ob_owing x)) of
     (Some wa, Some ra) \<Rightarrow>
       [\<lparr>no_ask = ob_ask x, no_state = ob_state x, no_created_at_ms = ob_created_at_ms x,
         no_last_activity_ms = ob_last_activity_ms x, no_asker = ob_waiting x,
         no_asker_name = la_public_name wa, no_asker_live = has_ready d (ob_waiting x),
         no_responder = ob_owing x, no_responder_name = la_public_name ra,
         no_responder_live = has_ready d (ob_owing x)\<rparr>]
   | _ \<Rightarrow> [])"

definition name_info_on :: "string \<Rightarrow> bool \<Rightarrow> db \<Rightarrow> name_info_data" where
  "name_info_on name include_archived d =
     \<lparr>ni_name = name,
      ni_claimants = map (claimant_of d) (sort_key la_created_at_ms (sort_key la_id
        (filter (\<lambda>l. la_public_name l = name \<and> (include_archived \<or> la_archived_at_ms l = None)) (agents d)))),
      ni_unresolved = sort_key no_created_at_ms (sort_key no_ask (concat (map (name_obligation_of d)
        (filter (\<lambda>x. ob_unsettled (ob_state x)
                   \<and> (named d name (ob_waiting x) \<or> named d name (ob_owing x))) (obligations d)))))\<rparr>"

definition name_info :: "string \<Rightarrow> db \<Rightarrow> name_info_data" where
  "name_info name d = name_info_on name False d"

definition name_history :: "string \<Rightarrow> db \<Rightarrow> name_info_data" where
  "name_history name d = name_info_on name True d"

section \<open>Aliases of Ready agents\<close>

definition ready_aliases :: "string \<Rightarrow> db \<Rightarrow> (logical_agent_id \<times> incarnation_id) list" where
  "ready_aliases name d =
     map (\<lambda>i. (in_agent i, in_id i)) (sort_key in_created_at_ms
       (filter (\<lambda>i. in_state i = IReady \<and> named d name (in_agent i)) (incarnations d)))"

definition find_ready_alias ::
  "string \<Rightarrow> db \<Rightarrow> store_error + (logical_agent_id \<times> incarnation_id) option" where
  "find_ready_alias name d = (case ready_aliases name d of
     [] \<Rightarrow> Inr None | [p] \<Rightarrow> Inr (Some p) | _ \<Rightarrow> Inl (Conflict (OnAlias (AliasAmbiguous name))))"

definition resolve_ready_alias ::
  "string \<Rightarrow> db \<Rightarrow> store_error + (logical_agent_id \<times> incarnation_id)" where
  "resolve_ready_alias name d =
     rbind (find_ready_alias name d) (ok_or (Conflict (OnAlias (AliasUnready name))))"

definition resolve_ready_incarnation :: "logical_agent_id \<Rightarrow> db \<Rightarrow> store_error + incarnation_id" where
  "resolve_ready_incarnation a d = ready_incarnation_for_agent a d"

record name_continue =
  ct_agent :: logical_agent_id
  ct_incarnation :: "incarnation_id option"
  ct_transport :: delivery_transport
  ct_addressable :: bool
  ct_unique :: bool
  ct_info :: name_info_data

definition resolve_name_continue :: "string \<Rightarrow> db \<Rightarrow> store_error + name_continue" where
  "resolve_name_continue name d =
     (let info = name_info_on name True d in
      rbind (case filter nc_addressable (ni_claimants info) of
               [c] \<Rightarrow> Inr (c, True)
             | [] \<Rightarrow> (case ni_claimants info of [] \<Rightarrow> Inl (Conflict (OnAlias (AliasUnready name)))
                      | cs \<Rightarrow> Inr (last cs, False))
             | _ \<Rightarrow> Inl (Conflict (OnAlias (AliasAddressableAmbiguous name)))) (\<lambda>(c, unique).
      rbind (if nc_ready c then
               rbind (find_ready_alias name d) (\<lambda>p. map_sum id (Some \<circ> snd)
                 (ok_or (InvalidRecord (AddressableNotReady (nc_agent c))) p))
             else Inr None) (\<lambda>inc.
        Inr \<lparr>ct_agent = nc_agent c, ct_incarnation = inc, ct_transport = nc_transport c,
             ct_addressable = nc_addressable c, ct_unique = unique, ct_info = info\<rparr>)))"

text \<open>\<open>UNION\<close> of two selections: without duplicates, in an order the caller does not use.\<close>

definition active_aliases :: "db \<Rightarrow> string list" where
  "active_aliases d =
     remdups (map la_public_name (filter (\<lambda>l. has_ready d (la_id l)) (agents d))
       @ map la_public_name (filter active_waiter_row (agents d)))"

definition active_socket_waiter_for_alias ::
  "string \<Rightarrow> db \<Rightarrow> store_error + logical_agent_id option" where
  "active_socket_waiter_for_alias name d =
     (case map la_id (filter (\<lambda>l. la_public_name l = name \<and> active_waiter_row l) (agents d)) of
        [] \<Rightarrow> Inr None | [a] \<Rightarrow> Inr (Some a)
      | as \<Rightarrow> Inl (Conflict (OnAlias (AliasManyWaiters name (length as)))))"

section \<open>Bindings\<close>

definition name_holder_for_start :: "string \<Rightarrow> db \<Rightarrow> (logical_agent_id \<times> string) option" where
  "name_holder_for_start name d =
     (case rev (sort_key in_created_at_ms (sort_key in_id (filter
             (\<lambda>i. exists_row (\<lambda>l. la_id l = in_agent i \<and> la_public_name l = name
                               \<and> la_transport l = HerdrPrompt) (agents d)) (incarnations d)))) of
        [] \<Rightarrow> None | i # _ \<Rightarrow> Some (in_agent i, in_working_directory i))"

definition start_claim ::
  "db \<Rightarrow> logical_agent_id option \<Rightarrow> string \<Rightarrow> incarnation_row
   \<Rightarrow> (incarnation_id \<times> logical_agent_id \<times> string \<times> string) list" where
  "start_claim d a name i =
     (if Some (in_agent i) = a \<or> named d name (in_agent i) then
        (if in_state i = IStarting then [(in_id i, in_agent i, [], [])]
         else (case (in_state i, in_observed_pane i, in_observed_terminal i) of
                 (IReady, Some p, Some t) \<Rightarrow> [(in_id i, in_agent i, p, t)] | _ \<Rightarrow> []))
      else [])"

definition ready_claims_for_start ::
  "logical_agent_id option \<Rightarrow> string \<Rightarrow> db \<Rightarrow> (incarnation_id \<times> logical_agent_id \<times> string \<times> string) list" where
  "ready_claims_for_start a name d = concat (map (start_claim d a name) (incarnations d))"

record ready_binding_info =
  rb_pane :: string
  rb_terminal :: string

definition binding_of :: "incarnation_row \<Rightarrow> store_error + ready_binding_info" where
  "binding_of i =
     rbind (ok_or (Sql NullColumn) (in_observed_pane i)) (\<lambda>p.
     rbind (ok_or (Sql NullColumn) (in_observed_terminal i)) (\<lambda>t.
       Inr \<lparr>rb_pane = p, rb_terminal = t\<rparr>))"

definition ready_binding :: "incarnation_id \<Rightarrow> db \<Rightarrow> store_error + ready_binding_info" where
  "ready_binding inc d =
     rbind (ok_or (Conflict (OnBinding NoReadyBinding))
              (find_row (\<lambda>i. in_id i = inc \<and> in_state i = IReady) (incarnations d))) binding_of"

definition retirable_binding ::
  "incarnation_id \<Rightarrow> db \<Rightarrow> store_error + (ready_binding_info \<times> incarnation_state)" where
  "retirable_binding inc d =
     rbind (ok_or (Conflict (OnBinding NoRetirableBinding))
              (find_row (\<lambda>i. in_id i = inc \<and> in_state i \<in> {IReady, IRetiring}) (incarnations d))) (\<lambda>i.
     rbind (binding_of i) (\<lambda>b. Inr (b, in_state i)))"

definition newest_by :: "('r \<Rightarrow> int) \<Rightarrow> 'r list \<Rightarrow> 'r option" where
  "newest_by k rs = (case rs of [] \<Rightarrow> None
     | r # rs \<Rightarrow> Some (fold (\<lambda>x best. if k best < k x then x else best) rs r))"

definition seated :: "string \<Rightarrow> string \<Rightarrow> incarnation_row \<Rightarrow> bool" where
  "seated pane terminal i \<longleftrightarrow> in_observed_pane i = Some pane \<and> in_observed_terminal i = Some terminal"

definition ready_incarnation_other_than ::
  "incarnation_id \<Rightarrow> string \<Rightarrow> string \<Rightarrow> db \<Rightarrow> incarnation_id option" where
  "ready_incarnation_other_than inc pane terminal d =
     map_option in_id (newest_by in_created_at_ms
       (filter (\<lambda>i. seated pane terminal i \<and> in_state i = IReady \<and> in_id i \<noteq> inc) (incarnations d)))"

definition open_retirement :: "incarnation_id \<Rightarrow> db \<Rightarrow> store_error + operation_id" where
  "open_retirement inc d =
     map_sum id op_id (ok_or (Conflict (OnAlias (NoOpenRetirement inc))) (newest_by op_created_at_ms
       (filter (\<lambda>r. op_target r = inc \<and> op_kind r = KRetire \<and> op_outcome r = OpAccepted) (operations d))))"

definition continuable_logical_agent_for_binding ::
  "string \<Rightarrow> string \<Rightarrow> db \<Rightarrow> store_error + logical_agent_id option" where
  "continuable_logical_agent_for_binding pane terminal d =
     (let occupants = rev (sort_key in_created_at_ms (sort_key in_id (filter (\<lambda>i. seated pane terminal i
            \<and> in_state i \<notin> {IReady, IRetiring, IRetired, ISuperseded}) (incarnations d))))
      in case rev (remdups (rev (map in_agent occupants))) of
           [] \<Rightarrow> Inr None
         | [a] \<Rightarrow>
             if \<exists>i \<in> set occupants. in_state i \<in> {ILost, IUnknown, IDeclared, IFailed}
             then Inr (Some a) else Inl (Conflict (OnAlias (NotContinuable pane terminal a)))
         | as \<Rightarrow> Inl (Conflict (OnAlias (ManyContinuable pane terminal as))))"

section \<open>Reuse of an idempotency key\<close>

text \<open>\<open>ORDER BY (kind != 'prompt' OR outcome != 'failed') DESC, created_at_ms DESC, id DESC LIMIT 1\<close>.\<close>

definition reuse_before :: "operation_row \<Rightarrow> operation_row \<Rightarrow> bool" where
  "reuse_before r s \<longleftrightarrow>
     (if live_key r \<noteq> live_key s then live_key r
      else if op_created_at_ms r \<noteq> op_created_at_ms s then op_created_at_ms s < op_created_at_ms r
      else op_id s < op_id r)"

definition refuse_reused_non_prompt_idempotency_key :: "string \<Rightarrow> db \<Rightarrow> store_error + unit" where
  "refuse_reused_non_prompt_idempotency_key key d =
     (case filter (\<lambda>r. op_key r = key) (operations d) of [] \<Rightarrow> Inr ()
      | r # rs \<Rightarrow>
          let prior = fold (\<lambda>x best. if reuse_before x best then x else best) rs r
          in Inl (Conflict (OnReplay (KeyBelongsToOperation (op_id prior) (op_outcome prior)))))"

definition declared_by_idempotency_key ::
  "string \<Rightarrow> db \<Rightarrow> (operation_id \<times> incarnation_id \<times> logical_agent_id) option" where
  "declared_by_idempotency_key key d =
     Option.bind (find_row (\<lambda>r. op_key r = key \<and> op_kind r \<in> {KStart, KAdopt}) (operations d)) (\<lambda>r.
       map_option (\<lambda>i. (op_id r, in_id i, in_agent i))
         (find_row (\<lambda>i. in_id i = op_target r) (incarnations d)))"

end
