(* ===== verification/Lifecycle.thy ===== *)
theory Lifecycle
  imports Aliases
begin

text \<open>
  The life of an incarnation in \<open>src/src/store.rs\<close>: a start declared before its Herdr write,
  the adoption of a live agent, rename, clear, retirement intent and operator notices.
\<close>

record declared_start =
  de_agent :: logical_agent_id
  de_incarnation :: incarnation_id
  de_operation :: operation_id

definition empty_to_none :: "string option \<Rightarrow> string option" where
  "empty_to_none v = Option.bind (map_option trim v) (\<lambda>s. if s = [] then None else Some s)"

definition refuse_pane_bind_of_socket_inbox :: "logical_agent_id \<Rightarrow> db \<Rightarrow> store_error + unit" where
  "refuse_pane_bind_of_socket_inbox a d =
     ensure (map_option la_transport (find_agent d a) \<noteq> Some SocketInbox)
       (Conflict (OnBinding (BindsSocketWaiter a)))"

text \<open>The logical agent a new incarnation belongs to: the continued one, renamed, or a new one.\<close>

definition claim_identity ::
  "logical_agent_id option \<Rightarrow> string \<Rightarrow> parent \<Rightarrow> int \<Rightarrow> db \<Rightarrow> store_error + (logical_agent_id \<times> db)" where
  "claim_identity existing name par now d = (case existing of
     Some a \<Rightarrow>
       rbind (ensure (agent_exists d a) (Conflict (OnBinding ContinueAbsent))) (\<lambda>_.
       rbind (refuse_pane_bind_of_socket_inbox a d) (\<lambda>_.
         Inr (a, upd_agents (\<lambda>r. la_id r = a) (\<lambda>r. r\<lparr>la_public_name := name\<rparr>) d)))
   | None \<Rightarrow> insert_logical_agent name par HerdrPrompt now d)"

definition started_row :: "start_intent \<Rightarrow> logical_agent_id \<Rightarrow> int \<Rightarrow> incarnation_row" where
  "started_row n a now =
     \<lparr>in_id = 0, in_agent = a, in_herdr_session = si_herdr_session n, in_intended_pane = si_pane_id n,
      in_expected_terminal = si_expected_terminal_id n, in_observed_pane = None,
      in_observed_terminal = None, in_backend_kind = si_backend_kind n,
      in_working_directory = si_working_directory n, in_created_at_ms = now, in_terminal_at_ms = None,
      in_terminal_reason = None, in_state = IDeclared, in_native_session = None,
      in_requested = \<lparr>rq_model = empty_to_none (si_requested_model n),
                      rq_provider = empty_to_none (si_requested_provider n),
                      rq_effort = empty_to_none (si_requested_effort n)\<rparr>,
      in_pending_rename = None, in_backend_args = si_backend_args n, in_rotated_at_ms = None\<rparr>"

definition declare_start :: "int \<Rightarrow> start_intent \<Rightarrow> db \<Rightarrow> store_error + (declared_start \<times> db)" where
  "declare_start now n d =
     rbind (refuse_reused_non_prompt_idempotency_key (si_idempotency_key n) d) (\<lambda>_.
     rbind (refuse_name_held_by_socket_waiter (si_public_name n) d) (\<lambda>_.
     rbind (claim_identity (si_logical_agent_id n) (si_public_name n) (si_parent n) now d) (\<lambda>(a, d).
     rbind (insert_incarnation (started_row n a now) d) (\<lambda>(inc, d).
     rbind (insert_operation (si_idempotency_key n) KStart inc (IntentStart n) now d) (\<lambda>(oid, d).
       Inr (\<lparr>de_agent = a, de_incarnation = inc, de_operation = oid\<rparr>, d))))))"

section \<open>Adoption\<close>

record adopt_evidence =
  ae_pane_id :: string
  ae_terminal_id :: string
  ae_public_name :: string
  ae_backend_kind :: string
  ae_working_directory :: string
  ae_interactive_ready :: bool
  ae_launch_pending :: bool
  ae_native_session :: "string option"

definition adopt_evidence_check :: "adopt_intent \<Rightarrow> adopt_evidence \<Rightarrow> store_error + unit" where
  "adopt_evidence_check n ev =
     rbind (ensure (ae_pane_id ev = ai_pane_id n \<and> ae_terminal_id ev = ai_expected_terminal_id n)
              (Conflict (OnBinding AdoptOtherSeat))) (\<lambda>_.
     rbind (ensure (\<not> ae_launch_pending ev) (Conflict (OnBinding AdoptLaunchPending))) (\<lambda>_.
     rbind (case ai_public_name n of None \<Rightarrow> Inr ()
            | Some expected \<Rightarrow> ensure (ae_public_name ev = expected)
                (Conflict (OnBinding (AdoptOtherName (ae_public_name ev) expected)))) (\<lambda>_.
     rbind (case ai_backend_kind n of None \<Rightarrow> Inr ()
            | Some expected \<Rightarrow> ensure (ae_backend_kind ev = expected)
                (Conflict (OnBinding AdoptOtherBackend))) (\<lambda>_.
       ensure (ae_backend_kind ev \<noteq> [] \<and> ae_public_name ev \<noteq> []) (Conflict (OnBinding AdoptNoEvidence))))))"

text \<open>
  An obligation under the name that the continued agent is no party of. The refusal is composed
  from a claimant of the name, archived ones left out, and fails when there is none.
\<close>

definition foreign_unresolved :: "adopt_intent \<Rightarrow> name_info_data \<Rightarrow> bool" where
  "foreign_unresolved n info \<longleftrightarrow>
     list_ex (\<lambda>x. ai_logical_agent_id n \<noteq> Some (no_asker x) \<and> ai_logical_agent_id n \<noteq> Some (no_responder x))
       (ni_unresolved info)"

definition refuse_owed_name :: "adopt_intent \<Rightarrow> string \<Rightarrow> db \<Rightarrow> store_error + unit" where
  "refuse_owed_name n name d =
     (let info = name_info_on name False d in
      ensure (\<not> foreign_unresolved n info)
        (if ni_claimants info = [] then Panic else Conflict (OnBinding (NameOwed name))))"

definition ready_alias_holder :: "string \<Rightarrow> (incarnation_id \<Rightarrow> bool) \<Rightarrow> db \<Rightarrow> incarnation_row option" where
  "ready_alias_holder name p d =
     find_row (\<lambda>i. in_state i = IReady \<and> named d name (in_agent i) \<and> p (in_id i)) (incarnations d)"

definition refuse_ready_alias :: "string \<Rightarrow> (incarnation_id \<Rightarrow> bool) \<Rightarrow> db \<Rightarrow> store_error + unit" where
  "refuse_ready_alias name p d = (case ready_alias_holder name p d of None \<Rightarrow> Inr ()
     | Some i \<Rightarrow> Inl (Conflict (OnBinding (ReadyAliasBound name (in_id i)))))"

definition adopted_row ::
  "adopt_intent \<Rightarrow> adopt_evidence \<Rightarrow> incarnation_state \<Rightarrow> logical_agent_id \<Rightarrow> int \<Rightarrow> incarnation_row" where
  "adopted_row n ev st a now =
     \<lparr>in_id = 0, in_agent = a, in_herdr_session = ai_herdr_session n, in_intended_pane = ae_pane_id ev,
      in_expected_terminal = ae_terminal_id ev, in_observed_pane = Some (ae_pane_id ev),
      in_observed_terminal = Some (ae_terminal_id ev), in_backend_kind = ae_backend_kind ev,
      in_working_directory = ae_working_directory ev, in_created_at_ms = now, in_terminal_at_ms = None,
      in_terminal_reason = None, in_state = st, in_native_session = ae_native_session ev,
      in_requested = \<lparr>rq_model = empty_to_none (ai_requested_model n),
                      rq_provider = empty_to_none (ai_requested_provider n),
                      rq_effort = empty_to_none (ai_requested_effort n)\<rparr>,
      in_pending_rename = None, in_backend_args = ai_backend_args n, in_rotated_at_ms = None\<rparr>"

definition insert_adopt_binding ::
  "int \<Rightarrow> adopt_intent \<Rightarrow> adopt_evidence \<Rightarrow> incarnation_state \<Rightarrow> operation_outcome \<Rightarrow> bool \<Rightarrow> db
   \<Rightarrow> store_error + (declared_start \<times> db)" where
  "insert_adopt_binding now n ev st out resolved d =
     (let name = ae_public_name ev in
      rbind (adopt_evidence_check n ev) (\<lambda>_.
      rbind (refuse_reused_non_prompt_idempotency_key (ai_idempotency_key n) d) (\<lambda>_.
      rbind (case find_row (\<lambda>i. in_state i = IReady \<and> seated (ae_pane_id ev) (ae_terminal_id ev) i)
                    (incarnations d) of
               None \<Rightarrow> Inr () | Some i \<Rightarrow> Inl (Conflict (OnBinding (BindingAdopted (in_id i))))) (\<lambda>_.
      rbind (refuse_ready_alias name (\<lambda>_. True) d) (\<lambda>_.
      rbind (refuse_name_held_by_socket_waiter name d) (\<lambda>_.
      rbind (refuse_owed_name n name d) (\<lambda>_.
      rbind (claim_identity (ai_logical_agent_id n) name (ai_parent n) now d) (\<lambda>(a, d).
      rbind (insert_incarnation (adopted_row n ev st a now) d) (\<lambda>(inc, d).
      rbind (insert_operation (ai_idempotency_key n) KAdopt inc (IntentAdopt n name) now d) (\<lambda>(oid, d).
        Inr (\<lparr>de_agent = a, de_incarnation = inc, de_operation = oid\<rparr>,
             upd_operations (\<lambda>r. op_id r = oid)
               (\<lambda>r. r\<lparr>op_outcome := out, op_resolved_at_ms := (if resolved then Some now else None)\<rparr>)
               d)))))))))))"

definition declare_adopt ::
  "int \<Rightarrow> adopt_intent \<Rightarrow> adopt_evidence \<Rightarrow> db \<Rightarrow> store_error + (declared_start \<times> db)" where
  "declare_adopt now n ev d =
     rbind (ensure (ae_public_name ev \<noteq> []) (Conflict (OnBinding AdoptNoName))) (\<lambda>_.
       insert_adopt_binding now n ev IReady OpSucceeded True d)"

definition declare_adopt_pending ::
  "int \<Rightarrow> adopt_intent \<Rightarrow> adopt_evidence \<Rightarrow> db \<Rightarrow> store_error + (declared_start \<times> db)" where
  "declare_adopt_pending now n ev d =
     rbind (ensure (ae_public_name ev \<noteq> []) (Conflict (OnBinding AdoptNoName))) (\<lambda>_.
       insert_adopt_binding now n ev IDeclared OpPending False d)"

definition exact_adopt :: "incarnation_row \<Rightarrow> agent_row \<Rightarrow> agent_observation \<Rightarrow> bool" where
  "exact_adopt i l agent \<longleftrightarrow>
     ao_pane_id agent = in_intended_pane i \<and> ao_terminal_id agent = in_expected_terminal i
     \<and> ao_name agent = Some (la_public_name l) \<and> ao_agent agent = Some (in_backend_kind i)
     \<and> \<not> ao_launch_pending agent"

definition accept_adopt_ready ::
  "int \<Rightarrow> operation_id \<Rightarrow> incarnation_id \<Rightarrow> agent_observation \<Rightarrow> db \<Rightarrow> store_error + db" where
  "accept_adopt_ready now oid inc agent d =
     (let owns = (\<lambda>r. op_id r = oid \<and> op_target r = inc \<and> op_outcome r \<in> {OpPending, OpAccepted}) in
      rbind (ok_or (Conflict (OnBinding AdoptNotProven))
               (find_row (\<lambda>i. in_id i = inc \<and> in_state i \<in> {IDeclared, IStarting}) (incarnations d))) (\<lambda>i.
      rbind (ok_or (Conflict (OnBinding AdoptNotProven)) (find_agent d (in_agent i))) (\<lambda>l.
      rbind (ensure (exact_adopt i l agent) (Conflict (OnBinding AdoptNotProven))) (\<lambda>_.
      rbind (refuse_name_held_by_socket_waiter (la_public_name l) d) (\<lambda>_.
      rbind (ensure (count_rows owns (operations d) = 1) (Conflict (OnBinding StaleAdopt))) (\<lambda>_.
        Inr (upd_attempts (latest_attempt d oid)
               (\<lambda>a. a\<lparr>at_phase := AResponseCommitted, at_resolved_at_ms := Some now\<rparr>)
            (upd_incarnations (\<lambda>i. in_id i = inc)
               (\<lambda>i. i\<lparr>in_state := IReady, in_observed_pane := Some (ao_pane_id agent),
                      in_observed_terminal := Some (ao_terminal_id agent),
                      in_native_session := (case ao_agent_session agent of
                         Some s \<Rightarrow> Some s | None \<Rightarrow> in_native_session i)\<rparr>)
            (upd_operations owns (\<lambda>r. r\<lparr>op_outcome := OpSucceeded, op_resolved_at_ms := Some now\<rparr>) d)))))))))"

section \<open>Clear\<close>

definition clearing_renew :: "db \<Rightarrow> incarnation_id \<Rightarrow> bool" where
  "clearing_renew d inc \<longleftrightarrow> exists_row (\<lambda>r. rn_incarnation r = inc
     \<and> rn_phase r \<in> {RPreparing, RReady, RClearing, RInjected, RTimedOut}) (renews d)"

definition create_clear ::
  "int \<Rightarrow> logical_agent_id \<Rightarrow> incarnation_id \<Rightarrow> int \<Rightarrow> string \<Rightarrow> db
   \<Rightarrow> store_error + (operation_id \<times> db)" where
  "create_clear now recipient inc settle key d =
     rbind (refuse_reused_non_prompt_idempotency_key key d) (\<lambda>_.
     rbind (ensure (incarnation_owner d inc is_ready = Some recipient) (Conflict (OnClear ClearNotReady))) (\<lambda>_.
     rbind (ensure (\<not> clearing_renew d inc) (Conflict (OnClear ClearActiveRenew))) (\<lambda>_.
     rbind (ensure (\<not> clear_in_flight d inc) (Conflict (OnClear ClearActiveClear))) (\<lambda>_.
       insert_operation key KClear inc (IntentClear recipient inc settle) now d))))"

definition validate_clear_target :: "logical_agent_id \<Rightarrow> incarnation_id \<Rightarrow> db \<Rightarrow> store_error + unit" where
  "validate_clear_target recipient inc d =
     ensure (exists_row (\<lambda>i. in_id i = inc \<and> in_agent i = recipient \<and> in_state i = IReady) (incarnations d)
             \<and> \<not> clearing_renew d inc \<and> \<not> clear_in_flight d inc) (Conflict (OnClear ClearUnavailable))"

definition operation_of :: "db \<Rightarrow> operation_id \<Rightarrow> (operation_row \<Rightarrow> bool) \<Rightarrow> bool" where
  "operation_of d oid p \<longleftrightarrow> exists_row (\<lambda>r. op_id r = oid \<and> p r) (operations d)"

definition max_option :: "int list \<Rightarrow> int option" where
  "max_option ts = (case ts of [] \<Rightarrow> None | t # ts \<Rightarrow> Some (fold max ts t))"

text \<open>The instants at which an attempt of an operation that satisfies \<open>p\<close> crossed the write boundary.\<close>

definition crossed_at :: "db \<Rightarrow> (operation_row \<Rightarrow> bool) \<Rightarrow> int list" where
  "crossed_at d p = map at_started_at_ms
     (filter (\<lambda>a. at_phase a \<noteq> APrepared \<and> operation_of d (at_operation a) p) (attempts d))"

definition clear_resolved_at :: "db \<Rightarrow> incarnation_id \<Rightarrow> int list" where
  "clear_resolved_at d inc = List.map_filter op_resolved_at_ms
     (filter (\<lambda>r. op_kind r = KClear \<and> op_target r = inc \<and> op_outcome r = OpSucceeded) (operations d))"

definition unknown_clear :: "incarnation_id \<Rightarrow> operation_row \<Rightarrow> bool" where
  "unknown_clear inc r \<longleftrightarrow> op_kind r = KClear \<and> op_target r = inc \<and> op_outcome r = OpUnknown"

definition last_prompt_attempt_at_ms :: "incarnation_id \<Rightarrow> db \<Rightarrow> int option" where
  "last_prompt_attempt_at_ms inc d = max_option
     (crossed_at d (\<lambda>r. op_kind r = KPrompt \<and> op_target r = inc)
      @ map ra_started_at_ms
          (filter (\<lambda>r. ra_incarnation r = inc \<and> ra_phase r \<noteq> APrepared) (reminder_attempts d))
      @ clear_resolved_at d inc @ crossed_at d (unknown_clear inc))"

definition last_clear_spacing_at_ms :: "incarnation_id \<Rightarrow> db \<Rightarrow> int option" where
  "last_clear_spacing_at_ms inc d = max_option (clear_resolved_at d inc @ crossed_at d (unknown_clear inc))"

definition settled_at :: "operation_row \<Rightarrow> int" where
  "settled_at r = (case op_resolved_at_ms r of Some t \<Rightarrow> t | None \<Rightarrow> op_created_at_ms r)"

definition unproven_clear :: "incarnation_id \<Rightarrow> db \<Rightarrow> operation_id option" where
  "unproven_clear inc d =
     (case find_row (\<lambda>i. in_id i = inc) (incarnations d) of None \<Rightarrow> None
      | Some i \<Rightarrow> map_option op_id (newest_by settled_at
          (filter (\<lambda>r. unknown_clear inc r \<and> coalesce0 (in_rotated_at_ms i) \<le> settled_at r) (operations d))))"

definition complete_clear ::
  "int \<Rightarrow> operation_id \<Rightarrow> incarnation_id \<Rightarrow> string option \<Rightarrow> int \<Rightarrow> db \<Rightarrow> store_error + db" where
  "complete_clear now oid inc session settle d =
     (let owns = (\<lambda>r. op_id r = oid \<and> op_kind r = KClear \<and> op_target r = inc \<and> op_outcome r = OpPending);
          live = (\<lambda>i. in_id i = inc \<and> in_state i = IReady) in
      rbind (ensure (count_rows owns (operations d) = 1) (Conflict (OnClear ClearNotOwner))) (\<lambda>_.
      rbind (case session of None \<Rightarrow> Inr d
             | Some s \<Rightarrow>
                 rbind (ensure (count_rows live (incarnations d) = 1) (Conflict (OnClear ClearReplacement))) (\<lambda>_.
                   Inr (upd_incarnations live
                     (\<lambda>i. i\<lparr>in_native_session := Some s, in_rotated_at_ms := Some now\<rparr>) d))) (\<lambda>d.
        Inr (upd_deliveries (\<lambda>r. dl_incarnation r = Some inc \<and> dl_outcome r = DQueued)
               (postpone (Some (saturating_add_i64 now settle)))
            (upd_attempts (latest_attempt d oid) (\<lambda>a. a\<lparr>at_phase := AResponseCommitted\<rparr>)
            (upd_operations owns (\<lambda>r. r\<lparr>op_outcome := OpSucceeded, op_resolved_at_ms := Some now\<rparr>) d))))))"

section \<open>Notices, retirement and rename\<close>

definition create_operator_notice :: "int \<Rightarrow> string \<Rightarrow> db \<Rightarrow> operator_notice_id \<times> db" where
  "create_operator_notice now body d = insert_notice body now d"

record operator_notice =
  on_id :: operator_notice_id
  on_body :: string
  on_created_at_ms :: int
  on_acknowledged :: bool

definition operator_notices :: "db \<Rightarrow> operator_notice list" where
  "operator_notices d =
     map (\<lambda>n. \<lparr>on_id = nt_id n, on_body = nt_body n, on_created_at_ms = nt_created_at_ms n,
               on_acknowledged = (nt_acknowledged_at_ms n \<noteq> None)\<rparr>)
       (sort_key nt_created_at_ms (sort_key nt_id (notices d)))"

definition request_retirement ::
  "int \<Rightarrow> incarnation_id \<Rightarrow> string \<Rightarrow> db \<Rightarrow> store_error + (operation_id \<times> db)" where
  "request_retirement now inc key d =
     (let live = (\<lambda>i. in_id i = inc \<and> in_state i = IReady) in
      rbind (refuse_reused_non_prompt_idempotency_key key d) (\<lambda>_.
      rbind (ensure (count_rows live (incarnations d) = 1) (Conflict (OnBinding RetireNotReady))) (\<lambda>_.
      rbind (insert_operation key KRetire inc (IntentRetire inc) now
               (upd_incarnations live (\<lambda>i. i\<lparr>in_state := IRetiring\<rparr>) d)) (\<lambda>(oid, d).
        Inr (oid, upd_operations (\<lambda>r. op_id r = oid) (\<lambda>r. r\<lparr>op_outcome := OpAccepted\<rparr>) d)))))"

definition declare_rename :: "incarnation_id \<Rightarrow> string \<Rightarrow> db \<Rightarrow> store_error + db" where
  "declare_rename inc name d =
     (let p = (\<lambda>i. in_id i = inc \<and> in_state i = IReady \<and> in_pending_rename i = None) in
      rbind (refuse_ready_alias name (\<lambda>j. j \<noteq> inc) d) (\<lambda>_.
      rbind (refuse_name_held_by_socket_waiter name d) (\<lambda>_.
      rbind (ensure (count_rows p (incarnations d) = 1) (Conflict (OnBinding RenameNotReady))) (\<lambda>_.
        Inr (upd_incarnations p (\<lambda>i. i\<lparr>in_pending_rename := Some name\<rparr>) d)))))"

definition commit_rename :: "incarnation_id \<Rightarrow> string \<Rightarrow> db \<Rightarrow> store_error + db" where
  "commit_rename inc name d =
     rbind (ok_or (Conflict (OnBinding RenameNotPending))
              (find_row (\<lambda>i. in_id i = inc \<and> in_state i = IReady \<and> in_pending_rename i = Some name)
                 (incarnations d))) (\<lambda>i.
     rbind (refuse_name_held_by_socket_waiter name d) (\<lambda>_.
       Inr (upd_incarnations (\<lambda>i. in_id i = inc) (\<lambda>i. i\<lparr>in_pending_rename := None\<rparr>)
         (upd_agents (\<lambda>r. la_id r = in_agent i) (\<lambda>r. r\<lparr>la_public_name := name\<rparr>) d))))"

definition abandon_rename :: "incarnation_id \<Rightarrow> db \<Rightarrow> db" where
  "abandon_rename inc d = upd_incarnations (\<lambda>i. in_id i = inc) (\<lambda>i. i\<lparr>in_pending_rename := None\<rparr>) d"

definition fillable_session :: "incarnation_id \<Rightarrow> string \<Rightarrow> string \<Rightarrow> incarnation_row \<Rightarrow> bool" where
  "fillable_session inc pane terminal i \<longleftrightarrow> in_id i = inc \<and> in_state i = IReady
     \<and> seated pane terminal i \<and> in_native_session i = None"

definition fill_observed_native_session ::
  "incarnation_id \<Rightarrow> string \<Rightarrow> string \<Rightarrow> string \<Rightarrow> db \<Rightarrow> bool \<times> db" where
  "fill_observed_native_session inc pane terminal session d =
     (count_rows (fillable_session inc pane terminal) (incarnations d) = 1,
      upd_incarnations (fillable_session inc pane terminal) (\<lambda>i. i\<lparr>in_native_session := Some session\<rparr>) d)"

end
