(* ===== verification/Ledger.thy ===== *)
theory Ledger
  imports Lifecycle
begin

text \<open>
  The ledger of messages and reply obligations: what every recorded row refers to, how it may
  evolve, and the contract each store operation keeps with it. The contract is proved for the
  primitive statements first, then for the composed operations.
\<close>

section \<open>The ledger and its evolution\<close>

text \<open>An obligation belongs to an ask its owing agent received from the waiting agent or the operator.\<close>

definition ask_recorded :: "message_row list \<Rightarrow> obligation_row \<Rightarrow> bool" where
  "ask_recorded ms x \<longleftrightarrow> (\<exists>m \<in> set ms. ms_id m = ob_ask x \<and> ms_kind m = Ask
     \<and> ms_recipient m = ob_owing x \<and> (ms_sender m = None \<or> ms_sender m = Some (ob_waiting x)))"

text \<open>It is resolved exactly by a final reply of the owing agent to that ask.\<close>

definition resolution_recorded :: "message_row list \<Rightarrow> obligation_row \<Rightarrow> bool" where
  "resolution_recorded ms x \<longleftrightarrow> (case ob_resolving x of
     None \<Rightarrow> ob_state x \<noteq> ObResolved
   | Some r \<Rightarrow> ob_state x = ObResolved
       \<and> (\<exists>m \<in> set ms. ms_id m = r \<and> is_final_reply m \<and> ms_reply_to m = Some (ob_ask x)
            \<and> ms_sender m = Some (ob_owing x)))"

definition row_recorded :: "message_row list \<Rightarrow> obligation_row \<Rightarrow> bool" where
  "row_recorded ms x \<longleftrightarrow> ask_recorded ms x \<and> resolution_recorded ms x"

text \<open>A message that answers an ask is a reply from the owing to the waiting agent of its obligation.\<close>

definition reply_recorded :: "obligation_row list \<Rightarrow> message_row \<Rightarrow> bool" where
  "reply_recorded obs m \<longleftrightarrow> (case ms_reply_to m of None \<Rightarrow> ms_kind m \<noteq> Reply
     | Some ask \<Rightarrow> ms_kind m = Reply \<and> (\<exists>x \<in> set obs. ob_ask x = ask
         \<and> ms_sender m = Some (ob_owing x) \<and> ms_recipient m = ob_waiting x))"

definition ledger_ok :: "db \<Rightarrow> bool" where
  "ledger_ok d \<longleftrightarrow> distinct (map ms_id (messages d)) \<and> (\<forall>m \<in> set (messages d). ms_id m \<le> seq_messages d)
     \<and> distinct (map ob_ask (obligations d))
     \<and> (\<forall>x \<in> set (obligations d). row_recorded (messages d) x)
     \<and> (\<forall>m \<in> set (messages d). reply_recorded (obligations d) m)"

definition same_obligation :: "obligation_row \<Rightarrow> obligation_row \<Rightarrow> bool" where
  "same_obligation x y \<longleftrightarrow> ob_ask y = ob_ask x \<and> ob_owing y = ob_owing x \<and> ob_waiting y = ob_waiting x
     \<and> ob_sequence y = ob_sequence x \<and> ob_created_at_ms y = ob_created_at_ms x
     \<and> ob_reply_delivery y = ob_reply_delivery x"

text \<open>One row over time: its identity is fixed, it never reopens, and once settled it is frozen.\<close>

definition ob_evolves :: "obligation_row \<Rightarrow> obligation_row \<Rightarrow> bool" where
  "ob_evolves x y \<longleftrightarrow> same_obligation x y \<and> (ob_state y = ObOpen \<longrightarrow> ob_state x = ObOpen)
     \<and> (\<not> ob_unsettled (ob_state x) \<longrightarrow> y = x)"

definition rows_evolve :: "obligation_row list \<Rightarrow> obligation_row list \<Rightarrow> bool" where
  "rows_evolve xs ys \<longleftrightarrow> (\<exists>zs ws. ys = zs @ ws \<and> list_all2 ob_evolves xs zs)"

definition evolves :: "db \<Rightarrow> db \<Rightarrow> bool" where
  "evolves d d' \<longleftrightarrow> (\<exists>ms. messages d' = messages d @ ms) \<and> seq_messages d \<le> seq_messages d'
     \<and> rows_evolve (obligations d) (obligations d')"

text \<open>No row is resolved that was not resolved, with the same message, before.\<close>

definition resolves_nothing :: "db \<Rightarrow> db \<Rightarrow> bool" where
  "resolves_nothing d d' \<longleftrightarrow>
     (\<forall>y \<in> set (obligations d'). ob_state y = ObResolved \<longrightarrow> y \<in> set (obligations d))"

definition keeps_ledger :: "db \<Rightarrow> db \<Rightarrow> bool" where
  "keeps_ledger d d' \<longleftrightarrow> (ledger_ok d \<longrightarrow> ledger_ok d' \<and> evolves d d')"

definition keeps_ledger_quietly :: "db \<Rightarrow> db \<Rightarrow> bool" where
  "keeps_ledger_quietly d d' \<longleftrightarrow> (ledger_ok d \<longrightarrow> ledger_ok d' \<and> evolves d d' \<and> resolves_nothing d d')"

definition ledger_view :: "db \<Rightarrow> message_row list \<times> obligation_row list \<times> nat" where
  "ledger_view d = (messages d, obligations d, seq_messages d)"

section \<open>Contracts between two states\<close>

text \<open>
  A contract that an operation keeps between its state before and after: it holds when nothing it
  reads changed, and it composes, so a chain of statements keeps it when each one does.
\<close>

locale store_contract =
  fixes view :: "db \<Rightarrow> 'v" and rel :: "db \<Rightarrow> db \<Rightarrow> bool"
  assumes rel_frame: "view d' = view d \<Longrightarrow> rel d d'"
    and rel_trans: "rel a b \<Longrightarrow> rel b c \<Longrightarrow> rel a c"
begin

lemma rel_refl: "rel d d"
  by (rule rel_frame) simp

lemma rel_then_frame: "rel a b \<Longrightarrow> view c = view b \<Longrightarrow> rel a c"
  by (blast intro: rel_trans rel_frame)

lemma frame_then_rel: "view b = view a \<Longrightarrow> rel b c \<Longrightarrow> rel a c"
  by (blast intro: rel_trans rel_frame)

lemma rel_star: "R\<^sup>*\<^sup>* a b \<Longrightarrow> (\<And>x y. R x y \<Longrightarrow> rel x y) \<Longrightarrow> rel a b"
  by (induction rule: rtranclp_induct) (auto intro: rel_refl rel_trans)

end

lemma ob_evolves_refl [simp]: "ob_evolves x x"
  by (simp add: ob_evolves_def same_obligation_def)

lemma same_obligation_trans: "same_obligation x y \<Longrightarrow> same_obligation y z \<Longrightarrow> same_obligation x z"
  by (simp add: same_obligation_def)

lemma ob_evolves_trans: "ob_evolves x y \<Longrightarrow> ob_evolves y z \<Longrightarrow> ob_evolves x z"
  unfolding ob_evolves_def using same_obligation_trans by metis

lemma rows_evolve_append [simp]: "rows_evolve xs (xs @ ys)"
  unfolding rows_evolve_def
  by (rule exI [of _ xs], rule exI [of _ ys]) (simp add: list.rel_refl)

lemma rows_evolve_refl [simp]: "rows_evolve xs xs"
  using rows_evolve_append [of xs "[]"] by simp

lemma rows_evolve_trans:
  assumes "rows_evolve xs ys" and "rows_evolve ys zs" shows "rows_evolve xs zs"
proof -
  obtain as bs where ys: "ys = as @ bs" and xa: "list_all2 ob_evolves xs as"
    using assms(1) by (auto simp: rows_evolve_def)
  obtain cs ds where zs: "zs = cs @ ds" and yc: "list_all2 ob_evolves (as @ bs) cs"
    using assms(2) ys by (auto simp: rows_evolve_def)
  then obtain es fs where cs: "cs = es @ fs" and ae: "list_all2 ob_evolves as es"
    by (auto simp: list_all2_append1)
  have "list_all2 ob_evolves xs es"
    using list_all2_trans [OF _ xa ae] ob_evolves_trans by blast
  then show ?thesis using zs cs by (auto simp: rows_evolve_def)
qed

lemma list_all2_partner: "list_all2 r xs ys \<Longrightarrow> x \<in> set xs \<Longrightarrow> \<exists>y \<in> set ys. r x y"
  by (induction rule: list_all2_induct) auto

lemma rows_evolve_same:
  assumes "rows_evolve xs ys" and "x \<in> set xs" obtains y where "y \<in> set ys" and "ob_evolves x y"
proof -
  obtain zs ws where "ys = zs @ ws" "list_all2 ob_evolves xs zs"
    using assms(1) by (auto simp: rows_evolve_def)
  with list_all2_partner [OF _ assms(2)] that show thesis by fastforce
qed

lemma evolves_refl [simp]: "evolves d d"
  by (simp add: evolves_def)

lemma evolves_trans: "evolves a b \<Longrightarrow> evolves b c \<Longrightarrow> evolves a c"
  by (auto simp: evolves_def intro: rows_evolve_trans)

lemma ledger_view_ok: "ledger_view d' = ledger_view d \<Longrightarrow> ledger_ok d' = ledger_ok d"
  by (simp add: ledger_view_def ledger_ok_def)

lemma ledger_view_evolves: "ledger_view d' = ledger_view d \<Longrightarrow> evolves d d' \<and> resolves_nothing d d'"
  by (simp add: ledger_view_def evolves_def resolves_nothing_def)

lemma frozen_once_settled:
  assumes "rows_evolve xs ys" and "x \<in> set xs" and "\<not> ob_unsettled (ob_state x)"
  shows "x \<in> set ys"
proof -
  obtain y where "y \<in> set ys" "ob_evolves x y" using rows_evolve_same [OF assms(1,2)] .
  then show ?thesis using assms(3) by (simp add: ob_evolves_def)
qed

lemma resolves_nothing_trans:
  assumes "resolves_nothing a b" and "resolves_nothing b c" shows "resolves_nothing a c"
  using assms unfolding resolves_nothing_def by blast

interpretation ledger: store_contract ledger_view keeps_ledger
proof
  show "ledger_view d' = ledger_view d \<Longrightarrow> keeps_ledger d d'" for d d'
    unfolding keeps_ledger_def using ledger_view_ok ledger_view_evolves by blast
  show "keeps_ledger a b \<Longrightarrow> keeps_ledger b c \<Longrightarrow> keeps_ledger a c" for a b c
    unfolding keeps_ledger_def using evolves_trans by blast
qed

interpretation quiet: store_contract ledger_view keeps_ledger_quietly
proof
  show "ledger_view d' = ledger_view d \<Longrightarrow> keeps_ledger_quietly d d'" for d d'
    unfolding keeps_ledger_quietly_def using ledger_view_ok ledger_view_evolves by blast
  show "keeps_ledger_quietly a b \<Longrightarrow> keeps_ledger_quietly b c \<Longrightarrow> keeps_ledger_quietly a c" for a b c
    unfolding keeps_ledger_quietly_def using evolves_trans resolves_nothing_trans by blast
qed

lemma quietly_keeps: "keeps_ledger_quietly d d' \<Longrightarrow> keeps_ledger d d'"
  by (simp add: keeps_ledger_quietly_def keeps_ledger_def)

section \<open>Primitive statements\<close>

lemma row_recorded_mono: "row_recorded ms x \<Longrightarrow> row_recorded (ms @ ns) x"
  by (auto simp: row_recorded_def ask_recorded_def resolution_recorded_def split: option.splits)

lemma reply_recorded_evolve:
  assumes "rows_evolve xs ys" and "reply_recorded xs m" shows "reply_recorded ys m"
proof (cases "ms_reply_to m")
  case None
  with assms(2) show ?thesis by (simp add: reply_recorded_def)
next
  case (Some ask)
  then obtain x where x: "x \<in> set xs" "ob_ask x = ask" "ms_sender m = Some (ob_owing x)"
      "ms_recipient m = ob_waiting x" "ms_kind m = Reply"
    using assms(2) by (auto simp: reply_recorded_def)
  obtain y where "y \<in> set ys" "ob_evolves x y" using rows_evolve_same [OF assms(1) x(1)] .
  then show ?thesis using Some x by (auto simp: reply_recorded_def ob_evolves_def same_obligation_def)
qed

lemma insert_message_Inr:
  "insert_message s r k b now rt ds c d = Inr (m, d') \<longleftrightarrow>
     (k = Reply) = (rt \<noteq> None) \<and> (k = Reply) = (ds \<noteq> None)
     \<and> references_opt (agent_exists d) s \<and> agent_exists d r \<and> references_opt (message_exists d) rt
     \<and> m = Suc (seq_messages d)
     \<and> d' = d\<lparr>messages := messages d @ [\<lparr>ms_id = m, ms_sender = s, ms_recipient = r, ms_kind = k,
           ms_body = b, ms_created_at_ms = now, ms_reply_to = rt, ms_disposition = ds,
           ms_creates_obligation = c\<rparr>], seq_messages := m\<rparr>"
  by (auto simp: insert_message_def Let_def result_simps)

lemma insert_message_quiet:
  assumes ins: "insert_message s r k b now rt ds c d = Inr (m, d')"
    and reply: "\<And>ask. rt = Some ask \<Longrightarrow>
      \<exists>x \<in> set (obligations d). ob_ask x = ask \<and> s = Some (ob_owing x) \<and> r = ob_waiting x"
  shows "keeps_ledger_quietly d d'"
proof -
  have d': "messages d' = messages d @ [\<lparr>ms_id = m, ms_sender = s, ms_recipient = r, ms_kind = k,
           ms_body = b, ms_created_at_ms = now, ms_reply_to = rt, ms_disposition = ds,
           ms_creates_obligation = c\<rparr>]" "obligations d' = obligations d" "seq_messages d' = m"
    "m = Suc (seq_messages d)" "(k = Reply) = (rt \<noteq> None)"
    using ins by (auto simp: insert_message_Inr)
  show ?thesis
    using reply
    by (auto simp: keeps_ledger_quietly_def ledger_ok_def evolves_def resolves_nothing_def d'
        row_recorded_mono reply_recorded_def dest: le_SucI split: option.splits)
qed

definition ask_message :: "message_id \<Rightarrow> logical_agent_id \<Rightarrow> logical_agent_id \<Rightarrow> message_row \<Rightarrow> bool" where
  "ask_message m owing waiting r \<longleftrightarrow> ms_id r = m \<and> ms_kind r = Ask \<and> ms_recipient r = owing
     \<and> (ms_sender r = None \<or> ms_sender r = Some waiting)"

lemma insert_obligation_Inr:
  "insert_obligation m ow wa now rd d = Inr d' \<longleftrightarrow>
     (\<forall>x \<in> set (obligations d). ob_ask x \<noteq> m) \<and> message_exists d m \<and> agent_exists d ow \<and> agent_exists d wa
     \<and> d' = d\<lparr>obligations := obligations d @ [\<lparr>ob_ask = m, ob_owing = ow, ob_waiting = wa,
                 ob_sequence = next_obligation_sequence d, ob_created_at_ms = now,
                 ob_last_activity_ms = now, ob_state = ObOpen, ob_resolving = None,
                 ob_cancel_requester = None, ob_cancel_reason = None, ob_cancel_response = None,
                 ob_cancel_owing = None, ob_reply_delivery = rd, ob_unavailable_since_ms = None\<rparr>]\<rparr>"
  by (auto simp: insert_obligation_def Let_def result_simps table_simps)

lemma insert_obligation_quiet:
  assumes ins: "insert_obligation m ow wa now rd d = Inr d'"
    and ask: "\<exists>r \<in> set (messages d). ask_message m ow wa r"
  shows "keeps_ledger_quietly d d'"
proof -
  have d': "messages d' = messages d" "seq_messages d' = seq_messages d"
    and fresh: "\<forall>x \<in> set (obligations d). ob_ask x \<noteq> m"
    using ins by (auto simp: insert_obligation_Inr)
  obtain row where obs: "obligations d' = obligations d @ [row]" "ob_ask row = m" "ob_owing row = ow"
      "ob_waiting row = wa" "ob_state row = ObOpen" "ob_resolving row = None"
    using ins by (auto simp: insert_obligation_Inr)
  have row: "row_recorded (messages d) row"
    using ask by (auto simp: row_recorded_def ask_recorded_def resolution_recorded_def obs ask_message_def)
  have "reply_recorded (obligations d') m'" if "reply_recorded (obligations d) m'" for m'
    using that reply_recorded_evolve [of "obligations d" "obligations d'"] obs(1) by simp
  then show ?thesis
    using fresh row
    by (auto simp: keeps_ledger_quietly_def ledger_ok_def evolves_def resolves_nothing_def d' obs)
qed

text \<open>An update of rows that evolve, stay recorded and resolve nothing.\<close>

lemma list_all2_update_rows:
  "(\<And>x. x \<in> set xs \<Longrightarrow> p x \<Longrightarrow> r x (f x)) \<Longrightarrow> (\<And>x. r x x) \<Longrightarrow> list_all2 r xs (update_rows p f xs)"
  by (induction xs) (auto simp: update_rows_def)

lemma rows_evolve_update:
  "(\<And>x. x \<in> set xs \<Longrightarrow> p x \<Longrightarrow> ob_evolves x (f x)) \<Longrightarrow> rows_evolve xs (update_rows p f xs)"
  unfolding rows_evolve_def
  by (rule exI [of _ "update_rows p f xs"], rule exI [of _ "[]"])
    (auto intro: list_all2_update_rows)

lemma upd_obligations_keeps:
  assumes ev: "\<And>x. x \<in> set (obligations d) \<Longrightarrow> p x \<Longrightarrow> ob_evolves x (f x)"
    and rec: "\<And>x. x \<in> set (obligations d) \<Longrightarrow> p x \<Longrightarrow> row_recorded (messages d) x
                \<Longrightarrow> row_recorded (messages d) (f x)"
  shows "keeps_ledger d (upd_obligations p f d)"
proof -
  let ?obs = "update_rows p f (obligations d)"
  have rows: "rows_evolve (obligations d) ?obs" by (rule rows_evolve_update) (rule ev)
  have "ob_ask (f x) = ob_ask x" if "x \<in> set (obligations d)" "p x" for x
    using ev [OF that] by (simp add: ob_evolves_def same_obligation_def)
  then have "map ob_ask ?obs = map ob_ask (obligations d)" by (simp add: update_rows_def)
  moreover have "\<forall>y \<in> set ?obs. row_recorded (messages d) y"
    if "\<forall>x \<in> set (obligations d). row_recorded (messages d) x"
    using that rec by (auto simp: set_update_rows)
  ultimately show ?thesis
    using rows reply_recorded_evolve [OF rows]
    by (auto simp: keeps_ledger_def ledger_ok_def evolves_def)
qed

definition quiet_update :: "obligation_row \<Rightarrow> obligation_row \<Rightarrow> bool" where
  "quiet_update x y \<longleftrightarrow> same_obligation x y \<and> (ob_state y = ObOpen \<longrightarrow> ob_state x = ObOpen)
     \<and> ob_state y \<noteq> ObResolved \<and> ob_resolving y = ob_resolving x"

lemma quiet_update_evolves: "quiet_update x y \<Longrightarrow> ob_unsettled (ob_state x) \<Longrightarrow> ob_evolves x y"
  by (simp add: quiet_update_def ob_evolves_def)

lemma unsettled_unresolved:
  "resolution_recorded ms x \<Longrightarrow> ob_unsettled (ob_state x) \<Longrightarrow> ob_resolving x = None"
  by (cases "ob_resolving x") (auto simp: resolution_recorded_def ob_unsettled_def)

lemma quiet_update_recorded:
  assumes "quiet_update x y" and "row_recorded ms x" and "ob_unsettled (ob_state x)"
  shows "row_recorded ms y"
proof -
  have "ob_resolving y = None"
    using unsettled_unresolved [of ms x] assms by (simp add: quiet_update_def row_recorded_def)
  then show ?thesis
    using assms(1,2)
    by (simp add: quiet_update_def row_recorded_def resolution_recorded_def ask_recorded_def same_obligation_def)
qed

lemma upd_obligations_quiet:
  assumes ev: "\<And>x. x \<in> set (obligations d) \<Longrightarrow> p x \<Longrightarrow> ob_unsettled (ob_state x) \<and> quiet_update x (f x)"
  shows "keeps_ledger_quietly d (upd_obligations p f d)"
proof -
  have "keeps_ledger d (upd_obligations p f d)"
    using ev quiet_update_evolves quiet_update_recorded by (intro upd_obligations_keeps) blast+
  moreover have "resolves_nothing d (upd_obligations p f d)"
    using ev by (auto simp: resolves_nothing_def set_update_rows quiet_update_def)
  ultimately show ?thesis by (simp add: keeps_ledger_def keeps_ledger_quietly_def)
qed

end
