(* ===== verification/Contracts.thy ===== *)
theory Contracts
  imports Ledger
begin

text \<open>
  Every operation of the store keeps the ledger; all but the three acknowledgements keep it
  without resolving an obligation. Operations that write neither messages nor obligations keep it by
  their frame.
\<close>

named_theorems insert_simps "what a successful insertion returns"
named_theorems frames "the operations that leave the ledger as it is"

lemma insert_operation_Inr [insert_simps]:
  "insert_operation key kind target intent now d = Inr (i, d') \<longleftrightarrow>
     (\<forall>r \<in> set (operations d). \<not> (op_key r = key \<and> live_key r)) \<and> incarnation_exists d target
     \<and> i = Suc (seq_operations d)
     \<and> d' = d\<lparr>operations := operations d @ [\<lparr>op_id = i, op_key = key, op_kind = kind, op_target = target,
          op_intent = intent, op_created_at_ms = now, op_resolved_at_ms = None, op_outcome = OpPending\<rparr>],
          seq_operations := i\<rparr>"
  by (auto simp: insert_operation_def Let_def result_simps table_simps)

lemma insert_delivery_Inr [insert_simps]:
  "insert_delivery row d = Inr d' \<longleftrightarrow>
     delivery_check row \<and> (\<forall>r \<in> set (deliveries d). \<not> same_attempt row r) \<and> message_exists d (dl_message row)
     \<and> references_opt (incarnation_exists d) (dl_incarnation row)
     \<and> references_opt (agent_exists d) (dl_agent row)
     \<and> references_opt (operation_exists d) (dl_operation row)
     \<and> d' = d\<lparr>deliveries := deliveries d @ [row]\<rparr>"
  by (auto simp: insert_delivery_def result_simps table_simps)

lemma insert_reminder_frame [frames]:
  "insert_reminder ask v d = Inr d' \<Longrightarrow> ledger_view d' = ledger_view d"
  by (auto simp: insert_reminder_def Let_def result_simps ledger_view_def)

lemma insert_operation_frame [frames]:
  "insert_operation key kind target intent now d = Inr (i, d') \<Longrightarrow> ledger_view d' = ledger_view d"
  by (auto simp: insert_simps ledger_view_def)

lemma insert_delivery_frame [frames]:
  "insert_delivery row d = Inr d' \<Longrightarrow> ledger_view d' = ledger_view d"
  by (auto simp: insert_simps ledger_view_def)

lemma insert_logical_agent_frame [frames]:
  "insert_logical_agent name par t now d = Inr (a, d') \<Longrightarrow> ledger_view d' = ledger_view d"
  by (auto simp: insert_logical_agent_def Let_def result_simps ledger_view_def)

lemma insert_incarnation_frame [frames]:
  "insert_incarnation row d = Inr (i, d') \<Longrightarrow> ledger_view d' = ledger_view d"
  by (auto simp: insert_incarnation_def Let_def result_simps ledger_view_def)

lemma insert_notice_frame [simp]: "ledger_view (snd (insert_notice body now d)) = ledger_view d"
  by (simp add: insert_notice_def Let_def ledger_view_def)

lemma ledger_view_update [simp]:
  "ledger_view (upd_agents pa fa d) = ledger_view d"
  "ledger_view (upd_incarnations pi fi d) = ledger_view d"
  "ledger_view (upd_operations po fo d) = ledger_view d"
  "ledger_view (upd_attempts pt ft d) = ledger_view d"
  "ledger_view (upd_deliveries pd fd d) = ledger_view d"
  "ledger_view (upd_reminders pr fr d) = ledger_view d"
  "ledger_view (upd_reminder_attempts pq fq d) = ledger_view d"
  "ledger_view (upd_schedules ps fs d) = ledger_view d"
  "ledger_view (upd_renews pn fn d) = ledger_view d"
  "ledger_view (upd_renew_attempts pm fm d) = ledger_view d"
  by (simp_all add: ledger_view_def)

section \<open>The journal of operations\<close>

lemma begin_attempt_frame [frames]:
  "begin_attempt now oid inc rq d = Inr (n, d') \<Longrightarrow> ledger_view d' = ledger_view d"
  by (auto simp: begin_attempt_def Let_def result_simps ledger_view_def)

lemma accept_start_submission_frame [frames]:
  "accept_start_submission oid inc pane t d = Inr d' \<Longrightarrow> ledger_view d' = ledger_view d"
  by (auto simp: accept_start_submission_def Let_def result_simps)

lemma demote_predecessor_frame [frames]:
  "demote_predecessor now prev inc d = Inr d' \<Longrightarrow> ledger_view d' = ledger_view d"
  by (auto simp: demote_predecessor_def Let_def result_simps split: option.splits)

lemma accept_start_ready_frame [frames]:
  "accept_start_ready now oid inc agent prev d = Inr d' \<Longrightarrow> ledger_view d' = ledger_view d"
  by (auto simp: accept_start_ready_def Let_def result_simps dest!: demote_predecessor_frame)

lemma mark_unknown_with_clear_spacing_frame [frames]:
  "mark_unknown_with_clear_spacing now oid inc ev delay d = Inr d' \<Longrightarrow> ledger_view d' = ledger_view d"
  by (auto simp: mark_unknown_with_clear_spacing_def Let_def result_simps split: option.splits)

lemma mark_unknown_frame [frames]:
  "mark_unknown now oid inc ev d = Inr d' \<Longrightarrow> ledger_view d' = ledger_view d"
  by (simp add: mark_unknown_def mark_unknown_with_clear_spacing_frame)

lemma mark_clear_unknown_frame [frames]:
  "mark_clear_unknown now oid inc ev delay d = Inr d' \<Longrightarrow> ledger_view d' = ledger_view d"
  by (auto simp: mark_clear_unknown_def result_simps dest: mark_unknown_with_clear_spacing_frame)

lemma reject_attempt_frame [frames]:
  "reject_attempt now oid inc ev d = Inr d' \<Longrightarrow> ledger_view d' = ledger_view d"
  by (auto simp: reject_attempt_def Let_def result_simps)

lemma mark_rejected_frame [frames]:
  "mark_rejected now oid inc ev out d = Inr d' \<Longrightarrow> ledger_view d' = ledger_view d"
  by (auto simp: mark_rejected_def Let_def result_simps)

lemma mark_submitted_frame [frames]:
  "mark_submitted now oid n rq d = Inr d' \<Longrightarrow> ledger_view d' = ledger_view d"
  by (auto simp: mark_submitted_def result_simps)

lemma submit_queued_delivery_frame [frames]:
  "submit_queued_delivery oid n rq now d = Inr d' \<Longrightarrow> ledger_view d' = ledger_view d"
  by (auto simp: submit_queued_delivery_def Let_def result_simps)

section \<open>Acknowledgements\<close>

text \<open>
  The three paths that settle an obligation: the acknowledged message is a final reply in the
  ledger, and only the obligation it answers becomes resolved, by it.
\<close>

definition resolved_by :: "message_row \<Rightarrow> db \<Rightarrow> db \<Rightarrow> bool" where
  "resolved_by m d d' \<longleftrightarrow> m \<in> set (messages d) \<and> is_final_reply m
     \<and> (\<forall>y \<in> set (obligations d'). ob_state y = ObResolved \<and> y \<notin> set (obligations d) \<longrightarrow>
          ms_reply_to m = Some (ob_ask y) \<and> ob_resolving y = Some (ms_id m))"

lemma resolve_obligation_keeps:
  assumes m: "m \<in> set (messages d)" "is_final_reply m"
  shows "keeps_ledger d (resolve_obligation now m d)"
proof -
  have "keeps_ledger d (resolve_obligation now m d)" if ok: "ledger_ok d"
  proof -
    have sender: "ms_sender m = Some (ob_owing x)"
      if x: "x \<in> set (obligations d)" "resolvable (ms_reply_to m) x" for x
    proof -
      have "reply_recorded (obligations d) m" using ok m by (simp add: ledger_ok_def)
      then obtain y where y: "y \<in> set (obligations d)" "ob_ask y = ob_ask x" "ms_sender m = Some (ob_owing y)"
        using x by (auto simp: reply_recorded_def resolvable_def split: option.splits)
      then have "y = x" using ok x(1) distinct_key_eq [of ob_ask] by (auto simp: ledger_ok_def)
      with y show ?thesis by simp
    qed
    show ?thesis
      unfolding resolve_obligation_def
    proof (rule upd_obligations_keeps)
      fix x assume x: "x \<in> set (obligations d)" "resolvable (ms_reply_to m) x"
      let ?y = "x\<lparr>ob_state := ObResolved, ob_last_activity_ms := now, ob_resolving := Some (ms_id m)\<rparr>"
      show "ob_evolves x ?y"
        using x(2) by (simp add: ob_evolves_def same_obligation_def resolvable_def)
      assume "row_recorded (messages d) x"
      then show "row_recorded (messages d) ?y"
        using x sender [OF x] m
        by (auto simp: row_recorded_def ask_recorded_def resolution_recorded_def resolvable_def)
    qed
  qed
  then show ?thesis by (auto simp: keeps_ledger_def)
qed

lemma resolve_obligation_by:
  "m \<in> set (messages d) \<Longrightarrow> is_final_reply m \<Longrightarrow> resolved_by m d (resolve_obligation now m d)"
  by (auto simp: resolved_by_def resolve_obligation_def set_update_rows resolvable_def)

lemma resolved_by_frame: "resolved_by m d1 d2 \<Longrightarrow> ledger_view d1 = ledger_view d \<Longrightarrow> resolved_by m d d2"
  by (auto simp: resolved_by_def ledger_view_def)

lemma resolve_after_frame:
  assumes "ledger_view d1 = ledger_view d" and "m \<in> set (messages d)" and "is_final_reply m"
  shows "keeps_ledger d (resolve_obligation now m d1)" and "resolved_by m d (resolve_obligation now m d1)"
proof -
  have m: "m \<in> set (messages d1)" using assms(1,2) by (simp add: ledger_view_def)
  show "keeps_ledger d (resolve_obligation now m d1)"
    by (rule ledger.frame_then_rel [OF assms(1) resolve_obligation_keeps [OF m assms(3)]])
  show "resolved_by m d (resolve_obligation now m d1)"
    by (rule resolved_by_frame [OF resolve_obligation_by [OF m assms(3)] assms(1)])
qed

text \<open>The contract of an acknowledgement: quiet, or one final reply of the ledger resolves its ask.\<close>

definition acknowledges :: "db \<Rightarrow> db \<Rightarrow> bool" where
  "acknowledges d d' \<longleftrightarrow> keeps_ledger_quietly d d' \<or> keeps_ledger d d' \<and> (\<exists>m. resolved_by m d d')"

lemma acknowledges_keeps: "acknowledges d d' \<Longrightarrow> keeps_ledger d d'"
  by (auto simp: acknowledges_def dest: quietly_keeps)

lemma acknowledges_frame: "ledger_view d' = ledger_view d \<Longrightarrow> acknowledges d d'"
  by (simp add: acknowledges_def quiet.rel_frame)

lemma acknowledges_resolve:
  "ledger_view d1 = ledger_view d \<Longrightarrow> m \<in> set (messages d) \<Longrightarrow> is_final_reply m
   \<Longrightarrow> acknowledges d (resolve_obligation now m d1)"
  unfolding acknowledges_def using resolve_after_frame by blast

lemma operation_message_Some:
  "operation_message d oid p = Some m \<Longrightarrow> m \<in> set (messages d) \<and> p m"
  by (auto simp: operation_message_def dest: find_row_Some)

lemma accept_delivery_acknowledges:
  assumes "accept_delivery_with_submission now oid inc pane t sub d = Inr d'"
  shows "acknowledges d d'"
proof (cases "operation_message d oid is_final_reply")
  case None
  with assms show ?thesis
    by (auto simp: accept_delivery_with_submission_def Let_def result_simps intro!: acknowledges_frame)
next
  case (Some m)
  with assms operation_message_Some [OF Some] show ?thesis
    by (auto simp: accept_delivery_with_submission_def Let_def result_simps intro!: acknowledges_resolve)
qed

lemma resolve_socket_inbox_acknowledges:
  assumes v: "ledger_view d1 = ledger_view d"
  shows "acknowledges d (resolve_socket_inbox_final_reply now m d1)"
proof (cases "find_row (\<lambda>r. ms_id r = m \<and> is_final_reply r) (messages d1)")
  case None
  with v show ?thesis by (simp add: resolve_socket_inbox_final_reply_def acknowledges_frame)
next
  case (Some r)
  with v have "r \<in> set (messages d)" "is_final_reply r"
    by (auto simp: ledger_view_def dest: find_row_Some)
  with Some acknowledges_resolve [OF v] show ?thesis
    by (simp add: resolve_socket_inbox_final_reply_def)
qed

lemma ack_socket_inbox_acknowledges:
  assumes "ack_socket_inbox_delivery now a m d = Inr (out, d')" shows "acknowledges d d'"
proof -
  consider "d' = d" | p f where "d' = resolve_socket_inbox_final_reply now m (upd_deliveries p f d)"
    using assms by (auto simp: ack_socket_inbox_delivery_def result_simps split: option.splits if_splits)
  then show ?thesis
    by cases (simp_all add: acknowledges_frame resolve_socket_inbox_acknowledges)
qed

lemma resolve_ask_pull_acknowledges:
  assumes v: "ledger_view d1 = ledger_view d"
  shows "acknowledges d (resolve_ask_pull_final_reply now ask m d1)"
proof (cases "find_row (\<lambda>r. ms_id r = m \<and> is_final_reply r \<and> ms_reply_to r = Some ask) (messages d1)")
  case None
  with v show ?thesis by (simp add: resolve_ask_pull_final_reply_def acknowledges_frame)
next
  case (Some r)
  with v have "r \<in> set (messages d)" "is_final_reply r"
    by (auto simp: ledger_view_def dest: find_row_Some)
  with Some acknowledges_resolve [OF v] show ?thesis
    by (simp add: resolve_ask_pull_final_reply_def)
qed

lemma ack_ask_pull_acknowledges:
  assumes "ack_ask_pull_delivery now ask requester m lease d = Inr (out, d')" shows "acknowledges d d'"
proof -
  obtain d1 where "d' = resolve_ask_pull_final_reply now ask m d1" "ledger_view d1 = ledger_view d"
    using assms by (auto simp: ack_ask_pull_delivery_def result_simps split: option.splits if_splits)
  then show ?thesis by (simp add: resolve_ask_pull_acknowledges)
qed

section \<open>Waiters, leases and keys\<close>

lemma register_socket_waiter_frame [frames]:
  "register_socket_waiter now name par key d = Inr (a, d') \<Longrightarrow> ledger_view d' = ledger_view d"
  by (auto simp: register_socket_waiter_def result_simps ledger_view_def insert_logical_agent_def Let_def
      split: option.splits)

lemma record_socket_inbox_delivery_frame [frames]:
  "record_socket_inbox_delivery now m a out d = Inr d' \<Longrightarrow> ledger_view d' = ledger_view d"
  by (auto simp: record_socket_inbox_delivery_def result_simps dest: insert_delivery_frame)

lemma claim_ask_pull_lease_frame [frames]:
  "claim_ask_pull_lease now ask requester d = Inr (l, d') \<Longrightarrow> ledger_view d' = ledger_view d"
  by (auto simp: claim_ask_pull_lease_def Let_def result_simps ledger_view_def)

lemma queue_frames [frames]:
  "queue_ask_pull_delivery m a now d = Inr d' \<Longrightarrow> ledger_view d' = ledger_view d"
  "queue_socket_inbox_delivery m a now d = Inr d' \<Longrightarrow> ledger_view d' = ledger_view d"
  "queue_socket_inbox_delivery_at m a now d = Inr d' \<Longrightarrow> ledger_view d' = ledger_view d"
  by (auto simp: queue_ask_pull_delivery_def queue_socket_inbox_delivery_def
      queue_socket_inbox_delivery_at_def dest: insert_delivery_frame)

lemma insert_cancellation_prompt_frame [frames]:
  "insert_cancellation_prompt m ask reason inc au due now d = Inr (i, d') \<Longrightarrow> ledger_view d' = ledger_view d"
  by (auto simp: insert_cancellation_prompt_def result_simps insert_simps ledger_view_def)

section \<open>Messages\<close>

text \<open>A message that answers nothing is always quiet; so is an ask with its obligation.\<close>

lemma insert_plain_message_quiet:
  "insert_message s r k b now None ds c d = Inr (m, d') \<Longrightarrow> keeps_ledger_quietly d d'"
  by (erule insert_message_quiet) simp

lemma insert_ask_quiet:
  assumes m: "insert_message s r Ask b now None None True d = Inr (m, d1)"
    and o': "insert_obligation m r w now rd d1 = Inr d2"
    and s: "s = None \<or> s = Some w"
  shows "keeps_ledger_quietly d d2"
proof -
  have "\<exists>row \<in> set (messages d1). ask_message m r w row"
    using m s by (auto simp: insert_message_Inr ask_message_def)
  then have "keeps_ledger_quietly d1 d2" by (rule insert_obligation_quiet [OF o'])
  with insert_plain_message_quiet [OF m] show ?thesis by (rule quiet.rel_trans)
qed

lemma create_initial_message_quiet:
  assumes "create_initial_message now r inc n key d = Inr (m, oid, d')"
  shows "keeps_ledger_quietly d d'"
proof -
  obtain d1 d2 d3 where m: "insert_message (im_sender n) r
        (case im_kind n of InitialTell \<Rightarrow> Tell | InitialAsk \<Rightarrow> Ask) (im_body n) now None None
        (im_kind n = InitialAsk) d = Inr (m, d1)"
    and o': "(case (im_kind n, im_sender n) of
              (InitialAsk, Some s) \<Rightarrow>
                rbind (insert_obligation m r s now (im_reply_delivery n) d1)
                  (insert_reminder m DEFAULT_REMINDER_INTERVAL_MS)
            | _ \<Rightarrow> Inr d1) = Inr d2"
    and op: "insert_operation key KPrompt inc (IntentMessage m None None) now d2 = Inr (oid, d3)"
    and dl: "insert_delivery (herdr_delivery m inc now DPending oid) d3 = Inr d'"
    using assms by (auto simp: create_initial_message_def result_simps)
  have "keeps_ledger_quietly d d2"
  proof (cases "im_kind n = InitialAsk \<and> im_sender n \<noteq> None")
    case True
    then obtain s d4 where s: "im_sender n = Some s" "im_kind n = InitialAsk"
      and d4: "insert_obligation m r s now (im_reply_delivery n) d1 = Inr d4"
        "insert_reminder m DEFAULT_REMINDER_INTERVAL_MS d4 = Inr d2"
      using o' by (auto simp: result_simps)
    with insert_ask_quiet [of "im_sender n" r "im_body n" now d m d1 s] m
    show ?thesis by (auto intro: quiet.rel_then_frame insert_reminder_frame)
  next
    case False
    then have "d2 = d1" using o' by (auto split: initial_message_kind.splits option.splits)
    with insert_plain_message_quiet [OF m] show ?thesis by simp
  qed
  with op dl show ?thesis
    by (meson quiet.rel_then_frame insert_operation_frame insert_delivery_frame)
qed

lemma create_ask_quiet:
  assumes "create_ask_with_reply_delivery now s r inc b key due rem op rd d = Inr (m, oid, d')"
  shows "keeps_ledger_quietly d d'"
proof -
  consider "d' = d"
  | d1 d2 d3 d4 out sch where
      "insert_message (if op then None else Some s) r Ask b now None None True d = Inr (m, d1)"
      "insert_obligation m r s now rd d1 = Inr d2"
      "(case rem of None \<Rightarrow> Inr d2 | Some v \<Rightarrow> insert_reminder m v d2) = Inr d3"
      "insert_operation key KPrompt inc (IntentMessage m (Some inc) due) now d3 = Inr (oid, d4)"
      "insert_delivery (herdr_delivery m inc sch out oid) d4 = Inr d'"
    using assms by (auto simp: create_ask_with_reply_delivery_def result_simps Let_def split: option.splits)
  then show ?thesis
  proof cases
    case 1 then show ?thesis by (simp add: quiet.rel_refl)
  next
    case 2
    have "keeps_ledger_quietly d d2" by (rule insert_ask_quiet [OF 2(1,2)]) simp
    moreover have "ledger_view d3 = ledger_view d2"
      using 2(3) by (auto dest: insert_reminder_frame split: option.splits)
    ultimately show ?thesis
      using 2(4,5) by (metis quiet.rel_then_frame insert_operation_frame insert_delivery_frame)
  qed
qed

lemma create_tell_quiet:
  assumes "create_tell_with_due now s r inc b key due d = Inr (m, oid, d')"
  shows "keeps_ledger_quietly d d'"
proof -
  consider "d' = d"
  | d1 d2 out sch where
      "insert_message (Some s) r Tell b now None None False d = Inr (m, d1)"
      "insert_operation key KPrompt inc (IntentMessage m None due) now d1 = Inr (oid, d2)"
      "insert_delivery (herdr_delivery m inc sch out oid) d2 = Inr d'"
    using assms by (auto simp: create_tell_with_due_def result_simps split: option.splits)
  then show ?thesis
    by cases (auto simp: quiet.rel_refl dest!: insert_plain_message_quiet insert_operation_frame
        insert_delivery_frame intro: quiet.rel_then_frame)
qed

lemma create_socket_tell_quiet:
  assumes "create_socket_tell now s r b key due d = Inr (m, d')"
  shows "keeps_ledger_quietly d d'"
proof -
  consider "d' = d"
  | d1 d2 ks sch where
      "insert_message (Some s) r Tell b now None None False d = Inr (m, d1)"
      "queue_socket_inbox_delivery_at m r sch d1 = Inr d2" "d' = d2\<lparr>inbox_keys := ks\<rparr>"
    using assms by (auto simp: create_socket_tell_def result_simps split: option.splits)
  then show ?thesis
  proof cases
    case 1 then show ?thesis by (simp add: quiet.rel_refl)
  next
    case 2
    then have "ledger_view d' = ledger_view d1" by (auto simp: ledger_view_def dest: queue_frames(3))
    with insert_plain_message_quiet [OF 2(1)] show ?thesis by (rule quiet.rel_then_frame)
  qed
qed

section \<open>Replies\<close>

lemma find_obligation_Some: "find_obligation d ask = Some x \<Longrightarrow> x \<in> set (obligations d) \<and> ob_ask x = ask"
  by (auto simp: find_obligation_def dest: find_row_Some)

lemma ledger_ok_unique:
  "ledger_ok d \<Longrightarrow> x \<in> set (obligations d) \<Longrightarrow> y \<in> set (obligations d) \<Longrightarrow> ob_ask x = ob_ask y \<Longrightarrow> x = y"
  by (auto simp: ledger_ok_def intro: distinct_key_eq)

lemma find_obligation_iff:
  "ledger_ok d \<Longrightarrow> find_obligation d ask = Some x \<longleftrightarrow> x \<in> set (obligations d) \<and> ob_ask x = ask"
  unfolding find_obligation_def
  using find_row_unique [of ob_ask "obligations d" x "\<lambda>r. ob_ask r = ask"]
  by (auto simp: ledger_ok_def dest: find_row_Some)

lemma quiet_when_ok: "(ledger_ok d \<Longrightarrow> keeps_ledger_quietly d d') \<Longrightarrow> keeps_ledger_quietly d d'"
  by (simp add: keeps_ledger_quietly_def)

lemma refresh_reminder_activity_view [simp]:
  "ledger_view (refresh_reminder_activity ask now d) = ledger_view d"
  by (simp add: refresh_reminder_activity_def)

lemma apply_reply_obligation_activity_quiet:
  assumes "\<And>x. x \<in> set (obligations d) \<Longrightarrow> ob_ask x = ask \<Longrightarrow> ob_unsettled (ob_state x)"
  shows "keeps_ledger_quietly d (apply_reply_obligation_activity ask disposition now d)"
proof -
  have "keeps_ledger_quietly d (case disposition of
          Progress \<Rightarrow> upd_obligations (\<lambda>x. ob_ask x = ask)
            (\<lambda>x. x\<lparr>ob_state := ObInProgress, ob_last_activity_ms := now\<rparr>) d
        | Final \<Rightarrow> upd_obligations (\<lambda>x. ob_ask x = ask \<and> ob_unsettled (ob_state x))
            (\<lambda>x. x\<lparr>ob_last_activity_ms := now\<rparr>) d)"
    using assms by (cases disposition)
      (auto intro!: upd_obligations_quiet simp: quiet_update_def same_obligation_def ob_unsettled_def)
  then show ?thesis
    unfolding apply_reply_obligation_activity_def by (rule quiet.rel_then_frame) simp
qed

text \<open>Every route of a recorded reply writes its delivery and key, then the obligation's activity.\<close>

definition routed :: "message_id \<Rightarrow> reply_disposition \<Rightarrow> int \<Rightarrow> db \<Rightarrow> db \<Rightarrow> bool" where
  "routed ask disposition now d d' \<longleftrightarrow> (\<exists>d1. ledger_view d1 = ledger_view d
     \<and> d' = apply_reply_obligation_activity ask disposition now d1)"

lemma routedI:
  "ledger_view d1 = ledger_view d \<Longrightarrow> routed ask disposition now d (apply_reply_obligation_activity ask disposition now d1)"
  by (auto simp: routed_def)

lemma route_pull_reply_routed:
  "route_pull_reply now m ask w disposition key d = Inr (r, d')
   \<Longrightarrow> routed ask disposition now d d' \<and> cr_message r = m"
  by (auto simp: route_pull_reply_def result_simps ledger_view_def dest!: queue_frames(1) intro!: routedI)

lemma route_inbox_reply_routed:
  "route_inbox_reply now m ask w disposition key d = Inr (r, d')
   \<Longrightarrow> routed ask disposition now d d' \<and> cr_message r = m"
  by (auto simp: route_inbox_reply_def result_simps ledger_view_def dest!: queue_frames(2) intro!: routedI)

lemma route_prompt_reply_routed:
  "route_prompt_reply now m ask w disposition key due d = Inr (r, d')
   \<Longrightarrow> routed ask disposition now d d' \<and> cr_message r = m"
  by (auto simp: route_prompt_reply_def result_simps dest!: insert_operation_frame insert_delivery_frame
      intro!: routedI)

lemma routed_quiet:
  assumes r: "routed ask disposition now d d'"
    and un: "\<And>x. x \<in> set (obligations d) \<Longrightarrow> ob_ask x = ask \<Longrightarrow> ob_unsettled (ob_state x)"
  shows "keeps_ledger_quietly d d'"
proof -
  obtain d1 where v: "ledger_view d1 = ledger_view d"
    and d': "d' = apply_reply_obligation_activity ask disposition now d1"
    using r by (auto simp: routed_def)
  have "keeps_ledger_quietly d1 d'"
    unfolding d' by (rule apply_reply_obligation_activity_quiet) (use v un in \<open>auto simp: ledger_view_def\<close>)
  with v show ?thesis by (rule quiet.frame_then_rel)
qed

text \<open>A successful reply replays a recorded one, or records a new one from the owing agent.\<close>

lemma create_reply_cases:
  assumes "create_reply_with_due now ask requester b disposition key due d = Inr (r, d')"
  obtains "d' = d" "reply_replay ask requester key d = Inr (Some r)"
  | x m d1 where "find_obligation d ask = Some x" "ob_unsettled (ob_state x)" "requester = ob_owing x"
      "insert_message (Some (ob_owing x)) (ob_waiting x) Reply b now (Some ask) (Some disposition) False d
         = Inr (m, d1)" "routed ask disposition now d1 d'" "cr_message r = m"
proof -
  obtain replay where replay: "reply_replay ask requester key d = Inr replay"
    and rest: "(case replay of Some r \<Rightarrow> Inr (r, d) | None \<Rightarrow>
       create_reply_with_due now ask requester b disposition key due d) = Inr (r, d')"
    using assms by (cases "reply_replay ask requester key d") (auto simp: create_reply_with_due_def
        split: option.splits)
  show thesis
  proof (cases replay)
    case (Some r')
    with replay rest that(1) show thesis by simp
  next
    case None
    with replay rest obtain x t m d1 where x: "find_obligation d ask = Some x" "ob_unsettled (ob_state x)"
        "requester = ob_owing x"
        "insert_message (Some (ob_owing x)) (ob_waiting x) Reply b now (Some ask) (Some disposition) False d
           = Inr (m, d1)"
      and route: "route_reply now m ask x t disposition key due d1 = Inr (r, d')"
      by (auto simp: create_reply_with_due_def result_simps)
    have "routed ask disposition now d1 d' \<and> cr_message r = m"
      using route by (auto simp: route_reply_def split: if_splits delivery_transport.splits
          dest: route_pull_reply_routed route_inbox_reply_routed route_prompt_reply_routed)
    with x that(2) show thesis by simp
  qed
qed

lemma create_reply_quiet:
  assumes "create_reply_with_due now ask requester b disposition key due d = Inr (r, d')"
  shows "keeps_ledger_quietly d d'"
proof (rule quiet_when_ok)
  assume ok: "ledger_ok d"
  from assms show "keeps_ledger_quietly d d'"
  proof (cases rule: create_reply_cases)
    case 1 then show ?thesis by (simp add: quiet.rel_refl)
  next
    case (2 x m d1)
    have "keeps_ledger_quietly d d1"
      by (rule insert_message_quiet [OF 2(4)]) (use find_obligation_Some [OF 2(1)] in auto)
    moreover have "keeps_ledger_quietly d1 d'"
    proof (rule routed_quiet [OF 2(5)])
      fix y assume "y \<in> set (obligations d1)" "ob_ask y = ask"
      then have "find_obligation d ask = Some y"
        using find_obligation_iff [OF ok] 2(4) by (auto simp: insert_message_Inr)
      with 2(1,2) show "ob_unsettled (ob_state y)" by simp
    qed
    ultimately show ?thesis by (rule quiet.rel_trans)
  qed
qed

section \<open>Cancellation\<close>

lemma record_cancellation_side_quiet:
  assumes "record_cancellation_side r ask reason b au due now e d = Inr (m, dl, d')"
  shows "keeps_ledger_quietly d d'" and "obligations d' = obligations d"
proof -
  obtain d1 where m: "insert_message None r Cancellation b now None None False d = Inr (m, d1)"
    and v: "ledger_view d' = ledger_view d1"
    using assms by (auto simp: record_cancellation_side_def result_simps split: if_splits
        delivery_transport.splits option.splits dest: queue_frames insert_cancellation_prompt_frame)
  show "keeps_ledger_quietly d d'"
    by (rule quiet.rel_then_frame [OF insert_plain_message_quiet [OF m] v])
  show "obligations d' = obligations d"
    using v m by (auto simp: ledger_view_def insert_message_Inr)
qed

lemma waiting_cancel_quiet: "ob_unsettled (ob_state x) \<Longrightarrow> quiet_update x (cancel_row now a reason x)"
  by (auto simp: quiet_update_def same_obligation_def cancel_row_def)

lemma orphan_quiet: "ob_unsettled (ob_state x) \<Longrightarrow> quiet_update x (orphan_row now reason x)"
  by (auto simp: quiet_update_def same_obligation_def orphan_row_def)

lemma cancel_obligation_rows_quiet:
  "keeps_ledger_quietly d (upd_obligations (unsettled_ask ask) (cancel_row now a reason) d)"
  "keeps_ledger_quietly d (upd_obligations (unsettled_ask ask) (orphan_row now reason) d)"
  "keeps_ledger_quietly d (upd_obligations (waiting_unsettled ask w) (cancel_row now a reason) d)"
  by (auto intro!: upd_obligations_quiet waiting_cancel_quiet orphan_quiet
      simp: unsettled_ask_def waiting_unsettled_def)

lemma link_quiet:
  assumes "\<And>x. x \<in> set (obligations d) \<Longrightarrow> ob_ask x = ask \<Longrightarrow> ob_unsettled (ob_state x)"
  shows "keeps_ledger_quietly d (upd_obligations (\<lambda>y. ob_ask y = ask)
           (\<lambda>y. y\<lparr>ob_cancel_response := Some m, ob_cancel_owing := Some om\<rparr>) d)"
proof (rule upd_obligations_quiet)
  fix x assume "x \<in> set (obligations d)" "ob_ask x = ask"
  then have "ob_unsettled (ob_state x)" by (rule assms)
  then show "ob_unsettled (ob_state x)
      \<and> quiet_update x (x\<lparr>ob_cancel_response := Some m, ob_cancel_owing := Some om\<rparr>)"
    by (auto simp: quiet_update_def same_obligation_def ob_unsettled_def)
qed

lemma unsettled_unique:
  assumes "ledger_ok d" and "x \<in> set (obligations d)" and "ob_unsettled (ob_state x)"
    and "obligations d' = obligations d" and "y \<in> set (obligations d')" and "ob_ask y = ob_ask x"
  shows "ob_unsettled (ob_state y)"
  using assms ledger_ok_unique [of d x y] by auto

lemma record_both_sides_quiet:
  assumes r: "record_both_sides now x reason b ob due odue d = Inr (c, d')"
    and x: "x \<in> set (obligations d)" "ob_unsettled (ob_state x)"
  shows "keeps_ledger_quietly d d'"
proof (rule quiet_when_ok)
  assume ok: "ledger_ok d"
  obtain m dl om odl d1 d2 where
      w: "record_cancellation_side (ob_waiting x) (ob_ask x) reason b Waiting due now
            (OnReply AmbiguousReadyWaiting) d = Inr (m, dl, d1)"
    and o': "record_cancellation_side (ob_owing x) (ob_ask x) reason ob Owing odue now
            (OnReply AmbiguousReadyOwing) d1 = Inr (om, odl, d2)"
    and d': "d' = upd_obligations (\<lambda>y. ob_ask y = ob_ask x)
            (\<lambda>y. y\<lparr>ob_cancel_response := Some m, ob_cancel_owing := Some om\<rparr>) d2"
    using r by (auto simp: record_both_sides_def result_simps)
  have "obligations d2 = obligations d"
    using record_cancellation_side_quiet(2) [OF w] record_cancellation_side_quiet(2) [OF o'] by simp
  then have "keeps_ledger_quietly d2 d'"
    unfolding d' by (intro link_quiet) (rule unsettled_unique [OF ok x])
  then show "keeps_ledger_quietly d d'"
    using record_cancellation_side_quiet(1) [OF w] record_cancellation_side_quiet(1) [OF o']
    by (blast intro: quiet.rel_trans)
qed

lemma cancel_obligation_quiet:
  "cancel_obligation now a ask reason d = Inr d' \<Longrightarrow> keeps_ledger_quietly d d'"
  by (auto simp: cancel_obligation_def result_simps intro: cancel_obligation_rows_quiet)

lemma cancel_with_response_quiet:
  assumes "cancel_with_response now a ask reason b ob due odue d = Inr (c, d')"
  shows "keeps_ledger_quietly d d'"
proof -
  obtain x d1 where x: "find_obligation d ask = Some x" "ob_unsettled (ob_state x)"
    and r: "record_both_sides now x reason b ob due odue d = Inr (c, d1)"
    and d': "d' = upd_obligations (unsettled_ask ask) (cancel_row now a reason) d1"
    using assms by (auto simp: cancel_with_response_def result_simps)
  have "keeps_ledger_quietly d d1"
    by (rule record_both_sides_quiet [OF r]) (use x find_obligation_Some in auto)
  then show ?thesis unfolding d' by (rule quiet.rel_trans) (rule cancel_obligation_rows_quiet)
qed

lemma cancel_after_frame:
  "ledger_view d1 = ledger_view d
   \<Longrightarrow> keeps_ledger_quietly d (upd_obligations (unsettled_ask ask) (cancel_row now a reason) d1)"
  by (erule quiet.frame_then_rel) (rule cancel_obligation_rows_quiet)

lemma cancel_queued_delivery_quiet:
  assumes "cancel_queued_delivery now a m reason d = Inr (b, d')" shows "keeps_ledger_quietly d d'"
  using assms
  by (auto simp: cancel_queued_delivery_def result_simps Let_def split: option.splits if_splits
      intro!: cancel_after_frame intro: quiet.rel_frame)

lemma supersede_settled_queued_asks_frame [frames]:
  "ledger_view (snd (supersede_settled_queued_asks now d)) = ledger_view d"
  by (simp add: supersede_settled_queued_asks_def)

lemma waiter_seen_frames [frames]:
  "ledger_view (snd (touch_waiter_seen a now d)) = ledger_view d"
  "ledger_view (snd (boot_reset_waiter_seen now d)) = ledger_view d"
  by (simp_all add: touch_waiter_seen_def boot_reset_waiter_seen_def)

lemma orphan_ask_quiet:
  assumes "orphan_ask now ask d = Inr (c, d')" shows "keeps_ledger_quietly d d'"
proof -
  consider "d' = d" | x b ob reason c' d1 where "find_obligation d ask = Some x" "ob_unsettled (ob_state x)"
      "record_both_sides now x reason b ob None None d = Inr (c', d1)"
      "d' = upd_obligations (unsettled_ask ask) (orphan_row now reason) d1"
    using assms by (auto simp: orphan_ask_def result_simps Let_def split: option.splits if_splits)
  then show ?thesis
  proof cases
    case 1 then show ?thesis by (simp add: quiet.rel_refl)
  next
    case 2
    have "keeps_ledger_quietly d d1"
      by (rule record_both_sides_quiet [OF 2(3)]) (use 2 find_obligation_Some in auto)
    then show ?thesis unfolding 2(4) by (rule quiet.rel_trans) (rule cancel_obligation_rows_quiet)
  qed
qed

section \<open>Retirement of a waiter\<close>

lemma supersede_unsubmitted_quiet:
  "keeps_ledger_quietly d (snd (supersede_unsubmitted_ask_delivery ask w reason now d))"
proof -
  have "keeps_ledger_quietly d (upd_obligations (waiting_unsettled ask w) (cancel_row now w reason) d1)"
    if "ledger_view d1 = ledger_view d" for d1
    by (rule quiet.frame_then_rel [OF that cancel_obligation_rows_quiet(3)])
  then show ?thesis
    by (auto simp: supersede_unsubmitted_ask_delivery_def Let_def quiet.rel_refl split: option.splits)
qed

text \<open>The row count at the end of a turn proves the ask was still unsettled when it was linked.\<close>

lemma retire_ask_quiet:
  assumes r: "retire_ask now a name due reason x d = Inr (notice, d')"
  shows "keeps_ledger_quietly d d'"
proof (rule quiet_when_ok)
  assume ok: "ledger_ok d"
  let ?sup = "supersede_unsubmitted_ask_delivery (ob_ask x) a reason now d"
  show "keeps_ledger_quietly d d'"
  proof (cases "fst ?sup")
    case True
    then have "d' = snd ?sup" using r by (cases ?sup) (auto simp: retire_ask_def)
    then show ?thesis using supersede_unsubmitted_quiet by simp
  next
    case False
    define d0 where "d0 = snd ?sup"
    have q0: "keeps_ledger_quietly d d0" unfolding d0_def by (rule supersede_unsubmitted_quiet)
    have sup: "?sup = (False, d0)" using False by (cases ?sup) (simp add: d0_def)
    obtain wm wd om od d1 d2 where
        w: "record_cancellation_side a (ob_ask x) reason (retire_waiting_body (ob_ask x) name reason)
              Waiting None now (OnReply AmbiguousReadyWaiting) d0 = Inr (wm, wd, d1)"
      and o': "record_cancellation_side (ob_owing x) (ob_ask x) reason (retire_owing_body (ob_ask x) name reason)
              Owing (due (ob_ask x)) now (OnReply AmbiguousReadyOwing) d1 = Inr (om, od, d2)"
      and one: "count_rows (waiting_unsettled (ob_ask x) a) (obligations (upd_obligations (\<lambda>z. ob_ask z = ob_ask x)
              (\<lambda>z. z\<lparr>ob_cancel_response := Some wm, ob_cancel_owing := Some om\<rparr>) d2)) = 1"
      and d': "d' = upd_obligations (waiting_unsettled (ob_ask x) a) (cancel_row now a reason)
            (upd_obligations (\<lambda>z. ob_ask z = ob_ask x)
              (\<lambda>z. z\<lparr>ob_cancel_response := Some wm, ob_cancel_owing := Some om\<rparr>) d2)"
      using r sup by (auto simp: retire_ask_def result_simps Let_def)
    have obs: "obligations d2 = obligations d0"
      using record_cancellation_side_quiet(2) [OF w] record_cancellation_side_quiet(2) [OF o'] by simp
    have ok0: "ledger_ok d0" using q0 ok by (simp add: keeps_ledger_quietly_def)
    have un: "ob_unsettled (ob_state z)" if z: "z \<in> set (obligations d2)" "ob_ask z = ob_ask x" for z
    proof -
      obtain u where u: "u \<in> set (obligations d0)" "ob_ask u = ob_ask x" "ob_unsettled (ob_state u)"
        using count_rows_one_ex [OF one [simplified]] obs
        by (auto simp: waiting_unsettled_def set_update_rows split: if_splits)
      then show ?thesis using z obs ledger_ok_unique [OF ok0, of z u] by simp
    qed
    show ?thesis
      unfolding d'
      by (rule quiet.rel_trans [OF q0 quiet.rel_trans [OF record_cancellation_side_quiet(1) [OF w]
            quiet.rel_trans [OF record_cancellation_side_quiet(1) [OF o']
              quiet.rel_trans [OF link_quiet [OF un] cancel_obligation_rows_quiet(3)]]]])
  qed
qed

lemma retire_asks_quiet:
  "retire_asks now a name due reason os d = Inr (cs, ns, d') \<Longrightarrow> keeps_ledger_quietly d d'"
proof (induction os arbitrary: d cs ns)
  case Nil then show ?case by (simp add: quiet.rel_refl)
next
  case (Cons x os)
  then obtain notice d1 cs' ns' where "retire_ask now a name due reason x d = Inr (notice, d1)"
      "retire_asks now a name due reason os d1 = Inr (cs', ns', d')"
    by (auto simp: result_simps)
  then show ?case using Cons.IH retire_ask_quiet quiet.rel_trans by blast
qed

lemma end_socket_waiter_quiet:
  assumes "end_socket_waiter_with_owing_due now a due reason d = Inr (cs, ns, d')"
  shows "keeps_ledger_quietly d d'"
proof -
  let ?d1 = "upd_agents (end_waiter_row a) (\<lambda>r. r\<lparr>la_ended_at_ms := Some now\<rparr>) d"
  obtain name d2 where r: "retire_asks now a name due reason (unresolved_asks_of ?d1 a) ?d1 = Inr (cs, ns, d2)"
    and d': "ledger_view d' = ledger_view d2"
    using assms by (auto simp: end_socket_waiter_with_owing_due_def Let_def result_simps)
  show ?thesis
    by (rule quiet.rel_then_frame [OF quiet.frame_then_rel [OF _ retire_asks_quiet [OF r]] d']) simp
qed

section \<open>Availability and schedules\<close>

lemma availability_update_unsettled:
  "ledger_ok d \<Longrightarrow> x \<in> set (obligations d) \<Longrightarrow> y \<in> set (obligations d)
   \<Longrightarrow> (ob_ask y, v) \<in> set (availability_update d now x) \<Longrightarrow> ob_unsettled (ob_state y)"
  using ledger_ok_unique [of d x y]
  by (auto simp: availability_update_def split: if_splits option.splits bool.splits)

lemma write_availability_quiet:
  assumes "\<And>ask v y. (ask, v) \<in> set us \<Longrightarrow> y \<in> set (obligations d) \<Longrightarrow> ob_ask y = ask
             \<Longrightarrow> ob_unsettled (ob_state y)"
  shows "keeps_ledger_quietly d (snd (write_availability us d))"
  using assms
proof (induction us arbitrary: d)
  case Nil then show ?case by (simp add: quiet.rel_refl)
next
  case (Cons u us)
  obtain ask v where u: "u = (ask, v)" by (cases u)
  let ?d = "upd_obligations (\<lambda>x. ob_ask x = ask) (\<lambda>x. x\<lparr>ob_unavailable_since_ms := v\<rparr>) d"
  have "keeps_ledger_quietly d ?d"
  proof (rule upd_obligations_quiet)
    fix x assume "x \<in> set (obligations d)" "ob_ask x = ask"
    then have "ob_unsettled (ob_state x)" using Cons.prems [of ask v x] u by simp
    then show "ob_unsettled (ob_state x) \<and> quiet_update x (x\<lparr>ob_unavailable_since_ms := v\<rparr>)"
      by (auto simp: quiet_update_def same_obligation_def ob_unsettled_def)
  qed
  moreover have "keeps_ledger_quietly ?d (snd (write_availability us ?d))"
  proof (rule Cons.IH)
    fix ask' v' y assume "(ask', v') \<in> set us" "y \<in> set (obligations ?d)" "ob_ask y = ask'"
    then obtain x where "x \<in> set (obligations d)" "ob_ask x = ask'" "ob_state x = ob_state y"
      by (auto simp: set_update_rows split: if_splits)
    with Cons.prems [of ask' v' x] \<open>(ask', v') \<in> set us\<close> show "ob_unsettled (ob_state y)" by simp
  qed
  ultimately show ?case
    by (auto simp: u Let_def split_beta intro: quiet.rel_trans)
qed

lemma observe_ask_availability_quiet:
  "keeps_ledger_quietly d (snd (observe_ask_availability now d))"
proof (rule quiet_when_ok)
  assume ok: "ledger_ok d"
  show ?thesis
    unfolding observe_ask_availability_def
    by (rule write_availability_quiet) (use availability_update_unsettled [OF ok] in auto)
qed

lemma create_tell_schedule_frame [frames]:
  "create_tell_schedule now s r b iv first key d = Inr (c, d') \<Longrightarrow> ledger_view d' = ledger_view d"
  by (auto simp: create_tell_schedule_def result_simps Let_def ledger_view_def split: option.splits)

lemma cancel_schedule_frame [frames]:
  "cancel_schedule now s a reason d = Inr d' \<Longrightarrow> ledger_view d' = ledger_view d"
  by (auto simp: cancel_schedule_def result_simps)

lemma insert_firing_frame [frames]:
  "insert_firing row d = Inr d' \<Longrightarrow> ledger_view d' = ledger_view d"
  by (auto simp: insert_firing_def result_simps ledger_view_def)

lemma queue_tell_firing_frame [frames]:
  "queue_tell_firing item now target m d = Inr d' \<Longrightarrow> ledger_view d' = ledger_view d"
  by (auto simp: queue_tell_firing_def result_simps unnamed_constraint_def ledger_view_def insert_simps
      queue_socket_inbox_delivery_at_def split: tell_target.splits if_splits)

lemma fire_tell_schedule_quiet:
  assumes "fire_tell_schedule item now d = Inr (f, d')" shows "keeps_ledger_quietly d d'"
proof -
  let ?d1 = "upd_schedules (\<lambda>r. sc_id r = ds_schedule item \<and> sc_cycle r = ds_cycle item
               \<and> sc_state r = SchedActive)
             (\<lambda>r. r\<lparr>sc_cycle := Suc (sc_cycle r),
                    sc_next_fire_at_ms := saturating_add_i64 now (ds_interval_ms item)\<rparr>) d"
  consider "ledger_view d' = ledger_view d"
  | m d2 d3 where
      "insert_message (Some (ds_sender item)) (ds_recipient item) Tell (ds_body item) now None None False ?d1
         = Inr (m, d2)"
      "queue_tell_firing item now (tell_target_of d (ds_recipient item)) m d2 = Inr d3"
      "ledger_view d' = ledger_view d3"
    using assms by (auto simp: fire_tell_schedule_def Let_def result_simps split: if_splits
        dest!: insert_firing_frame)
  then show ?thesis
  proof cases
    case 1 then show ?thesis by (rule quiet.rel_frame)
  next
    case 2
    then have v: "ledger_view d' = ledger_view d2" by (simp add: queue_tell_firing_frame)
    show ?thesis
      by (rule quiet.rel_then_frame [OF quiet.frame_then_rel [OF _ insert_plain_message_quiet [OF 2(1)]] v]) simp
  qed
qed

section \<open>Reminders\<close>

lemma reminder_frames [frames]:
  "observe_reminder_lifecycle ask w n d = Inr d' \<Longrightarrow> ledger_view d' = ledger_view d"
  "submit_reminder_attempt rq d = Inr d' \<Longrightarrow> ledger_view d' = ledger_view d"
  "resolve_reminder_attempt rq out ev now d = Inr d' \<Longrightarrow> ledger_view d' = ledger_view d"
  "defer_busy_reminder ask now re d = Inr d' \<Longrightarrow> ledger_view d' = ledger_view d"
  "snooze_reminder now a ask until d = Inr d' \<Longrightarrow> ledger_view d' = ledger_view d"
  "increase_reminder_interval now a ask every d = Inr d' \<Longrightarrow> ledger_view d' = ledger_view d"
  "disable_reminder now a ask d = Inr d' \<Longrightarrow> ledger_view d' = ledger_view d"
  by (auto simp: observe_reminder_lifecycle_def submit_reminder_attempt_def resolve_reminder_attempt_def
      defer_busy_reminder_def snooze_reminder_def increase_reminder_interval_def disable_reminder_def
      result_simps)

lemma prepare_reminder_attempt_frame [frames]:
  "prepare_reminder_attempt item rq now d = Inr d' \<Longrightarrow> ledger_view d' = ledger_view d"
  by (auto simp: prepare_reminder_attempt_def insert_reminder_attempt_def Let_def result_simps ledger_view_def)

lemma reconcile_reminder_attempts_frame [frames]:
  "ledger_view (snd (reconcile_reminder_attempts live now d)) = ledger_view d"
  by (simp add: reconcile_reminder_attempts_def Let_def ledger_view_def)

section \<open>Renews\<close>

lemma insert_renew_frame [frames]: "insert_renew row d = Inr (i, d') \<Longrightarrow> ledger_view d' = ledger_view d"
  by (auto simp: insert_renew_def Let_def result_simps ledger_view_def)

lemma change_renew_frame [frames]: "change_renew p f e d = Inr d' \<Longrightarrow> ledger_view d' = ledger_view d"
  by (auto simp: change_renew_def result_simps)

lemma create_renew_frame [frames]:
  "create_renew now n d = Inr (i, d') \<Longrightarrow> ledger_view d' = ledger_view d"
  by (auto simp: create_renew_def insert_renew_schedule_def Let_def result_simps ledger_view_def
      split: option.splits dest!: insert_renew_frame [unfolded ledger_view_def])

lemma arm_next_renew_cycle_frame [frames]:
  "arm_next_renew_cycle i now out d = Inr (j, d') \<Longrightarrow> ledger_view d' = ledger_view d"
  by (auto simp: arm_next_renew_cycle_def record_renew_firing_def Let_def result_simps ledger_view_def
      split: option.splits if_splits dest!: insert_renew_frame [unfolded ledger_view_def])

lemma renew_frames [frames]:
  "accrue_renew_occupancy i acc now d = Inr d' \<Longrightarrow> ledger_view d' = ledger_view d"
  "mark_renew_preparing i ask deadline d = Inr d' \<Longrightarrow> ledger_view d' = ledger_view d"
  "mark_renew_clearing i session deadline nb d = Inr d' \<Longrightarrow> ledger_view d' = ledger_view d"
  "mark_renew_injected i d = Inr d' \<Longrightarrow> ledger_view d' = ledger_view d"
  "mark_renew_timed_out i d = Inr d' \<Longrightarrow> ledger_view d' = ledger_view d"
  "submit_renew_attempt rq d = Inr d' \<Longrightarrow> ledger_view d' = ledger_view d"
  "resolve_renew_attempt rq out ev now d = Inr d' \<Longrightarrow> ledger_view d' = ledger_view d"
  "replace_observed_native_session inc session d = Inr d' \<Longrightarrow> ledger_view d' = ledger_view d"
  by (auto simp: accrue_renew_occupancy_def mark_renew_preparing_def mark_renew_clearing_def
      mark_renew_injected_def mark_renew_timed_out_def submit_renew_attempt_def resolve_renew_attempt_def
      replace_observed_native_session_def Let_def result_simps dest: change_renew_frame)

lemma complete_renew_frame [frames]:
  "complete_renew now i d = Inr (j, d') \<Longrightarrow> ledger_view d' = ledger_view d"
  by (auto simp: complete_renew_def result_simps dest!: change_renew_frame arm_next_renew_cycle_frame)

lemma abandon_renew_proof_frame [frames]:
  "abandon_renew_proof now i reason d = Inr (j, d') \<Longrightarrow> ledger_view d' = ledger_view d"
  by (auto simp: abandon_renew_proof_def result_simps dest!: change_renew_frame arm_next_renew_cycle_frame)

lemma claim_stall_frame [frames]:
  "ledger_view (snd (claim_renew_clear_stall_notice i now d)) = ledger_view d"
  by (simp add: claim_renew_clear_stall_notice_def)

lemma prepare_renew_attempt_frame [frames]:
  "prepare_renew_attempt i inc step rq now d = Inr d' \<Longrightarrow> ledger_view d' = ledger_view d"
  by (auto simp: prepare_renew_attempt_def Let_def result_simps ledger_view_def)

lemma cancel_unanswered_prepare_quiet:
  "ledger_view d1 = ledger_view d \<Longrightarrow> keeps_ledger_quietly d (cancel_unanswered_prepare now i reason d1)"
  by (auto simp: cancel_unanswered_prepare_def intro: quiet.rel_frame cancel_after_frame split: option.splits)

lemma end_renew_schedule_view [simp]:
  "ledger_view (end_renew_schedule st now i reason d) = ledger_view d"
  by (simp add: end_renew_schedule_def)

lemma end_renew_quiet:
  "ledger_view d1 = ledger_view d \<Longrightarrow>
     keeps_ledger_quietly d (end_renew_schedule st now i reason (cancel_unanswered_prepare now i reason d1))"
  by (rule quiet.rel_then_frame [OF cancel_unanswered_prepare_quiet]) simp_all

lemma insert_notice_quiet:
  "keeps_ledger_quietly d d1 \<Longrightarrow> insert_notice body now d1 = (i, d') \<Longrightarrow> keeps_ledger_quietly d d'"
  using insert_notice_frame [of body now d1] by (auto intro: quiet.rel_then_frame)

lemma mark_renew_ready_quiet: "mark_renew_ready now i d = Inr d' \<Longrightarrow> keeps_ledger_quietly d d'"
  by (auto simp: mark_renew_ready_def result_simps dest!: change_renew_frame
      intro: cancel_unanswered_prepare_quiet)

lemma abort_renew_quiet:
  assumes "abort_renew now i reason d = Inr (j, d')" shows "keeps_ledger_quietly d d'"
proof -
  obtain d1 where d1: "ledger_view d1 = ledger_view d"
    and d': "arm_next_renew_cycle i now FiringSkipped (cancel_unanswered_prepare now i reason d1) = Inr (j, d')"
    using assms by (auto simp: abort_renew_def result_simps dest!: change_renew_frame)
  show ?thesis
    by (rule quiet.rel_then_frame [OF cancel_unanswered_prepare_quiet [OF d1] arm_next_renew_cycle_frame [OF d']])
qed

lemma terminate_renew_quiet: "terminate_renew now i reason d = Inr d' \<Longrightarrow> keeps_ledger_quietly d d'"
  by (auto simp: terminate_renew_def result_simps dest!: change_renew_frame intro: end_renew_quiet)

lemma terminate_renew_announced_quiet:
  "terminate_renew_announced now i reason notice d = Inr (n, d') \<Longrightarrow> keeps_ledger_quietly d d'"
  by (auto simp: terminate_renew_announced_def result_simps dest!: change_renew_frame
      intro: insert_notice_quiet [OF end_renew_quiet])

lemma cancel_renew_quiet:
  "cancel_renew now i a reason notice d = Inr (n, d') \<Longrightarrow> keeps_ledger_quietly d d'"
  by (auto simp: cancel_renew_def result_simps dest!: change_renew_frame
      intro: insert_notice_quiet [OF end_renew_quiet])

section \<open>Incarnations\<close>

lemma claim_identity_frame [frames]:
  "claim_identity e name par now d = Inr (a, d') \<Longrightarrow> ledger_view d' = ledger_view d"
  by (auto simp: claim_identity_def result_simps split: option.splits dest: insert_logical_agent_frame)

lemma declare_start_frame [frames]:
  "declare_start now n d = Inr (s, d') \<Longrightarrow> ledger_view d' = ledger_view d"
  by (auto simp: declare_start_def result_simps dest!: claim_identity_frame insert_incarnation_frame
      insert_operation_frame)

lemma insert_adopt_binding_frame [frames]:
  "insert_adopt_binding now n ev st out r d = Inr (s, d') \<Longrightarrow> ledger_view d' = ledger_view d"
  by (auto simp: insert_adopt_binding_def Let_def result_simps dest!: claim_identity_frame
      insert_incarnation_frame insert_operation_frame)

lemma declare_adopt_frame [frames]:
  "declare_adopt now n ev d = Inr (s, d') \<Longrightarrow> ledger_view d' = ledger_view d"
  "declare_adopt_pending now n ev d = Inr (s, d') \<Longrightarrow> ledger_view d' = ledger_view d"
  by (auto simp: declare_adopt_def declare_adopt_pending_def result_simps dest: insert_adopt_binding_frame)

lemma lifecycle_frames [frames]:
  "accept_adopt_ready now oid inc agent d = Inr d' \<Longrightarrow> ledger_view d' = ledger_view d"
  "complete_clear now oid inc session settle d = Inr d' \<Longrightarrow> ledger_view d' = ledger_view d"
  "declare_rename inc name d = Inr d' \<Longrightarrow> ledger_view d' = ledger_view d"
  "commit_rename inc name d = Inr d' \<Longrightarrow> ledger_view d' = ledger_view d"
  by (auto simp: accept_adopt_ready_def complete_clear_def declare_rename_def commit_rename_def Let_def
      result_simps split: option.splits)

lemma create_clear_frame [frames]:
  "create_clear now a inc settle key d = Inr (i, d') \<Longrightarrow> ledger_view d' = ledger_view d"
  by (auto simp: create_clear_def result_simps dest: insert_operation_frame)

lemma request_retirement_frame [frames]:
  "request_retirement now inc key d = Inr (i, d') \<Longrightarrow> ledger_view d' = ledger_view d"
  by (auto simp: request_retirement_def Let_def result_simps dest!: insert_operation_frame)

lemma plain_frames [frames]:
  "ledger_view (abandon_rename inc d) = ledger_view d"
  "ledger_view (snd (create_operator_notice now body d)) = ledger_view d"
  "ledger_view (snd (fill_observed_native_session inc pane t s d)) = ledger_view d"
  by (simp_all add: abandon_rename_def create_operator_notice_def fill_observed_native_session_def)

end
