(* ===== verification/Herdr.thy ===== *)
theory Herdr
  imports Operations
begin

text \<open>
  The Herdr client (\<open>src/src/herdr.rs\<close>): the observations it returns, its classified errors, the
  negotiation of compatibility, one request over an established stream with its write boundary, and
  the wait for the socket to appear. The JSON value type and its accessors are those of serde_json;
  the derived decoders of the wire records, the transport and the clock are parameters.
\<close>

section \<open>JSON values\<close>

text \<open>An object has distinct keys; a number that is no integer is kept by its text.\<close>

datatype json = JNull | JBool bool | JInt int | JFloat string | JStr string
  | JArr "json list" | JObj "(string \<times> json) list"

fun json_get :: "string \<Rightarrow> json \<Rightarrow> json option" where
  "json_get k (JObj fs) = map_of fs k"
| "json_get k v = None"

fun json_as_u64 :: "json \<Rightarrow> nat option" where
  "json_as_u64 (JInt i) = (if 0 \<le> i \<and> i < 2 ^ 64 then Some (nat i) else None)"
| "json_as_u64 v = None"

fun json_as_str :: "json \<Rightarrow> string option" where
  "json_as_str (JStr s) = Some s"
| "json_as_str v = None"

section \<open>Observations and errors\<close>

datatype agent_status = StatusIdle | StatusWorking | StatusBlocked | StatusDone | StatusUnknown

record lifecycle_observation =
  lo_agent :: agent_observation
  lo_status :: agent_status

record pane_observation =
  po_pane_id :: string
  po_terminal_id :: string
  po_cwd :: "string option"

record snapshot =
  sn_protocol :: nat
  sn_panes :: "pane_observation list"
  sn_agents :: "agent_observation list"

text \<open>An I/O error is its kind and its text; a JSON error is its text.\<close>

record io_error =
  ie_kind :: string
  ie_text :: string

datatype herdr_error =
    HUnavailable io_error
  | HMalformed string
  | HRejected string string
  | HIncompatible nat nat
  | HIncompatibleEndpoint nat nat
  | HUnexpected string
  | HReadinessTimeout nat

section \<open>Negotiation\<close>

definition SUPPORTED_PROTOCOL :: nat where "SUPPORTED_PROTOCOL = 20"

definition SUPPORTED_ENDPOINT_GENERATION :: nat where "SUPPORTED_ENDPOINT_GENERATION = 1"

definition u32_try_from :: "nat \<Rightarrow> nat option" where
  "u32_try_from n = (if int n < 2 ^ 32 then Some n else None)"

definition validate_protocol :: "nat \<Rightarrow> herdr_error + unit" where
  "validate_protocol protocol = ensure (protocol = SUPPORTED_PROTOCOL)
     (HIncompatible protocol SUPPORTED_PROTOCOL)"

definition validate_endpoint_generation :: "nat \<Rightarrow> herdr_error + unit" where
  "validate_endpoint_generation generation = ensure (generation = SUPPORTED_ENDPOINT_GENERATION)
     (HIncompatibleEndpoint generation SUPPORTED_ENDPOINT_GENERATION)"

text \<open>A request of the client: id, method and parameters to the result value.\<close>

type_synonym herdr_rpc = "string \<Rightarrow> string \<Rightarrow> json \<Rightarrow> herdr_error + json"

definition advertised_generation :: "json \<Rightarrow> nat option" where
  "advertised_generation v =
     Option.bind (Option.bind (json_get ''capabilities'' v) (json_get ''endpoint_protocol_generation'')) json_as_u64"

definition negotiate :: "herdr_rpc \<Rightarrow> herdr_error + unit" where
  "negotiate rpc =
     rbind (rpc ''kelpie:ping'' ''ping'' (JObj [])) (\<lambda>v.
       case advertised_generation v of
         Some g \<Rightarrow>
           rbind (ok_or (HUnexpected ''endpoint generation exceeds u32'') (u32_try_from g))
             validate_endpoint_generation
       | None \<Rightarrow>
           rbind (ok_or (HUnexpected ''pong without protocol'') (Option.bind (json_get ''protocol'' v) json_as_u64)) (\<lambda>p.
           rbind (ok_or (HUnexpected ''protocol exceeds u32'') (u32_try_from p)) validate_protocol))"

section \<open>Requests\<close>

text \<open>The derived decoders of the wire records, as texts of their errors or the record.\<close>

definition decoded :: "(json \<Rightarrow> string + 'a) \<Rightarrow> json \<Rightarrow> herdr_error + 'a" where
  "decoded decode v = map_sum HMalformed id (decode v)"

definition parse_agent_result :: "(json \<Rightarrow> string + agent_observation) \<Rightarrow> json \<Rightarrow> herdr_error + agent_observation" where
  "parse_agent_result decode v =
     rbind (ok_or (HUnexpected ''agent result without agent'') (json_get ''agent'' v)) (decoded decode)"

definition herdr_snapshot :: "(json \<Rightarrow> string + snapshot) \<Rightarrow> herdr_rpc \<Rightarrow> herdr_error + snapshot" where
  "herdr_snapshot decode rpc =
     rbind (rpc ''kelpie:snapshot'' ''session.snapshot'' (JObj [])) (\<lambda>v.
     rbind (ok_or (HUnexpected ''snapshot result without snapshot'') (json_get ''snapshot'' v)) (decoded decode))"

definition lifecycle_snapshot ::
  "(json \<Rightarrow> string + lifecycle_observation list) \<Rightarrow> herdr_rpc \<Rightarrow> herdr_error + lifecycle_observation list" where
  "lifecycle_snapshot decode rpc =
     rbind (rpc ''kelpie:lifecycle-snapshot'' ''session.snapshot'' (JObj [])) (\<lambda>v.
     rbind (ok_or (HUnexpected ''snapshot result without snapshot'') (json_get ''snapshot'' v)) (decoded decode))"

definition start_agent ::
  "(json \<Rightarrow> string + agent_observation) \<Rightarrow> herdr_rpc \<Rightarrow> string \<Rightarrow> json \<Rightarrow> herdr_error + agent_observation" where
  "start_agent decode rpc request params =
     rbind (rpc request ''agent.start'' params) (parse_agent_result decode)"

definition rename_agent ::
  "(json \<Rightarrow> string + agent_observation) \<Rightarrow> herdr_rpc \<Rightarrow> string \<Rightarrow> string \<Rightarrow> string \<Rightarrow> herdr_error + agent_observation" where
  "rename_agent decode rpc request target name =
     rbind (rpc request ''agent.rename'' (JObj [(''name'', JStr name), (''target'', JStr target)]))
       (parse_agent_result decode)"

definition close_pane :: "herdr_rpc \<Rightarrow> string \<Rightarrow> string \<Rightarrow> herdr_error + unit" where
  "close_pane rpc request pane =
     map_sum id (\<lambda>_. ()) (rpc request ''pane.close'' (JObj [(''pane_id'', JStr pane)]))"

definition get_agent ::
  "(json \<Rightarrow> string + agent_observation) \<Rightarrow> herdr_rpc \<Rightarrow> string \<Rightarrow> string \<Rightarrow> herdr_error + agent_observation" where
  "get_agent decode rpc request target =
     rbind (rpc request ''agent.get'' (JObj [(''target'', JStr target)])) (parse_agent_result decode)"

definition prompt_agent ::
  "(json \<Rightarrow> string + agent_observation) \<Rightarrow> herdr_rpc \<Rightarrow> string \<Rightarrow> string \<Rightarrow> string \<Rightarrow> herdr_error + agent_observation" where
  "prompt_agent decode rpc request target txt =
     rbind (rpc request ''agent.prompt'' (JObj [(''target'', JStr target), (''text'', JStr txt)]))
       (parse_agent_result decode)"

text \<open>
  One request over a stream: the serializer writing into it (failing with a JSON error), the newline,
  the flush, the line read back, and the JSON parser. The result tells whether the request was
  written, that is whether the callback after the flush ran.
\<close>

record stream_io =
  si_serialize :: "json \<Rightarrow> string + unit"
  si_newline :: "io_error + unit"
  si_flush :: "io_error + unit"
  si_read_line :: "io_error + string"
  si_parse :: "string \<Rightarrow> string + json"

definition request_value :: "string \<Rightarrow> string \<Rightarrow> json \<Rightarrow> json" where
  "request_value i method params = JObj [(''id'', JStr i), (''method'', JStr method), (''params'', params)]"

definition rejection :: "json \<Rightarrow> herdr_error" where
  "rejection e = HRejected
     (case Option.bind (json_get ''code'' e) json_as_str of None \<Rightarrow> ''unknown'' | Some c \<Rightarrow> c)
     (case Option.bind (json_get ''message'' e) json_as_str of None \<Rightarrow> ''Herdr rejected request'' | Some m \<Rightarrow> m)"

definition write_request :: "stream_io \<Rightarrow> string \<Rightarrow> string \<Rightarrow> json \<Rightarrow> herdr_error + unit" where
  "write_request s i method params =
     rbind (map_sum HMalformed id (si_serialize s (request_value i method params))) (\<lambda>_.
     rbind (map_sum HUnavailable id (si_newline s)) (\<lambda>_. map_sum HUnavailable id (si_flush s)))"

definition read_response :: "stream_io \<Rightarrow> herdr_error + json" where
  "read_response s =
     rbind (map_sum HUnavailable id (si_read_line s)) (\<lambda>line.
     rbind (map_sum HMalformed id (si_parse s line)) (\<lambda>v.
       case json_get ''error'' v of
         Some e \<Rightarrow> Inl (rejection e)
       | None \<Rightarrow> ok_or (HUnexpected ''response without result'') (json_get ''result'' v)))"

definition request_over_stream :: "stream_io \<Rightarrow> string \<Rightarrow> string \<Rightarrow> json \<Rightarrow> bool \<times> (herdr_error + json)" where
  "request_over_stream s i method params =
     (case write_request s i method params of
        Inl e \<Rightarrow> (False, Inl e)
      | Inr _ \<Rightarrow> (True, read_response s))"

definition starts_with :: "string \<Rightarrow> string \<Rightarrow> bool" where
  "starts_with s p \<longleftrightarrow> take (length p) s = p"

definition after_write_fault_point :: "string \<Rightarrow> string \<Rightarrow> string option" where
  "after_write_fault_point i method =
     (if method = ''agent.start'' \<and> starts_with i ''kelpie:start:'' then Some ''start_after_write_before_response''
      else if method = ''agent.prompt'' \<and> starts_with i ''kelpie:ask:'' then Some ''ask_after_write_before_response''
      else if method = ''agent.prompt'' \<and> starts_with i ''kelpie:tell:'' then Some ''tell_after_write_before_response''
      else if method = ''agent.prompt'' \<and> starts_with i ''kelpie:initial:to:''
        then Some ''initial_message_after_write_before_response''
      else if method = ''agent.prompt'' \<and> starts_with i ''kelpie:reply:'' then Some ''reply_after_write_before_response''
      else if method = ''agent.prompt'' \<and> starts_with i ''kelpie:owing-cancellation:''
        then Some ''owing_cancellation_after_write_before_response''
      else if method = ''agent.prompt'' \<and> starts_with i ''kelpie:cancellation:''
        then Some ''cancellation_after_write_before_response''
      else if method = ''agent.prompt'' \<and> starts_with i ''kelpie:clear:'' then Some ''clear_after_write_before_response''
      else if method = ''agent.rename'' \<and> starts_with i ''kelpie:adopt-rename:''
        then Some ''adopt_rename_after_write_before_response''
      else if method = ''pane.close'' \<and> starts_with i ''kelpie:retire-close:''
        then Some ''retire_after_write_before_response''
      else None)"

section \<open>Waiting for the socket\<close>

text \<open>
  The loop looks at the path, reads the clock, and sleeps the poll interval or what is left. Its
  \<open>k\<close>-th turn finds \<open>present k\<close> at the path and \<open>clock k\<close> on the clock. The result counts the looks.
\<close>

partial_function (option) wait_loop ::
  "(nat \<Rightarrow> bool) \<Rightarrow> (nat \<Rightarrow> nat) \<Rightarrow> nat \<Rightarrow> herdr_error \<Rightarrow> nat \<Rightarrow> (nat \<times> (herdr_error + unit)) option" where
  "wait_loop present clock deadline gone k =
     (if present k then Some (Suc k, Inr ())
      else if deadline \<le> clock k then Some (Suc k, Inl gone)
      else wait_loop present clock deadline gone (Suc k))"

definition socket_absent :: "string \<Rightarrow> string \<Rightarrow> herdr_error" where
  "socket_absent path limit_text =
     HUnavailable \<lparr>ie_kind = ''NotFound'',
       ie_text = ''no Herdr socket at '' @ path @ '' after '' @ limit_text\<rparr>"

definition wait_until_present ::
  "(nat \<Rightarrow> bool) \<Rightarrow> (nat \<Rightarrow> nat) \<Rightarrow> nat \<Rightarrow> string \<Rightarrow> string \<Rightarrow> nat \<Rightarrow> (nat \<times> (herdr_error + unit)) option" where
  "wait_until_present present clock start path limit_text limit =
     wait_loop present clock (start + limit) (socket_absent path limit_text) 0"

text \<open>What a sleeping clock does between two turns: it advances by the sleep at least.\<close>

definition sleeps :: "(nat \<Rightarrow> nat) \<Rightarrow> nat \<Rightarrow> nat \<Rightarrow> nat \<Rightarrow> bool" where
  "sleeps clock start deadline poll \<longleftrightarrow> start \<le> clock 0
     \<and> (\<forall>k. clock k < deadline \<longrightarrow> clock k + min poll (deadline - clock k) \<le> clock (Suc k))"

lemma sleeps_progress:
  assumes "sleeps clock start deadline poll" and "\<And>j. j < k \<Longrightarrow> clock j < deadline"
  shows "min (start + k * poll) deadline \<le> clock k"
  using assms(2)
proof (induction k)
  case 0
  then show ?case using assms(1) by (simp add: sleeps_def min_le_iff_disj)
next
  case (Suc k)
  then have "min (start + k * poll) deadline \<le> clock k" "clock k < deadline" by simp_all
  moreover have "clock k + min poll (deadline - clock k) \<le> clock (Suc k)"
    using assms(1) \<open>clock k < deadline\<close> by (simp add: sleeps_def)
  ultimately show ?case by (simp add: min_def split: if_splits)
qed

lemma wait_loop_stops:
  assumes "k \<le> n" and "present n \<or> deadline \<le> clock n"
    and "\<And>j. k \<le> j \<Longrightarrow> j < n \<Longrightarrow> \<not> present j \<and> clock j < deadline"
  shows "wait_loop present clock deadline gone k = Some (Suc n, if present n then Inr () else Inl gone)"
  using assms
proof (induction "n - k" arbitrary: k)
  case 0
  then show ?case by (subst wait_loop.simps) auto
next
  case (Suc m)
  then have "wait_loop present clock deadline gone (Suc k) = Some (Suc n, if present n then Inr () else Inl gone)"
    by (intro Suc.hyps) auto
  moreover have "\<not> present k \<and> clock k < deadline" using Suc by (intro Suc.prems(3)) auto
  ultimately show ?case by (subst wait_loop.simps) auto
qed



section \<open>The write boundary\<close>



end
