(* ===== verification/Queries.thy ===== *)
theory Queries
  imports Lifecycle Herdr
begin

text \<open>
  The reads of \<open>src/src/store.rs\<close> that the coordination slice and the command line make: addresses,
  states and outcomes of single rows, the rendering data of replies and cancellations, the name
  projection to repair, the content of an ask, what was cancelled while an agent was away, the
  earliest due times, and the fleet report.

  A read takes the database to a failure or a value and changes nothing. A column that the schema
  leaves nullable and the reader does not is \<open>Sql NullColumn\<close>; a missing row is \<open>Sql NoRows\<close>
  unless the operation names a conflict of its own.
\<close>

section \<open>Single rows\<close>

definition agent_address :: "logical_agent_id \<Rightarrow> db \<Rightarrow> store_error + string" where
  "agent_address a d = ok_or (Sql NoRows) (map_option la_public_name (find_agent d a))"

definition reply_rendering :: "message_id \<Rightarrow> db \<Rightarrow> store_error + (message_id \<times> reply_disposition)" where
  "reply_rendering m d =
     rbind (ok_or (InvalidRecord (RecordText (''message '' @ id_display m @ '' is not a complete reply'')))
              (find_row (\<lambda>r. ms_id r = m \<and> ms_kind r = Reply) (messages d))) (\<lambda>r.
     rbind (ok_or (Sql NullColumn) (ms_reply_to r)) (\<lambda>ask.
     rbind (ok_or (Sql NullColumn) (ms_disposition r)) (\<lambda>disposition. Inr (ask, disposition))))"

definition delivery_recipient_incarnation :: "message_id \<Rightarrow> db \<Rightarrow> store_error + incarnation_id" where
  "delivery_recipient_incarnation m d =
     (case sort_key dl_attempt (filter (\<lambda>r. dl_message r = m) (deliveries d)) of
        [] \<Rightarrow> Inl (Sql NoRows)
      | r # rs \<Rightarrow> ok_or (Sql NullColumn) (dl_incarnation r))"

definition message_parties :: "message_id \<Rightarrow> db \<Rightarrow> store_error + (logical_agent_id \<times> logical_agent_id)" where
  "message_parties m d =
     rbind (ok_or (Sql NoRows) (find_message d m)) (\<lambda>r.
     rbind (ok_or (Sql NullColumn) (ms_sender r)) (\<lambda>sender. Inr (sender, ms_recipient r)))"

definition operation_outcome_of :: "operation_id \<Rightarrow> db \<Rightarrow> store_error + operation_outcome" where
  "operation_outcome_of oid d = ok_or (Sql NoRows) (map_option op_outcome (find_operation d oid))"

definition delivery_outcome_of :: "operation_id \<Rightarrow> db \<Rightarrow> store_error + delivery_outcome" where
  "delivery_outcome_of oid d = ok_or (Sql NoRows)
     (map_option dl_outcome (find_row (\<lambda>r. dl_operation r = Some oid) (deliveries d)))"

definition delivery_outcome_for_message :: "message_id \<Rightarrow> db \<Rightarrow> store_error + delivery_outcome" where
  "delivery_outcome_for_message m d = ok_or (Sql NoRows)
     (map_option dl_outcome (find_row (\<lambda>r. dl_message r = m) (deliveries d)))"

definition operation_attempt_evidence :: "operation_id \<Rightarrow> db \<Rightarrow> evidence option" where
  "operation_attempt_evidence oid d = Option.bind (find_row (latest_attempt d oid) (attempts d)) at_evidence"

definition absent_incarnation :: "incarnation_id \<Rightarrow> store_error" where
  "absent_incarnation inc = Conflict (ConflictText (''incarnation '' @ id_display inc @ '' is absent''))"

definition find_incarnation :: "db \<Rightarrow> incarnation_id \<Rightarrow> incarnation_row option" where
  "find_incarnation d inc = find_row (\<lambda>i. in_id i = inc) (incarnations d)"

definition logical_agent_of :: "incarnation_id \<Rightarrow> db \<Rightarrow> store_error + logical_agent_id" where
  "logical_agent_of inc d = ok_or (absent_incarnation inc) (map_option in_agent (find_incarnation d inc))"

definition incarnation_state_of :: "incarnation_id \<Rightarrow> db \<Rightarrow> store_error + incarnation_state" where
  "incarnation_state_of inc d = ok_or (Sql NoRows) (map_option in_state (find_incarnation d inc))"

definition obligation_state_of :: "message_id \<Rightarrow> db \<Rightarrow> store_error + obligation_state" where
  "obligation_state_of ask d = ok_or (Sql NoRows) (map_option ob_state (find_obligation d ask))"

definition requested_attribution_of :: "incarnation_id \<Rightarrow> db \<Rightarrow> store_error + requested_attribution" where
  "requested_attribution_of inc d = ok_or (absent_incarnation inc) (map_option in_requested (find_incarnation d inc))"

definition observed_native_session :: "incarnation_id \<Rightarrow> db \<Rightarrow> store_error + string option" where
  "observed_native_session inc d =
     ok_or (absent_incarnation inc) (map_option in_native_session (find_incarnation d inc))"

record attribution_evidence_data =
  av_agent :: logical_agent_id
  av_incarnation :: incarnation_id
  av_public_name :: string
  av_backend_kind :: string
  av_state :: incarnation_state
  av_requested :: requested_attribution
  av_backend_args :: "string list"

definition attribution_evidence :: "incarnation_id \<Rightarrow> db \<Rightarrow> store_error + attribution_evidence_data" where
  "attribution_evidence inc d =
     rbind (ok_or (absent_incarnation inc) (find_incarnation d inc)) (\<lambda>i.
     rbind (ok_or (absent_incarnation inc) (find_agent d (in_agent i))) (\<lambda>l.
       Inr \<lparr>av_agent = in_agent i, av_incarnation = inc, av_public_name = la_public_name l,
            av_backend_kind = in_backend_kind i, av_state = in_state i, av_requested = in_requested i,
            av_backend_args = in_backend_args i\<rparr>))"

definition newest_incarnation_for_agent :: "logical_agent_id \<Rightarrow> db \<Rightarrow> store_error + incarnation_id" where
  "newest_incarnation_for_agent a d =
     rbind (ensure (agent_exists d a)
              (Conflict (ConflictText (''logical agent '' @ id_display a @ '' is absent'')))) (\<lambda>_.
       case rev (sort_key in_created_at_ms (sort_key in_id (filter (\<lambda>i. in_agent i = a) (incarnations d)))) of
         [] \<Rightarrow> Inl (Conflict (ConflictText (''logical agent '' @ id_display a @ '' has no incarnation'')))
       | i # is \<Rightarrow> Inr (in_id i))"

section \<open>The Ready identity of a pane\<close>

record ready_identity =
  rd_agent :: logical_agent_id
  rd_incarnation :: incarnation_id
  rd_name :: string

definition pane_identities :: "string \<Rightarrow> db \<Rightarrow> ready_identity list" where
  "pane_identities pane d =
     List.map_filter (\<lambda>i. map_option
         (\<lambda>l. \<lparr>rd_agent = la_id l, rd_incarnation = in_id i, rd_name = la_public_name l\<rparr>) (find_agent d (in_agent i)))
       (sort_key in_created_at_ms
         (filter (\<lambda>i. in_state i = IReady \<and> in_observed_pane i = Some pane) (incarnations d)))"

definition find_ready_identity_for_pane :: "string \<Rightarrow> db \<Rightarrow> store_error + ready_identity option" where
  "find_ready_identity_for_pane pane d = (case pane_identities pane d of
     [] \<Rightarrow> Inr None
   | [x] \<Rightarrow> Inr (Some x)
   | _ \<Rightarrow> Inl (Conflict (ConflictText (''pane '' @ pane @ '' is ambiguous among ready agents''))))"

definition ready_identity_for_pane :: "string \<Rightarrow> db \<Rightarrow> store_error + ready_identity" where
  "ready_identity_for_pane pane d =
     rbind (find_ready_identity_for_pane pane d)
       (ok_or (Conflict (ConflictText (''no ready agent for pane '' @ pane))))"

section \<open>The name projection to repair\<close>

record name_projection_repair_data =
  np_agent :: logical_agent_id
  np_incarnation :: incarnation_id
  np_pane :: string
  np_terminal :: string
  np_backend_kind :: string
  np_public_name :: string
  np_intent_pending :: bool

definition unnamed :: "agent_observation \<Rightarrow> bool" where
  "unnamed agent \<longleftrightarrow> ao_name agent = None \<or> ao_name agent = Some []"

definition projectable :: "agent_row \<times> incarnation_row \<Rightarrow> bool" where
  "projectable t \<longleftrightarrow> in_state (snd t) = IReady
     \<and> (in_pending_rename (snd t) = None \<or> in_pending_rename (snd t) = Some (la_public_name (fst t)))"

definition projection_rows :: "db \<Rightarrow> (agent_row \<times> incarnation_row) list" where
  "projection_rows d = filter projectable
     (List.map_filter (\<lambda>i. map_option (\<lambda>l. (l, i)) (find_agent d (in_agent i)))
       (sort_key in_created_at_ms (sort_key in_id (incarnations d))))"

fun first_unprojected ::
  "snapshot \<Rightarrow> (agent_row \<times> incarnation_row) list \<Rightarrow> store_error + name_projection_repair_data option" where
  "first_unprojected snap [] = Inr None"
| "first_unprojected snap ((l, i) # rows) =
     rbind (ok_or (Sql NullColumn) (in_observed_pane i)) (\<lambda>pane.
     rbind (ok_or (Sql NullColumn) (in_observed_terminal i)) (\<lambda>terminal.
       if list_ex (\<lambda>agent. ao_pane_id agent = pane \<and> ao_terminal_id agent = terminal
             \<and> ao_agent agent = Some (in_backend_kind i) \<and> unnamed agent \<and> \<not> ao_launch_pending agent)
           (sn_agents snap)
       then Inr (Some \<lparr>np_agent = la_id l, np_incarnation = in_id i, np_pane = pane, np_terminal = terminal,
              np_backend_kind = in_backend_kind i, np_public_name = la_public_name l,
              np_intent_pending = (in_pending_rename i \<noteq> None)\<rparr>)
       else first_unprojected snap rows))"

definition name_projection_repair :: "snapshot \<Rightarrow> db \<Rightarrow> store_error + name_projection_repair_data option" where
  "name_projection_repair snap d = first_unprojected snap (projection_rows d)"

section \<open>Cancellations\<close>

definition cancellation_rendering_for_operation ::
  "operation_id \<Rightarrow> db \<Rightarrow> store_error + (message_id \<times> string \<times> cancellation_audience)" where
  "cancellation_rendering_for_operation oid d =
     rbind (ok_or (Sql NoRows) (find_operation d oid)) (\<lambda>r.
       case op_intent r of
         IntentCancellation m ask reason audience inc \<Rightarrow> Inr (ask, reason, audience)
       | _ \<Rightarrow> Inl (InvalidRecord (RecordText ''cancellation operation intent is missing cancelled_ask'')))"

record cancelled_away =
  ca_ask :: message_id
  ca_state :: obligation_state
  ca_reason :: string
  ca_by :: "logical_agent_id option"
  ca_at_ms :: int

definition i64_max_value :: int where "i64_max_value = 2 ^ 63 - 1"

definition created_of :: "(incarnation_row \<Rightarrow> bool) \<Rightarrow> logical_agent_id \<Rightarrow> db \<Rightarrow> int list" where
  "created_of p a d = map in_created_at_ms (filter (\<lambda>i. in_agent i = a \<and> p i) (incarnations d))"

text \<open>After the previous binding came to be and up to the moment the current one did.\<close>

definition away_since :: "logical_agent_id \<Rightarrow> db \<Rightarrow> int" where
  "away_since a d = (case max_option (created_of (\<lambda>_. True) a d) of
     None \<Rightarrow> 0
   | Some newest \<Rightarrow> coalesce0 (max_option (created_of (\<lambda>i. in_created_at_ms i < newest) a d)))"

definition away_until :: "logical_agent_id \<Rightarrow> db \<Rightarrow> int" where
  "away_until a d = (case max_option (created_of is_ready a d) of None \<Rightarrow> i64_max_value | Some t \<Rightarrow> t)"

definition delivered :: "db \<Rightarrow> message_id option \<Rightarrow> bool" where
  "delivered d m \<longleftrightarrow> (case m of None \<Rightarrow> False
     | Some i \<Rightarrow> exists_row (\<lambda>r. dl_message r = i \<and> dl_outcome r = DAccepted) (deliveries d))"

definition cancelled_view :: "obligation_row \<Rightarrow> store_error + cancelled_away" where
  "cancelled_view x = rbind (ok_or (Sql NullColumn) (ob_cancel_reason x)) (\<lambda>reason.
     Inr \<lparr>ca_ask = ob_ask x, ca_state = ob_state x, ca_reason = reason, ca_by = ob_cancel_requester x,
          ca_at_ms = ob_last_activity_ms x\<rparr>)"

definition cancelled_away_rows ::
  "(obligation_row \<Rightarrow> bool) \<Rightarrow> logical_agent_id \<Rightarrow> db \<Rightarrow> store_error + cancelled_away list" where
  "cancelled_away_rows p a d =
     rbind (ensure (agent_exists d a) (Conflict (ConflictText ''logical agent is absent''))) (\<lambda>_.
       rmap cancelled_view (take 20 (sort_key (\<lambda>x. - ob_last_activity_ms x)
         (filter (\<lambda>x. p x \<and> ob_state x \<in> {ObCancelled, ObOrphaned}
            \<and> away_since a d < ob_last_activity_ms x \<and> ob_last_activity_ms x \<le> away_until a d) (obligations d)))))"

definition cancelled_while_away :: "logical_agent_id \<Rightarrow> db \<Rightarrow> store_error + cancelled_away list" where
  "cancelled_while_away a d =
     cancelled_away_rows (\<lambda>x. ob_waiting x = a \<and> \<not> delivered d (ob_cancel_response x)) a d"

definition cancelled_owing_while_away :: "logical_agent_id \<Rightarrow> db \<Rightarrow> store_error + cancelled_away list" where
  "cancelled_owing_while_away a d =
     cancelled_away_rows (\<lambda>x. ob_owing x = a \<and> ob_cancel_owing x \<noteq> None \<and> \<not> delivered d (ob_cancel_owing x)) a d"

section \<open>The content of an ask\<close>

record message_delivery_info =
  md_transport :: delivery_transport
  md_outcome :: delivery_outcome
  md_attempt :: nat
  md_scheduled_at_ms :: int
  md_attempted_at_ms :: "int option"
  md_resolved_at_ms :: "int option"

definition delivery_info :: "delivery_row \<Rightarrow> message_delivery_info" where
  "delivery_info r = \<lparr>md_transport = dl_transport r, md_outcome = dl_outcome r, md_attempt = dl_attempt r,
     md_scheduled_at_ms = dl_scheduled_at_ms r, md_attempted_at_ms = dl_attempted_at_ms r,
     md_resolved_at_ms = dl_resolved_at_ms r\<rparr>"

definition message_delivery_info_of :: "message_id \<Rightarrow> db \<Rightarrow> store_error + message_delivery_info" where
  "message_delivery_info_of m d =
     (case rev (sort_key dl_attempt (filter (\<lambda>r. dl_message r = m) (deliveries d))) of
        [] \<Rightarrow> Inl (InvalidRecord (RecordText (''message '' @ id_display m @ '' has no delivery'')))
      | r # rs \<Rightarrow> Inr (delivery_info r))"

record ask_reply_info =
  ar_message :: message_id
  ar_body :: string
  ar_disposition :: reply_disposition
  ar_created_at_ms :: int
  ar_delivery :: message_delivery_info

definition latest_deliveries :: "db \<Rightarrow> message_id \<Rightarrow> delivery_row list" where
  "latest_deliveries d m = filter (\<lambda>r. dl_message r = m
     \<and> (\<forall>s \<in> set (deliveries d). dl_message s = m \<longrightarrow> dl_attempt s \<le> dl_attempt r)) (deliveries d)"

definition ask_replies :: "message_id \<Rightarrow> db \<Rightarrow> store_error + ask_reply_info list" where
  "ask_replies ask d =
     rmap (\<lambda>(m, r). rbind (ok_or (Sql NullColumn) (ms_disposition m)) (\<lambda>disposition.
             Inr \<lparr>ar_message = ms_id m, ar_body = ms_body m, ar_disposition = disposition,
                  ar_created_at_ms = ms_created_at_ms m, ar_delivery = delivery_info r\<rparr>))
       (concat (map (\<lambda>m. map (Pair m) (latest_deliveries d (ms_id m)))
         (sort_key ms_created_at_ms (sort_key ms_id
           (filter (\<lambda>m. ms_kind m = Reply \<and> ms_reply_to m = Some ask) (messages d))))))"

record reminder_info_data =
  rf_interval_ms :: int
  rf_snoozed_until_ms :: "int option"
  rf_next_eligible_at_ms :: "int option"
  rf_disabled_at_ms :: "int option"
  rf_suspended_at_ms :: "int option"

text \<open>\<open>MAX(next_due_at_ms, COALESCE(snoozed_until_ms, 0))\<close>, null on a null deadline.\<close>

definition reminder_deadline :: "reminder_row \<Rightarrow> int option" where
  "reminder_deadline r = map_option (\<lambda>t. max t (coalesce0 (rm_snoozed_until_ms r))) (rm_next_due_at_ms r)"

definition reminder_info :: "message_id \<Rightarrow> db \<Rightarrow> reminder_info_data option" where
  "reminder_info ask d =
     Option.bind (find_row (\<lambda>r. rm_ask r = ask) (reminders d)) (\<lambda>r.
     map_option (\<lambda>x. \<lparr>rf_interval_ms = rm_interval_ms r, rf_snoozed_until_ms = rm_snoozed_until_ms r,
         rf_next_eligible_at_ms = (if enabled_reminder r \<and> ob_unsettled (ob_state x) then reminder_deadline r else None),
         rf_disabled_at_ms = rm_disabled_at_ms r, rf_suspended_at_ms = rm_suspended_at_ms r\<rparr>) (find_obligation d ask))"

record ask_info_data =
  fo_ask :: message_id
  fo_body :: string
  fo_asker :: logical_agent_id
  fo_asker_name :: string
  fo_responder :: logical_agent_id
  fo_responder_name :: string
  fo_state :: obligation_state
  fo_created_at_ms :: int
  fo_last_activity_ms :: int
  fo_reason :: "string option"
  fo_delivery :: message_delivery_info
  fo_replies :: "ask_reply_info list"
  fo_reminder :: "reminder_info_data option"

definition ask_info :: "message_id \<Rightarrow> db \<Rightarrow> store_error + ask_info_data" where
  "ask_info ask d =
     (let absent = Conflict (ConflictText ''ask message does not name an obligation'') in
      rbind (ok_or absent (find_obligation d ask)) (\<lambda>x.
      rbind (ok_or absent (find_message d ask)) (\<lambda>m.
      rbind (ok_or absent (find_agent d (ob_waiting x))) (\<lambda>wa.
      rbind (ok_or absent (find_agent d (ob_owing x))) (\<lambda>ra.
      rbind (message_delivery_info_of ask d) (\<lambda>delivery.
      rbind (ask_replies ask d) (\<lambda>replies.
        Inr \<lparr>fo_ask = ask, fo_body = ms_body m, fo_asker = ob_waiting x, fo_asker_name = la_public_name wa,
             fo_responder = ob_owing x, fo_responder_name = la_public_name ra, fo_state = ob_state x,
             fo_created_at_ms = ob_created_at_ms x, fo_last_activity_ms = ob_last_activity_ms x,
             fo_reason = ob_cancel_reason x, fo_delivery = delivery, fo_replies = replies,
             fo_reminder = reminder_info ask d\<rparr>)))))))"

section \<open>The earliest due times\<close>

definition next_queued_due_at_ms :: "db \<Rightarrow> int option" where
  "next_queued_due_at_ms d =
     min_option (map dl_scheduled_at_ms (filter (\<lambda>r. dl_outcome r = DQueued) (deliveries d)))"

definition policies_with :: "db \<Rightarrow> (reminder_row \<Rightarrow> bool) \<Rightarrow> (obligation_row \<Rightarrow> bool) \<Rightarrow> reminder_row list" where
  "policies_with d p q = filter (\<lambda>r. p r \<and> enabled_reminder r \<and> policy_with d (rm_ask r) q
     \<and> \<not> in_flight_final d (rm_ask r)) (reminders d)"

definition next_reminder_due_at_ms :: "db \<Rightarrow> int option" where
  "next_reminder_due_at_ms d = min_option (List.map_filter reminder_deadline
     (policies_with d (\<lambda>_. True) (\<lambda>x. ob_unsettled (ob_state x))))"

definition boundary_deadline :: "reminder_row \<Rightarrow> int option" where
  "boundary_deadline r = Option.bind (rm_boundary_check_at_ms r) (\<lambda>b. map_option (max b) (reminder_deadline r))"

definition next_boundary_check_at_ms :: "db \<Rightarrow> int option" where
  "next_boundary_check_at_ms d = min_option (List.map_filter boundary_deadline
     (policies_with d (\<lambda>r. rm_last_accepted_at_ms r = None) (\<lambda>x. ob_state x = ObOpen)))"

end
