(* ===== verification/Recovery.thy ===== *)
theory Recovery
  imports Queries
begin

text \<open>
  Recovery of the store from a Herdr snapshot (\<open>src/src/store.rs\<close>): Ready bindings lost, renamed or
  given a newer conversation reference, unknown starts whose runtime is absent, retirements, the
  identities continued onto restored occupants, due wakes missed while the daemon was down, the
  interrupted operations, and the archive of dead identities.

  One definition per transaction, each a function of the clock reading and the snapshot. Recovery
  as a whole runs them in turn and stops at the first failure, keeping what is committed.
\<close>

section \<open>Bindings\<close>

definition live_seat_and_backend :: "agent_observation \<Rightarrow> string \<Rightarrow> string \<Rightarrow> string \<Rightarrow> bool" where
  "live_seat_and_backend agent pane terminal backend \<longleftrightarrow>
     ao_pane_id agent = pane \<and> ao_terminal_id agent = terminal \<and> ao_agent agent = Some backend"

definition exact_live_binding :: "agent_observation \<Rightarrow> string \<Rightarrow> string \<Rightarrow> string \<Rightarrow> string \<Rightarrow> bool" where
  "exact_live_binding agent pane terminal backend name \<longleftrightarrow>
     live_seat_and_backend agent pane terminal backend \<and> ao_name agent = Some name"

definition insert_restore_notice :: "int \<Rightarrow> string \<Rightarrow> db \<Rightarrow> db" where
  "insert_restore_notice now body d =
     (if exists_row (\<lambda>n. nt_body n = body) (notices d) then d else snd (insert_notice body now d))"

record ready_binding_row =
  rw_incarnation :: incarnation_id
  rw_pane :: string
  rw_terminal :: string
  rw_name :: string
  rw_backend :: string
  rw_session :: "string option"
  rw_pending :: "string option"

definition ready_binding_view :: "db \<Rightarrow> incarnation_row \<Rightarrow> store_error + ready_binding_row list" where
  "ready_binding_view d i = (case find_agent d (in_agent i) of
     None \<Rightarrow> Inr []
   | Some l \<Rightarrow>
       rbind (ok_or (Sql NullColumn) (in_observed_pane i)) (\<lambda>pane.
       rbind (ok_or (Sql NullColumn) (in_observed_terminal i)) (\<lambda>terminal.
         Inr [\<lparr>rw_incarnation = in_id i, rw_pane = pane, rw_terminal = terminal, rw_name = la_public_name l,
               rw_backend = in_backend_kind i, rw_session = in_native_session i,
               rw_pending = in_pending_rename i\<rparr>])))"

definition ready_binding_rows :: "db \<Rightarrow> store_error + ready_binding_row list" where
  "ready_binding_rows d =
     map_sum id concat (rmap (ready_binding_view d) (filter (\<lambda>i. in_state i = IReady) (incarnations d)))"

definition is_incarnation :: "incarnation_id \<Rightarrow> incarnation_row \<Rightarrow> bool" where
  "is_incarnation inc i \<longleftrightarrow> in_id i = inc"

definition is_ready_incarnation :: "incarnation_id \<Rightarrow> incarnation_row \<Rightarrow> bool" where
  "is_ready_incarnation inc i \<longleftrightarrow> in_id i = inc \<and> in_state i = IReady"

definition mark_lost :: "int \<Rightarrow> string \<Rightarrow> incarnation_row \<Rightarrow> incarnation_row" where
  "mark_lost now reason i = i\<lparr>in_state := ILost, in_terminal_at_ms := Some now, in_terminal_reason := Some reason\<rparr>"

text \<open>What the snapshot shows of one Ready binding.\<close>

definition exact_live :: "snapshot \<Rightarrow> ready_binding_row \<Rightarrow> agent_observation option" where
  "exact_live snap r = find_row
     (\<lambda>agent. exact_live_binding agent (rw_pane r) (rw_terminal r) (rw_backend r) (rw_name r)) (sn_agents snap)"

definition unnamed_live :: "snapshot \<Rightarrow> ready_binding_row \<Rightarrow> agent_observation option" where
  "unnamed_live snap r = find_row
     (\<lambda>agent. live_seat_and_backend agent (rw_pane r) (rw_terminal r) (rw_backend r) \<and> unnamed agent) (sn_agents snap)"

definition renamed_live :: "snapshot \<Rightarrow> ready_binding_row \<Rightarrow> agent_observation option" where
  "renamed_live snap r = Option.bind (rw_pending r) (\<lambda>target. find_row
     (\<lambda>agent. exact_live_binding agent (rw_pane r) (rw_terminal r) (rw_backend r) target) (sn_agents snap))"

definition or_else :: "'a option \<Rightarrow> 'a option \<Rightarrow> 'a option" where
  "or_else x y = (case x of None \<Rightarrow> y | Some v \<Rightarrow> Some v)"

definition rotated_session :: "snapshot \<Rightarrow> ready_binding_row \<Rightarrow> string option" where
  "rotated_session snap r =
     (case Option.bind (or_else (renamed_live snap r) (or_else (exact_live snap r) (unnamed_live snap r)))
             ao_agent_session of
        None \<Rightarrow> None
      | Some live \<Rightarrow> if rw_session r \<noteq> None \<and> rw_session r \<noteq> Some live then Some live else None)"

text \<open>Bindings lost, conversation references replaced, and references learned.\<close>

type_synonym binding_counts = "nat \<times> nat \<times> nat"

definition refresh_session :: "int \<Rightarrow> snapshot \<Rightarrow> ready_binding_row \<Rightarrow> db \<Rightarrow> nat \<times> db" where
  "refresh_session now snap r d = (case rotated_session snap r of
     None \<Rightarrow> (0, d)
   | Some live \<Rightarrow>
       let p = is_ready_incarnation (rw_incarnation r)
       in (count_rows p (incarnations d),
           upd_incarnations p (\<lambda>i. i\<lparr>in_native_session := Some live, in_rotated_at_ms := Some now\<rparr>) d))"

definition learn_missing_native_session ::
  "incarnation_id \<Rightarrow> agent_observation option \<Rightarrow> db \<Rightarrow> nat \<times> db" where
  "learn_missing_native_session inc exact d = (case Option.bind exact ao_agent_session of
     None \<Rightarrow> (0, d)
   | Some live \<Rightarrow>
       let p = (\<lambda>i. is_ready_incarnation inc i \<and> in_native_session i = None)
       in (count_rows p (incarnations d), upd_incarnations p (\<lambda>i. i\<lparr>in_native_session := Some live\<rparr>) d))"

definition finish_pending_rename :: "incarnation_id \<Rightarrow> string \<Rightarrow> db \<Rightarrow> db" where
  "finish_pending_rename inc target d =
     upd_incarnations (is_incarnation inc) (\<lambda>i. i\<lparr>in_pending_rename := None\<rparr>)
       (case find_incarnation d inc of None \<Rightarrow> d
        | Some i \<Rightarrow> upd_agents (\<lambda>l. la_id l = in_agent i) (\<lambda>l. l\<lparr>la_public_name := target\<rparr>) d)"

definition settle_binding :: "int \<Rightarrow> snapshot \<Rightarrow> ready_binding_row \<Rightarrow> db \<Rightarrow> nat \<times> db" where
  "settle_binding now snap r d =
     (if renamed_live snap r \<noteq> None
      then (0, finish_pending_rename (rw_incarnation r) (case rw_pending r of None \<Rightarrow> [] | Some t \<Rightarrow> t) d)
      else if exact_live snap r \<noteq> None
      then (0, if rw_pending r \<noteq> None
               then upd_incarnations (is_incarnation (rw_incarnation r)) (\<lambda>i. i\<lparr>in_pending_rename := None\<rparr>) d
               else d)
      else if unnamed_live snap r = None
      then let p = is_ready_incarnation (rw_incarnation r)
           in (count_rows p (incarnations d), upd_incarnations p (mark_lost now ''authoritative_binding_absence'') d)
      else (0, d))"

definition reconcile_binding ::
  "int \<Rightarrow> snapshot \<Rightarrow> ready_binding_row \<Rightarrow> binding_counts \<times> db \<Rightarrow> binding_counts \<times> db" where
  "reconcile_binding now snap r s = (case s of ((lost, refreshed, learned), d) \<Rightarrow>
     let (a, d) = refresh_session now snap r d;
         (b, d) = (if rw_session r = None
                   then learn_missing_native_session (rw_incarnation r) (exact_live snap r) d else (0, d));
         (c, d) = settle_binding now snap r d
     in ((lost + c, refreshed + a, learned + b), d))"

definition reconcile_ready_incarnations :: "int \<Rightarrow> snapshot \<Rightarrow> db \<Rightarrow> store_error + (binding_counts \<times> db)" where
  "reconcile_ready_incarnations now snap d =
     rbind (ready_binding_rows d) (\<lambda>rows. Inr (fold (reconcile_binding now snap) rows ((0, 0, 0), d)))"

section \<open>Unknown starts\<close>

definition unsettled_operation :: "operation_row \<Rightarrow> bool" where
  "unsettled_operation r \<longleftrightarrow> op_outcome r = OpPending \<or> op_outcome r = OpAccepted"

definition unknown_start_rows :: "db \<Rightarrow> (incarnation_row \<times> agent_row) list" where
  "unknown_start_rows d =
     List.map_filter (\<lambda>i. map_option (Pair i) (find_agent d (in_agent i)))
       (filter (\<lambda>i. in_state i = IUnknown
          \<and> \<not> exists_row (\<lambda>r. op_target r = in_id i \<and> unsettled_operation r) (operations d)) (incarnations d))"

definition name_live :: "snapshot \<Rightarrow> string \<Rightarrow> bool" where
  "name_live snap name \<longleftrightarrow> list_ex (\<lambda>agent. ao_name agent = Some name) (sn_agents snap)"

definition recorded_seat_live :: "snapshot \<Rightarrow> incarnation_row \<Rightarrow> bool" where
  "recorded_seat_live snap i = (case in_observed_pane i of
     None \<Rightarrow> False
   | Some pane \<Rightarrow> list_ex (\<lambda>agent. ao_pane_id agent = pane
        \<and> (case in_observed_terminal i of None \<Rightarrow> True | Some t \<Rightarrow> ao_terminal_id agent = t)) (sn_agents snap))"

definition unknown_start_reason :: "incarnation_row \<Rightarrow> string" where
  "unknown_start_reason i = (if in_observed_pane i = None then ''unknown_start_never_bound''
     else ''unknown_start_binding_absence'')"

definition unknown_start_place :: "incarnation_row \<Rightarrow> string" where
  "unknown_start_place i = (case in_observed_pane i of
     Some pane \<Rightarrow> ''no live agent carries that name or occupies its recorded pane '' @ pane
       @ (case in_observed_terminal i of None \<Rightarrow> [] | Some t \<Rightarrow> '' terminal '' @ t)
   | None \<Rightarrow> ''no live agent carries that name (intended pane '' @ in_intended_pane i @ '')'')"

definition unknown_start_live :: "snapshot \<Rightarrow> incarnation_row \<times> agent_row \<Rightarrow> bool" where
  "unknown_start_live snap row \<longleftrightarrow> name_live snap (la_public_name (snd row)) \<or> recorded_seat_live snap (fst row)"

definition settle_unknown_start :: "int \<Rightarrow> incarnation_row \<times> agent_row \<Rightarrow> db \<Rightarrow> bool \<times> db" where
  "settle_unknown_start now row d = (case row of (i, l) \<Rightarrow>
     let p = (\<lambda>j. in_id j = in_id i \<and> in_state j = IUnknown
                \<and> in_observed_pane j = in_observed_pane i \<and> in_observed_terminal j = in_observed_terminal i) in
     if count_rows p (incarnations d) \<noteq> 1 then (False, d)
     else (True, insert_restore_notice now
            (''recovery settled incarnation '' @ id_display (in_id i) @ '' of logical agent ''
             @ id_display (in_agent i) @ '' ('' @ la_public_name l
             @ '') as lost: its start outcome stayed unknown and '' @ unknown_start_place i)
            (upd_incarnations p (mark_lost now (unknown_start_reason i)) d)))"

section \<open>Absent aliases and retirements\<close>

definition release_absent_alias_binding :: "int \<Rightarrow> string \<Rightarrow> snapshot \<Rightarrow> db \<Rightarrow> incarnation_id option \<times> db" where
  "release_absent_alias_binding now name snap d =
     (case find_row (\<lambda>i. in_state i = IReady \<and> named d name (in_agent i)) (incarnations d) of
        None \<Rightarrow> (None, d)
      | Some i \<Rightarrow> (case (in_observed_pane i, in_observed_terminal i) of
          (Some pane, Some terminal) \<Rightarrow>
            let p = is_ready_incarnation (in_id i) in
            if list_ex (\<lambda>agent. ao_pane_id agent = pane \<and> ao_terminal_id agent = terminal) (sn_agents snap)
               \<or> count_rows p (incarnations d) \<noteq> 1
            then (None, d)
            else (Some (in_id i), upd_incarnations p (mark_lost now ''authoritative_binding_absence'') d)
        | _ \<Rightarrow> (None, d)))"

definition reconcile_retirement ::
  "int \<Rightarrow> operation_id \<Rightarrow> incarnation_id \<Rightarrow> string \<Rightarrow> string \<Rightarrow> snapshot \<Rightarrow> db \<Rightarrow> store_error + (bool \<times> db)" where
  "reconcile_retirement now oid inc pane terminal snap d =
     (let p = (\<lambda>i. in_id i = inc \<and> in_state i = IRetiring) in
      if list_ex (\<lambda>agent. ao_pane_id agent = pane \<and> ao_terminal_id agent = terminal) (sn_agents snap)
      then Inr (False, d)
      else rbind (ensure (count_rows p (incarnations d) = 1)
             (Conflict (ConflictText ''retirement result cannot mutate this incarnation''))) (\<lambda>_.
        Inr (True, upd_operations (\<lambda>r. op_id r = oid \<and> op_outcome r = OpAccepted)
            (\<lambda>r. r\<lparr>op_outcome := OpSucceeded, op_resolved_at_ms := Some now\<rparr>)
          (upd_incarnations p (\<lambda>i. i\<lparr>in_state := IRetired, in_terminal_at_ms := Some now,
              in_terminal_reason := Some ''authoritative_absence''\<rparr>) d))))"

definition complete_retirement_if_absent ::
  "int \<Rightarrow> operation_id \<Rightarrow> incarnation_id \<Rightarrow> string \<Rightarrow> string \<Rightarrow> snapshot \<Rightarrow> db \<Rightarrow> store_error + (bool \<times> db)" where
  "complete_retirement_if_absent now oid inc pane terminal snap d =
     reconcile_retirement now oid inc pane terminal snap d"

section \<open>Restored occupants\<close>

text \<open>
  A session id is the \<open>value\<close> member of a conversation reference; its JSON text is read by the
  parameter \<open>sid\<close>. The sessions of a snapshot are visited in the order of a hash map, which is
  unspecified: the parameter \<open>order\<close> permutes them.
\<close>

type_synonym continuable = "incarnation_row \<times> agent_row"

definition joined_rows :: "db \<Rightarrow> continuable list" where
  "joined_rows d = List.map_filter (\<lambda>i. map_option (Pair i) (find_agent d (in_agent i))) (incarnations d)"

definition continuable_state :: "incarnation_state \<Rightarrow> bool" where
  "continuable_state st \<longleftrightarrow> st \<in> {ILost, IUnknown, IDeclared, IFailed}"

definition row_session :: "(string \<Rightarrow> string option) \<Rightarrow> continuable \<Rightarrow> string option" where
  "row_session sid r = Option.bind (in_native_session (fst r)) sid"

definition continuable_session_rows :: "(string \<Rightarrow> string option) \<Rightarrow> db \<Rightarrow> continuable list" where
  "continuable_session_rows sid d = filter (\<lambda>r. continuable_state (in_state (fst r))
     \<and> la_transport (snd r) \<noteq> SocketInbox \<and> row_session sid r \<noteq> None) (joined_rows d)"

definition continuable_seat_rows :: "db \<Rightarrow> continuable list" where
  "continuable_seat_rows d = rev (sort_key (in_created_at_ms \<circ> fst) (sort_key (in_id \<circ> fst)
     (filter (\<lambda>r. continuable_state (in_state (fst r)) \<and> in_observed_pane (fst r) \<noteq> None
        \<and> la_transport (snd r) = HerdrPrompt) (joined_rows d))))"

definition newer :: "incarnation_row \<Rightarrow> incarnation_row \<Rightarrow> bool" where
  "newer j i \<longleftrightarrow> in_created_at_ms i < in_created_at_ms j
     \<or> in_created_at_ms j = in_created_at_ms i \<and> in_id i < in_id j"

definition newest_incarnation_by_pane :: "db \<Rightarrow> string \<Rightarrow> incarnation_id option" where
  "newest_incarnation_by_pane d pane =
     (let here = filter (\<lambda>i. in_observed_pane i = Some pane) (incarnations d)
      in map_option in_id (find_row (\<lambda>i. \<not> list_ex (\<lambda>j. newer j i) here) here))"

definition newest_incarnation_rows :: "db \<Rightarrow> continuable list" where
  "newest_incarnation_rows d = filter (\<lambda>r. \<not> exists_row
     (\<lambda>j. in_agent j = in_agent (fst r) \<and> newer j (fst r)) (incarnations d)) (joined_rows d)"

definition blocked_agents :: "db \<Rightarrow> logical_agent_id list" where
  "blocked_agents d = map (in_agent \<circ> fst) (filter (\<lambda>r. la_transport (snd r) = SocketInbox
     \<or> in_state (fst r) \<in> {IReady, IStarting, IRetiring, IRetired, ISuperseded}) (newest_incarnation_rows d))"

text \<open>Text order of two ids, byte by byte: the tie break of the latest row of an agent.\<close>

fun text_less :: "string \<Rightarrow> string \<Rightarrow> bool" where
  "text_less xs [] = False"
| "text_less [] (y # ys) = True"
| "text_less (x # xs) (y # ys) = (if x = y then text_less xs ys else byte_of x < byte_of y)"

definition later_session_row :: "continuable \<Rightarrow> continuable \<Rightarrow> bool" where
  "later_session_row r s \<longleftrightarrow> in_created_at_ms (fst s) < in_created_at_ms (fst r)
     \<or> in_created_at_ms (fst r) = in_created_at_ms (fst s)
        \<and> text_less (id_display (in_id (fst s))) (id_display (in_id (fst r)))"

definition last_by_agent :: "(string \<Rightarrow> string option) \<Rightarrow> db \<Rightarrow> continuable list" where
  "last_by_agent sid d =
     (let rows = filter (\<lambda>r. in_agent (fst r) \<notin> set (blocked_agents d)) (continuable_session_rows sid d)
      in List.map_filter (\<lambda>a. case filter (\<lambda>r. in_agent (fst r) = a) rows of [] \<Rightarrow> None
           | r # rs \<Rightarrow> Some (fold (\<lambda>x best. if later_session_row x best then x else best) rs r))
         (remdups (map (in_agent \<circ> fst) rows)))"

definition ready_seat_keys :: "db \<Rightarrow> (string \<times> string) list" where
  "ready_seat_keys d = List.map_filter (\<lambda>i. case (in_observed_pane i, in_observed_terminal i) of
       (Some p, Some t) \<Rightarrow> if in_state i = IReady then Some (p, t) else None | _ \<Rightarrow> None) (incarnations d)"

definition ready_logical_agent_ids :: "db \<Rightarrow> logical_agent_id list" where
  "ready_logical_agent_ids d = map in_agent (filter (\<lambda>i. in_state i \<in> {IStarting, IReady}) (incarnations d))"

definition active_waiter_aliases :: "db \<Rightarrow> string list" where
  "active_waiter_aliases d = map la_public_name (filter active_waiter_row (agents d))"

definition ready_alias_owners :: "db \<Rightarrow> (string \<times> logical_agent_id) list" where
  "ready_alias_owners d =
     map (\<lambda>r. (la_public_name (snd r), la_id (snd r)))
       (filter (\<lambda>r. in_state (fst r) \<in> {IStarting, IReady}) (joined_rows d))
     @ List.map_filter (\<lambda>r. if in_state (fst r) = IReady
         then map_option (\<lambda>n. (n, la_id (snd r))) (in_pending_rename (fst r)) else None) (joined_rows d)"

definition same_row_key :: "continuable \<Rightarrow> continuable \<Rightarrow> bool" where
  "same_row_key r s \<longleftrightarrow> in_created_at_ms (fst r) = in_created_at_ms (fst s) \<and> in_id (fst r) = in_id (fst s)"

text \<open>The last of the maximal rows, unless another row has its key.\<close>

definition newest_strictly :: "continuable list \<Rightarrow> continuable option" where
  "newest_strictly rows = (case rows of [] \<Rightarrow> None
     | r # rs \<Rightarrow> let newest = fold (\<lambda>x best. if newer (fst best) (fst x) then best else x) rs r
                in if count_rows (same_row_key newest) rows = 1 then Some newest else None)"

definition trim_slashes :: "string \<Rightarrow> string" where
  "trim_slashes s = rev (dropWhile (\<lambda>c. c = CHR ''/'') (rev s))"

definition seat_occupant :: "snapshot \<Rightarrow> continuable \<Rightarrow> agent_observation option" where
  "seat_occupant snap r =
     Option.bind (in_observed_pane (fst r)) (\<lambda>pane.
       case filter (\<lambda>agent. ao_pane_id agent = pane \<and> \<not> ao_launch_pending agent) (sn_agents snap) of
         [agent] \<Rightarrow>
           if in_observed_terminal (fst r) = Some (ao_terminal_id agent)
              \<or> ao_agent agent \<noteq> Some (in_backend_kind (fst r))
              \<or> (\<not> unnamed agent \<and> ao_name agent \<noteq> Some (la_public_name (snd r)))
           then None
           else Option.bind (Option.bind (find_row (\<lambda>p. po_pane_id p = pane) (sn_panes snap)) po_cwd) (\<lambda>cwd.
             if trim_slashes cwd = trim_slashes (in_working_directory (fst r)) then Some agent else None)
       | _ \<Rightarrow> None)"

fun text_insert :: "string \<Rightarrow> string list \<Rightarrow> string list" where
  "text_insert x [] = [x]"
| "text_insert x (y # ys) = (if text_less y x then y # text_insert x ys else x # y # ys)"

definition text_sort :: "string list \<Rightarrow> string list" where
  "text_sort xs = foldr text_insert xs []"

fun comma_join :: "string list \<Rightarrow> string" where
  "comma_join [] = []"
| "comma_join [x] = x"
| "comma_join (x # y # ys) = x @ '', '' @ comma_join (y # ys)"

definition ambiguous_restore_notice :: "agent_observation list \<Rightarrow> logical_agent_id list \<Rightarrow> string" where
  "ambiguous_restore_notice occupants ids =
     (let (pane, terminal) = (case occupants of [] \<Rightarrow> (''-'', ''-'') | a # as \<Rightarrow> (ao_pane_id a, ao_terminal_id a))
      in ''recovery did not continue native session onto pane '' @ pane @ '' terminal '' @ terminal @ '': ''
         @ show_nat (length ids) @ '' logical agents match ('' @ comma_join (text_sort (map id_display ids)) @ '')'')"

text \<open>A live occupant, the row it continues, and its backend kind.\<close>

type_synonym restored = "agent_observation \<times> continuable \<times> string"

definition live_name :: "agent_observation \<Rightarrow> string option" where
  "live_name agent = (if ao_name agent = Some [] then None else ao_name agent)"

definition session_occupants :: "(string \<Rightarrow> string option) \<Rightarrow> snapshot \<Rightarrow> string \<Rightarrow> agent_observation list" where
  "session_occupants sid snap s = filter (\<lambda>agent. \<not> ao_launch_pending agent
     \<and> Option.bind (ao_agent_session agent) sid = Some s) (sn_agents snap)"

definition live_sessions :: "(string \<Rightarrow> string option) \<Rightarrow> snapshot \<Rightarrow> string list" where
  "live_sessions sid snap = remdups (List.map_filter
     (\<lambda>agent. if ao_launch_pending agent then None else Option.bind (ao_agent_session agent) sid) (sn_agents snap))"

definition restorable :: "db \<Rightarrow> agent_observation \<Rightarrow> continuable \<Rightarrow> bool" where
  "restorable d agent source \<longleftrightarrow>
     (ao_pane_id agent, ao_terminal_id agent) \<notin> set (ready_seat_keys d)
     \<and> in_agent (fst source) \<notin> set (ready_logical_agent_ids d)
     \<and> ao_agent agent \<noteq> None \<and> ao_agent agent \<noteq> Some []
     \<and> (live_name agent = None \<or> live_name agent = Some (la_public_name (snd source)))
     \<and> \<not> (in_observed_pane (fst source) = Some (ao_pane_id agent)
          \<and> in_observed_terminal (fst source) = Some (ao_terminal_id agent))"

text \<open>One session: the rows to continue and the transaction's database, read before it in \<open>d0\<close>.\<close>

definition match_session ::
  "(string \<Rightarrow> string option) \<Rightarrow> int \<Rightarrow> snapshot \<Rightarrow> db \<Rightarrow> string \<Rightarrow> restored list \<times> db \<Rightarrow> restored list \<times> db" where
  "match_session sid now snap d0 s st = (case st of (found, d) \<Rightarrow>
     let occupants = session_occupants sid snap s;
         matches = filter (\<lambda>r. row_session sid r = Some s) (last_by_agent sid d0);
         ids = map (in_agent \<circ> fst) matches;
         ambiguous = insert_restore_notice now (ambiguous_restore_notice occupants ids) d
     in case occupants of
          [agent] \<Rightarrow>
            if ids = [] then (found, d)
            else (case newest_strictly (case live_name agent of
                     Some live \<Rightarrow> filter (\<lambda>r. la_public_name (snd r) = live) matches | None \<Rightarrow> matches) of
                    None \<Rightarrow> (found, ambiguous)
                  | Some source \<Rightarrow>
                      (case ao_agent agent of
                         Some backend \<Rightarrow> if restorable d0 agent source
                                        then (found @ [(agent, source, backend)], d) else (found, d)
                       | None \<Rightarrow> (found, d)))
        | _ \<Rightarrow> (found, if 2 \<le> length ids then ambiguous else d))"

text \<open>The seats: each pane's newest incarnation, when its restored occupant fits it.\<close>

definition match_seat :: "snapshot \<Rightarrow> db \<Rightarrow> logical_agent_id list \<Rightarrow> continuable \<Rightarrow> restored list" where
  "match_seat snap d0 session_continued r = (case in_observed_pane (fst r) of
     None \<Rightarrow> []
   | Some pane \<Rightarrow>
       if newest_incarnation_by_pane d0 pane \<noteq> Some (in_id (fst r))
          \<or> in_agent (fst r) \<in> set (blocked_agents d0) \<or> in_agent (fst r) \<in> set session_continued
          \<or> in_agent (fst r) \<in> set (ready_logical_agent_ids d0)
       then []
       else (case seat_occupant snap r of
               None \<Rightarrow> []
             | Some agent \<Rightarrow>
                 if (ao_pane_id agent, ao_terminal_id agent) \<in> set (ready_seat_keys d0) then []
                 else [(agent, r, in_backend_kind (fst r))]))"

definition restored_agent :: "restored \<Rightarrow> logical_agent_id" where
  "restored_agent t = in_agent (fst (fst (snd t)))"

definition restored_name :: "restored \<Rightarrow> string" where
  "restored_name t = la_public_name (snd (fst (snd t)))"

definition alias_claimants :: "restored list \<Rightarrow> string \<Rightarrow> logical_agent_id list" where
  "alias_claimants found name = remdups (map restored_agent (filter (\<lambda>t. restored_name t = name) found))"

definition restored_row :: "restored \<Rightarrow> int \<Rightarrow> incarnation_row" where
  "restored_row t now = (case t of (agent, (i, l), backend) \<Rightarrow>
     \<lparr>in_id = 0, in_agent = in_agent i, in_herdr_session = in_herdr_session i,
      in_intended_pane = ao_pane_id agent, in_expected_terminal = ao_terminal_id agent,
      in_observed_pane = Some (ao_pane_id agent), in_observed_terminal = Some (ao_terminal_id agent),
      in_backend_kind = backend, in_working_directory = in_working_directory i, in_created_at_ms = now,
      in_terminal_at_ms = None, in_terminal_reason = None, in_state = IReady,
      in_native_session = ao_agent_session agent, in_requested = in_requested i, in_pending_rename = None,
      in_backend_args = in_backend_args i, in_rotated_at_ms = None\<rparr>)"

definition continue_restored ::
  "int \<Rightarrow> db \<Rightarrow> restored list \<Rightarrow> restored \<Rightarrow> nat \<times> db \<Rightarrow> store_error + (nat \<times> db)" where
  "continue_restored now d0 found t s = (case s of (n, d) \<Rightarrow>
     let a = restored_agent t; name = restored_name t; ids = alias_claimants found name;
         refused = (\<lambda>by. ''recovery did not continue logical agent '' @ id_display a @ '' ('' @ name
           @ ''): alias already bound to a '' @ by)
     in if 2 \<le> length ids
        then Inr (n, insert_restore_notice now (''recovery did not continue alias '' @ name @ '': ''
          @ show_nat (length ids) @ '' logical agents match (''
          @ comma_join (text_sort (map id_display ids)) @ '')'') d)
        else if list_ex (\<lambda>(m, owner). m = name \<and> owner \<noteq> a) (ready_alias_owners d0)
        then Inr (n, insert_restore_notice now (refused ''live or starting agent'') d)
        else if name \<in> set (active_waiter_aliases d0)
        then Inr (n, insert_restore_notice now (refused ''socket waiter'') d)
        else rbind (insert_incarnation (restored_row t now) d) (\<lambda>(inc, d).
          Inr (Suc n, insert_restore_notice now (''recovery continued logical agent '' @ id_display a @ '' (''
            @ name @ '') onto pane '' @ ao_pane_id (fst t) @ '' terminal '' @ ao_terminal_id (fst t)
            @ '' as incarnation '' @ id_display inc) d)))"

fun continue_all ::
  "int \<Rightarrow> db \<Rightarrow> restored list \<Rightarrow> restored list \<Rightarrow> nat \<times> db \<Rightarrow> store_error + (nat \<times> db)" where
  "continue_all now d0 found [] s = Inr s"
| "continue_all now d0 found (t # ts) s =
     rbind (continue_restored now d0 found t s) (continue_all now d0 found ts)"

definition continue_restored_occupants ::
  "(string \<Rightarrow> string option) \<Rightarrow> (string list \<Rightarrow> string list) \<Rightarrow> int \<Rightarrow> snapshot \<Rightarrow> db \<Rightarrow> store_error + (nat \<times> db)" where
  "continue_restored_occupants sid order now snap d =
     (if last_by_agent sid d = [] \<and> continuable_seat_rows d = [] then Inr (0, d)
      else let (by_session, d') = fold (match_session sid now snap d) (order (live_sessions sid snap)) ([], d);
               seats = concat (map (match_seat snap d (map restored_agent by_session)) (continuable_seat_rows d));
               found = by_session @ seats
           in continue_all now d found found (0, d'))"

section \<open>The archive\<close>

definition dead_since :: "db \<Rightarrow> incarnation_row \<Rightarrow> int" where
  "dead_since d i = (case in_terminal_at_ms i of Some t \<Rightarrow> t
     | None \<Rightarrow> (case max_option (List.map_filter op_resolved_at_ms
                  (filter (\<lambda>r. op_target r = in_id i) (operations d))) of
                 Some t \<Rightarrow> t | None \<Rightarrow> in_created_at_ms i))"

definition dead_identity :: "db \<Rightarrow> int \<Rightarrow> agent_row \<Rightarrow> bool" where
  "dead_identity d before l \<longleftrightarrow>
     (let a = la_id l; own = filter (\<lambda>i. in_agent i = a) (incarnations d) in
      la_archived_at_ms l = None \<and> la_transport l = HerdrPrompt \<and> own \<noteq> []
      \<and> list_all (\<lambda>i. in_state i \<in> {IFailed, ILost, IRetired, ISuperseded}) own
      \<and> \<not> exists_row (\<lambda>x. ob_unsettled (ob_state x) \<and> (ob_owing x = a \<or> ob_waiting x = a)) (obligations d)
      \<and> \<not> exists_row (\<lambda>r. unsettled_operation r \<and> list_ex (\<lambda>i. in_id i = op_target r) own) (operations d)
      \<and> \<not> exists_row (\<lambda>c. sc_state c = SchedActive \<and> (sc_agent c = a \<or> sc_requester c = a)) (schedules d)
      \<and> \<not> exists_row (\<lambda>r. rn_agent r = a \<and> \<not> renew_ended (rn_phase r)) (renews d)
      \<and> list_all (\<lambda>i. dead_since d i \<le> before) own)"

definition archive_dead_identities :: "int \<Rightarrow> int \<Rightarrow> db \<Rightarrow> nat \<times> db" where
  "archive_dead_identities now_ms grace d =
     (let p = dead_identity d (now_ms - grace)
      in (count_rows p (agents d), upd_agents p (\<lambda>l. l\<lparr>la_archived_at_ms := Some now_ms\<rparr>) d))"

section \<open>Interrupted operations\<close>

definition fail_unattempted_clear :: "int \<Rightarrow> operation_id \<Rightarrow> db \<Rightarrow> bool \<times> db" where
  "fail_unattempted_clear now oid d =
     (let p = (\<lambda>r. op_id r = oid \<and> op_kind r = KClear \<and> op_outcome r = OpPending
                \<and> \<not> exists_row (\<lambda>a. at_operation a = oid \<and> at_phase a \<noteq> APrepared) (attempts d))
      in (count_rows p (operations d) = 1,
          upd_operations p (\<lambda>r. r\<lparr>op_outcome := OpFailed, op_resolved_at_ms := Some now\<rparr>) d))"

record recovery_candidate =
  rc_operation :: operation_id
  rc_incarnation :: incarnation_id
  rc_kind :: operation_kind
  rc_pane :: string
  rc_terminal :: string
  rc_intent :: operation_intent
  rc_attempted :: bool

definition candidate_view :: "db \<Rightarrow> operation_row \<Rightarrow> recovery_candidate option" where
  "candidate_view d r = map_option (\<lambda>i.
     \<lparr>rc_operation = op_id r, rc_incarnation = op_target r, rc_kind = op_kind r,
      rc_pane = in_intended_pane i, rc_terminal = in_expected_terminal i, rc_intent = op_intent r,
      rc_attempted = exists_row (\<lambda>a. at_operation a = op_id r \<and> at_phase a \<noteq> APrepared) (attempts d)\<rparr>)
     (find_incarnation d (op_target r))"

definition recovery_candidates :: "nat option \<Rightarrow> db \<Rightarrow> recovery_candidate list" where
  "recovery_candidates floor_id d = List.map_filter (candidate_view d)
     (filter (\<lambda>r. unsettled_operation r \<and> (case floor_id of None \<Rightarrow> True | Some f \<Rightarrow> op_id r \<le> f)) (operations d))"

text \<open>The highest operation id when a live daemon takes ownership.\<close>

definition claim_live_operations :: "db \<Rightarrow> nat" where
  "claim_live_operations d = fold max (map op_id (operations d)) 0"

definition scheduled_intent :: "operation_intent \<Rightarrow> bool" where
  "scheduled_intent n = (case n of IntentScheduled m s c \<Rightarrow> True | _ \<Rightarrow> False)"

definition missed_due_wakes :: "int \<Rightarrow> db \<Rightarrow> store_error + (operation_id \<times> incarnation_id) list" where
  "missed_due_wakes now_ms d =
     rmap (\<lambda>(oid, inc). rbind (ok_or (Sql NullColumn) inc) (\<lambda>i. Inr (oid, i)))
       (List.map_filter (\<lambda>r. Option.bind (dl_operation r) (\<lambda>oid.
            Option.bind (find_operation d oid) (\<lambda>p.
              if dl_outcome r = DQueued \<and> dl_scheduled_at_ms r \<le> now_ms \<and> unsettled_operation p
                 \<and> \<not> scheduled_intent (op_intent p)
                 \<and> \<not> (case dl_incarnation r of None \<Rightarrow> False | Some i \<Rightarrow> clear_in_flight d i)
              then Some (oid, dl_incarnation r) else None))) (deliveries d))"

definition unknown_prompt_notice :: "operation_id \<Rightarrow> incarnation_id \<Rightarrow> string" where
  "unknown_prompt_notice oid inc = ''prompt operation '' @ id_display oid
     @ '' has unknown delivery outcome for incarnation '' @ id_display inc"

definition start_proof :: "snapshot \<Rightarrow> recovery_candidate \<Rightarrow> agent_observation option" where
  "start_proof snap c = (case rc_intent c of
     IntentStart n \<Rightarrow> find_row (\<lambda>agent. ao_pane_id agent = rc_pane c \<and> ao_terminal_id agent = rc_terminal c
        \<and> ao_name agent = Some (si_public_name n) \<and> ao_agent agent = Some (si_backend_kind n)
        \<and> ao_interactive_ready agent \<and> \<not> ao_launch_pending agent) (sn_agents snap)
   | _ \<Rightarrow> None)"

definition adopt_proof :: "snapshot \<Rightarrow> recovery_candidate \<Rightarrow> string \<Rightarrow> agent_observation option" where
  "adopt_proof snap c intended = find_row (\<lambda>agent. ao_pane_id agent = rc_pane c
     \<and> ao_terminal_id agent = rc_terminal c \<and> ao_name agent = Some intended \<and> \<not> ao_launch_pending agent)
     (sn_agents snap)"

definition adopt_intended_name :: "operation_intent \<Rightarrow> store_error + string" where
  "adopt_intended_name n = (case n of
     IntentAdopt a name \<Rightarrow>
       if name = [] then Inl (InvalidRecord (RecordText ''adopt intent is missing public_name'')) else Inr name
   | _ \<Rightarrow> Inl (InvalidRecord (RecordText ''adopt intent is missing public_name'')))"

definition clear_prompt_settle_delay_ms :: "operation_intent \<Rightarrow> store_error + int" where
  "clear_prompt_settle_delay_ms n = (case n of
     IntentClear a inc delay \<Rightarrow> Inr delay
   | _ \<Rightarrow> Inl (InvalidRecord (RecordText ''clear intent is missing prompt_settle_delay_ms'')))"

end
