(* ===== verification/Steps.thy ===== *)
theory Steps
  imports Contracts Recovery
begin

text \<open>
  The store as a transition system: one rule per operation that writes, grouped by component. A
  step is a committed transaction; a failed operation changes nothing and is no step. The states
  of the store are those reachable from the empty database of a fresh schema.
\<close>

inductive journal_step :: "db \<Rightarrow> db \<Rightarrow> bool" where
  journal_begin: "begin_attempt now oid inc rq d = Inr (n, d') \<Longrightarrow> journal_step d d'"
| journal_start_submitted: "accept_start_submission oid inc pane t d = Inr d' \<Longrightarrow> journal_step d d'"
| journal_start_ready: "accept_start_ready now oid inc agent prev d = Inr d' \<Longrightarrow> journal_step d d'"
| journal_unknown: "mark_unknown now oid inc ev d = Inr d' \<Longrightarrow> journal_step d d'"
| journal_clear_unknown: "mark_clear_unknown now oid inc ev delay d = Inr d' \<Longrightarrow> journal_step d d'"
| journal_retryable: "reject_attempt now oid inc ev d = Inr d' \<Longrightarrow> journal_step d d'"
| journal_rejected: "out \<in> {DRejected, DTargetUnavailable} \<Longrightarrow> mark_rejected now oid inc ev out d = Inr d'
    \<Longrightarrow> journal_step d d'"
| journal_submitted: "mark_submitted now oid n rq d = Inr d' \<Longrightarrow> journal_step d d'"
| journal_submit_queued: "submit_queued_delivery oid n rq now d = Inr d' \<Longrightarrow> journal_step d d'"

inductive lifecycle_step :: "db \<Rightarrow> db \<Rightarrow> bool" where
  lifecycle_start: "declare_start now intent d = Inr (s, d') \<Longrightarrow> lifecycle_step d d'"
| lifecycle_adopt: "declare_adopt now adopting ev d = Inr (s, d') \<Longrightarrow> lifecycle_step d d'"
| lifecycle_adopt_pending: "declare_adopt_pending now adopting ev d = Inr (s, d') \<Longrightarrow> lifecycle_step d d'"
| lifecycle_adopt_ready: "accept_adopt_ready now oid inc agent d = Inr d' \<Longrightarrow> lifecycle_step d d'"
| lifecycle_clear: "create_clear now a inc settle key d = Inr (i, d') \<Longrightarrow> lifecycle_step d d'"
| lifecycle_clear_done: "complete_clear now oid inc session settle d = Inr d' \<Longrightarrow> lifecycle_step d d'"
| lifecycle_retire: "request_retirement now inc key d = Inr (i, d') \<Longrightarrow> lifecycle_step d d'"
| lifecycle_rename: "declare_rename inc name d = Inr d' \<Longrightarrow> lifecycle_step d d'"
| lifecycle_rename_done: "commit_rename inc name d = Inr d' \<Longrightarrow> lifecycle_step d d'"
| lifecycle_rename_dropped: "abandon_rename inc d = d' \<Longrightarrow> lifecycle_step d d'"
| lifecycle_session_filled: "fill_observed_native_session inc pane t session d = (b, d') \<Longrightarrow> lifecycle_step d d'"
| lifecycle_session_replaced: "replace_observed_native_session inc session d = Inr d' \<Longrightarrow> lifecycle_step d d'"
| lifecycle_notice: "create_operator_notice now body d = (i, d') \<Longrightarrow> lifecycle_step d d'"

inductive waiter_step :: "db \<Rightarrow> db \<Rightarrow> bool" where
  waiter_register: "register_socket_waiter now name par key d = Inr (a, d') \<Longrightarrow> waiter_step d d'"
| waiter_end: "end_socket_waiter_with_owing_due now a due reason d = Inr (cs, ns, d') \<Longrightarrow> waiter_step d d'"
| waiter_record: "record_socket_inbox_delivery now m a out d = Inr d' \<Longrightarrow> waiter_step d d'"
| waiter_lease: "claim_ask_pull_lease now ask a d = Inr (n, d') \<Longrightarrow> waiter_step d d'"
| waiter_touch: "touch_waiter_seen a now d = (b, d') \<Longrightarrow> waiter_step d d'"
| waiter_boot: "boot_reset_waiter_seen now d = (n, d') \<Longrightarrow> waiter_step d d'"

inductive message_step :: "db \<Rightarrow> db \<Rightarrow> bool" where
  message_initial: "create_initial_message now a inc intent key d = Inr (m, oid, d') \<Longrightarrow> message_step d d'"
| message_ask: "create_ask_with_reply_delivery now s r inc body key due rem op rd d = Inr (m, oid, d') \<Longrightarrow> message_step d d'"
| message_tell: "create_tell_with_due now s r inc body key due d = Inr (m, oid, d') \<Longrightarrow> message_step d d'"
| message_socket_tell: "create_socket_tell now s r body key due d = Inr (m, d') \<Longrightarrow> message_step d d'"
| message_reply: "create_reply_with_due now ask s body disposition key due d = Inr (reply, d') \<Longrightarrow> message_step d d'"

inductive settle_step :: "db \<Rightarrow> db \<Rightarrow> bool" where
  settle_cancel: "cancel_obligation now a ask reason d = Inr d' \<Longrightarrow> settle_step d d'"
| settle_cancel_notify: "cancel_with_response now a ask reason body obody due odue d = Inr (c, d') \<Longrightarrow> settle_step d d'"
| settle_cancel_queued: "cancel_queued_delivery now a m reason d = Inr (b, d') \<Longrightarrow> settle_step d d'"
| settle_supersede: "supersede_settled_queued_asks now d = (n, d') \<Longrightarrow> settle_step d d'"
| settle_observe: "observe_ask_availability now d = (n, d') \<Longrightarrow> settle_step d d'"
| settle_orphan: "orphan_ask now ask d = Inr (oc, d') \<Longrightarrow> settle_step d d'"

inductive schedule_step :: "db \<Rightarrow> db \<Rightarrow> bool" where
  schedule_create: "create_tell_schedule now s r body every first key d = Inr (c, d') \<Longrightarrow> schedule_step d d'"
| schedule_fire: "fire_tell_schedule item now d = Inr (f, d') \<Longrightarrow> schedule_step d d'"
| schedule_cancel: "cancel_schedule now sid a reason d = Inr d' \<Longrightarrow> schedule_step d d'"

inductive reminder_step :: "db \<Rightarrow> db \<Rightarrow> bool" where
  reminder_observe: "observe_reminder_lifecycle ask w next d = Inr d' \<Longrightarrow> reminder_step d d'"
| reminder_prepare: "prepare_reminder_attempt item rq now d = Inr d' \<Longrightarrow> reminder_step d d'"
| reminder_submit: "submit_reminder_attempt rq d = Inr d' \<Longrightarrow> reminder_step d d'"
| reminder_resolve: "resolve_reminder_attempt rq out ev now d = Inr d' \<Longrightarrow> reminder_step d d'"
| reminder_defer: "defer_busy_reminder ask now recheck d = Inr d' \<Longrightarrow> reminder_step d d'"
| reminder_reconcile: "reconcile_reminder_attempts live now d = (n, d') \<Longrightarrow> reminder_step d d'"
| reminder_snooze: "snooze_reminder now a ask until d = Inr d' \<Longrightarrow> reminder_step d d'"
| reminder_slower: "increase_reminder_interval now a ask every d = Inr d' \<Longrightarrow> reminder_step d d'"
| reminder_disable: "disable_reminder now a ask d = Inr d' \<Longrightarrow> reminder_step d d'"

inductive renew_step :: "db \<Rightarrow> db \<Rightarrow> bool" where
  renew_create: "create_renew now intent d = Inr (i, d') \<Longrightarrow> renew_step d d'"
| renew_accrue: "accrue_renew_occupancy i acc now d = Inr d' \<Longrightarrow> renew_step d d'"
| renew_preparing: "mark_renew_preparing i ask deadline d = Inr d' \<Longrightarrow> renew_step d d'"
| renew_ready: "mark_renew_ready now i d = Inr d' \<Longrightarrow> renew_step d d'"
| renew_clearing: "mark_renew_clearing i session deadline nb d = Inr d' \<Longrightarrow> renew_step d d'"
| renew_stall: "claim_renew_clear_stall_notice i now d = (b, d') \<Longrightarrow> renew_step d d'"
| renew_injected: "mark_renew_injected i d = Inr d' \<Longrightarrow> renew_step d d'"
| renew_complete: "complete_renew now i d = Inr (j, d') \<Longrightarrow> renew_step d d'"
| renew_timed_out: "mark_renew_timed_out i d = Inr d' \<Longrightarrow> renew_step d d'"
| renew_abort: "abort_renew now i reason d = Inr (j, d') \<Longrightarrow> renew_step d d'"
| renew_abandon: "abandon_renew_proof now i reason d = Inr (j, d') \<Longrightarrow> renew_step d d'"
| renew_terminate: "terminate_renew now i reason d = Inr d' \<Longrightarrow> renew_step d d'"
| renew_terminate_announced: "terminate_renew_announced now i reason body d = Inr (n, d') \<Longrightarrow> renew_step d d'"
| renew_cancel: "cancel_renew now i a reason body d = Inr (n, d') \<Longrightarrow> renew_step d d'"
| renew_attempt: "prepare_renew_attempt i inc step rq now d = Inr d' \<Longrightarrow> renew_step d d'"
| renew_attempt_submitted: "submit_renew_attempt rq d = Inr d' \<Longrightarrow> renew_step d d'"
| renew_attempt_resolved: "resolve_renew_attempt rq out ev now d = Inr d' \<Longrightarrow> renew_step d d'"

inductive ack_step :: "db \<Rightarrow> db \<Rightarrow> bool" where
  ack_prompt: "accept_delivery_with_submission now oid inc pane t sub d = Inr d' \<Longrightarrow> ack_step d d'"
| ack_inbox: "ack_socket_inbox_delivery now a m d = Inr (out, d') \<Longrightarrow> ack_step d d'"
| ack_pull: "ack_ask_pull_delivery now ask a m lease d = Inr (out, d') \<Longrightarrow> ack_step d d'"

inductive recovery_step :: "db \<Rightarrow> db \<Rightarrow> bool" where
  recovery_bindings: "reconcile_ready_incarnations now snap d = Inr (c, d') \<Longrightarrow> recovery_step d d'"
| recovery_restored: "continue_restored_occupants sid order now snap d = Inr (n, d') \<Longrightarrow> recovery_step d d'"
| recovery_unknown: "settle_unknown_start now row d = (b, d') \<Longrightarrow> recovery_step d d'"
| recovery_released: "release_absent_alias_binding now name snap d = (r, d') \<Longrightarrow> recovery_step d d'"
| recovery_retired: "reconcile_retirement now oid inc pane t snap d = Inr (b, d') \<Longrightarrow> recovery_step d d'"
| recovery_clear_failed: "fail_unattempted_clear now oid d = (b, d') \<Longrightarrow> recovery_step d d'"
| recovery_archived: "archive_dead_identities now grace d = (n, d') \<Longrightarrow> recovery_step d d'"

inductive store_step :: "db \<Rightarrow> db \<Rightarrow> bool" where
  "journal_step d d' \<Longrightarrow> store_step d d'"
| "lifecycle_step d d' \<Longrightarrow> store_step d d'"
| "waiter_step d d' \<Longrightarrow> store_step d d'"
| "message_step d d' \<Longrightarrow> store_step d d'"
| "settle_step d d' \<Longrightarrow> store_step d d'"
| "schedule_step d d' \<Longrightarrow> store_step d d'"
| "reminder_step d d' \<Longrightarrow> store_step d d'"
| "renew_step d d' \<Longrightarrow> store_step d d'"
| "recovery_step d d' \<Longrightarrow> store_step d d'"
| "ack_step d d' \<Longrightarrow> store_step d d'"

inductive reachable :: "db \<Rightarrow> bool" where
  reachable_fresh: "reachable empty_db"
| reachable_step: "reachable d \<Longrightarrow> store_step d d' \<Longrightarrow> reachable d'"

inductive_cases store_stepE: "store_step d d'"
inductive_cases ack_stepE: "ack_step d d'"
inductive_simps ack_step_iff: "ack_step d d'"

lemma reachable_steps: "store_step\<^sup>*\<^sup>* d d' \<Longrightarrow> reachable d \<Longrightarrow> reachable d'"
  by (induction rule: rtranclp_induct) (auto intro: reachable_step)

section \<open>The steps keep the ledger\<close>

lemma journal_step_quiet: "journal_step d d' \<Longrightarrow> keeps_ledger_quietly d d'"
  by (induction rule: journal_step.induct) (auto intro: quiet.rel_frame frames)

lemma lifecycle_step_quiet: "lifecycle_step d d' \<Longrightarrow> keeps_ledger_quietly d d'"
proof (induction rule: lifecycle_step.induct)
  case (lifecycle_session_filled inc pane t session d b d')
  then show ?case using plain_frames(3) [of inc pane t session d] by (auto intro: quiet.rel_frame)
next
  case (lifecycle_notice now body d i d')
  then show ?case using plain_frames(2) [of now body d] by (auto intro: quiet.rel_frame)
qed (auto intro: quiet.rel_frame frames)

lemma waiter_step_quiet: "waiter_step d d' \<Longrightarrow> keeps_ledger_quietly d d'"
proof (induction rule: waiter_step.induct)
  case (waiter_touch a now d b d')
  then show ?case using waiter_seen_frames(1) [of a now d] by (auto intro: quiet.rel_frame)
next
  case (waiter_boot now d n d')
  then show ?case using waiter_seen_frames(2) [of now d] by (auto intro: quiet.rel_frame)
qed (auto intro: quiet.rel_frame frames end_socket_waiter_quiet)

lemma message_step_quiet: "message_step d d' \<Longrightarrow> keeps_ledger_quietly d d'"
  by (induction rule: message_step.induct)
    (auto intro: create_initial_message_quiet create_ask_quiet create_tell_quiet create_socket_tell_quiet
      create_reply_quiet)

lemma settle_step_quiet: "settle_step d d' \<Longrightarrow> keeps_ledger_quietly d d'"
proof (induction rule: settle_step.induct)
  case (settle_supersede now d n d')
  then show ?case using supersede_settled_queued_asks_frame [of now d] by (auto intro: quiet.rel_frame)
next
  case (settle_observe now d n d')
  then show ?case using observe_ask_availability_quiet [of d now] by simp
qed (auto intro: cancel_obligation_quiet cancel_with_response_quiet cancel_queued_delivery_quiet
    orphan_ask_quiet)

lemma schedule_step_quiet: "schedule_step d d' \<Longrightarrow> keeps_ledger_quietly d d'"
  by (induction rule: schedule_step.induct) (auto intro: quiet.rel_frame frames fire_tell_schedule_quiet)

lemma reminder_step_quiet: "reminder_step d d' \<Longrightarrow> keeps_ledger_quietly d d'"
proof (induction rule: reminder_step.induct)
  case (reminder_reconcile live now d n d')
  then show ?case using reconcile_reminder_attempts_frame [of live now d] by (auto intro: quiet.rel_frame)
qed (auto intro: quiet.rel_frame frames)

lemma renew_step_quiet: "renew_step d d' \<Longrightarrow> keeps_ledger_quietly d d'"
proof (induction rule: renew_step.induct)
  case (renew_stall i now d b d')
  then show ?case using claim_stall_frame [of i now d] by (auto intro: quiet.rel_frame)
qed (auto intro: quiet.rel_frame frames mark_renew_ready_quiet abort_renew_quiet terminate_renew_quiet
    terminate_renew_announced_quiet cancel_renew_quiet)

lemma restore_notice_frame [simp]: "ledger_view (insert_restore_notice now body d) = ledger_view d"
  by (simp add: insert_restore_notice_def insert_notice_def Let_def ledger_view_def)

lemma reconcile_binding_frame: "ledger_view (snd (reconcile_binding now snap r s)) = ledger_view (snd s)"
  by (auto simp: reconcile_binding_def refresh_session_def learn_missing_native_session_def settle_binding_def
      finish_pending_rename_def Let_def ledger_view_def split: option.splits prod.splits)

lemma reconcile_bindings_frame: "ledger_view (snd (fold (reconcile_binding now snap) rows s)) = ledger_view (snd s)"
  by (induction rows arbitrary: s) (simp_all add: reconcile_binding_frame)

lemma match_session_frame: "ledger_view (snd (match_session sid now snap d0 x s)) = ledger_view (snd s)"
  by (auto simp: match_session_def Let_def split: prod.splits list.splits option.splits)

lemma match_sessions_frame: "ledger_view (snd (fold (match_session sid now snap d0) xs s)) = ledger_view (snd s)"
  by (induction xs arbitrary: s) (simp_all add: match_session_frame)

lemma incarnation_insert_frame: "insert_incarnation row d = Inr (i, d') \<Longrightarrow> ledger_view d' = ledger_view d"
  by (auto simp: insert_incarnation_def Let_def result_simps ledger_view_def)

lemma continue_restored_frame:
  "continue_restored now d0 found t s = Inr s' \<Longrightarrow> ledger_view (snd s') = ledger_view (snd s)"
  by (auto simp: continue_restored_def Let_def result_simps split: prod.splits if_splits
      dest!: incarnation_insert_frame)

lemma continue_all_frame:
  "continue_all now d0 found ts s = Inr s' \<Longrightarrow> ledger_view (snd s') = ledger_view (snd s)"
proof (induction ts arbitrary: s)
  case (Cons t ts)
  then obtain s1 where s1: "continue_restored now d0 found t s = Inr s1" "continue_all now d0 found ts s1 = Inr s'"
    by (auto simp: result_simps)
  show ?case using Cons.IH [OF s1(2)] continue_restored_frame [OF s1(1)] by simp
qed simp

lemma continue_restored_occupants_frame:
  assumes "continue_restored_occupants sid order now snap d = Inr (n, d')" shows "ledger_view d' = ledger_view d"
proof (cases "last_by_agent sid d = [] \<and> continuable_seat_rows d = []")
  case True
  then show ?thesis using assms by (auto simp: continue_restored_occupants_def)
next
  case False
  obtain fs d1 where m: "fold (match_session sid now snap d) (order (live_sessions sid snap)) ([], d) = (fs, d1)"
    by fastforce
  have "ledger_view d1 = ledger_view d"
    using match_sessions_frame [of sid now snap d "order (live_sessions sid snap)" "([], d)"] m by simp
  moreover have "ledger_view d' = ledger_view d1"
    using assms False m by (auto simp: continue_restored_occupants_def Let_def dest: continue_all_frame)
  ultimately show ?thesis by simp
qed

lemma recovery_step_frame: "recovery_step d d' \<Longrightarrow> ledger_view d' = ledger_view d"
proof (induction rule: recovery_step.induct)
  case (recovery_bindings now snap d c d')
  then obtain rows where "fold (reconcile_binding now snap) rows ((0, 0, 0), d) = (c, d')"
    by (auto simp: reconcile_ready_incarnations_def result_simps)
  with reconcile_bindings_frame [of now snap rows "((0, 0, 0), d)"] show ?case by simp
qed (auto simp: settle_unknown_start_def release_absent_alias_binding_def reconcile_retirement_def
    fail_unattempted_clear_def archive_dead_identities_def Let_def result_simps
    split: prod.splits option.splits if_splits intro: continue_restored_occupants_frame)

lemma recovery_step_quiet: "recovery_step d d' \<Longrightarrow> keeps_ledger_quietly d d'"
  by (rule quiet.rel_frame [OF recovery_step_frame])

lemma ack_step_acknowledges: "ack_step d d' \<Longrightarrow> acknowledges d d'"
  by (induction rule: ack_step.induct)
    (auto intro: accept_delivery_acknowledges ack_socket_inbox_acknowledges ack_ask_pull_acknowledges)

text \<open>Every step but an acknowledgement is quiet.\<close>

lemma store_step_quiet: "store_step d d' \<Longrightarrow> ack_step d d' \<or> keeps_ledger_quietly d d'"
  by (auto elim!: store_stepE intro: journal_step_quiet lifecycle_step_quiet waiter_step_quiet
      message_step_quiet settle_step_quiet schedule_step_quiet reminder_step_quiet renew_step_quiet recovery_step_quiet)

lemma store_step_keeps: "store_step d d' \<Longrightarrow> keeps_ledger d d'"
  using store_step_quiet [of d d'] by (auto intro: quietly_keeps acknowledges_keeps ack_step_acknowledges)

lemma ledger_ok_empty: "ledger_ok empty_db"
  by (simp add: ledger_ok_def empty_db_def)

lemma reachable_ledger_ok: "reachable d \<Longrightarrow> ledger_ok d"
proof (induction rule: reachable.induct)
  case reachable_fresh show ?case by (rule ledger_ok_empty)
next
  case (reachable_step d d')
  then show ?case using store_step_keeps [of d d'] by (simp add: keeps_ledger_def)
qed

end
