(* ===== verification/Cast.thy ===== *)
theory Cast
  imports Steps
begin

text \<open>
  The operations on messages, obligations, schedules and reminders leave the cast of the store as
  it is: its agents, its incarnations and its renews.
\<close>

named_theorems cast_frames "the operations that leave agents, incarnations and renews as they are"

definition cast_view ::
  "db \<Rightarrow> agent_row list \<times> nat \<times> incarnation_row list \<times> nat \<times> renew_row list \<times> nat" where
  "cast_view d = (agents d, seq_agents d, incarnations d, seq_incarnations d, renews d, seq_renews d)"

lemma cast_view_update [simp]:
  "cast_view (upd_operations po fo d) = cast_view d"
  "cast_view (upd_attempts pt ft d) = cast_view d"
  "cast_view (upd_obligations pb fb d) = cast_view d"
  "cast_view (upd_deliveries pd fd d) = cast_view d"
  "cast_view (upd_reminders pr fr d) = cast_view d"
  "cast_view (upd_reminder_attempts pq fq d) = cast_view d"
  "cast_view (upd_schedules ps fs d) = cast_view d"
  "cast_view (upd_renew_attempts pm fm d) = cast_view d"
  by (simp_all add: cast_view_def)

lemma insert_cast_frames [cast_frames]:
  "insert_message s r k b now rt ds c d = Inr (m, d') \<Longrightarrow> cast_view d' = cast_view d"
  "insert_obligation m ow wa now rd d = Inr d' \<Longrightarrow> cast_view d' = cast_view d"
  "insert_operation key kind target intent now d = Inr (oid, d') \<Longrightarrow> cast_view d' = cast_view d"
  "insert_delivery row d = Inr d' \<Longrightarrow> cast_view d' = cast_view d"
  by (auto simp: insert_message_Inr insert_obligation_Inr insert_simps cast_view_def)

lemma insert_reminder_cast [cast_frames]:
  "insert_reminder ask v d = Inr d' \<Longrightarrow> cast_view d' = cast_view d"
  by (auto simp: insert_reminder_def Let_def result_simps cast_view_def)

lemma insert_notice_cast [simp]: "cast_view (snd (insert_notice body now d)) = cast_view d"
  by (simp add: insert_notice_def Let_def cast_view_def)

section \<open>The journal\<close>

lemma journal_cast_frames [cast_frames]:
  "reject_attempt now oid inc ev d = Inr d' \<Longrightarrow> cast_view d' = cast_view d"
  "mark_submitted now oid n rq d = Inr d' \<Longrightarrow> cast_view d' = cast_view d"
  "submit_queued_delivery oid n rq now d = Inr d' \<Longrightarrow> cast_view d' = cast_view d"
  by (auto simp: reject_attempt_def mark_submitted_def submit_queued_delivery_def Let_def result_simps)

lemma accept_delivery_cast [cast_frames]:
  "accept_delivery_with_submission now oid inc pane t sub d = Inr d' \<Longrightarrow> cast_view d' = cast_view d"
  by (auto simp: accept_delivery_with_submission_def resolve_obligation_def Let_def result_simps
      split: option.splits)

section \<open>Messages and acknowledgements\<close>

lemma queue_cast_frames [cast_frames]:
  "queue_ask_pull_delivery m a now d = Inr d' \<Longrightarrow> cast_view d' = cast_view d"
  "queue_socket_inbox_delivery m a now d = Inr d' \<Longrightarrow> cast_view d' = cast_view d"
  "queue_socket_inbox_delivery_at m a now d = Inr d' \<Longrightarrow> cast_view d' = cast_view d"
  by (auto simp: queue_ask_pull_delivery_def queue_socket_inbox_delivery_def
      queue_socket_inbox_delivery_at_def dest: insert_cast_frames)

lemma ack_cast_frames [cast_frames]:
  "ack_socket_inbox_delivery now a m d = Inr (out, d') \<Longrightarrow> cast_view d' = cast_view d"
  "ack_ask_pull_delivery now ask a m lease d = Inr (out, d') \<Longrightarrow> cast_view d' = cast_view d"
  by (auto simp: ack_socket_inbox_delivery_def ack_ask_pull_delivery_def
      resolve_socket_inbox_final_reply_def resolve_ask_pull_final_reply_def resolve_obligation_def result_simps
      split: option.splits if_splits)

lemma claim_ask_pull_lease_cast [cast_frames]:
  "claim_ask_pull_lease now ask requester d = Inr (l, d') \<Longrightarrow> cast_view d' = cast_view d"
  by (auto simp: claim_ask_pull_lease_def Let_def result_simps cast_view_def)

lemma record_socket_inbox_delivery_cast [cast_frames]:
  "record_socket_inbox_delivery now m a out d = Inr d' \<Longrightarrow> cast_view d' = cast_view d"
  by (auto simp: record_socket_inbox_delivery_def result_simps dest: insert_cast_frames)

lemma create_initial_message_cast [cast_frames]:
  "create_initial_message now r inc n key d = Inr (m, oid, d') \<Longrightarrow> cast_view d' = cast_view d"
  by (auto simp: create_initial_message_def result_simps dest!: insert_cast_frames insert_reminder_cast
      split: initial_message_kind.splits option.splits)

lemma create_ask_cast [cast_frames]:
  "create_ask_with_reply_delivery now s r inc b key due rem op rd d = Inr (m, oid, d') \<Longrightarrow> cast_view d' = cast_view d"
  by (auto simp: create_ask_with_reply_delivery_def Let_def result_simps dest!: insert_cast_frames
      insert_reminder_cast split: option.splits)

lemma create_tell_cast [cast_frames]:
  "create_tell_with_due now s r inc b key due d = Inr (m, oid, d') \<Longrightarrow> cast_view d' = cast_view d"
  by (auto simp: create_tell_with_due_def result_simps dest!: insert_cast_frames split: option.splits)

lemma create_socket_tell_cast [cast_frames]:
  "create_socket_tell now s r b key due d = Inr (m, d') \<Longrightarrow> cast_view d' = cast_view d"
  by (auto simp: create_socket_tell_def result_simps cast_view_def split: option.splits
      dest!: insert_cast_frames [unfolded cast_view_def] queue_cast_frames [unfolded cast_view_def])

lemma apply_reply_obligation_activity_cast [simp]:
  "cast_view (apply_reply_obligation_activity ask disposition now d) = cast_view d"
  by (simp add: apply_reply_obligation_activity_def refresh_reminder_activity_def split: reply_disposition.split)

lemma route_reply_cast:
  "route_reply now m ask x t disposition key due d = Inr (r, d') \<Longrightarrow> cast_view d' = cast_view d"
proof -
  have keys: "cast_view (d\<lparr>pull_keys := ks\<rparr>) = cast_view d" "cast_view (d\<lparr>inbox_keys := ks\<rparr>) = cast_view d" for d ks
    by (simp_all add: cast_view_def)
  show "route_reply now m ask x t disposition key due d = Inr (r, d') \<Longrightarrow> cast_view d' = cast_view d"
    by (auto simp: route_reply_def route_pull_reply_def route_inbox_reply_def route_prompt_reply_def
        result_simps keys split: if_splits delivery_transport.splits
        dest!: queue_cast_frames insert_cast_frames)
qed

lemma create_reply_cast [cast_frames]:
  "create_reply_with_due now ask requester b disposition key due d = Inr (r, d') \<Longrightarrow> cast_view d' = cast_view d"
  by (auto simp: create_reply_with_due_def result_simps dest!: route_reply_cast insert_cast_frames
      split: option.splits)

section \<open>Settlement\<close>

lemma insert_cancellation_prompt_cast [cast_frames]:
  "insert_cancellation_prompt m ask reason inc au due now d = Inr (oid, d') \<Longrightarrow> cast_view d' = cast_view d"
  by (auto simp: insert_cancellation_prompt_def result_simps dest!: insert_cast_frames)

lemma record_cancellation_side_cast [cast_frames]:
  "record_cancellation_side r ask reason b au due now e d = Inr (m, dl, d') \<Longrightarrow> cast_view d' = cast_view d"
  by (auto simp: record_cancellation_side_def result_simps split: if_splits
      delivery_transport.splits option.splits dest!: queue_cast_frames insert_cast_frames
      insert_cancellation_prompt_cast)

lemma record_both_sides_cast:
  "record_both_sides now x reason b ob due odue d = Inr (c, d') \<Longrightarrow> cast_view d' = cast_view d"
  by (auto simp: record_both_sides_def result_simps dest!: record_cancellation_side_cast)

lemma supersede_unsubmitted_cast [simp]:
  "cast_view (snd (supersede_unsubmitted_ask_delivery ask w reason now d)) = cast_view d"
  by (simp add: supersede_unsubmitted_ask_delivery_def Let_def split: option.split)

lemma cancel_cast_frames [cast_frames]:
  "cancel_obligation now a ask reason d = Inr d' \<Longrightarrow> cast_view d' = cast_view d"
  "cancel_with_response now a ask reason body ob due odue d = Inr (c, d') \<Longrightarrow> cast_view d' = cast_view d"
  "cancel_queued_delivery now a m reason d = Inr (cancelled, d') \<Longrightarrow> cast_view d' = cast_view d"
  "orphan_ask now ask d = Inr (oc, d') \<Longrightarrow> cast_view d' = cast_view d"
  by (auto simp: cancel_obligation_def cancel_with_response_def cancel_queued_delivery_def orphan_ask_def
      Let_def result_simps split: option.splits if_splits dest!: record_both_sides_cast)

lemma supersede_settled_cast [simp]:
  "cast_view (snd (supersede_settled_queued_asks now d)) = cast_view d"
  by (simp add: supersede_settled_queued_asks_def)

lemma write_availability_cast [simp]: "cast_view (snd (write_availability us d)) = cast_view d"
proof (induction us arbitrary: d)
  case (Cons u us)
  obtain ask v where "u = (ask, v)" by (cases u)
  then show ?case using Cons.IH by (simp add: Let_def split_beta)
qed simp

lemma observe_ask_availability_cast [simp]:
  "cast_view (snd (observe_ask_availability now d)) = cast_view d"
  by (simp add: observe_ask_availability_def)

lemma retire_ask_cast:
  assumes "retire_ask now a name due reason x d = Inr (notice, d')" shows "cast_view d' = cast_view d"
proof -
  obtain b d0 where sup: "supersede_unsubmitted_ask_delivery (ob_ask x) a reason now d = (b, d0)"
    by (cases "supersede_unsubmitted_ask_delivery (ob_ask x) a reason now d")
  then have "cast_view d0 = cast_view d"
    using supersede_unsubmitted_cast [of "ob_ask x" a reason now d] by simp
  with assms sup show ?thesis
    by (auto simp: retire_ask_def result_simps Let_def split: bool.splits dest!: record_cancellation_side_cast)
qed

lemma retire_asks_cast [cast_frames]:
  "retire_asks now a name due reason os d = Inr (cs, ns, d') \<Longrightarrow> cast_view d' = cast_view d"
proof (induction os arbitrary: d cs ns)
  case (Cons x os)
  then obtain notice d1 cs' ns' where "retire_ask now a name due reason x d = Inr (notice, d1)"
      "retire_asks now a name due reason os d1 = Inr (cs', ns', d')"
    by (auto simp: result_simps)
  then show ?case using Cons.IH retire_ask_cast by metis
qed simp

section \<open>Schedules and reminders\<close>

lemma create_tell_schedule_cast [cast_frames]:
  "create_tell_schedule now s r b iv first key d = Inr (c, d') \<Longrightarrow> cast_view d' = cast_view d"
  by (auto simp: create_tell_schedule_def result_simps Let_def cast_view_def split: option.splits)

lemma cancel_schedule_cast [cast_frames]:
  "cancel_schedule now s a reason d = Inr d' \<Longrightarrow> cast_view d' = cast_view d"
  by (auto simp: cancel_schedule_def result_simps)

lemma insert_firing_cast [cast_frames]:
  "insert_firing row d = Inr d' \<Longrightarrow> cast_view d' = cast_view d"
  by (auto simp: insert_firing_def result_simps cast_view_def)

lemma queue_tell_firing_cast:
  "queue_tell_firing item now target m d = Inr d' \<Longrightarrow> cast_view d' = cast_view d"
proof -
  have keys: "cast_view (d\<lparr>inbox_keys := ks\<rparr>) = cast_view d" for d ks
    by (simp add: cast_view_def)
  show "queue_tell_firing item now target m d = Inr d' \<Longrightarrow> cast_view d' = cast_view d"
    by (auto simp: queue_tell_firing_def result_simps unnamed_constraint_def keys
        split: tell_target.splits if_splits dest!: queue_cast_frames insert_cast_frames)
qed

lemma fire_tell_schedule_cast [cast_frames]:
  "fire_tell_schedule item now d = Inr (f, d') \<Longrightarrow> cast_view d' = cast_view d"
  by (auto simp: fire_tell_schedule_def Let_def result_simps split: if_splits
      dest!: insert_firing_cast queue_tell_firing_cast insert_cast_frames)

lemma reminder_cast_frames [cast_frames]:
  "observe_reminder_lifecycle ask w n d = Inr d' \<Longrightarrow> cast_view d' = cast_view d"
  "submit_reminder_attempt rq d = Inr d' \<Longrightarrow> cast_view d' = cast_view d"
  "resolve_reminder_attempt rq out ev now d = Inr d' \<Longrightarrow> cast_view d' = cast_view d"
  "defer_busy_reminder ask now re d = Inr d' \<Longrightarrow> cast_view d' = cast_view d"
  "snooze_reminder now a ask until d = Inr d' \<Longrightarrow> cast_view d' = cast_view d"
  "increase_reminder_interval now a ask every d = Inr d' \<Longrightarrow> cast_view d' = cast_view d"
  "disable_reminder now a ask d = Inr d' \<Longrightarrow> cast_view d' = cast_view d"
  by (auto simp: observe_reminder_lifecycle_def submit_reminder_attempt_def resolve_reminder_attempt_def
      defer_busy_reminder_def snooze_reminder_def increase_reminder_interval_def disable_reminder_def
      result_simps)

lemma prepare_reminder_attempt_cast [cast_frames]:
  "prepare_reminder_attempt item rq now d = Inr d' \<Longrightarrow> cast_view d' = cast_view d"
  by (auto simp: prepare_reminder_attempt_def insert_reminder_attempt_def Let_def result_simps cast_view_def)

lemma reconcile_reminder_attempts_cast [simp]:
  "cast_view (snd (reconcile_reminder_attempts live now d)) = cast_view d"
  by (simp add: reconcile_reminder_attempts_def Let_def cast_view_def)

section \<open>The steps that leave the cast as it is\<close>

lemma message_step_cast: "message_step d d' \<Longrightarrow> cast_view d' = cast_view d"
  by (induction rule: message_step.induct) (auto intro: cast_frames)

lemma schedule_step_cast: "schedule_step d d' \<Longrightarrow> cast_view d' = cast_view d"
  by (induction rule: schedule_step.induct) (auto intro: cast_frames)

lemma ack_step_cast: "ack_step d d' \<Longrightarrow> cast_view d' = cast_view d"
  by (induction rule: ack_step.induct) (auto intro: cast_frames)

lemma settle_step_cast: "settle_step d d' \<Longrightarrow> cast_view d' = cast_view d"
proof (induction rule: settle_step.induct)
  case (settle_supersede now d n d')
  then show ?case using supersede_settled_cast [of now d] by simp
next
  case (settle_observe now d n d')
  then show ?case using observe_ask_availability_cast [of now d] by simp
qed (auto intro: cast_frames)

lemma reminder_step_cast: "reminder_step d d' \<Longrightarrow> cast_view d' = cast_view d"
proof (induction rule: reminder_step.induct)
  case (reminder_reconcile live now d n d')
  then show ?case using reconcile_reminder_attempts_cast [of live now d] by simp
qed (auto intro: cast_frames)

end
