(* ===== verification/LiveNames.thy ===== *)
theory LiveNames
  imports Cast
begin

text \<open>
  The names of live delivery targets: an active socket waiter never shares its public name with
  another active waiter or with the agent of a Ready incarnation, nor with the name such an agent is
  about to take, and a pane is never bound to a socket waiter. The invariant is what the name checks of registration, start, adoption and rename
  are for, and every step of the store keeps it.
\<close>

definition socket_agent :: "agent_row list \<Rightarrow> logical_agent_id \<Rightarrow> bool" where
  "socket_agent as a \<longleftrightarrow> (\<exists>r \<in> set as. la_id r = a \<and> la_transport r = SocketInbox)"

definition waiter_name :: "agent_row list \<Rightarrow> string \<Rightarrow> bool" where
  "waiter_name as name \<longleftrightarrow> (\<exists>r \<in> set as. active_waiter_row r \<and> la_public_name r = name)"

definition agents_ok :: "agent_row list \<Rightarrow> nat \<Rightarrow> bool" where
  "agents_ok as n \<longleftrightarrow> distinct (map la_id as) \<and> (\<forall>r \<in> set as. la_id r \<le> n)
     \<and> (\<forall>r \<in> set as. \<forall>s \<in> set as. active_waiter_row r \<longrightarrow> active_waiter_row s
          \<longrightarrow> la_public_name r = la_public_name s \<longrightarrow> r = s)"

definition seat_ok :: "agent_row list \<Rightarrow> nat \<Rightarrow> incarnation_row \<Rightarrow> bool" where
  "seat_ok as n i \<longleftrightarrow> in_agent i \<le> n \<and> \<not> socket_agent as (in_agent i)
     \<and> (in_state i = IReady \<longrightarrow>
          (\<forall>l \<in> set as. la_id l = in_agent i \<longrightarrow> \<not> waiter_name as (la_public_name l))
          \<and> (\<forall>t. in_pending_rename i = Some t \<longrightarrow> \<not> waiter_name as t))
     \<and> (in_state i \<in> {IDeclared, IStarting} \<longrightarrow> in_pending_rename i = None)"

definition names_ok :: "db \<Rightarrow> bool" where
  "names_ok d \<longleftrightarrow> agents_ok (agents d) (seq_agents d) \<and> distinct (map in_id (incarnations d))
     \<and> (\<forall>i \<in> set (incarnations d). in_id i \<le> seq_incarnations d \<and> seat_ok (agents d) (seq_agents d) i)"

definition keeps_names :: "db \<Rightarrow> db \<Rightarrow> bool" where
  "keeps_names d d' \<longleftrightarrow> (names_ok d \<longrightarrow> names_ok d')"

definition names_view :: "db \<Rightarrow> agent_row list \<times> nat \<times> incarnation_row list \<times> nat" where
  "names_view d = (agents d, seq_agents d, incarnations d, seq_incarnations d)"

interpretation names: store_contract names_view keeps_names
  by unfold_locales (auto simp: names_view_def keeps_names_def names_ok_def)

lemma cast_names: "cast_view d' = cast_view d \<Longrightarrow> names_view d' = names_view d"
  by (simp add: cast_view_def names_view_def)

lemma names_view_update [simp]:
  "names_view (upd_operations po fo d) = names_view d"
  "names_view (upd_attempts pt ft d) = names_view d"
  "names_view (upd_obligations pb fb d) = names_view d"
  "names_view (upd_deliveries pd fd d) = names_view d"
  "names_view (upd_renews pn fn d) = names_view d"
  "names_view (upd_schedules ps fs d) = names_view d"
  "names_view (upd_renew_attempts pm fm d) = names_view d"
  by (simp_all add: names_view_def)

section \<open>What keeps the invariant\<close>

text \<open>Incarnations of the same agents, none newly Ready, keep it.\<close>

definition no_newly_ready :: "incarnation_row \<Rightarrow> incarnation_row \<Rightarrow> bool" where
  "no_newly_ready i j \<longleftrightarrow> in_id j = in_id i \<and> in_agent j = in_agent i \<and> (in_state j = IReady \<longrightarrow> in_state i = IReady)
     \<and> (in_state j \<in> {IDeclared, IStarting} \<longrightarrow> in_state i \<in> {IDeclared, IStarting})
     \<and> (in_pending_rename j = in_pending_rename i \<or> in_pending_rename j = None)"

lemma no_newly_ready_seat:
  assumes "no_newly_ready i j" and "seat_ok as n i" shows "seat_ok as n j"
proof (cases "in_pending_rename j")
  case None
  with assms show ?thesis by (simp add: no_newly_ready_def seat_ok_def)
next
  case (Some t)
  with assms have "in_pending_rename i = Some t" by (auto simp: no_newly_ready_def)
  with assms Some show ?thesis by (auto simp: no_newly_ready_def seat_ok_def)
qed

lemma upd_incarnations_names:
  assumes "\<And>i. p i \<Longrightarrow> no_newly_ready i (f i)"
  shows "keeps_names d (upd_incarnations p f d)"
proof -
  have "map in_id (update_rows p f (incarnations d)) = map in_id (incarnations d)"
    by (rule map_update_rows_key) (use assms in \<open>simp add: no_newly_ready_def\<close>)
  moreover have "seat_ok (agents d) (seq_agents d) (f i)" if "p i" "seat_ok (agents d) (seq_agents d) i" for i
    using no_newly_ready_seat [OF assms [OF that(1)] that(2)] .
  moreover have "in_id (f i) = in_id i" if "p i" for i
    using assms [OF that] by (simp add: no_newly_ready_def)
  ultimately show ?thesis
    by (auto simp: keeps_names_def names_ok_def set_update_rows)
qed

text \<open>The Ready transition: the agent's name is held by no waiter.\<close>

lemma ready_names:
  assumes "\<And>i l. i \<in> set (incarnations d) \<Longrightarrow> p i \<Longrightarrow> l \<in> set (agents d) \<Longrightarrow> la_id l = in_agent i
             \<Longrightarrow> \<not> waiter_name (agents d) (la_public_name l)"
    and "\<And>i. i \<in> set (incarnations d) \<Longrightarrow> p i \<Longrightarrow> in_pending_rename (f i) = None"
    and "\<And>i. p i \<Longrightarrow> in_id (f i) = in_id i \<and> in_agent (f i) = in_agent i"
  shows "keeps_names d (upd_incarnations p f d)"
proof -
  have "map in_id (update_rows p f (incarnations d)) = map in_id (incarnations d)"
    by (rule map_update_rows_key) (use assms in simp)
  with assms show ?thesis
    by (auto simp: keeps_names_def names_ok_def set_update_rows seat_ok_def)
qed

lemma refuse_name_free:
  "refuse_name_held_by_socket_waiter name d = Inr u \<longleftrightarrow> \<not> waiter_name (agents d) name"
  by (auto simp: refuse_name_held_by_socket_waiter_Inr waiter_name_def)

text \<open>An update of agents that keeps their identity and makes no waiter active keeps it.\<close>

definition shrinks_waiters :: "agent_row \<Rightarrow> agent_row \<Rightarrow> bool" where
  "shrinks_waiters r s \<longleftrightarrow> la_id s = la_id r \<and> la_transport s = la_transport r
     \<and> la_public_name s = la_public_name r \<and> (la_ended_at_ms s = None \<longrightarrow> la_ended_at_ms r = None)"

lemma update_waiter_name:
  assumes "\<And>r. p r \<Longrightarrow> shrinks_waiters r (f r)" and "waiter_name (update_rows p f as) name"
  shows "waiter_name as name"
  using assms by (auto simp: waiter_name_def set_update_rows shrinks_waiters_def active_waiter_row_def)

lemma update_socket_agent_same:
  assumes "\<And>r. p r \<Longrightarrow> la_id (f r) = la_id r \<and> la_transport (f r) = la_transport r"
  shows "socket_agent (update_rows p f as) a \<longleftrightarrow> socket_agent as a"
proof -
  have "socket_agent rs a \<longleftrightarrow> (a, SocketInbox) \<in> set (map (\<lambda>r. (la_id r, la_transport r)) rs)" for rs
    by (auto simp: socket_agent_def)
  moreover have "map (\<lambda>r. (la_id r, la_transport r)) (update_rows p f as) = map (\<lambda>r. (la_id r, la_transport r)) as"
    by (rule map_update_rows_key) (use assms in simp)
  ultimately show ?thesis by (metis (no_types))
qed

lemma update_socket_agent:
  "(\<And>r. p r \<Longrightarrow> shrinks_waiters r (f r)) \<Longrightarrow> socket_agent (update_rows p f as) a \<longleftrightarrow> socket_agent as a"
  by (rule update_socket_agent_same) (simp add: shrinks_waiters_def)

lemma update_agents_ok:
  assumes f: "\<And>r. p r \<Longrightarrow> shrinks_waiters r (f r)" and ok: "agents_ok as n"
  shows "agents_ok (update_rows p f as) n"
proof -
  have "map la_id (update_rows p f as) = map la_id as"
    using f by (auto simp: update_rows_def shrinks_waiters_def)
  moreover have "\<forall>r \<in> set (update_rows p f as). la_id r \<le> n"
    using f ok by (auto simp: set_update_rows shrinks_waiters_def agents_ok_def)
  moreover have "r = s" if rs: "r \<in> set (update_rows p f as)" "s \<in> set (update_rows p f as)"
      "active_waiter_row r" "active_waiter_row s" "la_public_name r = la_public_name s" for r s
  proof -
    obtain u v where u: "u \<in> set as" "r = (if p u then f u else u)"
      and v: "v \<in> set as" "s = (if p v then f v else v)"
      using rs by (auto simp: set_update_rows)
    have "active_waiter_row u" "la_public_name r = la_public_name u"
      using u rs(3) f [of u] by (auto simp: shrinks_waiters_def active_waiter_row_def split: if_splits)
    moreover have "active_waiter_row v" "la_public_name s = la_public_name v"
      using v rs(4) f [of v] by (auto simp: shrinks_waiters_def active_waiter_row_def split: if_splits)
    ultimately have "u = v" using ok u(1) v(1) rs(5) by (simp add: agents_ok_def)
    with u v show ?thesis by simp
  qed
  ultimately show ?thesis using ok by (simp add: agents_ok_def)
qed

lemma upd_agents_names:
  assumes f: "\<And>r. p r \<Longrightarrow> shrinks_waiters r (f r)"
  shows "keeps_names d (upd_agents p f d)"
proof -
  let ?as = "update_rows p f (agents d)"
  have "seat_ok ?as (seq_agents d) i" if i: "seat_ok (agents d) (seq_agents d) i" for i
  proof -
    have "\<not> waiter_name ?as (la_public_name l)"
      if l: "in_state i = IReady" "l \<in> set ?as" "la_id l = in_agent i" for l
    proof -
      obtain k where "k \<in> set (agents d)" "la_id k = in_agent i" "la_public_name k = la_public_name l"
        using l f by (auto simp: set_update_rows shrinks_waiters_def split: if_splits)
      then show ?thesis using i l(1) update_waiter_name [OF f] by (auto simp: seat_ok_def)
    qed
    moreover have "\<not> waiter_name ?as t" if "\<not> waiter_name (agents d) t" for t
      using that update_waiter_name [OF f] by blast
    ultimately show ?thesis using i update_socket_agent [OF f] by (simp add: seat_ok_def)
  qed
  then show ?thesis using update_agents_ok [OF f] by (auto simp: keeps_names_def names_ok_def)
qed

text \<open>The identity a new incarnation may take: no waiter, under a name no waiter holds.\<close>

definition identity_claimed :: "db \<Rightarrow> logical_agent_id \<Rightarrow> string \<Rightarrow> bool" where
  "identity_claimed d a name \<longleftrightarrow> a \<le> seq_agents d \<and> \<not> socket_agent (agents d) a
     \<and> (\<forall>l \<in> set (agents d). la_id l = a \<longrightarrow> la_public_name l = name) \<and> \<not> waiter_name (agents d) name"

lemma waiter_name_append [simp]:
  "waiter_name (as @ [row]) n \<longleftrightarrow> waiter_name as n \<or> active_waiter_row row \<and> la_public_name row = n"
  by (auto simp: waiter_name_def)

lemma socket_agent_append [simp]:
  "socket_agent (as @ [row]) a \<longleftrightarrow> socket_agent as a \<or> la_id row = a \<and> la_transport row = SocketInbox"
  by (auto simp: socket_agent_def)

text \<open>A new agent under a name that no waiter and, for a waiter, no Ready agent holds.\<close>

lemma insert_logical_agent_names:
  assumes ins: "insert_logical_agent name par t now d = Inr (a, d')"
    and free: "\<not> waiter_name (agents d) name"
    and ready: "\<And>i l. t = SocketInbox \<Longrightarrow> i \<in> set (incarnations d) \<Longrightarrow> in_state i = IReady
       \<Longrightarrow> l \<in> set (agents d) \<Longrightarrow> la_id l = in_agent i \<Longrightarrow> la_public_name l \<noteq> name"
    and pending: "\<And>i. t = SocketInbox \<Longrightarrow> i \<in> set (incarnations d) \<Longrightarrow> in_state i = IReady
       \<Longrightarrow> in_pending_rename i \<noteq> Some name"
  shows "keeps_names d d'" and "incarnations d' = incarnations d"
    and "t \<noteq> SocketInbox \<Longrightarrow> names_ok d \<Longrightarrow> identity_claimed d' a name"
proof -
  define row where "row = \<lparr>la_id = Suc (seq_agents d), la_public_name = name,
      la_parent = (case par of Parentless \<Rightarrow> None | ParentAgent p \<Rightarrow> Some p),
      la_parentless = (par = Parentless), la_created_at_ms = now, la_transport = t,
      la_ended_at_ms = None, la_seen_at_ms = None, la_archived_at_ms = None\<rparr>"
  have d': "d' = d\<lparr>agents := agents d @ [row], seq_agents := Suc (seq_agents d)\<rparr>"
    and a: "a = Suc (seq_agents d)"
    using ins by (auto simp: insert_logical_agent_def Let_def rbind_eq_Inr row_def)
  have row: "la_id row = Suc (seq_agents d)" "la_public_name row = name" "la_transport row = t"
    by (simp_all add: row_def)
  show "incarnations d' = incarnations d" using d' by simp
  have ids: "r \<in> set (agents d) \<Longrightarrow> la_id r \<noteq> Suc (seq_agents d)" if "names_ok d" for r
    using that by (auto simp: names_ok_def agents_ok_def)
  show "identity_claimed d' a name" if "t \<noteq> SocketInbox" "names_ok d"
    using ids [OF that(2)] that(1) free row
    by (auto simp: identity_claimed_def d' a active_waiter_row_def socket_agent_def)
  show "keeps_names d d'"
    unfolding keeps_names_def
  proof
    assume ok: "names_ok d"
    note ids = ids [OF ok]
    have free': "u \<in> set (agents d) \<Longrightarrow> active_waiter_row u \<Longrightarrow> la_public_name u \<noteq> name" for u
      using free by (auto simp: waiter_name_def)
    have uniq: "r = s" if "r \<in> set (agents d)" "s \<in> set (agents d)" "active_waiter_row r"
        "active_waiter_row s" "la_public_name r = la_public_name s" for r s
      using ok that unfolding names_ok_def agents_ok_def by blast
    have "r = s" if "r \<in> set (agents d @ [row])" "s \<in> set (agents d @ [row])" "active_waiter_row r"
        "active_waiter_row s" "la_public_name r = la_public_name s" for r s
      using that free' [of r] free' [of s] uniq [of r s] row(2) by (cases "r = row"; cases "s = row") simp_all
    moreover have "distinct (map la_id (agents d @ [row]))"
      using ok ids row(1) by (auto simp: names_ok_def agents_ok_def)
    moreover have "\<forall>r \<in> set (agents d @ [row]). la_id r \<le> Suc (seq_agents d)"
      using ok row(1) by (auto simp: names_ok_def agents_ok_def)
    ultimately have "agents_ok (agents d @ [row]) (Suc (seq_agents d))"
      unfolding agents_ok_def by blast
    moreover have "seat_ok (agents d @ [row]) (Suc (seq_agents d)) i" if i: "i \<in> set (incarnations d)" for i
    proof -
      have i': "seat_ok (agents d) (seq_agents d) i" using ok i by (simp add: names_ok_def)
      have "in_agent i \<noteq> Suc (seq_agents d)" using i' by (simp add: seat_ok_def)
      moreover have "\<not> waiter_name (agents d @ [row]) (la_public_name l)"
        if l: "in_state i = IReady" "l \<in> set (agents d @ [row])" "la_id l = in_agent i" for l
      proof -
        have "l \<in> set (agents d)" using l calculation row(1) by auto
        then show ?thesis
          using i' l row ready [OF _ i l(1) _ l(3)] by (auto simp: seat_ok_def active_waiter_row_def)
      qed
      moreover have "\<not> waiter_name (agents d @ [row]) n" if "in_state i = IReady" "in_pending_rename i = Some n" for n
        using i' row pending [OF _ i that(1)] that by (auto simp: seat_ok_def active_waiter_row_def)
      ultimately show ?thesis using i' row(1) by (simp add: seat_ok_def)
    qed
    ultimately show "names_ok d'" using ok by (simp add: names_ok_def d')
  qed
qed

section \<open>Claiming an identity\<close>

lemma waiter_is_socket: "active_waiter_row r \<Longrightarrow> r \<in> set as \<Longrightarrow> socket_agent as (la_id r)"
  by (auto simp: socket_agent_def active_waiter_row_def)

lemma renamed_row:
  "l \<in> (\<lambda>r. if la_id r = a then r\<lparr>la_public_name := name\<rparr> else r) ` S \<Longrightarrow> la_id l = a
     \<Longrightarrow> la_public_name l = name"
  by (erule imageE) (simp split: if_splits)

text \<open>Renaming an agent that is no socket waiter to a name no waiter holds.\<close>

lemma rename_agent_names:
  assumes ns: "\<not> socket_agent (agents d) a" and free: "\<not> waiter_name (agents d) name"
  defines "d' \<equiv> upd_agents (\<lambda>r. la_id r = a) (\<lambda>r. r\<lparr>la_public_name := name\<rparr>) d"
  shows "keeps_names d d'" and "a \<le> seq_agents d \<Longrightarrow> identity_claimed d' a name"
    and "waiter_name (agents d') n \<Longrightarrow> waiter_name (agents d) n"
proof -
  let ?as = "update_rows (\<lambda>r. la_id r = a) (\<lambda>r. r\<lparr>la_public_name := name\<rparr>) (agents d)"
  have sock: "socket_agent ?as b \<longleftrightarrow> socket_agent (agents d) b" for b
    by (rule update_socket_agent_same) simp
  have same: "r \<in> set (agents d) \<and> la_id r \<noteq> a" if "r \<in> set ?as" "active_waiter_row r" for r
    using waiter_is_socket [OF that(2,1)] that(1) sock ns by (auto simp: set_update_rows)
  have wn: "waiter_name (agents d) n" if "waiter_name ?as n" for n
    using that same by (auto simp: waiter_name_def)
  have ident: "l \<in> set (agents d) \<or> la_public_name l = name" if "l \<in> set ?as" for l
    using that by (auto simp: set_update_rows)
  show "keeps_names d d'"
    unfolding keeps_names_def
  proof
    assume ok: "names_ok d"
    have "map la_id ?as = map la_id (agents d)" by (rule map_update_rows_key) simp
    moreover have "la_id r \<le> seq_agents d" if "r \<in> set ?as" for r
      using that ok by (auto simp: set_update_rows names_ok_def agents_ok_def)
    moreover have "r = s" if "r \<in> set ?as" "s \<in> set ?as" "active_waiter_row r" "active_waiter_row s"
        "la_public_name r = la_public_name s" for r s
      using ok same [OF that(1,3)] same [OF that(2,4)] that(3-5) unfolding names_ok_def agents_ok_def by blast
    ultimately have "agents_ok ?as (seq_agents d)"
      using ok unfolding agents_ok_def names_ok_def by (metis (no_types))
    moreover have "seat_ok ?as (seq_agents d) i" if "i \<in> set (incarnations d)" for i
    proof -
      have i: "seat_ok (agents d) (seq_agents d) i" using ok that by (simp add: names_ok_def)
      have "\<not> waiter_name ?as (la_public_name l)"
        if l: "in_state i = IReady" "l \<in> set ?as" "la_id l = in_agent i" for l
        using i l ident [OF l(2)] wn free by (auto simp: seat_ok_def)
      moreover have "\<not> waiter_name ?as t" if "\<not> waiter_name (agents d) t" for t
        using that wn by blast
      ultimately show ?thesis using i sock by (simp add: seat_ok_def)
    qed
    ultimately show "names_ok d'" using ok by (simp add: names_ok_def d'_def)
  qed
  have nm: "la_public_name l = name" if "l \<in> set ?as" "la_id l = a" for l
    using that(1) unfolding set_update_rows using that(2) by (rule renamed_row)
  have eq: "agents d' = ?as" "seq_agents d' = seq_agents d" by (simp_all add: d'_def)
  show "waiter_name (agents d) n" if "waiter_name (agents d') n" using that wn by (simp add: eq)
  show "identity_claimed d' a name" if "a \<le> seq_agents d"
    unfolding identity_claimed_def eq
  proof (intro conjI)
    show "a \<le> seq_agents d" by fact
    show "\<not> socket_agent ?as a" using ns sock by blast
    show "\<forall>l \<in> set ?as. la_id l = a \<longrightarrow> la_public_name l = name" using nm by blast
    show "\<not> waiter_name ?as name" using wn free by blast
  qed
qed

lemma claim_identity_names:
  assumes c: "claim_identity e name par now d = Inr (a, d')" and free: "\<not> waiter_name (agents d) name"
    and ok: "names_ok d"
  shows "names_ok d'" and "identity_claimed d' a name" and "incarnations d' = incarnations d"
proof -
  have "names_ok d' \<and> identity_claimed d' a name \<and> incarnations d' = incarnations d"
  proof (cases e)
    case None
    then have ins: "insert_logical_agent name par HerdrPrompt now d = Inr (a, d')"
      using c by (simp add: claim_identity_def)
    with insert_logical_agent_names [OF ins free] ok show ?thesis by (auto simp: keeps_names_def)
  next
    case (Some b)
    then have b: "agent_exists d b" "map_option la_transport (find_agent d b) \<noteq> Some SocketInbox" "a = b"
      and d': "d' = upd_agents (\<lambda>r. la_id r = a) (\<lambda>r. r\<lparr>la_public_name := name\<rparr>) d"
      using c by (auto simp: claim_identity_def refuse_pane_bind_of_socket_inbox_def result_simps)
    have "\<not> socket_agent (agents d) b"
    proof
      assume "socket_agent (agents d) b"
      then obtain r where r: "r \<in> set (agents d)" "la_id r = b" "la_transport r = SocketInbox"
        by (auto simp: socket_agent_def)
      then have "find_agent d b = Some r"
        unfolding find_agent_def
        by (intro find_row_unique [of la_id]) (use ok in \<open>auto simp: names_ok_def agents_ok_def\<close>)
      with r b show False by simp
    qed
    moreover have "b \<le> seq_agents d"
      using b(1) ok by (auto simp: agent_exists_def exists_row_iff names_ok_def agents_ok_def)
    ultimately show ?thesis
      using rename_agent_names [of d b name] free ok d' b(3) by (auto simp: keeps_names_def)
  qed
  then show "names_ok d'" "identity_claimed d' a name" "incarnations d' = incarnations d" by blast+
qed

lemma insert_incarnation_names:
  assumes ins: "insert_incarnation row d = Inr (i, d')" and c: "identity_claimed d (in_agent row) name"
    and pending: "in_pending_rename row = None" and ok: "names_ok d"
  shows "names_ok d'"
proof -
  let ?p = "\<lambda>r. la_id r = in_agent row \<and> la_archived_at_ms r \<noteq> None"
  let ?d = "upd_agents ?p (\<lambda>r. r\<lparr>la_archived_at_ms := None\<rparr>) d"
  have "keeps_names d ?d" by (rule upd_agents_names) (simp add: shrinks_waiters_def)
  then have ok': "names_ok ?d" using ok by (simp add: keeps_names_def)
  have d': "agents d' = agents ?d" "seq_agents d' = seq_agents ?d"
      "incarnations d' = incarnations d @ [row\<lparr>in_id := i\<rparr>]" "seq_incarnations d' = i"
      "i = Suc (seq_incarnations d)"
    using ins by (auto simp: insert_incarnation_def Let_def result_simps)
  have f: "shrinks_waiters r (r\<lparr>la_archived_at_ms := None\<rparr>)" for r by (simp add: shrinks_waiters_def)
  have "seat_ok (agents ?d) (seq_agents ?d) row"
    using c pending update_socket_agent [of ?p "\<lambda>r. r\<lparr>la_archived_at_ms := None\<rparr>"]
      update_waiter_name [of ?p "\<lambda>r. r\<lparr>la_archived_at_ms := None\<rparr>"] f
    by (auto simp: seat_ok_def identity_claimed_def set_update_rows)
  moreover have "in_id j \<noteq> Suc (seq_incarnations d)" if "j \<in> set (incarnations d)" for j
    using ok that by (auto simp: names_ok_def)
  ultimately show ?thesis
    using ok' by (auto simp: names_ok_def d' seat_ok_def le_SucI)
qed


section \<open>The journal and the life of an incarnation\<close>

lemma no_newly_ready_update [simp]:
  "no_newly_ready i (i\<lparr>in_observed_pane := p, in_observed_terminal := t\<rparr>)"
  "no_newly_ready i (i\<lparr>in_pending_rename := None\<rparr>)"
  "no_newly_ready i (i\<lparr>in_native_session := s\<rparr>)"
  "no_newly_ready i (i\<lparr>in_native_session := s, in_rotated_at_ms := now\<rparr>)"
  "no_newly_ready i (i\<lparr>in_state := ISuperseded, in_terminal_at_ms := now, in_terminal_reason := r\<rparr>)"
  "st \<notin> {IReady, IDeclared, IStarting} \<Longrightarrow> no_newly_ready i (i\<lparr>in_state := st\<rparr>)"
  "in_state i = IDeclared \<Longrightarrow> no_newly_ready i (i\<lparr>in_state := IStarting\<rparr>)"
  by (simp_all add: no_newly_ready_def)

lemma names_after_frame:
  "names_view d1 = names_view d \<Longrightarrow> (\<And>i. p i \<Longrightarrow> no_newly_ready i (f i)) \<Longrightarrow> keeps_names d (upd_incarnations p f d1)"
  by (rule names.frame_then_rel [OF _ upd_incarnations_names])

lemma names_under_frame:
  "names_view d2 = names_view d1 \<Longrightarrow> keeps_names d d1 \<Longrightarrow> keeps_names d d2"
  by (rule names.rel_then_frame)

lemma names_by_update:
  "names_view d' = names_view (upd_incarnations p f d) \<Longrightarrow> (\<And>i. p i \<Longrightarrow> no_newly_ready i (f i)) \<Longrightarrow> keeps_names d d'"
  by (rule names.rel_then_frame [OF upd_incarnations_names])

lemma begin_attempt_names:
  assumes "begin_attempt now oid inc rq d = Inr (n, d')" shows "keeps_names d d'"
proof (rule names_by_update)
  show "names_view d' = names_view (upd_incarnations (\<lambda>i. in_id i = inc \<and> in_state i = IDeclared)
      (\<lambda>i. i\<lparr>in_state := IStarting\<rparr>) d)"
    using assms by (auto simp: begin_attempt_def Let_def result_simps names_view_def)
qed simp

lemma accept_start_submission_names:
  assumes "accept_start_submission oid inc pane t d = Inr d'" shows "keeps_names d d'"
proof (rule names_by_update)
  show "names_view d' = names_view (upd_incarnations (\<lambda>i. in_id i = inc)
      (\<lambda>i. i\<lparr>in_observed_pane := Some pane, in_observed_terminal := Some t\<rparr>) d)"
    using assms by (auto simp: accept_start_submission_def Let_def result_simps names_view_def)
qed simp

lemma mark_unknown_names:
  assumes "mark_unknown_with_clear_spacing now oid inc ev delay d = Inr d'" shows "keeps_names d d'"
proof (rule names_by_update)
  show "names_view d' = names_view (upd_incarnations (\<lambda>i. in_id i = inc \<and> in_state i = IStarting)
      (\<lambda>i. i\<lparr>in_state := IUnknown\<rparr>) d)"
    using assms by (auto simp: mark_unknown_with_clear_spacing_def Let_def result_simps names_view_def
        split: option.splits)
qed simp

lemma mark_rejected_names:
  assumes "mark_rejected now oid inc ev out d = Inr d'" shows "keeps_names d d'"
proof (rule names_by_update)
  show "names_view d' = names_view (upd_incarnations (\<lambda>i. in_id i = inc \<and> in_state i = IStarting)
      (\<lambda>i. i\<lparr>in_state := IFailed\<rparr>) d)"
    using assms by (auto simp: mark_rejected_def Let_def result_simps names_view_def)
qed simp

lemma demote_predecessor_names: "demote_predecessor now prev inc d = Inr d' \<Longrightarrow> keeps_names d d'"
  by (auto simp: demote_predecessor_def Let_def result_simps split: option.splits
      intro: names.rel_refl intro!: upd_incarnations_names)

text \<open>The incarnation an observation proves Ready carries a name no waiter holds.\<close>

lemma proven_ready_names:
  assumes i: "find_row (\<lambda>i. in_id i = inc \<and> P i) (incarnations d) = Some i"
    and P: "\<And>i. P i \<Longrightarrow> in_state i \<in> {IDeclared, IStarting}"
    and l: "find_agent d (in_agent i) = Some l"
    and free: "\<not> waiter_name (agents d) (la_public_name l)"
    and v: "names_view d1 = names_view d"
    and f: "\<And>i. in_id (f i) = in_id i \<and> in_agent (f i) = in_agent i
       \<and> in_pending_rename (f i) = in_pending_rename i"
  shows "keeps_names d (upd_incarnations (\<lambda>i. in_id i = inc) f d1)"
proof -
  have same: "incarnations d1 = incarnations d" "agents d1 = agents d" using v by (simp_all add: names_view_def)
  have i': "i \<in> set (incarnations d)" "in_id i = inc" "in_state i \<in> {IDeclared, IStarting}"
    using find_row_SomeD [OF i] P [of i] by auto
  have l': "l \<in> set (agents d)" "la_id l = in_agent i"
    using l by (auto simp: find_agent_def dest: find_row_SomeD)
  have "keeps_names d1 (upd_incarnations (\<lambda>i. in_id i = inc) f d1)" if ok: "names_ok d"
  proof (rule ready_names)
    have j: "j = i" if "j \<in> set (incarnations d1)" "in_id j = inc" for j
      by (rule distinct_key_eq [of in_id "incarnations d"]) (use ok same i' that in \<open>auto simp: names_ok_def\<close>)
    show "\<not> waiter_name (agents d1) (la_public_name k)" if "j \<in> set (incarnations d1)" "in_id j = inc"
        "k \<in> set (agents d1)" "la_id k = in_agent j" for j k
    proof -
      have "k = l"
        by (intro distinct_key_eq [of la_id "agents d"])
          (use ok same that l' j [OF that(1,2)] in \<open>auto simp: names_ok_def agents_ok_def\<close>)
      with free same show ?thesis by simp
    qed
    show "in_pending_rename (f j) = None" if "j \<in> set (incarnations d1)" "in_id j = inc" for j
      using j [OF that] f [of i] i' ok by (auto simp: names_ok_def seat_ok_def)
    show "in_id (f j) = in_id j \<and> in_agent (f j) = in_agent j" if "in_id j = inc" for j
      using f [of j] by simp
  qed
  moreover have "names_ok d1" if "names_ok d"
    using that names.rel_frame [OF v] by (simp add: keeps_names_def)
  ultimately show ?thesis by (simp add: keeps_names_def)
qed

lemma accept_start_ready_names:
  assumes "accept_start_ready now oid inc agent prev d = Inr d'" shows "keeps_names d d'"
proof -
  obtain i l where i: "find_row (\<lambda>i. in_id i = inc \<and> in_state i = IStarting) (incarnations d) = Some i"
    and l: "find_agent d (in_agent i) = Some l" and free: "\<not> waiter_name (agents d) (la_public_name l)"
    using assms by (auto simp: accept_start_ready_def Let_def result_simps refuse_name_free)
  define ready where "ready i = i\<lparr>in_state := IReady, in_observed_pane := Some (ao_pane_id agent),
      in_observed_terminal := Some (ao_terminal_id agent), in_native_session := ao_agent_session agent\<rparr>"
    for i :: incarnation_row
  have r: "in_id (ready i) = in_id i \<and> in_agent (ready i) = in_agent i
      \<and> in_pending_rename (ready i) = in_pending_rename i" for i by (simp add: ready_def)
  have e: "(\<lambda>i. i\<lparr>in_state := IReady, in_observed_pane := Some (ao_pane_id agent),
      in_observed_terminal := Some (ao_terminal_id agent), in_native_session := ao_agent_session agent\<rparr>) = ready"
    by (simp add: ready_def fun_eq_iff)
  obtain p f q g where d': "demote_predecessor now prev inc (upd_attempts p f
        (upd_incarnations (\<lambda>i. in_id i = inc) ready (upd_operations q g d))) = Inr d'"
    using assms by (auto simp: accept_start_ready_def Let_def result_simps e)
  have "keeps_names d (upd_incarnations (\<lambda>i. in_id i = inc) ready (upd_operations q g d))"
    by (rule proven_ready_names [OF i _ l free]) (simp_all add: r)
  then show ?thesis
    by (blast intro: names.rel_trans names_under_frame [OF names_view_update(2)] demote_predecessor_names [OF d'])
qed

lemma accept_adopt_ready_names:
  assumes "accept_adopt_ready now oid inc agent d = Inr d'" shows "keeps_names d d'"
proof -
  obtain i l where i: "find_row (\<lambda>i. in_id i = inc \<and> in_state i \<in> {IDeclared, IStarting}) (incarnations d) = Some i"
    and l: "find_agent d (in_agent i) = Some l" and free: "\<not> waiter_name (agents d) (la_public_name l)"
    using assms by (auto simp: accept_adopt_ready_def Let_def result_simps refuse_name_free)
  note ready = proven_ready_names [OF i _ l free]
  show ?thesis
    using assms i l
    by (auto simp: accept_adopt_ready_def Let_def result_simps intro!: names_under_frame [OF _ ready])
qed

lemma insert_operation_names:
  "insert_operation key kind target intent now d = Inr (oid, d') \<Longrightarrow> names_view d' = names_view d"
  by (rule cast_names [OF insert_cast_frames(3)])

lemma bind_names:
  assumes "claim_identity e name par now d = Inr (a, d1)" and "\<not> waiter_name (agents d) name"
    and "insert_incarnation row d1 = Inr (inc, d2)" and "in_agent row = a \<and> in_pending_rename row = None"
    and "insert_operation key kind inc intent now d2 = Inr (oid, d3)"
  shows "keeps_names d d3"
proof -
  have "names_ok d2" if "names_ok d"
    using claim_identity_names [OF assms(1,2) that] assms(4) insert_incarnation_names [OF assms(3), of name] by simp
  then have "keeps_names d d2" by (simp add: keeps_names_def)
  then show ?thesis by (rule names.rel_then_frame) (rule insert_operation_names [OF assms(5)])
qed

lemma declare_start_names: "declare_start now n d = Inr (s, d') \<Longrightarrow> keeps_names d d'"
  by (auto simp: declare_start_def result_simps refuse_name_free started_row_def elim!: bind_names)

lemma insert_adopt_binding_names:
  assumes "insert_adopt_binding now n ev st out r' d = Inr (s, d')" shows "keeps_names d d'"
proof -
  let ?name = "ae_public_name ev"
  obtain a d1 inc d2 oid d3 where free: "\<not> waiter_name (agents d) ?name"
    and c: "claim_identity (ai_logical_agent_id n) ?name (ai_parent n) now d = Inr (a, d1)"
    and i: "insert_incarnation (adopted_row n ev st a now) d1 = Inr (inc, d2)"
    and op: "insert_operation (ai_idempotency_key n) KAdopt inc (IntentAdopt n ?name) now d2 = Inr (oid, d3)"
    and d': "d' = upd_operations (\<lambda>r. op_id r = oid)
               (\<lambda>r. r\<lparr>op_outcome := out, op_resolved_at_ms := (if r' then Some now else None)\<rparr>) d3"
    using assms by (auto simp: insert_adopt_binding_def Let_def result_simps refuse_name_free)
  have "keeps_names d d3" by (rule bind_names [OF c free i _ op]) (simp add: adopted_row_def)
  then show ?thesis unfolding d' by (rule names.rel_then_frame) simp
qed

lemma declare_adopt_names:
  "declare_adopt now n ev d = Inr (s, d') \<Longrightarrow> keeps_names d d'"
  "declare_adopt_pending now n ev d = Inr (s, d') \<Longrightarrow> keeps_names d d'"
  by (auto simp: declare_adopt_def declare_adopt_pending_def result_simps dest: insert_adopt_binding_names)

lemma complete_clear_names:
  assumes "complete_clear now oid inc session settle d = Inr d'" shows "keeps_names d d'"
proof (cases session)
  case None
  with assms have "names_view d' = names_view d"
    by (auto simp: complete_clear_def Let_def result_simps)
  then show ?thesis by (rule names.rel_frame)
next
  case (Some s)
  show ?thesis
  proof (rule names_by_update)
    show "names_view d' = names_view (upd_incarnations (\<lambda>i. in_id i = inc \<and> in_state i = IReady)
        (\<lambda>i. i\<lparr>in_native_session := Some s, in_rotated_at_ms := Some now\<rparr>) d)"
      using assms Some by (auto simp: complete_clear_def Let_def result_simps names_view_def)
  qed simp
qed

lemma create_clear_names: "create_clear now a inc settle key d = Inr (i, d') \<Longrightarrow> keeps_names d d'"
  by (auto simp: create_clear_def result_simps dest!: insert_operation_names intro: names.rel_frame)

lemma request_retirement_names:
  "request_retirement now inc key d = Inr (i, d') \<Longrightarrow> keeps_names d d'"
  by (auto simp: request_retirement_def Let_def result_simps dest!: insert_operation_names
      intro!: names_under_frame [OF _ names_after_frame])

lemma declare_rename_names:
  assumes "declare_rename inc name d = Inr d'" shows "keeps_names d d'"
proof -
  define p where "p = (\<lambda>i :: incarnation_row. in_id i = inc \<and> in_state i = IReady \<and> in_pending_rename i = None)"
  define f :: "incarnation_row \<Rightarrow> incarnation_row" where "f = (\<lambda>i. i\<lparr>in_pending_rename := Some name\<rparr>)"
  have free: "\<not> waiter_name (agents d) name" and d': "d' = upd_incarnations p f d"
    using assms by (auto simp: declare_rename_def Let_def result_simps refuse_name_free p_def f_def)
  have f: "in_id (f i) = in_id i" "in_agent (f i) = in_agent i" "in_state (f i) = in_state i"
      "in_pending_rename (f i) = Some name" for i
    by (simp_all add: f_def)
  have "map in_id (update_rows p f (incarnations d)) = map in_id (incarnations d)"
    by (rule map_update_rows_key) (simp add: f)
  moreover have "seat_ok (agents d) (seq_agents d) (f i)" if "p i" "seat_ok (agents d) (seq_agents d) i" for i
    using that free by (simp add: seat_ok_def f p_def)
  ultimately show ?thesis
    unfolding d' by (auto simp: keeps_names_def names_ok_def set_update_rows f)
qed

lemma abandon_rename_names: "keeps_names d (abandon_rename inc d)"
  by (auto simp: abandon_rename_def Let_def intro!: upd_incarnations_names)

lemma commit_rename_names:
  assumes "commit_rename inc name d = Inr d'" shows "keeps_names d d'"
proof (cases "names_ok d")
  case True
  obtain i where i: "i \<in> set (incarnations d)" and free: "\<not> waiter_name (agents d) name"
    and d': "d' = upd_incarnations (\<lambda>i. in_id i = inc) (\<lambda>i. i\<lparr>in_pending_rename := None\<rparr>)
         (upd_agents (\<lambda>r. la_id r = in_agent i) (\<lambda>r. r\<lparr>la_public_name := name\<rparr>) d)"
    using assms by (auto simp: commit_rename_def result_simps refuse_name_free dest: find_row_SomeD)
  have "\<not> socket_agent (agents d) (in_agent i)"
    using True i by (simp add: names_ok_def seat_ok_def)
  from rename_agent_names(1) [OF this free] show ?thesis
    unfolding d' by (rule names.rel_trans) (rule upd_incarnations_names, simp)
qed (simp add: keeps_names_def)

lemma session_names:
  "keeps_names d (snd (fill_observed_native_session inc pane t session d))"
  "replace_observed_native_session inc session d = Inr d' \<Longrightarrow> keeps_names d d'"
  by (auto simp: fill_observed_native_session_def replace_observed_native_session_def result_simps
      intro!: upd_incarnations_names)

section \<open>Waiters\<close>

lemma refuse_live_free:
  assumes "refuse_live_or_pending_alias name d = Inr u" and "i \<in> set (incarnations d)"
    and "in_state i = IReady" and "l \<in> set (agents d)" and "la_id l = in_agent i"
  shows "la_public_name l \<noteq> name"
  using assms by (auto simp: refuse_live_or_pending_alias_def find_row_None exists_row_iff split: option.splits)

lemma refuse_pending_free:
  assumes "refuse_live_or_pending_alias name d = Inr u" and "i \<in> set (incarnations d)" and "in_state i = IReady"
  shows "in_pending_rename i \<noteq> Some name"
  using assms by (auto simp: refuse_live_or_pending_alias_def find_row_None split: option.splits)

lemma register_socket_waiter_names:
  assumes "register_socket_waiter now name par key d = Inr (a, d')" shows "keeps_names d d'"
proof (cases "map_of (waiter_keys d) key")
  case None
  then obtain d1 u where free: "\<not> waiter_name (agents d) name"
    and live: "refuse_live_or_pending_alias name d = Inr u"
    and ins: "insert_logical_agent name par SocketInbox now d = Inr (a, d1)"
    and v: "names_view d' = names_view d1"
    using assms by (auto simp: register_socket_waiter_def result_simps refuse_name_free names_view_def)
  have "keeps_names d d1"
    by (rule insert_logical_agent_names(1) [OF ins free]) (use refuse_live_free [OF live] refuse_pending_free [OF live] in blast)+
  then show ?thesis using v by (rule names.rel_then_frame)
next
  case (Some x)
  with assms show ?thesis by (auto simp: register_socket_waiter_def result_simps names.rel_refl)
qed

lemma end_waiter_names:
  assumes "end_socket_waiter_with_owing_due now a due reason d = Inr (cs, ns, d')"
  shows "keeps_names d d'"
proof -
  let ?d1 = "upd_agents (end_waiter_row a) (\<lambda>r. r\<lparr>la_ended_at_ms := Some now\<rparr>) d"
  obtain name d2 where r: "retire_asks now a name due reason (unresolved_asks_of ?d1 a) ?d1 = Inr (cs, ns, d2)"
    and d': "names_view d' = names_view d2"
    using assms by (auto simp: end_socket_waiter_with_owing_due_def Let_def result_simps)
  have "keeps_names d ?d1" by (rule upd_agents_names) (simp add: shrinks_waiters_def)
  then show ?thesis
    using d' cast_names [OF retire_asks_cast [OF r]] by (simp add: names.rel_then_frame)
qed

lemma waiter_seen_names:
  "keeps_names d (snd (touch_waiter_seen a now d))"
  "keeps_names d (snd (boot_reset_waiter_seen now d))"
  by (auto simp: touch_waiter_seen_def boot_reset_waiter_seen_def shrinks_waiters_def intro!: upd_agents_names)

section \<open>Recovery\<close>

lemma mark_lost_quiet [simp]: "no_newly_ready i (mark_lost now reason i)"
  by (simp add: no_newly_ready_def mark_lost_def)

lemma restore_notice_names [simp]: "names_view (insert_restore_notice now body d) = names_view d"
  by (simp add: insert_restore_notice_def insert_notice_def Let_def names_view_def)

lemma names_view_notice: "names_view d' = names_view d \<Longrightarrow> names_ok d' \<longleftrightarrow> names_ok d"
  by (simp add: names_view_def names_ok_def)

text \<open>Reconciling a binding: nothing becomes Ready, and a finished rename takes a name no waiter holds.\<close>

definition bindings_ok :: "ready_binding_row list \<Rightarrow> db \<Rightarrow> bool" where
  "bindings_ok rows d \<longleftrightarrow> names_ok d
     \<and> (\<forall>r \<in> set rows. \<forall>t. rw_pending r = Some t \<longrightarrow> \<not> waiter_name (agents d) t)"

lemma bindings_ok_update:
  assumes "bindings_ok rows d" and "\<And>i. p i \<Longrightarrow> no_newly_ready i (f i)"
  shows "bindings_ok rows (upd_incarnations p f d)"
  using assms(1) upd_incarnations_names [OF assms(2), of p d] by (simp add: bindings_ok_def keeps_names_def)

lemma finish_pending_rename_ok:
  assumes ok: "bindings_ok rows d" and free: "\<not> waiter_name (agents d) target"
  shows "bindings_ok rows (finish_pending_rename inc target d)"
proof (cases "find_incarnation d inc")
  case None
  then show ?thesis using bindings_ok_update [OF ok] by (simp add: finish_pending_rename_def)
next
  case (Some i)
  let ?d = "upd_agents (\<lambda>l. la_id l = in_agent i) (\<lambda>l. l\<lparr>la_public_name := target\<rparr>) d"
  have "\<not> socket_agent (agents d) (in_agent i)"
    using Some ok unfolding find_incarnation_def bindings_ok_def names_ok_def seat_ok_def
    by (blast dest: find_row_SomeD)
  note renamed = rename_agent_names [OF this free]
  have "bindings_ok rows ?d"
    using ok renamed(1) renamed(3) by (auto simp: bindings_ok_def keeps_names_def)
  then show ?thesis using Some bindings_ok_update by (simp add: finish_pending_rename_def)
qed

lemma refresh_session_ok: "bindings_ok rows d \<Longrightarrow> bindings_ok rows (snd (refresh_session now snap r d))"
  by (auto simp: refresh_session_def Let_def intro!: bindings_ok_update split: option.splits)

lemma learn_session_ok: "bindings_ok rows d \<Longrightarrow> bindings_ok rows (snd (learn_missing_native_session inc e d))"
  by (auto simp: learn_missing_native_session_def Let_def intro!: bindings_ok_update split: option.splits)

lemma settle_binding_ok:
  assumes ok: "bindings_ok rows d" and r: "r \<in> set rows"
  shows "bindings_ok rows (snd (settle_binding now snap r d))"
proof (cases "renamed_live snap r")
  case None
  then show ?thesis using ok by (auto simp: settle_binding_def Let_def intro!: bindings_ok_update)
next
  case (Some agent)
  then obtain t where t: "rw_pending r = Some t" by (cases "rw_pending r") (auto simp: renamed_live_def)
  have "\<not> waiter_name (agents d) t" using ok r t by (auto simp: bindings_ok_def)
  then show ?thesis using Some t finish_pending_rename_ok [OF ok] by (simp add: settle_binding_def)
qed

lemma reconcile_binding_ok:
  assumes ok: "bindings_ok rows (snd s)" and r: "r \<in> set rows"
  shows "bindings_ok rows (snd (reconcile_binding now snap r s))"
proof -
  obtain l f n d where s: "s = ((l, f, n), d)" by (metis surj_pair)
  define d1 where "d1 = snd (refresh_session now snap r d)"
  define d2 where "d2 = snd (if rw_session r = None
      then learn_missing_native_session (rw_incarnation r) (exact_live snap r) d1 else (0, d1))"
  have "bindings_ok rows d1" using ok refresh_session_ok unfolding d1_def s by simp
  then have "bindings_ok rows d2" unfolding d2_def by (simp add: learn_session_ok)
  then have "bindings_ok rows (snd (settle_binding now snap r d2))" by (rule settle_binding_ok [OF _ r])
  moreover have "snd (reconcile_binding now snap r s) = snd (settle_binding now snap r d2)"
    unfolding reconcile_binding_def s d2_def d1_def by (auto simp: Let_def split: prod.splits)
  ultimately show ?thesis by simp
qed

lemma reconcile_bindings_ok:
  "bindings_ok rows (snd s) \<Longrightarrow> set rs \<subseteq> set rows \<Longrightarrow> bindings_ok rows (snd (fold (reconcile_binding now snap) rs s))"
  by (induction rs arbitrary: s) (simp_all add: reconcile_binding_ok)

lemma ready_binding_view_pending:
  "ready_binding_view d i = Inr rows \<Longrightarrow> r \<in> set rows \<Longrightarrow> rw_pending r = in_pending_rename i"
  by (auto simp: ready_binding_view_def result_simps split: option.splits)

lemma list_all2_source: "list_all2 P xs ys \<Longrightarrow> y \<in> set ys \<Longrightarrow> \<exists>x \<in> set xs. P x y"
  by (induction rule: list_all2_induct) auto

lemma ready_binding_rows_pending:
  assumes "ready_binding_rows d = Inr rows" and "r \<in> set rows"
  shows "\<exists>i \<in> set (incarnations d). in_state i = IReady \<and> rw_pending r = in_pending_rename i"
proof -
  let ?ready = "filter (\<lambda>i. in_state i = IReady) (incarnations d)"
  obtain rss where rss: "rmap (ready_binding_view d) ?ready = Inr rss" "rows = concat rss"
    using assms(1) by (cases "rmap (ready_binding_view d) ?ready") (auto simp: ready_binding_rows_def)
  then obtain rs where rs: "rs \<in> set rss" "r \<in> set rs" using assms(2) by auto
  have "list_all2 (\<lambda>i rs. ready_binding_view d i = Inr rs) ?ready rss"
    using rss(1) by (simp add: rmap_eq_Inr)
  then obtain i where "i \<in> set ?ready" "ready_binding_view d i = Inr rs"
    using rs(1) by (blast dest: list_all2_source)
  with rs(2) show ?thesis by (auto dest: ready_binding_view_pending)
qed

lemma reconcile_ready_incarnations_names:
  assumes "reconcile_ready_incarnations now snap d = Inr (c, d')" shows "keeps_names d d'"
proof -
  obtain rows where rows: "ready_binding_rows d = Inr rows"
    and d': "d' = snd (fold (reconcile_binding now snap) rows ((0, 0, 0), d))"
    using assms by (auto simp: reconcile_ready_incarnations_def result_simps)
  have "bindings_ok rows d" if "names_ok d"
    using that ready_binding_rows_pending [OF rows] by (fastforce simp: bindings_ok_def names_ok_def seat_ok_def)
  then have "bindings_ok rows d'" if "names_ok d"
    using that reconcile_bindings_ok [of rows "((0, 0, 0), d)" rows now snap] unfolding d' by simp
  then show ?thesis by (simp add: keeps_names_def bindings_ok_def)
qed

text \<open>Restored occupants continue agents that are no waiters, under names no waiter holds.\<close>

definition agent_key :: "agent_row \<Rightarrow> logical_agent_id \<times> string \<times> delivery_transport \<times> int option" where
  "agent_key r = (la_id r, la_public_name r, la_transport r, la_ended_at_ms r)"

definition same_agents :: "db \<Rightarrow> db \<Rightarrow> bool" where
  "same_agents d d' \<longleftrightarrow> seq_agents d' = seq_agents d \<and> agent_key ` set (agents d') = agent_key ` set (agents d)"

definition key_free :: "logical_agent_id \<Rightarrow> string \<Rightarrow> logical_agent_id \<times> string \<times> delivery_transport \<times> int option \<Rightarrow> bool" where
  "key_free a name k \<longleftrightarrow> (case k of (b, n, t, e) \<Rightarrow>
     (b = a \<longrightarrow> t \<noteq> SocketInbox \<and> n = name) \<and> (t = SocketInbox \<and> e = None \<longrightarrow> n \<noteq> name))"

lemma identity_claimed_keys:
  "identity_claimed d a name \<longleftrightarrow> a \<le> seq_agents d \<and> (\<forall>k \<in> agent_key ` set (agents d). key_free a name k)"
  by (auto simp: identity_claimed_def socket_agent_def waiter_name_def active_waiter_row_def agent_key_def
      key_free_def)

lemma same_agents_claimed: "same_agents d d' \<Longrightarrow> identity_claimed d a name \<Longrightarrow> identity_claimed d' a name"
  unfolding identity_claimed_keys same_agents_def by argo

lemma insert_incarnation_agents:
  assumes "insert_incarnation row d = Inr (i, d')" shows "same_agents d d'"
proof -
  let ?p = "\<lambda>r. la_id r = in_agent row \<and> la_archived_at_ms r \<noteq> None"
  let ?f = "\<lambda>r :: agent_row. r\<lparr>la_archived_at_ms := None\<rparr>"
  have d': "agents d' = agents (upd_agents ?p ?f d)" "seq_agents d' = seq_agents (upd_agents ?p ?f d)"
    using assms by (auto simp: insert_incarnation_def Let_def result_simps)
  have "map agent_key (update_rows ?p ?f (agents d)) = map agent_key (agents d)"
    by (rule map_update_rows_key) (simp add: agent_key_def)
  from arg_cong [OF this, of set] show ?thesis by (simp add: same_agents_def d')
qed

lemma joined_row:
  assumes "r \<in> set (joined_rows d)"
  shows "fst r \<in> set (incarnations d)" and "snd r \<in> set (agents d)" and "la_id (snd r) = in_agent (fst r)"
proof -
  obtain i l where "i \<in> set (incarnations d)" "find_row (\<lambda>l. la_id l = in_agent i) (agents d) = Some l" "r = (i, l)"
    using assms by (force simp: joined_rows_def map_filter_def find_agent_def)
  then show "fst r \<in> set (incarnations d)" "snd r \<in> set (agents d)" "la_id (snd r) = in_agent (fst r)"
    using find_row_SomeD by fastforce+
qed

lemma joined_claimed:
  assumes ok: "names_ok d" and r: "(i, l) \<in> set (joined_rows d)"
    and free: "\<not> waiter_name (agents d) (la_public_name l)"
  shows "identity_claimed d (in_agent i) (la_public_name l)"
proof -
  have i: "i \<in> set (incarnations d)" and l: "l \<in> set (agents d)" "la_id l = in_agent i"
    using joined_row [OF r] by simp_all
  have "k = l" if "k \<in> set (agents d)" "la_id k = in_agent i" for k
    by (rule distinct_key_eq [of la_id "agents d"]) (use ok l that in \<open>auto simp: names_ok_def agents_ok_def\<close>)
  with ok i free show ?thesis by (auto simp: identity_claimed_def names_ok_def seat_ok_def)
qed

definition restoring :: "db \<Rightarrow> db \<Rightarrow> bool" where
  "restoring d0 d \<longleftrightarrow> names_ok d \<and> same_agents d0 d"

lemma restoring_notice [simp]: "restoring d0 (insert_restore_notice now body d) \<longleftrightarrow> restoring d0 d"
proof -
  have v: "names_view (insert_restore_notice now body d) = names_view d" by simp
  then show ?thesis
    using names_view_notice [OF v] by (simp add: restoring_def same_agents_def names_view_def)
qed

lemma restoring_insert:
  assumes r: "restoring d0 d" and c: "identity_claimed d0 (in_agent row) name"
    and p: "in_pending_rename row = None" and ins: "insert_incarnation row d = Inr (i, d')"
  shows "restoring d0 d'"
  using insert_incarnation_names [OF ins same_agents_claimed [OF _ c] p] insert_incarnation_agents [OF ins] r
  by (auto simp: restoring_def same_agents_def)

lemma restored_claimed:
  assumes ok: "names_ok d0" and t: "fst (snd t) \<in> set (joined_rows d0)"
    and free: "restored_name t \<notin> set (active_waiter_aliases d0)"
  shows "identity_claimed d0 (in_agent (restored_row t now)) (restored_name t)"
proof -
  obtain agent i l backend where tt: "t = (agent, (i, l), backend)" by (metis surj_pair)
  have name: "restored_name t = la_public_name l" by (simp add: restored_name_def tt)
  have "\<not> waiter_name (agents d0) (la_public_name l)"
    using free unfolding waiter_name_def active_waiter_aliases_def name by (auto simp: image_def)
  from joined_claimed [OF ok _ this] t show ?thesis by (simp add: tt restored_name_def restored_row_def)
qed

lemma continue_restored_restoring:
  assumes s: "continue_restored now d0 found t s = Inr s'" and r: "restoring d0 (snd s)"
    and ok: "names_ok d0" and t: "fst (snd t) \<in> set (joined_rows d0)"
  shows "restoring d0 (snd s')"
proof -
  have pending: "in_pending_rename (restored_row t now) = None"
    by (simp add: restored_row_def split: prod.splits)
  obtain n d where s0: "s = (n, d)" by fastforce
  have r': "restoring d0 d" using r by (simp add: s0)
  show ?thesis
  proof (cases "restored_name t \<in> set (active_waiter_aliases d0) \<or> snd s' = d
      \<or> (\<exists>body. snd s' = insert_restore_notice now body d)")
    case True
    then show ?thesis
      using s r' by (auto simp: continue_restored_def s0 Let_def split: if_splits)
  next
    case False
    then obtain inc d1 body where d1: "insert_incarnation (restored_row t now) d = Inr (inc, d1)"
      and s': "snd s' = insert_restore_notice now body d1"
      using s by (fastforce simp: continue_restored_def s0 Let_def result_simps split: if_splits)
    have "restored_name t \<notin> set (active_waiter_aliases d0)" using False by blast
    from restored_claimed [OF ok t this] have "restoring d0 d1"
      using r' pending d1 by (blast intro: restoring_insert)
    then show ?thesis by (simp add: s')
  qed
qed

lemma continue_all_restoring:
  "continue_all now d0 found ts s = Inr s' \<Longrightarrow> restoring d0 (snd s) \<Longrightarrow> names_ok d0
     \<Longrightarrow> \<forall>t \<in> set ts. fst (snd t) \<in> set (joined_rows d0) \<Longrightarrow> restoring d0 (snd s')"
proof (induction ts arbitrary: s)
  case (Cons t ts)
  then obtain s1 where s1: "continue_restored now d0 found t s = Inr s1" "continue_all now d0 found ts s1 = Inr s'"
    by (auto simp: result_simps)
  show ?case using Cons.IH [OF s1(2)] continue_restored_restoring [OF s1(1)] Cons.prems by simp
qed simp

lemma fold_last_mem: fixes P :: "'a \<Rightarrow> 'a \<Rightarrow> bool"
  shows "fold (\<lambda>x best. if P x best then x else best) rs r \<in> set (r # rs)"
proof (induction rs arbitrary: r)
  case (Cons x rs)
  show ?case using Cons.IH [of x] Cons.IH [of r] by (cases "P x r") auto
qed simp

lemma last_by_agent_joined: "r \<in> set (last_by_agent sid d) \<Longrightarrow> r \<in> set (joined_rows d)"
proof -
  assume "r \<in> set (last_by_agent sid d)"
  then obtain a x xs where xs: "filter (\<lambda>r. in_agent (fst r) = a) (filter (\<lambda>r. in_agent (fst r) \<notin> set (blocked_agents d))
        (continuable_session_rows sid d)) = x # xs"
      and r: "r = fold (\<lambda>y best. if later_session_row y best then y else best) xs x"
    by (auto simp: last_by_agent_def Let_def map_filter_def split: list.splits)
  have "r \<in> set (x # xs)" unfolding r by (rule fold_last_mem)
  then have "r \<in> set (continuable_session_rows sid d)" unfolding xs [symmetric] by simp
  then show ?thesis by (simp add: continuable_session_rows_def)
qed

lemma if_not_swap: "(if \<not> b then x else y) = (if b then y else x)"
  by simp

lemma newest_strictly_mem: "newest_strictly rows = Some r \<Longrightarrow> r \<in> set rows"
proof (cases rows)
  case (Cons x xs)
  moreover have "fold (\<lambda>x best. if newer (fst best) (fst x) then best else x) xs x \<in> set (x # xs)"
    using fold_last_mem [of "\<lambda>x best. \<not> newer (fst best) (fst x)" xs x] unfolding if_not_swap .
  moreover assume "newest_strictly rows = Some r"
  ultimately show ?thesis by (auto simp: newest_strictly_def Let_def split: if_splits)
qed (simp add: newest_strictly_def)

lemma match_session_state:
  assumes "match_session sid now snap d0 x (fs, d) = (fs', d')"
    and "\<forall>t \<in> set fs. fst (snd t) \<in> set (joined_rows d0)"
  shows "(\<forall>t \<in> set fs'. fst (snd t) \<in> set (joined_rows d0)) \<and> (restoring d0 d \<longrightarrow> restoring d0 d')"
  using assms
  by (auto simp: match_session_def Let_def split: list.splits option.splits if_splits
      dest!: newest_strictly_mem last_by_agent_joined)

lemma match_sessions_state:
  "fold (match_session sid now snap d0) xs (fs, d) = (fs', d')
     \<Longrightarrow> \<forall>t \<in> set fs. fst (snd t) \<in> set (joined_rows d0) \<Longrightarrow> restoring d0 d
     \<Longrightarrow> (\<forall>t \<in> set fs'. fst (snd t) \<in> set (joined_rows d0)) \<and> restoring d0 d'"
proof (induction xs arbitrary: fs d)
  case (Cons x xs)
  obtain f1 d1 where m: "match_session sid now snap d0 x (fs, d) = (f1, d1)" by (metis surj_pair)
  show ?case using Cons.IH [of f1 d1] Cons.prems match_session_state [OF m Cons.prems(2)] m by simp
qed simp

lemma match_seat_joined: "t \<in> set (match_seat snap d c r) \<Longrightarrow> fst (snd t) = r"
  by (auto simp: match_seat_def split: option.splits if_splits)

lemma seat_rows_joined: "r \<in> set (continuable_seat_rows d) \<Longrightarrow> r \<in> set (joined_rows d)"
  by (auto simp: continuable_seat_rows_def)

lemma continue_restored_occupants_names:
  assumes "continue_restored_occupants sid order now snap d = Inr (n, d')" shows "keeps_names d d'"
proof (cases "last_by_agent sid d = [] \<and> continuable_seat_rows d = [] \<or> \<not> names_ok d")
  case True
  then show ?thesis using assms by (auto simp: continue_restored_occupants_def keeps_names_def)
next
  case False
  then have ok: "names_ok d" by simp
  obtain fs d1 where m: "fold (match_session sid now snap d) (order (live_sessions sid snap)) ([], d) = (fs, d1)"
    by (metis surj_pair)
  have fs: "\<forall>t \<in> set fs. fst (snd t) \<in> set (joined_rows d)" and r1: "restoring d d1"
    using match_sessions_state [OF m] ok by (auto simp: restoring_def same_agents_def)
  let ?seats = "concat (map (match_seat snap d (map restored_agent fs)) (continuable_seat_rows d))"
  have seats: "\<forall>t \<in> set ?seats. fst (snd t) \<in> set (joined_rows d)"
    by (auto simp del: split_paired_All dest!: match_seat_joined intro: seat_rows_joined)
  have "continue_all now d (fs @ ?seats) (fs @ ?seats) (0, d1) = Inr (n, d')"
    using assms False m by (auto simp: continue_restored_occupants_def Let_def)
  from continue_all_restoring [OF this] r1 ok fs seats have "restoring d d'" by auto
  then show ?thesis by (simp add: keeps_names_def restoring_def)
qed

lemma recovery_step_names: "recovery_step d d' \<Longrightarrow> keeps_names d d'"
proof (induction rule: recovery_step.induct)
  case (recovery_unknown now row d b d')
  then show ?case
    by (auto simp: settle_unknown_start_def Let_def split: prod.splits if_splits
        intro: names.rel_refl intro!: names_under_frame [OF restore_notice_names] upd_incarnations_names)
next
  case (recovery_released now name snap d r d')
  then show ?case
    by (auto simp: release_absent_alias_binding_def Let_def split: option.splits if_splits
        intro: names.rel_refl intro!: upd_incarnations_names)
next
  case (recovery_retired now oid inc pane t snap d b d')
  then show ?case
    by (auto simp: reconcile_retirement_def Let_def result_simps no_newly_ready_def split: if_splits
        intro: names.rel_refl intro!: names_under_frame [OF names_view_update(1)] upd_incarnations_names)
next
  case (recovery_clear_failed now oid d b d')
  then show ?case by (auto simp: fail_unattempted_clear_def Let_def intro!: names.rel_frame)
next
  case (recovery_archived now grace d n d')
  then show ?case
    by (auto simp: archive_dead_identities_def Let_def shrinks_waiters_def intro!: upd_agents_names)
qed (auto intro: reconcile_ready_incarnations_names continue_restored_occupants_names)

section \<open>Every step\<close>

text \<open>The renew operations write neither agents nor incarnations.\<close>

lemma change_renew_names: "change_renew p f e d = Inr d' \<Longrightarrow> names_view d' = names_view d"
  by (auto simp: change_renew_def result_simps)

lemma insert_renew_names: "insert_renew row d = Inr (i, d') \<Longrightarrow> names_view d' = names_view d"
  by (auto simp: insert_renew_def Let_def result_simps names_view_def)

lemma create_renew_names: "create_renew now n d = Inr (i, d') \<Longrightarrow> names_view d' = names_view d"
  by (auto simp: create_renew_def insert_renew_schedule_def Let_def result_simps names_view_def
      split: option.splits dest!: insert_renew_names [unfolded names_view_def])

lemma arm_next_renew_cycle_names:
  "arm_next_renew_cycle i now out d = Inr (j, d') \<Longrightarrow> names_view d' = names_view d"
  by (auto simp: arm_next_renew_cycle_def record_renew_firing_def Let_def result_simps names_view_def
      split: option.splits if_splits dest!: insert_renew_names [unfolded names_view_def])

lemma end_renew_names [simp]:
  "names_view (cancel_unanswered_prepare now i reason d) = names_view d"
  "names_view (end_renew_schedule st now i reason d) = names_view d"
  by (auto simp: cancel_unanswered_prepare_def end_renew_schedule_def names_view_def split: option.splits)

lemma insert_notice_names: "insert_notice body now d = (i, d') \<Longrightarrow> names_view d' = names_view d"
  using insert_notice_cast [of body now d] by (auto intro: cast_names)

lemma renew_step_names_view: "renew_step d d' \<Longrightarrow> names_view d' = names_view d"
proof (induction rule: renew_step.induct)
  case (renew_stall i now d b d')
  then show ?case by (auto simp: claim_renew_clear_stall_notice_def)
next
  case (renew_attempt i inc step rq now d d')
  then show ?case by (auto simp: prepare_renew_attempt_def Let_def result_simps names_view_def)
next
  case (renew_create now intent d i d')
  then show ?case by (rule create_renew_names)
qed (auto simp: accrue_renew_occupancy_def mark_renew_preparing_def mark_renew_ready_def mark_renew_clearing_def
    mark_renew_injected_def complete_renew_def mark_renew_timed_out_def abort_renew_def abandon_renew_proof_def
    terminate_renew_def terminate_renew_announced_def cancel_renew_def submit_renew_attempt_def
    resolve_renew_attempt_def Let_def result_simps
    dest!: change_renew_names arm_next_renew_cycle_names insert_notice_names)

lemma journal_step_names: "journal_step d d' \<Longrightarrow> keeps_names d d'"
  by (induction rule: journal_step.induct)
    (auto simp: mark_unknown_def mark_clear_unknown_def result_simps
      intro: begin_attempt_names accept_start_submission_names accept_start_ready_names mark_unknown_names
        mark_rejected_names names.rel_frame cast_names cast_frames)

lemma lifecycle_step_names: "lifecycle_step d d' \<Longrightarrow> keeps_names d d'"
proof (induction rule: lifecycle_step.induct)
  case (lifecycle_session_filled inc pane t session d b d')
  then show ?case using session_names(1) [of d inc pane t session] by simp
next
  case (lifecycle_notice now body d i d')
  then show ?case by (auto simp: create_operator_notice_def dest: insert_notice_names intro: names.rel_frame)
qed (auto intro: declare_start_names declare_adopt_names accept_adopt_ready_names create_clear_names
    complete_clear_names request_retirement_names declare_rename_names abandon_rename_names commit_rename_names session_names)

lemma waiter_step_names: "waiter_step d d' \<Longrightarrow> keeps_names d d'"
proof (induction rule: waiter_step.induct)
  case (waiter_touch a now d b d')
  then show ?case using waiter_seen_names(1) [of d a now] by simp
next
  case (waiter_boot now d n d')
  then show ?case using waiter_seen_names(2) [of d now] by simp
qed (auto intro: register_socket_waiter_names end_waiter_names names.rel_frame cast_names cast_frames)

lemma store_step_names: "store_step d d' \<Longrightarrow> keeps_names d d'"
  by (auto elim!: store_stepE intro: journal_step_names lifecycle_step_names waiter_step_names
      recovery_step_names names.rel_frame cast_names renew_step_names_view message_step_cast settle_step_cast schedule_step_cast
      reminder_step_cast ack_step_cast)

lemma names_ok_empty: "names_ok empty_db"
  by (simp add: names_ok_def agents_ok_def empty_db_def)

lemma reachable_names_ok: "reachable d \<Longrightarrow> names_ok d"
proof (induction rule: reachable.induct)
  case reachable_fresh show ?case by (rule names_ok_empty)
next
  case (reachable_step d d')
  then show ?case using store_step_names [of d d'] by (simp add: keeps_names_def)
qed

end
