(* ===== verification/Runs.thy ===== *)
theory Runs
  imports LiveNames
begin

text \<open>
  One concrete run of the store: a socket waiter registers, an agent is adopted, the waiter asks
  it, the agent answers and the waiter acknowledges the answer. The states of the run are the
  inputs at which the general theorems are applied.
\<close>

definition run_adopt :: adopt_intent where
  "run_adopt = \<lparr>ai_pane_id = ''p1'', ai_expected_terminal_id = ''t1'', ai_public_name = None,
     ai_logical_agent_id = None, ai_parent = Parentless, ai_herdr_session = ''main'', ai_backend_kind = None,
     ai_backend_args = [], ai_requested_model = None, ai_requested_provider = None,
     ai_requested_effort = None, ai_idempotency_key = ''adopt''\<rparr>"

definition run_evidence :: adopt_evidence where
  "run_evidence = \<lparr>ae_pane_id = ''p1'', ae_terminal_id = ''t1'', ae_public_name = ''worker'',
     ae_backend_kind = ''claude'', ae_working_directory = ''/w'', ae_interactive_ready = True,
     ae_launch_pending = False, ae_native_session = None\<rparr>"

definition run_registered :: "store_error + (logical_agent_id \<times> db)" where
  "run_registered = register_socket_waiter 1 ''asker'' Parentless ''waiter'' empty_db"

definition run_db1 :: db where "run_db1 = snd (projr run_registered)"

definition run_adopted :: "store_error + (declared_start \<times> db)" where
  "run_adopted = declare_adopt 2 run_adopt run_evidence run_db1"

definition run_db2 :: db where "run_db2 = snd (projr run_adopted)"

definition run_asked :: "store_error + (message_id \<times> operation_id \<times> db)" where
  "run_asked = create_ask 3 1 2 1 ''question'' ''ask'' run_db2"

definition run_db3 :: db where "run_db3 = snd (snd (projr run_asked))"

definition run_answered :: "store_error + (created_reply \<times> db)" where
  "run_answered = create_reply 4 1 2 ''answer'' Final ''reply'' run_db3"

definition run_db4 :: db where "run_db4 = snd (projr run_answered)"

definition run_acked :: "store_error + (delivery_outcome \<times> db)" where
  "run_acked = ack_socket_inbox_delivery 5 1 2 run_db4"

definition run_db5 :: db where "run_db5 = snd (projr run_acked)"

lemma run_ok:
  "\<not> isl run_registered" "\<not> isl run_adopted" "\<not> isl run_asked" "\<not> isl run_answered" "\<not> isl run_acked"
  by code_simp+

lemma projr_Inr: "\<not> isl v \<Longrightarrow> v = Inr (projr v)"
  by (cases v) simp_all

lemma run_steps:
  "register_socket_waiter 1 ''asker'' Parentless ''waiter'' empty_db = Inr (fst (projr run_registered), run_db1)"
  "declare_adopt 2 run_adopt run_evidence run_db1 = Inr (fst (projr run_adopted), run_db2)"
  "create_ask 3 1 2 1 ''question'' ''ask'' run_db2
     = Inr (fst (projr run_asked), fst (snd (projr run_asked)), run_db3)"
  "create_reply 4 1 2 ''answer'' Final ''reply'' run_db3 = Inr (fst (projr run_answered), run_db4)"
  "ack_socket_inbox_delivery 5 1 2 run_db4 = Inr (fst (projr run_acked), run_db5)"
  using run_ok [THEN projr_Inr]
  by (simp_all add: run_registered_def run_adopted_def run_asked_def run_answered_def run_acked_def
      run_db1_def run_db2_def run_db3_def run_db4_def run_db5_def)

lemma run_store_steps:
  "store_step empty_db run_db1" "store_step run_db1 run_db2" "store_step run_db2 run_db3"
  "store_step run_db3 run_db4" "store_step run_db4 run_db5"
  using run_steps
  by (auto simp: create_ask_def create_ask_with_due_def create_ask_with_schedule_def create_reply_def
      intro: store_step.intros waiter_step.intros lifecycle_step.intros message_step.intros ack_step.intros)

lemma run_reachable:
  "reachable empty_db" "reachable run_db1" "reachable run_db2" "reachable run_db3" "reachable run_db4"
  "reachable run_db5"
  using run_store_steps reachable_fresh reachable_step by blast+

lemma run_values:
  "map ob_state (obligations run_db4) = [ObOpen]" "map ob_state (obligations run_db5) = [ObResolved]"
  "map ms_id (messages run_db5) = [1, 2]" "map dl_outcome (deliveries run_db5) = [DPending, DAccepted]"
  by code_simp+

end
