(* ===== verification/AskLaws.thy ===== *)
theory AskLaws
  imports Runs
begin

text \<open>
  What the operations on asks, replies and deliveries guarantee to their parties: leases, retries,
  acknowledgement, retirement, cancellation and orphaning.
\<close>

section \<open>A run with the pull sink\<close>

text \<open>Two adopted agents; the second asks the first, chooses the pull sink and claims it twice.\<close>

definition pull_db1 :: db where
  "pull_db1 = snd (projr (declare_adopt 1 run_adopt run_evidence empty_db))"

definition pull_db2 :: db where
  "pull_db2 = snd (projr (declare_adopt 2
     (run_adopt\<lparr>ai_pane_id := ''p2'', ai_expected_terminal_id := ''t2'', ai_idempotency_key := ''adopt2''\<rparr>)
     (run_evidence\<lparr>ae_pane_id := ''p2'', ae_terminal_id := ''t2'', ae_public_name := ''peer''\<rparr>) pull_db1))"

definition pull_db3 :: db where
  "pull_db3 = snd (snd (projr
     (create_ask_with_reply_delivery 3 2 1 1 ''question'' ''ask'' None (Some 60000) False Pull pull_db2)))"

definition pull_db4 :: db where "pull_db4 = snd (projr (claim_ask_pull_lease 4 1 2 pull_db3))"

definition pull_db5 :: db where "pull_db5 = snd (projr (claim_ask_pull_lease 5 1 2 pull_db4))"

lemma pull_claims:
  "claim_ask_pull_lease 4 1 2 pull_db3 = Inr (1, pull_db4)"
  "claim_ask_pull_lease 5 1 2 pull_db4 = Inr (2, pull_db5)"
proof -
  have "\<not> isl (claim_ask_pull_lease 4 1 2 pull_db3)" "fst (projr (claim_ask_pull_lease 4 1 2 pull_db3)) = 1"
    "\<not> isl (claim_ask_pull_lease 5 1 2 pull_db4)" "fst (projr (claim_ask_pull_lease 5 1 2 pull_db4)) = 2"
    by code_simp+
  then show "claim_ask_pull_lease 4 1 2 pull_db3 = Inr (1, pull_db4)"
    "claim_ask_pull_lease 5 1 2 pull_db4 = Inr (2, pull_db5)"
    unfolding pull_db4_def [of] pull_db5_def by (metis projr_Inr prod.collapse)+
qed

section \<open>Leases\<close>

lemma claim_ask_pull_lease_Inr:
  "claim_ask_pull_lease now ask a d = Inr (l, d') \<longleftrightarrow> (\<exists>u. require_pull_waiter ask a d = Inr u)
     \<and> l = Suc (seq_leases d) \<and> d' = d\<lparr>leases := filter (\<lambda>l. ls_ask l \<noteq> ask) (leases d)
          @ [\<lparr>ls_id = l, ls_ask = ask, ls_waiting = a, ls_claimed_at_ms = now\<rparr>], seq_leases := l\<rparr>"
  by (auto simp: claim_ask_pull_lease_def Let_def result_simps)

lemma require_pull_waiter_frame:
  "obligations d' = obligations d \<Longrightarrow> require_pull_waiter ask a d' = require_pull_waiter ask a d"
  by (simp add: require_pull_waiter_def find_obligation_def)

text \<open>
  C15: a lease that was claimed again is dead. Once the asker claims the sink of its ask a second time,
  an acknowledgement under the first lease is refused as stale, whatever message it names.
\<close>

theorem stale_lease_cannot_acknowledge:
  assumes "claim_ask_pull_lease now ask a d = Inr (old, d1)"
    and "claim_ask_pull_lease now' ask a d1 = Inr (current, d2)"
  shows "old < current \<and> ack_ask_pull_delivery t ask a m old d2 = Inl (Conflict (OnPull LeaseStale))"
proof -
  from assms(1) obtain u where u: "require_pull_waiter ask a d = Inr u"
    and d1: "obligations d1 = obligations d" "old = Suc (seq_leases d)" "seq_leases d1 = old"
    by (auto simp: claim_ask_pull_lease_Inr)
  have d2: "current = Suc old" "obligations d2 = obligations d"
      "leases d2 = filter (\<lambda>l. ls_ask l \<noteq> ask) (leases d1)
         @ [\<lparr>ls_id = current, ls_ask = ask, ls_waiting = a, ls_claimed_at_ms = now'\<rparr>]"
    using assms(2) d1 by (auto simp: claim_ask_pull_lease_Inr)
  have "find_row (\<lambda>l. ls_ask l = ask \<and> ls_waiting l = a) (filter (\<lambda>l. ls_ask l \<noteq> ask) (leases d1)) = None"
    by (simp add: find_row_None)
  then have "require_live_ask_pull_lease ask a old d2 = Inl (Conflict (OnPull LeaseStale))"
    by (simp add: require_live_ask_pull_lease_def d2 find_row_append ensure_def)
  moreover have "require_pull_waiter ask a d2 = Inr u"
    using u require_pull_waiter_frame [OF d2(2)] by simp
  ultimately show ?thesis by (simp add: ack_ask_pull_delivery_def d2 rbind_def)
qed

theorem stale_lease_cannot_acknowledge_witness:
  "ack_ask_pull_delivery 6 1 2 3 1 pull_db5 = Inl (Conflict (OnPull LeaseStale))"
  using stale_lease_cannot_acknowledge [OF pull_claims, of 6 3] by simp

section \<open>Acknowledgement\<close>

text \<open>
  C16: acknowledging an inbox message is idempotent. After a successful acknowledgement, the same one
  at whatever later time succeeds again and leaves the store as it is.
\<close>

theorem inbox_ack_idempotent:
  assumes "ack_socket_inbox_delivery now a m d = Inr (out, d')"
  shows "ack_socket_inbox_delivery now' a m d' = Inr (DAccepted, d')"
proof -
  let ?p = "\<lambda>r. dl_message r = m \<and> dl_agent r = Some a \<and> dl_transport r = SocketInbox"
  have same: "require_active_socket_waiter a d' = require_active_socket_waiter a d" if "agents d' = agents d" for d'
    using that by (simp add: require_active_socket_waiter_def find_agent_def)
  obtain r u where w: "require_active_socket_waiter a d = Inr u" and r: "find_row ?p (deliveries d) = Some r"
    using assms by (auto simp: ack_socket_inbox_delivery_def result_simps split: option.splits)
  show ?thesis
  proof (cases "dl_outcome r = DAccepted")
    case True
    then have "d' = d" using assms w r by (auto simp: ack_socket_inbox_delivery_def result_simps)
    with True w r show ?thesis by (simp add: ack_socket_inbox_delivery_def rbind_def)
  next
    case False
    let ?f = "\<lambda>r. r\<lparr>dl_outcome := DAccepted, dl_resolved_at_ms := Some now\<rparr>"
    let ?q = "\<lambda>r. ?p r \<and> dl_outcome r = DQueued"
    have out: "dl_outcome r = DQueued"
      and d': "d' = resolve_socket_inbox_final_reply now m (upd_deliveries ?q ?f d)"
      using assms w r False by (auto simp: ack_socket_inbox_delivery_def result_simps split: if_splits)
    have "find_row ?p (update_rows ?q ?f (deliveries d))
        = map_option (\<lambda>r. if ?q r then ?f r else r) (find_row ?p (deliveries d))"
      by (rule find_row_update) simp
    moreover have "deliveries d' = update_rows ?q ?f (deliveries d)" "agents d' = agents d"
      by (simp_all add: d' resolve_socket_inbox_final_reply_def resolve_obligation_def split: option.split)
    moreover have "?p r" using r find_row_SomeD(2) by fast
    ultimately have "find_row ?p (deliveries d') = Some (?f r)"
      by (simp only: r out option.map if_True simp_thms)
    with same [of d'] w \<open>agents d' = agents d\<close> show ?thesis
      by (simp add: ack_socket_inbox_delivery_def rbind_def)
  qed
qed

theorem inbox_ack_idempotent_witness: "ack_socket_inbox_delivery 9 1 2 run_db5 = Inr (DAccepted, run_db5)"
  by (rule inbox_ack_idempotent [OF run_steps(5)])

text \<open>
  C12: an acceptance proves the exact runtime. A prompt is accepted, and a final reply it carries
  settles its ask, only for a Ready incarnation whose recorded pane and terminal are the ones that
  answered; a replacement in the same seat changes nothing.
\<close>

theorem acceptance_needs_exact_runtime:
  assumes "accept_delivery_with_submission now oid inc pane terminal sub d = Inr d'"
  shows "(\<exists>i \<in> set (incarnations d). in_id i = inc \<and> in_state i = IReady
       \<and> in_observed_pane i = Some pane \<and> in_observed_terminal i = Some terminal)
     \<and> (\<exists>r \<in> set (operations d). op_id r = oid \<and> op_target r = inc \<and> op_outcome r = OpPending)"
proof -
  obtain i where i: "find_row (\<lambda>i. in_id i = inc \<and> in_state i = IReady) (incarnations d) = Some i"
      "in_observed_pane i = Some pane" "in_observed_terminal i = Some terminal"
    and one: "count_rows (\<lambda>r. op_id r = oid \<and> op_target r = inc \<and> op_outcome r = OpPending) (operations d) = 1"
    using assms by (auto simp: accept_delivery_with_submission_def Let_def result_simps)
  have "i \<in> set (incarnations d)" "in_id i = inc \<and> in_state i = IReady"
    using find_row_Some [OF i(1)] by auto
  moreover have "\<exists>r \<in> set (operations d). op_id r = oid \<and> op_target r = inc \<and> op_outcome r = OpPending"
    using one count_rows_one_ex by fastforce
  ultimately show ?thesis using i(2,3) by blast
qed


section \<open>Replies\<close>

lemma routed_obligation:
  assumes "routed ask disposition now d d'" and x: "find_obligation d ask = Some x" "ob_unsettled (ob_state x)"
  shows "\<exists>y. find_obligation d' ask = Some y \<and> ob_last_activity_ms y = now \<and> ob_resolving y = ob_resolving x
     \<and> ob_state y = (case disposition of Progress \<Rightarrow> ObInProgress | Final \<Rightarrow> ob_state x)"
proof -
  obtain d1 where v: "ledger_view d1 = ledger_view d"
    and d': "d' = apply_reply_obligation_activity ask disposition now d1"
    using assms(1) by (auto simp: routed_def)
  have x1: "find_row (\<lambda>r. ob_ask r = ask) (obligations d1) = Some x"
    using v x(1) by (simp add: ledger_view_def find_obligation_def)
  have p: "find_row (\<lambda>r. ob_ask r = ask) (update_rows (\<lambda>x. ob_ask x = ask)
      (\<lambda>x. x\<lparr>ob_state := ObInProgress, ob_last_activity_ms := now\<rparr>) (obligations d1))
      = Some (x\<lparr>ob_state := ObInProgress, ob_last_activity_ms := now\<rparr>)"
    using x1 find_row_SomeD(2) [OF x1] by (subst find_row_update) auto
  have f: "find_row (\<lambda>r. ob_ask r = ask) (update_rows (\<lambda>x. ob_ask x = ask \<and> ob_unsettled (ob_state x))
      (\<lambda>x. x\<lparr>ob_last_activity_ms := now\<rparr>) (obligations d1)) = Some (x\<lparr>ob_last_activity_ms := now\<rparr>)"
    using x1 x(2) find_row_SomeD(2) [OF x1] by (subst find_row_update) auto
  show ?thesis
    using p f by (cases disposition)
      (simp_all add: d' apply_reply_obligation_activity_def refresh_reminder_activity_def find_obligation_def)
qed

text \<open>
  C10: a recorded reply is one new message of the owing agent and settles nothing. A reply that is no
  replay comes from the owing agent of an unsettled ask; it adds exactly one message, to the waiting
  agent, and moves the obligation to in progress or leaves its state, final replies included, until a
  delivery is acknowledged.
\<close>

theorem reply_records_without_settling:
  assumes "create_reply_with_due now ask requester body disposition key due d = Inr (r, d')"
    and "reply_replay ask requester key d = Inr None"
  shows "\<exists>x m y. find_obligation d ask = Some x \<and> ob_unsettled (ob_state x) \<and> requester = ob_owing x
     \<and> messages d' = messages d @ [m] \<and> ms_id m = cr_message r \<and> ms_kind m = Reply
     \<and> ms_sender m = Some requester \<and> ms_recipient m = ob_waiting x \<and> ms_reply_to m = Some ask
     \<and> ms_body m = body \<and> ms_disposition m = Some disposition
     \<and> find_obligation d' ask = Some y \<and> ob_resolving y = ob_resolving x
     \<and> ob_state y = (case disposition of Progress \<Rightarrow> ObInProgress | Final \<Rightarrow> ob_state x)"
  using assms(1)
proof (cases rule: create_reply_cases)
  case 1 with assms(2) show ?thesis by simp
next
  case (2 x n d1)
  obtain m where m: "messages d1 = messages d @ [m]" "ms_id m = n" "ms_kind m = Reply"
      "ms_sender m = Some (ob_owing x)" "ms_recipient m = ob_waiting x" "ms_reply_to m = Some ask"
      "ms_body m = body" "ms_disposition m = Some disposition" and obs: "obligations d1 = obligations d"
    using 2(4) by (auto simp: insert_message_Inr)
  have x1: "find_obligation d1 ask = Some x" using 2(1) obs by (simp add: find_obligation_def)
  obtain y where y: "find_obligation d' ask = Some y" "ob_resolving y = ob_resolving x"
      "ob_state y = (case disposition of Progress \<Rightarrow> ObInProgress | Final \<Rightarrow> ob_state x)"
    using routed_obligation [OF 2(5) x1 2(2)] by blast
  have "messages d' = messages d1"
    using 2(5) by (cases disposition) (auto simp: routed_def ledger_view_def
        apply_reply_obligation_activity_def refresh_reminder_activity_def)
  with m y 2 show ?thesis by auto
qed

theorem reply_records_without_settling_witness:
  "\<exists>m. messages run_db4 = messages run_db3 @ [m] \<and> ms_sender m = Some 2 \<and> ms_body m = ''answer''"
proof -
  have "reply_replay 1 2 ''reply'' run_db3 = Inr None" by code_simp
  from reply_records_without_settling [OF run_steps(4) [unfolded create_reply_def] this] show ?thesis by blast
qed

section \<open>Retirement of a waiter\<close>

lemma record_side_obligations:
  "record_cancellation_side r ask reason b au due now e d = Inr (m, dl, d') \<Longrightarrow> obligations d' = obligations d"
  by (rule record_cancellation_side_quiet(2))

lemma cancelled_not_waiting: "\<not> waiting_unsettled ask a (cancel_row now a reason x)"
  by (simp add: waiting_unsettled_def cancel_row_def ob_unsettled_def)

definition ask_keys :: "db \<Rightarrow> message_id list" where
  "ask_keys d = map ob_ask (obligations d)"

lemma ask_keys_update: "(\<And>x. ob_ask (f x) = ob_ask x) \<Longrightarrow> ask_keys (upd_obligations p f d) = ask_keys d"
  by (simp add: ask_keys_def map_update_rows_key)

lemma supersede_unsubmitted_settles:
  assumes "supersede_unsubmitted_ask_delivery ask a reason now d = (b, d')"
  shows "ask_keys d' = ask_keys d" and "b \<Longrightarrow> y \<in> set (obligations d') \<Longrightarrow> \<not> waiting_unsettled ask a y"
  using assms cancelled_not_waiting
  by (auto simp: supersede_unsubmitted_ask_delivery_def Let_def ask_keys_def map_update_rows_key
      cancel_row_def set_update_rows split: option.splits if_splits)

lemma retire_ask_settles:
  assumes r: "retire_ask now a name due reason x d = Inr (notice, d')"
  shows "ask_keys d' = ask_keys d" and "y \<in> set (obligations d') \<Longrightarrow> \<not> waiting_unsettled (ob_ask x) a y"
proof -
  obtain b d0 where s: "supersede_unsubmitted_ask_delivery (ob_ask x) a reason now d = (b, d0)"
    by (cases "supersede_unsubmitted_ask_delivery (ob_ask x) a reason now d")
  have "ask_keys d' = ask_keys d \<and> (\<forall>y \<in> set (obligations d'). \<not> waiting_unsettled (ob_ask x) a y)"
  proof (cases b)
    case True
    with r s have "d' = d0" by (simp add: retire_ask_def)
    with True supersede_unsubmitted_settles [OF s] show ?thesis by blast
  next
    case False
    then obtain d2 wm om where obs: "obligations d2 = obligations d0"
      and d': "d' = upd_obligations (waiting_unsettled (ob_ask x) a) (cancel_row now a reason)
              (upd_obligations (\<lambda>z. ob_ask z = ob_ask x)
                (\<lambda>z. z\<lparr>ob_cancel_response := Some wm, ob_cancel_owing := Some om\<rparr>) d2)"
      using r s by (auto simp: retire_ask_def result_simps Let_def dest!: record_side_obligations)
    have "ask_keys d' = ask_keys d0"
      unfolding d' using obs by (simp add: ask_keys_def map_update_rows_key cancel_row_def)
    moreover have "\<not> waiting_unsettled (ob_ask x) a y" if "y \<in> set (obligations d')" for y
      using that cancelled_not_waiting by (auto simp: d' set_update_rows)
    ultimately show ?thesis using supersede_unsubmitted_settles(1) [OF s] by simp
  qed
  then show "ask_keys d' = ask_keys d" "y \<in> set (obligations d') \<Longrightarrow> \<not> waiting_unsettled (ob_ask x) a y"
    by blast+
qed

text \<open>With the asks unchanged, every row of the later ledger is a row of the earlier one, evolved.\<close>

lemma evolved_row:
  assumes "rows_evolve xs ys" and "map ob_ask ys = map ob_ask xs" and "y \<in> set ys"
  obtains x where "x \<in> set xs" and "ob_evolves x y"
proof -
  obtain zs ws where ys: "ys = zs @ ws" and l: "list_all2 ob_evolves xs zs"
    using assms(1) by (auto simp: rows_evolve_def)
  have "length ys = length xs" using arg_cong [OF assms(2), of length] by simp
  then have "list_all2 ob_evolves xs ys" using ys l list_all2_lengthD [OF l] by simp
  then have "list_all2 (\<lambda>y x. ob_evolves x y) ys xs" by (simp add: list_all2_conv_all_nth)
  from list_all2_partner [OF this assms(3)] that show thesis by blast
qed

lemma waiting_unsettled_back: "ob_evolves x y \<Longrightarrow> waiting_unsettled k a y \<Longrightarrow> waiting_unsettled k a x"
  by (auto simp: ob_evolves_def same_obligation_def waiting_unsettled_def)

lemma retire_asks_settle:
  assumes "retire_asks now a name due reason os d = Inr (cs, ns, d')" and "ledger_ok d"
  shows "ask_keys d' = ask_keys d \<and> cs = map ob_ask os
     \<and> (\<forall>x \<in> set os. \<forall>y \<in> set (obligations d'). \<not> waiting_unsettled (ob_ask x) a y)"
  using assms
proof (induction os arbitrary: d cs ns)
  case (Cons x os)
  then obtain notice d1 cs' ns' where r: "retire_ask now a name due reason x d = Inr (notice, d1)"
    and rs: "retire_asks now a name due reason os d1 = Inr (cs', ns', d')" and cs: "cs = ob_ask x # cs'"
    by (auto simp: result_simps)
  have ok: "ledger_ok d1"
    using retire_ask_quiet [OF r] Cons.prems(2) by (simp add: keeps_ledger_quietly_def)
  have ev: "rows_evolve (obligations d1) (obligations d')"
    using retire_asks_quiet [OF rs] ok by (simp add: keeps_ledger_quietly_def evolves_def)
  note IH = Cons.IH [OF rs ok]
  have "\<not> waiting_unsettled (ob_ask x) a y" if y: "y \<in> set (obligations d')" for y
  proof -
    have "map ob_ask (obligations d') = map ob_ask (obligations d1)" using IH by (simp add: ask_keys_def)
    from evolved_row [OF ev this y] obtain z where "z \<in> set (obligations d1)" "ob_evolves z y" .
    with retire_ask_settles(2) [OF r] waiting_unsettled_back show ?thesis by blast
  qed
  with IH cs retire_ask_settles(1) [OF r] show ?case by simp
qed simp

lemma ended_not_active:
  assumes "r \<in> set (update_rows (end_waiter_row a) (\<lambda>r. r\<lparr>la_ended_at_ms := Some now\<rparr>) rs)" and "la_id r = a"
  shows "\<not> active_waiter_row r"
proof -
  obtain s where s: "r = (if end_waiter_row a s then s\<lparr>la_ended_at_ms := Some now\<rparr> else s)"
    using assms(1) unfolding set_update_rows by blast
  show ?thesis
  proof (cases "end_waiter_row a s")
    case True
    then have "r = s\<lparr>la_ended_at_ms := Some now\<rparr>" using s by simp
    then show ?thesis by (simp add: active_waiter_row_def)
  next
    case False
    then have "r = s" using s by simp
    with False assms(2) show ?thesis by (simp add: end_waiter_row_def)
  qed
qed

text \<open>
  C7: the end of a waiter leaves nothing behind. Afterwards no ask that waits on it is unsettled, the
  asks reported as cancelled are the ones that were, none of its inbox deliveries stays queued, and it
  is no delivery target any more.
\<close>

theorem waiter_end_leaves_nothing_open:
  assumes "reachable d" and "end_socket_waiter_with_owing_due now a due reason d = Inr (cs, ns, d')"
  shows "(\<forall>x \<in> set (obligations d'). ob_waiting x = a \<longrightarrow> \<not> ob_unsettled (ob_state x))
     \<and> cs = map ob_ask (unresolved_asks_of d a)
     \<and> (\<forall>r \<in> set (deliveries d'). dl_agent r = Some a \<and> dl_transport r = SocketInbox \<longrightarrow> dl_outcome r \<noteq> DQueued)
     \<and> (\<exists>e. require_active_socket_waiter a d' = Inl e)"
proof -
  define d1 where "d1 = upd_agents (end_waiter_row a) (\<lambda>r. r\<lparr>la_ended_at_ms := Some now\<rparr>) d"
  define q :: "delivery_row \<Rightarrow> bool" where
    "q = (\<lambda>r. dl_agent r = Some a \<and> dl_transport r = SocketInbox \<and> dl_outcome r = DQueued)"
  obtain name d2 where r: "retire_asks now a name due reason (unresolved_asks_of d1 a) d1 = Inr (cs, ns, d2)"
    and d': "d' = upd_deliveries q (\<lambda>r. r\<lparr>dl_outcome := DTargetUnavailable, dl_resolved_at_ms := Some now\<rparr>) d2"
    using assms(2) by (auto simp: end_socket_waiter_with_owing_due_def Let_def result_simps d1_def q_def)
  have same: "obligations d1 = obligations d" "messages d1 = messages d" "seq_messages d1 = seq_messages d"
    by (simp_all add: d1_def)
  have asks: "unresolved_asks_of d1 a = unresolved_asks_of d a" using same by (simp add: unresolved_asks_of_def)
  have ok: "ledger_ok d1" using reachable_ledger_ok [OF assms(1)] same by (simp add: ledger_ok_def)
  note settle = retire_asks_settle [OF r ok]
  have "\<not> ob_unsettled (ob_state y)" if y: "y \<in> set (obligations d2)" "ob_waiting y = a" for y
  proof
    assume un: "ob_unsettled (ob_state y)"
    have ev: "rows_evolve (obligations d1) (obligations d2)"
      using retire_asks_quiet [OF r] ok by (simp add: keeps_ledger_quietly_def evolves_def)
    have "map ob_ask (obligations d2) = map ob_ask (obligations d1)" using settle by (simp add: ask_keys_def)
    from evolved_row [OF ev this y(1)] obtain z where z: "z \<in> set (obligations d1)" "ob_evolves z y" .
    have w: "waiting_unsettled (ob_ask y) a y" using y un by (simp add: waiting_unsettled_def)
    with waiting_unsettled_back [OF z(2)] have "waiting_unsettled (ob_ask y) a z" by blast
    then have "z \<in> set (unresolved_asks_of d1 a)" "ob_ask z = ob_ask y"
      using z(1) by (auto simp: unresolved_asks_of_def waiting_unsettled_def)
    with settle w y(1) show False by metis
  qed
  moreover have "obligations d' = obligations d2" "deliveries d' = update_rows q
      (\<lambda>r. r\<lparr>dl_outcome := DTargetUnavailable, dl_resolved_at_ms := Some now\<rparr>) (deliveries d2)"
    by (simp_all add: d')
  moreover have "agents d' = agents d1"
    using retire_asks_cast [OF r] by (simp add: d' cast_view_def)
  then have "\<not> (r \<in> set (agents d') \<and> la_id r = a \<and> active_waiter_row r)" for r
    using ended_not_active by (simp add: d1_def)
  then have "\<exists>e. require_active_socket_waiter a d' = Inl e"
    using require_active_socket_waiterD [of a d'] by (cases "require_active_socket_waiter a d'") auto
  ultimately show ?thesis
    using settle asks by (auto simp: set_update_rows q_def split: if_splits)
qed


theorem waiter_end_leaves_nothing_open_witness:
  "map ob_state (obligations (snd (snd (projr (end_socket_waiter 6 1 run_db4))))) = [ObCancelled]
   \<and> (\<exists>e. require_active_socket_waiter 1 (snd (snd (projr (end_socket_waiter 6 1 run_db4)))) = Inl e)"
proof -
  have "\<not> isl (end_socket_waiter 6 1 run_db4)" by code_simp
  then have "end_socket_waiter_with_owing_due 6 1 (\<lambda>_. None) ''waiter retired'' run_db4
      = Inr (fst (projr (end_socket_waiter 6 1 run_db4)), fst (snd (projr (end_socket_waiter 6 1 run_db4))),
             snd (snd (projr (end_socket_waiter 6 1 run_db4))))"
    by (simp add: end_socket_waiter_def projr_Inr)
  from waiter_end_leaves_nothing_open [OF run_reachable(5) this]
  have "\<exists>e. require_active_socket_waiter 1 (snd (snd (projr (end_socket_waiter 6 1 run_db4)))) = Inl e" by blast
  moreover have "map ob_state (obligations (snd (snd (projr (end_socket_waiter 6 1 run_db4))))) = [ObCancelled]"
    by code_simp
  ultimately show ?thesis by blast
qed

section \<open>Settlement\<close>

text \<open>A notice of a cancelled or orphaned ask: to one party, from nobody, owing no answer.\<close>

definition notice_for :: "db \<Rightarrow> message_id \<Rightarrow> logical_agent_id \<Rightarrow> string \<Rightarrow> bool" where
  "notice_for d m a body \<longleftrightarrow> (\<exists>r \<in> set (messages d). ms_id r = m \<and> ms_kind r = Cancellation \<and> ms_sender r = None
     \<and> ms_recipient r = a \<and> ms_body r = body \<and> ms_reply_to r = None \<and> \<not> ms_creates_obligation r)"

lemma queue_messages:
  "queue_ask_pull_delivery m a now d = Inr d' \<Longrightarrow> messages d' = messages d"
  "queue_socket_inbox_delivery m a now d = Inr d' \<Longrightarrow> messages d' = messages d"
  "insert_cancellation_prompt m ask reason inc au due now d = Inr (oid, d') \<Longrightarrow> messages d' = messages d"
  using queue_frames(1,2) [of m a now d d'] insert_cancellation_prompt_frame [of m ask reason inc au due now d oid d']
  by (simp_all add: ledger_view_def)

lemma record_side_notice:
  assumes "record_cancellation_side r ask reason b au due now e d = Inr (m, dl, d')"
  shows "notice_for d' m r b" and "\<exists>x. messages d' = messages d @ [x]"
proof -
  obtain d1 where m: "insert_message None r Cancellation b now None None False d = Inr (m, d1)"
    and v: "messages d' = messages d1"
    using assms by (auto simp: record_cancellation_side_def result_simps split: if_splits
        delivery_transport.splits option.splits dest: queue_messages)
  then show "notice_for d' m r b" "\<exists>x. messages d' = messages d @ [x]"
    by (auto simp: insert_message_Inr notice_for_def)
qed

lemma notice_for_mono: "notice_for d m a b \<Longrightarrow> messages d' = messages d @ ms \<Longrightarrow> notice_for d' m a b"
  by (auto simp: notice_for_def)

lemma record_both_sides_notices:
  assumes "record_both_sides now x reason b ob due odue d = Inr (c, d')"
    and "find_obligation d ask = Some x"
  shows "notice_for d' (cc_message c) (ob_waiting x) b" and "notice_for d' (cc_owing_message c) (ob_owing x) ob"
    and "find_obligation d' ask = Some (x\<lparr>ob_cancel_response := Some (cc_message c),
           ob_cancel_owing := Some (cc_owing_message c)\<rparr>)"
proof -
  obtain m dl om odl d1 d2 where
      w: "record_cancellation_side (ob_waiting x) (ob_ask x) reason b Waiting due now
            (OnReply AmbiguousReadyWaiting) d = Inr (m, dl, d1)"
    and o': "record_cancellation_side (ob_owing x) (ob_ask x) reason ob Owing odue now
            (OnReply AmbiguousReadyOwing) d1 = Inr (om, odl, d2)"
    and c: "cc_message c = m" "cc_owing_message c = om"
    and d': "d' = upd_obligations (\<lambda>y. ob_ask y = ob_ask x)
            (\<lambda>y. y\<lparr>ob_cancel_response := Some m, ob_cancel_owing := Some om\<rparr>) d2"
    using assms(1) by (auto simp: record_both_sides_def result_simps)
  have ms: "messages d' = messages d2" by (simp add: d')
  show "notice_for d' (cc_owing_message c) (ob_owing x) ob"
    using record_side_notice(1) [OF o'] ms by (simp add: c notice_for_def)
  show "notice_for d' (cc_message c) (ob_waiting x) b"
    using record_side_notice(1) [OF w] record_side_notice(2) [OF o'] ms notice_for_mono by (simp add: c) metis
  have "obligations d2 = obligations d"
    using record_side_obligations [OF w] record_side_obligations [OF o'] by simp
  moreover have x: "find_row (\<lambda>r. ob_ask r = ask) (obligations d) = Some x" "ob_ask x = ask"
    using assms(2) find_obligation_Some [OF assms(2)] by (auto simp: find_obligation_def)
  moreover have "find_row (\<lambda>r. ob_ask r = ask) (update_rows (\<lambda>y. ob_ask y = ob_ask x)
      (\<lambda>y. y\<lparr>ob_cancel_response := Some m, ob_cancel_owing := Some om\<rparr>) (obligations d))
      = Some (x\<lparr>ob_cancel_response := Some m, ob_cancel_owing := Some om\<rparr>)"
    using x by (subst find_row_update) auto
  ultimately show "find_obligation d' ask = Some (x\<lparr>ob_cancel_response := Some (cc_message c),
      ob_cancel_owing := Some (cc_owing_message c)\<rparr>)"
    by (simp add: d' c find_obligation_def)
qed

lemma settle_found:
  assumes "find_obligation d ask = Some x" and "ob_unsettled (ob_state x)" and "\<And>z. ob_ask (f z) = ob_ask z"
  shows "find_obligation (upd_obligations (unsettled_ask ask) f d) ask = Some (f x)"
proof -
  have x: "find_row (\<lambda>r. ob_ask r = ask) (obligations d) = Some x" "ob_ask x = ask"
    using assms(1) find_obligation_Some [OF assms(1)] by (auto simp: find_obligation_def)
  then have "find_row (\<lambda>r. ob_ask r = ask) (update_rows (unsettled_ask ask) f (obligations d)) = Some (f x)"
    using assms(2,3) by (subst find_row_update) (auto simp: unsettled_ask_def)
  then show ?thesis by (simp add: find_obligation_def)
qed

text \<open>
  C11: a cancellation with response settles the ask once and tells both parties. It succeeds only on
  an unsettled ask that is no prepare ask of a running renew; afterwards the obligation is cancelled
  with the requester and the reason, and names one notice recorded for the asker and one for the
  responder.
\<close>

theorem cancellation_settles_and_notifies:
  assumes "cancel_with_response now requester ask reason body obody due odue d = Inr (c, d')"
  shows "\<exists>x y. find_obligation d ask = Some x \<and> ob_unsettled (ob_state x)
     \<and> \<not> (\<exists>r \<in> set (renews d). rn_prepare_ask r = Some ask \<and> \<not> renew_ended (rn_phase r))
     \<and> find_obligation d' ask = Some y \<and> ob_state y = ObCancelled
     \<and> ob_cancel_requester y = Some requester \<and> ob_cancel_reason y = Some reason \<and> \<not> blank reason
     \<and> ob_cancel_response y = Some (cc_message c) \<and> notice_for d' (cc_message c) (ob_waiting x) body
     \<and> ob_cancel_owing y = Some (cc_owing_message c) \<and> notice_for d' (cc_owing_message c) (ob_owing x) obody"
proof -
  obtain x d1 u where x: "find_obligation d ask = Some x" "ob_unsettled (ob_state x)" "\<not> blank reason"
    and renew: "refuse_renew_prepare_ask_cancel ask d = Inr u"
    and r: "record_both_sides now x reason body obody due odue d = Inr (c, d1)"
    and d': "d' = upd_obligations (unsettled_ask ask) (cancel_row now requester reason) d1"
    using assms by (auto simp: cancel_with_response_def result_simps)
  have "notice_for d' m a b = notice_for d1 m a b" for m a b by (simp add: notice_for_def d')
  moreover have "find_obligation d' ask = Some (cancel_row now requester reason
      (x\<lparr>ob_cancel_response := Some (cc_message c), ob_cancel_owing := Some (cc_owing_message c)\<rparr>))"
    unfolding d' using record_both_sides_notices(3) [OF r x(1)] x(2)
    by (intro settle_found) (auto simp: cancel_row_def)
  moreover have "\<not> (\<exists>r \<in> set (renews d). rn_prepare_ask r = Some ask \<and> \<not> renew_ended (rn_phase r))"
    using renew by (auto simp: refuse_renew_prepare_ask_cancel_def find_row_None split: option.splits)
  ultimately show ?thesis
    using x record_both_sides_notices(1,2) [OF r x(1)] by (simp add: cancel_row_def)
qed

definition run_cancelled :: "store_error + (created_cancellation \<times> db)" where
  "run_cancelled = cancel_with_response 4 1 1 ''changed my mind'' ''cancelled'' ''stop'' None None run_db3"

theorem cancellation_settles_and_notifies_witness:
  "map_option ob_state (find_obligation (snd (projr run_cancelled)) 1) = Some ObCancelled"
proof -
  have "\<not> isl run_cancelled" by code_simp
  then have "cancel_with_response 4 1 1 ''changed my mind'' ''cancelled'' ''stop'' None None run_db3
      = Inr (fst (projr run_cancelled), snd (projr run_cancelled))"
    by (simp add: run_cancelled_def projr_Inr)
  from cancellation_settles_and_notifies [OF this] show ?thesis by auto
qed


text \<open>
  C9: an ask is orphaned only when nobody can finish it. The sweep closes an unsettled ask only
  while a party is absent, no final reply to it is in flight and no running renew waits for it; then it
  is orphaned with the missing party as the reason and both parties have their notice.
\<close>

theorem orphan_only_stranded:
  assumes "orphan_ask now ask d = Inr (Some c, d')"
  shows "\<exists>x y. find_obligation d ask = Some x \<and> ob_unsettled (ob_state x)
     \<and> \<not> (party_present d (ob_waiting x) \<and> party_present d (ob_owing x)) \<and> \<not> in_flight_final d ask
     \<and> \<not> (\<exists>r \<in> set (renews d). rn_prepare_ask r = Some ask \<and> \<not> renew_ended (rn_phase r))
     \<and> find_obligation d' ask = Some y \<and> ob_state y = ObOrphaned \<and> ob_cancel_requester y = None
     \<and> (\<exists>b. notice_for d' (cc_message c) (ob_waiting x) b \<and> ob_cancel_response y = Some (cc_message c))
     \<and> (\<exists>b. notice_for d' (cc_owing_message c) (ob_owing x) b \<and> ob_cancel_owing y = Some (cc_owing_message c))"
proof -
  obtain x d1 u reason b ob where x: "find_obligation d ask = Some x" "ob_unsettled (ob_state x)"
    and renew: "refuse_renew_prepare_ask_cancel ask d = Inr u"
    and gone: "\<not> in_flight_final d ask" "\<not> (party_present d (ob_waiting x) \<and> party_present d (ob_owing x))"
    and r: "record_both_sides now x reason b ob None None d = Inr (c, d1)"
    and d': "d' = upd_obligations (unsettled_ask ask) (orphan_row now reason) d1"
    using assms by (auto simp: orphan_ask_def Let_def result_simps split: option.splits if_splits)
  have n: "notice_for d' m a b = notice_for d1 m a b" for m a b by (simp add: notice_for_def d')
  have f: "find_obligation d' ask = Some (orphan_row now reason
      (x\<lparr>ob_cancel_response := Some (cc_message c), ob_cancel_owing := Some (cc_owing_message c)\<rparr>))"
    unfolding d' using record_both_sides_notices(3) [OF r x(1)] x(2)
    by (intro settle_found) (auto simp: orphan_row_def)
  have "\<not> (\<exists>r \<in> set (renews d). rn_prepare_ask r = Some ask \<and> \<not> renew_ended (rn_phase r))"
    using renew by (auto simp: refuse_renew_prepare_ask_cancel_def find_row_None split: option.splits)
  with x gone f record_both_sides_notices(1,2) [OF r x(1)] n show ?thesis
    by (auto simp: orphan_row_def)
qed

text \<open>The waiter of the run ends its targeting outside the store's own retirement: it is absent.\<close>

definition run_absent :: db where
  "run_absent = upd_agents (\<lambda>r. la_id r = 1) (\<lambda>r. r\<lparr>la_ended_at_ms := Some 4\<rparr>) run_db3"

definition run_orphaned :: "store_error + (created_cancellation option \<times> db)" where
  "run_orphaned = orphan_ask 5 1 run_absent"

theorem orphan_only_stranded_witness:
  "map_option ob_state (find_obligation (snd (projr run_orphaned)) 1) = Some ObOrphaned"
proof -
  have "\<not> isl run_orphaned" "fst (projr run_orphaned) \<noteq> None" by code_simp+
  then obtain c where "orphan_ask 5 1 run_absent = Inr (Some c, snd (projr run_orphaned))"
    using projr_Inr [of run_orphaned] by (metis not_None_eq prod.collapse run_orphaned_def)
  from orphan_only_stranded [OF this] show ?thesis by auto
qed

section \<open>Queued deliveries\<close>


definition queued_db1 :: db where
  "queued_db1 = snd (snd (projr (create_tell_with_due 3 1 2 1 ''later'' ''tell'' (Some 50) run_db2)))"

definition queued_db2 :: db where "queued_db2 = snd (projr (begin_attempt 60 2 1 ''req'' queued_db1))"

definition queued_db3 :: db where "queued_db3 = projr (submit_queued_delivery 2 1 ''req'' 61 queued_db2)"


text \<open>
  C14: the scan of due deliveries respects every hold. It returns only due prompts, ordered by their
  scheduled instant, and none for an incarnation whose renew is ready or clearing or which has a clear
  in flight.
\<close>

theorem due_deliveries_hold:
  "sorted (map dd_scheduled_at_ms (due_deliveries now d))
   \<and> (\<forall>x \<in> set (due_deliveries now d). dd_scheduled_at_ms x \<le> now \<and> \<not> clear_in_flight d (dd_incarnation x)
        \<and> (\<forall>n \<in> set (renews d). rn_incarnation n = dd_incarnation x \<longrightarrow> rn_phase n \<notin> {RReady, RClearing})
        \<and> (\<exists>r \<in> set (deliveries d). dl_operation r = Some (dd_operation x) \<and> dl_message r = dd_message x
             \<and> dl_outcome r = DQueued))"
proof -
  have "dd_scheduled_at_ms x \<le> now \<and> \<not> clear_in_flight d (dd_incarnation x)
        \<and> (\<forall>n \<in> set (renews d). rn_incarnation n = dd_incarnation x \<longrightarrow> rn_phase n \<notin> {RReady, RClearing})
        \<and> (\<exists>r \<in> set (deliveries d). dl_operation r = Some (dd_operation x) \<and> dl_message r = dd_message x
             \<and> dl_outcome r = DQueued)"
    if x: "x \<in> set (due_deliveries now d)" for x
  proof -
    obtain r t where r: "r \<in> set (deliveries d)" "delivery_is_due d now r" "(t, x) \<in> set (due_view d r)"
      using x by (auto simp: due_deliveries_def)
    have v: "dd_scheduled_at_ms x = dl_scheduled_at_ms r" "dl_incarnation r = Some (dd_incarnation x)"
        "dl_operation r = Some (dd_operation x)" "dl_message r = dd_message x"
      using r(3) by (auto simp: due_view_def find_message_def dest!: find_row_Some [OF sym] split: option.splits)
    with r(1,2) show ?thesis
      by (auto simp: delivery_is_due_def exists_row_iff)
  qed
  moreover have "sorted (map dd_scheduled_at_ms (due_deliveries now d))"
    using sorted_sort_key [of "dd_scheduled_at_ms \<circ> snd"] by (simp add: due_deliveries_def comp_def)
  ultimately show ?thesis by blast
qed

definition due_one :: "due_delivery list" where "due_one = due_deliveries 60 queued_db1"

theorem due_deliveries_hold_witness: "due_one \<noteq> [] \<and> \<not> clear_in_flight queued_db1 (dd_incarnation (hd due_one))"
proof -
  have ne: "due_one \<noteq> []" by code_simp
  then have "hd due_one \<in> set (due_deliveries 60 queued_db1)" by (simp add: due_one_def)
  with due_deliveries_hold [of 60 queued_db1] ne show ?thesis by blast
qed


section \<open>Retries\<close>

lemma replay_prompt_None:
  "replay_prompt_by_idempotency_key key kind sender rt d = Inr None \<longleftrightarrow>
     (case keyed_operation d key of None \<Rightarrow> True | Some r \<Rightarrow> op_kind r = KPrompt \<and> op_outcome r = OpFailed)"
  by (auto simp: replay_prompt_by_idempotency_key_def result_simps split: option.splits)

lemma replay_prompt_frame:
  assumes "operations d' = operations d" and "replay_prompt_by_idempotency_key key kind sender rt d = Inr None"
  shows "replay_prompt_by_idempotency_key key kind sender rt d' = Inr None"
proof -
  have "keyed_operation d' key = keyed_operation d key" using assms(1) by (simp add: keyed_operation_def)
  with assms(2) show ?thesis by (simp add: replay_prompt_None)
qed

lemma reply_replay_None:
  "reply_replay ask q key d = Inr None \<longleftrightarrow>
     replay_prompt_by_idempotency_key key Reply q (Some ask) d = Inr None
     \<and> replay_ask_pull_reply key q ask d = Inr None \<and> replay_socket_inbox_reply key q ask d = Inr None"
  by (auto simp: reply_replay_def result_simps split: option.splits)

text \<open>The reply a route recorded is found again under its key.\<close>

lemma find_new_message:
  assumes "ledger_ok d" and "messages d' = messages d @ [m]" and "ms_id m = Suc (seq_messages d)"
  shows "find_message d' (ms_id m) = Some m" and "find_message d' k = Some v \<Longrightarrow> find_message d k = None \<Longrightarrow> v = m"
proof -
  have "find_row (\<lambda>r. ms_id r = ms_id m) (messages d) = None"
    using assms(1,3) by (auto simp: find_row_None ledger_ok_def)
  then show "find_message d' (ms_id m) = Some m"
    using assms(2) by (simp add: find_message_def find_row_append)
  show "find_message d' k = Some v \<Longrightarrow> find_message d k = None \<Longrightarrow> v = m"
    using assms(2) by (auto simp: find_message_def find_row_append split: if_splits)
qed

lemma find_message_append:
  "messages d' = messages d @ ms \<Longrightarrow> find_message d k = Some v \<Longrightarrow> find_message d' k = Some v"
  by (simp add: find_message_def find_row_append)

lemma retried_reply:
  assumes ok: "ledger_ok d" and new: "messages d' = messages d @ [m]" "ms_id m = Suc (seq_messages d)"
    and m: "ms_kind m = Reply" "ms_sender m = Some q" "ms_reply_to m = Some ask" "ms_disposition m = Some disposition"
    and ops: "operations d' = operations d" and none: "reply_replay ask q key d = Inr None"
    and key: "map_of (pull_keys d') key = Some (ms_id m)
      \<or> pull_keys d' = pull_keys d \<and> map_of (inbox_keys d') key = Some (ms_id m)"
  shows "reply_replay ask q key d' = Inr (Some \<lparr>cr_message = ms_id m, cr_operation = None,
           cr_incarnation = None, cr_disposition = disposition\<rparr>)"
proof -
  have prompt: "replay_prompt_by_idempotency_key key Reply q (Some ask) d' = Inr None"
    using none ops replay_prompt_frame by (auto simp: reply_replay_None)
  have found: "replay_ask_pull_reply key q ask d' = Inr (Some \<lparr>cr_message = ms_id m, cr_operation = None,
      cr_incarnation = None, cr_disposition = disposition\<rparr>)"
    if "Option.bind (map_of (pull_keys d') key) (find_message d') = Some m"
    using that m by (simp add: replay_ask_pull_reply_def ok_or_def ensure_def rbind_def)
  from key show ?thesis
  proof
    assume "map_of (pull_keys d') key = Some (ms_id m)"
    then have "Option.bind (map_of (pull_keys d') key) (find_message d') = Some m"
      using find_new_message(1) [OF ok new] by simp
    from found [OF this] prompt show ?thesis by (simp add: reply_replay_def rbind_def)
  next
    assume k: "pull_keys d' = pull_keys d \<and> map_of (inbox_keys d') key = Some (ms_id m)"
    have old: "Option.bind (map_of (pull_keys d) key) (find_message d) = None"
      using none by (auto simp: reply_replay_None replay_ask_pull_reply_def result_simps split: option.splits)
    show ?thesis
    proof (cases "Option.bind (map_of (pull_keys d') key) (find_message d')")
      case None
      then have "replay_ask_pull_reply key q ask d' = Inr None" by (simp add: replay_ask_pull_reply_def)
      moreover have "socket_inbox_key_message key d' = Inr (Some m)"
        using k find_new_message(1) [OF ok new] m by (simp add: socket_inbox_key_message_def)
      ultimately show ?thesis
        using prompt m by (simp add: reply_replay_def replay_socket_inbox_reply_def rbind_def ensure_def ok_or_def)
    next
      case (Some v)
      then have "v = m"
        using k old find_new_message(2) [OF ok new] by (auto simp: bind_eq_Some_conv)
      with Some found prompt show ?thesis by (simp add: reply_replay_def rbind_def)
    qed
  qed
qed

lemma apply_activity_frame [simp]:
  "operations (apply_reply_obligation_activity ask disposition now d) = operations d"
  "messages (apply_reply_obligation_activity ask disposition now d) = messages d"
  "pull_keys (apply_reply_obligation_activity ask disposition now d) = pull_keys d"
  "inbox_keys (apply_reply_obligation_activity ask disposition now d) = inbox_keys d"
  by (simp_all add: apply_reply_obligation_activity_def refresh_reminder_activity_def split: reply_disposition.split)

lemma insert_key_Inr: "insert_key key v tab = Inr ks \<longleftrightarrow> map_of tab key = None \<and> ks = tab @ [(key, v)]"
  by (auto simp: insert_key_def result_simps)

lemma map_of_snoc_fresh: "map_of tab key = None \<Longrightarrow> ([key \<mapsto> v] ++ map_of tab) key = Some v"
  by (simp add: map_add_def)

text \<open>What the two routes without a Herdr operation leave behind.\<close>

lemma keyed_route:
  assumes "route_reply now n ask x t disposition key due d = Inr (r, d')" and "cr_operation r = None"
  shows "r = \<lparr>cr_message = n, cr_operation = None, cr_incarnation = None, cr_disposition = disposition\<rparr>
     \<and> operations d' = operations d \<and> messages d' = messages d
     \<and> (map_of (pull_keys d') key = Some n
        \<or> pull_keys d' = pull_keys d \<and> map_of (inbox_keys d') key = Some n)"
proof (cases "ob_reply_delivery x = Pull")
  case True
  with assms show ?thesis
    by (auto simp: route_reply_def route_pull_reply_def queue_ask_pull_delivery_def result_simps insert_simps
        insert_key_Inr map_of_snoc_fresh)
next
  case False
  with assms show ?thesis
    by (auto simp: route_reply_def route_inbox_reply_def route_prompt_reply_def queue_socket_inbox_delivery_def
        queue_socket_inbox_delivery_at_def result_simps insert_simps insert_key_Inr map_of_snoc_fresh
        split: delivery_transport.splits)
qed

text \<open>
  C8: retrying a reply is safe. When a reply was recorded for the inbox or the pull sink, the same
  request with the same key, with whatever body, disposition and instant, returns that same reply and
  changes nothing: no second message, no second delivery.
\<close>

theorem reply_retry_is_idempotent:
  assumes "reachable d" and r: "create_reply_with_due now ask q body disposition key due d = Inr (r, d')"
    and "cr_operation r = None"
  shows "create_reply_with_due now' ask q body' disposition' key due' d' = Inr (r, d')"
proof -
  obtain replay where replay: "reply_replay ask q key d = Inr replay"
    using r by (auto simp: create_reply_with_due_def result_simps)
  have "reply_replay ask q key d' = Inr (Some r)"
  proof (cases replay)
    case (Some r')
    then have "r' = r" "d' = d" using r replay by (auto simp: create_reply_with_due_def rbind_def)
    with Some replay show ?thesis by simp
  next
    case None
    then obtain x t n d1 where x: "q = ob_owing x"
        "insert_message (Some (ob_owing x)) (ob_waiting x) Reply body now (Some ask) (Some disposition) False d
           = Inr (n, d1)"
      and route: "route_reply now n ask x t disposition key due d1 = Inr (r, d')"
      using r replay by (auto simp: create_reply_with_due_def result_simps)
    obtain m where m: "messages d1 = messages d @ [m]" "ms_id m = n" "n = Suc (seq_messages d)" "ms_kind m = Reply"
        "ms_sender m = Some q" "ms_reply_to m = Some ask" "ms_disposition m = Some disposition"
      and same: "operations d1 = operations d" "pull_keys d1 = pull_keys d"
      using x by (auto simp: insert_message_Inr)
    note k = keyed_route [OF route assms(3)]
    have "reply_replay ask q key d' = Inr (Some \<lparr>cr_message = ms_id m, cr_operation = None,
        cr_incarnation = None, cr_disposition = disposition\<rparr>)"
      by (rule retried_reply [OF reachable_ledger_ok [OF assms(1)]]) (use m same k replay None in auto)
    with k m show ?thesis by simp
  qed
  then show ?thesis by (simp add: create_reply_with_due_def rbind_def)
qed

theorem reply_retry_is_idempotent_witness:
  "create_reply_with_due 9 1 2 ''other'' Progress ''reply'' None run_db4 = Inr (fst (projr run_answered), run_db4)"
proof -
  have "cr_operation (fst (projr run_answered)) = None" by code_simp
  from reply_retry_is_idempotent [OF run_reachable(4) run_steps(4) [unfolded create_reply_def] this]
  show ?thesis .
qed

section \<open>Acceptance at a runtime\<close>

definition accept_db1 :: db where "accept_db1 = snd (projr (begin_attempt 4 2 1 ''req'' run_db3))"
definition accept_db2 :: db where "accept_db2 = projr (mark_submitted 5 2 1 ''req'' accept_db1)"
definition accept_db3 :: db where
  "accept_db3 = projr (accept_delivery_with_submission 6 2 1 ''p1'' ''t1'' None accept_db2)"

theorem acceptance_needs_exact_runtime_witness:
  "\<exists>i \<in> set (incarnations accept_db2). in_observed_pane i = Some ''p1'' \<and> in_observed_terminal i = Some ''t1''"
proof -
  have "\<not> isl (accept_delivery_with_submission 6 2 1 ''p1'' ''t1'' None accept_db2)" by code_simp
  then have "accept_delivery_with_submission 6 2 1 ''p1'' ''t1'' None accept_db2 = Inr accept_db3"
    by (simp add: accept_db3_def projr_Inr)
  from acceptance_needs_exact_runtime [OF this] show ?thesis by blast
qed

end
