(* ===== verification/Exec.thy ===== *)
theory Exec
  imports Herdr "HOL-Library.Multiset"
begin

text \<open>
  The Herdr executor (\<open>src/src/herdr_exec.rs\<close>): jobs are queued per lane, at most one per lane is
  in flight, a snapshot queued behind another undispatched one shares its request, and every
  submitted job receives the terminal event. The worker threads are a step relation around it; what
  Herdr answers is free.

  A hash map is an association list with distinct keys.
\<close>

section \<open>Jobs, events, state\<close>

datatype herdr_job =
    JobSnapshot nat bool
  | JobLifecycleSnapshot nat
  | JobOpen nat string bool
  | JobAgentGet nat string string

datatype fail_phase = PhaseConnect | PhaseWrite | PhaseRead | PhaseLease

datatype herdr_job_result =
    ResSnapshot snapshot
  | ResLifecycle "lifecycle_observation list"
  | ResPrompt agent_observation
  | ResAgent agent_observation
  | ResClosed

datatype herdr_event =
    EvOpened nat
  | EvWritten nat string
  | EvDone nat "herdr_error + herdr_job_result"
  | EvFailed nat fail_phase herdr_error
  | EvDropped nat

datatype lane = LaneSnapshot | LanePane string

record herdr_exec =
  ex_job_tx :: "herdr_job list"
  ex_event_rx :: "herdr_event list"
  ex_queued :: "(lane \<times> herdr_job list) list"
  ex_in_flight :: "(lane \<times> nat) list"
  ex_coalesced :: "(nat \<times> nat list) list"
  ex_pending_events :: "herdr_event list"

definition spawn_exec :: herdr_exec where
  "spawn_exec = \<lparr>ex_job_tx = [], ex_event_rx = [], ex_queued = [], ex_in_flight = [], ex_coalesced = [],
     ex_pending_events = []\<rparr>"

fun job_id_of :: "herdr_job \<Rightarrow> nat" where
  "job_id_of (JobSnapshot i n) = i"
| "job_id_of (JobLifecycleSnapshot i) = i"
| "job_id_of (JobOpen i p n) = i"
| "job_id_of (JobAgentGet i r t) = i"

fun lane_for :: "herdr_job \<Rightarrow> lane" where
  "lane_for (JobSnapshot i n) = LaneSnapshot"
| "lane_for (JobLifecycleSnapshot i) = LaneSnapshot"
| "lane_for (JobOpen i p n) = LanePane p"
| "lane_for (JobAgentGet i r t) = LanePane t"

fun terminal_job_id :: "herdr_event \<Rightarrow> nat option" where
  "terminal_job_id (EvDropped i) = Some i"
| "terminal_job_id (EvFailed i p e) = Some i"
| "terminal_job_id (EvOpened i) = None"
| "terminal_job_id (EvWritten i p) = None"
| "terminal_job_id (EvDone i r) = None"

fun same_snapshot :: "herdr_job \<Rightarrow> herdr_job \<Rightarrow> bool" where
  "same_snapshot (JobSnapshot i n) (JobSnapshot j m) = True"
| "same_snapshot (JobLifecycleSnapshot i) (JobLifecycleSnapshot j) = True"
| "same_snapshot a b = False"

definition coalescing_leader :: "herdr_job list \<Rightarrow> herdr_job \<Rightarrow> nat option" where
  "coalescing_leader q job = map_option job_id_of (List.find (\<lambda>queued. same_snapshot queued job) q)"

text \<open>The copy of an error or a result carries the same kind and text; \<open>None\<close> is the unreachable panic.\<close>

fun clone_follower_event :: "herdr_event \<Rightarrow> nat \<Rightarrow> herdr_event option" where
  "clone_follower_event (EvDone i r) j = Some (EvDone j r)"
| "clone_follower_event (EvFailed i p e) j = Some (EvFailed j p e)"
| "clone_follower_event (EvDropped i) j = Some (EvDropped j)"
| "clone_follower_event (EvOpened i) j = None"
| "clone_follower_event (EvWritten i p) j = None"

section \<open>Hash maps\<close>

definition hm_remove :: "'k \<Rightarrow> ('k \<times> 'v) list \<Rightarrow> ('k \<times> 'v) list" where
  "hm_remove k xs = filter (\<lambda>x. fst x \<noteq> k) xs"

definition hm_insert :: "'k \<Rightarrow> 'v \<Rightarrow> ('k \<times> 'v) list \<Rightarrow> ('k \<times> 'v) list" where
  "hm_insert k v xs = (k, v) # hm_remove k xs"

section \<open>The operations\<close>

definition dispatch :: "lane \<Rightarrow> herdr_job \<Rightarrow> herdr_exec \<Rightarrow> herdr_exec" where
  "dispatch l job e =
     e\<lparr>ex_in_flight := hm_insert l (job_id_of job) (ex_in_flight e), ex_job_tx := ex_job_tx e @ [job]\<rparr>"

definition follow :: "nat \<Rightarrow> herdr_job \<Rightarrow> herdr_exec \<Rightarrow> herdr_exec" where
  "follow leader job e =
     e\<lparr>ex_coalesced := hm_insert leader
         ((case map_of (ex_coalesced e) leader of None \<Rightarrow> [] | Some fs \<Rightarrow> fs) @ [job_id_of job]) (ex_coalesced e)\<rparr>"

definition submit_job :: "herdr_job \<Rightarrow> herdr_exec \<Rightarrow> herdr_exec" where
  "submit_job job e =
     (let l = lane_for job in
      case map_of (ex_queued e) l of
        Some q \<Rightarrow>
          (case coalescing_leader q job of
             Some leader \<Rightarrow> follow leader job e
           | None \<Rightarrow> e\<lparr>ex_queued := hm_insert l (q @ [job]) (ex_queued e)\<rparr>)
      | None \<Rightarrow>
          if map_of (ex_in_flight e) l \<noteq> None then
            (case Option.bind (map_of (ex_queued e) l) (\<lambda>q. coalescing_leader q job) of
               Some leader \<Rightarrow> follow leader job e
             | None \<Rightarrow> e\<lparr>ex_queued := hm_insert l
                 ((case map_of (ex_queued e) l of None \<Rightarrow> [] | Some q \<Rightarrow> q) @ [job]) (ex_queued e)\<rparr>)
          else dispatch l job e)"

text \<open>The fan-out of one event to the followers of its job.\<close>

definition fan_out :: "herdr_event \<Rightarrow> nat list \<Rightarrow> herdr_exec \<Rightarrow> herdr_exec option" where
  "fan_out ev followers e =
     map_option (\<lambda>evs. e\<lparr>ex_pending_events := ex_pending_events e @ evs\<rparr>)
       (those (map (clone_follower_event ev) followers))"

definition release_lane :: "nat \<Rightarrow> herdr_exec \<Rightarrow> herdr_exec" where
  "release_lane i e =
     (case List.find (\<lambda>x. snd x = i) (ex_in_flight e) of None \<Rightarrow> e
      | Some (l, _) \<Rightarrow>
          let e = e\<lparr>ex_in_flight := hm_remove l (ex_in_flight e)\<rparr> in
          (case map_of (ex_queued e) l of
             Some (next # rest) \<Rightarrow>
               dispatch l next
                 (e\<lparr>ex_queued := (if rest = [] then hm_remove l (ex_queued e)
                                  else hm_insert l rest (ex_queued e))\<rparr>)
           | _ \<Rightarrow> e))"

definition receive_event :: "herdr_event \<Rightarrow> herdr_exec \<Rightarrow> herdr_exec option" where
  "receive_event ev e =
     Option.bind
       (case ev of
          EvDone i r \<Rightarrow> (case map_of (ex_coalesced e) i of None \<Rightarrow> Some e | Some fs \<Rightarrow> fan_out ev fs e)
        | _ \<Rightarrow> Some e)
       (\<lambda>e. case terminal_job_id ev of None \<Rightarrow> Some e
          | Some i \<Rightarrow>
              map_option (release_lane i)
                (case map_of (ex_coalesced e) i of None \<Rightarrow> Some e
                 | Some fs \<Rightarrow> fan_out ev fs (e\<lparr>ex_coalesced := hm_remove i (ex_coalesced e)\<rparr>)))"

text \<open>\<open>None\<close> is the panic of the fan-out; an executor without an event returns none.\<close>

definition try_recv :: "herdr_exec \<Rightarrow> (herdr_event option \<times> herdr_exec) option" where
  "try_recv e =
     (case ex_pending_events e of
        ev # evs \<Rightarrow> Some (Some ev, e\<lparr>ex_pending_events := evs\<rparr>)
      | [] \<Rightarrow>
          (case ex_event_rx e of
             [] \<Rightarrow> Some (None, e)
           | ev # evs \<Rightarrow> map_option (Pair (Some ev)) (receive_event ev (e\<lparr>ex_event_rx := evs\<rparr>))))"

section \<open>The workers\<close>

text \<open>
  What arrives at an open lease: a request with the outcome of raising its read timeout, the method
  and the outcome of the request with its write flag; the drop command or a disconnected sender; or
  nothing for the lease's time to live. The \<open>bool\<close> of an outcome tells whether the request was written.
\<close>

datatype lease_input =
    LeaseSend string string "io_error option" "bool \<times> (herdr_error + json)"
  | LeaseDrop
  | LeaseTimeout

definition lease_result ::
  "(json \<Rightarrow> string + agent_observation) \<Rightarrow> string \<Rightarrow> json \<Rightarrow> herdr_error + herdr_job_result" where
  "lease_result decode method v =
     (if method = ''agent.prompt'' then map_sum id ResPrompt (parse_agent_result decode v)
      else if method = ''agent.start'' \<or> method = ''agent.get'' \<or> method = ''agent.rename''
      then map_sum id ResAgent (parse_agent_result decode v)
      else if method = ''pane.close'' then Inr ResClosed
      else Inl (HUnexpected ''lease send returned an unexpected result''))"

definition written_event :: "nat \<Rightarrow> string \<Rightarrow> bool \<Rightarrow> herdr_event list" where
  "written_event i pause wrote = (if wrote then [EvWritten i pause] else [])"

fun run_lease ::
  "(json \<Rightarrow> string + agent_observation) \<Rightarrow> nat \<Rightarrow> lease_input list \<Rightarrow> herdr_event list" where
  "run_lease decode i [] = []"
| "run_lease decode i (LeaseDrop # ins) = [EvDropped i]"
| "run_lease decode i (LeaseTimeout # ins) = [EvFailed i PhaseLease (HUnexpected ''herdr lease exceeded 30s'')]"
| "run_lease decode i (LeaseSend method pause (Some err) out # ins) = [EvFailed i PhaseConnect (HUnavailable err)]"
| "run_lease decode i (LeaseSend method pause None (wrote, Inr v) # ins) =
     written_event i pause wrote @ [EvDone i (lease_result decode method v)] @ run_lease decode i ins"
| "run_lease decode i (LeaseSend method pause None (wrote, Inl err) # ins) =
     written_event i pause wrote @ [EvFailed i (if wrote then PhaseRead else PhaseWrite) err]
       @ run_lease decode i ins"

text \<open>A lease over which the daemon said enough: its last input ends it.\<close>

fun ends_lease :: "lease_input \<Rightarrow> bool" where
  "ends_lease LeaseDrop = True"
| "ends_lease LeaseTimeout = True"
| "ends_lease (LeaseSend method pause (Some err) out) = True"
| "ends_lease (LeaseSend method pause None out) = False"

text \<open>The events a worker sends for one job, for whatever Herdr answers to it.\<close>

inductive worker_trace :: "(json \<Rightarrow> string + agent_observation) \<Rightarrow> herdr_job \<Rightarrow> herdr_event list \<Rightarrow> bool"
  for decode where
  trace_snapshot: "worker_trace decode (JobSnapshot i n) [EvDone i (map_sum id ResSnapshot r), EvDropped i]"
| trace_lifecycle: "worker_trace decode (JobLifecycleSnapshot i) [EvDone i (map_sum id ResLifecycle r), EvDropped i]"
| trace_get: "worker_trace decode (JobAgentGet i rq t) [EvDone i (map_sum id ResAgent r), EvDropped i]"
| trace_refused: "worker_trace decode (JobOpen i p n) [EvFailed i PhaseConnect err]"
| trace_opened: "ins \<noteq> [] \<Longrightarrow> ends_lease (last ins)
    \<Longrightarrow> worker_trace decode (JobOpen i p n) (EvOpened i # run_lease decode i ins)"

text \<open>
  The whole system: the executor, the busy workers with the events they have still to send, and the
  history of submitted job ids and of returned events. The pool has \<open>workers\<close> threads.
\<close>

record herdr_system =
  sy_exec :: herdr_exec
  sy_running :: "(herdr_job \<times> herdr_event list) list"
  sy_submitted :: "nat list"
  sy_returned :: "herdr_event list"

inductive exec_step ::
  "(json \<Rightarrow> string + agent_observation) \<Rightarrow> nat \<Rightarrow> herdr_system \<Rightarrow> herdr_system \<Rightarrow> bool"
  for decode workers where
  step_submit: "job_id_of job \<notin> set (sy_submitted s) \<Longrightarrow> exec_step decode workers s
     (s\<lparr>sy_exec := submit_job job (sy_exec s), sy_submitted := job_id_of job # sy_submitted s\<rparr>)"
| step_take: "ex_job_tx (sy_exec s) = job # jobs \<Longrightarrow> length (sy_running s) < max 1 workers
    \<Longrightarrow> worker_trace decode job evs \<Longrightarrow> exec_step decode workers s
     (s\<lparr>sy_exec := (sy_exec s)\<lparr>ex_job_tx := jobs\<rparr>, sy_running := (job, evs) # sy_running s\<rparr>)"
| step_emit: "sy_running s = ws @ (job, ev # evs) # vs \<Longrightarrow> exec_step decode workers s
     (s\<lparr>sy_exec := (sy_exec s)\<lparr>ex_event_rx := ex_event_rx (sy_exec s) @ [ev]\<rparr>,
        sy_running := ws @ (job, evs) # vs\<rparr>)"
| step_idle: "sy_running s = ws @ (job, []) # vs \<Longrightarrow> exec_step decode workers s (s\<lparr>sy_running := ws @ vs\<rparr>)"
| step_recv: "try_recv (sy_exec s) = Some (Some ev, e) \<Longrightarrow> exec_step decode workers s
     (s\<lparr>sy_exec := e, sy_returned := sy_returned s @ [ev]\<rparr>)"

definition start_system :: herdr_system where
  "start_system = \<lparr>sy_exec = spawn_exec, sy_running = [], sy_submitted = [], sy_returned = []\<rparr>"

definition exec_reachable :: "(json \<Rightarrow> string + agent_observation) \<Rightarrow> nat \<Rightarrow> herdr_system \<Rightarrow> bool" where
  "exec_reachable decode workers s \<longleftrightarrow> (exec_step decode workers)\<^sup>*\<^sup>* start_system s"

end
