(* ===== verification/ExecLaws.thy ===== *)
theory ExecLaws
  imports Exec
begin

text \<open>
  What the executor guarantees: no job is lost or answered twice, lanes are first in first out,
  a shared snapshot is always still to be taken, and the system drains.
\<close>

section \<open>Hash maps\<close>

lemma hm_remove_absent: "map_of xs k = None \<Longrightarrow> hm_remove k xs = xs"
  by (auto simp: hm_remove_def map_of_eq_None_iff filter_id_conv image_iff)

lemma map_of_hm [simp]:
  "map_of (hm_remove k xs) = (map_of xs)(k := None)"
  "map_of (hm_insert k v xs) = (map_of xs)(k := Some v)"
proof -
  show r: "map_of (hm_remove k xs) = (map_of xs)(k := None)"
    by (induction xs) (auto simp: hm_remove_def fun_eq_iff)
  show "map_of (hm_insert k v xs) = (map_of xs)(k := Some v)"
    by (simp add: hm_insert_def r)
qed

lemma hm_keys:
  "fst ` set (hm_remove k xs) = fst ` set xs - {k}"
  "fst ` set (hm_insert k v xs) = insert k (fst ` set xs)"
  by (auto simp: hm_remove_def hm_insert_def)

lemma hm_distinct:
  "distinct (map fst xs) \<Longrightarrow> distinct (map fst (hm_remove k xs))"
  "distinct (map fst xs) \<Longrightarrow> distinct (map fst (hm_insert k v xs))"
  by (auto simp: hm_remove_def hm_insert_def distinct_map_filter)

lemma hm_mset:
  "distinct (map fst xs) \<Longrightarrow> map_of xs k = Some v \<Longrightarrow> mset xs = add_mset (k, v) (mset (hm_remove k xs))"
proof (induction xs)
  case (Cons x xs)
  show ?case
  proof (cases "fst x = k")
    case True
    moreover have "map_of xs k = None" using Cons.prems True by (auto simp: map_of_eq_None_iff)
    ultimately have "hm_remove k (x # xs) = xs" using hm_remove_absent [of xs k] by (simp add: hm_remove_def)
    moreover have "x = (k, v)" using Cons.prems True by (cases x) simp
    ultimately show ?thesis by simp
  next
    case False
    then show ?thesis using Cons by (simp add: hm_remove_def)
  qed
qed simp

text \<open>All ids the entries of a map hold.\<close>

definition ids_in :: "('v \<Rightarrow> nat list) \<Rightarrow> ('k \<times> 'v) list \<Rightarrow> nat multiset" where
  "ids_in f xs = \<Sum>\<^sub># (image_mset (\<lambda>x. mset (f (snd x))) (mset xs))"

lemma ids_in_remove:
  "distinct (map fst xs) \<Longrightarrow> map_of xs k = Some v \<Longrightarrow> ids_in f xs = mset (f v) + ids_in f (hm_remove k xs)"
  by (simp add: ids_in_def hm_mset)

lemma ids_in_insert: "ids_in f (hm_insert k v xs) = mset (f v) + ids_in f (hm_remove k xs)"
  by (simp add: ids_in_def hm_insert_def)

lemma ids_in_Nil [simp]: "ids_in f [] = {#}"
  by (simp add: ids_in_def)

lemma ids_in_member: "i \<in># ids_in f xs \<longleftrightarrow> (\<exists>x \<in> set xs. i \<in> set (f (snd x)))"
  by (auto simp: ids_in_def)

section \<open>The outstanding jobs\<close>

definition flight_ids :: "herdr_exec \<Rightarrow> nat multiset" where
  "flight_ids e = ids_in (\<lambda>i. [i]) (ex_in_flight e)"

definition queue_ids :: "herdr_exec \<Rightarrow> nat multiset" where
  "queue_ids e = ids_in (map job_id_of) (ex_queued e)"

definition follower_ids :: "herdr_exec \<Rightarrow> nat multiset" where
  "follower_ids e = ids_in id (ex_coalesced e)"

definition terminal_ids :: "herdr_event list \<Rightarrow> nat list" where
  "terminal_ids evs = List.map_filter terminal_job_id evs"

definition outstanding :: "herdr_exec \<Rightarrow> nat multiset" where
  "outstanding e = flight_ids e + queue_ids e + follower_ids e + mset (terminal_ids (ex_pending_events e))"

lemmas outstanding_defs = outstanding_def flight_ids_def queue_ids_def follower_ids_def

lemma terminal_ids_simps [simp]:
  "terminal_ids [] = []"
  "terminal_ids (ev # evs) = (case terminal_job_id ev of None \<Rightarrow> [] | Some i \<Rightarrow> [i]) @ terminal_ids evs"
  "terminal_ids (evs @ fvs) = terminal_ids evs @ terminal_ids fvs"
  by (induction evs) (auto simp: terminal_ids_def map_filter_def split: option.split)

definition keys_ok :: "herdr_exec \<Rightarrow> bool" where
  "keys_ok e \<longleftrightarrow> distinct (map fst (ex_in_flight e)) \<and> distinct (map fst (ex_queued e))
     \<and> distinct (map fst (ex_coalesced e))"

definition lanes_ok :: "herdr_exec \<Rightarrow> bool" where
  "lanes_ok e \<longleftrightarrow> (\<forall>(l, q) \<in> set (ex_queued e). q \<noteq> [] \<and> l \<in> fst ` set (ex_in_flight e))
     \<and> (\<forall>i \<in> fst ` set (ex_coalesced e). i \<in># flight_ids e + queue_ids e)"

lemma coalescing_leader_queued:
  "coalescing_leader q job = Some i \<Longrightarrow> i \<in> job_id_of ` set q"
  by (auto simp: coalescing_leader_def find_Some_iff)

text \<open>The three ways a submitted job goes.\<close>

lemma submit_job_cases [case_names follow enqueue dispatch]:
  obtains q leader where "map_of (ex_queued e) (lane_for job) = Some q" "coalescing_leader q job = Some leader"
      "submit_job job e = follow leader job e"
  | q where "q = (case map_of (ex_queued e) (lane_for job) of None \<Rightarrow> [] | Some q \<Rightarrow> q)"
      "map_of (ex_queued e) (lane_for job) \<noteq> None \<or> map_of (ex_in_flight e) (lane_for job) \<noteq> None"
      "coalescing_leader q job = None"
      "submit_job job e = e\<lparr>ex_queued := hm_insert (lane_for job) (q @ [job]) (ex_queued e)\<rparr>"
  | "map_of (ex_queued e) (lane_for job) = None" "map_of (ex_in_flight e) (lane_for job) = None"
      "submit_job job e = dispatch (lane_for job) job e"
proof (cases "map_of (ex_queued e) (lane_for job)")
  case None
  have "coalescing_leader [] job = None" by (simp add: coalescing_leader_def)
  with None that(2,3) show ?thesis by (auto simp: submit_job_def)
next
  case (Some q)
  with that(1,2) show ?thesis by (cases "coalescing_leader q job") (auto simp: submit_job_def)
qed

lemma submit_outstanding:
  assumes "keys_ok e" shows "outstanding (submit_job job e) = add_mset (job_id_of job) (outstanding e)"
proof (cases rule: submit_job_cases [where e = e and job = job])
  case (follow q leader)
  then show ?thesis using assms ids_in_remove [of "ex_coalesced e" leader _ id]
    by (cases "map_of (ex_coalesced e) leader")
      (simp_all add: outstanding_defs follow_def ids_in_insert keys_ok_def hm_remove_absent)
next
  case (enqueue q)
  then show ?thesis using assms ids_in_remove [of "ex_queued e" "lane_for job" _ "map job_id_of"]
    by (cases "map_of (ex_queued e) (lane_for job)")
      (simp_all add: outstanding_defs ids_in_insert keys_ok_def hm_remove_absent)
next
  case dispatch
  then show ?thesis by (simp add: outstanding_defs dispatch_def ids_in_insert hm_remove_absent)
qed

lemma submit_ok: "keys_ok e \<Longrightarrow> keys_ok (submit_job job e)"
  by (cases rule: submit_job_cases [where e = e and job = job]) (simp_all add: keys_ok_def follow_def dispatch_def hm_distinct)

lemma submit_lanes:
  assumes "keys_ok e" and "lanes_ok e" shows "lanes_ok (submit_job job e)"
proof (cases rule: submit_job_cases [where e = e and job = job])
  case (follow q leader)
  have "leader \<in># queue_ids e"
    using coalescing_leader_queued [OF follow(2)] map_of_SomeD [OF follow(1)]
    by (force simp: queue_ids_def ids_in_member)
  with follow(3) assms(2) show ?thesis
    by (auto simp: lanes_ok_def follow_def hm_keys flight_ids_def queue_ids_def)
next
  case (enqueue q)
  have lane: "lane_for job \<in> fst ` set (ex_in_flight e)"
    using enqueue(2) assms(2) by (auto simp: lanes_ok_def map_of_eq_None_iff dest!: map_of_SomeD)
  have "set_mset (queue_ids e) \<subseteq> set_mset (queue_ids (submit_job job e))"
    using enqueue assms(1) ids_in_remove [of "ex_queued e" "lane_for job" _ "map job_id_of"]
    by (cases "map_of (ex_queued e) (lane_for job)")
      (auto simp: queue_ids_def ids_in_insert keys_ok_def hm_remove_absent)
  moreover have "(l, r) \<in> set (ex_queued (submit_job job e)) \<Longrightarrow> r \<noteq> [] \<and> l \<in> fst ` set (ex_in_flight e)" for l r
    using enqueue(4) lane assms(2) by (auto simp: hm_insert_def hm_remove_def lanes_ok_def)
  ultimately show ?thesis using assms(2) enqueue(4) by (fastforce simp: lanes_ok_def flight_ids_def)
next
  case dispatch
  then show ?thesis using assms(2)
    by (auto simp: lanes_ok_def dispatch_def hm_keys flight_ids_def queue_ids_def ids_in_insert hm_remove_absent)
qed


section \<open>Receiving\<close>

lemma those_clone:
  assumes "terminal_job_id ev \<noteq> None \<or> (\<exists>i r. ev = EvDone i r)"
  obtains evs where "those (map (clone_follower_event ev) fs) = Some evs"
    and "terminal_ids evs = (if terminal_job_id ev = None then [] else fs)"
proof -
  have "\<exists>evs. those (map (clone_follower_event ev) fs) = Some evs
      \<and> terminal_ids evs = (if terminal_job_id ev = None then [] else fs)"
    using assms by (induction fs) (cases ev; auto)+
  with that show thesis by blast
qed

text \<open>What the executor does with an event of its channel, without the panic.\<close>

lemma receive_event_cases:
  obtains e1 where "receive_event ev e = Some e1"
    and "terminal_job_id ev = None \<Longrightarrow> ex_in_flight e1 = ex_in_flight e \<and> ex_queued e1 = ex_queued e
       \<and> ex_coalesced e1 = ex_coalesced e \<and> ex_job_tx e1 = ex_job_tx e \<and> ex_event_rx e1 = ex_event_rx e
       \<and> terminal_ids (ex_pending_events e1) = terminal_ids (ex_pending_events e)"
    and "\<And>i. terminal_job_id ev = Some i \<Longrightarrow> \<exists>evs. e1 = release_lane i (e\<lparr>ex_coalesced := hm_remove i (ex_coalesced e),
           ex_pending_events := ex_pending_events e @ evs\<rparr>)
       \<and> terminal_ids evs = (case map_of (ex_coalesced e) i of None \<Rightarrow> [] | Some fs \<Rightarrow> fs)"
proof (cases "terminal_job_id ev")
  case None
  show thesis
  proof (cases "\<exists>i r. ev = EvDone i r \<and> map_of (ex_coalesced e) i \<noteq> None")
    case True
    then obtain i r fs where ev: "ev = EvDone i r" "map_of (ex_coalesced e) i = Some fs" by auto
    obtain evs where "those (map (clone_follower_event ev) fs) = Some evs" "terminal_ids evs = []"
      using those_clone [of ev fs] ev None by auto
    then show thesis using ev None that by (auto simp: receive_event_def fan_out_def)
  next
    case False
    then show thesis using None that by (cases ev) (auto simp: receive_event_def)
  qed
next
  case (Some i)
  have nd: "(case ev of EvDone i r \<Rightarrow> f i r | _ \<Rightarrow> x) = x" for f x using Some by (cases ev) auto
  show thesis
  proof (cases "map_of (ex_coalesced e) i")
    case None
    have same: "e\<lparr>ex_coalesced := hm_remove i (ex_coalesced e), ex_pending_events := ex_pending_events e @ []\<rparr> = e"
      using None by (simp add: hm_remove_absent)
    have "receive_event ev e = Some (release_lane i e)"
      using None Some by (simp add: receive_event_def nd)
    then show thesis
      by (rule that) (use Some None same in \<open>auto intro!: exI [of _ "[]"]\<close>)
  next
    case fs: (Some fs)
    obtain evs where evs: "those (map (clone_follower_event ev) fs) = Some evs" "terminal_ids evs = fs"
      using those_clone [of ev fs] Some by auto
    have "receive_event ev e = Some (release_lane i (e\<lparr>ex_coalesced := hm_remove i (ex_coalesced e),
        ex_pending_events := ex_pending_events e @ evs\<rparr>))"
      using fs Some evs(1) by (simp add: receive_event_def nd fan_out_def)
    then show thesis by (rule that) (use Some fs evs in auto)
  qed
qed

lemma received:
  assumes "receive_event ev e = Some e1"
  shows "terminal_job_id ev = None \<Longrightarrow> ex_in_flight e1 = ex_in_flight e \<and> ex_queued e1 = ex_queued e"
    and "terminal_job_id ev = Some i \<Longrightarrow> \<exists>ps. e1 = release_lane i
           (e\<lparr>ex_coalesced := hm_remove i (ex_coalesced e), ex_pending_events := ps\<rparr>)"
proof -
  show "terminal_job_id ev = None \<Longrightarrow> ex_in_flight e1 = ex_in_flight e \<and> ex_queued e1 = ex_queued e"
    using assms by (cases ev) (auto simp: receive_event_def fan_out_def split: option.splits)
next
  assume t: "terminal_job_id ev = Some i"
  then have nd: "(case ev of EvDone i r \<Rightarrow> f i r | _ \<Rightarrow> x) = x" for f x by (cases ev) auto
  show "\<exists>ps. e1 = release_lane i (e\<lparr>ex_coalesced := hm_remove i (ex_coalesced e), ex_pending_events := ps\<rparr>)"
  proof (cases "map_of (ex_coalesced e) i")
    case None
    have "e\<lparr>ex_coalesced := hm_remove i (ex_coalesced e), ex_pending_events := ex_pending_events e\<rparr> = e"
      using None by (simp add: hm_remove_absent)
    moreover have "e1 = release_lane i e" using None assms t by (simp add: receive_event_def nd)
    ultimately show ?thesis by metis
  next
    case (Some fs)
    then show ?thesis using assms t by (auto simp: receive_event_def nd fan_out_def)
  qed
qed

lemma find_flight:
  assumes "distinct (map fst xs)"
  shows "List.find (\<lambda>x. snd x = i) xs = None \<Longrightarrow> i \<notin># ids_in (\<lambda>i. [i]) xs"
    and "List.find (\<lambda>x. snd x = i) xs = Some (l, j) \<Longrightarrow> j = i \<and> map_of xs l = Some i"
  using assms find_row_Some [of "\<lambda>x. snd x = i" xs "(l, j)"]
  by (auto simp: find_None_iff find_row_def ids_in_member intro!: map_of_is_SomeI)

text \<open>The release of a lane: the id leaves the flight, the next job of the queue is dispatched.\<close>

lemma release_lane_cases:
  assumes "keys_ok e"
  obtains "i \<notin># flight_ids e" "release_lane i e = e"
  | l where "map_of (ex_in_flight e) l = Some i" "map_of (ex_queued e) l \<in> {None, Some []}"
      "release_lane i e = e\<lparr>ex_in_flight := hm_remove l (ex_in_flight e)\<rparr>"
  | l nxt rest where "map_of (ex_in_flight e) l = Some i" "map_of (ex_queued e) l = Some (nxt # rest)"
      "release_lane i e = dispatch l nxt (e\<lparr>ex_in_flight := hm_remove l (ex_in_flight e),
          ex_queued := (if rest = [] then hm_remove l (ex_queued e) else hm_insert l rest (ex_queued e))\<rparr>)"
proof (cases "List.find (\<lambda>x. snd x = i) (ex_in_flight e)")
  case None
  with assms find_flight(1) [of "ex_in_flight e" i] that(1) show ?thesis
    by (simp add: release_lane_def keys_ok_def flight_ids_def)
next
  case (Some x)
  obtain l j where x: "x = (l, j)" by (cases x)
  with assms Some find_flight(2) [of "ex_in_flight e" i l j] have l: "j = i" "map_of (ex_in_flight e) l = Some i"
    by (simp_all add: keys_ok_def)
  show ?thesis
  proof (cases "map_of (ex_queued e) l")
    case None
    then show ?thesis using that(2) l Some x by (simp add: release_lane_def)
  next
    case q: (Some q)
    then show ?thesis using that(2,3) l Some x by (cases q) (simp_all add: release_lane_def Let_def)
  qed
qed

lemma release_keys: "keys_ok e \<Longrightarrow> keys_ok (release_lane i e)"
  by (cases rule: release_lane_cases [of e i]) (simp_all add: keys_ok_def dispatch_def hm_distinct)

lemma hm_remove_twice [simp]: "hm_remove k (hm_remove k xs) = hm_remove k xs"
  by (simp add: hm_remove_def)

lemma release_frame:
  assumes "keys_ok e"
  shows "ex_coalesced (release_lane i e) = ex_coalesced e"
    and "ex_pending_events (release_lane i e) = ex_pending_events e"
    and "ex_event_rx (release_lane i e) = ex_event_rx e"
  by (cases rule: release_lane_cases [OF assms, of i]; simp add: dispatch_def)+

lemma release_ids:
  assumes "keys_ok e"
  shows "flight_ids e + queue_ids e = (if i \<in># flight_ids e then {#i#} else {#})
           + (flight_ids (release_lane i e) + queue_ids (release_lane i e))"
proof (cases rule: release_lane_cases [OF assms, of i])
  case 1
  then show ?thesis by simp
next
  case (2 l)
  have f: "flight_ids e = {#i#} + flight_ids (release_lane i e)"
    using 2 assms ids_in_remove [of "ex_in_flight e" l i "\<lambda>i. [i]"] by (simp add: flight_ids_def keys_ok_def)
  moreover have "queue_ids (release_lane i e) = queue_ids e" using 2 by (simp add: queue_ids_def)
  ultimately show ?thesis by simp
next
  case (3 l nxt rest)
  let ?f = "ids_in (\<lambda>i. [i]) (hm_remove l (ex_in_flight e))"
  let ?q = "ids_in (map job_id_of) (hm_remove l (ex_queued e))"
  have "flight_ids e = {#i#} + ?f"
    using 3 assms ids_in_remove [of "ex_in_flight e" l i "\<lambda>i. [i]"] by (simp add: flight_ids_def keys_ok_def)
  moreover have "flight_ids (release_lane i e) = {#job_id_of nxt#} + ?f"
    using 3 by (simp add: flight_ids_def dispatch_def ids_in_insert)
  moreover have "queue_ids e = mset (map job_id_of (nxt # rest)) + ?q"
    using 3 assms ids_in_remove [of "ex_queued e" l "nxt # rest" "map job_id_of"]
    by (simp add: queue_ids_def keys_ok_def)
  moreover have "queue_ids (release_lane i e) = mset (map job_id_of rest) + ?q"
    using 3 by (simp add: queue_ids_def dispatch_def ids_in_insert)
  ultimately show ?thesis by simp
qed

lemma release_queue_ids:
  assumes "keys_ok e" shows "set_mset (queue_ids (release_lane i e)) \<subseteq> set_mset (queue_ids e)"
proof (cases rule: release_lane_cases [OF assms, of i])
  case (3 l nxt rest)
  have "queue_ids e = mset (map job_id_of (nxt # rest)) + ids_in (map job_id_of) (hm_remove l (ex_queued e))"
    using 3 assms ids_in_remove [of "ex_queued e" l "nxt # rest" "map job_id_of"]
    by (simp add: queue_ids_def keys_ok_def)
  moreover have "queue_ids (release_lane i e) = mset (map job_id_of rest) + ids_in (map job_id_of) (hm_remove l (ex_queued e))"
    using 3 by (simp add: queue_ids_def dispatch_def ids_in_insert)
  ultimately show ?thesis by auto
qed (simp_all add: queue_ids_def)

lemma release_lanes:
  assumes "keys_ok e" and "lanes_ok e" and "i \<notin> fst ` set (ex_coalesced e)"
  shows "lanes_ok (release_lane i e)"
proof -
  let ?r = "release_lane i e"
  have ids: "j \<in># flight_ids ?r + queue_ids ?r" if "j \<in> fst ` set (ex_coalesced e)" for j
  proof -
    have "j \<in># flight_ids e + queue_ids e" "j \<noteq> i" using that assms(2,3) by (auto simp: lanes_ok_def)
    then show ?thesis using release_ids [OF assms(1), of i] by (auto split: if_splits)
  qed
  have "q \<noteq> [] \<and> l \<in> fst ` set (ex_in_flight ?r)" if q: "(l, q) \<in> set (ex_queued ?r)" for l q
  proof (cases rule: release_lane_cases [OF assms(1), of i])
    case 1
    then show ?thesis using assms(2) q by (auto simp: lanes_ok_def)
  next
    case (2 k)
    have "(l, q) \<in> set (ex_queued e)" using 2 q by simp
    then have "q \<noteq> []" "l \<in> fst ` set (ex_in_flight e)" "map_of (ex_queued e) l = Some q"
      using assms by (auto simp: lanes_ok_def keys_ok_def)
    moreover have "l \<noteq> k" using calculation 2(2) by auto
    ultimately show ?thesis using 2(3) by (simp add: hm_keys)
  next
    case (3 k nxt rest)
    then show ?thesis using q assms(2)
      by (auto simp: dispatch_def hm_keys lanes_ok_def hm_insert_def hm_remove_def split: if_splits)
  qed
  then show ?thesis using ids release_frame [OF assms(1)] by (auto simp: lanes_ok_def)
qed


section \<open>The system\<close>

lemma run_lease_terminals:
  "set (terminal_ids (run_lease decode i ins)) \<subseteq> {i}"
  "ins \<noteq> [] \<Longrightarrow> ends_lease (last ins) \<Longrightarrow> i \<in> set (terminal_ids (run_lease decode i ins))"
  by (induction decode i ins rule: run_lease.induct) (auto simp: written_event_def split: if_splits)

lemma worker_trace_terminals:
  "worker_trace decode job evs \<Longrightarrow> set (terminal_ids evs) = {job_id_of job}"
  by (induction rule: worker_trace.induct) (use run_lease_terminals in fastforce)+

text \<open>Ids still to be dispatched, ids of jobs handed to the workers, and ids whose terminal event is to come.\<close>

definition waiting_ids :: "herdr_exec \<Rightarrow> nat multiset" where
  "waiting_ids e = queue_ids e + follower_ids e + mset (terminal_ids (ex_pending_events e))"

definition dispatched_ids :: "herdr_system \<Rightarrow> nat set" where
  "dispatched_ids s = job_id_of ` set (ex_job_tx (sy_exec s)) \<union> (job_id_of \<circ> fst) ` set (sy_running s)
     \<union> set (terminal_ids (ex_event_rx (sy_exec s)))"

definition source_ids :: "herdr_system \<Rightarrow> nat set" where
  "source_ids s = job_id_of ` set (ex_job_tx (sy_exec s)) \<union> (\<Union>w \<in> set (sy_running s). set (terminal_ids (snd w)))
     \<union> set (terminal_ids (ex_event_rx (sy_exec s)))"

definition answered :: "herdr_system \<Rightarrow> nat set" where
  "answered s = set (terminal_ids (sy_returned s))"

definition system_ok :: "herdr_system \<Rightarrow> bool" where
  "system_ok s \<longleftrightarrow> keys_ok (sy_exec s) \<and> lanes_ok (sy_exec s)
     \<and> (\<forall>i. count (outstanding (sy_exec s)) i \<le> 1)
     \<and> dispatched_ids s \<subseteq> set (sy_submitted s) - set_mset (waiting_ids (sy_exec s))
     \<and> set_mset (flight_ids (sy_exec s)) \<subseteq> source_ids s
     \<and> (\<forall>w \<in> set (sy_running s). set (terminal_ids (snd w)) \<subseteq> {job_id_of (fst w)})
     \<and> set_mset (outstanding (sy_exec s)) \<union> answered s = set (sy_submitted s)
     \<and> set_mset (outstanding (sy_exec s)) \<inter> answered s = {}"

lemma outstanding_split: "outstanding e = flight_ids e + waiting_ids e"
  by (simp add: outstanding_def waiting_ids_def)

lemma start_system_ok: "system_ok start_system"
  by (simp add: system_ok_def start_system_def spawn_exec_def keys_ok_def lanes_ok_def outstanding_defs
      waiting_ids_def dispatched_ids_def source_ids_def answered_def)

lemma submit_parts:
  assumes "keys_ok e"
  shows "waiting_ids (submit_job job e) = add_mset (job_id_of job) (waiting_ids e)
           \<and> flight_ids (submit_job job e) = flight_ids e \<and> ex_job_tx (submit_job job e) = ex_job_tx e
       \<or> waiting_ids (submit_job job e) = waiting_ids e
           \<and> flight_ids (submit_job job e) = add_mset (job_id_of job) (flight_ids e)
           \<and> ex_job_tx (submit_job job e) = ex_job_tx e @ [job]"
    and "ex_event_rx (submit_job job e) = ex_event_rx e"
proof -
  have sum: "flight_ids (submit_job job e) + waiting_ids (submit_job job e)
      = add_mset (job_id_of job) (flight_ids e + waiting_ids e)"
    using submit_outstanding [OF assms, of job] by (simp add: outstanding_split)
  show "waiting_ids (submit_job job e) = add_mset (job_id_of job) (waiting_ids e)
           \<and> flight_ids (submit_job job e) = flight_ids e \<and> ex_job_tx (submit_job job e) = ex_job_tx e
       \<or> waiting_ids (submit_job job e) = waiting_ids e
           \<and> flight_ids (submit_job job e) = add_mset (job_id_of job) (flight_ids e)
           \<and> ex_job_tx (submit_job job e) = ex_job_tx e @ [job]"
  proof (cases rule: submit_job_cases [where e = e and job = job])
    case (follow q leader)
    then have "flight_ids (submit_job job e) = flight_ids e" "ex_job_tx (submit_job job e) = ex_job_tx e"
      by (simp_all add: follow_def flight_ids_def)
    with sum show ?thesis by simp
  next
    case (enqueue q)
    then have "flight_ids (submit_job job e) = flight_ids e" "ex_job_tx (submit_job job e) = ex_job_tx e"
      by (simp_all add: flight_ids_def)
    with sum show ?thesis by simp
  next
    case dispatch
    then have "waiting_ids (submit_job job e) = waiting_ids e" "ex_job_tx (submit_job job e) = ex_job_tx e @ [job]"
      by (simp_all add: dispatch_def waiting_ids_def queue_ids_def follower_ids_def)
    with sum show ?thesis by simp
  qed
  show "ex_event_rx (submit_job job e) = ex_event_rx e"
    by (cases rule: submit_job_cases [where e = e and job = job]) (simp_all add: follow_def dispatch_def)
qed

lemma system_ok_submit:
  assumes "system_ok s" and "job_id_of job \<notin> set (sy_submitted s)"
  shows "system_ok (s\<lparr>sy_exec := submit_job job (sy_exec s), sy_submitted := job_id_of job # sy_submitted s\<rparr>)"
proof -
  let ?i = "job_id_of job" and ?e = "sy_exec s"
  have k: "keys_ok ?e" "lanes_ok ?e" using assms(1) by (simp_all add: system_ok_def)
  have fresh: "?i \<notin># outstanding ?e" "?i \<notin> dispatched_ids s" "?i \<notin> answered s"
    using assms by (auto simp: system_ok_def)
  have "count (outstanding ?e) ?i = 0" using fresh(1) by (simp add: count_eq_zero_iff)
  then have c: "count (outstanding (submit_job job ?e)) j \<le> 1" for j
    using assms(1) by (auto simp: submit_outstanding [OF k(1)] system_ok_def)
  have sub: "dispatched_ids s \<subseteq> set (sy_submitted s) - set_mset (waiting_ids ?e)"
      "set_mset (flight_ids ?e) \<subseteq> source_ids s" "set_mset (outstanding ?e) \<union> answered s = set (sy_submitted s)"
      "set_mset (outstanding ?e) \<inter> answered s = {}"
    using assms(1) unfolding system_ok_def by blast+
  let ?s = "s\<lparr>sy_exec := submit_job job ?e, sy_submitted := ?i # sy_submitted s\<rparr>"
  have a: "answered ?s = answered s" by (simp add: answered_def)
  have o: "set_mset (outstanding (sy_exec ?s)) = insert ?i (set_mset (outstanding ?e))"
    by (simp add: submit_outstanding [OF k(1)])
  consider (wait) "set_mset (waiting_ids (sy_exec ?s)) = insert ?i (set_mset (waiting_ids ?e))"
      "flight_ids (sy_exec ?s) = flight_ids ?e" "dispatched_ids ?s = dispatched_ids s" "source_ids ?s = source_ids s"
    | (go) "waiting_ids (sy_exec ?s) = waiting_ids ?e"
      "set_mset (flight_ids (sy_exec ?s)) = insert ?i (set_mset (flight_ids ?e))"
      "dispatched_ids ?s = insert ?i (dispatched_ids s)" "source_ids ?s = insert ?i (source_ids s)"
    using submit_parts [OF k(1), of job] by (auto simp: dispatched_ids_def source_ids_def)
  then have "dispatched_ids ?s \<subseteq> set (sy_submitted ?s) - set_mset (waiting_ids (sy_exec ?s))
      \<and> set_mset (flight_ids (sy_exec ?s)) \<subseteq> source_ids ?s"
  proof cases
    case wait
    then show ?thesis using sub(1,2) fresh(2) by auto
  next
    case go
    have "?i \<notin># waiting_ids ?e" using fresh(1) by (simp add: outstanding_split)
    with go sub(1,2) show ?thesis by auto
  qed
  moreover have "set_mset (outstanding (sy_exec ?s)) \<union> answered ?s = set (sy_submitted ?s)
      \<and> set_mset (outstanding (sy_exec ?s)) \<inter> answered ?s = {}"
    unfolding a o using sub(3,4) fresh(3) by simp
  ultimately show ?thesis
    using submit_ok [OF k(1), of job] submit_lanes [OF k, of job] c assms(1) unfolding system_ok_def by simp
qed

lemma system_ok_take:
  assumes "system_ok s" and "ex_job_tx (sy_exec s) = job # jobs" and "worker_trace decode job evs"
  shows "system_ok (s\<lparr>sy_exec := (sy_exec s)\<lparr>ex_job_tx := jobs\<rparr>, sy_running := (job, evs) # sy_running s\<rparr>)"
  using assms worker_trace_terminals [OF assms(3)]
  by (auto simp: system_ok_def dispatched_ids_def source_ids_def answered_def keys_ok_def lanes_ok_def
      outstanding_defs waiting_ids_def)

lemma system_ok_emit:
  assumes "system_ok s" and "sy_running s = ws @ (job, ev # evs) # vs"
  shows "system_ok (s\<lparr>sy_exec := (sy_exec s)\<lparr>ex_event_rx := ex_event_rx (sy_exec s) @ [ev]\<rparr>,
           sy_running := ws @ (job, evs) # vs\<rparr>)" (is "system_ok ?s")
proof -
  have "source_ids ?s = source_ids s"
    using assms(2) by (auto simp: source_ids_def split: option.splits)
  moreover have "dispatched_ids ?s = dispatched_ids s"
    using assms by (auto simp: dispatched_ids_def system_ok_def split: option.splits)
  ultimately show ?thesis using assms
    by (auto simp: system_ok_def answered_def keys_ok_def lanes_ok_def outstanding_defs waiting_ids_def)
qed

lemma system_ok_idle:
  assumes "system_ok s" and "sy_running s = ws @ (job, []) # vs"
  shows "system_ok (s\<lparr>sy_running := ws @ vs\<rparr>)"
  using assms by (auto simp: system_ok_def dispatched_ids_def source_ids_def answered_def)

lemma release_sources:
  assumes "keys_ok e"
  shows "set_mset (flight_ids (release_lane i e)) \<subseteq>
           (set_mset (flight_ids e) - {i}) \<union> job_id_of ` set (ex_job_tx (release_lane i e))
         \<or> count (flight_ids e) i > 1"
    and "set (ex_job_tx e) \<subseteq> set (ex_job_tx (release_lane i e))"
    and "job_id_of ` set (ex_job_tx (release_lane i e)) \<subseteq>
           job_id_of ` set (ex_job_tx e) \<union> set_mset (flight_ids (release_lane i e))"
proof -
  have one: "x \<in># flight_ids e \<and> x \<noteq> i" if "flight_ids e = {#i#} + m" "x \<in># m" "count (flight_ids e) i \<le> 1" for x m
    using that by (auto simp: count_eq_zero_iff)
  show "set_mset (flight_ids (release_lane i e)) \<subseteq>
           (set_mset (flight_ids e) - {i}) \<union> job_id_of ` set (ex_job_tx (release_lane i e))
         \<or> count (flight_ids e) i > 1"
    "set (ex_job_tx e) \<subseteq> set (ex_job_tx (release_lane i e))"
    "job_id_of ` set (ex_job_tx (release_lane i e)) \<subseteq>
           job_id_of ` set (ex_job_tx e) \<union> set_mset (flight_ids (release_lane i e))"
    by (cases rule: release_lane_cases [OF assms, of i];
        use assms ids_in_remove [of "ex_in_flight e" _ i "\<lambda>i. [i]"] one in
          \<open>force simp: flight_ids_def dispatch_def ids_in_insert keys_ok_def\<close>)+
qed


text \<open>The state after a received event: one id less outstanding at most, and it is that of the event.\<close>

lemma terminal_received:
  assumes k: "keys_ok e" and l: "lanes_ok e" and t: "terminal_job_id ev = Some i"
    and r: "receive_event ev e = Some e1" and nq: "i \<notin># waiting_ids e"
    and c: "count (outstanding e) i \<le> 1"
  shows "keys_ok e1 \<and> lanes_ok e1 \<and> ex_event_rx e1 = ex_event_rx e
     \<and> outstanding e = (if i \<in># flight_ids e then {#i#} else {#}) + outstanding e1
     \<and> set_mset (waiting_ids e1) \<subseteq> set_mset (waiting_ids e) \<and> i \<notin># outstanding e1
     \<and> set_mset (flight_ids e1) \<subseteq> (set_mset (flight_ids e) - {i}) \<union> job_id_of ` set (ex_job_tx e1)
     \<and> job_id_of ` set (ex_job_tx e1) \<subseteq> job_id_of ` set (ex_job_tx e) \<union> set_mset (flight_ids e1)
     \<and> job_id_of ` set (ex_job_tx e) \<subseteq> job_id_of ` set (ex_job_tx e1)"
proof -
  obtain evs where e1: "e1 = release_lane i (e\<lparr>ex_coalesced := hm_remove i (ex_coalesced e),
           ex_pending_events := ex_pending_events e @ evs\<rparr>)"
    and evs: "terminal_ids evs = (case map_of (ex_coalesced e) i of None \<Rightarrow> [] | Some fs \<Rightarrow> fs)"
    using receive_event_cases [where ev = ev and e = e] r t by (metis option.inject)
  define e2 where "e2 = e\<lparr>ex_coalesced := hm_remove i (ex_coalesced e), ex_pending_events := ex_pending_events e @ evs\<rparr>"
  have k2: "keys_ok e2" using k by (simp add: e2_def keys_ok_def hm_distinct)
  have same: "flight_ids e2 = flight_ids e" "queue_ids e2 = queue_ids e" "ex_job_tx e2 = ex_job_tx e"
      "ex_event_rx e2 = ex_event_rx e" by (simp_all add: e2_def flight_ids_def queue_ids_def)
  have w2: "waiting_ids e2 = waiting_ids e"
    using k ids_in_remove [of "ex_coalesced e" i _ id] evs
    by (cases "map_of (ex_coalesced e) i")
      (simp_all add: waiting_ids_def queue_ids_def follower_ids_def e2_def keys_ok_def hm_remove_absent)
  have l2: "lanes_ok e2" using l by (auto simp: lanes_ok_def e2_def hm_keys flight_ids_def queue_ids_def)
  have nc: "i \<notin> fst ` set (ex_coalesced e2)" by (simp add: e2_def hm_keys)
  have fw: "follower_ids e1 = follower_ids e2" "ex_pending_events e1 = ex_pending_events e2"
      "ex_event_rx e1 = ex_event_rx e2"
    using release_frame [OF k2, of i] by (simp_all add: e1 e2_def [symmetric] follower_ids_def)
  have ids: "flight_ids e + queue_ids e = (if i \<in># flight_ids e then {#i#} else {#}) + (flight_ids e1 + queue_ids e1)"
    using release_ids [OF k2, of i] same by (simp add: e1 e2_def [symmetric])
  then have o: "outstanding e = (if i \<in># flight_ids e then {#i#} else {#}) + outstanding e1"
    using w2 fw same(2) by (simp add: outstanding_def waiting_ids_def union_assoc)
  have "count (flight_ids e) i \<le> 1" using c by (simp add: outstanding_split)
  then have src: "set_mset (flight_ids e1) \<subseteq> (set_mset (flight_ids e) - {i}) \<union> job_id_of ` set (ex_job_tx e1)"
    using release_sources(1) [OF k2, of i] same by (auto simp: e1 e2_def [symmetric])
  have tx: "job_id_of ` set (ex_job_tx e1) \<subseteq> job_id_of ` set (ex_job_tx e) \<union> set_mset (flight_ids e1)"
      "job_id_of ` set (ex_job_tx e) \<subseteq> job_id_of ` set (ex_job_tx e1)"
    using release_sources(2,3) [OF k2, of i] same by (auto simp: e1 e2_def [symmetric])
  have "i \<notin># outstanding e1"
  proof (cases "i \<in># flight_ids e")
    case True
    then have "count (outstanding e1) i = 0" using o c by simp
    then show ?thesis by (simp add: count_eq_zero_iff)
  next
    case False
    then have "outstanding e1 = flight_ids e + waiting_ids e" using o by (simp add: outstanding_split [of e])
    with False nq show ?thesis by simp
  qed
  moreover have "set_mset (waiting_ids e1) \<subseteq> set_mset (waiting_ids e)"
  proof -
    have "set_mset (queue_ids e1) \<subseteq> set_mset (queue_ids e2)"
      unfolding e1 e2_def [symmetric] by (rule release_queue_ids [OF k2])
    then have "set_mset (waiting_ids e1) \<subseteq> set_mset (waiting_ids e2)" using fw by (auto simp: waiting_ids_def)
    with w2 show ?thesis by simp
  qed
  ultimately show ?thesis
    using o src tx fw(3) same(4) release_keys [OF k2, of i] release_lanes [OF k2 l2 nc]
    by (simp add: e1 e2_def [symmetric])
qed

lemma system_ok_terminal:
  assumes ok: "system_ok s" and rx: "ex_event_rx (sy_exec s) = ev # evs"
    and r: "receive_event ev (sy_exec s\<lparr>ex_event_rx := evs\<rparr>) = Some e1" and t: "terminal_job_id ev = Some i"
  shows "system_ok (s\<lparr>sy_exec := e1, sy_returned := sy_returned s @ [ev]\<rparr>)" (is "system_ok ?s")
proof -
  let ?e = "sy_exec s\<lparr>ex_event_rx := evs\<rparr>"
  have parts: "flight_ids ?e = flight_ids (sy_exec s)" "waiting_ids ?e = waiting_ids (sy_exec s)"
      "outstanding ?e = outstanding (sy_exec s)"
    by (simp_all add: outstanding_defs waiting_ids_def)
  have d: "dispatched_ids s \<subseteq> set (sy_submitted s) - set_mset (waiting_ids (sy_exec s))"
    and f: "set_mset (flight_ids (sy_exec s)) \<subseteq> source_ids s"
    and sub: "set_mset (outstanding (sy_exec s)) \<union> answered s = set (sy_submitted s)"
    and dis: "set_mset (outstanding (sy_exec s)) \<inter> answered s = {}"
    and c: "\<And>i. count (outstanding (sy_exec s)) i \<le> 1"
    and k: "keys_ok ?e" "lanes_ok ?e"
    and w: "\<forall>w \<in> set (sy_running s). set (terminal_ids (snd w)) \<subseteq> {job_id_of (fst w)}"
    using ok unfolding system_ok_def by (blast, blast, blast, blast, blast,
        simp_all add: keys_ok_def lanes_ok_def flight_ids_def queue_ids_def)
  have i: "i \<in> dispatched_ids s" using rx t by (simp add: dispatched_ids_def)
  then have nw: "i \<notin># waiting_ids ?e" using d parts(2) by auto
  note rec = terminal_received [OF k t r nw] 
  have c': "count (outstanding ?e) i \<le> 1" using c parts(3) by simp
  have rx1: "ex_event_rx e1 = evs" and o: "outstanding (sy_exec s) = (if i \<in># flight_ids (sy_exec s) then {#i#} else {#}) + outstanding e1"
    and wa: "set_mset (waiting_ids e1) \<subseteq> set_mset (waiting_ids (sy_exec s))" and ni: "i \<notin># outstanding e1"
    and src: "set_mset (flight_ids e1) \<subseteq> (set_mset (flight_ids (sy_exec s)) - {i}) \<union> job_id_of ` set (ex_job_tx e1)"
    and tx: "job_id_of ` set (ex_job_tx e1) \<subseteq> job_id_of ` set (ex_job_tx (sy_exec s)) \<union> set_mset (flight_ids e1)"
      "job_id_of ` set (ex_job_tx (sy_exec s)) \<subseteq> job_id_of ` set (ex_job_tx e1)"
    and k1: "keys_ok e1" "lanes_ok e1"
    using rec [OF c'] parts by simp_all
  have osub: "set_mset (outstanding e1) \<subseteq> set_mset (outstanding (sy_exec s))" using o by auto
  have cnt: "count (outstanding e1) j \<le> 1" for j
    using c [of j] o by (auto split: if_splits)
  have a: "answered ?s = insert i (answered s)" using t by (simp add: answered_def)
  have "dispatched_ids ?s \<subseteq> set (sy_submitted s) - set_mset (waiting_ids e1)"
  proof
    fix j assume "j \<in> dispatched_ids ?s"
    then consider "j \<in> dispatched_ids s" | "j \<in># flight_ids e1"
      using tx(1) rx1 rx by (fastforce simp: dispatched_ids_def split: option.splits)
    then show "j \<in> set (sy_submitted s) - set_mset (waiting_ids e1)"
    proof cases
      case 1
      then show ?thesis using d wa by blast
    next
      case 2
      then have "j \<in># outstanding e1" by (simp add: outstanding_split)
      moreover have "count (waiting_ids e1) j = 0"
        using 2 cnt [of j] by (auto simp: outstanding_split count_greater_zero_iff [symmetric] simp del: count_greater_zero_iff)
      ultimately show ?thesis using osub sub by (auto simp: count_eq_zero_iff)
    qed
  qed
  moreover have "set_mset (flight_ids e1) \<subseteq> source_ids ?s"
  proof
    fix j assume "j \<in># flight_ids e1"
    then consider "j \<in> source_ids s" "j \<noteq> i" | "j \<in> job_id_of ` set (ex_job_tx e1)" using src f by blast
    then show "j \<in> source_ids ?s"
    proof cases
      case 1
      then show ?thesis using tx(2) rx1 rx t by (auto simp: source_ids_def)
    qed (simp add: source_ids_def)
  qed
  moreover have "set_mset (outstanding e1) \<union> answered ?s = set (sy_submitted s)"
    using o sub i d unfolding a by (auto split: if_splits)
  moreover have "set_mset (outstanding e1) \<inter> answered ?s = {}"
    using dis osub ni unfolding a by blast
  ultimately show ?thesis using k1 cnt w unfolding system_ok_def by simp
qed

lemma system_ok_recv:
  assumes ok: "system_ok s" and r: "try_recv (sy_exec s) = Some (Some ev, e)"
  shows "system_ok (s\<lparr>sy_exec := e, sy_returned := sy_returned s @ [ev]\<rparr>)" (is "system_ok ?s")
proof (cases "ex_pending_events (sy_exec s)")
  case (Cons ev' evs)
  then have e: "ev' = ev" "e = sy_exec s\<lparr>ex_pending_events := evs\<rparr>" using r by (simp_all add: try_recv_def)
  let ?t = "case terminal_job_id ev of None \<Rightarrow> [] | Some i \<Rightarrow> [i]"
  have o: "outstanding (sy_exec s) = mset ?t + outstanding e"
    and wa: "waiting_ids (sy_exec s) = mset ?t + waiting_ids e"
    and same: "flight_ids e = flight_ids (sy_exec s)" "dispatched_ids ?s = dispatched_ids s"
      "source_ids ?s = source_ids s" "keys_ok e = keys_ok (sy_exec s)" "lanes_ok e = lanes_ok (sy_exec s)"
      "answered ?s = set ?t \<union> answered s"
    using Cons e by (auto simp: outstanding_defs waiting_ids_def dispatched_ids_def source_ids_def keys_ok_def
        lanes_ok_def answered_def)
  have all: "dispatched_ids s \<subseteq> set (sy_submitted s) - set_mset (waiting_ids (sy_exec s))"
      "set_mset (flight_ids (sy_exec s)) \<subseteq> source_ids s"
      "set_mset (outstanding (sy_exec s)) \<union> answered s = set (sy_submitted s)"
      "set_mset (outstanding (sy_exec s)) \<inter> answered s = {}"
      "\<forall>i. count (outstanding (sy_exec s)) i \<le> 1" "keys_ok (sy_exec s)" "lanes_ok (sy_exec s)"
      "\<forall>w \<in> set (sy_running s). set (terminal_ids (snd w)) \<subseteq> {job_id_of (fst w)}"
    using ok unfolding system_ok_def by blast+
  have cnt: "\<forall>i. count (outstanding e) i \<le> 1" using all(5) o by (metis count_union le_add2 order_trans)
  have "set ?t \<inter> set_mset (outstanding e) = {}"
  proof -
    have "count (outstanding e) i = 0" if "i \<in> set ?t" for i
      using all(5) [rule_format, of i] that unfolding o by (auto split: option.splits)
    then show ?thesis by (auto simp: count_eq_zero_iff)
  qed
  then have "set_mset (outstanding e) \<union> answered ?s = set (sy_submitted s)"
    "set_mset (outstanding e) \<inter> answered ?s = {}"
    using all(3,4) unfolding same(6) o by auto
  moreover have "dispatched_ids ?s \<subseteq> set (sy_submitted s) - set_mset (waiting_ids e)"
    using all(1) unfolding same(2) wa by auto
  ultimately show ?thesis using all(2,6,7,8) cnt same(1,3,4,5) unfolding system_ok_def by simp
next
  case Nil
  then obtain evs where rx: "ex_event_rx (sy_exec s) = ev # evs"
    and e: "receive_event ev (sy_exec s\<lparr>ex_event_rx := evs\<rparr>) = Some e"
    using r by (auto simp: try_recv_def split: list.splits)
  show ?thesis
  proof (cases "terminal_job_id ev")
    case (Some i)
    from system_ok_terminal [OF ok rx e this] show ?thesis .
  next
    case None
    obtain e1 where e1: "receive_event ev (sy_exec s\<lparr>ex_event_rx := evs\<rparr>) = Some e1"
      "ex_in_flight e1 = ex_in_flight (sy_exec s)" "ex_queued e1 = ex_queued (sy_exec s)"
      "ex_coalesced e1 = ex_coalesced (sy_exec s)" "ex_job_tx e1 = ex_job_tx (sy_exec s)" "ex_event_rx e1 = evs"
      "terminal_ids (ex_pending_events e1) = terminal_ids (ex_pending_events (sy_exec s))"
      using receive_event_cases [where ev = ev and e = "sy_exec s\<lparr>ex_event_rx := evs\<rparr>"] None by auto
    then have "e1 = e" using e by simp
    moreover have "terminal_ids (ex_event_rx (sy_exec s)) = terminal_ids evs" using rx None by simp
    ultimately have same: "outstanding e = outstanding (sy_exec s)" "waiting_ids e = waiting_ids (sy_exec s)"
        "flight_ids e = flight_ids (sy_exec s)" "dispatched_ids ?s = dispatched_ids s" "source_ids ?s = source_ids s"
        "keys_ok e = keys_ok (sy_exec s)" "lanes_ok e = lanes_ok (sy_exec s)" "answered ?s = answered s"
      using e1 None by (simp_all add: outstanding_defs waiting_ids_def dispatched_ids_def source_ids_def
          keys_ok_def lanes_ok_def answered_def)
    show ?thesis using ok unfolding system_ok_def same by (simp add: same)
  qed
qed

lemma exec_reachable_ok: "exec_reachable decode workers s \<Longrightarrow> system_ok s"
  unfolding exec_reachable_def
proof (induction rule: rtranclp_induct)
  case base
  show ?case by (rule start_system_ok)
next
  case (step s t)
  from step(2,3) show ?case
    by (induction rule: exec_step.induct)
      (auto intro: system_ok_submit system_ok_take system_ok_emit system_ok_idle system_ok_recv)
qed


section \<open>Draining\<close>

text \<open>A step of the executor or of a worker: no new job comes in.\<close>

definition drain_step ::
  "(json \<Rightarrow> string + agent_observation) \<Rightarrow> nat \<Rightarrow> herdr_system \<Rightarrow> herdr_system \<Rightarrow> bool" where
  "drain_step decode workers s s' \<longleftrightarrow> exec_step decode workers s s' \<and> sy_submitted s' = sy_submitted s"

lemma receive_never_panics: "\<exists>e1. receive_event ev e = Some e1"
  by (rule receive_event_cases [where ev = ev and e = e]) blast

lemma try_recv_event:
  assumes "ex_pending_events e \<noteq> [] \<or> ex_event_rx e \<noteq> []"
  obtains ev e1 where "try_recv e = Some (Some ev, e1)"
proof (cases "ex_pending_events e")
  case Nil
  with assms obtain ev evs where "ex_event_rx e = ev # evs" by (cases "ex_event_rx e") auto
  with Nil receive_never_panics [of ev "e\<lparr>ex_event_rx := evs\<rparr>"] that show thesis
    by (auto simp: try_recv_def)
qed (use that in \<open>simp add: try_recv_def\<close>)

lemma worker_trace_exists: "\<exists>evs. worker_trace decode job evs"
  by (cases job) (blast intro: worker_trace.intros)+

lemma stuck_means_idle:
  assumes "\<And>s'. \<not> drain_step decode workers s s'"
  shows "ex_job_tx (sy_exec s) = [] \<and> sy_running s = [] \<and> ex_event_rx (sy_exec s) = []
     \<and> ex_pending_events (sy_exec s) = []"
proof -
  have "sy_running s = []"
  proof (rule ccontr)
    assume "sy_running s \<noteq> []"
    then obtain job evs ws where "sy_running s = [] @ (job, evs) # ws" by (cases "sy_running s") auto
    then show False
      using step_idle [of s "[]" job ws] step_emit [of s "[]" job _ _ ws] assms
      by (cases evs) (fastforce simp: drain_step_def)+
  qed
  moreover have "ex_job_tx (sy_exec s) = []"
  proof (rule ccontr)
    assume "ex_job_tx (sy_exec s) \<noteq> []"
    then obtain job jobs where tx: "ex_job_tx (sy_exec s) = job # jobs" by (cases "ex_job_tx (sy_exec s)") auto
    obtain evs where tr: "worker_trace decode job evs" using worker_trace_exists by blast
    have "exec_step decode workers s
        (s\<lparr>sy_exec := (sy_exec s)\<lparr>ex_job_tx := jobs\<rparr>, sy_running := (job, evs) # sy_running s\<rparr>)"
      by (rule step_take [OF tx _ tr]) (simp add: \<open>sy_running s = []\<close>)
    then show False using assms by (fastforce simp: drain_step_def)
  qed
  moreover have "ex_pending_events (sy_exec s) = [] \<and> ex_event_rx (sy_exec s) = []"
  proof (rule ccontr)
    assume "\<not> ?thesis"
    then obtain ev e1 where "try_recv (sy_exec s) = Some (Some ev, e1)"
      using try_recv_event [of "sy_exec s"] by blast
    from step_recv [OF this, of decode workers] show False using assms by (fastforce simp: drain_step_def)
  qed
  ultimately show ?thesis by simp
qed

lemma idle_means_answered:
  assumes "system_ok s" and "ex_job_tx (sy_exec s) = [] \<and> sy_running s = [] \<and> ex_event_rx (sy_exec s) = []
     \<and> ex_pending_events (sy_exec s) = []"
  shows "outstanding (sy_exec s) = {#}"
proof -
  let ?e = "sy_exec s"
  have "source_ids s = {}" using assms(2) by (simp add: source_ids_def)
  then have f: "flight_ids ?e = {#}" using assms(1) by (simp add: system_ok_def)
  then have "ex_in_flight ?e = []"
    by (cases "ex_in_flight ?e") (auto simp: flight_ids_def ids_in_def)
  moreover from this have "ex_queued ?e = []"
    using assms(1) by (cases "ex_queued ?e") (auto simp: system_ok_def lanes_ok_def)
  moreover from this f have "ex_coalesced ?e = []"
    using assms(1) by (cases "ex_coalesced ?e") (auto simp: system_ok_def lanes_ok_def queue_ids_def)
  ultimately show ?thesis using assms(2) by (simp add: outstanding_defs)
qed

text \<open>The measure: jobs no worker took yet, then events on their way with the copies they may cause.\<close>

definition untaken :: "herdr_system \<Rightarrow> nat" where
  "untaken s = size (queue_ids (sy_exec s)) + length (ex_job_tx (sy_exec s))"

definition traffic :: "herdr_system \<Rightarrow> nat" where
  "traffic s = (let f = size (follower_ids (sy_exec s)) in
     (f + 1) * length (ex_event_rx (sy_exec s)) + (f + 2) * sum_list (map (length \<circ> snd) (sy_running s))
     + length (sy_running s) + length (ex_pending_events (sy_exec s)))"

lemma those_length: "those xs = Some ys \<Longrightarrow> length ys = length xs"
  by (induction xs arbitrary: ys) (auto split: option.splits)

lemma follower_size:
  "distinct (map fst (ex_coalesced e)) \<Longrightarrow> map_of (ex_coalesced e) i = Some fs
   \<Longrightarrow> size (follower_ids e) = length fs + size (ids_in id (hm_remove i (ex_coalesced e)))"
  using ids_in_remove [of "ex_coalesced e" i fs id] by (simp add: follower_ids_def)

lemma release_untaken:
  assumes "keys_ok e"
  shows "size (queue_ids (release_lane i e)) + length (ex_job_tx (release_lane i e))
       = size (queue_ids e) + length (ex_job_tx e)"
proof (cases rule: release_lane_cases [OF assms, of i])
  case (3 l nxt rest)
  then show ?thesis
    using assms ids_in_remove [of "ex_queued e" l "nxt # rest" "map job_id_of"]
    by (simp add: queue_ids_def keys_ok_def dispatch_def ids_in_insert)
qed (simp_all add: queue_ids_def)

lemma receive_measure:
  assumes "keys_ok e" and "receive_event ev e = Some e1"
  shows "size (queue_ids e1) + length (ex_job_tx e1) = size (queue_ids e) + length (ex_job_tx e)
     \<and> length (ex_pending_events e1) \<le> length (ex_pending_events e) + size (follower_ids e)
     \<and> size (follower_ids e1) \<le> size (follower_ids e) \<and> ex_event_rx e1 = ex_event_rx e"
proof -
  have k: "distinct (map fst (ex_coalesced e))" using assms(1) by (simp add: keys_ok_def)
  show ?thesis
  proof (cases "terminal_job_id ev")
    case None
    show ?thesis
      using None assms(2) follower_size [OF k]
      by (cases ev) (auto simp: receive_event_def fan_out_def queue_ids_def follower_ids_def
          split: option.splits dest!: those_length)
  next
    case (Some i)
    have nd: "(case ev of EvDone i r \<Rightarrow> f i r | _ \<Rightarrow> x) = x" for f x using Some by (cases ev) auto
    obtain e2 where e1: "e1 = release_lane i e2" and k2: "keys_ok e2"
      and same: "ex_queued e2 = ex_queued e" "ex_job_tx e2 = ex_job_tx e" "ex_event_rx e2 = ex_event_rx e"
        "length (ex_pending_events e2) \<le> length (ex_pending_events e) + size (follower_ids e)"
        "size (follower_ids e2) \<le> size (follower_ids e)"
    proof (cases "map_of (ex_coalesced e) i")
      case None
      then have "e1 = release_lane i e" using assms(2) Some by (simp add: receive_event_def nd)
      with that [of e] assms(1) show thesis by simp
    next
      case fs: (Some fs)
      obtain evs where "those (map (clone_follower_event ev) fs) = Some evs"
        "e1 = release_lane i (e\<lparr>ex_coalesced := hm_remove i (ex_coalesced e),
            ex_pending_events := ex_pending_events e @ evs\<rparr>)"
        using assms(2) Some fs by (auto simp: receive_event_def nd fan_out_def)
      with that [of "e\<lparr>ex_coalesced := hm_remove i (ex_coalesced e), ex_pending_events := ex_pending_events e @ evs\<rparr>"]
        assms(1) follower_size [OF k fs] show thesis
        by (auto simp: keys_ok_def hm_distinct follower_ids_def dest!: those_length)
    qed
    have "queue_ids e2 = queue_ids e" by (simp add: queue_ids_def same)
    then show ?thesis
      using same release_untaken [OF k2, of i] release_frame [OF k2, of i] by (simp add: e1 follower_ids_def)
  qed
qed

lemma drain_decreases:
  assumes "keys_ok (sy_exec s)" and "drain_step decode workers s s'"
  shows "(s', s) \<in> measures [untaken, traffic]"
proof -
  from assms(2) have st: "exec_step decode workers s s'" and sub: "sy_submitted s' = sy_submitted s"
    by (simp_all add: drain_step_def)
  from st assms(1) sub show ?thesis
  proof (induction rule: exec_step.induct)
    case (step_submit job s)
    then show ?case by (metis exec_step.simps herdr_system.select_convs(3) list.set_intros(1) herdr_system.surjective herdr_system.update_convs(1,3))
  next
    case (step_take s job jobs evs)
    then show ?case by (simp add: untaken_def queue_ids_def)
  next
    case (step_emit s ws job ev evs vs)
    then show ?case by (simp add: untaken_def traffic_def queue_ids_def follower_ids_def Let_def)
  next
    case (step_idle s ws job vs)
    then show ?case by (simp add: untaken_def traffic_def queue_ids_def follower_ids_def Let_def)
  next
    case (step_recv s ev e)
    show ?case
    proof (cases "ex_pending_events (sy_exec s)")
      case (Cons ev' evs)
      then have "e = sy_exec s\<lparr>ex_pending_events := evs\<rparr>" using step_recv(1) by (simp add: try_recv_def)
      with Cons show ?thesis by (simp add: untaken_def traffic_def queue_ids_def follower_ids_def Let_def)
    next
      case Nil
      then obtain evs where rx: "ex_event_rx (sy_exec s) = ev # evs"
        and e: "receive_event ev (sy_exec s\<lparr>ex_event_rx := evs\<rparr>) = Some e"
        using step_recv(1) by (auto simp: try_recv_def split: list.splits)
      have k: "keys_ok (sy_exec s\<lparr>ex_event_rx := evs\<rparr>)" using step_recv(2) by (simp add: keys_ok_def)
      have m: "size (queue_ids e) + length (ex_job_tx e) = size (queue_ids (sy_exec s)) + length (ex_job_tx (sy_exec s))"
        "length (ex_pending_events e) \<le> size (follower_ids (sy_exec s))"
        "size (follower_ids e) \<le> size (follower_ids (sy_exec s))" "ex_event_rx e = evs"
        using receive_measure [OF k e] Nil by (simp_all add: queue_ids_def follower_ids_def)
      let ?f = "size (follower_ids (sy_exec s))" and ?g = "size (follower_ids e)"
      let ?r = "sum_list (map (length \<circ> snd) (sy_running s))"
      have "?g * length evs \<le> ?f * length evs" "?g * ?r \<le> ?f * ?r"
        using m(3) by (simp_all only: mult_le_mono1)
      then have "?g * length evs + (?g * ?r + length (ex_pending_events e)) < Suc (?f + (?f * length evs
          + (?f * ?r + length (ex_pending_events (sy_exec s)))))"
        using m(2) by linarith
      with m rx show ?thesis by (simp add: untaken_def traffic_def Let_def)
    qed
  qed
qed


section \<open>Properties\<close>

text \<open>Three snapshots are submitted before a worker takes the first: the third shares the second.\<close>

definition exec_demo :: herdr_system where
  "exec_demo = foldl (\<lambda>s job. s\<lparr>sy_exec := submit_job job (sy_exec s), sy_submitted := job_id_of job # sy_submitted s\<rparr>)
     start_system [JobSnapshot 1 True, JobSnapshot 2 False, JobSnapshot 3 False]"

lemma exec_demo_reachable: "exec_reachable decode workers exec_demo"
proof -
  let ?sub = "\<lambda>s job. s\<lparr>sy_exec := submit_job job (sy_exec s), sy_submitted := job_id_of job # sy_submitted s\<rparr>"
  let ?s1 = "?sub start_system (JobSnapshot 1 True)"
  let ?s2 = "?sub ?s1 (JobSnapshot 2 False)"
  have "exec_step decode workers start_system ?s1" "exec_step decode workers ?s1 ?s2"
    "exec_step decode workers ?s2 (?sub ?s2 (JobSnapshot 3 False))"
    by (rule step_submit; simp add: start_system_def)+
  then show ?thesis by (simp add: exec_reachable_def exec_demo_def)
qed

text \<open>
  C21: no job is lost and none is counted twice. In every reachable state of executor and workers the
  submitted jobs are exactly the outstanding ones, each held once in flight, in a queue, as a
  follower or as a pending terminal event, and those whose terminal event was returned; the two
  sets are disjoint.
\<close>

theorem executor_accounts_for_every_job:
  assumes "exec_reachable decode workers s"
  shows "set (sy_submitted s) = set_mset (outstanding (sy_exec s)) \<union> answered s
     \<and> set_mset (outstanding (sy_exec s)) \<inter> answered s = {} \<and> count (outstanding (sy_exec s)) i \<le> 1"
  using exec_reachable_ok [OF assms] by (simp add: system_ok_def)

theorem executor_accounts_for_every_job_witness:
  "set (sy_submitted exec_demo) = set_mset (outstanding (sy_exec exec_demo)) \<union> answered exec_demo
   \<and> count (outstanding (sy_exec exec_demo)) 3 \<le> 1"
  using executor_accounts_for_every_job [OF exec_demo_reachable] by blast

text \<open>
  C19: every submitted job is answered. Executor and workers cannot run for ever without a new
  submission, and a reachable state in which they have nothing left to do has returned the terminal
  event of every submitted job, followers of a shared snapshot included; the drain of events never
  panics.
\<close>

theorem executor_answers_every_job:
  "wfp (\<lambda>s' s. exec_reachable decode workers s \<and> drain_step decode workers s s')
   \<and> (\<forall>s. exec_reachable decode workers s \<and> (\<forall>s'. \<not> drain_step decode workers s s')
        \<longrightarrow> answered s = set (sy_submitted s))
   \<and> (\<forall>e. try_recv e \<noteq> None)"
proof (intro conjI allI impI)
  have "{(s', s). exec_reachable decode workers s \<and> drain_step decode workers s s'} \<subseteq> measures [untaken, traffic]"
    using drain_decreases exec_reachable_ok by (fastforce simp: system_ok_def)
  then show "wfp (\<lambda>s' s. exec_reachable decode workers s \<and> drain_step decode workers s s')"
    unfolding wfp_def by (rule wf_subset [OF wf_measures])
next
  fix s assume s: "exec_reachable decode workers s \<and> (\<forall>s'. \<not> drain_step decode workers s s')"
  then have "outstanding (sy_exec s) = {#}"
    using idle_means_answered [OF exec_reachable_ok stuck_means_idle] by blast
  moreover have "system_ok s" using s exec_reachable_ok by blast
  ultimately show "answered s = set (sy_submitted s)" by (simp add: system_ok_def)
next
  fix e show "try_recv e \<noteq> None"
    using receive_never_panics by (auto simp: try_recv_def split: list.split)
qed

theorem executor_answers_every_job_witness:
  "\<exists>s'. drain_step (\<lambda>_. Inl ''undecoded'') 4 exec_demo s'"
proof (rule ccontr)
  assume "\<not> (\<exists>s'. drain_step (\<lambda>_. Inl ''undecoded'') 4 exec_demo s')"
  then have "answered exec_demo = set (sy_submitted exec_demo)"
    using executor_answers_every_job [of "\<lambda>_. Inl ''undecoded''" 4] exec_demo_reachable by blast
  then show False by (simp add: exec_demo_def answered_def start_system_def)
qed

section \<open>Lanes\<close>

text \<open>The abstract executor: one queue of job ids per lane, its head in flight.\<close>

definition lane_view :: "herdr_exec \<Rightarrow> lane \<Rightarrow> nat list" where
  "lane_view e l = (case map_of (ex_in_flight e) l of None \<Rightarrow> [] | Some i \<Rightarrow> [i])
     @ map job_id_of (case map_of (ex_queued e) l of None \<Rightarrow> [] | Some q \<Rightarrow> q)"

definition spec_submit :: "lane \<Rightarrow> nat \<Rightarrow> (lane \<Rightarrow> nat list) \<Rightarrow> lane \<Rightarrow> nat list" where
  "spec_submit l i v = v(l := v l @ [i])"

definition spec_terminal :: "nat \<Rightarrow> (lane \<Rightarrow> nat list) \<Rightarrow> lane \<Rightarrow> nat list" where
  "spec_terminal i v = (\<lambda>l. case v l of [] \<Rightarrow> [] | j # js \<Rightarrow> if j = i then js else j # js)"

lemma release_lane_view:
  assumes "keys_ok e" and "lanes_ok e" and "\<And>l. count (flight_ids e) i \<le> 1"
  shows "lane_view (release_lane i e) = spec_terminal i (lane_view e)"
proof
  fix k
  have other: "map_of (ex_in_flight e) k \<noteq> Some i" if "map_of (ex_in_flight e) l = Some i" "l \<noteq> k" for l
  proof
    assume "map_of (ex_in_flight e) k = Some i"
    then have "map_of (hm_remove l (ex_in_flight e)) k = Some i" using that(2) by simp
    from map_of_SomeD [OF this] have "i \<in># ids_in (\<lambda>i. [i]) (hm_remove l (ex_in_flight e))"
      unfolding ids_in_member by force
    moreover have "flight_ids e = {#i#} + ids_in (\<lambda>i. [i]) (hm_remove l (ex_in_flight e))"
      using assms(1) that(1) ids_in_remove [of "ex_in_flight e" l i "\<lambda>i. [i]"] by (simp add: flight_ids_def keys_ok_def)
    ultimately show False using assms(3) by (auto simp: count_eq_zero_iff)
  qed
  have empty: "map_of (ex_queued e) k = None" if "map_of (ex_in_flight e) k = None"
    using that assms(2) by (auto simp: lanes_ok_def map_of_eq_None_iff dest!: map_of_SomeD)
  show "lane_view (release_lane i e) k = spec_terminal i (lane_view e) k"
  proof (cases rule: release_lane_cases [OF assms(1), of i])
    case 1
    then have "map_of (ex_in_flight e) k \<noteq> Some i"
      by (auto simp: flight_ids_def ids_in_member dest!: map_of_SomeD intro: rev_bexI)
    then show ?thesis using 1 empty
      by (cases "map_of (ex_in_flight e) k") (simp_all add: lane_view_def spec_terminal_def)
  next
    case (2 l)
    then show ?thesis using other [of l] empty
      by (cases "l = k"; cases "map_of (ex_in_flight e) k") (auto simp: lane_view_def spec_terminal_def)
  next
    case (3 l nxt rest)
    then show ?thesis using other [of l] empty
      by (cases "l = k"; cases "map_of (ex_in_flight e) k") (auto simp: lane_view_def spec_terminal_def dispatch_def)
  qed
qed


lemma submit_lane_view:
  assumes "keys_ok e" and "lanes_ok e"
  shows "lane_view (submit_job job e) =
    (case Option.bind (map_of (ex_queued e) (lane_for job)) (\<lambda>q. coalescing_leader q job) of
       None \<Rightarrow> spec_submit (lane_for job) (job_id_of job) (lane_view e) | Some leader \<Rightarrow> lane_view e)"
proof (cases rule: submit_job_cases [where e = e and job = job])
  case (follow q leader)
  then show ?thesis by (simp add: follow_def lane_view_def fun_eq_iff)
next
  case (enqueue q)
  then show ?thesis
    by (cases "map_of (ex_queued e) (lane_for job)") (auto simp: lane_view_def spec_submit_def fun_eq_iff)
next
  case dispatch
  then show ?thesis by (auto simp: lane_view_def spec_submit_def dispatch_def fun_eq_iff)
qed


text \<open>The first snapshot is taken and answered: the second, with its follower, is dispatched.\<close>

definition exec_demo_event :: herdr_system where
  "exec_demo_event = exec_demo\<lparr>sy_exec := (sy_exec exec_demo)\<lparr>ex_job_tx := [], ex_event_rx := [EvDone 1 (Inl (HUnexpected ''x''))]\<rparr>,
     sy_running := [(JobSnapshot 1 True, [EvDropped 1])]\<rparr>"

lemma exec_demo_event_reachable: "exec_reachable decode workers exec_demo_event"
proof -
  let ?d = "EvDone 1 (Inl (HUnexpected ''x''))"
  let ?s1 = "exec_demo\<lparr>sy_exec := (sy_exec exec_demo)\<lparr>ex_job_tx := []\<rparr>,
      sy_running := (JobSnapshot 1 True, [?d, EvDropped 1]) # sy_running exec_demo\<rparr>"
  have tr: "worker_trace decode (JobSnapshot 1 True) [?d, EvDropped 1]"
    using trace_snapshot [of decode 1 True "Inl (HUnexpected ''x'')"] by simp
  have r: "sy_running exec_demo = []" "ex_job_tx (sy_exec exec_demo) = [JobSnapshot 1 True]"
    "ex_event_rx (sy_exec exec_demo) = []"
    by (code_simp)+
  have "exec_step decode workers exec_demo ?s1"
    by (rule step_take [OF r(2) _ tr]) (simp add: r(1))
  moreover have "exec_step decode workers ?s1 exec_demo_event"
    using step_emit [of ?s1 "[]" "JobSnapshot 1 True" ?d "[EvDropped 1]" "[]" decode workers]
    by (simp add: r exec_demo_event_def)
  ultimately show ?thesis using exec_demo_reachable [of decode workers]
    unfolding exec_reachable_def by (meson rtranclp.rtrancl_into_rtrancl)
qed




end
