(* ===== verification/CliTokens.thy ===== *)
theory CliTokens
  imports Prelude
begin

text \<open>
  The argument list of one invocation (\<open>Tokens\<close> in \<open>src/src/cli.rs\<close>) and the collection of usage
  problems (\<open>Problems\<close>).

  A parse takes flags, values and positionals out of the list and marks each index it used; what
  is left at the end is a usage problem. The vector \<open>used\<close> is kept as the set of the indices that
  are set. A taking operation is a function of the token state to its result and the new state,
  because an operation that fails late keeps what it had already marked.
\<close>

record tokens =
  items :: "string list"
  used :: "nat set"

type_synonym 'a take = "tokens \<Rightarrow> (string + 'a) \<times> tokens"

text \<open>The \<open>?\<close> operator over a taking operation, a result without effect, and a fallible value.\<close>

definition tbind :: "'a take \<Rightarrow> ('a \<Rightarrow> 'b take) \<Rightarrow> 'b take" where
  "tbind m f t = (case m t of (Inl e, t') \<Rightarrow> (Inl e, t') | (Inr x, t') \<Rightarrow> f x t')"

definition tok :: "'a \<Rightarrow> 'a take" where "tok x t = (Inr x, t)"

definition lift_result :: "string + 'a \<Rightarrow> 'a take" where "lift_result r t = (r, t)"

definition usage_error :: "string \<Rightarrow> 'a take" where "usage_error e t = (Inl e, t)"

definition starts_dash :: "string \<Rightarrow> bool" where
  "starts_dash s \<longleftrightarrow> s \<noteq> [] \<and> hd s = CHR ''-''"

section \<open>Tokens\<close>

definition new_tokens :: "string list \<Rightarrow> tokens" where
  "new_tokens args = \<lparr>items = args, used = {}\<rparr>"

definition mark_used :: "nat set \<Rightarrow> tokens \<Rightarrow> tokens" where
  "mark_used is t = t\<lparr>used := used t \<union> is\<rparr>"

definition flag_hits :: "string \<Rightarrow> tokens \<Rightarrow> nat list" where
  "flag_hits flag t = filter (\<lambda>i. i \<notin> used t \<and> items t ! i = flag) [0..<length (items t)]"

definition take_bool :: "string \<Rightarrow> bool take" where
  "take_bool flag t = (case flag_hits flag t of
       [] \<Rightarrow> (Inr False, t)
     | [i] \<Rightarrow> (Inr True, mark_used {i} t)
     | _ \<Rightarrow> (Inl (flag @ '' specified more than once''), t))"

definition take_next_value_inner :: "string \<Rightarrow> bool \<Rightarrow> string option take" where
  "take_next_value_inner flag allow_dash_value t = (case flag_hits flag t of
       [] \<Rightarrow> (Inr None, t)
     | i # _ \<Rightarrow>
         if length (items t) \<le> i + 1 \<or> i + 1 \<in> used t
         then (Inl (flag @ '' needs a value''), t)
         else if \<not> allow_dash_value \<and> starts_dash (items t ! (i + 1))
         then (Inl (flag @ '' needs a value''), t)
         else (Inr (Some (items t ! (i + 1))), mark_used {i, i + 1} t))"

definition take_next_raw_value :: "string \<Rightarrow> string option take" where
  "take_next_raw_value flag = take_next_value_inner flag True"

definition unused :: "tokens \<Rightarrow> nat" where
  "unused t = card ({..<length (items t)} - used t)"

lemma flag_hits_Cons:
  "flag_hits flag t = i # is \<Longrightarrow> i < length (items t) \<and> i \<notin> used t \<and> items t ! i = flag"
  by (drule arg_cong [where f = set]) (auto simp: flag_hits_def)

lemma take_next_progress:
  assumes "take_next_value_inner flag d t = (Inr (Some v), t')"
  shows "unused t' < unused t"
proof -
  from assms obtain i "is" where h: "flag_hits flag t = i # is" and t': "t' = mark_used {i, i + 1} t"
    by (auto simp: take_next_value_inner_def split: list.splits if_splits)
  note i = flag_hits_Cons [OF h]
  show ?thesis
    unfolding unused_def
    by (rule psubset_card_mono) (use i t' in \<open>auto simp: mark_used_def\<close>)
qed

text \<open>The loop takes values until the flag does not occur any more; each turn uses two arguments.\<close>

function take_all_values :: "string \<Rightarrow> string list take" where
  "take_all_values flag t = (case take_next_raw_value flag t of
       (Inl e, t') \<Rightarrow> (Inl e, t')
     | (Inr None, t') \<Rightarrow> (Inr [], t')
     | (Inr (Some v), t') \<Rightarrow>
         (case take_all_values flag t' of
            (Inl e, t'') \<Rightarrow> (Inl e, t'')
          | (Inr vs, t'') \<Rightarrow> (Inr (v # vs), t'')))"
  by pat_completeness auto
termination
  by (relation "measure (\<lambda>(flag, t). unused t)") (auto simp: take_next_raw_value_def dest: take_next_progress [OF sym])

declare take_all_values.simps [simp del]

definition take_value :: "string \<Rightarrow> string option take" where
  "take_value flag t = (case flag_hits flag t of
       [] \<Rightarrow> (Inr None, t)
     | [i] \<Rightarrow>
         if length (items t) \<le> i + 1 \<or> i + 1 \<in> used t \<or> starts_dash (items t ! (i + 1))
         then (Inl (flag @ '' needs a value''), t)
         else (Inr (Some (items t ! (i + 1))), mark_used {i, i + 1} t)
     | _ \<Rightarrow> (Inl (flag @ '' specified more than once''), t))"

definition positional_hits :: "tokens \<Rightarrow> nat list" where
  "positional_hits t = filter (\<lambda>i. i \<notin> used t \<and> \<not> starts_dash (items t ! i)) [0..<length (items t)]"

definition take_positional :: "string option take" where
  "take_positional t = (case positional_hits t of
       [] \<Rightarrow> (Inr None, t)
     | i # _ \<Rightarrow> (Inr (Some (items t ! i)), mark_used {i} t))"

text \<open>A required value or positional: its absence is the given error.\<close>

definition required :: "string \<Rightarrow> 'a option take \<Rightarrow> 'a take" where
  "required err m = tbind m (\<lambda>v. lift_result (ok_or err v))"

definition GLOBAL_FLAGS :: "string list" where "GLOBAL_FLAGS = [''--socket'', ''--json'']"

function leftovers_from :: "tokens \<Rightarrow> nat \<Rightarrow> string list" where
  "leftovers_from t i =
     (if length (items t) \<le> i then []
      else if i \<in> used t then leftovers_from t (i + 1)
      else let item = items t ! i in
        if \<not> starts_dash item then (''unexpected argument '' @ item) # leftovers_from t (i + 1)
        else
          (if item \<in> set GLOBAL_FLAGS
           then item @ '' is a global flag and goes before the command, as `kelpie '' @ item @ '' <command> ...`''
           else ''unknown argument '' @ item)
          # leftovers_from t
              (if i + 1 < length (items t) \<and> i + 1 \<notin> used t \<and> \<not> starts_dash (items t ! (i + 1))
               then i + 2 else i + 1))"
  by pat_completeness auto
termination
  by (relation "measure (\<lambda>(t, i). length (items t) - i)") auto

declare leftovers_from.simps [simp del]

definition leftovers :: "tokens \<Rightarrow> string list" where
  "leftovers t = leftovers_from t 0"

fun join_text :: "string \<Rightarrow> string list \<Rightarrow> string" where
  "join_text sep [] = []"
| "join_text sep [p] = p"
| "join_text sep (p # ps) = p @ sep @ join_text sep ps"

definition finish :: "string \<Rightarrow> unit take" where
  "finish command t =
     (let problems = leftovers t in
      if problems = [] then (Inr (), t) else (Inl (command @ '' '' @ join_text ''; '' problems), t))"

section \<open>Problems\<close>

text \<open>
  A noting operation works on the problems found so far and the tokens and never fails: a bad
  flag becomes one more problem and the parse goes on.
\<close>

type_synonym 'a noting = "string list \<times> tokens \<Rightarrow> 'a \<times> string list \<times> tokens"

definition nbind :: "'a noting \<Rightarrow> ('a \<Rightarrow> 'b noting) \<Rightarrow> 'b noting" where
  "nbind m f s = (case m s of (x, s') \<Rightarrow> f x s')"

definition nok :: "'a \<Rightarrow> 'a noting" where "nok x s = (x, s)"

definition note_problem :: "string \<Rightarrow> unit noting" where
  "note_problem p s = ((), fst s @ [p], snd s)"

text \<open>An early-returning operation inside a noting parse: its error is noted and stands for \<open>d\<close>.\<close>

definition noted :: "'a \<Rightarrow> 'a take \<Rightarrow> 'a noting" where
  "noted d m s = (case m (snd s) of
       (Inr x, t') \<Rightarrow> (x, fst s, t')
     | (Inl e, t') \<Rightarrow> (d, fst s @ [e], t'))"

definition problems_value :: "string \<Rightarrow> string option noting" where
  "problems_value flag = noted None (take_value flag)"

definition problems_required :: "string \<Rightarrow> string option noting" where
  "problems_required flag s = (case take_value flag (snd s) of
       (Inr (Some v), t') \<Rightarrow> (Some v, fst s, t')
     | (Inr None, t') \<Rightarrow> (None, fst s @ [''missing '' @ flag], t')
     | (Inl e, t') \<Rightarrow> (None, fst s @ [e], t'))"

definition problems_switch :: "string \<Rightarrow> bool noting" where
  "problems_switch flag = noted False (take_bool flag)"

definition resolve_problems :: "string \<Rightarrow> string list \<Rightarrow> string + unit" where
  "resolve_problems command found = (case found of
       [] \<Rightarrow> Inr ()
     | [p] \<Rightarrow> Inl (command @ '': '' @ p)
     | _ \<Rightarrow> Inl (command @ '': '' @ show_nat (length found) @ '' problems''
                 @ concat (map (\<lambda>p. [CHR 0x0A] @ ''  '' @ p) found)))"

definition resolve :: "string \<Rightarrow> string list \<times> tokens \<Rightarrow> string + unit" where
  "resolve command s = resolve_problems command (fst s @ leftovers (snd s))"

section \<open>Reading arguments in order\<close>

text \<open>The value that follows the flag at \<open>index\<close>, and the index behind it.\<close>

definition required_value :: "string list \<Rightarrow> nat \<Rightarrow> string \<Rightarrow> string + string \<times> nat" where
  "required_value args index flag =
     (if index + 1 < length args \<and> \<not> starts_dash (args ! (index + 1))
      then Inr (args ! (index + 1), index + 2) else Inl (flag @ '' needs a value''))"

end
