(* ===== verification/CliTime.thy ===== *)
theory CliTime
  imports Prelude
begin

text \<open>
  Times on the command line (\<open>src/src/cli.rs\<close>): integer arguments as Rust's \<open>parse\<close> reads them,
  durations, UTC timestamps with the civil calendar, and the rendering of an instant.

  Division of Rust's integers truncates towards zero. The calendar arithmetic is unchecked: it wraps
  at 64 bits in the release profile, and so it does here.
\<close>

section \<open>Integers\<close>

definition i64_range :: "int \<Rightarrow> bool" where
  "i64_range v \<longleftrightarrow> i64_min \<le> v \<and> v \<le> i64_max"

definition all_digits :: "string \<Rightarrow> bool" where
  "all_digits s \<longleftrightarrow> s \<noteq> [] \<and> list_all is_ascii_digit s"

text \<open>\<open>str::parse::<i64>\<close> and \<open>str::parse::<u64>\<close>: an optional sign, digits, in range.\<close>

definition rust_parse_i64 :: "string \<Rightarrow> int option" where
  "rust_parse_i64 s =
     (let (neg, digits) = (case s of [] \<Rightarrow> (False, [])
        | c # cs \<Rightarrow> if c = CHR ''-'' then (True, cs) else if c = CHR ''+'' then (False, cs) else (False, s));
          v = (if neg then - int (decimal_value digits) else int (decimal_value digits))
      in if all_digits digits \<and> i64_range v then Some v else None)"

definition rust_parse_u64 :: "string \<Rightarrow> nat option" where
  "rust_parse_u64 s =
     (let digits = (case s of [] \<Rightarrow> [] | c # cs \<Rightarrow> if c = CHR ''+'' then cs else s)
      in if all_digits digits \<and> decimal_value digits < 2 ^ 64 then Some (decimal_value digits) else None)"

definition checked_mul_i64 :: "int \<Rightarrow> int \<Rightarrow> int option" where
  "checked_mul_i64 a b = (if i64_range (a * b) then Some (a * b) else None)"

definition wrap_i64 :: "int \<Rightarrow> int" where
  "wrap_i64 v = (v + 2 ^ 63) mod 2 ^ 64 - 2 ^ 63"

definition rust_div :: "int \<Rightarrow> int \<Rightarrow> int" where
  "rust_div a b = (if 0 \<le> a then a div b else - ((- a) div b))"

lemma wrap_i64_id: "i64_range v \<Longrightarrow> wrap_i64 v = v"
  by (simp add: wrap_i64_def i64_range_def i64_min_def i64_max_def)

lemma rust_div_nonneg [simp]: "0 \<le> a \<Longrightarrow> rust_div a b = a div b"
  by (simp add: rust_div_def)

section \<open>Durations\<close>

definition duration_unit :: "string \<Rightarrow> int option" where
  "duration_unit u = (if u = ''s'' then Some 1000 else if u = ''m'' then Some (60 * 1000)
     else if u = ''h'' then Some (60 * 60 * 1000) else if u = ''d'' then Some (24 * 60 * 60 * 1000) else None)"

definition parse_duration_for :: "string \<Rightarrow> string \<Rightarrow> string + int" where
  "parse_duration_for flag value =
     (let digits = takeWhile is_ascii_digit value; u = dropWhile is_ascii_digit value;
          shape = flag @ '' must look like 10m, 2h, 30s, or 1d'' in
      rbind (ensure (u \<noteq> []) shape) (\<lambda>_.
      rbind (ensure (digits \<noteq> []) shape) (\<lambda>_.
      rbind (ok_or (flag @ '' unit must be s, m, h, or d'') (duration_unit u)) (\<lambda>multiplier.
      rbind (ok_or (flag @ '' overflowed'') (rust_parse_i64 digits)) (\<lambda>amount.
      rbind (ensure (0 < amount) (flag @ '' must be a positive duration'')) (\<lambda>_.
        ok_or (flag @ '' overflowed'') (checked_mul_i64 amount multiplier)))))))"

definition parse_duration_ms :: "string \<Rightarrow> string + int" where
  "parse_duration_ms value = parse_duration_for ''--due-in'' value"

section \<open>The civil calendar\<close>

definition days_from_civil :: "int \<Rightarrow> int \<Rightarrow> int \<Rightarrow> int" where
  "days_from_civil year month day =
     (let year = (if month \<le> 2 then wrap_i64 (year - 1) else year);
          era = rust_div (if 0 \<le> year then year else wrap_i64 (year - 399)) 400;
          year_of_era = wrap_i64 (year - wrap_i64 (era * 400));
          day_of_year = rust_div (153 * (month + (if 2 < month then - 3 else 9)) + 2) 5 + day - 1;
          day_of_era = year_of_era * 365 + rust_div year_of_era 4 - rust_div year_of_era 100 + day_of_year
      in wrap_i64 (wrap_i64 (wrap_i64 (era * 146097) + day_of_era) - 719468))"

text \<open>A day count to its year, month and day.\<close>

definition civil_from_days :: "int \<Rightarrow> int \<times> int \<times> int" where
  "civil_from_days days =
     (let z = days + 719468;
          era = rust_div (if 0 \<le> z then z else z - 146096) 146097;
          day_of_era = z - era * 146097;
          year_of_era = rust_div (day_of_era - rust_div day_of_era 1460 + rust_div day_of_era 36524
             - rust_div day_of_era 146096) 365;
          day_of_year = day_of_era - (365 * year_of_era + rust_div year_of_era 4 - rust_div year_of_era 100);
          month_prime = rust_div (5 * day_of_year + 2) 153;
          day = day_of_year - rust_div (153 * month_prime + 2) 5 + 1;
          month = month_prime + (if month_prime < 10 then 3 else - 9)
      in (year_of_era + era * 400 + (if month \<le> 2 then 1 else 0), month, day))"

definition pad_zero :: "nat \<Rightarrow> string \<Rightarrow> string" where
  "pad_zero w s = replicate (w - length s) (CHR ''0'') @ s"

text \<open>\<open>{v:0w}\<close>: zeros between the sign and the digits up to the width.\<close>

definition fmt_pad :: "nat \<Rightarrow> int \<Rightarrow> string" where
  "fmt_pad w v = (if v < 0 then ''-'' @ pad_zero (w - 1) (show_nat (nat (- v))) else pad_zero w (show_nat (nat v)))"

definition format_utc_ms :: "int \<Rightarrow> string" where
  "format_utc_ms ms =
     (let days = ms div 86400000; millis_of_day = ms mod 86400000;
          hours = millis_of_day div 3600000; minutes = (millis_of_day div 60000) mod 60;
          seconds = (millis_of_day div 1000) mod 60;
          (year, month, day) = civil_from_days days
      in fmt_pad 4 year @ ''-'' @ fmt_pad 2 month @ ''-'' @ fmt_pad 2 day @ ''T'' @ fmt_pad 2 hours @ '':''
         @ fmt_pad 2 minutes @ '':'' @ fmt_pad 2 seconds @ ''Z'')"

section \<open>Timestamps\<close>

fun split_char :: "char \<Rightarrow> string \<Rightarrow> string list" where
  "split_char c [] = [[]]"
| "split_char c (x # xs) = (if x = c then [] # split_char c xs
     else (case split_char c xs of [] \<Rightarrow> [[x]] | p # ps \<Rightarrow> (x # p) # ps))"

definition split_once :: "char \<Rightarrow> string \<Rightarrow> (string \<times> string) option" where
  "split_once c s = (if c \<in> set s then Some (takeWhile (\<lambda>x. x \<noteq> c) s, tl (dropWhile (\<lambda>x. x \<noteq> c) s)) else None)"

definition strip_suffix :: "string \<Rightarrow> string \<Rightarrow> string option" where
  "strip_suffix suffix s =
     (if length suffix \<le> length s \<and> drop (length s - length suffix) s = suffix
      then Some (take (length s - length suffix) s) else None)"

definition next_number :: "string list \<Rightarrow> string \<Rightarrow> string + (int \<times> string list)" where
  "next_number parts err =
     (case parts of [] \<Rightarrow> Inl err
      | part # rest \<Rightarrow>
          rbind (ensure (all_digits part) err) (\<lambda>_.
          rbind (ok_or err (rust_parse_i64 part)) (\<lambda>v. Inr (v, rest))))"

definition parse_utc_rfc3339_ms :: "string \<Rightarrow> string + int" where
  "parse_utc_rfc3339_ms value =
     (let bad_date = ''--due-at date is invalid''; bad_time = ''--due-at time is invalid'' in
      rbind (ok_or ''--due-at must be UTC RFC3339 ending in Z or +00:00''
               (case strip_suffix ''Z'' value of Some b \<Rightarrow> Some b | None \<Rightarrow> strip_suffix ''+00:00'' value)) (\<lambda>body.
      rbind (ok_or ''--due-at must be UTC RFC3339 like 2026-08-12T20:00:00Z'' (split_once (CHR ''T'') body)) (\<lambda>(date, time).
      rbind (next_number (split_char (CHR ''-'') date) bad_date) (\<lambda>(year, parts).
      rbind (next_number parts bad_date) (\<lambda>(month, parts).
      rbind (next_number parts bad_date) (\<lambda>(day, parts).
      rbind (ensure (parts = [] \<and> 1 \<le> month \<and> month \<le> 12 \<and> 1 \<le> day \<and> day \<le> 31) bad_date) (\<lambda>_.
        let time = (case split_once (CHR ''.'') time of None \<Rightarrow> time | Some (whole, _) \<Rightarrow> whole) in
      rbind (next_number (split_char (CHR '':'') time) bad_time) (\<lambda>(hour, parts).
      rbind (next_number parts bad_time) (\<lambda>(minute, parts).
      rbind (next_number parts bad_time) (\<lambda>(second, parts).
      rbind (ensure (parts = [] \<and> hour \<le> 23 \<and> minute \<le> 59 \<and> second \<le> 60 \<and> 0 \<le> hour \<and> 0 \<le> minute
               \<and> 0 \<le> second) bad_time) (\<lambda>_.
        ok_or ''--due-at overflowed''
          (Option.bind (checked_mul_i64 (days_from_civil year month day) 86400) (\<lambda>seconds.
           Option.bind (checked_add_i64 seconds (hour * 3600 + minute * 60 + second)) (\<lambda>seconds.
             checked_mul_i64 seconds 1000))))))))))))))"


section \<open>The calendar is consistent\<close>

lemma div_bounds: "c * (z div c) \<le> z \<and> z < c * (z div c) + c" if "0 < c" for c z :: int
proof -
  have "z = c * (z div c) + z mod c" "0 \<le> z mod c" "z mod c < c" using that by simp_all
  then show ?thesis by linarith
qed

lemma div_eqI: "c * k \<le> z \<Longrightarrow> z < c * k + c \<Longrightarrow> z div c = k" for c k z :: int
  by (rule int_div_pos_eq [of z c k "z - c * k"]) auto

text \<open>
  Inside an era of 400 years the year offset that \<open>civil_from_days\<close> estimates leaves a day of
  the year between 0 and 365. The day of the era splits into a century (\<open>b\<close>) and a rest, and
  the estimate inside a century is the one of its four-year cycle, at most one year behind.
\<close>

lemma cycle_year:
  fixes r q k y :: int
  assumes "0 \<le> r" "r < 36524" "0 \<le> k" "k \<le> 72" and q_def: "q = (r + k) div 1460" and y_def: "y = (r - q) div 365"
  shows "0 \<le> y \<and> y \<le> 99 \<and> 0 \<le> r - 365 * y - y div 4 \<and> r - 365 * y - y div 4 \<le> 365"
proof -
  have q: "1460 * q \<le> r + k" "r + k < 1460 * q + 1460" "0 \<le> q"
    using div_bounds [of 1460 "r + k"] assms(1,3) unfolding q_def by simp_all
  have y: "365 * y \<le> r - q" "r - q < 365 * y + 365"
    using div_bounds [of 365 "r - q"] unfolding y_def by simp_all
  have w: "4 * (y div 4) \<le> y" "y < 4 * (y div 4) + 4" using div_bounds [of 4 y] by simp_all
  have "q \<le> 25" using q assms(1-4) by linarith
  with q y have j: "4 * q - 1 \<le> y" "y \<le> 4 * q + 3" using assms(1-4) by linarith+
  show ?thesis
  proof (cases "y = 4 * q - 1")
    case a: True
    have w: "y div 4 = q - 1" using w a by linarith
    have "q \<noteq> 0" using a y(2) assms(1) by linarith
    then have "0 < q" using q(3) by simp
    with a w q y assms(1-4) \<open>q \<le> 25\<close> show ?thesis by linarith
  next
    case False
    with j have b: "4 * q \<le> y" by linarith
    have w: "y div 4 = q" using w b j by linarith
    from b j w q y assms(1-4) \<open>q \<le> 25\<close> show ?thesis by linarith
  qed
qed

lemma era_year:
  fixes e y :: int
  assumes "0 \<le> e" "e \<le> 146096"
    and y: "y = (e - e div 1460 + e div 36524 - e div 146096) div 365"
  shows "0 \<le> y \<and> y \<le> 399 \<and> 0 \<le> e - (365 * y + y div 4 - y div 100) \<and> e - (365 * y + y div 4 - y div 100) \<le> 365"
proof (cases "e = 146096")
  case True
  with y show ?thesis by simp
next
  case False
  define b r where "b = e div 36524" and "r = e mod 36524"
  have e: "e = 36524 * b + r" and r: "0 \<le> r" "r < 36524" by (simp_all add: b_def r_def)
  have b: "0 \<le> b" "b \<le> 3" using assms(1,2) False e r by linarith+
  define q y1 where "q = (r + 24 * b) div 1460" and "y1 = (r - q) div 365"
  have y1: "0 \<le> y1 \<and> y1 \<le> 99 \<and> 0 \<le> r - 365 * y1 - y1 div 4 \<and> r - 365 * y1 - y1 div 4 \<le> 365"
    by (rule cycle_year [of r "24 * b" q]) (use r b q_def y1_def in auto)
  have q: "1460 * q \<le> r + 24 * b" "r + 24 * b < 1460 * q + 1460"
    using div_bounds [of 1460 "r + 24 * b"] unfolding q_def by simp_all
  have "1460 * (25 * b + q) \<le> e" "e < 1460 * (25 * b + q) + 1460" unfolding e using q by (simp_all add: algebra_simps)
  then have "e div 1460 = 25 * b + q" by (rule div_eqI)
  moreover have "e div 146096 = 0" using assms(1,2) False by simp
  ultimately have s: "e - e div 1460 + e div 36524 - e div 146096 = 36500 * b + (r - q)"
    using e b_def by linarith
  have "365 * y1 \<le> r - q" "r - q < 365 * y1 + 365"
    using div_bounds [of 365 "r - q"] unfolding y1_def by simp_all
  then have yy: "y = 100 * b + y1" unfolding y s by (intro div_eqI) (simp_all add: algebra_simps)
  have "4 * (y1 div 4) \<le> y1" "y1 < 4 * (y1 div 4) + 4" using div_bounds [of 4 y1] by simp_all
  then have "y div 4 = 25 * b + y1 div 4" unfolding yy by (intro div_eqI) (simp_all add: algebra_simps)
  moreover have "y div 100 = b" unfolding yy using y1 by (intro div_eqI) (simp_all add: algebra_simps)
  ultimately show ?thesis using yy y1 b e by linarith
qed

lemma month_of_day:
  fixes d m :: int
  assumes "0 \<le> d" "d \<le> 365" and m: "m = (5 * d + 2) div 153"
  shows "0 \<le> m \<and> m \<le> 11 \<and> 1 \<le> d - (153 * m + 2) div 5 + 1 \<and> d - (153 * m + 2) div 5 + 1 \<le> 31"
proof -
  have "153 * m \<le> 5 * d + 2" "5 * d + 2 < 153 * m + 153"
    using div_bounds [of 153 "5 * d + 2"] unfolding m by simp_all
  moreover have "5 * ((153 * m + 2) div 5) \<le> 153 * m + 2" "153 * m + 2 < 5 * ((153 * m + 2) div 5) + 5"
    using div_bounds [of 5 "153 * m + 2"] by simp_all
  ultimately show ?thesis using assms(1,2) by linarith
qed

lemma floor_era: "rust_div (if 0 \<le> z then z else z - k) c = z div c" if "0 < c" and k: "k = c - 1" for c k z :: int
proof (cases "0 \<le> z")
  case True
  then show ?thesis by simp
next
  case False
  have "c * (z div c) \<le> z" "z < c * (z div c) + c" using div_bounds [OF that(1)] by blast+
  then have "(- (z - k)) div c = - (z div c)"
    unfolding k by (intro div_eqI) (auto simp: algebra_simps)
  moreover have "\<not> 0 \<le> z - k" using False that by linarith
  ultimately show ?thesis using False by (simp add: rust_div_def)
qed

text \<open>The civil date of a day: month and day in range, and \<open>days_from_civil\<close> leads back to the day.\<close>

lemma civil_from_days_cases:
  assumes "civil_from_days z = (y, m, d)"
  obtains e a doy mp where "z + 719468 = 146097 * e + (365 * a + a div 4 - a div 100) + doy"
    and "0 \<le> a" "a \<le> 399" "0 \<le> doy" "doy \<le> 365" "0 \<le> mp" "mp \<le> 11"
    and "e = (z + 719468) div 146097"
    and "d = doy - (153 * mp + 2) div 5 + 1" "1 \<le> d" "d \<le> 31"
    and "m = mp + (if mp < 10 then 3 else - 9)" and "y = a + 400 * e + (if m \<le> 2 then 1 else 0)"
proof -
  define e E where "e = (z + 719468) div 146097" and "E = z + 719468 - e * 146097"
  define a where "a = (E - E div 1460 + E div 36524 - E div 146096) div 365"
  define doy where "doy = E - (365 * a + a div 4 - a div 100)"
  define mp where "mp = (5 * doy + 2) div 153"
  have E: "0 \<le> E" "E \<le> 146096" using div_bounds [of 146097 "z + 719468"] unfolding E_def e_def by simp_all
  have a: "0 \<le> a" "a \<le> 399" "0 \<le> doy" "doy \<le> 365" using era_year [OF E a_def] unfolding doy_def by blast+
  have mp: "0 \<le> mp" "mp \<le> 11" "1 \<le> doy - (153 * mp + 2) div 5 + 1" "doy - (153 * mp + 2) div 5 + 1 \<le> 31"
    using month_of_day [OF a(3,4) mp_def] by blast+
  have pos: "0 \<le> E - E div 1460 + E div 36524 - E div 146096"
  proof (rule ccontr)
    assume "\<not> 0 \<le> E - E div 1460 + E div 36524 - E div 146096"
    then have "a < 0" unfolding a_def by (simp add: neg_imp_zdiv_neg_iff)
    with a show False by simp
  qed
  have era: "rust_div (if 0 \<le> z + 719468 then z + 719468 else z + 719468 - 146096) 146097 = e"
    unfolding e_def by (rule floor_era) simp_all
  have divs: "rust_div E k = E div k" "rust_div a k = a div k" "rust_div (5 * doy + 2) k = (5 * doy + 2) div k"
    "rust_div (153 * mp + 2) k = (153 * mp + 2) div k" for k
    using E a mp by simp_all
  have "civil_from_days z = (a + e * 400 + (if mp + (if mp < 10 then 3 else - 9) \<le> 2 then 1 else 0),
      mp + (if mp < 10 then 3 else - 9), doy - (153 * mp + 2) div 5 + 1)"
    unfolding civil_from_days_def Let_def era E_def [symmetric] divs rust_div_nonneg [OF pos]
      a_def [symmetric] doy_def [symmetric] mp_def [symmetric] by (rule refl)
  with assms have "d = doy - (153 * mp + 2) div 5 + 1" "m = mp + (if mp < 10 then 3 else - 9)"
    "y = a + 400 * e + (if m \<le> 2 then 1 else 0)" by auto
  moreover have "z + 719468 = 146097 * e + (365 * a + a div 4 - a div 100) + doy"
    unfolding doy_def E_def by simp
  ultimately show ?thesis using that a mp e_def by blast
qed

lemma wrap_i64_small: "- (10 ^ 17) \<le> v \<Longrightarrow> v \<le> 10 ^ 17 \<Longrightarrow> wrap_i64 v = v"
  by (rule wrap_i64_id) (simp add: i64_range_def i64_min_def i64_max_def)

lemma days_from_civil_of_parts:
  assumes "0 \<le> a" "a \<le> 399" "- (10 ^ 10) \<le> e" "e \<le> 10 ^ 10" "0 \<le> mp" "mp \<le> 11" "0 \<le> doy" "doy \<le> 365"
    and m: "m = mp + (if mp < 10 then 3 else - 9)" and y: "y = a + 400 * e + (if m \<le> 2 then 1 else 0)"
    and d: "d = doy - (153 * mp + 2) div 5 + 1"
  shows "days_from_civil y m d = 146097 * e + (365 * a + a div 4 - a div 100) + doy - 719468"
proof -
  have quarter: "0 \<le> a div 4" "a div 4 \<le> 99" "0 \<le> a div 100" "a div 100 \<le> 3" using assms(1,2) by auto
  have year: "(if m \<le> 2 then wrap_i64 (y - 1) else y) = a + 400 * e"
    using assms(1-4) y by (cases "m \<le> 2") (simp_all add: wrap_i64_small)
  have "wrap_i64 (a + 400 * e - 399) = a + 400 * e - 399"
    by (rule wrap_i64_small) (use assms(1-4) in simp_all)
  moreover have "(a + 400 * e) div 400 = e"
    by (rule div_eqI) (use assms(1,2) in simp_all)
  ultimately have era: "rust_div (if 0 \<le> a + 400 * e then a + 400 * e else wrap_i64 (a + 400 * e - 399)) 400 = e"
    using floor_era [of 400 399 "a + 400 * e"] by (simp split: if_split_asm)
  have "wrap_i64 (e * 400) = e * 400" by (rule wrap_i64_small) (use assms(3,4) in simp_all)
  then have yoe: "wrap_i64 (a + 400 * e - wrap_i64 (e * 400)) = a"
    using assms(1,2) by (simp add: wrap_i64_small)
  have month: "m + (if 2 < m then - 3 else 9) = mp" using m assms(5,6) by auto
  have w1: "wrap_i64 (e * 146097) = e * 146097" by (rule wrap_i64_small) (use assms(3,4) in simp_all)
  have "- (10 ^ 16) \<le> e * 146097" "e * 146097 \<le> 10 ^ 16" using assms(3,4) by simp_all
  note range = this quarter assms(1,2,7,8)
  have doy: "rust_div (153 * mp + 2) 5 + d - 1 = doy" using d assms(5) by simp
  have w2: "wrap_i64 (e * 146097 + (a * 365 + a div 4 - a div 100 + doy))
      = e * 146097 + (a * 365 + a div 4 - a div 100 + doy)"
    by (rule wrap_i64_small) (use range in simp_all)
  have w3: "wrap_i64 (e * 146097 + (a * 365 + a div 4 - a div 100 + doy) - 719468)
      = e * 146097 + (a * 365 + a div 4 - a div 100 + doy) - 719468"
    by (rule wrap_i64_small) (use range in simp_all)
  have divs: "rust_div a k = a div k" for k using assms(1) by simp
  show ?thesis
    unfolding days_from_civil_def Let_def year era yoe month doy divs w1 w2 w3 by (simp add: algebra_simps)
qed

lemma days_civil_inverse:
  assumes "civil_from_days z = (y, m, d)" and "- (10 ^ 14) \<le> z" "z \<le> 10 ^ 14"
  shows "days_from_civil y m d = z"
proof -
  from civil_from_days_cases [OF assms(1)] obtain e a doy mp where
    z: "z + 719468 = 146097 * e + (365 * a + a div 4 - a div 100) + doy"
    and a: "0 \<le> a" "a \<le> 399" and doy: "0 \<le> doy" "doy \<le> 365" and mp: "0 \<le> mp" "mp \<le> 11"
    and e: "e = (z + 719468) div 146097"
    and d: "d = doy - (153 * mp + 2) div 5 + 1" "1 \<le> d" "d \<le> 31"
    and m: "m = mp + (if mp < 10 then 3 else - 9)" and y: "y = a + 400 * e + (if m \<le> 2 then 1 else 0)"
    by metis
  have "- (10 ^ 10) \<le> e" "e \<le> 10 ^ 10"
    using div_bounds [of 146097 "z + 719468"] assms(2,3) unfolding e by simp_all
  from days_from_civil_of_parts [OF a this mp doy m y d(1)] z show ?thesis by simp
qed

section \<open>Printing and reading back\<close>

lemma decimal_value_zeros: "decimal_value (replicate n (CHR ''0'') @ s) = decimal_value s"
proof -
  have z: "digit_value (CHR ''0'') = 0" by (simp add: digit_value_def byte_of_def)
  show ?thesis by (induction n) (simp_all add: decimal_value_def z)
qed

lemma is_ascii_digit_zero: "is_ascii_digit (CHR ''0'')"
  by (simp add: is_ascii_digit_def byte_of_def)

lemma pad_zero_digits: "all_digits (pad_zero w (show_nat n))"
  using show_nat_digits [of n] is_ascii_digit_zero
  by (auto simp: all_digits_def pad_zero_def list_all_iff)

lemma fmt_pad_nonneg: "0 \<le> v \<Longrightarrow> all_digits (fmt_pad w v) \<and> decimal_value (fmt_pad w v) = nat v"
  using pad_zero_digits [of w "nat v"] by (simp add: fmt_pad_def pad_zero_def decimal_value_zeros)

lemma all_digits_hd: "all_digits (c # cs) \<Longrightarrow> c \<noteq> CHR ''-'' \<and> c \<noteq> CHR ''+''"
  by (auto simp: all_digits_def is_ascii_digit_def byte_of_def)

lemma rust_parse_digits: "all_digits s \<Longrightarrow> int (decimal_value s) \<le> i64_max \<Longrightarrow> rust_parse_i64 s = Some (int (decimal_value s))"
proof (cases s)
  case (Cons c cs)
  assume "all_digits s" "int (decimal_value s) \<le> i64_max"
  with all_digits_hd [of c cs] Cons show ?thesis by (simp add: rust_parse_i64_def i64_range_def i64_min_def)
qed (simp add: all_digits_def)

lemma next_number_fmt:
  assumes "0 \<le> v" "v \<le> i64_max"
  shows "next_number (fmt_pad w v # rs) err = Inr (v, rs)"
  using fmt_pad_nonneg [OF assms(1), of w] assms rust_parse_digits [of "fmt_pad w v"]
  by (simp add: next_number_def)

lemma digits_avoid: "all_digits s \<Longrightarrow> \<not> is_ascii_digit c \<Longrightarrow> c \<notin> set s"
  by (auto simp: all_digits_def list_all_iff)

lemma not_digits: "\<not> is_ascii_digit (CHR ''-'')" "\<not> is_ascii_digit (CHR '':'')" "\<not> is_ascii_digit (CHR ''T'')"
  "\<not> is_ascii_digit (CHR ''.'')"
  by (simp_all add: is_ascii_digit_def byte_of_def)

lemma split_char_none: "c \<notin> set s \<Longrightarrow> split_char c s = [s]"
  by (induction s) auto

lemma split_char_append: "c \<notin> set p \<Longrightarrow> split_char c (p @ c # s) = p # split_char c s"
  by (induction p) auto

lemma split_once_append: "c \<notin> set p \<Longrightarrow> split_once c (p @ c # s) = Some (p, s)"
  by (simp add: split_once_def takeWhile_append dropWhile_append)

lemma split_once_none: "c \<notin> set s \<Longrightarrow> split_once c s = None"
  by (simp add: split_once_def)

lemma strip_suffix_append: "strip_suffix t (s @ t) = Some s"
  by (simp add: strip_suffix_def)

lemma fmt_pad_avoid: "0 \<le> v \<Longrightarrow> \<not> is_ascii_digit c \<Longrightarrow> c \<notin> set (fmt_pad w v)"
  using fmt_pad_nonneg digits_avoid by blast

text \<open>Reading the text of in-range fields.\<close>

lemma parse_fields:
  assumes "0 \<le> y" "y \<le> i64_max" "1 \<le> m" "m \<le> 12" "1 \<le> d" "d \<le> 31" "0 \<le> hh" "hh \<le> 23" "0 \<le> mi" "mi \<le> 59"
    "0 \<le> ss" "ss \<le> 60"
  shows "parse_utc_rfc3339_ms (fmt_pad 4 y @ ''-'' @ fmt_pad 2 m @ ''-'' @ fmt_pad 2 d @ ''T'' @ fmt_pad 2 hh @ '':''
         @ fmt_pad 2 mi @ '':'' @ fmt_pad 2 ss @ ''Z'')
     = ok_or ''--due-at overflowed''
          (Option.bind (checked_mul_i64 (days_from_civil y m d) 86400) (\<lambda>seconds.
           Option.bind (checked_add_i64 seconds (hh * 3600 + mi * 60 + ss)) (\<lambda>seconds.
             checked_mul_i64 seconds 1000)))"
proof -
  let ?date = "fmt_pad 4 y @ CHR ''-'' # fmt_pad 2 m @ CHR ''-'' # fmt_pad 2 d"
  let ?time = "fmt_pad 2 hh @ CHR '':'' # fmt_pad 2 mi @ CHR '':'' # fmt_pad 2 ss"
  have shape: "fmt_pad 4 y @ ''-'' @ fmt_pad 2 m @ ''-'' @ fmt_pad 2 d @ ''T'' @ fmt_pad 2 hh @ '':''
         @ fmt_pad 2 mi @ '':'' @ fmt_pad 2 ss @ ''Z'' = (?date @ CHR ''T'' # ?time) @ ''Z''" by simp
  note nodigit = not_digits fmt_pad_avoid
  have nT: "CHR ''T'' \<notin> set ?date" using assms nodigit by simp
  have ndot: "CHR ''.'' \<notin> set ?time" using assms nodigit by simp
  have date: "split_char (CHR ''-'') ?date = [fmt_pad 4 y, fmt_pad 2 m, fmt_pad 2 d]"
    using assms nodigit by (simp add: split_char_append split_char_none)
  have time: "split_char (CHR '':'') ?time = [fmt_pad 2 hh, fmt_pad 2 mi, fmt_pad 2 ss]"
    using assms nodigit by (simp add: split_char_append split_char_none)
  have max: "60 \<le> i64_max" by (simp add: i64_max_def)
  show ?thesis
    unfolding shape parse_utc_rfc3339_ms_def Let_def strip_suffix_append option.case ok_or_simps rbind_Inr
      split_once_append [OF nT] prod.case split_once_none [OF ndot] date time
    using assms max by (simp add: next_number_fmt)
qed

lemma civil_from_days_range:
  assumes "civil_from_days z = (y, m, d)"
  shows "1 \<le> m \<and> m \<le> 12 \<and> 1 \<le> d \<and> d \<le> 31"
    and "- 719528 \<le> z \<Longrightarrow> 0 \<le> y" and "z \<le> 10 ^ 14 \<Longrightarrow> y \<le> 10 ^ 15"
proof -
  from civil_from_days_cases [OF assms(1)] obtain e a doy mp where
    z: "z + 719468 = 146097 * e + (365 * a + a div 4 - a div 100) + doy"
    and a: "0 \<le> a" "a \<le> 399" and doy: "0 \<le> doy" "doy \<le> 365" and mp: "0 \<le> mp" "mp \<le> 11"
    and e: "e = (z + 719468) div 146097"
    and d: "d = doy - (153 * mp + 2) div 5 + 1" "1 \<le> d" "d \<le> 31"
    and m: "m = mp + (if mp < 10 then 3 else - 9)" and y: "y = a + 400 * e + (if m \<le> 2 then 1 else 0)"
    by metis
  show "1 \<le> m \<and> m \<le> 12 \<and> 1 \<le> d \<and> d \<le> 31" using m mp d by auto
  have eb: "146097 * e \<le> z + 719468" "z + 719468 < 146097 * e + 146097"
    using div_bounds [of 146097 "z + 719468"] unfolding e by simp_all
  show "y \<le> 10 ^ 15" if "z \<le> 10 ^ 14" using that eb a y by (simp split: if_split_asm)
  show "0 \<le> y" if low: "- 719528 \<le> z"
  proof (cases "0 \<le> e")
    case True
    with a y show ?thesis by simp
  next
    case False
    with eb low have e1: "e = - 1" by linarith
    have "a div 4 \<le> 99" "0 \<le> a div 100" using a by auto
    moreover have "a \<le> 398 \<Longrightarrow> a div 100 = 3 \<or> a \<le> 299" by auto
    ultimately have a1: "a = 399" using z e1 low doy a by linarith
    with z e1 low have "306 \<le> doy" by simp
    with d(1,3) have "\<not> mp < 10" by auto
    with m mp have "m \<le> 2" by simp
    with y a1 e1 show ?thesis by simp
  qed
qed

lemma day_fields:
  fixes t :: int
  assumes "0 \<le> t" "t < 86400000"
  shows "t div 3600000 * 3600 + t div 60000 mod 60 * 60 + t div 1000 mod 60 = t div 1000"
    and "t div 3600000 \<le> 23"
proof -
  define s mi h where "s = t div 1000" and "mi = s div 60" and "h = mi div 60"
  have fields: "t div 60000 = mi" "t div 3600000 = h" "t div 1000 = s"
    by (simp_all add: s_def mi_def h_def zdiv_zmult2_eq [symmetric])
  have "s mod 60 = s - 60 * mi" "mi mod 60 = mi - 60 * h"
    unfolding mi_def h_def by (simp_all add: minus_mult_div_eq_mod)
  then show "t div 3600000 * 3600 + t div 60000 mod 60 * 60 + t div 1000 mod 60 = t div 1000"
    unfolding fields by simp
  show "t div 3600000 \<le> 23" using div_bounds [of 3600000 t] assms by linarith
qed

text \<open>
  C27: A receipt's instant reads back. \<open>format_utc_ms\<close> prints an instant from year 0 on as text
  that \<open>parse_utc_rfc3339_ms\<close> accepts and reads as the same instant without its milliseconds, so
  the civil calendar of the one is the inverse of the other's over the whole range of \<open>i64\<close>.
\<close>

theorem printed_instant_reads_back:
  assumes "- 62167219200000 \<le> ms" and "ms \<le> i64_max"
  shows "parse_utc_rfc3339_ms (format_utc_ms ms) = Inr (ms - ms mod 1000)"
proof -
  define z t where "z = ms div 86400000" and "t = ms mod 86400000"
  obtain y m d where civil: "civil_from_days z = (y, m, d)" by (metis prod_cases3)
  have ms: "ms = 86400000 * z + t" and t: "0 \<le> t" "t < 86400000" by (simp_all add: z_def t_def)
  have z: "- 719528 \<le> z" "z \<le> 106751991167"
    using ms t assms unfolding i64_max_def by simp_all
  note range = civil_from_days_range [OF civil]
  have y: "0 \<le> y" "y \<le> i64_max" using range(2,3) z by (simp_all add: i64_max_def)
  have md: "1 \<le> m" "m \<le> 12" "1 \<le> d" "d \<le> 31" using range(1) by blast+
  have h: "0 \<le> t div 3600000" "t div 3600000 \<le> 23"
    using t(1) day_fields(2) [OF t] by (simp_all add: pos_imp_zdiv_nonneg_iff)
  have "v mod 60 < 60" for v :: int by simp
  then have "v mod 60 \<le> 59" "v mod 60 \<le> 60" for v :: int
    by (metis zle_diff1_eq [of _ 60, simplified], metis order_less_imp_le)
  then have ms': "0 \<le> t div 60000 mod 60" "t div 60000 mod 60 \<le> 59"
     "0 \<le> t div 1000 mod 60" "t div 1000 mod 60 \<le> 60" by simp_all
  have "parse_utc_rfc3339_ms (format_utc_ms ms) = ok_or ''--due-at overflowed''
          (Option.bind (checked_mul_i64 (days_from_civil y m d) 86400) (\<lambda>seconds.
           Option.bind (checked_add_i64 seconds
             (t div 3600000 * 3600 + t div 60000 mod 60 * 60 + t div 1000 mod 60)) (\<lambda>seconds.
             checked_mul_i64 seconds 1000)))"
    unfolding format_utc_ms_def Let_def z_def [symmetric] t_def [symmetric] civil prod.case
    by (rule parse_fields [OF y md h ms'])
  also have "days_from_civil y m d = z" by (rule days_civil_inverse [OF civil]) (use z in simp_all)
  also have "t div 3600000 * 3600 + t div 60000 mod 60 * 60 + t div 1000 mod 60 = t div 1000"
    by (rule day_fields [OF t])
  also have "checked_mul_i64 z 86400 = Some (z * 86400)"
    using z by (simp add: checked_mul_i64_def i64_range_def i64_min_def i64_max_def)
  finally have parsed: "parse_utc_rfc3339_ms (format_utc_ms ms) = ok_or ''--due-at overflowed''
      (Option.bind (checked_add_i64 (z * 86400) (t div 1000)) (\<lambda>seconds. checked_mul_i64 seconds 1000))"
    by simp
  have "0 \<le> t div 1000" "t div 1000 \<le> 86399" using div_bounds [of 1000 t] t by linarith+
  then have "checked_add_i64 (z * 86400) (t div 1000) = Some (z * 86400 + t div 1000)"
    using z by (simp add: checked_add_i64_def i64_min_def i64_max_def)
  moreover have "ms = t + 86400 * z * 1000" using ms by simp
  then have "ms mod 1000 = t mod 1000" by (simp only: mod_mult_self1)
  then have eq: "(z * 86400 + t div 1000) * 1000 = ms - ms mod 1000"
    unfolding ms by (simp add: algebra_simps minus_mod_eq_mult_div [symmetric])
  moreover have "i64_range (ms - ms mod 1000)"
  proof -
    have "0 \<le> ms mod 1000" "ms mod 1000 < 1000" by simp_all
    moreover have "- (2 ^ 63) \<le> (- 62167219200000 - 1000 :: int)" by simp
    ultimately show ?thesis using assms unfolding i64_range_def i64_min_def i64_max_def by linarith
  qed
  ultimately show ?thesis unfolding parsed by (simp add: checked_mul_i64_def)
qed

theorem printed_instant_reads_back_witness:
  "parse_utc_rfc3339_ms (format_utc_ms 1786564800123) = Inr 1786564800000"
  using printed_instant_reads_back [of 1786564800123] by (simp add: i64_max_def)

section \<open>What a duration argument means\<close>

lemma takeWhile_digits:
  "all_digits digits \<Longrightarrow> u \<noteq> [] \<Longrightarrow> \<not> is_ascii_digit (hd u)
   \<Longrightarrow> takeWhile is_ascii_digit (digits @ u) = digits \<and> dropWhile is_ascii_digit (digits @ u) = u"
  by (cases u) (auto simp: all_digits_def list_all_iff takeWhile_append dropWhile_append)

lemma duration_unit_letter: "duration_unit u = Some k \<Longrightarrow> u \<noteq> [] \<and> \<not> is_ascii_digit (hd u) \<and> 1000 \<le> k"
  by (auto simp: duration_unit_def is_ascii_digit_def byte_of_def split: if_splits)

text \<open>
  C28: A duration argument. \<open>parse_duration_for\<close> accepts exactly a positive decimal number followed
  by \<open>s\<close>, \<open>m\<close>, \<open>h\<close> or \<open>d\<close> whose number and whose number of milliseconds fit 64 bits, and yields
  that number of milliseconds: nothing wraps and nothing else is read as a duration.
\<close>

theorem duration_is_exact:
  "parse_duration_for flag value = Inr ms \<longleftrightarrow>
     (\<exists>digits u k. value = digits @ u \<and> all_digits digits \<and> duration_unit u = Some k
        \<and> 0 < decimal_value digits \<and> ms = int (decimal_value digits) * k \<and> ms \<le> i64_max)"
  (is "?parsed \<longleftrightarrow> ?spec")
proof
  assume ?parsed
  then have "duration_unit (dropWhile is_ascii_digit value) \<noteq> None"
    and d: "takeWhile is_ascii_digit value \<noteq> []"
    and "rust_parse_i64 (takeWhile is_ascii_digit value) \<noteq> None"
    by (auto simp: parse_duration_for_def Let_def result_simps)
  then obtain k where k: "duration_unit (dropWhile is_ascii_digit value) = Some k" by blast
  let ?d = "takeWhile is_ascii_digit value"
  have digits: "all_digits ?d" using d by (auto simp: all_digits_def list_all_iff dest: set_takeWhileD)
  have "rust_parse_i64 ?d = Some a \<Longrightarrow> a = int (decimal_value ?d)" for a
    using all_digits_hd [of "hd ?d" "tl ?d"] digits d
    by (cases ?d) (auto simp: rust_parse_i64_def Let_def split: if_split_asm)
  with \<open>?parsed\<close> k have "0 < decimal_value ?d" "ms = int (decimal_value ?d) * k" "ms \<le> i64_max"
    by (auto simp: parse_duration_for_def Let_def result_simps checked_mul_i64_def i64_range_def split: if_splits)
  with digits k show ?spec by (metis takeWhile_dropWhile_id)
next
  assume ?spec
  then obtain digits u k where v: "value = digits @ u" and d: "all_digits digits" and k: "duration_unit u = Some k"
    and pos: "0 < decimal_value digits" and ms: "ms = int (decimal_value digits) * k" "ms \<le> i64_max" by blast
  note letter = duration_unit_letter [OF k]
  have split: "takeWhile is_ascii_digit value = digits" "dropWhile is_ascii_digit value = u"
    using takeWhile_digits [OF d] letter unfolding v by blast+
  have "int (decimal_value digits) * 1 \<le> int (decimal_value digits) * k"
    by (rule mult_left_mono) (use letter in auto)
  with ms have fits: "int (decimal_value digits) \<le> i64_max" "0 \<le> ms" by simp_all
  have "digits \<noteq> []" using d by (simp add: all_digits_def)
  moreover from fits ms have "checked_mul_i64 (int (decimal_value digits)) k = Some ms"
    by (simp add: checked_mul_i64_def i64_range_def i64_min_def)
  ultimately show ?parsed
    using split letter k pos rust_parse_digits [OF d] fits by (simp add: parse_duration_for_def)
qed

section \<open>Dates that do not exist\<close>

text \<open>
  A day is checked against 31 and not against its month, and the calendar arithmetic is not
  checked for overflow. So a day past the end of its month is read as a day of the next month,
  and a year far outside the range is read as an instant of another year.
\<close>

lemma digits_text:
  "show_nat 2026 = ''2026''" "show_nat 31 = ''31''" "show_nat 2 = ''2''" "show_nat 3 = ''3''" "show_nat 0 = ''0''"
  by (simp_all add: show_nat.simps digit_char_def char_of_def bit_Suc_0_iff)

lemma impossible_day_rolls_over:
  "parse_utc_rfc3339_ms ''2026-02-31T00:00:00Z'' = parse_utc_rfc3339_ms ''2026-03-03T00:00:00Z''"
proof -
  have days: "days_from_civil 2026 2 31 = days_from_civil 2026 3 3"
    unfolding days_from_civil_def Let_def by (simp add: wrap_i64_small)
  have year: "2026 \<le> i64_max" by (simp add: i64_max_def)
  have "parse_utc_rfc3339_ms (fmt_pad 4 2026 @ ''-'' @ fmt_pad 2 2 @ ''-'' @ fmt_pad 2 31 @ ''T'' @ fmt_pad 2 0 @ '':''
         @ fmt_pad 2 0 @ '':'' @ fmt_pad 2 0 @ ''Z'')
     = parse_utc_rfc3339_ms (fmt_pad 4 2026 @ ''-'' @ fmt_pad 2 3 @ ''-'' @ fmt_pad 2 3 @ ''T'' @ fmt_pad 2 0 @ '':''
         @ fmt_pad 2 0 @ '':'' @ fmt_pad 2 0 @ ''Z'')"
    by (rule trans [OF parse_fields parse_fields [symmetric, of 2026 3 3 0 0 0, folded days]]) (simp_all add: year)
  then show ?thesis by (simp add: fmt_pad_def pad_zero_def digits_text)
qed

lemma huge_year_wraps:
  "days_from_civil 454549228699800000 3 1 = 17488 \<and> days_from_civil 2017 11 18 = 17488"
  by code_simp

end
