(* ===== verification/CliCommands.thy ===== *)
theory CliCommands
  imports CliTokens CliTime
begin

text \<open>
  The commands of the typed client and their parsers (\<open>src/src/cli.rs\<close>): one parser per verb, each
  a sequence of taking operations that ends with the check that every argument was used. The
  argument-heavy \<open>start\<close>, \<open>handoff\<close>, \<open>adopt\<close> and \<open>waiter-register\<close> collect their problems and
  report them together. Paths are kept as their text.
\<close>

section \<open>Commands\<close>

datatype start_parent = StartParentless | StartParentAgent string
datatype caller = CallerAlias string | CallerId string | CallerPane string
datatype attribution_target =
  TargetIncarnation string | TargetAgent string | TargetAlias string | TargetPane string
datatype agent_target = AgentId string | AgentAlias string
datatype body_source = BodyStdin | BodyFile string | BodyLiteral string
datatype due = DueAtMs int | DueInMs int

record exact_recipient =
  er_recipient :: string
  er_incarnation :: string

datatype recipient = RecipientAlias string | RecipientExact exact_recipient | RecipientAgent string

record renew_args =
  ra_recipient :: "exact_recipient option"
  ra_requester :: "caller option"
  ra_prepare_prompt :: body_source
  ra_prompt :: body_source
  ra_on_timeout :: string
  ra_prepare_timeout_ms :: int
  ra_every_ms :: "int option"
  ra_due :: "due option"
  ra_idempotency_key :: "string option"

record adopt_args =
  aa_pane_id :: string
  aa_terminal_id :: string
  aa_public_name :: "string option"
  aa_backend_kind :: "string option"
  aa_logical_agent_id :: "string option"
  aa_herdr_session :: string
  aa_backend_args :: "string list"
  aa_requested_model :: "string option"
  aa_requested_provider :: "string option"
  aa_requested_effort :: "string option"
  aa_idempotency_key :: "string option"

record start_command =
  sc_public_name :: string
  sc_logical_agent_id :: "string option"
  sc_parent :: start_parent
  sc_herdr_session :: string
  sc_pane_id :: string
  sc_terminal_id :: string
  sc_backend_kind :: string
  sc_backend_args :: "string list"
  sc_initial_kind :: string
  sc_initial_sender :: "string option"
  sc_body :: body_source
  sc_working_directory :: string
  sc_idempotency_key :: "string option"
  sc_readiness_timeout_ms :: nat
  sc_keep_open :: bool
  sc_requested_model :: "string option"
  sc_requested_provider :: "string option"
  sc_requested_effort :: "string option"
  sc_supersedes :: "string option"
  sc_reply_delivery :: "string option"

text \<open>The variants of \<open>Command\<close>, with the fields in the order the code declares them.\<close>

datatype command =
    CTell recipient body_source "caller option" "string option" "due option" "int option"
  | CAsk recipient body_source "caller option" "string option" "due option" "int option" bool bool "string option"
  | CReply string "caller option" body_source string "string option"
  | CClear recipient "string option"
  | CRenew renew_args
  | CPending "caller option"
  | CRecover
  | CWhoami "caller option"
  | CWho "attribution_target option" bool bool bool bool
  | CAttribution attribution_target bool
  | CReport bool bool
  | CNameInfo string
  | CAskInfo string
  | CRename "caller option" string
  | CAdopt adopt_args
  | CNotice body_source
  | CNotices
  | CCancel string string "caller option"
  | CRenewCancel string string "caller option"
  | CScheduleCancel string string "caller option"
  | CSchedules "caller option"
  | CReminderSnooze string "int option" "int option" "caller option"
  | CReminderInterval string int "caller option"
  | CReminderDisable string "caller option"
  | CRetire string "string option" bool
  | CStart start_command
  | CWaiterRegister string start_parent "string option"
  | CWaiterRetire agent_target
  | CRepliesClaim string "caller option"
  | CReplies string string "string option" "int option" "caller option"
  | CRepliesAck string string string "caller option"

section \<open>Shared argument groups\<close>

definition take_caller :: "caller option take" where
  "take_caller =
     tbind (take_value ''--sender'') (\<lambda>sender.
     tbind (take_value ''--sender-id'') (\<lambda>sender_id.
     tbind (take_value ''--pane'') (\<lambda>pane.
       case (sender, sender_id, pane) of
         (None, None, None) \<Rightarrow> tok None
       | (Some alias, None, None) \<Rightarrow> tok (Some (CallerAlias alias))
       | (None, Some i, None) \<Rightarrow> tok (Some (CallerId i))
       | (None, None, Some p) \<Rightarrow> tok (Some (CallerPane p))
       | _ \<Rightarrow> usage_error ''use only one of --sender, --sender-id, or --pane'')))"

definition take_single_target :: "string \<Rightarrow> caller option take" where
  "take_single_target command =
     tbind take_caller (\<lambda>caller.
     tbind take_positional (\<lambda>positional.
       case (positional, caller) of
         (None, None) \<Rightarrow> tok None
       | (Some alias, None) \<Rightarrow> tok (Some (CallerAlias alias))
       | (None, Some c) \<Rightarrow> tok (Some c)
       | (Some _, Some _) \<Rightarrow> usage_error (command @ '' accepts only one target form: a name or one caller flag'')))"

definition take_body :: "string \<Rightarrow> body_source take" where
  "take_body command =
     tbind (take_bool ''--stdin'') (\<lambda>stdin.
     tbind (take_value ''--file'') (\<lambda>file.
     tbind (take_value ''--body'') (\<lambda>body.
       case (stdin, file, body) of
         (True, None, None) \<Rightarrow> tok BodyStdin
       | (False, Some path, None) \<Rightarrow> tok (BodyFile path)
       | (False, None, Some text) \<Rightarrow> tok (BodyLiteral text)
       | (False, None, None) \<Rightarrow> usage_error (command @ '' requires --stdin, --file PATH, or --body TEXT'')
       | _ \<Rightarrow> usage_error ''use exactly one of --stdin, --file, or --body'')))"

definition take_named_body :: "string \<Rightarrow> string \<Rightarrow> string \<Rightarrow> body_source take" where
  "take_named_body verb text_flag file_flag =
     tbind (take_all_values text_flag) (\<lambda>text.
     tbind (take_all_values file_flag) (\<lambda>file.
       case (text, file) of
         ([value], []) \<Rightarrow> tok (BodyLiteral value)
       | ([], [path]) \<Rightarrow> tok (BodyFile path)
       | ([], []) \<Rightarrow> usage_error (verb @ '' requires '' @ text_flag @ '' or '' @ file_flag)
       | _ \<Rightarrow> usage_error (verb @ '' accepts exactly one of '' @ text_flag @ '' or '' @ file_flag)))"

definition take_due :: "string \<Rightarrow> due option take" where
  "take_due verb =
     tbind (take_all_values ''--due-at-ms'') (\<lambda>at_ms.
     tbind (take_all_values ''--due-in'') (\<lambda>in_values.
     tbind (take_all_values ''--due-at'') (\<lambda>at_values.
       if verb = ''ask'' \<and> 0 < length at_ms + length in_values + length at_values
       then usage_error (''ask does not accept --due-in, --due-at, or --due-at-ms: an ask is delivered now. ''
         @ ''Use --remind-after-ms to be reminded about an unanswered ask, or tell for a ''
         @ ''message that should arrive later'')
       else if 1 < length at_ms + length in_values + length at_values
       then usage_error (verb @ '' allows only one of --due-in, --due-at, or --due-at-ms'')
       else case at_ms of [value] \<Rightarrow>
              (case rust_parse_i64 value of
                 None \<Rightarrow> usage_error (verb @ '' --due-at-ms must be a non-negative integer'')
               | Some parsed \<Rightarrow>
                   if parsed < 0 then usage_error (verb @ '' --due-at-ms must be a non-negative integer'')
                   else tok (Some (DueAtMs parsed)))
            | _ \<Rightarrow> (case in_values of [value] \<Rightarrow>
                tbind (lift_result (parse_duration_ms value)) (\<lambda>ms. tok (Some (DueInMs ms)))
            | _ \<Rightarrow> (case at_values of [value] \<Rightarrow>
                tbind (lift_result (parse_utc_rfc3339_ms value)) (\<lambda>ms. tok (Some (DueAtMs ms)))
            | _ \<Rightarrow> tok None)))))"

definition take_reply_delivery :: "string \<Rightarrow> string option take" where
  "take_reply_delivery verb =
     tbind (take_value ''--reply-delivery'') (\<lambda>v. case v of
         None \<Rightarrow> tok None
       | Some value \<Rightarrow>
           if verb = ''tell'' then usage_error ''tell does not accept --reply-delivery''
           else if value = ''inject'' \<or> value = ''pull'' then tok (Some value)
           else usage_error (''--reply-delivery must be inject or pull, not '' @ value))"

definition take_optional_attribution_target :: "string \<Rightarrow> attribution_target option take" where
  "take_optional_attribution_target command =
     tbind (take_value ''--incarnation-id'') (\<lambda>incarnation_id.
     tbind (take_value ''--agent-id'') (\<lambda>agent_id.
     tbind (take_value ''--pane'') (\<lambda>pane.
     tbind take_positional (\<lambda>alias.
       case (incarnation_id, agent_id, pane, alias) of
         (Some i, None, None, None) \<Rightarrow> tok (Some (TargetIncarnation i))
       | (None, Some i, None, None) \<Rightarrow> tok (Some (TargetAgent i))
       | (None, None, Some p, None) \<Rightarrow> tok (Some (TargetPane p))
       | (None, None, None, Some a) \<Rightarrow> tok (Some (TargetAlias a))
       | (None, None, None, None) \<Rightarrow> tok None
       | _ \<Rightarrow> usage_error (command @ '' accepts exactly one target: a name, --pane, --agent-id, or --incarnation-id'')))))"

text \<open>\<open>env\<close> is the process environment.\<close>

definition take_attribution_target ::
  "(string \<Rightarrow> string option) \<Rightarrow> string \<Rightarrow> attribution_target take" where
  "take_attribution_target env command =
     tbind (take_optional_attribution_target command) (\<lambda>target.
       lift_result (ok_or ''cannot resolve caller; set HERDR_PANE_ID or pass a target''
         (case target of Some t \<Rightarrow> Some t
          | None \<Rightarrow> (case env ''HERDR_PANE_ID'' of
              None \<Rightarrow> None
            | Some pane \<Rightarrow> if pane = [] then None else Some (TargetPane pane)))))"

section \<open>One parser per command\<close>

definition parse_waiter_retire :: "command take" where
  "parse_waiter_retire =
     tbind (take_value ''--logical-id'') (\<lambda>logical_agent_id.
     tbind take_positional (\<lambda>alias.
     tbind (finish ''waiter-retire'') (\<lambda>_.
       case (logical_agent_id, alias) of
         (Some i, None) \<Rightarrow> tok (CWaiterRetire (AgentId i))
       | (None, Some a) \<Rightarrow> tok (CWaiterRetire (AgentAlias a))
       | _ \<Rightarrow> usage_error ''waiter-retire requires exactly one of <alias> or --logical-id'')))"

definition parse_replies_claim :: "command take" where
  "parse_replies_claim =
     tbind (required ''replies-claim requires <ask-id>'' take_positional) (\<lambda>ask_id.
     tbind take_caller (\<lambda>requester.
     tbind (finish ''replies-claim'') (\<lambda>_. tok (CRepliesClaim ask_id requester))))"

definition parse_replies :: "command take" where
  "parse_replies =
     tbind (required ''replies requires <ask-id>'' take_positional) (\<lambda>ask_id.
     tbind (required ''replies requires --after'' (take_value ''--after'')) (\<lambda>after.
     tbind (take_value ''--lease'') (\<lambda>lease_id.
     tbind (take_value ''--timeout'') (\<lambda>timeout.
     tbind (case timeout of
              None \<Rightarrow> tok None
            | Some value \<Rightarrow>
                if value = ''0'' \<or> value = ''0s'' then tok (Some 0)
                else tbind (lift_result (parse_duration_for ''--timeout'' value)) (\<lambda>parsed.
                  if 60000 < parsed then usage_error ''replies --timeout must be at most 60s''
                  else tok (Some parsed))) (\<lambda>timeout_ms.
     tbind take_caller (\<lambda>requester.
     tbind (finish ''replies'') (\<lambda>_.
       tok (CReplies ask_id after lease_id timeout_ms requester))))))))"

definition parse_replies_ack :: "command take" where
  "parse_replies_ack =
     tbind (required ''replies-ack requires <ask-id>'' take_positional) (\<lambda>ask_id.
     tbind (required ''replies-ack requires <message-id>'' take_positional) (\<lambda>message_id.
     tbind (required ''replies-ack requires --lease'' (take_value ''--lease'')) (\<lambda>lease_id.
     tbind take_caller (\<lambda>requester.
     tbind (finish ''replies-ack'') (\<lambda>_. tok (CRepliesAck ask_id message_id lease_id requester))))))"

definition parse_clear :: "command take" where
  "parse_clear =
     tbind (take_value ''--recipient-id'') (\<lambda>recipient_id.
     tbind (take_value ''--recipient-incarnation'') (\<lambda>recipient_incarnation.
     tbind (take_value ''--idempotency-key'') (\<lambda>key.
     tbind take_positional (\<lambda>positional.
     tbind (finish ''clear'') (\<lambda>_.
       case (positional, recipient_id, recipient_incarnation) of
         (Some name, None, None) \<Rightarrow> tok (CClear (RecipientAlias name) key)
       | (None, Some r, Some i) \<Rightarrow> tok (CClear (RecipientExact \<lparr>er_recipient = r, er_incarnation = i\<rparr>) key)
       | _ \<Rightarrow> usage_error (''clear requires exactly one of <recipient> or --recipient-id plus ''
           @ ''--recipient-incarnation''))))))"

text \<open>The interval of a repeating message, and the reminder interval of an ask.\<close>

definition message_every :: "string \<Rightarrow> string list \<Rightarrow> string + int option" where
  "message_every verb values = (case values of
       [] \<Rightarrow> Inr None
     | [value] \<Rightarrow>
         if verb = ''tell'' then rbind (parse_duration_for ''--every'' value) (\<lambda>ms. Inr (Some ms))
         else Inl ''ask does not accept --every''
     | _ \<Rightarrow> Inl ''--every specified more than once'')"

definition positive_i64 :: "string \<Rightarrow> string \<Rightarrow> string + int" where
  "positive_i64 err value =
     rbind (ok_or err (rust_parse_i64 value)) (\<lambda>parsed. if parsed \<le> 0 then Inl err else Inr parsed)"

definition message_reminder :: "string \<Rightarrow> string list \<Rightarrow> string + int option" where
  "message_reminder verb values = (case values of
       [] \<Rightarrow> Inr None
     | [value] \<Rightarrow>
         if verb = ''ask''
         then rbind (positive_i64 ''ask --remind-after-ms must be a positive integer'' value) (\<lambda>ms. Inr (Some ms))
         else Inl ''tell does not accept --remind-after-ms''
     | _ \<Rightarrow> Inl ''--remind-after-ms specified more than once'')"

definition message_from :: "string \<Rightarrow> string option \<Rightarrow> string + bool" where
  "message_from verb from = (case from of
       None \<Rightarrow> Inr False
     | Some f \<Rightarrow>
         if f = ''operator'' then (if verb = ''ask'' then Inr True else Inl ''tell does not accept --from'')
         else Inl ''--from only accepts operator'')"

definition message_recipient ::
  "string \<Rightarrow> int option \<Rightarrow> string option \<Rightarrow> string option \<Rightarrow> string option \<Rightarrow> string + recipient" where
  "message_recipient verb every_ms positional recipient_id recipient_incarnation =
     (case (positional, recipient_id, recipient_incarnation) of
        (Some name, None, None) \<Rightarrow> Inr (RecipientAlias name)
      | (None, Some r, Some i) \<Rightarrow> Inr (RecipientExact \<lparr>er_recipient = r, er_incarnation = i\<rparr>)
      | (None, Some r, None) \<Rightarrow>
          if verb = ''tell'' \<and> every_ms \<noteq> None then Inr (RecipientAgent r)
          else Inl (verb @ '' requires exactly one of <recipient> or --recipient-id plus --recipient-incarnation; repeating tells also accept --recipient-id alone'')
      | _ \<Rightarrow> Inl (verb @ '' requires exactly one of <recipient> or --recipient-id plus --recipient-incarnation; repeating tells also accept --recipient-id alone''))"

definition check :: "bool \<Rightarrow> string \<Rightarrow> unit take" where
  "check bad err = (if bad then usage_error err else tok ())"

definition parse_message_command :: "string \<Rightarrow> command take" where
  "parse_message_command verb =
     tbind (take_value ''--recipient-id'') (\<lambda>recipient_id.
     tbind (take_value ''--recipient-incarnation'') (\<lambda>recipient_incarnation.
     tbind take_caller (\<lambda>sender.
     tbind (take_body verb) (\<lambda>body.
     tbind (take_value ''--idempotency-key'') (\<lambda>key.
     tbind (take_due verb) (\<lambda>due.
     tbind (take_all_values ''--every'') (\<lambda>every_values.
     tbind (lift_result (message_every verb every_values)) (\<lambda>every_ms.
     tbind (check (every_ms \<noteq> None \<and> due \<noteq> None)
              ''tell accepts either a one-shot due time or --every, not both'') (\<lambda>_.
     tbind (take_all_values ''--remind-after-ms'') (\<lambda>reminder_values.
     tbind (take_bool ''--no-remind'') (\<lambda>no_remind.
     tbind (lift_result (message_reminder verb reminder_values)) (\<lambda>remind_after_ms.
     tbind (check (verb = ''tell'' \<and> no_remind) ''tell does not accept --no-remind'') (\<lambda>_.
     tbind (check (remind_after_ms \<noteq> None \<and> no_remind)
              ''ask accepts only one of --remind-after-ms or --no-remind'') (\<lambda>_.
     tbind (take_value ''--from'') (\<lambda>from.
     tbind (lift_result (message_from verb from)) (\<lambda>from_operator.
     tbind (take_reply_delivery verb) (\<lambda>reply_delivery.
     tbind take_positional (\<lambda>positional.
     tbind (finish verb) (\<lambda>_.
     tbind (lift_result (message_recipient verb every_ms positional recipient_id recipient_incarnation)) (\<lambda>recipient.
       if verb = ''tell'' then tok (CTell recipient body sender key due every_ms)
       else tok (CAsk recipient body sender key due remind_after_ms no_remind from_operator reply_delivery)
     ))))))))))))))))))))"

definition DEFAULT_PREPARE_TIMEOUT_MS :: int where "DEFAULT_PREPARE_TIMEOUT_MS = 10 * 60 * 1000"

definition renew_on_timeout :: "string option \<Rightarrow> string + string" where
  "renew_on_timeout v = (case v of
       Some other \<Rightarrow>
         if other = ''abort'' then Inr ''abort'' else if other = ''proceed'' then Inr ''proceed''
         else Inl (''--on-timeout must be abort or proceed, not '' @ other)
     | None \<Rightarrow> Inl (''renew requires --on-timeout abort|proceed: there is no safe default when an ''
         @ ''agent never confirms its checkpoint''))"

definition renew_prepare_timeout :: "string list \<Rightarrow> string list \<Rightarrow> string + int" where
  "renew_prepare_timeout values ms_values = (case (values, ms_values) of
       ([], []) \<Rightarrow> Inr DEFAULT_PREPARE_TIMEOUT_MS
     | ([value], []) \<Rightarrow> parse_duration_for ''--prepare-timeout'' value
     | ([], [value]) \<Rightarrow> positive_i64 ''--prepare-timeout-ms must be a positive integer'' value
     | _ \<Rightarrow> Inl ''use exactly one of --prepare-timeout or --prepare-timeout-ms'')"

definition renew_every :: "string list \<Rightarrow> string + int option" where
  "renew_every values = (case values of
       [] \<Rightarrow> Inr None
     | [value] \<Rightarrow> rbind (parse_duration_for ''--every'' value) (\<lambda>ms. Inr (Some ms))
     | _ \<Rightarrow> Inl ''--every specified more than once'')"

definition renew_recipient ::
  "string option \<Rightarrow> string option \<Rightarrow> string option \<Rightarrow> string + exact_recipient option" where
  "renew_recipient positional recipient_id recipient_incarnation =
     (case (positional, recipient_id, recipient_incarnation) of
        (None, None, None) \<Rightarrow> Inr None
      | (None, Some r, Some i) \<Rightarrow> Inr (Some \<lparr>er_recipient = r, er_incarnation = i\<rparr>)
      | (Some name, _, _) \<Rightarrow>
          Inl (''renew does not take an alias: '' @ name @ '' is a live address another agent may hold, ''
            @ ''and a policy aimed at the wrong one clears its conversation every cycle. Pass no ''
            @ ''recipient to renew yourself, or --recipient-id with --recipient-incarnation to ''
            @ ''renew another agent deliberately'')
      | _ \<Rightarrow> Inl (''renew requires --recipient-id and --recipient-incarnation together, or neither ''
            @ ''to renew yourself''))"

definition parse_renew :: "command take" where
  "parse_renew =
     tbind (take_value ''--recipient-id'') (\<lambda>recipient_id.
     tbind (take_value ''--recipient-incarnation'') (\<lambda>recipient_incarnation.
     tbind take_caller (\<lambda>requester.
     tbind (take_named_body ''renew'' ''--prepare-prompt'' ''--prepare-prompt-file'') (\<lambda>prepare_prompt.
     tbind (take_named_body ''renew'' ''--prompt'' ''--prompt-file'') (\<lambda>prompt.
     tbind (take_value ''--idempotency-key'') (\<lambda>key.
     tbind (take_value ''--on-timeout'') (\<lambda>on_timeout.
     tbind (lift_result (renew_on_timeout on_timeout)) (\<lambda>on_timeout.
     tbind (take_all_values ''--prepare-timeout'') (\<lambda>timeout_values.
     tbind (take_all_values ''--prepare-timeout-ms'') (\<lambda>timeout_ms_values.
     tbind (lift_result (renew_prepare_timeout timeout_values timeout_ms_values)) (\<lambda>prepare_timeout_ms.
     tbind (take_all_values ''--every'') (\<lambda>every_values.
     tbind (lift_result (renew_every every_values)) (\<lambda>every_ms.
     tbind (take_due ''renew'') (\<lambda>due.
     tbind (check (every_ms \<noteq> None \<and> due \<noteq> None)
              (''renew accepts either a one-shot due time or --every, not both: --every re-arms ''
               @ ''itself after each cycle'')) (\<lambda>_.
     tbind take_positional (\<lambda>positional.
     tbind (finish ''renew'') (\<lambda>_.
     tbind (lift_result (renew_recipient positional recipient_id recipient_incarnation)) (\<lambda>recipient.
       tok (CRenew \<lparr>ra_recipient = recipient, ra_requester = requester, ra_prepare_prompt = prepare_prompt,
         ra_prompt = prompt, ra_on_timeout = on_timeout, ra_prepare_timeout_ms = prepare_timeout_ms,
         ra_every_ms = every_ms, ra_due = due, ra_idempotency_key = key\<rparr>)))))))))))))))))))"

text \<open>Ending a policy or a schedule: the id, a required reason, who asks.\<close>

definition parse_renew_cancel :: "command take" where
  "parse_renew_cancel =
     tbind take_caller (\<lambda>requester.
     tbind (required (''renew-cancel requires --reason: a policy that ends without saying why is the silence ''
              @ ''renew reporting exists to avoid'') (take_value ''--reason'')) (\<lambda>reason.
     tbind (required ''usage: kelpie renew-cancel <renew-id> --reason TEXT'' take_positional) (\<lambda>renew_id.
     tbind (finish ''renew-cancel'') (\<lambda>_. tok (CRenewCancel renew_id reason requester)))))"

definition parse_schedule_cancel :: "command take" where
  "parse_schedule_cancel =
     tbind take_caller (\<lambda>requester.
     tbind (required ''schedule-cancel requires --reason'' (take_value ''--reason'')) (\<lambda>reason.
     tbind (required ''usage: kelpie schedule-cancel <schedule-id> --reason TEXT'' take_positional) (\<lambda>schedule_id.
     tbind (finish ''schedule-cancel'') (\<lambda>_. tok (CScheduleCancel schedule_id reason requester)))))"

definition parse_schedules :: "command take" where
  "parse_schedules =
     tbind (take_single_target ''schedules'') (\<lambda>target.
     tbind (finish ''schedules'') (\<lambda>_. tok (CSchedules target)))"

definition non_negative_i64 :: "string \<Rightarrow> string \<Rightarrow> string + int" where
  "non_negative_i64 err value =
     rbind (ok_or err (rust_parse_i64 value)) (\<lambda>parsed. if parsed < 0 then Inl err else Inr parsed)"

definition transpose_result :: "('a \<Rightarrow> string + 'b) \<Rightarrow> 'a option \<Rightarrow> string + 'b option" where
  "transpose_result f v = (case v of None \<Rightarrow> Inr None | Some x \<Rightarrow> rbind (f x) (\<lambda>y. Inr (Some y)))"

definition parse_reminder_snooze :: "command take" where
  "parse_reminder_snooze =
     tbind take_caller (\<lambda>requester.
     tbind (take_value ''--until-ms'') (\<lambda>until.
     tbind (take_value ''--for'') (\<lambda>duration.
     tbind (check ((until \<noteq> None) = (duration \<noteq> None)) ''provide exactly one of --until-ms or --for'') (\<lambda>_.
     tbind (lift_result (transpose_result (non_negative_i64 ''--until-ms must be a non-negative integer'') until)) (\<lambda>until_ms.
     tbind (lift_result (transpose_result (parse_duration_for ''--for'') duration)) (\<lambda>for_ms.
     tbind (required ''usage: kelpie reminder-snooze <ask-id> --until-ms MS'' take_positional) (\<lambda>ask_id.
     tbind (finish ''reminder-snooze'') (\<lambda>_.
       tok (CReminderSnooze ask_id until_ms for_ms requester)))))))))"

definition parse_reminder_interval :: "command take" where
  "parse_reminder_interval =
     tbind take_caller (\<lambda>requester.
     tbind (required ''missing --every'' (take_value ''--every'')) (\<lambda>every.
     tbind (lift_result (parse_duration_for ''--every'' every)) (\<lambda>every_ms.
     tbind (required ''missing ask id'' take_positional) (\<lambda>ask_id.
     tbind (finish ''reminder-interval'') (\<lambda>_. tok (CReminderInterval ask_id every_ms requester))))))"

definition parse_reminder_disable :: "command take" where
  "parse_reminder_disable =
     tbind take_caller (\<lambda>requester.
     tbind (required ''usage: kelpie reminder-disable <ask-id>'' take_positional) (\<lambda>ask_id.
     tbind (finish ''reminder-disable'') (\<lambda>_. tok (CReminderDisable ask_id requester))))"

definition parse_reply :: "command take" where
  "parse_reply =
     tbind (take_bool ''--progress'') (\<lambda>progress.
     tbind (take_bool ''--final'') (\<lambda>final.
     tbind (take_body ''reply'') (\<lambda>body.
     tbind (take_value ''--idempotency-key'') (\<lambda>key.
     tbind take_caller (\<lambda>requester.
     tbind (required ''usage: kelpie reply <ask-id> --progress|--final --stdin|--file|--body'' take_positional) (\<lambda>reply_to.
     tbind (finish ''reply'') (\<lambda>_.
       case (progress, final) of
         (True, False) \<Rightarrow> tok (CReply reply_to requester body ''progress'' key)
       | (False, True) \<Rightarrow> tok (CReply reply_to requester body ''final'' key)
       | _ \<Rightarrow> usage_error ''reply requires exactly one of --progress or --final'')))))))"

definition parse_pending :: "command take" where
  "parse_pending =
     tbind (take_single_target ''pending'') (\<lambda>target.
     tbind (finish ''pending'') (\<lambda>_. tok (CPending target)))"

definition parse_whoami :: "command take" where
  "parse_whoami =
     tbind (take_value ''--sender-id'') (\<lambda>sender_id.
     tbind (check (sender_id \<noteq> None) ''whoami does not accept --sender-id; use an alias or --pane'') (\<lambda>_.
     tbind (take_single_target ''whoami'') (\<lambda>target.
     tbind (finish ''whoami'') (\<lambda>_. tok (CWhoami target)))))"

definition is_alias_target :: "attribution_target option \<Rightarrow> bool" where
  "is_alias_target t = (case t of Some (TargetAlias _) \<Rightarrow> True | _ \<Rightarrow> False)"

definition parse_who :: "string list \<Rightarrow> command take" where
  "parse_who args =
     tbind (take_bool ''--history'') (\<lambda>history.
     tbind (take_bool ''--resolve'') (\<lambda>resolve.
     tbind (take_bool ''--refresh'') (\<lambda>refresh.
       let adopt_caller = list_all (\<lambda>a. a = ''--refresh'') args in
     tbind (take_optional_attribution_target ''who'') (\<lambda>target.
     tbind (finish ''who'') (\<lambda>_.
     tbind (check (history \<and> \<not> is_alias_target target) ''who --history requires an alias'') (\<lambda>_.
     tbind (check (history \<and> refresh) ''who --history does not accept --refresh'') (\<lambda>_.
     tbind (check (resolve \<and> \<not> is_alias_target target) ''who --resolve requires an alias'') (\<lambda>_.
     tbind (check (resolve \<and> (history \<or> refresh)) ''who --resolve does not accept --history or --refresh'') (\<lambda>_.
       tok (CWho target adopt_caller history resolve refresh))))))))))"

definition parse_ask_info :: "command take" where
  "parse_ask_info =
     tbind (required ''usage: kelpie ask-info <ask-id>'' take_positional) (\<lambda>ask_id.
     tbind (finish ''ask-info'') (\<lambda>_. tok (CAskInfo ask_id)))"

definition parse_name_info :: "command take" where
  "parse_name_info =
     tbind (required ''usage: kelpie name-info <alias>'' take_positional) (\<lambda>name.
     tbind (finish ''name-info'') (\<lambda>_. tok (CNameInfo name)))"

definition parse_attribution :: "(string \<Rightarrow> string option) \<Rightarrow> command take" where
  "parse_attribution env =
     tbind (take_bool ''--refresh'') (\<lambda>refresh.
     tbind (take_attribution_target env ''attribution'') (\<lambda>target.
     tbind (finish ''attribution'') (\<lambda>_. tok (CAttribution target refresh))))"

definition parse_cancel :: "command take" where
  "parse_cancel =
     tbind (required ''missing --reason'' (take_value ''--reason'')) (\<lambda>reason.
     tbind take_caller (\<lambda>requester.
     tbind (required ''usage: kelpie cancel <ask-id> --reason TEXT'' take_positional) (\<lambda>ask_id.
     tbind (finish ''cancel'') (\<lambda>_. tok (CCancel ask_id reason requester)))))"

definition parse_retire :: "command take" where
  "parse_retire =
     tbind (required ''missing --incarnation'' (take_value ''--incarnation'')) (\<lambda>incarnation_id.
     tbind (take_value ''--idempotency-key'') (\<lambda>key.
     tbind (take_bool ''--close-pane'') (\<lambda>close_pane.
     tbind (finish ''retire'') (\<lambda>_. tok (CRetire incarnation_id key close_pane)))))"

definition parse_rename :: "command take" where
  "parse_rename =
     tbind (required ''missing --name'' (take_value ''--name'')) (\<lambda>name.
     tbind (take_single_target ''rename'') (\<lambda>target.
     tbind (finish ''rename'') (\<lambda>_. tok (CRename target name))))"

definition parse_report :: "command take" where
  "parse_report =
     tbind (take_bool ''--live'') (\<lambda>live.
     tbind (take_bool ''--active'') (\<lambda>active.
     tbind (finish ''report'') (\<lambda>_. tok (CReport live active))))"

definition parse_notice :: "command take" where
  "parse_notice =
     tbind (take_body ''notice'') (\<lambda>body.
     tbind (finish ''notice'') (\<lambda>_. tok (CNotice body)))"

section \<open>Parsers that report every problem at once\<close>

definition take_keep_open :: "string \<Rightarrow> bool noting" where
  "take_keep_open command =
     nbind (problems_switch ''--keep-open'') (\<lambda>keep_open.
     nbind (problems_switch ''--no-keep-open'') (\<lambda>no_keep_open.
       case (keep_open, no_keep_open) of
         (True, False) \<Rightarrow> nok True
       | (False, True) \<Rightarrow> nok False
       | _ \<Rightarrow> nbind (note_problem (command @ '' requires exactly one of --keep-open or --no-keep-open''))
                (\<lambda>_. nok False)))"

definition take_parent :: "string \<Rightarrow> start_parent option noting" where
  "take_parent command =
     nbind (problems_switch ''--parentless'') (\<lambda>parentless.
     nbind (problems_value ''--parent-id'') (\<lambda>parent_id.
       case (parentless, parent_id) of
         (True, None) \<Rightarrow> nok (Some StartParentless)
       | (False, Some i) \<Rightarrow> nok (Some (StartParentAgent i))
       | _ \<Rightarrow> nbind (note_problem (command @ '' requires exactly one of --parentless or --parent-id''))
                (\<lambda>_. nok None)))"

definition take_initial_kind :: "string \<Rightarrow> string noting" where
  "take_initial_kind command =
     nbind (problems_switch ''--tell'') (\<lambda>tell.
     nbind (problems_switch ''--ask'') (\<lambda>ask.
       case (tell, ask) of
         (True, False) \<Rightarrow> nok ''tell''
       | (False, True) \<Rightarrow> nok ''ask''
       | _ \<Rightarrow> nbind (note_problem (command @ '' requires exactly one of --tell or --ask'')) (\<lambda>_. nok ''tell'')))"

definition note_when :: "bool \<Rightarrow> string \<Rightarrow> unit noting" where
  "note_when bad p = (if bad then note_problem p else nok ())"

definition take_readiness_timeout :: "nat option noting" where
  "take_readiness_timeout =
     nbind (problems_required ''--timeout-ms'') (\<lambda>timeout. case timeout of
         None \<Rightarrow> nok None
       | Some text \<Rightarrow>
           let milliseconds = rust_parse_u64 text in
           nbind (note_when (milliseconds = None) ''invalid --timeout-ms'') (\<lambda>_. nok milliseconds))"

definition take_start_reply_delivery :: "string option noting" where
  "take_start_reply_delivery =
     nbind (problems_value ''--reply-delivery'') (\<lambda>v. case v of
         None \<Rightarrow> nok None
       | Some value \<Rightarrow>
           if value = ''inject'' \<or> value = ''pull'' then nok (Some value)
           else nbind (note_problem (''--reply-delivery must be inject or pull, not '' @ value)) (\<lambda>_. nok None))"

text \<open>The end of a noting parse: the problems and what is left over, or the values.\<close>

definition resolved :: "string \<Rightarrow> (string list \<times> tokens) \<Rightarrow> (unit \<Rightarrow> string + 'a) \<Rightarrow> string + 'a" where
  "resolved command s f = rbind (resolve command s) f"

definition parse_waiter_register :: "string list \<Rightarrow> string + command" where
  "parse_waiter_register args =
     (case nbind (problems_required ''--name'') (\<lambda>public_name.
           nbind (take_parent ''waiter-register'') (\<lambda>parent.
           nbind (problems_value ''--idempotency-key'') (\<lambda>key. nok (public_name, parent, key))))
           ([], new_tokens args) of
        ((public_name, parent, key), s) \<Rightarrow> resolved ''waiter-register'' s (\<lambda>_.
          rbind (ok_or ''missing --name'' public_name) (\<lambda>public_name.
          rbind (ok_or ''missing --parentless or --parent-id'' parent) (\<lambda>parent.
            Inr (CWaiterRegister public_name parent key)))))"

definition unwrap_or :: "'a \<Rightarrow> 'a option \<Rightarrow> 'a" where
  "unwrap_or d v = (case v of None \<Rightarrow> d | Some x \<Rightarrow> x)"

definition parse_adopt :: "string list \<Rightarrow> string + command" where
  "parse_adopt args =
     (case nbind (problems_required ''--pane'') (\<lambda>pane_id.
           nbind (problems_required ''--terminal'') (\<lambda>terminal_id.
           nbind (problems_value ''--name'') (\<lambda>public_name.
           nbind (problems_value ''--backend'') (\<lambda>backend_kind.
           nbind (problems_value ''--logical-id'') (\<lambda>logical_agent_id.
           nbind (problems_value ''--session'') (\<lambda>session.
           nbind (noted [] (take_all_values ''--arg'')) (\<lambda>backend_args.
           nbind (problems_value ''--requested-model'') (\<lambda>model.
           nbind (problems_value ''--requested-provider'') (\<lambda>provider.
           nbind (problems_value ''--requested-effort'') (\<lambda>effort.
           nbind (problems_value ''--idempotency-key'') (\<lambda>key.
             nok (\<lambda>pane_id terminal_id. \<lparr>aa_pane_id = pane_id, aa_terminal_id = terminal_id,
               aa_public_name = public_name, aa_backend_kind = backend_kind, aa_logical_agent_id = logical_agent_id,
               aa_herdr_session = unwrap_or ''default'' session, aa_backend_args = backend_args,
               aa_requested_model = model, aa_requested_provider = provider, aa_requested_effort = effort,
               aa_idempotency_key = key\<rparr>, pane_id, terminal_id))))))))))))
           ([], new_tokens args) of
        ((build, pane_id, terminal_id), s) \<Rightarrow> resolved ''adopt'' s (\<lambda>_.
          rbind (ok_or ''missing --pane'' pane_id) (\<lambda>pane_id.
          rbind (ok_or ''missing --terminal'' terminal_id) (\<lambda>terminal_id.
            Inr (CAdopt (build pane_id terminal_id))))))"

text \<open>What a start collected: the required parts may be missing until the problems are resolved.\<close>

record start_parts =
  sp_supersedes :: "string option"
  sp_public_name :: "string option"
  sp_pane_id :: "string option"
  sp_terminal_id :: "string option"
  sp_backend_kind :: "string option"
  sp_working_directory :: "string option"
  sp_readiness_timeout_ms :: "nat option"
  sp_keep_open :: bool
  sp_parent :: "start_parent option"
  sp_initial_kind :: string
  sp_initial_sender :: "string option"
  sp_body :: "body_source option"
  sp_backend_args :: "string list"
  sp_logical_agent_id :: "string option"
  sp_herdr_session :: string
  sp_requested_model :: "string option"
  sp_requested_provider :: "string option"
  sp_requested_effort :: "string option"
  sp_idempotency_key :: "string option"
  sp_reply_delivery :: "string option"

definition collect_start :: "bool \<Rightarrow> string \<Rightarrow> start_parts noting" where
  "collect_start handoff command =
     nbind (problems_value ''--replace'') (\<lambda>supersedes.
     nbind (note_when (handoff \<and> supersedes = None)
              (''handoff requires --replace INCARNATION-ID: name the incarnation ''
               @ ''the new one takes over from'')) (\<lambda>_.
     nbind (note_when (\<not> handoff \<and> supersedes \<noteq> None)
              (''start does not accept --replace; use handoff to replace a running ''
               @ ''incarnation of the same logical agent'')) (\<lambda>_.
     nbind (problems_required ''--name'') (\<lambda>public_name.
     nbind (problems_required ''--pane'') (\<lambda>pane_id.
     nbind (problems_required ''--terminal'') (\<lambda>terminal_id.
     nbind (problems_required ''--backend'') (\<lambda>backend_kind.
     nbind (problems_required ''--cwd'') (\<lambda>working_directory.
     nbind take_readiness_timeout (\<lambda>readiness_timeout_ms.
     nbind (take_keep_open command) (\<lambda>keep_open.
     nbind (take_parent command) (\<lambda>parent.
     nbind (take_initial_kind command) (\<lambda>initial_kind.
     nbind (problems_value ''--sender-id'') (\<lambda>initial_sender.
     nbind (noted None (tbind (take_body command) (\<lambda>b. tok (Some b)))) (\<lambda>body.
     nbind (noted [] (take_all_values ''--arg'')) (\<lambda>backend_args.
     nbind (problems_value ''--logical-id'') (\<lambda>logical_agent_id.
     nbind (problems_value ''--session'') (\<lambda>session.
     nbind (problems_value ''--requested-model'') (\<lambda>model.
     nbind (problems_value ''--requested-provider'') (\<lambda>provider.
     nbind (problems_value ''--requested-effort'') (\<lambda>effort.
     nbind (problems_value ''--idempotency-key'') (\<lambda>key.
     nbind take_start_reply_delivery (\<lambda>reply_delivery.
     nbind (note_when (reply_delivery \<noteq> None \<and> initial_kind \<noteq> ''ask'')
              ''start --reply-delivery is only valid with --ask'') (\<lambda>_.
       nok \<lparr>sp_supersedes = supersedes, sp_public_name = public_name, sp_pane_id = pane_id,
         sp_terminal_id = terminal_id, sp_backend_kind = backend_kind, sp_working_directory = working_directory,
         sp_readiness_timeout_ms = readiness_timeout_ms, sp_keep_open = keep_open, sp_parent = parent,
         sp_initial_kind = initial_kind, sp_initial_sender = initial_sender, sp_body = body,
         sp_backend_args = backend_args, sp_logical_agent_id = logical_agent_id,
         sp_herdr_session = unwrap_or ''default'' session, sp_requested_model = model,
         sp_requested_provider = provider, sp_requested_effort = effort, sp_idempotency_key = key,
         sp_reply_delivery = reply_delivery\<rparr>)))))))))))))))))))))))"

definition build_start :: "start_parts \<Rightarrow> string + command" where
  "build_start p =
     rbind (ok_or ''missing --name'' (sp_public_name p)) (\<lambda>public_name.
     rbind (ok_or ''missing --pane'' (sp_pane_id p)) (\<lambda>pane_id.
     rbind (ok_or ''missing --terminal'' (sp_terminal_id p)) (\<lambda>terminal_id.
     rbind (ok_or ''missing --backend'' (sp_backend_kind p)) (\<lambda>backend_kind.
     rbind (ok_or ''missing --cwd'' (sp_working_directory p)) (\<lambda>working_directory.
     rbind (ok_or ''missing --timeout-ms'' (sp_readiness_timeout_ms p)) (\<lambda>readiness_timeout_ms.
     rbind (ok_or ''missing --parentless or --parent-id'' (sp_parent p)) (\<lambda>parent.
     rbind (ok_or ''missing --stdin, --file, or --body'' (sp_body p)) (\<lambda>body.
       Inr (CStart \<lparr>sc_public_name = public_name, sc_logical_agent_id = sp_logical_agent_id p,
         sc_parent = parent, sc_herdr_session = sp_herdr_session p, sc_pane_id = pane_id,
         sc_terminal_id = terminal_id, sc_backend_kind = backend_kind, sc_backend_args = sp_backend_args p,
         sc_initial_kind = sp_initial_kind p, sc_initial_sender = sp_initial_sender p, sc_body = body,
         sc_working_directory = working_directory, sc_idempotency_key = sp_idempotency_key p,
         sc_readiness_timeout_ms = readiness_timeout_ms, sc_keep_open = sp_keep_open p,
         sc_requested_model = sp_requested_model p, sc_requested_provider = sp_requested_provider p,
         sc_requested_effort = sp_requested_effort p, sc_supersedes = sp_supersedes p,
         sc_reply_delivery = sp_reply_delivery p\<rparr>)))))))))"

definition parse_start :: "bool \<Rightarrow> string list \<Rightarrow> string + command" where
  "parse_start handoff args =
     (let command = (if handoff then ''handoff'' else ''start'') in
      case collect_start handoff command ([], new_tokens args) of
        (parts, s) \<Rightarrow> resolved command s (\<lambda>_. build_start parts))"

section \<open>Commands and invocations\<close>

text \<open>A run of a take on fresh tokens: the tokens are dropped at the end.\<close>

definition run_take :: "string list \<Rightarrow> 'a take \<Rightarrow> string + 'a" where
  "run_take args m = fst (m (new_tokens args))"

definition parse_command :: "(string \<Rightarrow> string option) \<Rightarrow> string list \<Rightarrow> string + command" where
  "parse_command env argv =
     (let verb = hd argv; args = tl argv; run = run_take args in
      if verb = ''tell'' \<or> verb = ''ask'' then run (parse_message_command verb)
      else if verb = ''reply'' then run parse_reply
      else if verb = ''clear'' then run parse_clear
      else if verb = ''renew'' then run parse_renew
      else if verb = ''renew-cancel'' then run parse_renew_cancel
      else if verb = ''schedule-cancel'' then run parse_schedule_cancel
      else if verb = ''schedules'' then run parse_schedules
      else if verb = ''pending'' then run parse_pending
      else if verb = ''recover'' then run (tbind (finish ''recover'') (\<lambda>_. tok CRecover))
      else if verb = ''whoami'' then run parse_whoami
      else if verb = ''who'' then run (parse_who args)
      else if verb = ''name-info'' then run parse_name_info
      else if verb = ''ask-info'' then run parse_ask_info
      else if verb = ''attribution'' then run (parse_attribution env)
      else if verb = ''rename'' then run parse_rename
      else if verb = ''report'' then run parse_report
      else if verb = ''start'' then parse_start False args
      else if verb = ''handoff'' then parse_start True args
      else if verb = ''adopt'' then parse_adopt args
      else if verb = ''waiter-register'' then parse_waiter_register args
      else if verb = ''waiter-retire'' then run parse_waiter_retire
      else if verb = ''replies-claim'' then run parse_replies_claim
      else if verb = ''replies'' then run parse_replies
      else if verb = ''replies-ack'' then run parse_replies_ack
      else if verb = ''notice'' then run parse_notice
      else if verb = ''notices'' then run (tbind (finish ''notices'') (\<lambda>_. tok CNotices))
      else if verb = ''cancel'' then run parse_cancel
      else if verb = ''reminder-snooze'' then run parse_reminder_snooze
      else if verb = ''reminder-interval'' then run parse_reminder_interval
      else if verb = ''reminder-disable'' then run parse_reminder_disable
      else if verb = ''retire'' then run parse_retire
      else Inl (''unknown command '' @ verb))"

end
