(* ===== verification/CliUsage.thy ===== *)
theory CliUsage
  imports CliCommands Paths
begin

text \<open>
  The usage text and the outermost layer of the command line (\<open>parse_invocation\<close> in
  \<open>src/src/cli.rs\<close>): help, version and skill requests, the global flags in front of the command,
  the raw socket form, and the typed commands.
\<close>

definition usage_lines :: "string list" where
  "usage_lines =
  [''kelpie --skill | --version'',
   ''kelpie SOCKET                         # raw NDJSON request on stdin'',
   ''kelpie [--socket PATH] [--json] COMMAND'',
   '''',
   ''Commands:'',
   ''  tell <recipient> | --recipient-id ID [--recipient-incarnation ID]'',
   ''       (--stdin | --file PATH | --body TEXT)'',
   ''       [--due-in 10m | --due-at RFC3339 | --due-at-ms MS | --every 15m]'',
   ''  ask  <recipient> | --recipient-id ID --recipient-incarnation ID'',
   ''       (--stdin | --file PATH | --body TEXT)'',
   ''       [--remind-after-ms MS | --no-remind]'',
   ''       [--reply-delivery inject|pull]'',
   ''  reply <ask-id> (--progress | --final) (--stdin | --file PATH | --body TEXT)'',
   ''  clear <recipient> | --recipient-id ID --recipient-incarnation ID'',
   ''  renew [--recipient-id ID --recipient-incarnation ID]'',
   ''       (--prepare-prompt TEXT | --prepare-prompt-file PATH)'',
   ''       (--prompt TEXT | --prompt-file PATH)'',
   ''       --on-timeout (abort | proceed)'',
   ''       [--prepare-timeout 10m | --prepare-timeout-ms MS]'',
   ''       [--due-in 45m | --due-at RFC3339 | --due-at-ms MS | --every 45m]'',
   ''  renew-cancel <renew-id> --reason TEXT'',
   ''  schedule-cancel <schedule-id> --reason TEXT'',
   ''  schedules [alias] | --sender-id ID | --pane ID'',
   ''  pending [alias]'',
   ''  recover'',
   ''  who [alias] | --pane ID | --agent-id ID | --incarnation-id ID'',
   ''       [--history | --resolve] [--refresh]'',
   ''  whoami [alias]'',
   ''  name-info <alias>'',
   ''  ask-info <ask-id>'',
   ''  attribution [alias] | --pane ID | --agent-id ID | --incarnation-id ID'',
   ''       [--refresh]'',
   ''  report [--live] [--active]'',
   ''  rename [alias] | --sender-id ID --name NEW-NAME'',
   ''  handoff --replace INCARNATION-ID|ALIAS <all start arguments>'',
   ''  start --name NAME --pane ID --terminal ID --backend KIND --cwd PATH'',
   ''       --timeout-ms N (--keep-open | --no-keep-open)'',
   ''        (--parentless | --parent-id ID) (--tell | --ask)'',
   ''        (--stdin | --file PATH | --body TEXT)'',
   ''        [--arg ARG]... [--session NAME] [--logical-id ID] [--sender-id ID]'',
   ''        [--requested-model NAME] [--requested-provider NAME] [--requested-effort NAME]'',
   ''        [--reply-delivery inject|pull]'',
   ''  adopt --pane ID --terminal ID [--name NAME] [--backend KIND]'',
   ''       [--logical-id ID] [--session NAME]'',
   ''  notice (--stdin | --file PATH | --body TEXT)'',
   ''  notices'',
   ''  cancel <ask-id> --reason TEXT'',
   ''  reminder-snooze <ask-id> (--until-ms MS | --for DURATION)'',
   ''  reminder-interval <ask-id> --every DURATION'',
   ''  reminder-disable <ask-id>'',
   ''  retire --incarnation ID [--close-pane]'',
   ''  waiter-register --name NAME (--parentless | --parent-id ID)'',
   ''  waiter-retire <alias> | --logical-id ID'',
   ''  replies-claim <ask-id>'',
   ''  replies <ask-id> --after CURSOR [--lease ID] [--timeout 30s]'',
   ''  replies-ack <ask-id> <message-id> --lease ID'',
   '''',
   ''Unknown, duplicate, conflicting, or extra arguments fail closed. Ordinary'',
   ''bodies should use --stdin or --file. --body is only for short trusted text.'',
   ''Use exactly one recipient form: a live name, or both exact IDs. Do not'',
   ''invent a fake alias when addressing by ID. renew is the exception: it takes'',
   ''no alias, and with no recipient it renews the caller. Only renew-cancel ends'',
   ''a policy, and only its requester or its target may call it. Caller defaults to the Ready'',
   ''binding for $HERDR_PANE_ID. Default receipts show accepted, rejected,'',
   ''target-unavailable, and unknown outcomes; any non-success exits nonzero.'']"

definition strip_prefix :: "string \<Rightarrow> string \<Rightarrow> string option" where
  "strip_prefix p s = (if take (length p) s = p then Some (drop (length p) s) else None)"

definition has_prefix :: "string \<Rightarrow> string \<Rightarrow> bool" where
  "has_prefix p s \<longleftrightarrow> take (length p) s = p"

definition ends_block :: "string \<Rightarrow> bool" where
  "ends_block line \<longleftrightarrow> has_prefix ''  '' line \<and> \<not> has_prefix ''       '' line \<or> line = []"

text \<open>\<open>trim_start\<close> on the usage text, whose only white space is the blank.\<close>

definition trim_blanks :: "string \<Rightarrow> string" where
  "trim_blanks = dropWhile (\<lambda>c. c = CHR '' '')"

definition command_usage :: "string \<Rightarrow> string option" where
  "command_usage command =
     (case dropWhile (\<lambda>line. \<not> has_prefix (''  '' @ command) line) usage_lines of
        [] \<Rightarrow> None
      | first # rest \<Rightarrow>
          Option.bind (strip_prefix ''  '' first) (\<lambda>suffix.
          Option.bind (strip_prefix command suffix) (\<lambda>behind.
            if behind \<noteq> [] \<and> \<not> has_prefix '' '' behind then None
            else Some (''Usage: kelpie '' @ join_text ([CHR 0x0A] @ ''       '')
                   (suffix # map trim_blanks (takeWhile (\<lambda>line. \<not> ends_block line) rest))))))"

section \<open>Invocations\<close>

datatype invocation =
    Skill
  | Version
  | HelpFor "string option"
  | RawSocket string
  | Typed string bool command

text \<open>\<open>Path::extension\<close> of a token without a slash, and its comparison with \<open>sock\<close>.\<close>

definition ascii_lower :: "char \<Rightarrow> char" where
  "ascii_lower c = (if 65 \<le> byte_of c \<and> byte_of c \<le> 90 then char_of (byte_of c + 32) else c)"

definition path_extension :: "string \<Rightarrow> string option" where
  "path_extension token =
     (let ext = rev (takeWhile (\<lambda>c. c \<noteq> CHR ''.'') (rev token));
          stem = take (length token - length ext - 1) token
      in if token = ''..'' \<or> CHR ''.'' \<notin> set token \<or> stem = [] then None else Some ext)"

definition is_raw_socket_token :: "(string \<Rightarrow> bool) \<Rightarrow> string \<Rightarrow> bool" where
  "is_raw_socket_token path_exists token \<longleftrightarrow>
     CHR ''/'' \<in> set token
     \<or> (case path_extension token of None \<Rightarrow> False | Some ext \<Rightarrow> map ascii_lower ext = ''sock'')
     \<or> path_exists token"

text \<open>
  The flags in front of the command. An unknown flag is kept and becomes the command's problem;
  the first argument that is not a flag ends the scan.
\<close>

function scan_globals ::
  "string list \<Rightarrow> nat \<Rightarrow> string option \<Rightarrow> bool \<Rightarrow> string list \<Rightarrow> string + string option \<times> bool \<times> string list" where
  "scan_globals args index socket json kept =
     (if length args \<le> index then Inr (socket, json, kept)
      else let arg = args ! index in
        if arg = ''--socket'' then
          if socket \<noteq> None then Inl ''--socket specified more than once''
          else (case required_value args index ''--socket'' of
                  Inl e \<Rightarrow> Inl e
                | Inr (value, _) \<Rightarrow> scan_globals args (index + 2) (Some value) json kept)
        else if arg = ''--json'' then
          if json then Inl ''--json specified more than once''
          else scan_globals args (index + 1) socket True kept
        else if starts_dash arg then scan_globals args (index + 1) socket json (kept @ [arg])
        else Inr (socket, json, kept @ drop index args))"
  by pat_completeness auto
termination
  by (relation "measure (\<lambda>(args, index, _). length args - index)") auto

declare scan_globals.simps [simp del]

definition parse_invocation ::
  "string \<Rightarrow> (string \<Rightarrow> string option) \<Rightarrow> (string \<Rightarrow> bool) \<Rightarrow> string list \<Rightarrow> string + invocation" where
  "parse_invocation temp_dir env path_exists args =
     (if args = [] then Inr (HelpFor None)
      else if args = [''--skill''] then Inr Skill
      else if args = [''--version''] \<or> args = [''-V''] then Inr Version
      else if list_ex (\<lambda>a. a = ''--help'' \<or> a = ''-h'') args
      then Inr (HelpFor (List.find (\<lambda>a. command_usage a \<noteq> None) args))
      else rbind (scan_globals args 0 None False []) (\<lambda>(socket, json, kept).
        if kept = [] then Inr (HelpFor None)
        else if is_raw_socket_token path_exists (hd kept) \<and> length kept = 1 then Inr (RawSocket (hd kept))
        else rbind (parse_command env kept) (\<lambda>command.
          Inr (Typed (unwrap_or (kelpie_socket_path_with temp_dir env) socket) json command))))"

end
