(* ===== verification/CliLaws.thy ===== *)
theory CliLaws
  imports CliUsage "HOL-Library.Multiset"
begin

text \<open>
  What a parse of the command line keeps: a command that is accepted accounts for every argument
  it was given. The laws of the taking operations are stated as weakest preconditions over the
  multiset of the arguments used so far, so a parser's law is read off its definition.
\<close>

named_theorems eats_rules "what a taking operation adds to the used arguments"
named_theorems collects_rules "what a noting operation without a new problem adds to the used arguments"

section \<open>How arguments are written\<close>

definition flag_arg :: "string \<Rightarrow> bool \<Rightarrow> string multiset" where
  "flag_arg flag b = (if b then {#flag#} else {#})"

definition opt_arg :: "string \<Rightarrow> string option \<Rightarrow> string multiset" where
  "opt_arg flag v = (case v of None \<Rightarrow> {#} | Some x \<Rightarrow> {#flag, x#})"

definition name_arg :: "string option \<Rightarrow> string multiset" where
  "name_arg v = (case v of None \<Rightarrow> {#} | Some x \<Rightarrow> {#x#})"

lemma arg_cases [simp]:
  "opt_arg flag None = {#}" "opt_arg flag (Some x) = {#flag, x#}" "name_arg None = {#}" "name_arg (Some x) = {#x#}"
  by (simp_all add: opt_arg_def name_arg_def)

fun all_args :: "string \<Rightarrow> string list \<Rightarrow> string multiset" where
  "all_args flag [] = {#}"
| "all_args flag (v # vs) = {#flag, v#} + all_args flag vs"

definition caller_args :: "caller option \<Rightarrow> string multiset" where
  "caller_args c = (case c of
       None \<Rightarrow> {#}
     | Some (CallerAlias a) \<Rightarrow> {#''--sender'', a#}
     | Some (CallerId i) \<Rightarrow> {#''--sender-id'', i#}
     | Some (CallerPane p) \<Rightarrow> {#''--pane'', p#})"

definition target_written :: "caller option \<Rightarrow> string multiset \<Rightarrow> bool" where
  "target_written c A \<longleftrightarrow> A = caller_args c \<or> (\<exists>a. c = Some (CallerAlias a) \<and> A = {#a#})"

definition body_args :: "body_source \<Rightarrow> string multiset" where
  "body_args b = (case b of
       BodyStdin \<Rightarrow> {#''--stdin''#}
     | BodyFile path \<Rightarrow> {#''--file'', path#}
     | BodyLiteral text \<Rightarrow> {#''--body'', text#})"

definition named_body_args :: "string \<Rightarrow> string \<Rightarrow> body_source \<Rightarrow> string multiset \<Rightarrow> bool" where
  "named_body_args text_flag file_flag b A \<longleftrightarrow>
     (\<exists>v. b = BodyLiteral v \<and> A = {#text_flag, v#}) \<or> (\<exists>p. b = BodyFile p \<and> A = {#file_flag, p#})"

definition number_written :: "(string \<Rightarrow> string + 'n) \<Rightarrow> string \<Rightarrow> 'n option \<Rightarrow> string multiset \<Rightarrow> bool" where
  "number_written parse flag n A \<longleftrightarrow> (case n of
       None \<Rightarrow> A = {#}
     | Some v \<Rightarrow> \<exists>s. A = {#flag, s#} \<and> parse s = Inr v)"

definition due_written :: "string \<Rightarrow> due option \<Rightarrow> string multiset \<Rightarrow> bool" where
  "due_written verb d A \<longleftrightarrow> (case d of
       None \<Rightarrow> A = {#}
     | Some (DueAtMs ms) \<Rightarrow> verb \<noteq> ''ask'' \<and>
         ((\<exists>s. A = {#''--due-at-ms'', s#} \<and> rust_parse_i64 s = Some ms \<and> 0 \<le> ms)
          \<or> (\<exists>s. A = {#''--due-at'', s#} \<and> parse_utc_rfc3339_ms s = Inr ms))
     | Some (DueInMs ms) \<Rightarrow> verb \<noteq> ''ask'' \<and> (\<exists>s. A = {#''--due-in'', s#} \<and> parse_duration_ms s = Inr ms))"

definition attribution_args :: "attribution_target option \<Rightarrow> string multiset" where
  "attribution_args t = (case t of
       None \<Rightarrow> {#}
     | Some (TargetIncarnation i) \<Rightarrow> {#''--incarnation-id'', i#}
     | Some (TargetAgent i) \<Rightarrow> {#''--agent-id'', i#}
     | Some (TargetPane p) \<Rightarrow> {#''--pane'', p#}
     | Some (TargetAlias a) \<Rightarrow> {#a#})"

definition recipient_ids :: "recipient \<Rightarrow> string multiset" where
  "recipient_ids r = (case r of
       RecipientAlias _ \<Rightarrow> {#}
     | RecipientExact e \<Rightarrow> {#''--recipient-id'', er_recipient e#} + {#''--recipient-incarnation'', er_incarnation e#}
     | RecipientAgent i \<Rightarrow> {#''--recipient-id'', i#})"

definition recipient_name :: "recipient \<Rightarrow> string multiset" where
  "recipient_name r = (case r of RecipientAlias a \<Rightarrow> {#a#} | _ \<Rightarrow> {#})"

definition parent_args :: "start_parent \<Rightarrow> string multiset" where
  "parent_args p = (case p of StartParentless \<Rightarrow> {#''--parentless''#} | StartParentAgent i \<Rightarrow> {#''--parent-id'', i#})"

section \<open>The arguments used so far\<close>

definition taken :: "tokens \<Rightarrow> string multiset \<Rightarrow> bool" where
  "taken t A \<longleftrightarrow> used t \<subseteq> {..<length (items t)} \<and> A = image_mset ((!) (items t)) (mset_set (used t))"

lemma taken_new: "taken (new_tokens args) {#}"
  by (simp add: taken_def new_tokens_def)

lemma taken_finite: "taken t A \<Longrightarrow> finite (used t)"
  unfolding taken_def by (meson finite_lessThan finite_subset)

lemma taken_mark_one:
  assumes "taken t A" "i < length (items t)" "i \<notin> used t"
  shows "taken (mark_used {i} t) (A + {#items t ! i#})"
  using assms taken_finite [OF assms(1)] by (simp add: taken_def mark_used_def)

lemma taken_mark_two:
  assumes "taken t A" "i < length (items t)" "i \<notin> used t" "j < length (items t)" "j \<notin> used t" "i \<noteq> j"
  shows "taken (mark_used {i, j} t) (A + {#items t ! i, items t ! j#})"
  using assms taken_finite [OF assms(1)]
  by (simp add: taken_def mark_used_def insert_commute add_mset_commute)

lemma items_mark [simp]: "items (mark_used is t) = items t"
  by (simp add: mark_used_def)

text \<open>Nothing is left over exactly when every index is used, so then the used arguments are all of them.\<close>

lemma leftovers_from_Nil:
  "leftovers_from t i = [] \<Longrightarrow> i \<le> j \<Longrightarrow> j < length (items t) \<Longrightarrow> j \<in> used t"
proof (induction t i rule: leftovers_from.induct)
  case (1 t i)
  from "1.prems" have i: "i < length (items t)" by simp
  with "1.prems"(1) have u: "i \<in> used t" "leftovers_from t (i + 1) = []"
    by (subst (asm) leftovers_from.simps, simp add: Let_def split: if_split_asm)+
  show ?case
  proof (cases "i = j")
    case False
    with "1.prems"(2) have "i + 1 \<le> j" by simp
    from "1.IH"(1) [OF _ u this "1.prems"(3)] i show ?thesis by simp
  qed (use u in simp)
qed

lemma taken_all:
  assumes "taken t A" "leftovers t = []"
  shows "A = mset (items t)"
proof -
  have "used t = {0..<length (items t)}"
    using assms leftovers_from_Nil [of t 0] unfolding leftovers_def taken_def by auto
  then have "A = mset (map ((!) (items t)) [0..<length (items t)])"
    using assms(1) by (simp add: taken_def)
  then show ?thesis by (simp only: map_nth)
qed

section \<open>Taking operations\<close>

definition eats :: "string list \<Rightarrow> 'a take \<Rightarrow> string multiset \<Rightarrow> ('a \<Rightarrow> string multiset \<Rightarrow> bool) \<Rightarrow> bool" where
  "eats I m A Q \<longleftrightarrow> (\<forall>t x t'. items t = I \<and> taken t A \<and> m t = (Inr x, t')
     \<longrightarrow> items t' = I \<and> (\<exists>B. taken t' B \<and> Q x B))"

lemma eatsI:
  assumes "\<And>t x t'. items t = I \<Longrightarrow> taken t A \<Longrightarrow> m t = (Inr x, t') \<Longrightarrow> items t' = I \<and> (\<exists>B. taken t' B \<and> Q x B)"
  shows "eats I m A Q"
  using assms unfolding eats_def by blast

lemma eatsD:
  assumes "eats I m A (\<lambda>x B. B = f x)" "items t = I" "taken t A" "m t = (Inr x, t')"
  shows "items t' = I \<and> taken t' (f x)"
  using assms unfolding eats_def by blast

lemma eats_bind [eats_rules]:
  assumes "eats I m A (\<lambda>x B. eats I (f x) B Q)"
  shows "eats I (tbind m f) A Q"
proof (rule eatsI)
  fix t y t'
  assume t: "items t = I" "taken t A" and r: "tbind m f t = (Inr y, t')"
  from r obtain x s where m: "m t = (Inr x, s)" and f: "f x s = (Inr y, t')"
    by (auto simp: tbind_def split: prod.splits sum.splits)
  with assms t obtain B where "items s = I" "taken s B" "eats I (f x) B Q" unfolding eats_def by blast
  with f show "items t' = I \<and> (\<exists>B. taken t' B \<and> Q y B)" unfolding eats_def by blast
qed

lemma eats_mono: "eats I m A P \<Longrightarrow> (\<And>x B. P x B \<Longrightarrow> Q x B) \<Longrightarrow> eats I m A Q"
  unfolding eats_def by blast

lemma eats_tok [eats_rules]: "Q x A \<Longrightarrow> eats I (tok x) A Q"
  by (auto simp: eats_def tok_def)

lemma eats_error [eats_rules]: "eats I (usage_error e) A Q"
  by (simp add: eats_def usage_error_def)

lemma eats_lift [eats_rules]: "(\<And>x. r = Inr x \<Longrightarrow> Q x A) \<Longrightarrow> eats I (lift_result r) A Q"
  by (auto simp: eats_def lift_result_def)

lemma eats_check [eats_rules]: "(\<not> bad \<Longrightarrow> Q () A) \<Longrightarrow> eats I (check bad e) A Q"
  by (auto simp: eats_def check_def usage_error_def tok_def)

lemma eats_take_bool [eats_rules]:
  assumes "\<And>b. Q b (A + flag_arg flag b)"
  shows "eats I (take_bool flag) A Q"
proof (rule eatsI)
  fix t x t'
  assume t: "items t = I" "taken t A" and r: "take_bool flag t = (Inr x, t')"
  show "items t' = I \<and> (\<exists>B. taken t' B \<and> Q x B)"
  proof (cases "flag_hits flag t")
    case Nil
    with r t assms [of False] show ?thesis by (auto simp: take_bool_def flag_arg_def)
  next
    case (Cons i "is")
    note i = flag_hits_Cons [OF Cons]
    with Cons r have "x" and t': "t' = mark_used {i} t" by (auto simp: take_bool_def split: list.splits)
    with taken_mark_one [OF t(2), of i] i assms [of True] t show ?thesis by (auto simp: flag_arg_def)
  qed
qed

lemma eats_take_value [eats_rules]:
  assumes "\<And>v. Q v (A + opt_arg flag v)"
  shows "eats I (take_value flag) A Q"
proof (rule eatsI)
  fix t x t'
  assume t: "items t = I" "taken t A" and r: "take_value flag t = (Inr x, t')"
  show "items t' = I \<and> (\<exists>B. taken t' B \<and> Q x B)"
  proof (cases "flag_hits flag t")
    case Nil
    with r t assms [of None] show ?thesis by (auto simp: take_value_def opt_arg_def)
  next
    case (Cons i "is")
    note i = flag_hits_Cons [OF Cons]
    from Cons r have "x = Some (items t ! (i + 1))" "t' = mark_used {i, i + 1} t"
      "i + 1 < length (items t)" "i + 1 \<notin> used t" by (auto simp: take_value_def split: list.splits if_splits)
    with taken_mark_two [OF t(2), of i "i + 1"] i assms [of x] t show ?thesis by (auto simp: opt_arg_def)
  qed
qed

lemma eats_next_value:
  assumes "\<And>v. Q v (A + opt_arg flag v)"
  shows "eats I (take_next_value_inner flag d) A Q"
proof (rule eatsI)
  fix t x t'
  assume t: "items t = I" "taken t A" and r: "take_next_value_inner flag d t = (Inr x, t')"
  show "items t' = I \<and> (\<exists>B. taken t' B \<and> Q x B)"
  proof (cases "flag_hits flag t")
    case Nil
    with r t assms [of None] show ?thesis by (auto simp: take_next_value_inner_def opt_arg_def)
  next
    case (Cons i "is")
    note i = flag_hits_Cons [OF Cons]
    from Cons r have "x = Some (items t ! (i + 1))" "t' = mark_used {i, i + 1} t"
      "i + 1 < length (items t)" "i + 1 \<notin> used t" by (auto simp: take_next_value_inner_def split: list.splits if_splits)
    with taken_mark_two [OF t(2), of i "i + 1"] i assms [of x] t show ?thesis by (auto simp: opt_arg_def)
  qed
qed

lemma all_values_used:
  "take_all_values flag t = (Inr vs, t') \<Longrightarrow> taken t A \<Longrightarrow> items t' = items t \<and> taken t' (A + all_args flag vs)"
proof (induction flag t arbitrary: A vs t' rule: take_all_values.induct)
  case (1 flag t)
  obtain r s where step: "take_next_raw_value flag t = (r, s)" by fastforce
  have eats: "eats (items t) (take_next_raw_value flag) A (\<lambda>v B. B = A + opt_arg flag v)"
    unfolding take_next_raw_value_def by (rule eats_next_value) simp
  from "1.prems"(1) step consider (stop) "r = Inr None" "vs = []" "t' = s"
    | (more) v ws where "r = Inr (Some v)" "take_all_values flag s = (Inr ws, t')" "vs = v # ws"
    unfolding take_all_values.simps [of flag t] by (simp split: sum.splits option.splits prod.splits)
  then show ?case
  proof cases
    case stop
    with eatsD [OF eats refl "1.prems"(2)] step show ?thesis by (simp add: opt_arg_def)
  next
    case more
    with eatsD [OF eats refl "1.prems"(2)] step
    have s: "items s = items t" "taken s (A + {#flag, v#})" by (simp_all add: opt_arg_def)
    have "items t' = items s \<and> taken t' (A + {#flag, v#} + all_args flag ws)"
      by (rule "1.IH" [OF step [symmetric]]) (use more s in auto)
    with s more show ?thesis by (simp add: add.assoc)
  qed
qed

lemma eats_all_values [eats_rules]:
  assumes "\<And>vs. Q vs (A + all_args flag vs)"
  shows "eats I (take_all_values flag) A Q"
  using assms all_values_used unfolding eats_def by blast

lemma eats_positional [eats_rules]:
  assumes "\<And>v. Q v (A + name_arg v)"
  shows "eats I take_positional A Q"
proof (rule eatsI)
  fix t x t'
  assume t: "items t = I" "taken t A" and r: "take_positional t = (Inr x, t')"
  show "items t' = I \<and> (\<exists>B. taken t' B \<and> Q x B)"
  proof (cases "positional_hits t")
    case Nil
    with r t assms [of None] show ?thesis by (auto simp: take_positional_def name_arg_def)
  next
    case (Cons i "is")
    then have "i \<in> set (positional_hits t)" by simp
    then have i: "i < length (items t)" "i \<notin> used t" by (auto simp: positional_hits_def)
    from Cons r have "x = Some (items t ! i)" "t' = mark_used {i} t" by (auto simp: take_positional_def)
    with taken_mark_one [OF t(2) i] assms [of x] t show ?thesis by (auto simp: name_arg_def)
  qed
qed

lemma eats_required [eats_rules]:
  assumes "eats I m A (\<lambda>v B. \<forall>x. v = Some x \<longrightarrow> Q x B)"
  shows "eats I (required e m) A Q"
  unfolding required_def
  by (rule eats_bind, rule eats_mono [OF assms], rule eats_lift) (simp add: ok_or_eq_Inr)

lemma eats_finish [eats_rules]:
  assumes "mset I = A \<Longrightarrow> Q () A"
  shows "eats I (finish command) A Q"
  using assms taken_all by (force simp: eats_def finish_def Let_def split: if_splits)

section \<open>Argument groups\<close>

lemma eats_caller [eats_rules]:
  assumes "\<And>c. Q c (A + caller_args c)"
  shows "eats I take_caller A Q"
proof -
  have q: "B = A + caller_args c \<Longrightarrow> Q c B" for c B using assms by simp
  show ?thesis
    unfolding take_caller_def
    by (intro eats_rules) (auto split: option.split intro!: eats_rules q simp: opt_arg_def caller_args_def)
qed

lemma eats_target [eats_rules]:
  assumes "\<And>c B. target_written c B \<Longrightarrow> Q c (A + B)"
  shows "eats I (take_single_target command) A Q"
proof -
  have q: "target_written c B \<Longrightarrow> D = A + B \<Longrightarrow> Q c D" for c B D using assms by simp
  have 1: "Q None (A + caller_args None + name_arg None)"
    by (rule q [of None "{#}"]) (simp_all add: target_written_def caller_args_def name_arg_def)
  have 2: "Q (Some (CallerAlias a)) (A + caller_args None + name_arg (Some a))" for a
    by (rule q [of _ "{#a#}"]) (simp_all add: target_written_def caller_args_def name_arg_def)
  have 3: "Q (Some c) (A + caller_args (Some c) + name_arg None)" for c
    by (rule q [of _ "caller_args (Some c)"]) (simp_all add: target_written_def name_arg_def)
  show ?thesis
    unfolding take_single_target_def
    by (intro eats_rules)
      (auto split: option.split intro!: eats_rules 1 [simplified] 2 [simplified] 3 [simplified])
qed

lemma eats_body [eats_rules]:
  assumes "\<And>b. Q b (A + body_args b)"
  shows "eats I (take_body verb) A Q"
proof -
  have q: "B = A + body_args b \<Longrightarrow> Q b B" for b B using assms by simp
  show ?thesis
    unfolding take_body_def
    by (intro eats_rules) (auto split: option.split bool.split intro!: eats_rules q simp: opt_arg_def flag_arg_def body_args_def)
qed

lemma eats_named_body [eats_rules]:
  assumes "\<And>b B. named_body_args text_flag file_flag b B \<Longrightarrow> Q b (A + B)"
  shows "eats I (take_named_body verb text_flag file_flag) A Q"
proof -
  have q: "named_body_args text_flag file_flag b B \<Longrightarrow> D = A + B \<Longrightarrow> Q b D" for b B D using assms by simp
  have 1: "Q (BodyLiteral v) (add_mset text_flag (add_mset v A))" "Q (BodyFile v) (add_mset file_flag (add_mset v A))" for v
    by (rule q [of _ "{#_, v#}"]; simp add: named_body_args_def)+
  show ?thesis
    unfolding take_named_body_def
    by (intro eats_rules) (auto split: list.split intro!: eats_rules 1 simp: 1)
qed

lemma eats_due [eats_rules]:
  assumes "\<And>d B. due_written verb d B \<Longrightarrow> Q d (A + B)"
  shows "eats I (take_due verb) A Q"
proof -
  have 0: "Q None A" using assms [of None "{#}"] by (simp add: due_written_def)
  have 1: "Q (Some (DueAtMs ms)) (add_mset ''--due-at-ms'' (add_mset s A))" if "verb \<noteq> ''ask''" "rust_parse_i64 s = Some ms" "\<not> ms < 0" for ms s
    using assms [of "Some (DueAtMs ms)" "{#''--due-at-ms'', s#}"] that by (auto simp: due_written_def)
  have 2: "Q (Some (DueInMs ms)) (add_mset ''--due-in'' (add_mset s A))" if "verb \<noteq> ''ask''" "parse_duration_ms s = Inr ms" for ms s
    using assms [of "Some (DueInMs ms)" "{#''--due-in'', s#}"] that by (auto simp: due_written_def)
  have 3: "Q (Some (DueAtMs ms)) (add_mset ''--due-at'' (add_mset s A))" if "verb \<noteq> ''ask''" "parse_utc_rfc3339_ms s = Inr ms" for ms s
    using assms [of "Some (DueAtMs ms)" "{#''--due-at'', s#}"] that by (auto simp: due_written_def)
  show ?thesis
    unfolding take_due_def
    by (intro eats_rules) (auto split: list.split option.split intro!: eats_rules 0 1 2 3 simp: 0 1 2 3)
qed

lemma eats_reply_delivery [eats_rules]:
  assumes "\<And>v. v = None \<or> verb \<noteq> ''tell'' \<and> (v = Some ''inject'' \<or> v = Some ''pull'') \<Longrightarrow> Q v (A + opt_arg ''--reply-delivery'' v)"
  shows "eats I (take_reply_delivery verb) A Q"
proof -
  have q: "v = None \<or> verb \<noteq> ''tell'' \<and> (v = Some ''inject'' \<or> v = Some ''pull'') \<Longrightarrow> B = A + opt_arg ''--reply-delivery'' v \<Longrightarrow> Q v B" for v B
    using assms by simp
  show ?thesis
    unfolding take_reply_delivery_def
    by (intro eats_rules) (auto split: option.split intro!: eats_rules q)
qed

lemma eats_optional_attribution [eats_rules]:
  assumes "\<And>v. Q v (A + attribution_args v)"
  shows "eats I (take_optional_attribution_target command) A Q"
proof -
  have q: "B = A + attribution_args v \<Longrightarrow> Q v B" for v B using assms by simp
  show ?thesis
    unfolding take_optional_attribution_target_def
    by (intro eats_rules) (auto split: option.split intro!: eats_rules q simp: opt_arg_def name_arg_def attribution_args_def)
qed

section \<open>Commands and their arguments\<close>

text \<open>
  How a command is written: the arguments behind the verb, as a multiset. A number is written by
  some text that parses to it; a target given by name may be positional; an attribution without a
  target stands for the calling pane of the environment.
\<close>

fun command_verb :: "command \<Rightarrow> string" where
  "command_verb (CTell _ _ _ _ _ _) = ''tell''"
| "command_verb (CAsk _ _ _ _ _ _ _ _ _) = ''ask''"
| "command_verb (CReply _ _ _ _ _) = ''reply''"
| "command_verb (CClear _ _) = ''clear''"
| "command_verb (CRenew _) = ''renew''"
| "command_verb (CPending _) = ''pending''"
| "command_verb CRecover = ''recover''"
| "command_verb (CWhoami _) = ''whoami''"
| "command_verb (CWho _ _ _ _ _) = ''who''"
| "command_verb (CAttribution _ _) = ''attribution''"
| "command_verb (CReport _ _) = ''report''"
| "command_verb (CNameInfo _) = ''name-info''"
| "command_verb (CAskInfo _) = ''ask-info''"
| "command_verb (CRename _ _) = ''rename''"
| "command_verb (CAdopt _) = ''adopt''"
| "command_verb (CNotice _) = ''notice''"
| "command_verb CNotices = ''notices''"
| "command_verb (CCancel _ _ _) = ''cancel''"
| "command_verb (CRenewCancel _ _ _) = ''renew-cancel''"
| "command_verb (CScheduleCancel _ _ _) = ''schedule-cancel''"
| "command_verb (CSchedules _) = ''schedules''"
| "command_verb (CReminderSnooze _ _ _ _) = ''reminder-snooze''"
| "command_verb (CReminderInterval _ _ _) = ''reminder-interval''"
| "command_verb (CReminderDisable _ _) = ''reminder-disable''"
| "command_verb (CRetire _ _ _) = ''retire''"
| "command_verb (CStart sc) = (if sc_supersedes sc = None then ''start'' else ''handoff'')"
| "command_verb (CWaiterRegister _ _ _) = ''waiter-register''"
| "command_verb (CWaiterRetire _) = ''waiter-retire''"
| "command_verb (CRepliesClaim _ _) = ''replies-claim''"
| "command_verb (CReplies _ _ _ _ _) = ''replies''"
| "command_verb (CRepliesAck _ _ _ _) = ''replies-ack''"

definition renew_written :: "renew_args \<Rightarrow> string multiset \<Rightarrow> bool" where
  "renew_written r A \<longleftrightarrow> (\<exists>P R T E D.
     A = (case ra_recipient r of None \<Rightarrow> {#}
            | Some e \<Rightarrow> {#''--recipient-id'', er_recipient e#} + {#''--recipient-incarnation'', er_incarnation e#})
         + caller_args (ra_requester r) + P + R + opt_arg ''--idempotency-key'' (ra_idempotency_key r)
         + {#''--on-timeout'', ra_on_timeout r#} + T + E + D
     \<and> ra_on_timeout r \<in> {''abort'', ''proceed''}
     \<and> named_body_args ''--prepare-prompt'' ''--prepare-prompt-file'' (ra_prepare_prompt r) P
     \<and> named_body_args ''--prompt'' ''--prompt-file'' (ra_prompt r) R
     \<and> (T = {#} \<and> ra_prepare_timeout_ms r = DEFAULT_PREPARE_TIMEOUT_MS
        \<or> number_written (parse_duration_for ''--prepare-timeout'') ''--prepare-timeout'' (Some (ra_prepare_timeout_ms r)) T
        \<or> number_written (positive_i64 ''--prepare-timeout-ms must be a positive integer'') ''--prepare-timeout-ms''
            (Some (ra_prepare_timeout_ms r)) T)
     \<and> number_written (parse_duration_for ''--every'') ''--every'' (ra_every_ms r) E
     \<and> due_written ''renew'' (ra_due r) D \<and> (ra_every_ms r = None \<or> ra_due r = None))"

definition adopt_written :: "adopt_args \<Rightarrow> string multiset \<Rightarrow> bool" where
  "adopt_written a A \<longleftrightarrow> (\<exists>session.
     A = {#''--pane'', aa_pane_id a#} + {#''--terminal'', aa_terminal_id a#} + opt_arg ''--name'' (aa_public_name a)
         + opt_arg ''--backend'' (aa_backend_kind a) + opt_arg ''--logical-id'' (aa_logical_agent_id a)
         + opt_arg ''--session'' session + all_args ''--arg'' (aa_backend_args a)
         + opt_arg ''--requested-model'' (aa_requested_model a) + opt_arg ''--requested-provider'' (aa_requested_provider a)
         + opt_arg ''--requested-effort'' (aa_requested_effort a) + opt_arg ''--idempotency-key'' (aa_idempotency_key a)
     \<and> aa_herdr_session a = unwrap_or ''default'' session)"

definition start_written :: "start_command \<Rightarrow> string multiset \<Rightarrow> bool" where
  "start_written c A \<longleftrightarrow> (\<exists>timeout session.
     A = opt_arg ''--replace'' (sc_supersedes c) + {#''--name'', sc_public_name c#} + {#''--pane'', sc_pane_id c#}
         + {#''--terminal'', sc_terminal_id c#} + {#''--backend'', sc_backend_kind c#}
         + {#''--cwd'', sc_working_directory c#} + {#''--timeout-ms'', timeout#}
         + {#if sc_keep_open c then ''--keep-open'' else ''--no-keep-open''#} + parent_args (sc_parent c)
         + {#''--'' @ sc_initial_kind c#} + opt_arg ''--sender-id'' (sc_initial_sender c) + body_args (sc_body c)
         + all_args ''--arg'' (sc_backend_args c) + opt_arg ''--logical-id'' (sc_logical_agent_id c)
         + opt_arg ''--session'' session + opt_arg ''--requested-model'' (sc_requested_model c)
         + opt_arg ''--requested-provider'' (sc_requested_provider c)
         + opt_arg ''--requested-effort'' (sc_requested_effort c)
         + opt_arg ''--idempotency-key'' (sc_idempotency_key c) + opt_arg ''--reply-delivery'' (sc_reply_delivery c)
     \<and> rust_parse_u64 timeout = Some (sc_readiness_timeout_ms c)
     \<and> sc_herdr_session c = unwrap_or ''default'' session \<and> sc_initial_kind c \<in> {''tell'', ''ask''}
     \<and> (sc_reply_delivery c = None \<or> sc_initial_kind c = ''ask''))"

fun command_written :: "(string \<Rightarrow> string option) \<Rightarrow> command \<Rightarrow> string multiset \<Rightarrow> bool" where
  "command_written env (CTell r b s k d e) A \<longleftrightarrow> (\<exists>D E.
     A = recipient_ids r + caller_args s + body_args b + opt_arg ''--idempotency-key'' k + D + E + recipient_name r
     \<and> due_written ''tell'' d D \<and> number_written (parse_duration_for ''--every'') ''--every'' e E
     \<and> (d = None \<or> e = None) \<and> ((\<exists>i. r = RecipientAgent i) \<longrightarrow> e \<noteq> None))"
| "command_written env (CAsk r b s k d m n f v) A \<longleftrightarrow> (\<exists>M.
     A = recipient_ids r + caller_args s + body_args b + opt_arg ''--idempotency-key'' k + M + flag_arg ''--no-remind'' n
         + (if f then {#''--from'', ''operator''#} else {#}) + opt_arg ''--reply-delivery'' v + recipient_name r
     \<and> d = None \<and> number_written (positive_i64 ''ask --remind-after-ms must be a positive integer'') ''--remind-after-ms'' m M
     \<and> \<not> (m \<noteq> None \<and> n) \<and> v \<in> {None, Some ''inject'', Some ''pull''} \<and> (\<forall>i. r \<noteq> RecipientAgent i))"
| "command_written env (CReply i q b d k) A \<longleftrightarrow>
     A = {#''--'' @ d#} + body_args b + opt_arg ''--idempotency-key'' k + caller_args q + {#i#} \<and> d \<in> {''progress'', ''final''}"
| "command_written env (CClear r k) A \<longleftrightarrow>
     A = recipient_ids r + opt_arg ''--idempotency-key'' k + recipient_name r \<and> (\<forall>i. r \<noteq> RecipientAgent i)"
| "command_written env (CRenew r) A \<longleftrightarrow> renew_written r A"
| "command_written env (CPending c) A \<longleftrightarrow> target_written c A"
| "command_written env CRecover A \<longleftrightarrow> A = {#}"
| "command_written env (CWhoami c) A \<longleftrightarrow> target_written c A"
| "command_written env (CWho t a h r f) A \<longleftrightarrow>
     A = flag_arg ''--history'' h + flag_arg ''--resolve'' r + flag_arg ''--refresh'' f + attribution_args t"
| "command_written env (CAttribution t f) A \<longleftrightarrow>
     A = flag_arg ''--refresh'' f + attribution_args (Some t)
     \<or> A = flag_arg ''--refresh'' f \<and> (\<exists>p. env ''HERDR_PANE_ID'' = Some p \<and> p \<noteq> [] \<and> t = TargetPane p)"
| "command_written env (CReport l a) A \<longleftrightarrow> A = flag_arg ''--live'' l + flag_arg ''--active'' a"
| "command_written env (CNameInfo n) A \<longleftrightarrow> A = {#n#}"
| "command_written env (CAskInfo i) A \<longleftrightarrow> A = {#i#}"
| "command_written env (CRename c n) A \<longleftrightarrow> (\<exists>C. A = {#''--name'', n#} + C \<and> target_written c C)"
| "command_written env (CAdopt a) A \<longleftrightarrow> adopt_written a A"
| "command_written env (CNotice b) A \<longleftrightarrow> A = body_args b"
| "command_written env CNotices A \<longleftrightarrow> A = {#}"
| "command_written env (CCancel i r q) A \<longleftrightarrow> A = {#''--reason'', r#} + caller_args q + {#i#}"
| "command_written env (CRenewCancel i r q) A \<longleftrightarrow> A = caller_args q + {#''--reason'', r#} + {#i#}"
| "command_written env (CScheduleCancel i r q) A \<longleftrightarrow> A = caller_args q + {#''--reason'', r#} + {#i#}"
| "command_written env (CSchedules c) A \<longleftrightarrow> target_written c A"
| "command_written env (CReminderSnooze i u f q) A \<longleftrightarrow> (\<exists>U F. A = caller_args q + U + F + {#i#}
     \<and> number_written (non_negative_i64 ''--until-ms must be a non-negative integer'') ''--until-ms'' u U
     \<and> number_written (parse_duration_for ''--for'') ''--for'' f F \<and> (u = None) = (f \<noteq> None))"
| "command_written env (CReminderInterval i e q) A \<longleftrightarrow> (\<exists>E. A = caller_args q + E + {#i#}
     \<and> number_written (parse_duration_for ''--every'') ''--every'' (Some e) E)"
| "command_written env (CReminderDisable i q) A \<longleftrightarrow> A = caller_args q + {#i#}"
| "command_written env (CRetire i k c) A \<longleftrightarrow>
     A = {#''--incarnation'', i#} + opt_arg ''--idempotency-key'' k + flag_arg ''--close-pane'' c"
| "command_written env (CStart c) A \<longleftrightarrow> start_written c A"
| "command_written env (CWaiterRegister n p k) A \<longleftrightarrow>
     A = {#''--name'', n#} + parent_args p + opt_arg ''--idempotency-key'' k"
| "command_written env (CWaiterRetire t) A \<longleftrightarrow>
     (case t of AgentId i \<Rightarrow> A = {#''--logical-id'', i#} | AgentAlias a \<Rightarrow> A = {#a#})"
| "command_written env (CRepliesClaim i q) A \<longleftrightarrow> A = {#i#} + caller_args q"
| "command_written env (CReplies i a l t q) A \<longleftrightarrow> (\<exists>T. A = {#i#} + {#''--after'', a#} + opt_arg ''--lease'' l + T + caller_args q
     \<and> (t = Some 0 \<and> (T = {#''--timeout'', ''0''#} \<or> T = {#''--timeout'', ''0s''#})
        \<or> number_written (parse_duration_for ''--timeout'') ''--timeout'' t T \<and> (\<forall>ms. t = Some ms \<longrightarrow> ms \<le> 60000)))"
| "command_written env (CRepliesAck i m l q) A \<longleftrightarrow> A = {#i#} + {#m#} + {#''--lease'', l#} + caller_args q"

abbreviation accepts :: "(string \<Rightarrow> string option) \<Rightarrow> string list \<Rightarrow> string \<Rightarrow> command take \<Rightarrow> bool" where
  "accepts env args verb m \<equiv> eats args m {#} (\<lambda>c B. command_verb c = verb \<and> command_written env c (mset args))"

lemma run_accepts:
  "accepts env args verb m \<Longrightarrow> run_take args m = Inr c \<Longrightarrow> command_verb c = verb \<and> command_written env c (mset args)"
  using taken_new [of args] unfolding eats_def run_take_def
  by (metis fst_conv new_tokens_def prod.collapse tokens.select_convs(1))

lemmas arg_simps = opt_arg_def name_arg_def flag_arg_def number_written_def ok_or_eq_Inr rbind_eq_Inr

lemma accepts_clear: "accepts env args ''clear'' parse_clear"
  unfolding parse_clear_def
  by (intro eats_rules) (auto split: option.split intro!: eats_rules simp: opt_arg_def name_arg_def recipient_ids_def recipient_name_def)

lemma accepts_reply: "accepts env args ''reply'' parse_reply"
  unfolding parse_reply_def
  by (intro eats_rules allI impI) (auto split: bool.split intro!: eats_rules simp: flag_arg_def name_arg_def)

lemma accepts_small:
  "accepts env args ''pending'' parse_pending"
  "accepts env args ''schedules'' parse_schedules"
  "accepts env args ''whoami'' parse_whoami"
  "accepts env args ''ask-info'' parse_ask_info"
  "accepts env args ''name-info'' parse_name_info"
  "accepts env args ''notice'' parse_notice"
  "accepts env args ''report'' parse_report"
  "accepts env args ''recover'' (tbind (finish ''recover'') (\<lambda>_. tok CRecover))"
  "accepts env args ''notices'' (tbind (finish ''notices'') (\<lambda>_. tok CNotices))"
  unfolding parse_pending_def parse_schedules_def parse_whoami_def parse_ask_info_def parse_name_info_def
    parse_notice_def parse_report_def
  by (intro eats_rules allI impI; simp add: name_arg_def opt_arg_def)+

lemma accepts_ids:
  "accepts env args ''cancel'' parse_cancel"
  "accepts env args ''renew-cancel'' parse_renew_cancel"
  "accepts env args ''schedule-cancel'' parse_schedule_cancel"
  "accepts env args ''reminder-disable'' parse_reminder_disable"
  "accepts env args ''retire'' parse_retire"
  "accepts env args ''replies-claim'' parse_replies_claim"
  "accepts env args ''replies-ack'' parse_replies_ack"
  unfolding parse_cancel_def parse_renew_cancel_def parse_schedule_cancel_def parse_reminder_disable_def
    parse_retire_def parse_replies_claim_def parse_replies_ack_def
  by (intro eats_rules allI impI; simp add: name_arg_def opt_arg_def)+

lemma accepts_rename: "accepts env args ''rename'' parse_rename"
  unfolding parse_rename_def by (intro eats_rules allI impI) (auto simp: opt_arg_def)

lemma accepts_waiter_retire: "accepts env args ''waiter-retire'' parse_waiter_retire"
  unfolding parse_waiter_retire_def
  by (intro eats_rules) (auto split: option.split intro!: eats_rules simp: opt_arg_def name_arg_def)

lemma accepts_reminder_interval: "accepts env args ''reminder-interval'' parse_reminder_interval"
  unfolding parse_reminder_interval_def
  by (intro eats_rules allI impI) (auto simp: opt_arg_def name_arg_def number_written_def)

lemma number_of_transpose:
  "transpose_result f v = Inr n \<Longrightarrow> number_written f flag n (opt_arg flag v) \<and> (n = None) = (v = None)"
  by (cases v) (auto simp: transpose_result_def number_written_def opt_arg_def rbind_eq_Inr)

lemma accepts_reminder_snooze: "accepts env args ''reminder-snooze'' parse_reminder_snooze"
  unfolding parse_reminder_snooze_def
proof (intro eats_rules allI impI conjI, goal_cases)
  case (2 q until duration u f v i)
  note number_of_transpose [OF 2(2), of "''--until-ms''"] number_of_transpose [OF 2(3), of "''--for''"]
  with 2(1) show ?case unfolding command_written.simps
    by (rule_tac x = "opt_arg ''--until-ms'' until" in exI, rule_tac x = "opt_arg ''--for'' duration" in exI)
      (use 2 in \<open>auto simp: name_arg_def\<close>)
qed simp

lemma accepts_who: "accepts env args ''who'' (parse_who raw)"
  unfolding parse_who_def Let_def by (intro eats_rules allI impI) simp

lemma accepts_attribution: "accepts env args ''attribution'' (parse_attribution env)"
  unfolding parse_attribution_def take_attribution_target_def
  by (intro eats_rules allI impI)
    (auto simp: ok_or_eq_Inr attribution_args_def split: option.splits if_splits)

lemma accepts_replies: "accepts env args ''replies'' parse_replies"
proof -
  have t: "eats I (case timeout of None \<Rightarrow> tok None
            | Some value \<Rightarrow> if value = ''0'' \<or> value = ''0s'' then tok (Some 0)
                else tbind (lift_result (parse_duration_for ''--timeout'' value)) (\<lambda>parsed.
                  if 60000 < parsed then usage_error ''replies --timeout must be at most 60s'' else tok (Some parsed)))
       A Q"
    if "\<And>t. t = Some 0 \<and> (timeout = Some ''0'' \<or> timeout = Some ''0s'')
        \<or> number_written (parse_duration_for ''--timeout'') ''--timeout'' t (opt_arg ''--timeout'' timeout)
           \<and> (\<forall>ms. t = Some ms \<longrightarrow> ms \<le> 60000) \<Longrightarrow> Q t A" for I timeout A Q
    using that by (auto split: option.split intro!: eats_rules that simp: number_written_def opt_arg_def)
  show ?thesis
    unfolding parse_replies_def
    by (intro eats_rules t allI impI) (auto simp: name_arg_def opt_arg_def)
qed

lemma every_written:
  "renew_every vs = Inr e \<Longrightarrow> number_written (parse_duration_for ''--every'') ''--every'' e (all_args ''--every'' vs)"
  by (auto simp: renew_every_def number_written_def rbind_eq_Inr split: list.splits)

lemma prepare_timeout_written:
  "renew_prepare_timeout vs ws = Inr ms \<Longrightarrow>
     (let T = all_args ''--prepare-timeout'' vs + all_args ''--prepare-timeout-ms'' ws in
      T = {#} \<and> ms = DEFAULT_PREPARE_TIMEOUT_MS
      \<or> number_written (parse_duration_for ''--prepare-timeout'') ''--prepare-timeout'' (Some ms) T
      \<or> number_written (positive_i64 ''--prepare-timeout-ms must be a positive integer'') ''--prepare-timeout-ms'' (Some ms) T)"
  by (auto simp: renew_prepare_timeout_def number_written_def split: list.splits)

lemma on_timeout_written: "renew_on_timeout v = Inr t \<Longrightarrow> v = Some t \<and> t \<in> {''abort'', ''proceed''}"
  by (auto simp: renew_on_timeout_def split: option.splits if_splits)

lemma renew_recipient_written:
  "renew_recipient p i j = Inr r \<Longrightarrow> p = None \<and> opt_arg ''--recipient-id'' i + opt_arg ''--recipient-incarnation'' j
     = (case r of None \<Rightarrow> {#}
        | Some e \<Rightarrow> {#''--recipient-id'', er_recipient e#} + {#''--recipient-incarnation'', er_incarnation e#})"
  by (auto simp: renew_recipient_def opt_arg_def split: option.splits)

lemma accepts_renew: "accepts env args ''renew'' parse_renew"
  unfolding parse_renew_def
proof (intro eats_rules allI impI conjI, goal_cases)
  case (2 i j q P B R C k ot t vs ws ms es e d D p r)
  note written = on_timeout_written [OF 2(3)] prepare_timeout_written [OF 2(4), unfolded Let_def]
    every_written [OF 2(5)] renew_recipient_written [OF 2(9)]
  show ?case
    unfolding command_written.simps renew_written_def renew_args.simps
    by (rule exI [of _ B], rule exI [of _ C],
        rule exI [of _ "all_args ''--prepare-timeout'' vs + all_args ''--prepare-timeout-ms'' ws"],
        rule exI [of _ "all_args ''--every'' es"], rule exI [of _ D])
      (use 2 written in \<open>simp add: add.assoc [symmetric]\<close>)
qed simp

lemma message_every_written:
  "message_every verb vs = Inr e \<Longrightarrow> number_written (parse_duration_for ''--every'') ''--every'' e (all_args ''--every'' vs)
     \<and> (e = None \<longleftrightarrow> vs = []) \<and> (verb \<noteq> ''tell'' \<longrightarrow> vs = [])"
  by (auto simp: message_every_def number_written_def rbind_eq_Inr split: list.splits if_splits)

lemma message_reminder_written:
  "message_reminder verb vs = Inr m \<Longrightarrow>
     number_written (positive_i64 ''ask --remind-after-ms must be a positive integer'') ''--remind-after-ms'' m
       (all_args ''--remind-after-ms'' vs)
     \<and> (m = None \<longleftrightarrow> vs = []) \<and> (verb \<noteq> ''ask'' \<longrightarrow> vs = [])"
  by (auto simp: message_reminder_def number_written_def rbind_eq_Inr split: list.splits if_splits)

lemma message_from_written:
  "message_from verb v = Inr f \<Longrightarrow> opt_arg ''--from'' v = (if f then {#''--from'', ''operator''#} else {#})
     \<and> (verb \<noteq> ''ask'' \<longrightarrow> \<not> f)"
  by (auto simp: message_from_def split: option.splits if_splits)

lemma message_recipient_written:
  "message_recipient verb e p i j = Inr r \<Longrightarrow>
     opt_arg ''--recipient-id'' i + opt_arg ''--recipient-incarnation'' j = recipient_ids r
     \<and> name_arg p = recipient_name r \<and> ((\<exists>k. r = RecipientAgent k) \<longrightarrow> verb = ''tell'' \<and> e \<noteq> None)"
  by (auto simp: message_recipient_def recipient_ids_def recipient_name_def split: option.splits if_splits)

lemma accepts_message:
  assumes verb: "verb = ''tell'' \<or> verb = ''ask''"
  shows "accepts env args verb (parse_message_command verb)"
  unfolding parse_message_command_def
proof (intro eats_rules, goal_cases)
  case (1 i j s b k d D es e rs n m f fo v p r)
  note written = message_every_written [OF 1(2)] message_reminder_written [OF 1(4)] message_from_written [OF 1(7)]
    message_recipient_written [OF 1(10)]
  show ?case
  proof (cases "verb = ''tell''")
    case True
    with written 1(5) have none: "rs = []" "\<not> fo" "n = False" by auto
    from 1(8) True have "v = None" by simp
    moreover from 1(9) written none this have "mset args
        = recipient_ids r + caller_args s + body_args b + opt_arg ''--idempotency-key'' k + D + all_args ''--every'' es
          + recipient_name r"
      by (simp add: flag_arg_def)
    ultimately have "command_written env (CTell r b s k d e) (mset args)"
      unfolding command_written.simps
      by (intro exI [of _ D] exI [of _ "all_args ''--every'' es"]) (use True 1(1,3) written in auto)
    with True show ?thesis by (simp add: eats_tok)
  next
    case False
    with verb have ask: "verb = ''ask''" by simp
    with 1(1) have d: "d = None" "D = {#}" by (auto simp: due_written_def split: option.splits due.splits)
    from False written have "es = []" by simp
    with 1(9) written d have "mset args
        = recipient_ids r + caller_args s + body_args b + opt_arg ''--idempotency-key'' k
          + all_args ''--remind-after-ms'' rs + flag_arg ''--no-remind'' n
          + (if fo then {#''--from'', ''operator''#} else {#}) + opt_arg ''--reply-delivery'' v + recipient_name r"
      by simp
    with ask d 1(6,8) written show ?thesis by (auto intro!: eats_rules)
  qed
qed

section \<open>Noting operations\<close>

text \<open>Problems are only ever added, so a parse without problems had none at any step.\<close>

definition grows :: "'a noting \<Rightarrow> bool" where
  "grows m \<longleftrightarrow> (\<forall>s. \<exists>new. fst (snd (m s)) = fst s @ new)"

definition collects :: "string list \<Rightarrow> 'a noting \<Rightarrow> string multiset \<Rightarrow> ('a \<Rightarrow> string multiset \<Rightarrow> bool) \<Rightarrow> bool" where
  "collects I m A Q \<longleftrightarrow> (\<forall>ps t x t'. items t = I \<and> taken t A \<and> m (ps, t) = (x, [], t')
     \<longrightarrow> ps = [] \<and> items t' = I \<and> (\<exists>B. taken t' B \<and> Q x B))"

named_theorems grows_rules "noting operations only add problems"

lemma grows_bind [grows_rules]:
  assumes m: "grows m" and f: "\<And>x. grows (f x)"
  shows "grows (nbind m f)"
  unfolding grows_def
proof
  fix s
  obtain x s' where 1: "m s = (x, s')" by (cases "m s")
  with m obtain new where "fst s' = fst s @ new" unfolding grows_def by (metis snd_conv)
  moreover obtain more where "fst (snd (f x s')) = fst s' @ more" using f unfolding grows_def by blast
  ultimately show "\<exists>new. fst (snd (nbind m f s)) = fst s @ new" by (simp add: nbind_def 1)
qed

lemma grows_basic [grows_rules]:
  "grows (nok x)" "grows (note_problem p)" "grows (noted d m)" "grows (problems_value flag)"
  "grows (problems_switch flag)" "grows (problems_required flag)" "grows (note_when bad p)"
  by (auto simp: grows_def nok_def note_problem_def noted_def problems_value_def problems_switch_def
      problems_required_def note_when_def split: prod.split sum.split option.split)

lemma grows_groups [grows_rules]:
  "grows (take_keep_open c)" "grows (take_parent c)" "grows (take_initial_kind c)"
  "grows take_readiness_timeout" "grows take_start_reply_delivery"
  unfolding take_keep_open_def take_parent_def take_initial_kind_def take_readiness_timeout_def
    take_start_reply_delivery_def Let_def
  by (intro grows_rules; simp add: grows_rules split: option.split bool.split)+

lemma collects_bind [collects_rules]:
  assumes f: "\<And>x. grows (f x)" and m: "collects I m A (\<lambda>x B. collects I (f x) B Q)"
  shows "collects I (nbind m f) A Q"
  unfolding collects_def
proof (intro allI impI)
  fix ps t y t'
  assume a: "items t = I \<and> taken t A \<and> nbind m f (ps, t) = (y, [], t')"
  obtain x qs s where 1: "m (ps, t) = (x, qs, s)" by (metis prod_cases3)
  with a have 2: "f x (qs, s) = (y, [], t')" by (simp add: nbind_def)
  with f [of x] have "qs = []" unfolding grows_def by (metis append_is_Nil_conv fst_conv snd_conv)
  with 1 m a have "ps = []" and B: "\<exists>B. taken s B \<and> items s = I \<and> collects I (f x) B Q" unfolding collects_def by blast+
  with 2 show "ps = [] \<and> items t' = I \<and> (\<exists>B. taken t' B \<and> Q y B)" unfolding collects_def by blast
qed

lemma collects_nok [collects_rules]: "Q x A \<Longrightarrow> collects I (nok x) A Q"
  by (auto simp: collects_def nok_def)

lemma collects_note [collects_rules]: "collects I (note_problem p) A Q"
  by (simp add: collects_def note_problem_def)

lemma collects_when [collects_rules]: "(\<not> bad \<Longrightarrow> Q () A) \<Longrightarrow> collects I (note_when bad p) A Q"
  by (auto simp: collects_def note_when_def note_problem_def nok_def)

lemma collects_noted [collects_rules]: "eats I m A Q \<Longrightarrow> collects I (noted d m) A Q"
  unfolding collects_def noted_def eats_def by (auto split: prod.splits sum.splits)

lemma collects_value [collects_rules]: "(\<And>v. Q v (A + opt_arg flag v)) \<Longrightarrow> collects I (problems_value flag) A Q"
  unfolding problems_value_def by (intro collects_rules eats_rules)

lemma collects_switch [collects_rules]: "(\<And>b. Q b (A + flag_arg flag b)) \<Longrightarrow> collects I (problems_switch flag) A Q"
  unfolding problems_switch_def by (intro collects_rules eats_rules)

lemma collects_required [collects_rules]:
  assumes "\<And>v. Q (Some v) (A + {#flag, v#})"
  shows "collects I (problems_required flag) A Q"
  unfolding collects_def
proof (intro allI impI)
  fix ps t x t'
  assume a: "items t = I \<and> taken t A \<and> problems_required flag (ps, t) = (x, [], t')"
  then obtain v where v: "take_value flag t = (Inr (Some v), t')" "x = Some v" "ps = []"
    by (auto simp: problems_required_def split: prod.splits sum.splits option.splits)
  have "eats I (take_value flag) A (\<lambda>x B. B = A + opt_arg flag x)" by (rule eats_take_value) simp
  from eatsD [OF this _ _ v(1)] a have "items t' = I \<and> taken t' (A + opt_arg flag (Some v))" by blast
  with v assms [of v] show "ps = [] \<and> items t' = I \<and> (\<exists>B. taken t' B \<and> Q x B)" by auto
qed

lemma collects_keep_open [collects_rules]:
  assumes "\<And>k. Q k (A + {#if k then ''--keep-open'' else ''--no-keep-open''#})"
  shows "collects I (take_keep_open c) A Q"
  unfolding take_keep_open_def
  using assms [of True] assms [of False]
  by (intro collects_rules grows_rules; simp add: flag_arg_def collects_rules grows_rules split: bool.split)

lemma collects_parent [collects_rules]:
  assumes "\<And>p. Q (Some p) (A + parent_args p)"
  shows "collects I (take_parent c) A Q"
  unfolding take_parent_def
  using assms [of StartParentless] assms [of "StartParentAgent i" for i]
  by (intro collects_rules grows_rules; simp add: flag_arg_def parent_args_def collects_rules grows_rules split: bool.split option.split)

lemma collects_initial_kind [collects_rules]:
  assumes "\<And>k. k \<in> {''tell'', ''ask''} \<Longrightarrow> Q k (A + {#''--'' @ k#})"
  shows "collects I (take_initial_kind c) A Q"
  unfolding take_initial_kind_def
  using assms [of "''tell''"] assms [of "''ask''"]
  by (intro collects_rules grows_rules; simp add: flag_arg_def collects_rules grows_rules split: bool.split)

lemma collects_readiness [collects_rules]:
  assumes "\<And>n s. rust_parse_u64 s = Some n \<Longrightarrow> Q (Some n) (A + {#''--timeout-ms'', s#})"
  shows "collects I take_readiness_timeout A Q"
  unfolding take_readiness_timeout_def Let_def
  using assms by (intro collects_rules grows_rules; auto intro!: collects_rules grows_rules split: option.split)

lemma collects_start_reply_delivery [collects_rules]:
  assumes "\<And>v. Q v (A + opt_arg ''--reply-delivery'' v)"
  shows "collects I take_start_reply_delivery A Q"
  unfolding take_start_reply_delivery_def
  using assms [of None] assms [of "Some v" for v]
  by (intro collects_rules grows_rules; auto intro!: collects_rules grows_rules split: option.split)

text \<open>A noting parse that resolves without a problem used every argument.\<close>

lemma resolved_used:
  assumes "collects args m {#} Q" and "m ([], new_tokens args) = (x, s)" and "resolved c s f = Inr y"
  shows "Q x (mset args) \<and> f () = Inr y"
proof -
  obtain ps t where s: "s = (ps, t)" by fastforce
  from assms(3) have none: "ps = []" "leftovers t = []" and f: "f () = Inr y"
    by (auto simp: resolved_def resolve_def resolve_problems_def s rbind_eq_Inr split: list.splits)
  have "items (new_tokens args) = args" by (simp add: new_tokens_def)
  with assms(1,2) s none taken_new [of args] obtain B where "taken t B" "Q x B" "items t = args"
    unfolding collects_def by blast
  with f taken_all none(2) show ?thesis by metis
qed

lemma accepts_waiter_register:
  assumes "parse_waiter_register args = Inr c"
  shows "command_verb c = ''waiter-register'' \<and> command_written env c (mset args)"
proof -
  let ?m = "nbind (problems_required ''--name'') (\<lambda>public_name. nbind (take_parent ''waiter-register'') (\<lambda>parent.
    nbind (problems_value ''--idempotency-key'') (\<lambda>key. nok (public_name, parent, key))))"
  have m: "collects args ?m {#} (\<lambda>(n, p, k) B. \<exists>n' p'. n = Some n' \<and> p = Some p'
      \<and> B = {#''--name'', n'#} + parent_args p' + opt_arg ''--idempotency-key'' k)"
    by (intro collects_rules grows_rules) simp
  obtain n p k s where r: "?m ([], new_tokens args) = ((n, p, k), s)" by (metis prod_cases3 prod.collapse)
  from resolved_used [OF m r] assms r show ?thesis
    unfolding parse_waiter_register_def by (fastforce simp: rbind_eq_Inr ok_or_eq_Inr)
qed

lemma collects_noted_all [collects_rules]:
  "(\<And>vs. Q vs (A + all_args flag vs)) \<Longrightarrow> collects I (noted [] (take_all_values flag)) A Q"
  by (intro collects_noted eats_rules)

lemma accepts_adopt:
  assumes "parse_adopt args = Inr c"
  shows "command_verb c = ''adopt'' \<and> command_written env c (mset args)"
proof -
  let ?m = "nbind (problems_required ''--pane'') (\<lambda>pane_id.
           nbind (problems_required ''--terminal'') (\<lambda>terminal_id.
           nbind (problems_value ''--name'') (\<lambda>public_name.
           nbind (problems_value ''--backend'') (\<lambda>backend_kind.
           nbind (problems_value ''--logical-id'') (\<lambda>logical_agent_id.
           nbind (problems_value ''--session'') (\<lambda>session.
           nbind (noted [] (take_all_values ''--arg'')) (\<lambda>backend_args.
           nbind (problems_value ''--requested-model'') (\<lambda>model.
           nbind (problems_value ''--requested-provider'') (\<lambda>provider.
           nbind (problems_value ''--requested-effort'') (\<lambda>effort.
           nbind (problems_value ''--idempotency-key'') (\<lambda>key.
             nok (\<lambda>pane_id terminal_id. \<lparr>aa_pane_id = pane_id, aa_terminal_id = terminal_id,
               aa_public_name = public_name, aa_backend_kind = backend_kind, aa_logical_agent_id = logical_agent_id,
               aa_herdr_session = unwrap_or ''default'' session, aa_backend_args = backend_args,
               aa_requested_model = model, aa_requested_provider = provider, aa_requested_effort = effort,
               aa_idempotency_key = key\<rparr>, pane_id, terminal_id))))))))))))"
  have m: "collects args ?m {#} (\<lambda>(f, p, t) B. \<exists>p' t'. p = Some p' \<and> t = Some t' \<and> adopt_written (f p' t') B)"
    by (intro collects_rules grows_rules) (auto simp: adopt_written_def)
  obtain f p t s where r: "?m ([], new_tokens args) = ((f, p, t), s)" by (metis prod_cases3 prod.collapse)
  have "resolved ''adopt'' s (\<lambda>_. rbind (ok_or ''missing --pane'' p) (\<lambda>pane_id.
          rbind (ok_or ''missing --terminal'' t) (\<lambda>terminal_id. Inr (CAdopt (f pane_id terminal_id))))) = Inr c"
    using assms unfolding parse_adopt_def r by simp
  from resolved_used [OF m r this] show ?thesis by auto
qed

lemma collects_start:
  "collects args (collect_start handoff command) {#} (\<lambda>p B.
     (\<forall>c. build_start p = Inr (CStart c) \<longrightarrow> start_written c B \<and> (sc_supersedes c \<noteq> None) = handoff)
     \<and> (\<forall>c. build_start p = Inr c \<longrightarrow> (\<exists>d. c = CStart d)))"
  unfolding collect_start_def
  by (intro collects_rules grows_rules eats_rules)
    (auto simp: build_start_def start_written_def)

lemma accepts_start:
  assumes "parse_start handoff args = Inr c"
  shows "command_verb c = (if handoff then ''handoff'' else ''start'') \<and> command_written env c (mset args)"
proof -
  let ?c = "if handoff then ''handoff'' else ''start''"
  obtain p s where r: "collect_start handoff ?c ([], new_tokens args) = (p, s)" by (metis prod.collapse)
  have "resolved ?c s (\<lambda>_. build_start p) = Inr c" using assms by (simp only: parse_start_def Let_def r prod.case)
  from resolved_used [OF collects_start r this] show ?thesis by auto
qed

text \<open>
  C26: No argument is lost. Whatever command the parser accepts, its verb is the first argument and
  the remaining arguments are exactly a way of writing that command: every flag, value and
  positional the caller gave is in the command, once, and the command holds nothing that was not
  given. In particular an accepted \<open>start\<close> cannot have dropped one of its backend arguments.
\<close>

theorem accepted_command_keeps_every_argument:
  assumes "parse_command env (verb # args) = Inr c"
  shows "command_verb c = verb \<and> command_written env c (mset args)"
proof -
  have message: "run_take args (parse_message_command v) = Inr c \<Longrightarrow> v = ''tell'' \<or> v = ''ask''
      \<Longrightarrow> command_verb c = v \<and> command_written env c (mset args)" for v
    by (rule run_accepts [OF accepts_message])
  note rules = run_accepts [OF accepts_clear] run_accepts [OF accepts_reply] accepts_small [THEN run_accepts]
    accepts_ids [THEN run_accepts] run_accepts [OF accepts_rename] run_accepts [OF accepts_waiter_retire]
    run_accepts [OF accepts_reminder_interval] run_accepts [OF accepts_reminder_snooze] run_accepts [OF accepts_who]
    run_accepts [OF accepts_attribution] run_accepts [OF accepts_replies] run_accepts [OF accepts_renew]
    accepts_start [where handoff = False, simplified] accepts_start [where handoff = True, simplified]
    accepts_adopt accepts_waiter_register
  from assms show ?thesis
    unfolding parse_command_def Let_def list.sel
    by (simp only: split: if_split_asm) (auto dest: rules message)
qed

lemma adopt_example:
  "parse_command (\<lambda>_. None) (''adopt'' # [''--arg'', ''--model'', ''--pane'', ''p1'', ''--terminal'', ''t1''])
   = Inr (CAdopt \<lparr>aa_pane_id = ''p1'', aa_terminal_id = ''t1'', aa_public_name = None, aa_backend_kind = None,
       aa_logical_agent_id = None, aa_herdr_session = ''default'', aa_backend_args = [''--model''],
       aa_requested_model = None, aa_requested_provider = None, aa_requested_effort = None,
       aa_idempotency_key = None\<rparr>)"
  by code_simp

theorem accepted_command_keeps_every_argument_witness:
  "command_verb (CAdopt \<lparr>aa_pane_id = ''p1'', aa_terminal_id = ''t1'', aa_public_name = None, aa_backend_kind = None,
       aa_logical_agent_id = None, aa_herdr_session = ''default'', aa_backend_args = [''--model''],
       aa_requested_model = None, aa_requested_provider = None, aa_requested_effort = None,
       aa_idempotency_key = None\<rparr>) = ''adopt''
   \<and> adopt_written \<lparr>aa_pane_id = ''p1'', aa_terminal_id = ''t1'', aa_public_name = None, aa_backend_kind = None,
       aa_logical_agent_id = None, aa_herdr_session = ''default'', aa_backend_args = [''--model''],
       aa_requested_model = None, aa_requested_provider = None, aa_requested_effort = None,
       aa_idempotency_key = None\<rparr>
       (mset [''--arg'', ''--model'', ''--pane'', ''p1'', ''--terminal'', ''t1''])"
  using accepted_command_keeps_every_argument [OF adopt_example] by simp

section \<open>What the messages do not say\<close>

text \<open>
  The usage block of \<open>replies\<close> is never found: the first line that starts with the name is the one
  of \<open>replies-claim\<close>. A flag with a bad value is reported twice, the second time as unknown.
\<close>

lemma replies_usage_missing: "command_usage ''replies'' = None \<and> command_usage ''replies-ack'' \<noteq> None"
  by code_simp

lemma malformed_flag_reported_as_unknown:
  "parse_command (\<lambda>_. None) [''waiter-register'', ''--parentless'', ''--name''] =
     Inl (''waiter-register: 2 problems'' @ [CHR 0x0A] @ ''  --name needs a value'' @ [CHR 0x0A]
       @ ''  unknown argument --name'')"
  by code_simp

end
