(* ===== verification/Effects.thy ===== *)
theory Effects
  imports Recovery
begin

text \<open>
  The process around the store: a coordination object \<open>Kelpie\<close> of \<open>src/src/slice.rs\<close> holds the
  store, a Herdr client and its prompt spacing; the store holds the operation floor a live daemon
  claimed. An act takes that state to a failure or a value and the new state. Unlike a store
  operation, a failed act keeps the transactions it committed before the failure.

  The world behind the process (clocks, the Herdr socket and server) is a parameter: a state of any
  type and the functions of \<open>peer\<close> that read and advance it, so that an answer may depend on every
  request before it. The decoders derived by serde and its printer, the text of a store failure, the Debug text of
  a string and the iteration order of a hash map are components of \<open>peer\<close> as well.
\<close>

record 'w kelpie =
  ke_store :: db
  ke_world :: 'w
  ke_settle_ms :: int               \<comment> \<open>prompt_settle_delay_ms\<close>
  ke_floor :: "nat option"          \<comment> \<open>live_operation_floor\<close>

record 'w peer =
  pr_clock :: "'w \<Rightarrow> (string + int) \<times> 'w"              \<comment> \<open>the wall clock in milliseconds, or why it has none\<close>
  pr_instant :: "'w \<Rightarrow> nat \<times> 'w"                        \<comment> \<open>the monotonic clock in milliseconds\<close>
  pr_sleep :: "nat \<Rightarrow> 'w \<Rightarrow> 'w"
  pr_connect :: "'w \<Rightarrow> (io_error + unit) \<times> 'w"
  pr_exchange :: "string \<Rightarrow> string \<Rightarrow> json \<Rightarrow> 'w \<Rightarrow> (herdr_error + json) \<times> 'w"
      \<comment> \<open>one request over an established connection: id, method, parameters\<close>
  pr_agent :: "json \<Rightarrow> string + agent_observation"
  pr_snapshot :: "json \<Rightarrow> string + snapshot"
  pr_lifecycle :: "json \<Rightarrow> string + lifecycle_observation list"
  pr_session_id :: "string \<Rightarrow> string option"
  pr_order :: "string list \<Rightarrow> string list"
  pr_text :: "store_error \<Rightarrow> string"
  pr_json :: "json \<Rightarrow> string"                      \<comment> \<open>the text of a JSON value\<close>
  pr_debug :: "string option \<Rightarrow> string"             \<comment> \<open>the Debug text of an optional path\<close>

type_synonym ('w, 'e, 'a) act = "'w kelpie \<Rightarrow> ('e + 'a) \<times> 'w kelpie"

section \<open>Sequencing\<close>

named_theorems act_simps "running an act"

definition act_return :: "'a \<Rightarrow> ('w, 'e, 'a) act" where
  "act_return x = (\<lambda>k. (Inr x, k))"

definition act_fail :: "'e \<Rightarrow> ('w, 'e, 'a) act" where
  "act_fail e = (\<lambda>k. (Inl e, k))"

text \<open>The \<open>?\<close> operator: a failure ends the act in the state it was reached in.\<close>

definition act_bind :: "('w, 'e, 'a) act \<Rightarrow> ('a \<Rightarrow> ('w, 'e, 'b) act) \<Rightarrow> ('w, 'e, 'b) act" where
  "act_bind m f = (\<lambda>k. case m k of (Inl e, k') \<Rightarrow> (Inl e, k') | (Inr x, k') \<Rightarrow> f x k')"

text \<open>A \<open>match\<close> on the result of an act.\<close>

definition act_match :: "('w, 'e, 'a) act \<Rightarrow> ('e + 'a \<Rightarrow> ('w, 'f, 'b) act) \<Rightarrow> ('w, 'f, 'b) act" where
  "act_match m f = (\<lambda>k. case m k of (r, k') \<Rightarrow> f r k')"

definition act_error :: "('e \<Rightarrow> 'f) \<Rightarrow> ('w, 'e, 'a) act \<Rightarrow> ('w, 'f, 'a) act" where
  "act_error f m = (\<lambda>k. case m k of (r, k') \<Rightarrow> (map_sum f id r, k'))"

definition act_result :: "'e + 'a \<Rightarrow> ('w, 'e, 'a) act" where
  "act_result r = (\<lambda>k. (r, k))"

definition act_get :: "('w kelpie \<Rightarrow> 'a) \<Rightarrow> ('w, 'e, 'a) act" where
  "act_get f = (\<lambda>k. (Inr (f k), k))"

fun act_fold :: "('x \<Rightarrow> 'b \<Rightarrow> ('w, 'e, 'b) act) \<Rightarrow> 'x list \<Rightarrow> 'b \<Rightarrow> ('w, 'e, 'b) act" where
  "act_fold f [] b = act_return b"
| "act_fold f (x # xs) b = act_bind (f x b) (act_fold f xs)"

lemma act_run [act_simps]:
  "act_return x k = (Inr x, k)"
  "act_fail e k = (Inl e, k)"
  "act_result r k = (r, k)"
  "act_get g k = (Inr (g k), k)"
  "act_bind m f k = (case m k of (Inl e, k') \<Rightarrow> (Inl e, k') | (Inr x, k') \<Rightarrow> f x k')"
  "act_match m h k = (case m k of (r, k') \<Rightarrow> h r k')"
  "act_error g' m k = (case m k of (r, k') \<Rightarrow> (map_sum g' id r, k'))"
  by (simp_all add: act_return_def act_fail_def act_result_def act_get_def act_bind_def act_match_def
      act_error_def)

lemma act_bind_return [simp]: "act_bind (act_return x) f = f x"
  by (simp add: act_bind_def act_return_def)

lemma act_bind_assoc: "act_bind (act_bind m f) g = act_bind m (\<lambda>x. act_bind (f x) g)"
  by (rule ext) (simp add: act_bind_def split: prod.splits sum.splits)

section \<open>The store\<close>

definition act_read :: "(db \<Rightarrow> store_error + 'a) \<Rightarrow> ('w, store_error, 'a) act" where
  "act_read f = (\<lambda>k. (f (ke_store k), k))"

definition act_query :: "(db \<Rightarrow> 'a) \<Rightarrow> ('w, store_error, 'a) act" where
  "act_query f = act_read (\<lambda>d. Inr (f d))"

text \<open>A transaction commits with its value, or fails and leaves the store as it was.\<close>

definition act_transact :: "(db \<Rightarrow> store_error + ('a \<times> db)) \<Rightarrow> ('w, store_error, 'a) act" where
  "act_transact f = (\<lambda>k. case f (ke_store k) of
     Inl e \<Rightarrow> (Inl e, k) | Inr (x, d) \<Rightarrow> (Inr x, k\<lparr>ke_store := d\<rparr>))"

definition act_commit :: "(db \<Rightarrow> store_error + db) \<Rightarrow> ('w, store_error, unit) act" where
  "act_commit f = act_transact (\<lambda>d. map_sum id (Pair ()) (f d))"

definition act_write :: "(db \<Rightarrow> 'a \<times> db) \<Rightarrow> ('w, store_error, 'a) act" where
  "act_write f = act_transact (\<lambda>d. Inr (f d))"

definition act_world :: "('w \<Rightarrow> 'a \<times> 'w) \<Rightarrow> ('w, 'e, 'a) act" where
  "act_world f = (\<lambda>k. case f (ke_world k) of (x, w) \<Rightarrow> (Inr x, k\<lparr>ke_world := w\<rparr>))"

text \<open>\<open>store_clock_ms\<close>, the clock every store operation stamps its rows with.\<close>

definition store_clock_ms :: "'w peer \<Rightarrow> ('w, store_error, int) act" where
  "store_clock_ms p = act_bind (act_world (pr_clock p))
     (\<lambda>r. act_result (map_sum (\<lambda>t. InvalidRecord (RecordText t)) id r))"

definition act_stamped :: "'w peer \<Rightarrow> (int \<Rightarrow> ('w, store_error, 'a) act) \<Rightarrow> ('w, store_error, 'a) act" where
  "act_stamped p f = act_bind (store_clock_ms p) f"

definition instant_now :: "'w peer \<Rightarrow> ('w, 'e, nat) act" where
  "instant_now p = act_world (pr_instant p)"

definition act_sleep :: "'w peer \<Rightarrow> nat \<Rightarrow> ('w, 'e, unit) act" where
  "act_sleep p ms = act_world (\<lambda>w. ((), pr_sleep p ms w))"

section \<open>The Herdr client\<close>

definition blocking_connect :: "'w peer \<Rightarrow> ('w, herdr_error, unit) act" where
  "blocking_connect p = act_bind (act_world (pr_connect p)) (\<lambda>r. act_result (map_sum HUnavailable id r))"

text \<open>A request over an established connection, read by a typed method of the client.\<close>

definition over_connection ::
  "'w peer \<Rightarrow> string \<Rightarrow> string \<Rightarrow> json \<Rightarrow> (herdr_rpc \<Rightarrow> herdr_error + 'a) \<Rightarrow> ('w, herdr_error, 'a) act" where
  "over_connection p i m params f =
     act_bind (act_world (pr_exchange p i m params)) (\<lambda>answer. act_result (f (\<lambda>_ _ _. answer)))"

definition client_request ::
  "'w peer \<Rightarrow> string \<Rightarrow> string \<Rightarrow> json \<Rightarrow> (herdr_rpc \<Rightarrow> herdr_error + 'a) \<Rightarrow> ('w, herdr_error, 'a) act" where
  "client_request p i m params f = act_bind (blocking_connect p) (\<lambda>_. over_connection p i m params f)"

definition blocking_negotiate :: "'w peer \<Rightarrow> ('w, herdr_error, unit) act" where
  "blocking_negotiate p = client_request p ''kelpie:ping'' ''ping'' (JObj []) negotiate"

definition blocking_snapshot :: "'w peer \<Rightarrow> ('w, herdr_error, snapshot) act" where
  "blocking_snapshot p =
     client_request p ''kelpie:snapshot'' ''session.snapshot'' (JObj []) (herdr_snapshot (pr_snapshot p))"

definition blocking_lifecycle_snapshot :: "'w peer \<Rightarrow> ('w, herdr_error, lifecycle_observation list) act" where
  "blocking_lifecycle_snapshot p =
     client_request p ''kelpie:lifecycle-snapshot'' ''session.snapshot'' (JObj []) (lifecycle_snapshot (pr_lifecycle p))"

definition blocking_close_pane :: "'w peer \<Rightarrow> string \<Rightarrow> string \<Rightarrow> ('w, herdr_error, unit) act" where
  "blocking_close_pane p request pane =
     client_request p request ''pane.close'' (JObj [(''pane_id'', JStr pane)]) (\<lambda>rpc. close_pane rpc request pane)"

definition blocking_agent :: "'w peer \<Rightarrow> string \<Rightarrow> string \<Rightarrow> ('w, herdr_error, agent_observation) act" where
  "blocking_agent p request target =
     client_request p request ''agent.get'' (JObj [(''target'', JStr target)])
       (\<lambda>rpc. get_agent (pr_agent p) rpc request target)"

definition client_rename_agent ::
  "'w peer \<Rightarrow> string \<Rightarrow> string \<Rightarrow> string \<Rightarrow> ('w, herdr_error, agent_observation) act" where
  "client_rename_agent p request target name =
     client_request p request ''agent.rename'' (JObj [(''name'', JStr name), (''target'', JStr target)])
       (\<lambda>rpc. rename_agent (pr_agent p) rpc request target name)"

text \<open>The methods of an established connection.\<close>

definition connection_start_agent :: "'w peer \<Rightarrow> string \<Rightarrow> json \<Rightarrow> ('w, herdr_error, agent_observation) act" where
  "connection_start_agent p request params =
     over_connection p request ''agent.start'' params (\<lambda>rpc. start_agent (pr_agent p) rpc request params)"

definition connection_rename_agent ::
  "'w peer \<Rightarrow> string \<Rightarrow> string \<Rightarrow> string \<Rightarrow> ('w, herdr_error, agent_observation) act" where
  "connection_rename_agent p request target name =
     over_connection p request ''agent.rename'' (JObj [(''name'', JStr name), (''target'', JStr target)])
       (\<lambda>rpc. rename_agent (pr_agent p) rpc request target name)"

definition connection_prompt_agent ::
  "'w peer \<Rightarrow> string \<Rightarrow> string \<Rightarrow> string \<Rightarrow> ('w, herdr_error, agent_observation) act" where
  "connection_prompt_agent p request target txt =
     over_connection p request ''agent.prompt'' (JObj [(''target'', JStr target), (''text'', JStr txt)])
       (\<lambda>rpc. prompt_agent (pr_agent p) rpc request target txt)"

text \<open>The read timeout that the waiting prompt sets on the stream is part of the exchange.\<close>

definition connection_prompt_agent_waiting ::
  "'w peer \<Rightarrow> string \<Rightarrow> json \<Rightarrow> ('w, herdr_error, agent_observation) act" where
  "connection_prompt_agent_waiting p request params =
     over_connection p request ''agent.prompt'' params
       (\<lambda>rpc. rbind (rpc request ''agent.prompt'' params) (parse_agent_result (pr_agent p)))"

section \<open>Texts of Herdr errors\<close>

text \<open>\<open>Debug\<close> of a \<open>Duration\<close> of whole milliseconds.\<close>

fun drop_trailing_zeros :: "string \<Rightarrow> string" where
  "drop_trailing_zeros s = rev (dropWhile (\<lambda>c. c = CHR ''0'') (rev s))"

definition three_digits :: "nat \<Rightarrow> string" where
  "three_digits n = [digit_char (n div 100), digit_char (n div 10 mod 10), digit_char (n mod 10)]"

definition debug_duration_ms :: "nat \<Rightarrow> string" where
  "debug_duration_ms ms =
     (if ms = 0 then ''0ns''
      else if ms < 1000 then show_nat ms @ ''ms''
      else if ms mod 1000 = 0 then show_nat (ms div 1000) @ ''s''
      else show_nat (ms div 1000) @ ''.'' @ drop_trailing_zeros (three_digits (ms mod 1000)) @ ''s'')"

definition herdr_error_text :: "herdr_error \<Rightarrow> string" where
  "herdr_error_text e = (case e of
     HUnavailable io \<Rightarrow> ''Herdr is unavailable: '' @ ie_text io
   | HMalformed t \<Rightarrow> ''Herdr response was malformed: '' @ t
   | HRejected code message \<Rightarrow> ''Herdr rejected the request with '' @ code @ '': '' @ message
   | HIncompatible actual supported \<Rightarrow> ''Herdr protocol '' @ show_nat actual
       @ '' is incompatible; supported protocol is '' @ show_nat supported
       @ ''. Install Herdr 0.9.0 or newer, which negotiates a stable endpoint contract instead''
   | HIncompatibleEndpoint actual supported \<Rightarrow> ''Herdr endpoint generation '' @ show_nat actual
       @ '' is incompatible; Kelpie speaks generation '' @ show_nat supported
   | HUnexpected t \<Rightarrow> ''Herdr returned unexpected result type '' @ t
   | HReadinessTimeout ms \<Rightarrow> ''Herdr did not prove agent readiness before the '' @ debug_duration_ms ms @ '' deadline'')"

definition is_rejected :: "herdr_error \<Rightarrow> bool" where
  "is_rejected e \<longleftrightarrow> (case e of HRejected c m \<Rightarrow> True | _ \<Rightarrow> False)"

section \<open>Reconciliation\<close>

record recovery_report =
  rr_starts_recovered :: nat
  rr_outcomes_marked_unknown :: nat
  rr_untouched_pending_intents :: nat
  rr_unattempted_clears_failed :: nat
  rr_retirements_completed :: nat
  rr_retirements_still_live :: nat
  rr_marked_lost :: nat
  rr_continued :: nat
  rr_sessions_refreshed :: nat
  rr_sessions_learned :: nat
  rr_names_reprojected :: nat
  rr_unknown_starts_settled :: nat

definition act_notice :: "'w peer \<Rightarrow> string \<Rightarrow> ('w, store_error, operator_notice_id) act" where
  "act_notice p body = act_stamped p (\<lambda>now. act_write (create_operator_notice now body))"

definition settle_absent_unknown_starts :: "'w peer \<Rightarrow> snapshot \<Rightarrow> ('w, store_error, nat) act" where
  "settle_absent_unknown_starts p snap =
     act_bind (act_query unknown_start_rows) (\<lambda>rows.
       act_fold (\<lambda>row n.
         if unknown_start_live snap row then act_return n
         else act_bind (act_stamped p (\<lambda>now. act_write (settle_unknown_start now row)))
                (\<lambda>changed. act_return (if changed then Suc n else n))) rows 0)"

definition reconcile_missed_due_wakes :: "'w peer \<Rightarrow> int \<Rightarrow> ('w, store_error, nat) act" where
  "reconcile_missed_due_wakes p now_ms =
     act_bind (act_read (missed_due_wakes now_ms)) (\<lambda>overdue.
       act_fold (\<lambda>(oid, inc) n.
         act_bind (act_stamped p (\<lambda>now. act_commit (mark_unknown now oid inc
             ''due time elapsed while kelpied was not running; no new attempt is recorded''))) (\<lambda>_.
         act_bind (act_notice p (unknown_prompt_notice oid inc)) (\<lambda>_. act_return (Suc n)))) overdue 0)"

definition unproven_evidence :: string where
  "unproven_evidence = ''fresh snapshot cannot prove the attempted external effect's terminal outcome''"

text \<open>A candidate whose attempted effect the snapshot does not prove.\<close>

definition mark_candidate_unknown ::
  "'w peer \<Rightarrow> recovery_candidate \<Rightarrow> recovery_report \<Rightarrow> ('w, store_error, recovery_report) act" where
  "mark_candidate_unknown p c report =
     (let oid = rc_operation c; inc = rc_incarnation c in
      act_bind (if rc_kind c = KClear
        then act_bind (act_result (clear_prompt_settle_delay_ms (rc_intent c))) (\<lambda>delay.
          act_stamped p (\<lambda>now. act_commit (mark_clear_unknown now oid inc unproven_evidence delay)))
        else act_stamped p (\<lambda>now. act_commit (mark_unknown now oid inc unproven_evidence))) (\<lambda>_.
      act_bind (if rc_kind c = KPrompt
        then act_bind (act_notice p (unknown_prompt_notice oid inc)) (\<lambda>_. act_return ())
        else if rc_kind c = KClear
        then act_bind (act_notice p (''clear operation '' @ id_display oid
          @ '' has unknown outcome after recovery for incarnation '' @ id_display inc)) (\<lambda>_. act_return ())
        else act_return ()) (\<lambda>_.
      act_return (report\<lparr>rr_outcomes_marked_unknown := Suc (rr_outcomes_marked_unknown report)\<rparr>))))"

definition recover_start ::
  "'w peer \<Rightarrow> snapshot \<Rightarrow> recovery_candidate \<Rightarrow> ('w, store_error, bool) act" where
  "recover_start p snap c = (case start_proof snap c of
     None \<Rightarrow> act_return False
   | Some agent \<Rightarrow>
       act_match (act_stamped p (\<lambda>now. act_commit
           (accept_start_ready now (rc_operation c) (rc_incarnation c) agent None))) (\<lambda>r.
         case r of Inr _ \<Rightarrow> act_return True
         | Inl (Conflict e) \<Rightarrow> act_return False
         | Inl e \<Rightarrow> act_fail e))"

definition recover_adopt ::
  "'w peer \<Rightarrow> snapshot \<Rightarrow> recovery_candidate \<Rightarrow> ('w, store_error, bool) act" where
  "recover_adopt p snap c =
     act_bind (act_result (adopt_intended_name (rc_intent c))) (\<lambda>intended.
       case adopt_proof snap c intended of
         None \<Rightarrow> act_return False
       | Some agent \<Rightarrow>
           act_match (act_stamped p (\<lambda>now. act_commit
               (accept_adopt_ready now (rc_operation c) (rc_incarnation c) agent)))
             (\<lambda>r. act_return (\<not> isl r)))"

definition seat_taken :: "snapshot \<Rightarrow> string \<Rightarrow> string \<Rightarrow> bool" where
  "seat_taken snap pane terminal \<longleftrightarrow>
     list_ex (\<lambda>agent. ao_pane_id agent = pane \<and> ao_terminal_id agent = terminal) (sn_agents snap)"

definition retire_absent ::
  "'w peer \<Rightarrow> operation_id \<Rightarrow> incarnation_id \<Rightarrow> string \<Rightarrow> string \<Rightarrow> snapshot \<Rightarrow> ('w, store_error, bool) act" where
  "retire_absent p oid inc pane terminal snap =
     (if seat_taken snap pane terminal then act_return False
      else act_stamped p (\<lambda>now. act_transact (reconcile_retirement now oid inc pane terminal snap)))"

definition reconcile_candidate ::
  "'w peer \<Rightarrow> snapshot \<Rightarrow> int \<Rightarrow> recovery_candidate \<Rightarrow> recovery_report \<Rightarrow> ('w, store_error, recovery_report) act" where
  "reconcile_candidate p snap now c report =
     (let untouched = report\<lparr>rr_untouched_pending_intents := Suc (rr_untouched_pending_intents report)\<rparr> in
      if rc_kind c = KRetire then
        act_bind (retire_absent p (rc_operation c) (rc_incarnation c) (rc_pane c) (rc_terminal c) snap)
          (\<lambda>gone. act_return
            (if gone then report\<lparr>rr_retirements_completed := Suc (rr_retirements_completed report)\<rparr>
             else report\<lparr>rr_retirements_still_live := Suc (rr_retirements_still_live report)\<rparr>))
      else if \<not> rc_attempted c then
        (if rc_kind c = KClear then
           act_bind (act_write (fail_unattempted_clear now (rc_operation c))) (\<lambda>changed.
             if changed then
               act_bind (act_notice p (''clear operation '' @ id_display (rc_operation c)
                   @ '' failed during recovery before any Herdr write'')) (\<lambda>_.
                 act_return (report\<lparr>rr_unattempted_clears_failed := Suc (rr_unattempted_clears_failed report)\<rparr>))
             else act_return untouched)
         else act_return untouched)
      else if rc_kind c = KStart then
        act_bind (recover_start p snap c) (\<lambda>proven.
          if proven then act_return (report\<lparr>rr_starts_recovered := Suc (rr_starts_recovered report)\<rparr>)
          else mark_candidate_unknown p c report)
      else if rc_kind c = KAdopt then
        act_bind (recover_adopt p snap c) (\<lambda>proven.
          if proven then act_return report else mark_candidate_unknown p c report)
      else mark_candidate_unknown p c report)"

text \<open>The clock is read once there is something to continue.\<close>

definition continue_occupants :: "'w peer \<Rightarrow> snapshot \<Rightarrow> ('w, store_error, nat) act" where
  "continue_occupants p snap =
     act_bind (act_query (\<lambda>d. last_by_agent (pr_session_id p) d = [] \<and> continuable_seat_rows d = [])) (\<lambda>none.
       if none then act_return 0
       else act_stamped p (\<lambda>now. act_transact
              (continue_restored_occupants (pr_session_id p) (pr_order p) now snap)))"

definition reconcile :: "'w peer \<Rightarrow> snapshot \<Rightarrow> ('w, store_error, recovery_report) act" where
  "reconcile p snap =
     act_bind (act_get (\<lambda>k. recovery_candidates (ke_floor k) (ke_store k))) (\<lambda>candidates.
     act_bind (act_get ke_floor) (\<lambda>live_floor.
     act_bind (store_clock_ms p) (\<lambda>now.
     act_bind (act_stamped p (\<lambda>at_ms. act_transact (reconcile_ready_incarnations at_ms snap)))
       (\<lambda>(lost, refreshed, learned).
     act_bind (continue_occupants p snap) (\<lambda>continued.
     act_bind (settle_absent_unknown_starts p snap) (\<lambda>settled.
     act_bind (if live_floor = None then reconcile_missed_due_wakes p now else act_return 0) (\<lambda>missed.
       act_fold (reconcile_candidate p snap now) candidates
         \<lparr>rr_starts_recovered = 0, rr_outcomes_marked_unknown = missed, rr_untouched_pending_intents = 0,
          rr_unattempted_clears_failed = 0, rr_retirements_completed = 0, rr_retirements_still_live = 0,
          rr_marked_lost = lost, rr_continued = continued, rr_sessions_refreshed = refreshed,
          rr_sessions_learned = learned, rr_names_reprojected = 0, rr_unknown_starts_settled = settled\<rparr>)))))))"

definition claim_live :: "('w, store_error, unit) act" where
  "claim_live = (\<lambda>k. (Inr (), k\<lparr>ke_floor := Some (claim_live_operations (ke_store k))\<rparr>))"

end
