(* ===== verification/Slice.thy ===== *)
theory Slice
  imports Effects Envelope
begin

text \<open>
  The decisions of the coordination slice (\<open>src/src/slice.rs\<close>) that need no state: the verified
  clear protocols, the readiness of a start, the fit of a pane to a start intent, the verdict over a
  prompt that failed after its write, the samples of occupancy, and the error type of the slice with
  its texts. The operations of the slice, in the theories above this one, act on store and Herdr.
\<close>

section \<open>Errors\<close>

datatype slice_error =
    SStore store_error
  | SHerdr herdr_error
  | LiveConflict string
  | PaneOccupied string string "string option" "string option"
  | UnknownOutcome string herdr_error
  | UnsupportedBackend string
  | ClearRotationTimeout string
  | ClearUnproven string

definition option_or :: "string \<Rightarrow> string option \<Rightarrow> string" where
  "option_or fallback v = (case v of None \<Rightarrow> fallback | Some s \<Rightarrow> s)"

definition slice_error_text :: "(store_error \<Rightarrow> string) \<Rightarrow> slice_error \<Rightarrow> string" where
  "slice_error_text txt e = (case e of
     SStore x \<Rightarrow> txt x
   | SHerdr x \<Rightarrow> herdr_error_text x
   | LiveConflict t \<Rightarrow> ''live Herdr state conflicts with start intent: '' @ t
   | PaneOccupied pane terminal backend name \<Rightarrow> ''pane '' @ pane @ '' already hosts '' @ option_or ''an'' backend
       @ '' agent '' @ option_or ''<unnamed>'' name @ '' on terminal '' @ terminal
   | UnknownOutcome oid x \<Rightarrow> ''Herdr outcome is unknown for operation '' @ oid @ '': '' @ herdr_error_text x
   | UnsupportedBackend backend \<Rightarrow> ''no clear command is defined for backend kind '' @ backend
   | ClearRotationTimeout backend \<Rightarrow> ''backend kind '' @ backend @ '' did not rotate its session after clear''
   | ClearUnproven oid \<Rightarrow> ''clear '' @ oid @ '' was submitted to this incarnation and never proven; ''
       @ ''no rotation has been observed since, so another clear would destroy a ''
       @ ''second context to learn nothing new'')"

text \<open>A conflict the slice raises itself, by its text, and an envelope that cannot be rendered.\<close>

definition slice_conflict :: "string \<Rightarrow> slice_error" where
  "slice_conflict t = SStore (Conflict (ConflictText t))"

definition envelope_error_text :: "envelope_error \<Rightarrow> string" where
  "envelope_error_text e = (case e of
     EmptyAttribute \<Rightarrow> ''envelope attribute is empty''
   | UnsafeAttribute v \<Rightarrow> ''envelope attribute value is not safe unquoted: '' @ v)"

definition from_envelope_error :: "envelope_error \<Rightarrow> slice_error" where
  "from_envelope_error e = SStore (InvalidRecord (RecordText (envelope_error_text e)))"

definition of_envelope :: "envelope_error + 'a \<Rightarrow> slice_error + 'a" where
  "of_envelope r = map_sum from_envelope_error id r"

definition of_store :: "store_error + 'a \<Rightarrow> slice_error + 'a" where
  "of_store r = map_sum SStore id r"

section \<open>Constants\<close>

definition CLEAR_ROTATION_STALL_MS :: int where "CLEAR_ROTATION_STALL_MS = 60000"
definition PROMPT_SETTLE_DELAY_MS :: int where "PROMPT_SETTLE_DELAY_MS = 5000"
definition CLEAR_PROOF_ABANDON_MS :: int where "CLEAR_PROOF_ABANDON_MS = 10 * 60 * 1000"
definition START_READY_POLL :: nat where "START_READY_POLL = 50"
definition BUSY_PANE_POLL :: nat where "BUSY_PANE_POLL = 250"
definition BUSY_PANE_RETRY_BUDGET :: nat where "BUSY_PANE_RETRY_BUDGET = 10 * 1000"
definition PROMPT_SUBMISSION_WAIT_MS :: nat where "PROMPT_SUBMISSION_WAIT_MS = 8000"

section \<open>Occupancy\<close>

definition occupancy_sample_is_due :: "interval_renew_clock \<Rightarrow> int \<Rightarrow> bool" where
  "occupancy_sample_is_due clock now_ms \<longleftrightarrow>
     ic_active_remaining_ms clock \<le> RENEW_OCCUPANCY_SAMPLE_MS
     \<or> (case ic_sampled_at_ms clock of None \<Rightarrow> True
         | Some sampled_at \<Rightarrow> RENEW_OCCUPANCY_SAMPLE_MS \<le> saturating_sub_i64 now_ms sampled_at)"

definition renew_interval_accumulates :: "agent_status \<Rightarrow> bool" where
  "renew_interval_accumulates status \<longleftrightarrow> status = StatusWorking \<or> status = StatusBlocked"

definition occupancy_is_accumulating :: "lifecycle_observation \<Rightarrow> interval_renew_clock \<Rightarrow> bool" where
  "occupancy_is_accumulating live clock \<longleftrightarrow>
     ao_pane_id (lo_agent live) = ic_pane clock \<and> ao_terminal_id (lo_agent live) = ic_terminal clock
     \<and> renew_interval_accumulates (lo_status live)"

section \<open>Clear protocols\<close>

datatype rotation_timing = OnClear | OnNextPrompt

record clear_protocol =
  cp_command :: string
  cp_rotation :: rotation_timing

definition clear_protocol_for :: "string \<Rightarrow> clear_protocol option" where
  "clear_protocol_for backend_kind =
     (if backend_kind \<in> {''claude'', ''codex''} then Some \<lparr>cp_command = ''/clear'', cp_rotation = OnClear\<rparr>
      else if backend_kind \<in> {''grok'', ''pi''} then Some \<lparr>cp_command = ''/new'', cp_rotation = OnClear\<rparr>
      else if backend_kind = ''opencode'' then Some \<lparr>cp_command = ''/clear'', cp_rotation = OnNextPrompt\<rparr>
      else None)"

section \<open>Readiness of a start\<close>

datatype start_readiness = StartReady agent_observation | StartFailed string string | StartWaiting

text \<open>An absent kind or name is undetermined; only a present, different one is decisive.\<close>

definition readiness_failure :: "agent_observation \<Rightarrow> start_intent \<Rightarrow> (string \<times> string) option" where
  "readiness_failure agent intent =
     (if ao_terminal_id agent \<noteq> si_expected_terminal_id intent
      then Some (''agent_name_lost'', ''pane '' @ si_pane_id intent @ '' now holds terminal ''
             @ ao_terminal_id agent @ '', expected '' @ si_expected_terminal_id intent)
      else case (ao_agent agent, ao_name agent) of
        (Some kind, name) \<Rightarrow>
          if kind \<noteq> si_backend_kind intent
          then Some (''agent_kind_mismatch'', ''pane '' @ si_pane_id intent @ '' runs '' @ kind
                 @ '', expected '' @ si_backend_kind intent)
          else if name \<noteq> None \<and> name \<noteq> Some (si_public_name intent)
          then Some (''agent_name_lost'', ''pane '' @ si_pane_id intent @ '' holds '' @ option_or [] name
                 @ '', expected '' @ si_public_name intent)
          else None
      | (None, Some name) \<Rightarrow>
          if name \<noteq> si_public_name intent
          then Some (''agent_name_lost'', ''pane '' @ si_pane_id intent @ '' holds '' @ name
                 @ '', expected '' @ si_public_name intent)
          else None
      | (None, None) \<Rightarrow> None)"

definition classify_start_readiness :: "agent_observation option \<Rightarrow> start_intent \<Rightarrow> start_readiness" where
  "classify_start_readiness observed intent = (case observed of
     None \<Rightarrow> StartWaiting
   | Some agent \<Rightarrow>
       (case readiness_failure agent intent of
          Some (code, detail) \<Rightarrow> StartFailed code detail
        | None \<Rightarrow>
            if ao_interactive_ready agent then StartReady agent
            else if \<not> ao_launch_pending agent \<and> ao_name agent = None
            then StartFailed ''agent_start_failed'' (''agent '' @ si_public_name intent @ '' on pane ''
                   @ si_pane_id intent @ '' is neither interactive nor launch-pending; ''
                   @ ''its managed start record is gone'')
            else StartWaiting))"

definition show_bool :: "bool \<Rightarrow> string" where
  "show_bool b = (if b then ''true'' else ''false'')"

definition describe_pane :: "agent_observation option \<Rightarrow> string \<Rightarrow> string" where
  "describe_pane observed pane = (case observed of
     None \<Rightarrow> ''of pane '' @ pane @ '': no agent record''
   | Some agent \<Rightarrow> ''of pane '' @ pane @ '': terminal='' @ ao_terminal_id agent @ '' kind=''
       @ option_or ''none'' (ao_agent agent) @ '' name='' @ option_or ''none'' (ao_name agent)
       @ '' interactive_ready='' @ show_bool (ao_interactive_ready agent)
       @ '' launch_pending='' @ show_bool (ao_launch_pending agent))"

definition stalled_start_next_step :: "agent_observation option \<Rightarrow> start_intent \<Rightarrow> declared_start \<Rightarrow> string" where
  "stalled_start_next_step observed intent declared = (case observed of
     None \<Rightarrow> []
   | Some agent \<Rightarrow>
       if ao_interactive_ready agent then []
       else ''; a runtime is present but never became interactive, so the pane may be waiting ''
         @ ''on a backend prompt (trust-this-folder, permissions). Kelpie cannot see it. ''
         @ ''Answer it in pane '' @ si_pane_id intent @ '', then `kelpie adopt --pane '' @ si_pane_id intent
         @ '' --terminal '' @ si_expected_terminal_id intent @ '' --logical-id '' @ id_display (de_agent declared)
         @ ''` to bind this same agent rather than starting a second one.'')"

definition is_retryable_start_rejection :: "herdr_error \<Rightarrow> bool" where
  "is_retryable_start_rejection e = (case e of HRejected code message \<Rightarrow> code = ''agent_pane_busy'' | _ \<Rightarrow> False)"

section \<open>A pane and a start intent\<close>

definition same_directory :: "string \<Rightarrow> string \<Rightarrow> bool" where
  "same_directory left right \<longleftrightarrow> trim_slashes left = trim_slashes right"

definition check_pane_matches_intent ::
  "(string option \<Rightarrow> string) \<Rightarrow> snapshot \<Rightarrow> start_intent \<Rightarrow> slice_error + unit" where
  "check_pane_matches_intent debug snap intent =
     (let pane_id = si_pane_id intent in
      rbind (ok_or (LiveConflict (''pane '' @ pane_id @ '' is absent''))
               (find_row (\<lambda>q. po_pane_id q = pane_id) (sn_panes snap))) (\<lambda>pane.
      rbind (ensure (po_terminal_id pane = si_expected_terminal_id intent)
               (LiveConflict (''pane '' @ pane_id @ '' contains terminal '' @ po_terminal_id pane @ '', expected ''
                  @ si_expected_terminal_id intent))) (\<lambda>_.
      rbind (ensure (po_cwd pane = Some (si_working_directory intent))
               (LiveConflict (''pane '' @ pane_id @ '' cwd '' @ debug (po_cwd pane) @ '' differs from intended ''
                  @ si_working_directory intent))) (\<lambda>_.
        case find_row (\<lambda>agent. ao_pane_id agent = pane_id) (sn_agents snap) of
          Some occupant \<Rightarrow> Inl (PaneOccupied pane_id (ao_terminal_id occupant) (ao_agent occupant) (ao_name occupant))
        | None \<Rightarrow> Inr ()))))"

section \<open>Live status\<close>

definition status_for :: "lifecycle_observation list \<Rightarrow> string option \<Rightarrow> string option \<Rightarrow> agent_status option" where
  "status_for observations pane terminal =
     Option.bind pane (\<lambda>p. Option.bind terminal (\<lambda>t.
       map_option lo_status (find_row
         (\<lambda>live. ao_pane_id (lo_agent live) = p \<and> ao_terminal_id (lo_agent live) = t) observations)))"

section \<open>What Herdr observed after a prompt\<close>

datatype submission_observation = Observed | Stalled | Unobserved

definition submission_name :: "submission_observation \<Rightarrow> string" where
  "submission_name o' = (case o' of Observed \<Rightarrow> ''observed'' | Stalled \<Rightarrow> ''stalled'' | Unobserved \<Rightarrow> ''unobserved'')"

text \<open>The members of the object stand in the order of its sorted map.\<close>

definition submission_evidence :: "submission_observation \<Rightarrow> string option \<Rightarrow> json" where
  "submission_evidence o' detail = JObj ((case detail of None \<Rightarrow> [] | Some t \<Rightarrow> [(''detail'', JStr t)])
     @ [(''submission'', JStr (submission_name o'))])"

definition post_write_observation :: "herdr_error \<Rightarrow> submission_observation option" where
  "post_write_observation e = (case e of
     HRejected code message \<Rightarrow>
       if code = ''agent_prompt_stalled'' then Some Stalled
       else if code = ''timeout'' then Some Unobserved else None
   | _ \<Rightarrow> None)"

definition message_prompt_params :: "string \<Rightarrow> string \<Rightarrow> json" where
  "message_prompt_params target txt = JObj
     [(''target'', JStr target), (''text'', JStr txt),
      (''wait'', JObj [(''timeout_ms'', JInt (int PROMPT_SUBMISSION_WAIT_MS)),
                       (''until'', JArr [JStr ''working'', JStr ''blocked''])])]"

section \<open>Acts of the slice\<close>

text \<open>The \<open>?\<close> operator converts a store or Herdr failure; a stamped operation reads the clock first.\<close>

type_synonym ('w, 'a) slice = "('w, slice_error, 'a) act"

definition sl_read :: "(db \<Rightarrow> store_error + 'a) \<Rightarrow> ('w, 'a) slice" where
  "sl_read f = act_error SStore (act_read f)"

definition sl_query :: "(db \<Rightarrow> 'a) \<Rightarrow> ('w, 'a) slice" where
  "sl_query f = act_get (\<lambda>k. f (ke_store k))"

definition sl_pure :: "(db \<Rightarrow> slice_error + 'a) \<Rightarrow> ('w, 'a) slice" where
  "sl_pure f = (\<lambda>k. (f (ke_store k), k))"

definition sl_commit :: "(db \<Rightarrow> store_error + db) \<Rightarrow> ('w, unit) slice" where
  "sl_commit f = act_error SStore (act_commit f)"

definition sl_transact :: "(db \<Rightarrow> store_error + ('a \<times> db)) \<Rightarrow> ('w, 'a) slice" where
  "sl_transact f = act_error SStore (act_transact f)"

definition sl_write :: "(db \<Rightarrow> 'a \<times> db) \<Rightarrow> ('w, 'a) slice" where
  "sl_write f = act_error SStore (act_write f)"

definition sl_clock :: "'w peer \<Rightarrow> ('w, int) slice" where
  "sl_clock p = act_error SStore (store_clock_ms p)"

definition sl_commit_now :: "'w peer \<Rightarrow> (int \<Rightarrow> db \<Rightarrow> store_error + db) \<Rightarrow> ('w, unit) slice" where
  "sl_commit_now p f = act_bind (sl_clock p) (\<lambda>now. sl_commit (f now))"

definition sl_transact_now :: "'w peer \<Rightarrow> (int \<Rightarrow> db \<Rightarrow> store_error + ('a \<times> db)) \<Rightarrow> ('w, 'a) slice" where
  "sl_transact_now p f = act_bind (sl_clock p) (\<lambda>now. sl_transact (f now))"

definition sl_notice :: "'w peer \<Rightarrow> string \<Rightarrow> ('w, unit) slice" where
  "sl_notice p body = act_bind (sl_clock p) (\<lambda>now.
     act_bind (sl_write (create_operator_notice now body)) (\<lambda>_. act_return ()))"

definition sl_herdr :: "('w, herdr_error, 'a) act \<Rightarrow> ('w, 'a) slice" where
  "sl_herdr m = act_error SHerdr m"

text \<open>The loops of the slice that wait on Herdr are given fuel, the number of their passes.\<close>

fun act_loop :: "nat \<Rightarrow> ('w, 'e, 'a option) act \<Rightarrow> ('w, 'e, 'a option) act" where
  "act_loop 0 m = act_return None"
| "act_loop (Suc n) m = act_bind m (\<lambda>r. case r of Some x \<Rightarrow> act_return (Some x) | None \<Rightarrow> act_loop n m)"

text \<open>A transaction with two results.\<close>

definition two_results :: "store_error + ('a \<times> 'b \<times> db) \<Rightarrow> store_error + (('a \<times> 'b) \<times> db)" where
  "two_results r = map_sum id (\<lambda>(x, y, d). ((x, y), d)) r"

lemma two_results_Inr [simp]: "two_results r = Inr ((x, y), d) \<longleftrightarrow> r = Inr (x, y, d)"
  by (cases r) (auto simp: two_results_def)

section \<open>Laws of the decisions\<close>

text \<open>A start is proven ready only by the intended terminal, with no other kind or name observed.\<close>

lemma ready_is_exact:
  assumes "classify_start_readiness observed intent = StartReady agent"
  shows "observed = Some agent \<and> ao_terminal_id agent = si_expected_terminal_id intent
     \<and> (ao_agent agent = None \<or> ao_agent agent = Some (si_backend_kind intent))
     \<and> (ao_name agent = None \<or> ao_name agent = Some (si_public_name intent)) \<and> ao_interactive_ready agent"
  using assms
  by (auto simp: classify_start_readiness_def readiness_failure_def split: option.splits prod.splits if_splits)

lemma waiting_is_undecided:
  "classify_start_readiness observed intent = StartWaiting \<longleftrightarrow>
     (case observed of None \<Rightarrow> True | Some agent \<Rightarrow> readiness_failure agent intent = None
        \<and> \<not> ao_interactive_ready agent \<and> (ao_launch_pending agent \<or> ao_name agent \<noteq> None))"
  by (auto simp: classify_start_readiness_def split: option.splits)

text \<open>A start is declared only into an existing pane of the intended terminal and directory, without an agent.\<close>

lemma pane_matches_iff:
  "check_pane_matches_intent debug snap intent = Inr () \<longleftrightarrow>
     (\<exists>pane. find_row (\<lambda>q. po_pane_id q = si_pane_id intent) (sn_panes snap) = Some pane
        \<and> po_terminal_id pane = si_expected_terminal_id intent \<and> po_cwd pane = Some (si_working_directory intent))
     \<and> (\<forall>agent \<in> set (sn_agents snap). ao_pane_id agent \<noteq> si_pane_id intent)"
  by (auto simp: check_pane_matches_intent_def Let_def result_simps find_row_None split: option.splits dest: find_row_SomeD)

lemma same_directory_refl [simp]: "same_directory d d"
  by (simp add: same_directory_def)

lemma trim_trailing_slash: "trim_slashes (d @ ''/'') = trim_slashes d"
  by (simp add: trim_slashes_def)

lemma prompt_evidence_iff:
  "post_write_observation e = Some o' \<longleftrightarrow> (\<exists>message. e = HRejected ''agent_prompt_stalled'' message \<and> o' = Stalled
     \<or> e = HRejected ''timeout'' message \<and> o' = Unobserved)"
  by (auto simp: post_write_observation_def split: herdr_error.splits if_splits)

end
