(* ===== verification/Prompts.thy ===== *)
theory Prompts
  imports Slice
begin

text \<open>
  Prompts of the coordination slice (\<open>src/src/slice.rs\<close>): a queued or immediate delivery is
  prepared from the store, its intent is committed once a Herdr connection exists, the waiting
  prompt is written, and its answer is applied to the operation. Asks, tells, replies, cancellations,
  due deliveries, schedules and the initial message of a launch go through this path.

  The points of fault injection (\<open>test_fault::pause\<close>) and their names in a prepared prompt are
  left out: they do nothing outside the tests.
\<close>

record prepared_prompt =
  pp_operation :: operation_id
  pp_incarnation :: incarnation_id
  pp_pane :: string
  pp_envelope :: string
  pp_request :: string
  pp_queued :: bool

section \<open>Preparing a delivery\<close>

definition due_sender_address :: "due_delivery \<Rightarrow> db \<Rightarrow> store_error + string option" where
  "due_sender_address item d = (case dd_sender item of
     Some sender \<Rightarrow> map_sum id Some (agent_address sender d)
   | None \<Rightarrow> if dd_kind item = Cancellation then Inr None
       else Inl (InvalidRecord (RecordText ''queued delivery requires a sender'')))"

definition due_audience :: "due_delivery \<Rightarrow> db \<Rightarrow> store_error + cancellation_audience option" where
  "due_audience item d =
     (if dd_kind item = Cancellation
      then map_sum id (\<lambda>(ask, reason, audience). Some audience)
             (cancellation_rendering_for_operation (dd_operation item) d)
      else Inr None)"

definition prompt_request_id :: "message_kind \<Rightarrow> cancellation_audience option \<Rightarrow> operation_id \<Rightarrow> string" where
  "prompt_request_id kind audience oid =
     (case kind of
        Ask \<Rightarrow> ''kelpie:ask:'' | Tell \<Rightarrow> ''kelpie:tell:'' | Reply \<Rightarrow> ''kelpie:reply:''
      | Cancellation \<Rightarrow> if audience = Some Owing then ''kelpie:owing-cancellation:'' else ''kelpie:cancellation:'')
     @ id_display oid"

definition render_reply ::
  "string option \<Rightarrow> message_id \<Rightarrow> message_id \<Rightarrow> reply_disposition \<Rightarrow> string \<Rightarrow> envelope_error + string" where
  "render_reply sender ask message disposition body =
     rbind (ok_or EmptyAttribute sender) (\<lambda>frm.
       case disposition of
         Progress \<Rightarrow> render_progress frm (id_display ask) (id_display message) body
       | Final \<Rightarrow> render_final frm (id_display ask) (id_display message) body)"

definition render_due :: "due_delivery \<Rightarrow> string option \<Rightarrow> db \<Rightarrow> slice_error + string" where
  "render_due item sender d =
     (let message = id_display (dd_message item) in
      case dd_kind item of
        Ask \<Rightarrow> of_envelope (rbind (ok_or EmptyAttribute sender) (\<lambda>frm. render_ask frm message (dd_body item)))
      | Tell \<Rightarrow> of_envelope (rbind (ok_or EmptyAttribute sender) (\<lambda>frm. render_tell frm message (dd_body item)))
      | Reply \<Rightarrow> rbind (of_store (reply_rendering (dd_message item) d)) (\<lambda>(ask, disposition).
          of_envelope (render_reply sender ask (dd_message item) disposition (dd_body item)))
      | Cancellation \<Rightarrow>
          rbind (of_store (agent_address (dd_recipient item) d)) (\<lambda>address.
          rbind (of_store (cancellation_rendering_for_operation (dd_operation item) d)) (\<lambda>(ask, reason, audience).
            of_envelope (case audience of
              Waiting \<Rightarrow> render_cancellation address (id_display ask) reason
            | Owing \<Rightarrow> render_owing_cancellation address (id_display ask) reason))))"

definition prepare_prompt_delivery ::
  "due_delivery \<Rightarrow> bool \<Rightarrow> string option \<Rightarrow> db \<Rightarrow> slice_error + prepared_prompt" where
  "prepare_prompt_delivery item queued rendered d =
     rbind (of_store (ready_binding (dd_incarnation item) d)) (\<lambda>binding.
     rbind (of_store (due_sender_address item d)) (\<lambda>sender.
     rbind (of_store (due_audience item d)) (\<lambda>audience.
     rbind (case rendered of Some txt \<Rightarrow> Inr txt | None \<Rightarrow> render_due item sender d) (\<lambda>envelope.
       Inr \<lparr>pp_operation = dd_operation item, pp_incarnation = dd_incarnation item,
            pp_pane = rb_pane binding, pp_envelope = envelope,
            pp_request = prompt_request_id (dd_kind item) audience (dd_operation item),
            pp_queued = queued\<rparr>))))"

definition begin_prompt_delivery ::
  "due_delivery \<Rightarrow> bool \<Rightarrow> string option \<Rightarrow> ('w, prepared_prompt) slice" where
  "begin_prompt_delivery item queued rendered = sl_pure (prepare_prompt_delivery item queued rendered)"

section \<open>The write and its answer\<close>

text \<open>Recorded once a connection exists: the attempt, and its submission.\<close>

definition commit_prompt_intent :: "'w peer \<Rightarrow> prepared_prompt \<Rightarrow> ('w, unit) slice" where
  "commit_prompt_intent p q =
     act_bind (sl_transact_now p (\<lambda>now. begin_attempt now (pp_operation q) (pp_incarnation q) (pp_request q)))
       (\<lambda>attempt.
       if pp_queued q
       then act_bind (sl_clock p) (\<lambda>now_ms.
              sl_commit (submit_queued_delivery (pp_operation q) attempt (pp_request q) now_ms))
       else sl_commit_now p (\<lambda>now. mark_submitted now (pp_operation q) attempt (pp_request q)))"

fun text_contains :: "string \<Rightarrow> string \<Rightarrow> bool" where
  "text_contains needle [] = (needle = [])"
| "text_contains needle (c # cs) = (take (length needle) (c # cs) = needle \<or> text_contains needle cs)"

definition not_found :: "herdr_error \<Rightarrow> bool" where
  "not_found e = (case e of HRejected code message \<Rightarrow> text_contains ''not_found'' code | _ \<Rightarrow> False)"

definition apply_prompt_error :: "'w peer \<Rightarrow> prepared_prompt \<Rightarrow> herdr_error \<Rightarrow> ('w, unit) slice" where
  "apply_prompt_error p q source =
     (let oid = pp_operation q; inc = pp_incarnation q; detail = herdr_error_text source in
      case post_write_observation source of
        None \<Rightarrow>
          if is_rejected source
          then act_bind (sl_commit_now p (\<lambda>now. mark_rejected now oid inc detail
                 (if not_found source then DTargetUnavailable else DRejected))) (\<lambda>_. act_fail (SHerdr source))
          else act_bind (sl_commit_now p (\<lambda>now. mark_unknown now oid inc detail))
                 (\<lambda>_. act_fail (UnknownOutcome (id_display oid) source))
      | Some observation \<Rightarrow>
          act_bind (sl_read (ready_binding inc)) (\<lambda>binding.
          act_bind (sl_commit_now p (\<lambda>now. accept_delivery_with_submission now oid inc
              (rb_pane binding) (rb_terminal binding)
              (Some (pr_json p (submission_evidence observation (Some detail)))))) (\<lambda>_.
            if observation = Stalled
            then sl_notice p (''prompt '' @ pp_request q @ '' to incarnation '' @ id_display inc @ '' on pane ''
              @ pp_pane q @ '' was written but produced no observed agent activity ('' @ detail
              @ ''); nothing was resent and any obligation stays open'')
            else act_return ())))"

definition apply_prompt_outcome ::
  "'w peer \<Rightarrow> prepared_prompt \<Rightarrow> herdr_error + agent_observation \<Rightarrow> ('w, unit) slice" where
  "apply_prompt_outcome p q result = (case result of
     Inl source \<Rightarrow> apply_prompt_error p q source
   | Inr agent \<Rightarrow> sl_commit_now p (\<lambda>now. accept_delivery_with_submission now (pp_operation q) (pp_incarnation q)
         (ao_pane_id agent) (ao_terminal_id agent)
         (Some (pr_json p (submission_evidence Observed None)))))"

definition complete_prompt_delivery ::
  "'w peer \<Rightarrow> prepared_prompt \<Rightarrow> herdr_error + agent_observation \<Rightarrow> ('w, unit) slice" where
  "complete_prompt_delivery p q result = apply_prompt_outcome p q result"

definition prompt_write :: "'w peer \<Rightarrow> string \<Rightarrow> string \<Rightarrow> string \<Rightarrow> ('w, herdr_error, agent_observation) act" where
  "prompt_write p request pane envelope =
     connection_prompt_agent_waiting p request (message_prompt_params pane envelope)"

definition send_prepared_prompt :: "'w peer \<Rightarrow> prepared_prompt \<Rightarrow> ('w, unit) slice" where
  "send_prepared_prompt p q =
     act_bind (sl_herdr (blocking_connect p)) (\<lambda>_.
     act_bind (commit_prompt_intent p q) (\<lambda>_.
     act_match (prompt_write p (pp_request q) (pp_pane q) (pp_envelope q)) (complete_prompt_delivery p q)))"

section \<open>Due deliveries\<close>

definition prompt_spacing_active :: "incarnation_id \<Rightarrow> int \<Rightarrow> ('w, bool) slice" where
  "prompt_spacing_active inc now_ms = act_get (\<lambda>k. case last_clear_spacing_at_ms inc (ke_store k) of
     None \<Rightarrow> False | Some at_ms \<Rightarrow> now_ms < saturating_add_i64 at_ms (ke_settle_ms k))"

definition begin_one_due :: "'w peer \<Rightarrow> due_delivery \<Rightarrow> ('w, prepared_prompt option) slice" where
  "begin_one_due p item =
     (let oid = dd_operation item; inc = dd_incarnation item; request = ''kelpie:due:'' @ id_display oid in
      act_match (sl_read (ready_binding inc)) (\<lambda>r. case r of
        Inr _ \<Rightarrow> act_bind (begin_prompt_delivery item True None) (\<lambda>q. act_return (Some q))
      | Inl (SStore (Conflict _)) \<Rightarrow>
          act_bind (sl_transact_now p (\<lambda>now. begin_attempt now oid inc request)) (\<lambda>attempt.
          act_bind (sl_clock p) (\<lambda>now_ms.
          act_bind (sl_commit (submit_queued_delivery oid attempt request now_ms)) (\<lambda>_.
          act_bind (sl_commit_now p (\<lambda>now. mark_rejected now oid inc
              ''exact recipient incarnation is no longer Ready'' DTargetUnavailable)) (\<lambda>_.
            act_return None))))
      | Inl e \<Rightarrow> act_fail e))"

definition fire_one_due :: "'w peer \<Rightarrow> due_delivery \<Rightarrow> ('w, unit) slice" where
  "fire_one_due p item = act_bind (begin_one_due p item) (\<lambda>r. case r of
     Some q \<Rightarrow> send_prepared_prompt p q
   | None \<Rightarrow> act_fail (slice_conflict ''exact recipient incarnation is no longer Ready''))"

text \<open>Failures of one delivery that its durable outcome already tells.\<close>

definition delivery_failure :: "slice_error \<Rightarrow> bool" where
  "delivery_failure e = (case e of
     SHerdr _ \<Rightarrow> True | UnknownOutcome _ _ \<Rightarrow> True | SStore (Conflict _) \<Rightarrow> True | _ \<Rightarrow> False)"

definition fire_due_deliveries :: "'w peer \<Rightarrow> ('w, nat) slice" where
  "fire_due_deliveries p =
     act_bind (sl_clock p) (\<lambda>now_ms.
     act_bind (sl_write (supersede_settled_queued_asks now_ms)) (\<lambda>_.
     act_bind (sl_query (due_deliveries now_ms)) (\<lambda>due.
       act_fold (\<lambda>item fired.
         act_bind (prompt_spacing_active (dd_incarnation item) now_ms) (\<lambda>spacing.
           if spacing then act_return fired
           else act_match (fire_one_due p item) (\<lambda>r. case r of
                  Inr _ \<Rightarrow> act_return (Suc fired)
                | Inl e \<Rightarrow> if delivery_failure e then act_return fired else act_fail e))) due 0)))"

definition begin_due_deliveries :: "'w peer \<Rightarrow> ('w, prepared_prompt list) slice" where
  "begin_due_deliveries p =
     act_bind (sl_clock p) (\<lambda>now_ms.
     act_bind (sl_write (supersede_settled_queued_asks now_ms)) (\<lambda>_.
     act_bind (sl_query (due_deliveries now_ms)) (\<lambda>due.
       act_fold (\<lambda>item prepared.
         act_bind (prompt_spacing_active (dd_incarnation item) now_ms) (\<lambda>spacing.
           if spacing then act_return prepared
           else act_match (begin_one_due p item) (\<lambda>r. case r of
                  Inr (Some q) \<Rightarrow> act_return (prepared @ [q])
                | Inr None \<Rightarrow> act_return prepared
                | Inl e \<Rightarrow> if delivery_failure e then act_return prepared else act_fail e))) due [])))"

section \<open>When a prompt is due\<close>

definition should_defer :: "'w peer \<Rightarrow> int option \<Rightarrow> ('w, bool) slice" where
  "should_defer p due = (case due of
     None \<Rightarrow> act_return False | Some due_at_ms \<Rightarrow> act_bind (sl_clock p) (\<lambda>now. act_return (now < due_at_ms)))"

definition effective_due :: "int option \<Rightarrow> bool \<Rightarrow> int \<Rightarrow> int \<Rightarrow> int option" where
  "effective_due due clearing spacing_due now_ms =
     (case (due, clearing, now_ms < spacing_due) of
        (Some t, _, True) \<Rightarrow> Some (max t spacing_due)
      | (Some t, _, False) \<Rightarrow> Some t
      | (None, True, _) \<Rightarrow> Some now_ms
      | (None, False, True) \<Rightarrow> Some spacing_due
      | (None, False, False) \<Rightarrow> None)"

definition prompt_schedule :: "'w peer \<Rightarrow> incarnation_id \<Rightarrow> int option \<Rightarrow> ('w, int option \<times> bool) slice" where
  "prompt_schedule p inc due =
     act_bind (sl_clock p) (\<lambda>now_ms.
     act_bind (sl_query (\<lambda>d. clear_in_flight d inc)) (\<lambda>clearing.
     act_bind (act_get (\<lambda>k. case last_clear_spacing_at_ms inc (ke_store k) of None \<Rightarrow> 0
         | Some t \<Rightarrow> saturating_add_i64 t (ke_settle_ms k))) (\<lambda>spacing_due.
       (let effective = effective_due due clearing spacing_due now_ms in
        act_bind (if clearing then act_return True else should_defer p effective)
          (\<lambda>defer. act_return (effective, defer))))))"

end
