(* ===== verification/Exchanges.thy ===== *)
theory Exchanges
  imports Prompts
begin

text \<open>
  The exchanges of the coordination slice (\<open>src/src/slice.rs\<close>): asks, tells and replies with their
  replay and their schedule, repeating tells, the initial message of a launch, cancellations with a
  notice for each party, the retirement of a socket waiter, and the sweep of absent parties.
\<close>

section \<open>Ask and tell\<close>

text \<open>The message and the operation of a recorded ask or tell.\<close>

type_synonym created_prompt = "message_id \<times> operation_id"

definition ask_replay ::
  "string \<Rightarrow> logical_agent_id \<Rightarrow> reply_delivery \<Rightarrow> db \<Rightarrow> slice_error + created_prompt option" where
  "ask_replay key sender reply_delivery d =
     rbind (of_store (replay_prompt_by_idempotency_key key Ask sender None d)) (\<lambda>r. case r of
       None \<Rightarrow> Inr None
     | Some replay \<Rightarrow>
         let stored = (case rp_reply_delivery replay of None \<Rightarrow> Inject | Some v \<Rightarrow> v) in
         rbind (ensure (stored = reply_delivery) (slice_conflict
                  (''idempotency key already recorded reply_delivery '' @ reply_delivery_as_str stored))) (\<lambda>_.
           Inr (Some (rp_message replay, rp_operation replay))))"

definition due_or_zero :: "int option \<Rightarrow> int" where
  "due_or_zero due = (case due of None \<Rightarrow> 0 | Some t \<Rightarrow> t)"

definition record_ask ::
  "'w peer \<Rightarrow> logical_agent_id \<Rightarrow> logical_agent_id \<Rightarrow> incarnation_id \<Rightarrow> string \<Rightarrow> string \<Rightarrow> int option
   \<Rightarrow> int option \<Rightarrow> bool \<Rightarrow> reply_delivery \<Rightarrow> ('w, created_prompt \<times> prepared_prompt option) slice" where
  "record_ask p sender recipient inc body key due remind operator reply_delivery =
     act_bind (sl_pure (ask_replay key sender reply_delivery)) (\<lambda>replay. case replay of
       Some created \<Rightarrow> act_return (created, None)
     | None \<Rightarrow>
         act_bind (sl_read (ready_binding inc)) (\<lambda>_.
         act_bind (prompt_schedule p inc due) (\<lambda>(effective, defer).
         act_bind (sl_transact_now p (\<lambda>now d. two_results (create_ask_with_reply_delivery now sender recipient inc
             body key effective remind operator reply_delivery d))) (\<lambda>(message, oid).
           if defer then act_return ((message, oid), None)
           else act_bind (begin_prompt_delivery
               \<lparr>dd_operation = oid, dd_message = message, dd_kind = Ask, dd_sender = Some sender,
                dd_recipient = recipient, dd_incarnation = inc, dd_body = body,
                dd_scheduled_at_ms = due_or_zero effective\<rparr> (effective \<noteq> None) None)
             (\<lambda>q. act_return ((message, oid), Some q))))))"

definition send_if_prepared :: "'w peer \<Rightarrow> 'a \<times> prepared_prompt option \<Rightarrow> ('w, 'a) slice" where
  "send_if_prepared p r = (case r of
     (created, None) \<Rightarrow> act_return created
   | (created, Some q) \<Rightarrow> act_bind (send_prepared_prompt p q) (\<lambda>_. act_return created))"

definition slice_ask ::
  "'w peer \<Rightarrow> logical_agent_id \<Rightarrow> logical_agent_id \<Rightarrow> incarnation_id \<Rightarrow> string \<Rightarrow> string \<Rightarrow> int option
   \<Rightarrow> int option \<Rightarrow> bool \<Rightarrow> ('w, created_prompt) slice" where
  "slice_ask p sender recipient inc body key due remind operator =
     act_bind (record_ask p sender recipient inc body key due remind operator Inject) (send_if_prepared p)"

definition record_tell ::
  "'w peer \<Rightarrow> logical_agent_id \<Rightarrow> logical_agent_id \<Rightarrow> incarnation_id \<Rightarrow> string \<Rightarrow> string \<Rightarrow> int option
   \<Rightarrow> ('w, created_prompt \<times> prepared_prompt option) slice" where
  "record_tell p sender recipient inc body key due =
     act_bind (sl_read (replay_prompt_by_idempotency_key key Tell sender None)) (\<lambda>replay. case replay of
       Some r \<Rightarrow> act_return ((rp_message r, rp_operation r), None)
     | None \<Rightarrow>
         act_bind (sl_read (ready_binding inc)) (\<lambda>_.
         act_bind (prompt_schedule p inc due) (\<lambda>(effective, defer).
         act_bind (sl_transact_now p (\<lambda>now d. two_results
             (create_tell_with_due now sender recipient inc body key effective d))) (\<lambda>(message, oid).
           if defer then act_return ((message, oid), None)
           else act_bind (begin_prompt_delivery
               \<lparr>dd_operation = oid, dd_message = message, dd_kind = Tell, dd_sender = Some sender,
                dd_recipient = recipient, dd_incarnation = inc, dd_body = body,
                dd_scheduled_at_ms = due_or_zero effective\<rparr> (effective \<noteq> None) None)
             (\<lambda>q. act_return ((message, oid), Some q))))))"

definition slice_tell ::
  "'w peer \<Rightarrow> logical_agent_id \<Rightarrow> logical_agent_id \<Rightarrow> incarnation_id \<Rightarrow> string \<Rightarrow> string \<Rightarrow> int option
   \<Rightarrow> ('w, created_prompt) slice" where
  "slice_tell p sender recipient inc body key due =
     act_bind (record_tell p sender recipient inc body key due) (send_if_prepared p)"

definition record_socket_tell ::
  "'w peer \<Rightarrow> logical_agent_id \<Rightarrow> logical_agent_id \<Rightarrow> string \<Rightarrow> string \<Rightarrow> int option \<Rightarrow> ('w, message_id) slice" where
  "record_socket_tell p sender recipient body key due =
     sl_transact_now p (\<lambda>now. create_socket_tell now sender recipient body key due)"

section \<open>Repeating tells\<close>

definition schedule_tell ::
  "'w peer \<Rightarrow> logical_agent_id \<Rightarrow> logical_agent_id \<Rightarrow> string \<Rightarrow> int \<Rightarrow> int \<Rightarrow> string \<Rightarrow> ('w, created_schedule) slice" where
  "schedule_tell p sender recipient body interval first key =
     sl_transact_now p (\<lambda>now. create_tell_schedule now sender recipient body interval first key)"

definition fire_due_schedules :: "'w peer \<Rightarrow> ('w, nat) slice" where
  "fire_due_schedules p =
     act_bind (sl_clock p) (\<lambda>now_ms.
     act_bind (sl_read (due_tell_schedules now_ms)) (\<lambda>due.
       act_fold (\<lambda>item fired.
         act_match (sl_transact (fire_tell_schedule item now_ms)) (\<lambda>r. case r of
           Inr _ \<Rightarrow> act_return (Suc fired)
         | Inl (SStore (Conflict _)) \<Rightarrow> act_return fired
         | Inl e \<Rightarrow> act_fail e)) due 0))"

definition slice_cancel_schedule :: "'w peer \<Rightarrow> schedule_id \<Rightarrow> logical_agent_id \<Rightarrow> string \<Rightarrow> ('w, unit) slice" where
  "slice_cancel_schedule p schedule requester reason =
     sl_commit_now p (\<lambda>now. cancel_schedule now schedule requester reason)"

section \<open>Reply\<close>

definition reply_prompt_replay ::
  "string \<Rightarrow> logical_agent_id \<Rightarrow> message_id \<Rightarrow> db \<Rightarrow> store_error + created_reply option" where
  "reply_prompt_replay key requester ask d =
     rbind (replay_prompt_by_idempotency_key key Reply requester (Some ask) d) (\<lambda>r. case r of
       None \<Rightarrow> Inr None
     | Some replay \<Rightarrow>
         rbind (ok_or (InvalidRecord (RecordText (''replayed reply '' @ id_display (rp_message replay)
                  @ '' has no disposition''))) (rp_disposition replay)) (\<lambda>disposition.
           Inr (Some \<lparr>cr_message = rp_message replay, cr_operation = Some (rp_operation replay),
             cr_incarnation = Some (rp_incarnation replay), cr_disposition = disposition\<rparr>)))"

text \<open>The prompt of a recorded reply.\<close>

definition reply_prompt ::
  "created_reply \<Rightarrow> string \<Rightarrow> int option \<Rightarrow> db \<Rightarrow> slice_error + prepared_prompt" where
  "reply_prompt created body due d =
     rbind (ok_or (SStore (InvalidRecord (RecordText ''herdr_prompt reply is missing recipient incarnation'')))
              (cr_incarnation created)) (\<lambda>inc.
     rbind (ok_or (SStore (InvalidRecord (RecordText ''herdr_prompt reply is missing operation'')))
              (cr_operation created)) (\<lambda>oid.
     rbind (of_store (message_parties (cr_message created) d)) (\<lambda>(sender, recipient).
       prepare_prompt_delivery
         \<lparr>dd_operation = oid, dd_message = cr_message created, dd_kind = Reply, dd_sender = Some sender,
          dd_recipient = recipient, dd_incarnation = inc, dd_body = body,
          dd_scheduled_at_ms = due_or_zero due\<rparr> (due \<noteq> None) None d)))"

definition record_reply ::
  "'w peer \<Rightarrow> message_id \<Rightarrow> logical_agent_id \<Rightarrow> string \<Rightarrow> reply_disposition \<Rightarrow> string
   \<Rightarrow> ('w, created_reply \<times> prepared_prompt option) slice" where
  "record_reply p ask requester body disposition key =
     act_bind (sl_read (reply_prompt_replay key requester ask)) (\<lambda>replay. case replay of
       Some created \<Rightarrow> act_return (created, None)
     | None \<Rightarrow>
         act_bind (sl_read (reply_receive_path_of ask requester)) (\<lambda>path. case path of
           PathHerdrPrompt inc \<Rightarrow>
             act_bind (prompt_schedule p inc None) (\<lambda>(due, defer).
             act_bind (sl_transact_now p (\<lambda>now. create_reply_with_due now ask requester body disposition key due))
               (\<lambda>created.
               if defer then act_return (created, None)
               else act_bind (sl_pure (reply_prompt created body due)) (\<lambda>q. act_return (created, Some q))))
         | _ \<Rightarrow> act_bind (sl_transact_now p (\<lambda>now. create_reply_with_due now ask requester body disposition key None))
                 (\<lambda>created. act_return (created, None))))"

definition slice_reply ::
  "'w peer \<Rightarrow> message_id \<Rightarrow> logical_agent_id \<Rightarrow> string \<Rightarrow> reply_disposition \<Rightarrow> string \<Rightarrow> ('w, created_reply) slice" where
  "slice_reply p ask requester body disposition key =
     act_bind (record_reply p ask requester body disposition key) (send_if_prepared p)"

section \<open>Cancellation\<close>

record cancel_outcome =
  co_delivered :: bool
  co_message :: "message_id option"
  co_owing_delivered :: bool
  co_owing_message :: "message_id option"

type_synonym prepared_cancellation = "bool \<times> prepared_prompt"   \<comment> \<open>waiting, prepared\<close>

definition draft_cancellation_prompt ::
  "operation_id \<Rightarrow> message_id \<Rightarrow> incarnation_id \<Rightarrow> db \<Rightarrow> slice_error + prepared_prompt" where
  "draft_cancellation_prompt oid message inc d =
     rbind (of_store (logical_agent_of inc d)) (\<lambda>recipient.
       prepare_prompt_delivery
         \<lparr>dd_operation = oid, dd_message = message, dd_kind = Cancellation, dd_sender = None,
          dd_recipient = recipient, dd_incarnation = inc, dd_body = [], dd_scheduled_at_ms = 0\<rparr> False None d)"

definition cancellation_side ::
  "bool \<Rightarrow> message_id \<Rightarrow> (operation_id \<times> incarnation_id) option \<Rightarrow> bool \<Rightarrow> db \<Rightarrow> slice_error + prepared_cancellation list" where
  "cancellation_side waiting message delivery defer d = (case (delivery, defer) of
     (Some (oid, inc), False) \<Rightarrow> map_sum id (\<lambda>q. [(waiting, q)]) (draft_cancellation_prompt oid message inc d)
   | _ \<Rightarrow> Inr [])"

definition cancellation_prompts ::
  "created_cancellation \<Rightarrow> bool \<Rightarrow> bool \<Rightarrow> db \<Rightarrow> slice_error + (cancel_outcome \<times> prepared_cancellation list)" where
  "cancellation_prompts created defer owing_defer d =
     rbind (cancellation_side True (cc_message created) (cc_delivery created) defer d) (\<lambda>waiting.
     rbind (cancellation_side False (cc_owing_message created) (cc_owing_delivery created) owing_defer d) (\<lambda>owing.
       Inr (\<lparr>co_delivered = False, co_message = Some (cc_message created), co_owing_delivered = False,
             co_owing_message = Some (cc_owing_message created)\<rparr>, waiting @ owing)))"

definition cancel_body :: "message_id \<Rightarrow> string \<Rightarrow> string \<Rightarrow> string" where
  "cancel_body ask by reason = ''Your ask '' @ id_display ask @ '' was cancelled by '' @ by @ ''. Reason: '' @ reason
     @ ''. No reply is owed. Re-ask the current holder of the name if the question still matters.''"

definition cancel_owing_body :: "message_id \<Rightarrow> string \<Rightarrow> string \<Rightarrow> string" where
  "cancel_owing_body ask by reason = ''Stop working on ask '' @ id_display ask @ ''. It was cancelled by '' @ by
     @ ''. Reason: '' @ reason @ ''. No reply is owed.''"

definition schedule_for :: "'w peer \<Rightarrow> incarnation_id option \<Rightarrow> ('w, int option \<times> bool) slice" where
  "schedule_for p inc = (case inc of
     Some i \<Rightarrow> prompt_schedule p i None | None \<Rightarrow> act_return (None, False))"

definition nothing_delivered :: cancel_outcome where
  "nothing_delivered = \<lparr>co_delivered = False, co_message = None, co_owing_delivered = False, co_owing_message = None\<rparr>"

definition record_cancel ::
  "'w peer \<Rightarrow> logical_agent_id \<Rightarrow> message_id \<Rightarrow> string \<Rightarrow> ('w, cancel_outcome \<times> prepared_cancellation list) slice" where
  "record_cancel p requester ask reason =
     act_bind (sl_transact_now p (\<lambda>now. cancel_queued_delivery now requester ask reason)) (\<lambda>queued.
       if queued then act_return (nothing_delivered, [])
       else
         act_bind (sl_read (agent_address requester)) (\<lambda>by.
         act_bind (sl_read (ask_waiting_agent ask)) (\<lambda>_.
         act_bind (sl_read (cancel_recipient_incarnation ask)) (\<lambda>recipient.
         act_bind (sl_read (cancel_owing_incarnation ask)) (\<lambda>owing.
         act_bind (schedule_for p recipient) (\<lambda>(due, defer).
         act_bind (schedule_for p owing) (\<lambda>(owing_due, owing_defer).
         act_bind (sl_transact_now p (\<lambda>now. cancel_with_response now requester ask reason
             (cancel_body ask by reason) (cancel_owing_body ask by reason) due owing_due)) (\<lambda>created.
           sl_pure (cancellation_prompts created defer owing_defer)))))))))"

definition send_cancellation_prompt :: "'w peer \<Rightarrow> prepared_prompt \<Rightarrow> ('w, bool) slice" where
  "send_cancellation_prompt p q =
     act_match (blocking_connect p) (\<lambda>r. case r of
       Inl source \<Rightarrow> act_bind (sl_commit_now p (\<lambda>now. mark_rejected now (pp_operation q) (pp_incarnation q)
           (herdr_error_text source) DTargetUnavailable)) (\<lambda>_. act_return False)
     | Inr _ \<Rightarrow>
         act_bind (commit_prompt_intent p q) (\<lambda>_.
         act_match (act_match (prompt_write p (pp_request q) (pp_pane q) (pp_envelope q))
             (complete_prompt_delivery p q)) (\<lambda>r. case r of
           Inr _ \<Rightarrow> act_return True
         | Inl (SHerdr _) \<Rightarrow> act_return False
         | Inl (UnknownOutcome _ _) \<Rightarrow> act_return False
         | Inl e \<Rightarrow> act_fail e)))"

definition deliver_cancellation ::
  "'w peer \<Rightarrow> prepared_cancellation \<Rightarrow> cancel_outcome \<Rightarrow> ('w, cancel_outcome) slice" where
  "deliver_cancellation p c outcome =
     act_bind (send_cancellation_prompt p (snd c)) (\<lambda>ok. act_return
       (if fst c then outcome\<lparr>co_delivered := ok\<rparr> else outcome\<lparr>co_owing_delivered := ok\<rparr>))"

text \<open>\<open>cancel\<close> records as above and then writes the notices; its body repeats that of \<open>record_cancel\<close>.\<close>

definition slice_cancel :: "'w peer \<Rightarrow> logical_agent_id \<Rightarrow> message_id \<Rightarrow> string \<Rightarrow> ('w, cancel_outcome) slice" where
  "slice_cancel p requester ask reason =
     act_bind (sl_transact_now p (\<lambda>now. cancel_queued_delivery now requester ask reason)) (\<lambda>queued.
       if queued then act_return nothing_delivered
       else
         act_bind (sl_read (agent_address requester)) (\<lambda>by.
         act_bind (sl_read (ask_waiting_agent ask)) (\<lambda>_.
         act_bind (sl_read (cancel_recipient_incarnation ask)) (\<lambda>recipient.
         act_bind (sl_read (cancel_owing_incarnation ask)) (\<lambda>owing.
         act_bind (schedule_for p recipient) (\<lambda>(due, defer).
         act_bind (schedule_for p owing) (\<lambda>(owing_due, owing_defer).
         act_bind (sl_transact_now p (\<lambda>now. cancel_with_response now requester ask reason
             (cancel_body ask by reason) (cancel_owing_body ask by reason) due owing_due)) (\<lambda>created.
         act_bind (sl_pure (cancellation_prompts created defer owing_defer)) (\<lambda>(_, prompts).
           act_fold (deliver_cancellation p) prompts
             \<lparr>co_delivered = False, co_message = Some (cc_message created), co_owing_delivered = False,
              co_owing_message = Some (cc_owing_message created)\<rparr>)))))))))"

definition reject_unsent_prompt :: "'w peer \<Rightarrow> prepared_prompt \<Rightarrow> herdr_error \<Rightarrow> ('w, unit) slice" where
  "reject_unsent_prompt p q source =
     sl_commit_now p (\<lambda>now. mark_rejected now (pp_operation q) (pp_incarnation q) (herdr_error_text source)
       DTargetUnavailable)"

end
