(* ===== verification/Absences.thy ===== *)
theory Absences
  imports Exchanges
begin

text \<open>
  The retirement of a socket waiter and the sweep of absent parties (\<open>src/src/slice.rs\<close>): the
  asks of the waiter are cancelled in the store before any stop notice is written, and asks whose
  required party stayed absent are orphaned.
\<close>

record waiter_retire_notice =
  wn_ask :: message_id
  wn_message :: message_id
  wn_delivered :: bool

record waiter_retire_outcome =
  wo_cancelled :: "message_id list"
  wo_notices :: "waiter_retire_notice list"

record prepared_retire_notice =
  pn_ask :: message_id
  pn_message :: message_id
  pn_prepared :: "prepared_prompt option"

record prepared_waiter_retire =
  pw_cancelled :: "message_id list"
  pw_notices :: "prepared_retire_notice list"

definition prepare_cancellation_notice ::
  "operation_id \<Rightarrow> incarnation_id \<Rightarrow> string \<Rightarrow> db \<Rightarrow> store_error + prepared_prompt" where
  "prepare_cancellation_notice oid inc rendered d =
     rbind (ready_binding inc d) (\<lambda>binding.
       Inr \<lparr>pp_operation = oid, pp_incarnation = inc, pp_pane = rb_pane binding, pp_envelope = rendered,
            pp_request = ''kelpie:owing-cancellation:'' @ id_display oid, pp_queued = False\<rparr>)"

text \<open>When each owing notice is due, and which are left to the queue.\<close>

definition schedule_owing ::
  "'w peer \<Rightarrow> message_id \<Rightarrow> (message_id \<Rightarrow> int option) \<times> message_id list
   \<Rightarrow> ('w, (message_id \<Rightarrow> int option) \<times> message_id list) slice" where
  "schedule_owing p ask s = (case s of (owing_due, deferred) \<Rightarrow>
     act_bind (sl_read (cancel_owing_incarnation ask)) (\<lambda>owing.
     act_bind (schedule_for p owing) (\<lambda>(due, defer).
       act_return (owing_due(ask := due), if defer then ask # deferred else deferred))))"

definition retire_notice_prompt ::
  "string \<Rightarrow> message_id list \<Rightarrow> owing_retire_notice \<Rightarrow> db \<Rightarrow> slice_error + prepared_retire_notice" where
  "retire_notice_prompt reason deferred nt d =
     (let ask = on_ask nt; done = (\<lambda>q. \<lparr>pn_ask = ask, pn_message = on_message nt, pn_prepared = q\<rparr>) in
      if ask \<in> set deferred then Inr (done None)
      else case on_delivery nt of
        None \<Rightarrow> Inr (done None)
      | Some (oid, inc) \<Rightarrow>
          rbind (of_store (ask_info ask d)) (\<lambda>info.
          rbind (of_envelope (render_owing_cancellation (fo_responder_name info) (id_display ask) reason)) (\<lambda>txt.
          rbind (of_store (prepare_cancellation_notice oid inc txt d)) (\<lambda>q. Inr (done (Some q))))))"

definition prepare_retire_waiter ::
  "'w peer \<Rightarrow> logical_agent_id \<Rightarrow> string \<Rightarrow> ('w, prepared_waiter_retire) slice" where
  "prepare_retire_waiter p a reason =
     act_bind (sl_read (unresolved_asks_waiting_on a)) (\<lambda>asks.
     act_bind (act_fold (schedule_owing p) asks (\<lambda>_. None, [])) (\<lambda>(owing_due, deferred).
     act_bind (sl_transact_now p (\<lambda>now d. two_results (end_socket_waiter_with_owing_due now a owing_due reason d)))
       (\<lambda>(cancelled, notices).
     act_bind (sl_pure (\<lambda>d. rmap (\<lambda>nt. retire_notice_prompt reason deferred nt d) notices)) (\<lambda>prepared.
       act_return \<lparr>pw_cancelled = cancelled, pw_notices = prepared\<rparr>))))"

definition send_retire_notice ::
  "'w peer \<Rightarrow> prepared_retire_notice \<Rightarrow> waiter_retire_notice list \<Rightarrow> ('w, waiter_retire_notice list) slice" where
  "send_retire_notice p nt sent =
     act_bind (case pn_prepared nt of Some q \<Rightarrow> send_cancellation_prompt p q | None \<Rightarrow> act_return False)
       (\<lambda>delivered. act_return
         (sent @ [\<lparr>wn_ask = pn_ask nt, wn_message = pn_message nt, wn_delivered = delivered\<rparr>]))"

definition retire_waiter :: "'w peer \<Rightarrow> logical_agent_id \<Rightarrow> ('w, waiter_retire_outcome) slice" where
  "retire_waiter p a =
     act_bind (prepare_retire_waiter p a ''waiter retired'') (\<lambda>prepared.
     act_bind (act_fold (send_retire_notice p) (pw_notices prepared) []) (\<lambda>notices.
       act_return \<lparr>wo_cancelled = pw_cancelled prepared, wo_notices = notices\<rparr>))"

section \<open>The sweep\<close>

record absence_sweep =
  sw_expired :: "logical_agent_id list"
  sw_orphaned :: "message_id list"
  sw_prompts :: "prepared_cancellation list"

definition has_sweepable_state :: "('w, bool) slice" where
  "has_sweepable_state = sl_query (\<lambda>d. has_open_obligations d \<or> has_claimed_waiters d)"

definition sweep_waiter :: "'w peer \<Rightarrow> expired_waiter \<Rightarrow> absence_sweep \<Rightarrow> ('w, absence_sweep) slice" where
  "sweep_waiter p waiter sweep =
     (let a = ew_agent waiter in
      act_bind (sl_read (agent_address a)) (\<lambda>address.
      act_bind (prepare_retire_waiter p a ''waiter connection lost'') (\<lambda>prepared.
      act_bind (sl_notice p (''socket waiter '' @ id_display a @ '' ('' @ address
          @ '') was retired because its claiming connection was absent past the grace; ''
          @ show_nat (length (pw_cancelled prepared)) @ '' ask(s) cancelled'')) (\<lambda>_.
        act_return (sweep\<lparr>sw_expired := sw_expired sweep @ [a],
          sw_prompts := sw_prompts sweep
            @ map (Pair False) (List.map_filter pn_prepared (pw_notices prepared))\<rparr>)))))"

definition sweep_stranded :: "'w peer \<Rightarrow> stranded_ask \<Rightarrow> absence_sweep \<Rightarrow> ('w, absence_sweep) slice" where
  "sweep_stranded p x sweep =
     act_bind (sl_transact_now p (\<lambda>now. orphan_ask now (sa_ask x))) (\<lambda>r. case r of
       None \<Rightarrow> act_return sweep
     | Some created \<Rightarrow>
         act_bind (sl_pure (cancellation_prompts created False False)) (\<lambda>(_, prompts).
           act_return (sweep\<lparr>sw_orphaned := sw_orphaned sweep @ [sa_ask x],
             sw_prompts := sw_prompts sweep @ prompts\<rparr>)))"

definition sweep_absent_asks :: "'w peer \<Rightarrow> int \<Rightarrow> int \<Rightarrow> ('w, absence_sweep) slice" where
  "sweep_absent_asks p now_ms grace =
     act_bind (sl_query (expired_waiters now_ms grace)) (\<lambda>expired.
     act_bind (act_fold (sweep_waiter p) expired \<lparr>sw_expired = [], sw_orphaned = [], sw_prompts = []\<rparr>) (\<lambda>sweep.
     act_bind (sl_write (observe_ask_availability now_ms)) (\<lambda>_.
     act_bind (sl_query (stranded_asks now_ms grace)) (\<lambda>stranded.
       act_fold (sweep_stranded p) stranded sweep))))"

end
