(* ===== verification/Reminding.thy ===== *)
theory Reminding
  imports Prompts
begin

text \<open>
  Reminders of the coordination slice (\<open>src/src/slice.rs\<close>): an overdue obligation is reminded when
  a fresh lifecycle snapshot shows its exact runtime idle or done, at once or drafted for a worker of
  the daemon; and the wait of the idle loop.
\<close>

definition reminder_request_id :: "message_id \<Rightarrow> int \<Rightarrow> string" where
  "reminder_request_id ask now_ms = ''kelpie:reminder:'' @ id_display ask @ '':'' @ show_int now_ms"

record prepared_reminder =
  pm_reminder :: due_reminder
  pm_request :: string
  pm_envelope :: string
  pm_now_ms :: int

definition reminder_envelope :: "due_reminder \<Rightarrow> db \<Rightarrow> slice_error + string" where
  "reminder_envelope r d =
     rbind (of_store (agent_address (dr_waiting r) d)) (\<lambda>waiting.
       of_envelope (render_reminder waiting (id_display (dr_ask r))))"

definition draft_reminder :: "due_reminder \<Rightarrow> int \<Rightarrow> db \<Rightarrow> slice_error + prepared_reminder" where
  "draft_reminder r now_ms d =
     rbind (reminder_envelope r d) (\<lambda>envelope.
       Inr \<lparr>pm_reminder = r, pm_request = reminder_request_id (dr_ask r) now_ms, pm_envelope = envelope,
            pm_now_ms = now_ms\<rparr>)"

definition commit_reminder_intent :: "prepared_reminder \<Rightarrow> ('w, unit) slice" where
  "commit_reminder_intent q =
     act_bind (sl_commit (prepare_reminder_attempt (pm_reminder q) (pm_request q) (pm_now_ms q))) (\<lambda>_.
       sl_commit (submit_reminder_attempt (pm_request q)))"

section \<open>The answer\<close>

definition same_seat :: "agent_observation \<Rightarrow> due_reminder \<Rightarrow> bool" where
  "same_seat agent r \<longleftrightarrow> ao_pane_id agent = dr_pane r \<and> ao_terminal_id agent = dr_terminal r"

definition stalled_reminder_notice :: "string \<Rightarrow> due_reminder \<Rightarrow> string \<Rightarrow> string" where
  "stalled_reminder_notice request r detail = ''reminder '' @ request @ '' for ask '' @ id_display (dr_ask r)
     @ '' on pane '' @ dr_pane r @ '' was written but produced no observed agent activity ('' @ detail
     @ ''); nothing was resent''"

definition complete_reminder ::
  "'w peer \<Rightarrow> prepared_reminder \<Rightarrow> herdr_error + agent_observation \<Rightarrow> ('w, unit) slice" where
  "complete_reminder p q result =
     (let resolve = (\<lambda>out evidence.
            sl_commit (resolve_reminder_attempt (pm_request q) out (Some evidence) (pm_now_ms q))) in
      case result of
        Inr agent \<Rightarrow>
          if same_seat agent (pm_reminder q)
          then resolve ''accepted'' (pr_json p (submission_evidence Observed None))
          else act_bind (resolve ''unknown'' ''Herdr response belongs to a replacement runtime'')
                 (\<lambda>_. act_fail (slice_conflict ''reminder response belongs to a replacement runtime''))
      | Inl source \<Rightarrow>
          let detail = herdr_error_text source in
          (case post_write_observation source of
             Some observation \<Rightarrow>
               act_bind (resolve ''accepted'' (pr_json p (submission_evidence observation (Some detail)))) (\<lambda>_.
                 if observation = Stalled
                 then sl_notice p (stalled_reminder_notice (pm_request q) (pm_reminder q) detail)
                 else act_return ())
           | None \<Rightarrow>
               if is_rejected source
               then act_bind (resolve ''rejected'' detail) (\<lambda>_. act_fail (SHerdr source))
               else act_bind (resolve ''unknown'' detail) (\<lambda>_. act_fail (UnknownOutcome (pm_request q) source))))"

text \<open>One reminder at once: the same answer handling, written out a second time in the source.\<close>

definition fire_one_reminder :: "'w peer \<Rightarrow> due_reminder \<Rightarrow> int \<Rightarrow> ('w, unit) slice" where
  "fire_one_reminder p r now_ms =
     act_bind (sl_pure (reminder_envelope r)) (\<lambda>envelope.
     act_bind (sl_herdr (blocking_connect p)) (\<lambda>_.
     (let request = reminder_request_id (dr_ask r) now_ms;
          resolve = (\<lambda>out evidence. sl_commit (resolve_reminder_attempt request out (Some evidence) now_ms)) in
      act_bind (sl_commit (prepare_reminder_attempt r request now_ms)) (\<lambda>_.
      act_bind (sl_commit (submit_reminder_attempt request)) (\<lambda>_.
      act_match (prompt_write p request (dr_pane r) envelope) (\<lambda>result. case result of
        Inr agent \<Rightarrow>
          if ao_pane_id agent = dr_pane r \<and> ao_terminal_id agent = dr_terminal r
          then resolve ''accepted'' (pr_json p (submission_evidence Observed None))
          else act_bind (resolve ''unknown'' ''Herdr response belongs to a replacement runtime'')
                 (\<lambda>_. act_fail (slice_conflict ''reminder response belongs to a replacement runtime''))
      | Inl source \<Rightarrow>
          (case post_write_observation source of
             Some observation \<Rightarrow>
               act_bind (resolve ''accepted''
                   (pr_json p (submission_evidence observation (Some (herdr_error_text source))))) (\<lambda>_.
                 if observation = Stalled
                 then sl_notice p (''reminder '' @ request @ '' for ask '' @ id_display (dr_ask r)
                   @ '' on pane '' @ dr_pane r @ '' was written but produced no observed agent activity (''
                   @ herdr_error_text source @ ''); nothing was resent'')
                 else act_return ())
           | None \<Rightarrow>
               if is_rejected source
               then act_bind (resolve ''rejected'' (herdr_error_text source)) (\<lambda>_. act_fail (SHerdr source))
               else act_bind (resolve ''unknown'' (herdr_error_text source))
                      (\<lambda>_. act_fail (UnknownOutcome request source)))))))))"

section \<open>Boundaries\<close>

definition seat_status :: "lifecycle_observation list \<Rightarrow> due_reminder \<Rightarrow> agent_status" where
  "seat_status snap r = (case find_row (\<lambda>live. same_seat (lo_agent live) r) snap of
     None \<Rightarrow> StatusUnknown | Some live \<Rightarrow> lo_status live)"

definition boundary_reminder_to_fire ::
  "boundary_reminder \<Rightarrow> lifecycle_observation list \<Rightarrow> int \<Rightarrow> ('w, due_reminder option) slice" where
  "boundary_reminder_to_fire b snap now_ms =
     (let r = br_reminder b; status = seat_status snap r in
      if br_saw_working b \<and> (status = StatusIdle \<or> status = StatusDone) then act_return (Some r)
      else let saw_working = (status = StatusWorking);
               delay = (if saw_working then 250 else 1000)
           in act_bind (sl_commit (observe_reminder_lifecycle (dr_ask r) saw_working (now_ms + delay)))
                (\<lambda>_. act_return None))"

definition fire_boundary_reminder ::
  "'w peer \<Rightarrow> boundary_reminder \<Rightarrow> lifecycle_observation list \<Rightarrow> int \<Rightarrow> ('w, nat) slice" where
  "fire_boundary_reminder p b snap now_ms =
     act_bind (boundary_reminder_to_fire b snap now_ms) (\<lambda>r. case r of
       Some reminder \<Rightarrow> act_bind (fire_one_reminder p reminder now_ms) (\<lambda>_. act_return 1)
     | None \<Rightarrow> act_return 0)"

definition safe_to_remind :: "lifecycle_observation list \<Rightarrow> due_reminder \<Rightarrow> bool" where
  "safe_to_remind snap r \<longleftrightarrow> list_ex (\<lambda>live. same_seat (lo_agent live) r
     \<and> (lo_status live = StatusIdle \<or> lo_status live = StatusDone)) snap"

text \<open>The items whose incarnation is past its spacing.\<close>

definition unspaced :: "('x \<Rightarrow> incarnation_id) \<Rightarrow> int \<Rightarrow> 'x list \<Rightarrow> ('w, 'x list) slice" where
  "unspaced f now_ms items =
     act_fold (\<lambda>item kept. act_bind (prompt_spacing_active (f item) now_ms) (\<lambda>spacing.
       act_return (if spacing then kept else kept @ [item]))) items []"

definition fire_due_reminders :: "'w peer \<Rightarrow> ('w, nat) slice" where
  "fire_due_reminders p =
     act_bind (sl_clock p) (\<lambda>now_ms.
     act_bind (sl_read (due_reminders now_ms)) (\<lambda>due.
     act_bind (sl_read (boundary_reminders now_ms)) (\<lambda>boundaries.
     act_bind (unspaced dr_incarnation now_ms due) (\<lambda>due.
     act_bind (unspaced (dr_incarnation \<circ> br_reminder) now_ms boundaries) (\<lambda>boundaries.
       if due = [] \<and> boundaries = [] then act_return 0
       else
         act_bind (sl_herdr (blocking_lifecycle_snapshot p)) (\<lambda>snap.
         act_bind (act_fold (\<lambda>r fired.
             if safe_to_remind snap r
             then act_match (fire_one_reminder p r now_ms) (\<lambda>out. act_return (if isl out then fired else Suc fired))
             else act_bind (sl_commit (defer_busy_reminder (dr_ask r) now_ms 1000)) (\<lambda>_. act_return fired))
           due 0) (\<lambda>fired.
           act_fold (\<lambda>b fired.
             if dr_ask (br_reminder b) \<in> set (map dr_ask due) then act_return fired
             else act_bind (fire_boundary_reminder p b snap now_ms) (\<lambda>n. act_return (fired + n)))
           boundaries fired)))))))"

definition collect_due_reminders :: "'w peer \<Rightarrow> ('w, due_reminder list \<times> boundary_reminder list) slice" where
  "collect_due_reminders p =
     act_bind (sl_clock p) (\<lambda>now_ms.
     act_bind (sl_read (due_reminders now_ms)) (\<lambda>due.
     act_bind (sl_read (boundary_reminders now_ms)) (\<lambda>boundaries.
     act_bind (unspaced id now_ms (remdups (map dr_incarnation due @ map (dr_incarnation \<circ> br_reminder) boundaries)))
       (\<lambda>free. act_return (filter (\<lambda>r. dr_incarnation r \<in> set free) due,
                           filter (\<lambda>b. dr_incarnation (br_reminder b) \<in> set free) boundaries)))))"

definition reminders_after_snapshot ::
  "'w peer \<Rightarrow> due_reminder list \<Rightarrow> boundary_reminder list \<Rightarrow> lifecycle_observation list
   \<Rightarrow> ('w, prepared_reminder list) slice" where
  "reminders_after_snapshot p due boundaries snap =
     act_bind (sl_clock p) (\<lambda>now_ms.
     act_bind (act_fold (\<lambda>r prepared.
         if safe_to_remind snap r
         then act_bind (sl_pure (draft_reminder r now_ms)) (\<lambda>q. act_return (prepared @ [q]))
         else act_bind (sl_commit (defer_busy_reminder (dr_ask r) now_ms 1000)) (\<lambda>_. act_return prepared))
       due []) (\<lambda>prepared.
       act_fold (\<lambda>b prepared.
         if dr_ask (br_reminder b) \<in> set (map dr_ask due) then act_return prepared
         else act_bind (boundary_reminder_to_fire b snap now_ms) (\<lambda>r. case r of
                None \<Rightarrow> act_return prepared
              | Some reminder \<Rightarrow>
                  act_bind (sl_pure (draft_reminder reminder now_ms)) (\<lambda>q. act_return (prepared @ [q]))))
       boundaries prepared))"

section \<open>The idle wait\<close>

definition renew_active :: "db \<Rightarrow> bool" where
  "renew_active d = (case actionable_renews i64_max d of
     Inl _ \<Rightarrow> False | Inr items \<Rightarrow> list_ex (\<lambda>x. rn_phase (dn_row x) \<noteq> RScheduled) items)"

definition earliest_due_ms :: "db \<Rightarrow> int option" where
  "earliest_due_ms d = min_option (List.map_filter id
     [next_queued_due_at_ms d, next_schedule_due_at_ms d, next_reminder_due_at_ms d,
      next_boundary_check_at_ms d, next_renew_due_at_ms d])"

definition wait_until :: "nat \<Rightarrow> int \<Rightarrow> db \<Rightarrow> nat" where
  "wait_until cap now_ms d =
     (if renew_active d then cap
      else case earliest_due_ms d of
        None \<Rightarrow> cap
      | Some due \<Rightarrow>
          let wait = saturating_sub_i64 due now_ms in if wait \<le> 0 then cap else min (nat wait) cap)"

definition idle_wait :: "'w peer \<Rightarrow> nat \<Rightarrow> ('w, nat) slice" where
  "idle_wait p cap = act_match (sl_clock p) (\<lambda>r. case r of
     Inl _ \<Rightarrow> act_return cap | Inr now_ms \<Rightarrow> sl_query (wait_until cap now_ms))"

section \<open>Laws\<close>

text \<open>The drafted path ends as the immediate one: the two copies of the answer handling agree.\<close>

lemma draft_reminder_act:
  "sl_pure (draft_reminder r now_ms) = act_bind (sl_pure (reminder_envelope r)) (\<lambda>envelope.
     act_return \<lparr>pm_reminder = r, pm_request = reminder_request_id (dr_ask r) now_ms, pm_envelope = envelope,
       pm_now_ms = now_ms\<rparr>)"
  by (rule ext) (simp add: sl_pure_def draft_reminder_def act_bind_def act_return_def rbind_def split: sum.splits)

lemma reminder_paths_agree:
  "fire_one_reminder p r now_ms =
     act_bind (sl_pure (draft_reminder r now_ms)) (\<lambda>q.
     act_bind (sl_herdr (blocking_connect p)) (\<lambda>_.
     act_bind (commit_reminder_intent q) (\<lambda>_.
     act_match (prompt_write p (pm_request q) (dr_pane r) (pm_envelope q)) (complete_reminder p q))))"
  unfolding draft_reminder_act act_bind_assoc act_bind_return fire_one_reminder_def commit_reminder_intent_def
  by (simp add: Let_def complete_reminder_def [abs_def] same_seat_def stalled_reminder_notice_def
      cong: option.case_cong if_cong sum.case_cong)

lemma idle_wait_bounded: "wait_until cap now_ms d \<le> cap"
  by (simp add: wait_until_def Let_def split: option.splits)

end
