(* ===== verification/Clears.thy ===== *)
theory Clears
  imports Prompts
begin

text \<open>
  The clear of a backend's context (\<open>src/src/slice.rs\<close>): the pre-clear conversation is observed,
  the intent is recorded, the verified command is written once, and success is a conversation
  reference that differs from the observed one. A backend that rotates on its next prompt completes
  on acceptance. A conversation reference is the text of its JSON value; none is \<open>null\<close>.
\<close>

section \<open>Preparation\<close>

record prepared_clear =
  pc_backend_kind :: string
  pc_protocol :: clear_protocol
  pc_session :: string              \<comment> \<open>pre_clear_session\<close>

record clear_result =
  cl_operation :: operation_id
  cl_recipient :: logical_agent_id
  cl_incarnation :: incarnation_id
  cl_outcome :: operation_outcome

record awaiting_clear =
  aw_operation :: operation_id
  aw_recipient :: logical_agent_id
  aw_incarnation :: incarnation_id
  aw_pane :: string
  aw_backend_kind :: string
  aw_session :: string
  aw_deadline :: nat

datatype clear_submission = ClearComplete clear_result | ClearAwaiting awaiting_clear

definition session_text :: "agent_observation \<Rightarrow> string" where
  "session_text agent = (case ao_agent_session agent of None \<Rightarrow> ''null'' | Some s \<Rightarrow> s)"

definition session_rotated :: "string \<Rightarrow> agent_observation \<Rightarrow> bool" where
  "session_rotated pre observed \<longleftrightarrow> (case ao_agent_session observed of None \<Rightarrow> False | Some current \<Rightarrow> current \<noteq> pre)"

definition verified_backend :: "incarnation_id \<Rightarrow> db \<Rightarrow> slice_error + (string \<times> clear_protocol)" where
  "verified_backend inc d =
     rbind (of_store (incarnation_backend_kind inc d)) (\<lambda>backend.
       map_sum id (Pair backend) (ok_or (UnsupportedBackend backend) (clear_protocol_for backend)))"

definition prepared_clear_from_observation ::
  "incarnation_id \<Rightarrow> agent_observation \<Rightarrow> db \<Rightarrow> slice_error + prepared_clear" where
  "prepared_clear_from_observation inc observed d =
     rbind (verified_backend inc d) (\<lambda>(backend, protocol).
       Inr \<lparr>pc_backend_kind = backend, pc_protocol = protocol, pc_session = session_text observed\<rparr>)"

definition prepare_clear :: "'w peer \<Rightarrow> incarnation_id \<Rightarrow> string \<Rightarrow> string \<Rightarrow> ('w, prepared_clear) slice" where
  "prepare_clear p inc pane probe =
     act_bind (sl_pure (verified_backend inc)) (\<lambda>_.
     act_bind (sl_herdr (blocking_agent p probe pane)) (\<lambda>observed.
       sl_pure (prepared_clear_from_observation inc observed)))"

definition submit_clear_command ::
  "'w peer \<Rightarrow> string \<Rightarrow> string \<Rightarrow> string \<Rightarrow> ('w, herdr_error, agent_observation) act" where
  "submit_clear_command p request pane command =
     act_bind (blocking_connect p) (\<lambda>_. connection_prompt_agent p request pane command)"

definition observe_clear_rotation :: "'w peer \<Rightarrow> string \<Rightarrow> string \<Rightarrow> ('w, herdr_error, agent_observation) act" where
  "observe_clear_rotation p request pane = blocking_agent p request pane"

section \<open>The write and its answer\<close>

definition commit_clear_intent :: "'w peer \<Rightarrow> operation_id \<Rightarrow> incarnation_id \<Rightarrow> string \<Rightarrow> ('w, unit) slice" where
  "commit_clear_intent p oid inc request =
     act_bind (sl_transact_now p (\<lambda>now. begin_attempt now oid inc request)) (\<lambda>attempt.
       sl_commit_now p (\<lambda>now. mark_submitted now oid attempt request))"

definition settle_ms :: "('w, 'e, int) act" where
  "settle_ms = act_get ke_settle_ms"

definition finish_clear ::
  "'w peer \<Rightarrow> operation_id \<Rightarrow> logical_agent_id \<Rightarrow> incarnation_id \<Rightarrow> string option \<Rightarrow> ('w, clear_result) slice" where
  "finish_clear p oid recipient inc session =
     act_bind settle_ms (\<lambda>settle.
     act_bind (sl_commit_now p (\<lambda>now. complete_clear now oid inc session settle)) (\<lambda>_.
       act_return \<lparr>cl_operation = oid, cl_recipient = recipient, cl_incarnation = inc, cl_outcome = OpSucceeded\<rparr>))"

definition clear_unknown :: "'w peer \<Rightarrow> operation_id \<Rightarrow> incarnation_id \<Rightarrow> string \<Rightarrow> ('w, unit) slice" where
  "clear_unknown p oid inc detail = act_bind settle_ms (\<lambda>settle.
     sl_commit_now p (\<lambda>now. mark_clear_unknown now oid inc detail settle))"

definition apply_clear_command_result ::
  "'w peer \<Rightarrow> operation_id \<Rightarrow> logical_agent_id \<Rightarrow> incarnation_id \<Rightarrow> string \<Rightarrow> string \<Rightarrow> rotation_timing \<Rightarrow> string
   \<Rightarrow> herdr_error + agent_observation \<Rightarrow> ('w, clear_submission) slice" where
  "apply_clear_command_result p oid recipient inc pane backend rotation pre result = (case result of
     Inr observed \<Rightarrow>
       (case rotation of
          OnNextPrompt \<Rightarrow> act_bind (finish_clear p oid recipient inc None) (\<lambda>x. act_return (ClearComplete x))
        | OnClear \<Rightarrow>
            if session_rotated pre observed
            then act_bind (finish_clear p oid recipient inc (ao_agent_session observed))
                   (\<lambda>x. act_return (ClearComplete x))
            else act_bind (instant_now p) (\<lambda>now. act_return (ClearAwaiting
                   \<lparr>aw_operation = oid, aw_recipient = recipient, aw_incarnation = inc, aw_pane = pane,
                    aw_backend_kind = backend, aw_session = pre, aw_deadline = now + 60 * 1000\<rparr>)))
   | Inl source \<Rightarrow>
       if is_rejected source
       then act_bind (sl_commit_now p (\<lambda>now. mark_rejected now oid inc (herdr_error_text source) DRejected))
              (\<lambda>_. act_fail (SHerdr source))
       else act_bind (clear_unknown p oid inc (herdr_error_text source))
              (\<lambda>_. act_fail (UnknownOutcome (id_display oid) source)))"

definition refuse_unproven_clear :: "incarnation_id \<Rightarrow> db \<Rightarrow> slice_error + unit" where
  "refuse_unproven_clear inc d = (case unproven_clear inc d of
     Some oid \<Rightarrow> Inl (ClearUnproven (id_display oid)) | None \<Rightarrow> Inr ())"

text \<open>\<open>submit_clear\<close> handles the answer itself; the daemon's path calls the definition above.\<close>

definition submit_clear ::
  "'w peer \<Rightarrow> logical_agent_id \<Rightarrow> incarnation_id \<Rightarrow> string \<Rightarrow> ('w, clear_submission) slice" where
  "submit_clear p recipient inc key =
     act_bind (sl_read (validate_clear_target recipient inc)) (\<lambda>_.
     act_bind (sl_pure (refuse_unproven_clear inc)) (\<lambda>_.
     act_bind (sl_read (ready_binding inc)) (\<lambda>binding.
     act_bind (prepare_clear p inc (rb_pane binding) (''kelpie:clear:probe:'' @ key)) (\<lambda>prepared.
     act_bind settle_ms (\<lambda>settle.
     act_bind (sl_transact_now p (\<lambda>now. create_clear now recipient inc settle key)) (\<lambda>oid.
     (let request = ''kelpie:clear:'' @ id_display oid in
      act_bind (commit_clear_intent p oid inc request) (\<lambda>_.
      act_match (submit_clear_command p request (rb_pane binding) (cp_command (pc_protocol prepared))) (\<lambda>response.
        case response of
          Inr observed \<Rightarrow>
            if cp_rotation (pc_protocol prepared) = OnNextPrompt
            then act_bind (finish_clear p oid recipient inc None) (\<lambda>x. act_return (ClearComplete x))
            else if session_rotated (pc_session prepared) observed
            then act_bind (finish_clear p oid recipient inc (ao_agent_session observed))
                   (\<lambda>x. act_return (ClearComplete x))
            else act_bind (instant_now p) (\<lambda>now. act_return (ClearAwaiting
                   \<lparr>aw_operation = oid, aw_recipient = recipient, aw_incarnation = inc,
                    aw_pane = rb_pane binding, aw_backend_kind = pc_backend_kind prepared,
                    aw_session = pc_session prepared, aw_deadline = now + 60 * 1000\<rparr>))
        | Inl source \<Rightarrow>
            if is_rejected source
            then act_bind (sl_commit_now p (\<lambda>now. mark_rejected now oid inc (herdr_error_text source) DRejected))
                   (\<lambda>_. act_fail (SHerdr source))
            else act_bind (clear_unknown p oid inc (herdr_error_text source))
                   (\<lambda>_. act_fail (UnknownOutcome (id_display oid) source)))))))))))"

text \<open>The part of the daemon's clear between its probe and its write.\<close>

definition begin_clear_after_probe ::
  "'w peer \<Rightarrow> logical_agent_id \<Rightarrow> incarnation_id \<Rightarrow> string \<Rightarrow> agent_observation
   \<Rightarrow> ('w, operation_id \<times> string \<times> rotation_timing \<times> string \<times> string) slice" where
  "begin_clear_after_probe p recipient inc key observed =
     act_bind (sl_read (validate_clear_target recipient inc)) (\<lambda>_.
     act_bind (sl_pure (refuse_unproven_clear inc)) (\<lambda>_.
     act_bind (sl_pure (verified_backend inc)) (\<lambda>(backend, protocol).
     act_bind settle_ms (\<lambda>settle.
     act_bind (sl_transact_now p (\<lambda>now. create_clear now recipient inc settle key)) (\<lambda>oid.
       act_return (oid, cp_command protocol, cp_rotation protocol, session_text observed, backend))))))"

section \<open>Awaiting the rotation\<close>

definition apply_clear_rotation_observation ::
  "'w peer \<Rightarrow> awaiting_clear \<Rightarrow> herdr_error + agent_observation \<Rightarrow> ('w, clear_result option) slice" where
  "apply_clear_rotation_observation p a result = (case result of
     Inl error \<Rightarrow> act_bind (clear_unknown p (aw_operation a) (aw_incarnation a) (herdr_error_text error))
       (\<lambda>_. act_fail (SHerdr error))
   | Inr observed \<Rightarrow>
       if session_rotated (aw_session a) observed
       then act_bind (finish_clear p (aw_operation a) (aw_recipient a) (aw_incarnation a) (ao_agent_session observed))
              (\<lambda>x. act_return (Some x))
       else act_bind (instant_now p) (\<lambda>now.
         if aw_deadline a \<le> now
         then act_bind (clear_unknown p (aw_operation a) (aw_incarnation a)
                ''clear was accepted but session rotation was not observed'')
                (\<lambda>_. act_fail (ClearRotationTimeout (aw_backend_kind a)))
         else act_return None))"

definition advance_clear :: "'w peer \<Rightarrow> awaiting_clear \<Rightarrow> ('w, clear_result option) slice" where
  "advance_clear p a =
     act_match (observe_clear_rotation p (''kelpie:clear:rotation:'' @ id_display (aw_operation a)) (aw_pane a))
       (\<lambda>result. case result of
          Inl error \<Rightarrow> act_bind (clear_unknown p (aw_operation a) (aw_incarnation a) (herdr_error_text error))
            (\<lambda>_. act_fail (SHerdr error))
        | Inr observed \<Rightarrow>
            if session_rotated (aw_session a) observed
            then act_bind (finish_clear p (aw_operation a) (aw_recipient a) (aw_incarnation a)
                   (ao_agent_session observed)) (\<lambda>x. act_return (Some x))
            else act_bind (instant_now p) (\<lambda>now.
              if now < aw_deadline a then act_return None
              else act_bind (clear_unknown p (aw_operation a) (aw_incarnation a)
                     ''clear was accepted but session rotation was not observed'')
                     (\<lambda>_. act_fail (ClearRotationTimeout (aw_backend_kind a)))))"

definition clear_not_before_ms :: "incarnation_id \<Rightarrow> ('w, int) slice" where
  "clear_not_before_ms inc = act_get (\<lambda>k. case last_prompt_attempt_at_ms inc (ke_store k) of
     None \<Rightarrow> 0 | Some t \<Rightarrow> saturating_add_i64 t (ke_settle_ms k))"

definition await_clear :: "nat \<Rightarrow> 'w peer \<Rightarrow> awaiting_clear \<Rightarrow> ('w, clear_result option) slice" where
  "await_clear fuel p a = act_loop fuel (act_bind (act_sleep p START_READY_POLL) (\<lambda>_. advance_clear p a))"

definition slice_clear ::
  "nat \<Rightarrow> 'w peer \<Rightarrow> logical_agent_id \<Rightarrow> incarnation_id \<Rightarrow> string \<Rightarrow> ('w, clear_result option) slice" where
  "slice_clear fuel p recipient inc key =
     act_bind (clear_not_before_ms inc) (\<lambda>not_before.
     act_bind (sl_clock p) (\<lambda>now_ms.
     act_bind (if now_ms < not_before then act_sleep p (nat (not_before - now_ms)) else act_return ()) (\<lambda>_.
     act_bind (submit_clear p recipient inc key) (\<lambda>submission. case submission of
       ClearComplete x \<Rightarrow> act_return (Some x)
     | ClearAwaiting a \<Rightarrow> await_clear fuel p a))))"

section \<open>Laws\<close>

text \<open>The copies of the answer handling in the direct path agree with the daemon's.\<close>

lemma rotation_if: "(if r = OnNextPrompt then x else y) = (case r of OnNextPrompt \<Rightarrow> x | OnClear \<Rightarrow> y)"
  by (cases r) simp_all

lemma deadline_if: "(if (now :: nat) < deadline then x else y) = (if deadline \<le> now then y else x)"
  by auto

lemma submit_clear_applies:
  "submit_clear p recipient inc key =
     act_bind (sl_read (validate_clear_target recipient inc)) (\<lambda>_.
     act_bind (sl_pure (refuse_unproven_clear inc)) (\<lambda>_.
     act_bind (sl_read (ready_binding inc)) (\<lambda>binding.
     act_bind (prepare_clear p inc (rb_pane binding) (''kelpie:clear:probe:'' @ key)) (\<lambda>prepared.
     act_bind settle_ms (\<lambda>settle.
     act_bind (sl_transact_now p (\<lambda>now. create_clear now recipient inc settle key)) (\<lambda>oid.
     act_bind (commit_clear_intent p oid inc (''kelpie:clear:'' @ id_display oid)) (\<lambda>_.
     act_match (submit_clear_command p (''kelpie:clear:'' @ id_display oid) (rb_pane binding)
         (cp_command (pc_protocol prepared)))
       (apply_clear_command_result p oid recipient inc (rb_pane binding) (pc_backend_kind prepared)
          (cp_rotation (pc_protocol prepared)) (pc_session prepared)))))))))"
  by (simp add: submit_clear_def Let_def apply_clear_command_result_def [abs_def] rotation_if cong: sum.case_cong)

lemma advance_clear_applies:
  "advance_clear p a =
     act_match (observe_clear_rotation p (''kelpie:clear:rotation:'' @ id_display (aw_operation a)) (aw_pane a))
       (apply_clear_rotation_observation p a)"
  by (simp add: advance_clear_def apply_clear_rotation_observation_def [abs_def] deadline_if
      cong: sum.case_cong if_cong)

lemma session_rotated_iff: "session_rotated pre observed \<longleftrightarrow> (\<exists>s. ao_agent_session observed = Some s \<and> s \<noteq> pre)"
  by (simp add: session_rotated_def split: option.splits)

lemma probe_not_rotated: "\<not> session_rotated (session_text agent) agent"
  by (simp add: session_rotated_def session_text_def split: option.splits)

end
