(* ===== verification/Renewing.thy ===== *)
theory Renewing
  imports Clears
begin

text \<open>
  Renews driven by the coordination slice (\<open>src/src/slice.rs\<close>): the prepare prompt is delivered as
  an ask, its answer or timeout makes the renew ready, the clear is written at most once after the
  pre-clear conversation is recorded, the resume prompt is injected behind the backend's own
  barrier, and the rotation proves the cycle. Each pass commits before the next.
\<close>

section \<open>Arming\<close>

definition slice_renew ::
  "'w peer \<Rightarrow> logical_agent_id \<Rightarrow> logical_agent_id \<Rightarrow> incarnation_id \<Rightarrow> string \<Rightarrow> string \<Rightarrow> renew_timeout \<Rightarrow> int
   \<Rightarrow> int option \<Rightarrow> int \<Rightarrow> ('w, renew_id) slice" where
  "slice_renew p requester recipient inc prepare resume on_timeout timeout every scheduled =
     act_bind (sl_read (ready_binding inc)) (\<lambda>_.
     act_bind (sl_pure (verified_backend inc)) (\<lambda>_.
       sl_transact_now p (\<lambda>now. create_renew now
         \<lparr>ri_logical_agent_id = recipient, ri_incarnation_id = inc, ri_requester_agent_id = requester,
          ri_prepare_prompt = prepare, ri_resume_prompt = resume, ri_on_timeout = on_timeout,
          ri_prepare_timeout_ms = timeout, ri_every_ms = every, ri_scheduled_at_ms = scheduled\<rparr>)))"

section \<open>Notices\<close>

definition renew_rule :: "renew_identity_info \<Rightarrow> string" where
  "renew_rule y = (case ry_every_ms y of None \<Rightarrow> ''one-shot renew''
     | Some every \<Rightarrow> ''renew policy every '' @ format_duration_ms every)"

definition renew_subject :: "string \<Rightarrow> renew_id \<Rightarrow> renew_identity_info \<Rightarrow> string" where
  "renew_subject address i y = address @ '' (agent '' @ id_display (ry_agent y) @ '' incarnation ''
     @ id_display (ry_incarnation y) @ ''): '' @ renew_rule y @ '' '' @ id_display i"

definition renew_termination_notice :: "renew_id \<Rightarrow> renew_identity_info \<Rightarrow> db \<Rightarrow> store_error + string" where
  "renew_termination_notice i y d =
     rbind (agent_address (ry_agent y) d) (\<lambda>address.
       Inr (renew_subject address i y @ '' terminated at cycle '' @ show_nat (ry_cycle y)
         @ '' because its incarnation is no longer Ready. Adoption restores addressing, not the ''
         @ ''policy; re-arm with kelpie renew if that context still needs bounding.''))"

definition record_renew_notice :: "'w peer \<Rightarrow> due_renew \<Rightarrow> string \<Rightarrow> ('w, unit) slice" where
  "record_renew_notice p x detail =
     act_bind (sl_read (agent_address (rn_agent (dn_row x)))) (\<lambda>address.
       sl_notice p (address @ '': '' @ detail))"

section \<open>Termination and cancellation\<close>

definition terminate_ended_renew :: "'w peer \<Rightarrow> renew_id \<Rightarrow> unit \<Rightarrow> ('w, unit) slice" where
  "terminate_ended_renew p i _ =
     act_bind (sl_query (renew_identity i)) (\<lambda>identity. case identity of
       None \<Rightarrow> act_fail (SStore (InvalidRecord (RecordText (''renew '' @ id_display i
         @ '' vanished between selection and termination''))))
     | Some y \<Rightarrow>
         act_bind (sl_read (renew_termination_notice i y)) (\<lambda>body.
         act_bind (sl_transact_now p (\<lambda>now.
             terminate_renew_announced now i ''incarnation is no longer Ready'' body)) (\<lambda>_. act_return ())))"

definition terminate_ended_renews :: "'w peer \<Rightarrow> ('w, unit) slice" where
  "terminate_ended_renews p = act_bind (sl_query terminable_renews) (\<lambda>is.
     act_fold (terminate_ended_renew p) is ())"

definition cancel_renew_body ::
  "renew_id \<Rightarrow> logical_agent_id \<Rightarrow> string \<Rightarrow> renew_identity_info \<Rightarrow> db \<Rightarrow> store_error + string" where
  "cancel_renew_body i requester reason y d =
     rbind (agent_address (ry_agent y) d) (\<lambda>target.
     rbind (agent_address requester d) (\<lambda>canceller.
       Inr (renew_subject target i y @ '' cancelled at cycle '' @ show_nat (ry_cycle y) @ '' by '' @ canceller
         @ '' (agent '' @ id_display requester @ ''): '' @ reason
         @ ''. That context is no longer bounded; re-arm with kelpie renew if it should be.'')))"

definition slice_cancel_renew ::
  "'w peer \<Rightarrow> renew_id \<Rightarrow> logical_agent_id \<Rightarrow> string \<Rightarrow> ('w, operator_notice_id) slice" where
  "slice_cancel_renew p i requester reason =
     act_bind (sl_query (renew_identity i)) (\<lambda>identity. case identity of
       None \<Rightarrow> act_fail (slice_conflict (''renew '' @ id_display i @ '' does not exist''))
     | Some y \<Rightarrow>
         act_bind (sl_read (cancel_renew_body i requester reason y)) (\<lambda>body.
           sl_transact_now p (\<lambda>now. cancel_renew now i requester reason body)))"

section \<open>Occupancy\<close>

definition occupancy_sample_needed :: "'w peer \<Rightarrow> ('w, bool) slice" where
  "occupancy_sample_needed p =
     act_bind (sl_clock p) (\<lambda>now_ms.
     act_bind (sl_read scheduled_interval_renews) (\<lambda>clocks.
       act_return (list_ex (\<lambda>clock. occupancy_sample_is_due clock now_ms) clocks)))"

definition apply_occupancy_snapshot :: "int \<Rightarrow> lifecycle_observation list \<Rightarrow> ('w, unit) slice" where
  "apply_occupancy_snapshot now_ms snap =
     act_bind (sl_read scheduled_interval_renews) (\<lambda>clocks.
       act_fold (\<lambda>clock _.
         if \<not> occupancy_sample_is_due clock now_ms then act_return ()
         else sl_commit (accrue_renew_occupancy (ic_renew clock)
                (list_ex (\<lambda>live. occupancy_is_accumulating live clock) snap) now_ms)) clocks ())"

definition accrue_occupancy_from_snapshot :: "'w peer \<Rightarrow> lifecycle_observation list \<Rightarrow> ('w, unit) slice" where
  "accrue_occupancy_from_snapshot p snap =
     act_bind (sl_clock p) (\<lambda>now_ms. apply_occupancy_snapshot now_ms snap)"

definition accrue_scheduled_interval_renews :: "'w peer \<Rightarrow> int \<Rightarrow> ('w, unit) slice" where
  "accrue_scheduled_interval_renews p now_ms =
     act_bind (occupancy_sample_needed p) (\<lambda>needed.
       if \<not> needed then act_return ()
       else act_match (blocking_lifecycle_snapshot p) (\<lambda>r. case r of
              Inl _ \<Rightarrow> act_return () | Inr snap \<Rightarrow> apply_occupancy_snapshot now_ms snap))"

section \<open>Prepare\<close>

definition begin_renew_prepare :: "'w peer \<Rightarrow> due_renew \<Rightarrow> int \<Rightarrow> ('w, prepared_prompt) slice" where
  "begin_renew_prepare p x now_ms =
     (let r = dn_row x; deadline = saturating_add_i64 now_ms (rn_prepare_timeout_ms r) in
      act_bind (sl_read (agent_address (rn_requester r))) (\<lambda>requester.
      act_bind (sl_transact_now p (\<lambda>now d. two_results (create_ask_with_schedule now (rn_agent r) (rn_agent r)
          (rn_incarnation r) (rn_prepare_prompt r) (''kelpie:renew:prepare:'' @ id_display (rn_id r)) None
          (Some (rn_prepare_timeout_ms r)) False d))) (\<lambda>(message, oid).
      act_bind (sl_commit (mark_renew_preparing (rn_id r) message deadline)) (\<lambda>_.
      act_bind (act_result (of_envelope (render_renew_prepare requester (id_display message) (int (rn_cycle r))
          deadline (rn_prepare_prompt r) (rn_resume_prompt r)))) (\<lambda>rendered.
        begin_prompt_delivery
          \<lparr>dd_operation = oid, dd_message = message, dd_kind = Ask, dd_sender = Some (rn_requester r),
           dd_recipient = rn_agent r, dd_incarnation = rn_incarnation r, dd_body = rn_prepare_prompt r,
           dd_scheduled_at_ms = 0\<rparr> False (Some rendered))))))"

definition renew_deliver_prepare :: "'w peer \<Rightarrow> due_renew \<Rightarrow> int \<Rightarrow> ('w, bool) slice" where
  "renew_deliver_prepare p x now_ms =
     act_bind (begin_renew_prepare p x now_ms) (\<lambda>q.
     act_bind (send_prepared_prompt p q) (\<lambda>_. act_return True))"

definition renew_settle_prepare :: "'w peer \<Rightarrow> due_renew \<Rightarrow> int \<Rightarrow> ('w, bool) slice" where
  "renew_settle_prepare p x now_ms =
     (if dn_obligation_state x = Some ObResolved
      then act_bind (sl_commit_now p (\<lambda>now. mark_renew_ready now (rn_id (dn_row x)))) (\<lambda>_. act_return True)
      else case rn_prepare_deadline_ms (dn_row x) of
        Some due \<Rightarrow>
          if due \<le> now_ms
          then act_bind (sl_commit (mark_renew_timed_out (rn_id (dn_row x)))) (\<lambda>_. act_return True)
          else act_return False
      | None \<Rightarrow> act_return False)"

definition renew_apply_timeout :: "'w peer \<Rightarrow> due_renew \<Rightarrow> ('w, bool) slice" where
  "renew_apply_timeout p x =
     (let i = rn_id (dn_row x);
          detail = ''renew cycle '' @ show_nat (rn_cycle (dn_row x))
            @ '' prepare deadline elapsed with no final reply'' in
      case rn_on_timeout (dn_row x) of
        TimeoutAbort \<Rightarrow>
          act_bind (sl_transact_now p (\<lambda>now. abort_renew now i detail)) (\<lambda>_.
          act_bind (record_renew_notice p x (detail @ ''; context left intact and the renew was abandoned''))
            (\<lambda>_. act_return True))
      | TimeoutProceed \<Rightarrow>
          act_bind (sl_commit_now p (\<lambda>now. mark_renew_ready now i)) (\<lambda>_.
          act_bind (record_renew_notice p x (detail @ ''; clearing anyway as requested, unsaved work is lost''))
            (\<lambda>_. act_return True)))"

section \<open>Clear\<close>

record renew_clear_write =
  rc_request :: string
  rc_pane_id :: string
  rc_command :: string

definition renew_clear_ready_to_probe :: "due_renew \<Rightarrow> int \<Rightarrow> ('w, bool) slice" where
  "renew_clear_ready_to_probe x now_ms = act_get (\<lambda>k.
     \<not> renew_step_submitted (rn_id (dn_row x)) StepClear (ke_store k)
     \<and> (case dn_settled_at_ms x of None \<Rightarrow> True
         | Some settled \<Rightarrow> saturating_add_i64 settled (ke_settle_ms k) \<le> now_ms))"

definition record_renew_clearing_prepared :: "due_renew \<Rightarrow> int \<Rightarrow> prepared_clear \<Rightarrow> ('w, renew_clear_write) slice" where
  "record_renew_clearing_prepared x now_ms prepared =
     (let i = rn_id (dn_row x); request = ''kelpie:renew:clear:'' @ id_display i;
          inject_not_before = (case cp_rotation (pc_protocol prepared) of
            OnClear \<Rightarrow> None | OnNextPrompt \<Rightarrow> Some (saturating_add_i64 now_ms PROMPT_SETTLE_DELAY_MS)) in
      act_bind (sl_commit (mark_renew_clearing i (pc_session prepared)
          (saturating_add_i64 now_ms CLEAR_ROTATION_STALL_MS) inject_not_before)) (\<lambda>_.
      act_bind (sl_commit (prepare_renew_attempt i (rn_incarnation (dn_row x)) StepClear request now_ms)) (\<lambda>_.
      act_bind (sl_commit (submit_renew_attempt request)) (\<lambda>_.
        act_return \<lparr>rc_request = request, rc_pane_id = dn_pane x, rc_command = cp_command (pc_protocol prepared)\<rparr>))))"

definition record_renew_clearing :: "due_renew \<Rightarrow> int \<Rightarrow> agent_observation \<Rightarrow> ('w, renew_clear_write) slice" where
  "record_renew_clearing x now_ms observed =
     act_bind (sl_pure (prepared_clear_from_observation (rn_incarnation (dn_row x)) observed))
       (record_renew_clearing_prepared x now_ms)"

definition apply_renew_attempt_result ::
  "renew_id \<Rightarrow> string \<Rightarrow> int \<Rightarrow> herdr_error + unit \<Rightarrow> ('w, bool) slice" where
  "apply_renew_attempt_result i request now_ms result = (case result of
     Inr _ \<Rightarrow> act_bind (sl_commit (resolve_renew_attempt request ''accepted'' None now_ms)) (\<lambda>_. act_return True)
   | Inl source \<Rightarrow>
       if is_rejected source
       then act_bind (sl_commit (resolve_renew_attempt request ''rejected'' (Some (herdr_error_text source)) now_ms))
              (\<lambda>_. act_fail (SHerdr source))
       else act_bind (sl_commit (resolve_renew_attempt request ''unknown'' (Some (herdr_error_text source)) now_ms))
              (\<lambda>_. act_fail (UnknownOutcome (id_display i) source)))"

definition renew_submit_clear :: "'w peer \<Rightarrow> due_renew \<Rightarrow> int \<Rightarrow> ('w, bool) slice" where
  "renew_submit_clear p x now_ms =
     act_bind (renew_clear_ready_to_probe x now_ms) (\<lambda>go.
       if \<not> go then act_return False
       else
         act_bind (prepare_clear p (rn_incarnation (dn_row x)) (dn_pane x)
             (''kelpie:renew:probe:'' @ id_display (rn_id (dn_row x)))) (\<lambda>prepared.
         act_bind (record_renew_clearing_prepared x now_ms prepared) (\<lambda>wr.
         act_match (submit_clear_command p (rc_request wr) (rc_pane_id wr) (rc_command wr)) (\<lambda>result.
           apply_renew_attempt_result (rn_id (dn_row x)) (rc_request wr) now_ms (map_sum id (\<lambda>_. ()) result)))))"

section \<open>Reports of an unproven clear\<close>

definition report_clear_stall :: "'w peer \<Rightarrow> due_renew \<Rightarrow> int \<Rightarrow> string \<Rightarrow> ('w, bool) slice" where
  "report_clear_stall p x now_ms consequence =
     (let r = dn_row x in
      if (case rn_clear_deadline_ms r of None \<Rightarrow> False | Some due \<Rightarrow> due \<le> now_ms) \<and> rn_stall_notified_at_ms r = None
      then act_bind (sl_write (claim_renew_clear_stall_notice (rn_id r) now_ms)) (\<lambda>claimed.
             if \<not> claimed then act_return False
             else act_bind (sl_read (incarnation_backend_kind (rn_incarnation r))) (\<lambda>backend.
               act_bind (record_renew_notice p x (''renew cycle '' @ show_nat (rn_cycle r) @ '' cleared this ''
                   @ backend @ '' agent over '' @ show_int (CLEAR_ROTATION_STALL_MS div 1000)
                   @ ''s ago and its backend-native session has not rotated; '' @ consequence)) (\<lambda>_.
                 act_return True)))
      else act_return False)"

text \<open>The notice joins its two halves with an em dash.\<close>

definition em_dash :: string where "em_dash = [CHR 0xE2, CHR 0x80, CHR 0x94]"

definition abandon_unproven_cycle :: "'w peer \<Rightarrow> due_renew \<Rightarrow> int \<Rightarrow> ('w, bool) slice" where
  "abandon_unproven_cycle p x now_ms =
     (let r = dn_row x; cycle = show_nat (rn_cycle r) in
      case rn_clear_deadline_ms r of
        None \<Rightarrow> act_return False
      | Some due \<Rightarrow>
          if now_ms < saturating_add_i64 due CLEAR_PROOF_ABANDON_MS then act_return False
          else
            act_bind (sl_transact_now p (\<lambda>now. abandon_renew_proof now (rn_id r) (''clear never proven: cycle ''
                @ cycle @ '' injected its resume prompt and the backend-native session never rotated''))) (\<lambda>nxt.
            act_bind (record_renew_notice p x (''renew cycle '' @ cycle @ '' was never proven cleared ''
                @ show_int (CLEAR_PROOF_ABANDON_MS div 60000) @ '' minutes after its resume prompt was ''
                @ ''injected; the context was probably never bounded and that prompt probably went ''
                @ ''into it '' @ em_dash @ '' '' @ (if nxt \<noteq> None
                  then ''this cycle is abandoned and the next one is armed on schedule''
                  else ''this cycle is abandoned and nothing further is scheduled''))) (\<lambda>_.
              act_return True)))"

section \<open>Injection\<close>

record renew_inject_write =
  rj_request :: string
  rj_pane_id :: string
  rj_envelope :: string
  rj_rotated :: bool
  rj_observed :: agent_observation

definition pre_clear_session :: "string \<Rightarrow> due_renew \<Rightarrow> slice_error + string" where
  "pre_clear_session missing x =
     ok_or (SStore (InvalidRecord (RecordText missing))) (rn_pre_clear_session (dn_row x))"

definition stall_before_injection :: string where
  "stall_before_injection = ''the context may be gone with the resume prompt still unsent, and Kelpie ''
     @ ''will keep retrying the injection until it lands''"

definition record_renew_injection ::
  "due_renew \<Rightarrow> int \<Rightarrow> agent_observation \<Rightarrow> bool \<Rightarrow> ('w, renew_inject_write option) slice" where
  "record_renew_injection x now_ms observed rotated =
     (let r = dn_row x; request = ''kelpie:renew:inject:'' @ id_display (rn_id r) @ '':'' @ show_int now_ms in
      act_bind (sl_read (agent_address (rn_requester r))) (\<lambda>requester.
      act_bind (act_result (of_envelope (render_renew_resume requester (int (rn_cycle r)) now_ms (rn_resume_prompt r))))
        (\<lambda>envelope.
      act_bind (sl_commit (prepare_renew_attempt (rn_id r) (rn_incarnation r) StepInject request now_ms)) (\<lambda>_.
      act_bind (sl_commit (submit_renew_attempt request)) (\<lambda>_.
        act_return (Some \<lparr>rj_request = request, rj_pane_id = dn_pane x, rj_envelope = envelope,
          rj_rotated = rotated, rj_observed = observed\<rparr>))))))"

definition renew_inject_decision ::
  "'w peer \<Rightarrow> due_renew \<Rightarrow> int \<Rightarrow> agent_observation \<Rightarrow> ('w, renew_inject_write option) slice" where
  "renew_inject_decision p x now_ms observed =
     act_bind (act_result (pre_clear_session ''clearing renew has no pre-clear session'' x)) (\<lambda>pre.
       let rotated = session_rotated pre observed in
       case rn_inject_not_before_ms (dn_row x) of
         Some earliest \<Rightarrow>
           if now_ms < earliest then act_return None
           else record_renew_injection x now_ms observed rotated
       | None \<Rightarrow>
           if \<not> rotated
           then act_bind (report_clear_stall p x now_ms stall_before_injection) (\<lambda>_. act_return None)
           else record_renew_injection x now_ms observed rotated)"

definition apply_renew_inject_result ::
  "due_renew \<Rightarrow> int \<Rightarrow> renew_inject_write \<Rightarrow> herdr_error + unit \<Rightarrow> ('w, bool) slice" where
  "apply_renew_inject_result x now_ms wr result = (case result of
     Inr _ \<Rightarrow>
       act_bind (sl_commit (resolve_renew_attempt (rj_request wr) ''accepted'' None now_ms)) (\<lambda>_.
       act_bind (sl_commit (mark_renew_injected (rn_id (dn_row x)))) (\<lambda>_.
       act_bind (case (rj_rotated wr, ao_agent_session (rj_observed wr)) of
           (True, Some session) \<Rightarrow> sl_commit (replace_observed_native_session (rn_incarnation (dn_row x)) session)
         | _ \<Rightarrow> act_return ()) (\<lambda>_. act_return True)))
   | Inl source \<Rightarrow> apply_renew_attempt_result (rn_id (dn_row x)) (rj_request wr) now_ms (Inl source))"

definition renew_finish_clear :: "'w peer \<Rightarrow> due_renew \<Rightarrow> int \<Rightarrow> ('w, bool) slice" where
  "renew_finish_clear p x now_ms =
     act_bind (sl_herdr (observe_clear_rotation p (''kelpie:renew:rotation:'' @ id_display (rn_id (dn_row x)))
         (dn_pane x))) (\<lambda>observed.
     act_bind (renew_inject_decision p x now_ms observed) (\<lambda>decision. case decision of
       None \<Rightarrow> act_return False
     | Some wr \<Rightarrow>
         act_bind (sl_herdr (blocking_connect p)) (\<lambda>_.
         act_match (connection_prompt_agent p (rj_request wr) (rj_pane_id wr) (rj_envelope wr)) (\<lambda>result.
           apply_renew_inject_result x now_ms wr (map_sum id (\<lambda>_. ()) result)))))"

section \<open>Confirmation\<close>

definition stall_after_injection :: string where
  "stall_after_injection = ''the resume prompt was accepted and no new conversation appeared, so the clear ''
     @ ''may never have landed and that prompt may have gone into the context it was ''
     @ ''meant to replace; the context is not bounded and the cycle needs a look''"

definition apply_renew_confirm_observation ::
  "'w peer \<Rightarrow> due_renew \<Rightarrow> int \<Rightarrow> agent_observation \<Rightarrow> ('w, bool) slice" where
  "apply_renew_confirm_observation p x now_ms observed =
     act_bind (act_result (pre_clear_session ''injected renew has no pre-clear session'' x)) (\<lambda>pre.
       if \<not> session_rotated pre observed
       then act_bind (report_clear_stall p x now_ms stall_after_injection) (\<lambda>_.
            act_bind (abandon_unproven_cycle p x now_ms) (\<lambda>_. act_return False))
       else act_bind (case ao_agent_session observed of
                Some session \<Rightarrow> sl_commit (replace_observed_native_session (rn_incarnation (dn_row x)) session)
              | None \<Rightarrow> act_return ()) (\<lambda>_. act_return True))"

definition renew_confirm_rotation :: "'w peer \<Rightarrow> due_renew \<Rightarrow> int \<Rightarrow> ('w, bool) slice" where
  "renew_confirm_rotation p x now_ms =
     (if rn_inject_not_before_ms (dn_row x) = None then act_return True
      else act_bind (sl_herdr (observe_clear_rotation p (''kelpie:renew:confirm:'' @ id_display (rn_id (dn_row x)))
               (dn_pane x))) (apply_renew_confirm_observation p x now_ms))"

section \<open>The driver\<close>

definition advance_renew :: "'w peer \<Rightarrow> due_renew \<Rightarrow> int \<Rightarrow> ('w, bool) slice" where
  "advance_renew p x now_ms = (case rn_phase (dn_row x) of
     RScheduled \<Rightarrow> renew_deliver_prepare p x now_ms
   | RPreparing \<Rightarrow> renew_settle_prepare p x now_ms
   | RTimedOut \<Rightarrow> renew_apply_timeout p x
   | RReady \<Rightarrow> renew_submit_clear p x now_ms
   | RClearing \<Rightarrow> renew_finish_clear p x now_ms
   | RInjected \<Rightarrow>
       act_bind (renew_confirm_rotation p x now_ms) (\<lambda>proven.
         if \<not> proven then act_return False
         else act_bind (sl_transact_now p (\<lambda>now. complete_renew now (rn_id (dn_row x)))) (\<lambda>_. act_return True))
   | _ \<Rightarrow> act_return False)"

definition renew_failure :: "slice_error \<Rightarrow> bool" where
  "renew_failure e = (case e of
     SHerdr _ \<Rightarrow> True | UnknownOutcome _ _ \<Rightarrow> True | UnsupportedBackend _ \<Rightarrow> True
   | SStore (Conflict _) \<Rightarrow> True | _ \<Rightarrow> False)"

definition drive_renews :: "'w peer \<Rightarrow> ('w, nat) slice" where
  "drive_renews p =
     act_bind (terminate_ended_renews p) (\<lambda>_.
     act_bind (sl_clock p) (\<lambda>now_ms.
     act_bind (accrue_scheduled_interval_renews p now_ms) (\<lambda>_.
     act_bind (sl_read (actionable_renews now_ms)) (\<lambda>items.
       act_fold (\<lambda>x advanced.
         act_bind (if rn_phase (dn_row x) = RScheduled
                   then prompt_spacing_active (rn_incarnation (dn_row x)) now_ms else act_return False) (\<lambda>spacing.
           if spacing then act_return advanced
           else act_match (advance_renew p x now_ms) (\<lambda>r. case r of
                  Inr moved \<Rightarrow> act_return (if moved then Suc advanced else advanced)
                | Inl e \<Rightarrow> if renew_failure e then act_return advanced else act_fail e))) items 0))))"

section \<open>Laws\<close>

text \<open>The clear is written at most once per renew: a submitted attempt ends the phase's writes.\<close>

lemma submitted_clear_never_repeats:
  assumes "renew_step_submitted (rn_id (dn_row x)) StepClear (ke_store k)"
  shows "renew_submit_clear p x now_ms k = (Inr False, k)"
  using assms by (simp add: renew_submit_clear_def renew_clear_ready_to_probe_def act_simps)

text \<open>For a backend that rotates on the clear nothing is injected into the pre-clear conversation.\<close>

lemma injection_needs_rotation:
  assumes "renew_inject_decision p x now_ms observed k = (Inr (Some wr), k')"
    and "rn_inject_not_before_ms (dn_row x) = None"
  shows "\<exists>pre. rn_pre_clear_session (dn_row x) = Some pre \<and> session_rotated pre observed"
  using assms
  by (auto simp: renew_inject_decision_def act_simps pre_clear_session_def ok_or_def Let_def
      split: option.splits if_splits prod.splits sum.splits)

text \<open>For a backend that rotates on the next prompt, nothing before the recorded instant.\<close>

lemma injection_waits:
  assumes "renew_inject_decision p x now_ms observed k = (Inr (Some wr), k')"
    and "rn_inject_not_before_ms (dn_row x) = Some earliest"
  shows "earliest \<le> now_ms"
  using assms
  by (auto simp: renew_inject_decision_def act_simps pre_clear_session_def ok_or_def Let_def
      split: option.splits if_splits prod.splits sum.splits)

end
