(* ===== verification/Adopt.thy ===== *)
theory Adopt
  imports Slice Names
begin

text \<open>
  Adoption of a live agent by the coordination slice (\<open>src/src/slice.rs\<close>): the exact live occupant of
  a seat is bound to the identity its name or its recorded seat names, at once when it carries the
  name, or after a rename that a fresh snapshot confirms; and the resolution of a caller's pane and of
  an alias, which adopt when nothing Ready is recorded.
\<close>

section \<open>The live occupant\<close>

definition seat_agent :: "snapshot \<Rightarrow> string \<Rightarrow> string \<Rightarrow> agent_observation option" where
  "seat_agent snap pane terminal =
     find_row (\<lambda>agent. ao_pane_id agent = pane \<and> ao_terminal_id agent = terminal) (sn_agents snap)"

definition seat_pane :: "snapshot \<Rightarrow> string \<Rightarrow> string \<Rightarrow> pane_observation option" where
  "seat_pane snap pane terminal =
     find_row (\<lambda>q. po_pane_id q = pane \<and> po_terminal_id q = terminal) (sn_panes snap)"

definition adopt_live :: "snapshot \<Rightarrow> adopt_intent \<Rightarrow> slice_error + (agent_observation \<times> pane_observation)" where
  "adopt_live snap n =
     (let pane = ai_pane_id n; terminal = ai_expected_terminal_id n in
      rbind (ok_or (LiveConflict (''no live agent for pane '' @ pane @ '' terminal '' @ terminal))
               (seat_agent snap pane terminal)) (\<lambda>agent.
      rbind (ok_or (LiveConflict (''snapshot pane '' @ pane @ '' terminal '' @ terminal @ '' is absent''))
               (seat_pane snap pane terminal)) (\<lambda>q. Inr (agent, q))))"

definition nonempty_text :: "string option \<Rightarrow> string option" where
  "nonempty_text v = (case v of None \<Rightarrow> None | Some s \<Rightarrow> if s = [] then None else Some s)"

section \<open>The identity and its name\<close>

text \<open>The one logical agent still continuable on the recorded seat.\<close>

definition continue_recorded_seat :: "agent_observation \<Rightarrow> adopt_intent \<Rightarrow> db \<Rightarrow> slice_error + adopt_intent" where
  "continue_recorded_seat agent n d =
     (if ai_logical_agent_id n \<noteq> None then Inr n
      else
        let pane = ai_pane_id n; terminal = ai_expected_terminal_id n in
        rbind (of_store (continuable_logical_agent_for_binding pane terminal d)) (\<lambda>r. case r of
          None \<Rightarrow> Inr n
        | Some a \<Rightarrow>
            rbind (of_store (agent_address a d)) (\<lambda>recorded.
            rbind (case nonempty_text (ao_name agent) of None \<Rightarrow> Inr ()
                   | Some live \<Rightarrow> ensure (live = recorded) (LiveConflict (''pane '' @ pane @ '' terminal '' @ terminal
                       @ '' matches logical agent '' @ id_display a @ '' by recorded seat, but live name '' @ live
                       @ '' conflicts with its desired name '' @ recorded
                       @ ''; use adopt --logical-id only after resolving the name conflict''))) (\<lambda>_.
              Inr (n\<lparr>ai_logical_agent_id := Some a, ai_public_name := Some recorded\<rparr>)))))"

definition continue_adopted_name :: "string option \<Rightarrow> adopt_intent \<Rightarrow> db \<Rightarrow> adopt_intent" where
  "continue_adopted_name live n d =
     (if ai_logical_agent_id n \<noteq> None then n
      else case (case nonempty_text live of Some name \<Rightarrow> Some name | None \<Rightarrow> ai_public_name n) of
        None \<Rightarrow> n
      | Some name \<Rightarrow> (case name_holder_for_start name d of
            None \<Rightarrow> n
          | Some (holder, _) \<Rightarrow> n\<lparr>ai_logical_agent_id := Some holder, ai_public_name := Some name\<rparr>))"

definition name_error_text :: "name_error \<Rightarrow> string" where
  "name_error_text e = (case e of
     CannotDeriveName \<Rightarrow> ''cannot derive a Herdr-legal public name''
   | CannotDeriveSuffix \<Rightarrow> ''cannot derive a stable pane suffix for a colliding name''
   | SuffixDoesNotFit \<Rightarrow> ''colliding name cannot fit a pane suffix within 32 characters''
   | DerivedNameTaken candidate \<Rightarrow> ''derived name '' @ candidate @ '' is already used''
   | NoCwdAlias \<Rightarrow> ''cannot derive a Herdr-legal name from the working directory'')"

text \<open>The derivation is tried twice: a holder that worked elsewhere keeps its name.\<close>

fun derive_name ::
  "nat \<Rightarrow> string \<Rightarrow> string \<Rightarrow> string list \<Rightarrow> db \<Rightarrow> slice_error + (string \<times> logical_agent_id option)" where
  "derive_name 0 directory pane taken d = Inl (LiveConflict (''the names derived from '' @ directory
     @ '' belong to identities that worked elsewhere; adopt with --name to choose one''))"
| "derive_name (Suc n) directory pane taken d =
     rbind (map_sum (LiveConflict \<circ> name_error_text) id (aligned_live_name directory pane taken)) (\<lambda>derived.
       case name_holder_for_start derived d of
         None \<Rightarrow> Inr (derived, None)
       | Some (holder, worked_in) \<Rightarrow>
           if same_directory worked_in directory then Inr (derived, Some holder)
           else derive_name n directory pane (taken @ [derived]) d)"

definition taken_names :: "adopt_intent \<Rightarrow> snapshot \<Rightarrow> db \<Rightarrow> string list" where
  "taken_names n snap d = List.map_filter ao_name (filter (\<lambda>agent. ao_pane_id agent \<noteq> ai_pane_id n
       \<or> ao_terminal_id agent \<noteq> ai_expected_terminal_id n) (sn_agents snap)) @ active_aliases d"

definition claim_name_for_unbound ::
  "adopt_intent \<Rightarrow> snapshot \<Rightarrow> string \<Rightarrow> db \<Rightarrow> slice_error + (string \<times> logical_agent_id option)" where
  "claim_name_for_unbound n snap directory d =
     (let taken = taken_names n snap d in
      case ai_public_name n of
        Some requested \<Rightarrow>
          rbind (ensure (valid_herdr_name requested) (LiveConflict
              (requested @ '' is not a legal Herdr name (lowercase first, at most 32 characters)''))) (\<lambda>_.
          rbind (ensure (requested \<notin> set taken) (LiveConflict
              (requested @ '' is held by a live agent; choose another name''))) (\<lambda>_.
            Inr (requested, None)))
      | None \<Rightarrow> derive_name 2 directory (ai_pane_id n) taken d)"

text \<open>The name the occupant is adopted under, and the intent it is adopted with.\<close>

definition adopted_name ::
  "agent_observation \<Rightarrow> string \<Rightarrow> snapshot \<Rightarrow> adopt_intent \<Rightarrow> db \<Rightarrow> slice_error + (string \<times> adopt_intent)" where
  "adopted_name agent directory snap n d =
     (case (nonempty_text (ao_name agent), ai_logical_agent_id n, ai_public_name n) of
        (Some live, _, _) \<Rightarrow> Inr (live, n)
      | (None, Some _, Some requested) \<Rightarrow> Inr (requested, n)
      | (None, Some a, None) \<Rightarrow> map_sum SStore (\<lambda>name. (name, n)) (agent_address a d)
      | (None, None, _) \<Rightarrow>
          rbind (claim_name_for_unbound n snap directory d) (\<lambda>(name, holder).
            Inr (name, n\<lparr>ai_logical_agent_id := holder\<rparr>)))"

definition adopt_evidence_of :: "agent_observation \<Rightarrow> string \<Rightarrow> string \<Rightarrow> adopt_evidence" where
  "adopt_evidence_of agent name directory =
     \<lparr>ae_pane_id = ao_pane_id agent, ae_terminal_id = ao_terminal_id agent, ae_public_name = name,
      ae_backend_kind = option_or [] (ao_agent agent), ae_working_directory = directory,
      ae_interactive_ready = ao_interactive_ready agent, ae_launch_pending = ao_launch_pending agent,
      ae_native_session = ao_agent_session agent\<rparr>"

definition adopt_resolution ::
  "adopt_intent \<Rightarrow> snapshot \<Rightarrow> db \<Rightarrow> slice_error + (agent_observation \<times> adopt_intent \<times> adopt_evidence)" where
  "adopt_resolution n snap d =
     rbind (adopt_live snap n) (\<lambda>(agent, q).
     rbind (continue_recorded_seat agent n d) (\<lambda>n1.
       let n2 = continue_adopted_name (ao_name agent) n1 d;
           directory = option_or [] (po_cwd q) in
       rbind (adopted_name agent directory snap n2 d) (\<lambda>(name, n3).
         Inr (agent, n3, adopt_evidence_of agent name directory))))"

section \<open>Binding\<close>

record adopt_rename =
  ad_declared :: declared_start
  ad_evidence :: adopt_evidence
  ad_pane :: string

datatype adopt_after = AdoptReady declared_start | AdoptRename adopt_rename

definition released_notice :: "incarnation_id \<Rightarrow> adopt_evidence \<Rightarrow> adopt_intent \<Rightarrow> string" where
  "released_notice released ev n = ''adopt released incarnation '' @ id_display released
     @ '', which held ready alias '' @ ae_public_name ev @ '' with no live pane '' @ ai_pane_id n @ '' in Herdr''"

definition adopt_after_snapshot :: "'w peer \<Rightarrow> adopt_intent \<Rightarrow> snapshot \<Rightarrow> ('w, adopt_after) slice" where
  "adopt_after_snapshot p n snap =
     act_bind (sl_pure (adopt_resolution n snap)) (\<lambda>(agent, n', ev).
     act_bind (sl_clock p) (\<lambda>now.
     act_bind (sl_write (release_absent_alias_binding now (ae_public_name ev) snap)) (\<lambda>released.
     act_bind (case released of None \<Rightarrow> act_return ()
               | Some inc \<Rightarrow> sl_notice p (released_notice inc ev n)) (\<lambda>_.
       if ao_name agent = Some (ae_public_name ev)
       then act_bind (sl_transact_now p (\<lambda>now. declare_adopt now n' ev)) (\<lambda>declared.
              act_return (AdoptReady declared))
       else act_bind (sl_transact_now p (\<lambda>now. declare_adopt_pending now n' ev)) (\<lambda>declared.
              act_return (AdoptRename
                \<lparr>ad_declared = declared, ad_evidence = ev, ad_pane = ai_pane_id n\<rparr>))))))"

definition submit_adopt_rename_intent :: "'w peer \<Rightarrow> declared_start \<Rightarrow> ('w, string) slice" where
  "submit_adopt_rename_intent p declared =
     (let request = ''kelpie:adopt-rename:'' @ id_display (de_operation declared) in
      act_bind (sl_transact_now p (\<lambda>now. begin_attempt now (de_operation declared) (de_incarnation declared) request))
        (\<lambda>attempt.
      act_bind (sl_commit_now p (\<lambda>now. mark_submitted now (de_operation declared) attempt request)) (\<lambda>_.
        act_return request)))"

text \<open>The rename may have landed without proof: the operation's outcome is unknown.\<close>

definition apply_adopt_confirm_error :: "'w peer \<Rightarrow> declared_start \<Rightarrow> herdr_error \<Rightarrow> ('w, declared_start) slice" where
  "apply_adopt_confirm_error p declared source =
     act_bind (sl_commit_now p (\<lambda>now. mark_unknown now (de_operation declared) (de_incarnation declared)
         (herdr_error_text source))) (\<lambda>_.
       act_fail (UnknownOutcome (id_display (de_operation declared)) source))"

definition apply_adopt_rename_error :: "'w peer \<Rightarrow> declared_start \<Rightarrow> herdr_error \<Rightarrow> ('w, declared_start) slice" where
  "apply_adopt_rename_error p declared source =
     (if is_rejected source
      then act_bind (sl_commit_now p (\<lambda>now. mark_rejected now (de_operation declared) (de_incarnation declared)
             (herdr_error_text source) DRejected)) (\<lambda>_. act_fail (SHerdr source))
      else act_bind (sl_commit_now p (\<lambda>now. mark_unknown now (de_operation declared) (de_incarnation declared)
             (herdr_error_text source))) (\<lambda>_.
           act_fail (UnknownOutcome (id_display (de_operation declared)) source)))"

definition accept_adopt_confirm :: "'w peer \<Rightarrow> adopt_rename \<Rightarrow> snapshot \<Rightarrow> ('w, declared_start) slice" where
  "accept_adopt_confirm p work snap =
     (let declared = ad_declared work; oid = de_operation declared; inc = de_incarnation declared;
          unproven = (\<lambda>source. act_bind (sl_commit_now p (\<lambda>now. mark_unknown now oid inc (herdr_error_text source)))
            (\<lambda>_. act_fail (UnknownOutcome (id_display oid) source))) in
      case seat_agent snap (ad_pane work) (ae_terminal_id (ad_evidence work)) of
        None \<Rightarrow> unproven (HUnexpected ''snapshot after rename omitted the adopted pane'')
      | Some agent \<Rightarrow>
          act_match (sl_commit_now p (\<lambda>now. accept_adopt_ready now oid inc agent)) (\<lambda>r. case r of
            Inl e \<Rightarrow> unproven (HUnexpected (slice_error_text (pr_text p) e))
          | Inr _ \<Rightarrow> act_return declared))"

definition claim_adopt_name ::
  "'w peer \<Rightarrow> adopt_intent \<Rightarrow> adopt_evidence \<Rightarrow> declared_start \<Rightarrow> ('w, declared_start) slice" where
  "claim_adopt_name p n ev declared =
     act_bind (sl_herdr (blocking_connect p)) (\<lambda>_.
     act_bind (submit_adopt_rename_intent p declared) (\<lambda>request.
     act_match (connection_rename_agent p request (ai_pane_id n) (ae_public_name ev)) (\<lambda>renamed. case renamed of
       Inl source \<Rightarrow> apply_adopt_rename_error p declared source
     | Inr _ \<Rightarrow>
         act_match (blocking_snapshot p) (\<lambda>r. case r of
           Inr confirmed \<Rightarrow> accept_adopt_confirm p
             \<lparr>ad_declared = declared, ad_evidence = ev, ad_pane = ai_pane_id n\<rparr> confirmed
         | Inl source \<Rightarrow> apply_adopt_confirm_error p declared source))))"

definition declared_of :: "operation_id \<times> incarnation_id \<times> logical_agent_id \<Rightarrow> declared_start" where
  "declared_of = (\<lambda>(oid, inc, a). \<lparr>de_agent = a, de_incarnation = inc, de_operation = oid\<rparr>)"

definition slice_adopt :: "'w peer \<Rightarrow> adopt_intent \<Rightarrow> ('w, declared_start) slice" where
  "slice_adopt p n =
     act_bind (sl_query (declared_by_idempotency_key (ai_idempotency_key n))) (\<lambda>prior. case prior of
       Some row \<Rightarrow> act_return (declared_of row)
     | None \<Rightarrow>
         act_bind (sl_herdr (blocking_negotiate p)) (\<lambda>_.
         act_bind (sl_herdr (blocking_snapshot p)) (\<lambda>snap.
         act_bind (adopt_after_snapshot p n snap) (\<lambda>r. case r of
           AdoptReady declared \<Rightarrow> act_return declared
         | AdoptRename work \<Rightarrow> claim_adopt_name p n (ad_evidence work) (ad_declared work)))))"

section \<open>A caller's pane\<close>

text \<open>The intent of an adoption nobody asked for by name.\<close>

definition seat_intent ::
  "string \<Rightarrow> string \<Rightarrow> string option \<Rightarrow> logical_agent_id option \<Rightarrow> string option \<Rightarrow> string \<Rightarrow> adopt_intent" where
  "seat_intent pane terminal name a backend key =
     \<lparr>ai_pane_id = pane, ai_expected_terminal_id = terminal, ai_public_name = name, ai_logical_agent_id = a,
      ai_parent = Parentless, ai_herdr_session = ''default'', ai_backend_kind = backend, ai_backend_args = [],
      ai_requested_model = None, ai_requested_provider = None, ai_requested_effort = None,
      ai_idempotency_key = key\<rparr>"

definition pane_occupant :: "string \<Rightarrow> snapshot \<Rightarrow> slice_error + agent_observation" where
  "pane_occupant pane snap = (case filter (\<lambda>agent. ao_pane_id agent = pane) (sn_agents snap) of
     [agent] \<Rightarrow> rbind (ensure (nonempty_text (ao_agent agent) \<noteq> None)
       (LiveConflict (''pane '' @ pane @ '' live agent has no backend kind''))) (\<lambda>_. Inr agent)
   | [] \<Rightarrow> Inl (LiveConflict (''pane '' @ pane
       @ '' has no live agent to identify; start an agent there, then run kelpie who again''))
   | found \<Rightarrow> Inl (LiveConflict (''pane '' @ pane @ '' has '' @ show_nat (length found)
       @ '' live agents; expected exactly one'')))"

definition pane_name ::
  "string \<Rightarrow> agent_observation \<Rightarrow> logical_agent_id option \<Rightarrow> db \<Rightarrow> slice_error + string option" where
  "pane_name pane agent continuable d = (case continuable of
     None \<Rightarrow> Inr None
   | Some a \<Rightarrow>
       rbind (of_store (agent_address a d)) (\<lambda>recorded.
       rbind (case nonempty_text (ao_name agent) of None \<Rightarrow> Inr ()
              | Some live \<Rightarrow> ensure (live = recorded) (LiveConflict (''pane '' @ pane @ '' live name '' @ live
                  @ '' does not match continuable agent '' @ id_display a @ '' alias '' @ recorded
                  @ ''; adopt --logical-id '' @ id_display a @ '' to continue that agent, or adopt --pane '' @ pane
                  @ '' --terminal '' @ ao_terminal_id agent @ '' --name '' @ live
                  @ '' to bind the live occupant as a new agent''))) (\<lambda>_.
         Inr (Some recorded))))"

definition pane_adopt_after_snapshot :: "'w peer \<Rightarrow> string \<Rightarrow> string \<Rightarrow> snapshot \<Rightarrow> ('w, adopt_after) slice" where
  "pane_adopt_after_snapshot p pane key snap =
     act_bind (act_result (pane_occupant pane snap)) (\<lambda>agent.
     act_bind (sl_read (continuable_logical_agent_for_binding pane (ao_terminal_id agent))) (\<lambda>continuable.
     act_bind (sl_pure (pane_name pane agent continuable)) (\<lambda>name.
       adopt_after_snapshot p (seat_intent pane (ao_terminal_id agent) name continuable None key) snap)))"

definition identity_after_snapshot :: "'w peer \<Rightarrow> string \<Rightarrow> string \<Rightarrow> snapshot \<Rightarrow> ('w, ready_identity) slice" where
  "identity_after_snapshot p pane key snap =
     act_bind (pane_adopt_after_snapshot p pane key snap) (\<lambda>r.
     act_bind (case r of
         AdoptReady declared \<Rightarrow> act_return declared
       | AdoptRename work \<Rightarrow> claim_adopt_name p
           (seat_intent (ad_pane work) (ae_terminal_id (ad_evidence work)) (Some (ae_public_name (ad_evidence work)))
              None None key) (ad_evidence work) (ad_declared work)) (\<lambda>adopted.
     act_bind (sl_read (ready_identity_for_pane pane)) (\<lambda>x.
       if rd_agent x \<noteq> de_agent adopted \<or> rd_incarnation x \<noteq> de_incarnation adopted
       then act_fail (LiveConflict (''pane '' @ pane @ '' adoption resolved to a different Ready identity''))
       else act_return x)))"

definition resolve_or_adopt_pane :: "'w peer \<Rightarrow> string \<Rightarrow> string \<Rightarrow> ('w, ready_identity) slice" where
  "resolve_or_adopt_pane p pane key =
     act_bind (sl_read (find_ready_identity_for_pane pane)) (\<lambda>found. case found of
       Some x \<Rightarrow> act_return x
     | None \<Rightarrow>
         act_bind (sl_herdr (blocking_negotiate p)) (\<lambda>_.
         act_bind (sl_herdr (blocking_snapshot p)) (identity_after_snapshot p pane key)))"

section \<open>An alias\<close>

definition alias_candidate :: "string \<Rightarrow> snapshot \<Rightarrow> agent_observation \<Rightarrow> bool" where
  "alias_candidate name snap agent \<longleftrightarrow>
     nonempty_text (ao_name agent) = None \<and> \<not> ao_launch_pending agent \<and> nonempty_text (ao_agent agent) \<noteq> None
     \<and> (case Option.bind (seat_pane snap (ao_pane_id agent) (ao_terminal_id agent)) po_cwd of
          None \<Rightarrow> False | Some cwd \<Rightarrow> canonical_cwd_alias cwd = Inr name)"

definition unbound_candidate :: "string \<Rightarrow> snapshot \<Rightarrow> slice_error + agent_observation" where
  "unbound_candidate name snap = (case filter (alias_candidate name snap) (sn_agents snap) of
     [agent] \<Rightarrow> Inr agent
   | found \<Rightarrow> Inl (LiveConflict (''alias '' @ name @ '' has no Ready binding and matches ''
       @ show_nat (length found) @ '' unbound live agents'')))"

definition refuse_replacement_identity ::
  "string \<Rightarrow> agent_observation \<Rightarrow> logical_agent_id option \<Rightarrow> db \<Rightarrow> slice_error + unit" where
  "refuse_replacement_identity name agent continuable d =
     (let claimants = ni_claimants (name_info name d) in
      ensure (continuable \<noteq> None \<or> claimants = []) (LiveConflict (''alias '' @ name
        @ '' has prior logical agents but none matches live seat '' @ ao_pane_id agent @ '' terminal ''
        @ ao_terminal_id agent @ ''; refusing to mint a replacement identity. Candidates: ''
        @ comma_join (map (\<lambda>c. id_display (nc_agent c)) claimants)
        @ ''. Use adopt --logical-id to continue the intended agent'')))"

definition alias_after_snapshot :: "'w peer \<Rightarrow> string \<Rightarrow> string \<Rightarrow> snapshot \<Rightarrow> ('w, adopt_after) slice" where
  "alias_after_snapshot p name key snap =
     act_bind (act_result (unbound_candidate name snap)) (\<lambda>agent.
     act_bind (sl_read (continuable_logical_agent_for_binding (ao_pane_id agent) (ao_terminal_id agent)))
       (\<lambda>continuable.
     act_bind (sl_pure (refuse_replacement_identity name agent continuable)) (\<lambda>_.
       adopt_after_snapshot p
         (seat_intent (ao_pane_id agent) (ao_terminal_id agent) (Some name) continuable (ao_agent agent) key) snap)))"

definition resolve_or_adopt_alias ::
  "'w peer \<Rightarrow> string \<Rightarrow> string \<Rightarrow> ('w, logical_agent_id \<times> incarnation_id) slice" where
  "resolve_or_adopt_alias p name key =
     act_bind (sl_read (find_ready_alias name)) (\<lambda>found. case found of
       Some x \<Rightarrow> act_return x
     | None \<Rightarrow>
         act_bind (sl_herdr (blocking_negotiate p)) (\<lambda>_.
         act_bind (sl_herdr (blocking_snapshot p)) (\<lambda>snap.
         act_bind (alias_after_snapshot p name key snap) (\<lambda>r.
         act_bind (case r of
             AdoptReady declared \<Rightarrow> act_return declared
           | AdoptRename work \<Rightarrow> claim_adopt_name p
               (seat_intent (ad_pane work) (ae_terminal_id (ad_evidence work)) (Some name)
                  (Some (de_agent (ad_declared work))) (Some (ae_backend_kind (ad_evidence work))) key)
               (ad_evidence work) (ad_declared work)) (\<lambda>adopted.
           act_return (de_agent adopted, de_incarnation adopted))))))"

end
