(* ===== verification/StartRun.thy ===== *)
theory StartRun
  imports Prompts
begin

text \<open>
  Starts and launches of the coordination slice (\<open>src/src/slice.rs\<close>): a start is refused over a live
  Ready agent, declared, and submitted once per attempt; a busy pane is retried inside its budget; the
  runtime is Ready only by an exact observation before its deadline; a launch then records its initial
  message and attempts it, whatever becomes of the delivery.
\<close>

section \<open>Declaring a start\<close>

datatype start_submit =
    StartSubmitted declared_start nat                     \<comment> \<open>declared, deadline\<close>
  | StartBusy declared_start nat nat nat nat              \<comment> \<open>and busy_deadline, not_before, attempt_index\<close>

definition refuse_live_claim ::
  "start_intent \<Rightarrow> snapshot \<Rightarrow> incarnation_id \<times> logical_agent_id \<times> string \<times> string \<Rightarrow> slice_error + unit" where
  "refuse_live_claim n snap = (\<lambda>(inc, a, pane, terminal).
     if si_supersedes n = Some inc then Inr ()
     else if pane = [] then Inl (slice_conflict (''logical agent '' @ id_display a
       @ '' is still starting as incarnation '' @ id_display inc
       @ '', holding the identity or name this start claims; wait for that start to finish''))
     else ensure (\<not> seat_taken snap pane terminal) (slice_conflict (''logical agent '' @ id_display a
       @ '' is already Ready as incarnation '' @ id_display inc @ '' on pane '' @ pane @ '' terminal '' @ terminal
       @ '', holding the identity or name this start claims; address it as it is, or replace it with ''
       @ ''`kelpie handoff --replace '' @ id_display inc @ ''`'')))"

definition refuse_start_over_live_ready :: "start_intent \<Rightarrow> snapshot \<Rightarrow> db \<Rightarrow> slice_error + unit" where
  "refuse_start_over_live_ready n snap d =
     map_sum id (\<lambda>_. ()) (rmap (refuse_live_claim n snap)
       (ready_claims_for_start (si_logical_agent_id n) (si_public_name n) d))"

definition continue_identity_by_name :: "start_intent \<Rightarrow> db \<Rightarrow> slice_error + start_intent" where
  "continue_identity_by_name n d =
     (if si_logical_agent_id n \<noteq> None \<or> si_supersedes n \<noteq> None then Inr n
      else case name_holder_for_start (si_public_name n) d of
        None \<Rightarrow> Inr n
      | Some (holder, directory) \<Rightarrow>
          if same_directory directory (si_working_directory n) then Inr (n\<lparr>si_logical_agent_id := Some holder\<rparr>)
          else Inl (slice_conflict (''name '' @ si_public_name n @ '' belongs to logical agent ''
            @ id_display holder @ '', which last worked in '' @ directory @ '', not '' @ si_working_directory n
            @ ''; to move that identity here start with --logical-id '' @ id_display holder
            @ '', adopt its pane with kelpie adopt --logical-id '' @ id_display holder @ '', or choose another name'')))"

definition declare_start_from_snapshot ::
  "'w peer \<Rightarrow> start_intent \<Rightarrow> snapshot \<Rightarrow> ('w, declared_start \<times> nat \<times> nat) slice" where
  "declare_start_from_snapshot p n snap =
     act_bind (act_result (check_pane_matches_intent (pr_debug p) snap n)) (\<lambda>_.
     act_bind (sl_pure (refuse_start_over_live_ready n snap)) (\<lambda>_.
     act_bind (sl_pure (continue_identity_by_name n)) (\<lambda>n'.
     act_bind (instant_now p) (\<lambda>now.
       let deadline = now + si_readiness_timeout_ms n' in
       act_bind (sl_transact_now p (\<lambda>now. declare_start now n')) (\<lambda>declared.
       act_bind (instant_now p) (\<lambda>now.
         act_return (declared, deadline, min deadline (now + BUSY_PANE_RETRY_BUDGET))))))))"

section \<open>One attempt\<close>

definition start_request_id :: "operation_id \<Rightarrow> nat \<Rightarrow> string" where
  "start_request_id oid attempt_index =
     ''kelpie:start:'' @ id_display oid @ (if attempt_index = 1 then [] else '':retry-'' @ show_nat attempt_index)"

text \<open>The members of the object stand in the order of its sorted map.\<close>

definition start_params :: "start_intent \<Rightarrow> json" where
  "start_params n = JObj
     [(''args'', JArr (map JStr (si_backend_args n))), (''kind'', JStr (si_backend_kind n)),
      (''name'', JStr (si_public_name n)), (''pane_id'', JStr (si_pane_id n)),
      (''timeout_ms'', JInt (int (si_readiness_timeout_ms n)))]"

definition commit_start_intent :: "'w peer \<Rightarrow> declared_start \<Rightarrow> string \<Rightarrow> ('w, unit) slice" where
  "commit_start_intent p declared request =
     act_bind (sl_transact_now p (\<lambda>now. begin_attempt now (de_operation declared) (de_incarnation declared) request))
       (\<lambda>attempt. sl_commit_now p (\<lambda>now. mark_submitted now (de_operation declared) attempt request))"

definition schedule_start_retry :: "'w peer \<Rightarrow> declared_start \<Rightarrow> herdr_error \<Rightarrow> nat \<Rightarrow> ('w, nat) slice" where
  "schedule_start_retry p declared source busy_deadline =
     (let oid = de_operation declared; inc = de_incarnation declared; detail = herdr_error_text source in
      act_bind (sl_commit_now p (\<lambda>now. reject_attempt now oid inc detail)) (\<lambda>_.
      act_bind (instant_now p) (\<lambda>now.
        if busy_deadline \<le> now
        then act_bind (sl_commit_now p (\<lambda>now. mark_rejected now oid inc detail DRejected))
               (\<lambda>_. act_fail (SHerdr source))
        else act_return (now + min BUSY_PANE_POLL (busy_deadline - now)))))"

text \<open>A name clash of a handoff names its own predecessor as the holder.\<close>

definition explain_handoff_name_clash :: "start_intent \<Rightarrow> herdr_error \<Rightarrow> db \<Rightarrow> herdr_error" where
  "explain_handoff_name_clash n source d = (case (source, si_supersedes n) of
     (HRejected code message, Some predecessor) \<Rightarrow>
       if code = ''agent_name_taken'' then
         let pane = (case ready_binding predecessor d of Inl _ \<Rightarrow> ''its pane'' | Inr binding \<Rightarrow> rb_pane binding)
         in HRejected code (message @ ''. The holder is the incarnation this handoff replaces, still live on pane ''
              @ pane @ ''. Release the name without stopping it '' @ [CHR 0xE2, CHR 0x80, CHR 0x94]
              @ '' `herdr agent rename '' @ pane @ '' --clear` '' @ [CHR 0xE2, CHR 0x80, CHR 0x94]
              @ '' then run the handoff again; the process keeps running as a rollback seat'')
       else source
   | _ \<Rightarrow> source)"

definition apply_agent_start_result ::
  "'w peer \<Rightarrow> start_intent \<Rightarrow> declared_start \<Rightarrow> nat \<Rightarrow> nat \<Rightarrow> nat \<Rightarrow> herdr_error + agent_observation
   \<Rightarrow> ('w, start_submit) slice" where
  "apply_agent_start_result p n declared deadline busy_deadline attempt_index result =
     (let oid = de_operation declared; inc = de_incarnation declared in
      case result of
        Inr agent \<Rightarrow>
          act_match (sl_commit (accept_start_submission oid inc (ao_pane_id agent) (ao_terminal_id agent))) (\<lambda>r.
            case r of
              Inl error \<Rightarrow> act_bind (sl_commit_now p (\<lambda>now. mark_unknown now oid inc
                (slice_error_text (pr_text p) error))) (\<lambda>_. act_fail error)
            | Inr _ \<Rightarrow> act_return (StartSubmitted declared deadline))
      | Inl source \<Rightarrow>
          if is_retryable_start_rejection source
          then act_bind (schedule_start_retry p declared source busy_deadline) (\<lambda>not_before.
                 act_return (StartBusy declared deadline busy_deadline not_before attempt_index))
          else if is_rejected source
          then act_bind (sl_query (explain_handoff_name_clash n source)) (\<lambda>source.
                 act_bind (sl_commit_now p (\<lambda>now. mark_rejected now oid inc (herdr_error_text source) DRejected))
                   (\<lambda>_. act_fail (SHerdr source)))
          else act_bind (sl_commit_now p (\<lambda>now. mark_unknown now oid inc (herdr_error_text source)))
                 (\<lambda>_. act_fail (UnknownOutcome (id_display oid) source)))"

definition attempt_agent_start ::
  "'w peer \<Rightarrow> start_intent \<Rightarrow> declared_start \<Rightarrow> nat \<Rightarrow> nat \<Rightarrow> nat \<Rightarrow> ('w, start_submit) slice" where
  "attempt_agent_start p n declared deadline busy_deadline attempt_index =
     act_bind (sl_herdr (blocking_connect p)) (\<lambda>_.
     (let request = start_request_id (de_operation declared) attempt_index in
      act_bind (commit_start_intent p declared request) (\<lambda>_.
      act_match (connection_start_agent p request (start_params n))
        (apply_agent_start_result p n declared deadline busy_deadline attempt_index))))"

definition submit_start :: "'w peer \<Rightarrow> start_intent \<Rightarrow> ('w, start_submit) slice" where
  "submit_start p n =
     act_bind (sl_herdr (blocking_negotiate p)) (\<lambda>_.
     act_bind (sl_herdr (blocking_snapshot p)) (\<lambda>snap.
     act_bind (declare_start_from_snapshot p n snap) (\<lambda>(declared, deadline, busy_deadline).
       attempt_agent_start p n declared deadline busy_deadline 1)))"

definition saturating_succ_u32 :: "nat \<Rightarrow> nat" where
  "saturating_succ_u32 n = (if int n < 2 ^ 32 - 1 then Suc n else n)"

definition busy_budget_text :: string where
  "busy_budget_text = ''pane stayed busy until the start retry budget elapsed''"

definition continue_busy_start ::
  "'w peer \<Rightarrow> start_intent \<Rightarrow> declared_start \<Rightarrow> nat \<Rightarrow> nat \<Rightarrow> nat \<Rightarrow> ('w, start_submit) slice" where
  "continue_busy_start p n declared deadline busy_deadline attempt_index =
     (let oid = de_operation declared; inc = de_incarnation declared in
      act_bind (instant_now p) (\<lambda>now.
        if busy_deadline \<le> now
        then act_bind (sl_commit_now p (\<lambda>now. mark_rejected now oid inc busy_budget_text DRejected))
               (\<lambda>_. act_fail (slice_conflict busy_budget_text))
        else
          act_bind (sl_herdr (blocking_snapshot p)) (\<lambda>snap.
            case check_pane_matches_intent (pr_debug p) snap n of
              Inl conflict \<Rightarrow> act_bind (sl_commit_now p (\<lambda>now. mark_rejected now oid inc
                (slice_error_text (pr_text p) conflict) DRejected)) (\<lambda>_. act_fail conflict)
            | Inr _ \<Rightarrow> attempt_agent_start p n declared deadline busy_deadline
                (saturating_succ_u32 attempt_index))))"

section \<open>Readiness\<close>

text \<open>An agent Herdr cannot resolve is no decisive failure: nothing has been detected yet.\<close>

definition apply_start_observation ::
  "'w peer \<Rightarrow> start_intent \<Rightarrow> declared_start \<Rightarrow> nat \<Rightarrow> herdr_error + agent_observation option
   \<Rightarrow> ('w, declared_start option) slice" where
  "apply_start_observation p n declared deadline observed =
     (let oid = de_operation declared; inc = de_incarnation declared;
          observed = (case observed of Inl source \<Rightarrow> if is_rejected source then Inr None else Inl source
                      | Inr agent \<Rightarrow> Inr agent) in
      case observed of
        Inl source \<Rightarrow> act_bind (sl_commit_now p (\<lambda>now. mark_unknown now oid inc (herdr_error_text source)))
          (\<lambda>_. act_fail (UnknownOutcome (id_display oid) source))
      | Inr agent \<Rightarrow>
          (case classify_start_readiness agent n of
             StartReady agent \<Rightarrow>
               act_bind (sl_commit_now p (\<lambda>now. accept_start_ready now oid inc agent (si_supersedes n)))
                 (\<lambda>_. act_return (Some declared))
           | StartFailed code detail \<Rightarrow>
               act_bind (sl_commit_now p (\<lambda>now. mark_rejected now oid inc detail DRejected))
                 (\<lambda>_. act_fail (SHerdr (HRejected code detail)))
           | StartWaiting \<Rightarrow>
               act_bind (instant_now p) (\<lambda>now.
                 if deadline \<le> now then
                   let source = HReadinessTimeout (si_readiness_timeout_ms n) in
                   act_bind (sl_commit_now p (\<lambda>now. mark_unknown now oid inc (herdr_error_text source
                     @ ''; last observation '' @ describe_pane agent (si_pane_id n)
                     @ stalled_start_next_step agent n declared)))
                   (\<lambda>_. act_fail (UnknownOutcome (id_display oid) source))
                 else act_return None)))"

definition advance_start_ready ::
  "'w peer \<Rightarrow> start_intent \<Rightarrow> declared_start \<Rightarrow> nat \<Rightarrow> ('w, declared_start option) slice" where
  "advance_start_ready p n declared deadline =
     act_match (blocking_agent p (''kelpie:start-ready:'' @ id_display (de_operation declared)) (si_pane_id n))
       (\<lambda>r. apply_start_observation p n declared deadline (case r of
          Inr agent \<Rightarrow> Inr (Some agent)
        | Inl source \<Rightarrow> if is_rejected source then Inr None else Inl source))"

definition wait_for_start_ready ::
  "nat \<Rightarrow> 'w peer \<Rightarrow> start_intent \<Rightarrow> declared_start \<Rightarrow> nat \<Rightarrow> ('w, declared_start option) slice" where
  "wait_for_start_ready fuel p n declared deadline =
     act_loop fuel (act_bind (advance_start_ready p n declared deadline) (\<lambda>r. case r of
       Some ready \<Rightarrow> act_return (Some ready)
     | None \<Rightarrow> act_bind (instant_now p) (\<lambda>now.
         act_bind (act_sleep p (min START_READY_POLL (deadline - now))) (\<lambda>_. act_return None))))"

text \<open>The loop of a start: a busy pane is retried, a submitted start is awaited with the fuel left.\<close>

fun start_loop :: "nat \<Rightarrow> 'w peer \<Rightarrow> start_intent \<Rightarrow> start_submit \<Rightarrow> ('w, declared_start option) slice" where
  "start_loop fuel p n (StartSubmitted declared deadline) = wait_for_start_ready fuel p n declared deadline"
| "start_loop 0 p n (StartBusy declared deadline busy_deadline not_before attempt_index) = act_return None"
| "start_loop (Suc fuel) p n (StartBusy declared deadline busy_deadline not_before attempt_index) =
     act_bind (instant_now p) (\<lambda>now.
     act_bind (if now < not_before then act_sleep p (not_before - now) else act_return ()) (\<lambda>_.
     act_bind (continue_busy_start p n declared deadline busy_deadline attempt_index) (start_loop fuel p n)))"

definition slice_start :: "nat \<Rightarrow> 'w peer \<Rightarrow> start_intent \<Rightarrow> ('w, declared_start option) slice" where
  "slice_start fuel p n = act_bind (submit_start p n) (start_loop fuel p n)"

section \<open>Launch\<close>

definition incarnation_state_debug :: "incarnation_state \<Rightarrow> string" where
  "incarnation_state_debug s = (case s of
     IDeclared \<Rightarrow> ''Declared'' | IStarting \<Rightarrow> ''Starting'' | IReady \<Rightarrow> ''Ready'' | IFailed \<Rightarrow> ''Failed''
   | IUnknown \<Rightarrow> ''Unknown'' | IRetiring \<Rightarrow> ''Retiring'' | IRetired \<Rightarrow> ''Retired'' | ILost \<Rightarrow> ''Lost''
   | ISuperseded \<Rightarrow> ''Superseded'')"

definition validate_handoff :: "start_intent \<Rightarrow> db \<Rightarrow> slice_error + unit" where
  "validate_handoff n d = (case si_supersedes n of
     None \<Rightarrow> Inr ()
   | Some predecessor \<Rightarrow>
       rbind (ok_or (slice_conflict ''a handoff must continue an exact logical agent; pass its logical agent id'')
                (si_logical_agent_id n)) (\<lambda>continuing.
       rbind (of_store (logical_agent_of predecessor d)) (\<lambda>owner.
       rbind (ensure (owner = continuing) (slice_conflict (''incarnation '' @ id_display predecessor
           @ '' belongs to logical agent '' @ id_display owner @ '', not '' @ id_display continuing))) (\<lambda>_.
       rbind (of_store (incarnation_state_of predecessor d)) (\<lambda>state.
         ensure (state = IReady) (slice_conflict (''handoff predecessor '' @ id_display predecessor @ '' is ''
           @ incarnation_state_debug state @ '', not ready; there is nothing to hand off from'')))))))"

definition validate_launch :: "start_intent \<Rightarrow> db \<Rightarrow> slice_error + unit" where
  "validate_launch n d =
     (let m = si_initial_message n in
      rbind (ensure (\<not> (im_kind m = InitialAsk \<and> im_sender m = None))
               (slice_conflict ''an initial ask requires a logical agent waiting for the reply'')) (\<lambda>_.
        case im_sender m of
          None \<Rightarrow> Inr ()
        | Some sender \<Rightarrow> map_sum SStore (\<lambda>_. ()) (agent_address sender d)))"

text \<open>The notice is best effort: its own failure is dropped.\<close>

definition note_undelivered_brief :: "'w peer \<Rightarrow> start_intent \<Rightarrow> slice_error \<Rightarrow> ('w, unit) slice" where
  "note_undelivered_brief p n error =
     act_match (sl_notice p (''start of '' @ si_public_name n @ '' on pane '' @ si_pane_id n
       @ '' did not reach Ready ('' @ slice_error_text (pr_text p) error
       @ ''); its initial message was never created and nothing was delivered to that pane''))
       (\<lambda>_. act_return ())"

definition render_initial_message :: "start_intent \<Rightarrow> message_id \<Rightarrow> db \<Rightarrow> slice_error + string" where
  "render_initial_message n message d =
     (let m = si_initial_message n in
      rbind (case im_sender m of Some sender \<Rightarrow> of_store (agent_address sender d) | None \<Rightarrow> Inr ''operator'') (\<lambda>frm.
        of_envelope (case im_kind m of
          InitialTell \<Rightarrow> render_tell frm (id_display message) (im_body m)
        | InitialAsk \<Rightarrow> render_ask frm (id_display message) (im_body m))))"

definition initial_message_of :: "start_intent \<Rightarrow> initial_message_intent" where
  "initial_message_of n = (if si_reply_delivery n \<noteq> Inject
     then (si_initial_message n)\<lparr>im_reply_delivery := si_reply_delivery n\<rparr> else si_initial_message n)"

definition begin_initial_message ::
  "'w peer \<Rightarrow> start_intent \<Rightarrow> declared_start \<Rightarrow> ('w, prepared_prompt \<times> message_id) slice" where
  "begin_initial_message p n started =
     act_bind (sl_transact_now p (\<lambda>now d. two_results (create_initial_message now (de_agent started)
         (de_incarnation started) (initial_message_of n) (si_idempotency_key n @ '':initial-message'') d)))
       (\<lambda>(message, oid).
     act_bind (sl_read (ready_binding (de_incarnation started))) (\<lambda>binding.
     act_bind (sl_pure (render_initial_message n message)) (\<lambda>envelope.
       act_return (\<lparr>pp_operation = oid, pp_incarnation = de_incarnation started, pp_pane = rb_pane binding,
         pp_envelope = envelope, pp_request = ''kelpie:initial:to:'' @ id_display oid, pp_queued = False\<rparr>,
         message))))"

text \<open>Rejected and unknown deliveries are recorded, and the launch goes on.\<close>

definition complete_initial_delivery ::
  "'w peer \<Rightarrow> prepared_prompt \<Rightarrow> declared_start \<Rightarrow> message_id \<Rightarrow> herdr_error + agent_observation
   \<Rightarrow> ('w, unit) slice" where
  "complete_initial_delivery p q started message result =
     (let oid = pp_operation q; inc = pp_incarnation q in
      case result of
        Inr agent \<Rightarrow> sl_commit_now p (\<lambda>now. accept_delivery_with_submission now oid inc (ao_pane_id agent)
          (ao_terminal_id agent) (Some (pr_json p (submission_evidence Observed None))))
      | Inl source \<Rightarrow>
          let detail = herdr_error_text source in
          (case post_write_observation source of
             Some observation \<Rightarrow>
               act_bind (sl_read (ready_binding inc)) (\<lambda>binding.
               act_bind (sl_commit_now p (\<lambda>now. accept_delivery_with_submission now oid inc (rb_pane binding)
                   (rb_terminal binding) (Some (pr_json p (submission_evidence observation (Some detail)))))) (\<lambda>_.
                 if observation = Stalled
                 then sl_notice p (''initial message '' @ id_display message @ '' to incarnation ''
                   @ id_display (de_incarnation started) @ '' on pane '' @ pp_pane q
                   @ '' was written but produced no observed agent activity ('' @ detail
                   @ ''); nothing was resent'')
                 else act_return ()))
           | None \<Rightarrow>
               if is_rejected source then sl_commit_now p (\<lambda>now. mark_rejected now oid inc detail DRejected)
               else act_bind (sl_commit_now p (\<lambda>now. mark_unknown now oid inc detail)) (\<lambda>_.
                 sl_notice p (''initial message '' @ id_display message
                   @ '' has unknown delivery outcome for incarnation '' @ id_display (de_incarnation started)))))"

record launch_result =
  lr_agent :: logical_agent_id
  lr_incarnation :: incarnation_id
  lr_start_operation :: operation_id
  lr_start_outcome :: operation_outcome
  lr_message :: message_id
  lr_message_operation :: operation_id
  lr_message_outcome :: delivery_outcome
  lr_submission :: "evidence option"

definition read_launch_result ::
  "declared_start \<Rightarrow> message_id \<Rightarrow> operation_id \<Rightarrow> db \<Rightarrow> store_error + launch_result" where
  "read_launch_result started message message_operation d =
     rbind (operation_outcome_of (de_operation started) d) (\<lambda>start_outcome.
     rbind (delivery_outcome_of message_operation d) (\<lambda>message_outcome.
       Inr \<lparr>lr_agent = de_agent started, lr_incarnation = de_incarnation started,
            lr_start_operation = de_operation started, lr_start_outcome = start_outcome,
            lr_message = message, lr_message_operation = message_operation,
            lr_message_outcome = message_outcome,
            lr_submission = operation_attempt_evidence message_operation d\<rparr>))"

definition finish_launch :: "'w peer \<Rightarrow> start_intent \<Rightarrow> declared_start \<Rightarrow> ('w, launch_result) slice" where
  "finish_launch p n started =
     act_bind (begin_initial_message p n started) (\<lambda>(q, message).
     act_match (blocking_connect p) (\<lambda>connected.
       act_bind (case connected of
           Inl _ \<Rightarrow> act_return ()
         | Inr _ \<Rightarrow>
             act_bind (commit_prompt_intent p q) (\<lambda>_.
             act_match (prompt_write p (pp_request q) (pp_pane q) (pp_envelope q))
               (complete_initial_delivery p q started message)))
         (\<lambda>_. sl_read (read_launch_result started message (pp_operation q)))))"

definition slice_launch :: "nat \<Rightarrow> 'w peer \<Rightarrow> start_intent \<Rightarrow> ('w, launch_result option) slice" where
  "slice_launch fuel p n =
     act_bind (sl_pure (validate_launch n)) (\<lambda>_.
     act_bind (sl_pure (validate_handoff n)) (\<lambda>_.
     act_match (slice_start fuel p n) (\<lambda>r. case r of
       Inl error \<Rightarrow> act_bind (note_undelivered_brief p n error) (\<lambda>_. act_fail error)
     | Inr None \<Rightarrow> act_return None
     | Inr (Some started) \<Rightarrow> act_bind (finish_launch p n started) (\<lambda>x. act_return (Some x)))))"

end
