(* ===== verification/RetireRename.thy ===== *)
theory RetireRename
  imports Slice Names
begin

text \<open>
  Retirement, rename, recovery and the refresh of a native session by the coordination slice
  (\<open>src/src/slice.rs\<close>). A retirement closes a pane only after a snapshot shows the exact runtime; a
  rename is durable before Herdr is asked and committed only by a confirming snapshot; recovery
  repairs the projected names one by one and then reconciles the store with the last snapshot.
\<close>

text \<open>The exact runtime a snapshot must show: seat, backend and name.\<close>

definition exact_runtime :: "snapshot \<Rightarrow> string \<Rightarrow> string \<Rightarrow> string \<Rightarrow> string \<Rightarrow> bool" where
  "exact_runtime snap pane terminal backend name \<longleftrightarrow>
     list_ex (\<lambda>agent. ao_pane_id agent = pane \<and> ao_terminal_id agent = terminal
       \<and> ao_agent agent = Some backend \<and> ao_name agent = Some name) (sn_agents snap)"

section \<open>Retirement\<close>

record retire_preflight =
  re_operation :: operation_id
  re_incarnation :: incarnation_id
  re_pane :: string
  re_terminal :: string
  re_backend_kind :: string
  re_name :: string
  re_resuming :: bool

record retire_close_work =
  rk_operation :: operation_id
  rk_incarnation :: incarnation_id
  rk_pane :: string
  rk_terminal :: string
  rk_request :: string

datatype retire_after = RetireDone bool | RetireClose retire_close_work

definition retire_holder_conflict :: "ready_binding_info \<Rightarrow> incarnation_id \<Rightarrow> incarnation_id \<Rightarrow> slice_error" where
  "retire_holder_conflict binding holder inc = LiveConflict (''pane '' @ rb_pane binding @ '' on terminal ''
     @ rb_terminal binding @ '' is now held by ready incarnation '' @ id_display holder
     @ ''; refusing to close it for '' @ id_display inc)"

definition refuse_other_holder :: "ready_binding_info \<Rightarrow> incarnation_id \<Rightarrow> db \<Rightarrow> slice_error + unit" where
  "refuse_other_holder binding inc d =
     (case ready_incarnation_other_than inc (rb_pane binding) (rb_terminal binding) d of
        None \<Rightarrow> Inr () | Some holder \<Rightarrow> Inl (retire_holder_conflict binding holder inc))"

text \<open>A retirement whose intent is already durable is resumed, not recorded again.\<close>

definition retirement_intent ::
  "'w peer \<Rightarrow> incarnation_id \<Rightarrow> string \<Rightarrow> bool \<Rightarrow> ('w, operation_id) slice" where
  "retirement_intent p inc key resuming =
     (if resuming then sl_read (open_retirement inc)
      else sl_transact_now p (\<lambda>now. request_retirement now inc key))"

definition prepare_retire_close :: "'w peer \<Rightarrow> incarnation_id \<Rightarrow> string \<Rightarrow> ('w, retire_preflight) slice" where
  "prepare_retire_close p inc key =
     act_bind (sl_read (retirable_binding inc)) (\<lambda>(binding, state).
     act_bind (sl_read (attribution_evidence inc)) (\<lambda>ev.
     act_bind (retirement_intent p inc key (state = IRetiring)) (\<lambda>oid.
     act_bind (sl_pure (refuse_other_holder binding inc)) (\<lambda>_.
       act_return \<lparr>re_operation = oid, re_incarnation = inc, re_pane = rb_pane binding,
         re_terminal = rb_terminal binding, re_backend_kind = av_backend_kind ev,
         re_name = av_public_name ev, re_resuming = (state = IRetiring)\<rparr>))))"

definition complete_if_absent ::
  "'w peer \<Rightarrow> operation_id \<Rightarrow> incarnation_id \<Rightarrow> string \<Rightarrow> string \<Rightarrow> snapshot \<Rightarrow> ('w, bool) slice" where
  "complete_if_absent p oid inc pane terminal snap = act_error SStore (retire_absent p oid inc pane terminal snap)"

definition retire_after_snapshot :: "'w peer \<Rightarrow> retire_preflight \<Rightarrow> snapshot \<Rightarrow> ('w, retire_after) slice" where
  "retire_after_snapshot p f snap =
     (if \<not> exact_runtime snap (re_pane f) (re_terminal f) (re_backend_kind f) (re_name f)
      then
        if re_resuming f
        then act_bind (complete_if_absent p (re_operation f) (re_incarnation f) (re_pane f) (re_terminal f) snap)
               (\<lambda>released. act_return (RetireDone released))
        else act_fail (LiveConflict (''pane '' @ re_pane f @ '' no longer hosts '' @ re_name f @ '' on terminal ''
               @ re_terminal f @ ''; refusing to close it''))
      else act_return (RetireClose \<lparr>rk_operation = re_operation f, rk_incarnation = re_incarnation f,
        rk_pane = re_pane f, rk_terminal = re_terminal f,
        rk_request = ''kelpie:retire-close:'' @ id_display (re_incarnation f)\<rparr>))"

definition retire_close_error :: "retire_close_work \<Rightarrow> herdr_error \<Rightarrow> slice_error" where
  "retire_close_error work source =
     (if is_rejected source then SHerdr source else UnknownOutcome (id_display (rk_operation work)) source)"

definition complete_retire_confirm ::
  "'w peer \<Rightarrow> retire_close_work \<Rightarrow> snapshot \<Rightarrow> ('w, operation_id \<times> bool) slice" where
  "complete_retire_confirm p work snap =
     act_bind (complete_if_absent p (rk_operation work) (rk_incarnation work) (rk_pane work) (rk_terminal work) snap)
       (\<lambda>released. act_return (rk_operation work, released))"

definition slice_retire ::
  "'w peer \<Rightarrow> incarnation_id \<Rightarrow> string \<Rightarrow> bool \<Rightarrow> ('w, operation_id \<times> bool) slice" where
  "slice_retire p inc key close =
     act_bind (sl_read (retirable_binding inc)) (\<lambda>(binding, state).
     act_bind (sl_read (attribution_evidence inc)) (\<lambda>ev.
     act_bind (retirement_intent p inc key (state = IRetiring)) (\<lambda>oid.
       if \<not> close then act_return (oid, False)
       else
         act_bind (sl_pure (refuse_other_holder binding inc)) (\<lambda>_.
         act_bind (sl_herdr (blocking_negotiate p)) (\<lambda>_.
         act_bind (sl_herdr (blocking_snapshot p)) (\<lambda>snap.
         act_bind (retire_after_snapshot p \<lparr>re_operation = oid, re_incarnation = inc, re_pane = rb_pane binding,
             re_terminal = rb_terminal binding, re_backend_kind = av_backend_kind ev,
             re_name = av_public_name ev, re_resuming = (state = IRetiring)\<rparr> snap) (\<lambda>r. case r of
           RetireDone released \<Rightarrow> act_return (oid, released)
         | RetireClose work \<Rightarrow>
             act_match (blocking_close_pane p (rk_request work) (rk_pane work)) (\<lambda>closed. case closed of
               Inl source \<Rightarrow> act_fail (retire_close_error work source)
             | Inr _ \<Rightarrow> act_bind (sl_herdr (blocking_snapshot p)) (complete_retire_confirm p work)))))))))"

section \<open>Rename\<close>

record rename_preflight =
  rq_agent :: logical_agent_id
  rq_incarnation :: incarnation_id
  rq_current :: string
  rq_pane :: string
  rq_terminal :: string
  rq_backend_kind :: string
  rq_new_name :: string

record rename_work =
  rw_agent :: logical_agent_id
  rw_incarnation :: incarnation_id
  rw_pane :: string
  rw_terminal :: string
  rw_backend_kind :: string
  rw_new_name :: string
  rw_request :: string

definition prepare_rename :: "logical_agent_id \<Rightarrow> string \<Rightarrow> db \<Rightarrow> slice_error + rename_preflight" where
  "prepare_rename a new_name d =
     rbind (ensure (valid_herdr_name new_name) (SStore (InvalidRecord (RecordText
              (new_name @ '' is not a legal Herdr agent name''))))) (\<lambda>_.
     rbind (of_store (agent_address a d)) (\<lambda>current.
     rbind (of_store (resolve_ready_incarnation a d)) (\<lambda>inc.
     rbind (of_store (ready_binding inc d)) (\<lambda>binding.
     rbind (of_store (attribution_evidence inc d)) (\<lambda>ev.
       Inr \<lparr>rq_agent = a, rq_incarnation = inc, rq_current = current, rq_pane = rb_pane binding,
            rq_terminal = rb_terminal binding, rq_backend_kind = av_backend_kind ev,
            rq_new_name = new_name\<rparr>)))))"

definition verify_rename_after_snapshot :: "rename_preflight \<Rightarrow> snapshot \<Rightarrow> slice_error + unit" where
  "verify_rename_after_snapshot f snap =
     ensure (exact_runtime snap (rq_pane f) (rq_terminal f) (rq_backend_kind f) (rq_current f))
       (LiveConflict (''no live agent named '' @ rq_current f @ '' on pane '' @ rq_pane f @ '' terminal ''
          @ rq_terminal f))"

definition commit_rename_intent :: "rename_preflight \<Rightarrow> ('w, rename_work) slice" where
  "commit_rename_intent f =
     act_bind (sl_commit (declare_rename (rq_incarnation f) (rq_new_name f))) (\<lambda>_.
       act_return \<lparr>rw_agent = rq_agent f, rw_incarnation = rq_incarnation f, rw_pane = rq_pane f,
         rw_terminal = rq_terminal f, rw_backend_kind = rq_backend_kind f, rw_new_name = rq_new_name f,
         rw_request = ''kelpie:rename:'' @ id_display (rq_incarnation f)\<rparr>)"

definition begin_rename_after_snapshot :: "rename_preflight \<Rightarrow> snapshot \<Rightarrow> ('w, rename_work) slice" where
  "begin_rename_after_snapshot f snap =
     act_bind (act_result (verify_rename_after_snapshot f snap)) (\<lambda>_. commit_rename_intent f)"

definition abandon_rename_before_write :: "rename_work \<Rightarrow> herdr_error \<Rightarrow> ('w, ready_identity) slice" where
  "abandon_rename_before_write work source =
     act_bind (sl_write (\<lambda>d. ((), abandon_rename (rw_incarnation work) d))) (\<lambda>_. act_fail (SHerdr source))"

definition apply_rename_write_error :: "rename_work \<Rightarrow> herdr_error \<Rightarrow> ('w, ready_identity) slice" where
  "apply_rename_write_error work source =
     (if is_rejected source
      then act_bind (sl_write (\<lambda>d. ((), abandon_rename (rw_incarnation work) d))) (\<lambda>_. act_fail (SHerdr source))
      else act_fail (UnknownOutcome (rw_request work) source))"

definition commit_rename_confirm :: "rename_work \<Rightarrow> snapshot \<Rightarrow> ('w, ready_identity) slice" where
  "commit_rename_confirm work snap =
     (if \<not> exact_runtime snap (rw_pane work) (rw_terminal work) (rw_backend_kind work) (rw_new_name work)
      then act_fail (UnknownOutcome (rw_request work) (HUnexpected (''Herdr accepted the rename but ''
             @ rw_new_name work @ '' is not live on pane '' @ rw_pane work)))
      else act_bind (sl_commit (commit_rename (rw_incarnation work) (rw_new_name work))) (\<lambda>_.
             act_return \<lparr>rd_agent = rw_agent work, rd_incarnation = rw_incarnation work,
               rd_name = rw_new_name work\<rparr>))"

definition slice_rename :: "'w peer \<Rightarrow> logical_agent_id \<Rightarrow> string \<Rightarrow> ('w, ready_identity) slice" where
  "slice_rename p a new_name =
     act_bind (sl_pure (prepare_rename a new_name)) (\<lambda>f.
     act_bind (sl_herdr (blocking_negotiate p)) (\<lambda>_.
     act_bind (sl_herdr (blocking_snapshot p)) (\<lambda>snap.
     act_bind (begin_rename_after_snapshot f snap) (\<lambda>work.
     act_match (client_rename_agent p (rw_request work) (rw_pane work) (rw_new_name work)) (\<lambda>r. case r of
       Inl source \<Rightarrow> apply_rename_write_error work source
     | Inr _ \<Rightarrow> act_bind (sl_herdr (blocking_snapshot p)) (commit_rename_confirm work))))))"

section \<open>Recovery\<close>

definition prepare_name_projection_repair :: "snapshot \<Rightarrow> ('w, rename_work option) slice" where
  "prepare_name_projection_repair snap =
     act_bind (sl_read (name_projection_repair snap)) (\<lambda>repair. case repair of
       None \<Rightarrow> act_return None
     | Some r \<Rightarrow>
         act_bind (if np_intent_pending r then act_return ()
                   else sl_commit (declare_rename (np_incarnation r) (np_public_name r))) (\<lambda>_.
           act_return (Some \<lparr>rw_agent = np_agent r, rw_incarnation = np_incarnation r, rw_pane = np_pane r,
             rw_terminal = np_terminal r, rw_backend_kind = np_backend_kind r, rw_new_name = np_public_name r,
             rw_request = ''kelpie:name-projection:'' @ id_display (np_incarnation r)\<rparr>)))"

text \<open>A daemon that has claimed the operations of its run leaves the submitted reminders alone.\<close>

definition settle_reminder_attempts :: "'w peer \<Rightarrow> ('w, nat) slice" where
  "settle_reminder_attempts p =
     act_bind (act_get (\<lambda>k. ke_floor k \<noteq> None)) (\<lambda>live.
       if live then act_return 0
       else act_bind (sl_clock p) (\<lambda>now. sl_write (reconcile_reminder_attempts live now)))"

definition recover_with_snapshot :: "'w peer \<Rightarrow> snapshot \<Rightarrow> ('w, recovery_report) slice" where
  "recover_with_snapshot p snap =
     act_bind (settle_reminder_attempts p) (\<lambda>_. act_error SStore (reconcile p snap))"

definition recovered :: "'w peer \<Rightarrow> snapshot \<Rightarrow> nat \<Rightarrow> ('w, recovery_report) slice" where
  "recovered p snap names =
     act_bind (recover_with_snapshot p snap) (\<lambda>report. act_return (report\<lparr>rr_names_reprojected := names\<rparr>))"

definition recover_after_projection_failure ::
  "'w peer \<Rightarrow> snapshot \<Rightarrow> nat \<Rightarrow> incarnation_id \<Rightarrow> string \<Rightarrow> ('w, recovery_report) slice" where
  "recover_after_projection_failure p snap names inc reason =
     act_bind (sl_notice p (''name projection repair for incarnation '' @ id_display inc @ '' '' @ reason))
       (\<lambda>_. recovered p snap names)"

definition repair_failed :: "'w peer \<Rightarrow> string \<Rightarrow> slice_error \<Rightarrow> string" where
  "repair_failed p what error = ''could not be '' @ what @ '': '' @ slice_error_text (pr_text p) error"

text \<open>Each pass repairs one name; the loop ends with a report or when a name cannot be repaired.\<close>

fun recover_loop :: "nat \<Rightarrow> 'w peer \<Rightarrow> nat \<Rightarrow> ('w, recovery_report option) slice" where
  "recover_loop 0 p names = act_return None"
| "recover_loop (Suc fuel) p names =
     act_bind (sl_herdr (blocking_snapshot p)) (\<lambda>snap.
     act_bind (prepare_name_projection_repair snap) (\<lambda>repair. case repair of
       None \<Rightarrow> act_bind (recovered p snap names) (\<lambda>report. act_return (Some report))
     | Some work \<Rightarrow>
         let failed = (\<lambda>snap reason. act_bind
               (recover_after_projection_failure p snap names (rw_incarnation work) reason)
               (\<lambda>report. act_return (Some report))) in
         act_match (client_rename_agent p (rw_request work) (rw_pane work) (rw_new_name work)) (\<lambda>renamed.
           case renamed of
             Inl source \<Rightarrow> act_match (apply_rename_write_error work source) (\<lambda>r. case r of
               Inl error \<Rightarrow> failed snap (repair_failed p ''applied'' error)
             | Inr _ \<Rightarrow> act_return None)
           | Inr _ \<Rightarrow>
               act_match (blocking_snapshot p) (\<lambda>confirmed. case confirmed of
                 Inl error \<Rightarrow> failed snap (repair_failed p ''confirmed'' (SHerdr error))
               | Inr after \<Rightarrow>
                   act_match (commit_rename_confirm work after) (\<lambda>r. case r of
                     Inl error \<Rightarrow> failed after (repair_failed p ''confirmed'' error)
                   | Inr _ \<Rightarrow> recover_loop fuel p (Suc names))))))"

definition slice_recover :: "nat \<Rightarrow> 'w peer \<Rightarrow> ('w, recovery_report option) slice" where
  "slice_recover fuel p =
     act_bind (settle_reminder_attempts p) (\<lambda>_.
     act_bind (sl_herdr (blocking_negotiate p)) (\<lambda>_. recover_loop fuel p 0))"

section \<open>Native sessions\<close>

definition learn_native_session_after_snapshot ::
  "incarnation_id \<Rightarrow> attribution_evidence_data \<Rightarrow> snapshot \<Rightarrow> ('w, string option) slice" where
  "learn_native_session_after_snapshot inc ev snap =
     act_bind (sl_read (ready_binding inc)) (\<lambda>binding.
       case Option.bind (find_row (\<lambda>agent. ao_pane_id agent = rb_pane binding
              \<and> ao_terminal_id agent = rb_terminal binding \<and> ao_agent agent = Some (av_backend_kind ev)
              \<and> ao_name agent = Some (av_public_name ev)) (sn_agents snap)) ao_agent_session of
         None \<Rightarrow> act_return None
       | Some session \<Rightarrow>
           act_bind (sl_write (fill_observed_native_session inc (rb_pane binding) (rb_terminal binding) session))
             (\<lambda>_. act_return (Some session)))"

definition learn_native_session ::
  "'w peer \<Rightarrow> incarnation_id \<Rightarrow> attribution_evidence_data \<Rightarrow> ('w, string option) slice" where
  "learn_native_session p inc ev =
     act_bind (sl_herdr (blocking_snapshot p)) (learn_native_session_after_snapshot inc ev)"

definition session_missing :: "attribution_evidence_data \<Rightarrow> string option \<Rightarrow> bool" where
  "session_missing ev session \<longleftrightarrow> session = None \<and> av_state ev = IReady"

definition native_session_refresh_needs_snapshot :: "incarnation_id \<Rightarrow> ('w, bool) slice" where
  "native_session_refresh_needs_snapshot inc =
     act_bind (sl_read (attribution_evidence inc)) (\<lambda>ev.
     act_bind (sl_read (observed_native_session inc)) (\<lambda>session. act_return (session_missing ev session)))"

definition refresh_native_session_after_snapshot :: "incarnation_id \<Rightarrow> snapshot \<Rightarrow> ('w, unit) slice" where
  "refresh_native_session_after_snapshot inc snap =
     act_bind (sl_read (attribution_evidence inc)) (\<lambda>ev.
     act_bind (sl_read (observed_native_session inc)) (\<lambda>session.
       if session_missing ev session
       then act_bind (learn_native_session_after_snapshot inc ev snap) (\<lambda>_. act_return ())
       else act_return ()))"

definition refresh_native_session :: "'w peer \<Rightarrow> incarnation_id \<Rightarrow> ('w, unit) slice" where
  "refresh_native_session p inc =
     act_bind (sl_read (attribution_evidence inc)) (\<lambda>ev.
     act_bind (sl_read (observed_native_session inc)) (\<lambda>session.
       if session_missing ev session
       then act_bind (learn_native_session p inc ev) (\<lambda>_. act_return ())
       else act_return ()))"

section \<open>Reads and reminders\<close>

definition live_agent_status :: "'w peer \<Rightarrow> ('w, lifecycle_observation list) slice" where
  "live_agent_status p = sl_herdr (blocking_lifecycle_snapshot p)"

definition slice_snooze_reminder :: "'w peer \<Rightarrow> logical_agent_id \<Rightarrow> message_id \<Rightarrow> int \<Rightarrow> ('w, unit) slice" where
  "slice_snooze_reminder p requester ask until = sl_commit_now p (\<lambda>now. snooze_reminder now requester ask until)"

definition slice_increase_reminder_interval ::
  "'w peer \<Rightarrow> logical_agent_id \<Rightarrow> message_id \<Rightarrow> int \<Rightarrow> ('w, unit) slice" where
  "slice_increase_reminder_interval p requester ask every =
     sl_commit_now p (\<lambda>now. increase_reminder_interval now requester ask every)"

definition slice_disable_reminder :: "'w peer \<Rightarrow> logical_agent_id \<Rightarrow> message_id \<Rightarrow> ('w, unit) slice" where
  "slice_disable_reminder p requester ask = sl_commit_now p (\<lambda>now. disable_reminder now requester ask)"

end
