(* ===== verification/Moves.thy ===== *)
theory Moves
  imports Runs Absences Reminding Renewing Adopt StartRun RetireRename
begin

text \<open>
  What an act of the coordination layer does to its state, whatever it returns and whatever Herdr and
  the clocks answer. A relation between the state before and after that every primitive act
  keeps is kept by every composition (the locale); for the store the relation is a sequence of store
  steps, so every operation of the slice refines the transition system of the store.
\<close>

named_theorems along_intro "a relation along an act"

definition along :: "('w kelpie \<Rightarrow> 'w kelpie \<Rightarrow> bool) \<Rightarrow> ('w, 'e, 'a) act \<Rightarrow> bool" where
  "along R m \<longleftrightarrow> (\<forall>k. R k (snd (m k)))"

lemma along_option [along_intro]:
  "(x = None \<Longrightarrow> along R a) \<Longrightarrow> (\<And>y. x = Some y \<Longrightarrow> along R (b y)) \<Longrightarrow> along R (case x of None \<Rightarrow> a | Some y \<Rightarrow> b y)"
  by (cases x) auto

lemma along_sum [along_intro]:
  "(\<And>y. x = Inl y \<Longrightarrow> along R (a y)) \<Longrightarrow> (\<And>y. x = Inr y \<Longrightarrow> along R (b y))
   \<Longrightarrow> along R (case x of Inl y \<Rightarrow> a y | Inr y \<Rightarrow> b y)"
  by (cases x) auto

lemma along_prod [along_intro]: "(\<And>y z. x = (y, z) \<Longrightarrow> along R (a y z)) \<Longrightarrow> along R (case x of (y, z) \<Rightarrow> a y z)"
  by (cases x) auto

lemma along_if [along_intro]:
  "(c \<Longrightarrow> along R a) \<Longrightarrow> (\<not> c \<Longrightarrow> along R b) \<Longrightarrow> along R (if c then a else b)"
  by auto

lemma along_prod_fun [along_intro]:
  "(\<And>y z. x = (y, z) \<Longrightarrow> along R (a y z b)) \<Longrightarrow> along R ((case x of (y, z) \<Rightarrow> a y z) b)"
  by (cases x) auto

lemma along_bool [along_intro]: "along R a \<Longrightarrow> along R b \<Longrightarrow> along R (case c of True \<Rightarrow> a | False \<Rightarrow> b)"
  by (cases c) auto

lemma along_let [along_intro]: "along R (a x) \<Longrightarrow> along R (Let x a)"
  by (simp add: Let_def)

lemma along_store_error [along_intro]:
  "(\<And>x. along R (f1 x)) \<Longrightarrow> (\<And>x. along R (f2 x)) \<Longrightarrow> (\<And>x. along R (f3 x)) \<Longrightarrow> along R f4
   \<Longrightarrow> along R (case_store_error f1 f2 f3 f4 e)"
  by (cases e) auto

lemma along_slice_error [along_intro]:
  "(\<And>x. along R (f1 x)) \<Longrightarrow> (\<And>x. along R (f2 x)) \<Longrightarrow> (\<And>x. along R (f3 x)) \<Longrightarrow> (\<And>x y z w. along R (f4 x y z w))
   \<Longrightarrow> (\<And>x y. along R (f5 x y)) \<Longrightarrow> (\<And>x. along R (f6 x)) \<Longrightarrow> (\<And>x. along R (f7 x)) \<Longrightarrow> (\<And>x. along R (f8 x))
   \<Longrightarrow> along R (case_slice_error f1 f2 f3 f4 f5 f6 f7 f8 e)"
  by (cases e) auto

lemma along_renew_phase [along_intro]:
  "along R a1 \<Longrightarrow> along R a2 \<Longrightarrow> along R a3 \<Longrightarrow> along R a4 \<Longrightarrow> along R a5 \<Longrightarrow> along R a6 \<Longrightarrow> along R a7 \<Longrightarrow> along R a8
   \<Longrightarrow> along R a9 \<Longrightarrow> along R (case_renew_phase a1 a2 a3 a4 a5 a6 a7 a8 a9 e)"
  by (cases e) auto

lemma along_renew_timeout [along_intro]:
  "along R a1 \<Longrightarrow> along R a2 \<Longrightarrow> along R (case_renew_timeout a1 a2 e)"
  by (cases e) auto

lemma along_rotation [along_intro]: "along R a1 \<Longrightarrow> along R a2 \<Longrightarrow> along R (case_rotation_timing a1 a2 e)"
  by (cases e) auto

lemma along_clear_submission [along_intro]:
  "(\<And>x. along R (a x)) \<Longrightarrow> (\<And>x. along R (b x)) \<Longrightarrow> along R (case_clear_submission a b e)"
  by (cases e) auto

lemma along_receive_path [along_intro]:
  "along R a1 \<Longrightarrow> along R a2 \<Longrightarrow> (\<And>x. along R (f x)) \<Longrightarrow> along R (case path of PathHerdrPrompt x \<Rightarrow> f x | PathSocketInbox \<Rightarrow> a1 | PathAskPull \<Rightarrow> a2)"
  by (cases path) auto

lemma along_readiness [along_intro]:
  "(\<And>x. along R (f1 x)) \<Longrightarrow> (\<And>x y. along R (f2 x y)) \<Longrightarrow> along R f3 \<Longrightarrow> along R (case_start_readiness f1 f2 f3 e)"
  by (cases e) auto

lemma along_adopt_after [along_intro]:
  "(\<And>x. along R (f1 x)) \<Longrightarrow> (\<And>x. along R (f2 x)) \<Longrightarrow> along R (case_adopt_after f1 f2 e)"
  by (cases e) auto

lemma along_retire_after [along_intro]:
  "(\<And>x. along R (f1 x)) \<Longrightarrow> (\<And>x. along R (f2 x)) \<Longrightarrow> along R (case_retire_after f1 f2 e)"
  by (cases e) auto

locale act_law =
  fixes R :: "'w kelpie \<Rightarrow> 'w kelpie \<Rightarrow> bool"
  assumes same: "R k k"
    and next_state: "R k k' \<Longrightarrow> R k' k'' \<Longrightarrow> R k k''"
begin

lemma keep [along_intro]: "along R (act_return x)" "along R (act_fail e)" "along R (act_result r)" "along R (act_get f)"
  "along R (act_read g)" "along R (act_query h)" "along R (sl_read g)" "along R (sl_query h)" "along R (sl_pure i)"
  "along R settle_ms"
  by (simp_all add: along_def act_simps same sl_read_def sl_query_def sl_pure_def act_read_def act_query_def
      act_error_def settle_ms_def act_get_def act_result_def)

lemma bind [along_intro]: "along R m \<Longrightarrow> (\<And>x. along R (f x)) \<Longrightarrow> along R (act_bind m f)"
  by (auto simp: along_def act_bind_def split: prod.splits sum.splits) (metis next_state snd_conv)+

lemma cases_of [along_intro]: "along R m \<Longrightarrow> (\<And>x. along R (f x)) \<Longrightarrow> along R (act_match m f)"
  by (auto simp: along_def act_match_def split: prod.splits) (metis next_state snd_conv)

lemma error [along_intro]: "along R m \<Longrightarrow> along R (act_error f m)"
  by (auto simp: along_def act_error_def split: prod.splits) (metis snd_conv)

lemma herdr [along_intro]: "along R m \<Longrightarrow> along R (sl_herdr m)"
  unfolding sl_herdr_def by (rule error)

lemma fold [along_intro]: "(\<And>x b. along R (f x b)) \<Longrightarrow> along R (act_fold f xs b)"
  by (induction xs arbitrary: b) (auto intro!: bind keep)

lemma loop [along_intro]: "along R m \<Longrightarrow> along R (act_loop n m)"
  by (induction n) (auto intro!: bind keep along_option)

end


lemma map_sum_eq_Inr: "map_sum f g r = Inr y \<longleftrightarrow> (\<exists>x. r = Inr x \<and> y = g x)"
  by (cases r) auto

lemma two_resultsE: "two_results r = Inr (z, d) \<Longrightarrow> (\<And>x y. r = Inr (x, y, d) \<Longrightarrow> C) \<Longrightarrow> C"
  by (cases r; cases z) auto

lemma rejected_step:
  "mark_rejected now oid inc ev out d = Inr d' \<Longrightarrow> out \<in> {DRejected, DTargetUnavailable} \<Longrightarrow> store_step d d'"
  by (auto intro: store_step.intros journal_rejected)

lemma renamed_step: "((), abandon_rename inc d) = (u, d') \<Longrightarrow> store_step d d'"
  by (auto intro: store_step.intros lifecycle_rename_dropped)

lemma ask_scheduled_step:
  "create_ask_with_schedule now s r inc body key due rem op d = Inr (m, oid, d') \<Longrightarrow> store_step d d'"
  unfolding create_ask_with_schedule_def by (auto intro: store_step.intros message_ask)

text \<open>Every committed transaction of an operation is a step of the store.\<close>

lemmas store_ops = rejected_step renamed_step ask_scheduled_step
  journal_step.intros(1-6,8-9) [THEN store_step.intros(1)] lifecycle_step.intros [THEN store_step.intros(2)]
  waiter_step.intros [THEN store_step.intros(3)] message_step.intros [THEN store_step.intros(4)]
  settle_step.intros [THEN store_step.intros(5)] schedule_step.intros [THEN store_step.intros(6)]
  reminder_step.intros [THEN store_step.intros(7)] renew_step.intros [THEN store_step.intros(8)]
  recovery_step.intros [THEN store_step.intros(9)] ack_step.intros [THEN store_step.intros(10)]

locale interaction = act_law R for R :: "'w kelpie \<Rightarrow> 'w kelpie \<Rightarrow> bool" +
  fixes p :: "'w peer"
  assumes stored: "store_step (ke_store k) d' \<Longrightarrow> R k (k\<lparr>ke_store := d'\<rparr>)"
    and claimed: "R k (k\<lparr>ke_floor := v\<rparr>)"
    and clocked: "R k (k\<lparr>ke_world := snd (pr_clock p (ke_world k))\<rparr>)"
    and timed: "R k (k\<lparr>ke_world := snd (pr_instant p (ke_world k))\<rparr>)"
    and slept: "R k (k\<lparr>ke_world := pr_sleep p ms (ke_world k)\<rparr>)"
    and connected: "R k (k\<lparr>ke_world := snd (pr_connect p (ke_world k))\<rparr>)"
    and exchanged: "R k (k\<lparr>ke_world := snd (pr_exchange p i m params (ke_world k))\<rparr>)"
begin

lemma transact [along_intro]:
  "(\<And>d x d'. f d = Inr (x, d') \<Longrightarrow> store_step d d') \<Longrightarrow> along R (act_transact f)"
  by (auto simp: along_def act_transact_def same intro: stored split: sum.splits)

lemma commit [along_intro]: "(\<And>d d'. f d = Inr d' \<Longrightarrow> store_step d d') \<Longrightarrow> along R (act_commit f)"
  unfolding act_commit_def by (rule transact) (auto simp: map_sum_eq_Inr)

lemma writing [along_intro]: "(\<And>d x d'. f d = (x, d') \<Longrightarrow> store_step d d') \<Longrightarrow> along R (act_write f)"
  unfolding act_write_def by (rule transact) auto

lemma world [along_intro]:
  "along R (act_world (pr_clock p))" "along R (act_world (pr_instant p))" "along R (act_sleep p ms)"
  "along R (act_world (pr_connect p))" "along R (act_world (pr_exchange p i m params))" "along R (instant_now p)"
  using clocked timed slept connected exchanged
  by (simp_all add: along_def act_world_def act_sleep_def instant_now_def split: prod.splits) (metis snd_conv)+

lemma clock [along_intro]: "along R (store_clock_ms p)" "along R (sl_clock p)"
  unfolding sl_clock_def store_clock_ms_def by (intro along_intro)+

lemma stamped [along_intro]: "(\<And>now. along R (f now)) \<Longrightarrow> along R (act_stamped p f)"
  unfolding act_stamped_def by (intro along_intro)

lemma slice_writes [along_intro]:
  "(\<And>d d'. f d = Inr d' \<Longrightarrow> store_step d d') \<Longrightarrow> along R (sl_commit f)"
  "(\<And>d x d'. g d = Inr (x, d') \<Longrightarrow> store_step d d') \<Longrightarrow> along R (sl_transact g)"
  "(\<And>d x d'. h d = (x, d') \<Longrightarrow> store_step d d') \<Longrightarrow> along R (sl_write h)"
  "(\<And>now d d'. f' now d = Inr d' \<Longrightarrow> store_step d d') \<Longrightarrow> along R (sl_commit_now p f')"
  "(\<And>now d x d'. g' now d = Inr (x, d') \<Longrightarrow> store_step d d') \<Longrightarrow> along R (sl_transact_now p g')"
  unfolding sl_commit_def sl_transact_def sl_write_def sl_commit_now_def sl_transact_now_def
  by (blast intro: bind clock error commit transact writing)+

lemma notices [along_intro]: "along R (sl_notice p body)" "along R (act_notice p body)"
  unfolding sl_notice_def act_notice_def by (intro along_intro; ((erule two_resultsE)?; erule store_ops; simp)?)+

lemma blocking_connect_along [along_intro]: "along R (blocking_connect p)"
  unfolding blocking_connect_def by (intro along_intro; ((erule two_resultsE)?; erule store_ops; simp)?)

lemma over_connection_along [along_intro]: "along R (over_connection p i m params f)"
  unfolding over_connection_def by (intro along_intro; ((erule two_resultsE)?; erule store_ops; simp)?)

lemma client_request_along [along_intro]: "along R (client_request p i m params f)"
  unfolding client_request_def by (intro along_intro; ((erule two_resultsE)?; erule store_ops; simp)?)

lemma blocking_negotiate_along [along_intro]: "along R (blocking_negotiate p)"
  unfolding blocking_negotiate_def by (intro along_intro; ((erule two_resultsE)?; erule store_ops; simp)?)

lemma blocking_snapshot_along [along_intro]: "along R (blocking_snapshot p)"
  unfolding blocking_snapshot_def by (intro along_intro; ((erule two_resultsE)?; erule store_ops; simp)?)

lemma blocking_lifecycle_snapshot_along [along_intro]: "along R (blocking_lifecycle_snapshot p)"
  unfolding blocking_lifecycle_snapshot_def by (intro along_intro; ((erule two_resultsE)?; erule store_ops; simp)?)

lemma blocking_close_pane_along [along_intro]: "along R (blocking_close_pane p request pane)"
  unfolding blocking_close_pane_def by (intro along_intro; ((erule two_resultsE)?; erule store_ops; simp)?)

lemma blocking_agent_along [along_intro]: "along R (blocking_agent p request target)"
  unfolding blocking_agent_def by (intro along_intro; ((erule two_resultsE)?; erule store_ops; simp)?)

lemma client_rename_agent_along [along_intro]: "along R (client_rename_agent p request target name)"
  unfolding client_rename_agent_def by (intro along_intro; ((erule two_resultsE)?; erule store_ops; simp)?)

lemma connection_start_agent_along [along_intro]: "along R (connection_start_agent p request params)"
  unfolding connection_start_agent_def by (intro along_intro; ((erule two_resultsE)?; erule store_ops; simp)?)

lemma connection_rename_agent_along [along_intro]: "along R (connection_rename_agent p request target name)"
  unfolding connection_rename_agent_def by (intro along_intro; ((erule two_resultsE)?; erule store_ops; simp)?)

lemma connection_prompt_agent_along [along_intro]: "along R (connection_prompt_agent p request target txt)"
  unfolding connection_prompt_agent_def by (intro along_intro; ((erule two_resultsE)?; erule store_ops; simp)?)

lemma connection_prompt_agent_waiting_along [along_intro]: "along R (connection_prompt_agent_waiting p request params)"
  unfolding connection_prompt_agent_waiting_def by (intro along_intro; ((erule two_resultsE)?; erule store_ops; simp)?)

lemma settle_absent_unknown_starts_along [along_intro]: "along R (settle_absent_unknown_starts p snap)"
  unfolding settle_absent_unknown_starts_def by (intro along_intro; ((erule two_resultsE)?; erule store_ops; simp)?)

lemma reconcile_missed_due_wakes_along [along_intro]: "along R (reconcile_missed_due_wakes p now_ms)"
  unfolding reconcile_missed_due_wakes_def by (intro along_intro; ((erule two_resultsE)?; erule store_ops; simp)?)

lemma mark_candidate_unknown_along [along_intro]: "along R (mark_candidate_unknown p c report)"
  unfolding mark_candidate_unknown_def by (intro along_intro; ((erule two_resultsE)?; erule store_ops; simp)?)

lemma recover_start_along [along_intro]: "along R (recover_start p snap c)"
  unfolding recover_start_def by (intro along_intro; ((erule two_resultsE)?; erule store_ops; simp)?)

lemma recover_adopt_along [along_intro]: "along R (recover_adopt p snap c)"
  unfolding recover_adopt_def by (intro along_intro; ((erule two_resultsE)?; erule store_ops; simp)?)

lemma retire_absent_along [along_intro]: "along R (retire_absent p oid inc pane terminal snap)"
  unfolding retire_absent_def by (intro along_intro; ((erule two_resultsE)?; erule store_ops; simp)?)

lemma reconcile_candidate_along [along_intro]: "along R (reconcile_candidate p snap now c report)"
  unfolding reconcile_candidate_def by (intro along_intro; ((erule two_resultsE)?; erule store_ops; simp)?)

lemma continue_occupants_along [along_intro]: "along R (continue_occupants p snap)"
  unfolding continue_occupants_def by (intro along_intro; ((erule two_resultsE)?; erule store_ops; simp)?)

lemma reconcile_along [along_intro]: "along R (reconcile p snap)"
  unfolding reconcile_def by (intro along_intro; ((erule two_resultsE)?; erule store_ops; simp)?)

lemma claim_live_along [along_intro]: "along R claim_live"
  by (simp add: claim_live_def along_def claimed)

lemma begin_prompt_delivery_along [along_intro]: "along R (begin_prompt_delivery item queued rendered)"
  unfolding begin_prompt_delivery_def by (intro along_intro; ((erule two_resultsE)?; erule store_ops; simp)?)

lemma commit_prompt_intent_along [along_intro]: "along R (commit_prompt_intent p q)"
  unfolding commit_prompt_intent_def by (intro along_intro; ((erule two_resultsE)?; erule store_ops; simp)?)

lemma apply_prompt_error_along [along_intro]: "along R (apply_prompt_error p q source)"
  unfolding apply_prompt_error_def by (intro along_intro; ((erule two_resultsE)?; erule store_ops; simp)?)

lemma apply_prompt_outcome_along [along_intro]: "along R (apply_prompt_outcome p q result)"
  unfolding apply_prompt_outcome_def by (intro along_intro; ((erule two_resultsE)?; erule store_ops; simp)?)

lemma complete_prompt_delivery_along [along_intro]: "along R (complete_prompt_delivery p q result)"
  unfolding complete_prompt_delivery_def by (intro along_intro; ((erule two_resultsE)?; erule store_ops; simp)?)

lemma prompt_write_along [along_intro]: "along R (prompt_write p request pane envelope)"
  unfolding prompt_write_def by (intro along_intro; ((erule two_resultsE)?; erule store_ops; simp)?)

lemma send_prepared_prompt_along [along_intro]: "along R (send_prepared_prompt p q)"
  unfolding send_prepared_prompt_def by (intro along_intro; ((erule two_resultsE)?; erule store_ops; simp)?)

lemma prompt_spacing_active_along [along_intro]: "along R (prompt_spacing_active inc now_ms)"
  unfolding prompt_spacing_active_def by (intro along_intro; ((erule two_resultsE)?; erule store_ops; simp)?)

lemma begin_one_due_along [along_intro]: "along R (begin_one_due p item)"
  unfolding begin_one_due_def by (intro along_intro; ((erule two_resultsE)?; erule store_ops; simp)?)

lemma fire_one_due_along [along_intro]: "along R (fire_one_due p item)"
  unfolding fire_one_due_def by (intro along_intro; ((erule two_resultsE)?; erule store_ops; simp)?)

lemma fire_due_deliveries_along [along_intro]: "along R (fire_due_deliveries p)"
  unfolding fire_due_deliveries_def by (intro along_intro; ((erule two_resultsE)?; erule store_ops; simp)?)

lemma begin_due_deliveries_along [along_intro]: "along R (begin_due_deliveries p)"
  unfolding begin_due_deliveries_def by (intro along_intro; ((erule two_resultsE)?; erule store_ops; simp)?)

lemma should_defer_along [along_intro]: "along R (should_defer p due)"
  unfolding should_defer_def by (intro along_intro; ((erule two_resultsE)?; erule store_ops; simp)?)

lemma prompt_schedule_along [along_intro]: "along R (prompt_schedule p inc due)"
  unfolding prompt_schedule_def by (intro along_intro; ((erule two_resultsE)?; erule store_ops; simp)?)

lemma record_ask_along [along_intro]: "along R (record_ask p sender recipient inc body key due remind operator reply_delivery)"
  unfolding record_ask_def by (intro along_intro; ((erule two_resultsE)?; erule store_ops; simp)?)

lemma send_if_prepared_along [along_intro]: "along R (send_if_prepared p r)"
  unfolding send_if_prepared_def by (intro along_intro; ((erule two_resultsE)?; erule store_ops; simp)?)

lemma slice_ask_along [along_intro]: "along R (slice_ask p sender recipient inc body key due remind operator)"
  unfolding slice_ask_def by (intro along_intro; ((erule two_resultsE)?; erule store_ops; simp)?)

lemma record_tell_along [along_intro]: "along R (record_tell p sender recipient inc body key due)"
  unfolding record_tell_def by (intro along_intro; ((erule two_resultsE)?; erule store_ops; simp)?)

lemma slice_tell_along [along_intro]: "along R (slice_tell p sender recipient inc body key due)"
  unfolding slice_tell_def by (intro along_intro; ((erule two_resultsE)?; erule store_ops; simp)?)

lemma record_socket_tell_along [along_intro]: "along R (record_socket_tell p sender recipient body key due)"
  unfolding record_socket_tell_def by (intro along_intro; ((erule two_resultsE)?; erule store_ops; simp)?)

lemma schedule_tell_along [along_intro]: "along R (schedule_tell p sender recipient body interval first key)"
  unfolding schedule_tell_def by (intro along_intro; ((erule two_resultsE)?; erule store_ops; simp)?)

lemma fire_due_schedules_along [along_intro]: "along R (fire_due_schedules p)"
  unfolding fire_due_schedules_def by (intro along_intro; ((erule two_resultsE)?; erule store_ops; simp)?)

lemma slice_cancel_schedule_along [along_intro]: "along R (slice_cancel_schedule p schedule requester reason)"
  unfolding slice_cancel_schedule_def by (intro along_intro; ((erule two_resultsE)?; erule store_ops; simp)?)

lemma record_reply_along [along_intro]: "along R (record_reply p ask requester body disposition key)"
  unfolding record_reply_def by (intro along_intro; ((erule two_resultsE)?; erule store_ops; simp)?)

lemma slice_reply_along [along_intro]: "along R (slice_reply p ask requester body disposition key)"
  unfolding slice_reply_def by (intro along_intro; ((erule two_resultsE)?; erule store_ops; simp)?)

lemma schedule_for_along [along_intro]: "along R (schedule_for p inc)"
  unfolding schedule_for_def by (intro along_intro; ((erule two_resultsE)?; erule store_ops; simp)?)

lemma record_cancel_along [along_intro]: "along R (record_cancel p requester ask reason)"
  unfolding record_cancel_def by (intro along_intro; ((erule two_resultsE)?; erule store_ops; simp)?)

lemma send_cancellation_prompt_along [along_intro]: "along R (send_cancellation_prompt p q)"
  unfolding send_cancellation_prompt_def by (intro along_intro; ((erule two_resultsE)?; erule store_ops; simp)?)

lemma deliver_cancellation_along [along_intro]: "along R (deliver_cancellation p c outcome)"
  unfolding deliver_cancellation_def by (intro along_intro; ((erule two_resultsE)?; erule store_ops; simp)?)

lemma slice_cancel_along [along_intro]: "along R (slice_cancel p requester ask reason)"
  unfolding slice_cancel_def by (intro along_intro; ((erule two_resultsE)?; erule store_ops; simp)?)

lemma reject_unsent_prompt_along [along_intro]: "along R (reject_unsent_prompt p q source)"
  unfolding reject_unsent_prompt_def by (intro along_intro; ((erule two_resultsE)?; erule store_ops; simp)?)

lemma schedule_owing_along [along_intro]: "along R (schedule_owing p ask s)"
  unfolding schedule_owing_def by (intro along_intro; ((erule two_resultsE)?; erule store_ops; simp)?)

lemma prepare_retire_waiter_along [along_intro]: "along R (prepare_retire_waiter p a reason)"
  unfolding prepare_retire_waiter_def by (intro along_intro; ((erule two_resultsE)?; erule store_ops; simp)?)

lemma send_retire_notice_along [along_intro]: "along R (send_retire_notice p nt sent)"
  unfolding send_retire_notice_def by (intro along_intro; ((erule two_resultsE)?; erule store_ops; simp)?)

lemma retire_waiter_along [along_intro]: "along R (retire_waiter p a)"
  unfolding retire_waiter_def by (intro along_intro; ((erule two_resultsE)?; erule store_ops; simp)?)

lemma has_sweepable_state_along [along_intro]: "along R (has_sweepable_state)"
  unfolding has_sweepable_state_def by (intro along_intro; ((erule two_resultsE)?; erule store_ops; simp)?)

lemma sweep_waiter_along [along_intro]: "along R (sweep_waiter p waiter sweep)"
  unfolding sweep_waiter_def by (intro along_intro; ((erule two_resultsE)?; erule store_ops; simp)?)

lemma sweep_stranded_along [along_intro]: "along R (sweep_stranded p x sweep)"
  unfolding sweep_stranded_def by (intro along_intro; ((erule two_resultsE)?; erule store_ops; simp)?)

lemma sweep_absent_asks_along [along_intro]: "along R (sweep_absent_asks p now_ms grace)"
  unfolding sweep_absent_asks_def by (intro along_intro; ((erule two_resultsE)?; erule store_ops; simp)?)

lemma commit_reminder_intent_along [along_intro]: "along R (commit_reminder_intent q)"
  unfolding commit_reminder_intent_def by (intro along_intro; ((erule two_resultsE)?; erule store_ops; simp)?)

lemma complete_reminder_along [along_intro]: "along R (complete_reminder p q result)"
  unfolding complete_reminder_def by (intro along_intro; ((erule two_resultsE)?; erule store_ops; simp)?)

lemma fire_one_reminder_along [along_intro]: "along R (fire_one_reminder p r now_ms)"
  unfolding fire_one_reminder_def by (intro along_intro; ((erule two_resultsE)?; erule store_ops; simp)?)

lemma boundary_reminder_to_fire_along [along_intro]: "along R (boundary_reminder_to_fire b snap now_ms)"
  unfolding boundary_reminder_to_fire_def by (intro along_intro; ((erule two_resultsE)?; erule store_ops; simp)?)

lemma fire_boundary_reminder_along [along_intro]: "along R (fire_boundary_reminder p b snap now_ms)"
  unfolding fire_boundary_reminder_def by (intro along_intro; ((erule two_resultsE)?; erule store_ops; simp)?)

lemma unspaced_along [along_intro]: "along R (unspaced f now_ms items)"
  unfolding unspaced_def by (intro along_intro; ((erule two_resultsE)?; erule store_ops; simp)?)

lemma fire_due_reminders_along [along_intro]: "along R (fire_due_reminders p)"
  unfolding fire_due_reminders_def by (intro along_intro; ((erule two_resultsE)?; erule store_ops; simp)?)

lemma collect_due_reminders_along [along_intro]: "along R (collect_due_reminders p)"
  unfolding collect_due_reminders_def by (intro along_intro; ((erule two_resultsE)?; erule store_ops; simp)?)

lemma reminders_after_snapshot_along [along_intro]: "along R (reminders_after_snapshot p due boundaries snap)"
  unfolding reminders_after_snapshot_def by (intro along_intro; ((erule two_resultsE)?; erule store_ops; simp)?)

lemma idle_wait_along [along_intro]: "along R (idle_wait p cap)"
  unfolding idle_wait_def by (intro along_intro; ((erule two_resultsE)?; erule store_ops; simp)?)

lemma prepare_clear_along [along_intro]: "along R (prepare_clear p inc pane probe)"
  unfolding prepare_clear_def by (intro along_intro; ((erule two_resultsE)?; erule store_ops; simp)?)

lemma submit_clear_command_along [along_intro]: "along R (submit_clear_command p request pane command)"
  unfolding submit_clear_command_def by (intro along_intro; ((erule two_resultsE)?; erule store_ops; simp)?)

lemma observe_clear_rotation_along [along_intro]: "along R (observe_clear_rotation p request pane)"
  unfolding observe_clear_rotation_def by (intro along_intro; ((erule two_resultsE)?; erule store_ops; simp)?)

lemma commit_clear_intent_along [along_intro]: "along R (commit_clear_intent p oid inc request)"
  unfolding commit_clear_intent_def by (intro along_intro; ((erule two_resultsE)?; erule store_ops; simp)?)

lemma finish_clear_along [along_intro]: "along R (finish_clear p oid recipient inc session)"
  unfolding finish_clear_def by (intro along_intro; ((erule two_resultsE)?; erule store_ops; simp)?)

lemma clear_unknown_along [along_intro]: "along R (clear_unknown p oid inc detail)"
  unfolding clear_unknown_def by (intro along_intro; ((erule two_resultsE)?; erule store_ops; simp)?)

lemma apply_clear_command_result_along [along_intro]: "along R (apply_clear_command_result p oid recipient inc pane backend rotation pre result)"
  unfolding apply_clear_command_result_def by (intro along_intro; ((erule two_resultsE)?; erule store_ops; simp)?)

lemma submit_clear_along [along_intro]: "along R (submit_clear p recipient inc key)"
  unfolding submit_clear_def by (intro along_intro; ((erule two_resultsE)?; erule store_ops; simp)?)

lemma begin_clear_after_probe_along [along_intro]: "along R (begin_clear_after_probe p recipient inc key observed)"
  unfolding begin_clear_after_probe_def by (intro along_intro; ((erule two_resultsE)?; erule store_ops; simp)?)

lemma apply_clear_rotation_observation_along [along_intro]: "along R (apply_clear_rotation_observation p a result)"
  unfolding apply_clear_rotation_observation_def by (intro along_intro; ((erule two_resultsE)?; erule store_ops; simp)?)

lemma advance_clear_along [along_intro]: "along R (advance_clear p a)"
  unfolding advance_clear_def by (intro along_intro; ((erule two_resultsE)?; erule store_ops; simp)?)

lemma clear_not_before_ms_along [along_intro]: "along R (clear_not_before_ms inc)"
  unfolding clear_not_before_ms_def by (intro along_intro; ((erule two_resultsE)?; erule store_ops; simp)?)

lemma await_clear_along [along_intro]: "along R (await_clear fuel p a)"
  unfolding await_clear_def by (intro along_intro; ((erule two_resultsE)?; erule store_ops; simp)?)

lemma slice_clear_along [along_intro]: "along R (slice_clear fuel p recipient inc key)"
  unfolding slice_clear_def by (intro along_intro; ((erule two_resultsE)?; erule store_ops; simp)?)

lemma slice_renew_along [along_intro]: "along R (slice_renew p requester recipient inc prepare resume on_timeout timeout every scheduled)"
  unfolding slice_renew_def by (intro along_intro; ((erule two_resultsE)?; erule store_ops; simp)?)

lemma record_renew_notice_along [along_intro]: "along R (record_renew_notice p x detail)"
  unfolding record_renew_notice_def by (intro along_intro; ((erule two_resultsE)?; erule store_ops; simp)?)

lemma terminate_ended_renew_along [along_intro]: "along R (terminate_ended_renew p i u)"
  unfolding terminate_ended_renew_def by (intro along_intro; ((erule two_resultsE)?; erule store_ops; simp)?)

lemma terminate_ended_renews_along [along_intro]: "along R (terminate_ended_renews p)"
  unfolding terminate_ended_renews_def by (intro along_intro; ((erule two_resultsE)?; erule store_ops; simp)?)

lemma slice_cancel_renew_along [along_intro]: "along R (slice_cancel_renew p i requester reason)"
  unfolding slice_cancel_renew_def by (intro along_intro; ((erule two_resultsE)?; erule store_ops; simp)?)

lemma occupancy_sample_needed_along [along_intro]: "along R (occupancy_sample_needed p)"
  unfolding occupancy_sample_needed_def by (intro along_intro; ((erule two_resultsE)?; erule store_ops; simp)?)

lemma apply_occupancy_snapshot_along [along_intro]: "along R (apply_occupancy_snapshot now_ms snap)"
  unfolding apply_occupancy_snapshot_def by (intro along_intro; ((erule two_resultsE)?; erule store_ops; simp)?)

lemma accrue_occupancy_from_snapshot_along [along_intro]: "along R (accrue_occupancy_from_snapshot p snap)"
  unfolding accrue_occupancy_from_snapshot_def by (intro along_intro; ((erule two_resultsE)?; erule store_ops; simp)?)

lemma accrue_scheduled_interval_renews_along [along_intro]: "along R (accrue_scheduled_interval_renews p now_ms)"
  unfolding accrue_scheduled_interval_renews_def by (intro along_intro; ((erule two_resultsE)?; erule store_ops; simp)?)

lemma begin_renew_prepare_along [along_intro]: "along R (begin_renew_prepare p x now_ms)"
  unfolding begin_renew_prepare_def by (intro along_intro; ((erule two_resultsE)?; erule store_ops; simp)?)

lemma renew_deliver_prepare_along [along_intro]: "along R (renew_deliver_prepare p x now_ms)"
  unfolding renew_deliver_prepare_def by (intro along_intro; ((erule two_resultsE)?; erule store_ops; simp)?)

lemma renew_settle_prepare_along [along_intro]: "along R (renew_settle_prepare p x now_ms)"
  unfolding renew_settle_prepare_def by (intro along_intro; ((erule two_resultsE)?; erule store_ops; simp)?)

lemma renew_apply_timeout_along [along_intro]: "along R (renew_apply_timeout p x)"
  unfolding renew_apply_timeout_def by (intro along_intro; ((erule two_resultsE)?; erule store_ops; simp)?)

lemma renew_clear_ready_to_probe_along [along_intro]: "along R (renew_clear_ready_to_probe x now_ms)"
  unfolding renew_clear_ready_to_probe_def by (intro along_intro; ((erule two_resultsE)?; erule store_ops; simp)?)

lemma record_renew_clearing_prepared_along [along_intro]: "along R (record_renew_clearing_prepared x now_ms prepared)"
  unfolding record_renew_clearing_prepared_def by (intro along_intro; ((erule two_resultsE)?; erule store_ops; simp)?)

lemma record_renew_clearing_along [along_intro]: "along R (record_renew_clearing x now_ms observed)"
  unfolding record_renew_clearing_def by (intro along_intro; ((erule two_resultsE)?; erule store_ops; simp)?)

lemma apply_renew_attempt_result_along [along_intro]: "along R (apply_renew_attempt_result i request now_ms result)"
  unfolding apply_renew_attempt_result_def by (intro along_intro; ((erule two_resultsE)?; erule store_ops; simp)?)

lemma renew_submit_clear_along [along_intro]: "along R (renew_submit_clear p x now_ms)"
  unfolding renew_submit_clear_def by (intro along_intro; ((erule two_resultsE)?; erule store_ops; simp)?)

lemma report_clear_stall_along [along_intro]: "along R (report_clear_stall p x now_ms consequence)"
  unfolding report_clear_stall_def by (intro along_intro; ((erule two_resultsE)?; erule store_ops; simp)?)

lemma abandon_unproven_cycle_along [along_intro]: "along R (abandon_unproven_cycle p x now_ms)"
  unfolding abandon_unproven_cycle_def by (intro along_intro; ((erule two_resultsE)?; erule store_ops; simp)?)

lemma record_renew_injection_along [along_intro]: "along R (record_renew_injection x now_ms observed rotated)"
  unfolding record_renew_injection_def by (intro along_intro; ((erule two_resultsE)?; erule store_ops; simp)?)

lemma renew_inject_decision_along [along_intro]: "along R (renew_inject_decision p x now_ms observed)"
  unfolding renew_inject_decision_def by (intro along_intro; ((erule two_resultsE)?; erule store_ops; simp)?)

lemma apply_renew_inject_result_along [along_intro]: "along R (apply_renew_inject_result x now_ms wr result)"
  unfolding apply_renew_inject_result_def by (intro along_intro; ((erule two_resultsE)?; erule store_ops; simp)?)

lemma renew_finish_clear_along [along_intro]: "along R (renew_finish_clear p x now_ms)"
  unfolding renew_finish_clear_def by (intro along_intro; ((erule two_resultsE)?; erule store_ops; simp)?)

lemma apply_renew_confirm_observation_along [along_intro]: "along R (apply_renew_confirm_observation p x now_ms observed)"
  unfolding apply_renew_confirm_observation_def by (intro along_intro; ((erule two_resultsE)?; erule store_ops; simp)?)

lemma renew_confirm_rotation_along [along_intro]: "along R (renew_confirm_rotation p x now_ms)"
  unfolding renew_confirm_rotation_def by (intro along_intro; ((erule two_resultsE)?; erule store_ops; simp)?)

lemma advance_renew_along [along_intro]: "along R (advance_renew p x now_ms)"
  unfolding advance_renew_def by (intro along_intro; ((erule two_resultsE)?; erule store_ops; simp)?)

lemma drive_renews_along [along_intro]: "along R (drive_renews p)"
  unfolding drive_renews_def by (intro along_intro; ((erule two_resultsE)?; erule store_ops; simp)?)

lemma adopt_after_snapshot_along [along_intro]: "along R (adopt_after_snapshot p n snap)"
  unfolding adopt_after_snapshot_def by (intro along_intro; ((erule two_resultsE)?; erule store_ops; simp)?)

lemma submit_adopt_rename_intent_along [along_intro]: "along R (submit_adopt_rename_intent p declared)"
  unfolding submit_adopt_rename_intent_def by (intro along_intro; ((erule two_resultsE)?; erule store_ops; simp)?)

lemma apply_adopt_confirm_error_along [along_intro]: "along R (apply_adopt_confirm_error p declared source)"
  unfolding apply_adopt_confirm_error_def by (intro along_intro; ((erule two_resultsE)?; erule store_ops; simp)?)

lemma apply_adopt_rename_error_along [along_intro]: "along R (apply_adopt_rename_error p declared source)"
  unfolding apply_adopt_rename_error_def by (intro along_intro; ((erule two_resultsE)?; erule store_ops; simp)?)

lemma accept_adopt_confirm_along [along_intro]: "along R (accept_adopt_confirm p work snap)"
  unfolding accept_adopt_confirm_def by (intro along_intro; ((erule two_resultsE)?; erule store_ops; simp)?)

lemma claim_adopt_name_along [along_intro]: "along R (claim_adopt_name p n ev declared)"
  unfolding claim_adopt_name_def by (intro along_intro; ((erule two_resultsE)?; erule store_ops; simp)?)

lemma slice_adopt_along [along_intro]: "along R (slice_adopt p n)"
  unfolding slice_adopt_def by (intro along_intro; ((erule two_resultsE)?; erule store_ops; simp)?)

lemma pane_adopt_after_snapshot_along [along_intro]: "along R (pane_adopt_after_snapshot p pane key snap)"
  unfolding pane_adopt_after_snapshot_def by (intro along_intro; ((erule two_resultsE)?; erule store_ops; simp)?)

lemma identity_after_snapshot_along [along_intro]: "along R (identity_after_snapshot p pane key snap)"
  unfolding identity_after_snapshot_def by (intro along_intro; ((erule two_resultsE)?; erule store_ops; simp)?)

lemma resolve_or_adopt_pane_along [along_intro]: "along R (resolve_or_adopt_pane p pane key)"
  unfolding resolve_or_adopt_pane_def by (intro along_intro; ((erule two_resultsE)?; erule store_ops; simp)?)

lemma alias_after_snapshot_along [along_intro]: "along R (alias_after_snapshot p name key snap)"
  unfolding alias_after_snapshot_def by (intro along_intro; ((erule two_resultsE)?; erule store_ops; simp)?)

lemma resolve_or_adopt_alias_along [along_intro]: "along R (resolve_or_adopt_alias p name key)"
  unfolding resolve_or_adopt_alias_def by (intro along_intro; ((erule two_resultsE)?; erule store_ops; simp)?)

lemma declare_start_from_snapshot_along [along_intro]: "along R (declare_start_from_snapshot p n snap)"
  unfolding declare_start_from_snapshot_def by (intro along_intro; ((erule two_resultsE)?; erule store_ops; simp)?)

lemma commit_start_intent_along [along_intro]: "along R (commit_start_intent p declared request)"
  unfolding commit_start_intent_def by (intro along_intro; ((erule two_resultsE)?; erule store_ops; simp)?)

lemma schedule_start_retry_along [along_intro]: "along R (schedule_start_retry p declared source busy_deadline)"
  unfolding schedule_start_retry_def by (intro along_intro; ((erule two_resultsE)?; erule store_ops; simp)?)

lemma apply_agent_start_result_along [along_intro]: "along R (apply_agent_start_result p n declared deadline busy_deadline attempt_index result)"
  unfolding apply_agent_start_result_def by (intro along_intro; ((erule two_resultsE)?; erule store_ops; simp)?)

lemma attempt_agent_start_along [along_intro]: "along R (attempt_agent_start p n declared deadline busy_deadline attempt_index)"
  unfolding attempt_agent_start_def by (intro along_intro; ((erule two_resultsE)?; erule store_ops; simp)?)

lemma submit_start_along [along_intro]: "along R (submit_start p n)"
  unfolding submit_start_def by (intro along_intro; ((erule two_resultsE)?; erule store_ops; simp)?)

lemma continue_busy_start_along [along_intro]: "along R (continue_busy_start p n declared deadline busy_deadline attempt_index)"
  unfolding continue_busy_start_def by (intro along_intro; ((erule two_resultsE)?; erule store_ops; simp)?)

lemma apply_start_observation_along [along_intro]: "along R (apply_start_observation p n declared deadline observed)"
  unfolding apply_start_observation_def by (intro along_intro; ((erule two_resultsE)?; erule store_ops; simp)?)

lemma advance_start_ready_along [along_intro]: "along R (advance_start_ready p n declared deadline)"
  unfolding advance_start_ready_def by (intro along_intro; ((erule two_resultsE)?; erule store_ops; simp)?)

lemma wait_for_start_ready_along [along_intro]: "along R (wait_for_start_ready fuel p n declared deadline)"
  unfolding wait_for_start_ready_def by (intro along_intro; ((erule two_resultsE)?; erule store_ops; simp)?)

lemma start_loop_along [along_intro]: "along R (start_loop fuel p n s)"
proof (induction fuel arbitrary: s)
  case 0
  show ?case by (cases s; simp only: start_loop.simps; intro along_intro)
next
  case (Suc fuel)
  show ?case by (cases s; simp only: start_loop.simps; intro along_intro Suc.IH)
qed

lemma slice_start_along [along_intro]: "along R (slice_start fuel p n)"
  unfolding slice_start_def by (intro along_intro; ((erule two_resultsE)?; erule store_ops; simp)?)

lemma note_undelivered_brief_along [along_intro]: "along R (note_undelivered_brief p n error)"
  unfolding note_undelivered_brief_def by (intro along_intro; ((erule two_resultsE)?; erule store_ops; simp)?)

lemma begin_initial_message_along [along_intro]: "along R (begin_initial_message p n started)"
  unfolding begin_initial_message_def by (intro along_intro; ((erule two_resultsE)?; erule store_ops; simp)?)

lemma complete_initial_delivery_along [along_intro]: "along R (complete_initial_delivery p q started message result)"
  unfolding complete_initial_delivery_def by (intro along_intro; ((erule two_resultsE)?; erule store_ops; simp)?)

lemma finish_launch_along [along_intro]: "along R (finish_launch p n started)"
  unfolding finish_launch_def by (intro along_intro; ((erule two_resultsE)?; erule store_ops; simp)?)

lemma slice_launch_along [along_intro]: "along R (slice_launch fuel p n)"
  unfolding slice_launch_def by (intro along_intro; ((erule two_resultsE)?; erule store_ops; simp)?)

lemma retirement_intent_along [along_intro]: "along R (retirement_intent p inc key resuming)"
  unfolding retirement_intent_def by (intro along_intro; ((erule two_resultsE)?; erule store_ops; simp)?)

lemma prepare_retire_close_along [along_intro]: "along R (prepare_retire_close p inc key)"
  unfolding prepare_retire_close_def by (intro along_intro; ((erule two_resultsE)?; erule store_ops; simp)?)

lemma complete_if_absent_along [along_intro]: "along R (complete_if_absent p oid inc pane terminal snap)"
  unfolding complete_if_absent_def by (intro along_intro; ((erule two_resultsE)?; erule store_ops; simp)?)

lemma retire_after_snapshot_along [along_intro]: "along R (retire_after_snapshot p f snap)"
  unfolding retire_after_snapshot_def by (intro along_intro; ((erule two_resultsE)?; erule store_ops; simp)?)

lemma complete_retire_confirm_along [along_intro]: "along R (complete_retire_confirm p work snap)"
  unfolding complete_retire_confirm_def by (intro along_intro; ((erule two_resultsE)?; erule store_ops; simp)?)

lemma slice_retire_along [along_intro]: "along R (slice_retire p inc key close)"
  unfolding slice_retire_def by (intro along_intro; ((erule two_resultsE)?; erule store_ops; simp)?)

lemma commit_rename_intent_along [along_intro]: "along R (commit_rename_intent f)"
  unfolding commit_rename_intent_def by (intro along_intro; ((erule two_resultsE)?; erule store_ops; simp)?)

lemma begin_rename_after_snapshot_along [along_intro]: "along R (begin_rename_after_snapshot f snap)"
  unfolding begin_rename_after_snapshot_def by (intro along_intro; ((erule two_resultsE)?; erule store_ops; simp)?)

lemma abandon_rename_before_write_along [along_intro]: "along R (abandon_rename_before_write work source)"
  unfolding abandon_rename_before_write_def by (intro along_intro; ((erule two_resultsE)?; erule store_ops; simp)?)

lemma apply_rename_write_error_along [along_intro]: "along R (apply_rename_write_error work source)"
  unfolding apply_rename_write_error_def by (intro along_intro; ((erule two_resultsE)?; erule store_ops; simp)?)

lemma commit_rename_confirm_along [along_intro]: "along R (commit_rename_confirm work snap)"
  unfolding commit_rename_confirm_def by (intro along_intro; ((erule two_resultsE)?; erule store_ops; simp)?)

lemma slice_rename_along [along_intro]: "along R (slice_rename p a new_name)"
  unfolding slice_rename_def by (intro along_intro; ((erule two_resultsE)?; erule store_ops; simp)?)

lemma prepare_name_projection_repair_along [along_intro]: "along R (prepare_name_projection_repair snap)"
  unfolding prepare_name_projection_repair_def by (intro along_intro; ((erule two_resultsE)?; erule store_ops; simp)?)

lemma settle_reminder_attempts_along [along_intro]: "along R (settle_reminder_attempts p)"
  unfolding settle_reminder_attempts_def by (intro along_intro; ((erule two_resultsE)?; erule store_ops; simp)?)

lemma recover_with_snapshot_along [along_intro]: "along R (recover_with_snapshot p snap)"
  unfolding recover_with_snapshot_def by (intro along_intro; ((erule two_resultsE)?; erule store_ops; simp)?)

lemma recovered_along [along_intro]: "along R (recovered p snap names)"
  unfolding recovered_def by (intro along_intro; ((erule two_resultsE)?; erule store_ops; simp)?)

lemma recover_after_projection_failure_along [along_intro]: "along R (recover_after_projection_failure p snap names inc reason)"
  unfolding recover_after_projection_failure_def by (intro along_intro; ((erule two_resultsE)?; erule store_ops; simp)?)

lemma recover_loop_along [along_intro]: "along R (recover_loop fuel p names)"
  by (induction fuel arbitrary: names; simp only: recover_loop.simps; intro along_intro; ((erule two_resultsE)?; erule store_ops; simp)?)

lemma slice_recover_along [along_intro]: "along R (slice_recover fuel p)"
  unfolding slice_recover_def by (intro along_intro; ((erule two_resultsE)?; erule store_ops; simp)?)

lemma learn_native_session_after_snapshot_along [along_intro]: "along R (learn_native_session_after_snapshot inc ev snap)"
  unfolding learn_native_session_after_snapshot_def by (intro along_intro; ((erule two_resultsE)?; erule store_ops; simp)?)

lemma learn_native_session_along [along_intro]: "along R (learn_native_session p inc ev)"
  unfolding learn_native_session_def by (intro along_intro; ((erule two_resultsE)?; erule store_ops; simp)?)

lemma native_session_refresh_needs_snapshot_along [along_intro]: "along R (native_session_refresh_needs_snapshot inc)"
  unfolding native_session_refresh_needs_snapshot_def by (intro along_intro; ((erule two_resultsE)?; erule store_ops; simp)?)

lemma refresh_native_session_after_snapshot_along [along_intro]: "along R (refresh_native_session_after_snapshot inc snap)"
  unfolding refresh_native_session_after_snapshot_def by (intro along_intro; ((erule two_resultsE)?; erule store_ops; simp)?)

lemma refresh_native_session_along [along_intro]: "along R (refresh_native_session p inc)"
  unfolding refresh_native_session_def by (intro along_intro; ((erule two_resultsE)?; erule store_ops; simp)?)

lemma live_agent_status_along [along_intro]: "along R (live_agent_status p)"
  unfolding live_agent_status_def by (intro along_intro; ((erule two_resultsE)?; erule store_ops; simp)?)

lemma slice_snooze_reminder_along [along_intro]: "along R (slice_snooze_reminder p requester ask until)"
  unfolding slice_snooze_reminder_def by (intro along_intro; ((erule two_resultsE)?; erule store_ops; simp)?)

lemma slice_increase_reminder_interval_along [along_intro]: "along R (slice_increase_reminder_interval p requester ask every)"
  unfolding slice_increase_reminder_interval_def by (intro along_intro; ((erule two_resultsE)?; erule store_ops; simp)?)

lemma slice_disable_reminder_along [along_intro]: "along R (slice_disable_reminder p requester ask)"
  unfolding slice_disable_reminder_def by (intro along_intro; ((erule two_resultsE)?; erule store_ops; simp)?)

end

text \<open>The store only moves by its steps, whatever the client of Herdr answers.\<close>

definition moves :: "'w kelpie \<Rightarrow> 'w kelpie \<Rightarrow> bool" where
  "moves k k' \<longleftrightarrow> store_step\<^sup>*\<^sup>* (ke_store k) (ke_store k')"

interpretation moved: interaction moves p for p
  by unfold_locales (auto simp: moves_def)

end
