(* ===== verification/SliceLaws.thy ===== *)
theory SliceLaws
  imports Moves
begin

text \<open>
  Properties of the coordination slice. Its operations are the steps of a transition system over the
  store, the world behind the client of Herdr and the clocks; the world answers whatever it likes.
\<close>

section \<open>The slice refines the store\<close>

text \<open>One rule per operation the daemon calls, grouped by component.\<close>

inductive slice_exchange_step :: "'w peer \<Rightarrow> 'w kelpie \<Rightarrow> 'w kelpie \<Rightarrow> bool" for p where
  "slice_exchange_step p k (snd (slice_ask p sender recipient inc body key due remind operator k))"
| "slice_exchange_step p k (snd (record_ask p sender recipient inc body key due remind operator reply_delivery k))"
| "slice_exchange_step p k (snd (slice_tell p sender recipient inc body key due k))"
| "slice_exchange_step p k (snd (record_tell p sender recipient inc body key due k))"
| "slice_exchange_step p k (snd (record_socket_tell p sender recipient body key due k))"
| "slice_exchange_step p k (snd (slice_reply p ask requester body disposition key k))"
| "slice_exchange_step p k (snd (record_reply p ask requester body disposition key k))"

inductive slice_prompt_step :: "'w peer \<Rightarrow> 'w kelpie \<Rightarrow> 'w kelpie \<Rightarrow> bool" for p where
  "slice_prompt_step p k (snd (begin_prompt_delivery item queued rendered k))"
| "slice_prompt_step p k (snd (commit_prompt_intent p q k))"
| "slice_prompt_step p k (snd (complete_prompt_delivery p q result k))"
| "slice_prompt_step p k (snd (send_prepared_prompt p q k))"
| "slice_prompt_step p k (snd (fire_due_deliveries p k))"
| "slice_prompt_step p k (snd (begin_due_deliveries p k))"

inductive slice_schedule_step :: "'w peer \<Rightarrow> 'w kelpie \<Rightarrow> 'w kelpie \<Rightarrow> bool" for p where
  "slice_schedule_step p k (snd (schedule_tell p sender recipient body interval first key k))"
| "slice_schedule_step p k (snd (fire_due_schedules p k))"
| "slice_schedule_step p k (snd (slice_cancel_schedule p schedule requester reason k))"

inductive slice_cancel_step :: "'w peer \<Rightarrow> 'w kelpie \<Rightarrow> 'w kelpie \<Rightarrow> bool" for p where
  "slice_cancel_step p k (snd (slice_cancel p requester ask reason k))"
| "slice_cancel_step p k (snd (record_cancel p requester ask reason k))"
| "slice_cancel_step p k (snd (send_cancellation_prompt p q k))"
| "slice_cancel_step p k (snd (reject_unsent_prompt p q source k))"
| "slice_cancel_step p k (snd (retire_waiter p a k))"
| "slice_cancel_step p k (snd (prepare_retire_waiter p a reason k))"
| "slice_cancel_step p k (snd (sweep_absent_asks p now_ms grace k))"

inductive slice_remind_step :: "'w peer \<Rightarrow> 'w kelpie \<Rightarrow> 'w kelpie \<Rightarrow> bool" for p where
  "slice_remind_step p k (snd (fire_due_reminders p k))"
| "slice_remind_step p k (snd (collect_due_reminders p k))"
| "slice_remind_step p k (snd (reminders_after_snapshot p due boundaries snap k))"
| "slice_remind_step p k (snd (commit_reminder_intent q k))"
| "slice_remind_step p k (snd (complete_reminder p q result k))"
| "slice_remind_step p k (snd (slice_snooze_reminder p requester ask until k))"
| "slice_remind_step p k (snd (slice_increase_reminder_interval p requester ask every k))"
| "slice_remind_step p k (snd (slice_disable_reminder p requester ask k))"

inductive slice_clear_step :: "'w peer \<Rightarrow> 'w kelpie \<Rightarrow> 'w kelpie \<Rightarrow> bool" for p where
  "slice_clear_step p k (snd (slice_clear fuel p recipient inc key k))"
| "slice_clear_step p k (snd (submit_clear p recipient inc key k))"
| "slice_clear_step p k (snd (begin_clear_after_probe p recipient inc key observed k))"
| "slice_clear_step p k (snd (commit_clear_intent p oid inc request k))"
| "slice_clear_step p k (snd (apply_clear_command_result p oid recipient inc pane backend rotation pre result k))"
| "slice_clear_step p k (snd (advance_clear p a k))"
| "slice_clear_step p k (snd (apply_clear_rotation_observation p a result k))"

inductive slice_renewing_step :: "'w peer \<Rightarrow> 'w kelpie \<Rightarrow> 'w kelpie \<Rightarrow> bool" for p where
  "slice_renewing_step p k (snd (slice_renew p requester recipient inc prepare resume on_timeout timeout every scheduled k))"
| "slice_renewing_step p k (snd (slice_cancel_renew p i requester reason k))"
| "slice_renewing_step p k (snd (drive_renews p k))"
| "slice_renewing_step p k (snd (terminate_ended_renews p k))"
| "slice_renewing_step p k (snd (advance_renew p x now_ms k))"
| "slice_renewing_step p k (snd (begin_renew_prepare p x now_ms k))"
| "slice_renewing_step p k (snd (record_renew_clearing x now_ms observed k))"
| "slice_renewing_step p k (snd (apply_renew_attempt_result i request now_ms result k))"
| "slice_renewing_step p k (snd (renew_inject_decision p x now_ms observed k))"
| "slice_renewing_step p k (snd (apply_renew_inject_result x now_ms wr result k))"
| "slice_renewing_step p k (snd (apply_renew_confirm_observation p x now_ms observed k))"
| "slice_renewing_step p k (snd (accrue_occupancy_from_snapshot p snap k))"

inductive slice_adopt_step :: "'w peer \<Rightarrow> 'w kelpie \<Rightarrow> 'w kelpie \<Rightarrow> bool" for p where
  "slice_adopt_step p k (snd (slice_adopt p n k))"
| "slice_adopt_step p k (snd (adopt_after_snapshot p n snap k))"
| "slice_adopt_step p k (snd (submit_adopt_rename_intent p declared k))"
| "slice_adopt_step p k (snd (accept_adopt_confirm p work snap k))"
| "slice_adopt_step p k (snd (apply_adopt_rename_error p declared source k))"
| "slice_adopt_step p k (snd (apply_adopt_confirm_error p declared source k))"
| "slice_adopt_step p k (snd (resolve_or_adopt_pane p pane key k))"
| "slice_adopt_step p k (snd (identity_after_snapshot p pane key snap k))"
| "slice_adopt_step p k (snd (resolve_or_adopt_alias p name key k))"

inductive slice_start_step :: "'w peer \<Rightarrow> 'w kelpie \<Rightarrow> 'w kelpie \<Rightarrow> bool" for p where
  "slice_start_step p k (snd (slice_start fuel p n k))"
| "slice_start_step p k (snd (slice_launch fuel p n k))"
| "slice_start_step p k (snd (submit_start p n k))"
| "slice_start_step p k (snd (declare_start_from_snapshot p n snap k))"
| "slice_start_step p k (snd (commit_start_intent p declared request k))"
| "slice_start_step p k (snd (apply_agent_start_result p n declared deadline busy_deadline attempt_index result k))"
| "slice_start_step p k (snd (continue_busy_start p n declared deadline busy_deadline attempt_index k))"
| "slice_start_step p k (snd (advance_start_ready p n declared deadline k))"
| "slice_start_step p k (snd (apply_start_observation p n declared deadline observed k))"
| "slice_start_step p k (snd (begin_initial_message p n started k))"
| "slice_start_step p k (snd (complete_initial_delivery p q started message result k))"
| "slice_start_step p k (snd (finish_launch p n started k))"
| "slice_start_step p k (snd (note_undelivered_brief p n error k))"

inductive slice_retire_step :: "'w peer \<Rightarrow> 'w kelpie \<Rightarrow> 'w kelpie \<Rightarrow> bool" for p where
  "slice_retire_step p k (snd (slice_retire p inc key close k))"
| "slice_retire_step p k (snd (prepare_retire_close p inc key k))"
| "slice_retire_step p k (snd (retire_after_snapshot p f snap k))"
| "slice_retire_step p k (snd (complete_retire_confirm p work snap k))"
| "slice_retire_step p k (snd (slice_rename p a new_name k))"
| "slice_retire_step p k (snd (begin_rename_after_snapshot f snap k))"
| "slice_retire_step p k (snd (apply_rename_write_error work source k))"
| "slice_retire_step p k (snd (commit_rename_confirm work snap k))"
| "slice_retire_step p k (snd (abandon_rename_before_write work source k))"

inductive slice_recover_step :: "'w peer \<Rightarrow> 'w kelpie \<Rightarrow> 'w kelpie \<Rightarrow> bool" for p where
  "slice_recover_step p k (snd (slice_recover fuel p k))"
| "slice_recover_step p k (snd (recover_with_snapshot p snap k))"
| "slice_recover_step p k (snd (refresh_native_session p inc k))"
| "slice_recover_step p k (snd (refresh_native_session_after_snapshot inc snap k))"
| "slice_recover_step p k (snd (live_agent_status p k))"

text \<open>The daemon also writes the store by itself, claims the operations of its run, and lets time pass.\<close>

inductive slice_step :: "'w peer \<Rightarrow> 'w kelpie \<Rightarrow> 'w kelpie \<Rightarrow> bool" for p where
  "slice_exchange_step p k k' \<Longrightarrow> slice_step p k k'"
| "slice_prompt_step p k k' \<Longrightarrow> slice_step p k k'"
| "slice_schedule_step p k k' \<Longrightarrow> slice_step p k k'"
| "slice_cancel_step p k k' \<Longrightarrow> slice_step p k k'"
| "slice_remind_step p k k' \<Longrightarrow> slice_step p k k'"
| "slice_clear_step p k k' \<Longrightarrow> slice_step p k k'"
| "slice_renewing_step p k k' \<Longrightarrow> slice_step p k k'"
| "slice_adopt_step p k k' \<Longrightarrow> slice_step p k k'"
| "slice_start_step p k k' \<Longrightarrow> slice_step p k k'"
| "slice_retire_step p k k' \<Longrightarrow> slice_step p k k'"
| "slice_recover_step p k k' \<Longrightarrow> slice_step p k k'"
| "store_step (ke_store k) d' \<Longrightarrow> slice_step p k (k\<lparr>ke_store := d'\<rparr>)"
| "slice_step p k (snd (claim_live k))"
| "slice_step p k (k\<lparr>ke_world := w\<rparr>)"

lemma along_snd: "along R m \<Longrightarrow> R k (snd (m k))"
  by (simp add: along_def)

lemma slice_exchange_step_moves: "slice_exchange_step p k k' \<Longrightarrow> moves k k'"
  by (erule slice_exchange_step.cases; hypsubst; rule along_snd; intro along_intro)

lemma slice_prompt_step_moves: "slice_prompt_step p k k' \<Longrightarrow> moves k k'"
  by (erule slice_prompt_step.cases; hypsubst; rule along_snd; intro along_intro)

lemma slice_schedule_step_moves: "slice_schedule_step p k k' \<Longrightarrow> moves k k'"
  by (erule slice_schedule_step.cases; hypsubst; rule along_snd; intro along_intro)

lemma slice_cancel_step_moves: "slice_cancel_step p k k' \<Longrightarrow> moves k k'"
  by (erule slice_cancel_step.cases; hypsubst; rule along_snd; intro along_intro)

lemma slice_remind_step_moves: "slice_remind_step p k k' \<Longrightarrow> moves k k'"
  by (erule slice_remind_step.cases; hypsubst; rule along_snd; intro along_intro)

lemma slice_clear_step_moves: "slice_clear_step p k k' \<Longrightarrow> moves k k'"
  by (erule slice_clear_step.cases; hypsubst; rule along_snd; intro along_intro)

lemma slice_renewing_step_moves: "slice_renewing_step p k k' \<Longrightarrow> moves k k'"
  by (erule slice_renewing_step.cases; hypsubst; rule along_snd; intro along_intro)

lemma slice_adopt_step_moves: "slice_adopt_step p k k' \<Longrightarrow> moves k k'"
  by (erule slice_adopt_step.cases; hypsubst; rule along_snd; intro along_intro)

lemma slice_start_step_moves: "slice_start_step p k k' \<Longrightarrow> moves k k'"
  by (erule slice_start_step.cases; hypsubst; rule along_snd; intro along_intro)

lemma slice_retire_step_moves: "slice_retire_step p k k' \<Longrightarrow> moves k k'"
  by (erule slice_retire_step.cases; hypsubst; rule along_snd; intro along_intro)

lemma slice_recover_step_moves: "slice_recover_step p k k' \<Longrightarrow> moves k k'"
  by (erule slice_recover_step.cases; hypsubst; rule along_snd; intro along_intro)

lemma world_moves: "moves k (k\<lparr>ke_world := w\<rparr>)"
  by (simp add: moves_def)

lemma store_step_moves: "store_step (ke_store k) d' \<Longrightarrow> moves k (k\<lparr>ke_store := d'\<rparr>)"
  by (simp add: moves_def r_into_rtranclp)

lemma claim_moves: "moves k (snd (claim_live k))"
  by (rule along_snd) (rule moved.claim_live_along)

lemma slice_step_moves: "slice_step p k k' \<Longrightarrow> moves k k'"
  by (erule slice_step.cases; hypsubst)
    (erule slice_exchange_step_moves slice_prompt_step_moves slice_schedule_step_moves slice_cancel_step_moves
      slice_remind_step_moves slice_clear_step_moves slice_renewing_step_moves slice_adopt_step_moves
      slice_start_step_moves slice_retire_step_moves slice_recover_step_moves store_step_moves
      | rule claim_moves world_moves)+

end
