(* ===== verification/Seats.thy ===== *)
theory Seats
  imports LiveNames
begin

text \<open>
  The typing of the rows of incarnations: a Ready or retiring incarnation has the observed seat that
  the code reads as text, and a dead one has the instant and the reason of its end. Every step of the
  store keeps it, so no reader of a Ready binding meets a null column.
\<close>

definition row_typed :: "incarnation_row \<Rightarrow> bool" where
  "row_typed i \<longleftrightarrow>
     (in_state i \<in> {IReady, IRetiring} \<longrightarrow> in_observed_pane i \<noteq> None \<and> in_observed_terminal i \<noteq> None)
     \<and> (in_state i \<in> {ILost, IRetired, ISuperseded} \<longrightarrow> in_terminal_at_ms i \<noteq> None \<and> in_terminal_reason i \<noteq> None)"

definition rows_typed :: "incarnation_row list \<Rightarrow> bool" where
  "rows_typed is \<longleftrightarrow> (\<forall>i \<in> set is. row_typed i)"

definition keeps_types :: "db \<Rightarrow> db \<Rightarrow> bool" where
  "keeps_types d d' \<longleftrightarrow> (rows_typed (incarnations d) \<longrightarrow> rows_typed (incarnations d'))"

interpretation types: store_contract incarnations keeps_types
  by unfold_locales (simp_all add: keeps_types_def)

lemma names_types: "names_view d' = names_view d \<Longrightarrow> keeps_types d d'"
  by (simp add: names_view_def types.rel_frame)

lemma names_same_rows: "names_view d' = names_view d \<Longrightarrow> incarnations d' = incarnations d"
  by (simp add: names_view_def)

text \<open>The updates that keep the typing of a row.\<close>

lemma row_typed_update [simp]:
  "row_typed (i\<lparr>in_state := IReady, in_observed_pane := Some p, in_observed_terminal := Some t\<rparr>)"
  "row_typed (i\<lparr>in_state := ISuperseded, in_terminal_at_ms := Some now, in_terminal_reason := Some reason\<rparr>)"
  "row_typed (i\<lparr>in_state := IRetired, in_terminal_at_ms := Some now, in_terminal_reason := Some reason\<rparr>)"
  "row_typed (mark_lost now reason i)"
  "row_typed i \<Longrightarrow> row_typed (i\<lparr>in_observed_pane := Some p, in_observed_terminal := Some t\<rparr>)"
  "st \<in> {IDeclared, IStarting, IUnknown, IFailed} \<Longrightarrow> row_typed (i\<lparr>in_state := st\<rparr>)"
  "row_typed i \<Longrightarrow> in_state i = IReady \<Longrightarrow> row_typed (i\<lparr>in_state := IRetiring\<rparr>)"
  by (simp_all add: row_typed_def mark_lost_def) (auto simp: row_typed_def)

lemma row_typed_other_columns [simp]:
  "row_typed (i\<lparr>in_pending_rename := r\<rparr>) \<longleftrightarrow> row_typed i"
  "row_typed (i\<lparr>in_native_session := s\<rparr>) \<longleftrightarrow> row_typed i"
  "row_typed (i\<lparr>in_native_session := s, in_rotated_at_ms := rot\<rparr>) \<longleftrightarrow> row_typed i"
  "row_typed (i\<lparr>in_id := n\<rparr>) \<longleftrightarrow> row_typed i"
  by (simp_all add: row_typed_def)

lemma new_rows_typed [simp]:
  "row_typed (started_row n a now)"
  "st \<in> {IReady, IDeclared} \<Longrightarrow> row_typed (adopted_row m ev st a now)"
  "row_typed (restored_row t now)"
  by (auto simp: row_typed_def started_row_def adopted_row_def restored_row_def split: prod.splits)

lemma types_by_update:
  assumes "incarnations d' = incarnations (upd_incarnations p f d)"
    and "\<And>i. p i \<Longrightarrow> row_typed i \<Longrightarrow> row_typed (f i)"
  shows "keeps_types d d'"
  using assms(2) by (auto simp: keeps_types_def rows_typed_def assms(1) set_update_rows)

lemma upd_incarnations_types:
  "(\<And>i. p i \<Longrightarrow> row_typed i \<Longrightarrow> row_typed (f i)) \<Longrightarrow> keeps_types d (upd_incarnations p f d)"
  by (rule types_by_update [OF refl])

lemma insert_incarnation_types:
  assumes "insert_incarnation row d = Inr (i, d')" and "row_typed row" shows "keeps_types d d'"
proof -
  have "incarnations d' = incarnations d @ [row\<lparr>in_id := i\<rparr>]"
    using assms(1) by (auto simp: insert_incarnation_def Let_def result_simps)
  then show ?thesis using assms(2) by (auto simp: keeps_types_def rows_typed_def)
qed

lemma notice_types [simp]: "incarnations (insert_restore_notice now body d) = incarnations d"
  by (rule names_same_rows) simp

section \<open>The journal and the life of an incarnation\<close>

lemma begin_attempt_types:
  assumes "begin_attempt now oid inc rq d = Inr (n, d')" shows "keeps_types d d'"
proof (rule types_by_update)
  show "incarnations d' = incarnations (upd_incarnations (\<lambda>i. in_id i = inc \<and> in_state i = IDeclared)
      (\<lambda>i. i\<lparr>in_state := IStarting\<rparr>) d)"
    using assms by (auto simp: begin_attempt_def Let_def result_simps)
qed simp

lemma accept_start_submission_types:
  assumes "accept_start_submission oid inc pane t d = Inr d'" shows "keeps_types d d'"
proof (rule types_by_update)
  show "incarnations d' = incarnations (upd_incarnations (\<lambda>i. in_id i = inc)
      (\<lambda>i. i\<lparr>in_observed_pane := Some pane, in_observed_terminal := Some t\<rparr>) d)"
    using assms by (auto simp: accept_start_submission_def Let_def result_simps)
qed simp

lemma mark_unknown_types:
  assumes "mark_unknown_with_clear_spacing now oid inc ev delay d = Inr d'" shows "keeps_types d d'"
proof (rule types_by_update)
  show "incarnations d' = incarnations (upd_incarnations (\<lambda>i. in_id i = inc \<and> in_state i = IStarting)
      (\<lambda>i. i\<lparr>in_state := IUnknown\<rparr>) d)"
    using assms by (auto simp: mark_unknown_with_clear_spacing_def Let_def result_simps split: option.splits)
qed simp

lemma mark_rejected_types:
  assumes "mark_rejected now oid inc ev out d = Inr d'" shows "keeps_types d d'"
proof (rule types_by_update)
  show "incarnations d' = incarnations (upd_incarnations (\<lambda>i. in_id i = inc \<and> in_state i = IStarting)
      (\<lambda>i. i\<lparr>in_state := IFailed\<rparr>) d)"
    using assms by (auto simp: mark_rejected_def Let_def result_simps)
qed simp

lemma demote_predecessor_types:
  assumes "demote_predecessor now prev inc d = Inr d'" shows "keeps_types d d'"
proof (cases "d' = d")
  case False
  then obtain p reason where "d' = upd_incarnations p (\<lambda>i. i\<lparr>in_state := ISuperseded, in_terminal_at_ms := Some now,
       in_terminal_reason := Some reason\<rparr>) d"
    using assms by (auto simp: demote_predecessor_def Let_def result_simps split: option.splits)
  then show ?thesis using upd_incarnations_types by simp
qed (simp add: types.rel_refl)

lemma accept_start_ready_types:
  assumes "accept_start_ready now oid inc agent prev d = Inr d'" shows "keeps_types d d'"
proof -
  obtain d1 where d': "demote_predecessor now prev inc d1 = Inr d'"
    and d1: "incarnations d1 = incarnations (upd_incarnations (\<lambda>i. in_id i = inc)
      (\<lambda>i. i\<lparr>in_state := IReady, in_observed_pane := Some (ao_pane_id agent),
             in_observed_terminal := Some (ao_terminal_id agent),
             in_native_session := ao_agent_session agent\<rparr>) d)"
    using assms by (auto simp: accept_start_ready_def Let_def result_simps)
  have "keeps_types d d1" using d1 by (rule types_by_update) simp
  then show ?thesis using demote_predecessor_types [OF d'] by (rule types.rel_trans)
qed

lemma accept_adopt_ready_types:
  assumes "accept_adopt_ready now oid inc agent d = Inr d'" shows "keeps_types d d'"
proof (rule types_by_update)
  show "incarnations d' = incarnations (upd_incarnations (\<lambda>i. in_id i = inc)
      (\<lambda>i. i\<lparr>in_state := IReady, in_observed_pane := Some (ao_pane_id agent),
             in_observed_terminal := Some (ao_terminal_id agent),
             in_native_session := (case ao_agent_session agent of
                Some s \<Rightarrow> Some s | None \<Rightarrow> in_native_session i)\<rparr>) d)"
    using assms by (auto simp: accept_adopt_ready_def Let_def result_simps)
qed simp

lemma claim_identity_rows: "claim_identity e name par now d = Inr (a, d') \<Longrightarrow> incarnations d' = incarnations d"
  by (auto simp: claim_identity_def insert_logical_agent_def Let_def result_simps split: option.splits)

lemma insert_operation_rows:
  "insert_operation key kind target intent now d = Inr (oid, d') \<Longrightarrow> incarnations d' = incarnations d"
  by (rule names_same_rows [OF insert_operation_names])

lemma bind_types:
  assumes "claim_identity e name par now d = Inr (a, d1)" and "insert_incarnation row d1 = Inr (inc, d2)"
    and "row_typed row" and "insert_operation key kind inc intent now d2 = Inr (oid, d3)"
  shows "keeps_types d d3"
  using insert_incarnation_types [OF assms(2,3)] claim_identity_rows [OF assms(1)] insert_operation_rows [OF assms(4)]
  by (simp add: keeps_types_def)

lemma declare_start_types: "declare_start now n d = Inr (s, d') \<Longrightarrow> keeps_types d d'"
  by (auto simp: declare_start_def result_simps elim!: bind_types)

lemma insert_adopt_binding_types:
  assumes "insert_adopt_binding now n ev st out r' d = Inr (s, d')" and "st \<in> {IReady, IDeclared}"
  shows "keeps_types d d'"
proof -
  obtain a d1 inc d2 oid d3 where
    c: "claim_identity (ai_logical_agent_id n) (ae_public_name ev) (ai_parent n) now d = Inr (a, d1)"
    and i: "insert_incarnation (adopted_row n ev st a now) d1 = Inr (inc, d2)"
    and op: "insert_operation (ai_idempotency_key n) KAdopt inc (IntentAdopt n (ae_public_name ev)) now d2 = Inr (oid, d3)"
    and d': "incarnations d' = incarnations d3"
    using assms by (auto simp: insert_adopt_binding_def Let_def result_simps)
  have "keeps_types d d3" using c i _ op by (rule bind_types) (use assms(2) in simp)
  then show ?thesis using d' by (rule types.rel_then_frame)
qed

lemma declare_adopt_types:
  "declare_adopt now n ev d = Inr (s, d') \<Longrightarrow> keeps_types d d'"
  "declare_adopt_pending now n ev d = Inr (s, d') \<Longrightarrow> keeps_types d d'"
  by (auto simp: declare_adopt_def declare_adopt_pending_def result_simps elim!: insert_adopt_binding_types)

lemma complete_clear_types:
  assumes "complete_clear now oid inc session settle d = Inr d'" shows "keeps_types d d'"
proof (cases session)
  case None
  with assms show ?thesis
    by (auto simp: complete_clear_def Let_def result_simps intro!: types.rel_frame)
next
  case (Some s)
  show ?thesis
  proof (rule types_by_update)
    show "incarnations d' = incarnations (upd_incarnations (\<lambda>i. in_id i = inc \<and> in_state i = IReady)
        (\<lambda>i. i\<lparr>in_native_session := Some s, in_rotated_at_ms := Some now\<rparr>) d)"
      using assms Some by (auto simp: complete_clear_def Let_def result_simps)
  qed simp
qed

lemma create_clear_types: "create_clear now a inc settle key d = Inr (i, d') \<Longrightarrow> keeps_types d d'"
  by (auto simp: create_clear_def result_simps dest!: insert_operation_rows intro: types.rel_frame)

lemma request_retirement_types:
  assumes "request_retirement now inc key d = Inr (i, d')" shows "keeps_types d d'"
proof (rule types_by_update)
  show "incarnations d' = incarnations (upd_incarnations (\<lambda>i. in_id i = inc \<and> in_state i = IReady)
      (\<lambda>i. i\<lparr>in_state := IRetiring\<rparr>) d)"
    using assms by (auto simp: request_retirement_def Let_def result_simps dest!: insert_operation_rows)
qed simp

lemma rename_types:
  "declare_rename inc name d = Inr d' \<Longrightarrow> keeps_types d d'"
  "commit_rename inc name d = Inr d' \<Longrightarrow> keeps_types d d'"
  "keeps_types d (abandon_rename inc d)"
  by (auto simp: declare_rename_def commit_rename_def abandon_rename_def Let_def result_simps
      intro!: types_by_update [OF _ row_typed_other_columns(1) [THEN iffD2]])

lemma session_types:
  "keeps_types d (snd (fill_observed_native_session inc pane t session d))"
  "replace_observed_native_session inc session d = Inr d' \<Longrightarrow> keeps_types d d'"
  by (auto simp: fill_observed_native_session_def replace_observed_native_session_def result_simps
      intro!: upd_incarnations_types)

section \<open>Recovery\<close>

lemma refresh_session_types: "keeps_types d (snd (refresh_session now snap r d))"
  by (cases "rotated_session snap r")
    (simp_all add: refresh_session_def Let_def types.rel_refl upd_incarnations_types)

lemma learn_session_types: "keeps_types d (snd (learn_missing_native_session inc e d))"
  by (cases "Option.bind e ao_agent_session")
    (simp_all add: learn_missing_native_session_def Let_def types.rel_refl upd_incarnations_types)

lemma finish_pending_rename_types: "keeps_types d (finish_pending_rename inc target d)"
  by (rule types_by_update [where p = "is_incarnation inc" and f = "\<lambda>i. i\<lparr>in_pending_rename := None\<rparr>"])
    (simp_all add: finish_pending_rename_def split: option.splits)

lemma settle_binding_types: "keeps_types d (snd (settle_binding now snap r d))"
  by (simp add: settle_binding_def Let_def finish_pending_rename_types types.rel_refl upd_incarnations_types)

lemma reconcile_binding_types: "keeps_types (snd s) (snd (reconcile_binding now snap r s))"
proof -
  obtain l f n d where s: "s = ((l, f, n), d)" by (metis surj_pair)
  define d1 where "d1 = snd (refresh_session now snap r d)"
  define d2 where "d2 = snd (if rw_session r = None
      then learn_missing_native_session (rw_incarnation r) (exact_live snap r) d1 else (0, d1))"
  have "keeps_types d d1" unfolding d1_def by (rule refresh_session_types)
  moreover have "keeps_types d1 d2" unfolding d2_def by (simp add: learn_session_types types.rel_refl)
  moreover have "keeps_types d2 (snd (settle_binding now snap r d2))" by (rule settle_binding_types)
  moreover have "snd (reconcile_binding now snap r s) = snd (settle_binding now snap r d2)"
    unfolding reconcile_binding_def s d2_def d1_def by (auto simp: Let_def split: prod.splits)
  ultimately show ?thesis using types.rel_trans by (metis s snd_conv)
qed

lemma reconcile_bindings_types: "keeps_types (snd s) (snd (fold (reconcile_binding now snap) rs s))"
proof (induction rs arbitrary: s)
  case (Cons r rs)
  show ?case
    using types.rel_trans [OF reconcile_binding_types [of s now snap r] Cons.IH] by simp
qed (simp add: types.rel_refl)

lemma reconcile_ready_incarnations_types:
  "reconcile_ready_incarnations now snap d = Inr (c, d') \<Longrightarrow> keeps_types d d'"
  using reconcile_bindings_types [of "((0, 0, 0), d)" now snap]
  by (auto simp: reconcile_ready_incarnations_def result_simps prod_eq_iff)

lemma continue_restored_types:
  assumes "continue_restored now d0 found t s = Inr s'" shows "keeps_types (snd s) (snd s')"
proof -
  obtain n d where s: "s = (n, d)" by fastforce
  consider "incarnations (snd s') = incarnations d"
    | inc d1 where "insert_incarnation (restored_row t now) d = Inr (inc, d1)" "incarnations (snd s') = incarnations d1"
    using assms by (auto simp: continue_restored_def s Let_def result_simps split: if_splits)
  then show ?thesis
  proof cases
    case 1
    then show ?thesis by (simp add: s types.rel_frame)
  next
    case 2
    show ?thesis
      using types.rel_then_frame [OF insert_incarnation_types [OF 2(1) new_rows_typed(3)] 2(2)] by (simp add: s)
  qed
qed

lemma continue_all_types:
  "continue_all now d0 found ts s = Inr s' \<Longrightarrow> keeps_types (snd s) (snd s')"
proof (induction ts arbitrary: s)
  case (Cons t ts)
  then obtain s1 where s1: "continue_restored now d0 found t s = Inr s1" "continue_all now d0 found ts s1 = Inr s'"
    by (auto simp: result_simps)
  show ?case by (rule types.rel_trans [OF continue_restored_types [OF s1(1)] Cons.IH [OF s1(2)]])
qed (simp add: types.rel_refl)

lemma match_session_rows:
  "match_session sid now snap d0 x (fs, d) = (fs', d') \<Longrightarrow> incarnations d' = incarnations d"
  by (auto simp: match_session_def Let_def split: list.splits option.splits if_splits)

lemma match_sessions_rows:
  "fold (match_session sid now snap d0) xs (fs, d) = (fs', d') \<Longrightarrow> incarnations d' = incarnations d"
proof (induction xs arbitrary: fs d)
  case (Cons x xs)
  obtain f1 d1 where m: "match_session sid now snap d0 x (fs, d) = (f1, d1)" by (metis surj_pair)
  show ?case using Cons.IH [of f1 d1] Cons.prems match_session_rows [OF m] m by simp
qed simp

lemma continue_restored_occupants_types:
  assumes "continue_restored_occupants sid order now snap d = Inr (n, d')" shows "keeps_types d d'"
proof (cases "last_by_agent sid d = [] \<and> continuable_seat_rows d = []")
  case True
  then show ?thesis using assms by (auto simp: continue_restored_occupants_def types.rel_refl)
next
  case False
  obtain fs d1 where m: "fold (match_session sid now snap d) (order (live_sessions sid snap)) ([], d) = (fs, d1)"
    by (metis surj_pair)
  let ?ts = "fs @ concat (map (match_seat snap d (map restored_agent fs)) (continuable_seat_rows d))"
  have "continue_all now d ?ts ?ts (0, d1) = Inr (n, d')"
    using assms False m by (auto simp: continue_restored_occupants_def Let_def)
  from continue_all_types [OF this] match_sessions_rows [OF m] show ?thesis by (simp add: keeps_types_def)
qed

lemma recovery_step_types: "recovery_step d d' \<Longrightarrow> keeps_types d d'"
proof (induction rule: recovery_step.induct)
  case (recovery_unknown now row d b d')
  then show ?case
    by (auto simp: settle_unknown_start_def Let_def types.rel_refl upd_incarnations_types
        split: prod.splits if_splits intro!: types.rel_then_frame [OF _ notice_types])
next
  case (recovery_released now name snap d r d')
  then show ?case
    by (auto simp: release_absent_alias_binding_def Let_def types.rel_refl upd_incarnations_types
        split: option.splits if_splits)
next
  case (recovery_retired now oid inc pane t snap d b d')
  then show ?case
    by (auto simp: reconcile_retirement_def Let_def result_simps types.rel_refl upd_incarnations_types
        split: if_splits intro!: types_by_update)
next
  case (recovery_clear_failed now oid d b d')
  then show ?case by (auto simp: fail_unattempted_clear_def Let_def intro!: types.rel_frame)
next
  case (recovery_archived now grace d n d')
  then show ?case by (auto simp: archive_dead_identities_def Let_def intro!: types.rel_frame)
qed (auto intro: reconcile_ready_incarnations_types continue_restored_occupants_types)

section \<open>Every step\<close>

lemma waiter_rows: "waiter_step d d' \<Longrightarrow> incarnations d' = incarnations d"
proof (induction rule: waiter_step.induct)
  case (waiter_touch a now d b d')
  then show ?case by (auto simp: touch_waiter_seen_def)
next
  case (waiter_boot now d n d')
  then show ?case by (auto simp: boot_reset_waiter_seen_def)
qed (auto simp: register_socket_waiter_def insert_logical_agent_def end_socket_waiter_with_owing_due_def
    Let_def result_simps split: option.splits
    dest!: retire_asks_cast cast_frames cast_names names_same_rows intro: names_same_rows [OF cast_names])

lemma journal_step_types: "journal_step d d' \<Longrightarrow> keeps_types d d'"
  by (induction rule: journal_step.induct)
    (auto simp: mark_unknown_def mark_clear_unknown_def result_simps
      intro: begin_attempt_types accept_start_submission_types accept_start_ready_types mark_unknown_types
        mark_rejected_types names_types cast_names cast_frames)

lemma lifecycle_step_types: "lifecycle_step d d' \<Longrightarrow> keeps_types d d'"
proof (induction rule: lifecycle_step.induct)
  case (lifecycle_session_filled inc pane t session d b d')
  then show ?case using session_types(1) [of d inc pane t session] by simp
next
  case (lifecycle_notice now body d i d')
  then show ?case by (auto simp: create_operator_notice_def dest: insert_notice_names intro: names_types)
qed (auto intro: declare_start_types declare_adopt_types accept_adopt_ready_types create_clear_types
    complete_clear_types request_retirement_types rename_types session_types)

lemma store_step_types: "store_step d d' \<Longrightarrow> keeps_types d d'"
  by (auto elim!: store_stepE intro: journal_step_types lifecycle_step_types types.rel_frame [OF waiter_rows]
      recovery_step_types names_types cast_names renew_step_names_view message_step_cast settle_step_cast schedule_step_cast
      reminder_step_cast ack_step_cast)

lemma reachable_rows_typed: "reachable d \<Longrightarrow> rows_typed (incarnations d)"
proof (induction rule: reachable.induct)
  case reachable_fresh show ?case by (simp add: rows_typed_def empty_db_def)
next
  case (reachable_step d d')
  then show ?case using store_step_types [of d d'] by (simp add: keeps_types_def)
qed

end
