(* ===== verification/Scripts.thy ===== *)
theory Scripts
  imports SliceLaws Seats
begin

text \<open>
  A peer that answers from a script: its world is a clock and the answers still to come, a request takes
  the next answer, and time passes only in a sleep. It is one concrete instance of the parameter
  \<open>peer\<close>, at which the theorems about the slice are applied.
\<close>

type_synonym script = "nat \<times> (herdr_error + json) list"

definition scripted_agent :: "json \<Rightarrow> string + agent_observation" where
  "scripted_agent v = (case v of
     JArr [JStr pane, JStr terminal, JStr name, JStr kind, JBool ready] \<Rightarrow>
       Inr \<lparr>ao_terminal_id = terminal, ao_pane_id = pane, ao_name = Some name, ao_agent = Some kind,
            ao_interactive_ready = ready, ao_launch_pending = \<not> ready, ao_agent_session = None\<rparr>
   | _ \<Rightarrow> Inl ''agent expected'')"

definition scripted_pane :: "json \<Rightarrow> string + pane_observation" where
  "scripted_pane v = (case v of
     JArr [JStr pane, JStr terminal, JStr cwd] \<Rightarrow>
       Inr \<lparr>po_pane_id = pane, po_terminal_id = terminal, po_cwd = Some cwd\<rparr>
   | _ \<Rightarrow> Inl ''pane expected'')"

definition scripted_snapshot :: "json \<Rightarrow> string + snapshot" where
  "scripted_snapshot v = (case v of
     JArr [JArr panes, JArr occupants] \<Rightarrow>
       rbind (rmap scripted_pane panes) (\<lambda>ps. rbind (rmap scripted_agent occupants) (\<lambda>as.
         Inr \<lparr>sn_protocol = 20, sn_panes = ps, sn_agents = as\<rparr>))
   | _ \<Rightarrow> Inl ''snapshot expected'')"

definition scripted :: "script peer" where
  "scripted = \<lparr>pr_clock = (\<lambda>w. (Inr (int (fst w)), w)), pr_instant = (\<lambda>w. (fst w, w)),
     pr_sleep = (\<lambda>ms w. (fst w + ms, snd w)), pr_connect = (\<lambda>w. (Inr (), w)),
     pr_exchange = (\<lambda>i m params w. case snd w of
        [] \<Rightarrow> (Inl (HMalformed ''end of the script''), w) | answer # rest \<Rightarrow> (answer, (fst w, rest))),
     pr_agent = scripted_agent, pr_snapshot = scripted_snapshot, pr_lifecycle = (\<lambda>v. Inl ''none''),
     pr_session_id = (\<lambda>s. None), pr_order = (\<lambda>xs. xs), pr_text = (\<lambda>e. ''store failure''),
     pr_json = (\<lambda>v. ''{}''), pr_debug = (\<lambda>t. ''None'')\<rparr>"

text \<open>A process on a store, with a clock and a script.\<close>

definition process :: "db \<Rightarrow> nat \<Rightarrow> (herdr_error + json) list \<Rightarrow> script kelpie" where
  "process d t answers = \<lparr>ke_store = d, ke_world = (t, answers), ke_settle_ms = 10, ke_floor = None\<rparr>"

definition agent_answer :: "string \<Rightarrow> string \<Rightarrow> string \<Rightarrow> string \<Rightarrow> bool \<Rightarrow> herdr_error + json" where
  "agent_answer pane terminal name kind ready =
     Inr (JObj [(''agent'', JArr [JStr pane, JStr terminal, JStr name, JStr kind, JBool ready])])"

text \<open>The operator tells the adopted agent something: Herdr answers with its exact runtime, or rejects.\<close>

definition told :: "(herdr_error + json) list \<Rightarrow> (slice_error + nat) \<times> script kelpie" where
  "told answers = (case slice_tell scripted 1 2 1 ''news'' ''tell-1'' None (process run_db2 100 answers) of
     (r, k) \<Rightarrow> (map_sum id (\<lambda>_. 0) r, k))"

end
