(* ===== verification/Verdicts.thy ===== *)
theory Verdicts
  imports Scripts
begin

text \<open>
  What the slice makes of the answers of Herdr: the verdict over the prompt it wrote, and the
  observation that makes a started incarnation Ready.
\<close>

section \<open>The verdict over a written prompt\<close>

text \<open>The outcome of the operation and of its written delivery that an answer stands for.\<close>

definition prompt_verdict :: "herdr_error + agent_observation \<Rightarrow> operation_outcome \<times> delivery_outcome" where
  "prompt_verdict result = (case result of
     Inr agent \<Rightarrow> (OpSucceeded, DAccepted)
   | Inl source \<Rightarrow>
       if post_write_observation source \<noteq> None then (OpSucceeded, DAccepted)
       else if not_found source then (OpFailed, DTargetUnavailable)
       else if is_rejected source then (OpFailed, DRejected)
       else (OpUnknown, DUnknown))"

definition written_to :: "operation_id \<Rightarrow> incarnation_id \<Rightarrow> delivery_row \<Rightarrow> bool" where
  "written_to oid inc y \<longleftrightarrow> dl_operation y = Some oid \<and> dl_incarnation y = Some inc \<and> dl_outcome y = DSubmitted"

definition settled_by ::
  "operation_id \<Rightarrow> incarnation_id \<Rightarrow> int \<Rightarrow> operation_outcome \<times> delivery_outcome \<Rightarrow> db \<Rightarrow> db \<Rightarrow> bool" where
  "settled_by oid inc now v d d' \<longleftrightarrow>
     (\<exists>x \<in> set (operations d). op_id x = oid \<and> op_target x = inc \<and> op_outcome x \<in> {OpPending, OpAccepted}
        \<and> x\<lparr>op_outcome := fst v, op_resolved_at_ms := Some now\<rparr> \<in> set (operations d'))
     \<and> (\<forall>y \<in> set (deliveries d). written_to oid inc y
        \<longrightarrow> y\<lparr>dl_outcome := snd v, dl_resolved_at_ms := Some now\<rparr> \<in> set (deliveries d'))
     \<and> (\<forall>y \<in> set (deliveries d'). \<not> written_to oid inc y)"

lemma updated_member: "x \<in> set xs \<Longrightarrow> p x \<Longrightarrow> f x \<in> set (update_rows p f xs)"
  by (auto simp: set_update_rows)

lemma updated_none: "(\<And>x. p x \<Longrightarrow> \<not> w (f x)) \<Longrightarrow> (\<And>x. w x \<Longrightarrow> p x) \<Longrightarrow> y \<in> set (update_rows p f xs) \<Longrightarrow> \<not> w y"
  by (auto simp: set_update_rows split: if_splits)

lemma updated_all: "y \<in> set (update_rows p f xs) \<Longrightarrow> (\<And>x. p x \<Longrightarrow> Q (f x)) \<Longrightarrow> (\<And>x. \<not> p x \<Longrightarrow> Q x) \<Longrightarrow> Q y"
  by (auto simp: set_update_rows split: if_splits)

text \<open>One row of the operation and the written deliveries take the verdict.\<close>

lemma settled_byI:
  assumes "operations d' = update_rows owns (\<lambda>r. r\<lparr>op_outcome := fst v, op_resolved_at_ms := Some now\<rparr>) (operations d)"
    and "count_rows owns (operations d) = 1"
    and "\<And>r. owns r \<Longrightarrow> op_id r = oid \<and> op_target r = inc \<and> op_outcome r \<in> {OpPending, OpAccepted}"
    and "deliveries d' = update_rows sent (\<lambda>r. r\<lparr>dl_outcome := snd v, dl_resolved_at_ms := Some now\<rparr>) (deliveries d)"
    and "\<And>y. written_to oid inc y \<Longrightarrow> sent y" and "snd v \<noteq> DSubmitted"
  shows "settled_by oid inc now v d d'"
proof -
  obtain x where "x \<in> set (operations d)" "owns x"
    using assms(2) by (auto dest!: count_rows_one_ex)
  then have "x\<lparr>op_outcome := fst v, op_resolved_at_ms := Some now\<rparr> \<in> set (operations d')"
    unfolding assms(1) by (rule updated_member)
  moreover have "\<not> written_to oid inc y" if "y \<in> set (deliveries d')" for y
    using _ assms(5) that [unfolded assms(4)] by (rule updated_none) (simp add: written_to_def assms(6))
  moreover have "y\<lparr>dl_outcome := snd v, dl_resolved_at_ms := Some now\<rparr> \<in> set (deliveries d')"
    if "y \<in> set (deliveries d)" "written_to oid inc y" for y
    unfolding assms(4) using that(1) assms(5) [OF that(2)] by (rule updated_member)
  ultimately show ?thesis using \<open>x \<in> set (operations d)\<close> assms(3) [OF \<open>owns x\<close>] unfolding settled_by_def by blast
qed

lemma accepted_settles:
  assumes "accept_delivery_with_submission now oid inc pane t s d = Inr d'"
  shows "settled_by oid inc now (OpSucceeded, DAccepted) d d'"
proof (rule settled_byI)
  let ?owns = "\<lambda>r. op_id r = oid \<and> op_target r = inc \<and> op_outcome r = OpPending"
  show "operations d' = update_rows ?owns
      (\<lambda>r. r\<lparr>op_outcome := fst (OpSucceeded, DAccepted), op_resolved_at_ms := Some now\<rparr>) (operations d)"
    using assms by (auto simp: accept_delivery_with_submission_def Let_def result_simps resolve_obligation_def
        split: option.splits)
  show "count_rows ?owns (operations d) = 1"
    using assms by (auto simp: accept_delivery_with_submission_def Let_def result_simps)
  show "deliveries d' = update_rows (written_to oid inc)
      (\<lambda>r. r\<lparr>dl_outcome := snd (OpSucceeded, DAccepted), dl_resolved_at_ms := Some now\<rparr>) (deliveries d)"
    using assms by (auto simp: accept_delivery_with_submission_def Let_def result_simps resolve_obligation_def
        written_to_def [abs_def] split: option.splits)
qed simp_all

lemma rejected_settles:
  assumes "mark_rejected now oid inc ev out d = Inr d'" and "out \<noteq> DSubmitted"
  shows "settled_by oid inc now (OpFailed, out) d d'" and "obligations d' = obligations d"
proof -
  let ?owns = "\<lambda>r. op_id r = oid \<and> op_target r = inc \<and> op_outcome r \<in> {OpPending, OpAccepted}"
  let ?sent = "\<lambda>r. dl_operation r = Some oid \<and> dl_outcome r \<in> {DPending, DSubmitted, DQueued}"
  show "settled_by oid inc now (OpFailed, out) d d'"
    by (rule settled_byI [where owns = ?owns and sent = ?sent])
      (use assms in \<open>auto simp: mark_rejected_def Let_def result_simps written_to_def\<close>)
  show "obligations d' = obligations d"
    using assms by (auto simp: mark_rejected_def Let_def result_simps)
qed

lemma unknown_settles:
  assumes "mark_unknown now oid inc ev d = Inr d'"
  shows "settled_by oid inc now (OpUnknown, DUnknown) d d'" and "obligations d' = obligations d"
proof -
  let ?owns = "\<lambda>r. op_id r = oid \<and> op_target r = inc \<and> op_outcome r \<in> {OpPending, OpAccepted}"
  let ?sent = "\<lambda>r. dl_operation r = Some oid \<and> dl_outcome r \<in> {DPending, DSubmitted, DAccepted, DQueued}"
  show "settled_by oid inc now (OpUnknown, DUnknown) d d'"
    by (rule settled_byI [where owns = ?owns and sent = ?sent])
      (use assms in \<open>auto simp: mark_unknown_def mark_unknown_with_clear_spacing_def Let_def result_simps written_to_def\<close>)
  show "obligations d' = obligations d"
    using assms by (auto simp: mark_unknown_def mark_unknown_with_clear_spacing_def Let_def result_simps)
qed

section \<open>Acts that stamp a transaction\<close>

lemma map_sum_eq_Inl: "map_sum f g r = Inl y \<longleftrightarrow> (\<exists>x. r = Inl x \<and> y = f x)"
  by (cases r) auto

lemma commit_now_cases:
  assumes "sl_commit_now p f k = (r, k')"
  obtains e where "r = Inl (SStore e)" "ke_store k' = ke_store k"
    | now d' where "f now (ke_store k) = Inr d'" "r = Inr ()" "ke_store k' = d'"
  using assms
  by (auto simp: sl_commit_now_def sl_clock_def sl_commit_def act_commit_def act_transact_def store_clock_ms_def
      act_world_def act_simps map_sum_eq_Inr map_sum_eq_Inl split: prod.splits sum.splits)

lemma notice_store:
  assumes "sl_notice p body k = (r, k')"
  shows "operations (ke_store k') = operations (ke_store k)" "deliveries (ke_store k') = deliveries (ke_store k)"
    and "r = Inr () \<or> (\<exists>e. r = Inl (SStore e))"
  using assms
  by (auto simp: sl_notice_def sl_clock_def sl_write_def act_write_def act_transact_def store_clock_ms_def
      act_world_def act_simps create_operator_notice_def insert_notice_def Let_def map_sum_eq_Inl split: prod.splits sum.splits)

lemma settled_by_frame:
  "operations d2 = operations d1 \<Longrightarrow> deliveries d2 = deliveries d1 \<Longrightarrow> settled_by oid inc now v d d1
     \<Longrightarrow> settled_by oid inc now v d d2"
  by (simp add: settled_by_def)

lemma read_binding_act: "sl_read f k = (map_sum SStore id (f (ke_store k)), k)"
  by (simp add: sl_read_def act_read_def act_simps)

lemma not_found_rejected: "not_found source \<Longrightarrow> is_rejected source"
  by (simp add: not_found_def is_rejected_def split: herdr_error.splits)

lemma accept_now_cases:
  assumes "sl_commit_now p (\<lambda>now. accept_delivery_with_submission now oid inc pane t s) k = (r, k')"
    and "\<forall>e. r \<noteq> Inl (SStore e)"
  shows "r = Inr ()" and "\<exists>now. settled_by oid inc now (OpSucceeded, DAccepted) (ke_store k) (ke_store k')"
  using assms by (auto elim!: commit_now_cases dest: accepted_settles)

text \<open>A prompt written, or written and unanswered in time, is accepted.\<close>

lemma accepted_prompt:
  assumes "apply_prompt_outcome p q result k = (r, k')" and "prompt_verdict result = (OpSucceeded, DAccepted)"
    and "\<forall>e. r \<noteq> Inl (SStore e)"
  shows "r = Inr ()
     \<and> (\<exists>now. settled_by (pp_operation q) (pp_incarnation q) now (OpSucceeded, DAccepted) (ke_store k) (ke_store k'))"
proof (cases result)
  case (Inr agent)
  with assms accept_now_cases show ?thesis by (auto simp: apply_prompt_outcome_def)
next
  case (Inl source)
  then obtain obs where obs: "post_write_observation source = Some obs"
    using assms(2) by (auto simp: prompt_verdict_def split: if_splits)
  then obtain binding where b: "ready_binding (pp_incarnation q) (ke_store k) = Inr binding"
    using assms(1,3) Inl
    by (cases "ready_binding (pp_incarnation q) (ke_store k)")
      (auto simp: apply_prompt_outcome_def apply_prompt_error_def Let_def act_simps read_binding_act)
  obtain r1 k1 where c: "sl_commit_now p (\<lambda>now. accept_delivery_with_submission now (pp_operation q) (pp_incarnation q)
      (rb_pane binding) (rb_terminal binding)
      (Some (pr_json p (submission_evidence obs (Some (herdr_error_text source)))))) k = (r1, k1)"
    by (metis surj_pair)
  then have run: "(case r1 of Inl e \<Rightarrow> (Inl e, k1) | Inr u \<Rightarrow>
      (if obs = Stalled then sl_notice p (''prompt '' @ pp_request q @ '' to incarnation ''
         @ id_display (pp_incarnation q) @ '' on pane ''
              @ pp_pane q @ '' was written but produced no observed agent activity ('' @ herdr_error_text source
              @ ''); nothing was resent and any obligation stays open'') else act_return ()) k1) = (r, k')"
    using assms(1) Inl obs b
    by (auto simp: apply_prompt_outcome_def apply_prompt_error_def Let_def act_simps read_binding_act split: sum.splits)
  then have r1: "\<forall>e. r1 \<noteq> Inl (SStore e)" using assms(3) by (auto split: sum.splits)
  from accept_now_cases [OF c r1] obtain now where
    "r1 = Inr ()" "settled_by (pp_operation q) (pp_incarnation q) now (OpSucceeded, DAccepted) (ke_store k) (ke_store k1)"
    by blast
  moreover from this(1) run assms(3) have "r = Inr () \<and> operations (ke_store k') = operations (ke_store k1)
      \<and> deliveries (ke_store k') = deliveries (ke_store k1)"
    by (auto simp: act_simps split: if_splits dest: notice_store)
  ultimately show ?thesis using settled_by_frame by blast
qed

lemma rejected_prompt:
  assumes "apply_prompt_outcome p q (Inl source) k = (r, k')" and "post_write_observation source = None"
    and "is_rejected source" and "\<forall>e. r \<noteq> Inl (SStore e)"
  shows "r = Inl (SHerdr source) \<and> obligations (ke_store k') = obligations (ke_store k)
     \<and> (\<exists>now. settled_by (pp_operation q) (pp_incarnation q) now
          (OpFailed, if not_found source then DTargetUnavailable else DRejected) (ke_store k) (ke_store k'))"
proof -
  obtain r1 k1 where c: "sl_commit_now p (\<lambda>now. mark_rejected now (pp_operation q) (pp_incarnation q)
      (herdr_error_text source) (if not_found source then DTargetUnavailable else DRejected)) k = (r1, k1)"
    by (metis surj_pair)
  then have run: "(case r1 of Inl e \<Rightarrow> (Inl e, k1) | Inr u \<Rightarrow> (Inl (SHerdr source), k1)) = (r, k')"
    using assms(1-3) by (auto simp: apply_prompt_outcome_def apply_prompt_error_def Let_def act_simps split: sum.splits)
  from c show ?thesis
    by (rule commit_now_cases) (use run assms(4) in \<open>auto dest: rejected_settles split: if_splits\<close>)
qed

lemma unknown_prompt:
  assumes "apply_prompt_outcome p q (Inl source) k = (r, k')" and "post_write_observation source = None"
    and "\<not> is_rejected source" and "\<forall>e. r \<noteq> Inl (SStore e)"
  shows "r = Inl (UnknownOutcome (id_display (pp_operation q)) source)
     \<and> obligations (ke_store k') = obligations (ke_store k)
     \<and> (\<exists>now. settled_by (pp_operation q) (pp_incarnation q) now (OpUnknown, DUnknown) (ke_store k) (ke_store k'))"
proof -
  obtain r1 k1 where c: "sl_commit_now p (\<lambda>now. mark_unknown now (pp_operation q) (pp_incarnation q)
      (herdr_error_text source)) k = (r1, k1)"
    by (metis surj_pair)
  then have run: "(case r1 of Inl e \<Rightarrow> (Inl e, k1)
      | Inr u \<Rightarrow> (Inl (UnknownOutcome (id_display (pp_operation q)) source), k1)) = (r, k')"
    using assms(1-3) by (auto simp: apply_prompt_outcome_def apply_prompt_error_def Let_def act_simps split: sum.splits)
  from c show ?thesis
    by (rule commit_now_cases) (use run assms(4) in \<open>auto dest: unknown_settles\<close>)
qed

section \<open>The two laws\<close>

text \<open>
  C31: the answer of Herdr decides the prompt. When no store failure cuts the completion of a delivery short,
  the operation was open and takes the outcome the answer stands for, each delivery of it that was
  written takes the matching outcome and none stays submitted; the caller gets success exactly for an
  accepted prompt, the rejection for a rejected one and an unknown outcome otherwise; and a prompt that was not
  accepted leaves every obligation as it was.
\<close>

theorem answer_decides_prompt:
  assumes "complete_prompt_delivery p q result k = (r, k')" and "\<forall>e. r \<noteq> Inl (SStore e)"
  shows "(\<exists>now. settled_by (pp_operation q) (pp_incarnation q) now (prompt_verdict result) (ke_store k) (ke_store k'))
     \<and> (r = Inr () \<longleftrightarrow> fst (prompt_verdict result) = OpSucceeded)
     \<and> (fst (prompt_verdict result) = OpFailed \<longrightarrow> (\<exists>source. result = Inl source \<and> r = Inl (SHerdr source)))
     \<and> (fst (prompt_verdict result) = OpUnknown
          \<longrightarrow> (\<exists>source. result = Inl source \<and> r = Inl (UnknownOutcome (id_display (pp_operation q)) source)))
     \<and> (fst (prompt_verdict result) \<noteq> OpSucceeded \<longrightarrow> obligations (ke_store k') = obligations (ke_store k))"
proof (cases "prompt_verdict result = (OpSucceeded, DAccepted)")
  case True
  with accepted_prompt [OF assms(1) [unfolded complete_prompt_delivery_def] True assms(2)] show ?thesis by auto
next
  case False
  then obtain source where s: "result = Inl source" "post_write_observation source = None"
    by (cases result) (auto simp: prompt_verdict_def split: if_splits)
  show ?thesis
  proof (cases "is_rejected source")
    case True
    then have "prompt_verdict result = (OpFailed, if not_found source then DTargetUnavailable else DRejected)"
      using s by (simp add: prompt_verdict_def)
    with rejected_prompt [OF _ s(2) True assms(2)] assms(1) s(1) show ?thesis
      unfolding complete_prompt_delivery_def by auto
  next
    case False
    then have "prompt_verdict result = (OpUnknown, DUnknown)"
      using s not_found_rejected by (auto simp: prompt_verdict_def)
    with unknown_prompt [OF _ s(2) False assms(2)] assms(1) s(1) show ?thesis
      unfolding complete_prompt_delivery_def by auto
  qed
qed

text \<open>Herdr answers a tell of the adopted agent with its exact runtime; or the agent is gone.\<close>

definition tell_prompt :: prepared_prompt where
  "tell_prompt = \<lparr>pp_operation = 2, pp_incarnation = 1, pp_pane = ''p1'', pp_envelope = ''news'', pp_request = ''r'',
     pp_queued = False\<rparr>"

definition written_tell :: "script kelpie" where
  "written_tell = snd (act_bind (record_tell scripted 1 2 1 ''news'' ''tell-1'' None)
     (\<lambda>_. commit_prompt_intent scripted tell_prompt) (process run_db2 100 []))"

definition gone :: herdr_error where
  "gone = HRejected ''agent_not_found'' ''no agent''"

definition undelivered_tell :: "(slice_error + unit) \<times> script kelpie" where
  "undelivered_tell = complete_prompt_delivery scripted tell_prompt (Inl gone) written_tell"

lemma undelivered_tell_result: "fst undelivered_tell = Inl (SHerdr gone)"
  by code_simp

theorem answer_decides_prompt_witness:
  "\<exists>now. settled_by 2 1 now (OpFailed, DTargetUnavailable) (ke_store written_tell) (ke_store (snd undelivered_tell))"
proof -
  have v: "prompt_verdict (Inl gone) = (OpFailed, DTargetUnavailable)" by code_simp
  have "complete_prompt_delivery scripted tell_prompt (Inl gone) written_tell
      = (Inl (SHerdr gone), snd undelivered_tell)"
    using undelivered_tell_result by (simp add: undelivered_tell_def prod_eq_iff)
  from answer_decides_prompt [OF this] show ?thesis unfolding v by (simp add: tell_prompt_def)
qed

section \<open>The observation that makes a start Ready\<close>

text \<open>What a store holds of a start that was proven Ready.\<close>

definition proven_start :: "declared_start \<Rightarrow> incarnation_id option \<Rightarrow> db \<Rightarrow> bool" where
  "proven_start s supersedes d \<longleftrightarrow>
     (\<exists>i \<in> set (incarnations d). \<exists>l \<in> set (agents d). \<exists>agent.
        in_id i = de_incarnation s \<and> in_state i = IReady \<and> la_id l = in_agent i \<and> exact_ready i l agent
        \<and> in_observed_pane i = Some (ao_pane_id agent) \<and> in_observed_terminal i = Some (ao_terminal_id agent)
        \<and> (\<forall>old. supersedes = Some old \<longrightarrow>
             (\<forall>j \<in> set (incarnations d). in_id j = old \<and> in_agent j = in_agent i \<longrightarrow> in_state j \<noteq> IReady)))
     \<and> (\<exists>x \<in> set (operations d). op_id x = de_operation s \<and> op_outcome x = OpSucceeded)"

lemma find_row_mem: "find_row p xs = Some x \<Longrightarrow> x \<in> set xs \<and> p x"
  by (rule find_row_Some)

lemma demoted_rows:
  assumes "demote_predecessor now supersedes inc d = Inr d'" and "supersedes \<noteq> Some inc"
    and i: "find_row (\<lambda>i. in_id i = inc) (incarnations d) = Some i"
  shows "i \<in> set (incarnations d')" and "agents d' = agents d" and "operations d' = operations d"
    and "\<And>old j. supersedes = Some old \<Longrightarrow> j \<in> set (incarnations d') \<Longrightarrow> in_id j = old \<Longrightarrow> in_agent j = in_agent i
       \<Longrightarrow> in_state j \<noteq> IReady"
proof -
  note mem = find_row_mem [OF i]
  show "i \<in> set (incarnations d')"
  proof (cases supersedes)
    case (Some old)
    with assms mem show ?thesis by (auto simp: demote_predecessor_def Let_def result_simps set_update_rows)
  qed (use assms mem in \<open>simp add: demote_predecessor_def\<close>)
  show "agents d' = agents d" "operations d' = operations d"
    using assms(1) by (auto simp: demote_predecessor_def Let_def result_simps split: option.splits)
  show "in_state j \<noteq> IReady"
    if "supersedes = Some old" "j \<in> set (incarnations d')" "in_id j = old" "in_agent j = in_agent i" for old j
  proof -
    note j = that
    have "incarnations d' = update_rows (\<lambda>j. in_id j = old \<and> in_state j = IReady \<and> in_agent j = in_agent i)
        (\<lambda>i. i\<lparr>in_state := ISuperseded, in_terminal_at_ms := Some now,
           in_terminal_reason := Some ''superseded by a handoff to a new incarnation''\<rparr>) (incarnations d)"
      using assms(1) that(1) i by (auto simp: demote_predecessor_def Let_def result_simps)
    note rows = j(2) [unfolded this]
    have "in_id j = old \<and> in_agent j = in_agent i \<longrightarrow> in_state j \<noteq> IReady"
      by (rule updated_all [OF rows]) auto
    with j(3,4) show ?thesis by simp
  qed
qed

lemma ready_proven:
  assumes "accept_start_ready now (de_operation s) (de_incarnation s) agent supersedes d = Inr d'"
    and "supersedes \<noteq> Some (de_incarnation s)" and "distinct (map in_id (incarnations d))"
  shows "proven_start s supersedes d'"
proof -
  define ready where "ready i = i\<lparr>in_state := IReady, in_observed_pane := Some (ao_pane_id agent),
      in_observed_terminal := Some (ao_terminal_id agent), in_native_session := ao_agent_session agent\<rparr>"
    for i :: incarnation_row
  define owns where "owns r \<longleftrightarrow> op_id r = de_operation s \<and> op_target r = de_incarnation s
      \<and> (op_outcome r = OpPending \<or> op_outcome r = OpAccepted)"
    for r :: operation_row
  define d1 where "d1 = upd_attempts (latest_attempt d (de_operation s))
        (\<lambda>a. a\<lparr>at_phase := AResponseCommitted, at_resolved_at_ms := Some now\<rparr>)
      (upd_incarnations (\<lambda>i. in_id i = de_incarnation s) ready
      (upd_operations owns (\<lambda>r. r\<lparr>op_outcome := OpSucceeded, op_resolved_at_ms := Some now\<rparr>) d))"
  then have d1: "incarnations d1 = update_rows (\<lambda>i. in_id i = de_incarnation s) ready (incarnations d)"
      "agents d1 = agents d"
      "operations d1 = update_rows owns (\<lambda>r. r\<lparr>op_outcome := OpSucceeded, op_resolved_at_ms := Some now\<rparr>) (operations d)"
    by simp_all
  obtain i l where i: "find_row (\<lambda>i. in_id i = de_incarnation s \<and> in_state i = IStarting) (incarnations d) = Some i"
    and l: "find_agent d (in_agent i) = Some l" and exact: "exact_ready i l agent"
    and count: "count_rows owns (operations d) = Suc 0"
    and demote: "demote_predecessor now supersedes (de_incarnation s) d1 = Inr d'"
    using assms(1)
    by (auto simp: accept_start_ready_def Let_def result_simps d1_def ready_def [abs_def] owns_def [abs_def])
  have mem: "i \<in> set (incarnations d)" "in_id i = de_incarnation s" using find_row_mem [OF i] by auto
  have "find_row (\<lambda>j. in_id j = de_incarnation s) (incarnations d1) = Some (ready i)"
  proof (rule find_row_unique [of in_id])
    have "map in_id (incarnations d1) = map in_id (incarnations d)"
      unfolding d1 by (rule map_update_rows_key) (simp add: ready_def)
    then show "distinct (map in_id (incarnations d1))" using assms(3) by simp
    show "ready i \<in> set (incarnations d1)" unfolding d1 using mem by (intro updated_member)
    show "in_id (ready i) = de_incarnation s" using mem by (simp add: ready_def)
  qed (simp add: ready_def mem)
  note demoted = demoted_rows [OF demote assms(2) this]
  have "l \<in> set (agents d')" "la_id l = in_agent (ready i)"
    using find_row_mem l [unfolded find_agent_def] demoted(2) d1(2) by (fastforce simp: ready_def)+
  moreover have "exact_ready (ready i) l agent" using exact by (simp add: exact_ready_def ready_def)
  moreover obtain x where "x \<in> set (operations d)" "owns x" using count_rows_one_ex [OF count] by blast
  then have "x\<lparr>op_outcome := OpSucceeded, op_resolved_at_ms := Some now\<rparr> \<in> set (operations d')"
    "op_id (x\<lparr>op_outcome := OpSucceeded, op_resolved_at_ms := Some now\<rparr>) = de_operation s"
    unfolding demoted(3) d1(3) by (auto intro!: updated_member simp: owns_def)
  ultimately show ?thesis
    using demoted(1) demoted(4) mem(2) unfolding proven_start_def
    by (intro conjI bexI [of _ "ready i"] bexI [of _ l] exI [of _ agent]
        bexI [of _ "x\<lparr>op_outcome := OpSucceeded, op_resolved_at_ms := Some now\<rparr>"]) (auto simp: ready_def)
qed

text \<open>A loop and the start end Ready only through such an observation.\<close>

lemma act_bind_Inr: "act_bind m f k = (Inr x, k') \<longleftrightarrow> (\<exists>y k1. m k = (Inr y, k1) \<and> f y k1 = (Inr x, k'))"
  by (auto simp: act_bind_def split: prod.splits sum.splits)

lemma act_return_Inr: "act_return y k = (Inr x, k') \<longleftrightarrow> y = x \<and> k' = k"
  by (auto simp: act_return_def)

lemma act_fail_Inr: "act_fail e k \<noteq> (Inr x, k')"
  by (simp add: act_fail_def)

lemma act_match_eq: "act_match m f k = (x, k') \<longleftrightarrow> (\<exists>r k1. m k = (r, k1) \<and> f r k1 = (x, k'))"
  by (auto simp: act_match_def split: prod.splits)

lemmas act_success = act_bind_Inr act_return_Inr act_fail_Inr

lemma moves_reachable: "along moves m \<Longrightarrow> m k = (r, k') \<Longrightarrow> reachable (ke_store k) \<Longrightarrow> reachable (ke_store k')"
  by (auto simp: along_def moves_def intro: reachable_steps dest!: spec [of _ k])

lemma act_loop_Some:
  assumes "along moves m"
  shows "act_loop n m k = (Inr (Some x), k') \<Longrightarrow> reachable (ke_store k)
     \<Longrightarrow> \<exists>k1. reachable (ke_store k1) \<and> m k1 = (Inr (Some x), k')"
  by (induction n arbitrary: k) (auto simp: act_success split: option.splits dest: moves_reachable [OF assms])

definition observed_ready :: "'w peer \<Rightarrow> start_intent \<Rightarrow> declared_start \<Rightarrow> 'w kelpie \<Rightarrow> bool" where
  "observed_ready p n s k' \<longleftrightarrow> (\<exists>declared deadline observed k1. reachable (ke_store k1)
     \<and> apply_start_observation p n declared deadline observed k1 = (Inr (Some s), k'))"

lemma advance_ready:
  assumes "advance_start_ready p n declared deadline k = (Inr (Some s), k')" and "reachable (ke_store k)"
  shows "observed_ready p n s k'"
proof -
  obtain r k1 where "blocking_agent p (''kelpie:start-ready:'' @ id_display (de_operation declared)) (si_pane_id n) k = (r, k1)"
    by (metis surj_pair)
  with assms moves_reachable [OF moved.blocking_agent_along this] show ?thesis
    by (auto simp: advance_start_ready_def observed_ready_def act_simps)
qed

lemma wait_ready:
  assumes "wait_for_start_ready fuel p n declared deadline k = (Inr (Some s), k')" and "reachable (ke_store k)"
  shows "observed_ready p n s k'"
proof -
  have "along moves (act_bind (advance_start_ready p n declared deadline) (\<lambda>r. case r of
       Some ready \<Rightarrow> act_return (Some ready)
     | None \<Rightarrow> act_bind (instant_now p) (\<lambda>now.
         act_bind (act_sleep p (min START_READY_POLL (deadline - now))) (\<lambda>_. act_return None))))"
    by (intro along_intro)
  from act_loop_Some [OF this] assms show ?thesis
    unfolding wait_for_start_ready_def by (fastforce simp: act_success split: option.splits intro: advance_ready)
qed

lemma start_loop_ready:
  "start_loop fuel p n submit k = (Inr (Some s), k') \<Longrightarrow> reachable (ke_store k) \<Longrightarrow> observed_ready p n s k'"
proof (induction fuel p n submit arbitrary: k rule: start_loop.induct)
  case (3 fuel p n declared deadline busy_deadline not_before attempt_index)
  from "3.prems"(1) obtain now k1 k2 submit k3 where
    steps: "instant_now p k = (Inr now :: slice_error + nat, k1)"
      "(if now < not_before then act_sleep p (not_before - now) else act_return ()) k1 = (Inr () :: slice_error + unit, k2)"
      "continue_busy_start p n declared deadline busy_deadline attempt_index k2 = (Inr submit, k3)"
      "start_loop fuel p n submit k3 = (Inr (Some s), k')"
    by (auto simp: act_success)
  have "reachable (ke_store k1)" by (rule moves_reachable [OF moved.world(6) steps(1) "3.prems"(2)])
  moreover have "along moves (if now < not_before then act_sleep p (not_before - now) else act_return () :: ('a, unit) slice)"
    by (intro along_intro)
  ultimately have "reachable (ke_store k2)" using steps(2) by (blast intro: moves_reachable)
  then have "reachable (ke_store k3)" by (rule moves_reachable [OF moved.continue_busy_start_along steps(3)])
  then show ?case using "3.IH" steps(4) by blast
qed (auto simp: act_success intro: wait_ready)

lemma observation_Some:
  assumes "apply_start_observation p n declared deadline observed k1 = (Inr (Some s), k')"
  shows "\<exists>now agent. s = declared
     \<and> accept_start_ready now (de_operation s) (de_incarnation s) agent (si_supersedes n) (ke_store k1) = Inr (ke_store k')"
proof -
  obtain agent where "sl_commit_now p (\<lambda>now. accept_start_ready now (de_operation declared) (de_incarnation declared)
      agent (si_supersedes n)) k1 = (Inr (), k') \<and> s = declared"
    using assms by (auto simp: apply_start_observation_def Let_def act_success split: sum.splits start_readiness.splits
        if_splits)
  then show ?thesis by (auto elim!: commit_now_cases)
qed


text \<open>A start into a free pane: its first observation shows nothing ready, the second the runtime.\<close>

definition run_start :: start_intent where
  "run_start = \<lparr>si_public_name = ''builder'', si_logical_agent_id = None, si_parent = Parentless,
     si_herdr_session = ''main'', si_pane_id = ''p2'', si_expected_terminal_id = ''t2'', si_backend_kind = ''codex'',
     si_backend_args = [], si_initial_message = \<lparr>im_sender = None, im_kind = InitialTell, im_body = ''go'',
       im_reply_delivery = Inject\<rparr>, si_working_directory = ''/w'', si_idempotency_key = ''start-1'',
     si_readiness_timeout_ms = 1000, si_keep_open = False, si_requested_model = None, si_requested_provider = None,
     si_requested_effort = None, si_reply_delivery = Inject, si_supersedes = None\<rparr>"

definition start_answers :: "(herdr_error + json) list" where
  "start_answers =
     [Inr (JObj [(''protocol'', JInt 20)]),
      Inr (JObj [(''snapshot'', JArr [JArr [JArr [JStr ''p2'', JStr ''t2'', JStr ''/w'']], JArr []])]),
      agent_answer ''p2'' ''t2'' ''builder'' ''codex'' False,
      agent_answer ''p2'' ''t2'' ''builder'' ''codex'' False,
      agent_answer ''p2'' ''t2'' ''builder'' ''codex'' True]"

definition run_started :: "(slice_error + declared_start option) \<times> script kelpie" where
  "run_started = slice_start 3 scripted run_start (process run_db2 100 start_answers)"

lemma run_started_ready:
  "fst run_started = Inr (Some \<lparr>de_agent = 3, de_incarnation = 2, de_operation = 2\<rparr>)"
  by code_simp


end
