(* ===== verification/SliceTime.thy ===== *)
theory SliceTime
  imports Scripts Verdicts
begin

text \<open>
  The waiting loops of the slice end. The monotonic clock of the peer never goes back and a sleep lasts at
  least as long as it was asked to; then the fuel a loop needs is bounded by the time the code itself
  allows it.
\<close>

definition steady :: "'w peer \<Rightarrow> ('w \<Rightarrow> nat) \<Rightarrow> bool" where
  "steady p at \<longleftrightarrow>
     (\<forall>w. at w \<le> fst (pr_instant p w) \<and> fst (pr_instant p w) \<le> at (snd (pr_instant p w)))
     \<and> (\<forall>w. at w \<le> at (snd (pr_clock p w))) \<and> (\<forall>ms w. at w + ms \<le> at (pr_sleep p ms w))
     \<and> (\<forall>w. at w \<le> at (snd (pr_connect p w)))
     \<and> (\<forall>i m params w. at w \<le> at (snd (pr_exchange p i m params w)))"

definition later :: "('w \<Rightarrow> nat) \<Rightarrow> 'w kelpie \<Rightarrow> 'w kelpie \<Rightarrow> bool" where
  "later at k k' \<longleftrightarrow> at (ke_world k) \<le> at (ke_world k')"

lemma steadyD:
  assumes "steady p at"
  shows "at w \<le> at (snd (pr_clock p w))" "at w \<le> at (snd (pr_instant p w))" "at w \<le> at (pr_sleep p ms w)"
    "at w \<le> at (snd (pr_connect p w))" "at w \<le> at (snd (pr_exchange p i m params w))"
proof -
  have sleep: "at w + ms \<le> at (pr_sleep p ms w)" and instant: "at w \<le> fst (pr_instant p w)"
    "fst (pr_instant p w) \<le> at (snd (pr_instant p w))"
    using assms unfolding steady_def by blast+
  show "at w \<le> at (pr_sleep p ms w)" using sleep by simp
  show "at w \<le> at (snd (pr_instant p w))" using instant by (rule order_trans)
qed (use assms in \<open>auto simp: steady_def\<close>)

lemma steady_interaction: "steady p at \<Longrightarrow> interaction (later at) p"
  by unfold_locales (auto simp: later_def intro: steadyD)

lemma later_snd: "along (later at) m \<Longrightarrow> m k = (r, k') \<Longrightarrow> at (ke_world k) \<le> at (ke_world k')"
  by (metis along_def later_def snd_conv)

lemma instant_result:
  assumes "steady p at" and "instant_now p k = (r, k')"
  obtains now where "r = Inr now" "at (ke_world k) \<le> now" "now \<le> at (ke_world k')"
proof -
  have "at (ke_world k) \<le> fst (pr_instant p (ke_world k)) \<and> fst (pr_instant p (ke_world k)) \<le> at (snd (pr_instant p (ke_world k)))"
    using assms(1) unfolding steady_def by blast
  moreover have "r = Inr (fst (pr_instant p (ke_world k)))" "ke_world k' = snd (pr_instant p (ke_world k))"
    using assms(2) by (auto simp: instant_now_def act_world_def split: prod.splits)
  ultimately show thesis using that by simp
qed

lemma sleep_result:
  assumes "steady p at" and "act_sleep p ms k = (r, k')"
  shows "r = Inr ()" and "at (ke_world k) + ms \<le> at (ke_world k')"
proof -
  show "r = Inr ()" using assms(2) by (auto simp: act_sleep_def act_world_def)
  have "at (ke_world k) + ms \<le> at (pr_sleep p ms (ke_world k))" using assms(1) unfolding steady_def by blast
  then show "at (ke_world k) + ms \<le> at (ke_world k')" using assms(2) by (auto simp: act_sleep_def act_world_def)
qed

text \<open>A loop whose every pass that goes on lasts at least one unit and starts before the deadline ends.\<close>

lemma act_loop_returns:
  assumes pass: "\<And>k k'. m k = (Inr None, k') \<Longrightarrow> at (ke_world k) < deadline \<and> at (ke_world k) < at (ke_world k')"
  shows "deadline - at (ke_world k) < fuel \<Longrightarrow> act_loop fuel m k = (r, k') \<Longrightarrow> r \<noteq> Inr None"
proof (induction fuel arbitrary: k)
  case (Suc fuel)
  obtain r1 k1 where m: "m k = (r1, k1)" by fastforce
  show ?case
  proof (cases "r1 = Inr None")
    case True
    then have step: "at (ke_world k) < deadline" "at (ke_world k) < at (ke_world k1)" using pass m by auto
    have "act_loop fuel m k1 = (r, k')" using Suc.prems(2) True m by (simp add: act_simps)
    moreover have "deadline - at (ke_world k1) < fuel" using Suc.prems(1) step by linarith
    ultimately show ?thesis using Suc.IH by blast
  next
    case False
    then show ?thesis using Suc.prems(2) m by (auto simp: act_simps split: sum.splits option.splits)
  qed
qed simp

section \<open>Starts\<close>

text \<open>An undecided observation is made before the deadline.\<close>

lemma undecided_instant:
  assumes "apply_start_observation p n declared deadline observed k = (Inr None, k')"
  obtains now where "instant_now p k = (Inr now :: slice_error + nat, k')" "now < deadline"
proof (cases "case observed of Inl source \<Rightarrow> if is_rejected source then Inr None else Inl source | Inr agent \<Rightarrow> Inr agent")
  case (Inl source)
  with assms show thesis by (simp add: apply_start_observation_def Let_def act_success)
next
  case (Inr agent)
  show thesis
  proof (cases "classify_start_readiness agent n")
    case StartWaiting
    obtain now k1 where now: "instant_now p k = (Inr now :: slice_error + nat, k1)"
      and go: "(if deadline \<le> now then act_bind (sl_commit_now p (\<lambda>now. mark_unknown now (de_operation declared)
             (de_incarnation declared) (herdr_error_text (HReadinessTimeout (si_readiness_timeout_ms n))
                     @ ''; last observation '' @ describe_pane agent (si_pane_id n)
                     @ stalled_start_next_step agent n declared)))
            (\<lambda>_. act_fail (UnknownOutcome (id_display (de_operation declared))
               (HReadinessTimeout (si_readiness_timeout_ms n)))) else act_return None) k1
          = (Inr None :: slice_error + declared_start option, k')"
      using assms Inr StartWaiting by (simp add: apply_start_observation_def Let_def act_bind_Inr cong del: if_weak_cong) blast
    show thesis
    proof (cases "deadline \<le> now")
      case True
      with go show thesis by (simp add: act_success)
    next
      case False
      with go now that show thesis by (simp add: act_success)
    qed
  qed (use assms Inr in \<open>simp_all add: apply_start_observation_def Let_def act_success\<close>)
qed

lemma undecided_observation:
  assumes "steady p at" and "apply_start_observation p n declared deadline observed k = (Inr None, k')"
  shows "at (ke_world k) < deadline \<and> at (ke_world k) \<le> at (ke_world k')"
proof -
  obtain now where i: "instant_now p k = (Inr now :: slice_error + nat, k')" and early: "now < deadline"
    using assms(2) by (rule undecided_instant)
  show ?thesis by (rule instant_result [OF assms(1) i]) (use early in simp)
qed

definition start_pass ::
  "'w peer \<Rightarrow> start_intent \<Rightarrow> declared_start \<Rightarrow> nat \<Rightarrow> ('w, declared_start option) slice" where
  "start_pass p n declared deadline = act_bind (advance_start_ready p n declared deadline) (\<lambda>r. case r of
       Some ready \<Rightarrow> act_return (Some ready)
     | None \<Rightarrow> act_bind (instant_now p) (\<lambda>now.
         act_bind (act_sleep p (min START_READY_POLL (deadline - now))) (\<lambda>_. act_return None)))"

lemma start_pass_lasts:
  assumes st: "steady p at" and pass: "start_pass p n declared deadline k = (Inr None, k')"
  shows "at (ke_world k) < deadline \<and> at (ke_world k) < at (ke_world k')"
proof -
  obtain k1 k2 now where adv: "advance_start_ready p n declared deadline k = (Inr None, k1)"
    and now: "instant_now p k1 = (Inr now :: slice_error + nat, k2)"
    and sleep: "act_sleep p (min START_READY_POLL (deadline - now)) k2 = (Inr () :: slice_error + unit, k')"
  proof -
    obtain x k1 where x: "advance_start_ready p n declared deadline k = (Inr x, k1)"
        "(case x of Some ready \<Rightarrow> act_return (Some ready)
          | None \<Rightarrow> act_bind (instant_now p) (\<lambda>now.
              act_bind (act_sleep p (min START_READY_POLL (deadline - now))) (\<lambda>_. act_return None))) k1 = (Inr None :: slice_error + declared_start option, k')"
      using pass unfolding start_pass_def act_bind_Inr by blast
    then have "x = None" by (cases x) (simp_all add: act_return_Inr)
    with x that show thesis by (auto simp: act_success)
  qed
  obtain r0 k0 where get: "blocking_agent p (''kelpie:start-ready:'' @ id_display (de_operation declared)) (si_pane_id n) k
      = (r0, k0)" by (metis surj_pair)
  have "at (ke_world k) \<le> at (ke_world k0)"
    by (rule later_snd [OF interaction.blocking_agent_along [OF steady_interaction [OF st]] get])
  moreover have "at (ke_world k0) < deadline \<and> at (ke_world k0) \<le> at (ke_world k1)"
    using adv get by (auto simp: advance_start_ready_def act_simps dest!: undecided_observation [OF st])
  moreover have "at (ke_world k1) \<le> now \<and> now \<le> at (ke_world k2)"
    by (rule instant_result [OF st now]) simp
  moreover have "at (ke_world k2) + min START_READY_POLL (deadline - now) \<le> at (ke_world k')"
    by (rule sleep_result(2) [OF st sleep])
  ultimately show ?thesis by (auto simp: START_READY_POLL_def min_def split: if_splits)
qed

lemma wait_returns:
  assumes st: "steady p at" and fuel: "deadline - at (ke_world k) < fuel"
    and run: "wait_for_start_ready fuel p n declared deadline k = (r, k')"
  shows "r \<noteq> Inr None"
proof (rule act_loop_returns [where at = at])
  show "act_loop fuel (start_pass p n declared deadline) k = (r, k')"
    using run by (simp add: wait_for_start_ready_def start_pass_def)
qed (use start_pass_lasts [OF st] fuel in blast)+

text \<open>A busy pane is retried only before the end of its budget, and not sooner than the poll interval.\<close>

definition busy_until :: "start_submit \<Rightarrow> nat" where
  "busy_until s = (case s of StartSubmitted d deadline \<Rightarrow> deadline | StartBusy d deadline bd nb i \<Rightarrow> max deadline bd)"

lemma scheduled_retry:
  assumes st: "steady p at" and run: "schedule_start_retry p declared source bd k = (Inr not_before, k')"
  shows "at (ke_world k) \<le> at (ke_world k') \<and> at (ke_world k) < not_before \<and> at (ke_world k) < bd"
proof -
  obtain k1 now where reject: "sl_commit_now p (\<lambda>now. reject_attempt now (de_operation declared) (de_incarnation declared)
        (herdr_error_text source)) k = (Inr (), k1)"
    and now: "instant_now p k1 = (Inr now :: slice_error + nat, k')" "now < bd"
    and nb: "not_before = now + min BUSY_PANE_POLL (bd - now)"
    using run by (auto simp: schedule_start_retry_def Let_def act_success split: if_splits)
  have "along (later at) (sl_commit_now p (\<lambda>now. reject_attempt now (de_operation declared) (de_incarnation declared)
        (herdr_error_text source)))"
    by (rule interaction.slice_writes(4) [OF steady_interaction [OF st]]) (auto intro: store_ops)
  from later_snd [OF this reject] have "at (ke_world k) \<le> at (ke_world k1)" .
  moreover have "at (ke_world k1) \<le> now \<and> now \<le> at (ke_world k')" by (rule instant_result [OF st now(1)]) simp
  ultimately show ?thesis using now(2) nb by (auto simp: BUSY_PANE_POLL_def)
qed

lemma submitted_result:
  assumes "apply_agent_start_result p n declared deadline bd i result k = (Inr submit, k')"
  obtains "submit = StartSubmitted declared deadline"
    | not_before source where "submit = StartBusy declared deadline bd not_before i"
        "schedule_start_retry p declared source bd k = (Inr not_before, k')"
proof (cases result)
  case (Inl source)
  show thesis
  proof (cases "is_retryable_start_rejection source")
    case True
    with assms Inl that(2) show thesis by (auto simp: apply_agent_start_result_def Let_def act_success)
  next
    case False
    with assms Inl show thesis
      by (auto simp: apply_agent_start_result_def Let_def act_success split: if_splits)
  qed
next
  case (Inr agent)
  with assms obtain r1 :: "slice_error + unit" and k1 where "(case r1 of
       Inl error \<Rightarrow> act_bind (sl_commit_now p (\<lambda>now. mark_unknown now (de_operation declared) (de_incarnation declared)
          (slice_error_text (pr_text p) error))) (\<lambda>_. act_fail error)
     | Inr _ \<Rightarrow> act_return (StartSubmitted declared deadline)) k1 = (Inr submit, k')"
    by (auto simp: apply_agent_start_result_def Let_def act_match_eq)
  with that(1) show thesis by (cases r1) (auto simp: act_success)
qed

text \<open>The state of a start between two passes: the time it still needs at most.\<close>

definition start_due :: "start_submit \<Rightarrow> declared_start \<Rightarrow> nat \<Rightarrow> nat \<Rightarrow> nat \<Rightarrow> bool" where
  "start_due submit declared deadline bd t \<longleftrightarrow> submit = StartSubmitted declared deadline
     \<or> (\<exists>not_before i. submit = StartBusy declared deadline bd not_before i \<and> t < not_before \<and> t < bd)"

lemma attempt_result:
  assumes st: "steady p at" and run: "attempt_agent_start p n declared deadline bd i k = (Inr submit, k')"
  shows "\<exists>t. at (ke_world k) \<le> t \<and> t \<le> at (ke_world k') \<and> start_due submit declared deadline bd t"
proof -
  note world = steady_interaction [OF st]
  let ?request = "start_request_id (de_operation declared) i"
  obtain k1 k2 r k3 where steps: "sl_herdr (blocking_connect p) k = (Inr (), k1)"
      "commit_start_intent p declared ?request k1 = (Inr (), k2)"
      "connection_start_agent p ?request (start_params n) k2 = (r, k3)"
    and result: "apply_agent_start_result p n declared deadline bd i r k3 = (Inr submit, k')"
    using run by (auto simp: attempt_agent_start_def Let_def act_bind_Inr act_match_eq)
  have "at (ke_world k) \<le> at (ke_world k1)"
    by (rule later_snd [of at "sl_herdr (blocking_connect p)", OF _ steps(1)])
      (rule act_law.herdr [OF interaction.axioms(1) [OF world] interaction.blocking_connect_along [OF world]])
  also have "\<dots> \<le> at (ke_world k2)"
    by (rule later_snd [OF interaction.commit_start_intent_along [OF world] steps(2)])
  also have "\<dots> \<le> at (ke_world k3)"
    by (rule later_snd [OF interaction.connection_start_agent_along [OF world] steps(3)])
  finally have t: "at (ke_world k) \<le> at (ke_world k3)" .
  have t': "at (ke_world k3) \<le> at (ke_world k')"
    by (rule later_snd [OF interaction.apply_agent_start_result_along [OF world] result])
  from result show ?thesis
  proof (rule submitted_result)
    assume "submit = StartSubmitted declared deadline"
    with t t' show ?thesis by (auto simp: start_due_def)
  next
    fix not_before source
    assume s: "submit = StartBusy declared deadline bd not_before i"
      and retry: "schedule_start_retry p declared source bd k3 = (Inr not_before, k')"
    from scheduled_retry [OF st retry] s t show ?thesis by (auto simp: start_due_def)
  qed
qed

lemma continued_result:
  assumes st: "steady p at" and run: "continue_busy_start p n declared deadline bd i k = (Inr submit, k')"
  shows "\<exists>t. at (ke_world k) \<le> t \<and> t \<le> at (ke_world k') \<and> start_due submit declared deadline bd t"
proof -
  note world = steady_interaction [OF st]
  obtain now k1 snap k2 where steps: "instant_now p k = (Inr now :: slice_error + nat, k1)" "\<not> bd \<le> now"
      "sl_herdr (blocking_snapshot p) k1 = (Inr snap, k2)"
      "attempt_agent_start p n declared deadline bd (saturating_succ_u32 i) k2 = (Inr submit, k')"
  proof -
    obtain now k1 where now: "instant_now p k = (Inr now :: slice_error + nat, k1)" "\<not> bd \<le> now"
      and go: "act_bind (sl_herdr (blocking_snapshot p)) (\<lambda>snap. case check_pane_matches_intent (pr_debug p) snap n of
              Inl conflict \<Rightarrow> act_bind (sl_commit_now p (\<lambda>now. mark_rejected now (de_operation declared)
                (de_incarnation declared) (slice_error_text (pr_text p) conflict) DRejected)) (\<lambda>_. act_fail conflict)
            | Inr _ \<Rightarrow> attempt_agent_start p n declared deadline bd (saturating_succ_u32 i)) k1 = (Inr submit, k')"
      using run by (auto simp: continue_busy_start_def Let_def act_success split: if_splits)
    obtain snap k2 where snap: "sl_herdr (blocking_snapshot p) k1 = (Inr snap, k2)"
        "(case check_pane_matches_intent (pr_debug p) snap n of
              Inl conflict \<Rightarrow> act_bind (sl_commit_now p (\<lambda>now. mark_rejected now (de_operation declared)
                (de_incarnation declared) (slice_error_text (pr_text p) conflict) DRejected)) (\<lambda>_. act_fail conflict)
            | Inr _ \<Rightarrow> attempt_agent_start p n declared deadline bd (saturating_succ_u32 i)) k2 = (Inr submit, k')"
      using go unfolding act_bind_Inr by blast
    then have "attempt_agent_start p n declared deadline bd (saturating_succ_u32 i) k2 = (Inr submit, k')"
      by (cases "check_pane_matches_intent (pr_debug p) snap n") (simp_all add: act_success)
    with now snap(1) that show thesis by blast
  qed
  have "at (ke_world k) \<le> at (ke_world k1)" by (rule instant_result [OF st steps(1)]) simp
  also have "\<dots> \<le> at (ke_world k2)"
    by (rule later_snd [of at "sl_herdr (blocking_snapshot p)", OF _ steps(3)])
      (rule act_law.herdr [OF interaction.axioms(1) [OF world] interaction.blocking_snapshot_along [OF world]])
  finally show ?thesis using attempt_result [OF st steps(4)] by (meson order_trans)
qed

lemma start_loop_returns:
  assumes st: "steady p at"
  shows "start_due submit declared deadline bd t \<Longrightarrow> t \<le> at (ke_world k) \<Longrightarrow> bd \<le> deadline
     \<Longrightarrow> deadline - t < fuel \<Longrightarrow> start_loop fuel p n submit k = (r, k') \<Longrightarrow> r \<noteq> Inr None"
proof (induction fuel arbitrary: submit t k)
  case (Suc fuel)
  show ?case
  proof (cases submit)
    case (StartSubmitted d dl)
    with Suc.prems have "wait_for_start_ready (Suc fuel) p n declared deadline k = (r, k')"
      by (simp add: start_due_def)
    then show ?thesis by (rule wait_returns [OF st, rotated]) (use Suc.prems in linarith)
  next
    case (StartBusy d dl bd' nb i)
    then have due: "d = declared" "dl = deadline" "bd' = bd" "t < nb" "t < bd"
      using Suc.prems(1) by (auto simp: start_due_def)
    show ?thesis
    proof (cases r)
      case (Inr x)
      obtain now k1 k2 submit' k3 where steps:
          "instant_now p k = (Inr now :: slice_error + nat, k1)"
          "(if now < nb then act_sleep p (nb - now) else act_return ()) k1 = (Inr () :: slice_error + unit, k2)"
          "continue_busy_start p n declared deadline bd i k2 = (Inr submit', k3)"
          "start_loop fuel p n submit' k3 = (r, k')"
        using Suc.prems(5) Inr StartBusy due by (auto simp: act_success)
      have "now \<le> at (ke_world k1)" by (rule instant_result [OF st steps(1)]) simp
      then have "nb \<le> at (ke_world k2)"
        using steps(2) by (cases "now < nb") (auto simp: act_return_def dest!: sleep_result(2) [OF st])
      moreover obtain t' where t': "at (ke_world k2) \<le> t'" "t' \<le> at (ke_world k3)" "start_due submit' declared deadline bd t'"
        using continued_result [OF st steps(3)] by blast
      ultimately have "deadline - t' < fuel" using due(4,5) Suc.prems(3,4) by linarith
      with Suc.IH [OF t'(3,2) Suc.prems(3) _ steps(4)] show ?thesis by blast
    qed simp
  qed
qed simp

lemma continued_timeout: "continue_identity_by_name n d = Inr n' \<Longrightarrow> si_readiness_timeout_ms n' = si_readiness_timeout_ms n"
  by (auto simp: continue_identity_by_name_def split: if_splits option.splits)

lemma declared_deadline:
  assumes st: "steady p at" and run: "declare_start_from_snapshot p n snap k = (Inr (declared, deadline, bd), k')"
  shows "deadline \<le> at (ke_world k') + si_readiness_timeout_ms n \<and> bd \<le> deadline"
proof -
  obtain n' now k1 k2 k3 now' where steps: "continue_identity_by_name n (ke_store k1) = Inr n'"
      "instant_now p k1 = (Inr now :: slice_error + nat, k2)"
      "sl_transact_now p (\<lambda>now. declare_start now n') k2 = (Inr declared, k3)"
      "instant_now p k3 = (Inr now' :: slice_error + nat, k')"
    and d: "deadline = now + si_readiness_timeout_ms n'" "bd = min deadline (now' + BUSY_PANE_RETRY_BUDGET)"
    using run by (auto simp: declare_start_from_snapshot_def Let_def act_bind_Inr act_return_Inr sl_pure_def)
  have "now \<le> at (ke_world k2)" by (rule instant_result [OF st steps(2)]) simp
  also have "along (later at) (sl_transact_now p (\<lambda>now. declare_start now n'))"
    by (rule interaction.slice_writes(5) [OF steady_interaction [OF st]]) (auto intro: store_ops)
  from later_snd [OF this steps(3)] have "at (ke_world k2) \<le> at (ke_world k3)" .
  also have "\<dots> \<le> at (ke_world k')" by (rule instant_result [OF st steps(4)]) simp
  finally show ?thesis using d continued_timeout [OF steps(1)] by simp
qed

text \<open>
  C33: a start ends. When the peer's monotonic clock never goes back and its sleeps last, a start with more
  passes than the milliseconds of its readiness timeout always returns: with an incarnation proven Ready
  or with an error, never out of passes.
\<close>

theorem start_returns:
  assumes "steady p at" and "si_readiness_timeout_ms n < fuel"
  shows "\<exists>r k'. slice_start fuel p n k = (r, k') \<and> r \<noteq> Inr None"
proof -
  obtain r k' where run: "slice_start fuel p n k = (r, k')" by fastforce
  have "r \<noteq> Inr None"
  proof (cases r)
    case (Inr x)
    obtain submit k1 where s: "submit_start p n k = (Inr submit, k1)" "start_loop fuel p n submit k1 = (r, k')"
      using run Inr by (auto simp: slice_start_def act_success)
    obtain k2 k3 snap k4 declared deadline bd where steps: "sl_herdr (blocking_snapshot p) k3 = (Inr snap, k2)"
        "declare_start_from_snapshot p n snap k2 = (Inr (declared, deadline, bd), k4)"
        "attempt_agent_start p n declared deadline bd 1 k4 = (Inr submit, k1)"
      using s(1) by (auto simp: submit_start_def act_success)
    have d: "deadline \<le> at (ke_world k4) + si_readiness_timeout_ms n \<and> bd \<le> deadline"
      by (rule declared_deadline [OF assms(1) steps(2)])
    obtain t where t: "at (ke_world k4) \<le> t" "t \<le> at (ke_world k1)" "start_due submit declared deadline bd t"
      using attempt_result [OF assms(1) steps(3)] by blast
    show ?thesis
      by (rule start_loop_returns [OF assms(1) t(3,2) _ _ s(2)]) (use d t(1) assms(2) in linarith)+
  qed simp
  with run show ?thesis by blast
qed

theorem start_returns_witness:
  "\<exists>r k'. slice_start 1001 scripted run_start (process run_db2 100 start_answers) = (r, k') \<and> r \<noteq> Inr None"
proof -
  have "steady scripted fst" by (simp add: steady_def scripted_def split: list.splits)
  moreover have "si_readiness_timeout_ms run_start < 1001" by (simp add: run_start_def)
  ultimately show ?thesis by (rule start_returns)
qed

end
