(* ===== verification/Requests.thy ===== *)
theory Requests
  imports StartRun RetireRename
begin

text \<open>
  The requests and responses of \<open>src/src/daemon.rs\<close>: the parameter records of every client method, the
  classification of errors, the response correlated with its request, and the JSON values results
  are built from. An object is kept as serde_json keeps it, a map sorted by key.

  The decoders that serde derives for the parameter records (and its parser of a text) are
  components of \<open>wire\<close>, beside the peer of the slice; so are the source of fresh UUIDs and the
  sockets of the clients.
\<close>

section \<open>JSON objects\<close>

fun put_field :: "string \<Rightarrow> json \<Rightarrow> (string \<times> json) list \<Rightarrow> (string \<times> json) list" where
  "put_field k v [] = [(k, v)]"
| "put_field k v ((k', v') # fs) =
     (if k = k' then (k, v) # fs else if text_less k k' then (k, v) # (k', v') # fs
      else (k', v') # put_field k v fs)"

text \<open>The object a \<open>json!\<close> literal builds, and an assignment \<open>value[k] = v\<close>, which makes an object of null.\<close>

definition jobj :: "(string \<times> json) list \<Rightarrow> json" where
  "jobj fs = JObj (fold (\<lambda>(k, v). put_field k v) fs [])"

fun jset :: "string \<Rightarrow> json \<Rightarrow> json \<Rightarrow> json" where
  "jset k v (JObj fs) = JObj (put_field k v fs)"
| "jset k v JNull = JObj [(k, v)]"
| "jset k v j = j"

definition jid :: "durable_id \<Rightarrow> json" where "jid n = JInt (int n)"
definition jnat :: "nat \<Rightarrow> json" where "jnat n = JInt (int n)"

definition jopt :: "('a \<Rightarrow> json) \<Rightarrow> 'a option \<Rightarrow> json" where
  "jopt f v = (case v of None \<Rightarrow> JNull | Some x \<Rightarrow> f x)"

lemma map_of_put_field: "map_of (put_field k v fs) = (map_of fs)(k \<mapsto> v)"
  by (induction k v fs rule: put_field.induct) (auto simp: fun_eq_iff)

lemma map_of_put_fields: "map_of (fold (\<lambda>(k, v). put_field k v) fs gs) = map_of gs ++ map_of (rev fs)"
  by (induction fs arbitrary: gs) (auto simp: map_of_put_field)

lemma json_get_jobj [simp]: "json_get k (jobj fs) = map_of (rev fs) k"
  by (simp add: jobj_def map_of_put_fields)

lemma json_get_jset: "json_get k (jset k' v (JObj fs)) = (if k = k' then Some v else json_get k (JObj fs))"
  by (simp add: map_of_put_field)

section \<open>The texts of enums\<close>

definition incarnation_state_text :: "incarnation_state \<Rightarrow> string" where
  "incarnation_state_text s = (case s of
     IDeclared \<Rightarrow> ''declared'' | IStarting \<Rightarrow> ''starting'' | IReady \<Rightarrow> ''ready'' | IFailed \<Rightarrow> ''failed''
   | IUnknown \<Rightarrow> ''unknown'' | IRetiring \<Rightarrow> ''retiring'' | IRetired \<Rightarrow> ''retired'' | ILost \<Rightarrow> ''lost''
   | ISuperseded \<Rightarrow> ''superseded'')"

definition operation_outcome_text :: "operation_outcome \<Rightarrow> string" where
  "operation_outcome_text s = (case s of
     OpPending \<Rightarrow> ''pending'' | OpAccepted \<Rightarrow> ''accepted'' | OpSucceeded \<Rightarrow> ''succeeded'' | OpFailed \<Rightarrow> ''failed''
   | OpSuperseded \<Rightarrow> ''superseded'' | OpUnknown \<Rightarrow> ''unknown'')"

definition message_kind_text :: "message_kind \<Rightarrow> string" where
  "message_kind_text s = (case s of
     Tell \<Rightarrow> ''tell'' | Ask \<Rightarrow> ''ask'' | Reply \<Rightarrow> ''reply'' | Cancellation \<Rightarrow> ''cancellation'')"

definition reply_disposition_text :: "reply_disposition \<Rightarrow> string" where
  "reply_disposition_text s = (case s of Progress \<Rightarrow> ''progress'' | Final \<Rightarrow> ''final'')"

definition obligation_state_text :: "obligation_state \<Rightarrow> string" where
  "obligation_state_text s = (case s of
     ObOpen \<Rightarrow> ''open'' | ObInProgress \<Rightarrow> ''in_progress'' | ObResolved \<Rightarrow> ''resolved'' | ObCancelled \<Rightarrow> ''cancelled''
   | ObOrphaned \<Rightarrow> ''orphaned'')"

definition delivery_outcome_text :: "delivery_outcome \<Rightarrow> string" where
  "delivery_outcome_text s = (case s of
     DPending \<Rightarrow> ''pending'' | DSubmitted \<Rightarrow> ''submitted'' | DAccepted \<Rightarrow> ''accepted'' | DQueued \<Rightarrow> ''queued''
   | DUnknown \<Rightarrow> ''unknown'' | DRejected \<Rightarrow> ''rejected'' | DTargetUnavailable \<Rightarrow> ''target_unavailable''
   | DSuperseded \<Rightarrow> ''superseded'')"

definition renew_phase_text :: "renew_phase \<Rightarrow> string" where
  "renew_phase_text s = (case s of
     RScheduled \<Rightarrow> ''scheduled'' | RPreparing \<Rightarrow> ''preparing'' | RReady \<Rightarrow> ''ready'' | RClearing \<Rightarrow> ''clearing''
   | RInjected \<Rightarrow> ''injected'' | RDone \<Rightarrow> ''done'' | RTimedOut \<Rightarrow> ''timed_out'' | RAborted \<Rightarrow> ''aborted''
   | RTerminated \<Rightarrow> ''terminated'')"

definition renew_timeout_text :: "renew_timeout \<Rightarrow> string" where
  "renew_timeout_text s = (case s of TimeoutAbort \<Rightarrow> ''abort'' | TimeoutProceed \<Rightarrow> ''proceed'')"

definition firing_outcome_text :: "schedule_firing_outcome \<Rightarrow> string" where
  "firing_outcome_text s = (case s of
     Materialized \<Rightarrow> ''materialized'' | FiringTargetUnavailable \<Rightarrow> ''target_unavailable'' | FiringSkipped \<Rightarrow> ''skipped'')"

text \<open>The texts a column holds where the code reads it as text.\<close>

definition operation_kind_text :: "operation_kind \<Rightarrow> string" where
  "operation_kind_text s = (case s of
     KStart \<Rightarrow> ''start'' | KPrompt \<Rightarrow> ''prompt'' | KResume \<Rightarrow> ''resume'' | KRetire \<Rightarrow> ''retire''
   | KNotification \<Rightarrow> ''notification'' | KAdopt \<Rightarrow> ''adopt'' | KClear \<Rightarrow> ''clear'')"

definition schedule_kind_text :: "schedule_kind \<Rightarrow> string" where
  "schedule_kind_text s = (case s of SchedTell \<Rightarrow> ''tell'' | SchedRenew \<Rightarrow> ''renew'')"

definition schedule_clock_text :: "schedule_clock \<Rightarrow> string" where
  "schedule_clock_text s = (case s of WallClock \<Rightarrow> ''wall'' | ActiveClock \<Rightarrow> ''active'')"

definition schedule_state_text :: "schedule_state \<Rightarrow> string" where
  "schedule_state_text s = (case s of
     SchedActive \<Rightarrow> ''active'' | SchedCancelled \<Rightarrow> ''cancelled'' | SchedTerminated \<Rightarrow> ''terminated'')"

definition jtext :: "('a \<Rightarrow> string) \<Rightarrow> 'a \<Rightarrow> json" where "jtext f x = JStr (f x)"


definition agent_status_text :: "agent_status \<Rightarrow> string" where
  "agent_status_text s = (case s of
     StatusIdle \<Rightarrow> ''idle'' | StatusWorking \<Rightarrow> ''working'' | StatusBlocked \<Rightarrow> ''blocked'' | StatusDone \<Rightarrow> ''done''
   | StatusUnknown \<Rightarrow> ''unknown'')"

section \<open>Requests and responses\<close>

record daemon_request =
  cq_id :: string
  cq_method :: string
  cq_params :: json

record client_error =
  ce_class :: string
  ce_message :: string
  ce_code :: "string option"

record client_response =
  cr_id :: string
  cr_result :: "json option"
  cr_error :: "client_error option"

text \<open>
  The class of an error in the taxonomy of the specification, and the finer code. A panic ends
  the process before a response is built; it is classed with the internal errors to keep the
  function total. \<open>UnsafeLocation\<close> is raised only when a store is opened.
\<close>

definition herdr_class :: "herdr_error \<Rightarrow> string" where
  "herdr_class e = (case e of
     HMalformed _ \<Rightarrow> ''internal'' | HUnexpected _ \<Rightarrow> ''internal''
   | HIncompatible _ _ \<Rightarrow> ''incompatible_runtime'' | HIncompatibleEndpoint _ _ \<Rightarrow> ''incompatible_runtime''
   | HUnavailable _ \<Rightarrow> ''unavailable''
   | HRejected code message \<Rightarrow> if text_contains ''not_found'' code then ''target_unavailable'' else ''rejected''
   | HReadinessTimeout _ \<Rightarrow> ''timeout'')"

definition error_class :: "slice_error \<Rightarrow> string" where
  "error_class e = (case e of
     PaneOccupied _ _ _ _ \<Rightarrow> ''conflict''
   | LiveConflict _ \<Rightarrow> ''conflict''
   | SStore (Conflict _) \<Rightarrow> ''conflict''
   | ClearUnproven _ \<Rightarrow> ''conflict''
   | SStore (InvalidRecord _) \<Rightarrow> ''invalid_request''
   | SStore (Sql _) \<Rightarrow> ''internal''
   | SStore Panic \<Rightarrow> ''internal''
   | SHerdr h \<Rightarrow> herdr_class h
   | UnsupportedBackend _ \<Rightarrow> ''incompatible_runtime''
   | ClearRotationTimeout _ \<Rightarrow> ''timeout''
   | UnknownOutcome _ _ \<Rightarrow> ''unknown_outcome'')"

definition rejection_code :: "herdr_error \<Rightarrow> string option" where
  "rejection_code e = (case e of HRejected code message \<Rightarrow> Some code | _ \<Rightarrow> None)"

definition error_code :: "slice_error \<Rightarrow> string option" where
  "error_code e = (case e of
     PaneOccupied _ _ _ _ \<Rightarrow> Some ''pane_occupied''
   | UnsupportedBackend _ \<Rightarrow> Some ''renew_unsupported_backend''
   | ClearRotationTimeout _ \<Rightarrow> Some ''clear_rotation_timeout''
   | ClearUnproven _ \<Rightarrow> Some ''clear_unproven''
   | SHerdr h \<Rightarrow> rejection_code h
   | UnknownOutcome oid h \<Rightarrow> rejection_code h
   | _ \<Rightarrow> None)"

definition classify_error :: "'w peer \<Rightarrow> slice_error \<Rightarrow> client_error" where
  "classify_error p e =
     \<lparr>ce_class = error_class e, ce_message = slice_error_text (pr_text p) e, ce_code = error_code e\<rparr>"

definition respond :: "'w peer \<Rightarrow> string \<Rightarrow> slice_error + json \<Rightarrow> client_response" where
  "respond p i result = (case result of
     Inr v \<Rightarrow> \<lparr>cr_id = i, cr_result = Some v, cr_error = None\<rparr>
   | Inl e \<Rightarrow> \<lparr>cr_id = i, cr_result = None, cr_error = Some (classify_error p e)\<rparr>)"

text \<open>A line that is no request at all has no id to answer under.\<close>

definition malformed_response :: "string \<Rightarrow> client_response" where
  "malformed_response message = \<lparr>cr_id = [], cr_result = None,
     cr_error = Some \<lparr>ce_class = ''invalid_request'', ce_message = message, ce_code = None\<rparr>\<rparr>"

text \<open>The derived serializer of a response leaves absent members out.\<close>

definition response_json :: "client_response \<Rightarrow> json" where
  "response_json r = JObj ([(''id'', JStr (cr_id r))]
     @ (case cr_result r of None \<Rightarrow> [] | Some v \<Rightarrow> [(''result'', v)])
     @ (case cr_error r of None \<Rightarrow> [] | Some e \<Rightarrow>
          [(''error'', JObj ([(''class'', JStr (ce_class e)), (''message'', JStr (ce_message e))]
             @ (case ce_code e of None \<Rightarrow> [] | Some c \<Rightarrow> [(''code'', JStr c)])))]))"

section \<open>Parameters of the client methods\<close>

record waiter_register_params =
  wg_public_name :: string
  wg_parent :: parent
  wg_key :: string

record waiter_retire_params =
  wt_agent :: "logical_agent_id option"
  wt_alias :: "string option"

record inbox_claim_params = ic_agent_id :: logical_agent_id
record inbox_ack_params = ik_message :: message_id

record replies_claim_params =
  lc_ask :: message_id
  lc_requester :: logical_agent_id

record replies_params =
  lp_ask :: message_id
  lp_requester :: logical_agent_id
  lp_after :: int
  lp_lease :: "int option"
  lp_timeout_ms :: "int option"

record replies_ack_params =
  lk_ask :: message_id
  lk_requester :: logical_agent_id
  lk_message :: message_id
  lk_lease :: int

record ask_params =
  kp_sender :: logical_agent_id
  kp_recipient :: "logical_agent_id option"
  kp_incarnation :: "incarnation_id option"
  kp_alias :: "string option"
  kp_body :: string
  kp_key :: string
  kp_due_at_ms :: "int option"
  kp_remind_after_ms :: "int option"
  kp_no_remind :: bool
  kp_from_operator :: bool
  kp_reply_delivery :: reply_delivery

record reminder_snooze_params =
  zp_requester :: logical_agent_id
  zp_ask :: message_id
  zp_until_ms :: "int option"
  zp_for_ms :: "int option"

record reminder_interval_params =
  vp_requester :: logical_agent_id
  vp_ask :: message_id
  vp_every_ms :: int

record reminder_disable_params =
  xp_requester :: logical_agent_id
  xp_ask :: message_id

record tell_params =
  tp_sender :: logical_agent_id
  tp_recipient :: "logical_agent_id option"
  tp_incarnation :: "incarnation_id option"
  tp_alias :: "string option"
  tp_body :: string
  tp_key :: string
  tp_due_at_ms :: "int option"
  tp_every_ms :: "int option"

record clear_params =
  cm_recipient :: "logical_agent_id option"
  cm_incarnation :: "incarnation_id option"
  cm_alias :: "string option"
  cm_key :: string

record renew_params =
  np_requester :: logical_agent_id
  np_recipient :: "logical_agent_id option"
  np_recipient_incarnation :: "incarnation_id option"
  np_prepare_prompt :: string
  np_prompt :: string
  np_on_timeout :: renew_timeout
  np_prepare_timeout_ms :: int
  np_every_ms :: "int option"
  np_due_at_ms :: "int option"

record renew_cancel_params =
  nx_renew :: renew_id
  nx_requester :: logical_agent_id
  nx_reason :: string

record schedule_cancel_params =
  hx_schedule :: schedule_id
  hx_requester :: logical_agent_id
  hx_reason :: string

record schedule_list_params = hl_agent :: logical_agent_id

record reply_params =
  yp_reply_to :: message_id
  yp_requester :: logical_agent_id
  yp_body :: string
  yp_disposition :: reply_disposition
  yp_key :: string

record whoami_params =
  mp_pane :: "string option"
  mp_alias :: "string option"
  mp_lazy_key :: "string option"

record pending_params = pd_agent :: logical_agent_id
record ask_info_params = fp_ask :: message_id
record name_info_params = gp_name :: string

record who_params =
  hp_incarnation :: "incarnation_id option"
  hp_agent :: "logical_agent_id option"
  hp_alias :: "string option"
  hp_pane :: "string option"
  hp_history :: bool
  hp_resolve :: bool
  hp_refresh :: bool
  hp_lazy_key :: "string option"

record cancel_params =
  xc_requester :: logical_agent_id
  xc_ask :: message_id
  xc_reason :: string

record notice_params = nb_body :: string

record retire_params =
  tr_incarnation :: incarnation_id
  tr_key :: string
  tr_close_pane :: bool

record rename_params =
  nr_agent :: "logical_agent_id option"
  nr_alias :: "string option"
  nr_name :: string

record report_params =
  rv_live :: bool
  rv_active :: bool

section \<open>The wire\<close>

text \<open>
  One read or write of a client's non-blocking socket. A read of nothing is the end of the stream; a
  write of nothing is a failure. Would-block and interrupted calls are one case.
\<close>

datatype recv_io = Received string | RecvBlocked | RecvFailed
datatype send_io = Sent nat | SendBlocked | SendFailed

record 'w wire =
  wr_peer :: "'w peer"
  wr_request :: "string \<Rightarrow> string + daemon_request"
  wr_value :: "string \<Rightarrow> string + json"
  wr_uuid :: "'w \<Rightarrow> string \<times> 'w"
  wr_recv :: "nat \<Rightarrow> 'w \<Rightarrow> recv_io \<times> 'w"             \<comment> \<open>the socket of a client, at most 4096 bytes\<close>
  wr_send :: "nat \<Rightarrow> string \<Rightarrow> 'w \<Rightarrow> send_io \<times> 'w"
  wr_start :: "json \<Rightarrow> string + start_intent"
  wr_adopt :: "json \<Rightarrow> string + adopt_intent"
  wr_waiter_register :: "json \<Rightarrow> string + waiter_register_params"
  wr_waiter_retire :: "json \<Rightarrow> string + waiter_retire_params"
  wr_inbox_claim :: "json \<Rightarrow> string + inbox_claim_params"
  wr_inbox_ack :: "json \<Rightarrow> string + inbox_ack_params"
  wr_replies_claim :: "json \<Rightarrow> string + replies_claim_params"
  wr_replies :: "json \<Rightarrow> string + replies_params"
  wr_replies_ack :: "json \<Rightarrow> string + replies_ack_params"
  wr_ask :: "json \<Rightarrow> string + ask_params"
  wr_snooze :: "json \<Rightarrow> string + reminder_snooze_params"
  wr_interval :: "json \<Rightarrow> string + reminder_interval_params"
  wr_disable :: "json \<Rightarrow> string + reminder_disable_params"
  wr_tell :: "json \<Rightarrow> string + tell_params"
  wr_clear :: "json \<Rightarrow> string + clear_params"
  wr_renew :: "json \<Rightarrow> string + renew_params"
  wr_renew_cancel :: "json \<Rightarrow> string + renew_cancel_params"
  wr_schedule_cancel :: "json \<Rightarrow> string + schedule_cancel_params"
  wr_schedule_list :: "json \<Rightarrow> string + schedule_list_params"
  wr_reply :: "json \<Rightarrow> string + reply_params"
  wr_whoami :: "json \<Rightarrow> string + whoami_params"
  wr_pending :: "json \<Rightarrow> string + pending_params"
  wr_ask_info :: "json \<Rightarrow> string + ask_info_params"
  wr_name_info :: "json \<Rightarrow> string + name_info_params"
  wr_who :: "json \<Rightarrow> string + who_params"
  wr_cancel :: "json \<Rightarrow> string + cancel_params"
  wr_notice :: "json \<Rightarrow> string + notice_params"
  wr_retire :: "json \<Rightarrow> string + retire_params"
  wr_rename :: "json \<Rightarrow> string + rename_params"
  wr_report :: "json \<Rightarrow> string + report_params"

text \<open>An error of the request, by its text, and parameters that must decode.\<close>

definition invalid_request :: "string \<Rightarrow> slice_error" where
  "invalid_request t = SStore (InvalidRecord (RecordText t))"

definition decode_params :: "(json \<Rightarrow> string + 'a) \<Rightarrow> json \<Rightarrow> slice_error + 'a" where
  "decode_params f v = map_sum invalid_request id (f v)"

definition with_params :: "(json \<Rightarrow> string + 'a) \<Rightarrow> json \<Rightarrow> ('a \<Rightarrow> ('w, 'b) slice) \<Rightarrow> ('w, 'b) slice" where
  "with_params f v h = act_bind (act_result (decode_params f v)) h"

end
