(* ===== verification/Reports.thy ===== *)
theory Reports
  imports Queries
begin

text \<open>
  The operator report of \<open>src/src/store.rs\<close> (\<open>report\<close>, \<open>active_report\<close>): every agent with its
  incarnations newest first, and every obligation, as recorded; the active form keeps the agents that
  have a live or pending incarnation and the ancestors that explain them. The recursive query is
  the closure of a set of agents under the parent, iterated once per agent of the store, which
  reaches it: each round but the last adds an agent.
\<close>

record report_renew_row =
  ew_id :: renew_id
  ew_phase :: renew_phase
  ew_cycle :: nat
  ew_every_ms :: "int option"
  ew_scheduled_at_ms :: int
  ew_active_remaining_ms :: "int option"

record report_incarnation_row =
  ei_id :: incarnation_id
  ei_state :: incarnation_state
  ei_backend_kind :: string
  ei_working_directory :: string
  ei_herdr_session :: string
  ei_intended_pane :: string
  ei_expected_terminal :: string
  ei_observed_pane :: "string option"
  ei_observed_terminal :: "string option"
  ei_requested :: requested_attribution
  ei_backend_args :: "string list"
  ei_created_at_ms :: int
  ei_rotated_at_ms :: "int option"
  ei_terminal_at_ms :: "int option"
  ei_terminal_reason :: "string option"
  ei_latest_operation :: "(operation_id \<times> operation_kind \<times> operation_outcome) option"
  ei_renew :: "report_renew_row option"

record report_agent_row =
  eg_id :: logical_agent_id
  eg_public_name :: string
  eg_parent :: "logical_agent_id option"
  eg_parentless :: bool
  eg_created_at_ms :: int
  eg_incarnations :: "report_incarnation_row list"

record report_obligation_row =
  eo_ask :: message_id
  eo_owing :: logical_agent_id
  eo_waiting :: logical_agent_id
  eo_state :: obligation_state
  eo_created_at_ms :: int
  eo_last_activity_ms :: int
  eo_resolving :: "message_id option"

record fleet_report =
  ef_generated_at_ms :: int
  ef_agents :: "report_agent_row list"
  ef_obligations :: "report_obligation_row list"

section \<open>The active agents\<close>

definition active_roots :: "db \<Rightarrow> logical_agent_id list" where
  "active_roots d = map in_agent (filter (\<lambda>i. in_state i \<in> {IReady, IStarting, IUnknown}) (incarnations d))"

definition parents_of :: "db \<Rightarrow> logical_agent_id list \<Rightarrow> logical_agent_id list" where
  "parents_of d as = List.map_filter la_parent (filter (\<lambda>l. la_id l \<in> set as) (agents d))"

fun ancestors :: "nat \<Rightarrow> db \<Rightarrow> logical_agent_id list \<Rightarrow> logical_agent_id list" where
  "ancestors 0 d as = as"
| "ancestors (Suc n) d as = ancestors n d (remdups (as @ parents_of d as))"

definition active_agents :: "db \<Rightarrow> logical_agent_id list" where
  "active_agents d = ancestors (length (agents d)) d (active_roots d)"

text \<open>The filter of a report is on only when it is the active one.\<close>

definition report_scope :: "bool \<Rightarrow> db \<Rightarrow> logical_agent_id \<Rightarrow> bool" where
  "report_scope active d a \<longleftrightarrow> (active \<longrightarrow> a \<in> set (active_agents d))"

section \<open>The rows\<close>

definition report_agents :: "bool \<Rightarrow> db \<Rightarrow> report_agent_row list" where
  "report_agents active d =
     map (\<lambda>l. \<lparr>eg_id = la_id l, eg_public_name = la_public_name l, eg_parent = la_parent l,
              eg_parentless = la_parentless l, eg_created_at_ms = la_created_at_ms l, eg_incarnations = []\<rparr>)
       (sort_key la_created_at_ms (sort_key la_id
         (filter (\<lambda>l. report_scope active d (la_id l)) (agents d))))"

definition latest_operation :: "db \<Rightarrow> incarnation_id \<Rightarrow> operation_row option" where
  "latest_operation d inc =
     (case rev (sort_key op_created_at_ms (sort_key op_id (filter (\<lambda>r. op_target r = inc) (operations d)))) of
        [] \<Rightarrow> None | r # rs \<Rightarrow> Some r)"

definition report_renew :: "renew_row \<Rightarrow> report_renew_row" where
  "report_renew r = \<lparr>ew_id = rn_id r, ew_phase = rn_phase r, ew_cycle = rn_cycle r, ew_every_ms = rn_every_ms r,
     ew_scheduled_at_ms = rn_scheduled_at_ms r, ew_active_remaining_ms = rn_active_remaining_ms r\<rparr>"

text \<open>\<open>LEFT JOIN\<close>: one row for each renew in flight, and one without when there is none.\<close>

definition joined_renews :: "db \<Rightarrow> incarnation_id \<Rightarrow> renew_row option list" where
  "joined_renews d inc =
     (case filter (\<lambda>r. rn_incarnation r = inc \<and> rn_phase r \<notin> {RDone, RAborted, RTerminated}) (renews d) of
        [] \<Rightarrow> [None] | rs \<Rightarrow> map Some rs)"

definition report_incarnation_of :: "db \<Rightarrow> incarnation_row \<Rightarrow> renew_row option \<Rightarrow> report_incarnation_row" where
  "report_incarnation_of d i renew =
     \<lparr>ei_id = in_id i, ei_state = in_state i, ei_backend_kind = in_backend_kind i,
      ei_working_directory = in_working_directory i, ei_herdr_session = in_herdr_session i,
      ei_intended_pane = in_intended_pane i, ei_expected_terminal = in_expected_terminal i,
      ei_observed_pane = in_observed_pane i, ei_observed_terminal = in_observed_terminal i,
      ei_requested = in_requested i, ei_backend_args = in_backend_args i,
      ei_created_at_ms = in_created_at_ms i, ei_rotated_at_ms = in_rotated_at_ms i,
      ei_terminal_at_ms = in_terminal_at_ms i, ei_terminal_reason = in_terminal_reason i,
      ei_latest_operation = map_option (\<lambda>r. (op_id r, op_kind r, op_outcome r)) (latest_operation d (in_id i)),
      ei_renew = map_option report_renew renew\<rparr>"

definition report_incarnations :: "bool \<Rightarrow> db \<Rightarrow> (logical_agent_id \<times> report_incarnation_row) list" where
  "report_incarnations active d =
     concat (map (\<lambda>i. map (\<lambda>renew. (in_agent i, report_incarnation_of d i renew)) (joined_renews d (in_id i)))
       (rev (sort_key in_created_at_ms (sort_key in_id
         (filter (\<lambda>i. report_scope active d (in_agent i)) (incarnations d))))))"

definition report_obligations :: "bool \<Rightarrow> db \<Rightarrow> report_obligation_row list" where
  "report_obligations active d =
     map (\<lambda>x. \<lparr>eo_ask = ob_ask x, eo_owing = ob_owing x, eo_waiting = ob_waiting x, eo_state = ob_state x,
              eo_created_at_ms = ob_created_at_ms x, eo_last_activity_ms = ob_last_activity_ms x,
              eo_resolving = ob_resolving x\<rparr>)
       (sort_key ob_sequence (filter (\<lambda>x. report_scope active d (ob_owing x)) (obligations d)))"

text \<open>Each incarnation row goes to the agent of its id, in the order of the rows.\<close>

definition report_filtered :: "bool \<Rightarrow> int \<Rightarrow> db \<Rightarrow> fleet_report" where
  "report_filtered active now d =
     \<lparr>ef_generated_at_ms = now,
      ef_agents = map (\<lambda>g. g\<lparr>eg_incarnations :=
          map snd (filter (\<lambda>r. fst r = eg_id g) (report_incarnations active d))\<rparr>) (report_agents active d),
      ef_obligations = report_obligations active d\<rparr>"

definition store_report :: "int \<Rightarrow> db \<Rightarrow> fleet_report" where "store_report = report_filtered False"
definition active_report :: "int \<Rightarrow> db \<Rightarrow> fleet_report" where "active_report = report_filtered True"

section \<open>The closure\<close>

definition parent_edge :: "db \<Rightarrow> (logical_agent_id \<times> logical_agent_id) set" where
  "parent_edge d = {(la_id l, q) | l q. l \<in> set (agents d) \<and> la_parent l = Some q}"

lemma in_map_filter: "y \<in> set (List.map_filter f xs) \<longleftrightarrow> (\<exists>x \<in> set xs. f x = Some y)"
  by (induction xs) (auto simp: List.map_filter_simps split: option.splits)

lemma parents_of_set: "set (parents_of d as) = parent_edge d `` set as"
  unfolding parents_of_def parent_edge_def by (rule set_eqI) (simp add: in_map_filter Image_def, blast)

lemma ancestors_sound: "set (ancestors n d as) \<subseteq> (parent_edge d)\<^sup>* `` set as"
proof (induction n arbitrary: as)
  case (Suc n)
  have "set (ancestors n d (remdups (as @ parents_of d as)))
        \<subseteq> (parent_edge d)\<^sup>* `` (set as \<union> parent_edge d `` set as)"
    using Suc.IH [of "remdups (as @ parents_of d as)"] by (simp add: parents_of_set)
  also have "\<dots> \<subseteq> (parent_edge d)\<^sup>* `` set as"
    by (auto intro: converse_rtrancl_into_rtrancl)
  finally show ?case by simp
qed auto

lemma ancestors_keep: "set as \<subseteq> set (ancestors n d as)"
proof (induction n arbitrary: as)
  case (Suc n)
  show ?case using Suc.IH [of "remdups (as @ parents_of d as)"] by auto
qed simp

lemma ancestors_closed_stop: "parent_edge d `` set as \<subseteq> set as \<Longrightarrow> set (ancestors n d as) = set as"
proof (induction n arbitrary: as)
  case (Suc n)
  have "set (remdups (as @ parents_of d as)) = set as" using Suc.prems by (auto simp: parents_of_set)
  then show ?case using Suc.IH [of "remdups (as @ parents_of d as)"] Suc.prems by simp
qed simp

text \<open>A round that is not the last one uses up an agent whose parent was missing.\<close>

definition unexplained :: "db \<Rightarrow> logical_agent_id set \<Rightarrow> logical_agent_id set" where
  "unexplained d A = parent_edge d `` UNIV - A"

lemma finite_unexplained: "finite (unexplained d A)"
proof -
  have "parent_edge d `` UNIV \<subseteq> set (List.map_filter la_parent (agents d))"
    by (auto simp: parent_edge_def in_map_filter)
  then show ?thesis unfolding unexplained_def by (meson List.finite_set finite_Diff finite_subset)
qed

lemma card_unexplained: "card (unexplained d A) \<le> length (agents d)"
proof -
  have "unexplained d A \<subseteq> set (List.map_filter la_parent (agents d))"
    by (auto simp: unexplained_def parent_edge_def in_map_filter)
  then have "card (unexplained d A) \<le> card (set (List.map_filter la_parent (agents d)))"
    by (simp add: card_mono)
  also have "\<dots> \<le> length (List.map_filter la_parent (agents d))" by (rule card_length)
  also have "\<dots> \<le> length (agents d)" by (simp add: map_filter_def)
  finally show ?thesis .
qed

lemma ancestors_closed:
  "card (unexplained d (set as)) \<le> n
   \<Longrightarrow> parent_edge d `` set (ancestors n d as) \<subseteq> set (ancestors n d as)"
proof (induction n arbitrary: as)
  case 0
  then have "unexplained d (set as) = {}" by (simp add: finite_unexplained)
  then show ?case by (auto simp: unexplained_def)
next
  case (Suc n)
  let ?bs = "remdups (as @ parents_of d as)"
  show ?case
  proof (cases "parent_edge d `` set as \<subseteq> set as")
    case True then show ?thesis using ancestors_closed_stop [OF True, of "Suc n"] by simp
  next
    case False
    then obtain x where x: "x \<in> parent_edge d `` set as" "x \<notin> set as" by auto
    have "unexplained d (set ?bs) \<subset> unexplained d (set as)"
    proof
      show "unexplained d (set ?bs) \<subseteq> unexplained d (set as)" by (auto simp: unexplained_def)
      show "unexplained d (set ?bs) \<noteq> unexplained d (set as)"
      proof
        assume "unexplained d (set ?bs) = unexplained d (set as)"
        moreover have "x \<in> unexplained d (set as)" using x by (auto simp: unexplained_def)
        moreover have "x \<notin> unexplained d (set ?bs)" using x(1) by (simp add: unexplained_def parents_of_set)
        ultimately show False by simp
      qed
    qed
    then have "card (unexplained d (set ?bs)) < card (unexplained d (set as))"
      by (rule psubset_card_mono [OF finite_unexplained])
    then have "card (unexplained d (set ?bs)) \<le> n" using Suc.prems by simp
    from Suc.IH [OF this] show ?thesis by simp
  qed
qed


end
