(* ===== verification/Answers.thy ===== *)
theory Answers
  imports Requests Reports Clears Absences
begin

text \<open>
  The results of the client methods of \<open>src/src/daemon.rs\<close> as JSON values: what each answer carries, which
  members appear only under a condition, and the rendering of the operator report.
\<close>

section \<open>Replies of the pull sink\<close>

definition pull_event_json :: "ask_pull_event \<Rightarrow> json" where
  "pull_event_json e = jobj
     [(''message_id'', jid (ev_message_id e)), (''kind'', jtext message_kind_text (ev_kind e)),
      (''body'', JStr (ev_body e)), (''reply_to'', jopt jid (ev_reply_to e)),
      (''disposition'', jopt (jtext reply_disposition_text) (ev_disposition e)),
      (''sender_agent_id'', jopt jid (ev_sender e)), (''sender_public_name'', jopt JStr (ev_sender_name e))]"

definition replies_poll_json :: "string \<times> int \<times> ask_pull_event list \<Rightarrow> json" where
  "replies_poll_json = (\<lambda>(status, cursor, events). jobj
     [(''status'', JStr status), (''cursor'', JInt cursor), (''events'', JArr (map pull_event_json events))])"

section \<open>Identities\<close>

definition identity_json :: "logical_agent_id \<Rightarrow> incarnation_id \<Rightarrow> string \<Rightarrow> json" where
  "identity_json a inc name = jobj
     [(''logical_agent_id'', jid a), (''incarnation_id'', jid inc), (''public_name'', JStr name)]"

definition ready_identity_json :: "ready_identity \<Rightarrow> json" where
  "ready_identity_json r = identity_json (rd_agent r) (rd_incarnation r) (rd_name r)"

definition adopt_json :: "declared_start \<Rightarrow> json" where
  "adopt_json c = jobj
     [(''logical_agent_id'', jid (de_agent c)), (''incarnation_id'', jid (de_incarnation c)),
      (''operation_id'', jid (de_operation c)), (''outcome'', JStr ''succeeded'')]"

definition retire_json :: "operation_id \<times> bool \<Rightarrow> json" where
  "retire_json = (\<lambda>(oid, released). jobj [(''operation_id'', jid oid), (''pane_released'', JBool released)])"

definition requested_json :: "requested_attribution \<Rightarrow> json" where
  "requested_json r = jobj
     ((case rq_model r of None \<Rightarrow> [] | Some v \<Rightarrow> [(''model'', JStr v)])
      @ (case rq_provider r of None \<Rightarrow> [] | Some v \<Rightarrow> [(''provider'', JStr v)])
      @ (case rq_effort r of None \<Rightarrow> [] | Some v \<Rightarrow> [(''effort'', JStr v)]))"

definition attribution_result :: "attribution_evidence_data \<Rightarrow> json" where
  "attribution_result ev =
     (let requested = jset ''backend_args'' (JArr (map JStr (av_backend_args ev))) (requested_json (av_requested ev)) in
      jobj [(''logical_agent_id'', jid (av_agent ev)), (''incarnation_id'', jid (av_incarnation ev)),
            (''public_name'', JStr (av_public_name ev)), (''backend_kind'', JStr (av_backend_kind ev)),
            (''incarnation_state'', jtext incarnation_state_text (av_state ev)), (''requested'', requested)])"

section \<open>Launches\<close>

text \<open>The submission word of an accepted prompt, unless its activity was observed.\<close>

definition unobserved_submission :: "json option \<Rightarrow> string option" where
  "unobserved_submission evidence =
     Option.bind (Option.bind (Option.bind evidence (json_get ''submission'')) json_as_str)
       (\<lambda>word. if word \<noteq> ''observed'' then Some word else None)"

text \<open>The evidence of an attempt as the value its text reads as; a submission is stored as printed.\<close>

definition evidence_json :: "(string \<Rightarrow> string + json) \<Rightarrow> evidence \<Rightarrow> slice_error + json" where
  "evidence_json parse e = (case e of
     Detail t \<Rightarrow> Inr (jobj [(''detail'', JStr t)])
   | RetryableDetail t \<Rightarrow> Inr (jobj [(''detail'', JStr t), (''retryable'', JBool True)])
   | Submission t \<Rightarrow> map_sum invalid_request id (parse t))"

definition launch_result_json :: "json option \<Rightarrow> launch_result \<Rightarrow> json" where
  "launch_result_json evidence c =
     (let initial = jobj
        [(''message_id'', jid (lr_message c)), (''operation_id'', jid (lr_message_operation c)),
         (''outcome'', jtext delivery_outcome_text (lr_message_outcome c))];
          initial = (case unobserved_submission evidence of
             None \<Rightarrow> initial | Some word \<Rightarrow> jset ''submission'' (JStr word) initial)
      in jobj
        [(''logical_agent_id'', jid (lr_agent c)), (''incarnation_id'', jid (lr_incarnation c)),
         (''runtime_start'', jobj
            [(''operation_id'', jid (lr_start_operation c)),
             (''outcome'', jtext operation_outcome_text (lr_start_outcome c))]),
         (''initial_message'', initial)])"

section \<open>Asks and their cancellation\<close>

definition response_word :: "bool \<Rightarrow> json" where
  "response_word ok = JStr (if ok then ''delivered'' else ''recorded'')"

text \<open>The ids of the notices are given as text.\<close>

definition cancel_result :: "cancel_outcome \<Rightarrow> json" where
  "cancel_result c = jobj
     [(''state'', JStr ''cancelled''), (''response'', response_word (co_delivered c)),
      (''message_id'', jopt (jtext id_display) (co_message c)),
      (''owing_response'', response_word (co_owing_delivered c)),
      (''owing_message_id'', jopt (jtext id_display) (co_owing_message c))]"

definition waiter_retire_result :: "logical_agent_id \<Rightarrow> waiter_retire_outcome \<Rightarrow> json" where
  "waiter_retire_result a ended = jobj
     [(''logical_agent_id'', jid a), (''targeting_ended'', JBool True),
      (''cancelled_ask_ids'', JArr (map jid (wo_cancelled ended))),
      (''owing_notices'', JArr (map (\<lambda>n. jobj
         [(''ask_message_id'', jid (wn_ask n)), (''message_id'', jid (wn_message n)),
          (''owing_response'', response_word (wn_delivered n))]) (wo_notices ended)))]"

definition delivery_json :: "message_delivery_info \<Rightarrow> json" where
  "delivery_json m = jobj
     [(''transport'', jtext delivery_transport_as_str (md_transport m)),
      (''outcome'', jtext delivery_outcome_text (md_outcome m)), (''attempt_number'', jnat (md_attempt m)),
      (''scheduled_at_ms'', JInt (md_scheduled_at_ms m)), (''attempted_at_ms'', jopt JInt (md_attempted_at_ms m)),
      (''resolved_at_ms'', jopt JInt (md_resolved_at_ms m))]"

definition ask_reply_json :: "ask_reply_info \<Rightarrow> json" where
  "ask_reply_json r = jobj
     [(''message_id'', jid (ar_message r)), (''body'', JStr (ar_body r)),
      (''disposition'', jtext reply_disposition_text (ar_disposition r)),
      (''created_at_ms'', JInt (ar_created_at_ms r)), (''delivery'', delivery_json (ar_delivery r))]"

definition reminder_json :: "reminder_info_data \<Rightarrow> json" where
  "reminder_json r = jobj
     [(''interval_ms'', JInt (rf_interval_ms r)), (''snoozed_until_ms'', jopt JInt (rf_snoozed_until_ms r)),
      (''next_eligible_at_ms'', jopt JInt (rf_next_eligible_at_ms r)),
      (''disabled_at_ms'', jopt JInt (rf_disabled_at_ms r)), (''suspended_at_ms'', jopt JInt (rf_suspended_at_ms r))]"

definition ask_info_json :: "ask_info_data \<Rightarrow> json" where
  "ask_info_json f = jobj
     [(''ask_message_id'', jid (fo_ask f)), (''body'', JStr (fo_body f)),
      (''asker'', jobj [(''agent_id'', jid (fo_asker f)), (''name'', JStr (fo_asker_name f))]),
      (''responder'', jobj [(''agent_id'', jid (fo_responder f)), (''name'', JStr (fo_responder_name f))]),
      (''state'', jtext obligation_state_text (fo_state f)), (''created_at_ms'', JInt (fo_created_at_ms f)),
      (''last_activity_at_ms'', JInt (fo_last_activity_ms f)),
      (''cancellation_reason'', jopt JStr (fo_reason f)), (''reminder'', jopt reminder_json (fo_reminder f)),
      (''delivery'', delivery_json (fo_delivery f)), (''replies'', JArr (map ask_reply_json (fo_replies f)))]"

text \<open>An obligation still owed, and one that ended while a party was away.\<close>

definition pending_json :: "pending_obligation \<Rightarrow> json" where
  "pending_json x = jobj
     [(''ask_message_id'', jid (po_ask x)), (''waiting_agent_id'', jid (po_waiting x)),
      (''state'', jtext obligation_state_text (po_state x))]"

definition cancelled_away_json :: "string \<Rightarrow> cancelled_away \<Rightarrow> json" where
  "cancelled_away_json audience c = jobj
     [(''ask_message_id'', jid (ca_ask c)), (''state'', jtext obligation_state_text (ca_state c)),
      (''audience'', JStr audience), (''cancellation_reason'', JStr (ca_reason c)),
      (''cancellation_requester_agent_id'', jopt jid (ca_by c)), (''cancelled_at_ms'', JInt (ca_at_ms c))]"

section \<open>Names\<close>

definition claimant_json :: "name_claimant \<Rightarrow> json" where
  "claimant_json c =
     (let v = jobj
        [(''logical_agent_id'', jid (nc_agent c)), (''created_at_ms'', JInt (nc_created_at_ms c)),
         (''delivery_transport'', jtext delivery_transport_as_str (nc_transport c)), (''live'', JBool (nc_ready c)),
         (''addressable'', JBool (nc_addressable c)), (''unresolved_count'', jnat (nc_unresolved c))]
      in if nc_archived c then jset ''archived'' (JBool True) v else v)"

definition name_claimants_response :: "name_info_data \<Rightarrow> json" where
  "name_claimants_response info = JArr (map claimant_json (ni_claimants info))"

definition party_json :: "logical_agent_id \<Rightarrow> string \<Rightarrow> bool \<Rightarrow> json" where
  "party_json a name live = jobj [(''agent_id'', jid a), (''name'', JStr name), (''live'', JBool live)]"

definition name_unresolved_response :: "name_info_data \<Rightarrow> json" where
  "name_unresolved_response info = JArr (map (\<lambda>x. jobj
     [(''ask_message_id'', jid (no_ask x)), (''state'', jtext obligation_state_text (no_state x)),
      (''created_at_ms'', JInt (no_created_at_ms x)), (''last_activity_at_ms'', JInt (no_last_activity_ms x)),
      (''asker'', party_json (no_asker x) (no_asker_name x) (no_asker_live x)),
      (''responder'', party_json (no_responder x) (no_responder_name x) (no_responder_live x))])
     (ni_unresolved info))"

definition name_info_json :: "name_info_data \<Rightarrow> json" where
  "name_info_json info = jobj
     [(''name'', JStr (ni_name info)), (''claimants'', name_claimants_response info),
      (''unresolved'', name_unresolved_response info)]"

definition name_continue_json :: "name_continue \<Rightarrow> json" where
  "name_continue_json r = jobj
     [(''public_name'', JStr (ni_name (ct_info r))), (''logical_agent_id'', jid (ct_agent r)),
      (''incarnation_id'', jopt jid (ct_incarnation r)),
      (''delivery_transport'', jtext delivery_transport_as_str (ct_transport r)),
      (''addressable'', JBool (ct_addressable r)),
      (''continue'', JStr (if ct_unique r then ''unique_addressable'' else ''newest_claimant'')),
      (''claimants'', name_claimants_response (ct_info r)), (''unresolved'', name_unresolved_response (ct_info r))]"

section \<open>Schedules, clears, recovery, notices\<close>

definition schedule_result :: "created_schedule \<Rightarrow> json" where
  "schedule_result c = jobj
     [(''schedule_id'', jid (cs_schedule c)), (''recipient'', jid (cs_recipient c)),
      (''every_ms'', JInt (cs_interval_ms c)), (''next_fire_at_ms'', JInt (cs_next_fire_at_ms c)),
      (''state'', jtext schedule_state_text (cs_state c))]"

definition schedule_list_item :: "schedule_info \<Rightarrow> json" where
  "schedule_list_item s = jobj
     [(''schedule_id'', jid (sci_id s)), (''kind'', jtext schedule_kind_text (sci_kind s)),
      (''logical_agent_id'', jid (sci_agent s)), (''incarnation_id'', jopt jid (sci_incarnation s)),
      (''interval_ms'', JInt (sci_interval_ms s)), (''clock'', jtext schedule_clock_text (sci_clock s)),
      (''next_fire_at_ms'', JInt (sci_next_fire_at_ms s)), (''cycle'', jnat (sci_cycle s)),
      (''state'', jtext schedule_state_text (sci_state s)),
      (''last_outcome'', jopt (jtext firing_outcome_text) (sci_last_outcome s)),
      (''last_message_id'', jopt jid (sci_last_message s)), (''requester_agent_id'', jid (sci_requester s)),
      (''body'', jopt JStr (sci_body s)), (''idempotency_key'', jopt JStr (sci_key s))]"

definition first_cycle_at_ms :: "int option \<Rightarrow> int option \<Rightarrow> int \<Rightarrow> int" where
  "first_cycle_at_ms due every now_ms = (case (due, every) of
     (Some due_at_ms, _) \<Rightarrow> due_at_ms
   | (None, Some every_ms) \<Rightarrow> saturating_add_i64 now_ms every_ms
   | (None, None) \<Rightarrow> now_ms)"

definition clear_result_json :: "clear_result \<Rightarrow> json" where
  "clear_result_json c = jobj
     [(''operation_id'', jid (cl_operation c)), (''recipient'', jid (cl_recipient c)),
      (''recipient_incarnation'', jid (cl_incarnation c)), (''outcome'', jtext operation_outcome_text (cl_outcome c))]"

definition recover_result :: "recovery_report \<Rightarrow> json" where
  "recover_result r = jobj
     [(''starts_recovered'', jnat (rr_starts_recovered r)),
      (''outcomes_marked_unknown'', jnat (rr_outcomes_marked_unknown r)),
      (''untouched_pending_intents'', jnat (rr_untouched_pending_intents r)),
      (''unattempted_clears_failed'', jnat (rr_unattempted_clears_failed r)),
      (''retirements_completed'', jnat (rr_retirements_completed r)),
      (''retirements_still_live'', jnat (rr_retirements_still_live r)),
      (''incarnations_marked_lost'', jnat (rr_marked_lost r)), (''incarnations_continued'', jnat (rr_continued r)),
      (''native_sessions_refreshed'', jnat (rr_sessions_refreshed r)),
      (''native_sessions_learned'', jnat (rr_sessions_learned r)), (''names_reprojected'', jnat (rr_names_reprojected r)),
      (''unknown_starts_settled'', jnat (rr_unknown_starts_settled r))]"

definition operator_notice_json :: "operator_notice \<Rightarrow> json" where
  "operator_notice_json n = jobj
     [(''notice_id'', jid (on_id n)), (''body'', JStr (on_body n)), (''created_at_ms'', JInt (on_created_at_ms n)),
      (''acknowledged'', JBool (on_acknowledged n))]"

section \<open>The operator report\<close>

text \<open>A failing clock falls back to the recorded instant.\<close>

definition cycle_due_at_ms :: "'w peer \<Rightarrow> report_renew_row \<Rightarrow> ('w, int) slice" where
  "cycle_due_at_ms p r = (case ew_active_remaining_ms r of
     Some remaining \<Rightarrow>
       if ew_phase r = RScheduled
       then act_match (sl_clock p) (\<lambda>now. act_return (saturating_add_i64
              (case now of Inl _ \<Rightarrow> ew_scheduled_at_ms r | Inr t \<Rightarrow> t) remaining))
       else act_return (ew_scheduled_at_ms r)
   | None \<Rightarrow> act_return (ew_scheduled_at_ms r))"

definition report_renew_json :: "'w peer \<Rightarrow> report_renew_row \<Rightarrow> ('w, json) slice" where
  "report_renew_json p r = act_bind (cycle_due_at_ms p r) (\<lambda>due. act_return (jobj
     [(''renew_id'', jid (ew_id r)), (''phase'', jtext renew_phase_text (ew_phase r)), (''cycle'', jnat (ew_cycle r)),
      (''every_ms'', jopt JInt (ew_every_ms r)), (''cycle_due_at_ms'', JInt due)]))"

definition latest_operation_json :: "operation_id \<times> operation_kind \<times> operation_outcome \<Rightarrow> json" where
  "latest_operation_json = (\<lambda>(oid, kind, outc). jobj
     [(''operation_id'', jid oid), (''kind'', jtext operation_kind_text kind),
      (''outcome'', jtext operation_outcome_text outc)])"

definition report_incarnation_fields :: "report_incarnation_row \<Rightarrow> json \<Rightarrow> json" where
  "report_incarnation_fields i renew = jobj
     [(''incarnation_id'', jid (ei_id i)), (''state'', jtext incarnation_state_text (ei_state i)),
      (''backend_kind'', JStr (ei_backend_kind i)), (''working_directory'', JStr (ei_working_directory i)),
      (''herdr_session'', JStr (ei_herdr_session i)), (''intended_pane_id'', JStr (ei_intended_pane i)),
      (''expected_terminal_id'', JStr (ei_expected_terminal i)),
      (''observed_pane_id'', jopt JStr (ei_observed_pane i)),
      (''observed_terminal_id'', jopt JStr (ei_observed_terminal i)),
      (''requested'', jobj
         [(''model'', jopt JStr (rq_model (ei_requested i))), (''provider'', jopt JStr (rq_provider (ei_requested i))),
          (''effort'', jopt JStr (rq_effort (ei_requested i))), (''backend_args'', JArr (map JStr (ei_backend_args i)))]),
      (''created_at_ms'', JInt (ei_created_at_ms i)),
      (''native_session_rotated_at_ms'', jopt JInt (ei_rotated_at_ms i)),
      (''terminal_at_ms'', jopt JInt (ei_terminal_at_ms i)), (''terminal_reason'', jopt JStr (ei_terminal_reason i)),
      (''latest_operation'', jopt latest_operation_json (ei_latest_operation i)), (''renew'', renew)]"

definition report_incarnation ::
  "'w peer \<Rightarrow> lifecycle_observation list option \<Rightarrow> report_incarnation_row \<Rightarrow> ('w, json) slice" where
  "report_incarnation p live i =
     act_bind (case ei_renew i of
         None \<Rightarrow> act_return JNull
       | Some r \<Rightarrow> report_renew_json p r) (\<lambda>renew.
       let v = report_incarnation_fields i renew in
       act_return (case live of
           None \<Rightarrow> v
         | Some snap \<Rightarrow> jset ''live''
             (jopt (jtext agent_status_text) (status_for snap (ei_observed_pane i) (ei_observed_terminal i))) v))"

text \<open>The values of a list of acts, in order.\<close>

definition act_map :: "('x \<Rightarrow> ('w, 'e, 'b) act) \<Rightarrow> 'x list \<Rightarrow> ('w, 'e, 'b list) act" where
  "act_map f xs = act_fold (\<lambda>x ys. act_bind (f x) (\<lambda>y. act_return (ys @ [y]))) xs []"

definition report_agent_json ::
  "'w peer \<Rightarrow> lifecycle_observation list option \<Rightarrow> report_agent_row \<Rightarrow> ('w, json) slice" where
  "report_agent_json p live g = act_bind (act_map (report_incarnation p live) (eg_incarnations g)) (\<lambda>is.
     act_return (jobj
       [(''agent_id'', jid (eg_id g)), (''public_name'', JStr (eg_public_name g)),
        (''parent_agent_id'', jopt jid (eg_parent g)), (''explicitly_parentless'', JBool (eg_parentless g)),
        (''created_at_ms'', JInt (eg_created_at_ms g)), (''incarnations'', JArr is)]))"

text \<open>The names more than one agent of the report carries, with the agents in its order.\<close>

definition alias_collisions :: "report_agent_row list \<Rightarrow> json" where
  "alias_collisions gs = jobj (map (\<lambda>name.
       (name, JArr (map (jid \<circ> eg_id) (filter (\<lambda>g. eg_public_name g = name) gs))))
     (filter (\<lambda>name. 1 < length (filter (\<lambda>g. eg_public_name g = name) gs)) (remdups (map eg_public_name gs))))"

definition report_obligation_json :: "report_obligation_row \<Rightarrow> json" where
  "report_obligation_json x = jobj
     [(''ask_message_id'', jid (eo_ask x)), (''owing_agent_id'', jid (eo_owing x)),
      (''waiting_agent_id'', jid (eo_waiting x)), (''state'', jtext obligation_state_text (eo_state x)),
      (''created_at_ms'', JInt (eo_created_at_ms x)), (''last_activity_at_ms'', JInt (eo_last_activity_ms x)),
      (''resolving_message_id'', jopt jid (eo_resolving x))]"

definition render_report ::
  "'w peer \<Rightarrow> bool \<Rightarrow> lifecycle_observation list option \<Rightarrow> ('w, json) slice" where
  "render_report p active live =
     act_bind (sl_clock p) (\<lambda>now.
     act_bind (sl_query (if active then active_report now else store_report now)) (\<lambda>report.
     act_bind (act_map (report_agent_json p live) (ef_agents report)) (\<lambda>gs.
       let result = jobj
             [(''generated_at_ms'', JInt (ef_generated_at_ms report)), (''agents'', JArr gs),
              (''obligations'', JArr (map report_obligation_json (ef_obligations report))),
              (''alias_collisions'', alias_collisions (ef_agents report))]
       in act_return (if live = None then result
            else jset ''live_snapshot_at_ms'' (JInt (ef_generated_at_ms report)) result))))"

end
