(* ===== verification/Dispatch.thy ===== *)
theory Dispatch
  imports Answers Renewing Adopt
begin

text \<open>
  The client methods of \<open>src/src/daemon.rs\<close> as acts of the slice: each decodes its parameters, resolves the
  agents they select, runs one operation of the slice and answers with its result. Starts and
  recoveries wait on Herdr with fuel; their answer is \<open>None\<close> when it runs out.
\<close>

section \<open>Recipients\<close>

definition recipient_required :: slice_error where
  "recipient_required = invalid_request
     ''provide either exact recipient and recipient_incarnation, or recipient_alias''"

definition held_twice :: "string \<Rightarrow> slice_error" where
  "held_twice name = slice_conflict (''alias '' @ name
     @ '' is simultaneously held by a Ready incarnation and an active socket waiter'')"

definition lazy_key :: "string \<Rightarrow> string" where
  "lazy_key key = key @ '':lazy-adopt:recipient''"

definition resolve_recipient ::
  "'w peer \<Rightarrow> logical_agent_id option \<Rightarrow> incarnation_id option \<Rightarrow> string option \<Rightarrow> string
   \<Rightarrow> ('w, logical_agent_id \<times> incarnation_id) slice" where
  "resolve_recipient p recipient inc name key = (case (recipient, inc, name) of
     (Some a, Some i, None) \<Rightarrow> act_return (a, i)
   | (None, None, Some n) \<Rightarrow> resolve_or_adopt_alias p n key
   | _ \<Rightarrow> act_fail recipient_required)"

datatype tell_recipient =
    ToHerdr logical_agent_id incarnation_id
  | ToInbox logical_agent_id                              \<comment> \<open>SocketInbox\<close>

definition resolve_tell_recipient ::
  "'w peer \<Rightarrow> logical_agent_id option \<Rightarrow> incarnation_id option \<Rightarrow> string option \<Rightarrow> string
   \<Rightarrow> ('w, tell_recipient) slice" where
  "resolve_tell_recipient p recipient inc name key = (case (recipient, inc, name) of
     (Some a, Some i, None) \<Rightarrow> act_return (ToHerdr a i)
   | (None, None, Some n) \<Rightarrow>
       act_bind (sl_read (find_ready_alias n)) (\<lambda>ready.
       act_bind (sl_read (active_socket_waiter_for_alias n)) (\<lambda>waiter. case (ready, waiter) of
         (Some _, Some _) \<Rightarrow> act_fail (held_twice n)
       | (Some (a, i), None) \<Rightarrow> act_return (ToHerdr a i)
       | (None, Some a) \<Rightarrow> act_return (ToInbox a)
       | (None, None) \<Rightarrow> act_bind (resolve_or_adopt_alias p n key) (\<lambda>(a, i). act_return (ToHerdr a i))))
   | _ \<Rightarrow> act_fail recipient_required)"

definition resolve_schedule_recipient ::
  "'w peer \<Rightarrow> logical_agent_id option \<Rightarrow> incarnation_id option \<Rightarrow> string option \<Rightarrow> string
   \<Rightarrow> ('w, logical_agent_id) slice" where
  "resolve_schedule_recipient p recipient inc name key = (case (recipient, inc, name) of
     (Some a, Some i, None) \<Rightarrow>
       act_bind (sl_read (logical_agent_of i)) (\<lambda>owner.
         if owner \<noteq> a
         then act_fail (slice_conflict ''recipient incarnation does not belong to the schedule's logical agent'')
         else act_return a)
   | (Some a, None, None) \<Rightarrow> act_return a
   | _ \<Rightarrow> act_bind (resolve_tell_recipient p recipient inc name key) (\<lambda>target. case target of
       ToHerdr a _ \<Rightarrow> act_return a | ToInbox a \<Rightarrow> act_return a))"

section \<open>Asks, tells and replies\<close>

definition ask_reminder_interval :: "ask_params \<Rightarrow> slice_error + int option" where
  "ask_reminder_interval q =
     (if kp_no_remind q \<and> kp_remind_after_ms q \<noteq> None
      then Inl (invalid_request ''ask accepts only one of remind_after_ms or no_remind'')
      else Inr (if kp_no_remind q then None
        else Some (case kp_remind_after_ms q of None \<Rightarrow> DEFAULT_REMINDER_INTERVAL_MS | Some t \<Rightarrow> t)))"

definition ask_is_now :: "ask_params \<Rightarrow> slice_error + unit" where
  "ask_is_now q = ensure (kp_due_at_ms q = None) (invalid_request
     (''ask does not accept due_at_ms: an ask is delivered now. Use remind_after_ms for ''
      @ ''an unanswered ask, or tell for a message that should arrive later''))"

definition with_reminders :: "int option \<Rightarrow> json \<Rightarrow> json" where
  "with_reminders remind v = (case remind of
     Some t \<Rightarrow> jset ''remind_after_ms'' (JInt t) v
   | None \<Rightarrow> jset ''reminders'' (JStr ''disabled'') v)"

definition with_due :: "int option \<Rightarrow> json \<Rightarrow> json" where
  "with_due due v = (case due of Some t \<Rightarrow> jset ''due_at_ms'' (JInt t) v | None \<Rightarrow> v)"

definition dispatch_ask :: "'w wire \<Rightarrow> json \<Rightarrow> ('w, json) slice" where
  "dispatch_ask w v = with_params (wr_ask w) v (\<lambda>q.
     act_bind (act_result (ask_is_now q)) (\<lambda>_.
     act_bind (act_result (ask_reminder_interval q)) (\<lambda>remind.
     act_bind (resolve_recipient (wr_peer w) (kp_recipient q) (kp_incarnation q) (kp_alias q) (lazy_key (kp_key q)))
       (\<lambda>(recipient, inc).
     act_bind (slice_ask (wr_peer w) (kp_sender q) recipient inc (kp_body q) (kp_key q) None remind (kp_from_operator q))
       (\<lambda>(message, oid).
     act_bind (sl_read (delivery_outcome_of oid)) (\<lambda>outc.
       act_return (with_reminders remind (with_due (kp_due_at_ms q) (jobj
         [(''message_id'', jid message), (''operation_id'', jid oid), (''recipient'', jid recipient),
          (''recipient_incarnation'', jid inc), (''waiting_agent_id'', jid (kp_sender q)),
          (''delivery_outcome'', jtext delivery_outcome_text outc)])))))))))"

definition one_shot_or_every :: slice_error where
  "one_shot_or_every = invalid_request ''tell accepts either a one-shot due_at_ms or every_ms, not both''"

text \<open>A repeating tell: the schedule of the same key, or a new one whose first firing is one interval away.\<close>

definition schedule_repeating_tell :: "'w peer \<Rightarrow> tell_params \<Rightarrow> int \<Rightarrow> ('w, json) slice" where
  "schedule_repeating_tell p q every =
     (if tp_due_at_ms q \<noteq> None then act_fail one_shot_or_every
      else act_bind (sl_read (tell_schedule_by_idempotency_key (tp_key q) (tp_sender q) every (tp_body q))) (\<lambda>found.
        case found of
          Some created \<Rightarrow> act_return (schedule_result created)
        | None \<Rightarrow>
            act_bind (resolve_schedule_recipient p (tp_recipient q) (tp_incarnation q) (tp_alias q)
                (lazy_key (tp_key q))) (\<lambda>recipient.
            act_bind (sl_clock p) (\<lambda>now.
            act_bind (schedule_tell p (tp_sender q) recipient (tp_body q) every
                (saturating_add_i64 now every) (tp_key q)) (\<lambda>created.
              act_return (schedule_result created))))))"

definition herdr_tell_json :: "message_id \<Rightarrow> operation_id \<Rightarrow> logical_agent_id \<Rightarrow> incarnation_id \<Rightarrow> (string \<times> json) list" where
  "herdr_tell_json message oid recipient inc =
     [(''message_id'', jid message), (''operation_id'', jid oid), (''recipient'', jid recipient),
      (''recipient_incarnation'', jid inc), (''delivery_transport'', JStr ''herdr_prompt'')]"

text \<open>A tell to a socket waiter is recorded, never typed.\<close>

definition tell_socket_waiter :: "'w peer \<Rightarrow> tell_params \<Rightarrow> logical_agent_id \<Rightarrow> ('w, json) slice" where
  "tell_socket_waiter p q recipient =
     act_bind (record_socket_tell p (tp_sender q) recipient (tp_body q) (tp_key q) (tp_due_at_ms q)) (\<lambda>message.
     act_bind (sl_read (delivery_outcome_for_message message)) (\<lambda>outc.
       act_return (jobj
         [(''message_id'', jid message), (''operation_id'', JNull), (''recipient'', jid recipient),
          (''recipient_incarnation'', JNull), (''delivery_transport'', JStr ''socket_inbox''),
          (''delivery_outcome'', jtext delivery_outcome_text outc)])))"

definition dispatch_tell :: "'w wire \<Rightarrow> json \<Rightarrow> ('w, json) slice" where
  "dispatch_tell w v = with_params (wr_tell w) v (\<lambda>q. case tp_every_ms q of
     Some every \<Rightarrow> schedule_repeating_tell (wr_peer w) q every
   | None \<Rightarrow>
       act_bind (resolve_tell_recipient (wr_peer w) (tp_recipient q) (tp_incarnation q) (tp_alias q)
           (lazy_key (tp_key q))) (\<lambda>target.
       act_bind (case target of
           ToHerdr recipient inc \<Rightarrow>
             act_bind (slice_tell (wr_peer w) (tp_sender q) recipient inc (tp_body q) (tp_key q) (tp_due_at_ms q))
               (\<lambda>(message, oid).
             act_bind (sl_read (delivery_outcome_of oid)) (\<lambda>outc.
               act_return (jobj (herdr_tell_json message oid recipient inc
                 @ [(''delivery_outcome'', jtext delivery_outcome_text outc)]))))
         | ToInbox recipient \<Rightarrow> tell_socket_waiter (wr_peer w) q recipient) (\<lambda>result.
         act_return (with_due (tp_due_at_ms q) result))))"

text \<open>The outcome of a reply is that of its operation, or of its message when it has none.\<close>

definition reply_outcome :: "created_reply \<Rightarrow> db \<Rightarrow> store_error + delivery_outcome" where
  "reply_outcome c d = (case cr_operation c of
     Some oid \<Rightarrow> delivery_outcome_of oid d | None \<Rightarrow> delivery_outcome_for_message (cr_message c) d)"

definition reply_json :: "created_reply \<Rightarrow> (string \<times> json) list" where
  "reply_json c =
     [(''message_id'', jid (cr_message c)), (''operation_id'', jopt jid (cr_operation c)),
      (''recipient_incarnation'', jopt jid (cr_incarnation c)),
      (''disposition'', jtext reply_disposition_text (cr_disposition c))]"

definition dispatch_reply :: "'w wire \<Rightarrow> json \<Rightarrow> ('w, json) slice" where
  "dispatch_reply w v = with_params (wr_reply w) v (\<lambda>q.
     act_bind (slice_reply (wr_peer w) (yp_reply_to q) (yp_requester q) (yp_body q) (yp_disposition q) (yp_key q)) (\<lambda>c.
     act_bind (sl_read (reply_outcome c)) (\<lambda>outc.
     act_bind (sl_read (obligation_state_of (yp_reply_to q))) (\<lambda>state.
       act_return (jobj (reply_json c @ [(''delivery_outcome'', jtext delivery_outcome_text outc),
         (''obligation_state'', jtext obligation_state_text state)]))))))"

section \<open>The pull sink\<close>

text \<open>A live lease is positive, so a lease id that is not never matches one.\<close>

definition dispatch_replies_claim :: "'w wire \<Rightarrow> json \<Rightarrow> ('w, json) slice" where
  "dispatch_replies_claim w v = with_params (wr_replies_claim w) v (\<lambda>q.
     act_bind (sl_transact_now (wr_peer w) (\<lambda>now. claim_ask_pull_lease now (lc_ask q) (lc_requester q))) (\<lambda>lease.
       act_return (jobj [(''lease_id'', jnat lease), (''ask_message_id'', jid (lc_ask q))])))"

definition poll_replies :: "replies_params \<Rightarrow> ('w, string \<times> int \<times> ask_pull_event list) slice" where
  "poll_replies q = sl_read (poll_ask_pull (lp_ask q) (lp_requester q) (lp_after q) (map_option nat (lp_lease q)))"

definition or_zero :: "int option \<Rightarrow> int" where
  "or_zero v = (case v of None \<Rightarrow> 0 | Some t \<Rightarrow> t)"

definition dispatch_replies :: "'w wire \<Rightarrow> json \<Rightarrow> ('w, json) slice" where
  "dispatch_replies w v = with_params (wr_replies w) v (\<lambda>q.
     if or_zero (lp_timeout_ms q) \<noteq> 0
     then act_fail (invalid_request ''positive replies timeout requires a parked client connection'')
     else act_bind (poll_replies q) (\<lambda>poll. act_return (replies_poll_json poll)))"

definition dispatch_replies_ack :: "'w wire \<Rightarrow> json \<Rightarrow> ('w, json) slice" where
  "dispatch_replies_ack w v = with_params (wr_replies_ack w) v (\<lambda>q.
     act_bind (sl_transact_now (wr_peer w) (\<lambda>now.
         ack_ask_pull_delivery now (lk_ask q) (lk_requester q) (lk_message q) (nat (lk_lease q)))) (\<lambda>outc.
     act_bind (sl_read (obligation_state_of (lk_ask q))) (\<lambda>state.
       act_return (jobj [(''message_id'', jid (lk_message q)), (''outcome'', jtext delivery_outcome_text outc),
         (''obligation_state'', jtext obligation_state_text state)]))))"

section \<open>Identities\<close>

definition dispatch_whoami :: "'w wire \<Rightarrow> json \<Rightarrow> string \<Rightarrow> ('w, json) slice" where
  "dispatch_whoami w v request_id = with_params (wr_whoami w) v (\<lambda>q. case (mp_pane q, mp_alias q) of
     (Some pane, None) \<Rightarrow>
       act_bind (resolve_or_adopt_pane (wr_peer w) pane (option_or request_id (mp_lazy_key q))) (\<lambda>x.
         act_return (ready_identity_json x))
   | (None, Some n) \<Rightarrow>
       act_bind (sl_read (resolve_ready_alias n)) (\<lambda>(a, inc).
       act_bind (sl_read (agent_address a)) (\<lambda>name. act_return (identity_json a inc name)))
   | _ \<Rightarrow> act_fail (invalid_request ''provide either pane_id or alias''))"

datatype who_identity = WhoIncarnation incarnation_id | WhoWaiter logical_agent_id

definition some_count :: "'a option \<Rightarrow> nat" where "some_count v = (if v = None then 0 else 1)"

definition who_selector_count :: "who_params \<Rightarrow> nat" where
  "who_selector_count q = some_count (hp_incarnation q) + some_count (hp_agent q) + some_count (hp_alias q)
     + some_count (hp_pane q)"

definition one_selector :: slice_error where
  "one_selector = invalid_request ''provide exactly one of incarnation_id, agent_id, alias, or pane_id''"

definition who_by_agent :: "logical_agent_id \<Rightarrow> db \<Rightarrow> slice_error + who_identity" where
  "who_by_agent a d =
     rbind (of_store (delivery_transport_of a d)) (\<lambda>transport. case transport of
       HerdrPrompt \<Rightarrow> map_sum id WhoIncarnation (of_store (newest_incarnation_for_agent a d))
     | SocketInbox \<Rightarrow> Inr (WhoWaiter a)
     | AskPull \<Rightarrow> Inl (invalid_request (''logical agent '' @ id_display a
         @ '' cannot have delivery_transport ask_pull'')))"

definition who_by_alias :: "string \<Rightarrow> db \<Rightarrow> slice_error + who_identity" where
  "who_by_alias n d =
     rbind (of_store (find_ready_alias n d)) (\<lambda>ready.
     rbind (of_store (active_socket_waiter_for_alias n d)) (\<lambda>waiter. case (ready, waiter) of
       (Some _, Some _) \<Rightarrow> Inl (held_twice n)
     | (Some (_, inc), None) \<Rightarrow> Inr (WhoIncarnation inc)
     | (None, Some a) \<Rightarrow> Inr (WhoWaiter a)
     | (None, None) \<Rightarrow> map_sum id (WhoIncarnation \<circ> snd) (of_store (resolve_ready_alias n d))))"

definition who_by_pane :: "string \<Rightarrow> db \<Rightarrow> slice_error + who_identity" where
  "who_by_pane pane d =
     rbind (of_store (find_ready_identity_for_pane pane d)) (\<lambda>found. case found of
       Some x \<Rightarrow> Inr (WhoIncarnation (rd_incarnation x))
     | None \<Rightarrow> Inl (slice_conflict (''pane '' @ pane
         @ '' has no Ready Kelpie identity; if it has a live agent, run kelpie who ''
         @ ''from that pane to adopt it, or use kelpie adopt with its exact pane and terminal'')))"

definition resolve_who_identity :: "who_params \<Rightarrow> db \<Rightarrow> slice_error + who_identity" where
  "resolve_who_identity q d =
     rbind (ensure (who_selector_count q = 1) one_selector) (\<lambda>_.
       case hp_incarnation q of Some inc \<Rightarrow> Inr (WhoIncarnation inc) | None \<Rightarrow>
       case hp_agent q of Some a \<Rightarrow> who_by_agent a d | None \<Rightarrow>
       case hp_alias q of Some n \<Rightarrow> who_by_alias n d | None \<Rightarrow>
       who_by_pane (option_or [] (hp_pane q)) d)"

definition attribution_response :: "incarnation_id \<Rightarrow> ('w, json) slice" where
  "attribution_response inc = act_bind (sl_read (attribution_evidence inc)) (\<lambda>ev. act_return (attribution_result ev))"

definition who_identity_response :: "who_identity \<Rightarrow> ('w, json) slice" where
  "who_identity_response x = (case x of
     WhoIncarnation inc \<Rightarrow> act_bind (attribution_response inc) (\<lambda>result.
       let result = jset ''delivery_transport'' (JStr ''herdr_prompt'') result in
       act_return (jset ''addressable''
         (JBool (Option.bind (json_get ''incarnation_state'' result) json_as_str = Some ''ready'')) result))
   | WhoWaiter a \<Rightarrow>
       act_bind (sl_read (agent_address a)) (\<lambda>name.
       act_bind (sl_read (agent_is_addressable a)) (\<lambda>addressable. act_return (jobj
         [(''logical_agent_id'', jid a), (''incarnation_id'', JNull), (''public_name'', JStr name),
          (''delivery_transport'', JStr ''socket_inbox''), (''addressable'', JBool addressable),
          (''backend_kind'', JNull), (''incarnation_state'', JNull), (''requested'', JNull)]))))"

definition dispatch_name_info :: "'w wire \<Rightarrow> json \<Rightarrow> ('w, json) slice" where
  "dispatch_name_info w v = with_params (wr_name_info w) v (\<lambda>q.
     act_bind (sl_query (name_history (gp_name q))) (\<lambda>info. act_return (name_info_json info)))"

text \<open>The alias, when it is the one selector and refresh is off.\<close>

definition sole_alias :: "who_params \<Rightarrow> string option" where
  "sole_alias q = (case (hp_alias q, hp_agent q, hp_incarnation q, hp_pane q, hp_refresh q) of
     (Some n, None, None, None, False) \<Rightarrow> Some n | _ \<Rightarrow> None)"

definition who_resolve_alone :: slice_error where
  "who_resolve_alone = invalid_request
     ''who --resolve requires exactly one alias and does not accept --history or --refresh''"

definition dispatch_who :: "'w wire \<Rightarrow> json \<Rightarrow> ('w, json) slice" where
  "dispatch_who w v = with_params (wr_who w) v (\<lambda>q.
     if hp_resolve q then
       (case sole_alias q of
          Some n \<Rightarrow> if hp_history q then act_fail who_resolve_alone
            else act_bind (sl_read (resolve_name_continue n)) (\<lambda>r. act_return (name_continue_json r))
        | None \<Rightarrow> act_fail who_resolve_alone)
     else if hp_history q then
       (case sole_alias q of
          Some n \<Rightarrow> dispatch_name_info w (jobj [(''name'', JStr n)])
        | None \<Rightarrow> act_fail (invalid_request ''who history requires exactly one alias and does not accept refresh''))
     else
       act_bind (sl_pure (resolve_who_identity q)) (\<lambda>x. case x of
         WhoWaiter a \<Rightarrow>
           if hp_refresh q
           then act_fail (invalid_request ''who --refresh requires an incarnation; socket waiters have no attribution'')
           else who_identity_response x
       | WhoIncarnation inc \<Rightarrow>
           act_bind (if hp_refresh q then refresh_native_session (wr_peer w) inc else act_return ())
             (\<lambda>_. who_identity_response x)))"

definition dispatch_ask_info :: "'w wire \<Rightarrow> json \<Rightarrow> ('w, json) slice" where
  "dispatch_ask_info w v = with_params (wr_ask_info w) v (\<lambda>q.
     act_bind (sl_read (ask_info (fp_ask q))) (\<lambda>f. act_return (ask_info_json f)))"

definition resolve_attribution_incarnation :: "who_params \<Rightarrow> db \<Rightarrow> slice_error + incarnation_id" where
  "resolve_attribution_incarnation q d =
     rbind (ensure (who_selector_count q = 1) one_selector) (\<lambda>_.
       case hp_incarnation q of Some inc \<Rightarrow> Inr inc | None \<Rightarrow>
       case hp_agent q of Some a \<Rightarrow> of_store (newest_incarnation_for_agent a d) | None \<Rightarrow>
       case hp_alias q of Some n \<Rightarrow> map_sum id snd (of_store (resolve_ready_alias n d)) | None \<Rightarrow>
       map_sum id rd_incarnation (of_store (ready_identity_for_pane (option_or [] (hp_pane q)) d)))"

definition dispatch_attribution :: "'w wire \<Rightarrow> json \<Rightarrow> ('w, json) slice" where
  "dispatch_attribution w v = with_params (wr_who w) v (\<lambda>q.
     act_bind (sl_pure (resolve_attribution_incarnation q)) (\<lambda>inc.
     act_bind (if hp_refresh q then refresh_native_session (wr_peer w) inc else act_return ())
       (\<lambda>_. attribution_response inc)))"

text \<open>The agent a rename names: by id, or by live alias.\<close>

definition rename_target :: "rename_params \<Rightarrow> db \<Rightarrow> slice_error + logical_agent_id" where
  "rename_target q d = (case (nr_agent q, nr_alias q) of
     (Some a, None) \<Rightarrow> Inr a
   | (None, Some n) \<Rightarrow> map_sum id fst (of_store (resolve_ready_alias n d))
   | _ \<Rightarrow> Inl (invalid_request ''provide exactly one of agent_id or alias''))"

definition dispatch_rename :: "'w wire \<Rightarrow> json \<Rightarrow> ('w, json) slice" where
  "dispatch_rename w v = with_params (wr_rename w) v (\<lambda>q.
     act_bind (sl_pure (rename_target q)) (\<lambda>a.
     act_bind (slice_rename (wr_peer w) a (nr_name q)) (\<lambda>x. act_return (ready_identity_json x))))"

definition dispatch_report :: "'w wire \<Rightarrow> json \<Rightarrow> ('w, json) slice" where
  "dispatch_report w v = with_params (wr_report w) v (\<lambda>q.
     act_bind (if rv_live q then act_bind (live_agent_status (wr_peer w)) (\<lambda>snap. act_return (Some snap))
               else act_return None) (\<lambda>live.
       render_report (wr_peer w) (rv_active q) live))"

section \<open>Lifecycle\<close>

definition dispatch_recover :: "nat \<Rightarrow> 'w wire \<Rightarrow> ('w, json option) slice" where
  "dispatch_recover fuel w =
     act_bind (slice_recover fuel (wr_peer w)) (\<lambda>r. act_return (map_option recover_result r))"

definition launch_answer :: "'w wire \<Rightarrow> launch_result \<Rightarrow> slice_error + json" where
  "launch_answer w c = (case lr_submission c of
     None \<Rightarrow> Inr (launch_result_json None c)
   | Some e \<Rightarrow> rbind (evidence_json (wr_value w) e) (\<lambda>j. Inr (launch_result_json (Some j) c)))"

definition dispatch_start :: "nat \<Rightarrow> 'w wire \<Rightarrow> json \<Rightarrow> ('w, json option) slice" where
  "dispatch_start fuel w v = with_params (wr_start w) v (\<lambda>n.
     act_bind (slice_launch fuel (wr_peer w) n) (\<lambda>r. case r of
       None \<Rightarrow> act_return None
     | Some c \<Rightarrow> act_bind (act_result (launch_answer w c)) (\<lambda>j. act_return (Some j))))"

definition dispatch_adopt :: "'w wire \<Rightarrow> json \<Rightarrow> ('w, json) slice" where
  "dispatch_adopt w v = with_params (wr_adopt w) v (\<lambda>n.
     act_bind (slice_adopt (wr_peer w) n) (\<lambda>c. act_return (adopt_json c)))"

definition dispatch_retire :: "'w wire \<Rightarrow> json \<Rightarrow> ('w, json) slice" where
  "dispatch_retire w v = with_params (wr_retire w) v (\<lambda>q.
     act_bind (slice_retire (wr_peer w) (tr_incarnation q) (tr_key q) (tr_close_pane q)) (\<lambda>r. act_return (retire_json r)))"

section \<open>Socket waiters\<close>

definition dispatch_waiter_register :: "'w wire \<Rightarrow> json \<Rightarrow> ('w, json) slice" where
  "dispatch_waiter_register w v = with_params (wr_waiter_register w) v (\<lambda>q.
     act_bind (sl_transact_now (wr_peer w) (\<lambda>now. register_socket_waiter now (wg_public_name q) (wg_parent q) (wg_key q)))
       (\<lambda>a. act_return (jobj
         [(''logical_agent_id'', jid a), (''public_name'', JStr (wg_public_name q)),
          (''delivery_transport'', JStr ''socket_inbox'')])))"

definition resolve_waiter_retire_target :: "waiter_retire_params \<Rightarrow> db \<Rightarrow> slice_error + logical_agent_id" where
  "resolve_waiter_retire_target q d = (case (wt_agent q, wt_alias q) of
     (Some a, None) \<Rightarrow> Inr a
   | (None, Some n) \<Rightarrow>
       rbind (of_store (find_ready_alias n d)) (\<lambda>ready.
       rbind (of_store (active_socket_waiter_for_alias n d)) (\<lambda>waiter. case (ready, waiter) of
         (None, Some a) \<Rightarrow> Inr a
       | (Some _, Some _) \<Rightarrow> Inl (held_twice n)
       | _ \<Rightarrow> Inl (slice_conflict (''no unique active socket waiter for alias '' @ n))))
   | _ \<Rightarrow> Inl (invalid_request ''provide exactly one of logical_agent_id or alias''))"

definition dispatch_waiter_retire :: "'w wire \<Rightarrow> json \<Rightarrow> ('w, json) slice" where
  "dispatch_waiter_retire w v = with_params (wr_waiter_retire w) v (\<lambda>q.
     act_bind (sl_pure (resolve_waiter_retire_target q)) (\<lambda>a.
     act_bind (retire_waiter (wr_peer w) a) (\<lambda>ended. act_return (waiter_retire_result a ended))))"

section \<open>Obligations\<close>

definition dispatch_pending :: "'w wire \<Rightarrow> json \<Rightarrow> ('w, json) slice" where
  "dispatch_pending w v = with_params (wr_pending w) v (\<lambda>q.
     act_bind (sl_read (cancelled_while_away (pd_agent q))) (\<lambda>cancelled.
     act_bind (sl_read (cancelled_owing_while_away (pd_agent q))) (\<lambda>owing.
     act_bind (sl_read (pending_obligations (pd_agent q))) (\<lambda>open.
       act_return (JArr (map pending_json open @ map (cancelled_away_json ''waiting'') cancelled
         @ map (cancelled_away_json ''owing'') owing))))))"

definition dispatch_cancel :: "'w wire \<Rightarrow> json \<Rightarrow> ('w, json) slice" where
  "dispatch_cancel w v = with_params (wr_cancel w) v (\<lambda>q.
     act_bind (slice_cancel (wr_peer w) (xc_requester q) (xc_ask q) (xc_reason q)) (\<lambda>c. act_return (cancel_result c)))"

definition reminder_snooze_deadline :: "int option \<Rightarrow> int option \<Rightarrow> int \<Rightarrow> slice_error + int" where
  "reminder_snooze_deadline until_ms for_ms now_ms =
     (let invalid = invalid_request ''provide one future until_ms or positive for_ms without overflow'' in
      case (until_ms, for_ms) of
        (Some until, None) \<Rightarrow> if now_ms < until then Inr until else Inl invalid
      | (None, Some duration) \<Rightarrow>
          if 0 < duration then ok_or invalid (checked_add_i64 now_ms duration) else Inl invalid
      | _ \<Rightarrow> Inl invalid)"

definition reminder_of :: "message_id \<Rightarrow> ('w, json) slice" where
  "reminder_of ask = act_bind (sl_read (ask_info ask)) (\<lambda>f. act_return (jopt reminder_json (fo_reminder f)))"

definition dispatch_reminder_snooze :: "'w wire \<Rightarrow> json \<Rightarrow> ('w, json) slice" where
  "dispatch_reminder_snooze w v = with_params (wr_snooze w) v (\<lambda>q.
     act_bind (sl_clock (wr_peer w)) (\<lambda>now.
     act_bind (act_result (reminder_snooze_deadline (zp_until_ms q) (zp_for_ms q) now)) (\<lambda>until_ms.
     act_bind (slice_snooze_reminder (wr_peer w) (zp_requester q) (zp_ask q) until_ms) (\<lambda>_.
     act_bind (reminder_of (zp_ask q)) (\<lambda>reminder. act_return (jobj
       [(''state'', JStr ''snoozed''), (''until_ms'', JInt until_ms), (''reminder'', reminder)]))))))"

definition dispatch_reminder_interval :: "'w wire \<Rightarrow> json \<Rightarrow> ('w, json) slice" where
  "dispatch_reminder_interval w v = with_params (wr_interval w) v (\<lambda>q.
     act_bind (slice_increase_reminder_interval (wr_peer w) (vp_requester q) (vp_ask q) (vp_every_ms q)) (\<lambda>_.
     act_bind (reminder_of (vp_ask q)) (\<lambda>reminder. act_return (jobj
       [(''state'', JStr ''interval_updated''), (''reminder'', reminder)]))))"

definition dispatch_reminder_disable :: "'w wire \<Rightarrow> json \<Rightarrow> ('w, json) slice" where
  "dispatch_reminder_disable w v = with_params (wr_disable w) v (\<lambda>q.
     act_bind (slice_disable_reminder (wr_peer w) (xp_requester q) (xp_ask q)) (\<lambda>_.
     act_bind (reminder_of (xp_ask q)) (\<lambda>reminder. act_return (jobj
       [(''state'', JStr ''disabled''), (''reminder'', reminder)]))))"

section \<open>Renews, schedules, notices\<close>

text \<open>A renew names its target by exact ids: it is never resolved from a live name.\<close>

definition dispatch_renew :: "'w wire \<Rightarrow> json \<Rightarrow> ('w, json) slice" where
  "dispatch_renew w v = with_params (wr_renew w) v (\<lambda>q.
     case (np_recipient q, np_recipient_incarnation q) of
       (Some recipient, Some inc) \<Rightarrow>
         if np_every_ms q \<noteq> None \<and> np_due_at_ms q \<noteq> None
         then act_fail (invalid_request
           (''renew accepts either a one-shot due time or every_ms, not both: every_ms re-arms ''
            @ ''itself after each cycle''))
         else act_bind (sl_clock (wr_peer w)) (\<lambda>now.
           let scheduled = first_cycle_at_ms (np_due_at_ms q) (np_every_ms q) now in
           act_bind (slice_renew (wr_peer w) (np_requester q) recipient inc (np_prepare_prompt q) (np_prompt q)
               (np_on_timeout q) (np_prepare_timeout_ms q) (np_every_ms q) scheduled) (\<lambda>i.
             let result = jobj
                   [(''renew_id'', jid i), (''recipient'', jid recipient), (''recipient_incarnation'', jid inc),
                    (''scheduled_at_ms'', JInt scheduled), (''on_timeout'', jtext renew_timeout_text (np_on_timeout q)),
                    (''phase'', JStr ''scheduled'')]
             in act_return (case np_every_ms q of None \<Rightarrow> result | Some t \<Rightarrow> jset ''every_ms'' (JInt t) result)))
     | _ \<Rightarrow> act_fail (invalid_request
         (''renew requires recipient and recipient_incarnation; it does not resolve an alias, ''
          @ ''because a policy aimed at the wrong agent clears its conversation every cycle'')))"

definition dispatch_renew_cancel :: "'w wire \<Rightarrow> json \<Rightarrow> ('w, json) slice" where
  "dispatch_renew_cancel w v = with_params (wr_renew_cancel w) v (\<lambda>q.
     act_bind (slice_cancel_renew (wr_peer w) (nx_renew q) (nx_requester q) (nx_reason q)) (\<lambda>n.
       act_return (jobj [(''renew_id'', jid (nx_renew q)), (''notice_id'', jid n)])))"

definition dispatch_schedule_cancel :: "'w wire \<Rightarrow> json \<Rightarrow> ('w, json) slice" where
  "dispatch_schedule_cancel w v = with_params (wr_schedule_cancel w) v (\<lambda>q.
     act_bind (slice_cancel_schedule (wr_peer w) (hx_schedule q) (hx_requester q) (hx_reason q)) (\<lambda>_.
       act_return (jobj [(''schedule_id'', jid (hx_schedule q)), (''state'', JStr ''cancelled'')])))"

definition dispatch_schedule_list :: "'w wire \<Rightarrow> json \<Rightarrow> ('w, json) slice" where
  "dispatch_schedule_list w v = with_params (wr_schedule_list w) v (\<lambda>q.
     act_bind (sl_query (schedules_for_agent (hl_agent q))) (\<lambda>items.
       act_return (jobj [(''schedules'', JArr (map schedule_list_item items))])))"

definition dispatch_notice_create :: "'w wire \<Rightarrow> json \<Rightarrow> ('w, json) slice" where
  "dispatch_notice_create w v = with_params (wr_notice w) v (\<lambda>q.
     act_bind (act_error SStore (act_notice (wr_peer w) (nb_body q))) (\<lambda>n.
       act_return (jobj [(''notice_id'', jid n)])))"

definition dispatch_notice_list :: "('w, json) slice" where
  "dispatch_notice_list =
     act_bind (sl_query operator_notices) (\<lambda>items. act_return (JArr (map operator_notice_json items)))"

section \<open>Dispatch\<close>

definition answered :: "('w, json) slice \<Rightarrow> ('w, json option) slice" where
  "answered m = act_bind m (\<lambda>v. act_return (Some v))"

definition dispatch_method :: "nat \<Rightarrow> 'w wire \<Rightarrow> daemon_request \<Rightarrow> ('w, json option) slice" where
  "dispatch_method fuel w q =
     (let m = cq_method q; v = cq_params q in
      if m = ''whoami'' then answered (dispatch_whoami w v (cq_id q))
      else if m = ''who'' then answered (dispatch_who w v)
      else if m = ''recover'' then dispatch_recover fuel w
      else if m = ''start'' \<or> m = ''handoff'' then dispatch_start fuel w v
      else if m = ''adopt'' then answered (dispatch_adopt w v)
      else if m = ''ask'' then answered (dispatch_ask w v)
      else if m = ''replies.claim'' then answered (dispatch_replies_claim w v)
      else if m = ''replies'' then answered (dispatch_replies w v)
      else if m = ''replies.ack'' then answered (dispatch_replies_ack w v)
      else if m = ''waiter.register'' then answered (dispatch_waiter_register w v)
      else if m = ''waiter.retire'' then answered (dispatch_waiter_retire w v)
      else if m = ''tell'' then answered (dispatch_tell w v)
      else if m = ''renew'' then answered (dispatch_renew w v)
      else if m = ''renew.cancel'' then answered (dispatch_renew_cancel w v)
      else if m = ''schedule.cancel'' then answered (dispatch_schedule_cancel w v)
      else if m = ''schedule.list'' then answered (dispatch_schedule_list w v)
      else if m = ''reply'' then answered (dispatch_reply w v)
      else if m = ''pending'' then answered (dispatch_pending w v)
      else if m = ''name.info'' then answered (dispatch_name_info w v)
      else if m = ''ask.info'' then answered (dispatch_ask_info w v)
      else if m = ''attribution'' then answered (dispatch_attribution w v)
      else if m = ''report'' then answered (dispatch_report w v)
      else if m = ''rename'' then answered (dispatch_rename w v)
      else if m = ''cancel'' then answered (dispatch_cancel w v)
      else if m = ''reminder.snooze'' then answered (dispatch_reminder_snooze w v)
      else if m = ''reminder.interval'' then answered (dispatch_reminder_interval w v)
      else if m = ''reminder.disable'' then answered (dispatch_reminder_disable w v)
      else if m = ''notice.create'' then answered (dispatch_notice_create w v)
      else if m = ''notice.list'' then answered dispatch_notice_list
      else if m = ''retire'' then answered (dispatch_retire w v)
      else act_fail (invalid_request (''unknown client method '' @ m)))"

text \<open>An act that does not fail: the daemon answers every failure of a method.\<close>

type_synonym ('w, 'a) serving = "'w kelpie \<Rightarrow> 'a \<times> 'w kelpie"

definition answer_with :: "'w wire \<Rightarrow> string \<Rightarrow> ('w, json option) slice \<Rightarrow> ('w, client_response option) serving" where
  "answer_with w i m k = (case m k of
     (Inr None, k') \<Rightarrow> (None, k')
   | (Inr (Some v), k') \<Rightarrow> (Some (respond (wr_peer w) i (Inr v)), k')
   | (Inl e, k') \<Rightarrow> (Some (respond (wr_peer w) i (Inl e)), k'))"

definition dispatch_request :: "nat \<Rightarrow> 'w wire \<Rightarrow> daemon_request \<Rightarrow> ('w, client_response option) serving" where
  "dispatch_request fuel w q = answer_with w (cq_id q) (dispatch_method fuel w q)"

end
