(* ===== verification/Parked.thy ===== *)
theory Parked
  imports Dispatch Reminding Exec
begin

text \<open>
  The state of the daemon (\<open>Daemon\<close> of \<open>src/src/daemon.rs\<close>): what it has parked for each client while a
  Herdr job runs off its thread, the owners of those jobs, and its timers. A stream is the number
  of its client, a lease the number of the job that opened it. What the daemon does to the outside is kept
  in logs: the jobs it submits, the commands it sends over leases, the responses it writes (each ends
  its connection), the connections it gives up.

  A turn of the daemon is a state transformer over that state; an act of the slice runs inside it. The
  durations and instants are in milliseconds of the monotonic clock. Messages on standard error
  and the timing of slow passes are left out.
\<close>

type_synonym client = nat
type_synonym lease = nat

section \<open>Parked work\<close>

datatype start_phase =
    SpSnapshot
  | SpOpening nat nat                                \<comment> \<open>busy_deadline, attempt_index\<close>
  | SpSending nat nat
  | SpBusy nat nat nat                               \<comment> \<open>BusyStartRetry: busy_deadline, not_before, attempt_index\<close>
  | SpReady
  | SpSettling prepared_prompt message_id nat        \<comment> \<open>until\<close>
  | SpInitial prepared_prompt message_id

record awaiting_start =
  ws_request :: string
  ws_intent :: start_intent
  ws_declared :: "declared_start option"
  ws_deadline :: nat
  ws_client :: client
  ws_phase :: start_phase
  ws_job :: "nat option"
  ws_lease :: "lease option"
  ws_committed :: bool
  ws_attempt :: nat
  ws_busy_deadline :: nat

datatype prompt_owner =
    OwnClient
  | OwnInternal
  | OwnCancel nat bool                               \<comment> \<open>session, waiting\<close>
  | OwnWaiterRetire nat message_id                   \<comment> \<open>session, ask\<close>

record awaiting_prompt =
  wp_request :: string
  wp_client :: "client option"
  wp_prepared :: prepared_prompt
  wp_result :: json
  wp_reply_to :: "message_id option"
  wp_lease :: "lease option"
  wp_committed :: bool
  wp_owner :: prompt_owner
  wp_reminder :: "prepared_reminder option"

record awaiting_cancel =
  wc_request :: string
  wc_client :: client
  wc_outcome :: cancel_outcome
  wc_remaining :: nat

record awaiting_waiter_retire =
  ww_request :: string
  ww_client :: client
  ww_agent :: logical_agent_id
  ww_outcome :: waiter_retire_outcome
  ww_remaining :: nat

record resolved_clear =
  rs_recipient :: logical_agent_id
  rs_incarnation :: incarnation_id
  rs_key :: string

record clear_sending =
  sn_clear :: resolved_clear
  sn_pane :: string
  sn_operation :: operation_id
  sn_command :: string
  sn_rotation :: rotation_timing
  sn_pre_session :: string
  sn_backend_kind :: string

datatype awaiting_clear_state =
    ClSettling resolved_clear int                    \<comment> \<open>not_before_ms\<close>
  | ClProbe resolved_clear string                    \<comment> \<open>pane_id\<close>
  | ClSending clear_sending
  | ClRotation awaiting_clear

datatype clear_dispatch = ClearDone clear_result | ClearWaits awaiting_clear_state

record awaiting_clear_request =
  wl_request :: string
  wl_state :: awaiting_clear_state
  wl_client :: client
  wl_job :: "nat option"
  wl_lease :: "lease option"

record awaiting_replies =
  wy_request :: string
  wy_client :: client
  wy_ask :: message_id
  wy_requester :: logical_agent_id
  wy_after :: int
  wy_lease_id :: "int option"
  wy_deadline :: nat

record inbox_session =
  wi_waiter :: logical_agent_id
  wi_client :: client
  wi_read_buf :: string
  wi_write_buf :: string
  wi_offered :: "message_id list"

record reading_client =
  wk_client :: client
  wk_buf :: string
  wk_accepted_at :: nat

record awaiting_write =
  wx_client :: client
  wx_response :: client_response
  wx_bytes :: string
  wx_written :: nat
  wx_started_at :: nat

datatype herdr_owner =
    OfPrompt | OfStart | OfReminderSnapshot | OfClear | OfClientRead | OfRenew | OfAdopt | OfRename | OfRetire
  | OfBootRecover | OfObligationSweep

datatype renew_park_state =
    RpProbe | RpClearingSend renew_clear_write | RpRotationGet | RpInjectSend renew_inject_write | RpConfirmGet

record awaiting_renew =
  wm_item :: due_renew
  wm_state :: renew_park_state
  wm_job :: "nat option"
  wm_lease :: "lease option"

datatype adopt_reply = ArRpc | ArWhoami | ArWho bool   \<comment> \<open>refresh\<close>

datatype adopt_park_state =
    ApSnapshot adopt_intent
  | ApRenaming adopt_rename string                   \<comment> \<open>request_id\<close>
  | ApConfirm adopt_rename

record awaiting_adopt =
  wa_request :: string
  wa_client :: client
  wa_reply :: adopt_reply
  wa_resume :: "daemon_request option"
  wa_state :: adopt_park_state
  wa_job :: "nat option"
  wa_lease :: "lease option"

datatype client_read_kind =
    RdRecover nat                                    \<comment> \<open>names_reprojected\<close>
  | RdReport bool                                    \<comment> \<open>active\<close>
  | RdWhoami string string                           \<comment> \<open>pane_id, lazy_key\<close>
  | RdAlias string string daemon_request             \<comment> \<open>alias, lazy_key, resume\<close>
  | RdAttribution incarnation_id
  | RdWhoAttribution incarnation_id
  | RdWhoPane string string bool                     \<comment> \<open>pane_id, lazy_key, refresh\<close>

record awaiting_read =
  wd_request :: string
  wd_client :: client
  wd_kind :: client_read_kind

datatype rename_park_state =
    NpSnapshot rename_preflight
  | NpOpening rename_preflight
  | NpProjectionOpening rename_work
  | NpSending rename_work
  | NpConfirm rename_work

datatype rename_reply = NrRpc | NrRecover nat snapshot

record awaiting_rename =
  wq_request :: string
  wq_client :: client
  wq_reply :: rename_reply
  wq_state :: rename_park_state
  wq_job :: "nat option"
  wq_lease :: "lease option"

datatype retire_park_state =
    TpSnapshot retire_preflight | TpClosing retire_close_work | TpConfirm retire_close_work

record awaiting_retire_close =
  wz_request :: string
  wz_client :: client
  wz_state :: retire_park_state
  wz_job :: "nat option"
  wz_lease :: "lease option"

record pending_cancel =
  wu_request :: string
  wu_client :: client
  wu_outcome :: cancel_outcome
  wu_prompts :: "prepared_cancellation list"

record pending_waiter_retire =
  wv_request :: string
  wv_client :: client
  wv_agent :: logical_agent_id
  wv_prepared :: prepared_waiter_retire

section \<open>The daemon\<close>

datatype lease_cmd =
    SendCmd string string json bool                  \<comment> \<open>request_id, method, params, with the read timeout of a prompt\<close>
  | DropCmd

record 'w daemon =
  sv_kelpie :: "'w kelpie"
  sv_starts :: "awaiting_start list"
  sv_clears :: "awaiting_clear_request list"
  sv_inboxes :: "inbox_session list"
  sv_replies :: "awaiting_replies list"
  sv_reading :: "reading_client list"
  sv_writes :: "awaiting_write list"
  sv_prompts :: "(nat \<times> awaiting_prompt) list"
  sv_cancels :: "(nat \<times> awaiting_cancel) list"
  sv_waiter_retires :: "(nat \<times> awaiting_waiter_retire) list"
  sv_next_job :: nat
  sv_next_cancel :: nat
  sv_next_waiter_retire :: nat
  sv_reminder_job :: "nat option"
  sv_pending_reminders :: "(due_reminder list \<times> boundary_reminder list) option"
  sv_reminder_inflight :: "message_id list"
  sv_due_inflight :: "operation_id list"
  sv_owners :: "(nat \<times> herdr_owner) list"
  sv_reads :: "(nat \<times> awaiting_read) list"
  sv_renews :: "awaiting_renew list"
  sv_renew_inflight :: "renew_id list"
  sv_adopts :: "awaiting_adopt list"
  sv_renames :: "awaiting_rename list"
  sv_retires :: "awaiting_retire_close list"
  sv_boot_until :: nat
  sv_boot_job :: "nat option"
  sv_next_boot :: nat
  sv_sweep_job :: "nat option"
  sv_next_sweep :: nat
  sv_next_archive :: nat
  sv_settle :: nat                                   \<comment> \<open>initial_message_settle\<close>
  sv_jobs :: "herdr_job list"
  sv_sent :: "(lease \<times> lease_cmd) list"
  sv_claimed :: "(client \<times> client_response) list"   \<comment> \<open>claims answered, their connections open\<close>
  sv_out :: "(client \<times> client_response) list"
  sv_gone :: "client list"

section \<open>Turns\<close>

type_synonym ('w, 'a) turn = "'w daemon \<Rightarrow> 'a \<times> 'w daemon"

definition turn_return :: "'a \<Rightarrow> ('w, 'a) turn" where "turn_return x n = (x, n)"

definition turn_bind :: "('w, 'a) turn \<Rightarrow> ('a \<Rightarrow> ('w, 'b) turn) \<Rightarrow> ('w, 'b) turn" where
  "turn_bind m f n = (case m n of (x, n') \<Rightarrow> f x n')"

definition turn_seq :: "('w, unit) turn \<Rightarrow> ('w, 'b) turn \<Rightarrow> ('w, 'b) turn" where
  "turn_seq m f = turn_bind m (\<lambda>_. f)"

definition turn_skip :: "('w, unit) turn" where "turn_skip = turn_return ()"

definition turn_get :: "('w daemon \<Rightarrow> 'a) \<Rightarrow> ('w, 'a) turn" where "turn_get f n = (f n, n)"

definition turn_upd :: "('w daemon \<Rightarrow> 'w daemon) \<Rightarrow> ('w, unit) turn" where "turn_upd f n = ((), f n)"

text \<open>An act of the slice, with its result.\<close>

definition turn_do :: "('w, 'a) slice \<Rightarrow> ('w, slice_error + 'a) turn" where
  "turn_do m n = (case m (sv_kelpie n) of (r, k) \<Rightarrow> (r, n\<lparr>sv_kelpie := k\<rparr>))"

text \<open>An act whose result is dropped (\<open>let _ = ...\<close>), and the monotonic clock.\<close>

definition turn_try :: "('w, 'a) slice \<Rightarrow> ('w, unit) turn" where
  "turn_try m = turn_bind (turn_do m) (\<lambda>_. turn_skip)"

definition turn_world :: "('w \<Rightarrow> 'a \<times> 'w) \<Rightarrow> ('w, 'a) turn" where
  "turn_world f n = (case f (ke_world (sv_kelpie n)) of
     (t, x) \<Rightarrow> (t, n\<lparr>sv_kelpie := (sv_kelpie n)\<lparr>ke_world := x\<rparr>\<rparr>))"

definition turn_now :: "'w wire \<Rightarrow> ('w, nat) turn" where
  "turn_now w = turn_world (pr_instant (wr_peer w))"

text \<open>A pass over a list that keeps some entries, and whether any of it progressed.\<close>

fun turn_sweep :: "('x \<Rightarrow> ('w, 'x option \<times> bool) turn) \<Rightarrow> 'x list \<Rightarrow> ('w, 'x list \<times> bool) turn" where
  "turn_sweep f [] = turn_return ([], False)"
| "turn_sweep f (x # xs) = turn_bind (f x) (\<lambda>(kept, p). turn_bind (turn_sweep f xs) (\<lambda>(rest, q).
     turn_return ((case kept of None \<Rightarrow> rest | Some y \<Rightarrow> y # rest), p \<or> q)))"

fun turn_each :: "('x \<Rightarrow> ('w, unit) turn) \<Rightarrow> 'x list \<Rightarrow> ('w, unit) turn" where
  "turn_each f [] = turn_skip"
| "turn_each f (x # xs) = turn_seq (f x) (turn_each f xs)"

section \<open>Jobs, leases, responses\<close>

definition saturating_succ_u64 :: "nat \<Rightarrow> nat" where
  "saturating_succ_u64 n = (if n < u64_max then Suc n else n)"

definition alloc_job :: "('w, nat) turn" where
  "alloc_job n = (sv_next_job n, n\<lparr>sv_next_job := saturating_succ_u64 (sv_next_job n)\<rparr>)"

definition submit_owned :: "herdr_job \<Rightarrow> herdr_owner \<Rightarrow> ('w, unit) turn" where
  "submit_owned job owner = turn_upd (\<lambda>n. n\<lparr>sv_owners := hm_insert (job_id_of job) owner (sv_owners n),
     sv_jobs := sv_jobs n @ [job]\<rparr>)"

text \<open>A job with a number of its own.\<close>

definition submit_new :: "(nat \<Rightarrow> herdr_job) \<Rightarrow> herdr_owner \<Rightarrow> ('w, nat) turn" where
  "submit_new job owner = turn_bind alloc_job (\<lambda>i. turn_seq (submit_owned (job i) owner) (turn_return i))"

definition send_lease :: "lease \<Rightarrow> lease_cmd \<Rightarrow> ('w, unit) turn" where
  "send_lease l c = turn_upd (\<lambda>n. n\<lparr>sv_sent := sv_sent n @ [(l, c)]\<rparr>)"

definition drop_lease :: "lease option \<Rightarrow> ('w, unit) turn" where
  "drop_lease l = (case l of None \<Rightarrow> turn_skip | Some i \<Rightarrow> send_lease i DropCmd)"

definition write_response :: "client \<Rightarrow> client_response \<Rightarrow> ('w, unit) turn" where
  "write_response c r = turn_upd (\<lambda>n. n\<lparr>sv_out := sv_out n @ [(c, r)]\<rparr>)"

text \<open>A connection dropped without an answer.\<close>

definition turn_gone :: "client \<Rightarrow> ('w, unit) turn" where
  "turn_gone c = turn_upd (\<lambda>n. n\<lparr>sv_gone := sv_gone n @ [c]\<rparr>)"

definition answer :: "'w wire \<Rightarrow> client \<Rightarrow> string \<Rightarrow> slice_error + json \<Rightarrow> ('w, unit) turn" where
  "answer w c i r = write_response c (respond (wr_peer w) i r)"

text \<open>
  The position of the first entry with a job. An entry is read, changed or removed at a position; every
  position a handler uses was found earlier in the same pass, so the absent case, where the code
  would panic, does not arise.
\<close>

fun position :: "('a \<Rightarrow> bool) \<Rightarrow> 'a list \<Rightarrow> nat option" where
  "position p [] = None"
| "position p (x # xs) = (if p x then Some 0 else map_option Suc (position p xs))"

definition remove_at :: "nat \<Rightarrow> 'a list \<Rightarrow> 'a list" where
  "remove_at i xs = take i xs @ drop (Suc i) xs"

definition entry :: "nat \<Rightarrow> 'a list \<Rightarrow> 'a option" where
  "entry i xs = (if i < length xs then Some (xs ! i) else None)"

definition turn_at :: "('w daemon \<Rightarrow> 'e list) \<Rightarrow> nat \<Rightarrow> ('e \<Rightarrow> ('w, unit) turn) \<Rightarrow> ('w, unit) turn" where
  "turn_at get i f n = (case entry i (get n) of None \<Rightarrow> ((), n) | Some x \<Rightarrow> f x n)"

type_synonym ('w, 'e) field_update = "('e list \<Rightarrow> 'e list) \<Rightarrow> 'w daemon \<Rightarrow> 'w daemon"

definition turn_set :: "('w, 'e) field_update \<Rightarrow> nat \<Rightarrow> ('e \<Rightarrow> 'e) \<Rightarrow> ('w, unit) turn" where
  "turn_set put i f = turn_upd (put (\<lambda>xs. xs[i := f (xs ! i)]))"

definition turn_take ::
  "('w daemon \<Rightarrow> 'e list) \<Rightarrow> ('w, 'e) field_update \<Rightarrow> nat \<Rightarrow> ('e \<Rightarrow> ('w, unit) turn) \<Rightarrow> ('w, unit) turn" where
  "turn_take get put i f n = (case entry i (get n) of None \<Rightarrow> ((), n) | Some x \<Rightarrow> f x (put (remove_at i) n))"

definition turn_push :: "('w, 'e) field_update \<Rightarrow> 'e \<Rightarrow> ('w, unit) turn" where
  "turn_push put x = turn_upd (put (\<lambda>xs. xs @ [x]))"

text \<open>A lookup that may find nothing.\<close>

definition turn_found :: "('w daemon \<Rightarrow> 'a option) \<Rightarrow> ('w, unit) turn \<Rightarrow> ('a \<Rightarrow> ('w, unit) turn) \<Rightarrow> ('w, unit) turn" where
  "turn_found look missing f = turn_bind (turn_get look) (\<lambda>r. case r of None \<Rightarrow> missing | Some x \<Rightarrow> f x)"

text \<open>An entry of a hash map, removed or changed.\<close>

definition hm_get :: "'k \<Rightarrow> ('k \<times> 'v) list \<Rightarrow> 'v option" where "hm_get k xs = map_of xs k"

definition hm_change :: "'k \<Rightarrow> ('v \<Rightarrow> 'v) \<Rightarrow> ('k \<times> 'v) list \<Rightarrow> ('k \<times> 'v) list" where
  "hm_change k f xs = map (\<lambda>(k', v). (k', if k' = k then f v else v)) xs"

definition turn_pop ::
  "('w daemon \<Rightarrow> (nat \<times> 'v) list) \<Rightarrow> ('w, nat \<times> 'v) field_update \<Rightarrow> nat \<Rightarrow> ('v \<Rightarrow> ('w, unit) turn) \<Rightarrow> ('w, unit) turn" where
  "turn_pop get put k f n = (case hm_get k (get n) of None \<Rightarrow> ((), n) | Some x \<Rightarrow> f x (put (hm_remove k) n))"

definition operator_note :: "'w wire \<Rightarrow> string \<Rightarrow> ('w, unit) turn" where
  "operator_note w body = turn_try (sl_notice (wr_peer w) body)"

definition error_text :: "'w wire \<Rightarrow> slice_error \<Rightarrow> string" where
  "error_text w e = slice_error_text (pr_text (wr_peer w)) e"

definition unexpected :: "string \<Rightarrow> slice_error" where
  "unexpected t = SHerdr (HUnexpected t)"

end
