(* ===== verification/Serving.thy ===== *)
theory Serving
  imports Parked
begin

text \<open>
  What the daemon of \<open>src/src/daemon.rs\<close> does with one line of a client (\<open>serve_request\<close>): it answers at once, parks
  the client until Herdr or time decides, or gives the connection up. A method that needs Herdr is
  prepared here (validated, resolved, its rows recorded) and finished by the event loop; the reads of
  \<open>finish_client_read\<close> finish it on the same thread instead.
\<close>

section \<open>Prompts of a client\<close>

definition with_field :: "string \<Rightarrow> json option \<Rightarrow> json \<Rightarrow> json" where
  "with_field k v j = (case v of None \<Rightarrow> j | Some x \<Rightarrow> jset k x j)"

definition intent_due :: "operation_intent \<Rightarrow> int option" where
  "intent_due n = (case n of IntentMessage m i due \<Rightarrow> due | _ \<Rightarrow> None)"

definition replay_lacks :: "string \<Rightarrow> message_id \<Rightarrow> string \<Rightarrow> store_error" where
  "replay_lacks kind m what = InvalidRecord (RecordText (''replayed '' @ kind @ '' '' @ id_display m @ '' has no '' @ what))"

definition replay_common :: "prompt_replay \<Rightarrow> (string \<times> json) list" where
  "replay_common r = [(''message_id'', jid (rp_message r)), (''operation_id'', jid (rp_operation r)),
     (''recipient_incarnation'', jid (rp_incarnation r)),
     (''delivery_outcome'', jtext delivery_outcome_text (rp_delivery_outcome r))]"

definition replay_result :: "prompt_replay \<Rightarrow> store_error + json" where
  "replay_result r = (case rp_kind r of
     Ask \<Rightarrow> rbind (ok_or (replay_lacks ''ask'' (rp_message r) ''waiting agent'') (rp_waiting r)) (\<lambda>a.
       Inr (jobj (replay_common r @ [(''recipient'', jid (rp_recipient r)), (''waiting_agent_id'', jid a)])))
   | Tell \<Rightarrow> Inr (jobj (replay_common r
       @ [(''recipient'', jid (rp_recipient r)), (''delivery_transport'', JStr ''herdr_prompt'')]))
   | Reply \<Rightarrow>
       rbind (ok_or (replay_lacks ''reply'' (rp_message r) ''disposition'') (rp_disposition r)) (\<lambda>disp.
       rbind (ok_or (replay_lacks ''reply'' (rp_message r) ''obligation state'') (rp_obligation_state r)) (\<lambda>state.
         Inr (jobj (replay_common r @ [(''disposition'', jtext reply_disposition_text disp),
           (''obligation_state'', jtext obligation_state_text state)]))))
   | Cancellation \<Rightarrow> Inl (InvalidRecord (RecordText
       (''client idempotency key resolved to cancellation message '' @ id_display (rp_message r)))))"

definition prompt_replay_result :: "prompt_replay \<Rightarrow> store_error + json" where
  "prompt_replay_result r = map_sum id (\<lambda>v.
     with_due (intent_due (rp_intent r)) (if rp_kind r = Ask then with_reminders (rp_remind_after_ms r) v else v))
     (replay_result r)"

text \<open>The outcome of an operation is answered at once when nothing is left to write.\<close>

definition with_outcome :: "bool \<Rightarrow> (db \<Rightarrow> store_error + delivery_outcome) \<Rightarrow> json \<Rightarrow> ('w, json) slice" where
  "with_outcome settled f v = (if settled
     then act_bind (sl_read f) (\<lambda>outc. act_return (jset ''delivery_outcome'' (jtext delivery_outcome_text outc) v))
     else act_return v)"

type_synonym prepared_client = "json \<times> prepared_prompt option \<times> message_id option"

definition reply_delivery_conflict :: "reply_delivery \<Rightarrow> slice_error" where
  "reply_delivery_conflict stored =
     slice_conflict (''idempotency key already recorded reply_delivery '' @ reply_delivery_as_str stored)"

definition prepare_client_ask :: "'w wire \<Rightarrow> ask_params \<Rightarrow> ('w, prepared_client) slice" where
  "prepare_client_ask w q =
     act_bind (act_result (ask_is_now q)) (\<lambda>_.
     act_bind (act_result (ask_reminder_interval q)) (\<lambda>remind.
     act_bind (sl_read (replay_prompt_by_idempotency_key (kp_key q) Ask (kp_sender q) None)) (\<lambda>found. case found of
       Some replay \<Rightarrow>
         let stored = (case rp_reply_delivery replay of None \<Rightarrow> Inject | Some v \<Rightarrow> v) in
         if stored \<noteq> kp_reply_delivery q then act_fail (reply_delivery_conflict stored)
         else act_bind (act_result (of_store (prompt_replay_result replay))) (\<lambda>v. act_return (v, None, None))
     | None \<Rightarrow>
         act_bind (resolve_recipient (wr_peer w) (kp_recipient q) (kp_incarnation q) (kp_alias q) (lazy_key (kp_key q)))
           (\<lambda>(recipient, inc).
         act_bind (record_ask (wr_peer w) (kp_sender q) recipient inc (kp_body q) (kp_key q) None remind
             (kp_from_operator q) (kp_reply_delivery q)) (\<lambda>((message, oid), prepared).
         act_bind (with_outcome (prepared = None) (delivery_outcome_of oid) (with_reminders remind (jobj
             [(''message_id'', jid message), (''operation_id'', jid oid), (''recipient'', jid recipient),
              (''recipient_incarnation'', jid inc), (''waiting_agent_id'', jid (kp_sender q)),
              (''reply_delivery'', jtext reply_delivery_as_str (kp_reply_delivery q))]))) (\<lambda>v.
           act_return (v, prepared, None)))))))"

definition prepare_client_tell :: "'w wire \<Rightarrow> tell_params \<Rightarrow> ('w, prepared_client) slice" where
  "prepare_client_tell w q = (case tp_every_ms q of
     Some every \<Rightarrow> act_bind (schedule_repeating_tell (wr_peer w) q every) (\<lambda>v. act_return (v, None, None))
   | None \<Rightarrow>
       act_bind (sl_read (replay_prompt_by_idempotency_key (tp_key q) Tell (tp_sender q) None)) (\<lambda>found. case found of
         Some replay \<Rightarrow> act_bind (act_result (of_store (prompt_replay_result replay))) (\<lambda>v. act_return (v, None, None))
       | None \<Rightarrow>
           act_bind (resolve_tell_recipient (wr_peer w) (tp_recipient q) (tp_incarnation q) (tp_alias q)
               (lazy_key (tp_key q))) (\<lambda>target. case target of
             ToHerdr recipient inc \<Rightarrow>
               act_bind (record_tell (wr_peer w) (tp_sender q) recipient inc (tp_body q) (tp_key q) (tp_due_at_ms q))
                 (\<lambda>((message, oid), prepared).
               act_bind (with_outcome (prepared = None) (delivery_outcome_of oid)
                   (jobj (herdr_tell_json message oid recipient inc))) (\<lambda>v.
                 act_return (with_due (tp_due_at_ms q) v, prepared, None)))
           | ToInbox recipient \<Rightarrow>
               act_bind (tell_socket_waiter (wr_peer w) q recipient) (\<lambda>v.
                 act_return (with_due (tp_due_at_ms q) v, None, None)))))"

definition prepare_client_reply :: "'w wire \<Rightarrow> reply_params \<Rightarrow> ('w, prepared_client) slice" where
  "prepare_client_reply w q =
     act_bind (sl_read (replay_prompt_by_idempotency_key (yp_key q) Reply (yp_requester q) (Some (yp_reply_to q)))) (\<lambda>found.
       case found of
         Some replay \<Rightarrow>
           act_bind (act_result (of_store (prompt_replay_result replay))) (\<lambda>v. act_return (v, None, rp_reply_to replay))
       | None \<Rightarrow>
           act_bind (record_reply (wr_peer w) (yp_reply_to q) (yp_requester q) (yp_body q) (yp_disposition q) (yp_key q))
             (\<lambda>(created, prepared).
             if prepared = None then
               act_bind (with_outcome True (reply_outcome created) (jobj (reply_json created))) (\<lambda>v.
               act_bind (sl_read (obligation_state_of (yp_reply_to q))) (\<lambda>state.
                 act_return (jset ''obligation_state'' (jtext obligation_state_text state) v, None, Some (yp_reply_to q))))
             else act_return (jobj (reply_json created), prepared, Some (yp_reply_to q))))"

definition prepare_client_prompt :: "'w wire \<Rightarrow> daemon_request \<Rightarrow> ('w, prepared_client) slice" where
  "prepare_client_prompt w q =
     (if cq_method q = ''ask'' then with_params (wr_ask w) (cq_params q) (prepare_client_ask w)
      else if cq_method q = ''tell'' then with_params (wr_tell w) (cq_params q) (prepare_client_tell w)
      else with_params (wr_reply w) (cq_params q) (prepare_client_reply w))"

text \<open>
  What the store knows once the prompt was written; a read that fails leaves its member out. The
  evidence that is not a text of JSON counts as none here.
\<close>

definition evidence_value :: "'w wire \<Rightarrow> operation_id \<Rightarrow> db \<Rightarrow> json option" where
  "evidence_value w oid d = Option.bind (operation_attempt_evidence oid d) (\<lambda>e.
     case evidence_json (wr_value w) e of Inl _ \<Rightarrow> None | Inr v \<Rightarrow> Some v)"

definition of_result :: "'e + 'a \<Rightarrow> 'a option" where
  "of_result r = (case r of Inl _ \<Rightarrow> None | Inr x \<Rightarrow> Some x)"

definition filled_result :: "'w wire \<Rightarrow> awaiting_prompt \<Rightarrow> db \<Rightarrow> json" where
  "filled_result w a d =
     (let oid = pp_operation (wp_prepared a);
          v1 = with_field ''delivery_outcome''
            (map_option (jtext delivery_outcome_text) (of_result (delivery_outcome_of oid d))) (wp_result a);
          ev = evidence_value w oid d;
          v2 = with_field ''submission'' (map_option JStr (unobserved_submission ev)) v1;
          v3 = with_field ''submission_detail''
            (map_option JStr (Option.bind (Option.bind ev (json_get ''detail'')) json_as_str)) v2
      in with_field ''obligation_state'' (Option.bind (wp_reply_to a) (\<lambda>m.
           map_option (jtext obligation_state_text) (of_result (obligation_state_of m d)))) v3)"

definition fill_prompt_result :: "'w wire \<Rightarrow> awaiting_prompt \<Rightarrow> bool \<Rightarrow> db \<Rightarrow> awaiting_prompt" where
  "fill_prompt_result w a delivered_ok d = (if delivered_ok then a\<lparr>wp_result := filled_result w a d\<rparr> else a)"

section \<open>Names that only a pane can answer for\<close>

definition bind_wanted :: "logical_agent_id option \<Rightarrow> incarnation_id option \<Rightarrow> string option \<Rightarrow> string \<Rightarrow> (string \<times> string) option" where
  "bind_wanted recipient inc name key =
     (if recipient \<noteq> None \<or> inc \<noteq> None then None else map_option (\<lambda>n. (n, key)) name)"

definition alias_wanted :: "'w wire \<Rightarrow> daemon_request \<Rightarrow> (string \<times> string) option" where
  "alias_wanted w q =
     (if cq_method q = ''ask'' then Option.bind (of_result (wr_ask w (cq_params q))) (\<lambda>a.
        if kp_due_at_ms a \<noteq> None then None else bind_wanted (kp_recipient a) (kp_incarnation a) (kp_alias a) (kp_key a))
      else if cq_method q = ''tell'' then Option.bind (of_result (wr_tell w (cq_params q))) (\<lambda>a.
        bind_wanted (tp_recipient a) (tp_incarnation a) (tp_alias a) (tp_key a))
      else if cq_method q = ''clear'' then Option.bind (of_result (wr_clear w (cq_params q))) (\<lambda>a.
        bind_wanted (cm_recipient a) (cm_incarnation a) (cm_alias a) (cm_key a))
      else None)"

definition held_by_waiter :: "string \<Rightarrow> db \<Rightarrow> bool" where
  "held_by_waiter n d = (case active_socket_waiter_for_alias n d of Inr (Some _) \<Rightarrow> True | _ \<Rightarrow> False)"

definition pending_alias_bind :: "'w wire \<Rightarrow> daemon_request \<Rightarrow> db \<Rightarrow> (string \<times> string) option" where
  "pending_alias_bind w q d = Option.bind (alias_wanted w q) (\<lambda>(n, key).
     if cq_method q = ''tell'' \<and> held_by_waiter n d then None
     else if find_ready_alias n d = Inr None then Some (n, lazy_key key) else None)"

section \<open>Clears\<close>

definition begin_clear :: "'w wire \<Rightarrow> json \<Rightarrow> ('w, clear_dispatch) slice" where
  "begin_clear w v = with_params (wr_clear w) v (\<lambda>q.
     act_bind (resolve_recipient (wr_peer w) (cm_recipient q) (cm_incarnation q) (cm_alias q) (lazy_key (cm_key q)))
       (\<lambda>(recipient, inc).
     act_bind (clear_not_before_ms inc) (\<lambda>not_before.
       act_return (ClearWaits (ClSettling \<lparr>rs_recipient = recipient, rs_incarnation = inc, rs_key = cm_key q\<rparr>
         not_before)))))"

definition advance_clear_state :: "'w peer \<Rightarrow> awaiting_clear_state \<Rightarrow> ('w, clear_dispatch) slice" where
  "advance_clear_state p state = (case state of
     ClSettling c not_before \<Rightarrow>
       act_bind (clear_not_before_ms (rs_incarnation c)) (\<lambda>latest.
       act_bind (sl_clock p) (\<lambda>now.
         if now < max not_before latest then act_return (ClearWaits (ClSettling c (max not_before latest)))
         else act_bind (submit_clear p (rs_recipient c) (rs_incarnation c) (rs_key c)) (\<lambda>r. act_return (case r of
             ClearComplete x \<Rightarrow> ClearDone x | ClearAwaiting a \<Rightarrow> ClearWaits (ClRotation a)))))
   | ClRotation a \<Rightarrow>
       act_bind (advance_clear p a) (\<lambda>r. act_return (case r of
         Some x \<Rightarrow> ClearDone x | None \<Rightarrow> ClearWaits (ClRotation a)))
   | _ \<Rightarrow> act_return (ClearWaits state))"

section \<open>Long polls of the pull sink\<close>

definition MAX_REPLIES_TIMEOUT :: int where "MAX_REPLIES_TIMEOUT = 60000"

record replies_wait_plan =
  rw_ask :: message_id
  rw_requester :: logical_agent_id
  rw_after :: int
  rw_lease_id :: "int option"
  rw_deadline :: nat

datatype replies_dispatch = RepliesReady json | RepliesWait replies_wait_plan

definition replies_dispatch_of :: "'w wire \<Rightarrow> daemon_request \<Rightarrow> ('w, replies_dispatch) slice" where
  "replies_dispatch_of w q = with_params (wr_replies w) (cq_params q) (\<lambda>a.
     let timeout = or_zero (lp_timeout_ms a) in
     if timeout < 0 then act_fail (invalid_request ''replies timeout_ms must not be negative'')
     else if MAX_REPLIES_TIMEOUT < timeout then act_fail (invalid_request ''replies timeout must be at most 60s'')
     else act_bind (poll_replies a) (\<lambda>poll.
       if snd (snd poll) \<noteq> [] \<or> timeout = 0 then act_return (RepliesReady (replies_poll_json poll))
       else act_bind (instant_now (wr_peer w)) (\<lambda>now. act_return (RepliesWait
         \<lparr>rw_ask = lp_ask a, rw_requester = lp_requester a, rw_after = lp_after a, rw_lease_id = lp_lease a,
          rw_deadline = now + nat timeout\<rparr>))))"

section \<open>Inboxes of socket waiters\<close>

text \<open>A clock that fails leaves the waiter's last sighting as it was.\<close>

definition claim_inbox :: "'w wire \<Rightarrow> daemon_request \<Rightarrow> ('w, logical_agent_id) slice" where
  "claim_inbox w q = with_params (wr_inbox_claim w) (cq_params q) (\<lambda>a.
     act_bind (sl_read (claim_socket_waiter (ic_agent_id a))) (\<lambda>_.
     act_bind (act_match (sl_clock (wr_peer w)) (\<lambda>now. case now of
         Inl _ \<Rightarrow> act_return ()
       | Inr t \<Rightarrow> act_bind (sl_write (touch_waiter_seen (ic_agent_id a) t)) (\<lambda>_. act_return ()))) (\<lambda>_.
       act_return (ic_agent_id a))))"

definition ack_inbox :: "'w wire \<Rightarrow> daemon_request \<Rightarrow> logical_agent_id \<Rightarrow> ('w, json) slice" where
  "ack_inbox w q waiter = with_params (wr_inbox_ack w) (cq_params q) (\<lambda>a.
     act_bind (sl_transact_now (wr_peer w) (\<lambda>now. ack_socket_inbox_delivery now waiter (ik_message a))) (\<lambda>outc.
       act_return (jobj [(''message_id'', jid (ik_message a)), (''outcome'', jtext delivery_outcome_text outc)])))"

section \<open>Reads that may need a snapshot\<close>

definition prepare_attribution_read :: "'w wire \<Rightarrow> daemon_request \<Rightarrow> ('w, client_read_kind option) slice" where
  "prepare_attribution_read w q = with_params (wr_who w) (cq_params q) (\<lambda>a.
     act_bind (sl_pure (resolve_attribution_incarnation a)) (\<lambda>inc.
       if hp_refresh a
       then act_bind (native_session_refresh_needs_snapshot inc) (\<lambda>needs.
         act_return (if needs then Some (RdAttribution inc) else None))
       else act_return None))"

definition who_modes_exclusive :: slice_error where
  "who_modes_exclusive = invalid_request
     ''who history/resolve requires exactly one alias; the modes are exclusive and do not accept refresh''"

definition who_refresh :: "who_params \<Rightarrow> who_identity \<Rightarrow> ('w, client_read_kind option) slice" where
  "who_refresh a x = (case x of
     WhoIncarnation inc \<Rightarrow>
       if hp_refresh a
       then act_bind (native_session_refresh_needs_snapshot inc) (\<lambda>needs.
         act_return (if needs then Some (RdWhoAttribution inc) else None))
       else act_return None
   | WhoWaiter _ \<Rightarrow> act_return None)"

definition prepare_who_read :: "'w wire \<Rightarrow> daemon_request \<Rightarrow> ('w, client_read_kind option) slice" where
  "prepare_who_read w q = with_params (wr_who w) (cq_params q) (\<lambda>a.
     if who_selector_count a \<noteq> 1 then act_fail one_selector
     else if hp_history a \<or> hp_resolve a then
       (if sole_alias a = None \<or> (hp_history a \<and> hp_resolve a) then act_fail who_modes_exclusive else act_return None)
     else
       let resolve = act_bind (sl_pure (resolve_who_identity a)) (who_refresh a) in
       case (hp_pane a, hp_lazy_key a) of
         (Some pane, Some key) \<Rightarrow> act_bind (sl_read (find_ready_identity_for_pane pane)) (\<lambda>found.
           if found = None then act_return (Some (RdWhoPane pane key (hp_refresh a))) else resolve)
       | _ \<Rightarrow> resolve)"

definition prepare_whoami_read :: "'w wire \<Rightarrow> daemon_request \<Rightarrow> ('w, client_read_kind option) slice" where
  "prepare_whoami_read w q = with_params (wr_whoami w) (cq_params q) (\<lambda>a. case (mp_pane a, mp_alias a) of
     (Some pane, None) \<Rightarrow> act_bind (sl_read (find_ready_identity_for_pane pane)) (\<lambda>found. act_return
       (if found = None then Some (RdWhoami pane (option_or (cq_id q) (mp_lazy_key a))) else None))
   | (None, Some _) \<Rightarrow> act_return None
   | _ \<Rightarrow> act_fail (invalid_request ''provide either pane_id or alias''))"

text \<open>A parked read finished on the calling thread.\<close>

definition finish_client_read :: "nat \<Rightarrow> 'w wire \<Rightarrow> client_read_kind \<Rightarrow> ('w, json option) slice" where
  "finish_client_read fuel w kind = (case kind of
     RdRecover _ \<Rightarrow> dispatch_recover fuel w
   | RdReport active \<Rightarrow> answered (act_bind (live_agent_status (wr_peer w)) (\<lambda>live.
       render_report (wr_peer w) active (Some live)))
   | RdWhoami pane key \<Rightarrow> answered (act_bind (resolve_or_adopt_pane (wr_peer w) pane key) (\<lambda>x.
       act_return (ready_identity_json x)))
   | RdAlias n key _ \<Rightarrow> answered (act_bind (resolve_or_adopt_alias (wr_peer w) n key) (\<lambda>(a, inc).
       act_return (identity_json a inc n)))
   | RdAttribution inc \<Rightarrow> answered (act_bind (refresh_native_session (wr_peer w) inc) (\<lambda>_. attribution_response inc))
   | RdWhoAttribution inc \<Rightarrow> answered (act_bind (refresh_native_session (wr_peer w) inc) (\<lambda>_.
       who_identity_response (WhoIncarnation inc)))
   | RdWhoPane pane key refresh \<Rightarrow> answered (act_bind (resolve_or_adopt_pane (wr_peer w) pane key) (\<lambda>x.
       act_bind (if refresh then refresh_native_session (wr_peer w) (rd_incarnation x) else act_return ()) (\<lambda>_.
         who_identity_response (WhoIncarnation (rd_incarnation x))))))"

end
