(* ===== verification/Utf8.thy ===== *)
theory Utf8
  imports Prelude
begin

text \<open>
  The reading of client bytes as text in \<open>src/src/daemon.rs\<close>: \<open>str::from_utf8\<close>, which refuses bytes that are not
  UTF-8, and \<open>String::from_utf8_lossy\<close>, which replaces each maximal malformed prefix by U+FFFD. A
  character of a string is a byte.
\<close>

definition is_continuation :: "char \<Rightarrow> bool" where
  "is_continuation c \<longleftrightarrow> 128 \<le> byte_of c \<and> byte_of c \<le> 191"

text \<open>The bytes that may follow a leading byte of a three- or four-byte sequence.\<close>

definition second_of_three :: "char \<Rightarrow> char \<Rightarrow> bool" where
  "second_of_three a b \<longleftrightarrow> is_continuation b \<and> (byte_of a = 224 \<longrightarrow> 160 \<le> byte_of b) \<and> (byte_of a = 237 \<longrightarrow> byte_of b \<le> 159)"

definition second_of_four :: "char \<Rightarrow> char \<Rightarrow> bool" where
  "second_of_four a b \<longleftrightarrow> is_continuation b \<and> (byte_of a = 240 \<longrightarrow> 144 \<le> byte_of b) \<and> (byte_of a = 244 \<longrightarrow> byte_of b \<le> 143)"

definition utf8_width :: "char \<Rightarrow> nat" where
  "utf8_width c = (let b = byte_of c in
     if b < 128 then 1 else if 194 \<le> b \<and> b \<le> 223 then 2 else if 224 \<le> b \<and> b \<le> 239 then 3
     else if 240 \<le> b \<and> b \<le> 244 then 4 else 0)"

text \<open>The longest run of bytes that begins a sequence led by a byte, with its length.\<close>

definition utf8_run :: "char \<Rightarrow> string \<Rightarrow> nat" where
  "utf8_run a s = (let n = utf8_width a; head = (\<lambda>p. case s of [] \<Rightarrow> False | b # _ \<Rightarrow> p b);
       cont = (\<lambda>i. i < length s \<and> is_continuation (s ! i)) in
     if n = 2 then (if head is_continuation then 2 else 1)
     else if n = 3 then (if \<not> head (second_of_three a) then 1 else if \<not> cont 1 then 2 else 3)
     else if n = 4 then (if \<not> head (second_of_four a) then 1 else if \<not> cont 1 then 2 else if \<not> cont 2 then 3 else 4)
     else 1)"

definition utf8_whole :: "char \<Rightarrow> string \<Rightarrow> bool" where
  "utf8_whole a s \<longleftrightarrow> utf8_width a \<noteq> 0 \<and> utf8_run a s = utf8_width a"

definition replacement_character :: string where
  "replacement_character = map (char_of :: nat \<Rightarrow> char) [239, 191, 189]"

lemma utf8_run_pos: "0 < utf8_run a s"
  by (simp add: utf8_run_def Let_def)

function utf8_lossy :: "string \<Rightarrow> string" where
  "utf8_lossy [] = []"
| "utf8_lossy (a # s) = (let n = utf8_run a s - 1 in
     (if utf8_whole a s then a # take n s else replacement_character) @ utf8_lossy (drop n s))"
  by pat_completeness auto
termination by (relation "measure length") auto

function from_utf8 :: "string \<Rightarrow> string option" where
  "from_utf8 [] = Some []"
| "from_utf8 (a # s) = (if utf8_whole a s
     then map_option ((@) (a # take (utf8_run a s - 1) s)) (from_utf8 (drop (utf8_run a s - 1) s)) else None)"
  by pat_completeness auto
termination by (relation "measure length") auto

text \<open>Text that is UTF-8 is read as it is, by either reading.\<close>

lemma from_utf8_exact: "from_utf8 s = Some t \<Longrightarrow> t = s"
  by (induction s arbitrary: t rule: from_utf8.induct) (auto split: if_splits)

lemma utf8_lossy_exact: "from_utf8 s = Some t \<Longrightarrow> utf8_lossy s = s"
  by (induction s arbitrary: t rule: from_utf8.induct) (auto simp: Let_def split: if_splits)

end
