(* ===== verification/Lines.thy ===== *)
theory Lines
  imports Serving Utf8
begin

text \<open>
  One line of a client: \<open>serve_request\<close> and \<open>serve_parsed_line\<close> of \<open>src/src/daemon.rs\<close>. The outcome says what becomes
  of the connection. Parameters that do not decode are answered as an invalid request by most
  methods; report, adopt, rename, retire and waiter.retire return an I/O failure instead, and the
  connection is given up without an answer.
\<close>

datatype served =
    ServedAnswered client_response
  | ServedGone                                       \<comment> \<open>the caller drops the connection\<close>
  | ServedStart awaiting_start
  | ServedClear awaiting_clear_request
  | ServedInbox client_response inbox_session        \<comment> \<open>the claim is answered, the connection stays open\<close>
  | ServedReplies awaiting_replies
  | ServedPrompt awaiting_prompt
  | ServedCancel pending_cancel
  | ServedWaiterRetire pending_waiter_retire
  | ServedRead awaiting_read
  | ServedWrite awaiting_write
  | ServedAdopt awaiting_adopt
  | ServedRename awaiting_rename
  | ServedRetire awaiting_retire_close

text \<open>A failure of the preparation is answered.\<close>

definition serve_try :: "'w wire \<Rightarrow> string \<Rightarrow> ('w, served) slice \<Rightarrow> ('w, served) serving" where
  "serve_try w i m k = (case m k of
     (Inl e, k') \<Rightarrow> (ServedAnswered (respond (wr_peer w) i (Inl e)), k') | (Inr s, k') \<Rightarrow> (s, k'))"

definition serve_value :: "'w wire \<Rightarrow> string \<Rightarrow> json \<Rightarrow> ('w, served) slice" where
  "serve_value w i v = act_return (ServedAnswered (respond (wr_peer w) i (Inr v)))"

definition serve_json :: "'w wire \<Rightarrow> string \<Rightarrow> ('w, json) slice \<Rightarrow> ('w, served) slice" where
  "serve_json w i m = act_bind m (serve_value w i)"

text \<open>Parameters whose failure to decode ends the connection.\<close>

definition serve_decoded :: "(json \<Rightarrow> string + 'a) \<Rightarrow> json \<Rightarrow> ('a \<Rightarrow> ('w, served) slice) \<Rightarrow> ('w, served) slice" where
  "serve_decoded f v h = (case f v of Inl _ \<Rightarrow> act_return ServedGone | Inr a \<Rightarrow> h a)"

definition serve_read :: "string \<Rightarrow> client \<Rightarrow> client_read_kind \<Rightarrow> ('w, served) slice" where
  "serve_read i c kind = act_return (ServedRead \<lparr>wd_request = i, wd_client = c, wd_kind = kind\<rparr>)"

section \<open>Starts, inboxes, long polls\<close>

definition prepare_start :: "'w wire \<Rightarrow> json \<Rightarrow> ('w, start_intent) slice" where
  "prepare_start w v = with_params (wr_start w) v (\<lambda>n.
     act_bind (sl_pure (validate_launch n)) (\<lambda>_. act_bind (sl_pure (validate_handoff n)) (\<lambda>_. act_return n)))"

definition serve_start :: "'w wire \<Rightarrow> client \<Rightarrow> daemon_request \<Rightarrow> ('w, served) slice" where
  "serve_start w c q = act_bind (prepare_start w (cq_params q)) (\<lambda>n.
     act_bind (instant_now (wr_peer w)) (\<lambda>now.
       let deadline = now + si_readiness_timeout_ms n in
       act_return (ServedStart \<lparr>ws_request = cq_id q, ws_intent = n, ws_declared = None, ws_deadline = deadline,
         ws_client = c, ws_phase = SpSnapshot, ws_job = None, ws_lease = None, ws_committed = False,
         ws_attempt = 1, ws_busy_deadline = deadline\<rparr>)))"

definition serve_replies :: "'w wire \<Rightarrow> client \<Rightarrow> daemon_request \<Rightarrow> ('w, served) slice" where
  "serve_replies w c q = act_bind (replies_dispatch_of w q) (\<lambda>r. case r of
     RepliesReady v \<Rightarrow> serve_value w (cq_id q) v
   | RepliesWait x \<Rightarrow> act_return (ServedReplies
       \<lparr>wy_request = cq_id q, wy_client = c, wy_ask = rw_ask x, wy_requester = rw_requester x, wy_after = rw_after x,
        wy_lease_id = rw_lease_id x, wy_deadline = rw_deadline x\<rparr>))"

definition claimed_json :: "logical_agent_id \<Rightarrow> json" where
  "claimed_json a = jobj
     [(''logical_agent_id'', jid a), (''claimed'', JBool True), (''delivery_transport'', JStr ''socket_inbox'')]"

definition serve_inbox_claim :: "'w wire \<Rightarrow> client \<Rightarrow> string \<Rightarrow> daemon_request \<Rightarrow> ('w, served) slice" where
  "serve_inbox_claim w c leftover q = act_bind (claim_inbox w q) (\<lambda>a.
     act_return (ServedInbox (respond (wr_peer w) (cq_id q) (Inr (claimed_json a)))
       \<lparr>wi_waiter = a, wi_client = c, wi_read_buf = leftover, wi_write_buf = [], wi_offered = []\<rparr>))"

section \<open>Prompts and clears\<close>

text \<open>A request that names an alias nobody holds yet first waits for a snapshot of the panes.\<close>

definition serve_bound :: "'w wire \<Rightarrow> client \<Rightarrow> daemon_request \<Rightarrow> ('w, served) slice \<Rightarrow> ('w, served) slice" where
  "serve_bound w c q go = act_bind (sl_query (pending_alias_bind w q)) (\<lambda>wanted. case wanted of
     Some (n, key) \<Rightarrow> serve_read (cq_id q) c (RdAlias n key q) | None \<Rightarrow> go)"

definition serve_prompt :: "'w wire \<Rightarrow> client \<Rightarrow> daemon_request \<Rightarrow> ('w, served) slice" where
  "serve_prompt w c q = act_bind (prepare_client_prompt w q) (\<lambda>(v, prepared, reply_to). case prepared of
     None \<Rightarrow> serve_value w (cq_id q) v
   | Some x \<Rightarrow> act_return (ServedPrompt
       \<lparr>wp_request = cq_id q, wp_client = Some c, wp_prepared = x, wp_result = v, wp_reply_to = reply_to,
        wp_lease = None, wp_committed = False, wp_owner = OwnClient, wp_reminder = None\<rparr>))"

definition serve_clear :: "'w wire \<Rightarrow> client \<Rightarrow> daemon_request \<Rightarrow> ('w, served) slice" where
  "serve_clear w c q = act_bind (begin_clear w (cq_params q)) (\<lambda>r. case r of
     ClearDone x \<Rightarrow> serve_value w (cq_id q) (clear_result_json x)
   | ClearWaits state \<Rightarrow> act_return (ServedClear
       \<lparr>wl_request = cq_id q, wl_state = state, wl_client = c, wl_job = None, wl_lease = None\<rparr>))"

section \<open>Reads\<close>

definition serve_or_read ::
  "'w wire \<Rightarrow> client \<Rightarrow> daemon_request \<Rightarrow> ('w, client_read_kind option) slice \<Rightarrow> ('w, json) slice \<Rightarrow> ('w, served) slice" where
  "serve_or_read w c q prepare now = act_bind prepare (\<lambda>kind. case kind of
     Some x \<Rightarrow> serve_read (cq_id q) c x | None \<Rightarrow> serve_json w (cq_id q) now)"

text \<open>One write of what is left of a response; a write of nothing is a failure.\<close>

definition response_line :: "'w wire \<Rightarrow> client_response \<Rightarrow> string" where
  "response_line w r = pr_json (wr_peer w) (response_json r) @ [char_of (10 :: nat)]"

definition awaiting_write_of :: "'w wire \<Rightarrow> client \<Rightarrow> client_response \<Rightarrow> ('w, awaiting_write) slice" where
  "awaiting_write_of w c r = act_bind (instant_now (wr_peer w)) (\<lambda>now. act_return
     \<lparr>wx_client = c, wx_response = r, wx_bytes = response_line w r, wx_written = 0, wx_started_at = now\<rparr>)"

datatype write_progress = WriteDone | WriteLeft awaiting_write bool | WriteFailed

definition advance_write :: "'w wire \<Rightarrow> awaiting_write \<Rightarrow> 'w \<Rightarrow> write_progress \<times> 'w" where
  "advance_write w a x = (case wr_send w (wx_client a) (drop (wx_written a) (wx_bytes a)) x of (r, x') \<Rightarrow>
     (case r of
        Sent n \<Rightarrow> if n = 0 then WriteFailed
          else if wx_written a + n = length (wx_bytes a) then WriteDone
          else WriteLeft (a\<lparr>wx_written := wx_written a + n\<rparr>) True
      | SendBlocked \<Rightarrow> WriteLeft a False
      | SendFailed \<Rightarrow> WriteFailed, x'))"

definition serve_report :: "'w wire \<Rightarrow> client \<Rightarrow> daemon_request \<Rightarrow> ('w, served) slice" where
  "serve_report w c q = serve_decoded (wr_report w) (cq_params q) (\<lambda>a.
     if rv_live a then serve_read (cq_id q) c (RdReport (rv_active a))
     else act_match (dispatch_report w (cq_params q)) (\<lambda>r.
       let response = respond (wr_peer w) (cq_id q) r in
       act_bind (awaiting_write_of w c response) (\<lambda>x.
       act_bind (act_world (advance_write w x)) (\<lambda>progress. act_return (case progress of
         WriteDone \<Rightarrow> ServedAnswered response | WriteLeft x' _ \<Rightarrow> ServedWrite x' | WriteFailed \<Rightarrow> ServedGone)))))"

section \<open>Lifecycle\<close>

definition serve_adopt :: "'w wire \<Rightarrow> client \<Rightarrow> daemon_request \<Rightarrow> ('w, served) slice" where
  "serve_adopt w c q = serve_decoded (wr_adopt w) (cq_params q) (\<lambda>n. act_return (ServedAdopt
     \<lparr>wa_request = cq_id q, wa_client = c, wa_reply = ArRpc, wa_resume = None, wa_state = ApSnapshot n,
      wa_job = None, wa_lease = None\<rparr>))"

definition serve_rename :: "'w wire \<Rightarrow> client \<Rightarrow> daemon_request \<Rightarrow> ('w, served) slice" where
  "serve_rename w c q = serve_decoded (wr_rename w) (cq_params q) (\<lambda>a.
     act_bind (sl_pure (rename_target a)) (\<lambda>target.
     act_bind (sl_pure (prepare_rename target (nr_name a))) (\<lambda>preflight. act_return (ServedRename
       \<lparr>wq_request = cq_id q, wq_client = c, wq_reply = NrRpc, wq_state = NpSnapshot preflight,
        wq_job = None, wq_lease = None\<rparr>))))"

text \<open>The methods answered here need no fuel: only starts and recoveries wait, and both were taken above.\<close>

definition serve_dispatch :: "'w wire \<Rightarrow> daemon_request \<Rightarrow> ('w, served) slice" where
  "serve_dispatch w q = act_match (dispatch_method 0 w q) (\<lambda>r. case r of
     Inl e \<Rightarrow> act_fail e
   | Inr None \<Rightarrow> act_return ServedGone
   | Inr (Some v) \<Rightarrow> serve_value w (cq_id q) v)"

definition serve_retire :: "'w wire \<Rightarrow> client \<Rightarrow> daemon_request \<Rightarrow> ('w, served) slice" where
  "serve_retire w c q = serve_decoded (wr_retire w) (cq_params q) (\<lambda>a.
     if \<not> tr_close_pane a then serve_dispatch w q
     else act_bind (prepare_retire_close (wr_peer w) (tr_incarnation a) (tr_key a)) (\<lambda>preflight.
       act_return (ServedRetire
         \<lparr>wz_request = cq_id q, wz_client = c, wz_state = TpSnapshot preflight, wz_job = None, wz_lease = None\<rparr>)))"

definition serve_waiter_retire :: "'w wire \<Rightarrow> client \<Rightarrow> daemon_request \<Rightarrow> ('w, served) slice" where
  "serve_waiter_retire w c q = serve_decoded (wr_waiter_retire w) (cq_params q) (\<lambda>a.
     act_bind (sl_pure (resolve_waiter_retire_target a)) (\<lambda>agent.
     act_bind (prepare_retire_waiter (wr_peer w) agent ''waiter retired'') (\<lambda>prepared.
       act_return (ServedWaiterRetire
         \<lparr>wv_request = cq_id q, wv_client = c, wv_agent = agent, wv_prepared = prepared\<rparr>))))"

definition prepare_cancel :: "'w wire \<Rightarrow> daemon_request \<Rightarrow> ('w, cancel_outcome \<times> prepared_cancellation list) slice" where
  "prepare_cancel w q = with_params (wr_cancel w) (cq_params q) (\<lambda>a.
     record_cancel (wr_peer w) (xc_requester a) (xc_ask a) (xc_reason a))"

definition serve_cancel :: "'w wire \<Rightarrow> client \<Rightarrow> daemon_request \<Rightarrow> ('w, served) slice" where
  "serve_cancel w c q = act_bind (prepare_cancel w q) (\<lambda>(outcome, prompts).
     if prompts = [] then serve_value w (cq_id q) (cancel_result outcome)
     else act_return (ServedCancel
       \<lparr>wu_request = cq_id q, wu_client = c, wu_outcome = outcome, wu_prompts = prompts\<rparr>))"

section \<open>The line\<close>

definition serve_method :: "'w wire \<Rightarrow> client \<Rightarrow> string \<Rightarrow> daemon_request \<Rightarrow> ('w, served) slice" where
  "serve_method w c leftover q =
     (let m = cq_method q; v = cq_params q in
      if m = ''start'' \<or> m = ''handoff'' then serve_start w c q
      else if m = ''replies'' then serve_replies w c q
      else if m = ''inbox.claim'' then serve_inbox_claim w c leftover q
      else if m = ''ask'' \<or> m = ''tell'' \<or> m = ''reply'' then serve_bound w c q (serve_prompt w c q)
      else if m = ''clear'' then serve_bound w c q (serve_clear w c q)
      else if m = ''recover'' then serve_read (cq_id q) c (RdRecover 0)
      else if m = ''attribution'' then serve_or_read w c q (prepare_attribution_read w q) (dispatch_attribution w v)
      else if m = ''who'' then serve_or_read w c q (prepare_who_read w q) (dispatch_who w v)
      else if m = ''report'' then serve_report w c q
      else if m = ''whoami'' then serve_or_read w c q (prepare_whoami_read w q) (dispatch_whoami w v (cq_id q))
      else if m = ''adopt'' then serve_adopt w c q
      else if m = ''rename'' then serve_rename w c q
      else if m = ''retire'' then serve_retire w c q
      else if m = ''waiter.retire'' then serve_waiter_retire w c q
      else if m = ''cancel'' then serve_cancel w c q
      else serve_dispatch w q)"

definition serve_parsed_line :: "'w wire \<Rightarrow> client \<Rightarrow> string \<Rightarrow> string \<Rightarrow> ('w, served) serving" where
  "serve_parsed_line w c line leftover = (case wr_request w line of
     Inl text \<Rightarrow> Pair (ServedAnswered (malformed_response text))
   | Inr q \<Rightarrow> serve_try w (cq_id q) (serve_method w c leftover q))"

fun drop_while_end :: "('a \<Rightarrow> bool) \<Rightarrow> 'a list \<Rightarrow> 'a list" where
  "drop_while_end p xs = rev (dropWhile p (rev xs))"

definition is_line_break :: "char \<Rightarrow> bool" where
  "is_line_break c \<longleftrightarrow> byte_of c = 10 \<or> byte_of c = 13"

definition serve_request :: "'w wire \<Rightarrow> client \<Rightarrow> string \<Rightarrow> string \<Rightarrow> ('w, served) serving" where
  "serve_request w c line leftover = (case from_utf8 line of
     None \<Rightarrow> Pair ServedGone
   | Some txt \<Rightarrow> serve_parsed_line w c (drop_while_end is_line_break txt) leftover)"

end
