(* ===== verification/Parking.thy ===== *)
theory Parking
  imports Lines
begin

text \<open>
  Parking in \<open>src/src/daemon.rs\<close>: each parked client starts the Herdr job that will move it on. A prompt runs
  over a lease of its own; it belongs to a client, to the daemon (a due delivery or a reminder), or to the
  session of a cancelled ask or a retired waiter, which answers its client once every notice of it ended.
\<close>

section \<open>Parking\<close>

definition park_start :: "awaiting_start \<Rightarrow> ('w, unit) turn" where
  "park_start a = turn_bind (submit_new (\<lambda>i. JobSnapshot i (ws_declared a = None)) OfStart) (\<lambda>i.
     turn_push sv_starts_update (a\<lparr>ws_job := Some i, ws_phase := SpSnapshot\<rparr>))"

definition park_prompt :: "awaiting_prompt \<Rightarrow> ('w, unit) turn" where
  "park_prompt a = turn_bind (submit_new (\<lambda>i. JobOpen i (pp_pane (wp_prepared a)) False) OfPrompt) (\<lambda>i.
     turn_upd (sv_prompts_update (hm_insert i a)))"

definition park_read :: "awaiting_read \<Rightarrow> ('w, unit) turn" where
  "park_read r = turn_bind (submit_new (\<lambda>i. case wd_kind r of
       RdReport _ \<Rightarrow> JobLifecycleSnapshot i | _ \<Rightarrow> JobSnapshot i True) OfClientRead) (\<lambda>i.
     turn_upd (sv_reads_update (hm_insert i r)))"

text \<open>Only a fresh retirement is parked.\<close>

definition park_retire :: "awaiting_retire_close \<Rightarrow> ('w, unit) turn" where
  "park_retire r = (case wz_state r of
     TpSnapshot _ \<Rightarrow> turn_bind (submit_new (\<lambda>i. JobSnapshot i True) OfRetire) (\<lambda>i.
       turn_push sv_retires_update (r\<lparr>wz_job := Some i\<rparr>))
   | _ \<Rightarrow> turn_gone (wz_client r))"

definition park_rename :: "awaiting_rename \<Rightarrow> ('w, unit) turn" where
  "park_rename r = (case wq_state r of
     NpSnapshot _ \<Rightarrow> turn_bind (submit_new (\<lambda>i. JobSnapshot i True) OfRename) (\<lambda>i.
       turn_push sv_renames_update (r\<lparr>wq_job := Some i\<rparr>))
   | _ \<Rightarrow> turn_gone (wq_client r))"

definition park_adopt :: "awaiting_adopt \<Rightarrow> ('w, unit) turn" where
  "park_adopt a = turn_bind (submit_new (\<lambda>i. JobSnapshot i True) OfAdopt) (\<lambda>i.
     turn_push sv_adopts_update (a\<lparr>wa_job := Some i\<rparr>))"

text \<open>A prompt no client waits for by itself.\<close>

definition notice_prompt :: "prompt_owner \<Rightarrow> prepared_prompt \<Rightarrow> awaiting_prompt" where
  "notice_prompt owner x = \<lparr>wp_request = [], wp_client = None, wp_prepared = x, wp_result = JNull, wp_reply_to = None,
     wp_lease = None, wp_committed = False, wp_owner = owner, wp_reminder = None\<rparr>"

definition u32_of_len :: "nat \<Rightarrow> nat" where
  "u32_of_len n = min n 4294967295"

text \<open>A session of notices, with a number of its own.\<close>

definition open_cancel :: "awaiting_cancel \<Rightarrow> ('w, nat) turn" where
  "open_cancel c = turn_bind (turn_get sv_next_cancel) (\<lambda>s.
     turn_seq (turn_upd (\<lambda>n. n\<lparr>sv_next_cancel := saturating_succ_u64 s, sv_cancels := hm_insert s c (sv_cancels n)\<rparr>))
       (turn_return s))"

definition open_waiter_retire :: "awaiting_waiter_retire \<Rightarrow> ('w, nat) turn" where
  "open_waiter_retire r = turn_bind (turn_get sv_next_waiter_retire) (\<lambda>s.
     turn_seq (turn_upd (\<lambda>n. n\<lparr>sv_next_waiter_retire := saturating_succ_u64 s,
         sv_waiter_retires := hm_insert s r (sv_waiter_retires n)\<rparr>))
       (turn_return s))"

definition park_cancel :: "pending_cancel \<Rightarrow> ('w, unit) turn" where
  "park_cancel q = turn_bind (open_cancel
       \<lparr>wc_request = wu_request q, wc_client = wu_client q, wc_outcome = wu_outcome q,
        wc_remaining = u32_of_len (length (wu_prompts q))\<rparr>) (\<lambda>s.
     turn_each (\<lambda>(waiting, x). park_prompt (notice_prompt (OwnCancel s waiting) x)) (wu_prompts q))"

definition undelivered_notices :: "prepared_waiter_retire \<Rightarrow> waiter_retire_outcome" where
  "undelivered_notices x = \<lparr>wo_cancelled = pw_cancelled x,
     wo_notices = map (\<lambda>n. \<lparr>wn_ask = pn_ask n, wn_message = pn_message n, wn_delivered = False\<rparr>) (pw_notices x)\<rparr>"

definition sendable_notices :: "prepared_waiter_retire \<Rightarrow> (message_id \<times> prepared_prompt) list" where
  "sendable_notices x = List.map_filter (\<lambda>n. map_option (Pair (pn_ask n)) (pn_prepared n)) (pw_notices x)"

definition park_waiter_retire :: "'w wire \<Rightarrow> pending_waiter_retire \<Rightarrow> ('w, unit) turn" where
  "park_waiter_retire w q =
     (let outcome = undelivered_notices (wv_prepared q); sendable = sendable_notices (wv_prepared q);
          remaining = u32_of_len (length sendable) in
      if remaining = 0
      then turn_seq (turn_upd (sv_next_waiter_retire_update saturating_succ_u64))
        (answer w (wv_client q) (wv_request q) (Inr (waiter_retire_result (wv_agent q) outcome)))
      else turn_bind (open_waiter_retire
          \<lparr>ww_request = wv_request q, ww_client = wv_client q, ww_agent = wv_agent q, ww_outcome = outcome,
           ww_remaining = remaining\<rparr>) (\<lambda>s.
        turn_each (\<lambda>(ask, x). park_prompt (notice_prompt (OwnWaiterRetire s ask) x)) sendable))"

section \<open>Notices of a session\<close>

definition noted_cancel :: "bool \<Rightarrow> bool \<Rightarrow> awaiting_cancel \<Rightarrow> awaiting_cancel" where
  "noted_cancel waiting ok c = c\<lparr>wc_outcome := (if waiting then (wc_outcome c)\<lparr>co_delivered := ok\<rparr>
     else (wc_outcome c)\<lparr>co_owing_delivered := ok\<rparr>), wc_remaining := wc_remaining c - 1\<rparr>"

definition note_cancel_notice :: "'w wire \<Rightarrow> nat \<Rightarrow> bool \<Rightarrow> bool \<Rightarrow> ('w, unit) turn" where
  "note_cancel_notice w s waiting ok =
     turn_seq (turn_upd (sv_cancels_update (hm_change s (noted_cancel waiting ok))))
     (turn_found (\<lambda>n. hm_get s (sv_cancels n)) turn_skip (\<lambda>c.
       if wc_remaining c \<noteq> 0 then turn_skip
       else turn_pop sv_cancels sv_cancels_update s (\<lambda>c.
         answer w (wc_client c) (wc_request c) (Inr (cancel_result (wc_outcome c))))))"

fun mark_delivered :: "message_id \<Rightarrow> bool \<Rightarrow> waiter_retire_notice list \<Rightarrow> waiter_retire_notice list" where
  "mark_delivered ask ok [] = []"
| "mark_delivered ask ok (n # ns) =
     (if wn_ask n = ask then n\<lparr>wn_delivered := ok\<rparr> # ns else n # mark_delivered ask ok ns)"

definition noted_retire :: "message_id \<Rightarrow> bool \<Rightarrow> awaiting_waiter_retire \<Rightarrow> awaiting_waiter_retire" where
  "noted_retire ask ok r = r\<lparr>ww_outcome := (ww_outcome r)\<lparr>wo_notices := mark_delivered ask ok (wo_notices (ww_outcome r))\<rparr>,
     ww_remaining := ww_remaining r - 1\<rparr>"

definition note_waiter_retire_notice :: "'w wire \<Rightarrow> nat \<Rightarrow> message_id \<Rightarrow> bool \<Rightarrow> ('w, unit) turn" where
  "note_waiter_retire_notice w s ask ok =
     turn_seq (turn_upd (sv_waiter_retires_update (hm_change s (noted_retire ask ok))))
     (turn_found (\<lambda>n. hm_get s (sv_waiter_retires n)) turn_skip (\<lambda>r.
       if ww_remaining r \<noteq> 0 then turn_skip
       else turn_pop sv_waiter_retires sv_waiter_retires_update s (\<lambda>r.
         answer w (ww_client r) (ww_request r) (Inr (waiter_retire_result (ww_agent r) (ww_outcome r))))))"

section \<open>The end of a prompt\<close>

definition release_due_inflight :: "awaiting_prompt \<Rightarrow> ('w, unit) turn" where
  "release_due_inflight a = (if wp_owner a = OwnInternal \<and> wp_reminder a = None
     then turn_upd (sv_due_inflight_update (filter (\<lambda>i. i \<noteq> pp_operation (wp_prepared a)))) else turn_skip)"

definition release_reminder :: "prepared_reminder \<Rightarrow> ('w, unit) turn" where
  "release_reminder r = turn_upd (sv_reminder_inflight_update (filter (\<lambda>i. i \<noteq> dr_ask (pm_reminder r))))"

text \<open>The answer of a prompt a client waits for; the others have no stream.\<close>

definition write_parked_prompt :: "'w wire \<Rightarrow> awaiting_prompt \<Rightarrow> slice_error + unit \<Rightarrow> ('w, unit) turn" where
  "write_parked_prompt w a sent = (case wp_client a of
     None \<Rightarrow> turn_skip
   | Some c \<Rightarrow> answer w c (wp_request a) (map_sum id (\<lambda>_. wp_result a) sent))"

definition write_filled_prompt :: "'w wire \<Rightarrow> awaiting_prompt \<Rightarrow> slice_error + unit \<Rightarrow> ('w, unit) turn" where
  "write_filled_prompt w a sent = turn_bind (turn_get (\<lambda>n. ke_store (sv_kelpie n))) (\<lambda>d.
     write_parked_prompt w (fill_prompt_result w a (\<not> isl sent) d) sent)"

text \<open>A prompt taken out of the table, its lease dropped; each owner then hears of its end.\<close>

definition end_prompt :: "nat \<Rightarrow> (awaiting_prompt \<Rightarrow> ('w, unit) turn) \<Rightarrow> ('w, unit) turn" where
  "end_prompt job f = turn_pop sv_prompts sv_prompts_update job (\<lambda>a.
     turn_seq (release_due_inflight a) (turn_seq (drop_lease (wp_lease a)) (f a)))"

definition finish_parked_prompt :: "'w wire \<Rightarrow> nat \<Rightarrow> herdr_error + agent_observation \<Rightarrow> ('w, unit) turn" where
  "finish_parked_prompt w job result = end_prompt job (\<lambda>a. case wp_reminder a of
     Some r \<Rightarrow> turn_seq (turn_try (complete_reminder (wr_peer w) r result)) (release_reminder r)
   | None \<Rightarrow>
       turn_bind (turn_do (complete_prompt_delivery (wr_peer w) (wp_prepared a) result)) (\<lambda>sent.
         case wp_owner a of
           OwnCancel s waiting \<Rightarrow> note_cancel_notice w s waiting (\<not> isl sent)
         | OwnWaiterRetire s ask \<Rightarrow> note_waiter_retire_notice w s ask (\<not> isl sent)
         | _ \<Rightarrow> write_filled_prompt w a sent))"

text \<open>
  A prompt that failed: after its intent was committed the failure decides its outcome, before that nothing
  was written, so a notice is rejected and a client is told the failure. The daemon never passes a
  success here.
\<close>

definition failed_notice :: "'w wire \<Rightarrow> awaiting_prompt \<Rightarrow> herdr_error + agent_observation \<Rightarrow> ('w, bool) turn" where
  "failed_notice w a result =
     (if wp_committed a
      then turn_bind (turn_do (complete_prompt_delivery (wr_peer w) (wp_prepared a) result)) (\<lambda>r. turn_return (\<not> isl r))
      else turn_seq (case result of Inl e \<Rightarrow> turn_try (reject_unsent_prompt (wr_peer w) (wp_prepared a) e) | Inr _ \<Rightarrow> turn_skip)
        (turn_return False))"

definition fail_parked_prompt :: "'w wire \<Rightarrow> nat \<Rightarrow> herdr_error + agent_observation \<Rightarrow> ('w, unit) turn" where
  "fail_parked_prompt w job result = end_prompt job (\<lambda>a. case wp_reminder a of
     Some r \<Rightarrow> turn_seq (if wp_committed a then turn_try (complete_reminder (wr_peer w) r result) else turn_skip)
       (release_reminder r)
   | None \<Rightarrow> (case wp_owner a of
       OwnCancel s waiting \<Rightarrow> turn_bind (failed_notice w a result) (note_cancel_notice w s waiting)
     | OwnWaiterRetire s ask \<Rightarrow> turn_bind (failed_notice w a result) (note_waiter_retire_notice w s ask)
     | _ \<Rightarrow>
         turn_bind (if wp_committed a then turn_do (complete_prompt_delivery (wr_peer w) (wp_prepared a) result)
             else turn_return (map_sum SHerdr (\<lambda>_. ()) result)) (\<lambda>sent.
           write_filled_prompt w a sent)))"

text \<open>A prompt given up before its write; no session hears of it.\<close>

definition answer_parked_prompt :: "'w wire \<Rightarrow> nat \<Rightarrow> slice_error + json \<Rightarrow> ('w, unit) turn" where
  "answer_parked_prompt w job result = end_prompt job (\<lambda>a. case wp_client a of
     None \<Rightarrow> turn_skip | Some c \<Rightarrow> answer w c (wp_request a) result)"

section \<open>The lease of a prompt\<close>

text \<open>
  The connection of a job: the intent is committed first, then the request goes out over the lease, if
  it is still \<open>alive\<close>. The pauses after a write are hooks of the fault tests and left out.
\<close>

definition lease_closed :: "string \<Rightarrow> herdr_error" where
  "lease_closed what = HUnexpected (''herdr lease closed before '' @ what)"

definition send_prompt :: "'w wire \<Rightarrow> bool \<Rightarrow> nat \<Rightarrow> string \<Rightarrow> string \<Rightarrow> string \<Rightarrow> ('w, unit) turn" where
  "send_prompt w alive job request pane txt =
     turn_seq (turn_upd (sv_prompts_update (hm_change job (\<lambda>a. a\<lparr>wp_committed := True\<rparr>))))
     (if alive then turn_seq (send_lease job (SendCmd request ''agent.prompt'' (message_prompt_params pane txt) True))
          (turn_upd (sv_prompts_update (hm_change job (\<lambda>a. a\<lparr>wp_lease := Some job\<rparr>))))
      else fail_parked_prompt w job (Inl (lease_closed ''send'')))"

definition on_prompt_opened :: "'w wire \<Rightarrow> bool \<Rightarrow> nat \<Rightarrow> ('w, unit) turn" where
  "on_prompt_opened w alive job = turn_found (\<lambda>n. hm_get job (sv_prompts n)) (send_lease job DropCmd) (\<lambda>a.
     case wp_reminder a of
       Some r \<Rightarrow> turn_bind (turn_do (commit_reminder_intent r)) (\<lambda>c. case c of
           Inr _ \<Rightarrow> send_prompt w alive job (pm_request r) (dr_pane (pm_reminder r)) (pm_envelope r)
         | Inl _ \<Rightarrow> turn_seq (send_lease job DropCmd)
             (fail_parked_prompt w job (Inl (HUnexpected ''reminder is no longer due''))))
     | None \<Rightarrow> turn_bind (turn_do (commit_prompt_intent (wr_peer w) (wp_prepared a))) (\<lambda>c. case c of
           Inr _ \<Rightarrow> send_prompt w alive job (pp_request (wp_prepared a)) (pp_pane (wp_prepared a)) (pp_envelope (wp_prepared a))
         | Inl e \<Rightarrow> turn_seq (send_lease job DropCmd) (answer_parked_prompt w job (Inl e))))"

end
