(* ===== verification/Sockets.thy ===== *)
theory Sockets
  imports Parking
begin

text \<open>
  The sockets of the clients in \<open>src/src/daemon.rs\<close>: an open inbox offers each queued delivery once and reads
  acknowledgements, a large response drains without blocking, a long poll ends with its first event or
  its deadline, and a request is served once its line is complete. Nothing here blocks.
\<close>

section \<open>Inboxes\<close>

text \<open>A step of an inbox: \<open>None\<close> is a connection that failed.\<close>

type_synonym 'w inbox_step = "inbox_session \<Rightarrow> 'w kelpie \<Rightarrow> (bool option \<times> inbox_session) \<times> 'w kelpie"

definition inbox_then :: "'w inbox_step \<Rightarrow> (bool \<Rightarrow> 'w inbox_step) \<Rightarrow> 'w inbox_step" where
  "inbox_then m f s k = (case m s k of
     ((None, s'), k') \<Rightarrow> ((None, s'), k') | ((Some b, s'), k') \<Rightarrow> f b s' k')"

definition inbox_end :: "bool option \<Rightarrow> 'w inbox_step" where "inbox_end b s k = ((b, s), k)"

function flush_buf :: "'w wire \<Rightarrow> client \<Rightarrow> string \<Rightarrow> bool \<Rightarrow> 'w \<Rightarrow> (bool option \<times> string) \<times> 'w" where
  "flush_buf w c [] p x = ((Some p, []), x)"
| "flush_buf w c (b # bs) p x = (case wr_send w c (b # bs) x of (r, x') \<Rightarrow> (case r of
     Sent n \<Rightarrow> if n = 0 then ((None, b # bs), x') else flush_buf w c (drop n (b # bs)) True x'
   | SendBlocked \<Rightarrow> ((Some p, b # bs), x')
   | SendFailed \<Rightarrow> ((None, b # bs), x')))"
  by pat_completeness auto
termination by (relation "measure (\<lambda>(w, c, s, p, x). length s)") auto

definition flush_inbox_write :: "'w wire \<Rightarrow> 'w inbox_step" where
  "flush_inbox_write w s k = (case flush_buf w (wi_client s) (wi_write_buf s) False (ke_world k) of ((p, rest), x) \<Rightarrow>
     ((p, s\<lparr>wi_write_buf := rest\<rparr>), k\<lparr>ke_world := x\<rparr>))"

definition inbox_line :: "'w wire \<Rightarrow> json \<Rightarrow> string" where
  "inbox_line w v = pr_json (wr_peer w) v @ [char_of (10 :: nat)]"

definition inbox_event :: "string \<Rightarrow> socket_inbox_delivery \<Rightarrow> json" where
  "inbox_event i e = jobj
     [(''id'', JStr i), (''method'', JStr ''inbox.delivery''),
      (''params'', jobj
        [(''message_id'', jid (sd_message_id e)), (''kind'', jtext message_kind_text (sd_kind e)),
         (''body'', JStr (sd_body e)), (''reply_to'', jopt jid (sd_reply_to e)),
         (''disposition'', jopt (jtext reply_disposition_text) (sd_disposition e)),
         (''attempt_number'', jnat (sd_attempt_number e)), (''sender_agent_id'', jopt jid (sd_sender e)),
         (''sender_public_name'', jopt JStr (sd_sender_name e)),
         (''scheduled_at_ms'', JInt (sd_scheduled_at_ms e)), (''created_at_ms'', JInt (sd_created_at_ms e))])]"

text \<open>Each delivery not offered on this connection before, with a fresh event id.\<close>

fun offer_each :: "'w wire \<Rightarrow> socket_inbox_delivery list \<Rightarrow> bool \<Rightarrow> 'w inbox_step" where
  "offer_each w [] p s k = ((Some p, s), k)"
| "offer_each w (e # es) p s k =
     (if sd_message_id e \<in> set (wi_offered s) then offer_each w es p s k
      else case wr_uuid w (ke_world k) of (i, x) \<Rightarrow>
        offer_each w es True (s\<lparr>wi_write_buf := wi_write_buf s @ inbox_line w (inbox_event i e),
          wi_offered := wi_offered s @ [sd_message_id e]\<rparr>) (k\<lparr>ke_world := x\<rparr>))"

definition queued_now :: "'w wire \<Rightarrow> logical_agent_id \<Rightarrow> ('w, socket_inbox_delivery list) slice" where
  "queued_now w a = act_bind (sl_clock (wr_peer w)) (\<lambda>now. sl_read (queued_socket_inbox_deliveries now a))"

definition offer_queued_inbox :: "'w wire \<Rightarrow> 'w inbox_step" where
  "offer_queued_inbox w s k = (case queued_now w (wi_waiter s) k of
     (Inl _, k') \<Rightarrow> ((None, s), k') | (Inr queued, k') \<Rightarrow> offer_each w queued False s k')"

definition only_acks :: slice_error where
  "only_acks = invalid_request ''inbox connection accepts only inbox.ack''"

text \<open>One line of an open inbox, and whether it acknowledged a delivery.\<close>

definition inbox_request :: "'w wire \<Rightarrow> logical_agent_id \<Rightarrow> string \<Rightarrow> 'w kelpie \<Rightarrow> (client_response \<times> bool) \<times> 'w kelpie" where
  "inbox_request w a line k = (case wr_request w line of
     Inl t \<Rightarrow> ((malformed_response t, False), k)
   | Inr q \<Rightarrow>
       if cq_method q = ''inbox.ack'' then (case ack_inbox w q a k of (r, k') \<Rightarrow>
         ((respond (wr_peer w) (cq_id q) r, \<not> isl r), k'))
       else ((respond (wr_peer w) (cq_id q) (Inl only_acks), False), k))"

definition newline :: char where "newline = char_of (10 :: nat)"

definition split_line :: "string \<Rightarrow> (string \<times> string) option" where
  "split_line buf = (if newline \<in> set buf
     then Some (takeWhile (\<lambda>c. c \<noteq> newline) buf, tl (dropWhile (\<lambda>c. c \<noteq> newline) buf)) else None)"

lemma split_line_shorter: "split_line buf = Some (line, rest) \<Longrightarrow> length rest < length buf"
  by (induction buf arbitrary: line rest) (auto simp: split_line_def less_Suc_eq split: if_splits)

function inbox_lines :: "'w wire \<Rightarrow> bool \<Rightarrow> 'w inbox_step" where
  "inbox_lines w p s k = (case split_line (wi_read_buf s) of
     None \<Rightarrow> ((Some p, s), k)
   | Some (line, rest) \<Rightarrow>
       let s' = s\<lparr>wi_read_buf := rest\<rparr>; line' = trim (utf8_lossy line) in
       if line' = [] then inbox_lines w p s' k
       else case inbox_request w (wi_waiter s) line' k of ((response, acked), k') \<Rightarrow>
         inbox_lines w (p \<or> acked) (s'\<lparr>wi_write_buf := wi_write_buf s' @ response_line w response\<rparr>) k')"
  by pat_completeness auto
termination
  by (relation "measure (\<lambda>(w, p, s, k). length (wi_read_buf s))") (auto dest: split_line_shorter)

declare inbox_lines.simps [simp del]

text \<open>What was received before the end of the stream is still served.\<close>

definition read_inbox_acks :: "'w wire \<Rightarrow> 'w inbox_step" where
  "read_inbox_acks w s k = (case wr_recv w (wi_client s) (ke_world k) of (r, x) \<Rightarrow>
     let k' = k\<lparr>ke_world := x\<rparr> in (case r of
       RecvFailed \<Rightarrow> ((None, s), k')
     | RecvBlocked \<Rightarrow> inbox_lines w False s k'
     | Received bytes \<Rightarrow>
         if bytes = [] then inbox_then (inbox_lines w False) (\<lambda>_. inbox_end None) s k'
         else inbox_lines w False (s\<lparr>wi_read_buf := wi_read_buf s @ bytes\<rparr>) k'))"

text \<open>The acknowledgements are answered before a failure of the read is reported.\<close>

definition pump_reads :: "'w wire \<Rightarrow> bool \<Rightarrow> 'w inbox_step" where
  "pump_reads w p s k = (case read_inbox_acks w s k of ((r, s'), k') \<Rightarrow>
     inbox_then (flush_inbox_write w) (\<lambda>flushed. inbox_end (map_option (\<lambda>b. b \<or> flushed \<or> p) r)) s' k')"

definition pump_inbox :: "'w wire \<Rightarrow> 'w inbox_step" where
  "pump_inbox w = inbox_then (flush_inbox_write w) (\<lambda>p1 s k.
     if wi_write_buf s \<noteq> [] then ((Some p1, s), k)
     else inbox_then (offer_queued_inbox w) (\<lambda>p2. inbox_then (flush_inbox_write w) (\<lambda>p3 s k.
       if wi_write_buf s \<noteq> [] then ((Some True, s), k) else pump_reads w (p1 \<or> p2 \<or> p3) s k)) s k)"

definition inbox_pass :: "'w wire \<Rightarrow> inbox_session \<Rightarrow> ('w, inbox_session option \<times> bool) turn" where
  "inbox_pass w s n = (case pump_inbox w s (sv_kelpie n) of ((r, s'), k) \<Rightarrow>
     let n' = n\<lparr>sv_kelpie := k\<rparr> in
     (case r of
        Some changed \<Rightarrow> ((Some s', changed), n')
      | None \<Rightarrow> ((None, False), n'\<lparr>sv_gone := sv_gone n' @ [wi_client s]\<rparr>)))"

text \<open>A pass over a list of the daemon, whose survivors become the list.\<close>

definition turn_pass ::
  "('w daemon \<Rightarrow> 'e list) \<Rightarrow> ('w, 'e) field_update \<Rightarrow> ('e \<Rightarrow> ('w, 'e option \<times> bool) turn) \<Rightarrow> ('w, bool) turn" where
  "turn_pass get put f = turn_bind (turn_get get) (\<lambda>xs. turn_seq (turn_upd (put (\<lambda>_. [])))
     (turn_bind (turn_sweep f xs) (\<lambda>(kept, p). turn_seq (turn_upd (put (\<lambda>_. kept))) (turn_return p))))"

definition advance_inboxes :: "'w wire \<Rightarrow> ('w, bool) turn" where
  "advance_inboxes w = turn_pass sv_inboxes sv_inboxes_update (inbox_pass w)"

text \<open>A new claim takes the place of the open inbox of the same waiter.\<close>

definition park_inbox :: "'w wire \<Rightarrow> inbox_session \<Rightarrow> ('w, unit) turn" where
  "park_inbox w s = turn_seq
     (turn_upd (\<lambda>n. n\<lparr>sv_gone := sv_gone n @ map wi_client (filter (\<lambda>x. wi_waiter x = wi_waiter s) (sv_inboxes n)),
        sv_inboxes := filter (\<lambda>x. wi_waiter x \<noteq> wi_waiter s) (sv_inboxes n) @ [s]\<rparr>))
     (turn_bind (advance_inboxes w) (\<lambda>_. turn_skip))"

section \<open>Long polls\<close>

definition wait_poll :: "awaiting_replies \<Rightarrow> ('w, string \<times> int \<times> ask_pull_event list) slice" where
  "wait_poll a = sl_read (poll_ask_pull (wy_ask a) (wy_requester a) (wy_after a) (map_option nat (wy_lease_id a)))"

definition complete_replies_wait :: "'w wire \<Rightarrow> awaiting_replies \<Rightarrow> ('w, awaiting_replies option \<times> bool) turn" where
  "complete_replies_wait w a = turn_bind (turn_do (wait_poll a)) (\<lambda>r.
     let finish = (\<lambda>v. turn_seq (answer w (wy_client a) (wy_request a) v) (turn_return (None, True))) in
     (case r of
        Inl e \<Rightarrow> finish (Inl e)
      | Inr poll \<Rightarrow>
          if snd (snd poll) \<noteq> [] then finish (Inr (replies_poll_json poll))
          else turn_bind (turn_now w) (\<lambda>now.
            if wy_deadline a \<le> now then finish (Inr (replies_poll_json poll)) else turn_return (Some a, False))))"

definition advance_replies_waits :: "'w wire \<Rightarrow> ('w, bool) turn" where
  "advance_replies_waits w = turn_pass sv_replies sv_replies_update (complete_replies_wait w)"

section \<open>Large responses\<close>

definition CLIENT_WRITE_TIMEOUT :: nat where "CLIENT_WRITE_TIMEOUT = 5000"
definition CLIENT_REQUEST_DEADLINE :: nat where "CLIENT_REQUEST_DEADLINE = 10000"
definition MAX_REQUEST_BYTES :: nat where "MAX_REQUEST_BYTES = 64 * 1024"
definition MAX_ACCEPTS_PER_POLL :: nat where "MAX_ACCEPTS_PER_POLL = 16"

definition park_response :: "'w wire \<Rightarrow> client \<Rightarrow> client_response \<Rightarrow> ('w, unit) turn" where
  "park_response w c r = turn_bind (turn_now w) (\<lambda>now.
     turn_bind (turn_world (advance_write w \<lparr>wx_client = c, wx_response = r, wx_bytes = response_line w r,
         wx_written = 0, wx_started_at = now\<rparr>)) (\<lambda>progress. case progress of
       WriteDone \<Rightarrow> write_response c r | WriteLeft a _ \<Rightarrow> turn_push sv_writes_update a | WriteFailed \<Rightarrow> turn_gone c))"

definition write_pass :: "'w wire \<Rightarrow> awaiting_write \<Rightarrow> ('w, awaiting_write option \<times> bool) turn" where
  "write_pass w a = turn_bind (turn_now w) (\<lambda>now.
     if CLIENT_WRITE_TIMEOUT \<le> now - wx_started_at a
     then turn_seq (turn_gone (wx_client a)) (turn_return (None, True))
     else turn_bind (turn_world (advance_write w a)) (\<lambda>progress. case progress of
       WriteDone \<Rightarrow> turn_seq (write_response (wx_client a) (wx_response a)) (turn_return (None, True))
     | WriteLeft a' advanced \<Rightarrow> turn_return (Some a', advanced)
     | WriteFailed \<Rightarrow> turn_seq (turn_gone (wx_client a)) (turn_return (None, True))))"

definition advance_writes :: "'w wire \<Rightarrow> ('w, bool) turn" where
  "advance_writes w = turn_pass sv_writes sv_writes_update (write_pass w)"

section \<open>Requests\<close>

definition park_served :: "'w wire \<Rightarrow> client \<Rightarrow> served \<Rightarrow> ('w, unit) turn" where
  "park_served w c s = (case s of
     ServedAnswered r \<Rightarrow> write_response c r
   | ServedGone \<Rightarrow> turn_gone c
   | ServedStart a \<Rightarrow> park_start a
   | ServedClear a \<Rightarrow> turn_push sv_clears_update a
   | ServedInbox r x \<Rightarrow> turn_seq (turn_upd (sv_claimed_update (\<lambda>rs. rs @ [(c, r)]))) (park_inbox w x)
   | ServedReplies a \<Rightarrow> turn_push sv_replies_update a
   | ServedPrompt a \<Rightarrow> park_prompt a
   | ServedCancel q \<Rightarrow> park_cancel q
   | ServedWaiterRetire q \<Rightarrow> park_waiter_retire w q
   | ServedRead r \<Rightarrow> park_read r
   | ServedWrite a \<Rightarrow> turn_push sv_writes_update a
   | ServedAdopt a \<Rightarrow> park_adopt a
   | ServedRename r \<Rightarrow> park_rename r
   | ServedRetire r \<Rightarrow> park_retire r)"

definition turn_serve :: "('w, 'a) serving \<Rightarrow> ('w, 'a) turn" where
  "turn_serve m n = (case m (sv_kelpie n) of (x, k) \<Rightarrow> (x, n\<lparr>sv_kelpie := k\<rparr>))"

definition dispatch_line :: "'w wire \<Rightarrow> client \<Rightarrow> string \<Rightarrow> string \<Rightarrow> ('w, unit) turn" where
  "dispatch_line w c line leftover = turn_bind (turn_serve (serve_request w c line leftover)) (park_served w c)"

definition drop_carriage_return :: "string \<Rightarrow> string" where
  "drop_carriage_return s = (if s \<noteq> [] \<and> last s = char_of (13 :: nat) then butlast s else s)"

text \<open>What has arrived of a request: too much, a whole line with the bytes after it, or a beginning.\<close>

definition reading_buffered :: "'w wire \<Rightarrow> reading_client \<Rightarrow> ('w, reading_client option \<times> bool) turn" where
  "reading_buffered w a =
     (if MAX_REQUEST_BYTES < length (wk_buf a)
      then turn_seq (turn_gone (wk_client a)) (turn_return (None, True))
      else case split_line (wk_buf a) of
        None \<Rightarrow> turn_return (Some a, False)
      | Some (line, leftover) \<Rightarrow> turn_seq (dispatch_line w (wk_client a) (drop_carriage_return line) leftover)
          (turn_return (None, True)))"

definition reading_pass :: "'w wire \<Rightarrow> reading_client \<Rightarrow> ('w, reading_client option \<times> bool) turn" where
  "reading_pass w a = turn_bind (turn_now w) (\<lambda>now.
     if CLIENT_REQUEST_DEADLINE \<le> now - wk_accepted_at a
     then turn_seq (turn_gone (wk_client a)) (turn_return (None, True))
     else turn_bind (turn_world (wr_recv w (wk_client a))) (\<lambda>r. case r of
       RecvBlocked \<Rightarrow> turn_return (Some a, False)
     | RecvFailed \<Rightarrow> turn_seq (turn_gone (wk_client a)) (turn_return (None, True))
     | Received bytes \<Rightarrow>
         if bytes = [] then turn_seq (turn_gone (wk_client a)) (turn_return (None, True))
         else reading_buffered w (a\<lparr>wk_buf := wk_buf a @ bytes\<rparr>)))"

definition pump_reading :: "'w wire \<Rightarrow> ('w, bool) turn" where
  "pump_reading w = turn_pass sv_reading sv_reading_update (reading_pass w)"

text \<open>The connections waiting at the listener, at most a bounded number of them per pass.\<close>

definition accept_one :: "'w wire \<Rightarrow> client \<Rightarrow> ('w, unit) turn" where
  "accept_one w c = turn_bind (turn_now w) (\<lambda>now.
     turn_push sv_reading_update \<lparr>wk_client = c, wk_buf = [], wk_accepted_at = now\<rparr>)"

definition accept_waiting :: "'w wire \<Rightarrow> client list \<Rightarrow> ('w, bool) turn" where
  "accept_waiting w cs = (let taken = take MAX_ACCEPTS_PER_POLL cs in
     turn_seq (turn_each (accept_one w) taken) (turn_return (taken \<noteq> [])))"

end
