(* ===== verification/Bindings.thy ===== *)
theory Bindings
  imports Sockets
begin

text \<open>
  The parked retirements, renames, adoptions and reads of \<open>src/src/daemon.rs\<close>. Each is a small state machine
  that a Herdr event of its job moves on: a snapshot decides, a lease carries one write, a second
  snapshot confirms it. A lookup of the job that finds nothing drops the event.
\<close>

section \<open>Shared steps\<close>

definition wrong_result :: "string \<Rightarrow> slice_error" where
  "wrong_result what = SHerdr (HUnexpected what)"

text \<open>\<open>expect_err\<close>: the act is meant to fail; a success would panic.\<close>

definition turn_error :: "('w, 'a) slice \<Rightarrow> ('w, slice_error) turn" where
  "turn_error m = turn_bind (turn_do m) (\<lambda>r. turn_return (case r of Inl e \<Rightarrow> e | Inr _ \<Rightarrow> SStore Panic))"

definition the_snapshot :: "string \<Rightarrow> herdr_error + herdr_job_result \<Rightarrow> slice_error + snapshot" where
  "the_snapshot what result = (case result of
     Inr (ResSnapshot s) \<Rightarrow> Inr s | Inr _ \<Rightarrow> Inl (wrong_result what) | Inl e \<Rightarrow> Inl (SHerdr e))"

definition name_target :: "string \<Rightarrow> string \<Rightarrow> json" where
  "name_target pane name = jobj [(''target'', JStr pane), (''name'', JStr name)]"

section \<open>Retirements\<close>

definition retire_index :: "nat \<Rightarrow> 'w daemon \<Rightarrow> nat option" where
  "retire_index job n = position (\<lambda>r. wz_job r = Some job) (sv_retires n)"

definition answer_retire_at :: "'w wire \<Rightarrow> nat \<Rightarrow> slice_error + (operation_id \<times> bool) \<Rightarrow> ('w, unit) turn" where
  "answer_retire_at w i result = turn_take sv_retires sv_retires_update i (\<lambda>r. turn_seq (drop_lease (wz_lease r))
     (answer w (wz_client r) (wz_request r) (map_sum id retire_json result)))"

definition fail_retire_at :: "'w wire \<Rightarrow> nat \<Rightarrow> slice_error \<Rightarrow> ('w, unit) turn" where
  "fail_retire_at w i e = answer_retire_at w i (Inl e)"

definition retire_next :: "nat \<Rightarrow> (nat \<Rightarrow> herdr_job) \<Rightarrow> retire_park_state \<Rightarrow> ('w, unit) turn" where
  "retire_next i job state = turn_bind (submit_new job OfRetire) (\<lambda>j.
     turn_set sv_retires_update i (\<lambda>r. r\<lparr>wz_state := state, wz_job := Some j\<rparr>))"

definition on_retire_opened :: "'w wire \<Rightarrow> bool \<Rightarrow> nat \<Rightarrow> ('w, unit) turn" where
  "on_retire_opened w alive job = turn_found (retire_index job) (send_lease job DropCmd) (\<lambda>i.
     turn_at sv_retires i (\<lambda>r. case wz_state r of
       TpClosing work \<Rightarrow>
         if alive then turn_seq
           (send_lease job (SendCmd (rk_request work) ''pane.close'' (jobj [(''pane_id'', JStr (rk_pane work))]) False))
           (turn_set sv_retires_update i (\<lambda>r. r\<lparr>wz_lease := Some job\<rparr>))
         else fail_retire_at w i (SHerdr (lease_closed ''retire close''))
     | _ \<Rightarrow> send_lease job DropCmd))"

definition on_retire_snapshot :: "'w wire \<Rightarrow> nat \<Rightarrow> retire_preflight \<Rightarrow> slice_error + snapshot \<Rightarrow> ('w, unit) turn" where
  "on_retire_snapshot w i preflight seen = (case seen of
     Inl e \<Rightarrow> fail_retire_at w i e
   | Inr snap \<Rightarrow> turn_bind (turn_do (retire_after_snapshot (wr_peer w) preflight snap)) (\<lambda>r. case r of
       Inl e \<Rightarrow> fail_retire_at w i e
     | Inr (RetireDone released) \<Rightarrow> answer_retire_at w i (Inr (re_operation preflight, released))
     | Inr (RetireClose work) \<Rightarrow> retire_next i (\<lambda>j. JobOpen j (rk_pane work) False) (TpClosing work)))"

definition on_retire_done :: "'w wire \<Rightarrow> nat \<Rightarrow> herdr_error + herdr_job_result \<Rightarrow> ('w, unit) turn" where
  "on_retire_done w job result = turn_found (retire_index job) turn_skip (\<lambda>i. turn_at sv_retires i (\<lambda>r.
     case wz_state r of
       TpSnapshot preflight \<Rightarrow> on_retire_snapshot w i preflight (the_snapshot ''retire snapshot returned wrong result'' result)
     | TpClosing work \<Rightarrow>
         turn_seq (drop_lease (wz_lease r)) (turn_seq (turn_set sv_retires_update i (\<lambda>r. r\<lparr>wz_lease := None\<rparr>))
         (case result of
            Inr ResClosed \<Rightarrow> retire_next i (\<lambda>j. JobSnapshot j False) (TpConfirm work)
          | Inr _ \<Rightarrow> fail_retire_at w i (wrong_result ''retire close returned wrong result'')
          | Inl e \<Rightarrow> fail_retire_at w i (retire_close_error work e)))
     | TpConfirm work \<Rightarrow> (case result of
          Inr (ResSnapshot snap) \<Rightarrow>
            turn_bind (turn_do (complete_retire_confirm (wr_peer w) work snap)) (answer_retire_at w i)
        | Inr _ \<Rightarrow> fail_retire_at w i (wrong_result ''retire confirmation returned wrong result'')
        | Inl e \<Rightarrow> fail_retire_at w i (retire_close_error work e))))"

text \<open>After the close request was written its outcome is unknown.\<close>

definition after_write :: "fail_phase \<Rightarrow> bool" where
  "after_write phase \<longleftrightarrow> phase = PhaseRead \<or> phase = PhaseLease"

definition on_retire_failed :: "'w wire \<Rightarrow> nat \<Rightarrow> fail_phase \<Rightarrow> herdr_error \<Rightarrow> ('w, unit) turn" where
  "on_retire_failed w job phase e = turn_found (retire_index job) turn_skip (\<lambda>i. turn_at sv_retires i (\<lambda>r.
     fail_retire_at w i (case wz_state r of
       TpClosing work \<Rightarrow> if after_write phase then retire_close_error work e else SHerdr e
     | _ \<Rightarrow> SHerdr e)))"

section \<open>Renames\<close>

definition rename_index :: "nat \<Rightarrow> 'w daemon \<Rightarrow> nat option" where
  "rename_index job n = position (\<lambda>r. wq_job r = Some job) (sv_renames n)"

text \<open>
  The end of a rename. A repair of a recovery goes on with the next snapshot, or ends the recovery
  with what it has when the name could not be repaired.
\<close>

definition repair_end :: "'w wire \<Rightarrow> nat \<Rightarrow> snapshot \<Rightarrow> slice_error \<Rightarrow> ('w, json) slice" where
  "repair_end w names snap e =
     act_bind (act_error SStore (act_notice (wr_peer w) (''name projection repair failed during recover: '' @ error_text w e)))
       (\<lambda>_. act_bind (recovered (wr_peer w) snap names) (\<lambda>report. act_return (recover_result report)))"

definition answer_rename_at :: "'w wire \<Rightarrow> nat \<Rightarrow> slice_error + ready_identity \<Rightarrow> ('w, unit) turn" where
  "answer_rename_at w i result = turn_take sv_renames sv_renames_update i (\<lambda>r. turn_seq (drop_lease (wq_lease r))
     (case wq_reply r of
        NrRecover names snap \<Rightarrow> (case result of
          Inr _ \<Rightarrow> park_read \<lparr>wd_request = wq_request r, wd_client = wq_client r, wd_kind = RdRecover (names + 1)\<rparr>
        | Inl e \<Rightarrow> turn_bind (turn_do (repair_end w names snap e)) (answer w (wq_client r) (wq_request r)))
      | NrRpc \<Rightarrow> answer w (wq_client r) (wq_request r) (map_sum id ready_identity_json result)))"

definition fail_rename_at :: "'w wire \<Rightarrow> nat \<Rightarrow> slice_error \<Rightarrow> ('w, unit) turn" where
  "fail_rename_at w i e = answer_rename_at w i (Inl e)"

definition rename_next :: "nat \<Rightarrow> (nat \<Rightarrow> herdr_job) \<Rightarrow> rename_park_state \<Rightarrow> ('w, unit) turn" where
  "rename_next i job state = turn_bind (submit_new job OfRename) (\<lambda>j.
     turn_set sv_renames_update i (\<lambda>r. r\<lparr>wq_state := state, wq_job := Some j\<rparr>))"

definition send_rename :: "'w wire \<Rightarrow> bool \<Rightarrow> nat \<Rightarrow> nat \<Rightarrow> rename_work \<Rightarrow> ('w, unit) turn" where
  "send_rename w alive job i work =
     (if alive then turn_seq
        (send_lease job (SendCmd (rw_request work) ''agent.rename'' (name_target (rw_pane work) (rw_new_name work)) False))
        (turn_set sv_renames_update i (\<lambda>r. r\<lparr>wq_state := NpSending work, wq_lease := Some job\<rparr>))
      else turn_bind (turn_error (apply_rename_write_error work (lease_closed ''rename''))) (fail_rename_at w i))"

definition on_rename_opened :: "'w wire \<Rightarrow> bool \<Rightarrow> nat \<Rightarrow> ('w, unit) turn" where
  "on_rename_opened w alive job = turn_found (rename_index job) (send_lease job DropCmd) (\<lambda>i.
     turn_at sv_renames i (\<lambda>r. case wq_state r of
       NpOpening preflight \<Rightarrow> turn_bind (turn_do (commit_rename_intent preflight)) (\<lambda>c. case c of
           Inr work \<Rightarrow> send_rename w alive job i work
         | Inl e \<Rightarrow> turn_seq (send_lease job DropCmd) (fail_rename_at w i e))
     | NpProjectionOpening work \<Rightarrow> send_rename w alive job i work
     | _ \<Rightarrow> send_lease job DropCmd))"

definition on_rename_snapshot :: "'w wire \<Rightarrow> nat \<Rightarrow> rename_preflight \<Rightarrow> slice_error + snapshot \<Rightarrow> ('w, unit) turn" where
  "on_rename_snapshot w i preflight seen = (case rbind seen (verify_rename_after_snapshot preflight) of
     Inl e \<Rightarrow> fail_rename_at w i e
   | Inr _ \<Rightarrow> rename_next i (\<lambda>j. JobOpen j (rq_pane preflight) False) (NpOpening preflight))"

text \<open>A recovery remembers the snapshot that confirmed a repair.\<close>

definition remember_recovery_snapshot :: "nat \<Rightarrow> snapshot \<Rightarrow> ('w, unit) turn" where
  "remember_recovery_snapshot i snap = turn_set sv_renames_update i (\<lambda>r. case wq_reply r of
     NrRecover names _ \<Rightarrow> r\<lparr>wq_reply := NrRecover names snap\<rparr> | NrRpc \<Rightarrow> r)"

definition on_rename_sent :: "'w wire \<Rightarrow> nat \<Rightarrow> rename_work \<Rightarrow> herdr_error + herdr_job_result \<Rightarrow> ('w, unit) turn" where
  "on_rename_sent w i work result = (case result of
     Inr (ResAgent _) \<Rightarrow> rename_next i (\<lambda>j. JobSnapshot j False) (NpConfirm work)
   | Inr _ \<Rightarrow> fail_rename_at w i (wrong_result ''rename returned wrong result'')
   | Inl e \<Rightarrow> turn_bind (turn_error (apply_rename_write_error work e)) (fail_rename_at w i))"

definition on_rename_confirm :: "'w wire \<Rightarrow> nat \<Rightarrow> rename_work \<Rightarrow> herdr_error + herdr_job_result \<Rightarrow> ('w, unit) turn" where
  "on_rename_confirm w i work result = (case result of
     Inr (ResSnapshot snap) \<Rightarrow> turn_seq (remember_recovery_snapshot i snap)
       (turn_bind (turn_do (commit_rename_confirm work snap)) (answer_rename_at w i))
   | Inr _ \<Rightarrow> fail_rename_at w i (wrong_result ''rename confirmation returned wrong result'')
   | Inl e \<Rightarrow> turn_bind (turn_do (apply_rename_write_error work e)) (answer_rename_at w i))"

definition on_rename_done :: "'w wire \<Rightarrow> nat \<Rightarrow> herdr_error + herdr_job_result \<Rightarrow> ('w, unit) turn" where
  "on_rename_done w job result = turn_found (rename_index job) turn_skip (\<lambda>i. turn_at sv_renames i (\<lambda>r.
     case wq_state r of
       NpSnapshot preflight \<Rightarrow> on_rename_snapshot w i preflight (the_snapshot ''rename snapshot returned wrong result'' result)
     | NpOpening _ \<Rightarrow> fail_rename_at w i (wrong_result ''rename lease completed before send'')
     | NpProjectionOpening _ \<Rightarrow> fail_rename_at w i (wrong_result ''name projection lease completed before send'')
     | NpSending work \<Rightarrow> turn_seq (drop_lease (wq_lease r))
         (turn_seq (turn_set sv_renames_update i (\<lambda>r. r\<lparr>wq_lease := None\<rparr>)) (on_rename_sent w i work result))
     | NpConfirm work \<Rightarrow> on_rename_confirm w i work result))"

definition on_rename_failed :: "'w wire \<Rightarrow> nat \<Rightarrow> fail_phase \<Rightarrow> herdr_error \<Rightarrow> ('w, unit) turn" where
  "on_rename_failed w job phase e = turn_found (rename_index job) turn_skip (\<lambda>i. turn_at sv_renames i (\<lambda>r.
     turn_bind (case wq_state r of
         NpSending work \<Rightarrow> turn_error (if after_write phase then apply_rename_write_error work e
           else abandon_rename_before_write work e)
       | _ \<Rightarrow> turn_return (SHerdr e)) (fail_rename_at w i)))"

section \<open>Resumed requests\<close>

text \<open>The request whose alias an adoption has just bound.\<close>

definition resume_bound_request :: "'w wire \<Rightarrow> daemon_request \<Rightarrow> client \<Rightarrow> ('w, unit) turn" where
  "resume_bound_request w q c =
     (if cq_method q = ''ask'' \<or> cq_method q = ''tell'' \<or> cq_method q = ''reply''
      then turn_bind (turn_do (prepare_client_prompt w q)) (\<lambda>r. case r of
          Inl e \<Rightarrow> answer w c (cq_id q) (Inl e)
        | Inr (v, None, _) \<Rightarrow> answer w c (cq_id q) (Inr v)
        | Inr (v, Some x, reply_to) \<Rightarrow> park_prompt
            \<lparr>wp_request = cq_id q, wp_client = Some c, wp_prepared = x, wp_result = v, wp_reply_to = reply_to,
             wp_lease = None, wp_committed = False, wp_owner = OwnClient, wp_reminder = None\<rparr>)
      else if cq_method q = ''clear''
      then turn_bind (turn_do (begin_clear w (cq_params q))) (\<lambda>r. case r of
          Inl e \<Rightarrow> answer w c (cq_id q) (Inl e)
        | Inr (ClearDone x) \<Rightarrow> answer w c (cq_id q) (Inr (clear_result_json x))
        | Inr (ClearWaits state) \<Rightarrow> turn_push sv_clears_update
            \<lparr>wl_request = cq_id q, wl_state = state, wl_client = c, wl_job = None, wl_lease = None\<rparr>)
      else answer w c (cq_id q) (Inl (invalid_request ''cannot resume this method after alias bind'')))"

section \<open>Adoptions\<close>

definition adopt_index :: "nat \<Rightarrow> 'w daemon \<Rightarrow> nat option" where
  "adopt_index job n = position (\<lambda>a. wa_job a = Some job) (sv_adopts n)"

definition adopt_pane :: "adopt_park_state \<Rightarrow> string" where
  "adopt_pane state = (case state of
     ApSnapshot n \<Rightarrow> ai_pane_id n | ApRenaming work _ \<Rightarrow> ad_pane work | ApConfirm work \<Rightarrow> ad_pane work)"

definition adopted_whoami :: "awaiting_adopt \<Rightarrow> declared_start \<Rightarrow> db \<Rightarrow> json" where
  "adopted_whoami a c d = (case ready_identity_for_pane (adopt_pane (wa_state a)) d of
     Inr x \<Rightarrow> ready_identity_json x
   | Inl _ \<Rightarrow> jobj [(''logical_agent_id'', jid (de_agent c)), (''incarnation_id'', jid (de_incarnation c))])"

definition adopt_result :: "awaiting_adopt \<Rightarrow> slice_error + declared_start \<Rightarrow> db \<Rightarrow> slice_error + json" where
  "adopt_result a created d = rbind created (\<lambda>c. case wa_reply a of
     ArRpc \<Rightarrow> Inr (adopt_json c)
   | ArWhoami \<Rightarrow> Inr (adopted_whoami a c d)
   | ArWho _ \<Rightarrow> Inl (wrong_result ''who adoption completed without its confirming snapshot''))"

definition answer_adopt_at :: "'w wire \<Rightarrow> nat \<Rightarrow> slice_error + declared_start \<Rightarrow> ('w, unit) turn" where
  "answer_adopt_at w i created = turn_take sv_adopts sv_adopts_update i (\<lambda>a. turn_seq (drop_lease (wa_lease a))
     (case wa_resume a of
        Some q \<Rightarrow> (case created of
          Inr _ \<Rightarrow> resume_bound_request w q (wa_client a)
        | Inl e \<Rightarrow> answer w (wa_client a) (wa_request a) (Inl e))
      | None \<Rightarrow> turn_bind (turn_get (\<lambda>n. adopt_result a created (ke_store (sv_kelpie n))))
          (answer w (wa_client a) (wa_request a))))"

definition fail_adopt_at :: "'w wire \<Rightarrow> nat \<Rightarrow> slice_error \<Rightarrow> ('w, unit) turn" where
  "fail_adopt_at w i e = answer_adopt_at w i (Inl e)"

definition answer_who_adopt_at :: "'w wire \<Rightarrow> nat \<Rightarrow> slice_error + json \<Rightarrow> ('w, unit) turn" where
  "answer_who_adopt_at w i result = turn_take sv_adopts sv_adopts_update i (\<lambda>a. turn_seq (drop_lease (wa_lease a))
     (answer w (wa_client a) (wa_request a) result))"

definition fail_parked_adopt :: "'w wire \<Rightarrow> nat \<Rightarrow> slice_error \<Rightarrow> ('w, unit) turn" where
  "fail_parked_adopt w job e = turn_found (adopt_index job) turn_skip (\<lambda>i. fail_adopt_at w i e)"

definition adopt_next :: "nat \<Rightarrow> (nat \<Rightarrow> herdr_job) \<Rightarrow> adopt_park_state \<Rightarrow> ('w, unit) turn" where
  "adopt_next i job state = turn_bind (submit_new job OfAdopt) (\<lambda>j.
     turn_set sv_adopts_update i (\<lambda>a. a\<lparr>wa_job := Some j, wa_state := state\<rparr>))"

definition on_adopt_opened :: "'w wire \<Rightarrow> bool \<Rightarrow> nat \<Rightarrow> ('w, unit) turn" where
  "on_adopt_opened w alive job = turn_found (adopt_index job) (send_lease job DropCmd) (\<lambda>i.
     turn_at sv_adopts i (\<lambda>a. case wa_state a of
       ApRenaming work _ \<Rightarrow>
         turn_bind (turn_do (submit_adopt_rename_intent (wr_peer w) (ad_declared work))) (\<lambda>c. case c of
           Inr request \<Rightarrow>
             if alive then turn_seq
               (send_lease job (SendCmd request ''agent.rename''
                  (name_target (ad_pane work) (ae_public_name (ad_evidence work))) False))
               (turn_set sv_adopts_update i (\<lambda>a. a\<lparr>wa_state := ApRenaming work request, wa_lease := Some job\<rparr>))
             else turn_bind (turn_error (apply_adopt_rename_error (wr_peer w) (ad_declared work) (lease_closed ''adopt rename'')))
               (fail_parked_adopt w job)
         | Inl e \<Rightarrow> turn_seq (send_lease job DropCmd) (fail_parked_adopt w job e))
     | _ \<Rightarrow> send_lease job DropCmd))"

definition on_adopt_snapshot :: "'w wire \<Rightarrow> nat \<Rightarrow> adopt_intent \<Rightarrow> slice_error + snapshot \<Rightarrow> ('w, unit) turn" where
  "on_adopt_snapshot w i n seen = (case seen of
     Inl e \<Rightarrow> fail_adopt_at w i e
   | Inr snap \<Rightarrow> turn_bind (turn_do (adopt_after_snapshot (wr_peer w) n snap)) (\<lambda>r. case r of
       Inl e \<Rightarrow> fail_adopt_at w i e
     | Inr (AdoptReady created) \<Rightarrow> answer_adopt_at w i (Inr created)
     | Inr (AdoptRename work) \<Rightarrow> adopt_next i (\<lambda>j. JobOpen j (ad_pane work) False) (ApRenaming work [])))"

definition fail_adopt_rename :: "'w wire \<Rightarrow> nat \<Rightarrow> adopt_rename \<Rightarrow> herdr_error \<Rightarrow> ('w, unit) turn" where
  "fail_adopt_rename w i work e =
     turn_bind (turn_error (apply_adopt_rename_error (wr_peer w) (ad_declared work) e)) (fail_adopt_at w i)"

definition fail_adopt_confirm :: "'w wire \<Rightarrow> nat \<Rightarrow> adopt_rename \<Rightarrow> herdr_error \<Rightarrow> ('w, unit) turn" where
  "fail_adopt_confirm w i work e =
     turn_bind (turn_error (apply_adopt_confirm_error (wr_peer w) (ad_declared work) e)) (fail_adopt_at w i)"

definition on_adopt_renamed :: "'w wire \<Rightarrow> nat \<Rightarrow> awaiting_adopt \<Rightarrow> adopt_rename \<Rightarrow> herdr_error + herdr_job_result \<Rightarrow> ('w, unit) turn" where
  "on_adopt_renamed w i a work result = turn_seq (drop_lease (wa_lease a))
     (turn_seq (turn_set sv_adopts_update i (\<lambda>a. a\<lparr>wa_lease := None\<rparr>))
     (case result of
        Inr (ResAgent _) \<Rightarrow> adopt_next i (\<lambda>j. JobSnapshot j False) (ApConfirm work)
      | Inr _ \<Rightarrow> fail_adopt_rename w i work (HUnexpected ''adopt rename returned a non-agent result'')
      | Inl e \<Rightarrow> fail_adopt_rename w i work e))"

definition who_after :: "bool \<Rightarrow> incarnation_id \<Rightarrow> snapshot \<Rightarrow> ('w, json) slice" where
  "who_after refresh inc snap = act_bind (if refresh then refresh_native_session_after_snapshot inc snap else act_return ())
     (\<lambda>_. who_identity_response (WhoIncarnation inc))"

definition on_adopt_confirm :: "'w wire \<Rightarrow> nat \<Rightarrow> awaiting_adopt \<Rightarrow> adopt_rename \<Rightarrow> herdr_error + herdr_job_result \<Rightarrow> ('w, unit) turn" where
  "on_adopt_confirm w i a work result = (case result of
     Inl e \<Rightarrow> fail_adopt_confirm w i work e
   | Inr (ResSnapshot snap) \<Rightarrow>
       turn_bind (turn_do (accept_adopt_confirm (wr_peer w) work snap)) (\<lambda>c. case c of
         Inl e \<Rightarrow> fail_adopt_at w i e
       | Inr created \<Rightarrow> (case wa_reply a of
           ArWho refresh \<Rightarrow> turn_bind (turn_do (who_after refresh (de_incarnation created) snap)) (answer_who_adopt_at w i)
         | _ \<Rightarrow> answer_adopt_at w i (Inr created)))
   | Inr _ \<Rightarrow> fail_adopt_confirm w i work (HUnexpected ''adopt confirm returned a non-snapshot result''))"

definition on_adopt_done :: "'w wire \<Rightarrow> nat \<Rightarrow> herdr_error + herdr_job_result \<Rightarrow> ('w, unit) turn" where
  "on_adopt_done w job result = turn_found (adopt_index job) turn_skip (\<lambda>i. turn_at sv_adopts i (\<lambda>a. case wa_state a of
     ApSnapshot n \<Rightarrow> on_adopt_snapshot w i n (the_snapshot ''adopt snapshot returned the wrong Herdr result'' result)
   | ApRenaming work _ \<Rightarrow> on_adopt_renamed w i a work result
   | ApConfirm work \<Rightarrow> on_adopt_confirm w i a work result))"

definition on_adopt_failed :: "'w wire \<Rightarrow> nat \<Rightarrow> herdr_error \<Rightarrow> ('w, unit) turn" where
  "on_adopt_failed w job e = turn_found (adopt_index job) turn_skip (\<lambda>i. turn_at sv_adopts i (\<lambda>a. case wa_state a of
     ApRenaming work request \<Rightarrow> if request \<noteq> [] then fail_adopt_rename w i work e else fail_adopt_at w i (SHerdr e)
   | ApSnapshot _ \<Rightarrow> fail_adopt_at w i (SHerdr e)
   | ApConfirm work \<Rightarrow> fail_adopt_confirm w i work e))"

section \<open>Reads\<close>

definition answer_read :: "'w wire \<Rightarrow> awaiting_read \<Rightarrow> slice_error + json \<Rightarrow> ('w, unit) turn" where
  "answer_read w r result = answer w (wd_client r) (wd_request r) result"

text \<open>A pane that must take its name back first is adopted under the same request.\<close>

definition park_seat_rename ::
  "awaiting_read \<Rightarrow> adopt_reply \<Rightarrow> daemon_request option \<Rightarrow> adopt_rename \<Rightarrow> ('w, unit) turn" where
  "park_seat_rename r reply resume work = turn_bind (submit_new (\<lambda>j. JobOpen j (ad_pane work) False) OfAdopt) (\<lambda>j.
     turn_push sv_adopts_update \<lparr>wa_request = wd_request r, wa_client = wd_client r, wa_reply = reply, wa_resume = resume,
       wa_state = ApRenaming work [], wa_job = Some j, wa_lease = None\<rparr>)"

definition finish_recover_snapshot :: "'w wire \<Rightarrow> awaiting_read \<Rightarrow> nat \<Rightarrow> snapshot \<Rightarrow> ('w, unit) turn" where
  "finish_recover_snapshot w r names snap = turn_bind (turn_do (prepare_name_projection_repair snap)) (\<lambda>repair. case repair of
     Inl e \<Rightarrow> answer_read w r (Inl e)
   | Inr (Some work) \<Rightarrow> turn_bind (submit_new (\<lambda>j. JobOpen j (rw_pane work) False) OfRename) (\<lambda>j.
       turn_push sv_renames_update \<lparr>wq_request = wd_request r, wq_client = wd_client r, wq_reply = NrRecover names snap,
         wq_state = NpProjectionOpening work, wq_job = Some j, wq_lease = None\<rparr>)
   | Inr None \<Rightarrow> turn_bind (turn_do (act_bind (recovered (wr_peer w) snap names) (\<lambda>report. act_return (recover_result report))))
       (answer_read w r))"

definition finish_whoami_snapshot :: "'w wire \<Rightarrow> awaiting_read \<Rightarrow> string \<Rightarrow> string \<Rightarrow> snapshot \<Rightarrow> ('w, unit) turn" where
  "finish_whoami_snapshot w r pane key snap =
     turn_bind (turn_do (pane_adopt_after_snapshot (wr_peer w) pane key snap)) (\<lambda>c. case c of
       Inl e \<Rightarrow> answer_read w r (Inl e)
     | Inr (AdoptReady _) \<Rightarrow> turn_bind (turn_do (act_bind (sl_read (ready_identity_for_pane pane)) (\<lambda>x.
         act_return (ready_identity_json x)))) (answer_read w r)
     | Inr (AdoptRename work) \<Rightarrow> park_seat_rename r ArWhoami None work)"

definition finish_who_snapshot :: "'w wire \<Rightarrow> awaiting_read \<Rightarrow> string \<Rightarrow> string \<Rightarrow> bool \<Rightarrow> snapshot \<Rightarrow> ('w, unit) turn" where
  "finish_who_snapshot w r pane key refresh snap =
     turn_bind (turn_do (pane_adopt_after_snapshot (wr_peer w) pane key snap)) (\<lambda>c. case c of
       Inl e \<Rightarrow> answer_read w r (Inl e)
     | Inr (AdoptReady created) \<Rightarrow>
         turn_bind (turn_do (who_after refresh (de_incarnation created) snap)) (answer_read w r)
     | Inr (AdoptRename work) \<Rightarrow> park_seat_rename r (ArWho refresh) None work)"

definition finish_alias_snapshot :: "'w wire \<Rightarrow> awaiting_read \<Rightarrow> string \<Rightarrow> string \<Rightarrow> daemon_request \<Rightarrow> snapshot \<Rightarrow> ('w, unit) turn" where
  "finish_alias_snapshot w r n key resume snap =
     turn_bind (turn_do (alias_after_snapshot (wr_peer w) n key snap)) (\<lambda>c. case c of
       Inl e \<Rightarrow> answer_read w r (Inl e)
     | Inr (AdoptReady _) \<Rightarrow> resume_bound_request w resume (wd_client r)
     | Inr (AdoptRename work) \<Rightarrow> park_seat_rename r ArRpc (Some resume) work)"

definition finish_snapshot_read :: "'w wire \<Rightarrow> awaiting_read \<Rightarrow> snapshot \<Rightarrow> ('w, unit) turn" where
  "finish_snapshot_read w r snap = (case wd_kind r of
     RdRecover names \<Rightarrow> finish_recover_snapshot w r names snap
   | RdWhoami pane key \<Rightarrow> finish_whoami_snapshot w r pane key snap
   | RdAlias n key resume \<Rightarrow> finish_alias_snapshot w r n key resume snap
   | RdAttribution inc \<Rightarrow> turn_bind (turn_do (act_bind (refresh_native_session_after_snapshot inc snap) (\<lambda>_.
       attribution_response inc))) (answer_read w r)
   | RdWhoAttribution inc \<Rightarrow> turn_bind (turn_do (who_after True inc snap)) (answer_read w r)
   | RdWhoPane pane key refresh \<Rightarrow> finish_who_snapshot w r pane key refresh snap
   | RdReport _ \<Rightarrow> answer_read w r (Inl (wrong_result ''client read returned the wrong Herdr result'')))"

definition on_client_read_done :: "'w wire \<Rightarrow> nat \<Rightarrow> herdr_error + herdr_job_result \<Rightarrow> ('w, unit) turn" where
  "on_client_read_done w job result = turn_pop sv_reads sv_reads_update job (\<lambda>r. case result of
     Inl e \<Rightarrow> answer_read w r (Inl (SHerdr e))
   | Inr (ResSnapshot snap) \<Rightarrow> finish_snapshot_read w r snap
   | Inr (ResLifecycle live) \<Rightarrow> (case wd_kind r of
       RdReport active \<Rightarrow> turn_bind (turn_do (render_report (wr_peer w) active (Some live))) (\<lambda>v.
         park_response w (wd_client r) (respond (wr_peer w) (wd_request r) v))
     | _ \<Rightarrow> answer_read w r (Inl (wrong_result ''client read returned the wrong Herdr result'')))
   | Inr _ \<Rightarrow> answer_read w r (Inl (wrong_result ''client read returned the wrong Herdr result'')))"

definition fail_client_read :: "'w wire \<Rightarrow> nat \<Rightarrow> slice_error \<Rightarrow> ('w, unit) turn" where
  "fail_client_read w job e = turn_pop sv_reads sv_reads_update job (\<lambda>r. answer_read w r (Inl e))"

end
