(* ===== verification/Launches.thy ===== *)
theory Launches
  imports Bindings
begin

text \<open>
  The parked starts and clears of \<open>src/src/daemon.rs\<close>. A start goes from its snapshot over the lease of
  \<open>agent.start\<close>, busy retries and readiness polls to its initial message; a clear from the settling of earlier
  prompts over a probe and the lease of its command to the rotation of the session.
\<close>

section \<open>Starts: the end\<close>

definition start_index :: "nat \<Rightarrow> 'w daemon \<Rightarrow> nat option" where
  "start_index job n = position (\<lambda>a. ws_job a = Some job) (sv_starts n)"

definition set_start :: "nat \<Rightarrow> (awaiting_start \<Rightarrow> awaiting_start) \<Rightarrow> ('w, unit) turn" where
  "set_start i f = turn_set sv_starts_update i f"

definition fail_start_at :: "'w wire \<Rightarrow> nat \<Rightarrow> slice_error \<Rightarrow> ('w, unit) turn" where
  "fail_start_at w i e = turn_take sv_starts sv_starts_update i (\<lambda>a. turn_seq (drop_lease (ws_lease a))
     (turn_seq (if ws_declared a \<noteq> None then turn_try (note_undelivered_brief (wr_peer w) (ws_intent a) e) else turn_skip)
     (answer w (ws_client a) (ws_request a) (Inl e))))"

definition answer_start_at :: "'w wire \<Rightarrow> nat \<Rightarrow> slice_error + launch_result \<Rightarrow> ('w, unit) turn" where
  "answer_start_at w i result = turn_take sv_starts sv_starts_update i (\<lambda>a. turn_seq (drop_lease (ws_lease a))
     (turn_seq (case result of Inl e \<Rightarrow> turn_try (note_undelivered_brief (wr_peer w) (ws_intent a) e) | Inr _ \<Rightarrow> turn_skip)
     (answer w (ws_client a) (ws_request a) (rbind result (launch_answer w)))))"

definition answer_initial_at :: "'w wire \<Rightarrow> nat \<Rightarrow> declared_start \<Rightarrow> message_id \<Rightarrow> operation_id \<Rightarrow> ('w, unit) turn" where
  "answer_initial_at w i started m oid =
     turn_bind (turn_do (sl_read (read_launch_result started m oid))) (answer_start_at w i)"

definition drop_start_lease :: "nat \<Rightarrow> awaiting_start \<Rightarrow> ('w, unit) turn" where
  "drop_start_lease i a = turn_seq (drop_lease (ws_lease a)) (set_start i (\<lambda>a. a\<lparr>ws_lease := None\<rparr>))"

text \<open>Outside its phase, or without a declaration, the answer is left to what follows.\<close>

definition answer_initial_without_write :: "'w wire \<Rightarrow> nat \<Rightarrow> ('w, unit) turn" where
  "answer_initial_without_write w i = turn_at sv_starts i (\<lambda>a. case (ws_phase a, ws_declared a) of
     (SpInitial x m, Some started) \<Rightarrow>
       turn_seq (drop_start_lease i a) (answer_initial_at w i started m (pp_operation x))
   | _ \<Rightarrow> turn_skip)"

definition initial_done :: "'w wire \<Rightarrow> nat \<Rightarrow> awaiting_start \<Rightarrow> herdr_error + agent_observation \<Rightarrow> ('w, unit) turn" where
  "initial_done w i a prompt = (case (ws_phase a, ws_declared a) of
     (SpInitial x m, Some started) \<Rightarrow> turn_seq (drop_start_lease i a)
       (turn_seq (turn_try (complete_initial_delivery (wr_peer w) x started m prompt))
       (answer_initial_at w i started m (pp_operation x)))
   | _ \<Rightarrow> turn_skip)"

definition fail_parked_start :: "'w wire \<Rightarrow> nat \<Rightarrow> slice_error \<Rightarrow> ('w, unit) turn" where
  "fail_parked_start w job e = turn_found (start_index job) turn_skip (\<lambda>i. turn_at sv_starts i (\<lambda>a. case ws_phase a of
     SpInitial _ _ \<Rightarrow>
       if ws_committed a
       then (if ws_declared a = None
         then turn_skip   \<comment> \<open>fails the start again, without end; an initial message follows a declaration\<close>
         else initial_done w i a (Inl (HUnexpected (error_text w e))))
       else answer_initial_without_write w i
   | _ \<Rightarrow> fail_start_at w i e))"

definition prompt_result :: "string \<Rightarrow> herdr_error + herdr_job_result \<Rightarrow> herdr_error + agent_observation" where
  "prompt_result what result = (case result of
     Inr (ResPrompt agent) \<Rightarrow> Inr agent | Inr _ \<Rightarrow> Inl (HUnexpected what) | Inl e \<Rightarrow> Inl e)"

definition agent_result :: "string \<Rightarrow> herdr_error + herdr_job_result \<Rightarrow> herdr_error + agent_observation" where
  "agent_result what result = (case result of
     Inr (ResAgent agent) \<Rightarrow> Inr agent | Inr _ \<Rightarrow> Inl (HUnexpected what) | Inl e \<Rightarrow> Inl e)"

definition on_initial_done :: "'w wire \<Rightarrow> nat \<Rightarrow> nat \<Rightarrow> herdr_error + herdr_job_result \<Rightarrow> ('w, unit) turn" where
  "on_initial_done w i job result = turn_at sv_starts i (\<lambda>a.
     if ws_declared a = None
     then fail_parked_start w job (wrong_result ''initial message completed with no start declaration'')
     else initial_done w i a (prompt_result ''initial message returned a non-prompt result'' result))"

section \<open>Starts: the initial message\<close>

definition open_initial_message :: "nat \<Rightarrow> prepared_prompt \<Rightarrow> message_id \<Rightarrow> ('w, unit) turn" where
  "open_initial_message i x m = turn_bind (submit_new (\<lambda>j. JobOpen j (pp_pane x) False) OfStart) (\<lambda>j.
     set_start i (\<lambda>a. a\<lparr>ws_job := Some j, ws_phase := SpInitial x m\<rparr>))"

text \<open>The pause before the message is typed gives a fresh terminal time to read its input.\<close>

definition park_initial_message :: "'w wire \<Rightarrow> nat \<Rightarrow> start_intent \<Rightarrow> declared_start \<Rightarrow> ('w, unit) turn" where
  "park_initial_message w i n started = turn_bind (turn_do (begin_initial_message (wr_peer w) n started)) (\<lambda>r. case r of
     Inl e \<Rightarrow> fail_start_at w i e
   | Inr (x, m) \<Rightarrow>
       turn_seq (set_start i (\<lambda>a. a\<lparr>ws_declared := Some started, ws_job := None, ws_committed := False\<rparr>))
       (turn_bind (turn_get sv_settle) (\<lambda>settle.
         if settle = 0 then open_initial_message i x m
         else turn_bind (turn_now w) (\<lambda>now. set_start i (\<lambda>a. a\<lparr>ws_phase := SpSettling x m (now + settle)\<rparr>)))))"

definition on_initial_opened :: "'w wire \<Rightarrow> bool \<Rightarrow> nat \<Rightarrow> nat \<Rightarrow> ('w, unit) turn" where
  "on_initial_opened w alive job i = turn_at sv_starts i (\<lambda>a. case ws_phase a of
     SpInitial x _ \<Rightarrow> turn_bind (turn_do (commit_prompt_intent (wr_peer w) x)) (\<lambda>c. case c of
         Inr _ \<Rightarrow>
           if alive then turn_seq
             (send_lease job (SendCmd (pp_request x) ''agent.prompt'' (message_prompt_params (pp_pane x) (pp_envelope x)) True))
             (set_start i (\<lambda>a. a\<lparr>ws_committed := True, ws_lease := Some job\<rparr>))
           else answer_initial_without_write w i
       | Inl _ \<Rightarrow> turn_seq (send_lease job DropCmd) (answer_initial_without_write w i))
   | _ \<Rightarrow> send_lease job DropCmd)"

section \<open>Starts: the lease of the start\<close>

definition open_start_lease :: "nat \<Rightarrow> nat \<Rightarrow> nat \<Rightarrow> ('w, unit) turn" where
  "open_start_lease i busy_deadline attempt = turn_at sv_starts i (\<lambda>a.
     turn_bind (submit_new (\<lambda>j. JobOpen j (si_pane_id (ws_intent a)) False) OfStart) (\<lambda>j.
       set_start i (\<lambda>a. a\<lparr>ws_job := Some j, ws_phase := SpOpening busy_deadline attempt\<rparr>)))"

definition phase_attempt :: "start_phase \<Rightarrow> nat" where
  "phase_attempt s = (case s of SpOpening _ attempt \<Rightarrow> attempt | SpSending _ attempt \<Rightarrow> attempt | _ \<Rightarrow> 1)"

definition phase_busy_deadline :: "awaiting_start \<Rightarrow> nat" where
  "phase_busy_deadline a = (case ws_phase a of
     SpOpening busy_deadline _ \<Rightarrow> busy_deadline | SpSending busy_deadline _ \<Rightarrow> busy_deadline | _ \<Rightarrow> ws_deadline a)"

definition send_start :: "'w wire \<Rightarrow> bool \<Rightarrow> nat \<Rightarrow> nat \<Rightarrow> awaiting_start \<Rightarrow> declared_start \<Rightarrow> ('w, unit) turn" where
  "send_start w alive job i a declared =
     (let request = start_request_id (de_operation declared) (phase_attempt (ws_phase a)) in
      turn_bind (turn_do (commit_start_intent (wr_peer w) declared request)) (\<lambda>c. case c of
        Inr _ \<Rightarrow> turn_seq (set_start i (\<lambda>a. a\<lparr>ws_committed := True\<rparr>))
          (if alive then turn_seq (send_lease job (SendCmd request ''agent.start'' (start_params (ws_intent a)) False))
             (set_start i (\<lambda>x. x\<lparr>ws_lease := Some job, ws_phase := SpSending (phase_busy_deadline a) (phase_attempt (ws_phase a))\<rparr>))
           else fail_parked_start w job (SHerdr (lease_closed ''start send'')))
      | Inl e \<Rightarrow> turn_seq (send_lease job DropCmd) (fail_parked_start w job e)))"

definition on_start_opened :: "'w wire \<Rightarrow> bool \<Rightarrow> nat \<Rightarrow> ('w, unit) turn" where
  "on_start_opened w alive job = turn_found (start_index job) (send_lease job DropCmd) (\<lambda>i. turn_at sv_starts i (\<lambda>a.
     case (ws_phase a, ws_declared a) of
       (SpInitial _ _, _) \<Rightarrow> on_initial_opened w alive job i
     | (_, Some declared) \<Rightarrow> send_start w alive job i a declared
     | (_, None) \<Rightarrow> turn_seq (send_lease job DropCmd)
         (fail_parked_start w job (invalid_request ''start opened before it was declared''))))"

section \<open>Starts: answers of Herdr\<close>

definition on_declared_start :: "'w wire \<Rightarrow> nat \<Rightarrow> awaiting_start \<Rightarrow> snapshot \<Rightarrow> ('w, unit) turn" where
  "on_declared_start w i a snap =
     turn_bind (turn_do (declare_start_from_snapshot (wr_peer w) (ws_intent a) snap)) (\<lambda>r. case r of
       Inl e \<Rightarrow> fail_start_at w i e
     | Inr (declared, deadline, busy_deadline) \<Rightarrow>
         turn_seq (set_start i (\<lambda>a. a\<lparr>ws_declared := Some declared, ws_deadline := deadline,
           ws_busy_deadline := busy_deadline, ws_attempt := 1\<rparr>))
         (open_start_lease i busy_deadline 1))"

text \<open>A busy pane is looked at again before the next attempt; a pane that no longer fits rejects the start.\<close>

definition reject_start :: "'w wire \<Rightarrow> declared_start option \<Rightarrow> string \<Rightarrow> ('w, unit) turn" where
  "reject_start w declared detail = (case declared of
     None \<Rightarrow> turn_skip
   | Some c \<Rightarrow> turn_try (sl_commit_now (wr_peer w) (\<lambda>now. mark_rejected now (de_operation c) (de_incarnation c) detail DRejected)))"

definition on_start_snapshot :: "'w wire \<Rightarrow> nat \<Rightarrow> awaiting_start \<Rightarrow> slice_error + snapshot \<Rightarrow> ('w, unit) turn" where
  "on_start_snapshot w i a seen = (case seen of
     Inl e \<Rightarrow> fail_start_at w i e
   | Inr snap \<Rightarrow>
       if ws_declared a = None then on_declared_start w i a snap
       else (case check_pane_matches_intent (pr_debug (wr_peer w)) snap (ws_intent a) of
         Inl conflict \<Rightarrow> turn_seq (reject_start w (ws_declared a) (error_text w conflict)) (fail_start_at w i conflict)
       | Inr _ \<Rightarrow> open_start_lease i (ws_busy_deadline a) (saturating_succ_u32 (ws_attempt a))))"

definition on_start_send :: "'w wire \<Rightarrow> nat \<Rightarrow> nat \<Rightarrow> awaiting_start \<Rightarrow> herdr_error + agent_observation \<Rightarrow> ('w, unit) turn" where
  "on_start_send w i job a agent = (case ws_declared a of
     None \<Rightarrow> fail_parked_start w job (wrong_result ''start send completed with no declaration'')
   | Some declared \<Rightarrow> turn_seq (drop_start_lease i a)
       (turn_bind (turn_do (apply_agent_start_result (wr_peer w) (ws_intent a) declared (ws_deadline a)
           (phase_busy_deadline a) (phase_attempt (ws_phase a)) agent)) (\<lambda>r. case r of
         Inl e \<Rightarrow> fail_start_at w i e
       | Inr (StartSubmitted c deadline) \<Rightarrow> set_start i (\<lambda>a. a\<lparr>ws_declared := Some c, ws_deadline := deadline,
           ws_job := None, ws_phase := SpReady\<rparr>)
       | Inr (StartBusy c deadline busy_deadline not_before attempt) \<Rightarrow>
           set_start i (\<lambda>a. a\<lparr>ws_declared := Some c, ws_deadline := deadline, ws_job := None, ws_attempt := attempt,
             ws_busy_deadline := busy_deadline, ws_phase := SpBusy busy_deadline not_before attempt\<rparr>))))"

definition on_start_ready_get :: "'w wire \<Rightarrow> nat \<Rightarrow> nat \<Rightarrow> awaiting_start \<Rightarrow> herdr_error + agent_observation \<Rightarrow> ('w, unit) turn" where
  "on_start_ready_get w i job a observed = (case ws_declared a of
     None \<Rightarrow> fail_parked_start w job (wrong_result ''ready poll with no declaration'')
   | Some declared \<Rightarrow> turn_seq (set_start i (\<lambda>a. a\<lparr>ws_job := None\<rparr>))
       (turn_bind (turn_do (apply_start_observation (wr_peer w) (ws_intent a) declared (ws_deadline a)
           (map_sum id Some observed))) (\<lambda>r. case r of
         Inl e \<Rightarrow> fail_start_at w i e
       | Inr None \<Rightarrow> turn_skip
       | Inr (Some started) \<Rightarrow> park_initial_message w i (ws_intent a) started)))"

definition on_start_done :: "'w wire \<Rightarrow> nat \<Rightarrow> herdr_error + herdr_job_result \<Rightarrow> ('w, unit) turn" where
  "on_start_done w job result = turn_found (start_index job) turn_skip (\<lambda>i. turn_at sv_starts i (\<lambda>a. case ws_phase a of
     SpSnapshot \<Rightarrow> on_start_snapshot w i a (the_snapshot ''start snapshot returned a non-snapshot result'' result)
   | SpSending _ _ \<Rightarrow> on_start_send w i job a (agent_result ''agent.start returned a non-agent result'' result)
   | SpReady \<Rightarrow> on_start_ready_get w i job a (agent_result ''start ready poll returned a non-agent result'' result)
   | SpInitial _ _ \<Rightarrow> on_initial_done w i job result
   | _ \<Rightarrow> turn_skip))"

text \<open>A rejection of \<open>agent.start\<close> is decisive and may be retried; a transport failure fails the start at once.\<close>

definition is_sending :: "start_phase \<Rightarrow> bool" where
  "is_sending s = (case s of SpSending _ _ \<Rightarrow> True | _ \<Rightarrow> False)"

definition on_start_failed :: "'w wire \<Rightarrow> nat \<Rightarrow> herdr_error \<Rightarrow> ('w, unit) turn" where
  "on_start_failed w job e = turn_bind (turn_get (\<lambda>n. is_rejected e \<and> (case start_index job n of
       None \<Rightarrow> False | Some i \<Rightarrow> is_sending (ws_phase (sv_starts n ! i))))) (\<lambda>decisive.
     if decisive then on_start_done w job (Inl e) else fail_parked_start w job (SHerdr e))"

section \<open>Starts: the pass\<close>

definition park_busy_retry_snapshot :: "nat \<Rightarrow> ('w, unit) turn" where
  "park_busy_retry_snapshot i = turn_bind (submit_new (\<lambda>j. JobSnapshot j False) OfStart) (\<lambda>j.
     set_start i (\<lambda>a. a\<lparr>ws_job := Some j, ws_phase := SpSnapshot\<rparr>))"

definition submit_start_ready_get :: "nat \<Rightarrow> ('w, unit) turn" where
  "submit_start_ready_get i = turn_at sv_starts i (\<lambda>a. case ws_declared a of
     None \<Rightarrow> turn_skip
   | Some c \<Rightarrow> turn_bind (submit_new (\<lambda>j. JobAgentGet j (''kelpie:start-ready:'' @ id_display (de_operation c))
       (si_pane_id (ws_intent a))) OfStart) (\<lambda>j. set_start i (\<lambda>a. a\<lparr>ws_job := Some j\<rparr>)))"

definition busy_elapsed :: string where
  "busy_elapsed = ''pane stayed busy until the start retry budget elapsed''"

text \<open>Whether an entry was removed, and whether the pass progressed.\<close>

datatype pass_step = StepStays bool | StepRemoved

definition moved_on :: "('w, unit) turn \<Rightarrow> ('w, pass_step) turn" where
  "moved_on m = turn_seq m (turn_return (StepStays True))"

definition start_pass :: "'w wire \<Rightarrow> nat \<Rightarrow> awaiting_start \<Rightarrow> ('w, pass_step) turn" where
  "start_pass w i a =
     (if ws_job a \<noteq> None then turn_return (StepStays False)
      else case ws_phase a of
        SpBusy busy_deadline not_before _ \<Rightarrow> turn_bind (turn_now w) (\<lambda>now.
          if now < not_before then turn_return (StepStays False)
          else turn_bind (turn_now w) (\<lambda>now.
            if busy_deadline \<le> now
            then turn_seq (reject_start w (ws_declared a) busy_elapsed)
              (turn_seq (fail_start_at w i (slice_conflict busy_elapsed)) (turn_return StepRemoved))
            else moved_on (park_busy_retry_snapshot i)))
      | SpReady \<Rightarrow> moved_on (submit_start_ready_get i)
      | SpSettling x m until \<Rightarrow> turn_bind (turn_now w) (\<lambda>now.
          if now < until then turn_return (StepStays False)
          else moved_on (turn_seq (set_start i (\<lambda>a. a\<lparr>ws_phase := SpReady\<rparr>)) (open_initial_message i x m)))
      | _ \<Rightarrow> turn_return (StepStays False))"

text \<open>
  One pass over a list that may shrink: every step moves past an entry or removes it, so as many steps as
  there were entries reach the end.
\<close>

fun turn_walk ::
  "('w daemon \<Rightarrow> 'e list) \<Rightarrow> (nat \<Rightarrow> 'e \<Rightarrow> ('w, pass_step) turn) \<Rightarrow> nat \<Rightarrow> nat \<Rightarrow> bool \<Rightarrow> ('w, bool) turn" where
  "turn_walk get f 0 i p = turn_return p"
| "turn_walk get f (Suc k) i p = turn_bind (turn_get (\<lambda>n. entry i (get n))) (\<lambda>x. case x of
     None \<Rightarrow> turn_return p
   | Some a \<Rightarrow> turn_bind (f i a) (\<lambda>s. case s of
       StepStays q \<Rightarrow> turn_walk get f k (Suc i) (p \<or> q)
     | StepRemoved \<Rightarrow> turn_walk get f k i True))"

definition advance_awaiting_starts :: "'w wire \<Rightarrow> ('w, bool) turn" where
  "advance_awaiting_starts w = turn_bind (turn_get (\<lambda>n. length (sv_starts n))) (\<lambda>k.
     turn_walk sv_starts (start_pass w) k 0 False)"

section \<open>Clears\<close>

definition clear_index :: "nat \<Rightarrow> 'w daemon \<Rightarrow> nat option" where
  "clear_index job n = position (\<lambda>c. wl_job c = Some job) (sv_clears n)"

definition set_clear :: "nat \<Rightarrow> (awaiting_clear_request \<Rightarrow> awaiting_clear_request) \<Rightarrow> ('w, unit) turn" where
  "set_clear i f = turn_set sv_clears_update i f"

definition answer_clear_at :: "'w wire \<Rightarrow> nat \<Rightarrow> slice_error + clear_result \<Rightarrow> ('w, unit) turn" where
  "answer_clear_at w i result = turn_take sv_clears sv_clears_update i (\<lambda>c. turn_seq (drop_lease (wl_lease c))
     (answer w (wl_client c) (wl_request c) (map_sum id clear_result_json result)))"

definition fail_clear_at :: "'w wire \<Rightarrow> nat \<Rightarrow> slice_error \<Rightarrow> ('w, unit) turn" where
  "fail_clear_at w i e = turn_take sv_clears sv_clears_update i (\<lambda>c. turn_seq (drop_lease (wl_lease c))
     (answer w (wl_client c) (wl_request c) (Inl e)))"

definition fail_parked_clear :: "'w wire \<Rightarrow> nat \<Rightarrow> slice_error \<Rightarrow> ('w, unit) turn" where
  "fail_parked_clear w job e = turn_found (clear_index job) turn_skip (\<lambda>i. fail_clear_at w i e)"

definition start_clear_probe :: "'w wire \<Rightarrow> nat \<Rightarrow> ('w, slice_error + unit) turn" where
  "start_clear_probe w i = turn_bind (turn_get (\<lambda>n. entry i (sv_clears n))) (\<lambda>x. case map_option wl_state x of
     Some (ClSettling c _) \<Rightarrow>
       turn_bind (turn_do (sl_read (ready_binding (rs_incarnation c)))) (\<lambda>r. case r of
         Inl e \<Rightarrow> turn_return (Inl e)
       | Inr binding \<Rightarrow>
           turn_bind (submit_new (\<lambda>j. JobAgentGet j (''kelpie:clear:probe:'' @ rs_key c) (rb_pane binding)) OfClear) (\<lambda>j.
           turn_seq (set_clear i (\<lambda>x. x\<lparr>wl_job := Some j, wl_state := ClProbe c (rb_pane binding)\<rparr>))
             (turn_return (Inr ()))))
   | _ \<Rightarrow> turn_return (Inr ()))"

definition start_clear_rotation_get :: "nat \<Rightarrow> ('w, unit) turn" where
  "start_clear_rotation_get i = turn_at sv_clears i (\<lambda>x. case wl_state x of
     ClRotation a \<Rightarrow> turn_bind (submit_new (\<lambda>j. JobAgentGet j (''kelpie:clear:rotation:'' @ id_display (aw_operation a))
       (aw_pane a)) OfClear) (\<lambda>j. set_clear i (\<lambda>x. x\<lparr>wl_job := Some j\<rparr>))
   | _ \<Rightarrow> turn_skip)"

definition target_text :: "string \<Rightarrow> string \<Rightarrow> json" where
  "target_text pane txt = jobj [(''target'', JStr pane), (''text'', JStr txt)]"

definition on_clear_opened :: "'w wire \<Rightarrow> bool \<Rightarrow> nat \<Rightarrow> ('w, unit) turn" where
  "on_clear_opened w alive job = turn_found (clear_index job) (send_lease job DropCmd) (\<lambda>i. turn_at sv_clears i (\<lambda>x.
     case wl_state x of
       ClSending s \<Rightarrow>
         let request = ''kelpie:clear:'' @ id_display (sn_operation s) in
         turn_bind (turn_do (commit_clear_intent (wr_peer w) (sn_operation s) (rs_incarnation (sn_clear s)) request)) (\<lambda>c.
           case c of
             Inr _ \<Rightarrow>
               if alive then turn_seq
                 (send_lease job (SendCmd request ''agent.prompt'' (target_text (sn_pane s) (sn_command s)) False))
                 (set_clear i (\<lambda>x. x\<lparr>wl_lease := Some job\<rparr>))
               else fail_parked_clear w job (SHerdr (lease_closed ''clear send''))
           | Inl e \<Rightarrow> turn_seq (send_lease job DropCmd) (fail_parked_clear w job e))
     | _ \<Rightarrow> send_lease job DropCmd))"

definition on_clear_probe :: "'w wire \<Rightarrow> nat \<Rightarrow> nat \<Rightarrow> resolved_clear \<Rightarrow> string \<Rightarrow> herdr_error + agent_observation \<Rightarrow> ('w, unit) turn" where
  "on_clear_probe w i job c pane result = (case result of
     Inl e \<Rightarrow> fail_parked_clear w job (SHerdr e)
   | Inr observed \<Rightarrow>
       turn_bind (turn_do (begin_clear_after_probe (wr_peer w) (rs_recipient c) (rs_incarnation c) (rs_key c) observed)) (\<lambda>r.
         case r of
           Inl e \<Rightarrow> fail_clear_at w i e
         | Inr (oid, command, rotation, pre, backend) \<Rightarrow>
             turn_bind (submit_new (\<lambda>j. JobOpen j pane False) OfClear) (\<lambda>j.
               set_clear i (\<lambda>x. x\<lparr>wl_job := Some j, wl_state := ClSending
                 \<lparr>sn_clear = c, sn_pane = pane, sn_operation = oid, sn_command = command, sn_rotation = rotation,
                  sn_pre_session = pre, sn_backend_kind = backend\<rparr>\<rparr>))))"

definition clear_command_result :: "herdr_error + herdr_job_result \<Rightarrow> herdr_error + agent_observation" where
  "clear_command_result result = (case result of
     Inr (ResPrompt agent) \<Rightarrow> Inr agent | Inr (ResAgent agent) \<Rightarrow> Inr agent
   | Inr _ \<Rightarrow> Inl (HUnexpected ''clear command returned a non-agent result'') | Inl e \<Rightarrow> Inl e)"

definition on_clear_command :: "'w wire \<Rightarrow> nat \<Rightarrow> nat \<Rightarrow> awaiting_clear_request \<Rightarrow> clear_sending \<Rightarrow> herdr_error + agent_observation \<Rightarrow> ('w, unit) turn" where
  "on_clear_command w i job x s observed =
     turn_seq (drop_lease (wl_lease x)) (turn_seq (set_clear i (\<lambda>x. x\<lparr>wl_lease := None\<rparr>))
     (turn_bind (turn_do (apply_clear_command_result (wr_peer w) (sn_operation s) (rs_recipient (sn_clear s))
         (rs_incarnation (sn_clear s)) (sn_pane s) (sn_backend_kind s) (sn_rotation s) (sn_pre_session s) observed)) (\<lambda>r.
       case r of
         Inl e \<Rightarrow> fail_parked_clear w job e
       | Inr (ClearComplete c) \<Rightarrow> answer_clear_at w i (Inr c)
       | Inr (ClearAwaiting a) \<Rightarrow> turn_seq (set_clear i (\<lambda>x. x\<lparr>wl_job := None, wl_state := ClRotation a\<rparr>))
           (start_clear_rotation_get i))))"

text \<open>
  A failing rotation looks the clear up by a job it has just forgotten, so nobody is answered and the clear
  is polled again.
\<close>

definition on_clear_rotation :: "'w wire \<Rightarrow> nat \<Rightarrow> nat \<Rightarrow> awaiting_clear \<Rightarrow> herdr_error + agent_observation \<Rightarrow> ('w, unit) turn" where
  "on_clear_rotation w i job a observed = turn_seq (set_clear i (\<lambda>x. x\<lparr>wl_job := None\<rparr>))
     (turn_bind (turn_do (apply_clear_rotation_observation (wr_peer w) a observed)) (\<lambda>r. case r of
       Inl e \<Rightarrow> fail_parked_clear w job e
     | Inr None \<Rightarrow> turn_skip
     | Inr (Some c) \<Rightarrow> answer_clear_at w i (Inr c)))"

definition on_clear_done :: "'w wire \<Rightarrow> nat \<Rightarrow> herdr_error + herdr_job_result \<Rightarrow> ('w, unit) turn" where
  "on_clear_done w job result = turn_found (clear_index job) turn_skip (\<lambda>i. turn_at sv_clears i (\<lambda>x. case wl_state x of
     ClProbe c pane \<Rightarrow> on_clear_probe w i job c pane (agent_result ''clear probe returned a non-agent result'' result)
   | ClSending s \<Rightarrow> on_clear_command w i job x s (clear_command_result result)
   | ClRotation a \<Rightarrow> on_clear_rotation w i job a (agent_result ''clear rotation returned a non-agent result'' result)
   | ClSettling _ _ \<Rightarrow> turn_skip))"

text \<open>The wall clock counts as zero when it cannot be read.\<close>

definition clock_or_zero :: "'w wire \<Rightarrow> ('w, int) turn" where
  "clock_or_zero w = turn_bind (turn_do (sl_clock (wr_peer w))) (\<lambda>r. turn_return (case r of Inl _ \<Rightarrow> 0 | Inr t \<Rightarrow> t))"

definition clear_pass :: "'w wire \<Rightarrow> nat \<Rightarrow> awaiting_clear_request \<Rightarrow> ('w, pass_step) turn" where
  "clear_pass w i x =
     (if wl_job x \<noteq> None then turn_return (StepStays False)
      else case wl_state x of
        ClSettling _ not_before \<Rightarrow> turn_bind (clock_or_zero w) (\<lambda>now.
          if now < not_before then turn_return (StepStays False)
          else turn_bind (start_clear_probe w i) (\<lambda>r. case r of
            Inl e \<Rightarrow> turn_seq (fail_clear_at w i e) (turn_return StepRemoved)
          | Inr _ \<Rightarrow> turn_return (StepStays True)))
      | ClRotation _ \<Rightarrow> moved_on (start_clear_rotation_get i)
      | _ \<Rightarrow> turn_return (StepStays False))"

definition advance_awaiting_clears :: "'w wire \<Rightarrow> ('w, bool) turn" where
  "advance_awaiting_clears w = turn_bind (turn_get (\<lambda>n. length (sv_clears n))) (\<lambda>k.
     turn_walk sv_clears (clear_pass w) k 0 False)"

end
