(* ===== verification/Passes.thy ===== *)
theory Passes
  imports Launches
begin

text \<open>
  The daemon's own work in \<open>src/src/daemon.rs\<close> and its event loop: renew cycles, reminders, recovery after a boot, the
  sweep of absent parties, the archive of dead identities, the events of Herdr jobs routed by owner, and
  one pass (\<open>poll\<close>) over everything parked.

  A pass takes the events its drains receive, as lists of a batch per drain, and the connections
  waiting at the listener; any batches may arrive, so every interleaving of Herdr and clients is one of
  these runs. Failures that the code only prints are left out.
\<close>

section \<open>Renew cycles\<close>

definition renew_index :: "nat \<Rightarrow> 'w daemon \<Rightarrow> nat option" where
  "renew_index job n = position (\<lambda>r. wm_job r = Some job) (sv_renews n)"

definition set_renew :: "nat \<Rightarrow> (awaiting_renew \<Rightarrow> awaiting_renew) \<Rightarrow> ('w, unit) turn" where
  "set_renew i f = turn_set sv_renews_update i f"

definition renew_drive_skips :: "slice_error \<Rightarrow> bool" where
  "renew_drive_skips e = (case e of
     SHerdr _ \<Rightarrow> True | UnknownOutcome _ _ \<Rightarrow> True | UnsupportedBackend _ \<Rightarrow> True
   | SStore (Conflict _) \<Rightarrow> True | _ \<Rightarrow> False)"

definition note_renew_drive_error :: "'w wire \<Rightarrow> slice_error \<Rightarrow> ('w, unit) turn" where
  "note_renew_drive_error w e = operator_note w (''renew drive failed: '' @ error_text w e)"

definition park_renew :: "due_renew \<Rightarrow> renew_park_state \<Rightarrow> ('w, unit) turn" where
  "park_renew x state = turn_seq (turn_upd (sv_renew_inflight_update (List.insert (rn_id (dn_row x)))))
     (turn_push sv_renews_update \<lparr>wm_item = x, wm_state = state, wm_job = None, wm_lease = None\<rparr>)"

definition finish_parked_renew :: "nat \<Rightarrow> ('w, unit) turn" where
  "finish_parked_renew i = turn_take sv_renews sv_renews_update i (\<lambda>r. turn_seq (drop_lease (wm_lease r))
     (turn_upd (sv_renew_inflight_update (filter (\<lambda>x. x \<noteq> rn_id (dn_row (wm_item r)))))))"

definition drop_parked_renew :: "'w wire \<Rightarrow> nat \<Rightarrow> slice_error \<Rightarrow> ('w, unit) turn" where
  "drop_parked_renew w i e = turn_seq (if renew_drive_skips e then turn_skip else note_renew_drive_error w e)
     (finish_parked_renew i)"

definition fail_parked_renew :: "'w wire \<Rightarrow> nat \<Rightarrow> slice_error \<Rightarrow> ('w, unit) turn" where
  "fail_parked_renew w job e = turn_found (renew_index job) turn_skip (\<lambda>i. drop_parked_renew w i e)"

text \<open>
  One actionable renew: an early failure ends the pass (\<open>True\<close> second), the rest only says whether it
  progressed.
\<close>

definition renew_outcome :: "'w wire \<Rightarrow> slice_error \<Rightarrow> ('w, bool \<times> bool) turn" where
  "renew_outcome w e = (if renew_drive_skips e then turn_return (False, False)
     else turn_seq (note_renew_drive_error w e) (turn_return (False, True)))"

definition renew_advance :: "'w wire \<Rightarrow> due_renew \<Rightarrow> int \<Rightarrow> ('w, bool \<times> bool) turn" where
  "renew_advance w x now = turn_bind (turn_do (advance_renew (wr_peer w) x now)) (\<lambda>r. case r of
     Inr moved \<Rightarrow> turn_return (moved, False) | Inl e \<Rightarrow> renew_outcome w e)"

definition renew_scheduled :: "'w wire \<Rightarrow> due_renew \<Rightarrow> int \<Rightarrow> ('w, bool \<times> bool) turn" where
  "renew_scheduled w x now = turn_bind (turn_do (prompt_spacing_active (rn_incarnation (dn_row x)) now)) (\<lambda>r. case r of
     Inl e \<Rightarrow> turn_seq (note_renew_drive_error w e) (turn_return (False, False))
   | Inr True \<Rightarrow> turn_return (False, False)
   | Inr False \<Rightarrow> turn_bind (turn_do (begin_renew_prepare (wr_peer w) x now)) (\<lambda>r. case r of
       Inl e \<Rightarrow> renew_outcome w e
     | Inr q \<Rightarrow> turn_seq (park_prompt (notice_prompt OwnInternal q)) (turn_return (True, False))))"

definition renew_due :: "'w wire \<Rightarrow> int \<Rightarrow> due_renew \<Rightarrow> ('w, bool \<times> bool) turn" where
  "renew_due w now x = turn_bind (turn_get sv_renew_inflight) (\<lambda>inflight.
     if rn_id (dn_row x) \<in> set inflight then turn_return (False, False)
     else case rn_phase (dn_row x) of
       RScheduled \<Rightarrow> renew_scheduled w x now
     | RPreparing \<Rightarrow> renew_advance w x now
     | RTimedOut \<Rightarrow> renew_advance w x now
     | RReady \<Rightarrow> turn_bind (turn_do (renew_clear_ready_to_probe x now)) (\<lambda>r. case r of
         Inl e \<Rightarrow> renew_outcome w e
       | Inr False \<Rightarrow> turn_return (False, False)
       | Inr True \<Rightarrow> turn_seq (park_renew x RpProbe) (turn_return (True, False)))
     | RClearing \<Rightarrow> turn_seq (park_renew x RpRotationGet) (turn_return (True, False))
     | RInjected \<Rightarrow>
         if rn_inject_not_before_ms (dn_row x) = None then renew_advance w x now
         else turn_seq (park_renew x RpConfirmGet) (turn_return (True, False))
     | _ \<Rightarrow> turn_return (False, False))"

fun renews_loop :: "'w wire \<Rightarrow> int \<Rightarrow> due_renew list \<Rightarrow> bool \<Rightarrow> ('w, bool) turn" where
  "renews_loop w now [] p = turn_return p"
| "renews_loop w now (x # xs) p = turn_bind (renew_due w now x) (\<lambda>(moved, stop).
     if stop then turn_return (p \<or> moved) else renews_loop w now xs (p \<or> moved))"

definition park_due_renews :: "'w wire \<Rightarrow> ('w, bool) turn" where
  "park_due_renews w = turn_bind (turn_do (terminate_ended_renews (wr_peer w))) (\<lambda>r. case r of
     Inl e \<Rightarrow> turn_seq (note_renew_drive_error w e) (turn_return False)
   | Inr _ \<Rightarrow> turn_bind (clock_or_zero w) (\<lambda>now.
       turn_bind (turn_do (sl_read (actionable_renews now))) (\<lambda>r. case r of
         Inl e \<Rightarrow> turn_seq (note_renew_drive_error w e) (turn_return False)
       | Inr items \<Rightarrow> renews_loop w now items False)))"

section \<open>Renew jobs\<close>

definition submit_renew :: "nat \<Rightarrow> (nat \<Rightarrow> herdr_job) \<Rightarrow> ('w, unit) turn" where
  "submit_renew i job = turn_bind (submit_new job OfRenew) (\<lambda>j. set_renew i (\<lambda>r. r\<lparr>wm_job := Some j\<rparr>))"

definition renew_get :: "awaiting_renew \<Rightarrow> string \<Rightarrow> nat \<Rightarrow> herdr_job" where
  "renew_get r what j = JobAgentGet j (''kelpie:renew:'' @ what @ '':'' @ id_display (rn_id (dn_row (wm_item r))))
     (dn_pane (wm_item r))"

definition renew_job :: "awaiting_renew \<Rightarrow> nat \<Rightarrow> herdr_job" where
  "renew_job r j = (case wm_state r of
     RpProbe \<Rightarrow> renew_get r ''probe'' j
   | RpClearingSend x \<Rightarrow> JobOpen j (rc_pane_id x) False
   | RpRotationGet \<Rightarrow> renew_get r ''rotation'' j
   | RpInjectSend x \<Rightarrow> JobOpen j (rj_pane_id x) False
   | RpConfirmGet \<Rightarrow> renew_get r ''confirm'' j)"

definition renew_pass :: "nat \<Rightarrow> awaiting_renew \<Rightarrow> ('w, pass_step) turn" where
  "renew_pass i r = (if wm_job r \<noteq> None then turn_return (StepStays False) else moved_on (submit_renew i (renew_job r)))"

definition advance_awaiting_renews :: "('w, bool) turn" where
  "advance_awaiting_renews = turn_bind (turn_get (\<lambda>n. length (sv_renews n))) (\<lambda>k. turn_walk sv_renews renew_pass k 0 False)"

definition renew_text :: "renew_park_state \<Rightarrow> (string \<times> string \<times> string) option" where
  "renew_text s = (case s of
     RpClearingSend x \<Rightarrow> Some (rc_request x, rc_pane_id x, rc_command x)
   | RpInjectSend x \<Rightarrow> Some (rj_request x, rj_pane_id x, rj_envelope x)
   | _ \<Rightarrow> None)"

definition on_renew_opened :: "'w wire \<Rightarrow> bool \<Rightarrow> nat \<Rightarrow> ('w, unit) turn" where
  "on_renew_opened w alive job = turn_found (renew_index job) (send_lease job DropCmd) (\<lambda>i. turn_at sv_renews i (\<lambda>r.
     case renew_text (wm_state r) of
       None \<Rightarrow> send_lease job DropCmd
     | Some (request, pane, txt) \<Rightarrow>
         if alive then turn_seq (send_lease job (SendCmd request ''agent.prompt'' (target_text pane txt) False))
           (set_renew i (\<lambda>r. r\<lparr>wm_lease := Some job\<rparr>))
         else fail_parked_renew w job (SHerdr (lease_closed ''renew send''))))"

definition renew_next :: "nat \<Rightarrow> string \<Rightarrow> renew_park_state \<Rightarrow> ('w, unit) turn" where
  "renew_next i pane state = turn_bind (submit_new (\<lambda>j. JobOpen j pane False) OfRenew) (\<lambda>j.
     set_renew i (\<lambda>r. r\<lparr>wm_job := Some j, wm_state := state\<rparr>))"

definition on_renew_probe :: "'w wire \<Rightarrow> nat \<Rightarrow> due_renew \<Rightarrow> herdr_error + agent_observation \<Rightarrow> ('w, unit) turn" where
  "on_renew_probe w i x result = (case result of
     Inl e \<Rightarrow> drop_parked_renew w i (SHerdr e)
   | Inr observed \<Rightarrow> turn_bind (clock_or_zero w) (\<lambda>now.
       turn_bind (turn_do (record_renew_clearing x now observed)) (\<lambda>r. case r of
         Inl e \<Rightarrow> drop_parked_renew w i e
       | Inr wr \<Rightarrow> renew_next i (rc_pane_id wr) (RpClearingSend wr))))"

text \<open>What ends a step of a cycle: a failure a cycle may meet leaves no notice.\<close>

definition settle_renew :: "'w wire \<Rightarrow> nat \<Rightarrow> slice_error + 'a \<Rightarrow> ('w, unit) turn" where
  "settle_renew w i r = (case r of Inr _ \<Rightarrow> finish_parked_renew i | Inl e \<Rightarrow>
     if renew_drive_skips e then finish_parked_renew i else drop_parked_renew w i e)"

definition written_result :: "string \<Rightarrow> herdr_error + herdr_job_result \<Rightarrow> herdr_error + unit" where
  "written_result what result = (case result of
     Inr (ResPrompt _) \<Rightarrow> Inr () | Inr (ResAgent _) \<Rightarrow> Inr () | Inr _ \<Rightarrow> Inl (HUnexpected what) | Inl e \<Rightarrow> Inl e)"

definition drop_renew_lease :: "nat \<Rightarrow> awaiting_renew \<Rightarrow> ('w, unit) turn" where
  "drop_renew_lease i r = turn_seq (drop_lease (wm_lease r)) (set_renew i (\<lambda>r. r\<lparr>wm_lease := None\<rparr>))"

definition on_renew_clear_sent :: "'w wire \<Rightarrow> nat \<Rightarrow> awaiting_renew \<Rightarrow> renew_clear_write \<Rightarrow> herdr_error + unit \<Rightarrow> ('w, unit) turn" where
  "on_renew_clear_sent w i r wr result = turn_seq (drop_renew_lease i r) (turn_bind (clock_or_zero w) (\<lambda>now.
     turn_bind (turn_do (apply_renew_attempt_result (rn_id (dn_row (wm_item r))) (rc_request wr) now result))
       (settle_renew w i)))"

definition on_renew_rotation :: "'w wire \<Rightarrow> nat \<Rightarrow> due_renew \<Rightarrow> herdr_error + agent_observation \<Rightarrow> ('w, unit) turn" where
  "on_renew_rotation w i x result = (case result of
     Inl e \<Rightarrow> drop_parked_renew w i (SHerdr e)
   | Inr observed \<Rightarrow> turn_bind (clock_or_zero w) (\<lambda>now.
       turn_bind (turn_do (renew_inject_decision (wr_peer w) x now observed)) (\<lambda>r. case r of
         Inr (Some wr) \<Rightarrow> renew_next i (rj_pane_id wr) (RpInjectSend wr)
       | _ \<Rightarrow> settle_renew w i r)))"

definition on_renew_inject_sent :: "'w wire \<Rightarrow> nat \<Rightarrow> awaiting_renew \<Rightarrow> renew_inject_write \<Rightarrow> herdr_error + unit \<Rightarrow> ('w, unit) turn" where
  "on_renew_inject_sent w i r wr result = turn_seq (drop_renew_lease i r) (turn_bind (clock_or_zero w) (\<lambda>now.
     turn_bind (turn_do (apply_renew_inject_result (wm_item r) now wr result)) (settle_renew w i)))"

definition on_renew_confirm :: "'w wire \<Rightarrow> nat \<Rightarrow> due_renew \<Rightarrow> herdr_error + agent_observation \<Rightarrow> ('w, unit) turn" where
  "on_renew_confirm w i x result = (case result of
     Inl e \<Rightarrow> drop_parked_renew w i (SHerdr e)
   | Inr observed \<Rightarrow> turn_bind (clock_or_zero w) (\<lambda>now.
       turn_bind (turn_do (apply_renew_confirm_observation (wr_peer w) x now observed)) (\<lambda>r. case r of
         Inr True \<Rightarrow>
           turn_bind (turn_do (sl_transact_now (wr_peer w) (\<lambda>now. complete_renew now (rn_id (dn_row x))))) (\<lambda>c. case c of
             Inr _ \<Rightarrow> finish_parked_renew i | Inl e \<Rightarrow> drop_parked_renew w i e)
       | _ \<Rightarrow> settle_renew w i r)))"

definition on_renew_done :: "'w wire \<Rightarrow> nat \<Rightarrow> herdr_error + herdr_job_result \<Rightarrow> ('w, unit) turn" where
  "on_renew_done w job result = turn_found (renew_index job) turn_skip (\<lambda>i. turn_at sv_renews i (\<lambda>r. case wm_state r of
     RpProbe \<Rightarrow> on_renew_probe w i (wm_item r) (agent_result ''renew probe returned a non-agent result'' result)
   | RpClearingSend wr \<Rightarrow> on_renew_clear_sent w i r wr (written_result ''renew clear returned a non-agent result'' result)
   | RpRotationGet \<Rightarrow> on_renew_rotation w i (wm_item r) (agent_result ''renew rotation returned a non-agent result'' result)
   | RpInjectSend wr \<Rightarrow> on_renew_inject_sent w i r wr (written_result ''renew inject returned a non-agent result'' result)
   | RpConfirmGet \<Rightarrow> on_renew_confirm w i (wm_item r) (agent_result ''renew confirm returned a non-agent result'' result)))"

section \<open>Reminders\<close>

definition park_reminder :: "prepared_reminder \<Rightarrow> ('w, unit) turn" where
  "park_reminder r = park_prompt \<lparr>wp_request = [], wp_client = None,
     wp_prepared = \<lparr>pp_operation = operation_id_reserved, pp_incarnation = dr_incarnation (pm_reminder r),
       pp_pane = dr_pane (pm_reminder r), pp_envelope = pm_envelope r, pp_request = pm_request r, pp_queued = False\<rparr>,
     wp_result = JNull, wp_reply_to = None, wp_lease = None, wp_committed = False, wp_owner = OwnInternal,
     wp_reminder = Some r\<rparr>"

definition schedule_reminders :: "'w wire \<Rightarrow> ('w, unit) turn" where
  "schedule_reminders w = turn_bind (turn_get (\<lambda>n. sv_reminder_job n \<noteq> None \<or> sv_reminder_inflight n \<noteq> [])) (\<lambda>running.
     if running then turn_skip
     else turn_bind (turn_do (occupancy_sample_needed (wr_peer w))) (\<lambda>occupancy.
       turn_bind (turn_do (collect_due_reminders (wr_peer w))) (\<lambda>r. case r of
         Inl e \<Rightarrow> operator_note w (''reminder fire failed: '' @ error_text w e)
       | Inr (due, boundaries) \<Rightarrow>
           if due = [] \<and> boundaries = [] \<and> occupancy \<noteq> Inr True then turn_skip
           else turn_bind (submit_new JobLifecycleSnapshot OfReminderSnapshot) (\<lambda>j.
             turn_upd (\<lambda>n. n\<lparr>sv_reminder_job := Some j, sv_pending_reminders := Some (due, boundaries)\<rparr>)))))"

definition park_reminders :: "prepared_reminder list \<Rightarrow> ('w, unit) turn" where
  "park_reminders = turn_each (\<lambda>r. turn_seq
     (turn_upd (sv_reminder_inflight_update (List.insert (dr_ask (pm_reminder r))))) (park_reminder r))"

definition on_reminder_snapshot :: "'w wire \<Rightarrow> herdr_error + herdr_job_result \<Rightarrow> ('w, unit) turn" where
  "on_reminder_snapshot w result = turn_bind (turn_get sv_pending_reminders) (\<lambda>pending.
     turn_seq (turn_upd (\<lambda>n. n\<lparr>sv_reminder_job := None, sv_pending_reminders := None\<rparr>))
     (case (pending, result) of
        (Some (due, boundaries), Inr (ResLifecycle live)) \<Rightarrow>
          turn_seq (turn_try (accrue_occupancy_from_snapshot (wr_peer w) live))
          (turn_bind (turn_do (reminders_after_snapshot (wr_peer w) due boundaries live)) (\<lambda>r. case r of
            Inl e \<Rightarrow> operator_note w (''reminder fire failed: '' @ error_text w e)
          | Inr prepared \<Rightarrow> park_reminders prepared))
      | _ \<Rightarrow> turn_skip))"

section \<open>Recovery after a boot, absence sweep, archive\<close>

definition BOOT_CONTINUE_WINDOW :: nat where "BOOT_CONTINUE_WINDOW = 120000"
definition BOOT_CONTINUE_INTERVAL :: nat where "BOOT_CONTINUE_INTERVAL = 5000"
definition INITIAL_MESSAGE_SETTLE :: nat where "INITIAL_MESSAGE_SETTLE = 2500"
definition ASK_ORPHAN_GRACE_MS :: int where "ASK_ORPHAN_GRACE_MS = 10 * 60 * 1000"
definition ASK_SWEEP_INTERVAL :: nat where "ASK_SWEEP_INTERVAL = 120000"
definition IDENTITY_ARCHIVE_GRACE_MS :: int where "IDENTITY_ARCHIVE_GRACE_MS = 24 * 60 * 60 * 1000"
definition IDENTITY_ARCHIVE_INTERVAL :: nat where "IDENTITY_ARCHIVE_INTERVAL = 900000"

definition boot_continue_should_start :: "nat \<Rightarrow> nat \<Rightarrow> nat \<Rightarrow> bool \<Rightarrow> bool" where
  "boot_continue_should_start now until_time next_time inflight \<longleftrightarrow> \<not> inflight \<and> now < until_time \<and> next_time \<le> now"

definition schedule_boot_continue :: "'w wire \<Rightarrow> ('w, unit) turn" where
  "schedule_boot_continue w = turn_bind (turn_now w) (\<lambda>now.
     turn_bind (turn_get (\<lambda>n. boot_continue_should_start now (sv_boot_until n) (sv_next_boot n) (sv_boot_job n \<noteq> None))) (\<lambda>go.
       if go then turn_bind (submit_new (\<lambda>j. JobSnapshot j True) OfBootRecover) (\<lambda>j. turn_upd (sv_boot_job_update (\<lambda>_. Some j)))
       else turn_skip))"

definition on_boot_continue_done :: "'w wire \<Rightarrow> nat \<Rightarrow> herdr_error + herdr_job_result \<Rightarrow> ('w, unit) turn" where
  "on_boot_continue_done w job result = turn_bind (turn_get sv_boot_job) (\<lambda>current.
     if current \<noteq> Some job then turn_skip
     else turn_bind (turn_now w) (\<lambda>now.
       turn_seq (turn_upd (\<lambda>n. n\<lparr>sv_boot_job := None, sv_next_boot := now + BOOT_CONTINUE_INTERVAL\<rparr>))
       (case result of
          Inr (ResSnapshot snap) \<Rightarrow> turn_bind (turn_do (recover_with_snapshot (wr_peer w) snap)) (\<lambda>r. case r of
            Inr _ \<Rightarrow> turn_skip | Inl e \<Rightarrow> operator_note w (''boot recover failed: '' @ error_text w e))
        | Inr _ \<Rightarrow> operator_note w ''boot recover returned a non-snapshot Herdr result''
        | Inl e \<Rightarrow> operator_note w (''boot recover failed: '' @ herdr_error_text e))))"

definition rearm_sweep :: "'w wire \<Rightarrow> ('w, unit) turn" where
  "rearm_sweep w = turn_bind (turn_now w) (\<lambda>now. turn_upd (sv_next_sweep_update (\<lambda>_. now + ASK_SWEEP_INTERVAL)))"

text \<open>The waiters with an open inbox are seen now; only then is Herdr asked who is gone.\<close>

definition start_sweep :: "'w wire \<Rightarrow> int \<Rightarrow> ('w, unit) turn" where
  "start_sweep w now = turn_bind (turn_get (\<lambda>n. map wi_waiter (sv_inboxes n))) (\<lambda>waiters.
     turn_seq (turn_each (\<lambda>a. turn_try (sl_write (touch_waiter_seen a now))) waiters)
     (turn_bind (submit_new (\<lambda>j. JobSnapshot j True) OfObligationSweep) (\<lambda>j. turn_upd (sv_sweep_job_update (\<lambda>_. Some j)))))"

definition schedule_obligation_sweep :: "'w wire \<Rightarrow> ('w, unit) turn" where
  "schedule_obligation_sweep w = turn_bind (turn_get sv_sweep_job) (\<lambda>running. if running \<noteq> None then turn_skip
     else turn_bind (turn_now w) (\<lambda>now. turn_bind (turn_get sv_next_sweep) (\<lambda>due. if now < due then turn_skip
     else turn_bind (turn_do has_sweepable_state) (\<lambda>r. if r \<noteq> Inr True then rearm_sweep w
     else turn_bind (turn_do (sl_clock (wr_peer w))) (\<lambda>r. case r of
       Inl _ \<Rightarrow> rearm_sweep w | Inr now \<Rightarrow> start_sweep w now)))))"

definition sweep_notices :: "'w wire \<Rightarrow> snapshot \<Rightarrow> ('w, unit) turn" where
  "sweep_notices w snap = turn_bind (turn_do (recover_with_snapshot (wr_peer w) snap)) (\<lambda>r. case r of
     Inl e \<Rightarrow> operator_note w (''absence sweep recover failed: '' @ error_text w e)
   | Inr _ \<Rightarrow> turn_bind (turn_do (sl_clock (wr_peer w))) (\<lambda>r. case r of
       Inl _ \<Rightarrow> turn_skip
     | Inr now \<Rightarrow> turn_bind (turn_do (sweep_absent_asks (wr_peer w) now ASK_ORPHAN_GRACE_MS)) (\<lambda>r. case r of
         Inl e \<Rightarrow> operator_note w (''absence sweep failed: '' @ error_text w e)
       | Inr sweep \<Rightarrow> turn_each (\<lambda>(_, q). park_prompt (notice_prompt OwnInternal q)) (sw_prompts sweep))))"

definition on_obligation_sweep_done :: "'w wire \<Rightarrow> nat \<Rightarrow> herdr_error + herdr_job_result \<Rightarrow> ('w, unit) turn" where
  "on_obligation_sweep_done w job result = turn_bind (turn_get sv_sweep_job) (\<lambda>current.
     if current \<noteq> Some job then turn_skip
     else turn_seq (turn_upd (sv_sweep_job_update (\<lambda>_. None))) (turn_seq (rearm_sweep w)
       (case result of
          Inr (ResSnapshot snap) \<Rightarrow> sweep_notices w snap
        | Inr _ \<Rightarrow> operator_note w ''absence sweep returned a non-snapshot Herdr result''
        | Inl _ \<Rightarrow> turn_skip)))"

definition daemon_archive :: "'w wire \<Rightarrow> ('w, unit) turn" where
  "daemon_archive w = turn_bind (turn_now w) (\<lambda>now. turn_bind (turn_get sv_next_archive) (\<lambda>due. if now < due then turn_skip
     else turn_bind (turn_now w) (\<lambda>now. turn_seq (turn_upd (sv_next_archive_update (\<lambda>_. now + IDENTITY_ARCHIVE_INTERVAL)))
       (turn_try (act_bind (sl_clock (wr_peer w)) (\<lambda>t. sl_write (archive_dead_identities t IDENTITY_ARCHIVE_GRACE_MS)))))))"

section \<open>Events of Herdr\<close>

definition owner_of :: "nat \<Rightarrow> 'w daemon \<Rightarrow> herdr_owner option" where
  "owner_of job n = hm_get job (sv_owners n)"

definition on_opened :: "'w wire \<Rightarrow> bool \<Rightarrow> nat \<Rightarrow> herdr_owner option \<Rightarrow> ('w, unit) turn" where
  "on_opened w alive job owner = (case owner of
     Some OfPrompt \<Rightarrow> on_prompt_opened w alive job
   | Some OfStart \<Rightarrow> on_start_opened w alive job
   | Some OfClear \<Rightarrow> on_clear_opened w alive job
   | Some OfRenew \<Rightarrow> on_renew_opened w alive job
   | Some OfAdopt \<Rightarrow> on_adopt_opened w alive job
   | Some OfRename \<Rightarrow> on_rename_opened w alive job
   | Some OfRetire \<Rightarrow> on_retire_opened w alive job
   | _ \<Rightarrow> send_lease job DropCmd)"

definition on_done :: "'w wire \<Rightarrow> nat \<Rightarrow> herdr_error + herdr_job_result \<Rightarrow> herdr_owner option \<Rightarrow> ('w, unit) turn" where
  "on_done w job result owner = (case owner of
     Some OfPrompt \<Rightarrow> finish_parked_prompt w job (prompt_result ''prompt job returned a non-prompt result'' result)
   | Some OfStart \<Rightarrow> on_start_done w job result
   | Some OfReminderSnapshot \<Rightarrow> on_reminder_snapshot w result
   | Some OfClear \<Rightarrow> on_clear_done w job result
   | Some OfClientRead \<Rightarrow> on_client_read_done w job result
   | Some OfRenew \<Rightarrow> on_renew_done w job result
   | Some OfAdopt \<Rightarrow> on_adopt_done w job result
   | Some OfRename \<Rightarrow> on_rename_done w job result
   | Some OfRetire \<Rightarrow> on_retire_done w job result
   | Some OfBootRecover \<Rightarrow> on_boot_continue_done w job result
   | Some OfObligationSweep \<Rightarrow> on_obligation_sweep_done w job result
   | None \<Rightarrow> turn_skip)"

definition on_failed :: "'w wire \<Rightarrow> nat \<Rightarrow> fail_phase \<Rightarrow> herdr_error \<Rightarrow> herdr_owner option \<Rightarrow> ('w, unit) turn" where
  "on_failed w job phase e owner = (case owner of
     Some OfPrompt \<Rightarrow> fail_parked_prompt w job (Inl e)
   | Some OfStart \<Rightarrow> on_start_failed w job e
   | Some OfReminderSnapshot \<Rightarrow> turn_upd (\<lambda>n. n\<lparr>sv_reminder_job := None, sv_pending_reminders := None\<rparr>)
   | Some OfClear \<Rightarrow> fail_parked_clear w job (SHerdr e)
   | Some OfClientRead \<Rightarrow> fail_client_read w job (SHerdr e)
   | Some OfRenew \<Rightarrow> fail_parked_renew w job (SHerdr e)
   | Some OfAdopt \<Rightarrow> on_adopt_failed w job e
   | Some OfRename \<Rightarrow> on_rename_failed w job phase e
   | Some OfRetire \<Rightarrow> on_retire_failed w job phase e
   | Some OfBootRecover \<Rightarrow> on_boot_continue_done w job (Inl e)
   | Some OfObligationSweep \<Rightarrow> on_obligation_sweep_done w job (Inl e)
   | None \<Rightarrow> turn_skip)"

text \<open>An event, and whether the lease it carries still takes commands.\<close>

definition on_event :: "'w wire \<Rightarrow> herdr_event \<times> bool \<Rightarrow> ('w, unit) turn" where
  "on_event w = (\<lambda>(ev, alive). case ev of
     EvOpened job \<Rightarrow> turn_bind (turn_get (owner_of job)) (on_opened w alive job)
   | EvWritten _ _ \<Rightarrow> turn_skip
   | EvDone job result \<Rightarrow> turn_bind (turn_get (owner_of job)) (on_done w job result)
   | EvFailed job phase e \<Rightarrow> turn_bind (turn_get (owner_of job)) (on_failed w job phase e)
   | EvDropped job \<Rightarrow> turn_upd (sv_owners_update (hm_remove job)))"

type_synonym batch = "(herdr_event \<times> bool) list"

definition drain_herdr_events :: "'w wire \<Rightarrow> batch \<Rightarrow> ('w, unit) turn" where
  "drain_herdr_events w evs = turn_each (on_event w) evs"

text \<open>Draining for at most 50 ms while something is busy, a millisecond apart.\<close>

definition turn_sleep :: "'w wire \<Rightarrow> nat \<Rightarrow> ('w, unit) turn" where
  "turn_sleep w ms = turn_world (\<lambda>x. ((), pr_sleep (wr_peer w) ms x))"

fun drive_loop :: "'w wire \<Rightarrow> ('w daemon \<Rightarrow> bool) \<Rightarrow> nat \<Rightarrow> batch list \<Rightarrow> ('w, unit) turn" where
  "drive_loop w busy deadline [] = turn_skip"
| "drive_loop w busy deadline (b # bs) = turn_bind (turn_now w) (\<lambda>now.
     if deadline \<le> now then turn_skip
     else turn_seq (drain_herdr_events w b) (turn_bind (turn_get busy) (\<lambda>still.
       if \<not> still then turn_skip else turn_seq (turn_sleep w 1) (drive_loop w busy deadline bs))))"

definition drive_while :: "'w wire \<Rightarrow> ('w daemon \<Rightarrow> bool) \<Rightarrow> batch list \<Rightarrow> ('w, unit) turn" where
  "drive_while w busy bs = turn_bind (turn_now w) (\<lambda>now. drive_loop w busy (now + 50) bs)"

definition prompts_opening :: "'w daemon \<Rightarrow> bool" where
  "prompts_opening n \<longleftrightarrow> (\<exists>x \<in> set (sv_prompts n). wp_lease (snd x) = None)"

definition drive_parked_opens :: "'w wire \<Rightarrow> batch list \<Rightarrow> ('w, unit) turn" where
  "drive_parked_opens w bs = turn_bind (turn_now w) (\<lambda>now. turn_bind (turn_get prompts_opening) (\<lambda>any_open.
     if any_open then drive_loop w prompts_opening (now + 50) bs else turn_skip))"

text \<open>A renew is in some state of its machine as long as it is parked.\<close>

definition drive_parked_renews :: "'w wire \<Rightarrow> batch list \<Rightarrow> ('w, unit) turn" where
  "drive_parked_renews w bs = drive_while w (\<lambda>n. sv_renews n \<noteq> []) bs"

definition clear_busy :: "awaiting_clear_request \<Rightarrow> bool" where
  "clear_busy c \<longleftrightarrow> wl_job c \<noteq> None \<or> (case wl_state c of ClProbe _ _ \<Rightarrow> True | ClSending _ \<Rightarrow> True | _ \<Rightarrow> False)"

definition drive_parked_clears :: "'w wire \<Rightarrow> batch list \<Rightarrow> ('w, unit) turn" where
  "drive_parked_clears w bs = drive_while w (\<lambda>n. list_ex clear_busy (sv_clears n)) bs"

section \<open>A pass\<close>

record arrivals =
  av_events :: batch
  av_opens :: "batch list"
  av_renews :: "batch list"
  av_clears :: "batch list"
  av_clients :: "client list"

definition fire_schedules :: "'w wire \<Rightarrow> ('w, unit) turn" where
  "fire_schedules w = turn_bind (turn_do (fire_due_schedules (wr_peer w))) (\<lambda>r. case r of
     Inr _ \<Rightarrow> turn_skip | Inl e \<Rightarrow> operator_note w (''schedule fire failed: '' @ error_text w e))"

definition park_due :: "prepared_prompt \<Rightarrow> ('w, unit) turn" where
  "park_due q = turn_bind (turn_get sv_due_inflight) (\<lambda>inflight.
     if pp_operation q \<in> set inflight then turn_skip
     else turn_seq (turn_upd (sv_due_inflight_update (\<lambda>is. is @ [pp_operation q])))
       (park_prompt (notice_prompt OwnInternal q)))"

definition fire_deliveries :: "'w wire \<Rightarrow> ('w, unit) turn" where
  "fire_deliveries w = turn_bind (turn_do (begin_due_deliveries (wr_peer w))) (\<lambda>r. case r of
     Inr prepared \<Rightarrow> turn_each park_due prepared
   | Inl e \<Rightarrow> operator_note w (''due fire failed: '' @ error_text w e))"

definition daemon_busy :: "'w daemon \<Rightarrow> bool" where
  "daemon_busy n \<longleftrightarrow> sv_starts n \<noteq> [] \<or> sv_clears n \<noteq> [] \<or> sv_reading n \<noteq> [] \<or> sv_prompts n \<noteq> []
     \<or> sv_cancels n \<noteq> [] \<or> sv_reminder_job n \<noteq> None \<or> sv_reads n \<noteq> [] \<or> sv_renews n \<noteq> [] \<or> sv_adopts n \<noteq> []
     \<or> sv_renames n \<noteq> [] \<or> sv_retires n \<noteq> [] \<or> sv_boot_job n \<noteq> None \<or> sv_sweep_job n \<noteq> None"

definition poll_clients :: "'w wire \<Rightarrow> client list \<Rightarrow> ('w, bool) turn" where
  "poll_clients w cs =
     turn_bind (advance_inboxes w) (\<lambda>p1.
     turn_bind (advance_replies_waits w) (\<lambda>p2.
     turn_bind (advance_writes w) (\<lambda>p3.
     turn_bind (pump_reading w) (\<lambda>p4.
     turn_bind (accept_waiting w cs) (\<lambda>accepted.
     turn_bind (pump_reading w) (\<lambda>p5. turn_return (p1 \<or> p2 \<or> p3 \<or> p4 \<or> p5 \<or> accepted)))))))"

definition poll_work :: "'w wire \<Rightarrow> arrivals \<Rightarrow> ('w, bool) turn" where
  "poll_work w x =
     turn_seq (drain_herdr_events w (av_events x))
     (turn_seq (schedule_boot_continue w)
     (turn_seq (schedule_obligation_sweep w)
     (turn_seq (daemon_archive w)
     (turn_seq (fire_schedules w)
     (turn_seq (fire_deliveries w)
     (turn_seq (drive_parked_opens w (av_opens x))
     (turn_seq (schedule_reminders w)
     (turn_bind (park_due_renews w) (\<lambda>p1.
      turn_bind advance_awaiting_renews (\<lambda>p2.
      turn_seq (drive_parked_renews w (av_renews x))
     (turn_bind (advance_awaiting_starts w) (\<lambda>p3.
      turn_bind (advance_awaiting_clears w) (\<lambda>p4.
      turn_seq (drive_parked_clears w (av_clears x)) (turn_return (p1 \<or> p2 \<or> p3 \<or> p4)))))))))))))))"

definition daemon_poll :: "'w wire \<Rightarrow> arrivals \<Rightarrow> ('w, bool) turn" where
  "daemon_poll w x = turn_bind (poll_work w x) (\<lambda>p. turn_bind (poll_clients w (av_clients x)) (\<lambda>q.
     turn_bind (turn_get daemon_busy) (\<lambda>busy. turn_return (p \<or> q \<or> busy))))"

text \<open>The time to the first deadline of a long poll; an idle loop sleeps no longer than that.\<close>

definition next_replies_wait :: "nat \<Rightarrow> 'w daemon \<Rightarrow> nat option" where
  "next_replies_wait now n = (case sv_replies n of
     [] \<Rightarrow> None | _ \<Rightarrow> Some (Min (set (map (\<lambda>a. wy_deadline a - now) (sv_replies n)))))"

definition daemon_pass :: "'w wire \<Rightarrow> arrivals \<Rightarrow> ('w, unit) turn" where
  "daemon_pass w x = turn_bind (daemon_poll w x) (\<lambda>hot. if hot then turn_skip
     else turn_bind (turn_now w) (\<lambda>now. turn_bind (turn_get (next_replies_wait now)) (\<lambda>replies.
       turn_bind (turn_do (idle_wait (wr_peer w) 100)) (\<lambda>idle.
         let cap = (case idle of Inr t \<Rightarrow> t | Inl _ \<Rightarrow> 100) in
         turn_sleep w (case replies of None \<Rightarrow> cap | Some t \<Rightarrow> min t cap)))))"

section \<open>Binding\<close>

text \<open>
  A daemon bound to its socket: every waiter's clock moves to now, and the operations live from here
  on are its own. A store or clock that fails refuses to serve.
\<close>

definition idle_daemon :: "nat \<Rightarrow> nat \<Rightarrow> nat \<Rightarrow> nat \<Rightarrow> 'w kelpie \<Rightarrow> 'w daemon" where
  "idle_daemon t1 t2 t3 t4 k = \<lparr>sv_kelpie = k, sv_starts = [], sv_clears = [], sv_inboxes = [], sv_replies = [], sv_reading = [],
     sv_writes = [], sv_prompts = [], sv_cancels = [], sv_waiter_retires = [], sv_next_job = 1, sv_next_cancel = 1,
     sv_next_waiter_retire = 1, sv_reminder_job = None, sv_pending_reminders = None, sv_reminder_inflight = [],
     sv_due_inflight = [], sv_owners = [], sv_reads = [], sv_renews = [], sv_renew_inflight = [], sv_adopts = [],
     sv_renames = [], sv_retires = [], sv_boot_until = t1 + BOOT_CONTINUE_WINDOW, sv_boot_job = None,
     sv_next_boot = t2 + BOOT_CONTINUE_INTERVAL, sv_sweep_job = None, sv_next_sweep = t3 + ASK_SWEEP_INTERVAL,
     sv_next_archive = t4, sv_settle = INITIAL_MESSAGE_SETTLE, sv_jobs = [], sv_sent = [], sv_claimed = [], sv_out = [],
     sv_gone = []\<rparr>"

definition daemon_bind :: "'w wire \<Rightarrow> 'w kelpie \<Rightarrow> slice_error + 'w daemon" where
  "daemon_bind w k = (case act_bind (sl_clock (wr_peer w)) (\<lambda>now. act_bind (sl_write (boot_reset_waiter_seen now)) (\<lambda>_.
       act_bind (act_error SStore claim_live) (\<lambda>_.
       act_bind (instant_now (wr_peer w)) (\<lambda>t1. act_bind (instant_now (wr_peer w)) (\<lambda>t2.
       act_bind (instant_now (wr_peer w)) (\<lambda>t3. act_bind (instant_now (wr_peer w)) (\<lambda>t4.
         act_return (t1, t2, t3, t4)))))))) k of
     (Inl e, _) \<Rightarrow> Inl e | (Inr (t1, t2, t3, t4), k') \<Rightarrow> Inr (idle_daemon t1 t2 t3 t4 k'))"

end
