(* ===== verification/Acts.thy ===== *)
theory Acts
  imports Passes Moves
begin

text \<open>
  The store under the client methods: every method of \<open>src/src/daemon.rs\<close>, and every act by which a line is
  served, moves the store by store steps alone, whatever it answers. The lemmas extend the collection
  \<open>along_intro\<close> of the slice, one group per layer.
\<close>

section \<open>Cases\<close>

lemma along_tell_recipient [along_intro]:
  "(\<And>x y. along R (f1 x y)) \<Longrightarrow> (\<And>x. along R (f2 x)) \<Longrightarrow> along R (case_tell_recipient f1 f2 e)"
  by (cases e) auto

lemma along_who_identity [along_intro]:
  "(\<And>x. along R (f1 x)) \<Longrightarrow> (\<And>x. along R (f2 x)) \<Longrightarrow> along R (case_who_identity f1 f2 e)"
  by (cases e) auto

lemma along_clear_state [along_intro]:
  "(\<And>x y. along R (f1 x y)) \<Longrightarrow> (\<And>x y. along R (f2 x y)) \<Longrightarrow> (\<And>x. along R (f3 x)) \<Longrightarrow> (\<And>x. along R (f4 x))
   \<Longrightarrow> along R (case_awaiting_clear_state f1 f2 f3 f4 e)"
  by (cases e) auto

lemma along_clear_dispatch [along_intro]:
  "(\<And>x. along R (f1 x)) \<Longrightarrow> (\<And>x. along R (f2 x)) \<Longrightarrow> along R (case_clear_dispatch f1 f2 e)"
  by (cases e) auto

lemma along_replies_dispatch [along_intro]:
  "(\<And>x. along R (f1 x)) \<Longrightarrow> (\<And>x. along R (f2 x)) \<Longrightarrow> along R (case_replies_dispatch f1 f2 e)"
  by (cases e) auto

lemma along_read_kind [along_intro]:
  "(\<And>x. along R (f1 x)) \<Longrightarrow> (\<And>x. along R (f2 x)) \<Longrightarrow> (\<And>x y. along R (f3 x y)) \<Longrightarrow> (\<And>x y z. along R (f4 x y z))
   \<Longrightarrow> (\<And>x. along R (f5 x)) \<Longrightarrow> (\<And>x. along R (f6 x)) \<Longrightarrow> (\<And>x y z. along R (f7 x y z))
   \<Longrightarrow> along R (case_client_read_kind f1 f2 f3 f4 f5 f6 f7 e)"
  by (cases e) auto

text \<open>The world behind the process is no part of the store.\<close>

lemma along_any_world [along_intro]: "along moves (act_world f)"
  by (auto simp: along_def act_world_def moves_def split: prod.splits)

lemma along_params [along_intro]: "(\<And>x. along moves (h x)) \<Longrightarrow> along moves (with_params f v h)"
  unfolding with_params_def by (intro along_intro)

lemma along_map [along_intro]: "(\<And>x. along moves (f x)) \<Longrightarrow> along moves (act_map f xs)"
  unfolding act_map_def by (intro along_intro)

section \<open>Methods\<close>

lemma due_moves [along_intro]:
  "along moves (cycle_due_at_ms p r)"
  unfolding cycle_due_at_ms_def
  by ((intro along_intro; ((erule two_resultsE)?; erule store_ops; simp)?)+)

lemma renew_json_moves [along_intro]:
  "along moves (report_renew_json p r)"
  unfolding report_renew_json_def
  by ((intro along_intro; ((erule two_resultsE)?; erule store_ops; simp)?)+)

lemma report_row_moves [along_intro]:
  "along moves (report_incarnation p live i)"
  unfolding report_incarnation_def
  by ((intro along_intro; ((erule two_resultsE)?; erule store_ops; simp)?)+)

lemma report_agent_moves [along_intro]:
  "along moves (report_agent_json p live g)"
  unfolding report_agent_json_def
  by ((intro along_intro; ((erule two_resultsE)?; erule store_ops; simp)?)+)

lemma report_moves [along_intro]:
  "along moves (render_report p active live)"
  unfolding render_report_def
  by ((intro along_intro; ((erule two_resultsE)?; erule store_ops; simp)?)+)

lemma recipient_moves [along_intro]:
  "along moves (resolve_recipient p recipient inc name key)"
  "along moves (resolve_tell_recipient p recipient inc name key)"
  unfolding resolve_recipient_def resolve_tell_recipient_def
  by ((intro along_intro; ((erule two_resultsE)?; erule store_ops; simp)?)+)

lemma schedule_recipient_moves [along_intro]:
  "along moves (resolve_schedule_recipient p recipient inc name key)"
  unfolding resolve_schedule_recipient_def
  by ((intro along_intro; ((erule two_resultsE)?; erule store_ops; simp)?)+)

lemma tell_moves [along_intro]:
  "along moves (schedule_repeating_tell p q every)"
  "along moves (tell_socket_waiter p q recipient)"
  unfolding schedule_repeating_tell_def tell_socket_waiter_def
  by ((intro along_intro; ((erule two_resultsE)?; erule store_ops; simp)?)+)

lemma poll_moves [along_intro]:
  "along moves (poll_replies q)"
  "along moves (attribution_response inc)"
  "along moves (reminder_of ask)"
  unfolding poll_replies_def attribution_response_def reminder_of_def
  by ((intro along_intro; ((erule two_resultsE)?; erule store_ops; simp)?)+)

lemma identity_moves [along_intro]:
  "along moves (who_identity_response x)"
  unfolding who_identity_response_def
  by ((intro along_intro; ((erule two_resultsE)?; erule store_ops; simp)?)+)

lemma name_moves [along_intro]:
  "along moves (dispatch_name_info w v)"
  unfolding dispatch_name_info_def
  by ((intro along_intro; ((erule two_resultsE)?; erule store_ops; simp)?)+)

lemma exchange_method_moves [along_intro]:
  "along moves (dispatch_ask w v)"
  "along moves (dispatch_tell w v)"
  "along moves (dispatch_reply w v)"
  "along moves (dispatch_replies_claim w v)"
  "along moves (dispatch_replies w v)"
  "along moves (dispatch_replies_ack w v)"
  unfolding dispatch_ask_def dispatch_tell_def dispatch_reply_def dispatch_replies_claim_def dispatch_replies_def dispatch_replies_ack_def
  by ((intro along_intro; ((erule two_resultsE)?; erule store_ops; simp)?)+)

lemma identity_method_moves [along_intro]:
  "along moves (dispatch_whoami w v request_id)"
  "along moves (dispatch_who w v)"
  "along moves (dispatch_ask_info w v)"
  "along moves (dispatch_attribution w v)"
  "along moves (dispatch_rename w v)"
  "along moves (dispatch_report w v)"
  unfolding dispatch_whoami_def dispatch_who_def dispatch_ask_info_def dispatch_attribution_def dispatch_rename_def dispatch_report_def
  by ((intro along_intro; ((erule two_resultsE)?; erule store_ops; simp)?)+)

lemma lifecycle_method_moves [along_intro]:
  "along moves (dispatch_recover fuel w)"
  "along moves (dispatch_start fuel w v)"
  "along moves (dispatch_adopt w v)"
  "along moves (dispatch_retire w v)"
  "along moves (dispatch_waiter_register w v)"
  "along moves (dispatch_waiter_retire w v)"
  unfolding dispatch_recover_def dispatch_start_def dispatch_adopt_def dispatch_retire_def dispatch_waiter_register_def dispatch_waiter_retire_def
  by ((intro along_intro; ((erule two_resultsE)?; erule store_ops; simp)?)+)

lemma obligation_method_moves [along_intro]:
  "along moves (dispatch_pending w v)"
  "along moves (dispatch_cancel w v)"
  "along moves (dispatch_reminder_snooze w v)"
  "along moves (dispatch_reminder_interval w v)"
  "along moves (dispatch_reminder_disable w v)"
  unfolding dispatch_pending_def dispatch_cancel_def dispatch_reminder_snooze_def dispatch_reminder_interval_def dispatch_reminder_disable_def
  by ((intro along_intro; ((erule two_resultsE)?; erule store_ops; simp)?)+)

lemma renew_method_moves [along_intro]:
  "along moves (dispatch_renew w v)"
  "along moves (dispatch_renew_cancel w v)"
  "along moves (dispatch_schedule_cancel w v)"
  "along moves (dispatch_schedule_list w v)"
  "along moves (dispatch_notice_create w v)"
  "along moves dispatch_notice_list"
  unfolding dispatch_renew_def dispatch_renew_cancel_def dispatch_schedule_cancel_def dispatch_schedule_list_def dispatch_notice_create_def dispatch_notice_list_def
  by ((intro along_intro; ((erule two_resultsE)?; erule store_ops; simp)?)+)

lemma along_answered [along_intro]: "along moves m \<Longrightarrow> along moves (answered m)"
  unfolding answered_def by (intro along_intro)

lemma method_moves [along_intro]:
  "along moves (dispatch_method fuel w q)"
  unfolding dispatch_method_def
  by ((intro along_intro; ((erule two_resultsE)?; erule store_ops; simp)?)+)

section \<open>Lines\<close>

lemma outcome_moves [along_intro]:
  "along moves (with_outcome settled f v)"
  unfolding with_outcome_def
  by ((intro along_intro; ((erule two_resultsE)?; erule store_ops; simp)?)+)

lemma client_prompt_parts_moves [along_intro]:
  "along moves (prepare_client_ask w ask)"
  "along moves (prepare_client_tell w tell)"
  "along moves (prepare_client_reply w reply)"
  unfolding prepare_client_ask_def prepare_client_tell_def prepare_client_reply_def
  by ((intro along_intro; ((erule two_resultsE)?; erule store_ops; simp)?)+)

lemma client_prompt_moves [along_intro]:
  "along moves (prepare_client_prompt w q)"
  "along moves (begin_clear w v)"
  "along moves (advance_clear_state p state)"
  "along moves (replies_dispatch_of w q)"
  "along moves (claim_inbox w q)"
  "along moves (ack_inbox w q waiter)"
  unfolding prepare_client_prompt_def begin_clear_def advance_clear_state_def replies_dispatch_of_def claim_inbox_def ack_inbox_def
  by ((intro along_intro; ((erule two_resultsE)?; erule store_ops; simp)?)+)

lemma refresh_moves [along_intro]:
  "along moves (who_refresh a x)"
  unfolding who_refresh_def
  by ((intro along_intro; ((erule two_resultsE)?; erule store_ops; simp)?)+)

lemma read_moves [along_intro]:
  "along moves (prepare_attribution_read w q)"
  "along moves (prepare_who_read w q)"
  "along moves (prepare_whoami_read w q)"
  "along moves (finish_client_read fuel w kind)"
  unfolding prepare_attribution_read_def prepare_who_read_def prepare_whoami_read_def finish_client_read_def
  by ((intro along_intro; ((erule two_resultsE)?; erule store_ops; simp)?)+)

lemma along_serve_json [along_intro]: "along moves m \<Longrightarrow> along moves (serve_json w i m)"
  unfolding serve_json_def serve_value_def by (intro along_intro)

lemma along_serve_decoded [along_intro]: "(\<And>a. along moves (h a)) \<Longrightarrow> along moves (serve_decoded f v h)"
  unfolding serve_decoded_def by (intro along_intro)

lemma serve_value_moves [along_intro]:
  "along moves (serve_value w i v)"
  "along moves (serve_read i c kind)"
  "along moves (awaiting_write_of w c r)"
  "along moves (prepare_start w v)"
  "along moves (prepare_cancel w q)"
  unfolding serve_value_def serve_read_def awaiting_write_of_def prepare_start_def prepare_cancel_def
  by ((intro along_intro; ((erule two_resultsE)?; erule store_ops; simp)?)+)

lemma along_serve_bound [along_intro]: "along moves go \<Longrightarrow> along moves (serve_bound w c q go)"
  unfolding serve_bound_def by (intro along_intro)

lemma along_serve_or_read [along_intro]:
  "along moves prepare \<Longrightarrow> along moves go \<Longrightarrow> along moves (serve_or_read w c q prepare go)"
  unfolding serve_or_read_def by (intro along_intro)

lemma serve_dispatch_moves [along_intro]:
  "along moves (serve_dispatch w q)"
  unfolding serve_dispatch_def
  by ((intro along_intro; ((erule two_resultsE)?; erule store_ops; simp)?)+)

lemma serve_client_moves [along_intro]:
  "along moves (serve_start w c q)"
  "along moves (serve_replies w c q)"
  "along moves (serve_inbox_claim w c leftover q)"
  "along moves (serve_prompt w c q)"
  "along moves (serve_clear w c q)"
  "along moves (serve_report w c q)"
  unfolding serve_start_def serve_replies_def serve_inbox_claim_def serve_prompt_def serve_clear_def serve_report_def
  by ((intro along_intro; ((erule two_resultsE)?; erule store_ops; simp)?)+)

lemma serve_lifecycle_moves [along_intro]:
  "along moves (serve_adopt w c q)"
  "along moves (serve_rename w c q)"
  "along moves (serve_retire w c q)"
  "along moves (serve_waiter_retire w c q)"
  "along moves (serve_cancel w c q)"
  unfolding serve_adopt_def serve_rename_def serve_retire_def serve_waiter_retire_def serve_cancel_def
  by ((intro along_intro; ((erule two_resultsE)?; erule store_ops; simp)?)+)

lemma serve_method_moves [along_intro]:
  "along moves (serve_method w c leftover q)"
  unfolding serve_method_def
  by ((intro along_intro; ((erule two_resultsE)?; erule store_ops; simp)?)+)

text \<open>A line is served whatever happens: its act is a state transformer.\<close>

lemma serve_try_moves: "along moves m \<Longrightarrow> moves k (snd (serve_try w i m k))"
  by (auto simp: along_def serve_try_def split: prod.splits sum.splits) (metis snd_conv)+

lemma serve_request_moves: "moves k (snd (serve_request w c line leftover k))"
  unfolding serve_request_def serve_parsed_line_def
  by (auto simp: moves_def [of k k] split: option.splits sum.splits intro: serve_try_moves serve_method_moves)

section \<open>Waiting clients\<close>

lemma socket_moves [along_intro]:
  "along moves (queued_now w a)"
  "along moves (wait_poll waiting)"
  "along moves (repair_end w names snap e)"
  "along moves (who_after refresh inc snap)"
  unfolding queued_now_def wait_poll_def repair_end_def who_after_def
  by ((intro along_intro; ((erule two_resultsE)?; erule store_ops; simp)?)+)

end
