(* ===== verification/Custody.thy ===== *)
theory Custody
  imports Acts
begin

text \<open>
  Custody of the clients. A turn has clients in hand when it begins (\<open>C\<close>) and, depending on its result, when it
  ends (\<open>D\<close>); between the two it parks, answers or gives up exactly the difference. A turn that has none at
  either end is calm. The tables keyed by jobs and sessions stay well formed as long as their counters
  have not saturated, and the store moves by store steps.
\<close>

named_theorems custody_intro "custody of a turn"

section \<open>The calculus\<close>

definition keyed :: "nat \<Rightarrow> (nat \<times> 'v) list \<Rightarrow> bool" where
  "keyed bound xs \<longleftrightarrow> distinct (map fst xs) \<and> (\<forall>k \<in> fst ` set xs. k < bound)"

definition mset_option :: "'a option \<Rightarrow> 'a multiset" where
  "mset_option v = (case v of None \<Rightarrow> {#} | Some x \<Rightarrow> {#x#})"

lemma mset_option_simps [simp]: "mset_option None = {#}" "mset_option (Some x) = {#x#}"
  by (simp_all add: mset_option_def)

definition prompt_clients :: "(nat \<times> awaiting_prompt) list \<Rightarrow> client multiset" where
  "prompt_clients xs = (\<Sum>x \<in># mset xs. mset_option (wp_client (snd x)))"

definition parked :: "'w daemon \<Rightarrow> client multiset" where
  "parked n = image_mset ws_client (mset (sv_starts n)) + image_mset wl_client (mset (sv_clears n))
     + image_mset wi_client (mset (sv_inboxes n)) + image_mset wy_client (mset (sv_replies n))
     + image_mset wk_client (mset (sv_reading n)) + image_mset wx_client (mset (sv_writes n))
     + prompt_clients (sv_prompts n) + image_mset (wc_client \<circ> snd) (mset (sv_cancels n))
     + image_mset (ww_client \<circ> snd) (mset (sv_waiter_retires n)) + image_mset (wd_client \<circ> snd) (mset (sv_reads n))
     + image_mset wa_client (mset (sv_adopts n)) + image_mset wq_client (mset (sv_renames n))
     + image_mset wz_client (mset (sv_retires n))"

definition accounted :: "'w daemon \<Rightarrow> client multiset" where
  "accounted n = parked n + mset (map fst (sv_out n)) + mset (sv_gone n)"

text \<open>Only a prompt of a client's own has a client: no notice of a session and no reminder.\<close>

definition orderly :: "awaiting_prompt \<Rightarrow> bool" where
  "orderly a \<longleftrightarrow> wp_client a = None \<or> (wp_owner a = OwnClient \<and> wp_reminder a = None)"

definition fit :: "'w daemon \<Rightarrow> bool" where
  "fit n \<longleftrightarrow> keyed (sv_next_job n) (sv_prompts n) \<and> (\<forall>x \<in> set (sv_prompts n). orderly (snd x)) \<and> keyed (sv_next_job n) (sv_reads n)
     \<and> keyed (sv_next_cancel n) (sv_cancels n) \<and> keyed (sv_next_waiter_retire n) (sv_waiter_retires n)"

text \<open>No counter has reached its last value.\<close>

definition room :: "'w daemon \<Rightarrow> bool" where
  "room n \<longleftrightarrow> sv_next_job n < u64_max \<and> sv_next_cancel n < u64_max \<and> sv_next_waiter_retire n < u64_max"

definition onward :: "'w daemon \<Rightarrow> 'w daemon \<Rightarrow> bool" where
  "onward n n' \<longleftrightarrow> sv_next_job n \<le> sv_next_job n' \<and> sv_next_cancel n \<le> sv_next_cancel n'
     \<and> sv_next_waiter_retire n \<le> sv_next_waiter_retire n' \<and> moves (sv_kelpie n) (sv_kelpie n')"

definition custody :: "client multiset \<Rightarrow> ('a \<Rightarrow> client multiset) \<Rightarrow> ('w, 'a) turn \<Rightarrow> bool" where
  "custody C D t \<longleftrightarrow> (\<forall>n x n'. t n = (x, n') \<longrightarrow> onward n n'
     \<and> (fit n \<and> room n' \<longrightarrow> fit n' \<and> accounted n' + D x = accounted n + C))"

abbreviation pays :: "client multiset \<Rightarrow> ('w, 'a) turn \<Rightarrow> bool" where "pays C \<equiv> custody C (\<lambda>_. {#})"
abbreviation calm :: "('w, 'a) turn \<Rightarrow> bool" where "calm \<equiv> pays {#}"

lemma onward_refl [simp]: "onward n n"
  by (simp add: onward_def moves_def)

lemma onward_trans: "onward a b \<Longrightarrow> onward b c \<Longrightarrow> onward a c"
  by (auto simp: onward_def moves_def)

lemma onward_room: "onward a b \<Longrightarrow> room b \<Longrightarrow> room a"
  by (auto simp: onward_def room_def)

lemma custodyI:
  assumes "\<And>n x n'. t n = (x, n') \<Longrightarrow> onward n n'"
    and "\<And>n x n'. t n = (x, n') \<Longrightarrow> fit n \<Longrightarrow> room n' \<Longrightarrow> fit n' \<and> accounted n' + D x = accounted n + C"
  shows "custody C D t"
  using assms by (auto simp: custody_def)

lemma custody_bind_with:
  assumes "custody C E m" and "\<And>x. custody (E x) D (f x)"
  shows "custody C D (turn_bind m f)"
proof (rule custodyI)
  fix n x n' assume "turn_bind m f n = (x, n')"
  then obtain y n1 where "m n = (y, n1)" "f y n1 = (x, n')" by (auto simp: turn_bind_def split: prod.splits)
  then show "onward n n'" using assms by (meson custody_def onward_trans)
next
  fix n x n' assume run: "turn_bind m f n = (x, n')" and "fit n" "room n'"
  then obtain y n1 where steps: "m n = (y, n1)" "f y n1 = (x, n')" by (auto simp: turn_bind_def split: prod.splits)
  then have "onward n1 n'" using assms(2) by (simp add: custody_def)
  with \<open>room n'\<close> have "room n1" by (rule onward_room [rotated])
  with steps assms(1) \<open>fit n\<close> have "fit n1 \<and> accounted n1 + E y = accounted n + C" by (simp add: custody_def)
  with steps assms(2) \<open>room n'\<close> show "fit n' \<and> accounted n' + D x = accounted n + C" by (simp add: custody_def)
qed

lemma custody_frame: "calm m \<Longrightarrow> custody C (\<lambda>_. C) m"
  by (auto simp: custody_def)

lemma custody_bind [custody_intro]: "calm m \<Longrightarrow> (\<And>x. custody C D (f x)) \<Longrightarrow> custody C D (turn_bind m f)"
  by (rule custody_bind_with [OF custody_frame])

lemma custody_seq [custody_intro]: "calm a \<Longrightarrow> custody C D b \<Longrightarrow> custody C D (turn_seq a b)"
  unfolding turn_seq_def by (rule custody_bind)

lemma custody_return: "D x = C \<Longrightarrow> custody C D (turn_return x)"
  by (auto simp: custody_def turn_return_def)

lemma pays_then: "pays C a \<Longrightarrow> (\<And>x. custody {#} D (f x)) \<Longrightarrow> custody C D (turn_bind a f)"
  by (rule custody_bind_with)

lemma pays_return [custody_intro]: "pays C a \<Longrightarrow> D x = {#} \<Longrightarrow> custody C D (turn_seq a (turn_return x))"
  unfolding turn_seq_def by (rule pays_then) (auto intro: custody_return)

lemma calm_skip [custody_intro]: "calm turn_skip" "calm (turn_get f)" "calm (turn_return x)"
  by (auto simp: custody_def turn_skip_def turn_return_def turn_get_def)

section \<open>Cases\<close>

lemma custody_cases [custody_intro]:
  "\<lbrakk>x = None \<Longrightarrow> custody C D a; \<And>y. x = Some y \<Longrightarrow> custody C D (b y)\<rbrakk> \<Longrightarrow> custody C D (case x of None \<Rightarrow> a | Some y \<Rightarrow> b y)"
  "\<lbrakk>\<And>y. r = Inl y \<Longrightarrow> custody C D (a' y); \<And>y. r = Inr y \<Longrightarrow> custody C D (b' y)\<rbrakk> \<Longrightarrow> custody C D (case_sum a' b' r)"
  "\<lbrakk>\<And>y z. q = (y, z) \<Longrightarrow> custody C D (g y z)\<rbrakk> \<Longrightarrow> custody C D (case q of (y, z) \<Rightarrow> g y z)"
  "\<lbrakk>c \<Longrightarrow> custody C D a; \<not> c \<Longrightarrow> custody C D b''\<rbrakk> \<Longrightarrow> custody C D (if c then a else b'')"
  "\<lbrakk>custody C D a; custody C D b''\<rbrakk> \<Longrightarrow> custody C D (case c of True \<Rightarrow> a | False \<Rightarrow> b'')"
  "\<lbrakk>custody C D a; \<And>y ys. l = y # ys \<Longrightarrow> custody C D (h y ys)\<rbrakk> \<Longrightarrow> custody C D (case l of [] \<Rightarrow> a | y # ys \<Rightarrow> h y ys)"
  by (auto split: option.split sum.split prod.split bool.split list.split)

lemma custody_let [custody_intro]: "custody C D (f x) \<Longrightarrow> custody C D (Let x f)"
  by simp

lemma custody_data_cases [custody_intro]:
  "\<lbrakk>\<And>s. custody C D (p1 s); \<And>s. custody C D (p2 s); \<And>s. custody C D (p3 s)\<rbrakk> \<Longrightarrow> custody C D (case_retire_park_state p1 p2 p3 a)"
  "\<lbrakk>\<And>s. custody C D (q1 s); \<And>s. custody C D (q2 s); \<And>s. custody C D (q3 s); \<And>s. custody C D (q4 s); \<And>s. custody C D (q5 s)\<rbrakk>
     \<Longrightarrow> custody C D (case_rename_park_state q1 q2 q3 q4 q5 b)"
  "\<lbrakk>\<And>s. custody C D (r1 s); \<And>s i. custody C D (r2 s i); \<And>s. custody C D (r3 s)\<rbrakk> \<Longrightarrow> custody C D (case_adopt_park_state r1 r2 r3 c)"
  "\<lbrakk>custody C D s1; \<And>s i. custody C D (s2 s i)\<rbrakk> \<Longrightarrow> custody C D (case_rename_reply s1 s2 d)"
  "\<lbrakk>custody C D t1; custody C D t2; \<And>s. custody C D (t3 s)\<rbrakk> \<Longrightarrow> custody C D (case_adopt_reply t1 t2 t3 e)"
  "\<lbrakk>\<And>s. custody C D (u1 s); \<And>s. custody C D (u2 s)\<rbrakk> \<Longrightarrow> custody C D (case_retire_after u1 u2 f)"
  "\<lbrakk>\<And>s. custody C D (v1 s); \<And>s. custody C D (v2 s)\<rbrakk> \<Longrightarrow> custody C D (case_adopt_after v1 v2 g)"
  "\<lbrakk>\<And>s. custody C D (w1 s); \<And>s. custody C D (w2 s)\<rbrakk> \<Longrightarrow> custody C D (case_clear_dispatch w1 w2 h)"
  "\<lbrakk>\<And>s. custody C D (x1 s); \<And>s. custody C D (x2 s)\<rbrakk> \<Longrightarrow> custody C D (case_clear_submission x1 x2 i)"
  by (auto split: retire_park_state.split rename_park_state.split adopt_park_state.split rename_reply.split
      adopt_reply.split retire_after.split adopt_after.split clear_dispatch.split clear_submission.split)

lemma custody_phase_cases [custody_intro]:
  "\<lbrakk>custody C D p1; \<And>s t. custody C D (p2 s t); \<And>s t. custody C D (p3 s t); \<And>s t u. custody C D (p4 s t u); custody C D p5;
     \<And>s t u. custody C D (p6 s t u); \<And>s t. custody C D (p7 s t)\<rbrakk> \<Longrightarrow> custody C D (case_start_phase p1 p2 p3 p4 p5 p6 p7 a)"
  "\<lbrakk>custody C D q1; custody C D q2; \<And>s t. custody C D (q3 s t); \<And>s t. custody C D (q4 s t)\<rbrakk>
     \<Longrightarrow> custody C D (case_prompt_owner q1 q2 q3 q4 b)"
  "\<lbrakk>\<And>s t. custody C D (r1 s t); \<And>s t. custody C D (r2 s t); \<And>s. custody C D (r3 s); \<And>s. custody C D (r4 s)\<rbrakk>
     \<Longrightarrow> custody C D (case_awaiting_clear_state r1 r2 r3 r4 c)"
  "\<lbrakk>custody C D s1; \<And>s. custody C D (s2 s); custody C D s3; \<And>s. custody C D (s4 s); custody C D s5\<rbrakk>
     \<Longrightarrow> custody C D (case_renew_park_state s1 s2 s3 s4 s5 d)"
  "\<lbrakk>\<And>s t. custody C D (u1 s t); \<And>s t u v w. custody C D (u2 s t u v w)\<rbrakk> \<Longrightarrow> custody C D (case_start_submit u1 u2 e)"
  "\<lbrakk>custody C D v1; \<And>s t. custody C D (v2 s t); custody C D v3\<rbrakk> \<Longrightarrow> custody C D (case_write_progress v1 v2 v3 f)"
  "\<lbrakk>\<And>s. custody C D (w1 s); custody C D w2; custody C D w3\<rbrakk> \<Longrightarrow> custody C D (case_recv_io w1 w2 w3 g)"
  by (auto split: start_phase.split prompt_owner.split awaiting_clear_state.split renew_park_state.split
      start_submit.split write_progress.split recv_io.split)

lemma custody_event_cases [custody_intro]:
  "\<lbrakk>\<And>s. custody C D (p1 s); \<And>s. custody C D (p2 s); \<And>s. custody C D (p3 s); \<And>s. custody C D (p4 s); custody C D p5\<rbrakk>
     \<Longrightarrow> custody C D (case_herdr_job_result p1 p2 p3 p4 p5 a)"
  "\<lbrakk>\<And>s. custody C D (q1 s); \<And>s t. custody C D (q2 s t); \<And>s t. custody C D (q3 s t); \<And>s t u. custody C D (q4 s t u);
     \<And>s. custody C D (q5 s)\<rbrakk> \<Longrightarrow> custody C D (case_herdr_event q1 q2 q3 q4 q5 b)"
  "\<lbrakk>custody C D r1; custody C D r2; custody C D r3; custody C D r4; custody C D r5; custody C D r6; custody C D r7;
     custody C D r8; custody C D r9; custody C D r10; custody C D r11\<rbrakk>
     \<Longrightarrow> custody C D (case_herdr_owner r1 r2 r3 r4 r5 r6 r7 r8 r9 r10 r11 c)"
  "\<lbrakk>custody C D s1; custody C D s2; custody C D s3; custody C D s4; custody C D s5; custody C D s6; custody C D s7;
     custody C D s8; custody C D s9\<rbrakk> \<Longrightarrow> custody C D (case_renew_phase s1 s2 s3 s4 s5 s6 s7 s8 s9 d)"
  "\<lbrakk>\<And>s. custody C D (t1 s); \<And>s. custody C D (t2 s); \<And>s t. custody C D (t3 s t); \<And>s t u. custody C D (t4 s t u);
     \<And>s. custody C D (t5 s); \<And>s. custody C D (t6 s); \<And>s t u. custody C D (t7 s t u)\<rbrakk>
     \<Longrightarrow> custody C D (case_client_read_kind t1 t2 t3 t4 t5 t6 t7 e)"
  "\<lbrakk>\<And>s. custody C D (u1 s); custody C D u2\<rbrakk> \<Longrightarrow> custody C D (case_pass_step u1 u2 f)"
  by (auto split: herdr_job_result.split herdr_event.split herdr_owner.split renew_phase.split client_read_kind.split
      pass_step.split)

section \<open>Acts, clocks, logs\<close>

lemma custody_quiet:
  assumes "\<And>n. sv_starts (u n) = sv_starts n" "\<And>n. sv_clears (u n) = sv_clears n" "\<And>n. sv_inboxes (u n) = sv_inboxes n"
    "\<And>n. sv_replies (u n) = sv_replies n" "\<And>n. sv_reading (u n) = sv_reading n" "\<And>n. sv_writes (u n) = sv_writes n"
    "\<And>n. sv_prompts (u n) = sv_prompts n" "\<And>n. sv_cancels (u n) = sv_cancels n"
    "\<And>n. sv_waiter_retires (u n) = sv_waiter_retires n" "\<And>n. sv_reads (u n) = sv_reads n" "\<And>n. sv_adopts (u n) = sv_adopts n"
    "\<And>n. sv_renames (u n) = sv_renames n" "\<And>n. sv_retires (u n) = sv_retires n" "\<And>n. sv_out (u n) = sv_out n"
    "\<And>n. sv_gone (u n) = sv_gone n" "\<And>n. sv_next_job (u n) = sv_next_job n" "\<And>n. sv_next_cancel (u n) = sv_next_cancel n"
    "\<And>n. sv_next_waiter_retire (u n) = sv_next_waiter_retire n" "\<And>n. moves (sv_kelpie n) (sv_kelpie (u n))"
  shows "calm (\<lambda>n. (r n, u n))"
  using assms by (auto simp: custody_def onward_def fit_def accounted_def parked_def)

lemma calm_update:
  assumes "calm (\<lambda>n. ((), u n))"
  shows "calm (turn_upd u)"
  using assms by (simp add: custody_def turn_upd_def)

lemmas quiet_update = calm_update [OF custody_quiet]

lemma moves_refl [simp]: "moves k k"
  by (simp add: moves_def)

lemma calm_do [custody_intro]: "along moves m \<Longrightarrow> calm (turn_do m)"
proof -
  assume "along moves m"
  then have "calm (\<lambda>n. (fst (m (sv_kelpie n)), n\<lparr>sv_kelpie := snd (m (sv_kelpie n))\<rparr>))"
    by (intro custody_quiet) (simp_all add: along_def)
  then show ?thesis by (simp add: turn_do_def [abs_def] case_prod_beta)
qed

lemma calm_try [custody_intro]: "along moves m \<Longrightarrow> calm (turn_try m)"
  unfolding turn_try_def by (intro custody_intro)

lemma calm_error [custody_intro]: "along moves m \<Longrightarrow> calm (turn_error m)"
  unfolding turn_error_def by (intro custody_intro)

lemma calm_world [custody_intro]: "calm (turn_world f)"
proof -
  have "calm (\<lambda>n. (fst (f (ke_world (sv_kelpie n))), n\<lparr>sv_kelpie := (sv_kelpie n)\<lparr>ke_world := snd (f (ke_world (sv_kelpie n)))\<rparr>\<rparr>))"
    by (intro custody_quiet) (simp_all add: moves_def)
  then show ?thesis by (simp add: turn_world_def [abs_def] case_prod_beta)
qed

lemma calm_clocks [custody_intro]: "calm (turn_now w)" "calm (turn_sleep w ms)" "calm (clock_or_zero w)"
  unfolding turn_now_def turn_sleep_def clock_or_zero_def by (intro custody_intro along_intro)+

lemma calm_send [custody_intro]: "calm (send_lease l c)"
  unfolding send_lease_def by (rule quiet_update) simp_all

lemma calm_drop [custody_intro]: "calm (drop_lease v)"
  unfolding drop_lease_def by (intro custody_intro)

lemma calm_note [custody_intro]: "calm (operator_note w body)"
  unfolding operator_note_def by (intro custody_intro along_intro)

lemma saturating_le [simp]: "n \<le> saturating_succ_u64 n"
  by (simp add: saturating_succ_u64_def)

lemma saturating_room: "saturating_succ_u64 n < u64_max \<Longrightarrow> saturating_succ_u64 n = Suc n"
  by (auto simp: saturating_succ_u64_def split: if_splits)

lemma keyed_mono: "keyed b xs \<Longrightarrow> b \<le> c \<Longrightarrow> keyed c xs"
  by (auto simp: keyed_def)

lemma calm_submit [custody_intro]: "calm (submit_new job owner)" "calm alloc_job" "calm (submit_owned j owner)"
  by (auto simp: custody_def submit_new_def submit_owned_def alloc_job_def turn_bind_def turn_seq_def turn_upd_def
      turn_return_def onward_def fit_def accounted_def parked_def intro: keyed_mono [OF _ saturating_le])

lemma pays_answer [custody_intro]: "pays {#c#} (write_response c r)" "pays {#c#} (answer w c i v)" "pays {#c#} (turn_gone c)"
  by (auto simp: custody_def answer_def write_response_def turn_gone_def turn_upd_def onward_def fit_def accounted_def parked_def)

section \<open>Lists and tables\<close>

lemma mset_take_entry: "i < length xs \<Longrightarrow> mset xs = {#xs ! i#} + mset (remove_at i xs)"
  unfolding remove_at_def by (subst id_take_nth_drop [of i xs], assumption) simp

lemma mset_set_entry: "f (g (xs ! i)) = f (xs ! i) \<Longrightarrow> image_mset f (mset (xs[i := g (xs ! i)])) = image_mset f (mset xs)"
proof (cases "i < length xs")
  case True
  assume "f (g (xs ! i)) = f (xs ! i)"
  moreover have "mset xs = {#xs ! i#} + mset (remove_at i xs)" using True by (rule mset_take_entry)
  moreover have "mset (xs[i := g (xs ! i)]) = {#g (xs ! i)#} + mset (remove_at i xs)"
    using True by (simp add: mset_update calculation)
  ultimately show ?thesis by simp
qed (simp add: list_update_beyond)

lemmas daemon_defs = custody_def onward_def fit_def accounted_def parked_def

lemma calm_set [custody_intro]:
  "(\<And>x. ws_client (f1 x) = ws_client x) \<Longrightarrow> calm (turn_set sv_starts_update i f1)"
  "(\<And>x. wl_client (f2 x) = wl_client x) \<Longrightarrow> calm (turn_set sv_clears_update i f2)"
  "(\<And>x. wa_client (f3 x) = wa_client x) \<Longrightarrow> calm (turn_set sv_adopts_update i f3)"
  "(\<And>x. wq_client (f4 x) = wq_client x) \<Longrightarrow> calm (turn_set sv_renames_update i f4)"
  "(\<And>x. wz_client (f5 x) = wz_client x) \<Longrightarrow> calm (turn_set sv_retires_update i f5)"
  "calm (turn_set sv_renews_update i f6)"
  by (auto simp: daemon_defs turn_set_def turn_upd_def mset_set_entry)

lemma pays_push [custody_intro]:
  "ws_client x1 = c \<Longrightarrow> pays {#c#} (turn_push sv_starts_update x1)"
  "wl_client x2 = c \<Longrightarrow> pays {#c#} (turn_push sv_clears_update x2)"
  "wa_client x3 = c \<Longrightarrow> pays {#c#} (turn_push sv_adopts_update x3)"
  "wq_client x4 = c \<Longrightarrow> pays {#c#} (turn_push sv_renames_update x4)"
  "wz_client x5 = c \<Longrightarrow> pays {#c#} (turn_push sv_retires_update x5)"
  "wy_client x6 = c \<Longrightarrow> pays {#c#} (turn_push sv_replies_update x6)"
  "wk_client x7 = c \<Longrightarrow> pays {#c#} (turn_push sv_reading_update x7)"
  "wx_client x8 = c \<Longrightarrow> pays {#c#} (turn_push sv_writes_update x8)"
  "calm (turn_push sv_renews_update x9)"
  by (auto simp: daemon_defs turn_push_def turn_upd_def)

lemma entry_Some: "entry i xs = Some x \<longleftrightarrow> i < length xs \<and> xs ! i = x"
  by (auto simp: entry_def)

text \<open>Taking an entry out puts its client in hand.\<close>

lemma custody_taken:
  assumes put: "\<And>n x. entry i (get n) = Some x \<Longrightarrow> onward n (put (remove_at i) n) \<and> (fit n \<longrightarrow> fit (put (remove_at i) n)
       \<and> accounted n = accounted (put (remove_at i) n) + cl x)"
    and next_turn: "\<And>x. pays (cl x) (f x)"
  shows "calm (turn_take get put i f)"
proof (rule custodyI)
  fix n r n' assume "turn_take get put i f n = (r, n')"
  then show "onward n n'"
    using put next_turn by (auto simp: turn_take_def custody_def split: option.splits) (metis onward_trans)
next
  fix n r n' assume "turn_take get put i f n = (r, n')" and "fit n" "room n'"
  then show "fit n' \<and> accounted n' + {#} = accounted n + {#}"
    using put next_turn by (fastforce simp: turn_take_def custody_def split: option.splits)
qed

lemma calm_take [custody_intro]:
  "(\<And>x. pays {#ws_client x#} (f1 x)) \<Longrightarrow> calm (turn_take sv_starts sv_starts_update i f1)"
  "(\<And>x. pays {#wl_client x#} (f2 x)) \<Longrightarrow> calm (turn_take sv_clears sv_clears_update i f2)"
  "(\<And>x. pays {#wa_client x#} (f3 x)) \<Longrightarrow> calm (turn_take sv_adopts sv_adopts_update i f3)"
  "(\<And>x. pays {#wq_client x#} (f4 x)) \<Longrightarrow> calm (turn_take sv_renames sv_renames_update i f4)"
  "(\<And>x. pays {#wz_client x#} (f5 x)) \<Longrightarrow> calm (turn_take sv_retires sv_retires_update i f5)"
  "(\<And>x. calm (f6 x)) \<Longrightarrow> calm (turn_take sv_renews sv_renews_update i f6)"
  by (rule custody_taken; auto simp: entry_Some onward_def fit_def accounted_def parked_def mset_take_entry)+

lemma custody_at [custody_intro]: "(\<And>x. calm (f x)) \<Longrightarrow> calm (turn_at get i f)"
  by (auto simp: custody_def turn_at_def split: option.splits)

lemma custody_found [custody_intro]:
  "calm missing \<Longrightarrow> (\<And>x. calm (f x)) \<Longrightarrow> calm (turn_found look missing f)"
  unfolding turn_found_def by (intro custody_intro)

lemma calm_each [custody_intro]: "(\<And>x. calm (f x)) \<Longrightarrow> calm (turn_each f xs)"
  by (induction xs) (simp_all add: custody_intro)

lemma calm_walk: "(\<And>i x. calm (f i x)) \<Longrightarrow> calm (turn_walk get f k i p)"
proof (induction k arbitrary: i p)
  case (Suc k) then show ?case by (simp, intro custody_intro) auto
qed (simp add: custody_intro)

section \<open>Tables\<close>

lemma keyed_fresh: "keyed b xs \<Longrightarrow> hm_insert b v xs = (b, v) # xs"
  by (auto simp: hm_insert_def hm_remove_def keyed_def intro!: filter_True)

lemma keyed_insert: "keyed b xs \<Longrightarrow> keyed (Suc b) ((b, v) # xs)"
  by (auto simp: keyed_def)

lemma keyed_remove: "keyed b xs \<Longrightarrow> keyed b (hm_remove k xs)"
  by (auto simp: keyed_def hm_remove_def distinct_map_filter)

lemma keyed_change: "keyed b (hm_change k f xs) = keyed b xs"
  by (simp add: keyed_def hm_change_def comp_def case_prod_beta image_image)

lemma hm_get_remove:
  assumes "keyed b xs" and "hm_get k xs = Some v"
  shows "mset xs = {#(k, v)#} + mset (hm_remove k xs)"
proof -
  have "(k, v) \<in> set xs" using assms(2) by (auto simp: hm_get_def dest: map_of_SomeD)
  moreover have "filter (\<lambda>x. fst x = k) xs = [(k, v)]" using assms
    by (induction xs) (auto simp: keyed_def hm_get_def filter_empty_conv split: if_splits intro: rev_image_eqI)
  ultimately show ?thesis
    using multiset_partition [of "mset xs" "\<lambda>x. fst x = k"] by (simp add: hm_remove_def flip: mset_filter)
qed

lemma hm_change_clients:
  "(\<And>v. g (f v) = g v) \<Longrightarrow> image_mset (\<lambda>x. g (snd x)) (mset (hm_change k f xs)) = image_mset (\<lambda>x. g (snd x)) (mset xs)"
  by (induction xs) (auto simp: hm_change_def)

lemma prompt_clients_simps [simp]:
  "prompt_clients [] = {#}" "prompt_clients (x # xs) = mset_option (wp_client (snd x)) + prompt_clients xs"
  by (simp_all add: prompt_clients_def)

lemma pays_park_prompt [custody_intro]: "mset_option (wp_client a) = C \<Longrightarrow> orderly a \<Longrightarrow> pays C (park_prompt a)"
  by (auto simp: daemon_defs park_prompt_def submit_new_def submit_owned_def alloc_job_def turn_bind_def turn_seq_def
      turn_upd_def turn_return_def room_def keyed_fresh keyed_insert saturating_room intro: keyed_mono)

lemma pays_park_read [custody_intro]: "wd_client r = c \<Longrightarrow> pays {#c#} (park_read r)"
  by (auto simp: daemon_defs park_read_def submit_new_def submit_owned_def alloc_job_def turn_bind_def turn_seq_def
      turn_upd_def turn_return_def room_def keyed_fresh keyed_insert saturating_room intro: keyed_mono)

lemma pays_open [custody_intro]: "wc_client x = c \<Longrightarrow> pays {#c#} (open_cancel x)" "ww_client y = c \<Longrightarrow> pays {#c#} (open_waiter_retire y)"
  by (auto simp: daemon_defs open_cancel_def open_waiter_retire_def turn_bind_def turn_seq_def turn_get_def
      turn_upd_def turn_return_def room_def keyed_fresh keyed_insert saturating_room)

end
