(* ===== verification/Handlers.thy ===== *)
theory Handlers
  imports Custody
begin

text \<open>
  Custody of the tables and of the prompts of \<open>src/src/daemon.rs\<close>: what a lookup takes out of a table of prompts, sessions or
  reads, how a record is parked, and how a prompt ends. A notice of a session has no client of its own;
  its end is counted in the session, which answers when the last notice ended.
\<close>

section \<open>Tables\<close>

lemma custody_popped:
  assumes "\<And>n v. fit n \<Longrightarrow> hm_get k (get n) = Some v
      \<Longrightarrow> fit (put (hm_remove k) n) \<and> accounted n = accounted (put (hm_remove k) n) + cl v"
    and "\<And>n. onward n (put (hm_remove k) n)" and "\<And>v. pays (cl v) (f v)"
  shows "calm (turn_pop get put k f)"
proof (rule custodyI)
  fix n r n' assume "turn_pop get put k f n = (r, n')"
  then show "onward n n'"
    using assms(2,3) by (auto simp: turn_pop_def custody_def split: option.splits) (metis onward_trans)
next
  fix n r n' assume "turn_pop get put k f n = (r, n')" and "fit n" "room n'"
  then show "fit n' \<and> accounted n' + {#} = accounted n + {#}"
    using assms(1,3) by (fastforce simp: turn_pop_def custody_def split: option.splits)
qed

lemma popped_clients:
  assumes "keyed b xs" and "hm_get k xs = Some v"
  shows "image_mset (g \<circ> snd) (mset xs) = {#g v#} + image_mset (g \<circ> snd) (mset (hm_remove k xs))"
  by (subst hm_get_remove [OF assms]) simp

lemma popped_prompts:
  assumes "keyed b xs" and "hm_get k xs = Some v"
  shows "prompt_clients xs = mset_option (wp_client v) + prompt_clients (hm_remove k xs)"
  unfolding prompt_clients_def by (subst hm_get_remove [OF assms]) simp

lemma hm_get_in: "hm_get k xs = Some v \<Longrightarrow> (k, v) \<in> set xs"
  by (simp add: hm_get_def map_of_SomeD)

lemma hm_remove_subset: "x \<in> set (hm_remove k xs) \<Longrightarrow> x \<in> set xs"
  by (auto simp: hm_remove_def)

lemma got_orderly: "hm_get k xs = Some v \<Longrightarrow> \<forall>x \<in> set xs. orderly (snd x) \<Longrightarrow> orderly v"
  using hm_get_in by fastforce

text \<open>A prompt taken out is orderly, so what its end pays is what it holds.\<close>

lemma calm_pop_prompt:
  assumes owed: "\<And>v. orderly v \<Longrightarrow> cl v = mset_option (wp_client v)" and "\<And>v. pays (cl v) (f v)"
  shows "calm (turn_pop sv_prompts sv_prompts_update k f)"
proof (rule custody_popped [where cl = cl])
  fix n :: "'a daemon" and v assume "fit n" and got: "hm_get k (sv_prompts n) = Some v"
  then have "cl v = mset_option (wp_client v)" by (intro owed got_orderly [OF got]) (simp add: fit_def)
  with \<open>fit n\<close> got show "fit (sv_prompts_update (hm_remove k) n)
      \<and> accounted n = accounted (sv_prompts_update (hm_remove k) n) + cl v"
    by (auto simp: fit_def accounted_def parked_def keyed_remove popped_prompts dest: hm_remove_subset)
qed (use assms(2) in \<open>simp_all add: onward_def\<close>)

lemma calm_pop [custody_intro]:
  "(\<And>v. pays {#wc_client v#} (f2 v)) \<Longrightarrow> calm (turn_pop sv_cancels sv_cancels_update k f2)"
  "(\<And>v. pays {#ww_client v#} (f3 v)) \<Longrightarrow> calm (turn_pop sv_waiter_retires sv_waiter_retires_update k f3)"
  "(\<And>v. pays {#wd_client v#} (f4 v)) \<Longrightarrow> calm (turn_pop sv_reads sv_reads_update k f4)"
  by (rule custody_popped; auto simp: onward_def fit_def accounted_def parked_def keyed_remove popped_clients)+

lemma prompt_clients_change: "(\<And>v. wp_client (f v) = wp_client v) \<Longrightarrow> prompt_clients (hm_change k f xs) = prompt_clients xs"
  by (induction xs) (auto simp: hm_change_def)

lemma changed_entries: "(\<And>v. q v \<Longrightarrow> q (f v)) \<Longrightarrow> \<forall>x \<in> set xs. q (snd x) \<Longrightarrow> \<forall>x \<in> set (hm_change k f xs). q (snd x)"
  by (auto simp: hm_change_def)

lemma calm_change [custody_intro]:
  "(\<And>v. wp_client (f1 v) = wp_client v) \<Longrightarrow> (\<And>v. orderly v \<Longrightarrow> orderly (f1 v))
     \<Longrightarrow> calm (turn_upd (sv_prompts_update (hm_change k f1)))"
  "(\<And>v. wc_client (f2 v) = wc_client v) \<Longrightarrow> calm (turn_upd (sv_cancels_update (hm_change k f2)))"
  "(\<And>v. ww_client (f3 v) = ww_client v) \<Longrightarrow> calm (turn_upd (sv_waiter_retires_update (hm_change k f3)))"
  by (auto simp: daemon_defs turn_upd_def keyed_change prompt_clients_change comp_def hm_change_clients
      dest: changed_entries [of orderly f1, rotated])

lemma calm_fields [custody_intro]:
  "calm (turn_upd (sv_reminder_inflight_update a))" "calm (turn_upd (sv_due_inflight_update b))"
  "calm (turn_upd (sv_renew_inflight_update c))" "calm (turn_upd (sv_boot_job_update d))"
  "calm (turn_upd (sv_sweep_job_update e))" "calm (turn_upd (sv_next_sweep_update f))"
  "calm (turn_upd (sv_next_archive_update g))" "calm (turn_upd (sv_owners_update h))"
  "calm (turn_upd (sv_claimed_update i))"
  "calm (turn_upd (\<lambda>n. n\<lparr>sv_reminder_job := j, sv_pending_reminders := l\<rparr>))"
  "calm (turn_upd (\<lambda>n. n\<lparr>sv_boot_job := m, sv_next_boot := o'\<rparr>))"
  by (rule quiet_update; simp)+

lemma calm_retire_number [custody_intro]: "calm (turn_upd (sv_next_waiter_retire_update saturating_succ_u64))"
  by (auto simp: daemon_defs turn_upd_def intro: keyed_mono [OF _ saturating_le])

section \<open>Parking and prompts\<close>

lemma pays_park [custody_intro]:
  "ws_client a = c \<Longrightarrow> pays {#c#} (park_start a)"
  "wz_client r = c \<Longrightarrow> pays {#c#} (park_retire r)"
  "wq_client q = c \<Longrightarrow> pays {#c#} (park_rename q)"
  "wa_client p = c \<Longrightarrow> pays {#c#} (park_adopt p)"
  unfolding park_start_def park_retire_def park_rename_def park_adopt_def
  by (intro custody_intro pays_answer(3) [of "wz_client r"] pays_answer(3) [of "wq_client q"]; simp)+

lemma calm_notice [custody_intro]: "calm (park_prompt (notice_prompt owner x))"
  by (rule pays_park_prompt) (simp_all add: notice_prompt_def orderly_def)

lemma noted_client [simp]:
  "wc_client (noted_cancel waiting ok c) = wc_client c" "ww_client (noted_retire ask ok r) = ww_client r"
  by (simp_all add: noted_cancel_def noted_retire_def)

lemma calm_note_cancel [custody_intro]: "calm (note_cancel_notice w s waiting ok)"
  unfolding note_cancel_notice_def by (intro custody_intro; simp)

lemma calm_note_retire [custody_intro]: "calm (note_waiter_retire_notice w s ask ok)"
  unfolding note_waiter_retire_notice_def by (intro custody_intro; simp)

section \<open>The end of a prompt\<close>

lemma calm_release [custody_intro]: "calm (release_due_inflight a)" "calm (release_reminder r)"
  unfolding release_due_inflight_def release_reminder_def by (intro custody_intro)+

lemma pays_write_prompt [custody_intro]: "wp_client a = v \<Longrightarrow> pays (mset_option v) (write_parked_prompt w a sent)"
  by (cases v) (simp_all add: write_parked_prompt_def custody_intro)

lemma filled_client [simp]: "wp_client (fill_prompt_result w a ok d) = wp_client a"
  by (simp add: fill_prompt_result_def)

lemma pays_write_filled [custody_intro]: "wp_client a = v \<Longrightarrow> pays (mset_option v) (write_filled_prompt w a sent)"
  unfolding write_filled_prompt_def by (intro custody_intro; simp)

text \<open>What the end of a prompt owes: a reminder or a notice of a session has no client.\<close>

definition due_client :: "awaiting_prompt \<Rightarrow> client multiset" where
  "due_client a = (case wp_reminder a of Some _ \<Rightarrow> {#} | None \<Rightarrow> (case wp_owner a of
     OwnCancel _ _ \<Rightarrow> {#} | OwnWaiterRetire _ _ \<Rightarrow> {#} | _ \<Rightarrow> mset_option (wp_client a)))"

lemma due_client_orderly: "orderly a \<Longrightarrow> due_client a = mset_option (wp_client a)"
  by (auto simp: orderly_def due_client_def split: option.splits prompt_owner.splits)

lemma calm_end_prompt: "(\<And>a. pays (due_client a) (f a)) \<Longrightarrow> calm (end_prompt job f)"
  unfolding end_prompt_def
  by (rule calm_pop_prompt [OF due_client_orderly], assumption) (intro custody_intro)

lemma pays_due:
  "(\<And>r. calm (f r)) \<Longrightarrow> (wp_reminder a = None \<Longrightarrow> pays (due_client a) g)
     \<Longrightarrow> pays (due_client a) (case wp_reminder a of Some r \<Rightarrow> f r | None \<Rightarrow> g)"
  by (cases "wp_reminder a") (simp_all add: due_client_def)

lemma pays_due_owner:
  "wp_reminder a = None \<Longrightarrow> pays (mset_option (wp_client a)) g \<Longrightarrow> (\<And>s b. calm (p s b)) \<Longrightarrow> (\<And>s m. calm (q s m))
     \<Longrightarrow> pays (due_client a) (case wp_owner a of OwnCancel s b \<Rightarrow> p s b | OwnWaiterRetire s m \<Rightarrow> q s m | _ \<Rightarrow> g)"
  by (cases "wp_owner a") (simp_all add: due_client_def)

lemma failed_notice_calm [custody_intro]: "calm (failed_notice w a result)"
  unfolding failed_notice_def by (intro custody_intro along_intro)

lemma calm_finish_prompt [custody_intro]: "calm (finish_parked_prompt w job result)"
  unfolding finish_parked_prompt_def
  by (rule calm_end_prompt, rule pays_due, intro custody_intro along_intro,
      rule custody_bind, intro custody_intro along_intro, erule pays_due_owner) (intro custody_intro; simp)+

lemma calm_fail_prompt [custody_intro]: "calm (fail_parked_prompt w job result)"
  unfolding fail_parked_prompt_def
  by (rule calm_end_prompt, rule pays_due, intro custody_intro along_intro, erule pays_due_owner)
    (intro custody_intro along_intro; simp)+

lemma pays_maybe: "pays (mset_option v) (case v of None \<Rightarrow> turn_skip | Some c \<Rightarrow> answer w c i r)"
  by (cases v) (simp_all add: custody_intro)

lemma calm_answer_prompt [custody_intro]: "calm (answer_parked_prompt w job result)"
  unfolding answer_parked_prompt_def end_prompt_def
  by (rule calm_pop_prompt [OF refl], intro custody_intro pays_maybe)

lemma prompt_fields [simp]:
  "orderly (a\<lparr>wp_committed := b\<rparr>) = orderly a" "orderly (a\<lparr>wp_lease := l\<rparr>) = orderly a"
  by (simp_all add: orderly_def)

lemma calm_send_prompt [custody_intro]: "calm (send_prompt w alive job request pane txt)"
  unfolding send_prompt_def by (intro custody_intro; simp)

lemma calm_prompt_opened [custody_intro]: "calm (on_prompt_opened w alive job)"
  unfolding on_prompt_opened_def by (intro custody_intro along_intro)

end
