(* ===== verification/Served.thy ===== *)
theory Served
  imports Handlers
begin

text \<open>
  The clients behind a line of \<open>src/src/daemon.rs\<close>: whatever becomes of a line, its outcome names the client that
  sent it, and an open inbox stays with its client, each over store steps alone.
\<close>

section \<open>Served lines\<close>

text \<open>Whatever becomes of a line, it keeps the client it came from.\<close>

definition served_by :: "client \<Rightarrow> served \<Rightarrow> bool" where
  "served_by c s = (case s of
     ServedStart a \<Rightarrow> ws_client a = c | ServedClear a \<Rightarrow> wl_client a = c | ServedInbox _ x \<Rightarrow> wi_client x = c
   | ServedReplies a \<Rightarrow> wy_client a = c | ServedPrompt a \<Rightarrow> wp_client a = Some c \<and> orderly a
   | ServedCancel q \<Rightarrow> wu_client q = c | ServedWaiterRetire q \<Rightarrow> wv_client q = c | ServedRead r \<Rightarrow> wd_client r = c
   | ServedWrite a \<Rightarrow> wx_client a = c | ServedAdopt a \<Rightarrow> wa_client a = c | ServedRename r \<Rightarrow> wq_client r = c
   | ServedRetire r \<Rightarrow> wz_client r = c | ServedAnswered _ \<Rightarrow> True | ServedGone \<Rightarrow> True)"

lemma served_by_simps [simp]:
  "served_by c (ServedAnswered v)" "served_by c ServedGone"
  "served_by c (ServedStart a1) = (ws_client a1 = c)" "served_by c (ServedClear a2) = (wl_client a2 = c)"
  "served_by c (ServedInbox v x) = (wi_client x = c)" "served_by c (ServedReplies a3) = (wy_client a3 = c)"
  "served_by c (ServedPrompt a4) = (wp_client a4 = Some c \<and> orderly a4)"
  "served_by c (ServedCancel q1) = (wu_client q1 = c)" "served_by c (ServedWaiterRetire q2) = (wv_client q2 = c)"
  "served_by c (ServedRead r) = (wd_client r = c)" "served_by c (ServedWrite a5) = (wx_client a5 = c)"
  "served_by c (ServedAdopt a6) = (wa_client a6 = c)" "served_by c (ServedRename a7) = (wq_client a7 = c)"
  "served_by c (ServedRetire a8) = (wz_client a8 = c)"
  by (simp_all add: served_by_def)

named_theorems yields_intro "what an act yields when it succeeds"

definition yields :: "('a \<Rightarrow> bool) \<Rightarrow> ('w, 'a) slice \<Rightarrow> bool" where
  "yields p m \<longleftrightarrow> (\<forall>k x k'. m k = (Inr x, k') \<longrightarrow> p x)"

lemma yields_bind: "(\<And>x. yields p (f x)) \<Longrightarrow> yields p (act_bind m f)"
  by (auto simp: yields_def act_bind_def split: prod.splits sum.splits)

lemma yields_bind_first: "yields q m \<Longrightarrow> (\<And>x. q x \<Longrightarrow> yields p (f x)) \<Longrightarrow> yields p (act_bind m f)"
  unfolding yields_def act_bind_def by (fastforce split: prod.splits sum.splits)

lemma yields_match [yields_intro]: "(\<And>x. yields p (f x)) \<Longrightarrow> yields p (act_match m f)"
  by (auto simp: yields_def act_match_def split: prod.splits)

lemma yields_return [yields_intro]: "p x \<Longrightarrow> yields p (act_return x)" "yields p (act_fail e)"
  by (auto simp: yields_def act_return_def act_fail_def)

lemma yields_cases [yields_intro]:
  "\<lbrakk>yields p a; \<And>y. yields p (b y)\<rbrakk> \<Longrightarrow> yields p (case x of None \<Rightarrow> a | Some y \<Rightarrow> b y)"
  "\<lbrakk>\<And>y. yields p (a' y); \<And>y. yields p (b' y)\<rbrakk> \<Longrightarrow> yields p (case_sum a' b' r)"
  "\<lbrakk>\<And>y z. yields p (g y z)\<rbrakk> \<Longrightarrow> yields p (case q of (y, z) \<Rightarrow> g y z)"
  "\<lbrakk>yields p a; yields p b''\<rbrakk> \<Longrightarrow> yields p (if c then a else b'')"
  "\<lbrakk>\<And>y. yields p (h y); \<And>y. yields p (i y)\<rbrakk> \<Longrightarrow> yields p (case_clear_dispatch h i d)"
  "\<lbrakk>\<And>y. yields p (j y); \<And>y. yields p (l y)\<rbrakk> \<Longrightarrow> yields p (case_replies_dispatch j l e)"
  "yields p (f u) \<Longrightarrow> yields p (Let u f)"
  by (auto split: option.split sum.split prod.split clear_dispatch.split replies_dispatch.split)

lemma serves_parts [yields_intro]:
  "yields (served_by c) (serve_value w i v)" "yields (served_by c) (serve_json w i m)"
  "yields (served_by c) (serve_read i c kind)" "yields (served_by c) (serve_dispatch w q)"
  unfolding serve_json_def serve_value_def serve_read_def serve_dispatch_def
  by (intro yields_intro yields_bind; simp)+

lemma serves_decoded [yields_intro]: "(\<And>a. yields (served_by c) (h a)) \<Longrightarrow> yields (served_by c) (serve_decoded f v h)"
  unfolding serve_decoded_def by (intro yields_intro; simp)

lemma serves_bound [yields_intro]:
  "yields (served_by c) go \<Longrightarrow> yields (served_by c) (serve_bound w c q go)"
  "yields (served_by c) (serve_or_read w c q prepare now)"
  unfolding serve_bound_def serve_or_read_def by (intro yields_intro yields_bind; assumption)+

lemma write_client: "yields (\<lambda>a. wx_client a = c) (awaiting_write_of w c r)"
  unfolding awaiting_write_of_def by (intro yields_intro yields_bind; simp)

lemma left_client: "advance_write w a x = (WriteLeft a' b, x') \<Longrightarrow> wx_client a' = wx_client a"
  by (auto simp: advance_write_def split: prod.splits send_io.splits if_splits)

lemma written_client: "yields (\<lambda>s. \<forall>a' b. s = WriteLeft a' b \<longrightarrow> wx_client a' = wx_client a) (act_world (advance_write w a))"
  by (auto simp: yields_def act_world_def dest: left_client split: prod.splits)

lemma serves_report [yields_intro]: "yields (served_by c) (serve_report w c q)"
  unfolding serve_report_def Let_def
  by (intro yields_intro yields_bind_first [OF write_client] yields_bind_first [OF written_client])
    (simp split: write_progress.split)

lemma serves_methods [yields_intro]:
  "yields (served_by c) (serve_start w c q)" "yields (served_by c) (serve_replies w c q)"
  "yields (served_by c) (serve_inbox_claim w c leftover q)" "yields (served_by c) (serve_prompt w c q)"
  "yields (served_by c) (serve_clear w c q)" "yields (served_by c) (serve_adopt w c q)"
  "yields (served_by c) (serve_rename w c q)" "yields (served_by c) (serve_retire w c q)"
  "yields (served_by c) (serve_waiter_retire w c q)" "yields (served_by c) (serve_cancel w c q)"
  unfolding serve_start_def serve_replies_def serve_inbox_claim_def serve_prompt_def serve_clear_def serve_adopt_def
    serve_rename_def serve_retire_def serve_waiter_retire_def serve_cancel_def Let_def
  by (intro yields_intro yields_bind; simp add: orderly_def)+

lemma serves_method: "serve_method w c leftover q k = (Inr s, k') \<Longrightarrow> served_by c s"
proof -
  have "yields (served_by c) (serve_method w c leftover q)"
    unfolding serve_method_def Let_def by (intro yields_intro)
  then show "serve_method w c leftover q k = (Inr s, k') \<Longrightarrow> served_by c s" unfolding yields_def by blast
qed

lemma serves_request: "served_by c (fst (serve_request w c line leftover k))"
  by (auto simp: serve_request_def serve_parsed_line_def serve_try_def split: option.split sum.split prod.split
      dest: serves_method)

section \<open>Inboxes\<close>

text \<open>A step of an inbox stays with its client and waiter.\<close>

definition inbox_keeps :: "'w inbox_step \<Rightarrow> bool" where
  "inbox_keeps m \<longleftrightarrow> (\<forall>s k r s' k'. m s k = ((r, s'), k') \<longrightarrow> wi_client s' = wi_client s \<and> moves k k')"

lemma moves_trans: "moves a b \<Longrightarrow> moves b c \<Longrightarrow> moves a c"
  by (auto simp: moves_def)

lemma inbox_keepsD: "inbox_keeps m \<Longrightarrow> m s k = ((r, s'), k') \<Longrightarrow> wi_client s' = wi_client s \<and> moves k k'"
  by (auto simp: inbox_keeps_def)

lemma inbox_keeps_then:
  assumes "inbox_keeps m" and "\<And>b. inbox_keeps (f b)"
  shows "inbox_keeps (inbox_then m f)"
proof -
  have "wi_client s' = wi_client s \<and> moves k k'" if run: "inbox_then m f s k = ((r, s'), k')" for s k r s' k'
  proof -
    obtain v s1 k1 where first: "m s k = ((v, s1), k1)" by (metis surj_pair)
    note one = inbox_keepsD [OF assms(1) first]
    show ?thesis
    proof (cases v)
      case (Some b)
      with run first have "f b s1 k1 = ((r, s'), k')" by (simp add: inbox_then_def)
      from inbox_keepsD [OF assms(2) this] one show ?thesis using moves_trans by auto
    qed (use run first one in \<open>simp add: inbox_then_def\<close>)
  qed
  then show ?thesis by (simp add: inbox_keeps_def)
qed

lemma inbox_keeps_end: "inbox_keeps (inbox_end b)"
  by (simp add: inbox_keeps_def inbox_end_def)

lemma inbox_keeps_flush: "inbox_keeps (flush_inbox_write w)"
  by (auto simp: inbox_keeps_def flush_inbox_write_def moves_def split: prod.splits)

lemma offer_each_keeps: "offer_each w es p s k = ((r, s'), k') \<Longrightarrow> wi_client s' = wi_client s \<and> moves k k'"
  by (induction w es p s k arbitrary: r s' k' rule: offer_each.induct)
    (auto simp: moves_def split: if_splits prod.splits)

lemma along_result: "along moves m \<Longrightarrow> m k = (r, k') \<Longrightarrow> moves k k'"
  unfolding along_def by (metis snd_conv)

lemma inbox_keeps_offer: "inbox_keeps (offer_queued_inbox w)"
  by (auto simp: inbox_keeps_def offer_queued_inbox_def split: prod.splits sum.splits
      dest!: offer_each_keeps dest: along_result [OF socket_moves(1)] intro: moves_trans)

lemma inbox_request_moves: "inbox_request w a line k = (r, k') \<Longrightarrow> moves k k'"
  by (auto simp: inbox_request_def split: sum.splits if_splits prod.splits dest: along_result [OF client_prompt_moves(6)])

lemma inbox_lines_keep: "inbox_lines w p s k = ((r, s'), k') \<Longrightarrow> wi_client s' = wi_client s \<and> moves k k'"
proof (induction w p s k arbitrary: r s' k' rule: inbox_lines.induct)
  case (1 w p s k)
  show ?case
  proof (cases "split_line (wi_read_buf s)")
    case None
    with 1(3) show ?thesis by (subst (asm) inbox_lines.simps) simp
  next
    case (Some x)
    obtain line rest where x: "x = (line, rest)" by (cases x)
    let ?l = "trim (utf8_lossy line)"
    show ?thesis
    proof (cases "?l = []")
      case True
      with 1(3) Some x have "inbox_lines w p (s\<lparr>wi_read_buf := rest\<rparr>) k = ((r, s'), k')"
        by (subst (asm) inbox_lines.simps) simp
      from 1(1) [OF Some x [symmetric] refl refl True this] show ?thesis by simp
    next
      case False
      obtain response acked k1 where q: "inbox_request w (wi_waiter s) ?l k = ((response, acked), k1)" by (metis surj_pair)
      with 1(3) Some x False have "inbox_lines w (p \<or> acked)
          (s\<lparr>wi_read_buf := rest, wi_write_buf := wi_write_buf s @ response_line w response\<rparr>) k1 = ((r, s'), k')"
        by (subst (asm) inbox_lines.simps) simp
      with 1(2) [OF Some x [symmetric] refl refl False q [symmetric] refl]
      have "wi_client s' = wi_client s \<and> moves k1 k'" by simp
      with inbox_request_moves [OF q] show ?thesis using moves_trans by blast
    qed
  qed
qed

lemma world_then [simp]: "moves (k\<lparr>ke_world := x\<rparr>) k' = moves k k'" "moves k (k\<lparr>ke_world := x\<rparr>)"
  by (simp_all add: moves_def)

lemma inbox_keeps_read: "inbox_keeps (read_inbox_acks w)"
  by (auto simp: inbox_keeps_def read_inbox_acks_def Let_def inbox_then_def inbox_end_def world_then
      split: prod.splits recv_io.splits if_splits option.splits dest!: inbox_lines_keep)

lemma inbox_keeps_pump_reads: "inbox_keeps (pump_reads w p)"
  unfolding inbox_keeps_def pump_reads_def
  by (auto split: prod.splits dest!: inbox_keepsD [OF inbox_keeps_read]
      inbox_keepsD [OF inbox_keeps_then [OF inbox_keeps_flush inbox_keeps_end]] intro: moves_trans)

lemma inbox_keeps_if: "inbox_keeps m \<Longrightarrow> inbox_keeps (\<lambda>s k. if c s then ((x, s), k) else m s k)"
  by (auto simp: inbox_keeps_def)

lemma inbox_keeps_pump: "inbox_keeps (pump_inbox w)"
  unfolding pump_inbox_def
  by (intro inbox_keeps_then inbox_keeps_flush inbox_keeps_offer inbox_keeps_if inbox_keeps_pump_reads)

end
