(* ===== verification/Sweeps.thy ===== *)
theory Sweeps
  imports Served
begin

text \<open>
  The passes of \<open>src/src/daemon.rs\<close> over its inboxes, long polls, responses and readers. Each takes a whole list out
  of the daemon and puts the survivors back, which is safe because no entry touches the list it stands in.
\<close>

section \<open>Passes over the waiting clients\<close>

text \<open>A field of the daemon that a turn leaves as it was.\<close>

named_theorems keeps_intro "a field that a turn keeps"

definition keeps_field :: "('w daemon \<Rightarrow> 'b) \<Rightarrow> ('w, 'a) turn \<Rightarrow> bool" where
  "keeps_field g t \<longleftrightarrow> (\<forall>n x n'. t n = (x, n') \<longrightarrow> g n' = g n)"

lemma keeps_bind [keeps_intro]: "keeps_field g m \<Longrightarrow> (\<And>x. keeps_field g (f x)) \<Longrightarrow> keeps_field g (turn_bind m f)"
  unfolding keeps_field_def turn_bind_def by (fastforce split: prod.splits)

lemma keeps_seq [keeps_intro]: "keeps_field g m \<Longrightarrow> keeps_field g f \<Longrightarrow> keeps_field g (turn_seq m f)"
  unfolding turn_seq_def by (rule keeps_bind)

lemma keeps_basic [keeps_intro]:
  "keeps_field g turn_skip" "keeps_field g (turn_return x)" "keeps_field g (turn_get h)"
  by (auto simp: keeps_field_def turn_skip_def turn_return_def turn_get_def)

lemma keeps_upd: "(\<And>n. g (u n) = g n) \<Longrightarrow> keeps_field g (turn_upd u)"
  by (auto simp: keeps_field_def turn_upd_def)

lemma keeps_acts:
  assumes "\<And>n k. g (n\<lparr>sv_kelpie := k\<rparr>) = g n"
  shows "keeps_field g (turn_do m)" "keeps_field g (turn_world f)" "keeps_field g (turn_serve s)"
  using assms by (auto simp: keeps_field_def turn_do_def turn_world_def turn_serve_def split: prod.splits)

lemma keeps_cases [keeps_intro]:
  "\<lbrakk>keeps_field g a; \<And>y. keeps_field g (b y)\<rbrakk> \<Longrightarrow> keeps_field g (case x of None \<Rightarrow> a | Some y \<Rightarrow> b y)"
  "\<lbrakk>\<And>y. keeps_field g (a' y); \<And>y. keeps_field g (b' y)\<rbrakk> \<Longrightarrow> keeps_field g (case_sum a' b' r)"
  "\<lbrakk>\<And>y z. keeps_field g (h y z)\<rbrakk> \<Longrightarrow> keeps_field g (case q of (y, z) \<Rightarrow> h y z)"
  "\<lbrakk>keeps_field g a; keeps_field g b''\<rbrakk> \<Longrightarrow> keeps_field g (if c then a else b'')"
  "keeps_field g (l u) \<Longrightarrow> keeps_field g (Let u l)"
  "\<lbrakk>\<And>s. keeps_field g (p1 s); \<And>s. keeps_field g (p2 s); \<And>s. keeps_field g (p3 s)\<rbrakk> \<Longrightarrow> keeps_field g (case_retire_park_state p1 p2 p3 d)"
  "\<lbrakk>\<And>s. keeps_field g (q1 s); \<And>s. keeps_field g (q2 s); \<And>s. keeps_field g (q3 s); \<And>s. keeps_field g (q4 s); \<And>s. keeps_field g (q5 s)\<rbrakk>
     \<Longrightarrow> keeps_field g (case_rename_park_state q1 q2 q3 q4 q5 e)"
  "\<lbrakk>\<And>s. keeps_field g (w1 s); keeps_field g w2; keeps_field g w3\<rbrakk> \<Longrightarrow> keeps_field g (case_recv_io w1 w2 w3 v)"
  "\<lbrakk>keeps_field g v1; \<And>s t. keeps_field g (v2 s t); keeps_field g v3\<rbrakk> \<Longrightarrow> keeps_field g (case_write_progress v1 v2 v3 o')"
  by (auto split: option.split sum.split prod.split retire_park_state.split rename_park_state.split recv_io.split
      write_progress.split)

lemma keeps_each [keeps_intro]: "(\<And>x. keeps_field g (f x)) \<Longrightarrow> keeps_field g (turn_each f xs)"
  by (induction xs) (simp_all add: keeps_intro)

lemma keeps_sweep: "(\<And>x. keeps_field g (f x)) \<Longrightarrow> keeps_field g (turn_sweep f xs)"
  by (induction xs) (simp_all add: keeps_intro)

lemma custody_plus: "custody C D t \<Longrightarrow> custody (C + F) (\<lambda>x. D x + F) t"
  by (simp add: custody_def)

lemma custody_sweep:
  assumes step: "\<And>x. custody {#cl x#} (\<lambda>(kept, p). mset_option (map_option cl kept)) (f x)"
  shows "custody (image_mset cl (mset xs)) (\<lambda>(kept, p). image_mset cl (mset kept)) (turn_sweep f xs)"
proof (induction xs)
  case Nil
  show ?case by (simp add: custody_return)
next
  case (Cons x xs)
  have later: "custody (mset_option (map_option cl kept) + image_mset cl (mset xs)) (\<lambda>(kept, p). image_mset cl (mset kept))
      (turn_bind (turn_sweep f xs) (\<lambda>(rest, q). turn_return ((case kept of None \<Rightarrow> rest | Some y \<Rightarrow> y # rest), p \<or> q)))"
    for kept p
    unfolding add.commute [of "mset_option _"]
    by (rule custody_bind_with [OF custody_plus [OF Cons]])
      (auto intro!: custody_return split: option.split prod.split)
  have "custody ({#cl x#} + image_mset cl (mset xs)) (\<lambda>(kept, p). image_mset cl (mset kept)) (turn_sweep f (x # xs))"
    unfolding turn_sweep.simps
    by (rule custody_bind_with [OF custody_plus [OF step]]) (auto intro: later split: prod.split)
  then show ?case by simp
qed

text \<open>A pass empties its list, lets each entry go on and puts the survivors back.\<close>

lemma custody_pass:
  assumes step: "\<And>x. custody {#cl x#} (\<lambda>(kept, p). mset_option (map_option cl kept)) (f x)"
    and alone: "\<And>x. keeps_field get (f x)"
    and emptied: "\<And>n. onward n (put (\<lambda>_. []) n) \<and> fit (put (\<lambda>_. []) n) = fit n
      \<and> accounted (put (\<lambda>_. []) n) + image_mset cl (mset (get n)) = accounted n \<and> get (put (\<lambda>_. []) n) = []"
    and filled: "\<And>n kept. onward n (put (\<lambda>_. kept) n) \<and> fit (put (\<lambda>_. kept) n) = fit n \<and> room (put (\<lambda>_. kept) n) = room n
      \<and> (get n = [] \<longrightarrow> accounted (put (\<lambda>_. kept) n) = accounted n + image_mset cl (mset kept))"
  shows "calm (turn_pass get put f)"
proof -
  have run: "onward n n' \<and> (fit n \<and> room n' \<longrightarrow> fit n' \<and> accounted n' = accounted n)"
    if "turn_pass get put f n = (p, n')" for n p n'
  proof -
    obtain kept q n1 where sweep: "turn_sweep f (get n) (put (\<lambda>_. []) n) = ((kept, q), n1)" by (metis surj_pair)
    with that have end_state: "n' = put (\<lambda>_. kept) n1"
      by (simp add: turn_pass_def turn_bind_def turn_get_def turn_seq_def turn_upd_def turn_return_def)
    have "get n1 = []"
      using keeps_sweep [of get f "get n", OF alone] sweep emptied [of n] by (fastforce simp: keeps_field_def)
    moreover have "onward (put (\<lambda>_. []) n) n1 \<and> (fit (put (\<lambda>_. []) n) \<and> room n1 \<longrightarrow>
        fit n1 \<and> accounted n1 + image_mset cl (mset kept) = accounted (put (\<lambda>_. []) n) + image_mset cl (mset (get n)))"
      using custody_sweep [of cl f "get n", OF step] sweep by (auto simp: custody_def)
    ultimately show ?thesis
      using emptied [of n] filled [of n1 kept] unfolding end_state by (auto intro: onward_trans)
  qed
  then show ?thesis by (auto simp: custody_def)
qed

lemma calm_pass [custody_intro]:
  "(\<And>x. custody {#wi_client x#} (\<lambda>(kept, p). mset_option (map_option wi_client kept)) (f1 x))
     \<Longrightarrow> (\<And>x. keeps_field sv_inboxes (f1 x)) \<Longrightarrow> calm (turn_pass sv_inboxes sv_inboxes_update f1)"
  "(\<And>x. custody {#wy_client x#} (\<lambda>(kept, p). mset_option (map_option wy_client kept)) (f2 x))
     \<Longrightarrow> (\<And>x. keeps_field sv_replies (f2 x)) \<Longrightarrow> calm (turn_pass sv_replies sv_replies_update f2)"
  "(\<And>x. custody {#wx_client x#} (\<lambda>(kept, p). mset_option (map_option wx_client kept)) (f3 x))
     \<Longrightarrow> (\<And>x. keeps_field sv_writes (f3 x)) \<Longrightarrow> calm (turn_pass sv_writes sv_writes_update f3)"
  "(\<And>x. custody {#wk_client x#} (\<lambda>(kept, p). mset_option (map_option wk_client kept)) (f4 x))
     \<Longrightarrow> (\<And>x. keeps_field sv_reading (f4 x)) \<Longrightarrow> calm (turn_pass sv_reading sv_reading_update f4)"
  by (rule custody_pass, assumption, assumption,
      simp add: onward_def fit_def accounted_def parked_def ac_simps, simp add: onward_def fit_def accounted_def parked_def room_def ac_simps)+

section \<open>Sockets\<close>

lemma pays_finish [custody_intro]:
  "custody {#c#} (\<lambda>(kept, p). mset_option (map_option g kept)) (turn_seq (answer w c i v) (turn_return (None, True)))"
  "custody {#c#} (\<lambda>(kept, p). mset_option (map_option g kept)) (turn_seq (turn_gone c) (turn_return (None, True)))"
  "custody {#c#} (\<lambda>(kept, p). mset_option (map_option g kept)) (turn_seq (write_response c r) (turn_return (None, True)))"
  by (rule pays_return; simp add: custody_intro)+

lemma custody_stays: "g x = c \<Longrightarrow> custody {#c#} (\<lambda>(kept, p). mset_option (map_option g kept)) (turn_return (Some x, b))"
  by (rule custody_return) simp

lemma inbox_pass_custody:
  "custody {#wi_client s#} (\<lambda>(kept, p). mset_option (map_option wi_client kept)) (inbox_pass w s)"
proof (rule custodyI)
  fix n :: "'a daemon" and r n' assume run: "inbox_pass w s n = (r, n')"
  obtain v s' k where pump: "pump_inbox w s (sv_kelpie n) = ((v, s'), k)" by (metis surj_pair)
  note kept = inbox_keepsD [OF inbox_keeps_pump pump]
  show "onward n n'" using run pump kept by (auto simp: inbox_pass_def Let_def onward_def split: option.splits)
  assume "fit n"
  with run pump kept show "fit n' \<and> accounted n' + (case r of (kept, p) \<Rightarrow> mset_option (map_option wi_client kept))
      = accounted n + {#wi_client s#}"
    by (auto simp: inbox_pass_def Let_def fit_def accounted_def parked_def split: option.splits)
qed

lemma inbox_pass_alone: "keeps_field sv_inboxes (inbox_pass w s)"
  by (auto simp: keeps_field_def inbox_pass_def Let_def split: prod.splits option.splits)

lemma calm_advance_inboxes [custody_intro]: "calm (advance_inboxes w)"
  unfolding advance_inboxes_def by (intro custody_intro inbox_pass_custody inbox_pass_alone)

lemma mset_filter_split: "image_mset g (mset (filter p xs)) + image_mset g (mset (filter (\<lambda>x. \<not> p x) xs)) = image_mset g (mset xs)"
  by (induction xs) auto

lemma pays_park_inbox [custody_intro]: "wi_client s = c \<Longrightarrow> pays {#c#} (park_inbox w s)"
proof -
  assume c: "wi_client s = c"
  have "pays {#c#} (turn_upd (\<lambda>n. n\<lparr>sv_gone := sv_gone n @ map wi_client (filter (\<lambda>x. wi_waiter x = wi_waiter s) (sv_inboxes n)),
      sv_inboxes := filter (\<lambda>x. wi_waiter x \<noteq> wi_waiter s) (sv_inboxes n) @ [s]\<rparr>))"
    using c mset_filter_split [of wi_client "\<lambda>x. wi_waiter x = wi_waiter s"]
    by (auto simp: daemon_defs turn_upd_def mset_map ac_simps simp del: mset_filter)
  then show ?thesis unfolding park_inbox_def turn_seq_def by (rule pays_then) (intro custody_intro)
qed

lemma wait_custody:
  "custody {#wy_client a#} (\<lambda>(kept, p). mset_option (map_option wy_client kept)) (complete_replies_wait w a)"
  unfolding complete_replies_wait_def Let_def by (intro custody_intro custody_stays along_intro refl)

lemma keeps_actions [keeps_intro]:
  "keeps_field sv_replies (turn_do m)" "keeps_field sv_replies (answer w c i v)" "keeps_field sv_replies (turn_now w)"
  "keeps_field sv_writes (turn_now w)" "keeps_field sv_writes (turn_world f)" "keeps_field sv_writes (turn_gone c)"
  "keeps_field sv_writes (write_response c r)"
  unfolding answer_def write_response_def turn_now_def turn_gone_def
  by (intro keeps_acts keeps_upd; simp)+

lemma calm_replies_waits [custody_intro]: "calm (advance_replies_waits w)"
  unfolding advance_replies_waits_def complete_replies_wait_def Let_def
  by (intro custody_intro custody_stays along_intro refl keeps_intro)

lemma progress_kept:
  assumes "custody C D p1" and "\<And>s b. wx_client s = wx_client a \<Longrightarrow> custody C D (p2 s b)" and "custody C D p3"
  shows "custody C D (turn_bind (turn_world (advance_write w a)) (\<lambda>x. case x of
     WriteDone \<Rightarrow> p1 | WriteLeft s b \<Rightarrow> p2 s b | WriteFailed \<Rightarrow> p3))"
proof -
  have "turn_bind (turn_world (advance_write w a)) (\<lambda>x. case x of WriteDone \<Rightarrow> p1 | WriteLeft s b \<Rightarrow> p2 s b | WriteFailed \<Rightarrow> p3)
     = turn_bind (turn_world (advance_write w a)) (\<lambda>x. case x of WriteDone \<Rightarrow> p1
        | WriteLeft s b \<Rightarrow> if wx_client s = wx_client a then p2 s b else p3 | WriteFailed \<Rightarrow> p3)"
    by (rule ext) (auto simp: turn_bind_def turn_world_def split: prod.splits write_progress.split dest: left_client)
  then show ?thesis using assms by (simp only:) (intro custody_intro; simp)
qed

lemma calm_writes [custody_intro]: "calm (advance_writes w)"
  unfolding advance_writes_def write_pass_def
  by (intro custody_intro progress_kept custody_stays keeps_intro; simp)

lemma pays_park_response [custody_intro]: "pays {#c#} (park_response w c r)"
  unfolding park_response_def by (intro custody_intro progress_kept; simp)

section \<open>Requests\<close>

lemma pays_park_cancel [custody_intro]: "wu_client q = c \<Longrightarrow> pays {#c#} (park_cancel q)"
  unfolding park_cancel_def by (rule pays_then [OF pays_open(1)]) (simp, intro custody_intro)

lemma pays_park_waiter_retire [custody_intro]: "wv_client q = c \<Longrightarrow> pays {#c#} (park_waiter_retire w q)"
  unfolding park_waiter_retire_def Let_def
  by (intro custody_intro pays_then [OF pays_open(2)]; simp; intro custody_intro)

lemma pays_park_served: "served_by c s \<Longrightarrow> pays {#c#} (park_served w c s)"
  by (cases s) (simp_all add: park_served_def custody_intro)

lemma pays_dispatch_line [custody_intro]: "pays {#c#} (dispatch_line w c line leftover)"
proof -
  have "calm (turn_serve (serve_request w c line leftover))"
  proof -
    have "calm (\<lambda>n. (fst (serve_request w c line leftover (sv_kelpie n)),
        n\<lparr>sv_kelpie := snd (serve_request w c line leftover (sv_kelpie n))\<rparr>))"
      by (intro custody_quiet) (simp_all add: serve_request_moves)
    then show ?thesis by (simp add: turn_serve_def [abs_def] case_prod_beta)
  qed
  moreover have "dispatch_line w c line leftover = turn_bind (turn_serve (serve_request w c line leftover))
      (\<lambda>s. if served_by c s then park_served w c s else turn_gone c)"
  proof
    fix n :: "'a daemon"
    obtain s k where "serve_request w c line leftover (sv_kelpie n) = (s, k)" by (metis surj_pair)
    with serves_request [of c w line leftover "sv_kelpie n"]
    show "dispatch_line w c line leftover n = turn_bind (turn_serve (serve_request w c line leftover))
      (\<lambda>s. if served_by c s then park_served w c s else turn_gone c) n"
      by (simp add: dispatch_line_def turn_bind_def turn_serve_def)
  qed
  ultimately show ?thesis by (simp only:) (intro custody_intro pays_park_served)
qed

text \<open>Serving a line leaves the other readers as they are.\<close>

lemma keeps_reading_parts [keeps_intro]:
  "keeps_field sv_reading (turn_do m)" "keeps_field sv_reading (turn_serve s)" "keeps_field sv_reading (answer w c i v)"
  "keeps_field sv_reading (turn_now w)" "keeps_field sv_reading (turn_world f)" "keeps_field sv_reading (turn_gone c)"
  "keeps_field sv_reading (write_response c r)" "keeps_field sv_reading alloc_job" "keeps_field sv_reading (submit_owned j owner)"
  unfolding answer_def write_response_def turn_now_def turn_gone_def submit_owned_def
  by ((intro keeps_acts keeps_upd; simp)+, simp add: keeps_field_def alloc_job_def, intro keeps_upd, simp)

lemma keeps_reading_submit [keeps_intro]: "keeps_field sv_reading (submit_new job owner)"
  unfolding submit_new_def by (intro keeps_intro)

lemma keeps_reading_push [keeps_intro]:
  "keeps_field sv_reading (turn_push sv_starts_update x1)" "keeps_field sv_reading (turn_push sv_clears_update x2)"
  "keeps_field sv_reading (turn_push sv_adopts_update x3)" "keeps_field sv_reading (turn_push sv_renames_update x4)"
  "keeps_field sv_reading (turn_push sv_retires_update x5)" "keeps_field sv_reading (turn_push sv_replies_update x6)"
  "keeps_field sv_reading (turn_push sv_writes_update x7)"
  unfolding turn_push_def by (intro keeps_upd; simp)+

lemma keeps_reading_park [keeps_intro]:
  "keeps_field sv_reading (park_start a1)" "keeps_field sv_reading (park_retire a2)" "keeps_field sv_reading (park_rename a3)"
  "keeps_field sv_reading (park_adopt a4)" "keeps_field sv_reading (park_prompt a5)" "keeps_field sv_reading (park_read a6)"
  unfolding park_start_def park_retire_def park_rename_def park_adopt_def park_prompt_def park_read_def
  by (intro keeps_intro keeps_upd; simp)+

lemma keeps_reading_sessions [keeps_intro]:
  "keeps_field sv_reading (park_cancel q)" "keeps_field sv_reading (park_waiter_retire w r)"
  unfolding park_cancel_def open_cancel_def park_waiter_retire_def open_waiter_retire_def Let_def
  by (intro keeps_intro keeps_upd; simp)+

lemma keeps_reading_inboxes [keeps_intro]: "keeps_field sv_reading (park_inbox w s)"
proof -
  have "keeps_field sv_reading (inbox_pass w x)" for x
    by (auto simp: keeps_field_def inbox_pass_def Let_def split: prod.splits option.splits)
  then show ?thesis unfolding park_inbox_def advance_inboxes_def turn_pass_def
    by (intro keeps_intro keeps_sweep keeps_upd; simp)
qed

lemma keeps_reading_line [keeps_intro]: "keeps_field sv_reading (dispatch_line w c line leftover)"
proof -
  have "keeps_field sv_reading (park_served w c s)" for s
    unfolding park_served_def by (cases s; simp; intro keeps_intro keeps_upd; simp)
  then show ?thesis unfolding dispatch_line_def by (intro keeps_intro)
qed

lemma reading_custody:
  "wk_client a = c \<Longrightarrow> custody {#c#} (\<lambda>(kept, p). mset_option (map_option wk_client kept)) (reading_buffered w a)"
  unfolding reading_buffered_def by (intro custody_intro custody_stays pays_return; simp add: custody_intro)

lemma calm_pump_reading [custody_intro]: "calm (pump_reading w)"
  unfolding pump_reading_def
proof (intro custody_intro)
  show "custody {#wk_client a#} (\<lambda>(kept, p). mset_option (map_option wk_client kept)) (reading_pass w a)" for a
    unfolding reading_pass_def by (intro custody_intro custody_stays reading_custody; simp)
  show "keeps_field sv_reading (reading_pass w a)" for a
    unfolding reading_pass_def reading_buffered_def by (intro keeps_intro)
qed

end
