(* ===== verification/Machines.thy ===== *)
theory Machines
  imports Sweeps
begin

text \<open>
  Custody of the parked state machines of \<open>src/src/daemon.rs\<close>: retirements, renames, adoptions, reads, starts and
  clears. Every event handler is calm: it answers, gives up or keeps the client of the entry it moves.
\<close>

section \<open>Retirements, renames, adoptions\<close>

lemma calm_retire_at [custody_intro]: "calm (answer_retire_at w i result)" "calm (fail_retire_at w i e)"
  unfolding fail_retire_at_def answer_retire_at_def by (intro custody_intro)+

lemma calm_retire_next [custody_intro]: "calm (retire_next i job state)"
  unfolding retire_next_def by (intro custody_intro; simp)

lemma calm_retire_handlers [custody_intro]:
  "calm (on_retire_opened w alive job)" "calm (on_retire_snapshot w i preflight seen)"
  "calm (on_retire_failed w job phase e)"
  unfolding on_retire_opened_def on_retire_snapshot_def on_retire_failed_def
  by (intro custody_intro along_intro; simp)+

lemma calm_retire_done [custody_intro]: "calm (on_retire_done w job result)"
  unfolding on_retire_done_def by (intro custody_intro along_intro; simp)

lemma calm_rename_at [custody_intro]: "calm (answer_rename_at w i result)" "calm (fail_rename_at w i e)"
  unfolding fail_rename_at_def answer_rename_at_def by (intro custody_intro along_intro; simp)+

lemma calm_rename_next [custody_intro]: "calm (rename_next i job state)" "calm (remember_recovery_snapshot i snap)"
  unfolding rename_next_def remember_recovery_snapshot_def
  by (intro custody_intro; simp split: rename_reply.split)+

lemma calm_send_rename [custody_intro]: "calm (send_rename w alive job i work)"
  unfolding send_rename_def by (intro custody_intro along_intro; simp)

lemma calm_rename_handlers [custody_intro]:
  "calm (on_rename_opened w alive job)" "calm (on_rename_snapshot w i preflight seen)"
  "calm (on_rename_sent w i work result)" "calm (on_rename_confirm w i work result)"
  unfolding on_rename_opened_def on_rename_snapshot_def on_rename_sent_def on_rename_confirm_def
  by (intro custody_intro along_intro; simp)+

lemma calm_rename_done [custody_intro]: "calm (on_rename_done w job result)" "calm (on_rename_failed w job phase e)"
  unfolding on_rename_done_def on_rename_failed_def by (intro custody_intro along_intro; simp)+

lemma pays_resume [custody_intro]: "pays {#c#} (resume_bound_request w q c)"
  unfolding resume_bound_request_def by (intro custody_intro along_intro; simp add: orderly_def)

lemma calm_adopt_at [custody_intro]:
  "calm (answer_adopt_at w i created)" "calm (fail_adopt_at w i e)" "calm (answer_who_adopt_at w i v)"
  unfolding fail_adopt_at_def answer_adopt_at_def answer_who_adopt_at_def by (intro custody_intro)+

lemma calm_adopt_next [custody_intro]: "calm (fail_parked_adopt w job e)" "calm (adopt_next i j state)"
  unfolding fail_parked_adopt_def adopt_next_def by (intro custody_intro; simp)+

lemma calm_adopt_errors [custody_intro]: "calm (fail_adopt_rename w i work e)" "calm (fail_adopt_confirm w i work e)"
  unfolding fail_adopt_rename_def fail_adopt_confirm_def by (intro custody_intro along_intro; simp)+

lemma calm_adopt_handlers [custody_intro]:
  "calm (on_adopt_opened w alive job)" "calm (on_adopt_snapshot w i n seen)"
  "calm (on_adopt_renamed w i a work result)" "calm (on_adopt_confirm w i a work result)"
  unfolding on_adopt_opened_def on_adopt_snapshot_def on_adopt_renamed_def on_adopt_confirm_def
  by (intro custody_intro along_intro; simp)+

lemma calm_adopt_done [custody_intro]: "calm (on_adopt_done w job result)" "calm (on_adopt_failed w job e)"
  unfolding on_adopt_done_def on_adopt_failed_def by (intro custody_intro along_intro; simp)+

section \<open>Reads\<close>

lemma pays_read [custody_intro]: "wd_client r = c \<Longrightarrow> pays {#c#} (answer_read w r v)"
  "wd_client r = c \<Longrightarrow> pays {#c#} (park_seat_rename r reply resume work)"
  unfolding answer_read_def park_seat_rename_def by (simp_all add: custody_intro)

lemma pays_finish_read [custody_intro]:
  "wd_client r = c \<Longrightarrow> pays {#c#} (finish_recover_snapshot w r names snap)"
  "wd_client r = c \<Longrightarrow> pays {#c#} (finish_whoami_snapshot w r pane key snap)"
  "wd_client r = c \<Longrightarrow> pays {#c#} (finish_who_snapshot w r pane key refresh snap)"
  "wd_client r = c \<Longrightarrow> pays {#c#} (finish_alias_snapshot w r n key q snap)"
  unfolding finish_recover_snapshot_def finish_whoami_snapshot_def finish_who_snapshot_def finish_alias_snapshot_def
  by (intro custody_intro along_intro; simp add: custody_intro)+

lemma pays_snapshot_read [custody_intro]: "wd_client r = c \<Longrightarrow> pays {#c#} (finish_snapshot_read w r snap)"
  unfolding finish_snapshot_read_def by (intro custody_intro along_intro; simp)

lemma calm_reads [custody_intro]: "calm (on_client_read_done w job result)" "calm (fail_client_read w job e)"
  unfolding on_client_read_done_def fail_client_read_def by (intro custody_intro along_intro; simp)+

section \<open>Starts and clears\<close>

lemma calm_set_start [custody_intro]: "(\<And>a. ws_client (f a) = ws_client a) \<Longrightarrow> calm (set_start i f)"
  unfolding set_start_def by (rule calm_set)

lemma calm_start_at [custody_intro]: "calm (fail_start_at w i e)" "calm (answer_start_at w i result)"
  unfolding fail_start_at_def answer_start_at_def by (intro custody_intro along_intro)+

lemma calm_initial_parts [custody_intro]:
  "calm (answer_initial_at w i started m oid)" "calm (drop_start_lease i a)"
  "calm (open_initial_message i x m)" "calm (open_start_lease i busy_deadline attempt)"
  unfolding answer_initial_at_def drop_start_lease_def open_initial_message_def open_start_lease_def
  by (intro custody_intro along_intro; simp)+

lemma calm_initial [custody_intro]:
  "calm (answer_initial_without_write w i)" "calm (initial_done w i a prompt)"
  unfolding answer_initial_without_write_def initial_done_def by (intro custody_intro along_intro)+

lemma calm_fail_parked_start [custody_intro]: "calm (fail_parked_start w job e)"
  unfolding fail_parked_start_def by (intro custody_intro)

lemma calm_initial_done [custody_intro]:
  "calm (on_initial_done w i job result)" "calm (park_initial_message w i n started)" "calm (on_initial_opened w alive job i)"
  unfolding on_initial_done_def park_initial_message_def on_initial_opened_def
  by (intro custody_intro along_intro; simp)+

lemma calm_start_opened [custody_intro]:
  "calm (send_start w alive job i a declared)"
  unfolding send_start_def Let_def by (intro custody_intro along_intro; simp)

lemma calm_start_lease [custody_intro]: "calm (on_start_opened w alive job)"
  unfolding on_start_opened_def by (intro custody_intro along_intro)

lemma calm_start_answers [custody_intro]:
  "calm (on_declared_start w i a snap)" "calm (reject_start w declared detail)"
  unfolding on_declared_start_def reject_start_def
  by (intro custody_intro along_intro; ((erule two_resultsE)?; erule store_ops)?; simp)+

lemma calm_start_handlers [custody_intro]:
  "calm (on_start_snapshot w i a seen)" "calm (on_start_send w i job a agent)" "calm (on_start_ready_get w i job a agent)"
  unfolding on_start_snapshot_def on_start_send_def on_start_ready_get_def by (intro custody_intro along_intro; simp)+

lemma calm_start_done [custody_intro]: "calm (on_start_done w job result)"
  unfolding on_start_done_def by (intro custody_intro)

lemma calm_start_failed [custody_intro]: "calm (on_start_failed w job e)"
  unfolding on_start_failed_def by (intro custody_intro)

lemma calm_walk_intro [custody_intro]: "(\<And>i x. calm (f i x)) \<Longrightarrow> calm (turn_walk get f k i p)"
  by (rule calm_walk)

lemma calm_start_gets [custody_intro]:
  "calm (park_busy_retry_snapshot i)" "calm (submit_start_ready_get i)"
  unfolding park_busy_retry_snapshot_def submit_start_ready_get_def by (intro custody_intro; simp)+

lemma calm_moved_on [custody_intro]: "calm m \<Longrightarrow> calm (moved_on m)"
  unfolding moved_on_def by (intro custody_intro)

lemma calm_start_pass [custody_intro]: "calm (start_pass w i a)"
  unfolding start_pass_def by (intro custody_intro; simp)

lemma calm_advance_starts [custody_intro]: "calm (advance_awaiting_starts w)"
  unfolding advance_awaiting_starts_def by (intro custody_intro)

lemma calm_set_clear [custody_intro]: "(\<And>a. wl_client (f a) = wl_client a) \<Longrightarrow> calm (set_clear i f)"
  unfolding set_clear_def by (rule calm_set)

lemma calm_clear_at [custody_intro]:
  "calm (answer_clear_at w i v)" "calm (fail_clear_at w i e)"
  unfolding answer_clear_at_def fail_clear_at_def by (intro custody_intro)+

lemma calm_clear_parts [custody_intro]:
  "calm (fail_parked_clear w job e)" "calm (start_clear_probe w i)" "calm (start_clear_rotation_get i)"
  unfolding fail_parked_clear_def start_clear_probe_def start_clear_rotation_get_def
  by (intro custody_intro along_intro; simp)+

lemma calm_clear_handlers [custody_intro]:
  "calm (on_clear_opened w alive job)" "calm (on_clear_probe w i job c pane observed)"
  "calm (on_clear_command w i job x s observed)" "calm (on_clear_rotation w i job a observed)"
  unfolding on_clear_opened_def on_clear_probe_def on_clear_command_def on_clear_rotation_def Let_def
  by (intro custody_intro along_intro; simp)+

lemma calm_clear_done [custody_intro]: "calm (on_clear_done w job result)"
  unfolding on_clear_done_def by (intro custody_intro)

lemma calm_clear_pass [custody_intro]: "calm (clear_pass w i x)"
  unfolding clear_pass_def by (intro custody_intro)

lemma calm_advance_clears [custody_intro]: "calm (advance_awaiting_clears w)"
  unfolding advance_awaiting_clears_def by (intro custody_intro)

end
