(* ===== verification/Rounds.thy ===== *)
theory Rounds
  imports Machines
begin

text \<open>
  Custody of the daemon's own work and of a whole pass of \<open>src/src/daemon.rs\<close>: a pass puts under custody exactly
  the connections it accepts.
\<close>

section \<open>The daemon's own work\<close>

lemma calm_set_renew [custody_intro]: "calm (set_renew i f)"
  unfolding set_renew_def by (intro custody_intro)

lemma calm_renew_errors [custody_intro]:
  "calm (note_renew_drive_error w e)" "calm (finish_parked_renew i)" "calm (renew_outcome w e)" "calm (park_renew x state)"
  unfolding note_renew_drive_error_def finish_parked_renew_def renew_outcome_def park_renew_def
  by (intro custody_intro)+

lemma calm_renew_parts [custody_intro]:
  "calm (drop_parked_renew w i e)" "calm (fail_parked_renew w job e)" "calm (renew_advance w x now)"
  "calm (renew_scheduled w x now)"
  unfolding drop_parked_renew_def fail_parked_renew_def renew_advance_def renew_scheduled_def
  by (intro custody_intro along_intro)+

lemma calm_renew_due [custody_intro]: "calm (renew_due w now x)"
  unfolding renew_due_def by (intro custody_intro along_intro)

lemma calm_renews_loop [custody_intro]: "calm (renews_loop w now xs p)"
  by (induction xs arbitrary: p) (simp, intro custody_intro, simp, intro custody_intro, assumption)

lemma calm_park_due_renews [custody_intro]: "calm (park_due_renews w)"
  unfolding park_due_renews_def by (intro custody_intro along_intro)

lemma calm_renew_jobs [custody_intro]: "calm (submit_renew i job)" "calm (renew_next i pane state)" "calm (drop_renew_lease i r)"
  unfolding submit_renew_def renew_next_def drop_renew_lease_def by (intro custody_intro)+

lemma calm_renew_pass [custody_intro]: "calm (renew_pass i r)" "calm (settle_renew w i v)"
  unfolding renew_pass_def settle_renew_def by (intro custody_intro)+

lemma calm_advance_renews [custody_intro]: "calm advance_awaiting_renews"
  unfolding advance_awaiting_renews_def by (intro custody_intro)

lemma calm_renew_handlers [custody_intro]:
  "calm (on_renew_opened w alive job)" "calm (on_renew_probe w i x observed)" "calm (on_renew_clear_sent w i r wr sent)"
  "calm (on_renew_rotation w i x observed)" "calm (on_renew_inject_sent w i r wr' sent)" "calm (on_renew_confirm w i x observed)"
  unfolding on_renew_opened_def on_renew_probe_def on_renew_clear_sent_def on_renew_rotation_def on_renew_inject_sent_def
    on_renew_confirm_def
  by (intro custody_intro along_intro; ((erule two_resultsE)?; erule store_ops)?)+

lemma calm_renew_done [custody_intro]: "calm (on_renew_done w job result)"
  unfolding on_renew_done_def by (intro custody_intro)

lemma calm_park_reminder [custody_intro]: "calm (park_reminder r)"
  unfolding park_reminder_def by (intro custody_intro; simp add: orderly_def)

lemma calm_reminders [custody_intro]:
  "calm (schedule_reminders w)" "calm (park_reminders rs)" "calm (on_reminder_snapshot w result)"
proof -
  show parked: "calm (park_reminders rs)" for rs :: "prepared_reminder list"
    unfolding park_reminders_def by (intro custody_intro)
  show "calm (schedule_reminders w)"
    unfolding schedule_reminders_def by (intro custody_intro along_intro)
  show "calm (on_reminder_snapshot w result)"
    unfolding on_reminder_snapshot_def
    by (intro custody_intro along_intro parked; simp split: sum.split herdr_job_result.split; intro impI allI custody_intro along_intro parked)
qed

lemma calm_boot [custody_intro]: "calm (schedule_boot_continue w)" "calm (on_boot_continue_done w job result)"
  unfolding schedule_boot_continue_def on_boot_continue_done_def by (intro custody_intro along_intro)+

lemma calm_sweep_parts [custody_intro]: "calm (rearm_sweep w)" "calm (start_sweep w now)" "calm (sweep_notices w snap)"
  unfolding rearm_sweep_def start_sweep_def sweep_notices_def
  by (intro custody_intro along_intro; ((erule two_resultsE)?; erule store_ops)?)+

lemma calm_sweep [custody_intro]: "calm (schedule_obligation_sweep w)" "calm (on_obligation_sweep_done w job result)"
  unfolding schedule_obligation_sweep_def on_obligation_sweep_done_def by (intro custody_intro along_intro)+

lemma calm_archive [custody_intro]: "calm (daemon_archive w)"
  unfolding daemon_archive_def by (intro custody_intro along_intro; ((erule two_resultsE)?; erule store_ops)?)

section \<open>Events and passes\<close>

lemma calm_routes [custody_intro]:
  "calm (on_opened w alive job owner)" "calm (on_done w job result owner)" "calm (on_failed w job phase e owner)"
  unfolding on_opened_def on_done_def on_failed_def by (intro custody_intro)+

lemma calm_event [custody_intro]: "calm (on_event w ev)"
  unfolding on_event_def by (intro custody_intro)

lemma calm_drain [custody_intro]: "calm (drain_herdr_events w evs)"
  unfolding drain_herdr_events_def by (intro custody_intro)

lemma calm_drive_loop [custody_intro]: "calm (drive_loop w busy deadline bs)"
  by (induction bs) (simp, intro custody_intro, simp, intro custody_intro, assumption)

lemma calm_drives [custody_intro]:
  "calm (drive_while w busy bs)" "calm (drive_parked_opens w bs)" "calm (drive_parked_renews w bs)" "calm (drive_parked_clears w bs)"
  unfolding drive_parked_renews_def drive_parked_clears_def drive_parked_opens_def drive_while_def
  by (intro custody_intro)+

lemma calm_fire [custody_intro]: "calm (fire_schedules w)" "calm (fire_deliveries w)"
  unfolding fire_schedules_def fire_deliveries_def park_due_def by (intro custody_intro along_intro)+

lemma calm_poll_work [custody_intro]: "calm (poll_work w x)"
  unfolding poll_work_def by (intro custody_intro)

text \<open>Only the listener brings clients in.\<close>

lemma pays_accept_one: "pays {#c#} (accept_one w c)"
  unfolding accept_one_def by (intro custody_intro; simp)

lemma pays_each: "(\<And>x. pays {#g x#} (f x)) \<Longrightarrow> pays (image_mset g (mset xs)) (turn_each f xs)"
proof (induction xs)
  case (Cons x xs)
  have "custody ({#g x#} + image_mset g (mset xs)) (\<lambda>_. {#}) (turn_bind (f x) (\<lambda>_. turn_each f xs))"
    by (rule custody_bind_with [OF custody_plus [OF Cons(2)]]) (simp add: Cons)
  then show ?case by (simp add: turn_seq_def)
qed (simp add: custody_intro)

definition newcomers :: "arrivals \<Rightarrow> client list" where
  "newcomers x = take MAX_ACCEPTS_PER_POLL (av_clients x)"

lemma pays_accept: "pays (mset (take MAX_ACCEPTS_PER_POLL cs)) (accept_waiting w cs)"
  unfolding accept_waiting_def Let_def
  by (rule pays_return) (use pays_each [of id, OF pays_accept_one] in simp_all)

lemma pays_poll_clients: "pays (mset (take MAX_ACCEPTS_PER_POLL cs)) (poll_clients w cs)"
  unfolding poll_clients_def
  by (intro custody_bind [OF calm_advance_inboxes] custody_bind [OF calm_replies_waits] custody_bind [OF calm_writes]
      custody_bind [OF calm_pump_reading] pays_then [OF pays_accept] custody_intro)

lemma pays_poll: "pays (mset (newcomers x)) (daemon_poll w x)"
  unfolding daemon_poll_def newcomers_def
  by (rule custody_bind [OF calm_poll_work], rule pays_then [OF pays_poll_clients]) (intro custody_intro)

lemma pays_pass: "pays (mset (newcomers x)) (daemon_pass w x)"
  unfolding daemon_pass_def Let_def by (rule pays_then [OF pays_poll]) (intro custody_intro along_intro)

end
