(* ===== verification/Sessions.thy ===== *)
theory Sessions
  imports Rounds Scripts
begin

text \<open>
  A concrete daemon: its peer answers from a script, every client sends the same line, and no request decodes.
  It is an instance of the parameter \<open>wire\<close> at which the theorems about the daemon are applied.
\<close>

definition undecodable :: "'a \<Rightarrow> string + 'b" where
  "undecodable v = Inl ''undecodable''"

definition scripted_wire :: "script wire" where
  "scripted_wire = \<lparr>wr_peer = scripted, wr_request = undecodable, wr_value = undecodable, wr_uuid = Pair ''event'',
     wr_recv = (\<lambda>c. Pair (Received [newline])), wr_send = (\<lambda>c s. Pair (Sent (length s))),
     wr_start = undecodable, wr_adopt = undecodable, wr_waiter_register = undecodable, wr_waiter_retire = undecodable,
     wr_inbox_claim = undecodable, wr_inbox_ack = undecodable, wr_replies_claim = undecodable, wr_replies = undecodable,
     wr_replies_ack = undecodable, wr_ask = undecodable, wr_snooze = undecodable, wr_interval = undecodable,
     wr_disable = undecodable, wr_tell = undecodable, wr_clear = undecodable, wr_renew = undecodable,
     wr_renew_cancel = undecodable, wr_schedule_cancel = undecodable, wr_schedule_list = undecodable, wr_reply = undecodable,
     wr_whoami = undecodable, wr_pending = undecodable, wr_ask_info = undecodable, wr_name_info = undecodable,
     wr_who = undecodable, wr_cancel = undecodable, wr_notice = undecodable, wr_retire = undecodable,
     wr_rename = undecodable, wr_report = undecodable\<rparr>"

definition idle_process :: "script kelpie" where
  "idle_process = \<lparr>ke_store = empty_db, ke_world = (100, []), ke_settle_ms = 10, ke_floor = Some 0\<rparr>"

definition bound_daemon :: "script daemon" where
  "bound_daemon = idle_daemon 100 100 100 100 idle_process"

definition one_client :: arrivals where
  "one_client = \<lparr>av_events = [], av_opens = [], av_renews = [], av_clears = [], av_clients = [7]\<rparr>"

lemma idle_acts:
  "fire_due_schedules scripted idle_process = (Inr 0, idle_process)"
  "begin_due_deliveries scripted idle_process = (Inr [], idle_process)"
  "act_bind (sl_clock scripted) (\<lambda>t. sl_write (archive_dead_identities t IDENTITY_ARCHIVE_GRACE_MS)) idle_process = (Inr 0, idle_process)"
  "occupancy_sample_needed scripted idle_process = (Inr False, idle_process)"
  "collect_due_reminders scripted idle_process = (Inr ([], []), idle_process)"
  "terminate_ended_renews scripted idle_process = (Inr (), idle_process)"
  "sl_read (actionable_renews 100) idle_process = (Inr [], idle_process)"
  "sl_clock scripted idle_process = (Inr 100, idle_process)"
  by code_simp+

lemma bound: "daemon_bind scripted_wire (process empty_db 100 []) = Inr bound_daemon"
proof -
  have clock: "sl_clock scripted (process empty_db 100 []) = (Inr 100, process empty_db 100 [])"
    and reset: "sl_write (boot_reset_waiter_seen 100) (process empty_db 100 []) = (Inr 0, process empty_db 100 [])"
    and claim: "act_error SStore claim_live (process empty_db 100 []) = (Inr (), idle_process)"
    and instant: "instant_now scripted idle_process = ((Inr 100 :: slice_error + nat), idle_process)"
    by code_simp+
  have peer: "wr_peer scripted_wire = scripted" by (simp add: scripted_wire_def)
  show ?thesis
    unfolding daemon_bind_def peer bound_daemon_def
    by (simp add: act_bind_def act_return_def clock reset claim instant)
qed

lemmas turn_run = turn_bind_def turn_seq_def turn_return_def turn_skip_def turn_get_def turn_upd_def turn_do_def turn_try_def
  turn_world_def turn_now_def

lemma scripted_parts [simp]:
  "wr_peer scripted_wire = scripted" "wr_request scripted_wire t = Inl ''undecodable''"
  "wr_recv scripted_wire c x = (Received [newline], x)" "pr_instant scripted x = (fst x, x)"
  by (simp_all add: scripted_wire_def undecodable_def scripted_def)

lemma idle_fields [simp]:
  "ke_world idle_process = (100, [])" "idle_process\<lparr>ke_world := (100, [])\<rparr> = idle_process"
  by (simp_all add: idle_process_def)

lemma idle_work: "poll_work scripted_wire one_client bound_daemon = (False, bound_daemon\<lparr>sv_next_archive := 900100\<rparr>)"
  by (simp add: poll_work_def one_client_def bound_daemon_def idle_daemon_def turn_run drain_herdr_events_def
    schedule_boot_continue_def boot_continue_should_start_def BOOT_CONTINUE_WINDOW_def BOOT_CONTINUE_INTERVAL_def
    schedule_obligation_sweep_def ASK_SWEEP_INTERVAL_def daemon_archive_def IDENTITY_ARCHIVE_INTERVAL_def idle_acts
    fire_schedules_def fire_deliveries_def drive_parked_opens_def prompts_opening_def schedule_reminders_def
    park_due_renews_def clock_or_zero_def advance_awaiting_renews_def drive_parked_renews_def drive_while_def
    advance_awaiting_starts_def advance_awaiting_clears_def drive_parked_clears_def)

lemma empty_text: "from_utf8 [] = Some []"
  by code_simp

lemma one_client_fields: "av_clients one_client = [7]" "MAX_ACCEPTS_PER_POLL = 16"
  by (simp_all add: one_client_def MAX_ACCEPTS_PER_POLL_def)

lemma idle_clients: "poll_clients scripted_wire [7] (bound_daemon\<lparr>sv_next_archive := 900100\<rparr>)
    = (True, bound_daemon\<lparr>sv_next_archive := 900100, sv_out := [(7, malformed_response ''undecodable'')]\<rparr>)"
  by (simp add: poll_clients_def bound_daemon_def idle_daemon_def turn_run advance_inboxes_def advance_replies_waits_def
    advance_writes_def pump_reading_def turn_pass_def accept_waiting_def MAX_ACCEPTS_PER_POLL_def accept_one_def turn_push_def
    reading_pass_def CLIENT_REQUEST_DEADLINE_def reading_buffered_def MAX_REQUEST_BYTES_def split_line_def newline_def
    dispatch_line_def drop_carriage_return_def turn_serve_def serve_request_def empty_text
    serve_parsed_line_def park_served_def write_response_def)

definition served_daemon :: "script daemon" where
  "served_daemon = bound_daemon\<lparr>sv_next_archive := 900100, sv_out := [(7, malformed_response ''undecodable'')]\<rparr>"

lemma one_pass: "turn_each (daemon_pass scripted_wire) [one_client] bound_daemon = ((), served_daemon)"
  unfolding served_daemon_def using idle_clients by (simp add: daemon_pass_def daemon_poll_def turn_run idle_work one_client_fields)

end
