(* ===== verification/DaemonLaws.thy ===== *)
theory DaemonLaws
  imports Sessions
begin

text \<open>
  The laws of the daemon (\<open>src/src/daemon.rs\<close>) over whole runs: a run is a daemon bound to its socket and then any
  number of passes, each with the events and connections that happen to arrive.
\<close>

section \<open>Runs\<close>

lemma pays_run: "pays (mset (concat (map newcomers xs))) (turn_each (daemon_pass w) xs)"
proof (induction xs)
  case (Cons x xs)
  have "custody (mset (newcomers x) + mset (concat (map newcomers xs))) (\<lambda>_. {#})
      (turn_bind (daemon_pass w x) (\<lambda>_. turn_each (daemon_pass w) xs))"
    by (rule custody_bind_with [OF custody_plus [OF pays_pass]]) (simp add: Cons)
  then show ?case by (simp add: turn_seq_def)
qed (simp add: custody_intro)

lemma bound_empty: "daemon_bind w k = Inr n \<Longrightarrow> fit n \<and> accounted n = {#}"
  by (auto simp: daemon_bind_def idle_daemon_def fit_def keyed_def accounted_def parked_def split: prod.splits sum.splits)

lemma bound_moves: "daemon_bind w k = Inr n \<Longrightarrow> moves k (sv_kelpie n)"
proof -
  let ?act = "act_bind (sl_clock (wr_peer w)) (\<lambda>now. act_bind (sl_write (boot_reset_waiter_seen now)) (\<lambda>_.
       act_bind (act_error SStore claim_live) (\<lambda>_.
       act_bind (instant_now (wr_peer w)) (\<lambda>t1. act_bind (instant_now (wr_peer w)) (\<lambda>t2.
       act_bind (instant_now (wr_peer w)) (\<lambda>t3. act_bind (instant_now (wr_peer w)) (\<lambda>t4.
         act_return (t1, t2, t3, t4))))))))"
  have "along moves ?act"
    by (intro along_intro; ((erule two_resultsE)?; erule store_ops)?)
  moreover assume "daemon_bind w k = Inr n"
  ultimately show "moves k (sv_kelpie n)"
    by (auto simp: daemon_bind_def idle_daemon_def split: prod.splits sum.splits dest: along_result)
qed

text \<open>
  C2: no client is lost and none is answered twice. Over any run of the daemon, every accepted connection is in
  exactly one place: parked in one of the daemon's records, answered, or given up. The hypothesis on
  \<open>room\<close> excludes only a counter of jobs or sessions that has reached 2 ^ 64 - 1, from where the code
  reuses its last number.
\<close>

theorem clients_in_custody:
  assumes "daemon_bind w k = Inr n" and "turn_each (daemon_pass w) xs n = (u, n')" and "room n'"
  shows "parked n' + mset (map fst (sv_out n')) + mset (sv_gone n') = mset (concat (map newcomers xs))"
proof -
  have "fit n \<and> accounted n = {#}" by (rule bound_empty) (rule assms(1))
  with pays_run [of xs w] assms(2,3) show ?thesis by (auto simp: custody_def accounted_def)
qed

theorem clients_in_custody_witness: "parked served_daemon = {#} \<and> map fst (sv_out served_daemon) = [7]"
proof -
  have out: "map fst (sv_out served_daemon) = [7]" "sv_gone served_daemon = []" and room: "room served_daemon"
    by (simp_all add: served_daemon_def bound_daemon_def idle_daemon_def room_def u64_max_def)
  have "parked served_daemon + {#7#} = {#7#}"
    using clients_in_custody [OF bound one_pass room] out by (simp add: newcomers_def one_client_fields)
  with out show ?thesis by simp
qed



section \<open>Clients nobody answers\<close>

lemma position_Some: "position p xs = Some i \<Longrightarrow> i < length xs \<and> p (xs ! i)"
  by (induction xs arbitrary: i) (auto split: if_splits)

lemma position_None: "position p xs = None \<longleftrightarrow> (\<forall>j < length xs. \<not> p (xs ! j))"
  by (induction xs) (auto simp: All_less_Suc2)

lemma failed_observation: "isl (fst (apply_clear_rotation_observation p a (Inl e) k))"
  by (auto simp: apply_clear_rotation_observation_def act_bind_def act_fail_def split: prod.splits sum.splits)

text \<open>
  C38: a clear whose rotation check fails is not answered. The handler forgets the job of the clear before it fails
  the clear by that job, so the error reaches nobody: nothing is written, and the clear stays parked in
  its rotation without a job, from where the next pass polls it again.
\<close>

theorem failed_rotation_is_unanswered:
  assumes "clear_index job n = Some i" and "wl_state (sv_clears n ! i) = ClRotation a"
    and "\<forall>j < length (sv_clears n). wl_job (sv_clears n ! j) = Some job \<longrightarrow> j = i"
    and "on_clear_done w job (Inl e) n = (u, n')"
  shows "sv_out n' = sv_out n \<and> sv_clears n' = (sv_clears n)[i := (sv_clears n ! i)\<lparr>wl_job := None\<rparr>]"
proof -
  let ?n = "sv_clears_update (\<lambda>xs. xs[i := (xs ! i)\<lparr>wl_job := None\<rparr>]) n"
  have i: "i < length (sv_clears n)" using position_Some assms(1) by (auto simp: clear_index_def)
  obtain x k where applied: "apply_clear_rotation_observation (wr_peer w) a (Inl e) (sv_kelpie n) = (Inl x, k)"
    using failed_observation [of "wr_peer w" a e "sv_kelpie n"]
    by (cases "apply_clear_rotation_observation (wr_peer w) a (Inl e) (sv_kelpie n)") (auto simp: isl_def)
  have "clear_index job (?n\<lparr>sv_kelpie := k\<rparr>) = None"
    using assms(3) i by (auto simp: clear_index_def position_None nth_list_update)
  then have "on_clear_done w job (Inl e) n = ((), ?n\<lparr>sv_kelpie := k\<rparr>)"
    using assms(1,2) i applied
    by (simp add: on_clear_done_def turn_found_def turn_at_def entry_def on_clear_rotation_def agent_result_def
        set_clear_def turn_set_def fail_parked_clear_def turn_run)
  with assms(4) have end_state: "n' = ?n\<lparr>sv_kelpie := k\<rparr>" by simp
  show ?thesis unfolding end_state by simp
qed

definition rotating_clear :: awaiting_clear_request where
  "rotating_clear = \<lparr>wl_request = ''clear'', wl_state = ClRotation \<lparr>aw_operation = 1, aw_recipient = 1, aw_incarnation = 1,
       aw_pane = ''pane'', aw_backend_kind = ''kind'', aw_session = ''session'', aw_deadline = 200\<rparr>,
     wl_client = 7, wl_job = Some 1, wl_lease = None\<rparr>"

theorem failed_rotation_is_unanswered_witness:
  "sv_out (snd (on_clear_done scripted_wire 1 (Inl (HMalformed ''agent'')) (bound_daemon\<lparr>sv_clears := [rotating_clear]\<rparr>))) = []"
proof -
  let ?n = "bound_daemon\<lparr>sv_clears := [rotating_clear]\<rparr>"
  have "clear_index 1 ?n = Some 0" by (simp add: clear_index_def rotating_clear_def)
  moreover have "wl_state (sv_clears ?n ! 0) = ClRotation \<lparr>aw_operation = 1, aw_recipient = 1, aw_incarnation = 1,
      aw_pane = ''pane'', aw_backend_kind = ''kind'', aw_session = ''session'', aw_deadline = 200\<rparr>"
    by (simp add: rotating_clear_def)
  moreover have "\<forall>j < length (sv_clears ?n). wl_job (sv_clears ?n ! j) = Some 1 \<longrightarrow> j = 0" by simp
  ultimately have "sv_out (snd (on_clear_done scripted_wire 1 (Inl (HMalformed ''agent'')) ?n)) = sv_out ?n"
    using failed_rotation_is_unanswered [OF _ _ _ surjective_pairing] by blast
  then show ?thesis by (simp add: bound_daemon_def idle_daemon_def)
qed

text \<open>
  C39: a notice that cannot be prepared strands its cancellation. When the intent of a notice is refused at its
  opened lease, the prompt is dropped, but the session that waits for it is neither counted down nor
  answered; if it was the last notice, its client waits for ever.
\<close>

theorem refused_intent_strands_cancellation:
  assumes "hm_get job (sv_prompts n) = Some a" and "wp_owner a = OwnCancel s waiting"
    and "wp_client a = None" and "wp_reminder a = None"
    and "commit_prompt_intent (wr_peer w) (wp_prepared a) (sv_kelpie n) = (Inl e, k)"
    and "on_prompt_opened w alive job n = (u, n')"
  shows "hm_get job (sv_prompts n') = None \<and> sv_cancels n' = sv_cancels n \<and> sv_out n' = sv_out n"
  using assms
  by (cases "wp_lease a") (auto simp: on_prompt_opened_def turn_found_def turn_run send_lease_def answer_parked_prompt_def
      end_prompt_def turn_pop_def release_due_inflight_def drop_lease_def hm_get_def hm_remove_def map_of_eq_None_iff)

text \<open>The cancelled ask of a client whose only notice is refused: its recipient is not a Ready incarnation.\<close>

definition refused_notice :: prepared_prompt where
  "refused_notice = \<lparr>pp_operation = 1, pp_incarnation = 1, pp_pane = ''pane'', pp_envelope = ''notice'',
     pp_request = ''notice'', pp_queued = False\<rparr>"

definition stranded_cancel :: awaiting_cancel where
  "stranded_cancel = \<lparr>wc_request = ''cancel'', wc_client = 7, wc_outcome = \<lparr>co_delivered = False, co_message = Some 1,
     co_owing_delivered = False, co_owing_message = None\<rparr>, wc_remaining = 1\<rparr>"

definition noticing_daemon :: "script daemon" where
  "noticing_daemon = bound_daemon\<lparr>sv_prompts := [(1, notice_prompt (OwnCancel 1 True) refused_notice)],
     sv_cancels := [(1, stranded_cancel)]\<rparr>"

theorem refused_intent_strands_cancellation_witness:
  "sv_cancels (snd (on_prompt_opened scripted_wire True 1 noticing_daemon)) = [(1, stranded_cancel)]
     \<and> sv_out (snd (on_prompt_opened scripted_wire True 1 noticing_daemon)) = []"
proof -
  have "isl (fst (commit_prompt_intent scripted refused_notice idle_process))" by code_simp
  then obtain e k where "commit_prompt_intent scripted refused_notice idle_process = (Inl e, k)"
    by (cases "commit_prompt_intent scripted refused_notice idle_process") (auto simp: isl_def)
  moreover have "sv_kelpie noticing_daemon = idle_process"
    by (simp add: noticing_daemon_def bound_daemon_def idle_daemon_def)
  moreover have "hm_get 1 (sv_prompts noticing_daemon) = Some (notice_prompt (OwnCancel 1 True) refused_notice)"
    by (simp add: noticing_daemon_def hm_get_def)
  ultimately have "sv_cancels (snd (on_prompt_opened scripted_wire True 1 noticing_daemon)) = sv_cancels noticing_daemon
      \<and> sv_out (snd (on_prompt_opened scripted_wire True 1 noticing_daemon)) = sv_out noticing_daemon"
    using refused_intent_strands_cancellation [OF _ _ _ _ _ surjective_pairing,
        of 1 noticing_daemon "notice_prompt (OwnCancel 1 True) refused_notice" 1 True scripted_wire e k True]
    by (simp add: notice_prompt_def)
  then show ?thesis by (simp add: noticing_daemon_def bound_daemon_def idle_daemon_def)
qed

end
