(* ===== verification/Spec2Isabelle.thy ===== *)
theory Spec2Isabelle
  imports Domain Paths Envelope AskLaws ExecLaws CliLaws Conduct DaemonLaws
begin

text \<open>
  Verification library of the Kelpie coordination layer: the store of messages, reply obligations,
  deliveries, schedules, reminders and renews, and the text formats around it.
\<close>

text \<open>
  C1: in every reachable store the ledger is sound. An ask has at most one obligation, which belongs to
  an ask message the owing agent received from the waiting agent or the operator; it is resolved exactly
  by a recorded final reply of the owing agent to that ask; and every message that answers an ask is a
  reply from the owing to the waiting agent of an obligation.
\<close>

theorem reachable_ledger_sound:
  assumes "reachable d"
  shows "distinct (map ob_ask (obligations d)) \<and> (\<forall>x \<in> set (obligations d). row_recorded (messages d) x)
     \<and> (\<forall>m \<in> set (messages d). reply_recorded (obligations d) m)"
  using reachable_ledger_ok [OF assms] by (simp add: ledger_ok_def)

theorem reachable_ledger_sound_witness: "row_recorded (messages run_db5) (hd (obligations run_db5))"
proof -
  have "hd (obligations run_db5) \<in> set (obligations run_db5)" by code_simp
  with reachable_ledger_sound [OF run_reachable(6)] show ?thesis by blast
qed

lemma steps_evolve: "store_step\<^sup>*\<^sup>* d d' \<Longrightarrow> keeps_ledger d d'"
  by (rule ledger.rel_star [OF _ store_step_keeps])

text \<open>
  C4: a settled obligation is frozen. Once it is resolved, cancelled or orphaned, no sequence of store
  operations changes any column of its row.
\<close>

theorem settled_obligation_is_frozen:
  assumes "reachable d" and "store_step\<^sup>*\<^sup>* d d'"
    and "find_obligation d ask = Some x" and "\<not> ob_unsettled (ob_state x)"
  shows "find_obligation d' ask = Some x"
proof -
  have ok: "ledger_ok d" "ledger_ok d'" and ev: "rows_evolve (obligations d) (obligations d')"
    using reachable_ledger_ok [OF assms(1)] steps_evolve [OF assms(2)]
    by (auto simp: keeps_ledger_def evolves_def)
  have "x \<in> set (obligations d)" "ob_ask x = ask" using find_obligation_Some [OF assms(3)] by auto
  with frozen_once_settled [OF ev _ assms(4)] show ?thesis by (simp add: find_obligation_iff [OF ok(2)])
qed

theorem settled_obligation_is_frozen_witness:
  "\<exists>x. find_obligation run_db5 1 = Some x \<and> ob_state x = ObResolved"
proof -
  have "find_obligation run_db5 1 = Some (hd (obligations run_db5))" "ob_state (hd (obligations run_db5)) = ObResolved"
    by code_simp+
  then show ?thesis
    using settled_obligation_is_frozen [OF run_reachable(6) rtranclp.rtrancl_refl, of 1 "hd (obligations run_db5)"]
    by (simp add: ob_unsettled_def)
qed

text \<open>
  C5: only an acknowledged final reply resolves. A row becomes resolved in no step but an
  acknowledgement of a delivery, and then by a final reply recorded before the step, sent by the owing
  to the waiting agent in answer to that ask.
\<close>

theorem only_acknowledged_final_resolves:
  assumes "reachable d" and "store_step d d'"
    and "y \<in> set (obligations d')" and "ob_state y = ObResolved" and "y \<notin> set (obligations d)"
  shows "ack_step d d' \<and> (\<exists>m \<in> set (messages d). is_final_reply m \<and> ms_reply_to m = Some (ob_ask y)
     \<and> ms_sender m = Some (ob_owing y) \<and> ms_recipient m = ob_waiting y \<and> ob_resolving y = Some (ms_id m))"
proof -
  have ok: "ledger_ok d" by (rule reachable_ledger_ok [OF assms(1)])
  have nq: "\<not> keeps_ledger_quietly d d'"
    using ok assms(3-5) by (auto simp: keeps_ledger_quietly_def resolves_nothing_def)
  with store_step_quiet [OF assms(2)] have ack: "ack_step d d'" by simp
  with ack_step_acknowledges nq obtain m where m: "resolved_by m d d'"
    by (auto simp: acknowledges_def)
  have ok': "ledger_ok d'" and ev: "evolves d d'"
    using store_step_keeps [OF assms(2)] ok by (simp_all add: keeps_ledger_def)
  have r: "m \<in> set (messages d)" "is_final_reply m" "ms_reply_to m = Some (ob_ask y)" "ob_resolving y = Some (ms_id m)"
    using m assms(3-5) by (auto simp: resolved_by_def)
  have "reply_recorded (obligations d') m"
    using ok' ev r(1) by (auto simp: ledger_ok_def evolves_def)
  with r(3) obtain z where z: "z \<in> set (obligations d')" "ob_ask z = ob_ask y" "ms_sender m = Some (ob_owing z)"
      "ms_recipient m = ob_waiting z"
    by (auto simp: reply_recorded_def)
  then have "z = y" using ledger_ok_unique [OF ok'] assms(3) by blast
  with z r ack show ?thesis by auto
qed

theorem only_acknowledged_final_resolves_witness:
  "ack_step run_db4 run_db5 \<and> (\<exists>m \<in> set (messages run_db4). is_final_reply m \<and> ms_reply_to m = Some 1)"
proof -
  let ?y = "hd (obligations run_db5)"
  have "?y \<in> set (obligations run_db5)" "ob_state ?y = ObResolved" "?y \<notin> set (obligations run_db4)" "ob_ask ?y = 1"
    by code_simp+
  with only_acknowledged_final_resolves [OF run_reachable(5) run_store_steps(5), of ?y] show ?thesis by auto
qed

text \<open>
  C6: live names are disjoint. An active socket waiter shares its name with no other active waiter and
  with no agent of a Ready incarnation, and no incarnation is bound to it.
\<close>

theorem live_names_disjoint:
  assumes "reachable d" and "w \<in> set (agents d)" and "active_waiter_row w"
  shows "(\<forall>v \<in> set (agents d). active_waiter_row v \<and> la_public_name v = la_public_name w \<longrightarrow> v = w)
     \<and> (\<forall>i \<in> set (incarnations d). in_agent i \<noteq> la_id w)
     \<and> (\<forall>i \<in> set (incarnations d). \<forall>l \<in> set (agents d).
          in_state i = IReady \<and> la_id l = in_agent i \<longrightarrow> la_public_name l \<noteq> la_public_name w)"
proof -
  have ok: "names_ok d" by (rule reachable_names_ok [OF assms(1)])
  have sock: "socket_agent (agents d) (la_id w)" by (rule waiter_is_socket [OF assms(3,2)])
  have wn: "waiter_name (agents d) (la_public_name w)" using assms(2,3) by (auto simp: waiter_name_def)
  have "v = w" if "v \<in> set (agents d)" "active_waiter_row v" "la_public_name v = la_public_name w" for v
    using ok assms(2,3) that unfolding names_ok_def agents_ok_def by blast
  moreover have "in_agent i \<noteq> la_id w" if "i \<in> set (incarnations d)" for i
    using ok that sock by (auto simp: names_ok_def seat_ok_def)
  moreover have "la_public_name l \<noteq> la_public_name w"
    if "i \<in> set (incarnations d)" "l \<in> set (agents d)" "in_state i = IReady" "la_id l = in_agent i" for i l
    using ok that wn unfolding names_ok_def seat_ok_def by metis
  ultimately show ?thesis by blast
qed

theorem live_names_disjoint_witness:
  "in_agent (hd (incarnations run_db5)) \<noteq> la_id (hd (agents run_db5))"
proof -
  have "hd (agents run_db5) \<in> set (agents run_db5)" "active_waiter_row (hd (agents run_db5))"
      "hd (incarnations run_db5) \<in> set (incarnations run_db5)"
    by code_simp+
  with live_names_disjoint [OF run_reachable(6)] show ?thesis by blast
qed

end
